(* ===== verification/YaqtPrelude.thy ===== *)
theory YaqtPrelude imports
  Main "HOL-Library.Finite_Map" "HOL-Library.Monad_Syntax" "HOL-Library.Word" "HOL-Library.Multiset"
begin

text \<open>
  What every component of the model shares: the values TDLib's JSON objects are made of
  (\<open>QVariant\<close>, \<open>QVariantMap\<close>, \<open>QVariantList\<close>), the \<open>QList\<close> operations the code uses, with
  their out-of-range behaviour, and the re-indexing loops that keep a \<open>QHash\<close> from a row's
  key to its position.

  \<^item> A \<open>QVariantMap\<close> is a finite map from strings to variants, so that a datatype can nest it.
    \<open>mvalue\<close> is \<open>QMap::value\<close>: an absent key reads as the invalid variant.
  \<^item> Numbers are one constructor: TDLib's JSON carries 32- and 64-bit integers as numbers or
    as decimal strings, and the code reads them through \<open>toInt\<close> and \<open>toLongLong\<close>.
    \<open>toInt\<close> keeps the low 32 bits, as the conversion in Qt does.
  \<^item> \<open>QList::at\<close> out of range is an assertion failure (undefined behaviour in a release
    build): \<open>qat\<close> returns \<open>None\<close> and an operation that reads out of range returns \<open>None\<close>.
\<close>

named_theorems row_simps "how the list operations act on the keys of the rows"
named_theorems inv_intros "operations that keep the invariant of their component"

section \<open>Variants\<close>

datatype qvariant =
  QInvalid
| QBool bool
| QInt int
| QString string
| QMap "(string, qvariant) fmap"
| QList "qvariant list"

type_synonym vmap = "(string, qvariant) fmap"

definition mvalue :: "vmap \<Rightarrow> string \<Rightarrow> qvariant" where
  "mvalue m k = (case fmlookup m k of None \<Rightarrow> QInvalid | Some v \<Rightarrow> v)"

definition minsert :: "string \<Rightarrow> qvariant \<Rightarrow> vmap \<Rightarrow> vmap" where
  "minsert k v m = fmupd k v m"

definition mcontains :: "vmap \<Rightarrow> string \<Rightarrow> bool" where
  "mcontains m k \<longleftrightarrow> fmlookup m k \<noteq> None"

definition mempty :: "vmap \<Rightarrow> bool" where
  "mempty m \<longleftrightarrow> m = fmempty"

lemma mvalue_minsert [simp]: "mvalue (minsert k v m) k' = (if k = k' then v else mvalue m k')"
  by (simp add: mvalue_def minsert_def)

lemma mvalue_fmempty [simp]: "mvalue fmempty k = QInvalid"
  by (simp add: mvalue_def)

lemma mvalue_fmupd [simp]: "mvalue (fmupd k v m) k' = (if k = k' then v else mvalue m k')"
  by (simp add: mvalue_def)

lemma mvalue_fmdrop [simp]: "mvalue (fmdrop k m) k' = (if k = k' then QInvalid else mvalue m k')"
  by (simp add: mvalue_def)

lemma mcontains_minsert [simp]: "mcontains (minsert k v m) k' \<longleftrightarrow> k = k' \<or> mcontains m k'"
  by (simp add: mcontains_def minsert_def)

lemma mempty_fmempty [simp]: "mempty fmempty"
  by (simp add: mempty_def)

lemma mempty_fmupd [simp]: "\<not> mempty (fmupd k v m)"
  by (simp add: mempty_def)

lemma mempty_minsert [simp]: "\<not> mempty (minsert k v m)"
  by (simp add: minsert_def)

subsection \<open>Decimal numbers\<close>

definition digit_char :: "nat \<Rightarrow> char" where
  "digit_char d = char_of (48 + d)"

fun show_nat :: "nat \<Rightarrow> string" where
  "show_nat n = (if n < 10 then [digit_char n] else show_nat (n div 10) @ [digit_char (n mod 10)])"

declare show_nat.simps [simp del]

definition show_int :: "int \<Rightarrow> string" where
  "show_int i = (if i < 0 then CHR ''-'' # show_nat (nat (- i)) else show_nat (nat i))"

definition digit_of :: "char \<Rightarrow> nat option" where
  "digit_of c = (let n = (of_char c :: nat) in if 48 \<le> n \<and> n \<le> 57 then Some (n - 48) else None)"

fun parse_digits :: "nat \<Rightarrow> string \<Rightarrow> nat option" where
  "parse_digits acc [] = Some acc"
| "parse_digits acc (c # cs) =
     (case digit_of c of None \<Rightarrow> None | Some d \<Rightarrow> parse_digits (10 * acc + d) cs)"

definition is_space :: "char \<Rightarrow> bool" where
  "is_space c \<longleftrightarrow> (of_char c :: nat) \<in> {9, 10, 11, 12, 13, 32}"

definition trimmed :: "string \<Rightarrow> string" where
  "trimmed s = rev (dropWhile is_space (rev (dropWhile is_space s)))"

definition parse_nat :: "string \<Rightarrow> nat option" where
  "parse_nat s = (if s = [] then None else parse_digits 0 s)"

definition in_int64 :: "int \<Rightarrow> bool" where
  "in_int64 i \<longleftrightarrow> - (2 ^ 63) \<le> i \<and> i < 2 ^ 63"

definition parse_int :: "string \<Rightarrow> int option" where
  "parse_int s =
     (let i = (case trimmed s of
                 [] \<Rightarrow> None
               | c # cs \<Rightarrow>
                   if c = CHR ''-'' then map_option (\<lambda>n. - int n) (parse_nat cs)
                   else if c = CHR ''+'' then map_option int (parse_nat cs)
                   else map_option int (parse_nat (c # cs)))
      in case i of None \<Rightarrow> None | Some v \<Rightarrow> if in_int64 v then Some v else None)"

definition string_toLongLong :: "string \<Rightarrow> int" where
  "string_toLongLong s = (case parse_int s of None \<Rightarrow> 0 | Some i \<Rightarrow> i)"

subsection \<open>Conversions of a variant\<close>

fun toLongLong :: "qvariant \<Rightarrow> int" where
  "toLongLong (QBool b) = (if b then 1 else 0)"
| "toLongLong (QInt i) = i"
| "toLongLong (QString s) = string_toLongLong s"
| "toLongLong _ = 0"

definition toInt :: "qvariant \<Rightarrow> int" where
  "toInt v = signed_take_bit 31 (toLongLong v)"

definition char_lower :: "char \<Rightarrow> char" where
  "char_lower c = (let n = (of_char c :: nat) in if 65 \<le> n \<and> n \<le> 90 then char_of (n + 32) else c)"

fun toBool :: "qvariant \<Rightarrow> bool" where
  "toBool (QBool b) = b"
| "toBool (QInt i) = (i \<noteq> 0)"
| "toBool (QString s) = (let l = map char_lower s in \<not> (l = '''' \<or> l = ''0'' \<or> l = ''false''))"
| "toBool _ = False"

fun toString :: "qvariant \<Rightarrow> string" where
  "toString (QString s) = s"
| "toString (QBool b) = (if b then ''true'' else ''false'')"
| "toString (QInt i) = show_int i"
| "toString _ = ''''"

fun toMap :: "qvariant \<Rightarrow> vmap" where
  "toMap (QMap m) = m"
| "toMap _ = fmempty"

fun toList :: "qvariant \<Rightarrow> qvariant list" where
  "toList (QList vs) = vs"
| "toList _ = []"

lemma toInt_small [simp]:
  "- (2 ^ 31) \<le> i \<Longrightarrow> i < 2 ^ 31 \<Longrightarrow> toInt (QInt i) = i"
  by (simp add: toInt_def signed_take_bit_int_eq_self)

lemma toInt_range: "- (2 ^ 31) \<le> toInt v \<and> toInt v < 2 ^ 31"
  unfolding toInt_def using signed_take_bit_int_greater_eq_minus_exp [of 31] signed_take_bit_int_less_exp [of 31]
  by simp

subsection \<open>Printing a number and reading it back\<close>

lemma digit_of_digit_char [simp]: "d < 10 \<Longrightarrow> digit_of (digit_char d) = Some d"
  by (simp add: digit_of_def digit_char_def of_char_of take_bit_nat_eq_self)

lemma digit_char_not_space [simp]: "d < 10 \<Longrightarrow> \<not> is_space (digit_char d)"
  by (simp add: is_space_def digit_char_def of_char_of take_bit_nat_eq_self)

lemma digit_char_neq:
  "d < 10 \<Longrightarrow> digit_char d \<noteq> CHR ''-''" "d < 10 \<Longrightarrow> digit_char d \<noteq> CHR ''+''"
  by (auto simp: digit_char_def of_char_of take_bit_nat_eq_self
      dest!: arg_cong [where f = "of_char :: char \<Rightarrow> nat"])

lemma parse_digits_append:
  "parse_digits acc (xs @ ys) = Option.bind (parse_digits acc xs) (\<lambda>a. parse_digits a ys)"
  by (induction xs arbitrary: acc) (auto split: option.splits)

lemma parse_digits_show_nat: "parse_digits 0 (show_nat n) = Some n"
proof (induction n rule: show_nat.induct)
  case (1 n)
  then show ?case
    by (cases "n < 10") (simp_all add: show_nat.simps [of n] parse_digits_append)
qed

lemma show_nat_digits: "\<forall>c \<in> set (show_nat n). \<exists>d < 10. c = digit_char d"
proof (induction n rule: show_nat.induct)
  case (1 n)
  moreover have "n mod 10 < 10" by simp
  ultimately show ?case
    by (cases "n < 10") (auto simp: show_nat.simps [of n] simp del: mod_less_divisor)
qed

lemma show_nat_not_Nil [simp]: "show_nat n \<noteq> []"
  by (subst show_nat.simps) simp

lemma dropWhile_none: "\<forall>x \<in> set xs. \<not> P x \<Longrightarrow> dropWhile P xs = xs"
  by (cases xs) auto

lemma trimmed_no_space: "\<forall>c \<in> set s. \<not> is_space c \<Longrightarrow> trimmed s = s"
  by (simp add: trimmed_def dropWhile_none)

lemma minus_not_space [simp]: "\<not> is_space CHR ''-''"
  by (simp add: is_space_def)

lemma trimmed_show_int: "trimmed (show_int i) = show_int i"
proof (rule trimmed_no_space, rule ballI)
  fix c assume "c \<in> set (show_int i)"
  then have "c = CHR ''-'' \<or> (\<exists>d < 10. c = digit_char d)"
    using show_nat_digits [of "nat (- i)"] show_nat_digits [of "nat i"]
    by (auto simp: show_int_def split: if_splits)
  then show "\<not> is_space c" by auto
qed

lemma parse_int_show_int: "in_int64 i \<Longrightarrow> parse_int (show_int i) = Some i"
proof -
  assume r: "in_int64 i"
  show ?thesis
  proof (cases "i < 0")
    case True
    with r show ?thesis
      by (simp add: parse_int_def trimmed_show_int)
         (simp add: show_int_def parse_nat_def parse_digits_show_nat)
  next
    case False
    obtain c cs where c: "show_nat (nat i) = c # cs"
      by (cases "show_nat (nat i)") auto
    with show_nat_digits [of "nat i"] have "c \<noteq> CHR ''-''" "c \<noteq> CHR ''+''"
      using digit_char_neq by auto
    moreover have "parse_nat (c # cs) = Some (nat i)"
      using parse_digits_show_nat [of "nat i"] by (simp add: parse_nat_def c)
    ultimately show ?thesis
      using r False by (simp add: parse_int_def trimmed_show_int) (simp add: show_int_def c)
  qed
qed

lemma toLongLong_show_int [simp]: "in_int64 i \<Longrightarrow> toLongLong (QString (show_int i)) = i"
  by (simp add: string_toLongLong_def parse_int_show_int)

section \<open>Lists of rows\<close>

definition qat :: "'a list \<Rightarrow> nat \<Rightarrow> 'a option" where
  "qat xs i = (if i < length xs then Some (xs ! i) else None)"

definition insert_at :: "nat \<Rightarrow> 'a \<Rightarrow> 'a list \<Rightarrow> 'a list" where
  "insert_at i x xs = take i xs @ x # drop i xs"

definition remove_at :: "nat \<Rightarrow> 'a list \<Rightarrow> 'a list" where
  "remove_at i xs = take i xs @ drop (Suc i) xs"

text \<open>\<open>remove_slice a b\<close> erases the rows \<open>a..b\<close>, both included.\<close>

definition remove_slice :: "nat \<Rightarrow> nat \<Rightarrow> 'a list \<Rightarrow> 'a list" where
  "remove_slice a b xs = take a xs @ drop (Suc b) xs"

text \<open>\<open>QList::move(i, j)\<close>: take the element at \<open>i\<close> out and insert it so that it ends at \<open>j\<close>.\<close>

definition qmove :: "nat \<Rightarrow> nat \<Rightarrow> 'a list \<Rightarrow> 'a list" where
  "qmove i j xs = insert_at j (xs ! i) (remove_at i xs)"

lemma qat_Some [simp]: "qat xs i = Some x \<longleftrightarrow> i < length xs \<and> xs ! i = x"
  by (auto simp: qat_def)

lemma qat_less [simp]: "i < length xs \<Longrightarrow> qat xs i = Some (xs ! i)"
  by (simp add: qat_def)

lemma map_insert_at [row_simps]: "map f (insert_at i x xs) = insert_at i (f x) (map f xs)"
  by (simp add: insert_at_def take_map drop_map)

lemma map_remove_at [row_simps]: "map f (remove_at i xs) = remove_at i (map f xs)"
  by (simp add: remove_at_def take_map drop_map)

lemma map_remove_slice [row_simps]: "map f (remove_slice a b xs) = remove_slice a b (map f xs)"
  by (simp add: remove_slice_def take_map drop_map)

lemma map_qmove [row_simps]: "i < length xs \<Longrightarrow> map f (qmove i j xs) = qmove i j (map f xs)"
  by (simp add: qmove_def row_simps)

lemma length_insert_at [simp]: "length (insert_at i x xs) = Suc (length xs)"
  by (simp add: insert_at_def)

lemma length_remove_at [simp]: "i < length xs \<Longrightarrow> length (remove_at i xs) = length xs - 1"
  by (simp add: remove_at_def)

lemma length_qmove [simp]: "i < length xs \<Longrightarrow> length (qmove i j xs) = length xs"
  by (simp add: qmove_def)

lemma length_remove_slice [simp]:
  "a \<le> b \<Longrightarrow> b < length xs \<Longrightarrow> length (remove_slice a b xs) = length xs - (Suc b - a)"
  by (simp add: remove_slice_def)

lemma nth_insert_at:
  "i \<le> length xs \<Longrightarrow> insert_at i x xs ! n = (if n < i then xs ! n else if n = i then x else xs ! (n - 1))"
  by (auto simp: insert_at_def nth_append nth_Cons' min_def)

lemma nth_remove_at:
  "i < length xs \<Longrightarrow> n < length xs - 1 \<Longrightarrow>
     remove_at i xs ! n = (if n < i then xs ! n else xs ! Suc n)"
  by (auto simp: remove_at_def nth_append min_def)

lemma nth_remove_slice:
  "a \<le> b \<Longrightarrow> b < length xs \<Longrightarrow> n < length xs - (Suc b - a) \<Longrightarrow>
     remove_slice a b xs ! n = (if n < a then xs ! n else xs ! (n + (Suc b - a)))"
  by (auto simp: remove_slice_def nth_append min_def intro!: arg_cong [where f = "nth xs"])

lemma map_update_same: "f x = f (xs ! i) \<Longrightarrow> map f (xs[i := x]) = map f xs"
  by (metis length_map list_update_beyond list_update_id map_update not_le nth_map)

lemma set_insert_at [simp]: "set (insert_at i x xs) = insert x (set xs)"
  by (auto simp: insert_at_def dest: in_set_takeD in_set_dropD)
     (metis Un_iff append_take_drop_id set_append)

lemma mset_insert_at: "mset (insert_at i x xs) = add_mset x (mset xs)"
proof -
  have "mset (take i xs) + mset (drop i xs) = mset xs"
    by (metis append_take_drop_id mset_append)
  then show ?thesis by (simp add: insert_at_def)
qed

lemma slice_split: "a \<le> b \<Longrightarrow> take a xs @ take (Suc b - a) (drop a xs) @ drop (Suc b) xs = xs"
proof -
  assume "a \<le> b"
  then have "drop (Suc b) xs = drop (Suc b - a) (drop a xs)" by simp
  then show ?thesis by (simp only: append_take_drop_id)
qed

lemma distinct_remove_slice: "distinct xs \<Longrightarrow> a \<le> b \<Longrightarrow> distinct (remove_slice a b xs)"
proof -
  assume "distinct xs" "a \<le> b"
  then have "distinct (take a xs @ take (Suc b - a) (drop a xs) @ drop (Suc b) xs)"
    by (simp only: slice_split)
  then show ?thesis by (auto simp: remove_slice_def)
qed

text \<open>\<open>for (int i = n - 1; i >= 0; i--) if (P(xs.at(i))) return i; return -1;\<close>\<close>

fun find_last :: "('a \<Rightarrow> bool) \<Rightarrow> 'a list \<Rightarrow> nat \<Rightarrow> int" where
  "find_last P xs 0 = -1"
| "find_last P xs (Suc i) = (if P (xs ! i) then int i else find_last P xs i)"

lemma find_last_none: "find_last P xs n < 0 \<longleftrightarrow> (\<forall>i < n. \<not> P (xs ! i))"
  by (induction n) (auto simp: less_Suc_eq)

lemma find_last_found:
  "0 \<le> find_last P xs n \<Longrightarrow>
     nat (find_last P xs n) < n \<and> P (xs ! nat (find_last P xs n)) \<and>
     (\<forall>i. nat (find_last P xs n) < i \<and> i < n \<longrightarrow> \<not> P (xs ! i))"
  by (induction n) (auto simp: less_Suc_eq)

lemma find_last_range: "-1 \<le> find_last P xs n \<and> find_last P xs n < int n"
  by (induction n) auto

lemma remove_at_split: "i < length xs \<Longrightarrow> add_mset (xs ! i) (mset (remove_at i xs)) = mset xs"
  unfolding remove_at_def
  by (metis id_take_nth_drop mset.simps(2) mset_append union_mset_add_mset_right)

lemma mset_qmove: "i < length xs \<Longrightarrow> mset (qmove i j xs) = mset xs"
  by (simp add: qmove_def mset_insert_at remove_at_split)

lemma set_qmove [simp]: "i < length xs \<Longrightarrow> set (qmove i j xs) = set xs"
  by (metis mset_qmove mset_eq_setD)

lemma distinct_qmove [simp]: "i < length xs \<Longrightarrow> distinct (qmove i j xs) \<longleftrightarrow> distinct xs"
  by (metis mset_qmove mset_eq_imp_distinct_iff)

lemma qmove_outside:
  "i < length xs \<Longrightarrow> j < length xs \<Longrightarrow> n < length xs \<Longrightarrow> n < min i j \<or> max i j < n \<Longrightarrow> qmove i j xs ! n = xs ! n"
  by (auto simp: qmove_def nth_insert_at nth_remove_at)

section \<open>std::sort with a comparator\<close>

text \<open>
  \<open>std::sort\<close> orders by any strict weak order it is given and fixes no order of equivalent
  elements; the model inserts from the right, which puts an equivalent element before the
  ones already placed. With a comparator that is no strict weak order on the elements the
  call is undefined behaviour: the lemmas then need their hypotheses on the elements.
\<close>

fun insort_by :: "('a \<Rightarrow> 'a \<Rightarrow> bool) \<Rightarrow> 'a \<Rightarrow> 'a list \<Rightarrow> 'a list" where
  "insort_by lt x [] = [x]"
| "insort_by lt x (y # ys) = (if lt y x then y # insort_by lt x ys else x # y # ys)"

definition std_sort :: "('a \<Rightarrow> 'a \<Rightarrow> bool) \<Rightarrow> 'a list \<Rightarrow> 'a list" where
  "std_sort lt xs = foldr (insort_by lt) xs []"

lemma mset_insort_by [simp]: "mset (insort_by lt x xs) = add_mset x (mset xs)"
  by (induction xs) auto

lemma mset_std_sort [simp]: "mset (std_sort lt xs) = mset xs"
  unfolding std_sort_def by (induction xs) auto

lemma set_std_sort [simp]: "set (std_sort lt xs) = set xs"
  by (metis mset_std_sort set_mset_mset)

lemma set_insort_by [simp]: "set (insort_by lt x xs) = insert x (set xs)"
  by (metis mset_insort_by set_mset_add_mset_insert set_mset_mset)

lemma length_std_sort [simp]: "length (std_sort lt xs) = length xs"
  by (metis mset_std_sort size_mset)

lemma std_sort_Nil [simp]: "std_sort lt [] = []"
  by (simp add: std_sort_def)

lemma std_sort_Nil_iff [simp]: "std_sort lt xs = [] \<longleftrightarrow> xs = []"
  by (metis length_0_conv length_std_sort)

lemma distinct_map_std_sort [simp]: "distinct (map f (std_sort lt xs)) \<longleftrightarrow> distinct (map f xs)"
  by (metis mset_eq_imp_distinct_iff mset_map mset_std_sort)

definition strict_on :: "'a set \<Rightarrow> ('a \<Rightarrow> 'a \<Rightarrow> bool) \<Rightarrow> bool" where
  "strict_on A lt \<longleftrightarrow>
     (\<forall>x \<in> A. \<forall>y \<in> A. lt x y \<longrightarrow> \<not> lt y x) \<and>
     (\<forall>x \<in> A. \<forall>y \<in> A. \<forall>z \<in> A. \<not> lt y x \<longrightarrow> \<not> lt z y \<longrightarrow> \<not> lt z x)"

lemma sorted_insort_by:
  "strict_on A lt \<Longrightarrow> insert x (set xs) \<subseteq> A \<Longrightarrow> sorted_wrt (\<lambda>a b. \<not> lt b a) xs \<Longrightarrow>
     sorted_wrt (\<lambda>a b. \<not> lt b a) (insort_by lt x xs)"
proof (induction xs)
  case (Cons y ys)
  have asym: "lt y x \<Longrightarrow> \<not> lt x y"
    using Cons.prems(1,2) by (simp add: strict_on_def)
  have "\<not> lt z x" if "\<not> lt y x" "z \<in> set ys" for z
  proof -
    have "\<not> lt z y" using that Cons.prems(3) by simp
    moreover have "x \<in> A" "y \<in> A" "z \<in> A" using that Cons.prems(2) by auto
    ultimately show ?thesis using that Cons.prems(1) unfolding strict_on_def by blast
  qed
  with Cons asym show ?case by auto
qed simp

lemma sorted_std_sort:
  "strict_on A lt \<Longrightarrow> set xs \<subseteq> A \<Longrightarrow> sorted_wrt (\<lambda>a b. \<not> lt b a) (std_sort lt xs)"
proof (induction xs)
  case (Cons x xs)
  have "set (foldr (insort_by lt) xs []) = set xs" using set_std_sort [of lt xs] by (simp add: std_sort_def)
  with Cons show ?case by (auto simp: std_sort_def intro!: sorted_insort_by [of A])
qed simp

lemma insort_by_same: "(\<And>y. y \<in> set ys \<Longrightarrow> lt y x = lt' y x) \<Longrightarrow> insort_by lt x ys = insort_by lt' x ys"
  by (induction ys) auto

text \<open>A sort never compares an element with itself when the elements are distinct.\<close>

lemma std_sort_same:
  "(\<And>x y. x \<in> set xs \<Longrightarrow> y \<in> set xs \<Longrightarrow> f x \<noteq> f y \<Longrightarrow> lt x y = lt' x y) \<Longrightarrow> distinct (map f xs) \<Longrightarrow>
     std_sort lt xs = std_sort lt' xs"
proof (induction xs)
  case (Cons x xs)
  have "std_sort lt xs = std_sort lt' xs" using Cons by simp
  moreover have "insort_by lt x (std_sort lt' xs) = insort_by lt' x (std_sort lt' xs)"
  proof (rule insort_by_same)
    fix y assume "y \<in> set (std_sort lt' xs)"
    then have "y \<in> set xs" by simp
    moreover from this Cons.prems(2) have "f y \<noteq> f x" by (metis distinct.simps(2) image_eqI list.set_map list.simps(9))
    ultimately show "lt y x = lt' y x" using Cons.prems(1) by simp
  qed
  ultimately show ?case by (simp add: std_sort_def)
qed simp

lemma strict_on_converse: "strict_on A lt \<Longrightarrow> strict_on A (\<lambda>a b. lt b a)"
  unfolding strict_on_def by blast

end
