(* ===== verification/UtilitiesModel.thy ===== *)
theory UtilitiesModel imports YaqtPrelude
begin

text \<open>
  The static helpers of \<open>src/utilities.cpp\<close> the models call, and \<open>MessageSender\<close>
  (\<open>src/tdlib/messagesender.cpp\<close>): classification of message contents, the search
  filters, the choice of a photo size, the album's caption message, the text entities made
  from regular-expression matches (the matches themselves, computed by \<open>QRegularExpression\<close>,
  are an argument), and the chat actions. Translated strings are out of scope.
\<close>

section \<open>Message senders\<close>

record message_sender =
  isChat :: bool
  sender_ident :: int

definition MessageSender :: "vmap \<Rightarrow> message_sender" where
  "MessageSender sender =
     (let c = (mvalue sender ''@type'' = QString ''messageSenderChat'')
      in \<lparr>isChat = c, sender_ident = toLongLong (mvalue sender (if c then ''chat_id'' else ''user_id''))\<rparr>)"

definition sender_isUser :: "message_sender \<Rightarrow> bool" where
  "sender_isUser s \<longleftrightarrow> \<not> isChat s"

definition sender_isUser_id :: "message_sender \<Rightarrow> int \<Rightarrow> bool" where
  "sender_isUser_id s userId \<longleftrightarrow> sender_isUser s \<and> sender_ident s = userId"

definition sender_chatId :: "message_sender \<Rightarrow> int" where
  "sender_chatId s = (if isChat s then sender_ident s else 0)"

definition sender_userId :: "message_sender \<Rightarrow> int" where
  "sender_userId s = (if sender_isUser s then sender_ident s else 0)"

section \<open>Message contents\<close>

definition nonServiceContentTypes :: "string list" where
  "nonServiceContentTypes =
    [''messageText'', ''messageAnimatedEmoji'', ''messageAnimation'', ''messageAudio'',
     ''messageDocument'', ''messageGame'', ''messageLocation'', ''messagePhoto'',
     ''messagePoll'', ''messageSticker'', ''messageVenue'', ''messageVideo'',
     ''messageVideoNote'', ''messageVoiceNote'', ''messageDice'', ''messageStakeDice'',
     ''messageCall'', ''messageGroupCall'', ''messageContact'']"

definition messageContentIsService :: "string \<Rightarrow> bool" where
  "messageContentIsService contentType \<longleftrightarrow> contentType \<notin> set nonServiceContentTypes"

definition getMessageMinithumbnail :: "vmap \<Rightarrow> qvariant" where
  "getMessageMinithumbnail content =
     (let type = toString (mvalue content ''@type'') in
      if type = ''messagePhoto'' then mvalue (toMap (mvalue content ''photo'')) ''minithumbnail''
      else if type = ''messageVideo'' then
        (let cover = toMap (mvalue content ''cover'')
         in if mcontains cover ''minithumbnail'' then mvalue cover ''minithumbnail''
            else mvalue (toMap (mvalue content ''video'')) ''minithumbnail'')
      else if type = ''messageAnimation'' then mvalue (toMap (mvalue content ''animation'')) ''minithumbnail''
      else if type = ''messageVideoNote'' then mvalue (toMap (mvalue content ''video_note'')) ''minithumbnail''
      else if type = ''messageDocument'' then mvalue (toMap (mvalue content ''document'')) ''minithumbnail''
      else if type = ''messageAudio'' then mvalue (toMap (mvalue content ''audio'')) ''album_cover_minithumbnail''
      else QInvalid)"

definition getMessageContentFormattedText :: "vmap \<Rightarrow> vmap" where
  "getMessageContentFormattedText content =
     (if toString (mvalue content ''@type'') = ''messageText'' then toMap (mvalue content ''text'')
      else toMap (mvalue content ''caption''))"

text \<open>
  The loop of \<open>getMainAlbumMessage\<close>, with \<open>result\<close> as accumulator: both early returns give
  the empty map.
\<close>

fun getMainAlbumMessage_loop :: "bool \<Rightarrow> vmap \<Rightarrow> qvariant list \<Rightarrow> vmap" where
  "getMainAlbumMessage_loop ignore result [] = result"
| "getMainAlbumMessage_loop ignore result (m # ms) =
     (let content = toMap (mvalue (toMap m) ''content''); type = toString (mvalue content ''@type'') in
      if ignore \<and> (type = ''messageDocument'' \<or> type = ''messageAudio'') then fmempty
      else if toString (mvalue (getMessageContentFormattedText content) ''text'') \<noteq> '''' then
        (if \<not> mempty result then fmempty else getMainAlbumMessage_loop ignore (toMap m) ms)
      else getMainAlbumMessage_loop ignore result ms)"

definition getMainAlbumMessage :: "qvariant list \<Rightarrow> bool \<Rightarrow> vmap" where
  "getMainAlbumMessage messages ignoreDocumentsAudios =
     getMainAlbumMessage_loop ignoreDocumentsAudios fmempty messages"

section \<open>Search filters\<close>

datatype search_filter =
  FilterEmpty | FilterPhotoAndVideo | FilterAnimation | FilterAudio | FilterChatPhoto
| FilterDocument | FilterFailedToSend | FilterMention | FilterPhoto | FilterPinned
| FilterUnreadMention | FilterUnreadReaction | FilterUrl | FilterVideo | FilterVideoNote
| FilterVoiceAndVideoNote | FilterVoiceNote

fun messageContentTypeMatchesSearchFilter :: "string \<Rightarrow> search_filter \<Rightarrow> bool" where
  "messageContentTypeMatchesSearchFilter t FilterEmpty = True"
| "messageContentTypeMatchesSearchFilter t FilterAnimation = (t = ''messageAnimation'')"
| "messageContentTypeMatchesSearchFilter t FilterAudio = (t = ''messageAudio'')"
| "messageContentTypeMatchesSearchFilter t FilterChatPhoto = (t = ''messageChatChangePhoto'')"
| "messageContentTypeMatchesSearchFilter t FilterDocument = (t = ''messageDocument'')"
| "messageContentTypeMatchesSearchFilter t FilterPhoto = (t = ''messagePhoto'')"
| "messageContentTypeMatchesSearchFilter t FilterPhotoAndVideo = (t = ''messagePhoto'' \<or> t = ''messageVideo'')"
| "messageContentTypeMatchesSearchFilter t FilterVideo = (t = ''messageVideo'')"
| "messageContentTypeMatchesSearchFilter t FilterVideoNote = (t = ''messageVideoNote'')"
| "messageContentTypeMatchesSearchFilter t FilterVoiceAndVideoNote =
     (t = ''messageVoiceNote'' \<or> t = ''messageVideoNote'')"
| "messageContentTypeMatchesSearchFilter t FilterVoiceNote = (t = ''messageVoiceNote'')"
| "messageContentTypeMatchesSearchFilter t _ = True"

fun messageMatchesSearchFilter :: "vmap \<Rightarrow> search_filter \<Rightarrow> bool" where
  "messageMatchesSearchFilter m FilterFailedToSend =
     (toString (mvalue (toMap (mvalue m ''sending_state'')) ''@type'') = ''messageSendingStateFailed'')"
| "messageMatchesSearchFilter m FilterMention = False"
| "messageMatchesSearchFilter m FilterPinned = toBool (mvalue m ''is_pinned'')"
| "messageMatchesSearchFilter m FilterUnreadMention = toBool (mvalue m ''contains_unread_mention'')"
| "messageMatchesSearchFilter m FilterUnreadReaction = (toList (mvalue m ''unread_reactions'') \<noteq> [])"
| "messageMatchesSearchFilter m FilterUrl =
     (\<not> mempty (toMap (mvalue (toMap (mvalue m ''content'')) ''link_preview'')))"
| "messageMatchesSearchFilter m f =
     messageContentTypeMatchesSearchFilter (toString (mvalue (toMap (mvalue m ''content'')) ''@type'')) f"

section \<open>Photo sizes\<close>

definition size_width :: "vmap \<Rightarrow> int" where
  "size_width s = toInt (mvalue s ''width'')"

text \<open>\<open>photoSizes.value(0).toMap()\<close>: out of range reads as the empty map.\<close>

definition first_size :: "qvariant list \<Rightarrow> vmap" where
  "first_size sizes = (case sizes of [] \<Rightarrow> fmempty | v # _ \<Rightarrow> toMap v)"

fun findPhotoSize_loop :: "int \<Rightarrow> vmap \<Rightarrow> qvariant list \<Rightarrow> vmap" where
  "findPhotoSize_loop width result [] = result"
| "findPhotoSize_loop width result (v # vs) =
     (let result = toMap v in if size_width result \<ge> width then result
      else findPhotoSize_loop width result vs)"

definition findPhotoSize :: "qvariant list \<Rightarrow> int \<Rightarrow> vmap" where
  "findPhotoSize sizes width = findPhotoSize_loop width (first_size sizes) sizes"

definition bigger_size :: "qvariant \<Rightarrow> vmap \<Rightarrow> vmap" where
  "bigger_size v result = (let size = toMap v in if size_width size > size_width result then size else result)"

definition findBiggestPhotoSize :: "qvariant list \<Rightarrow> vmap" where
  "findBiggestPhotoSize sizes = fold bigger_size sizes (first_size sizes)"

definition smaller_size :: "qvariant \<Rightarrow> vmap \<Rightarrow> vmap" where
  "smaller_size v result = (let size = toMap v in if size_width size < size_width result then size else result)"

definition findSmallestPhotoSize :: "qvariant list \<Rightarrow> vmap" where
  "findSmallestPhotoSize sizes = fold smaller_size sizes (first_size sizes)"

lemma fold_bigger_mem: "fold bigger_size vs r \<in> insert r (toMap ` set vs)"
  by (induction vs arbitrary: r) (auto simp: bigger_size_def Let_def)

lemma fold_bigger_ge:
  "v \<in> insert r (toMap ` set vs) \<Longrightarrow> size_width v \<le> size_width (fold bigger_size vs r)"
proof (induction vs arbitrary: r v)
  case (Cons u vs)
  have "size_width w \<le> size_width (bigger_size u r)" if "w \<in> {r, toMap u}" for w
    using that by (auto simp: bigger_size_def Let_def)
  moreover have "size_width (bigger_size u r) \<le> size_width (fold bigger_size vs (bigger_size u r))"
    by (rule Cons.IH) simp
  ultimately have "v \<in> {r, toMap u} \<Longrightarrow> ?case" by force
  moreover have "v \<in> toMap ` set vs \<Longrightarrow> ?case" using Cons.IH [of v "bigger_size u r"] by simp
  ultimately show ?case using Cons.prems by auto
qed simp

lemma fold_smaller_mem: "fold smaller_size vs r \<in> insert r (toMap ` set vs)"
  by (induction vs arbitrary: r) (auto simp: smaller_size_def Let_def)

lemma fold_smaller_le:
  "v \<in> insert r (toMap ` set vs) \<Longrightarrow> size_width (fold smaller_size vs r) \<le> size_width v"
proof (induction vs arbitrary: r v)
  case (Cons u vs)
  have "size_width (smaller_size u r) \<le> size_width w" if "w \<in> {r, toMap u}" for w
    using that by (auto simp: smaller_size_def Let_def)
  moreover have "size_width (fold smaller_size vs (smaller_size u r)) \<le> size_width (smaller_size u r)"
    by (rule Cons.IH) simp
  ultimately have "v \<in> {r, toMap u} \<Longrightarrow> ?case" by force
  moreover have "v \<in> toMap ` set vs \<Longrightarrow> ?case" using Cons.IH [of v "smaller_size u r"] by simp
  ultimately show ?case using Cons.prems by auto
qed simp

lemma first_size_mem: "sizes \<noteq> [] \<Longrightarrow> first_size sizes \<in> toMap ` set sizes"
  by (cases sizes) (auto simp: first_size_def)

lemma findBiggestPhotoSize_max:
  "sizes \<noteq> [] \<Longrightarrow> findBiggestPhotoSize sizes \<in> toMap ` set sizes \<and>
     (\<forall>v \<in> set sizes. size_width (toMap v) \<le> size_width (findBiggestPhotoSize sizes))"
  using fold_bigger_mem [of sizes "first_size sizes"] fold_bigger_ge first_size_mem
  by (auto simp: findBiggestPhotoSize_def)

lemma findSmallestPhotoSize_min:
  "sizes \<noteq> [] \<Longrightarrow> findSmallestPhotoSize sizes \<in> toMap ` set sizes \<and>
     (\<forall>v \<in> set sizes. size_width (findSmallestPhotoSize sizes) \<le> size_width (toMap v))"
  using fold_smaller_mem [of sizes "first_size sizes"] fold_smaller_le first_size_mem
  by (auto simp: findSmallestPhotoSize_def)

lemma findPhotoSize_loop_spec:
  "findPhotoSize_loop width r vs =
     (case find (\<lambda>v. size_width (toMap v) \<ge> width) vs of
        Some v \<Rightarrow> toMap v | None \<Rightarrow> (if vs = [] then r else toMap (last vs)))"
  by (induction vs arbitrary: r) (auto simp: Let_def split: option.splits)

section \<open>Text entities from the matches of a regular expression\<close>

record replacement =
  startIndex :: nat
  match_length :: nat
  entity_type :: vmap
  match_text :: string

text \<open>
  \<open>QString::replace(position, n, after)\<close>: out of range changes nothing, \<open>n\<close> is clipped.
\<close>

definition qreplace :: "int \<Rightarrow> nat \<Rightarrow> string \<Rightarrow> string \<Rightarrow> string" where
  "qreplace pos n after s =
     (if pos < 0 \<or> pos > int (length s) then s
      else take (nat pos) s @ after @ drop (nat pos + n) s)"

fun formattedTextEntities_loop :: "int \<Rightarrow> replacement list \<Rightarrow> string \<Rightarrow> (int \<times> nat \<times> vmap) list \<times> string" where
  "formattedTextEntities_loop offsetCorrection [] text = ([], text)"
| "formattedTextEntities_loop offsetCorrection (r # rs) text =
     (let offset = int (startIndex r) - offsetCorrection;
          text' = qreplace offset (match_length r) (match_text r) text;
          (entities, text'') = formattedTextEntities_loop
             (offsetCorrection + (int (match_length r) - int (length (match_text r)))) rs text'
      in ((offset, length (match_text r), entity_type r) # entities, text''))"

definition formattedTextEntitiesFromReplacements ::
    "replacement list \<Rightarrow> string \<Rightarrow> (int \<times> nat \<times> vmap) list \<times> string" where
  "formattedTextEntitiesFromReplacements replacements text =
     (if replacements = [] then ([], text)
      else formattedTextEntities_loop 0 (sort_key startIndex replacements) text)"

text \<open>
  The specification: the pieces of the original between the matches, with each match's text
  in its place. \<open>separate pos rs n\<close> says that the matches do not overlap, start at \<open>pos\<close> or
  later and end within \<open>n\<close> characters.
\<close>

fun splice_matches :: "nat \<Rightarrow> replacement list \<Rightarrow> string \<Rightarrow> string" where
  "splice_matches pos [] s = drop pos s"
| "splice_matches pos (r # rs) s =
     take (startIndex r - pos) (drop pos s) @ match_text r @ splice_matches (startIndex r + match_length r) rs s"

fun separate :: "nat \<Rightarrow> replacement list \<Rightarrow> nat \<Rightarrow> bool" where
  "separate pos [] n \<longleftrightarrow> pos \<le> n"
| "separate pos (r # rs) n \<longleftrightarrow> pos \<le> startIndex r \<and> separate (startIndex r + match_length r) rs n"

lemma separate_le: "separate pos rs n \<Longrightarrow> pos \<le> n"
  by (induction rs arbitrary: pos) force+

lemma qreplace_append: "qreplace (int (length xs)) n after (xs @ ys) = xs @ after @ drop n ys"
  by (simp add: qreplace_def)

lemma take_drop_mid: "take (length m) (drop (length xs) (xs @ m @ ys)) = m"
  by simp

text \<open>An entity marks, in the final text, exactly the text of one of the matches.\<close>

definition marks_match :: "string \<Rightarrow> replacement list \<Rightarrow> int \<times> nat \<times> vmap \<Rightarrow> bool" where
  "marks_match text rs e =
     (case e of (offset, n, ty) \<Rightarrow> 0 \<le> offset \<and>
        (\<exists>r \<in> set rs. ty = entity_type r \<and> n = length (match_text r) \<and>
           take n (drop (nat offset) text) = match_text r))"

lemma marks_match_Cons: "marks_match text rs e \<Longrightarrow> marks_match text (r # rs) e"
  by (auto simp: marks_match_def split: prod.splits)

lemma formattedTextEntities_loop_spec:
  assumes "separate pos rs (length s)" and "int (length pre) + oc = int pos"
  shows "\<exists>es. formattedTextEntities_loop oc rs (pre @ drop pos s) = (es, pre @ splice_matches pos rs s) \<and>
    list_all (marks_match (pre @ splice_matches pos rs s) rs) es \<and>
    map (snd \<circ> snd) es = map entity_type rs"
  using assms
proof (induction rs arbitrary: pos oc pre)
  case Nil
  then show ?case by simp
next
  case (Cons r rs)
  let ?gap = "take (startIndex r - pos) (drop pos s)"
  let ?next = "startIndex r + match_length r"
  let ?pre = "pre @ ?gap @ match_text r"
  let ?offset = "int (startIndex r) - oc"
  let ?oc = "oc + (int (match_length r) - int (length (match_text r)))"
  from Cons.prems have le: "pos \<le> startIndex r" and sep: "separate ?next rs (length s)" by auto
  from separate_le [OF sep] have n: "?next \<le> length s" .
  with le have gap: "length ?gap = startIndex r - pos" by simp
  have offset: "?offset = int (length (pre @ ?gap))" using Cons.prems(2) le gap by simp
  have "drop pos s = ?gap @ drop (startIndex r) s"
    using le by (metis add.commute append_take_drop_id drop_drop le_add_diff_inverse2)
  then have "pre @ drop pos s = (pre @ ?gap) @ drop (startIndex r) s" by (metis append_assoc)
  moreover have "qreplace ?offset (match_length r) (match_text r) ((pre @ ?gap) @ drop (startIndex r) s)
      = (pre @ ?gap) @ match_text r @ drop (match_length r) (drop (startIndex r) s)"
    unfolding offset by (rule qreplace_append)
  ultimately have replaced:
    "qreplace ?offset (match_length r) (match_text r) (pre @ drop pos s) = ?pre @ drop ?next s"
    by (simp add: add.commute)
  have pre: "int (length ?pre) + ?oc = int ?next"
    using Cons.prems(2) le gap by simp
  from Cons.IH [OF sep pre] obtain es where
    es: "formattedTextEntities_loop ?oc rs (?pre @ drop ?next s) = (es, ?pre @ splice_matches ?next rs s)"
      "list_all (marks_match (?pre @ splice_matches ?next rs s) rs) es"
      "map (snd \<circ> snd) es = map entity_type rs" by blast
  have nonneg: "0 \<le> ?offset" by (simp only: offset of_nat_0_le_iff)
  have final: "pre @ splice_matches pos (r # rs) s = ?pre @ splice_matches ?next rs s" by simp
  have "take (length (match_text r)) (drop (nat ?offset) (?pre @ splice_matches ?next rs s)) = match_text r"
    unfolding offset nat_int
    using take_drop_mid [of "match_text r" "pre @ ?gap" "splice_matches ?next rs s"] by simp
  then have "marks_match (?pre @ splice_matches ?next rs s) (r # rs) (?offset, length (match_text r), entity_type r)"
    using nonneg by (simp only: marks_match_def prod.case list.set) blast
  moreover have "list_all (marks_match (?pre @ splice_matches ?next rs s) (r # rs)) es"
    using es(2) by (auto simp: list_all_iff intro: marks_match_Cons)
  moreover have "formattedTextEntities_loop oc (r # rs) (pre @ drop pos s) =
      ((?offset, length (match_text r), entity_type r) # es, ?pre @ splice_matches ?next rs s)"
    using es(1) by (simp only: formattedTextEntities_loop.simps Let_def replaced prod.case)
  moreover have "map (snd \<circ> snd) ((?offset, length (match_text r), entity_type r) # es) = map entity_type (r # rs)"
    using es(3) by simp
  ultimately show ?case
    unfolding final by (intro exI [of _ "(?offset, length (match_text r), entity_type r) # es"])
      (simp only: list.pred_inject simp_thms)
qed

lemma formattedTextEntities_spec:
  assumes "separate 0 (sort_key startIndex rs) (length text)"
  shows "\<exists>es. formattedTextEntitiesFromReplacements rs text = (es, splice_matches 0 (sort_key startIndex rs) text) \<and>
    list_all (marks_match (splice_matches 0 (sort_key startIndex rs) text) rs) es \<and>
    map (snd \<circ> snd) es = map entity_type (sort_key startIndex rs)"
proof (cases "rs = []")
  case True
  then show ?thesis by (simp add: formattedTextEntitiesFromReplacements_def)
next
  case False
  have "marks_match t (sort_key startIndex rs) = marks_match t rs" for t
    by (simp add: marks_match_def fun_eq_iff)
  with formattedTextEntities_loop_spec [OF assms, of "[]" 0] False show ?thesis
    by (simp add: formattedTextEntitiesFromReplacements_def)
qed

end
