(* ===== verification/MessageData.thy ===== *)
theory MessageData imports UtilitiesModel
begin

unbundle bit_operations_syntax

text \<open>
  \<open>MessageData\<close> (\<open>src/chat/messagedata.h\<close>, \<open>messagedata.cpp\<close>): one message of a message
  list, TDLib's object with the fields the code caches from it. The \<open>update...\<close> functions
  change fields and return flags (a \<open>uint\<close>, here a 32-bit word), the \<open>set...\<close> functions turn
  the flags into the list of roles that the model passes to \<open>dataChanged\<close>.

  \<open>albumMessageIds\<close> is a list of message ids: only ids are ever stored in that list of
  variants. The lemmas show the order the models sort by, which roles an update reports, and
  that messages are grouped symmetrically.
\<close>

section \<open>Data\<close>

datatype msg_role =
  RoleDisplay | RoleMessageId | RoleIsSponsored | RoleMessageContentType
| RoleMessageViewCount | RoleMessageReactions | RoleMessageAlbumEntryFilter
| RoleMessageAlbumId | RoleMessageAlbumMessageIds | RoleMessageAlbumMessages
| RoleGeneratedContentUnread | RoleIsFirstInSequence | RoleIsLastInSequence

record message_data =
  messageData :: vmap
  messageId :: int
  isSponsored :: bool
  messageContentType :: string
  viewCount :: int
  reactions :: "qvariant list"
  albumEntryFilter :: bool
  albumMessageIds :: "int list"
  generatedContentUnread :: bool

definition getContent :: "message_data \<Rightarrow> vmap" where
  "getContent m = toMap (mvalue (messageData m) ''content'')"

definition reactions_of :: "vmap \<Rightarrow> qvariant list" where
  "reactions_of info = toList (mvalue (toMap (mvalue info ''reactions'')) ''reactions'')"

definition newMessageData :: "vmap \<Rightarrow> int \<Rightarrow> message_data" where
  "newMessageData d msgid =
     (let content = toMap (mvalue d ''content'');
          info = toMap (mvalue d ''interaction_info'');
          contentType = toString (mvalue content ''@type'')
      in \<lparr>messageData = d, messageId = msgid,
          isSponsored = (toString (mvalue d ''@type'') = ''sponsoredMessage''),
          messageContentType = contentType,
          viewCount = toInt (mvalue info ''view_count''),
          reactions = reactions_of info,
          albumEntryFilter = False, albumMessageIds = [],
          generatedContentUnread =
            (if contentType = ''messageDice'' then \<not> mcontains content ''final_state'' else False)\<rparr>)"

section \<open>Flags and roles\<close>

abbreviation RoleFlagDisplay :: "32 word" where "RoleFlagDisplay \<equiv> 1"
abbreviation RoleFlagMessageId :: "32 word" where "RoleFlagMessageId \<equiv> 2"
abbreviation RoleFlagIsSponsored :: "32 word" where "RoleFlagIsSponsored \<equiv> 4"
abbreviation RoleFlagMessageContentType :: "32 word" where "RoleFlagMessageContentType \<equiv> 8"
abbreviation RoleFlagMessageViewCount :: "32 word" where "RoleFlagMessageViewCount \<equiv> 16"
abbreviation RoleFlagMessageReactions :: "32 word" where "RoleFlagMessageReactions \<equiv> 32"
abbreviation RoleFlagMessageAlbumEntryFilter :: "32 word" where "RoleFlagMessageAlbumEntryFilter \<equiv> 64"
abbreviation RoleFlagMessageAlbumMessageIds :: "32 word" where "RoleFlagMessageAlbumMessageIds \<equiv> 128"

definition flagsToRoles :: "32 word \<Rightarrow> msg_role list" where
  "flagsToRoles flags =
     (if flags AND RoleFlagDisplay \<noteq> 0 then [RoleDisplay] else []) @
     (if flags AND RoleFlagMessageId \<noteq> 0 then [RoleMessageId] else []) @
     (if flags AND RoleFlagIsSponsored \<noteq> 0 then [RoleIsSponsored] else []) @
     (if flags AND RoleFlagMessageContentType \<noteq> 0 then [RoleMessageContentType] else []) @
     (if flags AND RoleFlagMessageViewCount \<noteq> 0 then [RoleMessageViewCount] else []) @
     (if flags AND RoleFlagMessageReactions \<noteq> 0 then [RoleMessageReactions] else []) @
     (if flags AND RoleFlagMessageAlbumEntryFilter \<noteq> 0 then [RoleMessageAlbumEntryFilter] else []) @
     (if flags AND RoleFlagMessageAlbumMessageIds \<noteq> 0
      then [RoleMessageAlbumMessageIds, RoleMessageAlbumMessages] else [])"

section \<open>Reading\<close>

definition senderId :: "message_data \<Rightarrow> message_sender" where
  "senderId m = MessageSender (toMap (mvalue (messageData m) ''sender_id''))"

definition mediaAlbumId :: "message_data \<Rightarrow> int" where
  "mediaAlbumId m = toLongLong (mvalue (messageData m) ''media_album_id'')"

text \<open>\<open>diff\<close> compares with another object; the caller never passes the object itself.\<close>

definition message_diff :: "message_data \<Rightarrow> message_data \<Rightarrow> msg_role list" where
  "message_diff this message =
     [RoleDisplay] @
     (if messageId message \<noteq> messageId this then [RoleMessageId] else []) @
     (if isSponsored message \<noteq> isSponsored this then [RoleIsSponsored] else []) @
     (if messageContentType message \<noteq> messageContentType this then [RoleMessageContentType] else []) @
     (if viewCount message \<noteq> viewCount this then [RoleMessageViewCount] else []) @
     (if reactions message \<noteq> reactions this then [RoleMessageReactions] else []) @
     (if albumEntryFilter message \<noteq> albumEntryFilter this then [RoleMessageAlbumEntryFilter] else []) @
     (if albumMessageIds message \<noteq> albumMessageIds this
      then [RoleMessageAlbumMessageIds, RoleMessageAlbumMessages] else []) @
     (if generatedContentUnread message \<noteq> generatedContentUnread this
      then [RoleGeneratedContentUnread] else [])"

section \<open>Updating\<close>

definition put :: "string \<Rightarrow> qvariant \<Rightarrow> message_data \<Rightarrow> message_data" where
  "put k v m = m\<lparr>messageData := minsert k v (messageData m)\<rparr>"

definition updateContentType :: "vmap \<Rightarrow> message_data \<Rightarrow> 32 word \<times> message_data" where
  "updateContentType content m =
     (let t = toString (mvalue content ''@type'')
      in (if messageContentType m = t then 0 else RoleFlagMessageContentType, m\<lparr>messageContentType := t\<rparr>))"

definition updateViewCount :: "vmap \<Rightarrow> message_data \<Rightarrow> 32 word \<times> message_data" where
  "updateViewCount info m =
     (let n = toInt (mvalue info ''view_count'')
      in (if n = viewCount m then 0 else RoleFlagMessageViewCount, m\<lparr>viewCount := n\<rparr>))"

definition updateReactions :: "vmap \<Rightarrow> message_data \<Rightarrow> 32 word \<times> message_data" where
  "updateReactions info m =
     (let rs = reactions_of info
      in (if rs = reactions m then 0 else RoleFlagMessageReactions, m\<lparr>reactions := rs\<rparr>))"

definition updateInteractionInfo :: "vmap \<Rightarrow> message_data \<Rightarrow> 32 word \<times> message_data" where
  "updateInteractionInfo info m =
     (let m1 = put ''interaction_info'' (QMap info) m;
          (f2, m2) = updateViewCount info m1;
          (f3, m3) = updateReactions info m2
      in (RoleFlagDisplay OR f2 OR f3, m3))"

definition updateMessageData :: "vmap \<Rightarrow> message_data \<Rightarrow> 32 word \<times> message_data" where
  "updateMessageData d m =
     (let m1 = m\<lparr>messageData := d,
                 isSponsored := (toString (mvalue d ''@type'') = ''sponsoredMessage'')\<rparr>;
          (f2, m2) = updateContentType (toMap (mvalue d ''content'')) m1;
          (f3, m3) = updateInteractionInfo (toMap (mvalue d ''interaction_info'')) m2
      in (RoleFlagDisplay OR f2 OR f3, m3))"

definition updateContent :: "vmap \<Rightarrow> message_data \<Rightarrow> 32 word \<times> message_data" where
  "updateContent content m =
     (let (f, m') = updateContentType content (put ''content'' (QMap content) m)
      in (RoleFlagDisplay OR f, m'))"

definition updateEditDate :: "int \<Rightarrow> message_data \<Rightarrow> 32 word \<times> message_data" where
  "updateEditDate editDate m = (RoleFlagDisplay, put ''edit_date'' (QInt editDate) m)"

definition updateReplyMarkup :: "vmap \<Rightarrow> message_data \<Rightarrow> 32 word \<times> message_data" where
  "updateReplyMarkup replyMarkup m = (RoleFlagDisplay, put ''reply_markup'' (QMap replyMarkup) m)"

definition updateAlbumEntryFilter :: "bool \<Rightarrow> message_data \<Rightarrow> 32 word \<times> message_data" where
  "updateAlbumEntryFilter isAlbumChild m =
     (if isAlbumChild = albumEntryFilter m then 0 else RoleFlagMessageAlbumEntryFilter,
      m\<lparr>albumEntryFilter := isAlbumChild\<rparr>)"

definition updateAlbumEntryMessageIds :: "int list \<Rightarrow> message_data \<Rightarrow> 32 word \<times> message_data" where
  "updateAlbumEntryMessageIds ids m =
     (if ids = albumMessageIds m then 0 else RoleFlagMessageAlbumMessageIds, m\<lparr>albumMessageIds := ids\<rparr>)"

definition updateSuggestedPostInfo :: "vmap \<Rightarrow> message_data \<Rightarrow> 32 word \<times> message_data" where
  "updateSuggestedPostInfo info m = (RoleFlagDisplay, put ''suggested_post_info'' (QMap info) m)"

definition updateMentionRead :: "message_data \<Rightarrow> 32 word \<times> message_data" where
  "updateMentionRead m =
     (if \<not> toBool (mvalue (messageData m) ''contains_unread_mention'') then (0, m)
      else (RoleFlagDisplay, put ''contains_unread_mention'' (QBool False) m))"

definition updateContentOpened :: "message_data \<Rightarrow> 32 word \<times> message_data" where
  "updateContentOpened m =
     (if messageContentType m = ''messageVoiceNote'' then
        (let content = getContent m in
         if toBool (mvalue content ''is_listened'') then (0, m)
         else (RoleFlagDisplay, put ''content'' (QMap (minsert ''is_listened'' (QBool True) content)) m))
      else if messageContentType m = ''messageVideoNote'' then
        (let content = getContent m in
         if toBool (mvalue content ''is_viewed'') then (0, m)
         else (RoleFlagDisplay, put ''content'' (QMap (minsert ''is_viewed'' (QBool True) content)) m))
      else (0, m))"

definition updateFactCheck :: "vmap \<Rightarrow> message_data \<Rightarrow> 32 word \<times> message_data" where
  "updateFactCheck factCheck m = (RoleFlagDisplay, put ''fact_check'' (QMap factCheck) m)"

definition with_roles :: "32 word \<times> message_data \<Rightarrow> msg_role list \<times> message_data" where
  "with_roles u = (flagsToRoles (fst u), snd u)"

definition setMessageData :: "vmap \<Rightarrow> message_data \<Rightarrow> msg_role list \<times> message_data" where
  "setMessageData d m = with_roles (updateMessageData d m)"

definition setContent :: "vmap \<Rightarrow> message_data \<Rightarrow> msg_role list \<times> message_data" where
  "setContent content m = with_roles (updateContent content m)"

definition setEditDateReplyMarkup :: "int \<Rightarrow> vmap \<Rightarrow> message_data \<Rightarrow> msg_role list \<times> message_data" where
  "setEditDateReplyMarkup editDate replyMarkup m =
     (let (f1, m1) = updateEditDate editDate m; (f2, m2) = updateReplyMarkup replyMarkup m1
      in (flagsToRoles (f1 OR f2), m2))"

definition setInteractionInfo :: "vmap \<Rightarrow> message_data \<Rightarrow> msg_role list \<times> message_data" where
  "setInteractionInfo info m = with_roles (updateInteractionInfo info m)"

definition setAlbumEntryFilter :: "bool \<Rightarrow> message_data \<Rightarrow> msg_role list \<times> message_data" where
  "setAlbumEntryFilter isAlbumChild m = with_roles (updateAlbumEntryFilter isAlbumChild m)"

definition setAlbumEntryMessageIds :: "int list \<Rightarrow> message_data \<Rightarrow> msg_role list \<times> message_data" where
  "setAlbumEntryMessageIds ids m = with_roles (updateAlbumEntryMessageIds ids m)"

definition setSuggestedPostInfo :: "vmap \<Rightarrow> message_data \<Rightarrow> msg_role list \<times> message_data" where
  "setSuggestedPostInfo info m = with_roles (updateSuggestedPostInfo info m)"

definition setMentionRead :: "message_data \<Rightarrow> msg_role list \<times> message_data" where
  "setMentionRead m = with_roles (updateMentionRead m)"

definition setContentOpened :: "message_data \<Rightarrow> msg_role list \<times> message_data" where
  "setContentOpened m = with_roles (updateContentOpened m)"

definition setFactCheck :: "vmap \<Rightarrow> message_data \<Rightarrow> msg_role list \<times> message_data" where
  "setFactCheck factCheck m = with_roles (updateFactCheck factCheck m)"

definition setIsPinned :: "bool \<Rightarrow> message_data \<Rightarrow> msg_role list \<times> message_data" where
  "setIsPinned isPinned m = ([RoleDisplay], put ''is_pinned'' (QBool isPinned) m)"

definition setUnreadReactions :: "qvariant list \<Rightarrow> message_data \<Rightarrow> msg_role list \<times> message_data" where
  "setUnreadReactions rs m = ([RoleDisplay], put ''unread_reactions'' (QList rs) m)"

definition setContainsUnreadPollVotes :: "bool \<Rightarrow> message_data \<Rightarrow> msg_role list \<times> message_data" where
  "setContainsUnreadPollVotes value m =
     (if toBool (mvalue (messageData m) ''contains_unread_poll_votes'') \<noteq> value
      then ([RoleDisplay], put ''contains_unread_poll_votes'' (QBool value) m) else ([], m))"

definition setEphemeralContent :: "vmap \<Rightarrow> message_data \<Rightarrow> msg_role list \<times> message_data" where
  "setEphemeralContent content m = ([RoleDisplay], put ''ephemeral_content'' (QMap content) m)"

section \<open>Comparing\<close>

definition lessThan :: "message_data \<Rightarrow> message_data \<Rightarrow> bool" where
  "lessThan m1 m2 =
     (if isSponsored m1 \<noteq> isSponsored m2 then \<not> isSponsored m1 \<and> isSponsored m2
      else messageId m1 < messageId m2)"

definition moreThan :: "message_data \<Rightarrow> message_data \<Rightarrow> bool" where
  "moreThan m1 m2 \<longleftrightarrow> \<not> lessThan m1 m2"

text \<open>
  \<open>qAbs\<close> of a difference of 32-bit ints: the difference of two dates of TDLib (positive
  32-bit numbers) does not overflow.
\<close>

definition areTogether :: "message_data \<Rightarrow> message_data \<Rightarrow> bool" where
  "areTogether m1 m2 =
     (if messageContentIsService (messageContentType m1) \<or> messageContentIsService (messageContentType m2)
      then False
      else if senderId m1 \<noteq> senderId m2 then False
      else \<bar>toInt (mvalue (messageData m1) ''date'') - toInt (mvalue (messageData m2) ''date'')\<bar> \<le> 900)"

section \<open>What an update reports\<close>

text \<open>
  \<open>roles_cover m m' roles\<close>: between \<open>m\<close> and \<open>m'\<close> only data with a reported role has changed,
  and the identity, the unread mark of generated content and nothing else is fixed.
\<close>

definition roles_cover :: "message_data \<Rightarrow> msg_role list \<times> message_data \<Rightarrow> bool" where
  "roles_cover m u =
     (let roles = set (fst u); m' = snd u in
      messageId m' = messageId m \<and> generatedContentUnread m' = generatedContentUnread m \<and>
      (messageData m' \<noteq> messageData m \<longrightarrow> RoleDisplay \<in> roles) \<and>
      (messageContentType m' \<noteq> messageContentType m \<longrightarrow> RoleMessageContentType \<in> roles) \<and>
      (viewCount m' \<noteq> viewCount m \<longrightarrow> RoleMessageViewCount \<in> roles) \<and>
      (reactions m' \<noteq> reactions m \<longrightarrow> RoleMessageReactions \<in> roles) \<and>
      (albumEntryFilter m' \<noteq> albumEntryFilter m \<longrightarrow> RoleMessageAlbumEntryFilter \<in> roles) \<and>
      (albumMessageIds m' \<noteq> albumMessageIds m \<longrightarrow>
         RoleMessageAlbumMessageIds \<in> roles \<and> RoleMessageAlbumMessages \<in> roles))"

lemmas md_update_defs =
  put_def with_roles_def updateContentType_def updateViewCount_def updateReactions_def
  updateInteractionInfo_def updateMessageData_def updateContent_def updateEditDate_def
  updateReplyMarkup_def updateAlbumEntryFilter_def updateAlbumEntryMessageIds_def
  updateSuggestedPostInfo_def updateMentionRead_def updateContentOpened_def updateFactCheck_def

lemmas set_defs =
  setMessageData_def setContent_def setEditDateReplyMarkup_def setInteractionInfo_def
  setAlbumEntryFilter_def setAlbumEntryMessageIds_def setSuggestedPostInfo_def setMentionRead_def
  setContentOpened_def setFactCheck_def setIsPinned_def setUnreadReactions_def
  setContainsUnreadPollVotes_def setEphemeralContent_def

lemma cover_setMessageData: "roles_cover m (setMessageData d m)"
  by (simp add: roles_cover_def setMessageData_def md_update_defs flagsToRoles_def Let_def)

lemma cover_setContent: "roles_cover m (setContent c m)"
  by (simp add: roles_cover_def setContent_def md_update_defs flagsToRoles_def Let_def)

lemma cover_setEditDateReplyMarkup: "roles_cover m (setEditDateReplyMarkup e r m)"
  by (simp add: roles_cover_def setEditDateReplyMarkup_def md_update_defs flagsToRoles_def Let_def)

lemma cover_setInteractionInfo: "roles_cover m (setInteractionInfo i m)"
  by (simp add: roles_cover_def setInteractionInfo_def md_update_defs flagsToRoles_def Let_def)

lemma cover_setAlbumEntryFilter: "roles_cover m (setAlbumEntryFilter b m)"
  by (simp add: roles_cover_def setAlbumEntryFilter_def md_update_defs flagsToRoles_def Let_def)

lemma cover_setAlbumEntryMessageIds: "roles_cover m (setAlbumEntryMessageIds ids m)"
  by (simp add: roles_cover_def setAlbumEntryMessageIds_def md_update_defs flagsToRoles_def Let_def)

lemma cover_setSuggestedPostInfo: "roles_cover m (setSuggestedPostInfo i m)"
  by (simp add: roles_cover_def setSuggestedPostInfo_def md_update_defs flagsToRoles_def Let_def)

lemma cover_setMentionRead: "roles_cover m (setMentionRead m)"
  by (simp add: roles_cover_def setMentionRead_def md_update_defs flagsToRoles_def Let_def)

lemma cover_setContentOpened: "roles_cover m (setContentOpened m)"
  by (simp add: roles_cover_def setContentOpened_def md_update_defs flagsToRoles_def Let_def)

lemma cover_setFactCheck: "roles_cover m (setFactCheck f m)"
  by (simp add: roles_cover_def setFactCheck_def md_update_defs flagsToRoles_def Let_def)

lemma cover_setIsPinned: "roles_cover m (setIsPinned b m)"
  by (simp add: roles_cover_def setIsPinned_def md_update_defs)

lemma cover_setUnreadReactions: "roles_cover m (setUnreadReactions rs m)"
  by (simp add: roles_cover_def setUnreadReactions_def md_update_defs)

lemma cover_setContainsUnreadPollVotes: "roles_cover m (setContainsUnreadPollVotes b m)"
  by (simp add: roles_cover_def setContainsUnreadPollVotes_def md_update_defs)

lemma cover_setEphemeralContent: "roles_cover m (setEphemeralContent c m)"
  by (simp add: roles_cover_def setEphemeralContent_def md_update_defs)

lemmas roles_covered =
  cover_setMessageData cover_setContent cover_setEditDateReplyMarkup cover_setInteractionInfo
  cover_setAlbumEntryFilter cover_setAlbumEntryMessageIds cover_setSuggestedPostInfo
  cover_setMentionRead cover_setContentOpened cover_setFactCheck cover_setIsPinned
  cover_setUnreadReactions cover_setContainsUnreadPollVotes cover_setEphemeralContent

lemma roles_cover_messageId: "roles_cover m u \<Longrightarrow> messageId (snd u) = messageId m"
  by (simp add: roles_cover_def Let_def)

lemmas updated_messageId [simp] = roles_covered [THEN roles_cover_messageId]

section \<open>Facts about the order\<close>

lemma lessThan_irrefl [simp]: "\<not> lessThan m m"
  by (simp add: lessThan_def)

lemma lessThan_asym: "lessThan a b \<Longrightarrow> \<not> lessThan b a"
  by (auto simp: lessThan_def split: if_splits)

lemma lessThan_trans: "lessThan a b \<Longrightarrow> lessThan b c \<Longrightarrow> lessThan a c"
  by (auto simp: lessThan_def split: if_splits)

lemma lessThan_total: "messageId a \<noteq> messageId b \<Longrightarrow> lessThan a b \<or> lessThan b a"
  by (auto simp: lessThan_def)

lemma lessThan_strict_on: "strict_on A lessThan"
  by (auto simp: strict_on_def lessThan_def split: if_splits)

lemma moreThan_refl: "moreThan m m"
  by (simp add: moreThan_def)

text \<open>
  The reverse comparator is a strict order on messages with different ids only: on the same
  id it says that each is before the other.
\<close>

lemma moreThan_distinct: "messageId a \<noteq> messageId b \<Longrightarrow> moreThan a b \<longleftrightarrow> lessThan b a"
  using lessThan_asym lessThan_total by (auto simp: moreThan_def)

lemma areTogether_sym: "areTogether a b = areTogether b a"
  by (auto simp: areTogether_def abs_minus_commute)

end
