(* ===== verification/RowModel.thy ===== *)
theory RowModel imports YaqtPrelude
begin

text \<open>
  What the list models (\<open>MessagesModel\<close>, \<open>ChatListModel\<close>) have in common. Each keeps a
  \<open>QList\<close> of rows and a \<open>QHash\<close> from a row's key to its position, and announces every
  change of its rows with the signals of \<open>QAbstractItemModel\<close>.

  \<^item> \<open>reindex\<close> is the loop that repairs a part of the hash after rows have moved, and
    \<open>index_ok\<close> is the contract between hash and list.
  \<^item> \<open>view_step\<close> is what a view does on one signal, given the rows it can read from the model
    while it handles the signal. A model is in sync with its views when the signals it emits,
    replayed on the rows before, give the rows after.
  \<^item> The locale \<open>row_index\<close> is the interface a client sees: it looks a key up and reads the
    row there.
\<close>

section \<open>The hash from keys to positions\<close>

text \<open>\<open>for (int i = a; i < b; i++) map.insert(key(rows.at(i)), i);\<close>\<close>

definition reindex :: "('a \<Rightarrow> 'k) \<Rightarrow> 'a list \<Rightarrow> nat \<Rightarrow> nat \<Rightarrow> ('k \<rightharpoonup> nat) \<Rightarrow> ('k \<rightharpoonup> nat)" where
  "reindex key rows a b m = fold (\<lambda>i m. m(key (rows ! i) \<mapsto> i)) [a..<b] m"

text \<open>\<open>map.value(k, -1)\<close>\<close>

definition index_value :: "('k \<rightharpoonup> nat) \<Rightarrow> 'k \<Rightarrow> int" where
  "index_value m k = (case m k of None \<Rightarrow> -1 | Some i \<Rightarrow> int i)"

definition index_ok :: "('a \<Rightarrow> 'k) \<Rightarrow> 'a list \<Rightarrow> ('k \<rightharpoonup> nat) \<Rightarrow> bool" where
  "index_ok key rows m \<longleftrightarrow> (\<forall>k i. m k = Some i \<longleftrightarrow> i < length rows \<and> key (rows ! i) = k)"

lemma index_okI:
  "(\<And>k i. m k = Some i \<longleftrightarrow> i < length rows \<and> key (rows ! i) = k) \<Longrightarrow> index_ok key rows m"
  by (simp add: index_ok_def)

lemma index_okD: "index_ok key rows m \<Longrightarrow> m k = Some i \<longleftrightarrow> i < length rows \<and> key (rows ! i) = k"
  by (simp add: index_ok_def)

lemma index_ok_lookup: "index_ok key rows m \<Longrightarrow> i < length rows \<Longrightarrow> m (key (rows ! i)) = Some i"
  by (simp add: index_ok_def)

lemma key_image_nth: "k \<in> key ` set rows \<longleftrightarrow> (\<exists>i < length rows. key (rows ! i) = k)"
  unfolding set_conv_nth by auto

lemma index_ok_None: "index_ok key rows m \<Longrightarrow> m k = None \<longleftrightarrow> k \<notin> key ` set rows"
proof -
  assume ok: "index_ok key rows m"
  have "k \<in> key ` set rows \<longleftrightarrow> (\<exists>i < length rows. key (rows ! i) = k)"
    by (rule key_image_nth)
  also have "\<dots> \<longleftrightarrow> (\<exists>i. m k = Some i)" using index_okD [OF ok] by auto
  finally show ?thesis by auto
qed

lemma distinct_key_eq:
  "distinct (map key rows) \<Longrightarrow> i < length rows \<Longrightarrow> j < length rows \<Longrightarrow>
     key (rows ! i) = key (rows ! j) \<Longrightarrow> i = j"
  by (metis distinct_conv_nth length_map nth_map)

lemma index_ok_distinct: "index_ok key rows m \<Longrightarrow> distinct (map key rows)"
  unfolding distinct_conv_nth by (metis index_ok_lookup length_map nth_map option.inject)

lemma index_ok_Nil [simp]: "index_ok key [] m \<longleftrightarrow> m = Map.empty"
  by (auto simp: index_ok_def intro: ext)

lemma index_ok_dom: "index_ok key rows m \<Longrightarrow> dom m = key ` set rows"
  using index_ok_None [of key rows m] by (auto simp: dom_def)

lemma index_ok_card: "index_ok key rows m \<Longrightarrow> card (dom m) = length rows"
  by (metis distinct_card index_ok_distinct index_ok_dom length_map set_map)

lemma index_ok_map_cong: "map key rows = map key rows' \<Longrightarrow> index_ok key rows m \<longleftrightarrow> index_ok key rows' m"
  by (simp add: index_ok_def) (metis length_map nth_map)

lemma index_ok_update:
  "index_ok key rows m \<Longrightarrow> key r = key (rows ! i) \<Longrightarrow> index_ok key (rows[i := r]) m"
  by (cases "i < length rows")
     (auto simp: index_ok_def nth_list_update list_update_beyond)

lemma reindex_Suc:
  "a \<le> b \<Longrightarrow> reindex key rows a (Suc b) m = (reindex key rows a b m)(key (rows ! b) \<mapsto> b)"
  by (simp add: reindex_def)

lemma reindex_same [simp]: "reindex key rows a a m = m"
  by (simp add: reindex_def)

lemma reindex_beyond: "b \<le> a \<Longrightarrow> reindex key rows a b m = m"
  by (simp add: reindex_def)

lemma reindex_miss:
  "(\<And>i. a \<le> i \<Longrightarrow> i < b \<Longrightarrow> key (rows ! i) \<noteq> k) \<Longrightarrow> reindex key rows a b m k = m k"
proof (induction b)
  case (Suc b)
  then show ?case by (cases "a \<le> b") (auto simp: reindex_Suc reindex_beyond)
qed (simp add: reindex_beyond)

lemma reindex_hit:
  "distinct (map key rows) \<Longrightarrow> b \<le> length rows \<Longrightarrow> a \<le> i \<Longrightarrow> i < b \<Longrightarrow>
     reindex key rows a b m (key (rows ! i)) = Some i"
proof (induction b)
  case (Suc b)
  then have "key (rows ! b) = key (rows ! i) \<longleftrightarrow> b = i"
    using distinct_key_eq [of key rows b i] by auto
  with Suc show ?case by (auto simp: reindex_Suc less_Suc_eq)
qed simp

text \<open>
  The master lemma of the damaged hash: outside the repaired range the hash is right, it
  holds no key the list lacks, and the rows have distinct keys.
\<close>

lemma index_ok_reindex:
  assumes d: "distinct (map key rows)" and b: "b \<le> length rows"
    and outside: "\<And>i. i < length rows \<Longrightarrow> i < a \<or> b \<le> i \<Longrightarrow> m (key (rows ! i)) = Some i"
    and none: "\<And>k. k \<notin> key ` set rows \<Longrightarrow> m k = None"
  shows "index_ok key rows (reindex key rows a b m)"
proof (rule index_okI)
  fix k i
  let ?m = "reindex key rows a b m"
  have at: "?m (key (rows ! j)) = Some j" if "j < length rows" for j
  proof (cases "a \<le> j \<and> j < b")
    case True
    with d b show ?thesis by (simp add: reindex_hit)
  next
    case False
    have "key (rows ! n) \<noteq> key (rows ! j)" if "a \<le> n" "n < b" for n
      using that False b \<open>j < length rows\<close> distinct_key_eq [OF d, of n j] by auto
    with False that outside [of j] show ?thesis by (subst reindex_miss) auto
  qed
  show "?m k = Some i \<longleftrightarrow> i < length rows \<and> key (rows ! i) = k"
  proof (cases "k \<in> key ` set rows")
    case True
    then obtain j where "j < length rows" "key (rows ! j) = k"
      by (auto simp: in_set_conv_nth)
    with at [of j] distinct_key_eq [OF d, of i j] show ?thesis by auto
  next
    case False
    then have "?m k = m k"
      using b by (intro reindex_miss) (auto simp: key_image_nth)
    with False none [of k] show ?thesis by auto
  qed
qed

lemma index_ok_append:
  assumes ok: "index_ok key rows m" and d: "distinct (map key (rows @ new))"
  shows "index_ok key (rows @ new) (reindex key (rows @ new) (length rows) (length rows + length new) m)"
proof (rule index_ok_reindex [OF d])
  show "length rows + length new \<le> length (rows @ new)" by simp
  show "m (key ((rows @ new) ! i)) = Some i"
    if "i < length (rows @ new)" "i < length rows \<or> length rows + length new \<le> i" for i
    using that ok by (auto simp: nth_append index_ok_lookup)
  show "m k = None" if "k \<notin> key ` set (rows @ new)" for k
    using that index_ok_None [OF ok] by auto
qed

lemma reindex_first:
  "a < b \<Longrightarrow> reindex key rows a b m = reindex key rows (Suc a) b (m(key (rows ! a) \<mapsto> a))"
  by (simp add: reindex_def upt_conv_Cons)

lemma reindex_reindex:
  "a \<le> b \<Longrightarrow> b \<le> c \<Longrightarrow> reindex key rows b c (reindex key rows a b m) = reindex key rows a c m"
proof -
  assume "a \<le> b" "b \<le> c"
  then have "[a..<c] = [a..<b] @ [b..<c]" by (metis le_add_diff_inverse upt_add_eq_append)
  then show ?thesis by (simp add: reindex_def)
qed

text \<open>A batch put in at row \<open>i\<close>: every row from \<open>i\<close> on is re-indexed.\<close>

lemma index_ok_splice:
  assumes ok: "index_ok key rows m" and i: "i \<le> length rows"
    and d: "distinct (map key (rows @ new))"
  shows "index_ok key (take i rows @ new @ drop i rows)
           (reindex key (take i rows @ new @ drop i rows) i (length rows + length new) m)"
proof (rule index_ok_reindex)
  let ?rows = "take i rows @ new @ drop i rows"
  have "mset ?rows = mset (take i rows @ drop i rows @ new)" by simp
  then have "mset ?rows = mset (rows @ new)" by (simp only: append_take_drop_id flip: append_assoc)
  then have same: "mset (map key ?rows) = mset (map key (rows @ new))" by (simp only: mset_map)
  show "distinct (map key ?rows)" using d mset_eq_imp_distinct_iff [OF same] by simp
  show "length rows + length new \<le> length ?rows" using i by simp
  show "m (key (?rows ! j)) = Some j" if "j < length ?rows" "j < i \<or> length rows + length new \<le> j" for j
    using that i index_ok_lookup [OF ok, of j] by (auto simp: nth_append)
  show "m k = None" if "k \<notin> key ` set ?rows" for k
  proof -
    have "set ?rows = set (rows @ new)" using \<open>mset ?rows = mset (rows @ new)\<close> by (rule mset_eq_setD)
    with that show ?thesis using index_ok_None [OF ok, of k] by auto
  qed
qed

text \<open>The rows \<open>a..b\<close> taken out: their keys leave the hash and the rows behind move up.\<close>

lemma index_ok_slice:
  assumes ok: "index_ok key rows m" and ab: "a \<le> b" "b < length rows"
    and m': "\<And>k. m' k = (if \<exists>i. a \<le> i \<and> i \<le> b \<and> key (rows ! i) = k then None else m k)"
  shows "index_ok key (remove_slice a b rows)
           (reindex key (remove_slice a b rows) a (length (remove_slice a b rows)) m')"
proof (rule index_ok_reindex)
  let ?rows = "remove_slice a b rows"
  note distinct = index_ok_distinct [OF ok]
  show "distinct (map key ?rows)"
    using distinct ab by (simp add: row_simps distinct_remove_slice)
  show "m' (key (?rows ! j)) = Some j" if "j < length ?rows" "j < a \<or> length ?rows \<le> j" for j
  proof -
    have j: "j < a" "?rows ! j = rows ! j" "j < length rows" using that ab by (auto simp: nth_remove_slice)
    then have "key (rows ! i) \<noteq> key (rows ! j)" if "a \<le> i" "i \<le> b" for i
      using that distinct_key_eq [OF distinct, of i j] ab by auto
    with j show ?thesis using index_ok_lookup [OF ok] by (auto simp: m')
  qed
  show "m' k = None" if "k \<notin> key ` set ?rows" for k
  proof (cases "k \<in> key ` set rows")
    case True
    then obtain j where j: "j < length rows" "key (rows ! j) = k" by (auto simp: key_image_nth)
    have "a \<le> j \<and> j \<le> b"
    proof (rule ccontr)
      assume "\<not> (a \<le> j \<and> j \<le> b)"
      then have "rows ! j \<in> set ?rows"
        using j ab unfolding remove_slice_def
        by (auto simp: in_set_conv_nth nth_append not_le intro: exI [of _ j] exI [of _ "j - Suc b"])
      with j that show False by auto
    qed
    with j show ?thesis by (auto simp: m')
  next
    case False
    then show ?thesis using index_ok_None [OF ok] by (auto simp: m')
  qed
qed simp

text \<open>The hash of a list, written down.\<close>

definition index_of :: "('a \<Rightarrow> 'k) \<Rightarrow> 'a list \<Rightarrow> ('k \<rightharpoonup> nat)" where
  "index_of key rows = map_of (zip (map key rows) [0..<length rows])"

lemma index_ok_index_of: "distinct (map key rows) \<Longrightarrow> index_ok key rows (index_of key rows)"
proof (rule index_okI)
  fix k i
  assume d: "distinct (map key rows)"
  have "(k, i) \<in> set (zip (map key rows) [0..<length rows]) \<longleftrightarrow> i < length rows \<and> key (rows ! i) = k"
    unfolding in_set_zip by (auto intro!: exI [of _ i])
  then show "index_of key rows k = Some i \<longleftrightarrow> i < length rows \<and> key (rows ! i) = k"
    using d by (simp add: index_of_def map_of_eq_Some_iff)
qed

text \<open>A row replaced by one with another key.\<close>

lemma index_ok_replace:
  assumes ok: "index_ok key rows m" and i: "i < length rows"
    and new: "key r = key (rows ! i) \<or> key r \<notin> key ` set rows"
  shows "index_ok key (rows[i := r]) ((m(key (rows ! i) := None))(key r \<mapsto> i))"
proof (rule index_okI)
  fix k j
  have fresh: "key (rows ! j) \<noteq> key r" if "j < length rows" "j \<noteq> i" for j
    using that new distinct_key_eq [OF index_ok_distinct [OF ok], of i j] i by (auto simp: key_image_nth)
  show "((m(key (rows ! i) := None))(key r \<mapsto> i)) k = Some j \<longleftrightarrow> j < length (rows[i := r]) \<and> key (rows[i := r] ! j) = k"
    using fresh [of j] i index_okD [OF ok, of k j] distinct_key_eq [OF index_ok_distinct [OF ok], of i j]
    by (auto simp: nth_list_update)
qed

text \<open>A row moved: the rows between the two positions are re-indexed.\<close>

lemma index_ok_qmove:
  assumes ok: "index_ok key rows m" and ij: "i < length rows" "j < length rows"
    and ab: "a = min i j" "b = Suc (max i j)"
  shows "index_ok key (qmove i j rows) (reindex key (qmove i j rows) a b m)"
proof (rule index_ok_reindex)
  show "distinct (map key (qmove i j rows))"
    using index_ok_distinct [OF ok] ij by (simp add: row_simps)
  show "m (key (qmove i j rows ! n)) = Some n" if "n < length (qmove i j rows)" "n < a \<or> b \<le> n" for n
    using that ij index_ok_lookup [OF ok] by (simp add: ab qmove_outside less_eq_Suc_le)
  show "m k = None" if "k \<notin> key ` set (qmove i j rows)" for k
    using that ij index_ok_None [OF ok] by simp
qed (use ij ab in auto)

section \<open>Row signals and the views that follow them\<close>

text \<open>
  The signals with the arguments the code passes: \<open>RowsMoved f l d\<close> announces that the rows
  \<open>f..l\<close> go before row \<open>d\<close>, counted before the move. Rows are integers, as in the code: an
  empty insertion announces \<open>last = first - 1\<close>, and an invalid index has row \<open>-1\<close>.
\<close>

datatype row_event =
  RowsInserted int int
| RowsRemoved int int
| RowsMoved int int int
| RowChanged int
| ModelReset

definition valid_row :: "int \<Rightarrow> 'k list \<Rightarrow> bool" where
  "valid_row i rows \<longleftrightarrow> 0 \<le> i \<and> i < int (length rows)"

fun view_step :: "'k list \<Rightarrow> row_event \<Rightarrow> 'k list \<Rightarrow> 'k list" where
  "view_step rows (RowsInserted f l) view =
     (take (nat f) view @ take (nat (l + 1 - f)) (drop (nat f) rows) @ drop (nat f) view)"
| "view_step rows (RowsRemoved f l) view = remove_slice (nat f) (nat l) view"
| "view_step rows (RowsMoved f l d) view =
     (if d > l then take (nat f) view @ take (nat (d - l - 1)) (drop (nat (l + 1)) view)
                    @ take (nat (l + 1 - f)) (drop (nat f) view) @ drop (nat d) view
      else take (nat d) view @ take (nat (l + 1 - f)) (drop (nat f) view)
           @ take (nat (f - d)) (drop (nat d) view) @ drop (nat (l + 1)) view)"
| "view_step rows (RowChanged i) view =
     (if valid_row i view \<and> valid_row i rows then view[nat i := rows ! nat i] else view)"
| "view_step rows ModelReset view = rows"

text \<open>A log of signals, each with the rows a view reads while it handles it.\<close>

fun view_replay :: "(row_event \<times> 'k list) list \<Rightarrow> 'k list \<Rightarrow> 'k list" where
  "view_replay [] view = view"
| "view_replay ((e, rows) # es) view = view_replay es (view_step rows e view)"

lemma view_replay_append [simp]: "view_replay (es @ fs) view = view_replay fs (view_replay es view)"
  by (induction es arbitrary: view) auto

lemma view_inserted:
  "f \<le> length xs \<Longrightarrow>
     view_step (take f xs @ new @ drop f xs) (RowsInserted (int f) (int f + int (length new) - 1)) xs =
     take f xs @ new @ drop f xs"
  by (simp add: min_def)

lemma view_removed:
  "view_step rows (RowsRemoved (int f) (int l)) xs = remove_slice f l xs"
  by simp

lemma view_changed_same:
  "(\<And>i. valid_row r rows \<Longrightarrow> i = nat r \<Longrightarrow> view ! i = rows ! i) \<Longrightarrow>
     length rows = length view \<Longrightarrow> view_step rows (RowChanged r) view = view"
  by (auto simp: valid_row_def) (metis list_update_id)

lemma view_changed_refl [simp]: "view_step rows (RowChanged r) rows = rows"
  by (auto simp: valid_row_def)

lemma qmove_down: "i \<le> j \<Longrightarrow> j < length xs \<Longrightarrow>
    qmove i j xs = take i xs @ take (j - i) (drop (Suc i) xs) @ xs ! i # drop (Suc j) xs"
  by (simp add: qmove_def insert_at_def remove_at_def min_def drop_take)

lemma qmove_up: "j \<le> i \<Longrightarrow> i < length xs \<Longrightarrow>
    qmove i j xs = take j xs @ xs ! i # take (i - j) (drop j xs) @ drop (Suc i) xs"
  by (simp add: qmove_def insert_at_def remove_at_def min_def drop_take)

lemma take_Suc_0_drop: "i < length xs \<Longrightarrow> take (Suc 0) (drop i xs) = [xs ! i]"
  by (simp add: take_Suc_conv_app_nth)

lemma view_moved_down:
  "i \<le> j \<Longrightarrow> j < length xs \<Longrightarrow>
     view_step rows (RowsMoved (int i) (int i) (int (Suc j))) xs = qmove i j xs"
  by (simp add: qmove_down nat_add_distrib take_Suc_0_drop nat_diff_distrib')

lemma view_moved_up:
  "j < i \<Longrightarrow> i < length xs \<Longrightarrow>
     view_step rows (RowsMoved (int i) (int i) (int j)) xs = qmove i j xs"
  by (simp add: qmove_up nat_add_distrib take_Suc_0_drop nat_diff_distrib')

section \<open>The interface a client of an indexed model uses\<close>

locale row_index =
  fixes rows :: "'s \<Rightarrow> 'a list"
    and key :: "'a \<Rightarrow> 'k"
    and index :: "'s \<Rightarrow> 'k \<Rightarrow> nat option"
    and inv :: "'s \<Rightarrow> bool"
  assumes index_inv: "inv s \<Longrightarrow> index_ok key (rows s) (index s)"
begin

lemma found_row: "inv s \<Longrightarrow> index s k = Some i \<Longrightarrow> i < length (rows s) \<and> key (rows s ! i) = k"
  using index_inv index_okD by metis

lemma row_found: "inv s \<Longrightarrow> i < length (rows s) \<Longrightarrow> index s (key (rows s ! i)) = Some i"
  using index_inv index_ok_lookup by metis

lemma not_found: "inv s \<Longrightarrow> index s k = None \<longleftrightarrow> k \<notin> key ` set (rows s)"
  using index_inv index_ok_None by metis

lemma at_found: "inv s \<Longrightarrow> index s k = Some i \<Longrightarrow> qat (rows s) i = Some (rows s ! i)"
  using found_row by (metis qat_less)

lemma distinct_keys: "inv s \<Longrightarrow> distinct (map key (rows s))"
  using index_inv index_ok_distinct by metis

lemma same_key: "inv s \<Longrightarrow> i < length (rows s) \<Longrightarrow> j < length (rows s) \<Longrightarrow>
    key (rows s ! i) = key (rows s ! j) \<Longrightarrow> i = j"
  using row_found by (metis option.inject)

lemma index_size: "inv s \<Longrightarrow> card (dom (index s)) = length (rows s)"
  using index_inv index_ok_card by metis

end

end
