(* ===== verification/MessagesModel.thy ===== *)
theory MessagesModel imports MessageData RowModel
begin

text \<open>
  \<open>MessagesModel\<close> (\<open>src/chat/messagesmodel.h\<close>, \<open>messagesmodel.cpp\<close>): the list of messages of
  one chat and the base class of every message list. The state is the object's fields;
  \<open>mm_outputs\<close> logs what the object emits and asks of the wrapper, each row signal with the
  message ids a view can read while it handles the signal.

  Operations that read a row through the hash return \<open>None\<close> when the read is out of range.
  The virtual functions a subclass overrides (how a message is prepared, where a batch goes,
  how a range is removed) are a record of functions, \<open>mm_virtuals\<close>: the base operations call
  them through it, as the code does.

  The lemmas show that every handler keeps the hash right (\<open>mm_ok\<close>), never reads out of
  range, and announces exactly the change it makes (\<open>mm_sync\<close>).
\<close>

section \<open>State\<close>

datatype mm_output =
  Rows row_event "int list"
| DataChanged int "msg_role list" "int list"
| ChatIdChanged
| MessageUpdated int
| MessageSendSucceeded
| EndReachedChanged
| StartReachedChanged
| LoadingChanged
| MessagesReceived int bool
| NewMessageReceived vmap
| SearchMessagesFilterChanged
| QueryChanged
| AlreadyLoaded
| NotEmptyDetected
| MaintainCountChanged
| TotalCountChanged
| ViewMessage int int bool
| SearchQueryChanged
| ContainsSponsoredMessagesChanged
| TdlibChanged
| GetChatHistory int int int int
| SearchChatMessages int string int int search_filter int int
| GetChatSponsoredMessages int
| GetChatMessageCount int search_filter
| GetMessage int int
| ProcessError vmap
| ForumTopicDataChanged
| ForumTopicIdChanged
| NameChanged
| IsGeneralChanged
| IconColorChanged
| IconCustomEmojiIdChanged
| LastReadInboxMessageIdChanged
| LastReadOutboxMessageIdChanged
| UnreadCountUpdated
| LoadFromMessageIdChanged
| GetForumTopicHistory int int int int int
| GetGroupFullInfo int bool

record mm_state =
  mm_chatId :: int
  messages :: "message_data list"
  messageIndexMap :: "int \<rightharpoonup> nat"
  albumMessageMap :: "int \<rightharpoonup> int list"
  mm_outputs :: "mm_output list"

definition mm_ids :: "'a mm_state_scheme \<Rightarrow> int list" where
  "mm_ids s = map messageId (messages s)"

definition mm_emit :: "mm_output \<Rightarrow> 'a mm_state_scheme \<Rightarrow> 'a mm_state_scheme" where
  "mm_emit out s = s\<lparr>mm_outputs := mm_outputs s @ [out]\<rparr>"

definition mm_emitRows :: "row_event \<Rightarrow> 'a mm_state_scheme \<Rightarrow> 'a mm_state_scheme" where
  "mm_emitRows e s = mm_emit (Rows e (mm_ids s)) s"

text \<open>\<open>index(row)\<close> is the invalid index, with row \<open>-1\<close>, when there is no such row.\<close>

definition mm_index :: "int \<Rightarrow> 'a mm_state_scheme \<Rightarrow> int" where
  "mm_index r s = (if 0 \<le> r \<and> r < int (length (messages s)) then r else -1)"

definition mm_dataChanged :: "int \<Rightarrow> msg_role list \<Rightarrow> 'a mm_state_scheme \<Rightarrow> 'a mm_state_scheme" where
  "mm_dataChanged r roles s = mm_emit (DataChanged (mm_index r s) roles (mm_ids s)) s"

record 's mm_virtuals =
  vt_processMessageData :: "message_data \<Rightarrow> 's \<Rightarrow> message_data"
  vt_insertMessagesAt :: "nat \<Rightarrow> message_data list \<Rightarrow> 's \<Rightarrow> 's option"
  vt_appendMessages :: "message_data list \<Rightarrow> 's \<Rightarrow> 's option"
  vt_prependMessages :: "message_data list \<Rightarrow> 's \<Rightarrow> 's option"
  vt_removeRange :: "int \<Rightarrow> int \<Rightarrow> bool \<Rightarrow> 's \<Rightarrow> 's option"
  vt_messageIsFirstInSequence :: "int \<Rightarrow> message_data \<Rightarrow> 's \<Rightarrow> bool option"
  vt_messageIsLastInSequence :: "int \<Rightarrow> message_data \<Rightarrow> 's \<Rightarrow> bool option"

section \<open>Reading\<close>

definition mm_rowCount :: "'a mm_state_scheme \<Rightarrow> nat" where
  "mm_rowCount s = length (messages s)"

definition mm_getMessage :: "int \<Rightarrow> 'a mm_state_scheme \<Rightarrow> vmap" where
  "mm_getMessage index s =
     (if 0 \<le> index \<and> index < int (length (messages s)) then messageData (messages s ! nat index)
      else fmempty)"

definition mm_getMessageIndex :: "int \<Rightarrow> 'a mm_state_scheme \<Rightarrow> int" where
  "mm_getMessageIndex msgid s = index_value (messageIndexMap s) msgid"

definition mm_getMessages :: "int list \<Rightarrow> 'a mm_state_scheme \<Rightarrow> vmap list option" where
  "mm_getMessages messageIds s =
     foldr (\<lambda>msgid found.
       case messageIndexMap s msgid of
         None \<Rightarrow> found
       | Some i \<Rightarrow> do { m \<leftarrow> qat (messages s) i; ms \<leftarrow> found; Some (messageData m # ms) })
       messageIds (Some [])"

definition mm_getMessageIdsForAlbum :: "string \<Rightarrow> 'a mm_state_scheme \<Rightarrow> int list" where
  "mm_getMessageIdsForAlbum albumId s =
     (case albumMessageMap s (string_toLongLong albumId) of None \<Rightarrow> [] | Some ids \<Rightarrow> ids)"

definition mm_getMessagesForAlbum :: "int \<Rightarrow> 'a mm_state_scheme \<Rightarrow> vmap list option" where
  "mm_getMessagesForAlbum albumId s =
     mm_getMessages (case albumMessageMap s albumId of None \<Rightarrow> [] | Some ids \<Rightarrow> ids) s"

text \<open>The values \<open>data\<close> returns, one constructor per kind of value.\<close>

datatype mm_value =
  VInvalid | VMap vmap | VInt int | VBool bool | VString string
| VVariants "qvariant list" | VIds "int list" | VMaps "vmap list"

definition mm_data :: "'a mm_state_scheme mm_virtuals \<Rightarrow> int \<Rightarrow> msg_role \<Rightarrow> 'a mm_state_scheme \<Rightarrow> mm_value option" where
  "mm_data vt row role s =
     (if 0 \<le> row \<and> row < int (length (messages s)) then
        (let m = messages s ! nat row in
         case role of
           RoleDisplay \<Rightarrow> Some (VMap (messageData m))
         | RoleMessageId \<Rightarrow> Some (VInt (messageId m))
         | RoleIsSponsored \<Rightarrow> Some (VBool (isSponsored m))
         | RoleMessageContentType \<Rightarrow> Some (VString (messageContentType m))
         | RoleMessageViewCount \<Rightarrow> Some (VInt (viewCount m))
         | RoleMessageReactions \<Rightarrow> Some (VVariants (reactions m))
         | RoleMessageAlbumEntryFilter \<Rightarrow> Some (VBool (albumEntryFilter m))
         | RoleMessageAlbumId \<Rightarrow> Some (VString (show_int (mediaAlbumId m)))
         | RoleMessageAlbumMessageIds \<Rightarrow> Some (VIds (albumMessageIds m))
         | RoleMessageAlbumMessages \<Rightarrow> map_option VMaps (mm_getMessages (albumMessageIds m) s)
         | RoleGeneratedContentUnread \<Rightarrow> Some (VBool (generatedContentUnread m))
         | RoleIsFirstInSequence \<Rightarrow> map_option VBool (vt_messageIsFirstInSequence vt row m s)
         | RoleIsLastInSequence \<Rightarrow> map_option VBool (vt_messageIsLastInSequence vt row m s))
      else Some VInvalid)"

definition mm_findLastSentMessageIndex :: "int \<Rightarrow> 'a mm_state_scheme \<Rightarrow> int" where
  "mm_findLastSentMessageIndex myUserId s =
     find_last (\<lambda>m. sender_isUser_id (senderId m) myUserId) (messages s) (length (messages s))"

section \<open>Clearing\<close>

definition mm_clear :: "'a mm_state_scheme \<Rightarrow> bool \<times> 'a mm_state_scheme" where
  "mm_clear s =
     (if messages s \<noteq> [] then
        (True, mm_emitRows ModelReset
           (s\<lparr>messages := [], messageIndexMap := Map.empty, albumMessageMap := Map.empty\<rparr>))
      else (False, s))"

text \<open>\<open>reset\<close> calls the virtual \<open>clear\<close>, passed as an argument.\<close>

definition mm_reset :: "('a mm_state_scheme \<Rightarrow> bool \<times> 'a mm_state_scheme) \<Rightarrow> 'a mm_state_scheme \<Rightarrow> 'a mm_state_scheme" where
  "mm_reset clear s =
     (let s1 = snd (clear s)
      in if mm_chatId s1 \<noteq> 0 then mm_emit ChatIdChanged (s1\<lparr>mm_chatId := 0\<rparr>) else s1)"

section \<open>Updates of one message\<close>

text \<open>Writing through the pointer at a row.\<close>

definition mm_setAt :: "nat \<Rightarrow> message_data \<Rightarrow> 'a mm_state_scheme \<Rightarrow> 'a mm_state_scheme" where
  "mm_setAt i m s = s\<lparr>messages := (messages s)[i := m]\<rparr>"

definition mm_handleMessageReceived ::
  "int \<Rightarrow> int \<Rightarrow> vmap \<Rightarrow> 'a mm_state_scheme \<Rightarrow> 'a mm_state_scheme option" where
  "mm_handleMessageReceived chatId msgid message s =
     (if chatId = mm_chatId s then
        (case messageIndexMap s msgid of
           None \<Rightarrow> Some s
         | Some position \<Rightarrow> do {
             m \<leftarrow> qat (messages s) position;
             let (changedRoles, m') = setMessageData message m;
             Some (mm_dataChanged (int position) changedRoles (mm_setAt position m' s)) })
      else Some s)"

definition mm_handleMessageSendSucceeded ::
  "'a mm_state_scheme mm_virtuals \<Rightarrow> int \<Rightarrow> int \<Rightarrow> int \<Rightarrow> vmap \<Rightarrow> 'a mm_state_scheme \<Rightarrow> 'a mm_state_scheme option" where
  "mm_handleMessageSendSucceeded vt chatId oldMessageId msgid message s =
     (if mm_chatId s = chatId then
        (case messageIndexMap s oldMessageId of
           None \<Rightarrow> Some s
         | Some pos \<Rightarrow> do {
             let s1 = s\<lparr>messageIndexMap := (messageIndexMap s)(oldMessageId := None)\<rparr>;
             oldMessage \<leftarrow> qat (messages s1) pos;
             let newMessage = (vt_processMessageData vt (newMessageData message msgid) s1)
                                \<lparr>generatedContentUnread := True\<rparr>;
             let s2 = mm_setAt pos newMessage s1;
             let s3 = s2\<lparr>messageIndexMap := (messageIndexMap s2)(oldMessageId := None, msgid \<mapsto> pos)\<rparr>;
             let changedRoles = message_diff newMessage oldMessage;
             let s4 = mm_dataChanged (int pos) changedRoles s3;
             let s5 = (if length (messages s4) - 1 > pos then
                  (let newPos = length (messages s4) - 1;
                       rows = qmove pos newPos (messages s4)
                   in mm_emitRows (RowsMoved (int pos) (int pos) (int (newPos + 1)))
                        (s4\<lparr>messages := rows,
                            messageIndexMap := reindex messageId rows pos (newPos + 1) (messageIndexMap s4)\<rparr>))
                else s4);
             Some (mm_emit (ViewMessage (mm_chatId s5) msgid False) (mm_emit MessageSendSucceeded s5)) })
      else Some s)"

text \<open>
  The shared part of the field handlers: the updater returns the changed roles and the
  message as it leaves it. The result is the message, when one was updated and reported.
\<close>

definition mm_handleMessageFieldUpdated ::
  "int \<Rightarrow> int \<Rightarrow> (message_data \<Rightarrow> msg_role list \<times> message_data) \<Rightarrow> 'a mm_state_scheme \<Rightarrow>
     (message_data option \<times> 'a mm_state_scheme) option" where
  "mm_handleMessageFieldUpdated chatId msgid updater s =
     (if mm_chatId s = chatId then
        (case messageIndexMap s msgid of
           None \<Rightarrow> Some (None, s)
         | Some pos \<Rightarrow> do {
             m \<leftarrow> qat (messages s) pos;
             let (roles, m') = updater m;
             let s1 = mm_setAt pos m' s;
             if roles = [] then Some (None, s1)
             else Some (Some m', mm_emit (MessageUpdated (int pos)) (mm_dataChanged (int pos) roles s1)) })
      else Some (None, s))"

definition mm_handleAlbumMessageUpdated :: "int \<Rightarrow> 'a mm_state_scheme \<Rightarrow> 'a mm_state_scheme" where
  "mm_handleAlbumMessageUpdated albumId s =
     (if albumId \<noteq> 0 then
        (case albumMessageMap s albumId of
           None \<Rightarrow> s
         | Some messageIds \<Rightarrow>
             if messageIds = [] then s
             else (case messageIndexMap s (min_list messageIds) of
                     None \<Rightarrow> s
                   | Some i \<Rightarrow> mm_dataChanged (int i) [RoleMessageAlbumMessages] s))
      else s)"

definition mm_handleMessageContentUpdated ::
  "int \<Rightarrow> int \<Rightarrow> vmap \<Rightarrow> 'a mm_state_scheme \<Rightarrow> (message_data option \<times> 'a mm_state_scheme) option" where
  "mm_handleMessageContentUpdated chatId msgid newContent s = do {
     (message, s1) \<leftarrow> mm_handleMessageFieldUpdated chatId msgid (setContent newContent) s;
     case message of
       None \<Rightarrow> Some (None, s1)
     | Some m \<Rightarrow> Some (Some m, mm_handleAlbumMessageUpdated (mediaAlbumId m) s1) }"

definition mm_handleMessageInteractionInfoUpdated where
  "mm_handleMessageInteractionInfoUpdated chatId msgid updatedInfo s =
     map_option snd (mm_handleMessageFieldUpdated chatId msgid (setInteractionInfo updatedInfo) s)"

definition mm_handleMessageEditedUpdated where
  "mm_handleMessageEditedUpdated chatId msgid editDate replyMarkup s =
     map_option snd (mm_handleMessageFieldUpdated chatId msgid (setEditDateReplyMarkup editDate replyMarkup) s)"

definition mm_handleMessageSuggestedPostInfoUpdated where
  "mm_handleMessageSuggestedPostInfoUpdated chatId msgid info s =
     map_option snd (mm_handleMessageFieldUpdated chatId msgid (setSuggestedPostInfo info) s)"

definition mm_handleMessageMentionRead where
  "mm_handleMessageMentionRead chatId msgid s =
     map_option snd (mm_handleMessageFieldUpdated chatId msgid setMentionRead s)"

definition mm_handleMessageContentOpened where
  "mm_handleMessageContentOpened chatId msgid s =
     map_option snd (mm_handleMessageFieldUpdated chatId msgid setContentOpened s)"

definition mm_handleMessageFactCheckUpdated where
  "mm_handleMessageFactCheckUpdated chatId msgid factCheck s =
     map_option snd (mm_handleMessageFieldUpdated chatId msgid (setFactCheck factCheck) s)"

definition mm_handleMessageIsPinnedUpdated where
  "mm_handleMessageIsPinnedUpdated chatId msgid isPinned s =
     map_option snd (mm_handleMessageFieldUpdated chatId msgid (setIsPinned isPinned) s)"

definition mm_handleMessageUnreadReactionsUpdated where
  "mm_handleMessageUnreadReactionsUpdated chatId msgid unreadReactions s =
     map_option snd (mm_handleMessageFieldUpdated chatId msgid (setUnreadReactions unreadReactions) s)"

definition mm_handleMessageContainsUnreadPollVotesUpdated where
  "mm_handleMessageContainsUnreadPollVotesUpdated chatId msgid value s =
     map_option snd (mm_handleMessageFieldUpdated chatId msgid (setContainsUnreadPollVotes value) s)"

definition mm_handleMessageEphemeralContentUpdated where
  "mm_handleMessageEphemeralContentUpdated chatId msgid ephemeralContent s =
     map_option snd (mm_handleMessageFieldUpdated chatId msgid (setEphemeralContent ephemeralContent) s)"

definition mm_markGeneratedContentAsRead :: "int \<Rightarrow> 'a mm_state_scheme \<Rightarrow> 'a mm_state_scheme" where
  "mm_markGeneratedContentAsRead i s =
     (if 0 \<le> i \<and> i < int (length (messages s)) then
        (let m = messages s ! nat i in
         if generatedContentUnread m then
           mm_dataChanged i [RoleGeneratedContentUnread]
             (mm_setAt (nat i) (m\<lparr>generatedContentUnread := False\<rparr>) s)
         else s)
      else s)"

section \<open>Albums\<close>

text \<open>
  The loop over the sorted ids of one album: the first id is the main entry and shows the
  whole album, the others are filtered out of the view.
\<close>

fun mm_updateAlbumMessages_loop ::
  "int list \<Rightarrow> bool \<Rightarrow> int list \<Rightarrow> 'a mm_state_scheme \<Rightarrow> 'a mm_state_scheme option" where
  "mm_updateAlbumMessages_loop messageIds isMain [] s = Some s"
| "mm_updateAlbumMessages_loop messageIds isMain (msgid # rest) s =
     (case messageIndexMap s msgid of
        None \<Rightarrow> mm_updateAlbumMessages_loop messageIds False rest s
      | Some position \<Rightarrow> do {
          m \<leftarrow> qat (messages s) position;
          let (roles1, m1) = setAlbumEntryFilter (\<not> isMain) m;
          let (roles2, m2) = setAlbumEntryMessageIds (if isMain then messageIds else []) m1;
          mm_updateAlbumMessages_loop messageIds False rest
            (mm_dataChanged (int position) (roles1 @ roles2) (mm_setAt position m2 s)) })"

definition mm_updateAlbumMessages :: "int \<Rightarrow> bool \<Rightarrow> 'a mm_state_scheme \<Rightarrow> 'a mm_state_scheme option" where
  "mm_updateAlbumMessages albumId checkDeleted s =
     (case albumMessageMap s albumId of
        None \<Rightarrow> Some s
      | Some ids \<Rightarrow> do {
          let sorted = sort ids;
          let messageIds = (if checkDeleted then filter (\<lambda>i. messageIndexMap s i \<noteq> None) sorted else sorted);
          s1 \<leftarrow> (if messageIds = [] then Some (s\<lparr>albumMessageMap := (albumMessageMap s)(albumId := None)\<rparr>)
                 else mm_updateAlbumMessages_loop messageIds True messageIds s);
          Some (s1\<lparr>albumMessageMap := (albumMessageMap s1)(albumId \<mapsto> messageIds)\<rparr>) })"

fun mm_updateAlbums :: "int list \<Rightarrow> bool \<Rightarrow> 'a mm_state_scheme \<Rightarrow> 'a mm_state_scheme option" where
  "mm_updateAlbums [] checkDeleted s = Some s"
| "mm_updateAlbums (a # as) checkDeleted s =
     do { s1 \<leftarrow> mm_updateAlbumMessages a checkDeleted s; mm_updateAlbums as checkDeleted s1 }"

definition mm_setMessageAlbum :: "message_data \<Rightarrow> 'a mm_state_scheme \<Rightarrow> 'a mm_state_scheme option" where
  "mm_setMessageAlbum message s =
     (let albumId = mediaAlbumId message in
      if albumId \<noteq> 0 then
        (let msgid = messageId message;
             messageIds = (case albumMessageMap s albumId of
                             None \<Rightarrow> [msgid]
                           | Some ids \<Rightarrow> if msgid \<in> set ids then ids else ids @ [msgid])
         in mm_updateAlbumMessages albumId False
              (s\<lparr>albumMessageMap := (albumMessageMap s)(albumId \<mapsto> messageIds)\<rparr>))
      else Some s)"

text \<open>
  The caller passes pointers to messages that are in the list already. The loop reads their
  id and album id only, and the album updates write neither, so the values stay right.
\<close>

fun mm_setMessagesAlbum :: "message_data list \<Rightarrow> 'a mm_state_scheme \<Rightarrow> 'a mm_state_scheme option" where
  "mm_setMessagesAlbum [] s = Some s"
| "mm_setMessagesAlbum (m # ms) s = do { s1 \<leftarrow> mm_setMessageAlbum m s; mm_setMessagesAlbum ms s1 }"

section \<open>Removing rows\<close>

text \<open>
  The loop over the rows \<open>first..last\<close>: it forgets each message in the hash and collects the
  albums to scan again.
\<close>

fun mm_removeRange_loop ::
  "nat list \<Rightarrow> 'a mm_state_scheme \<Rightarrow> ((int \<rightharpoonup> nat) \<times> int list) \<Rightarrow> ((int \<rightharpoonup> nat) \<times> int list) option" where
  "mm_removeRange_loop [] s (m, rescan) = Some (m, rescan)"
| "mm_removeRange_loop (i # is) s (m, rescan) = do {
     message \<leftarrow> qat (messages s) i;
     let albumId = mediaAlbumId message;
     mm_removeRange_loop is s
       (m(messageId message := None),
        if albumId \<noteq> 0 \<and> albumMessageMap s albumId \<noteq> None then rescan @ [albumId] else rescan) }"

definition mm_removeRange :: "int \<Rightarrow> int \<Rightarrow> bool \<Rightarrow> 'a mm_state_scheme \<Rightarrow> 'a mm_state_scheme option" where
  "mm_removeRange firstDeleted lastDeleted updateAlbums s =
     (if 0 \<le> firstDeleted \<and> firstDeleted \<le> lastDeleted then do {
        let first = nat firstDeleted;
        let last = nat lastDeleted;
        (m, rescanAlbumIds) \<leftarrow> mm_removeRange_loop [first..<Suc last] s (messageIndexMap s, []);
        let rows = remove_slice first last (messages s);
        let s1 = mm_emitRows (RowsRemoved firstDeleted lastDeleted)
                   (s\<lparr>messages := rows, messageIndexMap := reindex messageId rows first (length rows) m\<rparr>);
        if updateAlbums then mm_updateAlbums rescanAlbumIds True s1 else Some s1 }
      else Some s)"

text \<open>
  The loop of \<open>handleMessagesDeleted\<close>, over the ids in the order it visits them. \<open>cnt\<close>, the
  number (\<open>count\<close>) of ids, also stands for "no range yet".
\<close>

fun mm_deleted_loop ::
  "(int \<Rightarrow> int \<Rightarrow> 'a mm_state_scheme \<Rightarrow> 'a mm_state_scheme option) \<Rightarrow> int \<Rightarrow> int list \<Rightarrow> int \<Rightarrow> int \<Rightarrow>
     'a mm_state_scheme \<Rightarrow> (int \<times> int \<times> 'a mm_state_scheme) option" where
  "mm_deleted_loop removeRange cnt [] firstPosition lastPosition s = Some (firstPosition, lastPosition, s)"
| "mm_deleted_loop removeRange cnt (msgid # rest) firstPosition lastPosition s =
     (let position = index_value (messageIndexMap s) msgid in
      if position \<ge> 0 then
        (let lastPos = (if lastPosition = cnt then position else lastPosition);
             firstPos = (if firstPosition = cnt then position else firstPosition)
         in if position < firstPos - 1 then do {
              s1 \<leftarrow> removeRange firstPos lastPos s;
              mm_deleted_loop removeRange cnt rest position position s1 }
            else mm_deleted_loop removeRange cnt rest position lastPos s)
      else mm_deleted_loop removeRange cnt rest firstPosition lastPosition s)"

definition mm_deleted ::
  "(int \<Rightarrow> int \<Rightarrow> 'a mm_state_scheme \<Rightarrow> 'a mm_state_scheme option) \<Rightarrow> int list \<Rightarrow>
     'a mm_state_scheme \<Rightarrow> 'a mm_state_scheme option" where
  "mm_deleted removeRange visited s = do {
     let cnt = int (length visited);
     (firstPosition, lastPosition, s1) \<leftarrow> mm_deleted_loop removeRange cnt visited cnt cnt s;
     if firstPosition \<noteq> cnt \<and> lastPosition \<noteq> cnt then removeRange firstPosition lastPosition s1
     else Some s1 }"

definition mm_handleMessagesDeleted ::
  "'a mm_state_scheme mm_virtuals \<Rightarrow> int \<Rightarrow> int list \<Rightarrow> 'a mm_state_scheme \<Rightarrow> 'a mm_state_scheme option" where
  "mm_handleMessagesDeleted vt chatId messageIds s =
     (if chatId = mm_chatId s
      then mm_deleted (\<lambda>first last. vt_removeRange vt first last True) (rev messageIds) s
      else Some s)"

definition mm_removeMessage :: "int \<Rightarrow> 'a mm_state_scheme \<Rightarrow> 'a mm_state_scheme option" where
  "mm_removeMessage msgid s =
     (case messageIndexMap s msgid of
        None \<Rightarrow> Some s
      | Some i \<Rightarrow>
          if i < length (messages s) then
            Some (mm_emitRows (RowsRemoved (int i) (int i))
              (s\<lparr>messages := remove_at i (messages s),
                 messageIndexMap := (messageIndexMap s)(msgid := None)\<rparr>))
          else None)"

section \<open>Inserting rows\<close>

text \<open>There is no bulk insertion: the rows go in one at a time, each with its hash entry.\<close>

fun mm_insert_loop ::
  "nat \<Rightarrow> message_data list \<Rightarrow> message_data list \<Rightarrow> (int \<rightharpoonup> nat) \<Rightarrow> message_data list \<times> (int \<rightharpoonup> nat)" where
  "mm_insert_loop i [] rows m = (rows, m)"
| "mm_insert_loop i (new # news) rows m =
     mm_insert_loop (Suc i) news (insert_at i new rows) (m(messageId new \<mapsto> i))"

definition mm_insertAt :: "nat \<Rightarrow> message_data list \<Rightarrow> 'a mm_state_scheme \<Rightarrow> 'a mm_state_scheme" where
  "mm_insertAt insertIndex newMessages s =
     (let insertCount = length newMessages;
          totalCount = length (messages s) + insertCount;
          (rows, m) = mm_insert_loop insertIndex newMessages (messages s) (messageIndexMap s)
      in mm_emitRows (RowsInserted (int insertIndex) (int insertIndex + int insertCount - 1))
           (s\<lparr>messages := rows,
              messageIndexMap := reindex messageId rows (insertIndex + insertCount) totalCount m\<rparr>))"

text \<open>\<open>QList::insert\<close> needs an index that is at most the size.\<close>

definition mm_insertMessagesAt :: "nat \<Rightarrow> message_data list \<Rightarrow> 'a mm_state_scheme \<Rightarrow> 'a mm_state_scheme option" where
  "mm_insertMessagesAt insertIndex newMessages s =
     (if insertIndex \<le> length (messages s) then Some (mm_insertAt insertIndex newMessages s) else None)"

definition mm_prependMessages :: "message_data list \<Rightarrow> 'a mm_state_scheme \<Rightarrow> 'a mm_state_scheme" where
  "mm_prependMessages newMessages s = mm_insertAt 0 newMessages s"

definition mm_appendMessages :: "message_data list \<Rightarrow> 'a mm_state_scheme \<Rightarrow> 'a mm_state_scheme" where
  "mm_appendMessages newMessages s =
     (let oldSize = length (messages s); cnt = length newMessages;
          rows = messages s @ newMessages
      in mm_emitRows (RowsInserted (int oldSize) (int oldSize + int cnt - 1))
           (s\<lparr>messages := rows,
              messageIndexMap :=
                fold (\<lambda>i m. m(messageId (newMessages ! i) \<mapsto> oldSize + i)) [0..<cnt] (messageIndexMap s)\<rparr>))"

definition mm_lastKnownId :: "message_data list \<Rightarrow> int" where
  "mm_lastKnownId rows =
     (let i = find_last (\<lambda>m. \<not> isSponsored m) rows (length rows)
      in if 0 \<le> i then messageId (rows ! nat i) else -1)"

definition mm_insertMessages ::
  "'a mm_state_scheme mm_virtuals \<Rightarrow> message_data list \<Rightarrow> 'a mm_state_scheme \<Rightarrow> 'a mm_state_scheme option" where
  "mm_insertMessages vt newMessages s =
     (if messages s = [] then vt_appendMessages vt newMessages s
      else if newMessages \<noteq> [] then
        (if mm_lastKnownId (messages s) < messageId (hd newMessages)
         then vt_appendMessages vt newMessages s
         else vt_prependMessages vt newMessages s)
      else Some s)"

text \<open>
  \<open>newMessagesList\<close> comes in empty from every caller; the second component of the result is
  the list as the caller sees it afterwards. \<open>messages.size()\<close> is the size of the argument,
  which shadows the member.
\<close>

definition mm_newMessages ::
  "'a mm_state_scheme mm_virtuals \<Rightarrow> vmap list \<Rightarrow> 'a mm_state_scheme \<Rightarrow> message_data list" where
  "mm_newMessages vt received s =
     map (\<lambda>d. vt_processMessageData vt (newMessageData d (toLongLong (mvalue d ''id''))) s)
       (filter (\<lambda>d. toLongLong (mvalue d ''id'') \<noteq> 0 \<and> toLongLong (mvalue d ''chat_id'') = mm_chatId s
                    \<and> messageIndexMap s (toLongLong (mvalue d ''id'')) = None) received)"

definition mm_handleInsertMessages ::
  "'a mm_state_scheme mm_virtuals \<Rightarrow> vmap list \<Rightarrow> bool \<Rightarrow> bool \<Rightarrow> 'a mm_state_scheme \<Rightarrow>
     (bool \<times> message_data list \<times> 'a mm_state_scheme) option" where
  "mm_handleInsertMessages vt received setAlbum reverseOrder s = do {
     let newMessagesList = std_sort (if reverseOrder then moreThan else lessThan) (mm_newMessages vt received s);
     s1 \<leftarrow> (if newMessagesList \<noteq> [] then do {
              s1 \<leftarrow> mm_insertMessages vt newMessagesList s;
              if setAlbum then mm_setMessagesAlbum newMessagesList s1 else Some s1 }
            else Some s);
     let reloadNeeded = (newMessagesList \<noteq> [] \<and> length newMessagesList + length received < 10);
     Some (reloadNeeded, newMessagesList, s1) }"

definition mm_base :: "'a mm_state_scheme mm_virtuals" where
  "mm_base = \<lparr>vt_processMessageData = (\<lambda>m s. m), vt_insertMessagesAt = mm_insertMessagesAt,
     vt_appendMessages = (\<lambda>new s. Some (mm_appendMessages new s)),
     vt_prependMessages = (\<lambda>new s. Some (mm_prependMessages new s)),
     vt_removeRange = mm_removeRange,
     vt_messageIsFirstInSequence = (\<lambda>i m s. Some True),
     vt_messageIsLastInSequence = (\<lambda>i m s. Some True)\<rparr>"

section \<open>The invariant, and what a view sees\<close>

definition mm_ok :: "'a mm_state_scheme \<Rightarrow> bool" where
  "mm_ok s \<longleftrightarrow> index_ok messageId (messages s) (messageIndexMap s)"

interpretation mm_rows: row_index "messages :: 'a mm_state_scheme \<Rightarrow> message_data list" messageId messageIndexMap mm_ok
  by unfold_locales (simp add: mm_ok_def)

text \<open>A view of the ids re-reads a row when the id is among the changed roles.\<close>

fun view_output :: "mm_output \<Rightarrow> int list \<Rightarrow> int list" where
  "view_output (Rows e rows) view = view_step rows e view"
| "view_output (DataChanged r roles rows) view =
     (if RoleMessageId \<in> set roles then view_step rows (RowChanged r) view else view)"
| "view_output _ view = view"

definition mm_sync :: "'a mm_state_scheme \<Rightarrow> 'b mm_state_scheme \<Rightarrow> bool" where
  "mm_sync s s' \<longleftrightarrow>
     (\<exists>new. mm_outputs s' = mm_outputs s @ new \<and> fold view_output new (mm_ids s) = mm_ids s')"

text \<open>The steps that keep the rows: the ids, the hash and the chat are as before.\<close>

definition mm_same :: "'a mm_state_scheme \<Rightarrow> 'a mm_state_scheme \<Rightarrow> bool" where
  "mm_same s s' \<longleftrightarrow> mm_ids s' = mm_ids s \<and> messageIndexMap s' = messageIndexMap s \<and>
     mm_chatId s' = mm_chatId s \<and> mm_sync s s'"

lemma mm_ok_ids: "mm_ok s \<longleftrightarrow> index_ok (\<lambda>i. i) (mm_ids s) (messageIndexMap s)"
  by (auto simp: mm_ok_def mm_ids_def index_ok_def)

lemma mm_emit_fields [simp]:
  "messages (mm_emit out s) = messages s" "messageIndexMap (mm_emit out s) = messageIndexMap s"
  "albumMessageMap (mm_emit out s) = albumMessageMap s" "mm_chatId (mm_emit out s) = mm_chatId s"
  "mm_outputs (mm_emit out s) = mm_outputs s @ [out]" "mm_ids (mm_emit out s) = mm_ids s"
  by (simp_all add: mm_emit_def mm_ids_def)

lemma mm_emitRows_fields [simp]:
  "messages (mm_emitRows e s) = messages s" "messageIndexMap (mm_emitRows e s) = messageIndexMap s"
  "albumMessageMap (mm_emitRows e s) = albumMessageMap s" "mm_chatId (mm_emitRows e s) = mm_chatId s"
  "mm_outputs (mm_emitRows e s) = mm_outputs s @ [Rows e (mm_ids s)]" "mm_ids (mm_emitRows e s) = mm_ids s"
  by (simp_all add: mm_emitRows_def)

lemma mm_dataChanged_fields [simp]:
  "messages (mm_dataChanged r roles s) = messages s"
  "messageIndexMap (mm_dataChanged r roles s) = messageIndexMap s"
  "albumMessageMap (mm_dataChanged r roles s) = albumMessageMap s"
  "mm_chatId (mm_dataChanged r roles s) = mm_chatId s" "mm_ids (mm_dataChanged r roles s) = mm_ids s"
  "mm_outputs (mm_dataChanged r roles s) = mm_outputs s @ [DataChanged (mm_index r s) roles (mm_ids s)]"
  by (simp_all add: mm_dataChanged_def)

lemma mm_setAt_fields [simp]:
  "messages (mm_setAt i m s) = (messages s)[i := m]"
  "messageIndexMap (mm_setAt i m s) = messageIndexMap s"
  "albumMessageMap (mm_setAt i m s) = albumMessageMap s" "mm_chatId (mm_setAt i m s) = mm_chatId s"
  "mm_outputs (mm_setAt i m s) = mm_outputs s"
  by (simp_all add: mm_setAt_def)

lemma mm_ids_setAt [simp]: "messageId m = messageId (messages s ! i) \<Longrightarrow> mm_ids (mm_setAt i m s) = mm_ids s"
  by (simp add: mm_ids_def map_update_same)

lemma length_mm_ids [simp]: "length (mm_ids s) = length (messages s)"
  by (simp add: mm_ids_def)

lemma mm_sync_refl [simp]: "mm_sync s s"
  by (simp add: mm_sync_def)

lemma mm_sync_trans: "mm_sync s t \<Longrightarrow> mm_sync t u \<Longrightarrow> mm_sync s u"
  by (auto simp: mm_sync_def)

lemma mm_sync_quiet:
  "mm_sync s t \<Longrightarrow> mm_ids u = mm_ids t \<Longrightarrow> mm_outputs u = mm_outputs t \<Longrightarrow> mm_sync s u"
  by (simp add: mm_sync_def)

lemma mm_sync_dataChanged [intro]: "mm_sync s t \<Longrightarrow> mm_sync s (mm_dataChanged r roles t)"
  by (auto simp: mm_sync_def simp del: view_step.simps)

lemma mm_sync_emit [intro]: "mm_sync s t \<Longrightarrow> (\<And>v. view_output out v = v) \<Longrightarrow> mm_sync s (mm_emit out t)"
  by (auto simp: mm_sync_def)

lemma mm_sync_rows:
  "mm_outputs t = mm_outputs s \<Longrightarrow> view_step (mm_ids t) e (mm_ids s) = mm_ids t \<Longrightarrow>
     mm_sync s (mm_emitRows e t)"
  by (auto simp: mm_sync_def)

lemma mm_same_refl [simp]: "mm_same s s"
  by (simp add: mm_same_def)

lemma mm_same_trans: "mm_same s t \<Longrightarrow> mm_same t u \<Longrightarrow> mm_same s u"
  by (auto simp: mm_same_def intro: mm_sync_trans)

lemma mm_same_ok: "mm_same s t \<Longrightarrow> mm_ok t \<longleftrightarrow> mm_ok s"
  by (simp add: mm_same_def mm_ok_ids)

lemma mm_same_sync: "mm_same s t \<Longrightarrow> mm_sync s t"
  by (simp add: mm_same_def)

lemma mm_same_dataChanged: "mm_same s t \<Longrightarrow> mm_same s (mm_dataChanged r roles t)"
  by (auto simp: mm_same_def)

lemma mm_same_emit: "mm_same s t \<Longrightarrow> (\<And>v. view_output out v = v) \<Longrightarrow> mm_same s (mm_emit out t)"
  by (auto simp: mm_same_def)

lemma mm_same_setAt: "messageId m = messageId (messages s ! i) \<Longrightarrow> mm_same s (mm_setAt i m s)"
  by (auto simp: mm_same_def mm_sync_def)

lemma mm_same_albums: "mm_same s t \<Longrightarrow> mm_same s (t\<lparr>albumMessageMap := a\<rparr>)"
  by (auto simp: mm_same_def mm_ids_def intro: mm_sync_quiet)

lemmas mm_same_intros = mm_same_refl mm_same_dataChanged mm_same_emit mm_same_setAt mm_same_albums

section \<open>Updates keep the rows\<close>

lemma mm_handleMessageReceived_same:
  assumes ok: "mm_ok s"
  shows "\<exists>s'. mm_handleMessageReceived c msgid d s = Some s' \<and> mm_same s s'"
proof (cases "messageIndexMap s msgid")
  case (Some i)
  moreover have "i < length (messages s)" using mm_rows.found_row [OF ok Some] by simp
  moreover have "messageId (snd (setMessageData d (messages s ! i))) = messageId (messages s ! i)" by simp
  ultimately show ?thesis
    by (simp add: mm_handleMessageReceived_def case_prod_beta mm_same_intros)
qed (simp add: mm_handleMessageReceived_def)

text \<open>Every updater the handlers pass is one of the setters, which cover what they change.\<close>

lemma mm_handleMessageFieldUpdated_same:
  assumes ok: "mm_ok s" and upd: "\<And>m. roles_cover m (updater m)"
  shows "\<exists>r s'. mm_handleMessageFieldUpdated c msgid updater s = Some (r, s') \<and> mm_same s s'"
proof (cases "messageIndexMap s msgid")
  case (Some i)
  moreover have "i < length (messages s)" using mm_rows.found_row [OF ok Some] by simp
  moreover have "messageId (snd (updater (messages s ! i))) = messageId (messages s ! i)"
    using upd by (rule roles_cover_messageId)
  ultimately show ?thesis
    by (simp add: mm_handleMessageFieldUpdated_def case_prod_beta Let_def mm_same_intros)
qed (simp add: mm_handleMessageFieldUpdated_def)

lemma mm_handleAlbumMessageUpdated_same: "mm_same s (mm_handleAlbumMessageUpdated a s)"
  by (auto simp: mm_handleAlbumMessageUpdated_def split: option.splits intro!: mm_same_intros)

lemma mm_handleMessageContentUpdated_same:
  assumes ok: "mm_ok s"
  shows "\<exists>r s'. mm_handleMessageContentUpdated c msgid d s = Some (r, s') \<and> mm_same s s'"
proof -
  obtain r s1 where 1: "mm_handleMessageFieldUpdated c msgid (setContent d) s = Some (r, s1)" "mm_same s s1"
    using mm_handleMessageFieldUpdated_same [OF ok, of "setContent d"] cover_setContent by blast
  then show ?thesis
    by (cases r) (auto simp: mm_handleMessageContentUpdated_def
        intro: mm_same_trans [OF _ mm_handleAlbumMessageUpdated_same])
qed

lemma mm_updateAlbumMessages_loop_same:
  "mm_ok s \<Longrightarrow> \<exists>s'. mm_updateAlbumMessages_loop ids isMain rest s = Some s' \<and> mm_same s s'"
proof (induction rest arbitrary: isMain s)
  case (Cons i rest)
  show ?case
  proof (cases "messageIndexMap s i")
    case None
    with Cons show ?thesis by simp
  next
    case (Some p)
    let ?m = "messages s ! p"
    let ?u = "setAlbumEntryFilter (\<not> isMain) ?m"
    let ?v = "setAlbumEntryMessageIds (if isMain then ids else []) (snd ?u)"
    let ?t = "mm_dataChanged (int p) (fst ?u @ fst ?v) (mm_setAt p (snd ?v) s)"
    have p: "p < length (messages s)" using mm_rows.found_row [OF Cons.prems Some] by simp
    have same: "mm_same s ?t" by (intro mm_same_intros) simp
    with Cons.prems have "mm_ok ?t" by (simp add: mm_same_ok)
    from Cons.IH [OF this, of False] same obtain s' where
      "mm_updateAlbumMessages_loop ids False rest ?t = Some s'" "mm_same s s'"
      using mm_same_trans by blast
    with Some p show ?thesis by (simp add: case_prod_beta)
  qed
qed simp

lemma mm_updateAlbumMessages_same:
  assumes ok: "mm_ok s"
  shows "\<exists>s'. mm_updateAlbumMessages a b s = Some s' \<and> mm_same s s'"
proof (cases "albumMessageMap s a")
  case (Some ids)
  let ?ids = "if b then filter (\<lambda>i. messageIndexMap s i \<noteq> None) (sort ids) else sort ids"
  obtain s' where "mm_updateAlbumMessages_loop ?ids True ?ids s = Some s'" "mm_same s s'"
    using mm_updateAlbumMessages_loop_same [OF ok] by blast
  with Some show ?thesis
    by (auto simp: mm_updateAlbumMessages_def Let_def intro: mm_same_intros)
qed (simp add: mm_updateAlbumMessages_def)

lemma mm_updateAlbums_same: "mm_ok s \<Longrightarrow> \<exists>s'. mm_updateAlbums as b s = Some s' \<and> mm_same s s'"
proof (induction as arbitrary: s)
  case (Cons a as)
  obtain t where t: "mm_updateAlbumMessages a b s = Some t" "mm_same s t"
    using mm_updateAlbumMessages_same [OF Cons.prems] by blast
  with Cons.IH [of t] Cons.prems mm_same_ok [of s t] mm_same_trans show ?case by fastforce
qed simp

lemma mm_setMessageAlbum_same:
  assumes ok: "mm_ok s"
  shows "\<exists>s'. mm_setMessageAlbum m s = Some s' \<and> mm_same s s'"
proof -
  let ?t = "\<lambda>a. s\<lparr>albumMessageMap := a\<rparr>"
  have same: "mm_same s (?t a)" for a by (intro mm_same_intros)
  with ok have "mm_ok (?t a)" for a using mm_same_ok by blast
  then have "\<exists>s'. mm_updateAlbumMessages x b (?t a) = Some s' \<and> mm_same s s'" for a x b
    using mm_updateAlbumMessages_same mm_same_trans same by blast
  then show ?thesis by (simp add: mm_setMessageAlbum_def Let_def)
qed

lemma mm_setMessagesAlbum_same: "mm_ok s \<Longrightarrow> \<exists>s'. mm_setMessagesAlbum ms s = Some s' \<and> mm_same s s'"
proof (induction ms arbitrary: s)
  case (Cons m ms)
  obtain t where t: "mm_setMessageAlbum m s = Some t" "mm_same s t"
    using mm_setMessageAlbum_same [OF Cons.prems] by blast
  with Cons.IH [of t] Cons.prems mm_same_ok [of s t] mm_same_trans show ?case by fastforce
qed simp

lemma mm_markGeneratedContentAsRead_same: "mm_same s (mm_markGeneratedContentAsRead i s)"
  by (auto simp: mm_markGeneratedContentAsRead_def Let_def intro!: mm_same_intros)

definition mm_keeps :: "'a mm_state_scheme \<Rightarrow> 'a mm_state_scheme option \<Rightarrow> bool" where
  "mm_keeps s r \<longleftrightarrow> (\<exists>s'. r = Some s' \<and> mm_same s s')"

lemma mm_keeps_field:
  "mm_ok s \<Longrightarrow> (\<And>m. roles_cover m (updater m)) \<Longrightarrow>
     mm_keeps s (map_option snd (mm_handleMessageFieldUpdated c i updater s))"
  using mm_handleMessageFieldUpdated_same [of s updater c i] by (auto simp: mm_keeps_def)

lemmas mm_field_handlers =
  mm_handleMessageInteractionInfoUpdated_def mm_handleMessageEditedUpdated_def
  mm_handleMessageSuggestedPostInfoUpdated_def mm_handleMessageMentionRead_def
  mm_handleMessageContentOpened_def mm_handleMessageFactCheckUpdated_def
  mm_handleMessageIsPinnedUpdated_def mm_handleMessageUnreadReactionsUpdated_def
  mm_handleMessageContainsUnreadPollVotesUpdated_def mm_handleMessageEphemeralContentUpdated_def

section \<open>What the album loop leaves\<close>

text \<open>The message with the given id, as the hash finds it.\<close>

definition mm_message :: "'a mm_state_scheme \<Rightarrow> int \<Rightarrow> message_data option" where
  "mm_message s i = (case messageIndexMap s i of None \<Rightarrow> None | Some p \<Rightarrow> qat (messages s) p)"

definition album_entry :: "int list \<Rightarrow> bool \<Rightarrow> message_data \<Rightarrow> message_data" where
  "album_entry ids isMain m =
     m\<lparr>albumEntryFilter := \<not> isMain, albumMessageIds := (if isMain then ids else [])\<rparr>"

lemma set_album_entry:
  "snd (setAlbumEntryMessageIds (if isMain then ids else []) (snd (setAlbumEntryFilter (\<not> isMain) m))) =
   album_entry ids isMain m"
  by (simp add: setAlbumEntryMessageIds_def setAlbumEntryFilter_def md_update_defs album_entry_def)

lemma mm_message_setAt:
  assumes ok: "mm_ok s" and p: "messageIndexMap s i = Some p"
  shows "mm_message (mm_setAt p m s) j = (if j = i then Some m else mm_message s j)"
  using mm_rows.found_row [OF ok p] mm_rows.found_row [OF ok, of j]
  by (auto simp: mm_message_def p qat_def nth_list_update split: option.splits)

lemma mm_message_dataChanged [simp]: "mm_message (mm_dataChanged r roles s) = mm_message s"
  by (rule ext) (simp add: mm_message_def split: option.split)

lemma mm_updateAlbumMessages_loop_result:
  "mm_ok s \<Longrightarrow> distinct rest \<Longrightarrow>
     \<exists>s'. mm_updateAlbumMessages_loop ids isMain rest s = Some s' \<and>
       (\<forall>j. mm_message s' j =
          (if j \<in> set rest then map_option (album_entry ids (isMain \<and> j = hd rest)) (mm_message s j)
           else mm_message s j))"
proof (induction rest arbitrary: isMain s)
  case (Cons i rest)
  show ?case
  proof (cases "messageIndexMap s i")
    case None
    then have none: "mm_message s i = None" by (simp add: mm_message_def)
    obtain s' where s': "mm_updateAlbumMessages_loop ids False rest s = Some s'"
      "\<And>j. mm_message s' j = (if j \<in> set rest then map_option (album_entry ids False) (mm_message s j) else mm_message s j)"
      using Cons.IH [of s False] Cons.prems by auto
    have "mm_message s' j =
        (if j \<in> set (i # rest) then map_option (album_entry ids (isMain \<and> j = hd (i # rest))) (mm_message s j)
         else mm_message s j)" for j
      using none Cons.prems(2) s'(2) [of j] by (cases "j = i"; cases "j \<in> set rest") simp_all
    then show ?thesis using None s'(1) by simp
  next
    case (Some p)
    let ?m = "messages s ! p"
    let ?u = "setAlbumEntryFilter (\<not> isMain) ?m"
    let ?v = "setAlbumEntryMessageIds (if isMain then ids else []) (snd ?u)"
    let ?t = "mm_dataChanged (int p) (fst ?u @ fst ?v) (mm_setAt p (album_entry ids isMain ?m) s)"
    have p: "p < length (messages s)" using mm_rows.found_row [OF Cons.prems(1) Some] by simp
    have v: "snd ?v = album_entry ids isMain ?m" by (rule set_album_entry)
    have "messageId (album_entry ids isMain ?m) = messageId ?m" by (simp add: album_entry_def)
    then have "mm_same s ?t" by (intro mm_same_intros)
    with Cons.prems have "mm_ok ?t" by (simp add: mm_same_ok)
    with Cons.IH [of ?t False] Cons.prems obtain s' where
      s': "mm_updateAlbumMessages_loop ids False rest ?t = Some s'"
      "\<And>j. mm_message s' j = (if j \<in> set rest then map_option (album_entry ids False) (mm_message ?t j) else mm_message ?t j)"
      by auto
    have at: "mm_message ?t j = (if j = i then Some (album_entry ids isMain ?m) else mm_message s j)" for j
      using mm_message_setAt [OF Cons.prems(1) Some] by simp
    have "mm_message s i = Some ?m" using Some p by (simp add: mm_message_def)
    then have "mm_message s' j =
        (if j \<in> set (i # rest) then map_option (album_entry ids (isMain \<and> j = hd (i # rest))) (mm_message s j)
         else mm_message s j)" for j
      using Cons.prems(2) s'(2) [of j] at [of j]
      by (cases "j = i"; cases "j \<in> set rest") (simp_all del: mm_message_dataChanged)
    moreover have "mm_updateAlbumMessages_loop ids isMain (i # rest) s = Some s'"
      using Some p s'(1) by (simp add: case_prod_beta v)
    ultimately show ?thesis by blast
  qed
qed simp

lemma mm_updateAlbumMessages_result:
  assumes ok: "mm_ok s" and ids: "albumMessageMap s a = Some ids" "distinct ids"
    and known: "filter (\<lambda>i. messageIndexMap s i \<noteq> None) (sort ids) = i # rest"
  shows "\<exists>s'. mm_updateAlbumMessages a True s = Some s' \<and> mm_same s s' \<and>
    albumMessageMap s' a = Some (i # rest) \<and>
    (\<forall>j. mm_message s' j =
       (if j = i then map_option (album_entry (i # rest) True) (mm_message s j)
        else if j \<in> set rest then map_option (album_entry (i # rest) False) (mm_message s j)
        else mm_message s j))"
proof -
  have "distinct (i # rest)" unfolding known [symmetric] using ids by simp
  with mm_updateAlbumMessages_loop_result [OF ok this, of "i # rest" True]
    mm_updateAlbumMessages_loop_same [OF ok, of "i # rest" True "i # rest"]
  obtain s' where "mm_updateAlbumMessages_loop (i # rest) True (i # rest) s = Some s'" "mm_same s s'"
    "\<And>j. mm_message s' j =
       (if j = i then map_option (album_entry (i # rest) True) (mm_message s j)
        else if j \<in> set rest then map_option (album_entry (i # rest) False) (mm_message s j)
        else mm_message s j)" by auto
  moreover have "mm_updateAlbumMessages a True s =
      map_option (\<lambda>t. t\<lparr>albumMessageMap := (albumMessageMap t)(a \<mapsto> i # rest)\<rparr>)
        (mm_updateAlbumMessages_loop (i # rest) True (i # rest) s)"
    using ids known by (simp add: mm_updateAlbumMessages_def map_option_case split: option.split
        del: mm_updateAlbumMessages_loop.simps)
  moreover have "mm_message (t\<lparr>albumMessageMap := m\<rparr>) = mm_message t" for t :: "'a mm_state_scheme" and m
    by (rule ext) (simp add: mm_message_def split: option.split)
  ultimately show ?thesis
    by (auto simp: mm_same_albums simp del: mm_updateAlbumMessages_loop.simps)
qed

section \<open>Inserting and removing change the rows as announced\<close>

lemma mm_insert_loop_rows:
  "i \<le> length rows \<Longrightarrow> fst (mm_insert_loop i new rows m) = take i rows @ new @ drop i rows"
proof (induction new arbitrary: i rows m)
  case (Cons n new)
  then have "fst (mm_insert_loop i (n # new) rows m) =
      take (Suc i) (insert_at i n rows) @ new @ drop (Suc i) (insert_at i n rows)"
    by (simp del: insert_at_def)
  with Cons.prems show ?case by (simp add: insert_at_def min_def)
qed simp

lemma mm_insert_loop_index:
  "i \<le> length rows \<Longrightarrow>
     snd (mm_insert_loop i new rows m) =
     reindex messageId (take i rows @ new @ drop i rows) i (i + length new) m"
proof (induction new arbitrary: i rows m)
  case (Cons n new)
  then have "take (Suc i) (insert_at i n rows) @ new @ drop (Suc i) (insert_at i n rows) =
      take i rows @ (n # new) @ drop i rows"
    by (simp add: insert_at_def min_def)
  with Cons show ?case by (simp add: reindex_first nth_append fun_upd_def)
qed simp

text \<open>
  The outcome of a step that changes the rows: the ids are those given, the hash is right,
  and the signals of the step lead a view from the old rows to the new ones.
\<close>

definition mm_becomes :: "'a mm_state_scheme \<Rightarrow> int list \<Rightarrow> 'a mm_state_scheme \<Rightarrow> bool" where
  "mm_becomes s ids s' \<longleftrightarrow> mm_ok s' \<and> mm_sync s s' \<and> mm_chatId s' = mm_chatId s \<and> mm_ids s' = ids"

lemma mm_becomes_same: "mm_becomes s ids t \<Longrightarrow> mm_same t u \<Longrightarrow> mm_becomes s ids u"
  by (auto simp: mm_becomes_def mm_same_ok) (auto simp: mm_same_def intro: mm_sync_trans)

lemma mm_becomes_trans: "mm_becomes s ids t \<Longrightarrow> mm_becomes t ids' u \<Longrightarrow> mm_becomes s ids' u"
  by (auto simp: mm_becomes_def intro: mm_sync_trans)

lemma mm_same_becomes: "mm_same s t \<Longrightarrow> mm_ok s \<Longrightarrow> mm_becomes s (mm_ids s) t"
  by (simp add: mm_becomes_def mm_same_ok) (simp add: mm_same_def)

lemma mm_insertAt_becomes:
  assumes ok: "mm_ok s" and i: "i \<le> length (messages s)"
    and d: "distinct (mm_ids s @ map messageId new)"
  shows "mm_becomes s (take i (mm_ids s) @ map messageId new @ drop i (mm_ids s)) (mm_insertAt i new s)"
proof -
  let ?rows = "take i (messages s) @ new @ drop i (messages s)"
  let ?m = "reindex messageId ?rows i (length (messages s) + length new) (messageIndexMap s)"
  let ?t = "s\<lparr>messages := ?rows, messageIndexMap := ?m\<rparr>"
  have "mm_insert_loop i new (messages s) (messageIndexMap s) =
      (?rows, reindex messageId ?rows i (i + length new) (messageIndexMap s))"
    using i by (simp add: prod_eq_iff mm_insert_loop_rows mm_insert_loop_index)
  then have eq: "mm_insertAt i new s =
      mm_emitRows (RowsInserted (int i) (int i + int (length new) - 1)) ?t"
    using i by (simp add: mm_insertAt_def reindex_reindex Let_def)
  have "index_ok messageId ?rows ?m"
    using ok i d by (intro index_ok_splice) (auto simp: mm_ok_def mm_ids_def)
  moreover have ids: "mm_ids ?t = take i (mm_ids s) @ map messageId new @ drop i (mm_ids s)"
    by (simp add: mm_ids_def take_map drop_map)
  moreover have "mm_sync s (mm_insertAt i new s)"
    unfolding eq ids using i by (intro mm_sync_rows) (simp_all add: ids min_def)
  ultimately show ?thesis by (simp add: mm_becomes_def mm_ok_def eq del: view_step.simps)
qed

lemma mm_append_index:
  "fold (\<lambda>i m. m(messageId (new ! i) \<mapsto> length rows + i)) [0..<n] m =
   (if n \<le> length new then reindex messageId (rows @ new) (length rows) (length rows + n) m
    else fold (\<lambda>i m. m(messageId (new ! i) \<mapsto> length rows + i)) [0..<n] m)"
  by (induction n) (auto simp: reindex_Suc nth_append fun_upd_def)

lemma mm_appendMessages_becomes:
  assumes ok: "mm_ok s" and d: "distinct (mm_ids s @ map messageId new)"
  shows "mm_becomes s (mm_ids s @ map messageId new) (mm_appendMessages new s)"
proof -
  let ?rows = "messages s @ new"
  let ?m = "reindex messageId ?rows (length (messages s)) (length (messages s) + length new) (messageIndexMap s)"
  let ?t = "s\<lparr>messages := ?rows, messageIndexMap := ?m\<rparr>"
  have eq: "mm_appendMessages new s = mm_emitRows (RowsInserted (int (length (messages s)))
      (int (length (messages s)) + int (length new) - 1)) ?t"
    by (simp add: mm_appendMessages_def Let_def mm_append_index)
  have "index_ok messageId ?rows ?m"
    using ok d by (intro index_ok_append) (auto simp: mm_ok_def mm_ids_def)
  moreover have ids: "mm_ids ?t = mm_ids s @ map messageId new"
    by (simp add: mm_ids_def)
  moreover have "mm_sync s (mm_appendMessages new s)"
    unfolding eq ids by (intro mm_sync_rows) (simp_all add: ids)
  ultimately show ?thesis by (simp add: mm_becomes_def mm_ok_def eq)
qed

lemma mm_removeRange_loop_result:
  "(\<forall>i \<in> set is. i < length (messages s)) \<Longrightarrow>
     \<exists>m' r. mm_removeRange_loop is s (m, rescan) = Some (m', r) \<and>
       (\<forall>k. m' k = (if \<exists>i \<in> set is. messageId (messages s ! i) = k then None else m k))"
proof (induction "is" arbitrary: m rescan)
  case (Cons i "is")
  let ?id = "messageId (messages s ! i)" and ?album = "mediaAlbumId (messages s ! i)"
  let ?rescan = "if ?album \<noteq> 0 \<and> albumMessageMap s ?album \<noteq> None then rescan @ [?album] else rescan"
  obtain m' r where "mm_removeRange_loop is s (m(?id := None), ?rescan) = Some (m', r)"
    and m': "\<And>k. m' k = (if \<exists>i \<in> set is. messageId (messages s ! i) = k then None else (m(?id := None)) k)"
    using Cons.IH [of "m(?id := None)" ?rescan] Cons.prems by (auto simp del: fun_upd_apply)
  then have "mm_removeRange_loop (i # is) s (m, rescan) = Some (m', r)"
    using Cons.prems by (simp add: Let_def del: fun_upd_apply)
  then show ?case using m' by auto
qed simp

lemma mm_removeRange_becomes:
  assumes ok: "mm_ok s" and ab: "0 \<le> a" "a \<le> b" "b < int (length (messages s))"
  shows "\<exists>s'. mm_removeRange a b u s = Some s' \<and> mm_becomes s (remove_slice (nat a) (nat b) (mm_ids s)) s'"
proof -
  let ?i = "nat a" and ?j = "nat b"
  let ?rows = "remove_slice ?i ?j (messages s)"
  have ij: "?i \<le> ?j" "?j < length (messages s)" using ab by auto
  obtain m r where loop: "mm_removeRange_loop [?i..<Suc ?j] s (messageIndexMap s, []) = Some (m, r)"
    and m: "\<And>k. m k = (if \<exists>i \<in> set [?i..<Suc ?j]. messageId (messages s ! i) = k then None else messageIndexMap s k)"
    using mm_removeRange_loop_result [of "[?i..<Suc ?j]" s "messageIndexMap s" "[]"] ij by auto
  let ?t = "s\<lparr>messages := ?rows, messageIndexMap := reindex messageId ?rows ?i (length ?rows) m\<rparr>"
  let ?s1 = "mm_emitRows (RowsRemoved a b) ?t"
  have ids: "mm_ids ?t = remove_slice ?i ?j (mm_ids s)" by (simp add: mm_ids_def row_simps)
  have "index_ok messageId ?rows (reindex messageId ?rows ?i (length ?rows) m)"
    using ok ij by (intro index_ok_slice) (auto simp: mm_ok_def m less_Suc_eq_le)
  moreover have "mm_sync s ?s1" by (intro mm_sync_rows) (simp_all add: ids)
  ultimately have s1: "mm_becomes s (remove_slice ?i ?j (mm_ids s)) ?s1"
    by (simp add: mm_becomes_def mm_ok_def ids)
  then obtain s2 where "mm_updateAlbums r True ?s1 = Some s2" "mm_same ?s1 s2"
    using mm_updateAlbums_same [of ?s1 r True] unfolding mm_becomes_def by blast
  with s1 loop ab ij show ?thesis
    by (auto simp: mm_removeRange_def Let_def intro: mm_becomes_same simp del: upt_Suc)
qed

end
