(* ===== verification/MessageListContract.thy ===== *)
theory MessageListContract imports MessagesModel
begin

text \<open>
  The contract of the virtual functions of \<open>MessagesModel\<close>, and what the base class makes of
  them. A subclass may place a batch at the other end of the list, or announce more changed
  rows, as long as each function turns the rows into the rows the contract names, keeps the
  hash right and announces the change. \<open>dir\<close> is the direction the list is read in to get the
  oldest message first: the identity for the chat lists, \<open>rev\<close> for the inverted ones.

  The lemmas inside the locales hold for every model of the family: each model's theory
  interprets the locale on its own table of virtual functions.
\<close>

lemma filter_drop_one:
  "x \<notin> set as \<Longrightarrow> x \<notin> set bs \<Longrightarrow>
     filter (\<lambda>i. i \<notin> insert x R) (as @ x # bs) = filter (\<lambda>i. i \<notin> R) (as @ bs)"
  by (auto intro!: arg_cong2 [where f = "(@)"] filter_cong)

lemma filter_slice_extend:
  assumes d: "distinct xs" and p: "p < b" "b < length xs"
  shows "filter (\<lambda>i. i \<notin> insert (xs ! p) R) (remove_slice (Suc p) b xs) =
         filter (\<lambda>i. i \<notin> R) (remove_slice p b xs)"
proof -
  have "xs = take p xs @ xs ! p # drop (Suc p) xs" using p by (simp add: id_take_nth_drop)
  then have "xs ! p \<notin> set (take p xs)" "xs ! p \<notin> set (drop (Suc p) xs)"
    using d by (metis disjoint_insert(1) distinct_append list.simps(15), metis distinct.simps(2) distinct_append)
  moreover have "set (drop (Suc b) xs) \<subseteq> set (drop (Suc p) xs)"
    using p by (intro set_drop_subset_set_drop) simp
  ultimately show ?thesis
    using p filter_drop_one [of "xs ! p" "take p xs" "drop (Suc b) xs" R]
    by (auto simp: remove_slice_def take_Suc_conv_app_nth)
qed

lemma filter_one:
  assumes d: "distinct xs" and p: "p < length xs"
  shows "filter (\<lambda>i. i \<notin> insert (xs ! p) R) xs = filter (\<lambda>i. i \<notin> R) (remove_slice p p xs)"
proof -
  have split: "xs = take p xs @ xs ! p # drop (Suc p) xs" using p by (simp add: id_take_nth_drop)
  with d have "xs ! p \<notin> set (take p xs)" "xs ! p \<notin> set (drop (Suc p) xs)"
    by (metis disjoint_insert(1) distinct_append list.simps(15), metis distinct.simps(2) distinct_append split)
  then show ?thesis
    using filter_drop_one [of "xs ! p" "take p xs" "drop (Suc p) xs" R] split
    by (simp add: remove_slice_def)
qed

lemma map_filter_mem: "j \<in> set xs \<Longrightarrow> f j = Some q \<Longrightarrow> q \<in> set (List.map_filter f xs)"
  by (induction xs) (auto simp: map_filter_simps split: option.splits)

lemma map_filter_same: "(\<And>j. j \<in> set xs \<Longrightarrow> f j = g j) \<Longrightarrow> List.map_filter f xs = List.map_filter g xs"
  by (induction xs) (auto simp: map_filter_simps split: option.split)

lemma index_below_slice:
  assumes ok: "index_ok (\<lambda>i. i) xs m" and ok': "index_ok (\<lambda>i. i) (remove_slice a b xs) m'"
    and ab: "a \<le> b" "b < length xs" and below: "\<And>q. m j = Some q \<Longrightarrow> q < a"
  shows "m' j = m j"
proof (cases "m j")
  case None
  then have "j \<notin> set (remove_slice a b xs)"
    using index_ok_None [OF ok, of j] by (auto simp: remove_slice_def dest: in_set_takeD in_set_dropD)
  with None show ?thesis using index_ok_None [OF ok', of j] by simp
next
  case (Some q)
  with below index_okD [OF ok, of j q] ab have "q < length (remove_slice a b xs) \<and> remove_slice a b xs ! q = j"
    by (auto simp: remove_slice_def nth_append)
  with Some show ?thesis using index_okD [OF ok', of j q] by simp
qed

section \<open>Removing\<close>

locale removes_rows =
  fixes remove :: "int \<Rightarrow> int \<Rightarrow> 'a mm_state_scheme \<Rightarrow> 'a mm_state_scheme option"
  assumes removes: "mm_ok s \<Longrightarrow> 0 \<le> a \<Longrightarrow> a \<le> b \<Longrightarrow> b < int (length (messages s)) \<Longrightarrow>
    \<exists>s'. remove a b s = Some s' \<and> mm_becomes s (remove_slice (nat a) (nat b) (mm_ids s)) s'"
begin

text \<open>
  A range \<open>f..l\<close> is pending and the ids still to visit sit above it, one after the other:
  the loop and the final removal take out the range and these ids, and nothing else.
\<close>

lemma pending:
  "mm_ok s \<Longrightarrow> 0 \<le> f \<Longrightarrow> f \<le> l \<Longrightarrow> l < int (length (messages s)) \<Longrightarrow> f \<noteq> cnt \<Longrightarrow> l \<noteq> cnt \<Longrightarrow>
   \<forall>p \<in> set (List.map_filter (messageIndexMap s) rest). int p < f \<and> int p \<noteq> cnt \<Longrightarrow>
   sorted_wrt (>) (List.map_filter (messageIndexMap s) rest) \<Longrightarrow>
   \<exists>s'. mm_deleted_loop remove cnt rest f l s \<bind>
       (\<lambda>(f', l', s1). if f' \<noteq> cnt \<and> l' \<noteq> cnt then remove f' l' s1 else Some s1) = Some s' \<and>
     mm_becomes s (filter (\<lambda>i. i \<notin> set rest) (remove_slice (nat f) (nat l) (mm_ids s))) s'"
proof (induction rest arbitrary: f l s)
  case Nil
  then show ?case using removes [of s f l] by auto
next
  case (Cons i rest)
  note ok = index_okD [OF Cons.prems(1) [unfolded mm_ok_ids]]
  have d: "distinct (mm_ids s)" using index_ok_distinct [OF Cons.prems(1) [unfolded mm_ok_ids]] by simp
  have sub: "set (remove_slice (nat f) (nat l) (mm_ids s)) \<subseteq> set (mm_ids s)"
    by (auto simp: remove_slice_def dest: in_set_takeD in_set_dropD)
  show ?case
  proof (cases "messageIndexMap s i")
    case None
    then have "i \<notin> set (mm_ids s)"
      using index_ok_None [OF Cons.prems(1) [unfolded mm_ok_ids]] by auto
    then have "filter (\<lambda>j. j \<notin> set (i # rest)) (remove_slice (nat f) (nat l) (mm_ids s)) =
        filter (\<lambda>j. j \<notin> set rest) (remove_slice (nat f) (nat l) (mm_ids s))"
      using sub by (intro filter_cong) auto
    with None Cons.prems Cons.IH [of s f l] show ?thesis
      by (auto simp: index_value_def map_filter_simps Let_def)
  next
    case (Some p)
    then have p: "int p < f" "int p \<noteq> cnt" "p < length (mm_ids s)" "mm_ids s ! p = i"
      and below: "\<forall>q \<in> set (List.map_filter (messageIndexMap s) rest). q < p \<and> int q \<noteq> cnt"
      and sorted: "sorted_wrt (>) (List.map_filter (messageIndexMap s) rest)"
      using Cons.prems ok [of i p] by (auto simp: map_filter_simps)
    show ?thesis
    proof (cases "int p < f - 1")
      case True
      obtain s1 where s1: "remove f l s = Some s1"
        "mm_becomes s (remove_slice (nat f) (nat l) (mm_ids s)) s1"
        using removes Cons.prems by blast
      then have ok1: "mm_ok s1" and ids1: "mm_ids s1 = remove_slice (nat f) (nat l) (mm_ids s)"
        by (auto simp: mm_becomes_def)
      have f: "nat f \<le> nat l" "nat l < length (mm_ids s)" using Cons.prems by auto
      have low: "mm_ids s1 ! p = mm_ids s ! p" "p < length (mm_ids s1)"
        using p f True unfolding ids1 by (auto simp: remove_slice_def nth_append)
      have "messageIndexMap s1 j = messageIndexMap s j" if "j \<in> set (i # rest)" for j
      proof (rule index_below_slice [OF Cons.prems(1) [unfolded mm_ok_ids] _ f])
        show "index_ok (\<lambda>i. i) (remove_slice (nat f) (nat l) (mm_ids s)) (messageIndexMap s1)"
          using ok1 by (simp add: mm_ok_ids ids1)
        show "q < nat f" if "messageIndexMap s j = Some q" for q
          using map_filter_mem [of j rest "messageIndexMap s" q] that \<open>j \<in> set (i # rest)\<close> below Some p(1) by force
      qed
      then have filt: "List.map_filter (messageIndexMap s1) rest = List.map_filter (messageIndexMap s) rest"
        by (intro map_filter_same) simp
      obtain s' where
        *: "mm_deleted_loop remove cnt rest (int p) (int p) s1 \<bind>
              (\<lambda>(f', l', s1). if f' \<noteq> cnt \<and> l' \<noteq> cnt then remove f' l' s1 else Some s1) = Some s'"
           "mm_becomes s1 (filter (\<lambda>i. i \<notin> set rest) (remove_slice p p (mm_ids s1))) s'"
        using Cons.IH [of s1 "int p" "int p"] p below sorted filt low ok1 by auto
      have "filter (\<lambda>i. i \<notin> set rest) (remove_slice p p (mm_ids s1)) =
          filter (\<lambda>j. j \<notin> set (i # rest)) (mm_ids s1)"
        using filter_one [of "mm_ids s1" p "set rest"] low p d f
        by (simp add: ids1 distinct_remove_slice)
      with * s1 \<open>messageIndexMap s i = Some p\<close> True Cons.prems ids1 show ?thesis
        by (auto simp: index_value_def Let_def intro: mm_becomes_trans)
    next
      case False
      with p have f: "f = int p + 1" by simp
      then have "filter (\<lambda>j. j \<notin> set (i # rest)) (remove_slice (nat f) (nat l) (mm_ids s)) =
          filter (\<lambda>j. j \<notin> set rest) (remove_slice p (nat l) (mm_ids s))"
        using filter_slice_extend [OF d, of p "nat l" "set rest"] p Cons.prems by (simp add: nat_add_distrib)
      with Cons.IH [of s "int p" l] Cons.prems p below sorted f Some show ?thesis
        by (auto simp: index_value_def Let_def)
    qed
  qed
qed

lemma not_pending:
  "mm_ok s \<Longrightarrow> \<forall>p \<in> set (List.map_filter (messageIndexMap s) rest). int p \<noteq> cnt \<Longrightarrow>
   sorted_wrt (>) (List.map_filter (messageIndexMap s) rest) \<Longrightarrow>
   \<exists>s'. mm_deleted_loop remove cnt rest cnt cnt s \<bind>
       (\<lambda>(f', l', s1). if f' \<noteq> cnt \<and> l' \<noteq> cnt then remove f' l' s1 else Some s1) = Some s' \<and>
     mm_becomes s (filter (\<lambda>i. i \<notin> set rest) (mm_ids s)) s'"
proof (induction rest)
  case Nil
  then show ?case by (simp add: mm_becomes_def)
next
  case (Cons i rest)
  note ok = Cons.prems(1) [unfolded mm_ok_ids]
  show ?case
  proof (cases "messageIndexMap s i")
    case None
    then have "i \<notin> set (mm_ids s)" using index_ok_None [OF ok] by auto
    then have "filter (\<lambda>j. j \<notin> set (i # rest)) (mm_ids s) = filter (\<lambda>j. j \<notin> set rest) (mm_ids s)"
      by (intro filter_cong) auto
    with None Cons show ?thesis by (auto simp: index_value_def map_filter_simps Let_def)
  next
    case (Some p)
    then have p: "p < length (mm_ids s)" "mm_ids s ! p = i" "int p \<noteq> cnt"
      using index_okD [OF ok, of i p] Cons.prems(2) by (simp_all add: map_filter_simps)
    have "filter (\<lambda>j. j \<notin> set (i # rest)) (mm_ids s) =
        filter (\<lambda>j. j \<notin> set rest) (remove_slice p p (mm_ids s))"
      using filter_one [of "mm_ids s" p "set rest"] p index_ok_distinct [OF ok] by simp
    with pending [of s "int p" "int p" cnt rest] Some p Cons.prems show ?thesis
      by (auto simp: index_value_def map_filter_simps Let_def)
  qed
qed

text \<open>
  Ids visited from the last row to the first are removed, and nothing else, when no removed
  row has the number of ids as its position.
\<close>

lemma deleted:
  assumes "mm_ok s"
    and "int (length visited) \<notin> int ` set (List.map_filter (messageIndexMap s) visited)"
    and "sorted_wrt (>) (List.map_filter (messageIndexMap s) visited)"
  shows "\<exists>s'. mm_deleted remove visited s = Some s' \<and>
    mm_becomes s (filter (\<lambda>i. i \<notin> set visited) (mm_ids s)) s'"
  using not_pending [of s visited "int (length visited)"] assms
  by (force simp: mm_deleted_def)

end

section \<open>Inserting\<close>

lemma mm_lastKnownId_last:
  "rows \<noteq> [] \<Longrightarrow> (\<forall>m \<in> set rows. \<not> isSponsored m) \<Longrightarrow> mm_lastKnownId rows = last (map messageId rows)"
  by (cases rows rule: rev_cases) (simp_all add: mm_lastKnownId_def)

lemma mm_becomes_emit:
  "mm_becomes s ids t \<Longrightarrow> (\<And>v. view_output out v = v) \<Longrightarrow> mm_becomes s ids (mm_emit out t)"
  using mm_becomes_same [OF _ mm_same_emit [OF mm_same_refl]] by blast

lemma mm_move_becomes:
  assumes ok: "mm_ok s" and ij: "i \<le> j" "j < length (messages s)"
  shows "mm_becomes s (qmove i j (mm_ids s))
    (mm_emitRows (RowsMoved (int i) (int i) (int (Suc j)))
      (s\<lparr>messages := qmove i j (messages s),
         messageIndexMap := reindex messageId (qmove i j (messages s)) i (Suc j) (messageIndexMap s)\<rparr>))"
    (is "mm_becomes s ?ids (mm_emitRows ?e ?t)")
proof -
  have ids: "mm_ids ?t = ?ids" using ij by (simp add: mm_ids_def row_simps)
  have "view_step (mm_ids ?t) ?e (mm_ids s) = mm_ids ?t"
    unfolding ids using ij by (intro view_moved_down) auto
  then have "mm_sync s (mm_emitRows ?e ?t)" by (intro mm_sync_rows) simp_all
  moreover have "index_ok messageId (messages ?t) (messageIndexMap ?t)"
    using index_ok_qmove [OF ok [unfolded mm_ok_def], of i j i "Suc j"] ij by simp
  ultimately show ?thesis by (simp add: mm_becomes_def mm_ok_def ids)
qed

text \<open>The order of the batch, and the order of the list, in the reading direction \<open>dir\<close>.\<close>

definition chronological :: "(int list \<Rightarrow> int list) \<Rightarrow> int list \<Rightarrow> bool" where
  "chronological dir ids \<longleftrightarrow> sorted_wrt (<) (dir ids)"

definition apart :: "int list \<Rightarrow> int list \<Rightarrow> bool" where
  "apart ids new \<longleftrightarrow> (\<forall>x \<in> set ids. \<forall>y \<in> set new. x < y) \<or> (\<forall>x \<in> set ids. \<forall>y \<in> set new. y < x)"

lemma sorted_wrt_strict:
  "sorted_wrt (\<lambda>a b. \<not> lessThan b a) ms \<Longrightarrow> distinct (map messageId ms) \<Longrightarrow>
     \<forall>m \<in> set ms. \<not> isSponsored m \<Longrightarrow> sorted_wrt (<) (map messageId ms)"
  by (induction ms) (auto simp: lessThan_def not_less le_less)

lemma sorted_batch:
  assumes d: "distinct (map messageId ms)" and plain: "\<forall>m \<in> set ms. \<not> isSponsored m"
  shows "sorted_wrt (<) (map messageId (std_sort lessThan ms))"
    and "sorted_wrt (<) (rev (map messageId (std_sort moreThan ms)))"
proof -
  show "sorted_wrt (<) (map messageId (std_sort lessThan ms))"
    using d plain sorted_std_sort [OF lessThan_strict_on subset_UNIV, of ms]
    by (intro sorted_wrt_strict) auto
  have "std_sort moreThan ms = std_sort (\<lambda>a b. lessThan b a) ms"
    using d by (intro std_sort_same [where f = messageId]) (auto simp: moreThan_distinct)
  then have "sorted_wrt (\<lambda>a b. \<not> lessThan a b) (std_sort moreThan ms)"
    using sorted_std_sort [OF strict_on_converse [OF lessThan_strict_on] subset_UNIV, of ms] by simp
  then have "sorted_wrt (\<lambda>a b. \<not> lessThan b a) (rev (std_sort moreThan ms))"
    by (simp add: sorted_wrt_rev)
  with d plain have "sorted_wrt (<) (map messageId (rev (std_sort moreThan ms)))"
    by (intro sorted_wrt_strict) (auto simp flip: rev_map)
  then show "sorted_wrt (<) (rev (map messageId (std_sort moreThan ms)))" by (simp add: rev_map)
qed

locale inserts_rows =
  fixes vt :: "'a mm_state_scheme mm_virtuals" and dir :: "int list \<Rightarrow> int list"
  assumes dir: "dir = (\<lambda>x. x) \<or> dir = rev"
    and process: "messageId (vt_processMessageData vt m s) = messageId m"
      "isSponsored (vt_processMessageData vt m s) = isSponsored m"
    and appends: "mm_ok s \<Longrightarrow> distinct (mm_ids s @ map messageId new) \<Longrightarrow>
      \<exists>s'. vt_appendMessages vt new s = Some s' \<and>
        mm_becomes s (dir (dir (mm_ids s) @ dir (map messageId new))) s'"
    and prepends: "mm_ok s \<Longrightarrow> distinct (mm_ids s @ map messageId new) \<Longrightarrow>
      \<exists>s'. vt_prependMessages vt new s = Some s' \<and>
        mm_becomes s (dir (dir (map messageId new) @ dir (mm_ids s))) s'"
begin

lemma dir_dir: "dir (dir xs) = xs"
  using dir by auto

lemma set_dir: "set (dir xs) = set xs"
  using dir by auto

lemma inserted_rows:
  assumes "mm_ok s" "distinct (mm_ids s @ map messageId new)" "new \<noteq> []"
  shows "\<exists>s' ids'. mm_insertMessages vt new s = Some s' \<and> mm_becomes s ids' s' \<and>
    set ids' = set (mm_ids s) \<union> messageId ` set new"
  using appends [OF assms(1,2)] prepends [OF assms(1,2)] assms(3)
  unfolding mm_insertMessages_def by (auto 0 3 simp: set_dir)

text \<open>A batch that is newer, or older, than the whole list goes to the right end.\<close>

lemma inserted_chronological:
  assumes ok: "mm_ok s" and new: "new \<noteq> []"
    and plain: "\<forall>m \<in> set (messages s). \<not> isSponsored m"
    and chron: "chronological dir (mm_ids s)" "chronological dir (map messageId new)"
    and apart: "apart (mm_ids s) (map messageId new)"
  shows "\<exists>s' ids'. mm_insertMessages vt new s = Some s' \<and> mm_becomes s ids' s' \<and> chronological dir ids' \<and>
    set ids' = set (mm_ids s) \<union> messageId ` set new"
proof -
  let ?ids = "mm_ids s" and ?new = "map messageId new"
  have "distinct (dir ?ids)" "distinct (dir ?new)"
    using chron by (auto simp: chronological_def strict_sorted_iff)
  then have "distinct ?ids" "distinct ?new" using dir by auto
  moreover have "set ?ids \<inter> set ?new = {}" using apart unfolding apart_def by fastforce
  ultimately have d: "distinct (?ids @ ?new)" by simp
  show ?thesis
  proof (cases "messages s = []")
    case True
    then have "?ids = []" by (simp add: mm_ids_def)
    with True chron appends [OF ok d] dir show ?thesis
      by (auto simp: mm_insertMessages_def set_dir intro!: exI [of _ ?new])
  next
    case False
    then have last: "mm_lastKnownId (messages s) = last ?ids" "?ids \<noteq> []"
      using mm_lastKnownId_last [OF False plain] by (simp_all add: mm_ids_def)
    have "last ?ids \<in> set ?ids" "hd ?new \<in> set ?new" "messageId (hd new) = hd ?new"
      using last new by (simp_all add: hd_map)
    then have which: "mm_lastKnownId (messages s) < messageId (hd new) \<longleftrightarrow> (\<forall>x \<in> set ?ids. \<forall>y \<in> set ?new. x < y)"
      using apart last unfolding apart_def by fastforce
    show ?thesis
    proof (cases "\<forall>x \<in> set ?ids. \<forall>y \<in> set ?new. x < y")
      case True
      then have "chronological dir (dir (dir ?ids @ dir ?new))"
        using chron unfolding chronological_def by (simp add: sorted_wrt_append dir_dir set_dir)
      with True False new which appends [OF ok d] show ?thesis
        by (auto simp: mm_insertMessages_def set_dir intro!: exI [of _ "dir (dir ?ids @ dir ?new)"])
    next
      case older: False
      then have "chronological dir (dir (dir ?new @ dir ?ids))"
        using chron apart unfolding chronological_def apart_def by (auto simp: sorted_wrt_append dir_dir set_dir)
      with older False new which prepends [OF ok d] show ?thesis
        by (auto simp: mm_insertMessages_def set_dir intro!: exI [of _ "dir (dir ?new @ dir ?ids)"])
    qed
  qed
qed

lemma new_fresh: "mm_ok s \<Longrightarrow> m \<in> set (mm_newMessages vt received s) \<Longrightarrow> messageId m \<notin> set (mm_ids s)"
  using mm_rows.not_found [of s] unfolding mm_newMessages_def
  by (auto simp: process newMessageData_def Let_def mm_ids_def)

lemma new_plain:
  "\<forall>d \<in> set received. toString (mvalue d ''@type'') \<noteq> ''sponsoredMessage'' \<Longrightarrow>
     m \<in> set (mm_newMessages vt received s) \<Longrightarrow> \<not> isSponsored m"
  unfolding mm_newMessages_def by (auto simp: process newMessageData_def Let_def)

lemma new_distinct:
  assumes ok: "mm_ok s" and d: "distinct (map messageId (mm_newMessages vt received s))"
  shows "distinct (mm_ids s @ map messageId (std_sort lt (mm_newMessages vt received s)))"
proof -
  have "set (mm_ids s) \<inter> messageId ` set (mm_newMessages vt received s) = {}"
    using new_fresh [OF ok] by fastforce
  with d index_ok_distinct [OF ok [unfolded mm_ok_ids]] show ?thesis by (simp add: image_iff)
qed

lemma albums_become:
  "mm_becomes s ids t \<Longrightarrow>
     \<exists>u. (if b then mm_setMessagesAlbum ms t else Some t) = Some u \<and> mm_becomes s ids u"
  using mm_setMessagesAlbum_same [of t ms] mm_becomes_same [of s ids t]
  by (auto simp: mm_becomes_def)

lemma handled:
  assumes ok: "mm_ok s" and d: "distinct (map messageId (mm_newMessages vt received s))"
  shows "\<exists>more list s' ids'. mm_handleInsertMessages vt received setAlbum reverse s = Some (more, list, s') \<and>
    mset list = mset (mm_newMessages vt received s) \<and> mm_becomes s ids' s' \<and>
    set ids' = set (mm_ids s) \<union> messageId ` set (mm_newMessages vt received s)"
proof -
  let ?new = "mm_newMessages vt received s"
  let ?list = "std_sort (if reverse then moreThan else lessThan) ?new"
  show ?thesis
  proof (cases "?list = []")
    case True
    with ok show ?thesis by (simp add: mm_handleInsertMessages_def mm_same_becomes) 
        (metis mm_same_becomes mm_same_refl)
  next
    case False
    obtain s1 ids' where ids': "mm_insertMessages vt ?list s = Some s1" "mm_becomes s ids' s1"
      "set ids' = set (mm_ids s) \<union> messageId ` set ?new"
      using inserted_rows [OF ok new_distinct [OF ok d] False] by auto
    with albums_become [OF ids'(2), of setAlbum ?list] False show ?thesis
      by (auto simp: mm_handleInsertMessages_def Let_def)
  qed
qed

lemma handled_chronological:
  assumes ok: "mm_ok s" and d: "distinct (map messageId (mm_newMessages vt received s))"
    and way: "reverse \<and> dir = rev \<or> \<not> reverse \<and> dir = (\<lambda>x. x)"
    and plain: "\<forall>m \<in> set (messages s). \<not> isSponsored m"
      "\<forall>d \<in> set received. toString (mvalue d ''@type'') \<noteq> ''sponsoredMessage''"
    and chron: "chronological dir (mm_ids s)"
    and apart: "apart (mm_ids s) (map messageId (mm_newMessages vt received s))"
  shows "\<exists>more list s' ids'. mm_handleInsertMessages vt received setAlbum reverse s = Some (more, list, s') \<and>
    mset list = mset (mm_newMessages vt received s) \<and> mm_becomes s ids' s' \<and> chronological dir ids' \<and>
    set ids' = set (mm_ids s) \<union> messageId ` set (mm_newMessages vt received s)"
proof -
  let ?new = "mm_newMessages vt received s"
  let ?list = "std_sort (if reverse then moreThan else lessThan) ?new"
  show ?thesis
  proof (cases "?list = []")
    case True
    with ok chron show ?thesis
      by (simp add: mm_handleInsertMessages_def) (metis mm_same_becomes mm_same_refl)
  next
    case False
    have "chronological dir (map messageId ?list)"
      using way sorted_batch [OF d] new_plain [OF plain(2)] by (auto simp: chronological_def)
    moreover have "apart (mm_ids s) (map messageId ?list)" using apart by (simp add: apart_def)
    ultimately obtain s1 ids' where ids': "mm_insertMessages vt ?list s = Some s1" "mm_becomes s ids' s1"
      "chronological dir ids'" "set ids' = set (mm_ids s) \<union> messageId ` set ?new"
      using inserted_chronological [OF ok False plain(1) chron] by auto
    with albums_become [OF ids'(2), of setAlbum ?list] False show ?thesis
      by (auto simp: mm_handleInsertMessages_def Let_def)
  qed
qed

text \<open>A message that was sent keeps its data under its new id and goes to the end.\<close>

lemma sent:
  assumes ok: "mm_ok s" and chat: "mm_chatId s = chatId" and old: "messageIndexMap s oldId = Some pos"
    and fresh: "newId = oldId \<or> newId \<notin> set (mm_ids s)"
  shows "\<exists>s'. mm_handleMessageSendSucceeded vt chatId oldId newId d s = Some s' \<and>
    mm_becomes s (remove_at pos (mm_ids s) @ [newId]) s'"
proof -
  have pos: "pos < length (messages s)" "messageId (messages s ! pos) = oldId"
    using mm_rows.found_row [OF ok old] by auto
  let ?s1 = "s\<lparr>messageIndexMap := (messageIndexMap s)(oldId := None)\<rparr>"
  let ?new = "(vt_processMessageData vt (newMessageData d newId) ?s1)\<lparr>generatedContentUnread := True\<rparr>"
  let ?rows = "(messages s)[pos := ?new]"
  let ?m = "(messageIndexMap s)(oldId := None, newId \<mapsto> pos)"
  let ?s3 = "s\<lparr>messages := ?rows, messageIndexMap := ?m\<rparr>"
  let ?s4 = "mm_dataChanged (int pos) (message_diff ?new (messages s ! pos)) ?s3"
  have new: "messageId ?new = newId" by (simp add: process newMessageData_def Let_def)
  have ids3: "mm_ids ?s3 = (mm_ids s)[pos := newId]" by (simp add: mm_ids_def map_update new)
  have noop: "(map messageId (messages s))[pos := messageId (messages s ! pos)] = map messageId (messages s)"
    by (metis list_update_id nth_map pos(1))
  have "RoleMessageId \<in> set (message_diff ?new (messages s ! pos)) \<or> newId = oldId"
    using new pos by (auto simp: message_diff_def)
  then have s4: "mm_becomes s ((mm_ids s)[pos := newId]) ?s4"
    using index_ok_replace [OF ok [unfolded mm_ok_def] pos(1), of ?new] fresh pos ids3 new noop
    by (auto simp: mm_becomes_def mm_ok_def mm_sync_def mm_index_def valid_row_def mm_ids_def)
  let ?newPos = "length (messages s) - 1"
  have last: "qmove pos ?newPos ((mm_ids s)[pos := newId]) = remove_at pos (mm_ids s) @ [newId]"
    using pos by (simp add: qmove_def insert_at_def remove_at_def)
  show ?thesis
  proof (cases "length (messages s) - 1 > pos")
    case True
    let ?s5 = "mm_emitRows (RowsMoved (int pos) (int pos) (int (Suc ?newPos)))
      (?s4\<lparr>messages := qmove pos ?newPos ?rows,
         messageIndexMap := reindex messageId (qmove pos ?newPos ?rows) pos (Suc ?newPos) ?m\<rparr>)"
    have "mm_becomes s (remove_at pos (mm_ids s) @ [newId]) ?s5"
      using mm_becomes_trans [OF s4] mm_move_becomes [of ?s4 pos ?newPos] s4 last True
      by (simp add: mm_becomes_def)
    moreover have "mm_handleMessageSendSucceeded vt chatId oldId newId d s =
        Some (mm_emit (ViewMessage (mm_chatId ?s5) newId False) (mm_emit MessageSendSucceeded ?s5))"
      using True chat old pos by (simp add: mm_handleMessageSendSucceeded_def Let_def mm_setAt_def)
    ultimately show ?thesis by (auto intro!: mm_becomes_emit)
  next
    case False
    then have "length (messages s) \<le> Suc pos" by simp
    then have "(mm_ids s)[pos := newId] = remove_at pos (mm_ids s) @ [newId]"
      using pos by (simp add: remove_at_def upd_conv_take_nth_drop)
    with s4 have "mm_becomes s (remove_at pos (mm_ids s) @ [newId]) ?s4" by simp
    moreover have "mm_handleMessageSendSucceeded vt chatId oldId newId d s =
        Some (mm_emit (ViewMessage (mm_chatId ?s4) newId False) (mm_emit MessageSendSucceeded ?s4))"
      using False chat old pos by (simp add: mm_handleMessageSendSucceeded_def Let_def mm_setAt_def)
    ultimately show ?thesis by (auto intro!: mm_becomes_emit)
  qed
qed

end

section \<open>A whole message list\<close>

locale message_list = inserts_rows vt dir + removes_rows "\<lambda>a b. vt_removeRange vt a b True"
  for vt :: "'a mm_state_scheme mm_virtuals" and dir
begin

text \<open>\<open>MessagesModel::handleMessagesDeleted\<close> visits the ids from the last to the first.\<close>

lemma deleted_messages:
  assumes "mm_ok s" and "mm_chatId s = chatId"
    and "int (length ids) \<notin> int ` set (List.map_filter (messageIndexMap s) ids)"
    and "sorted_wrt (<) (List.map_filter (messageIndexMap s) ids)"
  shows "\<exists>s'. mm_handleMessagesDeleted vt chatId ids s = Some s' \<and>
    mm_becomes s (filter (\<lambda>i. i \<notin> set ids) (mm_ids s)) s'"
proof -
  have "List.map_filter f (rev xs) = rev (List.map_filter f xs)" for f :: "int \<Rightarrow> nat option" and xs
    by (simp add: List.map_filter_def rev_map rev_filter)
  then show ?thesis
    using deleted [of s "rev ids"] assms by (simp add: mm_handleMessagesDeleted_def sorted_wrt_rev)
qed

end

text \<open>The base class itself.\<close>

lemma mm_base_fields [simp]:
  "vt_processMessageData mm_base = (\<lambda>m s. m)" "vt_insertMessagesAt mm_base = mm_insertMessagesAt"
  "vt_appendMessages mm_base = (\<lambda>new s. Some (mm_appendMessages new s))"
  "vt_prependMessages mm_base = (\<lambda>new s. Some (mm_prependMessages new s))"
  "vt_removeRange mm_base = mm_removeRange"
  by (simp_all add: mm_base_def)

interpretation mm_list: message_list "mm_base :: 'a mm_state_scheme mm_virtuals" "\<lambda>x. x"
proof
  show "\<exists>s'. vt_appendMessages mm_base new s = Some s' \<and> mm_becomes s (mm_ids s @ map messageId new) s'"
    if "mm_ok s" "distinct (mm_ids s @ map messageId new)" for s :: "'a mm_state_scheme" and new
    using mm_appendMessages_becomes that by simp
  show "\<exists>s'. vt_prependMessages mm_base new s = Some s' \<and> mm_becomes s (map messageId new @ mm_ids s) s'"
    if "mm_ok s" "distinct (mm_ids s @ map messageId new)" for s :: "'a mm_state_scheme" and new
    using mm_insertAt_becomes [of s 0 new] that by (simp add: mm_prependMessages_def)
  show "\<exists>s'. vt_removeRange mm_base a b True s = Some s' \<and> mm_becomes s (remove_slice (nat a) (nat b) (mm_ids s)) s'"
    if "mm_ok s" "0 \<le> a" "a \<le> b" "b < int (length (messages s))" for s :: "'a mm_state_scheme" and a b
    using mm_removeRange_becomes that by simp
qed auto

end
