(* ===== verification/JumpableMessages.thy ===== *)
theory JumpableMessages imports MessageListContract
begin

text \<open>
  \<open>JumpableMessagesModel\<close> (\<open>src/chat/jumpablemessagesmodel.h\<close>, \<open>jumpablemessagesmodel.cpp\<close>): a message list that
  loads its messages slice by slice. \<open>waitingFor\<close> says which answers are outstanding,
  \<open>startReached\<close> and \<open>endReached\<close> that there is nothing older, nothing newer to load.

  The kinds of requests are the integers TDLib hands back as \<open>extra\<close>; \<open>waitingFor\<close> is the
  \<open>QMap\<close> read with its default \<open>false\<close>. The pure virtual functions and those the subclasses
  override are the record \<open>jm_virtuals\<close>, over the table of the base class.
\<close>

section \<open>State\<close>

abbreviation (input) UpdateInitial :: int where "UpdateInitial \<equiv> 0"
abbreviation (input) UpdatePreviousSlice :: int where "UpdatePreviousSlice \<equiv> 1"
abbreviation (input) UpdateNextSlice :: int where "UpdateNextSlice \<equiv> 2"
abbreviation (input) UpdateReload :: int where "UpdateReload \<equiv> 3"

record jm_state = mm_state +
  waitingFor :: "int \<Rightarrow> bool"
  startReached :: bool
  endReached :: bool
  highlightedMessageId :: int

record 's jm_virtuals =
  jv_base :: "'s mm_virtuals"
  jv_clear :: "'s \<Rightarrow> bool \<times> 's"
  jv_loadMessages :: "int \<Rightarrow> int \<Rightarrow> int \<Rightarrow> 's \<Rightarrow> 's"
  jv_loadMoreHistoryImpl :: "'s \<Rightarrow> 's option"
  jv_loadMoreFutureImpl :: "'s \<Rightarrow> 's option"
  jv_loadHistoryForMessageImpl :: "int \<Rightarrow> 's \<Rightarrow> 's"
  jv_canLoadMoreMessages :: "'s \<Rightarrow> bool"
  jv_handlePrepareMessagesReceived :: "int \<Rightarrow> int \<Rightarrow> 's \<Rightarrow> 's option"
  jv_reverseOrder :: bool

text \<open>The constructor connects both signals to \<open>loadingChanged\<close>.\<close>

definition jm_emitEndReached :: "'a mm_state_scheme \<Rightarrow> 'a mm_state_scheme" where
  "jm_emitEndReached s = mm_emit LoadingChanged (mm_emit EndReachedChanged s)"

definition jm_emitStartReached :: "'a mm_state_scheme \<Rightarrow> 'a mm_state_scheme" where
  "jm_emitStartReached s = mm_emit LoadingChanged (mm_emit StartReachedChanged s)"

definition jm_loading :: "'a jm_state_scheme \<Rightarrow> bool" where
  "jm_loading s \<longleftrightarrow> messages s = [] \<and> \<not> endReached s \<and> \<not> startReached s"

definition jm_waitingForSlice :: "'a jm_state_scheme \<Rightarrow> bool" where
  "jm_waitingForSlice s \<longleftrightarrow> waitingFor s UpdatePreviousSlice \<or> waitingFor s UpdateNextSlice"

definition jm_setWaiting :: "int \<Rightarrow> bool \<Rightarrow> 'a jm_state_scheme \<Rightarrow> 'a jm_state_scheme" where
  "jm_setWaiting u b s = s\<lparr>waitingFor := (waitingFor s)(u := b)\<rparr>"

section \<open>Operations\<close>

definition jm_clear :: "'a jm_state_scheme \<Rightarrow> bool \<times> 'a jm_state_scheme" where
  "jm_clear s =
     (let s1 = s\<lparr>waitingFor := (\<lambda>_. False), startReached := False, endReached := False\<rparr>;
          s2 = mm_emit LoadingChanged (jm_emitStartReached (jm_emitEndReached s1))
      in mm_clear (s2\<lparr>highlightedMessageId := 0\<rparr>))"

definition jm_loadMoreHistory :: "'a jm_state_scheme jm_virtuals \<Rightarrow> 'a jm_state_scheme \<Rightarrow> 'a jm_state_scheme option" where
  "jm_loadMoreHistory jv s =
     (if \<not> startReached s \<and> \<not> waitingFor s UpdatePreviousSlice \<and> messages s \<noteq> []
      then jv_loadMoreHistoryImpl jv (jm_setWaiting UpdatePreviousSlice True s) else Some s)"

definition jm_loadMoreFuture :: "'a jm_state_scheme jm_virtuals \<Rightarrow> 'a jm_state_scheme \<Rightarrow> 'a jm_state_scheme option" where
  "jm_loadMoreFuture jv s =
     (if jv_canLoadMoreMessages jv s \<and> \<not> endReached s \<and> \<not> waitingFor s UpdateNextSlice \<and> messages s \<noteq> []
      then jv_loadMoreFutureImpl jv (jm_setWaiting UpdateNextSlice True s) else Some s)"

definition jm_loadHistoryForMessage :: "'a jm_state_scheme jm_virtuals \<Rightarrow> int \<Rightarrow> 'a jm_state_scheme \<Rightarrow> 'a jm_state_scheme" where
  "jm_loadHistoryForMessage jv msgid s =
     (if \<not> jm_waitingForSlice s \<and> messages s \<noteq> []
      then jv_loadHistoryForMessageImpl jv msgid ((snd (jv_clear jv s))\<lparr>highlightedMessageId := msgid\<rparr>)
      else s)"

definition jm_handlePrepareMessagesReceived :: "int \<Rightarrow> int \<Rightarrow> 'a jm_state_scheme \<Rightarrow> 'a jm_state_scheme" where
  "jm_handlePrepareMessagesReceived totalCount fromUpdate s =
     (let s1 = (if totalCount = 0 then
                  (if fromUpdate = UpdateNextSlice then s\<lparr>endReached := True\<rparr>
                   else if fromUpdate = UpdatePreviousSlice then s\<lparr>startReached := True\<rparr>
                   else if fromUpdate = UpdateInitial then s\<lparr>startReached := True, endReached := True\<rparr>
                   else s)
                else s)
      in jm_emitStartReached (jm_emitEndReached s1))"

definition jm_notifyMessagesLoaded ::
  "'a jm_state_scheme jm_virtuals \<Rightarrow> int \<Rightarrow> int \<Rightarrow> 'a jm_state_scheme \<Rightarrow> 'a jm_state_scheme option" where
  "jm_notifyMessagesLoaded jv totalCount fromUpdate s = do {
     s1 \<leftarrow> jv_handlePrepareMessagesReceived jv totalCount fromUpdate (jm_setWaiting fromUpdate False s);
     let fromSliceUpdate = (fromUpdate = UpdatePreviousSlice \<or> fromUpdate = UpdateNextSlice);
     Some (mm_emit (MessagesReceived totalCount fromSliceUpdate) s1) }"

definition jm_handleMessagesReceived ::
  "'a jm_state_scheme jm_virtuals \<Rightarrow> int \<Rightarrow> vmap list \<Rightarrow> int \<Rightarrow> 'a jm_state_scheme \<Rightarrow> 'a jm_state_scheme option" where
  "jm_handleMessagesReceived jv extra received totalCount s = do {
     s1 \<leftarrow>
       (if received = [] then jm_notifyMessagesLoaded jv totalCount extra s
        else if waitingFor s extra \<or> messages s = [] then do {
          (reloadNeeded, added, s1) \<leftarrow>
            mm_handleInsertMessages (jv_base jv) received True (jv_reverseOrder jv) s;
          if reloadNeeded \<and> extra \<noteq> UpdateReload
          then Some (jv_loadMessages jv UpdateReload (messageId (hd added)) 0 (jm_setWaiting UpdateReload True s1))
          else jm_notifyMessagesLoaded jv totalCount extra s1 }
        else Some s);
     Some (jm_setWaiting extra False s1) }"

definition jm_handleMessagesReceivedFor ::
  "'a jm_state_scheme jm_virtuals \<Rightarrow> int \<Rightarrow> int \<Rightarrow> vmap list \<Rightarrow> int \<Rightarrow> 'a jm_state_scheme \<Rightarrow> 'a jm_state_scheme option" where
  "jm_handleMessagesReceivedFor jv chatId extra received totalCount s =
     (if mm_chatId s = chatId then jm_handleMessagesReceived jv extra received totalCount s else Some s)"

definition jm_calculateScrollPosition :: "'a jm_state_scheme \<Rightarrow> int" where
  "jm_calculateScrollPosition s = index_value (messageIndexMap s) (highlightedMessageId s)"

text \<open>The loop that finds the row to insert before, and the insertion there.\<close>

definition jm_after :: "bool \<Rightarrow> int \<Rightarrow> int \<Rightarrow> bool" where
  "jm_after inverted msgid i = (if inverted then i < msgid else i > msgid)"

primrec jm_orderIndex :: "bool \<Rightarrow> int \<Rightarrow> int list \<Rightarrow> nat option" where
  "jm_orderIndex inverted msgid [] = None"
| "jm_orderIndex inverted msgid (i # ids) =
     (if jm_after inverted msgid i then Some 0
      else map_option Suc (jm_orderIndex inverted msgid ids))"

definition jm_insertMessageInOrder ::
  "'a jm_state_scheme mm_virtuals \<Rightarrow> int \<Rightarrow> vmap \<Rightarrow> bool \<Rightarrow> 'a jm_state_scheme \<Rightarrow> 'a jm_state_scheme option" where
  "jm_insertMessageInOrder vt msgid message inverted s =
     (let new = [newMessageData message msgid];
          newest = (if inverted then hd (messages s) else last (messages s));
          oldest = (if inverted then last (messages s) else hd (messages s))
      in if messages s = [] then
           (if endReached s \<and> startReached s then vt_appendMessages vt new s else Some s)
         else if msgid > messageId newest then
           (if endReached s then vt_appendMessages vt new s else Some s)
         else if msgid < messageId oldest then
           (if startReached s then vt_prependMessages vt new s else Some s)
         else (case jm_orderIndex inverted msgid (map messageId (messages s)) of
                 None \<Rightarrow> Some s
               | Some i \<Rightarrow> vt_insertMessagesAt vt i new s))"

text \<open>
  \<open>fetchAndInsertMessage\<close> asks TDLib for the message; the answer comes to the callback, whose
  insertion is the virtual \<open>insertMessageInOrder\<close> of the class.
\<close>

definition jm_fetchAndInsertMessage :: "int \<Rightarrow> 'a jm_state_scheme \<Rightarrow> 'a jm_state_scheme" where
  "jm_fetchAndInsertMessage msgid s = mm_emit (GetMessage (mm_chatId s) msgid) s"

definition jm_fetchedMessage ::
  "(int \<Rightarrow> vmap \<Rightarrow> 'a jm_state_scheme \<Rightarrow> 'a jm_state_scheme option) \<Rightarrow> int \<Rightarrow> string \<Rightarrow> vmap \<Rightarrow>
     'a jm_state_scheme \<Rightarrow> 'a jm_state_scheme option" where
  "jm_fetchedMessage insertInOrder msgid type message s =
     (if type = ''message'' then insertInOrder msgid message s
      else Some (mm_emit (ProcessError message) s))"

section \<open>Insertion in order\<close>

lemma messageId_newMessageData [simp]: "messageId (newMessageData d i) = i"
  by (simp add: newMessageData_def Let_def)

lemma jm_orderIndex_spec:
  "jm_orderIndex inverted i ids = Some n \<Longrightarrow>
     n < length ids \<and> jm_after inverted i (ids ! n) \<and> (\<forall>k < n. \<not> jm_after inverted i (ids ! k))"
proof (induction ids arbitrary: n)
  case (Cons x ids)
  show ?case
  proof (cases "jm_after inverted i x")
    case False
    with Cons.prems obtain m where "jm_orderIndex inverted i ids = Some m" "n = Suc m" by auto
    with Cons.IH [of m] False show ?thesis by (auto simp: less_Suc_eq_0_disj)
  qed (use Cons.prems in auto)
qed simp

lemma jm_orderIndex_None:
  "jm_orderIndex inverted i ids = None \<longleftrightarrow> (\<forall>x \<in> set ids. \<not> jm_after inverted i x)"
  by (induction ids) auto

lemma jm_after_trans: "jm_after v a b \<Longrightarrow> jm_after v b c \<Longrightarrow> jm_after v a c"
  by (auto simp: jm_after_def split: if_splits)

lemma jm_after_total: "a \<noteq> b \<Longrightarrow> \<not> jm_after v a b \<Longrightarrow> jm_after v b a"
  by (auto simp: jm_after_def split: if_splits)

lemma sorted_insert_between:
  assumes sorted: "sorted_wrt (jm_after v) xs" and n: "n < length xs" and here: "jm_after v i (xs ! n)"
    and before: "\<forall>k < n. jm_after v (xs ! k) i"
  shows "sorted_wrt (jm_after v) (take n xs @ i # drop n xs)"
proof -
  have "\<forall>y \<in> set (drop n xs). jm_after v i y"
  proof
    fix y assume "y \<in> set (drop n xs)"
    then obtain k where k: "n \<le> k" "k < length xs" "y = xs ! k"
      by (metis in_set_conv_nth le_add1 length_drop less_diff_conv add.commute nth_drop n less_imp_le)
    then show "jm_after v i y"
      using here sorted_wrt_nth_less [OF sorted, of n k] jm_after_trans by (cases "k = n") force+
  qed
  moreover have "\<forall>x \<in> set (take n xs). jm_after v x i"
    using before n by (auto simp: in_set_conv_nth)
  moreover have "sorted_wrt (jm_after v) (take n xs @ drop n xs)" using sorted by simp
  ultimately show ?thesis using jm_after_trans unfolding sorted_wrt_append by auto
qed

lemma sorted_ends:
  "sorted_wrt (jm_after v) ids \<Longrightarrow> ids \<noteq> [] \<Longrightarrow>
     (\<forall>x \<in> set ids. x \<le> (if v then hd ids else last ids)) \<and> (\<forall>x \<in> set ids. (if v then last ids else hd ids) \<le> x)"
proof -
  assume s: "sorted_wrt (jm_after v) ids" and ne: "ids \<noteq> []"
  have "\<forall>x \<in> set ids. x = hd ids \<or> jm_after v (hd ids) x"
    using s ne by (cases ids) auto
  moreover have "\<forall>x \<in> set ids. x = last ids \<or> jm_after v x (last ids)"
    using s ne by (cases ids rule: rev_cases) (auto simp: sorted_wrt_append)
  ultimately show ?thesis by (auto simp: jm_after_def intro: less_imp_le)
qed

text \<open>The direction of the loop and the reading direction of the list belong together.\<close>

lemma chronological_after:
  "v \<and> dir = rev \<or> \<not> v \<and> dir = (\<lambda>x. x) \<Longrightarrow> chronological dir ids \<longleftrightarrow> sorted_wrt (jm_after v) ids"
  by (auto simp: chronological_def jm_after_def sorted_wrt_rev intro: sorted_wrt_mono_rel [rotated])

locale jumpable_list = message_list vt dir
  for vt :: "'a jm_state_scheme mm_virtuals" and dir +
  assumes inserts_at: "mm_ok s \<Longrightarrow> i \<le> length (messages s) \<Longrightarrow> distinct (mm_ids s @ map messageId new) \<Longrightarrow>
    \<exists>s'. vt_insertMessagesAt vt i new s = Some s' \<and>
      mm_becomes s (take i (mm_ids s) @ map messageId new @ drop i (mm_ids s)) s'"
begin

text \<open>
  A message goes to its place by id. It is left out only when it lies beyond an end of the
  list that has not been reached: the slice that holds it is still to come.
\<close>

lemma inserted_in_order:
  assumes ok: "mm_ok s" and way: "v \<and> dir = rev \<or> \<not> v \<and> dir = (\<lambda>x. x)"
    and chron: "chronological dir (mm_ids s)" and fresh: "i \<notin> set (mm_ids s)"
  shows "\<exists>s' ids'. jm_insertMessageInOrder vt i d v s = Some s' \<and> mm_becomes s ids' s' \<and>
    chronological dir ids' \<and>
    (set ids' = insert i (set (mm_ids s)) \<or>
     ids' = mm_ids s \<and> ((\<forall>x \<in> set ids'. x < i) \<and> \<not> endReached s \<or> (\<forall>x \<in> set ids'. i < x) \<and> \<not> startReached s))"
proof -
  let ?ids = "mm_ids s" and ?new = "[newMessageData d i]"
  have newid: "map messageId ?new = [i]" by simp
  have d: "distinct (?ids @ map messageId ?new)"
    unfolding newid using fresh index_ok_distinct [OF ok [unfolded mm_ok_ids]] by simp
  have self: "mm_becomes s ?ids s" using ok by (simp add: mm_becomes_def)
  obtain s1 s2 where app: "vt_appendMessages vt ?new s = Some s1" "mm_becomes s (dir (dir ?ids @ [i])) s1"
    and pre: "vt_prependMessages vt ?new s = Some s2" "mm_becomes s (dir (i # dir ?ids)) s2"
    using appends [OF ok d] prepends [OF ok d] way by (auto simp: newid)
  have sorted: "sorted_wrt (jm_after v) ?ids" using chron chronological_after [OF way] by simp
  show ?thesis
  proof (cases "messages s = []")
    case True
    then have "?ids = []" by (simp add: mm_ids_def)
    with True app self way show ?thesis
      by (cases "endReached s \<and> startReached s")
         (auto simp: jm_insertMessageInOrder_def Let_def chronological_def)
  next
    case False
    then have ends: "messageId (last (messages s)) = last ?ids" "messageId (hd (messages s)) = hd ?ids" "?ids \<noteq> []"
      by (simp_all add: mm_ids_def last_map hd_map)
    let ?newest = "messageId (if v then hd (messages s) else last (messages s))"
    let ?oldest = "messageId (if v then last (messages s) else hd (messages s))"
    have newest: "\<forall>x \<in> set ?ids. x \<le> ?newest" and oldest: "\<forall>x \<in> set ?ids. ?oldest \<le> x"
      using sorted_ends [OF sorted ends(3)] ends by auto
    have mem: "?newest \<in> set ?ids" "?oldest \<in> set ?ids" using ends by auto
    consider (newer) "i > ?newest" | (older) "\<not> i > ?newest" "i < ?oldest"
      | (between) "\<not> i > ?newest" "\<not> i < ?oldest" by blast
    then show ?thesis
    proof cases
      case newer
      then have "chronological dir (dir (dir ?ids @ [i]))" "\<forall>x \<in> set ?ids. x < i"
        using chron newest by (auto simp: chronological_def dir_dir set_dir sorted_wrt_append)
      with newer False app self chron show ?thesis
        by (cases "endReached s") (auto simp: jm_insertMessageInOrder_def Let_def set_dir)
    next
      case older
      then have "chronological dir (dir (i # dir ?ids))" "\<forall>x \<in> set ?ids. i < x"
        using chron oldest by (auto simp: chronological_def dir_dir set_dir)
      with older False pre self chron show ?thesis
        by (cases "startReached s") (auto simp: jm_insertMessageInOrder_def Let_def set_dir)
    next
      case between
      have "jm_orderIndex v i ?ids \<noteq> None"
        using between mem fresh unfolding jm_orderIndex_None jm_after_def by (cases v) force+
      then obtain n where n: "jm_orderIndex v i ?ids = Some n" by auto
      note spec = jm_orderIndex_spec [OF n]
      have "jm_after v (?ids ! k) i" if "k < n" for k
        using spec that fresh jm_after_total [of i "?ids ! k" v] by (metis less_trans nth_mem)
      then have "sorted_wrt (jm_after v) (take n ?ids @ i # drop n ?ids)"
        using spec by (intro sorted_insert_between sorted) auto
      then have "chronological dir (take n ?ids @ i # drop n ?ids)" using chronological_after [OF way] by simp
      moreover obtain s' where "vt_insertMessagesAt vt n ?new s = Some s'"
        "mm_becomes s (take n ?ids @ i # drop n ?ids) s'"
        using inserts_at [OF ok _ d, of n] spec unfolding newid by auto
      moreover have "set (take n ?ids @ i # drop n ?ids) = insert i (set ?ids)"
        by (metis append_take_drop_id Un_insert_right list.simps(15) set_append)
      ultimately show ?thesis
        using n between False unfolding jm_insertMessageInOrder_def mm_ids_def Let_def by auto
    qed
  qed
qed

end

end
