(* ===== verification/MediaMessages.thy ===== *)
theory MediaMessages imports JumpableMessages
begin

text \<open>
  \<open>MediaMessagesModel\<close> (\<open>src/chat/mediamessagesmodel.h\<close>, \<open>mediamessagesmodel.cpp\<close>): the messages of a chat
  that match a search filter, and \<open>InvertedMediaMessagesModel\<close>
  (\<open>src/chat/invertedmediamessagesmodel.h\<close>, \<open>invertedmediamessagesmodel.cpp\<close>), the same list with the newest
  message first. The inverted class swaps the two ends and sorts a batch the other way; the
  flag \<open>inverted\<close> selects the class, and the contract of a message list is interpreted for
  both.

  \<open>med_tdlib\<close> is the wrapper the object is attached to, if any; \<open>med_totalCount\<close> is negative
  when no count is kept.
\<close>

section \<open>State\<close>

record med_state = jm_state +
  med_tdlib :: "int option"
  searchMessagesFilter :: search_filter
  med_query :: string
  med_totalCount :: int
  nextFromMessageId :: int

definition med_maintainCount :: "'a med_state_scheme \<Rightarrow> bool" where
  "med_maintainCount s \<longleftrightarrow> med_totalCount s \<ge> 0"

definition inv_base :: "'a med_state_scheme mm_virtuals" where
  "inv_base = mm_base\<lparr>vt_appendMessages := (\<lambda>new s. Some (mm_prependMessages new s)),
     vt_prependMessages := (\<lambda>new s. Some (mm_appendMessages new s))\<rparr>"

definition med_base :: "bool \<Rightarrow> 'a med_state_scheme mm_virtuals" where
  "med_base inverted = (if inverted then inv_base else mm_base)"

section \<open>Loading\<close>

definition med_clear :: "'a med_state_scheme \<Rightarrow> bool \<times> 'a med_state_scheme" where
  "med_clear s = jm_clear (s\<lparr>nextFromMessageId := 0\<rparr>)"

definition med_loadMessagesWithLimit :: "int \<Rightarrow> int \<Rightarrow> int \<Rightarrow> int \<Rightarrow> 'a med_state_scheme \<Rightarrow> 'a med_state_scheme" where
  "med_loadMessagesWithLimit extra fromMessageId offset limit s =
     (if med_tdlib s = None then s
      else mm_emit (SearchChatMessages (mm_chatId s) (med_query s) extra fromMessageId
                      (searchMessagesFilter s) limit offset) s)"

definition med_loadMessages :: "int \<Rightarrow> int \<Rightarrow> int \<Rightarrow> 'a med_state_scheme \<Rightarrow> 'a med_state_scheme" where
  "med_loadMessages extra fromMessageId offset s = med_loadMessagesWithLimit extra fromMessageId offset 100 s"

definition med_tryReload :: "'a med_state_scheme \<Rightarrow> 'a med_state_scheme" where
  "med_tryReload s =
     (if \<not> jm_loading s \<and> highlightedMessageId s = 0
      then med_loadMessagesWithLimit UpdateInitial 0 (-16) 32 (snd (med_clear s)) else s)"

definition med_setTDLibWrapper :: "int option \<Rightarrow> 'a med_state_scheme \<Rightarrow> 'a med_state_scheme" where
  "med_setTDLibWrapper wrapper s =
     (if med_tdlib s \<noteq> wrapper then mm_emit TdlibChanged (s\<lparr>med_tdlib := wrapper\<rparr>) else s)"

definition med_setSearchMessagesFilter :: "search_filter \<Rightarrow> 'a med_state_scheme \<Rightarrow> 'a med_state_scheme" where
  "med_setSearchMessagesFilter f s =
     (if searchMessagesFilter s \<noteq> f
      then med_tryReload (mm_emit SearchMessagesFilterChanged (s\<lparr>searchMessagesFilter := f\<rparr>)) else s)"

definition med_setQuery :: "string \<Rightarrow> 'a med_state_scheme \<Rightarrow> 'a med_state_scheme" where
  "med_setQuery q s =
     (if med_query s \<noteq> q then med_tryReload (mm_emit QueryChanged (s\<lparr>med_query := q\<rparr>)) else s)"

text \<open>Without a wrapper the request would be made through a null pointer.\<close>

definition med_getChatMessageCount :: "'a med_state_scheme \<Rightarrow> 'a med_state_scheme option" where
  "med_getChatMessageCount s =
     (if med_tdlib s = None then None
      else Some (mm_emit (GetChatMessageCount (mm_chatId s) (searchMessagesFilter s)) s))"

definition med_setMaintainCount :: "bool \<Rightarrow> 'a med_state_scheme \<Rightarrow> 'a med_state_scheme option" where
  "med_setMaintainCount maintainCount s =
     (if med_maintainCount s \<noteq> maintainCount then do {
        let s1 = s\<lparr>med_totalCount := (if maintainCount then 0 else -1)\<rparr>;
        s2 \<leftarrow> (if maintainCount \<and> mm_chatId s1 \<noteq> 0 \<and> messages s1 \<noteq> []
               then med_getChatMessageCount s1 else Some s1);
        Some (mm_emit TotalCountChanged (mm_emit MaintainCountChanged s2)) }
      else Some s)"

definition med_init :: "int \<Rightarrow> int \<Rightarrow> bool \<Rightarrow> bool \<Rightarrow> 'a med_state_scheme \<Rightarrow> 'a med_state_scheme option" where
  "med_init chatId fromMessageId checkCount force s =
     (if med_tdlib s = None then Some s
      else if \<not> force \<and> mm_chatId s = chatId \<and> fromMessageId = 0 \<and> endReached s then
        Some (mm_emit AlreadyLoaded s)
      else if \<not> force \<and> mm_chatId s = chatId \<and> fromMessageId \<noteq> 0
              \<and> messages s \<noteq> [] \<and> messageIndexMap s fromMessageId \<noteq> None then
        Some (mm_emit AlreadyLoaded (s\<lparr>highlightedMessageId := fromMessageId\<rparr>))
      else
        (let s1 = (snd (med_clear s))\<lparr>mm_chatId := chatId, highlightedMessageId := fromMessageId\<rparr>
         in if \<not> checkCount \<or> searchMessagesFilter s1 = FilterEmpty \<or> fromMessageId \<noteq> 0
            then Some (med_loadMessagesWithLimit UpdateInitial fromMessageId (-16) 32 s1)
            else med_getChatMessageCount s1))"

definition med_loadMoreHistoryImpl :: "'a med_state_scheme \<Rightarrow> 'a med_state_scheme option" where
  "med_loadMoreHistoryImpl s = Some (med_loadMessages UpdatePreviousSlice (nextFromMessageId s) 0 s)"

definition med_loadMoreFutureImpl :: "'a med_state_scheme \<Rightarrow> 'a med_state_scheme option" where
  "med_loadMoreFutureImpl s =
     (if messages s = [] then None
      else Some (med_loadMessagesWithLimit UpdateNextSlice (messageId (last (messages s))) (-16) 32 s))"

definition med_handlePrepareMessagesReceived :: "int \<Rightarrow> int \<Rightarrow> 'a med_state_scheme \<Rightarrow> 'a med_state_scheme" where
  "med_handlePrepareMessagesReceived totalCount fromUpdate s =
     jm_handlePrepareMessagesReceived totalCount fromUpdate
       (if med_maintainCount s \<and> med_totalCount s \<noteq> totalCount
        then mm_emit TotalCountChanged (s\<lparr>med_totalCount := totalCount\<rparr>) else s)"

definition med_virtuals :: "bool \<Rightarrow> 'a med_state_scheme jm_virtuals" where
  "med_virtuals inverted = \<lparr>jv_base = med_base inverted, jv_clear = med_clear,
     jv_loadMessages = med_loadMessages, jv_loadMoreHistoryImpl = med_loadMoreHistoryImpl,
     jv_loadMoreFutureImpl = med_loadMoreFutureImpl,
     jv_loadHistoryForMessageImpl = (\<lambda>msgid. med_loadMessagesWithLimit UpdateInitial msgid (-26) 51),
     jv_canLoadMoreMessages = (\<lambda>s. True),
     jv_handlePrepareMessagesReceived = (\<lambda>n u s. Some (med_handlePrepareMessagesReceived n u s)),
     jv_reverseOrder = inverted\<rparr>"

definition med_updateTotalCount :: "int \<Rightarrow> 'a med_state_scheme \<Rightarrow> 'a med_state_scheme" where
  "med_updateTotalCount n s =
     (if med_maintainCount s \<and> med_totalCount s \<noteq> n
      then mm_emit TotalCountChanged (s\<lparr>med_totalCount := n\<rparr>) else s)"

section \<open>Answers and updates\<close>

definition med_handleChatMessageCountReceived ::
  "int \<Rightarrow> int \<Rightarrow> search_filter \<Rightarrow> 'a med_state_scheme \<Rightarrow> 'a med_state_scheme" where
  "med_handleChatMessageCountReceived n chatId f s =
     (if mm_chatId s = chatId \<and> searchMessagesFilter s = f then
        (let s1 = med_updateTotalCount n s
         in if jm_loading s1 then
              (let s2 = jm_emitEndReached (s1\<lparr>endReached := True\<rparr>)
               in if n = 0 then jm_emitStartReached (s2\<lparr>startReached := True\<rparr>)
                  else med_loadMessages UpdateInitial 0 0 (mm_emit NotEmptyDetected s2))
            else s1)
      else s)"

definition med_handleMessagesReceived ::
  "bool \<Rightarrow> int \<Rightarrow> search_filter \<Rightarrow> int \<Rightarrow> vmap list \<Rightarrow> int \<Rightarrow> int \<Rightarrow> 'a med_state_scheme \<Rightarrow> 'a med_state_scheme option" where
  "med_handleMessagesReceived inverted chatId f extra received totalCount nextId s =
     (if mm_chatId s = chatId \<and> f = searchMessagesFilter s then do {
        s1 \<leftarrow> jm_handleMessagesReceived (med_virtuals inverted) extra received totalCount s;
        Some (med_updateTotalCount totalCount (s1\<lparr>nextFromMessageId := nextId\<rparr>)) }
      else Some s)"

definition med_handleNewMessageReceived ::
  "bool \<Rightarrow> int \<Rightarrow> vmap \<Rightarrow> 'a med_state_scheme \<Rightarrow> 'a med_state_scheme option" where
  "med_handleNewMessageReceived inverted chatId message s =
     (let msgid = toLongLong (mvalue message ''id'')
      in if endReached s \<and> chatId = mm_chatId s \<and> messageIndexMap s msgid = None
            \<and> messageMatchesSearchFilter message (searchMessagesFilter s)
         then map_option (mm_emit NotEmptyDetected)
                (mm_insertMessages (med_base inverted) [newMessageData message msgid] s)
         else Some s)"

definition med_insertMessageInOrder ::
  "bool \<Rightarrow> int \<Rightarrow> vmap \<Rightarrow> 'a med_state_scheme \<Rightarrow> 'a med_state_scheme option" where
  "med_insertMessageInOrder inverted msgid message s = do {
     s1 \<leftarrow> jm_insertMessageInOrder (med_base inverted) msgid message inverted s;
     Some (if med_maintainCount s1
           then mm_emit TotalCountChanged (s1\<lparr>med_totalCount := med_totalCount s1 + 1\<rparr>) else s1) }"

definition med_fetchedMessage ::
  "bool \<Rightarrow> int \<Rightarrow> string \<Rightarrow> vmap \<Rightarrow> 'a med_state_scheme \<Rightarrow> 'a med_state_scheme option" where
  "med_fetchedMessage inverted = jm_fetchedMessage (med_insertMessageInOrder inverted)"

definition med_removeMessage :: "int \<Rightarrow> 'a med_state_scheme \<Rightarrow> 'a med_state_scheme option" where
  "med_removeMessage msgid s = do {
     s1 \<leftarrow> mm_removeMessage msgid s;
     Some (if med_maintainCount s1
           then mm_emit TotalCountChanged (s1\<lparr>med_totalCount := med_totalCount s1 - 1\<rparr>) else s1) }"

definition med_checksContent :: "search_filter \<Rightarrow> bool" where
  "med_checksContent f \<longleftrightarrow> f \<in> {FilterAnimation, FilterAudio, FilterDocument, FilterVideo, FilterPhotoAndVideo}"

definition med_handleMessageContentUpdated ::
  "int \<Rightarrow> int \<Rightarrow> vmap \<Rightarrow> 'a med_state_scheme \<Rightarrow> (message_data option \<times> 'a med_state_scheme) option" where
  "med_handleMessageContentUpdated chatId msgid newContent s = do {
     (message, s1) \<leftarrow> mm_handleMessageContentUpdated chatId msgid newContent s;
     if mm_chatId s1 \<noteq> chatId \<or> \<not> med_checksContent (searchMessagesFilter s1) then Some (message, s1)
     else (case message of
             Some m \<Rightarrow>
               if \<not> messageMatchesSearchFilter (messageData m) (searchMessagesFilter s1)
               then map_option (Pair message) (med_removeMessage msgid s1)
               else Some (message, s1)
           | None \<Rightarrow>
               Some (message,
                 if \<not> messageContentTypeMatchesSearchFilter (toString (mvalue newContent ''@type''))
                        (searchMessagesFilter s1)
                 then jm_fetchAndInsertMessage msgid s1 else s1)) }"

definition med_handleMessageIsPinnedUpdated ::
  "int \<Rightarrow> int \<Rightarrow> bool \<Rightarrow> 'a med_state_scheme \<Rightarrow> 'a med_state_scheme option" where
  "med_handleMessageIsPinnedUpdated chatId msgid isPinned s =
     (if searchMessagesFilter s = FilterPinned then
        (if mm_chatId s \<noteq> chatId then Some s
         else if isPinned then
           Some (if messageIndexMap s msgid = None then jm_fetchAndInsertMessage msgid s else s)
         else med_removeMessage msgid s)
      else mm_handleMessageIsPinnedUpdated chatId msgid isPinned s)"

definition inv_handleMessagesDeleted :: "int \<Rightarrow> int list \<Rightarrow> 'a med_state_scheme \<Rightarrow> 'a med_state_scheme option" where
  "inv_handleMessagesDeleted chatId messageIds s =
     (if chatId = mm_chatId s
      then mm_deleted (\<lambda>a b. vt_removeRange (inv_base :: 'a med_state_scheme mm_virtuals) a b True) messageIds s
      else Some s)"

definition med_handleMessagesDeleted ::
  "int \<Rightarrow> int list \<Rightarrow> 'a med_state_scheme \<Rightarrow> 'a med_state_scheme option" where
  "med_handleMessagesDeleted chatId messageIds s = do {
     s1 \<leftarrow> mm_handleMessagesDeleted (med_base False) chatId messageIds s;
     if searchMessagesFilter s1 = FilterPinned \<and> mm_chatId s1 = chatId
     then med_getChatMessageCount s1 else Some s1 }"

definition med_calculateScrollPosition :: "'a med_state_scheme \<Rightarrow> int" where
  "med_calculateScrollPosition s =
     (let pos = jm_calculateScrollPosition s
      in if pos \<ge> 0 then pos else int (length (messages s)) - 1)"

definition inv_calculateScrollPosition :: "'a med_state_scheme \<Rightarrow> int" where
  "inv_calculateScrollPosition s =
     (let pos = jm_calculateScrollPosition s in if pos \<ge> 0 then pos else 0)"

definition med_messageIndexBeforeId :: "int \<Rightarrow> 'a med_state_scheme \<Rightarrow> int" where
  "med_messageIndexBeforeId msgid s =
     find_last (\<lambda>m. messageId m < msgid) (messages s) (length (messages s))"

section \<open>The contract, in both directions\<close>

lemma inv_base_fields [simp]:
  "vt_processMessageData inv_base = (\<lambda>m s. m)" "vt_insertMessagesAt inv_base = mm_insertMessagesAt"
  "vt_appendMessages inv_base = (\<lambda>new s. Some (mm_prependMessages new s))"
  "vt_prependMessages inv_base = (\<lambda>new s. Some (mm_appendMessages new s))"
  "vt_removeRange inv_base = mm_removeRange"
  by (simp_all add: inv_base_def)

lemma med_base_simps [simp]: "med_base True = inv_base" "med_base False = mm_base"
  by (simp_all add: med_base_def)

lemma mm_insertMessagesAt_becomes:
  "mm_ok s \<Longrightarrow> i \<le> length (messages s) \<Longrightarrow> distinct (mm_ids s @ map messageId new) \<Longrightarrow>
    \<exists>s'. mm_insertMessagesAt i new s = Some s' \<and>
      mm_becomes s (take i (mm_ids s) @ map messageId new @ drop i (mm_ids s)) s'"
  using mm_insertAt_becomes [of s i new] by (simp add: mm_insertMessagesAt_def)

interpretation med_list: jumpable_list "mm_base :: 'a med_state_scheme mm_virtuals" "\<lambda>x. x"
proof (intro jumpable_list.intro jumpable_list_axioms.intro mm_list.message_list_axioms)
qed (simp add: mm_insertMessagesAt_becomes)

interpretation inv_list: jumpable_list "inv_base :: 'a med_state_scheme mm_virtuals" rev
proof
  show "\<exists>s'. vt_appendMessages inv_base new s = Some s' \<and>
      mm_becomes s (rev (rev (mm_ids s) @ rev (map messageId new))) s'"
    if "mm_ok s" "distinct (mm_ids s @ map messageId new)" for s :: "'a med_state_scheme" and new
    using mm_insertAt_becomes [of s 0 new] that by (simp add: mm_prependMessages_def)
  show "\<exists>s'. vt_prependMessages inv_base new s = Some s' \<and>
      mm_becomes s (rev (rev (map messageId new) @ rev (mm_ids s))) s'"
    if "mm_ok s" "distinct (mm_ids s @ map messageId new)" for s :: "'a med_state_scheme" and new
    using mm_appendMessages_becomes that by simp
  show "\<exists>s'. vt_removeRange inv_base a b True s = Some s' \<and> mm_becomes s (remove_slice (nat a) (nat b) (mm_ids s)) s'"
    if "mm_ok s" "0 \<le> a" "a \<le> b" "b < int (length (messages s))" for s :: "'a med_state_scheme" and a b
    using mm_removeRange_becomes that by simp
  show "\<exists>s'. vt_insertMessagesAt inv_base i new s = Some s' \<and>
      mm_becomes s (take i (mm_ids s) @ map messageId new @ drop i (mm_ids s)) s'"
    if "mm_ok s" "i \<le> length (messages s)" "distinct (mm_ids s @ map messageId new)" for s :: "'a med_state_scheme" and i new
    using mm_insertMessagesAt_becomes that by simp
qed auto

end
