(* ===== verification/ReadableMessages.thy ===== *)
theory ReadableMessages imports JumpableMessages
begin

text \<open>
  \<open>ReadableMessagesModel\<close> (\<open>src/chat/readablemessagesmodel.h\<close>, \<open>readablemessagesmodel.cpp\<close>): the message list of
  a chat or a forum topic, in chronological order. It knows what has been read, follows new
  messages once the end is loaded, and groups messages of one sender into sequences.

  What a subclass supplies (the last read ids, the last message of the chat, whether more may
  be loaded) is the record \<open>rm_chat\<close>; \<open>myUserId\<close> of the wrapper is a part of it. The overridden
  virtual functions form the table \<open>rm_base\<close>, for which the contract of a message list is
  interpreted here.
\<close>

section \<open>State\<close>

record rm_state = jm_state +
  loadingFullEnd :: bool

record rm_chat =
  rc_lastReadInboxMessageId :: int
  rc_lastReadOutboxMessageId :: int
  rc_lastMessageId :: int
  rc_canLoadMoreMessages :: bool
  rc_myUserId :: int

section \<open>Overridden row operations\<close>

definition rm_processMessageData :: "int \<Rightarrow> message_data \<Rightarrow> 'a rm_state_scheme \<Rightarrow> message_data" where
  "rm_processMessageData inbox m s =
     (if messageId m > inbox then m\<lparr>generatedContentUnread := True\<rparr> else m)"

definition rm_removeRange :: "int \<Rightarrow> int \<Rightarrow> bool \<Rightarrow> 'a rm_state_scheme \<Rightarrow> 'a rm_state_scheme option" where
  "rm_removeRange firstDeleted lastDeleted updateAlbums s =
     (if 0 \<le> firstDeleted \<and> firstDeleted \<le> lastDeleted then do {
        s1 \<leftarrow> mm_removeRange firstDeleted lastDeleted updateAlbums s;
        let s2 = (if firstDeleted > 0 then mm_dataChanged (firstDeleted - 1) [RoleIsLastInSequence] s1 else s1);
        Some (if messages s2 \<noteq> [] then mm_dataChanged firstDeleted [RoleIsFirstInSequence] s2 else s2) }
      else Some s)"

definition rm_insertMessagesAt :: "nat \<Rightarrow> message_data list \<Rightarrow> 'a rm_state_scheme \<Rightarrow> 'a rm_state_scheme option" where
  "rm_insertMessagesAt insertIndex newMessages s = do {
     s1 \<leftarrow> mm_insertMessagesAt insertIndex newMessages s;
     let s2 = (if insertIndex > 0 then mm_dataChanged (int insertIndex - 1) [RoleIsLastInSequence] s1 else s1);
     let isFirstChangedIndex = insertIndex + length newMessages;
     Some (if isFirstChangedIndex < length (messages s2)
           then mm_dataChanged (int isFirstChangedIndex) [RoleIsFirstInSequence] s2 else s2) }"

definition rm_appendMessages :: "message_data list \<Rightarrow> 'a rm_state_scheme \<Rightarrow> 'a rm_state_scheme" where
  "rm_appendMessages newMessages s =
     (let oldSize = length (messages s); s1 = mm_appendMessages newMessages s
      in if oldSize > 0 then mm_dataChanged (int oldSize - 1) [RoleIsLastInSequence] s1 else s1)"

definition rm_prependMessages :: "message_data list \<Rightarrow> 'a rm_state_scheme \<Rightarrow> 'a rm_state_scheme" where
  "rm_prependMessages newMessages s =
     (let wasEmpty = (messages s = []); s1 = mm_prependMessages newMessages s
      in if \<not> wasEmpty then mm_dataChanged (int (length newMessages)) [RoleIsFirstInSequence] s1 else s1)"

definition rm_messageIsFirstInSequence :: "int \<Rightarrow> message_data \<Rightarrow> 'a rm_state_scheme \<Rightarrow> bool option" where
  "rm_messageIsFirstInSequence index m s =
     (if index = 0 then Some True
      else if albumEntryFilter m then Some False
      else do { previous \<leftarrow> qat (messages s) (nat (index - 1)); Some (\<not> areTogether m previous) })"

definition rm_messageIsLastInSequence :: "int \<Rightarrow> message_data \<Rightarrow> 'a rm_state_scheme \<Rightarrow> bool option" where
  "rm_messageIsLastInSequence index m s =
     (if index = int (length (messages s)) - 1 then Some True
      else if albumEntryFilter m then Some False
      else (case (if albumMessageIds m = [] then None
                  else messageIndexMap s (fold max (albumMessageIds m) (hd (albumMessageIds m)))) of
              Some lastMessageIndex \<Rightarrow>
                if int lastMessageIndex = int (length (messages s)) - 1 then Some True
                else do {
                  a \<leftarrow> qat (messages s) lastMessageIndex;
                  b \<leftarrow> qat (messages s) (lastMessageIndex + 1);
                  Some (\<not> areTogether a b) }
            | None \<Rightarrow> do { after \<leftarrow> qat (messages s) (nat (index + 1)); Some (\<not> areTogether m after) }))"

definition rm_base :: "int \<Rightarrow> 'a rm_state_scheme mm_virtuals" where
  "rm_base inbox = \<lparr>vt_processMessageData = rm_processMessageData inbox,
     vt_insertMessagesAt = rm_insertMessagesAt,
     vt_appendMessages = (\<lambda>new s. Some (rm_appendMessages new s)),
     vt_prependMessages = (\<lambda>new s. Some (rm_prependMessages new s)), vt_removeRange = rm_removeRange,
     vt_messageIsFirstInSequence = rm_messageIsFirstInSequence,
     vt_messageIsLastInSequence = rm_messageIsLastInSequence\<rparr>"

section \<open>Reading and loading\<close>

definition rm_clear :: "'a rm_state_scheme \<Rightarrow> bool \<times> 'a rm_state_scheme" where
  "rm_clear s = jm_clear (s\<lparr>loadingFullEnd := False\<rparr>)"

definition rm_getLastReadMessageIndex :: "rm_chat \<Rightarrow> 'a rm_state_scheme \<Rightarrow> int" where
  "rm_getLastReadMessageIndex chat s =
     (let p = index_value (messageIndexMap s) (rc_lastReadInboxMessageId chat)
      in if p > int (length (messages s)) - 1 then -1 else p)"

definition rm_calculateScrollPosition :: "rm_chat \<Rightarrow> 'a rm_state_scheme \<Rightarrow> int" where
  "rm_calculateScrollPosition chat s =
     (if loadingFullEnd s then int (length (messages s)) - 1
      else
        (let highlighted = index_value (messageIndexMap s) (highlightedMessageId s);
             inbox = index_value (messageIndexMap s) (rc_lastReadInboxMessageId chat);
             own = mm_findLastSentMessageIndex (rc_myUserId chat) s;
             inbox' = (if inbox > int (length (messages s)) - 1 then -1 else inbox);
             own' = (if own > int (length (messages s)) - 1 then -1 else own);
             scroll = (if highlighted = -1 then max inbox' own' else highlighted)
         in min (scroll + 1) (int (length (messages s)) - 1)))"

definition rm_handlePrepareMessagesReceived :: "rm_chat \<Rightarrow> int \<Rightarrow> int \<Rightarrow> 'a rm_state_scheme \<Rightarrow> 'a rm_state_scheme" where
  "rm_handlePrepareMessagesReceived chat totalCount fromUpdate s =
     jm_handlePrepareMessagesReceived totalCount fromUpdate
       (if messageIndexMap s (rc_lastMessageId chat) \<noteq> None then s\<lparr>endReached := True\<rparr> else s)"

text \<open>
  \<open>messages.first()\<close> and \<open>messages.last()\<close> need a row; both callers check that there is one.
  \<open>load\<close> is the \<open>loadMessages\<close> of the subclass, with its default offset \<open>-1\<close>.
\<close>

definition rm_loadMoreHistoryImpl ::
  "(int \<Rightarrow> int \<Rightarrow> int \<Rightarrow> 'a rm_state_scheme \<Rightarrow> 'a rm_state_scheme) \<Rightarrow> 'a rm_state_scheme \<Rightarrow> 'a rm_state_scheme option" where
  "rm_loadMoreHistoryImpl load s =
     (if messages s = [] then None
      else Some (load UpdatePreviousSlice (messageId (hd (messages s))) (-1) s))"

definition rm_loadMoreFutureImpl ::
  "(int \<Rightarrow> int \<Rightarrow> int \<Rightarrow> 'a rm_state_scheme \<Rightarrow> 'a rm_state_scheme) \<Rightarrow> 'a rm_state_scheme \<Rightarrow> 'a rm_state_scheme option" where
  "rm_loadMoreFutureImpl load s =
     (if messages s = [] then None
      else Some (load UpdateNextSlice (messageId (last (messages s))) (-49) s))"

definition rm_virtuals ::
  "rm_chat \<Rightarrow> (int \<Rightarrow> int \<Rightarrow> int \<Rightarrow> 'a rm_state_scheme \<Rightarrow> 'a rm_state_scheme) \<Rightarrow> 'a rm_state_scheme jm_virtuals" where
  "rm_virtuals chat load = \<lparr>jv_base = rm_base (rc_lastReadInboxMessageId chat), jv_clear = rm_clear,
     jv_loadMessages = load, jv_loadMoreHistoryImpl = rm_loadMoreHistoryImpl load,
     jv_loadMoreFutureImpl = rm_loadMoreFutureImpl load,
     jv_loadHistoryForMessageImpl = (\<lambda>msgid. load UpdateInitial msgid (-1)),
     jv_canLoadMoreMessages = (\<lambda>s. rc_canLoadMoreMessages chat),
     jv_handlePrepareMessagesReceived = (\<lambda>n u s. Some (rm_handlePrepareMessagesReceived chat n u s)),
     jv_reverseOrder = False\<rparr>"

definition rm_handleNewMessageReceived ::
  "'a rm_state_scheme mm_virtuals \<Rightarrow> rm_chat \<Rightarrow> vmap \<Rightarrow> 'a rm_state_scheme \<Rightarrow> 'a rm_state_scheme option" where
  "rm_handleNewMessageReceived vt chat message s =
     (let msgid = toLongLong (mvalue message ''id'')
      in if messageIndexMap s msgid = None \<and> rc_canLoadMoreMessages chat \<and> endReached s then do {
           let new = [vt_processMessageData vt (newMessageData message msgid) s];
           s1 \<leftarrow> mm_insertMessages vt new s;
           s2 \<leftarrow> mm_setMessagesAlbum new s1;
           Some (mm_emit (NewMessageReceived message) s2) }
         else Some s)"

definition rm_loadEnd ::
  "rm_chat \<Rightarrow> ('a rm_state_scheme \<Rightarrow> bool \<times> 'a rm_state_scheme) \<Rightarrow>
     (int \<Rightarrow> int \<Rightarrow> int \<Rightarrow> 'a rm_state_scheme \<Rightarrow> 'a rm_state_scheme) \<Rightarrow> bool \<Rightarrow> 'a rm_state_scheme \<Rightarrow> 'a rm_state_scheme" where
  "rm_loadEnd chat clear load markAllAsRead s =
     (if \<not> jm_waitingForSlice s \<and> \<not> waitingFor s UpdateReload \<and> messages s \<noteq> []
      then load UpdateInitial (if markAllAsRead then 0 else rc_lastReadOutboxMessageId chat) (-1)
             (snd (clear (s\<lparr>loadingFullEnd := markAllAsRead\<rparr>)))
      else s)"

section \<open>The contract\<close>

lemma mm_becomes_dataChanged: "mm_becomes s ids t \<Longrightarrow> mm_becomes s ids (mm_dataChanged r roles t)"
  using mm_becomes_same mm_same_dataChanged mm_same_refl by blast

lemma rm_base_fields [simp]:
  "vt_processMessageData (rm_base inbox) = rm_processMessageData inbox"
  "vt_insertMessagesAt (rm_base inbox) = rm_insertMessagesAt"
  "vt_appendMessages (rm_base inbox) = (\<lambda>new s. Some (rm_appendMessages new s))"
  "vt_prependMessages (rm_base inbox) = (\<lambda>new s. Some (rm_prependMessages new s))"
  "vt_removeRange (rm_base inbox) = rm_removeRange"
  by (simp_all add: rm_base_def)

lemma rm_removeRange_becomes:
  assumes "mm_ok s" "0 \<le> a" "a \<le> b" "b < int (length (messages s))"
  shows "\<exists>s'. rm_removeRange a b u s = Some s' \<and> mm_becomes s (remove_slice (nat a) (nat b) (mm_ids s)) s'"
  using mm_removeRange_becomes [OF assms, of u] assms
  by (auto simp: rm_removeRange_def Let_def intro!: mm_becomes_dataChanged)

interpretation rm_list: jumpable_list "rm_base inbox :: 'a rm_state_scheme mm_virtuals" "\<lambda>x. x" for inbox
proof
  show "\<exists>s'. vt_appendMessages (rm_base inbox) new s = Some s' \<and> mm_becomes s (mm_ids s @ map messageId new) s'"
    if "mm_ok s" "distinct (mm_ids s @ map messageId new)" for s :: "'a rm_state_scheme" and new
    using mm_appendMessages_becomes that by (auto simp: rm_appendMessages_def Let_def intro: mm_becomes_dataChanged)
  show "\<exists>s'. vt_prependMessages (rm_base inbox) new s = Some s' \<and> mm_becomes s (map messageId new @ mm_ids s) s'"
    if "mm_ok s" "distinct (mm_ids s @ map messageId new)" for s :: "'a rm_state_scheme" and new
    using mm_insertAt_becomes [of s 0 new] that
    by (auto simp: rm_prependMessages_def mm_prependMessages_def Let_def intro: mm_becomes_dataChanged)
  show "\<exists>s'. vt_removeRange (rm_base inbox) a b True s = Some s' \<and>
      mm_becomes s (remove_slice (nat a) (nat b) (mm_ids s)) s'"
    if "mm_ok s" "0 \<le> a" "a \<le> b" "b < int (length (messages s))" for s :: "'a rm_state_scheme" and a b
    using rm_removeRange_becomes that by simp
  show "\<exists>s'. vt_insertMessagesAt (rm_base inbox) i new s = Some s' \<and>
      mm_becomes s (take i (mm_ids s) @ map messageId new @ drop i (mm_ids s)) s'"
    if "mm_ok s" "i \<le> length (messages s)" "distinct (mm_ids s @ map messageId new)" for s :: "'a rm_state_scheme" and i new
    using mm_insertAt_becomes [of s i new] that
    by (auto simp: rm_insertMessagesAt_def mm_insertMessagesAt_def Let_def intro!: mm_becomes_dataChanged)
qed (auto simp: rm_processMessageData_def)

text \<open>A message newer than the rows goes behind them once the end is loaded.\<close>

lemma rm_new_message:
  assumes ok: "mm_ok s" and plain: "\<forall>m \<in> set (messages s). \<not> isSponsored m" and sorted: "sorted_wrt (<) (mm_ids s)"
    and new: "toLongLong (mvalue message ''id'') = i" "\<forall>x \<in> set (mm_ids s). x < i"
  shows "\<exists>s'. rm_handleNewMessageReceived (rm_base inbox) chat message s = Some s' \<and>
    mm_becomes s (if rc_canLoadMoreMessages chat \<and> endReached s then mm_ids s @ [i] else mm_ids s) s'"
proof (cases "rc_canLoadMoreMessages chat \<and> endReached s")
  case True
  let ?new = "[rm_processMessageData inbox (newMessageData message i) s]"
  have newid: "map messageId ?new = [i]" by (simp add: rm_processMessageData_def)
  have fresh: "i \<notin> set (mm_ids s)" using new(2) by auto
  then have none: "messageIndexMap s i = None" using index_ok_None [OF ok [unfolded mm_ok_ids], of i] by simp
  have "apart (mm_ids s) (map messageId ?new)" using new(2) unfolding newid by (simp add: apart_def)
  then obtain s1 ids' where s1: "mm_insertMessages (rm_base inbox) ?new s = Some s1" "mm_becomes s ids' s1"
    "sorted_wrt (<) ids'" "set ids' = insert i (set (mm_ids s))"
    using rm_list.inserted_chronological [OF ok, of ?new inbox] plain sorted newid
    by (auto simp: chronological_def)
  have "sorted_wrt (<) (mm_ids s @ [i])" using sorted new(2) by (simp add: sorted_wrt_append)
  then have "ids' = mm_ids s @ [i]" using s1(3,4) by (intro strict_sorted_equal) auto
  moreover obtain s2 where s2: "mm_setMessagesAlbum ?new s1 = Some s2" "mm_same s1 s2"
    using mm_setMessagesAlbum_same s1(2) unfolding mm_becomes_def by blast
  ultimately show ?thesis
    using True s1 none new(1) mm_becomes_same [OF s1(2) s2(2)]
    by (auto simp: rm_handleNewMessageReceived_def Let_def simp del: mm_setMessagesAlbum.simps intro!: mm_becomes_emit)
qed (auto simp: rm_handleNewMessageReceived_def Let_def mm_becomes_def ok)

end
