(* ===== verification/ChatMessages.thy ===== *)
theory ChatMessages imports ReadableMessages
begin

text \<open>
  \<open>ChatMessagesModel\<close> (\<open>src/chat/chatmanager.h\<close>, \<open>chatmanager.cpp\<close>): the message list of an open chat. It adds
  the search query, and sponsored messages, which it keeps between or behind the regular ones.

  What the model reads of its parent, the \<open>ChatManager\<close> (the chat's data, whether it is a
  channel), and of the wrapper is the record \<open>chat_parent\<close>.
\<close>

section \<open>State\<close>

record cmm_state = rm_state +
  searchQuery :: string
  containsSponsoredMessages :: bool
  pendingSponsoredMessages :: "vmap list"
  sponsoredMessagesMessagesBetween :: int

record chat_parent =
  cp_chatInformation :: vmap
  cp_isChannel :: bool
  cp_myUserId :: int

definition cmm_chat :: "chat_parent \<Rightarrow> 'a cmm_state_scheme \<Rightarrow> rm_chat" where
  "cmm_chat parent s =
     \<lparr>rc_lastReadInboxMessageId = toLongLong (mvalue (cp_chatInformation parent) ''last_read_inbox_message_id''),
      rc_lastReadOutboxMessageId = toLongLong (mvalue (cp_chatInformation parent) ''last_read_outbox_message_id''),
      rc_lastMessageId = toLongLong (mvalue (toMap (mvalue (cp_chatInformation parent) ''last_message'')) ''id''),
      rc_canLoadMoreMessages = (searchQuery s = []),
      rc_myUserId = cp_myUserId parent\<rparr>"

section \<open>Rows\<close>

text \<open>The first insertion puts one row in; an index outside the list is an assertion failure.\<close>

definition cmm_insertSponsoredMessage ::
  "int \<Rightarrow> vmap \<Rightarrow> int \<Rightarrow> 'a cmm_state_scheme \<Rightarrow> 'a cmm_state_scheme option" where
  "cmm_insertSponsoredMessage insertIndex message msgid s =
     (if insertIndex < 0 \<or> insertIndex > int (length (messages s)) then None
      else
        (let rows = insert_at (nat insertIndex) (newMessageData message msgid) (messages s);
             s1 = mm_emitRows (RowsInserted insertIndex insertIndex)
                    (s\<lparr>messages := rows,
                       messageIndexMap := reindex messageId rows (nat insertIndex) (length rows) (messageIndexMap s)\<rparr>);
             s2 = (if insertIndex > 0 then mm_dataChanged (insertIndex - 1) [RoleIsLastInSequence] s1 else s1)
         in Some (if insertIndex + 1 < int (length (messages s2))
                  then mm_dataChanged (insertIndex + 1) [RoleIsFirstInSequence] s2 else s2)))"

definition cmm_appendMessages :: "message_data list \<Rightarrow> 'a cmm_state_scheme \<Rightarrow> 'a cmm_state_scheme option" where
  "cmm_appendMessages newMessages s =
     (if containsSponsoredMessages s \<and> sponsoredMessagesMessagesBetween s = 0 then
        (let lastIndex = find_last (\<lambda>m. \<not> isSponsored m) (messages s) (length (messages s))
         in if lastIndex < 0 then None else rm_insertMessagesAt (nat lastIndex) newMessages s)
      else Some (rm_appendMessages newMessages s))"

definition cmm_base :: "chat_parent \<Rightarrow> 'a cmm_state_scheme mm_virtuals" where
  "cmm_base parent = (rm_base (toLongLong (mvalue (cp_chatInformation parent) ''last_read_inbox_message_id'')))
     \<lparr>vt_appendMessages := cmm_appendMessages\<rparr>"

section \<open>Loading\<close>

definition cmm_clear :: "'a cmm_state_scheme \<Rightarrow> bool \<times> 'a cmm_state_scheme" where
  "cmm_clear s =
     (let s1 = mm_emit SearchQueryChanged (s\<lparr>searchQuery := []\<rparr>);
          s2 = mm_emit ContainsSponsoredMessagesChanged (s1\<lparr>containsSponsoredMessages := False\<rparr>)
      in rm_clear s2)"

definition cmm_loadMessages :: "int \<Rightarrow> int \<Rightarrow> int \<Rightarrow> 'a cmm_state_scheme \<Rightarrow> 'a cmm_state_scheme" where
  "cmm_loadMessages extra fromMessageId offset s =
     (if searchQuery s = [] then mm_emit (GetChatHistory (mm_chatId s) extra fromMessageId offset) s
      else mm_emit (SearchChatMessages (mm_chatId s) (searchQuery s) extra fromMessageId FilterEmpty 50 0) s)"

definition cmm_setSearchQuery :: "chat_parent \<Rightarrow> string \<Rightarrow> 'a cmm_state_scheme \<Rightarrow> 'a cmm_state_scheme" where
  "cmm_setSearchQuery parent newSearchQuery s =
     (if searchQuery s \<noteq> newSearchQuery then
        (let s1 = mm_emit SearchQueryChanged ((snd (cmm_clear s))\<lparr>searchQuery := newSearchQuery\<rparr>)
         in cmm_loadMessages UpdateInitial
              (if searchQuery s1 = [] then rc_lastReadInboxMessageId (cmm_chat parent s1) else 0) (-1) s1)
      else s)"

fun cmm_pendingBefore ::
  "int \<Rightarrow> vmap list \<Rightarrow> int \<Rightarrow> 'a cmm_state_scheme \<Rightarrow> (vmap list \<times> 'a cmm_state_scheme) option" where
  "cmm_pendingBefore between [] insertIndex s = Some ([], s)"
| "cmm_pendingBefore between (m # ms) insertIndex s =
     (if insertIndex \<ge> 0 then do {
        s1 \<leftarrow> cmm_insertSponsoredMessage insertIndex m (toLongLong (mvalue m ''id'')) s;
        cmm_pendingBefore between ms (insertIndex - between) s1 }
      else Some (m # ms, s))"

fun cmm_pendingBehind ::
  "int \<Rightarrow> vmap list \<Rightarrow> int \<Rightarrow> 'a cmm_state_scheme \<Rightarrow> (vmap list \<times> 'a cmm_state_scheme) option" where
  "cmm_pendingBehind between [] insertIndex s = Some ([], s)"
| "cmm_pendingBehind between (m # ms) insertIndex s =
     (if insertIndex \<le> int (length (messages s)) then do {
        s1 \<leftarrow> cmm_insertSponsoredMessage insertIndex m (toLongLong (mvalue m ''id'')) s;
        cmm_pendingBehind between ms (insertIndex + 1 + between) s1 }
      else Some (m # ms, s))"

definition cmm_firstSponsored :: "message_data list \<Rightarrow> nat" where
  "cmm_firstSponsored rows = length (takeWhile (\<lambda>m. \<not> isSponsored m) rows)"

definition cmm_handlePrepareMessagesReceived ::
  "chat_parent \<Rightarrow> int \<Rightarrow> int \<Rightarrow> 'a cmm_state_scheme \<Rightarrow> 'a cmm_state_scheme option" where
  "cmm_handlePrepareMessagesReceived parent totalCount fromUpdate s = do {
     let s1 = rm_handlePrepareMessagesReceived (cmm_chat parent s) totalCount fromUpdate s;
     let between = sponsoredMessagesMessagesBetween s1;
     let pending = pendingSponsoredMessages s1;
     s2 \<leftarrow>
       (if totalCount > 0 \<and> containsSponsoredMessages s1 \<and> messages s1 \<noteq> [] \<and> pending \<noteq> [] then
          (if fromUpdate = UpdatePreviousSlice then
             map_option (\<lambda>(rest, t). t\<lparr>pendingSponsoredMessages := rest\<rparr>)
               (cmm_pendingBefore between pending (int (cmm_firstSponsored (messages s1)) - between) s1)
           else if fromUpdate = UpdateNextSlice then
             map_option (\<lambda>(rest, t). t\<lparr>pendingSponsoredMessages := rest\<rparr>)
               (cmm_pendingBehind between pending
                 (find_last isSponsored (messages s1) (length (messages s1)) + 1 + between) s1)
           else Some s1)
        else Some s1);
     Some (if \<not> containsSponsoredMessages s2 \<and> cp_isChannel parent
              \<and> (fromUpdate = UpdateInitial \<or> fromUpdate = UpdateReload)
           then mm_emit (GetChatSponsoredMessages (mm_chatId s2)) s2 else s2) }"

section \<open>Updates\<close>

definition cmm_handleNewMessageReceived ::
  "chat_parent \<Rightarrow> int \<Rightarrow> vmap \<Rightarrow> 'a cmm_state_scheme \<Rightarrow> 'a cmm_state_scheme option" where
  "cmm_handleNewMessageReceived parent chatId message s =
     (if chatId = mm_chatId s
      then rm_handleNewMessageReceived (cmm_base parent) (cmm_chat parent s) message s else Some s)"

fun cmm_sponsoredLoop ::
  "int \<Rightarrow> vmap list \<Rightarrow> int \<Rightarrow> 'a cmm_state_scheme \<Rightarrow> 'a cmm_state_scheme option" where
  "cmm_sponsoredLoop between [] insertIndex s = Some s"
| "cmm_sponsoredLoop between (message # rest) insertIndex s =
     (let msgid = toLongLong (mvalue message ''message_id'')
      in if msgid \<noteq> 0 \<and> messageIndexMap s msgid = None then do {
           s1 \<leftarrow> cmm_insertSponsoredMessage insertIndex message msgid s;
           let next = insertIndex - between;
           if next < 0
           then Some (s1\<lparr>pendingSponsoredMessages := rest, sponsoredMessagesMessagesBetween := between\<rparr>)
           else cmm_sponsoredLoop between rest next s1 }
         else cmm_sponsoredLoop between rest insertIndex s)"

text \<open>\<open>pendingSponsoredMessages.empty()\<close> asks whether the list is empty and changes nothing.\<close>

definition cmm_handleSponsoredMessagesReceived ::
  "chat_parent \<Rightarrow> int \<Rightarrow> vmap list \<Rightarrow> int \<Rightarrow> 'a cmm_state_scheme \<Rightarrow> 'a cmm_state_scheme option" where
  "cmm_handleSponsoredMessagesReceived parent chatId sponsored between s =
     (if mm_chatId s \<noteq> chatId \<or> \<not> cp_isChannel parent \<or> sponsored = [] then Some s
      else do {
        s1 \<leftarrow> (if between = 0 then
                 (let message = hd sponsored; msgid = toLongLong (mvalue message ''message_id'')
                  in if msgid \<noteq> 0 \<and> messageIndexMap s msgid = None
                     then cmm_appendMessages [newMessageData message msgid] s else Some s)
               else cmm_sponsoredLoop between sponsored (int (length (messages s))) s);
        let s2 = (if \<not> containsSponsoredMessages s1
                  then mm_emit ContainsSponsoredMessagesChanged (s1\<lparr>containsSponsoredMessages := True\<rparr>) else s1);
        Some (s2\<lparr>sponsoredMessagesMessagesBetween := between\<rparr>) })"

definition cmm_calculateScrollPosition :: "chat_parent \<Rightarrow> 'a cmm_state_scheme \<Rightarrow> int" where
  "cmm_calculateScrollPosition parent s =
     (if searchQuery s \<noteq> [] then int (length (messages s)) - 1
      else rm_calculateScrollPosition (cmm_chat parent s) s)"

definition cmm_virtuals :: "chat_parent \<Rightarrow> 'a cmm_state_scheme jm_virtuals" where
  "cmm_virtuals parent = \<lparr>jv_base = cmm_base parent, jv_clear = cmm_clear,
     jv_loadMessages = cmm_loadMessages, jv_loadMoreHistoryImpl = rm_loadMoreHistoryImpl cmm_loadMessages,
     jv_loadMoreFutureImpl = rm_loadMoreFutureImpl cmm_loadMessages,
     jv_loadHistoryForMessageImpl = (\<lambda>msgid. cmm_loadMessages UpdateInitial msgid (-1)),
     jv_canLoadMoreMessages = (\<lambda>s. searchQuery s = []),
     jv_handlePrepareMessagesReceived = cmm_handlePrepareMessagesReceived parent,
     jv_reverseOrder = False\<rparr>"

text \<open>The slots for an answer with the chat's history, and for one to a search.\<close>

definition cmm_handleMessagesReceived ::
  "chat_parent \<Rightarrow> int \<Rightarrow> int \<Rightarrow> vmap list \<Rightarrow> int \<Rightarrow> 'a cmm_state_scheme \<Rightarrow> 'a cmm_state_scheme option" where
  "cmm_handleMessagesReceived parent = jm_handleMessagesReceivedFor (cmm_virtuals parent)"

definition cmm_handleFoundChatMessagesReceived ::
  "chat_parent \<Rightarrow> int \<Rightarrow> search_filter \<Rightarrow> int \<Rightarrow> vmap list \<Rightarrow> int \<Rightarrow> 'a cmm_state_scheme \<Rightarrow> 'a cmm_state_scheme option" where
  "cmm_handleFoundChatMessagesReceived parent chatId f extra received totalCount s =
     (if mm_chatId s = chatId \<and> f = FilterEmpty
      then jm_handleMessagesReceived (cmm_virtuals parent) extra received totalCount s else Some s)"

section \<open>The contract without sponsored messages\<close>

lemma cmm_base_fields [simp]:
  "vt_processMessageData (cmm_base parent) =
     rm_processMessageData (toLongLong (mvalue (cp_chatInformation parent) ''last_read_inbox_message_id''))"
  "vt_insertMessagesAt (cmm_base parent) = rm_insertMessagesAt"
  "vt_appendMessages (cmm_base parent) = cmm_appendMessages"
  "vt_prependMessages (cmm_base parent) = (\<lambda>new s. Some (rm_prependMessages new s))"
  "vt_removeRange (cmm_base parent) = rm_removeRange"
  by (simp_all add: cmm_base_def)

text \<open>
  With a single sponsored message at the end the batch goes in front of the last regular
  message, not behind it: the comment in the code means the row after it.
\<close>

lemma cmm_append_single:
  assumes ok: "mm_ok s" and one: "containsSponsoredMessages s" "sponsoredMessagesMessagesBetween s = 0"
    and rows: "messages s = regular @ [sponsored]" "regular \<noteq> []" "isSponsored sponsored"
      "\<forall>m \<in> set regular. \<not> isSponsored m"
    and d: "distinct (mm_ids s @ map messageId new)"
  shows "\<exists>s'. cmm_appendMessages new s = Some s' \<and>
    mm_becomes s (map messageId (butlast regular @ new @ [last regular, sponsored])) s'"
proof -
  obtain init l where reg: "regular = init @ [l]" using rows(2) by (cases regular rule: rev_cases) auto
  have "find_last (\<lambda>m. \<not> isSponsored m) (messages s) (length (messages s)) = int (length init)"
    using rows reg by (simp add: nth_append)
  then have "cmm_appendMessages new s = rm_insertMessagesAt (length init) new s"
    using one by (simp add: cmm_appendMessages_def)
  moreover have "\<exists>s'. rm_insertMessagesAt (length init) new s = Some s' \<and>
      mm_becomes s (take (length init) (mm_ids s) @ map messageId new @ drop (length init) (mm_ids s)) s'"
    using rm_list.inserts_at [of s "length init" new] ok d rows reg by simp
  ultimately show ?thesis using rows reg by (auto simp: mm_ids_def)
qed

end
