(* ===== verification/MessageProperties.thy ===== *)
theory MessageProperties imports MediaMessages ChatMessages
begin

text \<open>
  What the message lists promise, on the models of the classes: the lists of a chat
  (\<open>ReadableMessagesModel\<close>, \<open>ChatMessagesModel\<close>) and of media (\<open>MediaMessagesModel\<close>,
  \<open>InvertedMediaMessagesModel\<close>). The properties apply the lemmas of the contract locales through
  the interpretations on each class; each has a witness on a small list.
\<close>

section \<open>Small lists for the witnesses\<close>

definition sample_rows :: "int list \<Rightarrow> message_data list" where
  "sample_rows ids = map (newMessageData fmempty) ids"

definition sample_mm :: "int list \<Rightarrow> mm_state" where
  "sample_mm ids = \<lparr>mm_chatId = 1, messages = sample_rows ids,
     messageIndexMap = index_of messageId (sample_rows ids), albumMessageMap = Map.empty, mm_outputs = []\<rparr>"

definition sample_jm :: "int list \<Rightarrow> jm_state" where
  "sample_jm ids = mm_state.extend (sample_mm ids)
     (jm_state.fields (\<lambda>_. False) True True 0)"

definition sample_rm :: "int list \<Rightarrow> rm_state" where
  "sample_rm ids = jm_state.extend (sample_jm ids) (rm_state.fields False)"

definition sample_med :: "int list \<Rightarrow> med_state" where
  "sample_med ids = jm_state.extend (sample_jm ids) (med_state.fields (Some 0) FilterPhoto [] (-1) 0)"

definition sample_cmm :: "int list \<Rightarrow> cmm_state" where
  "sample_cmm ids = rm_state.extend (sample_rm ids) (cmm_state.fields [] True [] 0)"

lemmas sample_defs = sample_mm_def sample_jm_def sample_rm_def sample_med_def sample_cmm_def
  mm_state.defs jm_state.defs rm_state.defs med_state.defs cmm_state.defs

lemma sample_rows_ids [simp]: "map messageId (sample_rows ids) = ids"
  by (simp add: sample_rows_def comp_def)

lemma sample_rows_plain [simp]: "m \<in> set (sample_rows ids) \<Longrightarrow> \<not> isSponsored m"
  by (auto simp: sample_rows_def newMessageData_def Let_def)

lemma sample_fields [simp]:
  "mm_ids (sample_mm ids) = ids" "mm_ids (sample_rm ids) = ids" "mm_ids (sample_med ids) = ids"
  "mm_ids (sample_cmm ids) = ids"
  "mm_chatId (sample_mm ids) = 1" "mm_chatId (sample_rm ids) = 1" "mm_chatId (sample_med ids) = 1"
  "messages (sample_mm ids) = sample_rows ids" "messages (sample_rm ids) = sample_rows ids"
  "messages (sample_med ids) = sample_rows ids" "messages (sample_cmm ids) = sample_rows ids"
  "messageIndexMap (sample_mm ids) = index_of messageId (sample_rows ids)"
  "messageIndexMap (sample_rm ids) = index_of messageId (sample_rows ids)"
  "messageIndexMap (sample_med ids) = index_of messageId (sample_rows ids)"
  by (simp_all add: mm_ids_def sample_defs)

lemma sample_ok [simp]:
  "distinct ids \<Longrightarrow> mm_ok (sample_mm ids)" "distinct ids \<Longrightarrow> mm_ok (sample_rm ids)"
  "distinct ids \<Longrightarrow> mm_ok (sample_med ids)" "distinct ids \<Longrightarrow> mm_ok (sample_cmm ids)"
  by (simp_all add: mm_ok_def sample_defs index_ok_index_of)

lemma index_of_sample: "index_of messageId (sample_rows ids) = map_of (zip ids [0..<length ids])"
  by (simp add: index_of_def) (simp add: sample_rows_def)

section \<open>Deleting\<close>

text \<open>C1: deleting messages of the open chat. The ids TDLib names, in the order of the list, leave
  a chat's message list and nothing else does, when no deleted row has the number of deleted
  ids as its position; the hash stays right and the views are told.\<close>

theorem chat_list_deletes:
  assumes "mm_ok s" and "mm_chatId s = chatId"
    and "int (length ids) \<notin> int ` set (List.map_filter (messageIndexMap s) ids)"
    and "sorted_wrt (<) (List.map_filter (messageIndexMap s) ids)"
  shows "\<exists>s'. mm_handleMessagesDeleted (rm_base inbox) chatId ids s = Some s' \<and>
    mm_becomes s (filter (\<lambda>i. i \<notin> set ids) (mm_ids s)) s'"
  using rm_list.deleted_messages assms by blast

theorem chat_list_deletes_witness:
  "\<exists>s'. mm_handleMessagesDeleted (rm_base 0) 1 [10, 99, 20, 50] (sample_rm [10, 20, 30, 40, 45, 50]) = Some s' \<and>
     mm_becomes (sample_rm [10, 20, 30, 40, 45, 50]) [30, 40, 45] s'"
  using chat_list_deletes [of "sample_rm [10, 20, 30, 40, 45, 50]" 1 "[10, 99, 20, 50]" 0]
  by (simp add: index_of_sample map_filter_simps upt_rec)

text \<open>the same for the inverted media list, whose newest message is the first row: there the
  ids are visited in the order given, so they must come in the reverse order of the list.\<close>

theorem inverted_list_deletes:
  assumes "mm_ok s" and "mm_chatId s = chatId"
    and "int (length ids) \<notin> int ` set (List.map_filter (messageIndexMap s) ids)"
    and "sorted_wrt (>) (List.map_filter (messageIndexMap s) ids)"
  shows "\<exists>s'. inv_handleMessagesDeleted chatId ids s = Some s' \<and>
    mm_becomes s (filter (\<lambda>i. i \<notin> set ids) (mm_ids s)) s'"
  using inv_list.deleted [of s ids] assms by (simp add: inv_handleMessagesDeleted_def)

theorem inverted_list_deletes_witness:
  "\<exists>s'. inv_handleMessagesDeleted 1 [20, 40] (sample_med [50, 40, 30, 20]) = Some s' \<and>
     mm_becomes (sample_med [50, 40, 30, 20]) [50, 30] s'"
  using inverted_list_deletes [of "sample_med [50, 40, 30, 20]" 1 "[20, 40]"]
  by (simp add: index_of_sample map_filter_simps upt_rec)

text \<open>the number of ids doubles as the mark for "no range yet". A row whose position is that
  number is therefore overlooked: a single message at row 1 is never removed.\<close>

theorem deletion_at_count_lost:
  assumes "mm_ok s" and "messageIndexMap s i = Some 1"
  shows "mm_handleMessagesDeleted vt (mm_chatId s) [i] s = Some s \<and> i \<in> set (mm_ids s)"
proof -
  have "1 < length (mm_ids s)" "mm_ids s ! 1 = i"
    using index_okD [OF assms(1) [unfolded mm_ok_ids], of i 1] assms(2) by auto
  then have "i \<in> set (mm_ids s)" by auto
  with assms(2) show ?thesis
    by (simp add: mm_handleMessagesDeleted_def mm_deleted_def index_value_def Let_def)
qed

theorem deletion_at_count_lost_witness:
  "mm_handleMessagesDeleted mm_base 1 [20] (sample_mm [10, 20, 30]) = Some (sample_mm [10, 20, 30])"
  using deletion_at_count_lost [of "sample_mm [10, 20, 30]" 20 mm_base] by (simp add: index_of_sample upt_rec)

text \<open>removing one message (an unpinned one, or one that left the filter) takes its row and its
  hash entry out but leaves the entries of the rows behind it: each of them is then off by one,
  and the hash is wrong unless the row was the last.\<close>

theorem removeMessage_stale:
  assumes ok: "mm_ok s" and i: "messageIndexMap s i = Some p" and j: "messageIndexMap s j = Some q" "p < q"
  shows "\<exists>s'. mm_removeMessage i s = Some s' \<and> mm_ids s' = remove_at p (mm_ids s) \<and> mm_sync s s' \<and>
    mm_ids s' ! (q - 1) = j \<and> messageIndexMap s' j = Some q \<and> \<not> mm_ok s'"
proof -
  have p: "p < length (mm_ids s)" "mm_ids s ! p = i" and q: "q < length (mm_ids s)" "mm_ids s ! q = j"
    using index_okD [OF ok [unfolded mm_ok_ids]] i j by auto
  have ji: "j \<noteq> i" using i j by auto
  let ?t = "s\<lparr>messages := remove_at p (messages s), messageIndexMap := (messageIndexMap s)(i := None)\<rparr>"
  let ?s' = "mm_emitRows (RowsRemoved (int p) (int p)) ?t"
  have ids: "mm_ids ?t = remove_at p (mm_ids s)" by (simp add: mm_ids_def row_simps)
  have at: "remove_at p (mm_ids s) ! (q - 1) = j" using p q j by (cases q) (auto simp: nth_remove_at)
  have "view_step (mm_ids ?t) (RowsRemoved (int p) (int p)) (mm_ids s) = mm_ids ?t"
    unfolding ids by (simp add: remove_slice_def remove_at_def)
  then have sync: "mm_sync s ?s'" by (intro mm_sync_rows) simp_all
  have "\<not> mm_ok ?s'"
  proof
    assume "mm_ok ?s'"
    then have "q < length (remove_at p (mm_ids s)) \<and> remove_at p (mm_ids s) ! q = j"
      using index_okD [of "\<lambda>i. i" "mm_ids ?s'" "messageIndexMap ?s'" j q] j ji by (simp add: mm_ok_ids ids)
    then have "Suc q < length (mm_ids s) \<and> mm_ids s ! Suc q = mm_ids s ! q"
      using p q j by (auto simp: nth_remove_at)
    then show False
      using index_ok_distinct [OF ok [unfolded mm_ok_ids]] q nth_eq_iff_index_eq [of "mm_ids s" q "Suc q"] by auto
  qed
  with i p ids at sync j ji show ?thesis by (simp add: mm_removeMessage_def)
qed

theorem removeMessage_stale_witness:
  "\<exists>s'. mm_removeMessage 10 (sample_mm [10, 20, 30]) = Some s' \<and> messageIndexMap s' 30 = Some 2 \<and> mm_ids s' = [20, 30]"
  using removeMessage_stale [of "sample_mm [10, 20, 30]" 10 0 30 2]
  by (auto simp: index_of_sample upt_rec remove_at_def)

section \<open>Inserting\<close>

text \<open>C2: a slice of the history. When the new messages of an answer are all older or all newer than
  the loaded ones, a chat's message list takes them in at the right end: it stays in
  chronological order, holds exactly the old and the new messages, and the hash and the views
  follow. The comparison sorts the batch whatever order TDLib used.\<close>

theorem chat_list_inserts:
  assumes "mm_ok s" and "distinct (map messageId (mm_newMessages (rm_base inbox) received s))"
    and "\<forall>m \<in> set (messages s). \<not> isSponsored m"
    and "\<forall>d \<in> set received. toString (mvalue d ''@type'') \<noteq> ''sponsoredMessage''"
    and "sorted_wrt (<) (mm_ids s)"
    and "apart (mm_ids s) (map messageId (mm_newMessages (rm_base inbox) received s))"
  shows "\<exists>more added s' ids'. mm_handleInsertMessages (rm_base inbox) received setAlbum False s = Some (more, added, s') \<and>
    mm_becomes s ids' s' \<and> sorted_wrt (<) ids' \<and>
    set ids' = set (mm_ids s) \<union> messageId ` set (mm_newMessages (rm_base inbox) received s)"
  using rm_list.handled_chronological [of s inbox received False setAlbum] assms
  by (simp add: chronological_def) blast

definition sample_received :: "int list \<Rightarrow> vmap list" where
  "sample_received ids = map (\<lambda>i. minsert ''id'' (QInt i) (minsert ''chat_id'' (QInt 1) fmempty)) ids"

theorem chat_list_inserts_witness:
  "\<exists>more added s' ids'. mm_handleInsertMessages (rm_base 0) (sample_received [20, 10, 30]) True False (sample_rm [30, 40]) =
       Some (more, added, s') \<and> mm_becomes (sample_rm [30, 40]) ids' s' \<and> sorted_wrt (<) ids' \<and> set ids' = {10, 20, 30, 40}"
proof -
  have new: "map messageId (mm_newMessages (rm_base 0) (sample_received [20, 10, 30]) (sample_rm [30, 40])) = [20, 10]"
    by (simp add: mm_newMessages_def sample_received_def index_of_sample upt_rec rm_processMessageData_def)
  then have "messageId ` set (mm_newMessages (rm_base 0) (sample_received [20, 10, 30]) (sample_rm [30, 40])) = {20, 10}"
    by (metis list.set_map list.simps(15) list.set(1))
  then show ?thesis
    using chat_list_inserts [of "sample_rm [30, 40]" 0 "sample_received [20, 10, 30]" True] new
    by (simp add: apart_def sample_received_def insert_commute)
qed

text \<open>the same for the inverted media list: it stays in reverse chronological order.\<close>

theorem inverted_list_inserts:
  assumes "mm_ok s" and "distinct (map messageId (mm_newMessages (med_base True) received s))"
    and "\<forall>m \<in> set (messages s). \<not> isSponsored m"
    and "\<forall>d \<in> set received. toString (mvalue d ''@type'') \<noteq> ''sponsoredMessage''"
    and "sorted_wrt (>) (mm_ids s)"
    and "apart (mm_ids s) (map messageId (mm_newMessages (med_base True) received s))"
  shows "\<exists>more added s' ids'.
    mm_handleInsertMessages (med_base True) received setAlbum (jv_reverseOrder (med_virtuals True)) s = Some (more, added, s') \<and>
    mm_becomes s ids' s' \<and> sorted_wrt (>) ids' \<and>
    set ids' = set (mm_ids s) \<union> messageId ` set (mm_newMessages (med_base True) received s)"
  using inv_list.handled_chronological [of s received True setAlbum] assms
  by (simp add: chronological_def sorted_wrt_rev med_virtuals_def) blast

theorem inverted_list_inserts_witness:
  "\<exists>more added s' ids'. mm_handleInsertMessages (med_base True) (sample_received [20, 10, 30]) True True (sample_med [40, 30]) =
       Some (more, added, s') \<and> mm_becomes (sample_med [40, 30]) ids' s' \<and> sorted_wrt (>) ids' \<and> set ids' = {10, 20, 30, 40}"
proof -
  have new: "map messageId (mm_newMessages (med_base True) (sample_received [20, 10, 30]) (sample_med [40, 30])) = [20, 10]"
    by (simp add: mm_newMessages_def sample_received_def index_of_sample upt_rec)
  then have "messageId ` set (mm_newMessages (med_base True) (sample_received [20, 10, 30]) (sample_med [40, 30])) = {20, 10}"
    by (metis list.set_map list.simps(15) list.set(1))
  then show ?thesis
    using inverted_list_inserts [of "sample_med [40, 30]" "sample_received [20, 10, 30]" True] new
    by (simp add: apart_def sample_received_def insert_commute med_virtuals_def)
qed

text \<open>a single fetched message. A media list that is in order puts a message it did not have
  in its place by id, in either direction, and stays in order; it leaves the message out only
  when it lies beyond an end that is not loaded yet. (The kept count is raised in every case.)\<close>

theorem media_list_inserts_in_order:
  assumes ok: "mm_ok s" and fresh: "i \<notin> set (mm_ids s)"
    and sorted: "sorted_wrt (if inverted then (>) else (<)) (mm_ids s)"
  shows "\<exists>s' ids'. med_insertMessageInOrder inverted i d s = Some s' \<and> mm_becomes s ids' s' \<and>
    sorted_wrt (if inverted then (>) else (<)) ids' \<and>
    (set ids' = insert i (set (mm_ids s)) \<or>
     ids' = mm_ids s \<and> ((\<forall>x \<in> set ids'. x < i) \<and> \<not> endReached s \<or> (\<forall>x \<in> set ids'. i < x) \<and> \<not> startReached s))"
proof -
  let ?R = "if inverted then (>) else (<) :: int \<Rightarrow> int \<Rightarrow> bool"
  obtain s1 ids' where s1: "jm_insertMessageInOrder (med_base inverted) i d inverted s = Some s1"
    "mm_becomes s ids' s1" "sorted_wrt ?R ids'"
    "set ids' = insert i (set (mm_ids s)) \<or>
     ids' = mm_ids s \<and> ((\<forall>x \<in> set ids'. x < i) \<and> \<not> endReached s \<or> (\<forall>x \<in> set ids'. i < x) \<and> \<not> startReached s)"
  proof (cases inverted)
    case True
    with that inv_list.inserted_in_order [OF ok _ _ fresh, of True d] sorted show ?thesis
      by (auto simp: chronological_def sorted_wrt_rev)
  next
    case False
    with that med_list.inserted_in_order [OF ok _ _ fresh, of False d] sorted show ?thesis
      by (auto simp: chronological_def)
  qed
  moreover have "mm_becomes s ids' (mm_emit TotalCountChanged (s1\<lparr>med_totalCount := n\<rparr>))" for n
    using s1(2) by (intro mm_becomes_emit) (auto simp: mm_becomes_def mm_ok_def mm_sync_def mm_ids_def)
  moreover obtain s' where "med_insertMessageInOrder inverted i d s = Some s'"
    "s' = s1 \<or> s' = mm_emit TotalCountChanged (s1\<lparr>med_totalCount := med_totalCount s1 + 1\<rparr>)"
    using s1(1) by (simp add: med_insertMessageInOrder_def)
  ultimately show ?thesis by blast
qed

theorem media_list_inserts_in_order_witness:
  "\<exists>s' ids'. med_insertMessageInOrder True 25 fmempty (sample_med [40, 30, 20]) = Some s' \<and>
     mm_becomes (sample_med [40, 30, 20]) ids' s' \<and> sorted_wrt (>) ids' \<and> set ids' = {20, 25, 30, 40}"
proof -
  have "endReached (sample_med [40, 30, 20])" "startReached (sample_med [40, 30, 20])" by (simp_all add: sample_defs)
  then show ?thesis
    using media_list_inserts_in_order [of "sample_med [40, 30, 20]" 25 True fmempty] by (auto simp: insert_commute)
qed

text \<open>C11: a message that was sent. It keeps its row's place in the hash under the id the server
  gave it, moves to the end of the list, and is announced as a changed row and a move.\<close>

theorem sent_message_moves_to_end:
  assumes "mm_ok s" and "mm_chatId s = chatId" and "messageIndexMap s oldId = Some pos"
    and "newId = oldId \<or> newId \<notin> set (mm_ids s)"
  shows "\<exists>s'. mm_handleMessageSendSucceeded (rm_base inbox) chatId oldId newId d s = Some s' \<and>
    mm_becomes s (remove_at pos (mm_ids s) @ [newId]) s'"
  using rm_list.sent assms by blast

theorem sent_message_moves_to_end_witness:
  "\<exists>s'. mm_handleMessageSendSucceeded (rm_base 0) 1 25 60 fmempty (sample_rm [10, 25, 30]) = Some s' \<and>
     mm_becomes (sample_rm [10, 25, 30]) [10, 30, 60] s'"
  using sent_message_moves_to_end [of "sample_rm [10, 25, 30]" 1 25 1 60 0 fmempty]
  by (simp add: index_of_sample upt_rec remove_at_def)

text \<open>C25: updates of one message. No update handler reads out of range, and none of them changes
  which rows there are: ids, hash and chat stay, and a view stays in sync.\<close>

theorem updates_keep_rows:
  assumes ok: "mm_ok s"
  shows "mm_keeps s (mm_handleMessageReceived c i d s)
    \<and> mm_keeps s (map_option snd (mm_handleMessageContentUpdated c i d s))
    \<and> mm_keeps s (mm_handleMessageInteractionInfoUpdated c i d s)
    \<and> mm_keeps s (mm_handleMessageEditedUpdated c i n d s)
    \<and> mm_keeps s (mm_handleMessageSuggestedPostInfoUpdated c i d s)
    \<and> mm_keeps s (mm_handleMessageMentionRead c i s)
    \<and> mm_keeps s (mm_handleMessageContentOpened c i s)
    \<and> mm_keeps s (mm_handleMessageFactCheckUpdated c i d s)
    \<and> mm_keeps s (mm_handleMessageIsPinnedUpdated c i b s)
    \<and> mm_keeps s (mm_handleMessageUnreadReactionsUpdated c i vs s)
    \<and> mm_keeps s (mm_handleMessageContainsUnreadPollVotesUpdated c i b s)
    \<and> mm_keeps s (mm_handleMessageEphemeralContentUpdated c i d s)
    \<and> mm_keeps s (Some (mm_markGeneratedContentAsRead n s))"
  unfolding mm_field_handlers
  using mm_handleMessageReceived_same [OF ok, of c i d] mm_handleMessageContentUpdated_same [OF ok, of c i d]
    mm_markGeneratedContentAsRead_same [of s n]
  by (intro conjI mm_keeps_field [OF ok] roles_covered) (auto simp: mm_keeps_def)

theorem updates_keep_rows_witness:
  "mm_keeps (sample_rm [10, 20]) (mm_handleMessageReceived 1 20 fmempty (sample_rm [10, 20]))"
  using updates_keep_rows [of "sample_rm [10, 20]" 1 20 fmempty] by simp

text \<open>rescanning an album. Of the ids recorded for it those still in the list remain, sorted;
  the first one becomes the entry that shows the whole album, every other one is filtered out
  of the view, and no other message changes.\<close>

theorem album_rescan:
  assumes "mm_ok s" and "albumMessageMap s a = Some ids" and "distinct ids"
    and "filter (\<lambda>i. messageIndexMap s i \<noteq> None) (sort ids) = i # rest"
  shows "\<exists>s'. mm_updateAlbumMessages a True s = Some s' \<and> mm_same s s' \<and>
    albumMessageMap s' a = Some (i # rest) \<and>
    (\<forall>j. mm_message s' j =
       (if j = i then map_option (album_entry (i # rest) True) (mm_message s j)
        else if j \<in> set rest then map_option (album_entry (i # rest) False) (mm_message s j)
        else mm_message s j))"
  using mm_updateAlbumMessages_result assms by blast

theorem album_rescan_witness:
  "\<exists>s'. mm_updateAlbumMessages 7 True ((sample_mm [10, 20, 30])\<lparr>albumMessageMap := [7 \<mapsto> [30, 15, 20]]\<rparr>) = Some s' \<and>
     albumMessageMap s' 7 = Some [20, 30]"
proof -
  let ?s = "(sample_mm [10, 20, 30])\<lparr>albumMessageMap := [7 \<mapsto> [30, 15, 20]]\<rparr>"
  have "mm_ok ?s" using sample_ok(1) [of "[10, 20, 30]"] by (simp add: mm_ok_def)
  then show ?thesis
    using album_rescan [of ?s 7 "[30, 15, 20]" 20 "[30]"] by (auto simp: index_of_sample upt_rec)
qed

text \<open>a new message. When the end of the history is loaded and no search is shown, a message
  newer than all others is appended; otherwise the list waits for the slices in between and
  does not change. Either way the order, the hash and the views are right afterwards.\<close>

theorem new_message_appended:
  assumes ok: "mm_ok s" and plain: "\<forall>m \<in> set (messages s). \<not> isSponsored m" and sorted: "sorted_wrt (<) (mm_ids s)"
    and new: "toLongLong (mvalue message ''id'') = i" "\<forall>x \<in> set (mm_ids s). x < i"
  shows "\<exists>s'. rm_handleNewMessageReceived (rm_base inbox) chat message s = Some s' \<and>
    mm_becomes s (if rc_canLoadMoreMessages chat \<and> endReached s then mm_ids s @ [i] else mm_ids s) s'"
  using assms by (rule rm_new_message)

theorem new_message_appended_witness:
  "\<exists>s'. rm_handleNewMessageReceived (rm_base 0) \<lparr>rc_lastReadInboxMessageId = 0, rc_lastReadOutboxMessageId = 0,
       rc_lastMessageId = 0, rc_canLoadMoreMessages = True, rc_myUserId = 0\<rparr> (hd (sample_received [50])) (sample_rm [10, 40]) = Some s' \<and>
     mm_becomes (sample_rm [10, 40]) [10, 40, 50] s'"
proof -
  have "endReached (sample_rm [10, 40])" by (simp add: sample_defs)
  then show ?thesis
    using new_message_appended [of "sample_rm [10, 40]" "hd (sample_received [50])" 50 0
      "\<lparr>rc_lastReadInboxMessageId = 0, rc_lastReadOutboxMessageId = 0, rc_lastMessageId = 0,
        rc_canLoadMoreMessages = True, rc_myUserId = 0\<rparr>"]
    by (simp add: sample_received_def)
qed

text \<open>a chat with one sponsored message behind the regular ones. The batch that should follow the
  regular messages is inserted one row too early, before the last regular message: the newest
  messages of the chat come out of order.\<close>

theorem single_sponsored_misplaces:
  assumes "mm_ok s" and "containsSponsoredMessages s" and "sponsoredMessagesMessagesBetween s = 0"
    and "messages s = regular @ [sponsored]" and "regular \<noteq> []" and "isSponsored sponsored"
    and "\<forall>m \<in> set regular. \<not> isSponsored m" and "distinct (mm_ids s @ map messageId new)"
    and "new \<noteq> []" and "\<forall>m \<in> set new. messageId (last regular) < messageId m"
  shows "\<exists>s'. cmm_appendMessages new s = Some s' \<and>
    mm_becomes s (map messageId (butlast regular @ new @ [last regular, sponsored])) s' \<and>
    \<not> sorted_wrt (<) (map messageId (butlast regular @ new @ [last regular]))"
proof -
  have "\<not> sorted_wrt (<) (map messageId (butlast regular @ new @ [last regular]))"
    using assms(9,10) by (cases new) (auto simp: sorted_wrt_append not_less)
  with cmm_append_single [OF assms(1-8)] show ?thesis by blast
qed

definition sample_sponsored :: message_data where
  "sample_sponsored = newMessageData (minsert ''@type'' (QString ''sponsoredMessage'') fmempty) 99"

theorem single_sponsored_misplaces_witness:
  "\<exists>s'. cmm_appendMessages [newMessageData fmempty 30]
       ((sample_cmm [])\<lparr>messages := sample_rows [10, 20] @ [sample_sponsored],
          messageIndexMap := index_of messageId (sample_rows [10, 20] @ [sample_sponsored])\<rparr>) = Some s' \<and>
     mm_ids s' = [10, 30, 20, 99]"
proof -
  let ?rows = "sample_rows [10, 20] @ [sample_sponsored]"
  let ?s = "(sample_cmm [])\<lparr>messages := ?rows, messageIndexMap := index_of messageId ?rows\<rparr>"
  have ids: "map messageId ?rows = [10, 20, 99]" by (simp add: sample_sponsored_def)
  then have "distinct (map messageId ?rows)" by (simp only: ids) simp
  then have "mm_ok ?s" by (simp add: mm_ok_def index_ok_index_of)
  moreover have "isSponsored sample_sponsored" by (simp add: sample_sponsored_def newMessageData_def Let_def)
  moreover have "containsSponsoredMessages ?s" "sponsoredMessagesMessagesBetween ?s = 0" by (simp_all add: sample_defs)
  moreover have "sample_rows [10, 20] = [newMessageData fmempty 10, newMessageData fmempty 20]" by (simp add: sample_rows_def)
  moreover have "distinct (mm_ids ?s @ map messageId [newMessageData fmempty 30])" using ids by (simp add: mm_ids_def sample_sponsored_def)
  ultimately show ?thesis
    using single_sponsored_misplaces [of ?s "sample_rows [10, 20]" sample_sponsored "[newMessageData fmempty 30]"]
    by (auto simp: mm_becomes_def sample_sponsored_def newMessageData_def Let_def)
qed

text \<open>jumping to the end of a chat. \<open>loadEnd\<close> stores its argument before it clears the list, and
  clearing resets what it stored: afterwards the flag is false whatever was asked for, so the
  scroll position never takes the branch for a fully read chat.\<close>

theorem loadEnd_forgets:
  "loadingFullEnd (rm_loadEnd chat cmm_clear cmm_loadMessages b s) =
     (if \<not> jm_waitingForSlice s \<and> \<not> waitingFor s UpdateReload \<and> messages s \<noteq> [] then False
      else loadingFullEnd s)"
  by (simp add: rm_loadEnd_def cmm_clear_def rm_clear_def jm_clear_def mm_clear_def cmm_loadMessages_def
      mm_emitRows_def mm_emit_def jm_emitEndReached_def jm_emitStartReached_def Let_def)

text \<open>what a view reads. Whatever row and role it asks for, reading the data of a chat's message
  list never leaves the list, albums and sequences included.\<close>

theorem data_in_range:
  assumes ok: "mm_ok s"
  shows "mm_data (rm_base inbox) row role s \<noteq> None"
proof -
  have get: "mm_getMessages ids s \<noteq> None" for ids
    using mm_rows.found_row [OF ok]
    by (induction ids) (auto simp: mm_getMessages_def split: option.splits)
  have first: "rm_messageIsFirstInSequence row m s \<noteq> None" if "0 \<le> row" "row < int (length (messages s))" for m
    using that by (auto simp: rm_messageIsFirstInSequence_def qat_def)
  have "rm_messageIsLastInSequence row m s \<noteq> None" if "0 \<le> row" "row < int (length (messages s))" for m
  proof -
    have "p < length (messages s) \<and> (int p \<noteq> int (length (messages s)) - 1 \<longrightarrow> Suc p < length (messages s))"
      if "messageIndexMap s i = Some p" for i p
      using mm_rows.found_row [OF ok that] by linarith
    with that show ?thesis
      by (auto simp: rm_messageIsLastInSequence_def qat_def nat_less_iff nat_add_distrib split: option.splits)
  qed
  with get first show ?thesis
    by (auto simp: mm_data_def rm_base_def Let_def split: msg_role.split)
qed

theorem data_in_range_witness:
  "mm_data (rm_base 0) 1 RoleIsLastInSequence (sample_rm [10, 20]) \<noteq> None"
  using data_in_range [of "sample_rm [10, 20]" 0 1 RoleIsLastInSequence] by simp

lemma rm_insertMessagesAt_rows:
  assumes "i \<le> length (messages s)" "rm_insertMessagesAt i new s = Some s'"
  shows "messages s' = take i (messages s) @ new @ drop i (messages s)"
    and "\<exists>o1. mm_outputs s' = mm_outputs s @ o1 \<and>
      (i > 0 \<longrightarrow> (\<exists>ids. DataChanged (int i - 1) [RoleIsLastInSequence] ids \<in> set o1)) \<and>
      (i < length (messages s) \<longrightarrow> (\<exists>ids. DataChanged (int i + int (length new)) [RoleIsFirstInSequence] ids \<in> set o1))"
proof -
  have rows: "fst (mm_insert_loop i new (messages s) m) = take i (messages s) @ new @ drop i (messages s)" for m
    using assms(1) by (rule mm_insert_loop_rows)
  then have m: "messages (mm_insertAt i new s) = take i (messages s) @ new @ drop i (messages s)"
    by (simp add: mm_insertAt_def case_prod_beta Let_def)
  show "messages s' = take i (messages s) @ new @ drop i (messages s)"
    using assms m by (auto simp: rm_insertMessagesAt_def mm_insertMessagesAt_def Let_def)
  let ?t = "mm_insertAt i new s"
  obtain o1 where o1: "mm_outputs ?t = mm_outputs s @ o1"
    by (simp add: mm_insertAt_def case_prod_beta Let_def)
  let ?u = "if i > 0 then mm_dataChanged (int i - 1) [RoleIsLastInSequence] ?t else ?t"
  have len: "length (messages ?t) = length (messages s) + length new" using m assms(1) by simp
  have s': "s' = (if i < length (messages s)
      then mm_dataChanged (int i + int (length new)) [RoleIsFirstInSequence] ?u else ?u)"
    using assms len by (auto simp: rm_insertMessagesAt_def mm_insertMessagesAt_def Let_def)
  have index: "0 < i \<Longrightarrow> mm_index (int i - 1) ?t = int i - 1"
    "i < length (messages s) \<Longrightarrow> mm_index (int i + int (length new)) ?u = int i + int (length new)"
    using assms(1) len by (auto simp: mm_index_def)
  show "\<exists>o1. mm_outputs s' = mm_outputs s @ o1 \<and>
      (i > 0 \<longrightarrow> (\<exists>ids. DataChanged (int i - 1) [RoleIsLastInSequence] ids \<in> set o1)) \<and>
      (i < length (messages s) \<longrightarrow> (\<exists>ids. DataChanged (int i + int (length new)) [RoleIsFirstInSequence] ids \<in> set o1))"
    using s' o1 index by (cases "i > 0"; cases "i < length (messages s)") auto
qed

lemma sequence_place:
  assumes "j < length rows" "messages s = rows" "albumMessageIds (rows ! j) = []"
  shows "mm_data (rm_base inbox) (int j) RoleIsFirstInSequence s = Some (VBool
      (j = 0 \<or> \<not> albumEntryFilter (rows ! j) \<and> \<not> areTogether (rows ! j) (rows ! (j - 1))))"
    and "mm_data (rm_base inbox) (int j) RoleIsLastInSequence s = Some (VBool
      (Suc j = length rows \<or> \<not> albumEntryFilter (rows ! j) \<and> \<not> areTogether (rows ! j) (rows ! Suc j)))"
  using assms by (auto simp: mm_data_def rm_base_def rm_messageIsFirstInSequence_def
      rm_messageIsLastInSequence_def qat_def nat_diff_distrib' nat_add_distrib Let_def)

text \<open>sequences of one sender. When a batch is inserted into a chat's list without albums, every
  old row whose first or last place in its sequence changes is announced, under the role that
  changed, at the row it has now.\<close>

theorem insertion_announces_sequences:
  assumes i: "i \<le> length (messages s)" and ins: "rm_insertMessagesAt i new s = Some s'"
    and j: "j < length (messages s)" "albumMessageIds (messages s ! j) = []"
    and k: "k = (if j < i then j else j + length new)"
    and role: "role \<in> {RoleIsFirstInSequence, RoleIsLastInSequence}"
    and changed: "mm_data (rm_base inbox) (int k) role s' \<noteq> mm_data (rm_base inbox) (int j) role s"
  shows "\<exists>ids. DataChanged (int k) [role] ids \<in> set (drop (length (mm_outputs s)) (mm_outputs s'))"
proof -
  let ?rows = "messages s" and ?rows' = "take i (messages s) @ new @ drop i (messages s)"
  have rows': "messages s' = ?rows'" using rm_insertMessagesAt_rows(1) [OF i ins] .
  have at: "?rows' ! k = ?rows ! j" "k < length ?rows'" using i j k by (auto simp: nth_append)
  obtain o1 where o1: "mm_outputs s' = mm_outputs s @ o1"
    "i > 0 \<Longrightarrow> \<exists>ids. DataChanged (int i - 1) [RoleIsLastInSequence] ids \<in> set o1"
    "i < length ?rows \<Longrightarrow> \<exists>ids. DataChanged (int i + int (length new)) [RoleIsFirstInSequence] ids \<in> set o1"
    using rm_insertMessagesAt_rows(2) [OF i ins] by blast
  note new_place = sequence_place [OF at(2) rows', of inbox, unfolded at(1), OF j(2)]
  note old_place = sequence_place [OF j(1) refl j(2), of inbox]
  show ?thesis
  proof (cases "role = RoleIsFirstInSequence")
    case True
    have "j = i"
    proof (rule ccontr)
      assume "j \<noteq> i"
      then have "(k = 0) = (j = 0)" "k \<noteq> 0 \<Longrightarrow> ?rows' ! (k - 1) = ?rows ! (j - 1)"
        using i j k by (auto simp: nth_append)
      with changed new_place(1) old_place(1) True show False by auto
    qed
    with o1(1,3) j k True show ?thesis by auto
  next
    case False
    have "Suc j = i"
    proof (rule ccontr)
      assume "Suc j \<noteq> i"
      then have "(Suc k = length ?rows') = (Suc j = length ?rows)" "Suc j \<noteq> length ?rows \<Longrightarrow> ?rows' ! Suc k = ?rows ! Suc j"
        using i j k by (auto simp: nth_append)
      with changed new_place(2) old_place(2) False role show False by auto
    qed
    with o1(1,2) k False role show ?thesis by auto
  qed
qed

definition sample_text :: "int \<Rightarrow> int \<Rightarrow> message_data" where
  "sample_text date i = newMessageData (minsert ''date'' (QInt date)
     (minsert ''content'' (QMap (minsert ''@type'' (QString ''messageText'') fmempty)) fmempty)) i"

lemma sample_text_together:
  "areTogether (sample_text d i) (sample_text e j) \<longleftrightarrow> \<bar>toInt (QInt d) - toInt (QInt e)\<bar> \<le> 900"
  by (simp add: areTogether_def sample_text_def newMessageData_def senderId_def messageContentIsService_def
      nonServiceContentTypes_def Let_def)

lemma sample_text_fields [simp]:
  "albumMessageIds (sample_text d i) = []" "albumEntryFilter (sample_text d i) = False"
  by (simp_all add: sample_text_def newMessageData_def Let_def)

theorem insertion_announces_sequences_witness:
  "\<exists>s' ids. rm_insertMessagesAt 1 [sample_text 5000 15] ((sample_rm [])\<lparr>messages := [sample_text 0 10, sample_text 0 20]\<rparr>) = Some s' \<and>
     DataChanged 0 [RoleIsLastInSequence] ids \<in> set (mm_outputs s')"
proof -
  let ?s = "(sample_rm [])\<lparr>messages := [sample_text 0 10, sample_text 0 20]\<rparr>"
  obtain s' where s': "rm_insertMessagesAt 1 [sample_text 5000 15] ?s = Some s'"
    by (simp add: rm_insertMessagesAt_def mm_insertMessagesAt_def Let_def)
  have rows': "messages s' = [sample_text 0 10, sample_text 5000 15, sample_text 0 20]"
    using rm_insertMessagesAt_rows(1) [OF _ s'] by simp
  have "mm_data (rm_base 0) (int 0) RoleIsLastInSequence s' \<noteq> mm_data (rm_base 0) (int 0) RoleIsLastInSequence ?s"
    using sequence_place(2) [of 0 _ s', OF _ rows', of 0] sequence_place(2) [of 0 _ ?s, OF _ refl, of 0]
    by (simp add: sample_text_together)
  then show ?thesis
    using insertion_announces_sequences [OF _ s', of 0 0 RoleIsLastInSequence 0] s'
    by (auto dest: in_set_dropD)
qed

text \<open>the roles an update reports. Every setter of a message keeps its identity and reports the
  role of every cached value it changes, so that a view which re-reads the reported roles shows
  the new message.\<close>

theorem setters_report_changes:
  "roles_cover m (setMessageData d m) \<and> roles_cover m (setContent d m) \<and>
   roles_cover m (setEditDateReplyMarkup n d m) \<and> roles_cover m (setInteractionInfo d m) \<and>
   roles_cover m (setAlbumEntryFilter b m) \<and> roles_cover m (setAlbumEntryMessageIds ids m) \<and>
   roles_cover m (setSuggestedPostInfo d m) \<and> roles_cover m (setMentionRead m) \<and>
   roles_cover m (setContentOpened m) \<and> roles_cover m (setFactCheck d m) \<and>
   roles_cover m (setIsPinned b m) \<and> roles_cover m (setUnreadReactions vs m) \<and>
   roles_cover m (setContainsUnreadPollVotes b m) \<and> roles_cover m (setEphemeralContent d m)"
  by (intro conjI roles_covered)

end
