(* ===== verification/OrderedRows.thy ===== *)
theory OrderedRows imports RowModel
begin

text \<open>
  What the models that keep their rows in order share (\<open>ChatListModel\<close>, \<open>ForumTopicsModel\<close>):
  the loop that looks for the place of a new row, the two loops that look for the new place
  of a changed row, and the repair of the hash after each. The locale \<open>ordered_rows\<close> is what a
  model has to know of its comparison; its lemmas say that one pass restores the order.
\<close>

section \<open>The loops\<close>

text \<open>\<open>for (pos = 0; pos < n && stay(rows.at(pos)); pos++);\<close>\<close>

primrec insert_pos :: "('a \<Rightarrow> bool) \<Rightarrow> 'a list \<Rightarrow> nat" where
  "insert_pos stay [] = 0"
| "insert_pos stay (y # ys) = (if stay y then Suc (insert_pos stay ys) else 0)"

text \<open>\<open>while (i > 0 && up(rows.at(i-1))) i--;\<close>\<close>

primrec move_up :: "('a \<Rightarrow> bool) \<Rightarrow> 'a list \<Rightarrow> nat \<Rightarrow> nat" where
  "move_up up rows 0 = 0"
| "move_up up rows (Suc i) = (if up (rows ! i) then move_up up rows i else Suc i)"

text \<open>\<open>while (i < n-1 && down(rows.at(i+1))) i++;\<close>\<close>

function move_down :: "('a \<Rightarrow> bool) \<Rightarrow> 'a list \<Rightarrow> nat \<Rightarrow> nat" where
  "move_down down rows i =
     (if Suc i < length rows \<and> down (rows ! Suc i) then move_down down rows (Suc i) else i)"
  by auto
termination by (relation "measure (\<lambda>(_, rows, i). length rows - i)") auto

declare move_down.simps [simp del]

definition new_row :: "('a \<Rightarrow> bool) \<Rightarrow> ('a \<Rightarrow> bool) \<Rightarrow> 'a list \<Rightarrow> nat \<Rightarrow> nat" where
  "new_row up down rows i =
     (let j = move_up up rows i in if j = i then move_down down rows i else j)"

definition row_moved :: "nat \<Rightarrow> nat \<Rightarrow> row_event" where
  "row_moved i j = RowsMoved (int i) (int i) (if j < i then int j else int j + 1)"

text \<open>The hash after a move: first the moved row, then the rows it has passed.\<close>

definition moved_index :: "('a \<Rightarrow> 'k) \<Rightarrow> 'a list \<Rightarrow> nat \<Rightarrow> nat \<Rightarrow> ('k \<rightharpoonup> nat) \<Rightarrow> ('k \<rightharpoonup> nat)" where
  "moved_index key rows i j m =
     (let m1 = m(key (rows ! j) \<mapsto> j)
      in if j < i then reindex key rows (Suc j) (Suc (max i j)) m1
         else reindex key rows i (max i j) m1)"

section \<open>What the loops find\<close>

lemma insert_pos_le [simp]: "insert_pos stay xs \<le> length xs"
  by (induction xs) auto

lemma insert_pos_before: "k < insert_pos stay xs \<Longrightarrow> stay (xs ! k)"
  by (induction xs arbitrary: k) (auto simp: nth_Cons' less_Suc_eq_0_disj split: if_splits)

lemma insert_pos_at: "insert_pos stay xs < length xs \<Longrightarrow> \<not> stay (xs ! insert_pos stay xs)"
  by (induction xs) auto

lemma move_up_le: "move_up up xs i \<le> i"
  by (induction i) auto

lemma move_up_passed: "move_up up xs i \<le> k \<Longrightarrow> k < i \<Longrightarrow> up (xs ! k)"
  by (induction i) (auto simp: less_Suc_eq split: if_splits)

lemma move_up_stop: "0 < move_up up xs i \<Longrightarrow> \<not> up (xs ! (move_up up xs i - 1))"
  by (induction i) auto

lemma move_down_ge: "i \<le> move_down down xs i"
  by (induction down xs i rule: move_down.induct) (subst move_down.simps, auto)

lemma move_down_less: "i < length xs \<Longrightarrow> move_down down xs i < length xs"
  by (induction down xs i rule: move_down.induct) (subst move_down.simps, auto)

lemma move_down_passed: "i < k \<Longrightarrow> k \<le> move_down down xs i \<Longrightarrow> down (xs ! k)"
proof (induction down xs i rule: move_down.induct)
  case (1 down xs i)
  show ?case
  proof (cases "Suc i < length xs \<and> down (xs ! Suc i)")
    case True
    with 1 show ?thesis by (cases "k = Suc i") (auto simp: move_down.simps [of down xs i])
  next
    case False
    with 1 show ?thesis by (auto simp: move_down.simps [of down xs i])
  qed
qed

lemma move_down_stop: "Suc (move_down down xs i) < length xs \<Longrightarrow> \<not> down (xs ! Suc (move_down down xs i))"
  by (induction down xs i rule: move_down.induct)
     (metis move_down.simps)

lemma new_row_less: "i < length xs \<Longrightarrow> new_row up down xs i < length xs"
  using move_up_le [of up xs i] move_down_less [of i xs down] by (simp add: new_row_def Let_def)

section \<open>The hash and the views\<close>

lemma view_row_moved:
  "i < length xs \<Longrightarrow> j < length xs \<Longrightarrow> i \<noteq> j \<Longrightarrow> view_step rows (row_moved i j) xs = qmove i j xs"
  using view_moved_down [of i j xs rows] view_moved_up [of j i xs rows]
  by (cases "j < i") (simp_all add: row_moved_def add.commute)

lemma view_row_inserted:
  "i \<le> length xs \<Longrightarrow> view_step (insert_at i x xs) (RowsInserted (int i) (int i)) xs = insert_at i x xs"
  using view_inserted [of i xs "[x]"] by (simp add: insert_at_def)

lemma view_row_removed: "view_step rows (RowsRemoved (int i) (int i)) xs = remove_at i xs"
  by (simp add: remove_slice_def remove_at_def)

lemma qmove_at: "i < length xs \<Longrightarrow> j < length xs \<Longrightarrow> qmove i j xs ! j = xs ! i"
  by (simp add: qmove_def nth_insert_at)

lemma qmove_same [simp]: "i < length xs \<Longrightarrow> qmove i i xs = xs"
  by (simp add: qmove_def insert_at_def remove_at_def min_def id_take_nth_drop [symmetric])

lemma index_ok_moved:
  assumes ok: "index_ok key rows m" and ij: "i < length rows" "j < length rows"
  shows "index_ok key (qmove i j rows) (moved_index key (qmove i j rows) i j m)"
proof -
  let ?rows = "qmove i j rows" and ?m = "m(key (qmove i j rows ! j) \<mapsto> j)"
  define a b where "a = (if j < i then Suc j else i)" and "b = (if j < i then Suc i else j)"
  have d: "distinct (map key ?rows)" using index_ok_distinct [OF ok] ij by (simp add: row_simps)
  have "moved_index key ?rows i j m = reindex key ?rows a b ?m"
    by (auto simp: moved_index_def a_def b_def Let_def max_def)
  moreover have "index_ok key ?rows (reindex key ?rows a b ?m)"
  proof (rule index_ok_reindex [OF d])
    show "b \<le> length ?rows" using ij by (simp add: b_def)
    show "?m (key (?rows ! n)) = Some n" if n: "n < length ?rows" "n < a \<or> b \<le> n" for n
    proof (cases "n = j")
      case False
      then have "n < min i j \<or> max i j < n" using n by (auto simp: a_def b_def split: if_splits)
      then have "?rows ! n = rows ! n" using n ij by (simp add: qmove_outside)
      moreover have "key (?rows ! n) \<noteq> key (?rows ! j)"
        using distinct_key_eq [OF d, of n j] n ij False by auto
      ultimately show ?thesis using index_ok_lookup [OF ok, of n] n ij by simp
    qed simp
    show "?m k = None" if "k \<notin> key ` set ?rows" for k
    proof -
      have "?rows ! j \<in> set ?rows" using ij by (metis length_qmove nth_mem)
      with that index_ok_None [OF ok, of k] ij show ?thesis by auto
    qed
  qed
  ultimately show ?thesis by simp
qed

lemma index_ok_insert_at:
  assumes ok: "index_ok key rows m" and i: "i \<le> length rows" and new: "key x \<notin> key ` set rows"
  shows "index_ok key (insert_at i x rows)
           (reindex key (insert_at i x rows) (Suc i) (Suc (length rows)) (m(key x \<mapsto> i)))"
proof -
  have "distinct (map key (rows @ [x]))" using index_ok_distinct [OF ok] new by simp
  from index_ok_splice [OF ok i this]
  have "index_ok key (insert_at i x rows) (reindex key (insert_at i x rows) i (Suc (length rows)) m)"
    by (simp add: insert_at_def)
  moreover have "insert_at i x rows ! i = x" using i by (simp add: nth_insert_at)
  ultimately show ?thesis using i by (simp add: reindex_first [of i "Suc (length rows)"])
qed

lemma index_ok_remove_at:
  assumes ok: "index_ok key rows m" and i: "i < length rows" and k: "key (rows ! i) = k"
  shows "index_ok key (remove_at i rows) (reindex key (remove_at i rows) i (length (remove_at i rows)) (m(k := None)))"
proof -
  have "remove_at i rows = remove_slice i i rows" by (simp add: remove_at_def remove_slice_def)
  moreover have "(m(k := None)) k' = (if \<exists>n. i \<le> n \<and> n \<le> i \<and> key (rows ! n) = k' then None else m k')" for k'
  proof -
    have "(\<exists>n. i \<le> n \<and> n \<le> i \<and> key (rows ! n) = k') \<longleftrightarrow> k' = k" using k by (metis le_antisym order_refl)
    then show ?thesis by simp
  qed
  ultimately show ?thesis using index_ok_slice [OF ok order_refl i, of "m(k := None)"] by simp
qed

section \<open>A comparison that orders the rows\<close>

lemma sorted_insert_at:
  assumes s: "sorted (map rank ys)" and j: "j \<le> length ys"
    and lo: "0 < j \<Longrightarrow> rank (ys ! (j - 1)) \<le> rank x" and hi: "j < length ys \<Longrightarrow> rank x \<le> rank (ys ! j)"
  shows "sorted (map rank (insert_at j x ys))"
proof -
  have split: "map rank ys = map rank (take j ys) @ map rank (drop j ys)" by (metis append_take_drop_id map_append)
  have low: "rank y \<le> rank x" if "y \<in> set (take j ys)" for y
  proof -
    from that obtain k where k: "k < j" "k < length ys" "y = ys ! k" by (auto simp: in_set_conv_nth)
    then have "rank (ys ! k) \<le> rank (ys ! (j - 1))"
      using sorted_nth_mono [OF s, of k "j - 1"] j by simp
    with lo k show ?thesis by (auto intro: order_trans)
  qed
  have high: "rank x \<le> rank y" if "y \<in> set (drop j ys)" for y
  proof -
    from that obtain i where "i < length ys - j" "y = ys ! (j + i)" by (auto simp: in_set_conv_nth)
    then obtain k where k: "j \<le> k" "k < length ys" "y = ys ! k" by (metis le_add1 less_diff_conv add.commute)
    then have "rank (ys ! j) \<le> rank (ys ! k)" using sorted_nth_mono [OF s, of j k] by simp
    with hi k show ?thesis by (auto intro: order_trans)
  qed
  have "sorted (map rank (take j ys))" "sorted (map rank (drop j ys))"
    using s by (simp_all add: take_map [symmetric] drop_map [symmetric] sorted_wrt_take sorted_wrt_drop)
  then show ?thesis
    using low high by (auto simp: insert_at_def sorted_append intro: order_trans)
qed

lemma sorted_remove_at: "sorted (map rank xs) \<Longrightarrow> sorted (map rank (remove_at i xs))"
proof -
  assume s: "sorted (map rank xs)"
  have "sorted (map rank (take i xs) @ map rank (drop i xs))"
    using s by (metis append_take_drop_id map_append)
  moreover have "set (drop (Suc i) xs) \<subseteq> set (drop i xs)" by (rule set_drop_subset_set_drop) simp
  moreover have "sorted (map rank (drop (Suc i) xs))" using s by (simp add: drop_map [symmetric] sorted_wrt_drop)
  ultimately show ?thesis by (auto simp: remove_at_def sorted_append)
qed

locale ordered_rows =
  fixes rank :: "'a \<Rightarrow> 'r::linorder"
    and up down stay :: "'a \<Rightarrow> 'a \<Rightarrow> bool"
  assumes up_rank: "up x y \<Longrightarrow> rank x \<le> rank y" "\<not> up x y \<Longrightarrow> rank y \<le> rank x"
    and down_rank: "down x y \<Longrightarrow> rank y \<le> rank x" "\<not> down x y \<Longrightarrow> rank x \<le> rank y"
    and stay_rank: "stay x y \<Longrightarrow> rank y \<le> rank x" "\<not> stay x y \<Longrightarrow> rank x \<le> rank y"
begin

lemma inserted_sorted:
  assumes s: "sorted (map rank xs)"
  shows "sorted (map rank (insert_at (insert_pos (stay x) xs) x xs))"
  by (rule sorted_insert_at [OF s insert_pos_le])
     (use stay_rank insert_pos_before [of _ "stay x" xs] insert_pos_at [of "stay x" xs] in auto)

text \<open>One row is out of place: the two loops find the place where it belongs.\<close>

lemma moved_sorted:
  assumes i: "i < length xs" and s: "sorted (map rank (remove_at i xs))"
  shows "sorted (map rank (qmove i (new_row (up (xs ! i)) (down (xs ! i)) xs i) xs))"
proof -
  let ?x = "xs ! i" and ?ys = "remove_at i xs"
  let ?j = "new_row (up ?x) (down ?x) xs i"
  have j: "?j < length xs" using i by (rule new_row_less)
  have lo: "rank (?ys ! (?j - 1)) \<le> rank ?x" if "0 < ?j"
  proof (cases "move_up (up ?x) xs i = i")
    case False
    with move_up_le [of "up ?x" xs i] have "?j = move_up (up ?x) xs i" "?j < i" by (auto simp: new_row_def Let_def)
    with move_up_stop [of "up ?x" xs i] that up_rank i j show ?thesis by (auto simp: nth_remove_at)
  next
    case True
    then have jd: "?j = move_down (down ?x) xs i" by (simp add: new_row_def Let_def)
    show ?thesis
    proof (cases "?j = i")
      case True
      with \<open>move_up (up ?x) xs i = i\<close> move_up_stop [of "up ?x" xs i] that up_rank i show ?thesis
        by (auto simp: nth_remove_at)
    next
      case False
      with jd move_down_ge [of i "down ?x" xs] have "i < ?j" by auto
      with jd move_down_passed [of i ?j "down ?x" xs] down_rank i j show ?thesis
        by (auto simp: nth_remove_at)
    qed
  qed
  have hi: "rank ?x \<le> rank (?ys ! ?j)" if "?j < length ?ys"
  proof (cases "move_up (up ?x) xs i = i")
    case False
    with move_up_le [of "up ?x" xs i] have "?j = move_up (up ?x) xs i" "?j < i" by (auto simp: new_row_def Let_def)
    with move_up_passed [of "up ?x" xs i ?j] up_rank i j that show ?thesis by (auto simp: nth_remove_at)
  next
    case True
    then have jd: "?j = move_down (down ?x) xs i" by (simp add: new_row_def Let_def)
    with move_down_stop [of "down ?x" xs i] move_down_ge [of i "down ?x" xs] down_rank that i
    show ?thesis by (auto simp: nth_remove_at)
  qed
  have "?j \<le> length ?ys" using i j by simp
  from sorted_insert_at [OF s this lo hi] show ?thesis by (simp add: qmove_def)
qed

end

end
