(* ===== verification/ChatDataModel.thy ===== *)
theory ChatDataModel imports UtilitiesModel
begin

text \<open>
  \<open>ChatData\<close> (\<open>src/chatdata.h\<close>, \<open>chatdata.cpp\<close>) and its base class \<open>BaseMessageableData\<close>
  (\<open>src/basemessageabledata.h\<close>, \<open>basemessageabledata.cpp\<close>): what the library knows of one chat, kept
  as TDLib's object with a few cached fields; with the enumerations of \<open>TDLibWrapper\<close> that
  TDLib's type names are read into, and the functions of \<open>Utilities\<close> on chat actions.

  The text of a message (\<open>Utilities::getMessageFormattedText\<close>, which translates) is an argument
  \<open>text\<close> of the functions that use it. A \<open>qreal\<close> progress is a rational number. The lemmas show
  that an update reports exactly the roles whose values it changes.
\<close>

section \<open>Enumerations\<close>

datatype chat_type = ChatTypeUnknown | ChatTypePrivate | ChatTypeBasicGroup | ChatTypeSupergroup | ChatTypeSecret

definition chatTypeFromString :: "string \<Rightarrow> chat_type" where
  "chatTypeFromString type =
     (if type = ''chatTypePrivate'' then ChatTypePrivate
      else if type = ''chatTypeBasicGroup'' then ChatTypeBasicGroup
      else if type = ''chatTypeSupergroup'' then ChatTypeSupergroup
      else if type = ''chatTypeSecret'' then ChatTypeSecret
      else ChatTypeUnknown)"

datatype member_status =
  ChatMemberStatusUnknown | ChatMemberStatusCreator | ChatMemberStatusAdministrator
| ChatMemberStatusMember | ChatMemberStatusRestricted | ChatMemberStatusLeft | ChatMemberStatusBanned

definition chatMemberStatusFromString :: "string \<Rightarrow> member_status" where
  "chatMemberStatusFromString status =
     (if status = ''chatMemberStatusMember'' then ChatMemberStatusMember
      else if status = ''chatMemberStatusLeft'' then ChatMemberStatusLeft
      else if status = ''chatMemberStatusCreator'' then ChatMemberStatusCreator
      else if status = ''chatMemberStatusAdministrator'' then ChatMemberStatusAdministrator
      else if status = ''chatMemberStatusRestricted'' then ChatMemberStatusRestricted
      else if status = ''chatMemberStatusBanned'' then ChatMemberStatusBanned
      else ChatMemberStatusUnknown)"

datatype action_type =
  ActionCancel | ActionTyping | ActionRecordingVideo | ActionUploadingVideo | ActionRecordingVoiceNote
| ActionUploadingVoiceNote | ActionUploadingPhoto | ActionUploadingDocument | ActionChoosingSticker
| ActionChoosingLocation | ActionChoosingContact | ActionStartPlayingGame | ActionRecordingVideoNote
| ActionUploadingVideoNote | ActionWatchingAnimations

definition getChatActionType :: "string \<Rightarrow> action_type" where
  "getChatActionType type =
     (if type = ''chatActionTyping'' then ActionTyping
      else if type = ''chatActionRecordingVideo'' then ActionRecordingVideo
      else if type = ''chatActionUploadingVideo'' then ActionUploadingVideo
      else if type = ''chatActionRecordingVoiceNote'' then ActionRecordingVoiceNote
      else if type = ''chatActionUploadingVoiceNote'' then ActionUploadingVoiceNote
      else if type = ''chatActionUploadingPhoto'' then ActionUploadingPhoto
      else if type = ''chatActionUploadingDocument'' then ActionUploadingDocument
      else if type = ''chatActionChoosingSticker'' then ActionChoosingSticker
      else if type = ''chatActionChoosingLocation'' then ActionChoosingLocation
      else if type = ''chatActionChoosingContact'' then ActionChoosingContact
      else if type = ''chatActionStartPlayingGame'' then ActionStartPlayingGame
      else if type = ''chatActionRecordingVideoNote'' then ActionRecordingVideoNote
      else if type = ''chatActionUploadingVideoNote'' then ActionUploadingVideoNote
      else if type = ''chatActionWatchingAnimations'' then ActionWatchingAnimations
      else ActionCancel)"

fun getChatActionTypeString :: "action_type \<Rightarrow> string" where
  "getChatActionTypeString ActionTyping = ''chatActionTyping''"
| "getChatActionTypeString ActionRecordingVideo = ''chatActionRecordingVideo''"
| "getChatActionTypeString ActionUploadingVideo = ''chatActionUploadingVideo''"
| "getChatActionTypeString ActionRecordingVoiceNote = ''chatActionRecordingVoiceNote''"
| "getChatActionTypeString ActionUploadingVoiceNote = ''chatActionUploadingVoiceNote''"
| "getChatActionTypeString ActionUploadingPhoto = ''chatActionUploadingPhoto''"
| "getChatActionTypeString ActionUploadingDocument = ''chatActionUploadingDocument''"
| "getChatActionTypeString ActionChoosingSticker = ''chatActionChoosingSticker''"
| "getChatActionTypeString ActionChoosingLocation = ''chatActionChoosingLocation''"
| "getChatActionTypeString ActionChoosingContact = ''chatActionChoosingContact''"
| "getChatActionTypeString ActionStartPlayingGame = ''chatActionStartPlayingGame''"
| "getChatActionTypeString ActionRecordingVideoNote = ''chatActionRecordingVideoNote''"
| "getChatActionTypeString ActionUploadingVideoNote = ''chatActionUploadingVideoNote''"
| "getChatActionTypeString ActionWatchingAnimations = ''chatActionWatchingAnimations''"
| "getChatActionTypeString ActionCancel = ''chatActionCancel''"

lemma getChatActionType_string: "getChatActionType (getChatActionTypeString t) = t"
  by (cases t) (simp_all add: getChatActionType_def)

section \<open>Chat actions\<close>

record chat_action =
  action_type :: action_type
  progressOrEmoji :: qvariant

definition noAction :: chat_action where
  "noAction = \<lparr>action_type = ActionCancel, progressOrEmoji = QInvalid\<rparr>"

definition ChatAction :: "vmap \<Rightarrow> chat_action" where
  "ChatAction a =
     (let t = getChatActionType (toString (mvalue a ''@type''))
      in \<lparr>action_type = t, progressOrEmoji =
           (if t \<in> {ActionUploadingVideo, ActionUploadingVoiceNote, ActionUploadingPhoto,
                    ActionUploadingDocument, ActionUploadingVideoNote}
            then QInt (toInt (mvalue a ''progress''))
            else if t = ActionWatchingAnimations then QString (toString (mvalue a ''emoji''))
            else QInvalid)\<rparr>)"

definition action_eq :: "chat_action \<Rightarrow> chat_action \<Rightarrow> bool" where
  "action_eq a b \<longleftrightarrow> action_type a = action_type b \<and>
     (action_type a \<noteq> ActionWatchingAnimations \<or> progressOrEmoji a = progressOrEmoji b)"

definition action_isInvalid :: "chat_action \<Rightarrow> bool" where
  "action_isInvalid a \<longleftrightarrow> action_type a = ActionCancel"

definition action_progress :: "chat_action \<Rightarrow> int" where
  "action_progress a = (case progressOrEmoji a of QInt i \<Rightarrow> i | _ \<Rightarrow> -1)"

fun getMainChatAction_loop :: "chat_action \<Rightarrow> chat_action list \<Rightarrow> chat_action" where
  "getMainChatAction_loop main [] = main"
| "getMainChatAction_loop main (a # as) =
     (if action_isInvalid main then getMainChatAction_loop a as
      else if \<not> action_eq main a then noAction
      else getMainChatAction_loop main as)"

definition getMainChatAction :: "bool \<Rightarrow> chat_action list \<Rightarrow> chat_action" where
  "getMainChatAction isUser actions =
     (if actions = [] then noAction
      else if isUser then hd actions
      else getMainChatAction_loop noAction actions)"

definition getChatActionsProgress :: "bool \<Rightarrow> chat_action list \<Rightarrow> rat" where
  "getChatActionsProgress isUser actions =
     (if actions = [] then -1
      else if isUser then of_int (action_progress (hd actions))
      else if action_isInvalid (getMainChatAction isUser actions) \<or> action_progress (hd actions) < 0 then -1
      else of_int (sum_list (map action_progress actions)) / of_nat (length actions * 100))"

section \<open>The last message and the draft\<close>

text \<open>The functions of the base class, on the last message and the draft they are given.\<close>

definition lm_id :: "vmap \<Rightarrow> int" where
  "lm_id lm = toLongLong (mvalue lm ''id'')"

definition lm_senderId :: "vmap \<Rightarrow> message_sender" where
  "lm_senderId lm = MessageSender (toMap (mvalue lm ''sender_id''))"

definition lm_date :: "vmap \<Rightarrow> int" where
  "lm_date lm = toLongLong (mvalue lm ''date'')"

definition lm_minithumbnail :: "vmap \<Rightarrow> qvariant" where
  "lm_minithumbnail lm = getMessageMinithumbnail (toMap (mvalue lm ''content''))"

definition lm_isService :: "vmap \<Rightarrow> bool" where
  "lm_isService lm = messageContentIsService (toString (mvalue (toMap (mvalue lm ''content'')) ''@type''))"

definition lm_sendingState :: "vmap \<Rightarrow> qvariant" where
  "lm_sendingState lm = mvalue lm ''sending_state''"

definition lm_isOutgoing :: "vmap \<Rightarrow> bool" where
  "lm_isOutgoing lm = toBool (mvalue lm ''is_outgoing'')"

definition dm_date :: "vmap \<Rightarrow> int" where
  "dm_date draft = (if mempty draft then 0 else toLongLong (mvalue draft ''date''))"

definition dm_text :: "vmap \<Rightarrow> string" where
  "dm_text draft =
     (if mempty draft then []
      else (let content = toMap (mvalue draft ''content'')
            in if toString (mvalue content ''@type'') \<noteq> ''draftMessageContentText'' then []
               else toString (mvalue (toMap (mvalue content ''text'')) ''text'')))"

section \<open>A chat\<close>

datatype chat_role =
  ChatRoleDisplay | ChatRoleChatId | ChatRoleChatType | ChatRoleGroupId | ChatRoleTitle | ChatRolePhoto
| ChatRoleUnreadCount | ChatRoleUnreadMentionCount | ChatRoleUnreadReactionCount | ChatRoleUnreadPollVoteCount
| ChatRoleAvailableReactions | ChatRoleLastReadOutboxMessageId | ChatRoleLastReadInboxMessageId
| ChatRoleLastMessageId | ChatRoleLastMessageSenderId | ChatRoleLastMessageDate | ChatRoleLastMessageText
| ChatRoleLastMessageMinithumbnail | ChatRoleLastMessageIsService | ChatRoleLastMessageSendingState
| ChatRoleLastMessageIsOutgoing | ChatRoleChatMemberStatus | ChatRoleVerificationStatus | ChatRoleIsChannel
| ChatRoleIsMarkedAsUnread | ChatRoleIsPinned | ChatRoleDraftMessageText | ChatRoleDraftMessageDate
| ChatRoleNotificationSettings | ChatRolePermissions | ChatRoleChatMainActionType | ChatRoleChatActionsText
| ChatRoleChatActionsProgress | ChatRoleViewAsTopics | ChatRoleIsOnline | ChatRoleAccentColorId
| ChatRoleBackgroundCustomEmojiId | ChatRoleUpgradedGiftColors | ChatRoleProfileAccentColorId
| ChatRoleProfileBackgroundCustomEmojiId

text \<open>\<open>chatActions\<close> is a hash, listed here in the order its values are visited.\<close>

record chat_data =
  chatData :: vmap
  cd_chatId :: int
  cd_groupId :: int
  verificationStatus :: vmap
  chatType :: chat_type
  memberStatus :: member_status
  chatActions :: "(message_sender \<times> chat_action) list"
  online :: bool

record td_group =
  gr_groupId :: int
  groupInfo :: vmap

definition group_memberStatus :: "td_group \<Rightarrow> member_status" where
  "group_memberStatus g =
     (let t = toString (mvalue (toMap (mvalue (groupInfo g) ''status'')) ''@type'')
      in if t = [] then ChatMemberStatusUnknown else chatMemberStatusFromString t)"

definition group_isPublic :: "td_group \<Rightarrow> bool" where
  "group_isPublic g \<longleftrightarrow>
     toList (mvalue (toMap (mvalue (groupInfo g) ''usernames'')) ''active_usernames'') \<noteq> [] \<or>
     toBool (mvalue (groupInfo g) ''has_linked_chat'') \<or> toBool (mvalue (groupInfo g) ''has_location'') \<or>
     toBool (mvalue (groupInfo g) ''is_direct_messages_group'')"

definition lastMessage :: "chat_data \<Rightarrow> vmap" where
  "lastMessage c = toMap (mvalue (chatData c) ''last_message'')"

definition draftMessage :: "chat_data \<Rightarrow> vmap" where
  "draftMessage c = toMap (mvalue (chatData c) ''draft_message'')"

definition cd_title :: "chat_data \<Rightarrow> string" where
  "cd_title c = toString (mvalue (chatData c) ''title'')"

definition unreadCount :: "chat_data \<Rightarrow> int" where
  "unreadCount c = toInt (mvalue (chatData c) ''unread_count'')"

definition unreadMentionCount :: "chat_data \<Rightarrow> int" where
  "unreadMentionCount c = toInt (mvalue (chatData c) ''unread_mention_count'')"

definition availableReactions :: "chat_data \<Rightarrow> qvariant" where
  "availableReactions c = mvalue (chatData c) ''available_reactions''"

definition unreadReactionCount :: "chat_data \<Rightarrow> int" where
  "unreadReactionCount c = toInt (mvalue (chatData c) ''unread_reaction_count'')"

definition unreadPollVoteCount :: "chat_data \<Rightarrow> int" where
  "unreadPollVoteCount c = toInt (mvalue (chatData c) ''unread_poll_vote_count'')"

definition cd_photo :: "chat_data \<Rightarrow> vmap" where
  "cd_photo c = toMap (mvalue (chatData c) ''photo'')"

definition cd_photoSmall :: "chat_data \<Rightarrow> vmap" where
  "cd_photoSmall c = toMap (mvalue (cd_photo c) ''small'')"

definition lastReadInboxMessageId :: "chat_data \<Rightarrow> int" where
  "lastReadInboxMessageId c = toLongLong (mvalue (chatData c) ''last_read_inbox_message_id'')"

definition lastReadOutboxMessageId :: "chat_data \<Rightarrow> int" where
  "lastReadOutboxMessageId c = toLongLong (mvalue (chatData c) ''last_read_outbox_message_id'')"

definition notificationSettings :: "chat_data \<Rightarrow> vmap" where
  "notificationSettings c = toMap (mvalue (chatData c) ''notification_settings'')"

definition permissions :: "chat_data \<Rightarrow> vmap" where
  "permissions c = toMap (mvalue (chatData c) ''permissions'')"

definition cd_isChannel :: "chat_data \<Rightarrow> bool" where
  "cd_isChannel c = toBool (mvalue (toMap (mvalue (chatData c) ''type'')) ''is_channel'')"

definition isMarkedAsUnread :: "chat_data \<Rightarrow> bool" where
  "isMarkedAsUnread c = toBool (mvalue (chatData c) ''is_marked_as_unread'')"

definition isPrivateOrSecretChat :: "chat_data \<Rightarrow> bool" where
  "isPrivateOrSecretChat c \<longleftrightarrow> chatType c = ChatTypePrivate \<or> chatType c = ChatTypeSecret"

definition cd_viewAsTopics :: "chat_data \<Rightarrow> bool" where
  "cd_viewAsTopics c = toBool (mvalue (chatData c) ''view_as_topics'')"

definition getMainChatActionType :: "chat_data \<Rightarrow> action_type" where
  "getMainChatActionType c = action_type (getMainChatAction (isPrivateOrSecretChat c) (map snd (chatActions c)))"

definition cd_getChatActionsProgress :: "chat_data \<Rightarrow> rat" where
  "cd_getChatActionsProgress c = getChatActionsProgress (isPrivateOrSecretChat c) (map snd (chatActions c))"

definition accentColorId :: "chat_data \<Rightarrow> int" where
  "accentColorId c = toInt (mvalue (chatData c) ''accent_color_id'')"

definition backgroundCustomEmojiId :: "chat_data \<Rightarrow> string" where
  "backgroundCustomEmojiId c = toString (mvalue (chatData c) ''background_custom_emoji_id'')"

definition upgradedGiftColors :: "chat_data \<Rightarrow> vmap" where
  "upgradedGiftColors c = toMap (mvalue (chatData c) ''upgraded_gift_colors'')"

definition profileAccentColorId :: "chat_data \<Rightarrow> int" where
  "profileAccentColorId c = toInt (mvalue (chatData c) ''profile_accent_color_id'')"

definition profileBackgroundCustomEmojiId :: "chat_data \<Rightarrow> string" where
  "profileBackgroundCustomEmojiId c = toString (mvalue (chatData c) ''profile_background_custom_emoji_id'')"

section \<open>Updates\<close>

definition cd_put :: "string \<Rightarrow> qvariant \<Rightarrow> chat_data \<Rightarrow> chat_data" where
  "cd_put k v c = c\<lparr>chatData := minsert k v (chatData c)\<rparr>"

definition updateUnreadCount :: "int \<Rightarrow> chat_data \<Rightarrow> bool \<times> chat_data" where
  "updateUnreadCount n c = (let c' = cd_put ''unread_count'' (QInt n) c in (unreadCount c \<noteq> unreadCount c', c'))"

definition updateLastReadInboxMessageId :: "int \<Rightarrow> chat_data \<Rightarrow> bool \<times> chat_data" where
  "updateLastReadInboxMessageId i c =
     (let c' = cd_put ''last_read_inbox_message_id'' (QInt i) c
      in (lastReadInboxMessageId c \<noteq> lastReadInboxMessageId c', c'))"

definition updateLastReadOutboxMessageId :: "int \<Rightarrow> chat_data \<Rightarrow> bool \<times> chat_data" where
  "updateLastReadOutboxMessageId i c =
     (let c' = cd_put ''last_read_outbox_message_id'' (QInt i) c
      in (lastReadOutboxMessageId c \<noteq> lastReadOutboxMessageId c', c'))"

definition updateLastMessage :: "(vmap \<Rightarrow> string) \<Rightarrow> vmap \<Rightarrow> chat_data \<Rightarrow> chat_role list \<times> chat_data" where
  "updateLastMessage text message c =
     (let c' = cd_put ''last_message'' (QMap message) c;
          old = lastMessage c; new = lastMessage c'
      in ([ChatRoleDisplay] @
          (if lm_id old \<noteq> lm_id new then [ChatRoleLastMessageId] else []) @
          (if lm_senderId old \<noteq> lm_senderId new then [ChatRoleLastMessageSenderId] else []) @
          (if lm_date old \<noteq> lm_date new then [ChatRoleLastMessageDate] else []) @
          (if text old \<noteq> text new then [ChatRoleLastMessageText] else []) @
          (if lm_minithumbnail old \<noteq> lm_minithumbnail new then [ChatRoleLastMessageMinithumbnail] else []) @
          (if lm_isService old \<noteq> lm_isService new then [ChatRoleLastMessageIsService] else []) @
          (if lm_sendingState old \<noteq> lm_sendingState new then [ChatRoleLastMessageSendingState] else []) @
          (if lm_isOutgoing old \<noteq> lm_isOutgoing new then [ChatRoleLastMessageIsOutgoing] else []), c'))"

definition cd_updateGroup :: "td_group option \<Rightarrow> chat_data \<Rightarrow> chat_role list \<times> chat_data" where
  "cd_updateGroup grp c =
     (case grp of
        None \<Rightarrow> ([], c)
      | Some g \<Rightarrow>
          if cd_groupId c = gr_groupId g then
            (let status = group_memberStatus g;
                 verification = toMap (mvalue (groupInfo g) ''verification_status'')
             in ((if memberStatus c \<noteq> status then [ChatRoleChatMemberStatus] else []) @
                 (if verificationStatus c \<noteq> verification then [ChatRoleVerificationStatus] else []),
                 c\<lparr>memberStatus := status, verificationStatus := verification\<rparr>))
          else ([], c))"

definition updateUserStatus :: "vmap \<Rightarrow> chat_data \<Rightarrow> bool \<times> chat_data" where
  "updateUserStatus status c =
     (if mempty status then (False, c)
      else (let b = (toString (mvalue status ''@type'') = ''userStatusOnline'')
            in if online c \<noteq> b then (True, c\<lparr>online := b\<rparr>) else (False, c)))"

text \<open>\<open>userStatus\<close> and \<open>groupOf\<close> are what \<open>TDLibData\<close> knows of the user and the group.\<close>

definition updateChatData :: "vmap \<Rightarrow> (int \<Rightarrow> bool \<Rightarrow> td_group option) \<Rightarrow> vmap \<Rightarrow> chat_data \<Rightarrow> chat_data" where
  "updateChatData userStatus groupOf d c =
     (let type = toMap (mvalue d ''type'');
          t = chatTypeFromString (toString (mvalue type ''@type''));
          c1 = c\<lparr>chatData := d, chatType := t\<rparr>;
          c2 = (if t = ChatTypeBasicGroup then c1\<lparr>cd_groupId := toLongLong (mvalue type ''basic_group_id'')\<rparr>
                else if t = ChatTypeSupergroup then c1\<lparr>cd_groupId := toLongLong (mvalue type ''supergroup_id'')\<rparr>
                else if t = ChatTypePrivate \<or> t = ChatTypeSecret then snd (updateUserStatus userStatus c1)
                else c1)
      in if cd_groupId c2 \<noteq> 0
         then snd (cd_updateGroup (groupOf (cd_groupId c2) (t = ChatTypeSupergroup)) c2) else c2)"

definition newChatData :: "vmap \<Rightarrow> (int \<Rightarrow> bool \<Rightarrow> td_group option) \<Rightarrow> vmap \<Rightarrow> chat_data" where
  "newChatData userStatus groupOf d =
     updateChatData userStatus groupOf d
       \<lparr>chatData = fmempty, cd_chatId = toLongLong (mvalue d ''id''), cd_groupId = 0, verificationStatus = fmempty,
        chatType = ChatTypeUnknown, memberStatus = ChatMemberStatusUnknown, chatActions = [], online = False\<rparr>"

definition updateAccentColors :: "int \<Rightarrow> string \<Rightarrow> vmap \<Rightarrow> int \<Rightarrow> string \<Rightarrow> chat_data \<Rightarrow> chat_role list \<times> chat_data" where
  "updateAccentColors accent background gift profileAccent profileBackground c =
     (let d0 = chatData c;
          (r1, d1) = (if toInt (mvalue d0 ''accent_color_id'') \<noteq> accent
                      then ([ChatRoleAccentColorId], minsert ''accent_color_id'' (QInt accent) d0) else ([], d0));
          (r2, d2) = (if toString (mvalue d1 ''background_custom_emoji_id'') \<noteq> background
                      then ([ChatRoleBackgroundCustomEmojiId], minsert ''background_custom_emoji_id'' (QString background) d1)
                      else ([], d1));
          (r3, d3) = (if toMap (mvalue d2 ''upgraded_gift_colors'') \<noteq> gift
                      then ([ChatRoleUpgradedGiftColors], minsert ''upgraded_gift_colors'' (QMap gift) d2) else ([], d2));
          (r4, d4) = (if toInt (mvalue d3 ''profile_accent_color_id'') \<noteq> profileAccent
                      then ([ChatRoleProfileAccentColorId], minsert ''profile_accent_color_id'' (QInt profileAccent) d3)
                      else ([], d3));
          (r5, d5) = (if toString (mvalue d4 ''profile_background_custom_emoji_id'') \<noteq> profileBackground
                      then ([ChatRoleProfileBackgroundCustomEmojiId],
                            minsert ''profile_background_custom_emoji_id'' (QString profileBackground) d4)
                      else ([], d4))
      in (r1 @ r2 @ r3 @ r4 @ r5, c\<lparr>chatData := d5\<rparr>))"

section \<open>What an update reports\<close>

lemma updateLastMessage_result: "lastMessage (snd (updateLastMessage text m c)) = m"
  by (simp add: updateLastMessage_def lastMessage_def cd_put_def Let_def)

lemma updateLastMessage_roles:
  "set (fst (updateLastMessage text m c)) = {ChatRoleDisplay} \<union>
     (if lm_id (lastMessage c) \<noteq> lm_id m then {ChatRoleLastMessageId} else {}) \<union>
     (if lm_senderId (lastMessage c) \<noteq> lm_senderId m then {ChatRoleLastMessageSenderId} else {}) \<union>
     (if lm_date (lastMessage c) \<noteq> lm_date m then {ChatRoleLastMessageDate} else {}) \<union>
     (if text (lastMessage c) \<noteq> text m then {ChatRoleLastMessageText} else {}) \<union>
     (if lm_minithumbnail (lastMessage c) \<noteq> lm_minithumbnail m then {ChatRoleLastMessageMinithumbnail} else {}) \<union>
     (if lm_isService (lastMessage c) \<noteq> lm_isService m then {ChatRoleLastMessageIsService} else {}) \<union>
     (if lm_sendingState (lastMessage c) \<noteq> lm_sendingState m then {ChatRoleLastMessageSendingState} else {}) \<union>
     (if lm_isOutgoing (lastMessage c) \<noteq> lm_isOutgoing m then {ChatRoleLastMessageIsOutgoing} else {})"
proof -
  have "lastMessage (cd_put ''last_message'' (QMap m) c) = m" by (simp add: lastMessage_def cd_put_def)
  then show ?thesis by (simp add: updateLastMessage_def Let_def)
qed

end
