(* ===== verification/ChatList.thy ===== *)
theory ChatList imports OrderedRows ChatDataModel "HOL-Library.Product_Lexorder"
begin

text \<open>
  \<open>ChatListModel\<close> (\<open>src/chatlistmodel.h\<close>, \<open>chatlistmodel.cpp\<close>) and \<open>FolderChatListModel\<close>
  (\<open>folderchatlistmodel.h\<close>, \<open>folderchatlistmodel.cpp\<close>): the list of chats as the user sees it,
  in the order TDLib gives, with the unread counts.

  A row points to a \<open>ChatData\<close> that \<open>TDLibData\<close> owns; the row of the model holds the chat's id
  and \<open>chats\<close>, an argument of the functions that read the chat, is what \<open>TDLibData\<close> has under
  it. The texts of the last message and of the chat actions, which are translated, and the
  mute state are arguments as well. Requests to TDLib and signals are entries of a log; a row
  signal carries what a view can read of the list when it gets the signal.

  Against the model stands a finite map from a chat to its order and its pin: every handler
  acts on the list as the map's operation does, the list is the map's only sorted list, and
  the signals rebuild it.
\<close>

section \<open>State\<close>

record list_chat =
  lc_chatId :: int
  lc_order :: int
  lc_isPinned :: bool

datatype cl_output =
  ClRows row_event "(int \<times> bool) list"
| ClDataChanged int int "chat_role list" "(int \<times> bool) list"
| ClCountChanged
| ClUnreadChatCountChanged
| ClUnreadMessageCountChanged
| ClLayoutChanged
| ClLoadChats bool
| ClLoadChatsForFolder int

record cl_state =
  cl_unreadChats :: int
  cl_unreadUnmutedChats :: int
  cl_unreadMessages :: int
  cl_unreadUnmutedMessages :: int
  cl_loading :: bool
  cl_timerActive :: bool
  cl_refreshTimerEnabled :: bool
  cl_chats :: "list_chat list"
  cl_index :: "int \<rightharpoonup> nat"
  cl_archive :: bool
  cl_outputs :: "cl_output list"

definition cl_new :: "bool \<Rightarrow> cl_state" where
  "cl_new archive = \<lparr>cl_unreadChats = 0, cl_unreadUnmutedChats = 0, cl_unreadMessages = 0,
     cl_unreadUnmutedMessages = 0, cl_loading = False, cl_timerActive = False, cl_refreshTimerEnabled = False,
     cl_chats = [], cl_index = Map.empty, cl_archive = archive, cl_outputs = []\<rparr>"

text \<open>What a view reads of a row that is not the chat's: its id and its pin.\<close>

definition cl_shown :: "'a cl_state_scheme \<Rightarrow> (int \<times> bool) list" where
  "cl_shown s = map (\<lambda>c. (lc_chatId c, lc_isPinned c)) (cl_chats s)"

definition cl_emit :: "cl_output \<Rightarrow> 'a cl_state_scheme \<Rightarrow> 'a cl_state_scheme" where
  "cl_emit out s = s\<lparr>cl_outputs := cl_outputs s @ [out]\<rparr>"

text \<open>The constructor connects \<open>rowsInserted\<close>, \<open>rowsRemoved\<close> and \<open>modelReset\<close> to \<open>countChanged\<close>.\<close>

fun cl_counts :: "row_event \<Rightarrow> bool" where
  "cl_counts (RowsInserted _ _) = True"
| "cl_counts (RowsRemoved _ _) = True"
| "cl_counts ModelReset = True"
| "cl_counts _ = False"

definition cl_emitRows :: "row_event \<Rightarrow> 'a cl_state_scheme \<Rightarrow> 'a cl_state_scheme" where
  "cl_emitRows e s =
     (let s1 = cl_emit (ClRows e (cl_shown s)) s in if cl_counts e then cl_emit ClCountChanged s1 else s1)"

text \<open>\<open>index(row)\<close> is invalid, with row \<open>-1\<close>, out of range.\<close>

definition cl_row :: "'a cl_state_scheme \<Rightarrow> int \<Rightarrow> int" where
  "cl_row s r = (if valid_row r (cl_chats s) then r else -1)"

definition cl_dataChanged :: "int \<Rightarrow> int \<Rightarrow> chat_role list \<Rightarrow> 'a cl_state_scheme \<Rightarrow> 'a cl_state_scheme" where
  "cl_dataChanged f l roles s = cl_emit (ClDataChanged (cl_row s f) (cl_row s l) roles (cl_shown s)) s"

section \<open>Order\<close>

definition cl_compareTo :: "list_chat \<Rightarrow> list_chat \<Rightarrow> int" where
  "cl_compareTo c other =
     (if lc_order c = lc_order other then (if lc_chatId c < lc_chatId other then 1 else -1)
      else if lc_order c < lc_order other then 1 else -1)"

definition cl_updateChatOrder :: "nat \<Rightarrow> 'a cl_state_scheme \<Rightarrow> (nat \<times> 'a cl_state_scheme) option" where
  "cl_updateChatOrder i s = do {
     chat \<leftarrow> qat (cl_chats s) i;
     let j = new_row (\<lambda>other. cl_compareTo chat other < 0) (\<lambda>other. cl_compareTo chat other > 0) (cl_chats s) i;
     if j \<noteq> i
     then (let rows = qmove i j (cl_chats s)
           in Some (j, cl_emitRows (row_moved i j)
                         (s\<lparr>cl_chats := rows, cl_index := moved_index lc_chatId rows i j (cl_index s)\<rparr>)))
     else Some (j, s) }"

definition cl_updateChatIsPinned :: "nat \<Rightarrow> bool \<Rightarrow> 'a cl_state_scheme \<Rightarrow> 'a cl_state_scheme option" where
  "cl_updateChatIsPinned i pinned s = do {
     chat \<leftarrow> qat (cl_chats s) i;
     Some (cl_dataChanged (int i) (int i) [ChatRoleIsPinned]
             (s\<lparr>cl_chats := (cl_chats s)[i := chat\<lparr>lc_isPinned := pinned\<rparr>]\<rparr>)) }"

section \<open>Handlers\<close>

definition cl_reset :: "'a cl_state_scheme \<Rightarrow> 'a cl_state_scheme" where
  "cl_reset s =
     (let s1 = (if cl_chats s \<noteq> [] \<or> cl_index s \<noteq> Map.empty
                then cl_emit ClCountChanged
                       (cl_emitRows ModelReset (s\<lparr>cl_chats := [], cl_index := Map.empty\<rparr>))
                else s)
      in cl_emit ClUnreadMessageCountChanged (cl_emit ClUnreadChatCountChanged
           (s1\<lparr>cl_loading := False, cl_unreadChats := 0, cl_unreadUnmutedChats := 0,
               cl_unreadMessages := 0, cl_unreadUnmutedMessages := 0\<rparr>)))"

definition cl_handleChatRolesChanged :: "int \<Rightarrow> chat_role list \<Rightarrow> 'a cl_state_scheme \<Rightarrow> 'a cl_state_scheme" where
  "cl_handleChatRolesChanged chatId roles s =
     (case cl_index s chatId of None \<Rightarrow> s | Some i \<Rightarrow> cl_dataChanged (int i) (int i) roles s)"

definition cl_tryEnableRefreshTimer :: "'a cl_state_scheme \<Rightarrow> 'a cl_state_scheme" where
  "cl_tryEnableRefreshTimer s =
     (if cl_refreshTimerEnabled s then (if \<not> cl_timerActive s then s\<lparr>cl_timerActive := True\<rparr> else s)
      else if cl_timerActive s then s\<lparr>cl_timerActive := False\<rparr> else s)"

fun cl_unreadState ::
  "(int \<Rightarrow> chat_data) \<Rightarrow> (int \<Rightarrow> vmap \<Rightarrow> bool) \<Rightarrow> list_chat list \<Rightarrow> int \<times> int \<times> int \<times> int \<Rightarrow> int \<times> int \<times> int \<times> int" where
  "cl_unreadState chats muted [] acc = acc"
| "cl_unreadState chats muted (c # cs) (uc, uuc, um, uum) =
     (let d = chats (lc_chatId c); n = unreadCount d
      in cl_unreadState chats muted cs
           (if n \<noteq> 0 \<or> isMarkedAsUnread d then
              (if \<not> muted (cd_chatId d) (notificationSettings d) then (uc + 1, uuc + 1, um + n, uum + n)
               else (uc + 1, uuc, um + n, uum))
            else (uc, uuc, um, uum)))"

definition cl_calculateUnreadState ::
  "bool \<Rightarrow> (int \<Rightarrow> chat_data) \<Rightarrow> (int \<Rightarrow> vmap \<Rightarrow> bool) \<Rightarrow> 'a cl_state_scheme \<Rightarrow> 'a cl_state_scheme" where
  "cl_calculateUnreadState onlineOnlyMode chats muted s =
     (if \<not> onlineOnlyMode then s
      else (let (uc, uuc, um, uum) = cl_unreadState chats muted (cl_chats s) (0, 0, 0, 0);
                s1 = (if cl_unreadChats s \<noteq> uc \<or> cl_unreadUnmutedChats s \<noteq> uuc
                      then cl_emit ClUnreadChatCountChanged (s\<lparr>cl_unreadChats := uc, cl_unreadUnmutedChats := uuc\<rparr>)
                      else s)
            in if cl_unreadMessages s1 \<noteq> um \<or> cl_unreadUnmutedMessages s1 \<noteq> uum
               then cl_emit ClUnreadMessageCountChanged
                      (s1\<lparr>cl_unreadMessages := um, cl_unreadUnmutedMessages := uum\<rparr>)
               else s1))"

definition cl_handleChatAddedToList :: "int \<Rightarrow> int \<Rightarrow> bool \<Rightarrow> 'a cl_state_scheme \<Rightarrow> 'a cl_state_scheme" where
  "cl_handleChatAddedToList chatId order pinned s =
     (let chat = \<lparr>lc_chatId = chatId, lc_order = order, lc_isPinned = pinned\<rparr>;
          n = length (cl_chats s);
          pos = insert_pos (\<lambda>other. cl_compareTo chat other \<ge> 0) (cl_chats s);
          rows = insert_at pos chat (cl_chats s)
      in cl_tryEnableRefreshTimer (cl_emitRows (RowsInserted (int pos) (int pos))
           (s\<lparr>cl_chats := rows,
              cl_index := reindex lc_chatId rows (Suc pos) (Suc n) ((cl_index s)(chatId \<mapsto> pos))\<rparr>)))"

definition cl_handleChatRemovedFromList :: "int \<Rightarrow> 'a cl_state_scheme \<Rightarrow> 'a cl_state_scheme option" where
  "cl_handleChatRemovedFromList chatId s =
     (case cl_index s chatId of
        None \<Rightarrow> Some s
      | Some i \<Rightarrow> do {
          chat \<leftarrow> qat (cl_chats s) i;
          let rows = remove_at i (cl_chats s);
          Some (cl_emitRows (RowsRemoved (int i) (int i))
                  (s\<lparr>cl_chats := rows,
                     cl_index := reindex lc_chatId rows i (length rows) ((cl_index s)(chatId := None))\<rparr>)) })"

definition cl_handleChatPositionUpdated :: "int \<Rightarrow> int \<Rightarrow> bool \<Rightarrow> 'a cl_state_scheme \<Rightarrow> 'a cl_state_scheme option" where
  "cl_handleChatPositionUpdated chatId order pinned s =
     (case cl_index s chatId of
        None \<Rightarrow> Some s
      | Some i \<Rightarrow> do {
          chat \<leftarrow> qat (cl_chats s) i;
          (j, s2) \<leftarrow> cl_updateChatOrder i (s\<lparr>cl_chats := (cl_chats s)[i := chat\<lparr>lc_order := order\<rparr>]\<rparr>);
          cl_updateChatIsPinned j pinned s2 })"

definition cl_handleRelativeTimeRefreshTimer :: "'a cl_state_scheme \<Rightarrow> 'a cl_state_scheme" where
  "cl_handleRelativeTimeRefreshTimer s =
     cl_dataChanged 0 (int (length (cl_chats s)) - 1) [ChatRoleLastMessageDate] s"

definition cl_handleUnreadChatCountUpdated :: "vmap \<Rightarrow> 'a cl_state_scheme \<Rightarrow> 'a cl_state_scheme" where
  "cl_handleUnreadChatCountUpdated info s =
     cl_emit ClUnreadChatCountChanged
       (s\<lparr>cl_unreadChats := toInt (mvalue info ''unread_count''),
          cl_unreadUnmutedChats := toInt (mvalue info ''unread_unmuted_count'')\<rparr>)"

definition cl_handleUnreadMessageCountUpdated :: "vmap \<Rightarrow> 'a cl_state_scheme \<Rightarrow> 'a cl_state_scheme" where
  "cl_handleUnreadMessageCountUpdated info s =
     cl_emit ClUnreadMessageCountChanged
       (s\<lparr>cl_unreadMessages := toInt (mvalue info ''unread_count''),
          cl_unreadUnmutedMessages := toInt (mvalue info ''unread_unmuted_count'')\<rparr>)"

text \<open>\<open>includeMuted\<close> is the setting for folders or for the list, whichever is asked for.\<close>

definition cl_getUnreadChatCount :: "(bool \<Rightarrow> bool) \<Rightarrow> bool \<Rightarrow> 'a cl_state_scheme \<Rightarrow> int" where
  "cl_getUnreadChatCount includeMuted asFolder s =
     (if cl_archive s \<or> includeMuted asFolder then cl_unreadChats s else cl_unreadUnmutedChats s)"

definition cl_getUnreadMessageCount :: "(bool \<Rightarrow> bool) \<Rightarrow> bool \<Rightarrow> 'a cl_state_scheme \<Rightarrow> int" where
  "cl_getUnreadMessageCount includeMuted asFolder s =
     (if cl_archive s \<or> includeMuted asFolder then cl_unreadMessages s else cl_unreadUnmutedMessages s)"

definition cl_doLoad :: "'a cl_state_scheme \<Rightarrow> 'a cl_state_scheme" where
  "cl_doLoad s = cl_emit (ClLoadChats (cl_archive s)) s"

definition cl_load :: "('a cl_state_scheme \<Rightarrow> 'a cl_state_scheme) \<Rightarrow> 'a cl_state_scheme \<Rightarrow> 'a cl_state_scheme" where
  "cl_load doLoad s = (if \<not> cl_loading s then doLoad (s\<lparr>cl_loading := True\<rparr>) else s)"

definition cl_handleChatsLoaded :: "'a cl_state_scheme \<Rightarrow> 'a cl_state_scheme" where
  "cl_handleChatsLoaded s = s\<lparr>cl_loading := False\<rparr>"

definition cl_setRefreshTimerEnabled :: "bool \<Rightarrow> 'a cl_state_scheme \<Rightarrow> 'a cl_state_scheme" where
  "cl_setRefreshTimerEnabled enabled s =
     (if cl_refreshTimerEnabled s \<noteq> enabled
      then cl_tryEnableRefreshTimer (s\<lparr>cl_refreshTimerEnabled := enabled\<rparr>) else s)"

definition cl_redrawModel :: "'a cl_state_scheme \<Rightarrow> 'a cl_state_scheme" where
  "cl_redrawModel s = cl_emit ClLayoutChanged s"

definition cl_handleMessageSendSucceeded ::
  "(vmap \<Rightarrow> string) \<Rightarrow> int \<Rightarrow> vmap \<Rightarrow> (int \<Rightarrow> chat_data) \<times> 'a cl_state_scheme \<Rightarrow> (int \<Rightarrow> chat_data) \<times> 'a cl_state_scheme" where
  "cl_handleMessageSendSucceeded text chatId message cs =
     (case cs of (chats, s) \<Rightarrow>
        case cl_index s chatId of
          None \<Rightarrow> (chats, s)
        | Some i \<Rightarrow>
            (let (roles, d) = updateLastMessage text message (chats chatId)
             in (chats(chatId := d), cl_dataChanged (int i) (int i) roles s)))"

section \<open>Reading the list\<close>

definition cl_rowCount :: "'a cl_state_scheme \<Rightarrow> int" where
  "cl_rowCount s = int (length (cl_chats s))"

definition cl_roleNames :: "(chat_role \<times> string) list" where
  "cl_roleNames =
    [(ChatRoleDisplay, ''display''),
     (ChatRoleChatId, ''chat_id''),
     (ChatRoleChatType, ''chat_type''),
     (ChatRoleGroupId, ''group_id''),
     (ChatRoleTitle, ''title''),
     (ChatRolePhoto, ''photo_data''),
     (ChatRoleUnreadCount, ''unread_count''),
     (ChatRoleUnreadMentionCount, ''unread_mention_count''),
     (ChatRoleUnreadReactionCount, ''unread_reaction_count''),
     (ChatRoleUnreadPollVoteCount, ''unread_poll_vote_count''),
     (ChatRoleAvailableReactions, ''available_reactions''),
     (ChatRoleLastReadOutboxMessageId, ''last_read_outbox_message_id''),
     (ChatRoleLastReadInboxMessageId, ''last_read_inbox_message_id''),
     (ChatRoleLastMessageId, ''last_message_id''),
     (ChatRoleLastMessageSenderId, ''last_message_sender_id''),
     (ChatRoleLastMessageDate, ''last_message_date''),
     (ChatRoleLastMessageText, ''last_message_text''),
     (ChatRoleLastMessageMinithumbnail, ''last_message_minithumbnail''),
     (ChatRoleLastMessageIsService, ''last_message_is_service''),
     (ChatRoleLastMessageSendingState, ''last_message_sending_state''),
     (ChatRoleLastMessageIsOutgoing, ''last_message_is_outgoing''),
     (ChatRoleChatMemberStatus, ''chat_member_status''),
     (ChatRoleVerificationStatus, ''verification_status''),
     (ChatRoleIsOnline, ''is_online''),
     (ChatRoleIsChannel, ''is_channel''),
     (ChatRoleIsMarkedAsUnread, ''is_marked_as_unread''),
     (ChatRoleIsPinned, ''is_pinned''),
     (ChatRoleDraftMessageDate, ''draft_message_date''),
     (ChatRoleDraftMessageText, ''draft_message_text''),
     (ChatRoleNotificationSettings, ''notification_settings''),
     (ChatRolePermissions, ''permissions''),
     (ChatRoleChatMainActionType, ''chat_main_action_type''),
     (ChatRoleChatActionsText, ''chat_actions_text''),
     (ChatRoleChatActionsProgress, ''chat_actions_progress''),
     (ChatRoleViewAsTopics, ''view_as_topics''),
     (ChatRoleAccentColorId, ''accent_color_id''),
     (ChatRoleBackgroundCustomEmojiId, ''background_custom_emoji_id''),
     (ChatRoleUpgradedGiftColors, ''upgraded_gift_colors''),
     (ChatRoleProfileAccentColorId, ''profile_accent_color_id''),
     (ChatRoleProfileBackgroundCustomEmojiId, ''profile_background_custom_emoji_id'')]"

datatype cl_value =
  ClValue qvariant
| ClSender message_sender
| ClChatType chat_type
| ClMemberStatus member_status
| ClActionType action_type
| ClProgress rat

definition cl_data ::
  "(int \<Rightarrow> chat_data) \<Rightarrow> (vmap \<Rightarrow> string) \<Rightarrow> (bool \<Rightarrow> (message_sender \<times> chat_action) list \<Rightarrow> string) \<Rightarrow>
   'a cl_state_scheme \<Rightarrow> int \<Rightarrow> chat_role \<Rightarrow> cl_value" where
  "cl_data chats text actionsText s row role =
  (if valid_row row (cl_chats s) then
    (let c = cl_chats s ! nat row; d = chats (lc_chatId c); lm = lastMessage d in
     case role of
     ChatRoleDisplay \<Rightarrow> ClValue (QMap (chatData d))
   | ChatRoleChatId \<Rightarrow> ClValue (QInt (cd_chatId d))
   | ChatRoleChatType \<Rightarrow> ClChatType (chatType d)
   | ChatRoleGroupId \<Rightarrow> ClValue (QInt (cd_groupId d))
   | ChatRoleTitle \<Rightarrow> ClValue (QString (cd_title d))
   | ChatRolePhoto \<Rightarrow> ClValue (QMap (cd_photo d))
   | ChatRoleUnreadCount \<Rightarrow> ClValue (QInt (unreadCount d))
   | ChatRoleUnreadMentionCount \<Rightarrow> ClValue (QInt (unreadMentionCount d))
   | ChatRoleAvailableReactions \<Rightarrow> ClValue (availableReactions d)
   | ChatRoleUnreadReactionCount \<Rightarrow> ClValue (QInt (unreadReactionCount d))
   | ChatRoleUnreadPollVoteCount \<Rightarrow> ClValue (QInt (unreadPollVoteCount d))
   | ChatRoleLastReadInboxMessageId \<Rightarrow> ClValue (QInt (lastReadInboxMessageId d))
   | ChatRoleLastReadOutboxMessageId \<Rightarrow> ClValue (QInt (lastReadOutboxMessageId d))
   | ChatRoleLastMessageId \<Rightarrow> ClValue (QInt (lm_id lm))
   | ChatRoleLastMessageSenderId \<Rightarrow> ClSender (lm_senderId lm)
   | ChatRoleLastMessageText \<Rightarrow> ClValue (QString (text lm))
   | ChatRoleLastMessageMinithumbnail \<Rightarrow> ClValue (lm_minithumbnail lm)
   | ChatRoleLastMessageIsService \<Rightarrow> ClValue (QBool (lm_isService lm))
   | ChatRoleLastMessageDate \<Rightarrow> ClValue (QInt (lm_date lm))
   | ChatRoleLastMessageSendingState \<Rightarrow> ClValue (lm_sendingState lm)
   | ChatRoleLastMessageIsOutgoing \<Rightarrow> ClValue (QBool (lm_isOutgoing lm))
   | ChatRoleChatMemberStatus \<Rightarrow> ClMemberStatus (memberStatus d)
   | ChatRoleVerificationStatus \<Rightarrow> ClValue (QMap (verificationStatus d))
   | ChatRoleIsOnline \<Rightarrow> ClValue (QBool (online d))
   | ChatRoleIsChannel \<Rightarrow> ClValue (QBool (cd_isChannel d))
   | ChatRoleIsMarkedAsUnread \<Rightarrow> ClValue (QBool (isMarkedAsUnread d))
   | ChatRoleIsPinned \<Rightarrow> ClValue (QBool (lc_isPinned c))
   | ChatRoleDraftMessageText \<Rightarrow> ClValue (QString (dm_text (draftMessage d)))
   | ChatRoleDraftMessageDate \<Rightarrow> ClValue (QInt (dm_date (draftMessage d)))
   | ChatRoleNotificationSettings \<Rightarrow> ClValue (QMap (notificationSettings d))
   | ChatRolePermissions \<Rightarrow> ClValue (QMap (permissions d))
   | ChatRoleChatMainActionType \<Rightarrow> ClActionType (getMainChatActionType d)
   | ChatRoleChatActionsText \<Rightarrow> ClValue (QString (actionsText (isPrivateOrSecretChat d) (chatActions d)))
   | ChatRoleChatActionsProgress \<Rightarrow> ClProgress (cd_getChatActionsProgress d)
   | ChatRoleViewAsTopics \<Rightarrow> ClValue (QBool (cd_viewAsTopics d))
   | ChatRoleAccentColorId \<Rightarrow> ClValue (QInt (accentColorId d))
   | ChatRoleBackgroundCustomEmojiId \<Rightarrow> ClValue (QString (backgroundCustomEmojiId d))
   | ChatRoleUpgradedGiftColors \<Rightarrow> ClValue (QMap (upgradedGiftColors d))
   | ChatRoleProfileAccentColorId \<Rightarrow> ClValue (QInt (profileAccentColorId d))
   | ChatRoleProfileBackgroundCustomEmojiId \<Rightarrow> ClValue (QString (profileBackgroundCustomEmojiId d)))
   else ClValue QInvalid)"

text \<open>\<open>get\<close> lists the values under the names of their roles; \<open>idx.data\<close> on an invalid index is invalid.\<close>

definition cl_get ::
  "(int \<Rightarrow> chat_data) \<Rightarrow> (vmap \<Rightarrow> string) \<Rightarrow> (bool \<Rightarrow> (message_sender \<times> chat_action) list \<Rightarrow> string) \<Rightarrow>
   'a cl_state_scheme \<Rightarrow> int \<Rightarrow> (string \<times> cl_value) list" where
  "cl_get chats text actionsText s row =
     map (\<lambda>(role, name). (name, cl_data chats text actionsText s (cl_row s row) role)) cl_roleNames"

section \<open>The list of a folder\<close>

record folder_state = cl_state +
  fl_folderId :: int

definition fl_handleFolderUnreadChatCountUpdated :: "int \<Rightarrow> vmap \<Rightarrow> folder_state \<Rightarrow> folder_state" where
  "fl_handleFolderUnreadChatCountUpdated folderId info s =
     (if fl_folderId s = folderId then cl_handleUnreadChatCountUpdated info s else s)"

definition fl_handleFolderUnreadMessageCountUpdated :: "int \<Rightarrow> vmap \<Rightarrow> folder_state \<Rightarrow> folder_state" where
  "fl_handleFolderUnreadMessageCountUpdated folderId info s =
     (if fl_folderId s = folderId then cl_handleUnreadMessageCountUpdated info s else s)"

definition fl_handleChatAddedToFolderList :: "int \<Rightarrow> int \<Rightarrow> int \<Rightarrow> bool \<Rightarrow> folder_state \<Rightarrow> folder_state" where
  "fl_handleChatAddedToFolderList folderId chatId order pinned s =
     (if fl_folderId s = folderId then cl_handleChatAddedToList chatId order pinned s else s)"

definition fl_handleChatRemovedFromFolderList :: "int \<Rightarrow> int \<Rightarrow> folder_state \<Rightarrow> folder_state option" where
  "fl_handleChatRemovedFromFolderList folderId chatId s =
     (if fl_folderId s = folderId then cl_handleChatRemovedFromList chatId s else Some s)"

definition fl_handleFolderChatPositionUpdated :: "int \<Rightarrow> int \<Rightarrow> int \<Rightarrow> bool \<Rightarrow> folder_state \<Rightarrow> folder_state option" where
  "fl_handleFolderChatPositionUpdated folderId chatId order pinned s =
     (if fl_folderId s = folderId then cl_handleChatPositionUpdated chatId order pinned s else Some s)"

definition fl_doLoad :: "folder_state \<Rightarrow> folder_state" where
  "fl_doLoad s = cl_emit (ClLoadChatsForFolder (fl_folderId s)) s"

definition fl_handleFolderChatsLoaded :: "int \<Rightarrow> folder_state \<Rightarrow> folder_state" where
  "fl_handleFolderChatsLoaded folderId s = (if fl_folderId s = folderId then cl_handleChatsLoaded s else s)"

section \<open>The order and the hash\<close>

text \<open>A later order comes first, and among equal orders the larger id.\<close>

definition cl_rank :: "list_chat \<Rightarrow> int \<times> int" where
  "cl_rank c = (- lc_order c, - lc_chatId c)"

interpretation cl_order: ordered_rows cl_rank
  "\<lambda>chat other. cl_compareTo chat other < 0" "\<lambda>chat other. cl_compareTo chat other > 0"
  "\<lambda>chat other. cl_compareTo chat other \<ge> 0"
  by unfold_locales (auto simp: cl_rank_def cl_compareTo_def less_eq_prod_def split: if_splits)

definition cl_inv :: "'a cl_state_scheme \<Rightarrow> bool" where
  "cl_inv s \<longleftrightarrow> index_ok lc_chatId (cl_chats s) (cl_index s) \<and> sorted (map cl_rank (cl_chats s))"

interpretation cl_rows: row_index cl_chats lc_chatId cl_index cl_inv
  by unfold_locales (simp add: cl_inv_def)

text \<open>What the list stands for, and what a view makes of the signals.\<close>

definition cl_entry :: "list_chat \<Rightarrow> int \<times> bool" where
  "cl_entry c = (lc_order c, lc_isPinned c)"

definition cl_abs :: "'a cl_state_scheme \<Rightarrow> int \<Rightarrow> (int \<times> bool) option" where
  "cl_abs s k = map_option (\<lambda>i. cl_entry (cl_chats s ! i)) (cl_index s k)"

fun cl_view :: "cl_output \<Rightarrow> (int \<times> bool) list \<Rightarrow> (int \<times> bool) list" where
  "cl_view (ClRows e rows) view = view_step rows e view"
| "cl_view (ClDataChanged f l roles rows) view =
     (if ChatRoleIsPinned \<in> set roles then fold (\<lambda>r. view_step rows (RowChanged r)) [f..l] view else view)"
| "cl_view _ view = view"

definition cl_sync :: "'a cl_state_scheme \<Rightarrow> 'a cl_state_scheme \<Rightarrow> bool" where
  "cl_sync s s' \<longleftrightarrow> (\<exists>new. cl_outputs s' = cl_outputs s @ new \<and> fold cl_view new (cl_shown s) = cl_shown s')"

lemma cl_emit_fields [simp]:
  "cl_chats (cl_emit out s) = cl_chats s" "cl_index (cl_emit out s) = cl_index s"
  "cl_outputs (cl_emit out s) = cl_outputs s @ [out]" "cl_shown (cl_emit out s) = cl_shown s"
  by (simp_all add: cl_emit_def cl_shown_def)

lemma cl_emitRows_fields [simp]:
  "cl_chats (cl_emitRows e s) = cl_chats s" "cl_index (cl_emitRows e s) = cl_index s"
  "cl_shown (cl_emitRows e s) = cl_shown s"
  by (simp_all add: cl_emitRows_def Let_def)

lemma cl_dataChanged_fields [simp]:
  "cl_chats (cl_dataChanged f l roles s) = cl_chats s" "cl_index (cl_dataChanged f l roles s) = cl_index s"
  "cl_shown (cl_dataChanged f l roles s) = cl_shown s"
  by (simp_all add: cl_dataChanged_def)

lemma cl_timer_fields [simp]:
  "cl_chats (cl_tryEnableRefreshTimer s) = cl_chats s" "cl_index (cl_tryEnableRefreshTimer s) = cl_index s"
  "cl_outputs (cl_tryEnableRefreshTimer s) = cl_outputs s"
  "cl_shown (cl_tryEnableRefreshTimer s) = cl_shown s"
  by (simp_all add: cl_tryEnableRefreshTimer_def cl_shown_def)

lemma cl_shown_update [simp]: "cl_shown (s\<lparr>cl_index := m\<rparr>) = cl_shown s"
  by (simp add: cl_shown_def)

lemma cl_shown_rows [simp]:
  "cl_shown (s\<lparr>cl_chats := rows\<rparr>) = map (\<lambda>c. (lc_chatId c, lc_isPinned c)) rows"
  "cl_shown (s\<lparr>cl_chats := rows, cl_index := m\<rparr>) = map (\<lambda>c. (lc_chatId c, lc_isPinned c)) rows"
  by (simp_all add: cl_shown_def)

lemma length_cl_shown [simp]: "length (cl_shown s) = length (cl_chats s)"
  by (simp add: cl_shown_def)

text \<open>A state with the same rows, hash and signals has the same invariant and meaning.\<close>

lemma cl_inv_cong: "cl_chats s = cl_chats t \<Longrightarrow> cl_index s = cl_index t \<Longrightarrow> cl_inv s \<longleftrightarrow> cl_inv t"
  by (simp add: cl_inv_def)

lemma cl_abs_cong: "cl_chats s = cl_chats t \<Longrightarrow> cl_index s = cl_index t \<Longrightarrow> cl_abs s = cl_abs t"
  by (simp add: cl_abs_def fun_eq_iff)

lemma cl_sync_refl [simp]: "cl_sync s s"
  by (auto simp: cl_sync_def intro: exI [of _ "[]"])

lemma cl_sync_trans: "cl_sync s t \<Longrightarrow> cl_sync t u \<Longrightarrow> cl_sync s u"
  unfolding cl_sync_def by (metis append_assoc fold_append o_apply)

lemma cl_sync_same: "cl_outputs t = cl_outputs s \<Longrightarrow> cl_shown t = cl_shown s \<Longrightarrow> cl_sync s t"
  by (auto simp: cl_sync_def intro: exI [of _ "[]"])

lemma cl_sync_emit: "cl_sync s t \<Longrightarrow> cl_view out (cl_shown t) = cl_shown t \<Longrightarrow> cl_sync s (cl_emit out t)"
  by (auto simp: cl_sync_def)

lemma cl_sync_rows:
  "cl_outputs t = cl_outputs s \<Longrightarrow> view_step (cl_shown t) e (cl_shown s) = cl_shown t \<Longrightarrow> cl_sync s (cl_emitRows e t)"
  by (auto simp: cl_sync_def cl_emitRows_def Let_def)

lemma fold_row_changed: "fold (\<lambda>r. view_step rows (RowChanged r)) rs rows = rows"
  by (induction rs) auto

lemma cl_sync_dataChanged: "cl_sync s t \<Longrightarrow> cl_sync s (cl_dataChanged f l roles t)"
  unfolding cl_dataChanged_def by (rule cl_sync_emit) (simp_all add: fold_row_changed)

lemma cl_abs_iff:
  "index_ok lc_chatId (cl_chats s) (cl_index s) \<Longrightarrow>
     cl_abs s k = Some v \<longleftrightarrow> (\<exists>c \<in> set (cl_chats s). lc_chatId c = k \<and> cl_entry c = v)"
proof -
  assume ok: "index_ok lc_chatId (cl_chats s) (cl_index s)"
  have "cl_abs s k = Some v \<longleftrightarrow> (\<exists>i. cl_index s k = Some i \<and> cl_entry (cl_chats s ! i) = v)"
    by (auto simp: cl_abs_def)
  also have "\<dots> \<longleftrightarrow> (\<exists>i < length (cl_chats s). lc_chatId (cl_chats s ! i) = k \<and> cl_entry (cl_chats s ! i) = v)"
    by (simp add: index_okD [OF ok] conj_assoc)
  also have "\<dots> \<longleftrightarrow> (\<exists>c \<in> set (cl_chats s). lc_chatId c = k \<and> cl_entry c = v)"
    by (metis in_set_conv_nth)
  finally show ?thesis .
qed

lemma cl_abs_None: "cl_abs s k = None \<longleftrightarrow> cl_index s k = None"
  by (simp add: cl_abs_def)

lemma cl_abs_eqI:
  assumes "index_ok lc_chatId (cl_chats s) (cl_index s)"
    and "\<And>k v. m k = Some v \<longleftrightarrow> (\<exists>c \<in> set (cl_chats s). lc_chatId c = k \<and> cl_entry c = v)"
  shows "cl_abs s = m"
proof
  fix k
  have "cl_abs s k = Some v \<longleftrightarrow> m k = Some v" for v using assms cl_abs_iff by metis
  then show "cl_abs s k = m k" by (metis not_None_eq)
qed

lemma others_of_row:
  assumes d: "distinct (map key xs)" and i: "i < length xs"
  shows "c \<in># mset xs - {#xs ! i#} \<longleftrightarrow> c \<in> set xs \<and> key c \<noteq> key (xs ! i)"
proof -
  have one: "count (mset xs) x = (if x \<in> set xs then 1 else 0)" for x
  proof -
    have "distinct xs" using d by (simp add: distinct_map)
    then show ?thesis by (simp add: distinct_count_atmost_1)
  qed
  have "c \<in># mset xs - {#xs ! i#} \<longleftrightarrow> c \<in> set xs \<and> c \<noteq> xs ! i"
    using i by (auto simp: in_diff_count one split: if_splits)
  also have "\<dots> \<longleftrightarrow> c \<in> set xs \<and> key c \<noteq> key (xs ! i)"
    using d i by (metis distinct_map inj_on_eq_iff nth_mem)
  finally show ?thesis .
qed

section \<open>Every handler acts on the map\<close>

definition cl_becomes :: "(int \<Rightarrow> (int \<times> bool) option) \<Rightarrow> 'a cl_state_scheme \<Rightarrow> 'a cl_state_scheme \<Rightarrow> bool" where
  "cl_becomes m s s' \<longleftrightarrow> cl_inv s' \<and> cl_abs s' = m \<and> cl_sync s s'"

lemma cl_added:
  assumes inv: "cl_inv s" and new: "cl_abs s chatId = None"
  shows "cl_becomes ((cl_abs s)(chatId \<mapsto> (order, pinned))) s (cl_handleChatAddedToList chatId order pinned s)"
proof -
  let ?c = "\<lparr>lc_chatId = chatId, lc_order = order, lc_isPinned = pinned\<rparr>"
  let ?pos = "insert_pos (\<lambda>other. cl_compareTo ?c other \<ge> 0) (cl_chats s)"
  let ?rows = "insert_at ?pos ?c (cl_chats s)" and ?s = "cl_handleChatAddedToList chatId order pinned s"
  have ok: "index_ok lc_chatId (cl_chats s) (cl_index s)" and s: "sorted (map cl_rank (cl_chats s))"
    using inv by (auto simp: cl_inv_def)
  have fresh: "lc_chatId ?c \<notin> lc_chatId ` set (cl_chats s)"
    using new index_ok_None [OF ok] by (simp add: cl_abs_None)
  have chats: "cl_chats ?s = ?rows" by (simp add: cl_handleChatAddedToList_def Let_def)
  have ok': "index_ok lc_chatId (cl_chats ?s) (cl_index ?s)"
    using index_ok_insert_at [OF ok insert_pos_le fresh] by (simp add: cl_handleChatAddedToList_def Let_def)
  have "sorted (map cl_rank (cl_chats ?s))"
    using cl_order.inserted_sorted [OF s, of ?c] by (simp only: chats)
  moreover have "cl_abs ?s = (cl_abs s)(chatId \<mapsto> (order, pinned))"
    using fresh cl_abs_iff [OF ok] by (intro cl_abs_eqI [OF ok']) (auto simp: chats cl_entry_def)
  moreover have "cl_sync s ?s"
  proof -
    let ?m = "reindex lc_chatId ?rows (Suc ?pos) (Suc (length (cl_chats s))) ((cl_index s)(chatId \<mapsto> ?pos))"
    let ?t = "cl_emitRows (RowsInserted (int ?pos) (int ?pos)) (s\<lparr>cl_chats := ?rows, cl_index := ?m\<rparr>)"
    have "cl_sync s ?t"
      by (rule cl_sync_rows) (simp, simp add: row_simps cl_shown_def [of s] view_row_inserted del: view_step.simps)
    moreover have "?s = cl_tryEnableRefreshTimer ?t" by (simp add: cl_handleChatAddedToList_def Let_def)
    ultimately show ?thesis using cl_sync_trans [of s ?t ?s] by (simp add: cl_sync_same)
  qed
  ultimately show ?thesis using ok' by (simp add: cl_becomes_def cl_inv_def)
qed

lemma cl_removed:
  assumes inv: "cl_inv s"
  shows "\<exists>s'. cl_handleChatRemovedFromList chatId s = Some s' \<and> cl_becomes ((cl_abs s)(chatId := None)) s s'"
proof (cases "cl_index s chatId")
  case None
  then have "(cl_abs s)(chatId := None) = cl_abs s" by (metis cl_abs_None fun_upd_triv)
  with None inv show ?thesis by (simp add: cl_handleChatRemovedFromList_def cl_becomes_def)
next
  case (Some i)
  have ok: "index_ok lc_chatId (cl_chats s) (cl_index s)" and s: "sorted (map cl_rank (cl_chats s))"
    using inv by (auto simp: cl_inv_def)
  have i: "i < length (cl_chats s)" "lc_chatId (cl_chats s ! i) = chatId" using index_okD [OF ok] Some by auto
  let ?rows = "remove_at i (cl_chats s)"
  let ?s = "cl_emitRows (RowsRemoved (int i) (int i))
              (s\<lparr>cl_chats := ?rows,
                 cl_index := reindex lc_chatId ?rows i (length ?rows) ((cl_index s)(chatId := None))\<rparr>)"
  have ok': "index_ok lc_chatId (cl_chats ?s) (cl_index ?s)"
    using index_ok_remove_at [OF ok i] by simp
  have rows: "c \<in> set ?rows \<longleftrightarrow> c \<in> set (cl_chats s) \<and> lc_chatId c \<noteq> chatId" for c
    using others_of_row [OF index_ok_distinct [OF ok] i(1), of c] remove_at_split [OF i(1)] i(2)
    by (metis add_mset_remove_trivial set_mset_mset)
  have "cl_abs ?s = (cl_abs s)(chatId := None)"
    using cl_abs_iff [OF ok] by (intro cl_abs_eqI [OF ok']) (auto simp: rows)
  moreover have "cl_sync s ?s"
    by (rule cl_sync_rows) (simp_all add: row_simps cl_shown_def [of s] view_row_removed del: view_step.simps)
  moreover have "sorted (map cl_rank (cl_chats ?s))" using sorted_remove_at [OF s] by simp
  ultimately show ?thesis
    using Some i ok' by (simp add: cl_handleChatRemovedFromList_def cl_becomes_def cl_inv_def Let_def)
qed

lemma cl_reordered:
  assumes ok: "index_ok lc_chatId (cl_chats s) (cl_index s)" and i: "i < length (cl_chats s)"
    and s: "sorted (map cl_rank (remove_at i (cl_chats s)))"
  shows "\<exists>j s'. cl_updateChatOrder i s = Some (j, s') \<and> j < length (cl_chats s) \<and>
           cl_chats s' = qmove i j (cl_chats s) \<and> index_ok lc_chatId (cl_chats s') (cl_index s') \<and>
           sorted (map cl_rank (cl_chats s')) \<and> cl_sync s s'"
proof -
  let ?c = "cl_chats s ! i"
  let ?j = "new_row (\<lambda>other. cl_compareTo ?c other < 0) (\<lambda>other. cl_compareTo ?c other > 0) (cl_chats s) i"
  let ?rows = "qmove i ?j (cl_chats s)"
  let ?m = "moved_index lc_chatId ?rows i ?j (cl_index s)"
  let ?s = "if ?j \<noteq> i then cl_emitRows (row_moved i ?j) (s\<lparr>cl_chats := ?rows, cl_index := ?m\<rparr>) else s"
  have j: "?j < length (cl_chats s)" using i by (rule new_row_less)
  have run: "cl_updateChatOrder i s = Some (?j, ?s)" using i by (simp add: cl_updateChatOrder_def Let_def)
  have chats: "cl_chats ?s = ?rows" using i by simp
  have "index_ok lc_chatId (cl_chats ?s) (cl_index ?s)"
    using ok index_ok_moved [OF ok i j] by simp
  moreover have "sorted (map cl_rank (cl_chats ?s))"
    unfolding chats by (rule cl_order.moved_sorted [OF i s])
  moreover have "cl_sync s ?s"
  proof (cases "?j = i")
    case False
    have "cl_sync s (cl_emitRows (row_moved i ?j) (s\<lparr>cl_chats := ?rows, cl_index := ?m\<rparr>))"
      by (rule cl_sync_rows) (simp, use False i j in \<open>simp add: map_qmove cl_shown_def [of s] view_row_moved\<close>)
    with False show ?thesis by simp
  qed simp
  ultimately show ?thesis using run chats j by blast
qed

lemma cl_pinned:
  assumes ok: "index_ok lc_chatId (cl_chats s) (cl_index s)" and s: "sorted (map cl_rank (cl_chats s))"
    and i: "i < length (cl_chats s)"
  shows "\<exists>s'. cl_updateChatIsPinned i pinned s = Some s' \<and> cl_inv s' \<and> cl_sync s s' \<and>
           cl_chats s' = (cl_chats s)[i := (cl_chats s ! i)\<lparr>lc_isPinned := pinned\<rparr>]"
proof -
  let ?c = "(cl_chats s ! i)\<lparr>lc_isPinned := pinned\<rparr>"
  let ?t = "s\<lparr>cl_chats := (cl_chats s)[i := ?c]\<rparr>"
  let ?s = "cl_dataChanged (int i) (int i) [ChatRoleIsPinned] ?t"
  have "map cl_rank ((cl_chats s)[i := ?c]) = map cl_rank (cl_chats s)"
    by (rule map_update_same) (simp add: cl_rank_def)
  then have "cl_inv ?s" using index_ok_update [OF ok, of ?c i] s by (simp add: cl_inv_def)
  moreover have "cl_sync s ?s"
    using i by (auto simp: cl_sync_def cl_dataChanged_def cl_row_def valid_row_def map_update cl_shown_def [of s])
  ultimately show ?thesis using i by (auto simp: cl_updateChatIsPinned_def)
qed

lemma cl_positioned:
  assumes inv: "cl_inv s"
  shows "\<exists>s'. cl_handleChatPositionUpdated chatId order pinned s = Some s' \<and>
           cl_becomes (if cl_abs s chatId = None then cl_abs s else (cl_abs s)(chatId \<mapsto> (order, pinned))) s s'"
proof (cases "cl_index s chatId")
  case None
  with inv show ?thesis by (simp add: cl_handleChatPositionUpdated_def cl_becomes_def cl_abs_None)
next
  case (Some i)
  have ok: "index_ok lc_chatId (cl_chats s) (cl_index s)" and s: "sorted (map cl_rank (cl_chats s))"
    using inv by (auto simp: cl_inv_def)
  have i: "i < length (cl_chats s)" "lc_chatId (cl_chats s ! i) = chatId" using index_okD [OF ok] Some by auto
  let ?c1 = "(cl_chats s ! i)\<lparr>lc_order := order\<rparr>" and ?c = "\<lparr>lc_chatId = chatId, lc_order = order, lc_isPinned = pinned\<rparr>"
  let ?s1 = "s\<lparr>cl_chats := (cl_chats s)[i := ?c1]\<rparr>"
  have ok1: "index_ok lc_chatId (cl_chats ?s1) (cl_index ?s1)" using index_ok_update [OF ok, of ?c1 i] by simp
  have i1: "i < length (cl_chats ?s1)" using i by simp
  have "remove_at i (cl_chats ?s1) = remove_at i (cl_chats s)" by (simp add: remove_at_def)
  with sorted_remove_at [OF s] have s1: "sorted (map cl_rank (remove_at i (cl_chats ?s1)))" by simp
  obtain j s2 where u: "cl_updateChatOrder i ?s1 = Some (j, s2)" and j: "j < length (cl_chats s)"
    and c2: "cl_chats s2 = qmove i j (cl_chats ?s1)" and ok2: "index_ok lc_chatId (cl_chats s2) (cl_index s2)"
    and o2: "sorted (map cl_rank (cl_chats s2))" and y2: "cl_sync ?s1 s2"
    using cl_reordered [OF ok1 i1 s1] by auto
  have j2: "j < length (cl_chats s2)" using c2 j i by simp
  obtain s3 where p: "cl_updateChatIsPinned j pinned s2 = Some s3" and inv3: "cl_inv s3" and y3: "cl_sync s2 s3"
    and c3: "cl_chats s3 = (cl_chats s2)[j := (cl_chats s2 ! j)\<lparr>lc_isPinned := pinned\<rparr>]"
    using cl_pinned [OF ok2 o2 j2] by auto
  have at: "cl_chats s2 ! j = ?c1" using c2 i j by (simp add: qmove_at)
  have "(cl_chats s2 ! j)\<lparr>lc_isPinned := pinned\<rparr> = ?c" unfolding at using i by (cases "cl_chats s ! i") simp
  then have c3': "cl_chats s3 = (cl_chats s2)[j := ?c]" using c3 by simp
  have "mset (cl_chats s2) = mset (cl_chats ?s1)" using c2 i1 by (simp add: mset_qmove)
  then have "mset (cl_chats s2) = add_mset ?c1 (mset (cl_chats s) - {#cl_chats s ! i#})"
    using i by (simp add: mset_update)
  then have "mset (cl_chats s3) = add_mset ?c (mset (cl_chats s) - {#cl_chats s ! i#})"
    using j2 at by (simp add: c3' mset_update)
  then have rows: "c \<in> set (cl_chats s3) \<longleftrightarrow> c = ?c \<or> c \<in> set (cl_chats s) \<and> lc_chatId c \<noteq> chatId" for c
    using others_of_row [OF index_ok_distinct [OF ok] i(1), of c] i(2) by (metis insert_iff set_mset_add_mset_insert set_mset_mset)
  have "index_ok lc_chatId (cl_chats s3) (cl_index s3)" using inv3 by (simp add: cl_inv_def)
  moreover have "set (cl_chats s3) = insert ?c {c \<in> set (cl_chats s). lc_chatId c \<noteq> chatId}" using rows by auto
  ultimately have "cl_abs s3 = (cl_abs s)(chatId \<mapsto> (order, pinned))"
    using cl_abs_iff [OF ok] by (intro cl_abs_eqI) (auto simp: cl_entry_def)
  moreover have "cl_sync s ?s1"
    using i by (intro cl_sync_same) (simp_all add: cl_shown_def [of s] map_update_same)
  then have "cl_sync s s3" using y2 y3 by (blast intro: cl_sync_trans)
  ultimately show ?thesis
    using Some i u p inv3 by (auto simp: cl_handleChatPositionUpdated_def cl_becomes_def cl_abs_None)
qed

lemma cl_resetted:
  assumes inv: "cl_inv s"
  shows "cl_becomes Map.empty s (cl_reset s)"
proof -
  have "cl_chats (cl_reset s) = []" "cl_index (cl_reset s) = Map.empty"
    by (auto simp: cl_reset_def Let_def)
  then have "cl_inv (cl_reset s)" "cl_abs (cl_reset s) = Map.empty"
    by (simp_all add: cl_inv_def cl_abs_def fun_eq_iff)
  moreover have "cl_sync s (cl_reset s)"
    by (auto simp: cl_sync_def cl_reset_def Let_def cl_emitRows_def cl_emit_def cl_shown_def)
  ultimately show ?thesis by (simp add: cl_becomes_def)
qed

text \<open>The handlers that leave the rows alone.\<close>

lemma cl_quiet:
  assumes inv: "cl_inv s" and t: "cl_chats t = cl_chats s" "cl_index t = cl_index s" "cl_sync s t"
  shows "cl_becomes (cl_abs s) s t"
  using assms cl_inv_cong [of t s] cl_abs_cong [of t s] by (simp add: cl_becomes_def)

lemma cl_sync_quiet_emit:
  "cl_outputs t = cl_outputs s \<Longrightarrow> cl_shown t = cl_shown s \<Longrightarrow> (\<And>v. cl_view out v = v) \<Longrightarrow> cl_sync s (cl_emit out t)"
  by (rule cl_sync_emit) (auto intro: cl_sync_same)

section \<open>Runs\<close>

text \<open>
  The states the handlers lead to, each with the map TDLib's updates describe. A chat is
  added only while it is not in the list.
\<close>

inductive cl_reaches :: "bool \<Rightarrow> cl_state \<Rightarrow> (int \<Rightarrow> (int \<times> bool) option) \<Rightarrow> bool" for archive where
  start: "cl_reaches archive (cl_new archive) Map.empty"
| added: "cl_reaches archive s m \<Longrightarrow> m chatId = None \<Longrightarrow>
    cl_reaches archive (cl_handleChatAddedToList chatId order pinned s) (m(chatId \<mapsto> (order, pinned)))"
| removed: "cl_reaches archive s m \<Longrightarrow> cl_handleChatRemovedFromList chatId s = Some s' \<Longrightarrow>
    cl_reaches archive s' (m(chatId := None))"
| positioned: "cl_reaches archive s m \<Longrightarrow> cl_handleChatPositionUpdated chatId order pinned s = Some s' \<Longrightarrow>
    cl_reaches archive s' (if m chatId = None then m else m(chatId \<mapsto> (order, pinned)))"
| resetted: "cl_reaches archive s m \<Longrightarrow> cl_reaches archive (cl_reset s) Map.empty"
| rolesChanged: "cl_reaches archive s m \<Longrightarrow> cl_reaches archive (cl_handleChatRolesChanged chatId roles s) m"
| unreadChats: "cl_reaches archive s m \<Longrightarrow> cl_reaches archive (cl_handleUnreadChatCountUpdated info s) m"
| unreadMessages: "cl_reaches archive s m \<Longrightarrow> cl_reaches archive (cl_handleUnreadMessageCountUpdated info s) m"
| calculated: "cl_reaches archive s m \<Longrightarrow> cl_reaches archive (cl_calculateUnreadState onlineOnly chats muted s) m"
| loads: "cl_reaches archive s m \<Longrightarrow> cl_reaches archive (cl_load cl_doLoad s) m"
| loaded: "cl_reaches archive s m \<Longrightarrow> cl_reaches archive (cl_handleChatsLoaded s) m"
| timer: "cl_reaches archive s m \<Longrightarrow> cl_reaches archive (cl_setRefreshTimerEnabled enabled s) m"
| tick: "cl_reaches archive s m \<Longrightarrow> cl_reaches archive (cl_handleRelativeTimeRefreshTimer s) m"
| redrawn: "cl_reaches archive s m \<Longrightarrow> cl_reaches archive (cl_redrawModel s) m"

lemma cl_quiet_steps:
  assumes "cl_inv s"
  shows "cl_becomes (cl_abs s) s (cl_handleChatRolesChanged chatId roles s)"
    "cl_becomes (cl_abs s) s (cl_handleUnreadChatCountUpdated info s)"
    "cl_becomes (cl_abs s) s (cl_handleUnreadMessageCountUpdated info s)"
    "cl_becomes (cl_abs s) s (cl_load cl_doLoad s)"
    "cl_becomes (cl_abs s) s (cl_handleChatsLoaded s)"
    "cl_becomes (cl_abs s) s (cl_setRefreshTimerEnabled enabled s)"
    "cl_becomes (cl_abs s) s (cl_handleRelativeTimeRefreshTimer s)"
    "cl_becomes (cl_abs s) s (cl_redrawModel s)"
proof -
  note q = cl_quiet [OF assms]
  note defs = cl_handleChatRolesChanged_def cl_handleUnreadChatCountUpdated_def cl_load_def cl_doLoad_def
    cl_handleUnreadMessageCountUpdated_def cl_handleChatsLoaded_def cl_setRefreshTimerEnabled_def
    cl_handleRelativeTimeRefreshTimer_def cl_redrawModel_def
  show "cl_becomes (cl_abs s) s (cl_handleChatRolesChanged chatId roles s)"
    by (rule q) (auto simp: defs intro: cl_sync_dataChanged split: option.split)
  show "cl_becomes (cl_abs s) s (cl_handleUnreadChatCountUpdated info s)"
    by (rule q) (auto simp: defs cl_shown_def intro: cl_sync_quiet_emit)
  show "cl_becomes (cl_abs s) s (cl_handleUnreadMessageCountUpdated info s)"
    by (rule q) (auto simp: defs cl_shown_def intro: cl_sync_quiet_emit)
  show "cl_becomes (cl_abs s) s (cl_load cl_doLoad s)"
    by (rule q) (auto simp: defs cl_shown_def intro: cl_sync_quiet_emit)
  show "cl_becomes (cl_abs s) s (cl_handleChatsLoaded s)"
    by (rule q) (auto simp: defs cl_shown_def intro: cl_sync_same)
  show "cl_becomes (cl_abs s) s (cl_setRefreshTimerEnabled enabled s)"
    by (rule q) (auto simp: defs cl_tryEnableRefreshTimer_def cl_shown_def intro: cl_sync_same)
  show "cl_becomes (cl_abs s) s (cl_handleRelativeTimeRefreshTimer s)"
    by (rule q) (auto simp: defs intro: cl_sync_dataChanged)
  show "cl_becomes (cl_abs s) s (cl_redrawModel s)"
    by (rule q) (auto simp: defs intro: cl_sync_emit)
qed

lemma cl_calculated: "cl_inv s \<Longrightarrow> cl_becomes (cl_abs s) s (cl_calculateUnreadState onlineOnly chats muted s)"
proof -
  assume inv: "cl_inv s"
  obtain uc uuc um uum where n: "cl_unreadState chats muted (cl_chats s) (0, 0, 0, 0) = (uc, uuc, um, uum)"
    by (metis prod_cases4)
  have chatsStep: "cl_sync s (cl_emit ClUnreadChatCountChanged (s\<lparr>cl_unreadChats := uc, cl_unreadUnmutedChats := uuc\<rparr>))"
    by (rule cl_sync_quiet_emit) (simp_all add: cl_shown_def)
  have step: "cl_sync s (cl_emit ClUnreadMessageCountChanged (t\<lparr>cl_unreadMessages := um, cl_unreadUnmutedMessages := uum\<rparr>))"
    if "cl_sync s t" for t
  proof (rule cl_sync_emit)
    show "cl_sync s (t\<lparr>cl_unreadMessages := um, cl_unreadUnmutedMessages := uum\<rparr>)"
      using that by (rule cl_sync_trans) (simp add: cl_sync_same cl_shown_def)
  qed simp
  show ?thesis
    by (rule cl_quiet [OF inv])
       (simp_all add: cl_calculateUnreadState_def n Let_def chatsStep step)
qed

lemma cl_reaches_becomes: "cl_reaches archive s m \<Longrightarrow> cl_becomes m (cl_new archive) s"
proof (induction rule: cl_reaches.induct)
  case start
  then show ?case by (simp add: cl_becomes_def cl_new_def cl_inv_def cl_abs_def fun_eq_iff)
next
  case (added s m chatId order pinned)
  then show ?case
    using cl_added [of s chatId order pinned] cl_sync_trans by (auto simp: cl_becomes_def)
next
  case (removed s m chatId s')
  then show ?case using cl_removed [of s chatId] cl_sync_trans by (fastforce simp: cl_becomes_def)
next
  case (positioned s m chatId order pinned s')
  then show ?case using cl_positioned [of s chatId order pinned] cl_sync_trans by (fastforce simp: cl_becomes_def)
next
  case (resetted s m)
  then show ?case using cl_resetted [of s] cl_sync_trans by (auto simp: cl_becomes_def)
qed (use cl_quiet_steps cl_calculated cl_sync_trans in \<open>fastforce simp: cl_becomes_def\<close>)+

lemma cl_new_shown: "cl_sync (cl_new archive) s \<Longrightarrow> fold cl_view (cl_outputs s) [] = cl_shown s"
  by (auto simp: cl_sync_def cl_new_def cl_shown_def)

text \<open>The map has one sorted list.\<close>

lemma cl_unique:
  assumes s: "cl_inv s" and t: "cl_inv t" and same: "cl_abs s = cl_abs t"
  shows "cl_chats s = cl_chats t"
proof -
  have oks: "index_ok lc_chatId (cl_chats s) (cl_index s)" and okt: "index_ok lc_chatId (cl_chats t) (cl_index t)"
    using s t by (auto simp: cl_inv_def)
  have entry: "c = d" if "lc_chatId c = lc_chatId d" "cl_entry c = cl_entry d" for c d :: list_chat
    using that by (cases c, cases d) (auto simp: cl_entry_def)
  have sub: "set (cl_chats u) \<subseteq> set (cl_chats v)"
    if "index_ok lc_chatId (cl_chats u) (cl_index u)" "index_ok lc_chatId (cl_chats v) (cl_index v)" "cl_abs u = cl_abs v"
    for u :: "'c cl_state_scheme" and v :: "'d cl_state_scheme"
    using cl_abs_iff [OF that(1)] cl_abs_iff [OF that(2)] that(3) entry by (metis subsetI)
  have set: "set (cl_chats s) = set (cl_chats t)" using sub [OF oks okt] sub [OF okt oks] same by auto
  have inj: "inj_on cl_rank (set (cl_chats s))"
    using index_ok_distinct [OF oks] by (auto simp: distinct_map inj_on_def cl_rank_def)
  have d: "distinct (map cl_rank (cl_chats s))" "distinct (map cl_rank (cl_chats t))"
    using index_ok_distinct [OF oks] index_ok_distinct [OF okt] inj set by (simp_all add: distinct_map)
  have "map cl_rank (cl_chats s) = map cl_rank (cl_chats t)"
    using s t d set by (intro sorted_distinct_set_unique) (auto simp: cl_inv_def)
  then show ?thesis using inj set by (metis map_inj_on sup.idem)
qed

section \<open>The unread state\<close>

definition cl_unread :: "chat_data \<Rightarrow> bool" where
  "cl_unread d \<longleftrightarrow> unreadCount d \<noteq> 0 \<or> isMarkedAsUnread d"

lemma cl_unreadState_sums:
  "cl_unreadState chats muted cs (uc, uuc, um, uum) =
     (let ds = filter cl_unread (map (\<lambda>c. chats (lc_chatId c)) cs);
          loud = filter (\<lambda>d. \<not> muted (cd_chatId d) (notificationSettings d)) ds
      in (uc + int (length ds), uuc + int (length loud),
          um + (\<Sum>d\<leftarrow>ds. unreadCount d), uum + (\<Sum>d\<leftarrow>loud. unreadCount d)))"
  by (induction cs arbitrary: uc uuc um uum) (auto simp: Let_def cl_unread_def)

end
