(* ===== verification/ForumTopics.thy ===== *)
theory ForumTopics imports OrderedRows ChatDataModel "HOL-Library.Product_Lexorder"
begin

text \<open>
  \<open>ForumTopic\<close> (\<open>src/chat/forumtopic.h\<close>, \<open>forumtopic.cpp\<close>), what the library keeps of a topic of a
  forum, and \<open>ForumTopicsModel\<close> (\<open>src/chat/forumtopicsmodel.h\<close>, \<open>forumtopicsmodel.cpp\<close>), the
  list of a forum's topics: pinned topics first, then the latest ones.

  The text of a message, which is translated and names the topic, is the argument \<open>text\<close>.
  Requests and signals are entries of a log. The lemmas show that an update of a topic reports
  what its place depends on, that the list stays ordered, and that the second hash, from the
  last message of a topic to its row, does not survive a change of the last message.
\<close>

unbundle bit_operations_syntax

section \<open>A topic\<close>

record forum_topic =
  ft_data :: vmap
  ft_id :: int

datatype topic_role =
  TRDisplay | TRId | TRName | TRIconColor | TRIconCustomEmojiId | TRCreationDate | TRCreatorId | TRIsGeneral
| TRIsOutgoing | TRIsClosed | TRIsHidden | TRIsNameImplicit | TRLastMessageId | TRLastMessageSenderId
| TRLastMessageDate | TRLastMessageText | TRLastMessageMinithumbnail | TRLastMessageIsService
| TRLastMessageSendingState | TRLastMessageIsOutgoing | TRIsPinned | TRUnreadCount | TRLastReadOutboxMessageId
| TRLastReadInboxMessageId | TRUnreadMentionCount | TRUnreadReactionCount | TRUnreadPollVoteCount
| TRNotificationSettings | TRDraftMessageText | TRDraftMessageDate

text \<open>An \<open>int\<close> that is given a \<open>qlonglong\<close> keeps its low 32 bits.\<close>

definition int32 :: "int \<Rightarrow> int" where
  "int32 i = signed_take_bit 31 i"

definition ft_info :: "forum_topic \<Rightarrow> vmap" where
  "ft_info t = toMap (mvalue (ft_data t) ''info'')"

definition newForumTopic :: "vmap \<Rightarrow> forum_topic" where
  "newForumTopic d = \<lparr>ft_data = d, ft_id = int32 (toLongLong (mvalue (toMap (mvalue d ''info'')) ''forum_topic_id''))\<rparr>"

definition ft_name :: "forum_topic \<Rightarrow> string" where
  "ft_name t = toString (mvalue (ft_info t) ''name'')"

definition ft_isGeneral :: "forum_topic \<Rightarrow> bool" where
  "ft_isGeneral t = toBool (mvalue (ft_info t) ''is_general'')"

definition ft_iconColor :: "forum_topic \<Rightarrow> 32 word" where
  "ft_iconColor t = word_of_int (toInt (mvalue (toMap (mvalue (ft_info t) ''icon'')) ''color'')) OR 0xFF000000"

definition ft_iconCustomEmojiId :: "forum_topic \<Rightarrow> int" where
  "ft_iconCustomEmojiId t = toLongLong (mvalue (toMap (mvalue (ft_info t) ''icon'')) ''custom_emoji_id'')"

definition ft_isPinned :: "forum_topic \<Rightarrow> bool" where
  "ft_isPinned t = toBool (mvalue (ft_data t) ''is_pinned'')"

definition ft_unreadCount :: "forum_topic \<Rightarrow> int" where
  "ft_unreadCount t = toInt (mvalue (ft_data t) ''unread_count'')"

definition ft_unreadMentionCount :: "forum_topic \<Rightarrow> int" where
  "ft_unreadMentionCount t = toInt (mvalue (ft_data t) ''unread_mention_count'')"

definition ft_unreadReactionCount :: "forum_topic \<Rightarrow> int" where
  "ft_unreadReactionCount t = toInt (mvalue (ft_data t) ''unread_reaction_count'')"

definition ft_unreadPollVoteCount :: "forum_topic \<Rightarrow> int" where
  "ft_unreadPollVoteCount t = toInt (mvalue (ft_data t) ''unread_poll_vote_count'')"

definition ft_lastReadInboxMessageId :: "forum_topic \<Rightarrow> int" where
  "ft_lastReadInboxMessageId t = toLongLong (mvalue (ft_data t) ''last_read_inbox_message_id'')"

definition ft_lastReadOutboxMessageId :: "forum_topic \<Rightarrow> int" where
  "ft_lastReadOutboxMessageId t = toLongLong (mvalue (ft_data t) ''last_read_outbox_message_id'')"

definition ft_lastMessage :: "forum_topic \<Rightarrow> vmap" where
  "ft_lastMessage t = toMap (mvalue (ft_data t) ''last_message'')"

definition ft_draftMessage :: "forum_topic \<Rightarrow> vmap" where
  "ft_draftMessage t = toMap (mvalue (ft_data t) ''draft_message'')"

definition ft_notificationSettings :: "forum_topic \<Rightarrow> vmap" where
  "ft_notificationSettings t = toMap (mvalue (ft_data t) ''notification_settings'')"

definition ft_lessThan :: "forum_topic \<Rightarrow> forum_topic \<Rightarrow> bool" where
  "ft_lessThan t1 t2 =
     (if ft_isPinned t1 \<noteq> ft_isPinned t2 then ft_isPinned t1
      else (let d1 = int32 (if mempty (ft_draftMessage t1) then lm_date (ft_lastMessage t1) else dm_date (ft_draftMessage t1));
                d2 = int32 (if mempty (ft_draftMessage t2) then lm_date (ft_lastMessage t2) else dm_date (ft_draftMessage t2))
            in if d1 \<noteq> d2 then d1 > d2
               else (let m1 = toLongLong (mvalue (ft_lastMessage t1) ''id''); m2 = toLongLong (mvalue (ft_lastMessage t2) ''id'')
                     in if m1 \<noteq> m2 then m1 > m2 else ft_id t1 > ft_id t2)))"

section \<open>Updates of a topic\<close>

definition ft_put :: "string \<Rightarrow> qvariant \<Rightarrow> forum_topic \<Rightarrow> forum_topic" where
  "ft_put k v t = t\<lparr>ft_data := minsert k v (ft_data t)\<rparr>"

definition ft_updateIsPinned :: "bool \<Rightarrow> forum_topic \<Rightarrow> topic_role list \<times> forum_topic" where
  "ft_updateIsPinned v t = (if ft_isPinned t \<noteq> v then ([TRIsPinned], ft_put ''is_pinned'' (QBool v) t) else ([], t))"

definition ft_updateLastReadInboxMessageId :: "int \<Rightarrow> forum_topic \<Rightarrow> topic_role list \<times> forum_topic" where
  "ft_updateLastReadInboxMessageId v t = (if ft_lastReadInboxMessageId t \<noteq> v then ([TRLastReadInboxMessageId], ft_put ''last_read_inbox_message_id'' (QInt v) t) else ([], t))"

definition ft_updateLastReadOutboxMessageId :: "int \<Rightarrow> forum_topic \<Rightarrow> topic_role list \<times> forum_topic" where
  "ft_updateLastReadOutboxMessageId v t = (if ft_lastReadOutboxMessageId t \<noteq> v then ([TRLastReadOutboxMessageId], ft_put ''last_read_outbox_message_id'' (QInt v) t) else ([], t))"

definition ft_updateUnreadCount :: "int \<Rightarrow> forum_topic \<Rightarrow> topic_role list \<times> forum_topic" where
  "ft_updateUnreadCount v t = (if ft_unreadCount t \<noteq> v then ([TRUnreadCount], ft_put ''unread_count'' (QInt v) t) else ([], t))"

definition ft_updateUnreadMentionCount :: "int \<Rightarrow> forum_topic \<Rightarrow> topic_role list \<times> forum_topic" where
  "ft_updateUnreadMentionCount v t = (if ft_unreadMentionCount t \<noteq> v then ([TRUnreadMentionCount], ft_put ''unread_mention_count'' (QInt v) t) else ([], t))"

definition ft_updateUnreadReactionCount :: "int \<Rightarrow> forum_topic \<Rightarrow> topic_role list \<times> forum_topic" where
  "ft_updateUnreadReactionCount v t = (if ft_unreadReactionCount t \<noteq> v then ([TRUnreadReactionCount], ft_put ''unread_reaction_count'' (QInt v) t) else ([], t))"

definition ft_updateUnreadPollVoteCount :: "int \<Rightarrow> forum_topic \<Rightarrow> topic_role list \<times> forum_topic" where
  "ft_updateUnreadPollVoteCount v t = (if ft_unreadPollVoteCount t \<noteq> v then ([TRUnreadPollVoteCount], ft_put ''unread_poll_vote_count'' (QInt v) t) else ([], t))"

definition ft_updateNotificationSettings :: "vmap \<Rightarrow> forum_topic \<Rightarrow> topic_role list \<times> forum_topic" where
  "ft_updateNotificationSettings v t = (if ft_notificationSettings t \<noteq> v then ([TRNotificationSettings], ft_put ''notification_settings'' (QMap v) t) else ([], t))"

definition ft_updateDraftMessage :: "vmap \<Rightarrow> forum_topic \<Rightarrow> topic_role list \<times> forum_topic" where
  "ft_updateDraftMessage v t = ([TRDraftMessageDate, TRDraftMessageText], ft_put ''draft_message'' (QMap v) t)"

definition ft_updateLastMessage ::
  "(vmap \<Rightarrow> string \<Rightarrow> string) \<Rightarrow> vmap \<Rightarrow> forum_topic \<Rightarrow> topic_role list \<times> forum_topic" where
  "ft_updateLastMessage text message t =
     (let t' = ft_put ''last_message'' (QMap message) t;
          old = ft_lastMessage t; new = ft_lastMessage t'
      in ((if lm_id old \<noteq> lm_id new then [TRLastMessageId] else []) @
          (if lm_senderId old \<noteq> lm_senderId new then [TRLastMessageSenderId] else []) @
          (if lm_date old \<noteq> lm_date new then [TRLastMessageDate] else []) @
          (if text old (ft_name t) \<noteq> text new (ft_name t') then [TRLastMessageText] else []) @
          (if lm_minithumbnail old \<noteq> lm_minithumbnail new then [TRLastMessageMinithumbnail] else []) @
          (if lm_isService old \<noteq> lm_isService new then [TRLastMessageIsService] else []) @
          (if lm_sendingState old \<noteq> lm_sendingState new then [TRLastMessageSendingState] else []) @
          (if lm_isOutgoing old \<noteq> lm_isOutgoing new then [TRLastMessageIsOutgoing] else []), t'))"

definition ft_updateLastMessageContent ::
  "(vmap \<Rightarrow> string \<Rightarrow> string) \<Rightarrow> vmap \<Rightarrow> forum_topic \<Rightarrow> topic_role list \<times> forum_topic" where
  "ft_updateLastMessageContent text content t =
     (let t' = ft_put ''last_message'' (QMap (minsert ''content'' (QMap content) (ft_lastMessage t))) t;
          old = ft_lastMessage t; new = ft_lastMessage t'
      in ([TRLastMessageDate] @
          (if text old (ft_name t) \<noteq> text new (ft_name t') then [TRLastMessageText] else []) @
          (if lm_minithumbnail old \<noteq> lm_minithumbnail new then [TRLastMessageMinithumbnail] else []) @
          (if lm_isService old \<noteq> lm_isService new then [TRLastMessageIsService] else []), t'))"

text \<open>
  A chain of \<open><<\<close>: the roles one after the other. The updates write different keys, so the
  order in which they run matters to none of them.
\<close>

definition and_then ::
  "('t \<Rightarrow> topic_role list \<times> 't) \<Rightarrow> ('t \<Rightarrow> topic_role list \<times> 't) \<Rightarrow> 't \<Rightarrow> topic_role list \<times> 't" where
  "and_then f g t = (let (r1, t1) = f t; (r2, t2) = g t1 in (r1 @ r2, t2))"

definition ft_updateFromForumTopicUpdate :: "vmap \<Rightarrow> forum_topic \<Rightarrow> topic_role list \<times> forum_topic" where
  "ft_updateFromForumTopicUpdate u =
     and_then (ft_updateIsPinned (toBool (mvalue u ''is_pinned'')))
    (and_then (ft_updateLastReadInboxMessageId (toLongLong (mvalue u ''last_read_inbox_message_id'')))
    (and_then (ft_updateLastReadOutboxMessageId (toLongLong (mvalue u ''last_read_outbox_message_id'')))
    (and_then (ft_updateUnreadMentionCount (toInt (mvalue u ''unread_mention_count'')))
    (and_then (ft_updateUnreadReactionCount (toInt (mvalue u ''unread_reaction_count'')))
    (and_then (ft_updateUnreadPollVoteCount (toInt (mvalue u ''unread_poll_vote_count'')))
    (and_then (ft_updateNotificationSettings (toMap (mvalue u ''notification_settings'')))
              (ft_updateDraftMessage (toMap (mvalue u ''draft_message'')))))))))"

definition ft_updateForumTopicInfo :: "vmap \<Rightarrow> forum_topic \<Rightarrow> topic_role list \<times> forum_topic" where
  "ft_updateForumTopicInfo newInfo t =
     (let old = ft_info t;
          roles = (if toString (mvalue old ''name'') \<noteq> toString (mvalue newInfo ''name'') then [TRName] else []) @
            (if toMap (mvalue old ''icon'') \<noteq> toMap (mvalue newInfo ''icon'') then [TRIconColor, TRIconCustomEmojiId] else []) @
            (if toInt (mvalue old ''creation_date'') \<noteq> toInt (mvalue newInfo ''creation_date'') then [TRCreationDate] else []) @
            (if toMap (mvalue old ''creator_id'') \<noteq> toMap (mvalue newInfo ''creator_id'') then [TRCreatorId] else []) @
            (if toBool (mvalue old ''is_general'') \<noteq> toBool (mvalue newInfo ''is_general'') then [TRIsGeneral] else []) @
            (if toBool (mvalue old ''is_outgoing'') \<noteq> toBool (mvalue newInfo ''is_outgoing'') then [TRIsOutgoing] else []) @
            (if toBool (mvalue old ''is_closed'') \<noteq> toBool (mvalue newInfo ''is_closed'') then [TRIsClosed] else []) @
            (if toBool (mvalue old ''is_hidden'') \<noteq> toBool (mvalue newInfo ''is_hidden'') then [TRIsHidden] else []) @
            (if toBool (mvalue old ''is_name_implicit'') \<noteq> toBool (mvalue newInfo ''is_name_implicit'') then [TRIsNameImplicit] else [])
      in (roles, if roles \<noteq> [] then ft_put ''info'' (QMap newInfo) t else t))"

definition ft_updateForumTopicData ::
  "(vmap \<Rightarrow> string \<Rightarrow> string) \<Rightarrow> vmap \<Rightarrow> forum_topic \<Rightarrow> topic_role list \<times> forum_topic" where
  "ft_updateForumTopicData text topic =
     and_then (ft_updateFromForumTopicUpdate topic)
    (and_then (ft_updateForumTopicInfo (toMap (mvalue topic ''info'')))
              (ft_updateLastMessage text (toMap (mvalue topic ''last_message''))))"

section \<open>The list of topics\<close>

datatype ft_output =
  FtRows row_event "int list"
| FtDataChanged int "topic_role list"
| FtRefreshed int int
| FtChatIdChanged
| FtTopicsReceived
| FtGetForumTopics int int int int
| FtGetForumTopic int int

record ft_state =
  fm_timerActive :: bool
  fm_topics :: "forum_topic list"
  fm_index :: "int \<rightharpoonup> nat"
  fm_lastIndex :: "int \<rightharpoonup> nat"
  fm_chatId :: int
  fm_nextOffsetDate :: int
  fm_nextOffsetMessageId :: int
  fm_nextOffsetForumTopicId :: int
  fm_endReached :: bool
  fm_outputs :: "ft_output list"

definition ft_lastMessageId :: "forum_topic \<Rightarrow> int" where
  "ft_lastMessageId t = lm_id (ft_lastMessage t)"

definition fm_ids :: "ft_state \<Rightarrow> int list" where
  "fm_ids s = map ft_id (fm_topics s)"

definition fm_emit :: "ft_output \<Rightarrow> ft_state \<Rightarrow> ft_state" where
  "fm_emit out s = s\<lparr>fm_outputs := fm_outputs s @ [out]\<rparr>"

definition fm_emitRows :: "row_event \<Rightarrow> ft_state \<Rightarrow> ft_state" where
  "fm_emitRows e s = fm_emit (FtRows e (fm_ids s)) s"

definition fm_new :: "int \<Rightarrow> ft_state" where
  "fm_new chatId =
     fm_emit (FtGetForumTopics chatId 0 0 0)
       \<lparr>fm_timerActive = False, fm_topics = [], fm_index = Map.empty, fm_lastIndex = Map.empty, fm_chatId = chatId,
        fm_nextOffsetDate = 0, fm_nextOffsetMessageId = 0, fm_nextOffsetForumTopicId = 0, fm_endReached = False,
        fm_outputs = []\<rparr>"

definition fm_reset :: "ft_state \<Rightarrow> ft_state" where
  "fm_reset s =
     fm_emit FtChatIdChanged
       (s\<lparr>fm_chatId := 0, fm_nextOffsetDate := 0, fm_nextOffsetMessageId := 0, fm_nextOffsetForumTopicId := 0\<rparr>)"

definition fm_loadMore :: "ft_state \<Rightarrow> ft_state" where
  "fm_loadMore s =
     (if fm_chatId s \<noteq> 0 \<and> fm_nextOffsetDate s \<noteq> 0 \<and> fm_nextOffsetMessageId s \<noteq> 0 \<and> fm_nextOffsetForumTopicId s \<noteq> 0
      then (if fm_endReached s then s
            else fm_emit (FtGetForumTopics (fm_chatId s) (fm_nextOffsetDate s) (fm_nextOffsetMessageId s)
                                           (fm_nextOffsetForumTopicId s)) s)
      else s)"

definition fm_enableRefreshTimer :: "ft_state \<Rightarrow> ft_state" where
  "fm_enableRefreshTimer s = (if \<not> fm_timerActive s then s\<lparr>fm_timerActive := True\<rparr> else s)"

definition fm_handleForumTopicsReceived :: "int \<Rightarrow> vmap list \<Rightarrow> int \<Rightarrow> int \<Rightarrow> int \<Rightarrow> ft_state \<Rightarrow> ft_state" where
  "fm_handleForumTopicsReceived chatId newTopics offsetDate offsetMessageId offsetTopicId s =
     (if fm_chatId s \<noteq> chatId then s
      else if newTopics = [] then fm_emit FtTopicsReceived (s\<lparr>fm_endReached := True\<rparr>)
      else (let new = std_sort ft_lessThan (map newForumTopic newTopics);
                n = length (fm_topics s);
                rows = fm_topics s @ new;
                s1 = fm_emitRows (RowsInserted (int n) (int n + int (length new) - 1))
                       (s\<lparr>fm_topics := rows,
                          fm_index := reindex ft_id rows n (n + length new) (fm_index s),
                          fm_lastIndex := reindex ft_lastMessageId rows n (n + length new) (fm_lastIndex s)\<rparr>)
            in fm_enableRefreshTimer (fm_emit FtTopicsReceived
                 (s1\<lparr>fm_nextOffsetDate := offsetDate, fm_nextOffsetMessageId := offsetMessageId,
                     fm_nextOffsetForumTopicId := offsetTopicId\<rparr>))))"

definition fm_insertNewTopic :: "vmap \<Rightarrow> ft_state \<Rightarrow> ft_state" where
  "fm_insertNewTopic topic s =
     (let t = newForumTopic topic;
          n = length (fm_topics s);
          pos = insert_pos (\<lambda>other. \<not> ft_lessThan t other) (fm_topics s);
          rows = insert_at pos t (fm_topics s)
      in fm_enableRefreshTimer (fm_emitRows (RowsInserted (int pos) (int pos))
           (s\<lparr>fm_topics := rows,
              fm_index := reindex ft_id rows (Suc pos) (Suc n) ((fm_index s)(ft_id t \<mapsto> pos)),
              fm_lastIndex := reindex ft_lastMessageId rows (Suc pos) (Suc n)
                                ((fm_lastIndex s)(ft_lastMessageId t \<mapsto> pos))\<rparr>)))"

text \<open>The moved topic gets its new row in the first hash only.\<close>

definition fm_updateForumTopicOrder :: "nat \<Rightarrow> ft_state \<Rightarrow> (nat \<times> ft_state) option" where
  "fm_updateForumTopicOrder i s = do {
     t \<leftarrow> qat (fm_topics s) i;
     let j = new_row (ft_lessThan t) (\<lambda>other. \<not> ft_lessThan t other) (fm_topics s) i;
     if j \<noteq> i
     then (let rows = qmove i j (fm_topics s);
               m = moved_index ft_id rows i j (fm_index s);
               l = (if j < i then reindex ft_lastMessageId rows (Suc j) (Suc (max i j)) (fm_lastIndex s)
                    else reindex ft_lastMessageId rows i (max i j) (fm_lastIndex s))
           in Some (j, fm_emitRows (row_moved i j) (s\<lparr>fm_topics := rows, fm_index := m, fm_lastIndex := l\<rparr>)))
     else Some (j, s) }"

definition ft_reorders :: "topic_role list \<Rightarrow> bool" where
  "ft_reorders roles \<longleftrightarrow> TRIsPinned \<in> set roles \<or> TRLastMessageDate \<in> set roles \<or>
     TRDraftMessageDate \<in> set roles \<or> TRLastMessageId \<in> set roles"

definition fm_handleForumTopicRolesChanged :: "nat \<Rightarrow> topic_role list \<Rightarrow> int \<Rightarrow> ft_state \<Rightarrow> ft_state option" where
  "fm_handleForumTopicRolesChanged i roles prevLastMessageId s =
     (if roles = [] then Some s
      else do {
        t \<leftarrow> qat (fm_topics s) i;
        let s1 = (if prevLastMessageId \<noteq> 0 \<and> TRLastMessageId \<in> set roles
                  then s\<lparr>fm_lastIndex := ((fm_lastIndex s)(prevLastMessageId := None))(ft_id t \<mapsto> i)\<rparr> else s);
        (j, s2) \<leftarrow> (if ft_reorders roles then fm_updateForumTopicOrder i s1 else Some (i, s1));
        Some (fm_emit (FtDataChanged (if j < length (fm_topics s2) then int j else -1) roles) s2) })"

text \<open>
  A handler looks its topic up, updates it in place and reports the roles. \<open>prev\<close> is the
  last message before the update where the handler passes it, and \<open>0\<close> where it does not.
\<close>

definition fm_updateTopicAt ::
  "(forum_topic \<Rightarrow> topic_role list \<times> forum_topic) \<Rightarrow> bool \<Rightarrow> nat \<Rightarrow> ft_state \<Rightarrow> ft_state option" where
  "fm_updateTopicAt f passPrev i s = do {
     t \<leftarrow> qat (fm_topics s) i;
     let (roles, t') = f t;
     fm_handleForumTopicRolesChanged i roles (if passPrev then ft_lastMessageId t else 0)
       (s\<lparr>fm_topics := (fm_topics s)[i := t']\<rparr>) }"

definition fm_handleForumTopicUpdated :: "int \<Rightarrow> int \<Rightarrow> vmap \<Rightarrow> ft_state \<Rightarrow> ft_state option" where
  "fm_handleForumTopicUpdated chatId topicId update s =
     (case (if fm_chatId s = chatId then fm_index s topicId else None) of
        None \<Rightarrow> Some s
      | Some i \<Rightarrow> fm_updateTopicAt (ft_updateFromForumTopicUpdate update) False i s)"

definition fm_handleForumTopicInfoUpdated :: "int \<Rightarrow> int \<Rightarrow> vmap \<Rightarrow> ft_state \<Rightarrow> ft_state option" where
  "fm_handleForumTopicInfoUpdated chatId topicId info s =
     (case (if fm_chatId s = chatId then fm_index s topicId else None) of
        None \<Rightarrow> Some s
      | Some i \<Rightarrow> fm_updateTopicAt (ft_updateForumTopicInfo info) False i s)"

definition fm_handleNewMessageReceived ::
  "(vmap \<Rightarrow> string \<Rightarrow> string) \<Rightarrow> int \<Rightarrow> vmap \<Rightarrow> ft_state \<Rightarrow> ft_state option" where
  "fm_handleNewMessageReceived text chatId message s =
     (let topicId = toMap (mvalue message ''topic_id'')
      in if fm_chatId s \<noteq> chatId \<or> toString (mvalue topicId ''@type'') \<noteq> ''messageTopicForum'' then Some s
         else (let forumTopicId = toInt (mvalue topicId ''forum_topic_id'')
               in case fm_index s forumTopicId of
                    Some i \<Rightarrow> fm_updateTopicAt (ft_updateLastMessage text message) True i s
                  | None \<Rightarrow> Some (fm_emit (FtGetForumTopic chatId forumTopicId) s)))"

definition fm_handleForumTopicReceived ::
  "(vmap \<Rightarrow> string \<Rightarrow> string) \<Rightarrow> int \<Rightarrow> int \<Rightarrow> vmap \<Rightarrow> ft_state \<Rightarrow> ft_state option" where
  "fm_handleForumTopicReceived text chatId topicId topic s =
     (if fm_chatId s \<noteq> chatId then Some s
      else (case fm_index s topicId of
              Some i \<Rightarrow> fm_updateTopicAt (ft_updateForumTopicData text topic) True i s
            | None \<Rightarrow> Some (fm_insertNewTopic topic s)))"

definition fm_handleRelativeTimeRefreshTimer :: "ft_state \<Rightarrow> ft_state" where
  "fm_handleRelativeTimeRefreshTimer s =
     (let n = length (fm_topics s)
      in fm_emit (if n = 0 then FtRefreshed (-1) (-1) else FtRefreshed 0 (int n - 1)) s)"

definition fm_handleMessageContentUpdated ::
  "(vmap \<Rightarrow> string \<Rightarrow> string) \<Rightarrow> int \<Rightarrow> int \<Rightarrow> vmap \<Rightarrow> ft_state \<Rightarrow> ft_state option" where
  "fm_handleMessageContentUpdated text chatId messageId content s =
     (case (if fm_chatId s = chatId then fm_lastIndex s messageId else None) of
        None \<Rightarrow> Some s
      | Some i \<Rightarrow> fm_updateTopicAt (ft_updateLastMessageContent text content) False i s)"

definition fm_handleMessageSendSucceeded ::
  "(vmap \<Rightarrow> string \<Rightarrow> string) \<Rightarrow> int \<Rightarrow> int \<Rightarrow> int \<Rightarrow> vmap \<Rightarrow> ft_state \<Rightarrow> ft_state option" where
  "fm_handleMessageSendSucceeded text chatId oldMessageId messageId message s =
     (case (if fm_chatId s = chatId then fm_lastIndex s messageId else None) of
        None \<Rightarrow> Some s
      | Some i \<Rightarrow> fm_updateTopicAt (ft_updateLastMessage text message) True i s)"

fun fm_deleted_loop :: "int \<Rightarrow> int list \<Rightarrow> ft_state \<Rightarrow> ft_state option" where
  "fm_deleted_loop chatId [] s = Some s"
| "fm_deleted_loop chatId (m # ms) s =
     (case fm_lastIndex s m of
        None \<Rightarrow> fm_deleted_loop chatId ms s
      | Some i \<Rightarrow> do {
          t \<leftarrow> qat (fm_topics s) i;
          fm_deleted_loop chatId ms (fm_emit (FtGetForumTopic chatId (ft_id t)) s) })"

definition fm_handleMessagesDeleted :: "int \<Rightarrow> int list \<Rightarrow> ft_state \<Rightarrow> ft_state option" where
  "fm_handleMessagesDeleted chatId messageIds s =
     (if fm_chatId s = chatId then fm_deleted_loop chatId messageIds s else Some s)"

definition fm_handleForumTopicNotFound :: "int \<Rightarrow> int \<Rightarrow> ft_state \<Rightarrow> ft_state option" where
  "fm_handleForumTopicNotFound chatId topicId s =
     (case (if fm_chatId s = chatId then fm_index s topicId else None) of
        None \<Rightarrow> Some s
      | Some i \<Rightarrow> do {
          t \<leftarrow> qat (fm_topics s) i;
          let rows = remove_at i (fm_topics s);
          Some (fm_emitRows (RowsRemoved (int i) (int i))
            (s\<lparr>fm_topics := rows,
               fm_index := reindex ft_id rows i (length rows) ((fm_index s)(topicId := None)),
               fm_lastIndex := reindex ft_id rows i (length rows) ((fm_lastIndex s)(topicId := None))\<rparr>)) })"

section \<open>Reading the list\<close>

definition fm_rowCount :: "ft_state \<Rightarrow> int" where
  "fm_rowCount s = int (length (fm_topics s))"

definition fm_roleNames :: "(topic_role \<times> string) list" where
  "fm_roleNames =
    [(TRDisplay, ''display''),
     (TRId, ''forum_topic_id''),
     (TRName, ''name''),
     (TRIconColor, ''icon_color''),
     (TRIconCustomEmojiId, ''icon_custom_emoji_id''),
     (TRCreationDate, ''creation_date''),
     (TRCreatorId, ''creator_id''),
     (TRIsGeneral, ''is_general''),
     (TRIsOutgoing, ''is_outgoing''),
     (TRIsClosed, ''is_closed''),
     (TRIsHidden, ''is_hidden''),
     (TRIsNameImplicit, ''is_name_implicit''),
     (TRLastMessageId, ''last_message_id''),
     (TRLastMessageSenderId, ''last_message_sender_id''),
     (TRLastMessageDate, ''last_message_date''),
     (TRLastMessageText, ''last_message_text''),
     (TRLastMessageMinithumbnail, ''last_message_minithumbnail''),
     (TRLastMessageIsService, ''last_message_is_service''),
     (TRLastMessageSendingState, ''last_message_sending_state''),
     (TRLastMessageIsOutgoing, ''last_message_is_outgoing''),
     (TRLastReadOutboxMessageId, ''last_read_outbox_message_id''),
     (TRLastReadInboxMessageId, ''last_read_inbox_message_id''),
     (TRIsPinned, ''is_pinned''),
     (TRUnreadCount, ''unread_count''),
     (TRUnreadMentionCount, ''unread_mention_count''),
     (TRUnreadReactionCount, ''unread_reaction_count''),
     (TRUnreadPollVoteCount, ''unread_poll_vote_count''),
     (TRNotificationSettings, ''notification_settings''),
     (TRDraftMessageDate, ''draft_message_date''),
     (TRDraftMessageText, ''draft_message_text'')]"

datatype ft_value =
  FtValue qvariant
| FtSender message_sender
| FtColor "32 word"

definition fm_data :: "(vmap \<Rightarrow> string \<Rightarrow> string) \<Rightarrow> ft_state \<Rightarrow> int \<Rightarrow> topic_role \<Rightarrow> ft_value" where
  "fm_data text s row role =
  (if valid_row row (fm_topics s) then
    (let t = fm_topics s ! nat row; lm = ft_lastMessage t in
     case role of
     TRDisplay \<Rightarrow> FtValue (QMap (ft_data t))
   | TRId \<Rightarrow> FtValue (QInt (ft_id t))
   | TRName \<Rightarrow> FtValue (QString (ft_name t))
   | TRIconColor \<Rightarrow> FtColor (ft_iconColor t)
   | TRIconCustomEmojiId \<Rightarrow> FtValue (QString (show_int (ft_iconCustomEmojiId t)))
   | TRCreationDate \<Rightarrow> FtValue (QInt (toInt (mvalue (ft_info t) ''creation_date'')))
   | TRCreatorId \<Rightarrow> FtSender (MessageSender (toMap (mvalue (ft_info t) ''creator_id'')))
   | TRIsGeneral \<Rightarrow> FtValue (QBool (ft_isGeneral t))
   | TRIsOutgoing \<Rightarrow> FtValue (QBool (toBool (mvalue (ft_info t) ''is_outgoing'')))
   | TRIsClosed \<Rightarrow> FtValue (QBool (toBool (mvalue (ft_info t) ''is_closed'')))
   | TRIsHidden \<Rightarrow> FtValue (QBool (toBool (mvalue (ft_info t) ''is_hidden'')))
   | TRIsNameImplicit \<Rightarrow> FtValue (QBool (toBool (mvalue (ft_info t) ''is_name_implicit'')))
   | TRLastMessageId \<Rightarrow> FtValue (QInt (lm_id lm))
   | TRLastMessageSenderId \<Rightarrow> FtSender (lm_senderId lm)
   | TRLastMessageText \<Rightarrow> FtValue (QString (text lm (ft_name t)))
   | TRLastMessageMinithumbnail \<Rightarrow> FtValue (lm_minithumbnail lm)
   | TRLastMessageIsService \<Rightarrow> FtValue (QBool (lm_isService lm))
   | TRLastMessageDate \<Rightarrow> FtValue (QInt (lm_date lm))
   | TRLastMessageSendingState \<Rightarrow> FtValue (lm_sendingState lm)
   | TRLastMessageIsOutgoing \<Rightarrow> FtValue (QBool (lm_isOutgoing lm))
   | TRLastReadOutboxMessageId \<Rightarrow> FtValue (QInt (ft_lastReadOutboxMessageId t))
   | TRLastReadInboxMessageId \<Rightarrow> FtValue (QInt (ft_lastReadInboxMessageId t))
   | TRIsPinned \<Rightarrow> FtValue (QBool (ft_isPinned t))
   | TRUnreadCount \<Rightarrow> FtValue (QInt (ft_unreadCount t))
   | TRUnreadMentionCount \<Rightarrow> FtValue (QInt (ft_unreadMentionCount t))
   | TRUnreadReactionCount \<Rightarrow> FtValue (QInt (ft_unreadReactionCount t))
   | TRUnreadPollVoteCount \<Rightarrow> FtValue (QInt (ft_unreadPollVoteCount t))
   | TRDraftMessageDate \<Rightarrow> FtValue (QInt (dm_date (ft_draftMessage t)))
   | TRDraftMessageText \<Rightarrow> FtValue (QString (dm_text (ft_draftMessage t)))
   | _ \<Rightarrow> FtValue QInvalid)
   else FtValue QInvalid)"

section \<open>An update reports what the place of a topic depends on\<close>

text \<open>Pinned topics come first, then the latest draft or message, then the larger ids.\<close>

definition ft_date :: "forum_topic \<Rightarrow> int" where
  "ft_date t = int32 (if mempty (ft_draftMessage t) then lm_date (ft_lastMessage t) else dm_date (ft_draftMessage t))"

definition ft_rank :: "forum_topic \<Rightarrow> bool \<times> int \<times> int \<times> int" where
  "ft_rank t = (\<not> ft_isPinned t, - ft_date t, - ft_lastMessageId t, - ft_id t)"

lemma ft_lessThan_rank: "ft_lessThan t u \<longleftrightarrow> ft_rank t < ft_rank u"
  by (auto simp: ft_lessThan_def ft_rank_def ft_date_def ft_lastMessageId_def lm_id_def Let_def)

interpretation ft_order: ordered_rows ft_rank ft_lessThan "\<lambda>t other. \<not> ft_lessThan t other" "\<lambda>t other. \<not> ft_lessThan t other"
  by unfold_locales (auto simp: ft_lessThan_rank)

definition ft_reports :: "(forum_topic \<Rightarrow> topic_role list \<times> forum_topic) \<Rightarrow> bool" where
  "ft_reports f \<longleftrightarrow> (\<forall>t. ft_id (snd (f t)) = ft_id t \<and>
     (\<not> ft_reorders (fst (f t)) \<longrightarrow> ft_rank (snd (f t)) = ft_rank t))"

lemma ft_put_fields [simp]:
  "ft_id (ft_put k v t) = ft_id t"
  "ft_isPinned (ft_put k v t) = (if k = ''is_pinned'' then toBool v else ft_isPinned t)"
  "ft_lastMessage (ft_put k v t) = (if k = ''last_message'' then toMap v else ft_lastMessage t)"
  "ft_draftMessage (ft_put k v t) = (if k = ''draft_message'' then toMap v else ft_draftMessage t)"
  by (simp_all add: ft_put_def ft_isPinned_def ft_lastMessage_def ft_draftMessage_def)

lemma ft_rank_put:
  "k \<noteq> ''is_pinned'' \<Longrightarrow> k \<noteq> ''last_message'' \<Longrightarrow> k \<noteq> ''draft_message'' \<Longrightarrow> ft_rank (ft_put k v t) = ft_rank t"
  by (simp add: ft_rank_def ft_date_def ft_lastMessageId_def)

lemma and_then_reports: "ft_reports f \<Longrightarrow> ft_reports g \<Longrightarrow> ft_reports (and_then f g)"
  by (auto simp: ft_reports_def and_then_def ft_reorders_def split: prod.split) (metis fst_conv snd_conv)+

lemma ft_field_updates_report:
  "ft_reports (ft_updateIsPinned b)" "ft_reports (ft_updateLastReadInboxMessageId i)"
  "ft_reports (ft_updateLastReadOutboxMessageId i)" "ft_reports (ft_updateUnreadCount i)"
  "ft_reports (ft_updateUnreadMentionCount i)" "ft_reports (ft_updateUnreadReactionCount i)"
  "ft_reports (ft_updateUnreadPollVoteCount i)" "ft_reports (ft_updateNotificationSettings v)"
  "ft_reports (ft_updateDraftMessage v)"
  by (simp_all add: ft_reports_def ft_reorders_def ft_rank_put ft_updateIsPinned_def
      ft_updateLastReadInboxMessageId_def ft_updateLastReadOutboxMessageId_def ft_updateUnreadCount_def
      ft_updateUnreadMentionCount_def ft_updateUnreadReactionCount_def ft_updateUnreadPollVoteCount_def
      ft_updateNotificationSettings_def ft_updateDraftMessage_def)

lemma ft_updateLastMessage_reports: "ft_reports (ft_updateLastMessage text m)"
  by (auto simp: ft_reports_def ft_reorders_def ft_updateLastMessage_def Let_def
      ft_rank_def ft_date_def ft_lastMessageId_def split: if_splits)

lemma ft_updateLastMessageContent_reports: "ft_reports (ft_updateLastMessageContent text c)"
  by (auto simp: ft_reports_def ft_reorders_def ft_updateLastMessageContent_def Let_def)

lemma ft_updateForumTopicInfo_reports: "ft_reports (ft_updateForumTopicInfo info)"
  by (simp add: ft_reports_def ft_updateForumTopicInfo_def Let_def ft_rank_put)

lemma ft_updateFromForumTopicUpdate_reports: "ft_reports (ft_updateFromForumTopicUpdate u)"
  unfolding ft_updateFromForumTopicUpdate_def by (intro and_then_reports ft_field_updates_report)

lemma ft_updateForumTopicData_reports: "ft_reports (ft_updateForumTopicData text topic)"
  unfolding ft_updateForumTopicData_def
  by (intro and_then_reports ft_updateFromForumTopicUpdate_reports ft_updateForumTopicInfo_reports
      ft_updateLastMessage_reports)

lemmas ft_updates_report = ft_updateLastMessage_reports ft_updateLastMessageContent_reports
  ft_updateForumTopicInfo_reports ft_updateFromForumTopicUpdate_reports ft_updateForumTopicData_reports

section \<open>The list stays in order\<close>

definition fm_inv :: "ft_state \<Rightarrow> bool" where
  "fm_inv s \<longleftrightarrow> index_ok ft_id (fm_topics s) (fm_index s) \<and> sorted (map ft_rank (fm_topics s))"

interpretation ft_rows: row_index fm_topics ft_id fm_index fm_inv
  by unfold_locales (simp add: fm_inv_def)

fun ft_view :: "ft_output \<Rightarrow> int list \<Rightarrow> int list" where
  "ft_view (FtRows e rows) view = view_step rows e view"
| "ft_view _ view = view"

definition fm_sync :: "ft_state \<Rightarrow> ft_state \<Rightarrow> bool" where
  "fm_sync s s' \<longleftrightarrow> (\<exists>new. fm_outputs s' = fm_outputs s @ new \<and> fold ft_view new (fm_ids s) = fm_ids s')"

lemma fm_emit_fields [simp]:
  "fm_topics (fm_emit out s) = fm_topics s" "fm_index (fm_emit out s) = fm_index s"
  "fm_lastIndex (fm_emit out s) = fm_lastIndex s" "fm_chatId (fm_emit out s) = fm_chatId s"
  "fm_outputs (fm_emit out s) = fm_outputs s @ [out]" "fm_ids (fm_emit out s) = fm_ids s"
  "fm_topics (fm_emitRows e s) = fm_topics s" "fm_index (fm_emitRows e s) = fm_index s"
  "fm_lastIndex (fm_emitRows e s) = fm_lastIndex s" "fm_chatId (fm_emitRows e s) = fm_chatId s"
  "fm_outputs (fm_emitRows e s) = fm_outputs s @ [FtRows e (fm_ids s)]" "fm_ids (fm_emitRows e s) = fm_ids s"
  by (simp_all add: fm_emit_def fm_emitRows_def fm_ids_def)

lemma fm_timer_fields [simp]:
  "fm_topics (fm_enableRefreshTimer s) = fm_topics s" "fm_index (fm_enableRefreshTimer s) = fm_index s"
  "fm_outputs (fm_enableRefreshTimer s) = fm_outputs s" "fm_ids (fm_enableRefreshTimer s) = fm_ids s"
  by (simp_all add: fm_enableRefreshTimer_def fm_ids_def)

lemma fm_ids_rows [simp]:
  "fm_ids (s\<lparr>fm_topics := rows\<rparr>) = map ft_id rows"
  "fm_ids (s\<lparr>fm_topics := rows, fm_index := m\<rparr>) = map ft_id rows" "fm_ids (s\<lparr>fm_lastIndex := l\<rparr>) = fm_ids s"
  "fm_ids (s\<lparr>fm_topics := rows, fm_index := m, fm_lastIndex := l\<rparr>) = map ft_id rows"
  by (simp_all add: fm_ids_def)

lemma fm_sync_trans: "fm_sync s t \<Longrightarrow> fm_sync t u \<Longrightarrow> fm_sync s u"
  unfolding fm_sync_def by (metis append_assoc fold_append o_apply)

lemma fm_sync_same: "fm_outputs t = fm_outputs s \<Longrightarrow> fm_ids t = fm_ids s \<Longrightarrow> fm_sync s t"
  by (auto simp: fm_sync_def intro: exI [of _ "[]"])

lemma fm_sync_emit: "fm_sync s t \<Longrightarrow> (\<And>v. ft_view out v = v) \<Longrightarrow> fm_sync s (fm_emit out t)"
  by (auto simp: fm_sync_def)

lemma fm_sync_rows:
  "fm_outputs t = fm_outputs s \<Longrightarrow> view_step (fm_ids t) e (fm_ids s) = fm_ids t \<Longrightarrow> fm_sync s (fm_emitRows e t)"
  by (auto simp: fm_sync_def)

lemma fm_reordered:
  assumes ok: "index_ok ft_id (fm_topics s) (fm_index s)" and i: "i < length (fm_topics s)"
    and s: "sorted (map ft_rank (remove_at i (fm_topics s)))"
  shows "\<exists>j s'. fm_updateForumTopicOrder i s = Some (j, s') \<and> fm_topics s' = qmove i j (fm_topics s) \<and>
           fm_inv s' \<and> fm_sync s s'"
proof -
  let ?t = "fm_topics s ! i"
  let ?j = "new_row (ft_lessThan ?t) (\<lambda>other. \<not> ft_lessThan ?t other) (fm_topics s) i"
  let ?rows = "qmove i ?j (fm_topics s)"
  obtain j s' where run: "fm_updateForumTopicOrder i s = Some (j, s')"
  proof -
    have "fm_updateForumTopicOrder i s \<noteq> None" using i by (simp add: fm_updateForumTopicOrder_def Let_def)
    with that show ?thesis by (metis not_None_eq surj_pair)
  qed
  have j: "?j < length (fm_topics s)" using i by (rule new_row_less)
  have jj: "j = ?j" and topics: "fm_topics s' = ?rows"
    and index: "fm_index s' = (if ?j = i then fm_index s else moved_index ft_id ?rows i ?j (fm_index s))"
    using run i by (auto simp: fm_updateForumTopicOrder_def Let_def split: if_splits)
  have "fm_inv s'"
    using ok index_ok_moved [OF ok i j] ft_order.moved_sorted [OF i s] i by (simp add: fm_inv_def topics index)
  moreover have "fm_sync s s'"
  proof (cases "?j = i")
    case True
    with run i show ?thesis by (auto simp: fm_updateForumTopicOrder_def Let_def intro: fm_sync_same)
  next
    case False
    obtain m l where "s' = fm_emitRows (row_moved i ?j) (s\<lparr>fm_topics := ?rows, fm_index := m, fm_lastIndex := l\<rparr>)"
      using run i False by (auto simp: fm_updateForumTopicOrder_def Let_def)
    moreover have "fm_sync s (fm_emitRows (row_moved i ?j) (s\<lparr>fm_topics := ?rows, fm_index := m, fm_lastIndex := l\<rparr>))"
      by (rule fm_sync_rows) (simp, use False i j in \<open>simp add: map_qmove fm_ids_def [of s] view_row_moved\<close>)
    ultimately show ?thesis by simp
  qed
  ultimately show ?thesis using run topics jj by blast
qed

text \<open>A topic updated in place: its row is found again by one pass of the loops.\<close>

lemma fm_updateTopicAt:
  assumes inv: "fm_inv s" and i: "i < length (fm_topics s)" and f: "ft_reports f"
  shows "\<exists>s'. fm_updateTopicAt f pass i s = Some s' \<and> fm_inv s' \<and> fm_sync s s' \<and>
           mset (fm_topics s') = mset ((fm_topics s)[i := snd (f (fm_topics s ! i))])"
proof -
  obtain roles t where ft: "f (fm_topics s ! i) = (roles, t)" by (cases "f (fm_topics s ! i)")
  have ok: "index_ok ft_id (fm_topics s) (fm_index s)" and srt: "sorted (map ft_rank (fm_topics s))"
    using inv by (auto simp: fm_inv_def)
  have t: "ft_id t = ft_id (fm_topics s ! i)" "\<not> ft_reorders roles \<Longrightarrow> ft_rank t = ft_rank (fm_topics s ! i)"
    using f ft unfolding ft_reports_def by (metis fst_conv snd_conv)+
  let ?rows = "(fm_topics s)[i := t]"
  define s1 where "s1 = s\<lparr>fm_topics := ?rows\<rparr>"
  define s2 where "s2 = (if (if pass then ft_lastMessageId (fm_topics s ! i) else 0) \<noteq> 0 \<and> TRLastMessageId \<in> set roles
    then s1\<lparr>fm_lastIndex := ((fm_lastIndex s1)((if pass then ft_lastMessageId (fm_topics s ! i) else 0) := None))(ft_id t \<mapsto> i)\<rparr>
    else s1)"
  have ids: "map ft_id ?rows = map ft_id (fm_topics s)" by (rule map_update_same) (rule t)
  have s2: "fm_topics s2 = ?rows" "fm_index s2 = fm_index s" "fm_outputs s2 = fm_outputs s"
    by (simp_all add: s2_def s1_def)
  have ok2: "index_ok ft_id (fm_topics s2) (fm_index s2)" using index_ok_update [OF ok t(1)] by (simp add: s2)
  have sync2: "fm_sync s s2" using ids by (intro fm_sync_same) (simp_all add: s2 fm_ids_def)
  obtain j s3 where s3: "(if ft_reorders roles then fm_updateForumTopicOrder i s2 else Some (i, s2)) = Some (j, s3)"
    and inv3: "fm_inv s3" and sync3: "fm_sync s2 s3" and rows3: "mset (fm_topics s3) = mset ?rows"
  proof (cases "ft_reorders roles")
    case True
    have "remove_at i ?rows = remove_at i (fm_topics s)" by (simp add: remove_at_def)
    then have "sorted (map ft_rank (remove_at i (fm_topics s2)))" using sorted_remove_at [OF srt] by (simp add: s2)
    from fm_reordered [OF ok2 _ this] i True that show ?thesis by (auto simp: s2 mset_qmove)
  next
    case False
    have "map ft_rank ?rows = map ft_rank (fm_topics s)" by (rule map_update_same) (rule t(2) [OF False])
    with False ok2 srt that show ?thesis by (auto simp: s2 fm_inv_def fm_sync_same)
  qed
  show ?thesis
  proof (cases "roles = []")
    case True
    then have "\<not> ft_reorders roles" by (simp add: ft_reorders_def)
    with True i ft s3 inv3 rows3 show ?thesis
      using fm_sync_trans [OF sync2 sync3]
      by (auto simp: fm_updateTopicAt_def fm_handleForumTopicRolesChanged_def s1_def s2_def split: if_splits)
  next
    case False
    define s4 where "s4 = fm_emit (FtDataChanged (if j < length (fm_topics s3) then int j else -1) roles) s3"
    have "fm_updateTopicAt f pass i s =
        do { (j, u) \<leftarrow> (if ft_reorders roles then fm_updateForumTopicOrder i s2 else Some (i, s2));
             Some (fm_emit (FtDataChanged (if j < length (fm_topics u) then int j else -1) roles) u) }"
      using False i ft
      by (simp add: fm_updateTopicAt_def fm_handleForumTopicRolesChanged_def Let_def s1_def s2_def)
    then have "fm_updateTopicAt f pass i s = Some s4" unfolding s3 by (simp add: s4_def)
    moreover have "fm_inv s4" using inv3 by (simp add: fm_inv_def s4_def)
    moreover have "fm_sync s s4" unfolding s4_def by (rule fm_sync_emit [OF fm_sync_trans [OF sync2 sync3]]) simp
    ultimately show ?thesis using rows3 ft by (auto simp: s4_def)
  qed
qed

lemma fm_inserted:
  assumes inv: "fm_inv s" and new: "fm_index s (ft_id (newForumTopic topic)) = None"
  shows "fm_inv (fm_insertNewTopic topic s) \<and> fm_sync s (fm_insertNewTopic topic s) \<and>
         mset (fm_topics (fm_insertNewTopic topic s)) = add_mset (newForumTopic topic) (mset (fm_topics s))"
proof -
  let ?t = "newForumTopic topic"
  let ?pos = "insert_pos (\<lambda>other. \<not> ft_lessThan ?t other) (fm_topics s)"
  let ?rows = "insert_at ?pos ?t (fm_topics s)" and ?s = "fm_insertNewTopic topic s"
  have ok: "index_ok ft_id (fm_topics s) (fm_index s)" and srt: "sorted (map ft_rank (fm_topics s))"
    using inv by (auto simp: fm_inv_def)
  have fresh: "ft_id ?t \<notin> ft_id ` set (fm_topics s)" using new index_ok_None [OF ok] by simp
  have topics: "fm_topics ?s = ?rows" by (simp add: fm_insertNewTopic_def Let_def)
  have "index_ok ft_id (fm_topics ?s) (fm_index ?s)"
    using index_ok_insert_at [OF ok insert_pos_le fresh] by (simp add: fm_insertNewTopic_def Let_def)
  moreover have "sorted (map ft_rank (fm_topics ?s))"
    using ft_order.inserted_sorted [OF srt, of ?t] by (simp only: topics)
  moreover have "fm_sync s ?s"
  proof -
    obtain m l where s: "?s = fm_enableRefreshTimer (fm_emitRows (RowsInserted (int ?pos) (int ?pos))
        (s\<lparr>fm_topics := ?rows, fm_index := m, fm_lastIndex := l\<rparr>))" (is "_ = fm_enableRefreshTimer ?u")
      by (simp add: fm_insertNewTopic_def Let_def)
    have "fm_sync s ?u"
      by (rule fm_sync_rows) (simp, simp add: row_simps fm_ids_def [of s] view_row_inserted del: view_step.simps)
    then show ?thesis unfolding s by (rule fm_sync_trans) (simp add: fm_sync_same)
  qed
  ultimately show ?thesis by (simp add: fm_inv_def topics mset_insert_at)
qed

lemma fm_notFound:
  assumes inv: "fm_inv s"
  shows "\<exists>s'. fm_handleForumTopicNotFound chatId topicId s = Some s' \<and> fm_inv s' \<and> fm_sync s s' \<and>
           mset (fm_topics s') = (if fm_chatId s = chatId then {#t \<in># mset (fm_topics s). ft_id t \<noteq> topicId#}
                                  else mset (fm_topics s))"
proof (cases "if fm_chatId s = chatId then fm_index s topicId else None")
  case None
  have ok: "index_ok ft_id (fm_topics s) (fm_index s)" using inv by (simp add: fm_inv_def)
  have "{#t \<in># mset (fm_topics s). ft_id t \<noteq> topicId#} = mset (fm_topics s)" if "fm_chatId s = chatId"
    using that None index_ok_None [OF ok, of topicId] by (auto intro!: filter_mset_True simp: filter_mset_eq_conv)
  with None inv show ?thesis
    by (auto simp: fm_handleForumTopicNotFound_def intro: fm_sync_same split: if_splits)
next
  case (Some i)
  have chat: "fm_chatId s = chatId" and index: "fm_index s topicId = Some i" using Some by (auto split: if_splits)
  have ok: "index_ok ft_id (fm_topics s) (fm_index s)" and srt: "sorted (map ft_rank (fm_topics s))"
    using inv by (auto simp: fm_inv_def)
  have i: "i < length (fm_topics s)" "ft_id (fm_topics s ! i) = topicId" using index_okD [OF ok] index by auto
  let ?rows = "remove_at i (fm_topics s)"
  obtain s' m l where run: "fm_handleForumTopicNotFound chatId topicId s = Some s'"
    and s': "s' = fm_emitRows (RowsRemoved (int i) (int i)) (s\<lparr>fm_topics := ?rows, fm_index := m, fm_lastIndex := l\<rparr>)"
    and m: "m = reindex ft_id ?rows i (length ?rows) ((fm_index s)(topicId := None))"
    using Some i by (simp add: fm_handleForumTopicNotFound_def Let_def)
  have "index_ok ft_id ?rows m" unfolding m by (rule index_ok_remove_at [OF ok i])
  then have "fm_inv s'" using sorted_remove_at [OF srt] by (simp add: fm_inv_def s')
  moreover have "fm_sync s s'" unfolding s'
    by (rule fm_sync_rows) (simp, simp add: row_simps fm_ids_def [of s] view_row_removed del: view_step.simps)
  moreover have "mset ?rows = {#t \<in># mset (fm_topics s). ft_id t \<noteq> topicId#}"
  proof -
    have d: "distinct (map ft_id (fm_topics s))" by (rule index_ok_distinct [OF ok])
    have "ft_id t \<noteq> topicId" if "t \<in> set ?rows" for t
    proof -
      have "distinct (map ft_id (fm_topics s ! i # ?rows))"
        using d remove_at_split [OF i(1)] by (metis mset.simps(2) mset_eq_imp_distinct_iff mset_map)
      with that i show ?thesis by (auto simp: image_iff)
    qed
    then have "{#t \<in># mset ?rows. ft_id t \<noteq> topicId#} = mset ?rows" by (simp add: filter_mset_eq_conv)
    moreover have "{#t \<in># mset (fm_topics s). ft_id t \<noteq> topicId#} = {#t \<in># mset ?rows. ft_id t \<noteq> topicId#}"
      unfolding remove_at_split [OF i(1), symmetric] using i(2) by simp
    ultimately show ?thesis by simp
  qed
  ultimately show ?thesis using run chat by (auto simp: s')
qed

end
