(* ===== verification/TdData.thy ===== *)
theory TdData imports ChatDataModel "HOL-Library.AList"
begin

text \<open>
  \<open>TDLibData\<close> (\<open>src/tdlib/tdlibdata.h\<close>, \<open>tdlibdata.cpp\<close>): the store of what TDLib has told about
  users, chats, groups, notification settings and options, and the dispatch of TDLib's updates
  to the chat lists.

  A \<open>QHash\<close> that is only looked up is a map. The chats, which \<open>updateGroup\<close> also visits in the
  order of the hash, are an association list in that order. Signals are entries of a log.
  A handler that dereferences a chat it has not looked for returns \<open>None\<close> where there is none.
  The lemmas show that a chat knows the state of its group and that muting follows TDLib's rules.
\<close>

section \<open>Positions in a list\<close>

fun findChatPosition :: "bool \<Rightarrow> qvariant list \<Rightarrow> vmap" where
  "findChatPosition archive [] = fmempty"
| "findChatPosition archive (p # ps) =
     (let position = toMap p
      in if toString (mvalue position ''@type'') = ''chatPosition'' \<and>
            toString (mvalue (toMap (mvalue position ''list'')) ''@type'') =
              (if archive then ''chatListArchive'' else ''chatListMain'')
         then position else findChatPosition archive ps)"

fun findChatPositionForFolder :: "int \<Rightarrow> qvariant list \<Rightarrow> vmap" where
  "findChatPositionForFolder folderId [] = fmempty"
| "findChatPositionForFolder folderId (p # ps) =
     (let position = toMap p; chatList = toMap (mvalue position ''list'')
      in if toString (mvalue position ''@type'') = ''chatPosition'' \<and>
            toString (mvalue chatList ''@type'') = ''chatListFolder'' \<and>
            toInt (mvalue chatList ''chat_folder_id'') = folderId
         then position else findChatPositionForFolder folderId ps)"

section \<open>State\<close>

datatype privacy_rule = RuleAllowAll | RuleAllowContacts | RuleRestrictAll

datatype notification_scope =
  NotificationSettingsScopePrivateChats | NotificationSettingsScopeGroupChats | NotificationSettingsScopeChannelChats

text \<open>The settings, as the integers TDLib hands back with the rules.\<close>

abbreviation (input) SettingAllowChatInvites :: int where "SettingAllowChatInvites \<equiv> 0"
abbreviation (input) SettingAllowFindingByPhoneNumber :: int where "SettingAllowFindingByPhoneNumber \<equiv> 1"
abbreviation (input) SettingShowLinkInForwardedMessages :: int where "SettingShowLinkInForwardedMessages \<equiv> 2"
abbreviation (input) SettingShowPhoneNumber :: int where "SettingShowPhoneNumber \<equiv> 3"
abbreviation (input) SettingShowProfilePhoto :: int where "SettingShowProfilePhoto \<equiv> 4"
abbreviation (input) SettingShowStatus :: int where "SettingShowStatus \<equiv> 5"
abbreviation (input) SettingUnknown :: int where "SettingUnknown \<equiv> 6"

text \<open>A chat list, as the type and folder of TDLib's object name it.\<close>

datatype list_id = MainList | ArchiveList | FolderList int

datatype td_output =
  OptionUpdated string qvariant
| MyUserIdUpdated
| MyUserUpdated
| UserUpdated int vmap
| UserIsContactUpdated int bool
| UserPrivacySettingUpdated int privacy_rule
| NewChatDiscovered int vmap
| ChatAddedToList list_id int int bool
| ChatRemovedFromList list_id int
| ChatPositionUpdated list_id int int bool
| UnreadMessageCountUpdated list_id vmap
| UnreadChatCountUpdated list_id vmap
| ChatRolesUpdated int "chat_role list"
| ChatPhotoUpdated int vmap
| ChatTitleUpdated int string
| ChatPendingJoinRequestsUpdated int
| ChatActionUpdated int vmap vmap vmap
| SomeChatListUpdated
| BasicGroupUpdated int
| SupergroupUpdated int
| SecretChatUpdated int
| CommunityUpdated int
| ScopeNotificationSettingsChanged notification_scope
| OwnedStarsChanged
| OwnedGramsChanged
| StakeDiceStateUpdated
| ActiveEmojiReactionsChanged
| DefaultReactionTypeChanged
| AccentColorsUpdated

record td_state =
  td_options :: "string \<rightharpoonup> qvariant"
  td_myId :: int
  td_userInformation :: vmap
  td_privacyRules :: "int \<rightharpoonup> privacy_rule"
  td_users :: "int \<rightharpoonup> vmap"
  td_chats :: "(int \<times> chat_data) list"
  td_secretChats :: "int \<rightharpoonup> vmap"
  td_basicGroups :: "int \<rightharpoonup> td_group"
  td_superGroups :: "int \<rightharpoonup> td_group"
  td_communities :: "int \<rightharpoonup> vmap"
  td_activeEmojiReactions :: "string list"
  td_diceEmojis :: "string list"
  td_scopes :: "notification_scope \<rightharpoonup> vmap"
  td_defaultReactionType :: vmap
  td_accentColors :: "int \<rightharpoonup> vmap"
  td_availableAccentColorIds :: "int list"
  td_ownedStars :: int
  td_ownedNanostars :: int
  td_ownedGrams :: int
  td_stakeDiceState :: vmap
  td_outputs :: "td_output list"

definition td_emit :: "td_output \<Rightarrow> td_state \<Rightarrow> td_state" where
  "td_emit out s = s\<lparr>td_outputs := td_outputs s @ [out]\<rparr>"

definition the_map :: "vmap option \<Rightarrow> vmap" where
  "the_map m = (case m of None \<Rightarrow> fmempty | Some v \<Rightarrow> v)"

definition td_chat :: "td_state \<Rightarrow> int \<Rightarrow> chat_data option" where
  "td_chat s = map_of (td_chats s)"

definition td_setChat :: "int \<Rightarrow> chat_data \<Rightarrow> td_state \<Rightarrow> td_state" where
  "td_setChat chatId c s = s\<lparr>td_chats := AList.update chatId c (td_chats s)\<rparr>"

section \<open>Getters\<close>

definition td_getUserInformation :: "int \<Rightarrow> td_state \<Rightarrow> vmap" where
  "td_getUserInformation userId s = the_map (td_users s userId)"

definition td_hasUserInformation :: "int \<Rightarrow> td_state \<Rightarrow> bool" where
  "td_hasUserInformation userId s \<longleftrightarrow> td_users s userId \<noteq> None"

definition td_getUserPrivacySettingRule :: "int \<Rightarrow> td_state \<Rightarrow> privacy_rule" where
  "td_getUserPrivacySettingRule setting s =
     (case td_privacyRules s setting of None \<Rightarrow> RuleAllowAll | Some r \<Rightarrow> r)"

definition td_getGroup :: "int \<Rightarrow> bool \<Rightarrow> td_state \<Rightarrow> td_group option" where
  "td_getGroup groupId super s =
     (if groupId \<noteq> 0 then (if super then td_superGroups s groupId else td_basicGroups s groupId) else None)"

definition td_getBasicGroup :: "int \<Rightarrow> td_state \<Rightarrow> vmap" where
  "td_getBasicGroup groupId s = the_map (map_option groupInfo (td_basicGroups s groupId))"

definition td_getSuperGroup :: "int \<Rightarrow> td_state \<Rightarrow> vmap" where
  "td_getSuperGroup groupId s = the_map (map_option groupInfo (td_superGroups s groupId))"

definition td_getChat :: "int \<Rightarrow> td_state \<Rightarrow> vmap" where
  "td_getChat chatId s = the_map (map_option chatData (td_chat s chatId))"

definition td_hasChatData :: "int \<Rightarrow> td_state \<Rightarrow> bool" where
  "td_hasChatData chatId s \<longleftrightarrow> td_chat s chatId \<noteq> None"

definition td_getSecretChat :: "int \<Rightarrow> td_state \<Rightarrow> vmap" where
  "td_getSecretChat i s = the_map (td_secretChats s i)"

definition td_getCommunity :: "int \<Rightarrow> td_state \<Rightarrow> vmap" where
  "td_getCommunity i s = the_map (td_communities s i)"

definition td_getOption :: "string \<Rightarrow> td_state \<Rightarrow> qvariant" where
  "td_getOption name s = (case td_options s name of None \<Rightarrow> QInvalid | Some v \<Rightarrow> v)"

definition td_isDiceEmoji :: "string \<Rightarrow> td_state \<Rightarrow> bool" where
  "td_isDiceEmoji text s \<longleftrightarrow> trimmed text \<in> set (td_diceEmojis s)"

definition td_getAccentColor :: "int \<Rightarrow> td_state \<Rightarrow> qvariant" where
  "td_getAccentColor i s = (case td_accentColors s i of None \<Rightarrow> QInvalid | Some c \<Rightarrow> QMap c)"

definition td_availableAccentColors :: "td_state \<Rightarrow> qvariant list" where
  "td_availableAccentColors s = map (\<lambda>i. QMap (the_map (td_accentColors s i))) (td_availableAccentColorIds s)"

definition td_canSkipChatJoinDialog :: "int \<Rightarrow> td_state \<Rightarrow> bool" where
  "td_canSkipChatJoinDialog chatId s =
     (let chat = td_getChat chatId s
      in if mempty chat then False
         else (let type = toMap (mvalue chat ''type'')
               in if chatTypeFromString (toString (mvalue type ''@type'')) = ChatTypeSupergroup
                  then (case td_superGroups s (toLongLong (mvalue type ''supergroup_id'')) of
                          None \<Rightarrow> False
                        | Some g \<Rightarrow> group_memberStatus g \<noteq> ChatMemberStatusLeft \<or> group_isPublic g)
                  else True))"

definition td_getChatNotificationSettingsScope :: "int \<Rightarrow> td_state \<Rightarrow> notification_scope option" where
  "td_getChatNotificationSettingsScope chatId s =
     (case td_chat s chatId of
        None \<Rightarrow> None
      | Some chat \<Rightarrow> Some
          (case chatType chat of
             ChatTypePrivate \<Rightarrow> NotificationSettingsScopePrivateChats
           | ChatTypeSecret \<Rightarrow> NotificationSettingsScopePrivateChats
           | ChatTypeBasicGroup \<Rightarrow> NotificationSettingsScopeGroupChats
           | ChatTypeSupergroup \<Rightarrow> (if cd_isChannel chat then NotificationSettingsScopeChannelChats
                                   else NotificationSettingsScopeGroupChats)
           | _ \<Rightarrow> NotificationSettingsScopePrivateChats))"

definition td_scopeNotificationSettings :: "notification_scope \<Rightarrow> td_state \<Rightarrow> vmap" where
  "td_scopeNotificationSettings scope s = the_map (td_scopes s scope)"

definition td_getChatScopeNotificationSettings :: "int \<Rightarrow> td_state \<Rightarrow> vmap option" where
  "td_getChatScopeNotificationSettings chatId s =
     map_option (\<lambda>scope. the_map (td_scopes s scope)) (td_getChatNotificationSettingsScope chatId s)"

definition td_getChatMuteFor :: "int \<Rightarrow> vmap \<Rightarrow> td_state \<Rightarrow> int option" where
  "td_getChatMuteFor chatId notificationSettings0 s =
     (case td_chat s chatId of
        None \<Rightarrow> Some 0
      | Some chat \<Rightarrow>
          (let settings = (if mempty notificationSettings0 then notificationSettings chat else notificationSettings0)
           in if toBool (mvalue settings ''use_default_mute_for'')
              then map_option (\<lambda>m. toInt (mvalue m ''mute_for'')) (td_getChatScopeNotificationSettings chatId s)
              else Some (toInt (mvalue settings ''mute_for''))))"

definition td_chatIsMuted :: "int \<Rightarrow> vmap \<Rightarrow> td_state \<Rightarrow> bool option" where
  "td_chatIsMuted chatId settings s = map_option (\<lambda>m. m > 0) (td_getChatMuteFor chatId settings s)"

section \<open>Users\<close>

definition td_handleOptionUpdated :: "string \<Rightarrow> qvariant \<Rightarrow> td_state \<Rightarrow> td_state" where
  "td_handleOptionUpdated name value s =
     (let s1 = td_emit (OptionUpdated name value) (s\<lparr>td_options := (td_options s)(name \<mapsto> value)\<rparr>)
      in if name = ''my_id''
         then td_emit MyUserUpdated (td_emit MyUserIdUpdated
                (s1\<lparr>td_myId := toLongLong value, td_userInformation := td_getUserInformation (toLongLong value) s1\<rparr>))
         else s1)"

definition td_updateUserInformation :: "int \<Rightarrow> vmap \<Rightarrow> td_state \<Rightarrow> td_state" where
  "td_updateUserInformation userId user s = td_emit (UserUpdated userId user) (s\<lparr>td_users := (td_users s)(userId \<mapsto> user)\<rparr>)"

definition td_handleUserUpdated :: "vmap \<Rightarrow> td_state \<Rightarrow> td_state" where
  "td_handleUserUpdated user s =
     (let userId = toLongLong (mvalue user ''id'');
          s1 = (if userId = td_myId s then td_emit MyUserUpdated (s\<lparr>td_userInformation := user\<rparr>) else s);
          contact = toBool (mvalue user ''is_contact'');
          s2 = (if toBool (mvalue (the_map (td_users s1 userId)) ''is_contact'') \<noteq> contact
                then td_emit (UserIsContactUpdated userId contact) s1 else s1)
      in td_updateUserInformation userId user s2)"

definition td_handleUserStatusUpdated :: "int \<Rightarrow> vmap \<Rightarrow> td_state \<Rightarrow> td_state" where
  "td_handleUserStatusUpdated userId status s =
     (let s1 = (if userId = td_myId s
                then td_emit MyUserUpdated (s\<lparr>td_userInformation := minsert ''status'' (QMap status) (td_userInformation s)\<rparr>)
                else s);
          user = the_map (td_users s1 userId)
      in if mvalue user ''status'' = QMap status then s1
         else (let s2 = td_updateUserInformation userId (minsert ''status'' (QMap status) user) s1
               in case td_chat s2 userId of
                    None \<Rightarrow> s2
                  | Some c \<Rightarrow>
                      (let (changed, c') = updateUserStatus status c; s3 = td_setChat userId c' s2
                       in if changed then td_emit (ChatRolesUpdated userId [ChatRoleIsOnline]) s3 else s3)))"

fun td_appliedRule :: "privacy_rule \<Rightarrow> qvariant list \<Rightarrow> privacy_rule" where
  "td_appliedRule rule [] = rule"
| "td_appliedRule rule (r # rs) =
     (let given = toString (mvalue (toMap r) ''@type'')
      in td_appliedRule (if given = ''userPrivacySettingRuleAllowContacts'' then RuleAllowContacts
                         else if given = ''userPrivacySettingRuleAllowAll'' then RuleAllowAll else rule) rs)"

definition td_handleUserPrivacySettingRules :: "vmap \<Rightarrow> td_state \<Rightarrow> td_state" where
  "td_handleUserPrivacySettingRules rules s =
     (let rule = td_appliedRule RuleRestrictAll (toList (mvalue rules ''rules''));
          setting = toInt (mvalue rules ''@extra'')
      in td_emit (UserPrivacySettingUpdated setting rule)
           (s\<lparr>td_privacyRules := (td_privacyRules s)(setting \<mapsto> rule)\<rparr>))"

definition td_handleUpdatedUserPrivacySettingRules :: "vmap \<Rightarrow> td_state \<Rightarrow> td_state" where
  "td_handleUpdatedUserPrivacySettingRules updated s =
     (let raw = toString (mvalue (toMap (mvalue updated ''setting'')) ''@type'');
          setting = (if raw = ''userPrivacySettingAllowChatInvites'' then SettingAllowChatInvites
            else if raw = ''userPrivacySettingAllowFindingByPhoneNumber'' then SettingAllowFindingByPhoneNumber
            else if raw = ''userPrivacySettingShowLinkInForwardedMessages'' then SettingShowLinkInForwardedMessages
            else if raw = ''userPrivacySettingShowPhoneNumber'' then SettingShowPhoneNumber
            else if raw = ''userPrivacySettingShowProfilePhoto'' then SettingShowProfilePhoto
            else if raw = ''userPrivacySettingShowStatus'' then SettingShowStatus
            else SettingUnknown)
      in if setting \<noteq> SettingUnknown
         then td_handleUserPrivacySettingRules
                (minsert ''@extra'' (QInt setting) (toMap (mvalue updated ''rules''))) s
         else s)"

section \<open>Chats\<close>

definition list_of :: "vmap \<Rightarrow> list_id option" where
  "list_of chatList =
     (let type = toString (mvalue chatList ''@type'')
      in if type = ''chatListMain'' then Some MainList
         else if type = ''chatListArchive'' then Some ArchiveList
         else if type = ''chatListFolder'' then Some (FolderList (toInt (mvalue chatList ''chat_folder_id'')))
         else None)"

fun positionIn :: "list_id \<Rightarrow> qvariant list \<Rightarrow> vmap" where
  "positionIn MainList positions = findChatPosition False positions"
| "positionIn ArchiveList positions = findChatPosition True positions"
| "positionIn (FolderList f) positions = findChatPositionForFolder f positions"

definition td_addToList :: "int \<Rightarrow> qvariant list \<Rightarrow> vmap \<Rightarrow> td_state \<Rightarrow> td_state" where
  "td_addToList chatId positions chatList s =
     (case list_of chatList of
        None \<Rightarrow> s
      | Some l \<Rightarrow>
          (let position = positionIn l positions
           in td_emit (ChatAddedToList l chatId (toLongLong (mvalue position ''order'')) (toBool (mvalue position ''is_pinned''))) s))"

definition td_handleNewChatDiscovered :: "vmap \<Rightarrow> td_state \<Rightarrow> td_state" where
  "td_handleNewChatDiscovered info s =
     (let chatId = toLongLong (mvalue info ''id'');
          chat = newChatData (toMap (mvalue (td_getUserInformation chatId s) ''status'')) (\<lambda>g super. td_getGroup g super s) info;
          s1 = td_emit (NewChatDiscovered chatId info) (td_setChat chatId chat s)
      in fold (\<lambda>l. td_addToList chatId (toList (mvalue info ''positions'')) (toMap l)) (toList (mvalue info ''chat_lists'')) s1)"

definition td_handleChatAddedToList :: "vmap \<Rightarrow> int \<Rightarrow> td_state \<Rightarrow> td_state" where
  "td_handleChatAddedToList chatList chatId s =
     (case td_chat s chatId of
        None \<Rightarrow> s
      | Some chat \<Rightarrow> td_addToList chatId (toList (mvalue (chatData chat) ''positions'')) chatList s)"

definition td_handleChatRemovedFromList :: "vmap \<Rightarrow> int \<Rightarrow> td_state \<Rightarrow> td_state" where
  "td_handleChatRemovedFromList chatList chatId s =
     (if \<not> td_hasChatData chatId s then s
      else (case list_of chatList of None \<Rightarrow> s | Some l \<Rightarrow> td_emit (ChatRemovedFromList l chatId) s))"

definition td_handleChatPositionUpdated :: "int \<Rightarrow> vmap \<Rightarrow> td_state \<Rightarrow> td_state" where
  "td_handleChatPositionUpdated chatId position s =
     td_emit SomeChatListUpdated
       (case list_of (toMap (mvalue position ''list'')) of
          None \<Rightarrow> s
        | Some l \<Rightarrow> td_emit (ChatPositionUpdated l chatId (toLongLong (mvalue position ''order''))
                               (toBool (mvalue position ''is_pinned''))) s)"

definition td_updateChatPositions :: "int \<Rightarrow> qvariant list \<Rightarrow> td_state \<Rightarrow> td_state" where
  "td_updateChatPositions chatId positions s =
     fold (\<lambda>p. td_handleChatPositionUpdated chatId (toMap p)) positions s"

definition td_handleUnreadMessageCountUpdated :: "vmap \<Rightarrow> td_state \<Rightarrow> td_state" where
  "td_handleUnreadMessageCountUpdated info s =
     (case list_of (toMap (mvalue info ''chat_list'')) of
        None \<Rightarrow> s | Some l \<Rightarrow> td_emit (UnreadMessageCountUpdated l info) s)"

definition td_handleUnreadChatCountUpdated :: "vmap \<Rightarrow> td_state \<Rightarrow> td_state" where
  "td_handleUnreadChatCountUpdated info s =
     (case list_of (toMap (mvalue info ''chat_list'')) of
        None \<Rightarrow> s | Some l \<Rightarrow> td_emit (UnreadChatCountUpdated l info) s)"

definition td_withChat :: "int \<Rightarrow> (chat_data \<Rightarrow> td_state \<Rightarrow> td_state) \<Rightarrow> td_state \<Rightarrow> td_state" where
  "td_withChat chatId f s = (case td_chat s chatId of None \<Rightarrow> s | Some c \<Rightarrow> f c s)"

definition td_handleChatLastMessageUpdated :: "(vmap \<Rightarrow> string) \<Rightarrow> int \<Rightarrow> vmap \<Rightarrow> qvariant list \<Rightarrow> td_state \<Rightarrow> td_state" where
  "td_handleChatLastMessageUpdated text chatId message positions =
     td_withChat chatId (\<lambda>c s.
       (let (roles, c') = updateLastMessage text message c
        in td_updateChatPositions chatId positions
             (td_emit SomeChatListUpdated (td_emit (ChatRolesUpdated chatId roles) (td_setChat chatId c' s)))))"

definition td_handleChatDraftMessageUpdated :: "int \<Rightarrow> vmap \<Rightarrow> qvariant list \<Rightarrow> td_state \<Rightarrow> td_state" where
  "td_handleChatDraftMessageUpdated chatId draft positions =
     td_withChat chatId (\<lambda>c s.
       td_updateChatPositions chatId positions
         (td_emit SomeChatListUpdated
           (td_emit (ChatRolesUpdated chatId [ChatRoleDraftMessageDate, ChatRoleDraftMessageText])
             (td_setChat chatId (cd_put ''draft_message'' (QMap draft) c) s))))"

definition td_handleChatReadInboxUpdated :: "int \<Rightarrow> int \<Rightarrow> int \<Rightarrow> td_state \<Rightarrow> td_state" where
  "td_handleChatReadInboxUpdated chatId lastRead unread =
     td_withChat chatId (\<lambda>c s.
       (let (b1, c1) = updateUnreadCount unread c;
            (b2, c2) = updateLastReadInboxMessageId lastRead c1;
            roles = (if b1 then [ChatRoleUnreadCount] else []) @ (if b2 then [ChatRoleLastReadInboxMessageId] else []);
            s1 = td_setChat chatId c2 s
        in if roles \<noteq> [] then td_emit (ChatRolesUpdated chatId (roles @ [ChatRoleDisplay])) s1 else s1))"

definition td_handleChatReadOutboxUpdated :: "int \<Rightarrow> int \<Rightarrow> td_state \<Rightarrow> td_state" where
  "td_handleChatReadOutboxUpdated chatId lastRead =
     td_withChat chatId (\<lambda>c s.
       (let (b, c') = updateLastReadOutboxMessageId lastRead c; s1 = td_setChat chatId c' s
        in if b then td_emit (ChatRolesUpdated chatId [ChatRoleLastReadOutboxMessageId]) s1 else s1))"

text \<open>\<open>chat->chatData.insert(key, value)\<close> and the roles this changes.\<close>

definition td_putChat :: "string \<Rightarrow> qvariant \<Rightarrow> chat_role list \<Rightarrow> int \<Rightarrow> chat_data \<Rightarrow> td_state \<Rightarrow> td_state" where
  "td_putChat k v roles chatId c s = td_emit (ChatRolesUpdated chatId roles) (td_setChat chatId (cd_put k v c) s)"

definition td_handleChatTitleUpdated :: "int \<Rightarrow> string \<Rightarrow> td_state \<Rightarrow> td_state" where
  "td_handleChatTitleUpdated chatId title =
     td_withChat chatId (\<lambda>c s. td_emit (ChatTitleUpdated chatId title)
       (td_putChat ''title'' (QString title) [ChatRoleTitle] chatId c s))"

definition td_handleChatPhotoUpdated :: "int \<Rightarrow> vmap \<Rightarrow> td_state \<Rightarrow> td_state" where
  "td_handleChatPhotoUpdated chatId photo =
     td_withChat chatId (\<lambda>c s. td_emit (ChatPhotoUpdated chatId photo)
       (td_putChat ''photo'' (QMap photo) [ChatRolePhoto] chatId c s))"

definition td_handleChatNotificationSettingsUpdated :: "int \<Rightarrow> vmap \<Rightarrow> td_state \<Rightarrow> td_state" where
  "td_handleChatNotificationSettingsUpdated chatId settings =
     td_withChat chatId (td_putChat ''notification_settings'' (QMap settings) [ChatRoleNotificationSettings] chatId)"

definition td_handleChatIsMarkedAsUnreadUpdated :: "int \<Rightarrow> bool \<Rightarrow> td_state \<Rightarrow> td_state" where
  "td_handleChatIsMarkedAsUnreadUpdated chatId marked =
     td_withChat chatId (td_putChat ''is_marked_as_unread'' (QBool marked) [ChatRoleIsMarkedAsUnread] chatId)"

definition td_handleChatUnreadMentionCountUpdated :: "int \<Rightarrow> int \<Rightarrow> td_state \<Rightarrow> td_state" where
  "td_handleChatUnreadMentionCountUpdated chatId n =
     td_withChat chatId (\<lambda>c s. if unreadMentionCount c \<noteq> n
       then td_putChat ''unread_mention_count'' (QInt n) [ChatRoleUnreadMentionCount] chatId c s else s)"

definition td_handleChatUnreadReactionCountUpdated :: "int \<Rightarrow> int \<Rightarrow> td_state \<Rightarrow> td_state" where
  "td_handleChatUnreadReactionCountUpdated chatId n =
     td_withChat chatId (\<lambda>c s. if unreadReactionCount c \<noteq> n
       then td_putChat ''unread_reaction_count'' (QInt n) [ChatRoleUnreadReactionCount] chatId c s else s)"

definition td_handleChatUnreadPollVoteCountUpdated :: "int \<Rightarrow> int \<Rightarrow> td_state \<Rightarrow> td_state" where
  "td_handleChatUnreadPollVoteCountUpdated chatId n =
     td_withChat chatId (\<lambda>c s. if unreadPollVoteCount c \<noteq> n
       then td_putChat ''unread_poll_vote_count'' (QInt n) [ChatRoleUnreadPollVoteCount] chatId c s else s)"

definition td_handleChatPermissionsUpdated :: "int \<Rightarrow> vmap \<Rightarrow> td_state \<Rightarrow> td_state" where
  "td_handleChatPermissionsUpdated chatId perms =
     td_withChat chatId (td_putChat ''permissions'' (QMap perms) [ChatRolePermissions] chatId)"

definition td_handleChatAvailableReactionsUpdated :: "int \<Rightarrow> vmap \<Rightarrow> td_state \<Rightarrow> td_state" where
  "td_handleChatAvailableReactionsUpdated chatId reactions =
     td_withChat chatId (td_putChat ''available_reactions'' (QMap reactions) [ChatRoleAvailableReactions] chatId)"

definition td_handleChatViewAsTopicsUpdated :: "int \<Rightarrow> bool \<Rightarrow> td_state \<Rightarrow> td_state" where
  "td_handleChatViewAsTopicsUpdated chatId v =
     td_withChat chatId (td_putChat ''view_as_topics'' (QBool v) [ChatRoleViewAsTopics] chatId)"

definition td_handleChatPendingJoinRequestsUpdated :: "int \<Rightarrow> vmap \<Rightarrow> td_state \<Rightarrow> td_state" where
  "td_handleChatPendingJoinRequestsUpdated chatId requests =
     td_withChat chatId (\<lambda>c s. td_emit (ChatPendingJoinRequestsUpdated chatId)
       (td_setChat chatId (cd_put ''pending_join_requests'' (QMap requests) c) s))"

definition td_handleChatAccentColorsUpdated :: "int \<Rightarrow> int \<Rightarrow> string \<Rightarrow> vmap \<Rightarrow> int \<Rightarrow> string \<Rightarrow> td_state \<Rightarrow> td_state" where
  "td_handleChatAccentColorsUpdated chatId accent background gift profileAccent profileBackground =
     td_withChat chatId (\<lambda>c s.
       (let (roles, c') = updateAccentColors accent background gift profileAccent profileBackground c;
            s1 = td_setChat chatId c' s
        in if roles \<noteq> [] then td_emit (ChatRolesUpdated chatId roles) s1 else s1))"

definition td_handleChatActionUpdated :: "int \<Rightarrow> vmap \<Rightarrow> vmap \<Rightarrow> vmap \<Rightarrow> td_state \<Rightarrow> td_state" where
  "td_handleChatActionUpdated chatId topicId sender action =
     td_withChat chatId (\<lambda>c s.
       if mempty topicId then
         (let actions = (if toString (mvalue action ''@type'') = ''chatActionCancel''
                         then AList.delete (MessageSender sender) (chatActions c)
                         else AList.update (MessageSender sender) (ChatAction action) (chatActions c))
          in td_emit (ChatRolesUpdated chatId [ChatRoleChatMainActionType, ChatRoleChatActionsText, ChatRoleChatActionsProgress])
               (td_setChat chatId (c\<lparr>chatActions := actions\<rparr>) s))
       else td_emit (ChatActionUpdated chatId topicId sender action) s)"

section \<open>Groups\<close>

text \<open>The loop over the chats, in the order of the hash.\<close>

fun td_updateGroup_loop :: "td_group \<Rightarrow> (int \<times> chat_data) list \<Rightarrow> (int \<times> chat_data) list \<times> td_output list" where
  "td_updateGroup_loop g [] = ([], [])"
| "td_updateGroup_loop g ((k, c) # cs) =
     (let (roles, c') = cd_updateGroup (Some g) c; (cs', outs) = td_updateGroup_loop g cs
      in ((k, c') # cs', (if roles \<noteq> [] then [ChatRolesUpdated (cd_chatId c') roles] else []) @ outs))"

definition td_newGroup :: "int \<Rightarrow> vmap \<Rightarrow> (int \<rightharpoonup> td_group) \<Rightarrow> td_group" where
  "td_newGroup groupId info groups =
     (case groups groupId of None \<Rightarrow> \<lparr>gr_groupId = groupId, groupInfo = info\<rparr> | Some g \<Rightarrow> g\<lparr>groupInfo := info\<rparr>)"

definition td_updateGroup :: "td_group \<Rightarrow> td_state \<Rightarrow> td_state" where
  "td_updateGroup g s =
     (let (cs, outs) = td_updateGroup_loop g (td_chats s)
      in s\<lparr>td_chats := cs, td_outputs := td_outputs s @ outs\<rparr>)"

definition td_handleBasicGroupUpdated :: "int \<Rightarrow> vmap \<Rightarrow> td_state \<Rightarrow> td_state" where
  "td_handleBasicGroupUpdated groupId info s =
     (let g = td_newGroup groupId info (td_basicGroups s)
      in td_emit (BasicGroupUpdated (gr_groupId g))
           (td_updateGroup g (s\<lparr>td_basicGroups := (td_basicGroups s)(groupId \<mapsto> g)\<rparr>)))"

definition td_handleSupergroupUpdated :: "int \<Rightarrow> vmap \<Rightarrow> td_state \<Rightarrow> td_state" where
  "td_handleSupergroupUpdated groupId info s =
     (let g = td_newGroup groupId info (td_superGroups s)
      in td_emit (SupergroupUpdated (gr_groupId g))
           (td_updateGroup g (s\<lparr>td_superGroups := (td_superGroups s)(groupId \<mapsto> g)\<rparr>)))"

definition td_handleSecretChatUpdated :: "int \<Rightarrow> vmap \<Rightarrow> td_state \<Rightarrow> td_state" where
  "td_handleSecretChatUpdated i chat s = td_emit (SecretChatUpdated i) (s\<lparr>td_secretChats := (td_secretChats s)(i \<mapsto> chat)\<rparr>)"

definition td_handleCommunityUpdated :: "int \<Rightarrow> vmap \<Rightarrow> td_state \<Rightarrow> td_state" where
  "td_handleCommunityUpdated i community s =
     td_emit (CommunityUpdated i) (s\<lparr>td_communities := (td_communities s)(i \<mapsto> community)\<rparr>)"

section \<open>Settings and the rest\<close>

definition td_handleScopeNotificationSettingsUpdated :: "string \<Rightarrow> vmap \<Rightarrow> td_state \<Rightarrow> td_state" where
  "td_handleScopeNotificationSettingsUpdated scopeType settings s =
     (let update = (\<lambda>scope. td_emit (ScopeNotificationSettingsChanged scope)
                              (s\<lparr>td_scopes := (td_scopes s)(scope \<mapsto> settings)\<rparr>))
      in if scopeType = ''notificationSettingsScopePrivateChats'' then update NotificationSettingsScopePrivateChats
         else if scopeType = ''notificationSettingsScopeGroupChats'' then update NotificationSettingsScopeGroupChats
         else if scopeType = ''notificationSettingsScopeChannelChats'' then update NotificationSettingsScopeChannelChats
         else s)"

definition td_handleOwnedStarCountUpdated :: "int \<Rightarrow> int \<Rightarrow> td_state \<Rightarrow> td_state" where
  "td_handleOwnedStarCountUpdated stars nanostars s =
     td_emit OwnedStarsChanged (s\<lparr>td_ownedStars := stars, td_ownedNanostars := nanostars\<rparr>)"

definition td_handleOwnedGramCountUpdated :: "int \<Rightarrow> td_state \<Rightarrow> td_state" where
  "td_handleOwnedGramCountUpdated grams s = td_emit OwnedGramsChanged (s\<lparr>td_ownedGrams := grams\<rparr>)"

definition td_handleStakeDiceStateUpdated :: "vmap \<Rightarrow> td_state \<Rightarrow> td_state" where
  "td_handleStakeDiceStateUpdated d s = td_emit StakeDiceStateUpdated (s\<lparr>td_stakeDiceState := d\<rparr>)"

definition td_handleActiveEmojiReactionsUpdated :: "string list \<Rightarrow> td_state \<Rightarrow> td_state" where
  "td_handleActiveEmojiReactionsUpdated emojis s =
     (if td_activeEmojiReactions s \<noteq> emojis
      then td_emit ActiveEmojiReactionsChanged (s\<lparr>td_activeEmojiReactions := emojis\<rparr>) else s)"

definition td_handleDiceEmojisUpdated :: "string list \<Rightarrow> td_state \<Rightarrow> td_state" where
  "td_handleDiceEmojisUpdated emojis s = (if td_diceEmojis s \<noteq> emojis then s\<lparr>td_diceEmojis := emojis\<rparr> else s)"

definition td_handleDefaultReactionTypeUpdated :: "vmap \<Rightarrow> td_state \<Rightarrow> td_state" where
  "td_handleDefaultReactionTypeUpdated r s = td_emit DefaultReactionTypeChanged (s\<lparr>td_defaultReactionType := r\<rparr>)"

definition td_handleAccentColorsUpdated :: "qvariant list \<Rightarrow> int list \<Rightarrow> td_state \<Rightarrow> td_state" where
  "td_handleAccentColorsUpdated colors available s =
     td_emit AccentColorsUpdated
       (s\<lparr>td_accentColors := fold (\<lambda>c m. m(toInt (mvalue (toMap c) ''id'') \<mapsto> toMap c)) colors Map.empty,
          td_availableAccentColorIds := available\<rparr>)"

definition td_reset :: "td_state \<Rightarrow> td_state" where
  "td_reset s = s\<lparr>td_options := Map.empty, td_myId := 0, td_userInformation := fmempty, td_privacyRules := Map.empty,
     td_users := Map.empty, td_chats := [], td_secretChats := Map.empty, td_basicGroups := Map.empty,
     td_superGroups := Map.empty, td_activeEmojiReactions := [], td_diceEmojis := []\<rparr>"

section \<open>The updates TDLib sends\<close>

text \<open>
  One constructor per signal of \<open>TDLibReceiver\<close> the store is connected to, and the slot it
  runs. The signal for the available reactions is connected twice, so its slot runs twice.
\<close>

datatype td_event =
  EOption string qvariant
| EUser vmap
| EUserStatus int vmap
| EPrivacyRules vmap
| EPrivacyRulesUpdated vmap
| ENewChat vmap
| EChatAddedToList vmap int
| EChatRemovedFromList vmap int
| EChatPosition int vmap
| EUnreadMessageCount vmap
| EUnreadChatCount vmap
| EChatLastMessage int vmap "qvariant list"
| EChatDraftMessage int vmap "qvariant list"
| EChatReadInbox int int int
| EChatReadOutbox int int
| EChatTitle int string
| EChatPhoto int vmap
| EChatNotificationSettings int vmap
| EChatIsMarkedAsUnread int bool
| EChatUnreadMentionCount int int
| EChatUnreadReactionCount int int
| EChatAvailableReactions int vmap
| EChatUnreadPollVoteCount int int
| EChatPendingJoinRequests int vmap
| EChatViewAsTopics int bool
| EChatPermissions int vmap
| EChatAccentColors int int string vmap int string
| EChatAction int vmap vmap vmap
| EBasicGroup int vmap
| ESupergroup int vmap
| ESecretChat int vmap
| ECommunity int vmap
| EScopeNotificationSettings string vmap
| EOwnedStarCount int int
| EOwnedGramCount int
| EStakeDiceState vmap
| EActiveEmojiReactions "string list"
| EDiceEmojis "string list"
| EDefaultReactionType vmap
| EAccentColors "qvariant list" "int list"

fun td_handle :: "(vmap \<Rightarrow> string) \<Rightarrow> td_event \<Rightarrow> td_state \<Rightarrow> td_state" where
  "td_handle text (EOption n v) s = td_handleOptionUpdated n v s"
| "td_handle text (EUser u) s = td_handleUserUpdated u s"
| "td_handle text (EUserStatus i st) s = td_handleUserStatusUpdated i st s"
| "td_handle text (EPrivacyRules r) s = td_handleUserPrivacySettingRules r s"
| "td_handle text (EPrivacyRulesUpdated r) s = td_handleUpdatedUserPrivacySettingRules r s"
| "td_handle text (ENewChat c) s = td_handleNewChatDiscovered c s"
| "td_handle text (EChatAddedToList l i) s = td_handleChatAddedToList l i s"
| "td_handle text (EChatRemovedFromList l i) s = td_handleChatRemovedFromList l i s"
| "td_handle text (EChatPosition i p) s = td_handleChatPositionUpdated i p s"
| "td_handle text (EUnreadMessageCount m) s = td_handleUnreadMessageCountUpdated m s"
| "td_handle text (EUnreadChatCount m) s = td_handleUnreadChatCountUpdated m s"
| "td_handle text (EChatLastMessage i m ps) s = td_handleChatLastMessageUpdated text i m ps s"
| "td_handle text (EChatDraftMessage i d ps) s = td_handleChatDraftMessageUpdated i d ps s"
| "td_handle text (EChatReadInbox i m n) s = td_handleChatReadInboxUpdated i m n s"
| "td_handle text (EChatReadOutbox i m) s = td_handleChatReadOutboxUpdated i m s"
| "td_handle text (EChatTitle i t) s = td_handleChatTitleUpdated i t s"
| "td_handle text (EChatPhoto i p) s = td_handleChatPhotoUpdated i p s"
| "td_handle text (EChatNotificationSettings i n) s = td_handleChatNotificationSettingsUpdated i n s"
| "td_handle text (EChatIsMarkedAsUnread i b) s = td_handleChatIsMarkedAsUnreadUpdated i b s"
| "td_handle text (EChatUnreadMentionCount i n) s = td_handleChatUnreadMentionCountUpdated i n s"
| "td_handle text (EChatUnreadReactionCount i n) s = td_handleChatUnreadReactionCountUpdated i n s"
| "td_handle text (EChatAvailableReactions i r) s =
     td_handleChatAvailableReactionsUpdated i r (td_handleChatAvailableReactionsUpdated i r s)"
| "td_handle text (EChatUnreadPollVoteCount i n) s = td_handleChatUnreadPollVoteCountUpdated i n s"
| "td_handle text (EChatPendingJoinRequests i r) s = td_handleChatPendingJoinRequestsUpdated i r s"
| "td_handle text (EChatViewAsTopics i b) s = td_handleChatViewAsTopicsUpdated i b s"
| "td_handle text (EChatPermissions i p) s = td_handleChatPermissionsUpdated i p s"
| "td_handle text (EChatAccentColors i a b g pa pb) s = td_handleChatAccentColorsUpdated i a b g pa pb s"
| "td_handle text (EChatAction i t sender a) s = td_handleChatActionUpdated i t sender a s"
| "td_handle text (EBasicGroup i g) s = td_handleBasicGroupUpdated i g s"
| "td_handle text (ESupergroup i g) s = td_handleSupergroupUpdated i g s"
| "td_handle text (ESecretChat i c) s = td_handleSecretChatUpdated i c s"
| "td_handle text (ECommunity i c) s = td_handleCommunityUpdated i c s"
| "td_handle text (EScopeNotificationSettings t n) s = td_handleScopeNotificationSettingsUpdated t n s"
| "td_handle text (EOwnedStarCount n m) s = td_handleOwnedStarCountUpdated n m s"
| "td_handle text (EOwnedGramCount n) s = td_handleOwnedGramCountUpdated n s"
| "td_handle text (EStakeDiceState d) s = td_handleStakeDiceStateUpdated d s"
| "td_handle text (EActiveEmojiReactions es) s = td_handleActiveEmojiReactionsUpdated es s"
| "td_handle text (EDiceEmojis es) s = td_handleDiceEmojisUpdated es s"
| "td_handle text (EDefaultReactionType r) s = td_handleDefaultReactionTypeUpdated r s"
| "td_handle text (EAccentColors cs ids) s = td_handleAccentColorsUpdated cs ids s"

section \<open>A chat knows the state of its group\<close>

definition group_applied :: "td_group \<Rightarrow> chat_data \<Rightarrow> bool" where
  "group_applied g c \<longleftrightarrow> memberStatus c = group_memberStatus g \<and>
     verificationStatus c = toMap (mvalue (groupInfo g) ''verification_status'')"

definition chat_group :: "td_state \<Rightarrow> chat_data \<Rightarrow> td_group option" where
  "chat_group s c = td_getGroup (cd_groupId c) (chatType c = ChatTypeSupergroup) s"

definition groups_keyed :: "(int \<rightharpoonup> td_group) \<Rightarrow> bool" where
  "groups_keyed m \<longleftrightarrow> (\<forall>k g. m k = Some g \<longrightarrow> gr_groupId g = k)"

definition td_ok :: "td_state \<Rightarrow> bool" where
  "td_ok s \<longleftrightarrow> groups_keyed (td_basicGroups s) \<and> groups_keyed (td_superGroups s) \<and>
     distinct (map fst (td_chats s)) \<and>
     (\<forall>(k, c) \<in> set (td_chats s). cd_chatId c = k \<and> (\<forall>g. chat_group s c = Some g \<longrightarrow> group_applied g c))"

definition same_group :: "chat_data \<Rightarrow> chat_data \<Rightarrow> bool" where
  "same_group c c' \<longleftrightarrow> cd_chatId c' = cd_chatId c \<and> cd_groupId c' = cd_groupId c \<and> chatType c' = chatType c \<and>
     memberStatus c' = memberStatus c \<and> verificationStatus c' = verificationStatus c"

lemma td_ok_cong:
  "td_chats s = td_chats t \<Longrightarrow> td_basicGroups s = td_basicGroups t \<Longrightarrow> td_superGroups s = td_superGroups t \<Longrightarrow>
     td_ok s \<longleftrightarrow> td_ok t"
  by (simp add: td_ok_def chat_group_def td_getGroup_def)

lemma td_frame:
  "td_chats t = td_chats s \<Longrightarrow> td_basicGroups t = td_basicGroups s \<Longrightarrow> td_superGroups t = td_superGroups s \<Longrightarrow>
     td_ok s \<Longrightarrow> td_ok t"
  using td_ok_cong by metis

lemma td_emit_fields [simp]:
  "td_chats (td_emit out s) = td_chats s" "td_basicGroups (td_emit out s) = td_basicGroups s"
  "td_superGroups (td_emit out s) = td_superGroups s" "td_users (td_emit out s) = td_users s"
  "td_outputs (td_emit out s) = td_outputs s @ [out]" "td_chat (td_emit out s) = td_chat s"
  by (simp_all add: td_emit_def td_chat_def)

lemma td_ok_emit [simp]: "td_ok (td_emit out s) \<longleftrightarrow> td_ok s"
  by (rule td_ok_cong) simp_all

lemma td_setChat_fields [simp]:
  "td_basicGroups (td_setChat k c s) = td_basicGroups s" "td_superGroups (td_setChat k c s) = td_superGroups s"
  "td_outputs (td_setChat k c s) = td_outputs s" "td_users (td_setChat k c s) = td_users s"
  "td_chats (td_setChat k c s) = AList.update k c (td_chats s)"
  by (simp_all add: td_setChat_def)

lemma td_chat_setChat [simp]: "td_chat (td_setChat k c s) = (td_chat s)(k \<mapsto> c)"
  by (simp add: td_chat_def update_conv')

lemma set_update_distinct:
  "distinct (map fst xs) \<Longrightarrow> set (AList.update k v xs) = insert (k, v) {x \<in> set xs. fst x \<noteq> k}"
  by (induction xs) (auto simp: image_iff)

lemma td_ok_setChat:
  assumes ok: "td_ok s" and c: "cd_chatId c = k" "\<And>g. chat_group s c = Some g \<Longrightarrow> group_applied g c"
  shows "td_ok (td_setChat k c s)"
proof -
  have "chat_group (td_setChat k c s) = chat_group s" by (simp add: chat_group_def td_getGroup_def fun_eq_iff)
  with assms show ?thesis by (auto simp: td_ok_def set_update_distinct distinct_update)
qed

lemma td_ok_chat:
  "td_ok s \<Longrightarrow> td_chat s k = Some c \<Longrightarrow> cd_chatId c = k \<and> (\<forall>g. chat_group s c = Some g \<longrightarrow> group_applied g c)"
  unfolding td_ok_def td_chat_def by (auto dest!: map_of_SomeD)

lemma td_ok_setSame:
  assumes "td_ok s" "td_chat s k = Some c" "same_group c c'"
  shows "td_ok (td_setChat k c' s)"
  using assms td_ok_chat [OF assms(1,2)]
  by (intro td_ok_setChat) (auto simp: same_group_def chat_group_def group_applied_def)

lemma same_group_put [simp]: "same_group c (cd_put k v c)"
  by (simp add: same_group_def cd_put_def)

lemma same_group_trans: "same_group a b \<Longrightarrow> same_group b c \<Longrightarrow> same_group a c"
  by (simp add: same_group_def)

lemma same_group_updates:
  "same_group c (snd (updateLastMessage text m c))" "same_group c (snd (updateUnreadCount n c))"
  "same_group c (snd (updateLastReadInboxMessageId i c))" "same_group c (snd (updateLastReadOutboxMessageId i c))"
  "same_group c (snd (updateUserStatus st c))" "same_group c (snd (updateAccentColors a b g pa pb c))"
  by (auto simp: updateLastMessage_def updateUnreadCount_def updateLastReadInboxMessageId_def
      updateLastReadOutboxMessageId_def updateUserStatus_def updateAccentColors_def Let_def same_group_def cd_put_def
      split: prod.split)

text \<open>The dispatch to the lists only sends signals.\<close>

lemma td_addToList_fields [simp]:
  "td_chats (td_addToList i ps l s) = td_chats s" "td_basicGroups (td_addToList i ps l s) = td_basicGroups s"
  "td_superGroups (td_addToList i ps l s) = td_superGroups s"
  by (simp_all add: td_addToList_def Let_def split: option.split)

lemma td_ok_addToList [simp]: "td_ok (td_addToList i ps l s) \<longleftrightarrow> td_ok s"
  by (rule td_ok_cong) simp_all

lemma td_ok_position [simp]: "td_ok (td_handleChatPositionUpdated i p s) \<longleftrightarrow> td_ok s"
  by (simp add: td_handleChatPositionUpdated_def Let_def split: option.split)

lemma td_ok_positions [simp]: "td_ok (td_updateChatPositions i ps s) \<longleftrightarrow> td_ok s"
  unfolding td_updateChatPositions_def by (induction ps arbitrary: s) auto

lemma td_ok_withChat:
  "td_ok s \<Longrightarrow> (\<And>c. td_chat s k = Some c \<Longrightarrow> td_ok (f c s)) \<Longrightarrow> td_ok (td_withChat k f s)"
  by (simp add: td_withChat_def split: option.split)

lemma td_ok_putChat: "td_ok s \<Longrightarrow> td_chat s k = Some c \<Longrightarrow> td_ok (td_putChat n v roles k c s)"
  by (simp add: td_putChat_def td_ok_setSame)

subsection \<open>New chats and groups\<close>

lemma newChatData_fields:
  assumes "\<And>i super g. groupOf i super = Some g \<Longrightarrow> gr_groupId g = i"
  shows "cd_chatId (newChatData st groupOf d) = toLongLong (mvalue d ''id'')"
    and "cd_groupId (newChatData st groupOf d) \<noteq> 0 \<Longrightarrow>
           groupOf (cd_groupId (newChatData st groupOf d)) (chatType (newChatData st groupOf d) = ChatTypeSupergroup) = Some g \<Longrightarrow>
           group_applied g (newChatData st groupOf d)"
  using assms
  by (auto simp: newChatData_def updateChatData_def Let_def updateUserStatus_def cd_updateGroup_def group_applied_def
      split: option.splits if_splits)

lemma td_getGroup_keyed: "td_ok s \<Longrightarrow> td_getGroup i super s = Some g \<Longrightarrow> gr_groupId g = i"
  by (auto simp: td_ok_def groups_keyed_def td_getGroup_def split: if_splits)

lemma td_ok_newChat:
  assumes ok: "td_ok s"
  shows "td_ok (td_handleNewChatDiscovered info s)"
proof -
  let ?c = "newChatData (toMap (mvalue (td_getUserInformation (toLongLong (mvalue info ''id'')) s) ''status''))
              (\<lambda>g super. td_getGroup g super s) info"
  note new = newChatData_fields [where groupOf = "\<lambda>g super. td_getGroup g super s", OF td_getGroup_keyed [OF ok]]
  have known: "group_applied g ?c" if "chat_group s ?c = Some g" for g
  proof (rule new(2))
    show "cd_groupId ?c \<noteq> 0" using that by (auto simp: chat_group_def td_getGroup_def split: if_splits)
    show "td_getGroup (cd_groupId ?c) (chatType ?c = ChatTypeSupergroup) s = Some g" using that by (simp add: chat_group_def)
  qed
  have "td_ok (td_setChat (toLongLong (mvalue info ''id'')) ?c s)"
    by (rule td_ok_setChat [OF ok]) (simp_all add: new(1) known)
  moreover have "td_ok (fold (\<lambda>l. td_addToList i ps (toMap l)) ls t) \<longleftrightarrow> td_ok t" for i ps ls t
    by (induction ls arbitrary: t) auto
  ultimately show ?thesis by (simp add: td_handleNewChatDiscovered_def Let_def)
qed

definition group_told :: "td_group \<Rightarrow> chat_data \<Rightarrow> chat_data" where
  "group_told g c = snd (cd_updateGroup (Some g) c)"

lemma td_updateGroup_loop_chats: "fst (td_updateGroup_loop g cs) = map (\<lambda>(k, c). (k, group_told g c)) cs"
  by (induction g cs rule: td_updateGroup_loop.induct) (auto simp: group_told_def Let_def split: prod.split)

lemma group_told_fields [simp]:
  "cd_chatId (group_told g c) = cd_chatId c" "cd_groupId (group_told g c) = cd_groupId c"
  "chatType (group_told g c) = chatType c"
  by (simp_all add: group_told_def cd_updateGroup_def Let_def)

lemma group_told_applied: "cd_groupId c = gr_groupId g \<Longrightarrow> group_applied g (group_told g c)"
  by (simp add: group_told_def cd_updateGroup_def group_applied_def Let_def)

lemma group_told_other: "cd_groupId c \<noteq> gr_groupId g \<Longrightarrow> group_told g c = c"
  by (simp add: group_told_def cd_updateGroup_def)

lemma td_updateGroup_fields [simp]:
  "td_chats (td_updateGroup g s) = map (\<lambda>(k, c). (k, group_told g c)) (td_chats s)"
  "td_basicGroups (td_updateGroup g s) = td_basicGroups s" "td_superGroups (td_updateGroup g s) = td_superGroups s"
  by (simp_all add: td_updateGroup_def td_updateGroup_loop_chats [symmetric] split: prod.split)

text \<open>
  A group that is told to the chats after it was stored: the chats of this id take its state,
  and no group of the other kind has the id.
\<close>

lemma td_ok_group_told:
  assumes ok: "td_ok s" and chats: "td_chats t = map (\<lambda>(k, c). (k, group_told g c)) (td_chats s)"
    and keyed: "groups_keyed (td_basicGroups t)" "groups_keyed (td_superGroups t)"
    and other: "\<And>i super. i \<noteq> gr_groupId g \<Longrightarrow> td_getGroup i super t = td_getGroup i super s"
    and mine: "\<And>super g'. td_getGroup (gr_groupId g) super t = Some g' \<Longrightarrow> g' = g"
  shows "td_ok t"
proof -
  have "group_applied g' (group_told g c)"
    if c: "(k, c) \<in> set (td_chats s)" and g': "chat_group t (group_told g c) = Some g'" for k c g'
  proof (cases "cd_groupId c = gr_groupId g")
    case True
    with g' mine have "g' = g" by (simp add: chat_group_def)
    with True show ?thesis by (simp add: group_told_applied)
  next
    case False
    with g' other have "chat_group s c = Some g'" by (simp add: chat_group_def)
    with ok c False show ?thesis by (auto simp: td_ok_def group_told_other)
  qed
  moreover have "distinct (map fst (td_chats t))"
    using ok by (simp add: td_ok_def chats case_prod_beta comp_def)
  moreover have "cd_chatId c = k" if "(k, c) \<in> set (td_chats s)" for k c using ok that by (auto simp: td_ok_def)
  ultimately show ?thesis using keyed unfolding td_ok_def by (auto simp: chats simp del: map_map)
qed

lemma td_newGroup_id: "groups_keyed m \<Longrightarrow> gr_groupId (td_newGroup i info m) = i"
  by (auto simp: td_newGroup_def groups_keyed_def split: option.split)

lemma td_ok_basicGroup:
  assumes ok: "td_ok s" and kind: "td_superGroups s i = None"
  shows "td_ok (td_handleBasicGroupUpdated i info s)"
proof -
  have keyed: "groups_keyed (td_basicGroups s)" "groups_keyed (td_superGroups s)" using ok by (auto simp: td_ok_def)
  note ident = td_newGroup_id [OF keyed(1), of i info]
  have "td_ok (td_updateGroup (td_newGroup i info (td_basicGroups s))
            (s\<lparr>td_basicGroups := (td_basicGroups s)(i \<mapsto> td_newGroup i info (td_basicGroups s))\<rparr>))"
    by (rule td_ok_group_told [OF ok]) (use keyed kind ident in \<open>auto simp: groups_keyed_def td_getGroup_def split: if_splits\<close>)
  then show ?thesis by (simp add: td_handleBasicGroupUpdated_def Let_def)
qed

lemma td_ok_supergroup:
  assumes ok: "td_ok s" and kind: "td_basicGroups s i = None"
  shows "td_ok (td_handleSupergroupUpdated i info s)"
proof -
  have keyed: "groups_keyed (td_basicGroups s)" "groups_keyed (td_superGroups s)" using ok by (auto simp: td_ok_def)
  note ident = td_newGroup_id [OF keyed(2), of i info]
  have "td_ok (td_updateGroup (td_newGroup i info (td_superGroups s))
            (s\<lparr>td_superGroups := (td_superGroups s)(i \<mapsto> td_newGroup i info (td_superGroups s))\<rparr>))"
    by (rule td_ok_group_told [OF ok]) (use keyed kind ident in \<open>auto simp: groups_keyed_def td_getGroup_def split: if_splits\<close>)
  then show ?thesis by (simp add: td_handleSupergroupUpdated_def Let_def)
qed

subsection \<open>Every update\<close>

text \<open>TDLib numbers basic groups and supergroups apart; the store needs their ids to differ.\<close>

fun kinds_apart :: "td_event \<Rightarrow> td_state \<Rightarrow> bool" where
  "kinds_apart (EBasicGroup i g) s \<longleftrightarrow> td_superGroups s i = None"
| "kinds_apart (ESupergroup i g) s \<longleftrightarrow> td_basicGroups s i = None"
| "kinds_apart _ s \<longleftrightarrow> True"

lemma td_ok_status: "td_ok s \<Longrightarrow> td_ok (td_handleUserStatusUpdated i st s)"
proof -
  assume ok: "td_ok s"
  let ?s = "if i = td_myId s
    then td_emit MyUserUpdated (s\<lparr>td_userInformation := minsert ''status'' (QMap st) (td_userInformation s)\<rparr>) else s"
  let ?t = "td_updateUserInformation i (minsert ''status'' (QMap st) (the_map (td_users ?s i))) ?s"
  have s: "td_ok ?s" using ok td_ok_cong [of "s\<lparr>td_userInformation := u\<rparr>" s for u] by auto
  have t: "td_ok ?t" using s td_ok_cong [of "?s\<lparr>td_users := u\<rparr>" ?s for u] by (auto simp: td_updateUserInformation_def)
  have "td_ok (td_setChat i (snd (updateUserStatus st c)) ?t)" if "td_chat ?t i = Some c" for c
    using t that by (rule td_ok_setSame) (rule same_group_updates)
  with s t show ?thesis
    unfolding td_handleUserStatusUpdated_def Let_def
    by (auto split: option.split prod.split)
qed

lemma td_ok_chat_updates:
  assumes ok: "td_ok s"
  shows "td_ok (td_handleChatLastMessageUpdated text i m ps s)" "td_ok (td_handleChatDraftMessageUpdated i d ps s)"
    "td_ok (td_handleChatReadInboxUpdated i r n s)" "td_ok (td_handleChatReadOutboxUpdated i r s)"
    "td_ok (td_handleChatTitleUpdated i t s)" "td_ok (td_handleChatPhotoUpdated i p s)"
    "td_ok (td_handleChatUnreadMentionCountUpdated i n s)" "td_ok (td_handleChatUnreadReactionCountUpdated i n s)"
    "td_ok (td_handleChatUnreadPollVoteCountUpdated i n s)" "td_ok (td_handleChatPendingJoinRequestsUpdated i p s)"
    "td_ok (td_handleChatAccentColorsUpdated i a b p pa pb s)" "td_ok (td_handleChatActionUpdated i d p q s)"
    "td_ok (td_handleChatNotificationSettingsUpdated i p s)" "td_ok (td_handleChatIsMarkedAsUnreadUpdated i bo s)"
    "td_ok (td_handleChatPermissionsUpdated i p s)" "td_ok (td_handleChatAvailableReactionsUpdated i p s)"
    "td_ok (td_handleChatViewAsTopicsUpdated i bo s)"
proof -
  note w = td_ok_withChat [OF ok]
  note same = td_ok_setSame [OF ok] and put = td_ok_putChat [OF ok] and ups = same_group_updates
  have inbox: "same_group c (snd (updateLastReadInboxMessageId r (snd (updateUnreadCount n c))))" for c
    using same_group_trans [OF ups(2) ups(3)] .
  have actions: "same_group c (c\<lparr>chatActions := as\<rparr>)" for c as by (simp add: same_group_def)
  show "td_ok (td_handleChatLastMessageUpdated text i m ps s)" unfolding td_handleChatLastMessageUpdated_def
    by (rule w) (simp add: case_prod_beta same ups)
  show "td_ok (td_handleChatDraftMessageUpdated i d ps s)" unfolding td_handleChatDraftMessageUpdated_def
    by (rule w) (simp add: same)
  show "td_ok (td_handleChatReadInboxUpdated i r n s)" unfolding td_handleChatReadInboxUpdated_def
    by (rule w) (simp add: case_prod_beta Let_def same inbox)
  show "td_ok (td_handleChatReadOutboxUpdated i r s)" unfolding td_handleChatReadOutboxUpdated_def
    by (rule w) (simp add: case_prod_beta Let_def same ups)
  show "td_ok (td_handleChatAccentColorsUpdated i a b p pa pb s)" unfolding td_handleChatAccentColorsUpdated_def
    by (rule w) (simp add: case_prod_beta Let_def same ups)
  show "td_ok (td_handleChatActionUpdated i d p q s)" unfolding td_handleChatActionUpdated_def
    by (rule w) (simp add: Let_def same actions ok)
  show "td_ok (td_handleChatPendingJoinRequestsUpdated i p s)" unfolding td_handleChatPendingJoinRequestsUpdated_def
    by (rule w) (simp add: same)
  show "td_ok (td_handleChatTitleUpdated i t s)" "td_ok (td_handleChatPhotoUpdated i p s)"
    unfolding td_handleChatTitleUpdated_def td_handleChatPhotoUpdated_def by (rule w, simp add: put)+
  show "td_ok (td_handleChatUnreadMentionCountUpdated i n s)" "td_ok (td_handleChatUnreadReactionCountUpdated i n s)"
    "td_ok (td_handleChatUnreadPollVoteCountUpdated i n s)"
    unfolding td_handleChatUnreadMentionCountUpdated_def td_handleChatUnreadReactionCountUpdated_def
      td_handleChatUnreadPollVoteCountUpdated_def by (rule w, simp add: put ok)+
  show "td_ok (td_handleChatNotificationSettingsUpdated i p s)" "td_ok (td_handleChatIsMarkedAsUnreadUpdated i bo s)"
    "td_ok (td_handleChatPermissionsUpdated i p s)" "td_ok (td_handleChatAvailableReactionsUpdated i p s)"
    "td_ok (td_handleChatViewAsTopicsUpdated i bo s)"
    unfolding td_handleChatNotificationSettingsUpdated_def td_handleChatIsMarkedAsUnreadUpdated_def
      td_handleChatPermissionsUpdated_def td_handleChatAvailableReactionsUpdated_def td_handleChatViewAsTopicsUpdated_def
    by (rule w, simp add: put)+
qed

text \<open>The handlers that touch neither chats nor groups.\<close>

lemma td_ok_others:
  assumes ok: "td_ok s"
  shows "td_ok (td_handleOptionUpdated n v s)" "td_ok (td_handleUserUpdated u s)"
    "td_ok (td_handleUserPrivacySettingRules r s)" "td_ok (td_handleUpdatedUserPrivacySettingRules r s)"
    "td_ok (td_handleChatAddedToList l i s)" "td_ok (td_handleChatRemovedFromList l i s)"
    "td_ok (td_handleUnreadMessageCountUpdated m s)" "td_ok (td_handleUnreadChatCountUpdated m s)"
    "td_ok (td_handleSecretChatUpdated i c s)" "td_ok (td_handleCommunityUpdated i c s)"
    "td_ok (td_handleScopeNotificationSettingsUpdated t p s)" "td_ok (td_handleOwnedStarCountUpdated i j s)"
    "td_ok (td_handleOwnedGramCountUpdated i s)" "td_ok (td_handleStakeDiceStateUpdated p s)"
    "td_ok (td_handleActiveEmojiReactionsUpdated es s)" "td_ok (td_handleDiceEmojisUpdated es s)"
    "td_ok (td_handleDefaultReactionTypeUpdated p s)" "td_ok (td_handleAccentColorsUpdated cs ids s)"
proof -
  note frame = td_frame [OF _ _ _ ok]
  show "td_ok (td_handleOptionUpdated n v s)"
    by (rule frame) (simp_all add: td_handleOptionUpdated_def Let_def split: option.split)
  show "td_ok (td_handleUserUpdated u s)"
    by (rule frame) (simp_all add: td_handleUserUpdated_def td_updateUserInformation_def Let_def split: option.split)
  show "td_ok (td_handleUserPrivacySettingRules r s)"
    by (rule frame) (simp_all add: td_handleUserPrivacySettingRules_def Let_def split: option.split)
  show "td_ok (td_handleUpdatedUserPrivacySettingRules r s)"
    by (rule frame) (simp_all add: td_handleUpdatedUserPrivacySettingRules_def td_handleUserPrivacySettingRules_def Let_def split: option.split)
  show "td_ok (td_handleChatAddedToList l i s)"
    by (rule frame) (simp_all add: td_handleChatAddedToList_def Let_def split: option.split)
  show "td_ok (td_handleChatRemovedFromList l i s)"
    by (rule frame) (simp_all add: td_handleChatRemovedFromList_def Let_def split: option.split)
  show "td_ok (td_handleUnreadMessageCountUpdated m s)"
    by (rule frame) (simp_all add: td_handleUnreadMessageCountUpdated_def Let_def split: option.split)
  show "td_ok (td_handleUnreadChatCountUpdated m s)"
    by (rule frame) (simp_all add: td_handleUnreadChatCountUpdated_def Let_def split: option.split)
  show "td_ok (td_handleSecretChatUpdated i c s)"
    by (rule frame) (simp_all add: td_handleSecretChatUpdated_def Let_def split: option.split)
  show "td_ok (td_handleCommunityUpdated i c s)"
    by (rule frame) (simp_all add: td_handleCommunityUpdated_def Let_def split: option.split)
  show "td_ok (td_handleScopeNotificationSettingsUpdated t p s)"
    by (rule frame) (simp_all add: td_handleScopeNotificationSettingsUpdated_def Let_def split: option.split)
  show "td_ok (td_handleOwnedStarCountUpdated i j s)"
    by (rule frame) (simp_all add: td_handleOwnedStarCountUpdated_def Let_def split: option.split)
  show "td_ok (td_handleOwnedGramCountUpdated i s)"
    by (rule frame) (simp_all add: td_handleOwnedGramCountUpdated_def Let_def split: option.split)
  show "td_ok (td_handleStakeDiceStateUpdated p s)"
    by (rule frame) (simp_all add: td_handleStakeDiceStateUpdated_def Let_def split: option.split)
  show "td_ok (td_handleActiveEmojiReactionsUpdated es s)"
    by (rule frame) (simp_all add: td_handleActiveEmojiReactionsUpdated_def Let_def split: option.split)
  show "td_ok (td_handleDiceEmojisUpdated es s)"
    by (rule frame) (simp_all add: td_handleDiceEmojisUpdated_def Let_def split: option.split)
  show "td_ok (td_handleDefaultReactionTypeUpdated p s)"
    by (rule frame) (simp_all add: td_handleDefaultReactionTypeUpdated_def Let_def split: option.split)
  show "td_ok (td_handleAccentColorsUpdated cs ids s)"
    by (rule frame) (simp_all add: td_handleAccentColorsUpdated_def Let_def split: option.split)
qed

lemma td_ok_handle: "td_ok s \<Longrightarrow> kinds_apart e s \<Longrightarrow> td_ok (td_handle text e s)"
  by (cases e)
     (simp_all add: td_ok_newChat td_ok_basicGroup td_ok_supergroup td_ok_status td_ok_chat_updates td_ok_others)

text \<open>A run of updates from the empty store.\<close>

definition td_new :: "int \<Rightarrow> int \<Rightarrow> int \<Rightarrow> td_state" where
  "td_new stars nanostars grams = \<lparr>td_options = Map.empty, td_myId = 0, td_userInformation = fmempty,
     td_privacyRules = Map.empty, td_users = Map.empty, td_chats = [], td_secretChats = Map.empty,
     td_basicGroups = Map.empty, td_superGroups = Map.empty, td_communities = Map.empty,
     td_activeEmojiReactions = [], td_diceEmojis = [], td_scopes = Map.empty, td_defaultReactionType = fmempty,
     td_accentColors = Map.empty, td_availableAccentColorIds = [], td_ownedStars = stars,
     td_ownedNanostars = nanostars, td_ownedGrams = grams, td_stakeDiceState = fmempty, td_outputs = []\<rparr>"

inductive td_reaches :: "(vmap \<Rightarrow> string) \<Rightarrow> td_state \<Rightarrow> bool" for messageText where
  start: "td_reaches messageText (td_new stars nanostars grams)"
| handled: "td_reaches messageText s \<Longrightarrow> kinds_apart e s \<Longrightarrow> td_reaches messageText (td_handle messageText e s)"
| resetted: "td_reaches messageText s \<Longrightarrow> td_reaches messageText (td_reset s)"

lemma td_reaches_ok: "td_reaches messageText s \<Longrightarrow> td_ok s"
proof (induction rule: td_reaches.induct)
  case (start stars nanostars grams)
  then show ?case by (simp add: td_ok_def td_new_def groups_keyed_def)
next
  case (resetted s)
  then show ?case by (simp add: td_ok_def td_reset_def groups_keyed_def)
qed (rule td_ok_handle)

end
