(* ===== verification/ChatProperties.thy ===== *)
theory ChatProperties imports ChatList ForumTopics TdData
begin

text \<open>
  What the lists of chats and of topics promise, and what the store of chats does. The
  properties of the lists rest on \<open>ordered_rows\<close> and \<open>row_index\<close> through the interpretations
  in the theories of the models.
\<close>

section \<open>The list of chats\<close>

text \<open>C3: Whatever updates have arrived, the chat list holds exactly the chats TDLib has put into it,
each with the order and the pin of its last update, sorted by order and then by id; the hash finds
every chat at its row; and a view that follows the signals from the empty list shows the same rows.\<close>

theorem chat_list_refines:
  assumes "cl_reaches archive s m"
  shows "cl_abs s = m \<and> sorted (map cl_rank (cl_chats s)) \<and> index_ok lc_chatId (cl_chats s) (cl_index s) \<and>
         fold cl_view (cl_outputs s) [] = cl_shown s"
  using cl_reaches_becomes [OF assms] cl_new_shown [of archive s] by (simp add: cl_becomes_def cl_inv_def)

lemma sample_chat_run:
  "cl_reaches False (cl_handleChatAddedToList 8 20 False (cl_handleChatAddedToList 7 30 True (cl_new False)))
     (Map.empty(7 \<mapsto> (30, True), 8 \<mapsto> (20, False)))"
  by (intro cl_reaches.added cl_reaches.start) simp_all

theorem chat_list_refines_witness:
  "let s = cl_handleChatAddedToList 8 20 False (cl_handleChatAddedToList 7 30 True (cl_new False))
   in cl_abs s = Map.empty(7 \<mapsto> (30, True), 8 \<mapsto> (20, False)) \<and> fold cl_view (cl_outputs s) [] = [(7, True), (8, False)]"
proof -
  have "cl_shown (cl_handleChatAddedToList 8 20 False (cl_handleChatAddedToList 7 30 True (cl_new False))) = [(7, True), (8, False)]"
    by (simp add: cl_handleChatAddedToList_def cl_new_def cl_compareTo_def insert_at_def cl_shown_def cl_emitRows_def
        cl_emit_def cl_tryEnableRefreshTimer_def Let_def)
  then show ?thesis using chat_list_refines [OF sample_chat_run] by (simp add: Let_def)
qed

text \<open>The order of the chat list does not depend on the order in which the updates arrived: two
runs after which TDLib's positions are the same end with the same list.\<close>

theorem chat_list_unique:
  assumes "cl_reaches archive s m" and "cl_reaches archive' t m"
  shows "cl_chats s = cl_chats t"
  using cl_reaches_becomes [OF assms(1)] cl_reaches_becomes [OF assms(2)] cl_unique [of s t] by (simp add: cl_becomes_def)

theorem chat_list_unique_witness:
  "cl_chats (cl_handleChatAddedToList 8 20 False (cl_handleChatAddedToList 7 30 True (cl_new False))) =
   cl_chats (cl_handleChatAddedToList 7 30 True (cl_handleChatAddedToList 8 20 False (cl_new True)))"
proof (rule chat_list_unique [OF sample_chat_run])
  have "cl_reaches True (cl_handleChatAddedToList 7 30 True (cl_handleChatAddedToList 8 20 False (cl_new True)))
     (Map.empty(8 \<mapsto> (20, False), 7 \<mapsto> (30, True)))"
    by (intro cl_reaches.added cl_reaches.start) simp_all
  then show "cl_reaches True (cl_handleChatAddedToList 7 30 True (cl_handleChatAddedToList 8 20 False (cl_new True)))
     (Map.empty(7 \<mapsto> (30, True), 8 \<mapsto> (20, False)))"
    by (simp add: fun_upd_twist)
qed

text \<open>C9: A new position never fails on a list in order. It moves the chat to its place in one pass,
takes over order and pin, leaves the other chats alone, repairs the hash, and announces the move and
the pin so that the views follow; a chat that is not in the list changes nothing.\<close>

theorem chat_repositioned:
  assumes "cl_inv s"
  shows "\<exists>s'. cl_handleChatPositionUpdated chatId order pinned s = Some s' \<and> cl_inv s' \<and> cl_sync s s' \<and>
           cl_abs s' = (if cl_abs s chatId = None then cl_abs s else (cl_abs s)(chatId \<mapsto> (order, pinned)))"
  using cl_positioned [OF assms, of chatId order pinned] by (auto simp: cl_becomes_def)

theorem chat_repositioned_witness:
  "\<exists>s'. cl_handleChatPositionUpdated 8 40 True
          (cl_handleChatAddedToList 8 20 False (cl_handleChatAddedToList 7 30 True (cl_new False))) = Some s' \<and>
        cl_abs s' 8 = Some (40, True)"
proof -
  have b: "cl_becomes (Map.empty(7 \<mapsto> (30, True), 8 \<mapsto> (20, False))) (cl_new False)
     (cl_handleChatAddedToList 8 20 False (cl_handleChatAddedToList 7 30 True (cl_new False)))"
    by (rule cl_reaches_becomes [OF sample_chat_run])
  then have "cl_inv (cl_handleChatAddedToList 8 20 False (cl_handleChatAddedToList 7 30 True (cl_new False)))"
    by (simp add: cl_becomes_def)
  from chat_repositioned [OF this, of 8 40 True] b show ?thesis by (auto simp: cl_becomes_def)
qed

text \<open>In online-only mode the unread state is counted from the chats: the chats that are unread or
marked so and the sum of their unread messages, once for all and once for those not muted. Each of
the two signals is sent exactly when one of its numbers changes; in the other mode nothing happens.\<close>

theorem unread_state_counted:
  "let ds = filter cl_unread (map (\<lambda>c. chats (lc_chatId c)) (cl_chats s));
       loud = filter (\<lambda>d. \<not> muted (cd_chatId d) (notificationSettings d)) ds;
       t = cl_calculateUnreadState True chats muted s
   in cl_unreadChats t = int (length ds) \<and> cl_unreadUnmutedChats t = int (length loud) \<and>
      cl_unreadMessages t = (\<Sum>d\<leftarrow>ds. unreadCount d) \<and> cl_unreadUnmutedMessages t = (\<Sum>d\<leftarrow>loud. unreadCount d) \<and>
      cl_outputs t = cl_outputs s @
        (if (cl_unreadChats t, cl_unreadUnmutedChats t) \<noteq> (cl_unreadChats s, cl_unreadUnmutedChats s)
         then [ClUnreadChatCountChanged] else []) @
        (if (cl_unreadMessages t, cl_unreadUnmutedMessages t) \<noteq> (cl_unreadMessages s, cl_unreadUnmutedMessages s)
         then [ClUnreadMessageCountChanged] else []) \<and>
      cl_calculateUnreadState False chats muted s = s"
  by (simp add: cl_calculateUnreadState_def cl_unreadState_sums Let_def cl_emit_def)

section \<open>Topics of a forum\<close>

text \<open>Every update of a topic keeps its id and reports, whenever it changes what the place of the topic
in the list depends on (the pin, the date of the draft or the last message, the last message), one of
the roles on which the list is reordered.\<close>

theorem topic_updates_report_order:
  "ft_reports (ft_updateFromForumTopicUpdate update) \<and> ft_reports (ft_updateForumTopicInfo info) \<and>
   ft_reports (ft_updateLastMessage messageText message) \<and> ft_reports (ft_updateLastMessageContent messageText content) \<and>
   ft_reports (ft_updateForumTopicData messageText topic)"
  by (simp add: ft_updates_report)

text \<open>C26: The updates TDLib sends for topics never fail on a list in order: the list stays ordered and its
hash right, the views follow, and no topic is lost, doubled or renamed.\<close>

theorem topic_updates_keep_order:
  assumes "fm_inv s"
  shows "\<exists>s1 s2 s3.
     fm_handleForumTopicUpdated chatId topicId update s = Some s1 \<and>
     fm_handleForumTopicInfoUpdated chatId topicId info s = Some s2 \<and>
     fm_handleNewMessageReceived messageText chatId message s = Some s3 \<and>
     (\<forall>t \<in> {s1, s2, s3}. fm_inv t \<and> fm_sync s t \<and> mset (fm_ids t) = mset (fm_ids s))"
proof -
  have same: "fm_inv s \<and> fm_sync s s \<and> mset (fm_ids s) = mset (fm_ids s)" using assms by (simp add: fm_sync_same)
  have at: "\<exists>t. fm_updateTopicAt f pass i s = Some t \<and> fm_inv t \<and> fm_sync s t \<and> mset (fm_ids t) = mset (fm_ids s)"
    if k: "fm_index s k = Some i" and f: "ft_reports f" for f pass i k
  proof -
    have i: "i < length (fm_topics s)" using ft_rows.found_row [OF assms k] by simp
    obtain t where t: "fm_updateTopicAt f pass i s = Some t" "fm_inv t" "fm_sync s t"
      and m: "mset (fm_topics t) = mset ((fm_topics s)[i := snd (f (fm_topics s ! i))])"
      using fm_updateTopicAt [OF assms i f, of pass] by auto
    have "map ft_id ((fm_topics s)[i := snd (f (fm_topics s ! i))]) = fm_ids s"
      unfolding fm_ids_def by (rule map_update_same) (use f in \<open>simp add: ft_reports_def\<close>)
    with m have "mset (fm_ids t) = mset (fm_ids s)" unfolding fm_ids_def by (metis mset_map)
    with t show ?thesis by blast
  qed
  have quiet: "fm_inv (fm_emit (FtGetForumTopic i k) s)" "fm_sync s (fm_emit (FtGetForumTopic i k) s)" for i k
    using assms by (auto simp: fm_inv_def intro: fm_sync_emit fm_sync_same)
  have "\<exists>t. fm_handleForumTopicUpdated chatId topicId update s = Some t \<and> fm_inv t \<and> fm_sync s t \<and> mset (fm_ids t) = mset (fm_ids s)"
    using same at ft_updates_report by (auto simp: fm_handleForumTopicUpdated_def split: option.split)
  moreover have "\<exists>t. fm_handleForumTopicInfoUpdated chatId topicId info s = Some t \<and> fm_inv t \<and> fm_sync s t \<and> mset (fm_ids t) = mset (fm_ids s)"
    using same at ft_updates_report by (auto simp: fm_handleForumTopicInfoUpdated_def split: option.split)
  moreover have "\<exists>t. fm_handleNewMessageReceived messageText chatId message s = Some t \<and> fm_inv t \<and> fm_sync s t \<and> mset (fm_ids t) = mset (fm_ids s)"
    using same at ft_updates_report quiet by (auto simp: fm_handleNewMessageReceived_def Let_def split: option.split)
  ultimately show ?thesis by auto
qed

definition sample_topic :: "int \<Rightarrow> int \<Rightarrow> vmap" where
  "sample_topic topicId messageId =
     minsert ''info'' (QMap (minsert ''forum_topic_id'' (QInt topicId) fmempty))
       (minsert ''last_message'' (QMap (minsert ''id'' (QInt messageId) fmempty)) fmempty)"

lemma sample_topic_fields [simp]:
  "ft_lastMessage (newForumTopic (sample_topic t m)) = minsert ''id'' (QInt m) fmempty"
  "ft_id (newForumTopic (sample_topic t m)) = int32 t"
  by (simp_all add: newForumTopic_def sample_topic_def ft_lastMessage_def)

definition sample_forum :: ft_state where
  "sample_forum = fm_insertNewTopic (sample_topic 5 70) (fm_new 1)"

lemma sample_forum_inv: "fm_inv sample_forum"
proof -
  have "fm_inv (fm_new 1)" by (simp add: fm_inv_def fm_new_def)
  moreover have "fm_index (fm_new 1) k = None" for k by (simp add: fm_new_def)
  ultimately show ?thesis unfolding sample_forum_def using fm_inserted by blast
qed

theorem topic_updates_keep_order_witness:
  "\<exists>s'. fm_handleForumTopicUpdated 1 5 (minsert ''is_pinned'' (QBool True) fmempty) sample_forum = Some s' \<and> fm_inv s'"
  using topic_updates_keep_order [OF sample_forum_inv, of 1 5 "minsert ''is_pinned'' (QBool True) fmempty" fmempty "\<lambda>_ _. []" fmempty]
  by blast

text \<open>A topic that is new to the list is put in at its place, and a topic TDLib no longer finds is
taken out: in both cases the list stays ordered, the hash right and the views in step.\<close>

theorem topic_comes_and_goes:
  assumes inv: "fm_inv s" and new: "fm_index s (ft_id (newForumTopic topic)) = None"
  shows "fm_inv (fm_insertNewTopic topic s) \<and> fm_sync s (fm_insertNewTopic topic s) \<and>
         mset (fm_topics (fm_insertNewTopic topic s)) = add_mset (newForumTopic topic) (mset (fm_topics s)) \<and>
         (\<exists>s'. fm_handleForumTopicNotFound (fm_chatId s) topicId s = Some s' \<and> fm_inv s' \<and> fm_sync s s' \<and>
               mset (fm_topics s') = {#t \<in># mset (fm_topics s). ft_id t \<noteq> topicId#})"
  using fm_inserted [OF inv new] fm_notFound [OF inv, of "fm_chatId s" topicId] by simp

theorem topic_comes_and_goes_witness:
  "fm_inv (fm_insertNewTopic (sample_topic 6 80) sample_forum) \<and>
   (\<exists>s'. fm_handleForumTopicNotFound (fm_chatId sample_forum) 5 sample_forum = Some s' \<and>
         mset (fm_topics s') = {#t \<in># mset (fm_topics sample_forum). ft_id t \<noteq> 5#})"
proof -
  have "fm_index sample_forum (ft_id (newForumTopic (sample_topic 6 80))) = None"
    by (simp add: sample_forum_def fm_insertNewTopic_def Let_def fm_new_def fm_emitRows_def fm_emit_def
        fm_enableRefreshTimer_def fm_ids_def int32_def signed_take_bit_eq_if_positive)
  from topic_comes_and_goes [OF sample_forum_inv this, of 5] show ?thesis by blast
qed

text \<open>The hash from last messages to topics goes stale. When a topic has gone, its last message still
points to its row: after the only topic of a forum is removed, the deletion of that message reads a
row that does not exist.\<close>

theorem stale_topic_row:
  assumes "fm_inv s" and "fm_topics s = [t]" and "fm_lastIndex s (ft_lastMessageId t) = Some 0"
    and "ft_lastMessageId t \<noteq> ft_id t"
  shows "\<exists>s'. fm_handleForumTopicNotFound (fm_chatId s) (ft_id t) s = Some s' \<and> fm_topics s' = [] \<and>
           fm_handleMessagesDeleted (fm_chatId s) [ft_lastMessageId t] s' = None"
proof -
  have "fm_index s (ft_id t) = Some 0" using ft_rows.row_found [OF assms(1), of 0] assms(2) by simp
  with assms(2-4) show ?thesis
    by (simp add: fm_handleForumTopicNotFound_def fm_handleMessagesDeleted_def remove_at_def Let_def
        reindex_beyond fm_emitRows_def fm_emit_def qat_def)
qed

theorem stale_topic_row_witness:
  "\<exists>s'. fm_handleForumTopicNotFound 1 5 sample_forum = Some s' \<and> fm_handleMessagesDeleted 1 [70] s' = None"
proof -
  let ?t = "newForumTopic (sample_topic 5 70)"
  have "fm_topics sample_forum = [?t]" "fm_lastIndex sample_forum 70 = Some 0" "fm_chatId sample_forum = 1"
    and t: "ft_lastMessageId ?t = 70" "ft_id ?t = 5"
    by (simp_all add: sample_forum_def fm_insertNewTopic_def Let_def fm_new_def fm_emitRows_def fm_emit_def
        fm_enableRefreshTimer_def fm_ids_def insert_at_def ft_lastMessageId_def lm_id_def int32_def signed_take_bit_eq_if_positive reindex_beyond)
  then show ?thesis using stale_topic_row [OF sample_forum_inv, of ?t] by auto
qed

section \<open>The store of chats\<close>

text \<open>C10: However the updates arrive, a chat of the store is kept under its own id and knows the state of its
group: the own status in the group and the group's verification are those of the group TDLib sent
last. This needs that no basic group has the id of a supergroup.\<close>

theorem chat_knows_group:
  assumes "td_reaches messageText s" and "td_chat s k = Some c"
  shows "cd_chatId c = k \<and>
         (case td_getGroup (cd_groupId c) (chatType c = ChatTypeSupergroup) s of
            None \<Rightarrow> True
          | Some g \<Rightarrow> memberStatus c = group_memberStatus g \<and>
                     verificationStatus c = toMap (mvalue (groupInfo g) ''verification_status''))"
  using td_ok_chat [OF td_reaches_ok [OF assms(1)] assms(2)]
  by (auto simp: chat_group_def group_applied_def split: option.split)

definition sample_chat :: "int \<Rightarrow> string \<Rightarrow> string \<Rightarrow> int \<Rightarrow> vmap" where
  "sample_chat chatId type key groupId =
     minsert ''id'' (QInt chatId)
       (minsert ''type'' (QMap (minsert ''@type'' (QString type) (minsert key (QInt groupId) fmempty))) fmempty)"

definition sample_group :: "string \<Rightarrow> vmap" where
  "sample_group status = minsert ''status'' (QMap (minsert ''@type'' (QString status) fmempty)) fmempty"

abbreviation (input) sample_store :: "(vmap \<Rightarrow> string) \<Rightarrow> td_state" where
  "sample_store messageText \<equiv> td_handle messageText (ESupergroup 9 (sample_group ''chatMemberStatusLeft''))
     (td_handle messageText (ENewChat (sample_chat 3 ''chatTypeSupergroup'' ''supergroup_id'' 9)) (td_new 0 0 0))"

lemmas sample_store_simps = td_handleSupergroupUpdated_def td_handleBasicGroupUpdated_def td_handleNewChatDiscovered_def
  Let_def td_new_def td_emit_def td_setChat_def td_chat_def newChatData_def updateChatData_def
  sample_chat_def chatTypeFromString_def td_getUserInformation_def the_map_def td_getGroup_def td_updateGroup_def
  td_newGroup_def cd_updateGroup_def group_memberStatus_def sample_group_def chatMemberStatusFromString_def

lemma sample_store_chat:
  "\<exists>c. td_chat (sample_store messageText) 3 = Some c \<and> cd_groupId c = 9 \<and> chatType c = ChatTypeSupergroup"
  "\<exists>g. td_getGroup 9 True (sample_store messageText) = Some g \<and> group_memberStatus g = ChatMemberStatusLeft"
  by (simp_all add: sample_store_simps)

theorem chat_knows_group_witness:
  "\<exists>c. td_chat (sample_store (\<lambda>_. [])) 3 = Some c \<and> memberStatus c = ChatMemberStatusLeft"
proof -
  obtain c where c: "td_chat (sample_store (\<lambda>_. [])) 3 = Some c" "cd_groupId c = 9" "chatType c = ChatTypeSupergroup"
    using sample_store_chat(1) by blast
  have "td_reaches (\<lambda>_. []) (sample_store (\<lambda>_. []))"
    by (intro td_reaches.handled td_reaches.start) (simp_all add: sample_store_simps)
  from chat_knows_group [OF this c(1)] c sample_store_chat(2) [of "\<lambda>_. []"] show ?thesis by auto
qed

text \<open>The store tells a group to every chat with the group's id, whatever the kind: a basic group that
has the id of a chat's supergroup overwrites the own status of that chat.\<close>

theorem group_kinds_confused:
  assumes "td_chat s k = Some c" and "chatType c = ChatTypeSupergroup" and "cd_groupId c = i"
    and "td_basicGroups s i = None"
  shows "\<exists>c'. td_chat (td_handleBasicGroupUpdated i info s) k = Some c' \<and> chatType c' = ChatTypeSupergroup \<and>
           memberStatus c' = group_memberStatus \<lparr>gr_groupId = i, groupInfo = info\<rparr>"
proof -
  let ?g = "\<lparr>gr_groupId = i, groupInfo = info\<rparr>"
  have "td_chat (td_handleBasicGroupUpdated i info s) = (\<lambda>j. map_option (group_told ?g) (td_chat s j))"
    using assms(4) by (simp add: td_handleBasicGroupUpdated_def Let_def td_newGroup_def td_chat_def map_of_map fun_eq_iff)
  moreover have "group_applied ?g (group_told ?g c)" using assms(3) by (intro group_told_applied) simp
  ultimately show ?thesis using assms(1,2) by (simp add: group_applied_def)
qed

theorem group_kinds_confused_witness:
  "\<exists>c. td_chat (td_handleBasicGroupUpdated 9 (sample_group ''chatMemberStatusBanned'') (sample_store (\<lambda>_. []))) 3 = Some c \<and>
       chatType c = ChatTypeSupergroup \<and> memberStatus c = ChatMemberStatusBanned"
proof -
  obtain c where c: "td_chat (sample_store (\<lambda>_. [])) 3 = Some c" "cd_groupId c = 9" "chatType c = ChatTypeSupergroup"
    using sample_store_chat(1) by blast
  have "td_basicGroups (sample_store (\<lambda>_. [])) 9 = None" by (simp add: sample_store_simps)
  from group_kinds_confused [OF c(1,3,2) this, of "sample_group ''chatMemberStatusBanned''"] show ?thesis
    by (auto simp: group_memberStatus_def sample_group_def chatMemberStatusFromString_def)
qed

text \<open>A known chat that uses the default is muted as long as the settings of its scope say: after new
settings for private chats, the mute of a chat follows them exactly when the chat is private or secret
and uses the default, and is what it was in every other case.\<close>

theorem scope_mute_followed:
  assumes "td_chat s k = Some c"
  shows "td_getChatMuteFor k fmempty
           (td_handleScopeNotificationSettingsUpdated ''notificationSettingsScopePrivateChats'' settings s) =
         (if toBool (mvalue (notificationSettings c) ''use_default_mute_for'') \<and>
             chatType c \<noteq> ChatTypeBasicGroup \<and> chatType c \<noteq> ChatTypeSupergroup
          then Some (toInt (mvalue settings ''mute_for'')) else td_getChatMuteFor k fmempty s)"
proof -
  let ?t = "td_handleScopeNotificationSettingsUpdated ''notificationSettingsScopePrivateChats'' settings s"
  have t: "td_chat ?t = td_chat s" "td_scopes ?t = (td_scopes s)(NotificationSettingsScopePrivateChats \<mapsto> settings)"
    by (simp_all add: td_handleScopeNotificationSettingsUpdated_def td_emit_def td_chat_def)
  show ?thesis
    using assms by (cases "chatType c") (simp_all add: td_getChatMuteFor_def t Let_def
        td_getChatScopeNotificationSettings_def td_getChatNotificationSettingsScope_def the_map_def)
qed

theorem scope_mute_followed_witness:
  "td_getChatMuteFor 3 fmempty (td_handleScopeNotificationSettingsUpdated ''notificationSettingsScopePrivateChats''
      (minsert ''mute_for'' (QInt 60) fmempty) (sample_store (\<lambda>_. []))) = Some 0"
proof -
  obtain c where c: "td_chat (sample_store (\<lambda>_. [])) 3 = Some c" "chatType c = ChatTypeSupergroup"
    using sample_store_chat(1) by blast
  have "td_getChatMuteFor 3 fmempty (sample_store (\<lambda>_. [])) = Some 0"
    by (simp add: sample_store_simps td_getChatMuteFor_def notificationSettings_def toInt_def)
  with scope_mute_followed [OF c(1), of "minsert ''mute_for'' (QInt 60) fmempty"] c show ?thesis by simp
qed

text \<open>The progress of a chat's actions has two scales: for the one action of a private chat it is the
percentage TDLib sent, for the same action in a group it is a hundredth of it.\<close>

theorem progress_scales_differ:
  assumes "progressOrEmoji a = QInt p" and "0 \<le> p" and "\<not> action_isInvalid a"
  shows "getChatActionsProgress True [a] = of_int p \<and> getChatActionsProgress False [a] = of_int p / 100"
  using assms by (simp add: getChatActionsProgress_def action_progress_def getMainChatAction_def action_isInvalid_def noAction_def)

theorem progress_scales_differ_witness:
  "let a = ChatAction (minsert ''@type'' (QString ''chatActionUploadingPhoto'') (minsert ''progress'' (QInt 40) fmempty))
   in getChatActionsProgress True [a] = 40 \<and> getChatActionsProgress False [a] = 2 / 5"
proof -
  let ?a = "ChatAction (minsert ''@type'' (QString ''chatActionUploadingPhoto'') (minsert ''progress'' (QInt 40) fmempty))"
  have "progressOrEmoji ?a = QInt 40" "\<not> action_isInvalid ?a"
    by (simp_all add: ChatAction_def getChatActionType_def action_isInvalid_def)
  from progress_scales_differ [OF this(1) _ this(2)] show ?thesis by simp
qed

end
