(* ===== verification/TdFile.thy ===== *)
theory TdFile imports YaqtPrelude
begin

text \<open>
  \<open>TDLibFile\<close> (\<open>src/tdlib/tdlibfile.h\<close>, \<open>tdlibfile.cpp\<close>): one file of TDLib as the user interface sees
  it, with the queue of change signals, the download that loads it, and the timer that holds
  a second request back for a second.

  The queue is a 32-bit word with one bit per signal and the number of the lowest one, as in the
  code. A timer is running or not; \<open>tdLibWrapper\<close> is a pointer, here a number. Requests, timer
  calls and emitted signals are entries of a log; a slot that calls back into the object
  while it is emitting is not modelled. The lemmas show that the queue is the set of the signals
  queued, emitted in order and once, that an update queues the signals of what it changes, and
  that requests and the timer alternate.
\<close>

unbundle bit_operations_syntax

section \<open>Signals\<close>

datatype file_signal =
  SigTdLib | SigFileInfo | SigAutoLoad | SigClearWithInvalidFileInfo | SigId | SigExpectedSize | SigSize
| SigPath | SigDownloadOffset | SigDownloadedPrefixSize | SigDownloadedSize | SigCanBeDeleted
| SigCanBeDownloaded | SigDownloadingActive | SigDownloadingCompleted | SigRemoteId | SigUniqueId
| SigUploadedSize | SigUploadingActive | SigUploadingCompleted

text \<open>The signals in the order of their numbers.\<close>

definition file_signals :: "file_signal list" where
  "file_signals =
    [SigTdLib, SigFileInfo, SigAutoLoad, SigClearWithInvalidFileInfo, SigId, SigExpectedSize, SigSize,
     SigPath, SigDownloadOffset, SigDownloadedPrefixSize, SigDownloadedSize, SigCanBeDeleted,
     SigCanBeDownloaded, SigDownloadingActive, SigDownloadingCompleted, SigRemoteId, SigUniqueId,
     SigUploadedSize, SigUploadingActive, SigUploadingCompleted]"

fun sig_no :: "file_signal \<Rightarrow> nat" where
  "sig_no SigTdLib = 0" | "sig_no SigFileInfo = 1" | "sig_no SigAutoLoad = 2"
| "sig_no SigClearWithInvalidFileInfo = 3" | "sig_no SigId = 4" | "sig_no SigExpectedSize = 5"
| "sig_no SigSize = 6" | "sig_no SigPath = 7" | "sig_no SigDownloadOffset = 8"
| "sig_no SigDownloadedPrefixSize = 9" | "sig_no SigDownloadedSize = 10" | "sig_no SigCanBeDeleted = 11"
| "sig_no SigCanBeDownloaded = 12" | "sig_no SigDownloadingActive = 13" | "sig_no SigDownloadingCompleted = 14"
| "sig_no SigRemoteId = 15" | "sig_no SigUniqueId = 16" | "sig_no SigUploadedSize = 17"
| "sig_no SigUploadingActive = 18" | "sig_no SigUploadingCompleted = 19"

abbreviation (input) SignalCount :: nat where "SignalCount \<equiv> 20"

lemma file_signals_no: "sig_no x < SignalCount \<and> file_signals ! sig_no x = x"
  by (cases x) (simp_all add: file_signals_def)

lemma sig_no_at: "i < SignalCount \<Longrightarrow> sig_no (file_signals ! i) = i"
proof -
  have "list_all (\<lambda>i. sig_no (file_signals ! i) = i) [0..<SignalCount]" by code_simp
  then show "i < SignalCount \<Longrightarrow> ?thesis" by (simp add: list_all_iff)
qed

lemma length_file_signals [simp]: "length file_signals = SignalCount"
  by (simp add: file_signals_def)

instantiation file_signal :: linorder
begin

definition less_eq_file_signal :: "file_signal \<Rightarrow> file_signal \<Rightarrow> bool" where
  "less_eq_file_signal x y \<longleftrightarrow> sig_no x \<le> sig_no y"

definition less_file_signal :: "file_signal \<Rightarrow> file_signal \<Rightarrow> bool" where
  "less_file_signal x y \<longleftrightarrow> sig_no x < sig_no y"

instance
  by standard (auto simp: less_eq_file_signal_def less_file_signal_def, metis file_signals_no)

end

section \<open>State\<close>

datatype tf_output =
  TfSignal file_signal
| TfDownloadFile int
| TfCancelDownloadFile int
| TfDeleteFile int
| TfGetFile int
| TfStartTimer
| TfKillTimer

record td_file =
  tf_tdlib :: "nat option"
  queuedSignals :: "32 word"
  firstQueuedSignal :: nat
  autoLoad :: bool
  downloadHoldOffTimer :: bool
  clearWithInvalidFileInfo :: bool
  infoMap :: vmap
  tf_id :: int
  expected_size :: int
  tf_size :: int
  tf_path :: string
  download_offset :: int
  downloaded_prefix_size :: int
  downloaded_size :: int
  can_be_deleted :: bool
  can_be_downloaded :: bool
  is_downloading_active :: bool
  is_downloading_completed :: bool
  remote_id :: string
  unique_id :: string
  uploaded_size :: int
  is_uploading_active :: bool
  is_uploading_completed :: bool
  tf_outputs :: "tf_output list"

definition tf_init :: td_file where
  "tf_init = \<lparr>tf_tdlib = None, queuedSignals = 0, firstQueuedSignal = SignalCount, autoLoad = False,
     downloadHoldOffTimer = False, clearWithInvalidFileInfo = False, infoMap = fmempty, tf_id = 0,
     expected_size = 0, tf_size = 0, tf_path = [], download_offset = 0, downloaded_prefix_size = 0,
     downloaded_size = 0, can_be_deleted = False, can_be_downloaded = False, is_downloading_active = False,
     is_downloading_completed = False, remote_id = [], unique_id = [], uploaded_size = 0,
     is_uploading_active = False, is_uploading_completed = False, tf_outputs = []\<rparr>"

definition tf_emit :: "tf_output \<Rightarrow> td_file \<Rightarrow> td_file" where
  "tf_emit out s = s\<lparr>tf_outputs := tf_outputs s @ [out]\<rparr>"

section \<open>The queue of signals\<close>

definition tf_queueSignal :: "file_signal \<Rightarrow> td_file \<Rightarrow> td_file" where
  "tf_queueSignal sig s =
     (let signalBit = push_bit (sig_no sig) (1 :: 32 word)
      in if queuedSignals s \<noteq> 0
         then s\<lparr>queuedSignals := queuedSignals s OR signalBit,
                firstQueuedSignal := (if firstQueuedSignal s > sig_no sig then sig_no sig else firstQueuedSignal s)\<rparr>
         else s\<lparr>queuedSignals := signalBit, firstQueuedSignal := sig_no sig\<rparr>)"

function tf_emit_loop :: "nat \<Rightarrow> td_file \<Rightarrow> td_file" where
  "tf_emit_loop i s =
     (if i < SignalCount \<and> queuedSignals s \<noteq> 0
      then (let signalBit = push_bit i (1 :: 32 word)
            in tf_emit_loop (Suc i)
                 (if queuedSignals s AND signalBit \<noteq> 0
                  then tf_emit (TfSignal (file_signals ! i)) (s\<lparr>queuedSignals := queuedSignals s AND NOT signalBit\<rparr>)
                  else s))
      else s)"
  by auto
termination by (relation "measure (\<lambda>(i, s). SignalCount - i)") auto

declare tf_emit_loop.simps [simp del]

definition tf_emitQueuedSignals :: "td_file \<Rightarrow> td_file" where
  "tf_emitQueuedSignals s =
     (if queuedSignals s \<noteq> 0 then tf_emit_loop (firstQueuedSignal s) (s\<lparr>firstQueuedSignal := SignalCount\<rparr>) else s)"

section \<open>Downloading\<close>

definition tf_killTimer :: "td_file \<Rightarrow> td_file" where
  "tf_killTimer s = tf_emit TfKillTimer (s\<lparr>downloadHoldOffTimer := False\<rparr>)"

definition tf_downloadFile :: "td_file \<Rightarrow> bool \<times> td_file" where
  "tf_downloadFile s =
     (if tf_id s \<noteq> 0 \<and> tf_tdlib s \<noteq> None \<and> \<not> downloadHoldOffTimer s \<and>
         \<not> is_downloading_active s \<and> \<not> is_downloading_completed s \<and> can_be_downloaded s
      then (True, tf_emit (TfDownloadFile (tf_id s)) (tf_emit TfStartTimer (s\<lparr>downloadHoldOffTimer := True\<rparr>)))
      else (False, s))"

definition tf_load :: "td_file \<Rightarrow> bool \<times> td_file" where
  "tf_load s = tf_downloadFile (if downloadHoldOffTimer s then tf_killTimer s else s)"

definition tf_cancel :: "td_file \<Rightarrow> bool \<times> td_file" where
  "tf_cancel s =
     (if tf_id s \<noteq> 0 \<and> tf_tdlib s \<noteq> None \<and> is_downloading_active s
      then (True, tf_emit (TfDeleteFile (tf_id s)) (tf_emit (TfCancelDownloadFile (tf_id s)) s))
      else (False, s))"

definition tf_getFile :: "td_file \<Rightarrow> bool \<times> td_file" where
  "tf_getFile s = (if tf_id s \<noteq> 0 \<and> tf_tdlib s \<noteq> None then (True, tf_emit (TfGetFile (tf_id s)) s) else (False, s))"

definition tf_updateTDLibWrapper :: "nat option \<Rightarrow> td_file \<Rightarrow> td_file" where
  "tf_updateTDLibWrapper tdlib s =
     (if tdlib \<noteq> tf_tdlib s
      then (let s1 = s\<lparr>tf_tdlib := tdlib\<rparr>
            in tf_queueSignal SigTdLib (if tdlib \<noteq> None \<and> autoLoad s1 then snd (tf_downloadFile s1) else s1))
      else s)"

definition tf_setTDLibWrapper :: "nat option \<Rightarrow> td_file \<Rightarrow> td_file" where
  "tf_setTDLibWrapper tdlib s = tf_emitQueuedSignals (tf_updateTDLibWrapper tdlib s)"

definition tf_setAutoLoad :: "bool \<Rightarrow> td_file \<Rightarrow> td_file" where
  "tf_setAutoLoad enable s =
     (if autoLoad s \<noteq> enable
      then (let s1 = tf_queueSignal SigAutoLoad (s\<lparr>autoLoad := enable\<rparr>)
            in tf_emitQueuedSignals (if autoLoad s1 then snd (tf_downloadFile s1) else s1))
      else s)"

definition tf_setClearWithInvalidFileInfo :: "bool \<Rightarrow> td_file \<Rightarrow> td_file" where
  "tf_setClearWithInvalidFileInfo clear s =
     (if clearWithInvalidFileInfo s \<noteq> clear
      then tf_emitQueuedSignals (tf_queueSignal SigClearWithInvalidFileInfo (s\<lparr>clearWithInvalidFileInfo := clear\<rparr>))
      else s)"

section \<open>File information\<close>

text \<open>\<open>if (field != value) { field = value; fileChanged = true; queueSignal(signal); }\<close>\<close>

definition tf_put ::
  "(td_file \<Rightarrow> 'a) \<Rightarrow> (('a \<Rightarrow> 'a) \<Rightarrow> td_file \<Rightarrow> td_file) \<Rightarrow> file_signal \<Rightarrow> 'a \<Rightarrow> bool \<times> td_file \<Rightarrow> bool \<times> td_file" where
  "tf_put get upd sig v cs =
     (case cs of (changed, s) \<Rightarrow>
        if get s \<noteq> v then (True, tf_queueSignal sig (upd (\<lambda>_. v) s)) else (changed, s))"

definition tf_filePuts :: "vmap \<Rightarrow> (bool \<times> td_file \<Rightarrow> bool \<times> td_file) list" where
  "tf_filePuts file =
    [tf_put tf_id tf_id_update SigId (toInt (mvalue file ''id'')),
     tf_put expected_size expected_size_update SigExpectedSize (toLongLong (mvalue file ''expected_size'')),
     tf_put tf_size tf_size_update SigSize (toLongLong (mvalue file ''size''))]"

definition tf_localPuts :: "vmap \<Rightarrow> (bool \<times> td_file \<Rightarrow> bool \<times> td_file) list" where
  "tf_localPuts local =
    [tf_put download_offset download_offset_update SigDownloadOffset (toLongLong (mvalue local ''download_offset'')),
     tf_put downloaded_prefix_size downloaded_prefix_size_update SigDownloadedPrefixSize
       (toLongLong (mvalue local ''downloaded_prefix_size'')),
     tf_put downloaded_size downloaded_size_update SigDownloadedSize (toLongLong (mvalue local ''downloaded_size'')),
     tf_put can_be_deleted can_be_deleted_update SigCanBeDeleted (toBool (mvalue local ''can_be_deleted'')),
     tf_put can_be_downloaded can_be_downloaded_update SigCanBeDownloaded (toBool (mvalue local ''can_be_downloaded'')),
     tf_put is_downloading_active is_downloading_active_update SigDownloadingActive
       (toBool (mvalue local ''is_downloading_active'')),
     tf_put is_downloading_completed is_downloading_completed_update SigDownloadingCompleted
       (toBool (mvalue local ''is_downloading_completed'')),
     tf_put tf_path tf_path_update SigPath (toString (mvalue local ''path''))]"

text \<open>The fields of the remote part, read where the code reads them: not from the remote part.\<close>

definition tf_remotePuts :: "vmap \<Rightarrow> vmap \<Rightarrow> (bool \<times> td_file \<Rightarrow> bool \<times> td_file) list" where
  "tf_remotePuts file local =
    [tf_put uploaded_size uploaded_size_update SigUploadedSize (toLongLong (mvalue file ''uploaded_size'')),
     tf_put is_uploading_active is_uploading_active_update SigUploadingActive (toBool (mvalue file ''is_uploading_active'')),
     tf_put is_uploading_completed is_uploading_completed_update SigUploadingCompleted
       (toBool (mvalue file ''is_uploading_completed'')),
     tf_put remote_id remote_id_update SigRemoteId (toString (mvalue local ''id'')),
     tf_put unique_id unique_id_update SigUniqueId (toString (mvalue local ''unique_id''))]"

definition tf_clearPuts :: "(bool \<times> td_file \<Rightarrow> bool \<times> td_file) list" where
  "tf_clearPuts =
    [tf_put tf_id tf_id_update SigId 0,
     tf_put expected_size expected_size_update SigExpectedSize 0,
     tf_put tf_size tf_size_update SigSize 0,
     tf_put download_offset download_offset_update SigDownloadOffset 0,
     tf_put downloaded_prefix_size downloaded_prefix_size_update SigDownloadedPrefixSize 0,
     tf_put downloaded_size downloaded_size_update SigDownloadedSize 0,
     tf_put can_be_deleted can_be_deleted_update SigCanBeDeleted False,
     tf_put can_be_downloaded can_be_downloaded_update SigCanBeDownloaded False,
     tf_put is_downloading_active is_downloading_active_update SigDownloadingActive False,
     tf_put is_downloading_completed is_downloading_completed_update SigDownloadingCompleted False,
     tf_put tf_path tf_path_update SigPath [],
     tf_put uploaded_size uploaded_size_update SigUploadedSize 0,
     tf_put is_uploading_active is_uploading_active_update SigUploadingActive False,
     tf_put is_uploading_completed is_uploading_completed_update SigUploadingCompleted False,
     tf_put remote_id remote_id_update SigRemoteId [],
     tf_put unique_id unique_id_update SigUniqueId [],
     tf_put infoMap infoMap_update SigFileInfo fmempty]"

definition tf_runPuts :: "(bool \<times> td_file \<Rightarrow> bool \<times> td_file) list \<Rightarrow> td_file \<Rightarrow> bool \<times> td_file" where
  "tf_runPuts puts s = fold (\<lambda>f. f) puts (False, s)"

definition tf_puts :: "vmap \<Rightarrow> (bool \<times> td_file \<Rightarrow> bool \<times> td_file) list" where
  "tf_puts file =
     (let local = toMap (mvalue file ''local''); remote = toMap (mvalue file ''remote'')
      in tf_filePuts file @
         (if toString (mvalue local ''@type'') = ''localFile'' then tf_localPuts local else []) @
         (if toString (mvalue remote ''@type'') = ''remoteFile'' then tf_remotePuts file local else []))"

definition tf_updateFileInfo :: "vmap \<Rightarrow> td_file \<Rightarrow> td_file" where
  "tf_updateFileInfo file s =
     (if toString (mvalue file ''@type'') = ''file''
      then (let (fileChanged, s1) = tf_runPuts (tf_puts file) s
            in if fileChanged then tf_queueSignal SigFileInfo (s1\<lparr>infoMap := file\<rparr>) else s1)
      else if clearWithInvalidFileInfo s then snd (tf_runPuts tf_clearPuts s)
      else s)"

definition tf_setFileInfo :: "vmap \<Rightarrow> td_file \<Rightarrow> td_file" where
  "tf_setFileInfo file s =
     (let s1 = tf_updateFileInfo file s;
          s2 = (if is_downloading_completed s1 \<and> downloadHoldOffTimer s1 then tf_killTimer s1 else s1)
      in tf_emitQueuedSignals (if autoLoad s2 then snd (tf_downloadFile s2) else s2))"

definition tf_timerEvent :: "td_file \<Rightarrow> td_file" where
  "tf_timerEvent s = (let s1 = tf_killTimer s in if autoLoad s1 then snd (tf_downloadFile s1) else s1)"

definition tf_handleFileUpdated :: "int \<Rightarrow> vmap \<Rightarrow> td_file \<Rightarrow> td_file" where
  "tf_handleFileUpdated fileId file s =
     (if tf_id s = fileId then tf_emitQueuedSignals (tf_setFileInfo file s) else s)"

text \<open>The constructors reset the queue at the end.\<close>

definition tf_new :: "nat option \<Rightarrow> td_file" where
  "tf_new tdlib = (tf_updateTDLibWrapper tdlib tf_init)\<lparr>firstQueuedSignal := SignalCount, queuedSignals := 0\<rparr>"

definition tf_newInfo :: "nat option \<Rightarrow> vmap \<Rightarrow> td_file" where
  "tf_newInfo tdlib file =
     (tf_updateFileInfo file (tf_updateTDLibWrapper tdlib tf_init))\<lparr>firstQueuedSignal := SignalCount, queuedSignals := 0\<rparr>"

section \<open>The queue is a set, emitted in order\<close>

definition tf_queued :: "td_file \<Rightarrow> file_signal set" where
  "tf_queued s = {x. bit (queuedSignals s) (sig_no x)}"

definition queue_ok :: "td_file \<Rightarrow> bool" where
  "queue_ok s \<longleftrightarrow> (\<forall>n. bit (queuedSignals s) n \<longrightarrow> n < SignalCount \<and> firstQueuedSignal s \<le> n)"

lemma bit_signal [simp]: "i < SignalCount \<Longrightarrow> bit ((2 :: 32 word) ^ i) n \<longleftrightarrow> n = i"
  by (auto simp: bit_exp_iff)

lemma sig_no_less [simp]: "sig_no x < SignalCount"
  using file_signals_no by blast

lemma sig_no_eq [simp]: "sig_no x = sig_no y \<longleftrightarrow> x = y"
  by (metis file_signals_no)

lemma word_zero_bits: "(w :: 32 word) = 0 \<longleftrightarrow> (\<forall>n. \<not> bit w n)"
  by (auto intro: bit_eqI)

lemma queue_empty: "queue_ok s \<Longrightarrow> queuedSignals s = 0 \<longleftrightarrow> tf_queued s = {}"
proof -
  assume ok: "queue_ok s"
  have "bit (queuedSignals s) n \<Longrightarrow> file_signals ! n \<in> tf_queued s" for n
    using ok by (auto simp: queue_ok_def tf_queued_def sig_no_at)
  then show ?thesis by (auto simp: word_zero_bits tf_queued_def)
qed

lemma tf_queueSignal_queued:
  assumes ok: "queue_ok s"
  shows "tf_queued (tf_queueSignal x s) = insert x (tf_queued s)" "queue_ok (tf_queueSignal x s)"
proof -
  have "queuedSignals s = 0 \<Longrightarrow> \<not> bit (queuedSignals s) n" for n by simp
  then show "tf_queued (tf_queueSignal x s) = insert x (tf_queued s)"
    by (auto simp: tf_queued_def tf_queueSignal_def Let_def bit_or_iff)
  show "queue_ok (tf_queueSignal x s)"
    using ok by (auto simp: queue_ok_def tf_queueSignal_def Let_def bit_or_iff intro: order_trans)
qed

lemma filter_nth_drop:
  "i < length xs \<Longrightarrow> filter P (drop i xs) = (if P (xs ! i) then xs ! i # filter P (drop (Suc i) xs) else filter P (drop (Suc i) xs))"
  by (simp add: Cons_nth_drop_Suc [symmetric])

lemma tf_emit_loop:
  "(\<And>n. bit (queuedSignals s) n \<Longrightarrow> i \<le> n \<and> n < SignalCount) \<Longrightarrow>
     tf_emit_loop i s = s\<lparr>queuedSignals := 0,
       tf_outputs := tf_outputs s @ map TfSignal (filter (\<lambda>x. x \<in> tf_queued s) (drop i file_signals))\<rparr>"
proof (induction i s rule: tf_emit_loop.induct)
  case (1 i s)
  show ?case
  proof (cases "i < SignalCount \<and> queuedSignals s \<noteq> 0")
    case False
    then have "queuedSignals s = 0" using "1.prems" by (force simp: word_zero_bits)
    with False show ?thesis by (simp add: tf_emit_loop.simps [of i s] tf_queued_def)
  next
    case True
    define w where "w = push_bit i (1 :: 32 word)"
    have w: "bit w n \<longleftrightarrow> n = i" for n using True by (simp add: w_def)
    let ?t = "if queuedSignals s AND w \<noteq> 0
      then tf_emit (TfSignal (file_signals ! i)) (s\<lparr>queuedSignals := queuedSignals s AND NOT w\<rparr>) else s"
    have test: "queuedSignals s AND w \<noteq> 0 \<longleftrightarrow> bit (queuedSignals s) i"
      by (auto simp: word_zero_bits bit_and_iff w)
    have bits: "bit (queuedSignals ?t) n \<longleftrightarrow> bit (queuedSignals s) n \<and> n \<noteq> i" if "n < SignalCount" for n
      unfolding test using that by (auto simp: tf_emit_def bit_and_iff bit_not_iff w)
    have above: "bit (queuedSignals ?t) n \<Longrightarrow> n < SignalCount" for n
      using "1.prems" [of n] unfolding test by (auto simp: tf_emit_def bit_and_iff split: if_splits)
    have "Suc i \<le> n \<and> n < SignalCount" if "bit (queuedSignals ?t) n" for n
      using bits [OF above [OF that]] "1.prems" [of n] that above [OF that] by auto
    then have "tf_emit_loop (Suc i) ?t = ?t\<lparr>queuedSignals := 0,
       tf_outputs := tf_outputs ?t @ map TfSignal (filter (\<lambda>x. x \<in> tf_queued ?t) (drop (Suc i) file_signals))\<rparr>"
      using "1.IH" [OF True w_def] by blast
    moreover have "filter (\<lambda>x. x \<in> tf_queued ?t) (drop (Suc i) file_signals) = filter (\<lambda>x. x \<in> tf_queued s) (drop (Suc i) file_signals)"
    proof (rule filter_cong [OF refl])
      fix x assume "x \<in> set (drop (Suc i) file_signals)"
      then obtain k where "x = file_signals ! (Suc i + k)" "Suc i + k < SignalCount" by (auto simp: in_set_conv_nth)
      then have "sig_no x \<noteq> i" using sig_no_at [of "Suc i + k"] by simp
      then show "x \<in> tf_queued ?t \<longleftrightarrow> x \<in> tf_queued s" unfolding tf_queued_def using bits [OF sig_no_less, of x] by simp
    qed
    moreover have "file_signals ! i \<in> tf_queued s \<longleftrightarrow> bit (queuedSignals s) i"
      using True by (simp add: tf_queued_def sig_no_at)
    ultimately show ?thesis
      using True unfolding tf_emit_loop.simps [of i s] w_def [symmetric] Let_def
      by (simp add: test filter_nth_drop [of i] tf_emit_def)
  qed
qed

lemma file_signals_order: "sorted file_signals" "distinct file_signals" "set file_signals = UNIV"
proof -
  show "sorted file_signals" by (simp add: file_signals_def less_eq_file_signal_def)
  show "distinct file_signals" by (simp add: file_signals_def)
  have "x \<in> set file_signals" for x using file_signals_no [of x] by (metis length_file_signals nth_mem)
  then show "set file_signals = UNIV" by blast
qed

lemma filter_file_signals: "filter (\<lambda>x. x \<in> A) file_signals = sorted_list_of_set A"
proof (rule sorted_distinct_set_unique)
  have fin: "finite A" using file_signals_order(3) by (metis List.finite_set rev_finite_subset subset_UNIV)
  then show "set (filter (\<lambda>x. x \<in> A) file_signals) = set (sorted_list_of_set A)" by (simp add: file_signals_order)
qed (simp_all add: file_signals_order sorted_wrt_filter)

text \<open>All queued signals go out, in the order of their numbers, each once.\<close>

lemma tf_emitQueuedSignals:
  assumes ok: "queue_ok s"
  shows "tf_outputs (tf_emitQueuedSignals s) = tf_outputs s @ map TfSignal (sorted_list_of_set (tf_queued s))"
    and "tf_queued (tf_emitQueuedSignals s) = {}" and "queue_ok (tf_emitQueuedSignals s)"
    and "\<exists>q f out. tf_emitQueuedSignals s = s\<lparr>queuedSignals := q, firstQueuedSignal := f, tf_outputs := out\<rparr>"
proof -
  let ?s = "s\<lparr>firstQueuedSignal := SignalCount\<rparr>"
  have low: "sig_no x \<ge> firstQueuedSignal s" if "x \<in> tf_queued s" for x using ok that by (auto simp: queue_ok_def tf_queued_def)
  have "filter (\<lambda>x. x \<in> tf_queued s) (take (firstQueuedSignal s) file_signals) = []"
    using low by (force simp: filter_empty_conv in_set_conv_nth sig_no_at)
  then have "filter (\<lambda>x. x \<in> tf_queued s) (drop (firstQueuedSignal s) file_signals) = sorted_list_of_set (tf_queued s)"
    by (metis append_Nil append_take_drop_id filter_append filter_file_signals)
  moreover have "tf_queued ?s = tf_queued s" by (simp add: tf_queued_def)
  moreover have "tf_emit_loop (firstQueuedSignal s) ?s = ?s\<lparr>queuedSignals := 0,
       tf_outputs := tf_outputs ?s @ map TfSignal (filter (\<lambda>x. x \<in> tf_queued ?s) (drop (firstQueuedSignal s) file_signals))\<rparr>"
    by (rule tf_emit_loop) (use ok in \<open>auto simp: queue_ok_def\<close>)
  ultimately have e: "tf_emitQueuedSignals s = (if queuedSignals s \<noteq> 0 then s\<lparr>firstQueuedSignal := SignalCount, queuedSignals := 0,
      tf_outputs := tf_outputs s @ map TfSignal (sorted_list_of_set (tf_queued s))\<rparr> else s)"
    by (simp add: tf_emitQueuedSignals_def)
  show "tf_outputs (tf_emitQueuedSignals s) = tf_outputs s @ map TfSignal (sorted_list_of_set (tf_queued s))"
    "tf_queued (tf_emitQueuedSignals s) = {}" "queue_ok (tf_emitQueuedSignals s)"
    using queue_empty [OF ok] by (auto simp: e tf_queued_def queue_ok_def)
  show "\<exists>q f out. tf_emitQueuedSignals s = s\<lparr>queuedSignals := q, firstQueuedSignal := f, tf_outputs := out\<rparr>"
    unfolding e by (cases s) auto
qed

section \<open>An update queues the signals of what it changes\<close>

text \<open>What a reader of a property sees.\<close>

fun tf_value :: "file_signal \<Rightarrow> td_file \<Rightarrow> qvariant" where
  "tf_value SigTdLib s = (case tf_tdlib s of None \<Rightarrow> QInvalid | Some n \<Rightarrow> QInt (int n))"
| "tf_value SigFileInfo s = QMap (infoMap s)"
| "tf_value SigAutoLoad s = QBool (autoLoad s)"
| "tf_value SigClearWithInvalidFileInfo s = QBool (clearWithInvalidFileInfo s)"
| "tf_value SigId s = QInt (tf_id s)"
| "tf_value SigExpectedSize s = QInt (expected_size s)"
| "tf_value SigSize s = QInt (tf_size s)"
| "tf_value SigPath s = QString (tf_path s)"
| "tf_value SigDownloadOffset s = QInt (download_offset s)"
| "tf_value SigDownloadedPrefixSize s = QInt (downloaded_prefix_size s)"
| "tf_value SigDownloadedSize s = QInt (downloaded_size s)"
| "tf_value SigCanBeDeleted s = QBool (can_be_deleted s)"
| "tf_value SigCanBeDownloaded s = QBool (can_be_downloaded s)"
| "tf_value SigDownloadingActive s = QBool (is_downloading_active s)"
| "tf_value SigDownloadingCompleted s = QBool (is_downloading_completed s)"
| "tf_value SigRemoteId s = QString (remote_id s)"
| "tf_value SigUniqueId s = QString (unique_id s)"
| "tf_value SigUploadedSize s = QInt (uploaded_size s)"
| "tf_value SigUploadingActive s = QBool (is_uploading_active s)"
| "tf_value SigUploadingCompleted s = QBool (is_uploading_completed s)"

definition tf_step :: "file_signal \<Rightarrow> (bool \<times> td_file \<Rightarrow> bool \<times> td_file) \<Rightarrow> bool" where
  "tf_step k f \<longleftrightarrow> (\<forall>ch s. f (ch, s) = (ch, s) \<or>
     (\<exists>t. f (ch, s) = (True, tf_queueSignal k t) \<and> queuedSignals t = queuedSignals s \<and>
          firstQueuedSignal t = firstQueuedSignal s \<and> tf_outputs t = tf_outputs s \<and>
          downloadHoldOffTimer t = downloadHoldOffTimer s \<and> (\<forall>j. tf_value j t = tf_value j s \<longleftrightarrow> j \<noteq> k)))"

lemma all_file_signal: "(\<forall>j. P j) \<longleftrightarrow> list_all P file_signals"
  using file_signals_order(3) by (auto simp: list_all_iff)

lemma tf_step_put:
  assumes "\<And>v s. \<forall>j. tf_value j (upd (\<lambda>_. v) s) = tf_value j s \<longleftrightarrow> j \<noteq> k \<or> v = get s"
    and "\<And>g s. queuedSignals (upd g s) = queuedSignals s \<and> firstQueuedSignal (upd g s) = firstQueuedSignal s \<and>
           tf_outputs (upd g s) = tf_outputs s \<and> downloadHoldOffTimer (upd g s) = downloadHoldOffTimer s"
  shows "tf_step k (tf_put get upd k v)"
  using assms by (auto simp: tf_step_def tf_put_def intro!: exI [where x = "upd (\<lambda>_. v) _"])

lemma tf_put_steps:
  shows "tf_step SigId (tf_put tf_id tf_id_update SigId v0)"
  and "tf_step SigExpectedSize (tf_put expected_size expected_size_update SigExpectedSize v1)"
  and "tf_step SigSize (tf_put tf_size tf_size_update SigSize v2)"
  and "tf_step SigPath (tf_put tf_path tf_path_update SigPath v3)"
  and "tf_step SigDownloadOffset (tf_put download_offset download_offset_update SigDownloadOffset v4)"
  and "tf_step SigDownloadedPrefixSize (tf_put downloaded_prefix_size downloaded_prefix_size_update SigDownloadedPrefixSize v5)"
  and "tf_step SigDownloadedSize (tf_put downloaded_size downloaded_size_update SigDownloadedSize v6)"
  and "tf_step SigCanBeDeleted (tf_put can_be_deleted can_be_deleted_update SigCanBeDeleted v7)"
  and "tf_step SigCanBeDownloaded (tf_put can_be_downloaded can_be_downloaded_update SigCanBeDownloaded v8)"
  and "tf_step SigDownloadingActive (tf_put is_downloading_active is_downloading_active_update SigDownloadingActive v9)"
  and "tf_step SigDownloadingCompleted (tf_put is_downloading_completed is_downloading_completed_update SigDownloadingCompleted v10)"
  and "tf_step SigRemoteId (tf_put remote_id remote_id_update SigRemoteId v11)"
  and "tf_step SigUniqueId (tf_put unique_id unique_id_update SigUniqueId v12)"
  and "tf_step SigUploadedSize (tf_put uploaded_size uploaded_size_update SigUploadedSize v13)"
  and "tf_step SigUploadingActive (tf_put is_uploading_active is_uploading_active_update SigUploadingActive v14)"
  and "tf_step SigUploadingCompleted (tf_put is_uploading_completed is_uploading_completed_update SigUploadingCompleted v15)"
  and "tf_step SigFileInfo (tf_put infoMap infoMap_update SigFileInfo v16)"
  by (rule tf_step_put, (auto simp: all_file_signal file_signals_def)[1], simp)+

lemma tf_queueSignal_fields [simp]:
  "tf_value j (tf_queueSignal k s) = tf_value j s" "tf_outputs (tf_queueSignal k s) = tf_outputs s"
  "downloadHoldOffTimer (tf_queueSignal k s) = downloadHoldOffTimer s"
  by (cases j; simp add: tf_queueSignal_def Let_def) (simp_all add: tf_queueSignal_def Let_def)

lemma tf_queued_cong:
  "queuedSignals t = queuedSignals s \<Longrightarrow> tf_queued t = tf_queued s"
  "queuedSignals t = queuedSignals s \<Longrightarrow> firstQueuedSignal t = firstQueuedSignal s \<Longrightarrow> queue_ok t \<longleftrightarrow> queue_ok s"
  by (simp_all add: tf_queued_def queue_ok_def)

lemma tf_runPuts_fold:
  "list_all2 tf_step ks fs \<Longrightarrow> distinct ks \<Longrightarrow> queue_ok s \<Longrightarrow> fold (\<lambda>f. f) fs (c, s) = (c', s') \<Longrightarrow>
     queue_ok s' \<and> tf_queued s' = tf_queued s \<union> {k. tf_value k s' \<noteq> tf_value k s} \<and>
     (\<forall>j. j \<notin> set ks \<longrightarrow> tf_value j s' = tf_value j s) \<and> tf_outputs s' = tf_outputs s \<and>
     downloadHoldOffTimer s' = downloadHoldOffTimer s \<and> (c' \<longleftrightarrow> c \<or> (\<exists>k. tf_value k s' \<noteq> tf_value k s))"
proof (induction arbitrary: c s rule: list_all2_induct)
  case Nil
  then show ?case by simp
next
  case (Cons k ks f fs)
  from Cons.hyps(1) consider "f (c, s) = (c, s)" |
    t where "f (c, s) = (True, tf_queueSignal k t)" "queuedSignals t = queuedSignals s"
      "firstQueuedSignal t = firstQueuedSignal s" "tf_outputs t = tf_outputs s"
      "downloadHoldOffTimer t = downloadHoldOffTimer s" "\<forall>j. tf_value j t = tf_value j s \<longleftrightarrow> j \<noteq> k"
    unfolding tf_step_def by blast
  then show ?case
  proof cases
    case 1
    with Cons show ?thesis by auto
  next
    case (2 t)
    have ok: "queue_ok (tf_queueSignal k t)" and q: "tf_queued (tf_queueSignal k t) = insert k (tf_queued s)"
      using tf_queueSignal_queued [of t k] Cons.prems(2) 2 tf_queued_cong [of t s] by auto
    have run: "fold (\<lambda>f. f) fs (True, tf_queueSignal k t) = (c', s')" using Cons.prems(3) 2(1) by simp
    note ih = Cons.IH [OF _ ok run]
    have other: "tf_value j s' = tf_value j s" if "j \<notin> set (k # ks)" for j using ih Cons.prems(1) 2(6) that by auto
    have mine: "tf_value k s' \<noteq> tf_value k s" using ih Cons.prems(1) 2(6) by auto
    have "tf_value j s' = tf_value j t \<longleftrightarrow> tf_value j s' = tf_value j s" if "j \<noteq> k" for j using 2(6) that by metis
    then have "{j. tf_value j s' \<noteq> tf_value j t} \<union> {k} = {j. tf_value j s' \<noteq> tf_value j s}" using mine by (auto; metis)
    then show ?thesis using ih Cons.prems(1) 2 q other mine by auto
  qed
qed

lemma tf_runPuts:
  assumes "list_all2 tf_step ks fs" and "distinct ks" and "queue_ok s" and "tf_runPuts fs s = (c, s')"
  shows "queue_ok s'" and "tf_queued s' = tf_queued s \<union> {k. tf_value k s' \<noteq> tf_value k s}"
    and "\<And>j. j \<notin> set ks \<Longrightarrow> tf_value j s' = tf_value j s" and "tf_outputs s' = tf_outputs s"
    and "downloadHoldOffTimer s' = downloadHoldOffTimer s" and "c \<longleftrightarrow> (\<exists>k. tf_value k s' \<noteq> tf_value k s)"
  using tf_runPuts_fold [OF assms(1-3), of False c s'] assms(4) by (auto simp: tf_runPuts_def)

lemma tf_puts_steps:
  "\<exists>ks. list_all2 tf_step ks (tf_puts file) \<and> distinct ks \<and> SigFileInfo \<notin> set ks \<and>
        {SigTdLib, SigAutoLoad, SigClearWithInvalidFileInfo} \<inter> set ks = {}"
proof -
  let ?f = "[SigId, SigExpectedSize, SigSize]"
  let ?l = "if toString (mvalue (toMap (mvalue file ''local'')) ''@type'') = ''localFile''
    then [SigDownloadOffset, SigDownloadedPrefixSize, SigDownloadedSize, SigCanBeDeleted, SigCanBeDownloaded,
          SigDownloadingActive, SigDownloadingCompleted, SigPath] else []"
  let ?r = "if toString (mvalue (toMap (mvalue file ''remote'')) ''@type'') = ''remoteFile''
    then [SigUploadedSize, SigUploadingActive, SigUploadingCompleted, SigRemoteId, SigUniqueId] else []"
  have "list_all2 tf_step (?f @ ?l @ ?r) (tf_puts file)"
    unfolding tf_puts_def Let_def
    by (intro list_all2_appendI) (simp_all add: tf_filePuts_def tf_localPuts_def tf_remotePuts_def tf_put_steps)
  then show ?thesis by (intro exI [of _ "?f @ ?l @ ?r"]) auto
qed

lemma tf_clearPuts_steps:
  "\<exists>ks. list_all2 tf_step ks tf_clearPuts \<and> distinct ks \<and>
        {SigTdLib, SigAutoLoad, SigClearWithInvalidFileInfo} \<inter> set ks = {}"
  by (intro exI [of _ "[SigId, SigExpectedSize, SigSize, SigDownloadOffset, SigDownloadedPrefixSize, SigDownloadedSize,
        SigCanBeDeleted, SigCanBeDownloaded, SigDownloadingActive, SigDownloadingCompleted, SigPath, SigUploadedSize,
        SigUploadingActive, SigUploadingCompleted, SigRemoteId, SigUniqueId, SigFileInfo]"])
     (simp add: tf_clearPuts_def tf_put_steps)

text \<open>
  An update queues the signal of every property it changes and, beside it, at most the one
  for the file's information.
\<close>

lemma tf_updateFileInfo:
  assumes ok: "queue_ok s"
  shows "queue_ok (tf_updateFileInfo file s)" and "tf_outputs (tf_updateFileInfo file s) = tf_outputs s"
    and "downloadHoldOffTimer (tf_updateFileInfo file s) = downloadHoldOffTimer s"
    and "tf_queued s \<union> {k. tf_value k (tf_updateFileInfo file s) \<noteq> tf_value k s} \<subseteq> tf_queued (tf_updateFileInfo file s)"
    and "tf_queued (tf_updateFileInfo file s) \<subseteq>
           insert SigFileInfo (tf_queued s \<union> {k. tf_value k (tf_updateFileInfo file s) \<noteq> tf_value k s})"
proof -
  let ?t = "tf_updateFileInfo file s"
  have "queue_ok ?t \<and> tf_outputs ?t = tf_outputs s \<and> downloadHoldOffTimer ?t = downloadHoldOffTimer s \<and>
     tf_queued s \<union> {k. tf_value k ?t \<noteq> tf_value k s} \<subseteq> tf_queued ?t \<and>
     tf_queued ?t \<subseteq> insert SigFileInfo (tf_queued s \<union> {k. tf_value k ?t \<noteq> tf_value k s})"
  proof (cases "toString (mvalue file ''@type'') = ''file''")
    case True
    obtain ks where ks: "list_all2 tf_step ks (tf_puts file)" "distinct ks" using tf_puts_steps by blast
    obtain c t where run: "tf_runPuts (tf_puts file) s = (c, t)" by (cases "tf_runPuts (tf_puts file) s")
    note r = tf_runPuts [OF ks ok run]
    show ?thesis
    proof (cases c)
      case False
      then have "?t = t" using True run by (simp add: tf_updateFileInfo_def)
      with r False show ?thesis by auto
    next
      case c: True
      let ?u = "t\<lparr>infoMap := file\<rparr>"
      have t: "?t = tf_queueSignal SigFileInfo ?u" using True run c by (simp add: tf_updateFileInfo_def)
      have u: "queue_ok ?u" "tf_queued ?u = tf_queued t" using r(1) tf_queued_cong [of ?u t] by auto
      have v: "tf_value k ?u = tf_value k t" if "k \<noteq> SigFileInfo" for k using that by (cases k) auto
      show ?thesis unfolding t using tf_queueSignal_queued [OF u(1), of SigFileInfo] u(2) r v by auto
    qed
  next
    case False
    obtain ks where ks: "list_all2 tf_step ks tf_clearPuts" "distinct ks" using tf_clearPuts_steps by blast
    obtain c t where run: "tf_runPuts tf_clearPuts s = (c, t)" by (cases "tf_runPuts tf_clearPuts s")
    note r = tf_runPuts [OF ks ok run]
    show ?thesis using False run r ok by (auto simp: tf_updateFileInfo_def)
  qed
  then show "queue_ok ?t" "tf_outputs ?t = tf_outputs s" "downloadHoldOffTimer ?t = downloadHoldOffTimer s"
    "tf_queued s \<union> {k. tf_value k ?t \<noteq> tf_value k s} \<subseteq> tf_queued ?t"
    "tf_queued ?t \<subseteq> insert SigFileInfo (tf_queued s \<union> {k. tf_value k ?t \<noteq> tf_value k s})" by blast+
qed

section \<open>The download and its timer\<close>

text \<open>
  A hold-off starts when none is running, has one request, which follows its start, and ends.
  \<open>HoldOff False\<close> waits for the request.
\<close>

datatype hold_off = Idle | HoldOff bool

fun hold_off_step :: "tf_output \<Rightarrow> hold_off \<Rightarrow> hold_off option" where
  "hold_off_step TfStartTimer h = (case h of Idle \<Rightarrow> Some (HoldOff False) | _ \<Rightarrow> None)"
| "hold_off_step (TfDownloadFile i) h = (case h of HoldOff False \<Rightarrow> Some (HoldOff True) | _ \<Rightarrow> None)"
| "hold_off_step TfKillTimer h = (case h of HoldOff True \<Rightarrow> Some Idle | _ \<Rightarrow> None)"
| "hold_off_step _ h = Some h"

fun hold_off_run :: "tf_output list \<Rightarrow> hold_off \<Rightarrow> hold_off option" where
  "hold_off_run [] h = Some h"
| "hold_off_run (out # outs) h = (case hold_off_step out h of None \<Rightarrow> None | Some h' \<Rightarrow> hold_off_run outs h')"

definition held :: "td_file \<Rightarrow> bool" where
  "held s \<longleftrightarrow> hold_off_run (tf_outputs s) Idle = Some (if downloadHoldOffTimer s then HoldOff True else Idle)"

lemma hold_off_run_append:
  "hold_off_run (xs @ ys) h = (case hold_off_run xs h of None \<Rightarrow> None | Some h' \<Rightarrow> hold_off_run ys h')"
  by (induction xs arbitrary: h) (auto split: option.split)

lemma hold_off_signals: "hold_off_run (map TfSignal xs) h = Some h"
  by (induction xs) auto

text \<open>What every operation keeps: the log, and a queue that is empty between the operations.\<close>

definition tf_ok :: "td_file \<Rightarrow> bool" where
  "tf_ok s \<longleftrightarrow> held s \<and> queue_ok s"

lemma queue_ok_cong [simp]:
  "queue_ok (tf_emit out s) = queue_ok s" "queue_ok (s\<lparr>downloadHoldOffTimer := b\<rparr>) = queue_ok s"
  "queue_ok (s\<lparr>autoLoad := b\<rparr>) = queue_ok s" "queue_ok (s\<lparr>tf_tdlib := w\<rparr>) = queue_ok s"
  "queue_ok (s\<lparr>clearWithInvalidFileInfo := b\<rparr>) = queue_ok s"
  by (simp_all add: queue_ok_def tf_emit_def)

lemma tf_ok_download: "tf_ok s \<Longrightarrow> tf_ok (snd (tf_downloadFile s))"
  by (auto simp: tf_ok_def tf_downloadFile_def held_def hold_off_run_append tf_emit_def queue_ok_def)

lemma tf_ok_kill: "tf_ok s \<Longrightarrow> downloadHoldOffTimer s \<Longrightarrow> tf_ok (tf_killTimer s)"
  by (auto simp: tf_ok_def tf_killTimer_def held_def hold_off_run_append tf_emit_def queue_ok_def)

lemma tf_ok_queue: "tf_ok s \<Longrightarrow> tf_ok (tf_queueSignal x s)"
  by (simp add: tf_ok_def held_def tf_queueSignal_queued)

lemma tf_ok_emitted: "tf_ok s \<Longrightarrow> tf_ok (tf_emitQueuedSignals s) \<and> tf_queued (tf_emitQueuedSignals s) = {}"
proof -
  assume ok: "tf_ok s"
  note e = tf_emitQueuedSignals [of s]
  have "downloadHoldOffTimer (tf_emitQueuedSignals s) = downloadHoldOffTimer s"
    using ok e(4) by (auto simp: tf_ok_def)
  then show ?thesis using ok e by (simp add: tf_ok_def held_def hold_off_run_append hold_off_signals)
qed

lemma tf_ok_update: "tf_ok s \<Longrightarrow> tf_ok (tf_updateFileInfo file s)"
  by (simp add: tf_ok_def held_def tf_updateFileInfo)

lemma tf_ok_setFileInfo:
  assumes ok: "tf_ok s"
  shows "tf_ok (tf_setFileInfo file s) \<and> tf_queued (tf_setFileInfo file s) = {}"
  unfolding tf_setFileInfo_def Let_def
  by (rule tf_ok_emitted) (simp add: tf_ok_update [OF ok] tf_ok_kill tf_ok_download)

lemma tf_ok_fields [simp]:
  "tf_ok (s\<lparr>autoLoad := b\<rparr>) = tf_ok s" "tf_ok (s\<lparr>tf_tdlib := w\<rparr>) = tf_ok s"
  "tf_ok (s\<lparr>clearWithInvalidFileInfo := b\<rparr>) = tf_ok s"
  by (simp_all add: tf_ok_def held_def)

text \<open>The life of a file object. The timer fires only while it runs.\<close>

inductive tf_reaches :: "td_file \<Rightarrow> bool" where
  init: "tf_reaches tf_init"
| create: "tf_reaches (tf_new tdlib)"
| createInfo: "tf_reaches (tf_newInfo tdlib file)"
| setTDLib: "tf_reaches s \<Longrightarrow> tf_reaches (tf_setTDLibWrapper tdlib s)"
| setAutoLoad: "tf_reaches s \<Longrightarrow> tf_reaches (tf_setAutoLoad b s)"
| setClear: "tf_reaches s \<Longrightarrow> tf_reaches (tf_setClearWithInvalidFileInfo b s)"
| setFileInfo: "tf_reaches s \<Longrightarrow> tf_reaches (tf_setFileInfo file s)"
| cancel: "tf_reaches s \<Longrightarrow> tf_reaches (snd (tf_cancel s))"
| load: "tf_reaches s \<Longrightarrow> tf_reaches (snd (tf_load s))"
| getFile: "tf_reaches s \<Longrightarrow> tf_reaches (snd (tf_getFile s))"
| timer: "tf_reaches s \<Longrightarrow> downloadHoldOffTimer s \<Longrightarrow> tf_reaches (tf_timerEvent s)"
| updated: "tf_reaches s \<Longrightarrow> tf_reaches (tf_handleFileUpdated i file s)"

lemma tf_init_ok: "tf_ok tf_init \<and> tf_queued tf_init = {}"
  by (simp add: tf_ok_def held_def queue_ok_def tf_queued_def tf_init_def)

lemma tf_ok_updateTDLibWrapper: "tf_ok s \<Longrightarrow> tf_ok (tf_updateTDLibWrapper w s)"
  by (auto simp: tf_updateTDLibWrapper_def Let_def tf_ok_queue tf_ok_download)

lemma tf_ok_reset: "tf_ok s \<Longrightarrow> tf_ok (s\<lparr>firstQueuedSignal := n, queuedSignals := 0\<rparr>) \<and>
    tf_queued (s\<lparr>firstQueuedSignal := n, queuedSignals := 0\<rparr>) = {}"
  by (simp add: tf_ok_def held_def queue_ok_def tf_queued_def)

text \<open>Operations that queue nothing.\<close>

lemma tf_queued_download [simp]: "tf_queued (snd (tf_downloadFile s)) = tf_queued s"
  by (simp add: tf_downloadFile_def tf_emit_def tf_queued_def)

lemma tf_queued_kill [simp]: "tf_queued (tf_killTimer s) = tf_queued s"
  by (simp add: tf_killTimer_def tf_emit_def tf_queued_def)

lemma tf_reaches_ok: "tf_reaches s \<Longrightarrow> tf_ok s \<and> tf_queued s = {}"
proof (induction rule: tf_reaches.induct)
  case (create tdlib)
  then show ?case unfolding tf_new_def using tf_init_ok tf_ok_updateTDLibWrapper tf_ok_reset by blast
next
  case (createInfo tdlib info)
  then show ?case unfolding tf_newInfo_def using tf_init_ok tf_ok_updateTDLibWrapper tf_ok_update tf_ok_reset by blast
next
  case (setAutoLoad s b)
  then show ?case
    by (auto simp: tf_setAutoLoad_def Let_def intro!: tf_ok_emitted tf_ok_queue tf_ok_download)
next
  case (setClear s b)
  then show ?case by (auto simp: tf_setClearWithInvalidFileInfo_def intro!: tf_ok_emitted tf_ok_queue)
next
  case (cancel s)
  then show ?case by (auto simp: tf_cancel_def tf_ok_def held_def hold_off_run_append tf_emit_def queue_ok_def tf_queued_def)
next
  case (getFile s)
  then show ?case by (auto simp: tf_getFile_def tf_ok_def held_def hold_off_run_append tf_emit_def queue_ok_def tf_queued_def)
next
  case (load s)
  then show ?case by (auto simp: tf_load_def intro!: tf_ok_download tf_ok_kill)
next
  case (timer s)
  then show ?case by (auto simp: tf_timerEvent_def Let_def intro!: tf_ok_download tf_ok_kill)
next
  case (updated s i info)
  then show ?case using tf_ok_setFileInfo tf_ok_emitted by (auto simp: tf_handleFileUpdated_def)
qed (use tf_init_ok tf_ok_setFileInfo tf_ok_emitted tf_ok_updateTDLibWrapper in \<open>auto simp: tf_setTDLibWrapper_def\<close>)

end
