(* ===== verification/FormattedText.thy ===== *)
theory FormattedText imports TdFile
begin

text \<open>
  \<open>FormattedText\<close> and \<open>FullFormattedText\<close> (\<open>src/formattedtext.h\<close>, \<open>formattedtext.cpp\<close>): a text of TDLib
  with its entities, turned into rich text by insertions that are sorted by where they end and
  applied from the back.

  Characters are Isabelle's; the block that hides a spoiler, which is none of them, is the
  argument \<open>shade\<close>. The virtual functions of the class are the record \<open>text_class\<close>. \<open>std::sort\<close> is
  the sort of the prelude, which keeps the order of equivalent insertions, as the
  insertion sort of the standard library does on short lists. The lemmas show what the
  insertions build when they do not overlap.
\<close>

section \<open>Strings\<close>

text \<open>\<open>QString::mid\<close>, \<open>QString::replace(position, n, after)\<close> and the positions \<open>indexOf\<close> finds.\<close>

definition qmid :: "int \<Rightarrow> int \<Rightarrow> 'c list \<Rightarrow> 'c list" where
  "qmid position n s =
     (let size = int (length s)
      in if position > size then []
         else if position < 0 then
           (if n < 0 \<or> n + position \<ge> size then s
            else if n + position \<le> 0 then [] else take (nat (n + position)) s)
         else (if n < 0 \<or> n > size - position then drop (nat position) s else take (nat n) (drop (nat position) s)))"

definition qreplace :: "int \<Rightarrow> int \<Rightarrow> 'c list \<Rightarrow> 'c list \<Rightarrow> 'c list" where
  "qreplace position n after s =
     (if position < 0 \<or> position > int (length s) then s
      else take (nat position) s @ after @ drop (nat (position + n)) s)"

fun char_positions :: "char \<Rightarrow> string \<Rightarrow> int \<Rightarrow> int list" where
  "char_positions c [] i = []"
| "char_positions c (x # xs) i = (if x = c then i # char_positions c xs (i + 1) else char_positions c xs (i + 1))"

text \<open>The matches of \<open>\r?\n\<close>, with their lengths.\<close>

fun newline_matches :: "string \<Rightarrow> int \<Rightarrow> (int \<times> int) list" where
  "newline_matches [] i = []"
| "newline_matches (x # xs) i =
     (if x = CHR 0x0A then (i, 1) # newline_matches xs (i + 1)
      else if x = CHR 0x0D \<and> xs \<noteq> [] \<and> hd xs = CHR 0x0A then (i, 2) # newline_matches (tl xs) (i + 2)
      else newline_matches xs (i + 1))"

definition escape_char :: "char \<Rightarrow> string" where
  "escape_char c =
     (if c = CHR ''<'' then ''&lt;'' else if c = CHR ''>'' then ''&gt;''
      else if c = CHR ''&'' then ''&amp;'' else if c = CHR 0x22 then ''&quot;'' else [c])"

definition toHtmlEscaped :: "string \<Rightarrow> string" where
  "toHtmlEscaped s = concat (map escape_char s)"

fun replace_newlines :: "string \<Rightarrow> string" where
  "replace_newlines [] = []"
| "replace_newlines (x # xs) =
     (if x = CHR 0x0A then ''<br>'' @ replace_newlines xs
      else if x = CHR 0x0D \<and> xs \<noteq> [] \<and> hd xs = CHR 0x0A then ''<br>'' @ replace_newlines (tl xs)
      else x # replace_newlines xs)"

section \<open>Entities\<close>

datatype entity_type =
  TUnknown | TMention | THashtag | TCashtag | TBotCommand | TUrl | TEmailAddress | TPhoneNumber
| TBankCardNumber | TBold | TItalic | TUnderline | TStrikethrough | TSpoiler | TCode | TPre | TPreCode
| TBlockQuote | TExpandableBlockQuote | TTextUrl | TMentionName | TCustomEmoji | TMediaTimestamp | TDateTime

record text_entity =
  te_type :: entity_type
  typeData :: qvariant
  te_offset :: int
  te_length :: int

definition entityTypeFromString :: "string \<Rightarrow> entity_type" where
  "entityTypeFromString type =
     (if type = ''textEntityTypeMention'' then TMention
      else if type = ''textEntityTypeHashtag'' then THashtag
      else if type = ''textEntityTypeCashtag'' then TCashtag
      else if type = ''textEntityTypeBotCommand'' then TBotCommand
      else if type = ''textEntityTypeUrl'' then TUrl
      else if type = ''textEntityTypeEmailAddress'' then TEmailAddress
      else if type = ''textEntityTypePhoneNumber'' then TPhoneNumber
      else if type = ''textEntityTypeBankCardNumber'' then TBankCardNumber
      else if type = ''textEntityTypeBold'' then TBold
      else if type = ''textEntityTypeItalic'' then TItalic
      else if type = ''textEntityTypeUnderline'' then TUnderline
      else if type = ''textEntityTypeStrikethrough'' then TStrikethrough
      else if type = ''textEntityTypeSpoiler'' then TSpoiler
      else if type = ''textEntityTypeCode'' then TCode
      else if type = ''textEntityTypePre'' then TPre
      else if type = ''textEntityTypePreCode'' then TPreCode
      else if type = ''textEntityTypeBlockQuote'' then TBlockQuote
      else if type = ''textEntityTypeExpandableBlockQuote'' then TExpandableBlockQuote
      else if type = ''textEntityTypeTextUrl'' then TTextUrl
      else if type = ''textEntityTypeMentionName'' then TMentionName
      else if type = ''textEntityTypeCustomEmoji'' then TCustomEmoji
      else if type = ''textEntityTypeMediaTimestamp'' then TMediaTimestamp
      else if type = ''textEntityTypeDateTime'' then TDateTime
      else TUnknown)"

text \<open>The cases of the switch fall through: a link and a named mention end with the id of an emoji.\<close>

definition entityTypeData :: "entity_type \<Rightarrow> vmap \<Rightarrow> qvariant" where
  "entityTypeData t entityType =
     (if t = TTextUrl \<or> t = TMentionName \<or> t = TCustomEmoji then QInt (toLongLong (mvalue entityType ''custom_emoji_id''))
      else if t = TSpoiler then QBool False
      else QInvalid)"

definition newEntity :: "vmap \<Rightarrow> text_entity" where
  "newEntity entity =
     (let type = toMap (mvalue entity ''type''); t = entityTypeFromString (toString (mvalue type ''@type''))
      in \<lparr>te_type = t, typeData = entityTypeData t type, te_offset = toInt (mvalue entity ''offset''),
          te_length = toInt (mvalue entity ''length'')\<rparr>)"

definition isFullEntity :: "text_entity \<Rightarrow> bool" where
  "isFullEntity e \<longleftrightarrow> te_type e = TCustomEmoji"

definition isLink :: "text_entity \<Rightarrow> bool" where
  "isLink e \<longleftrightarrow> te_type e \<in> {TUrl, TTextUrl, TPhoneNumber, TEmailAddress, TBotCommand, TMention, TMentionName, THashtag, TCashtag}"

definition getTextPart :: "string \<Rightarrow> text_entity \<Rightarrow> string" where
  "getTextPart fullText e = qmid (te_offset e) (te_length e) fullText"

record text_class =
  isFullText :: bool
  emojiSize :: int
  emojiPath :: "int \<Rightarrow> string"

definition plainClass :: text_class where
  "plainClass = \<lparr>isFullText = False, emojiSize = 0, emojiPath = (\<lambda>_. [])\<rparr>"

definition quoted :: "string \<Rightarrow> string" where
  "quoted s = [CHR 0x22] @ s @ [CHR 0x22]"

definition getReplacement :: "char \<Rightarrow> text_class \<Rightarrow> text_entity \<Rightarrow> string" where
  "getReplacement shade parent e =
     (if te_type e = TCustomEmoji then
        (if emojiSize parent = 0 then []
         else (let path = emojiPath parent (toLongLong (typeData e)); size = show_int (emojiSize parent)
               in if path \<noteq> [] then ''<img align='' @ quoted ''middle'' @ '' width='' @ quoted size @ '' height='' @ quoted size @
                                     '' src='' @ quoted path @ ''/>''
                  else []))
      else if te_type e = TSpoiler then (if isFullText parent then [] else replicate (nat (te_length e)) shade)
      else [])"

definition linkTags :: "string \<Rightarrow> string \<times> string" where
  "linkTags href = (''<a href='' @ quoted href @ ''>'', ''</a>'')"

definition getHtmlTags :: "string \<Rightarrow> nat \<Rightarrow> text_entity \<Rightarrow> string \<times> string" where
  "getHtmlTags fullText index e =
     (let part = getTextPart fullText e in
      case te_type e of
        TBold \<Rightarrow> (''<b>'', ''</b>'')
      | TItalic \<Rightarrow> (''<i>'', ''</i>'')
      | TStrikethrough \<Rightarrow> (''<s>'', ''</s>'')
      | TUnderline \<Rightarrow> (''<u>'', ''</u>'')
      | TSpoiler \<Rightarrow> (if toBool (typeData e) then ([], [])
                   else (''<a class='' @ quoted ''spoiler'' @ '' href='' @ quoted (''revealSpoiler://'' @ show_int (int index)) @ ''>'', ''</a>''))
      | TPre \<Rightarrow> (''<pre>'', ''</pre>'')
      | TCode \<Rightarrow> (''<pre>'', ''</pre>'')
      | TPreCode \<Rightarrow> (''<pre>'', ''</pre>'')
      | TUrl \<Rightarrow> linkTags part
      | TTextUrl \<Rightarrow> linkTags (toString (typeData e))
      | TPhoneNumber \<Rightarrow> linkTags (''tel:'' @ part)
      | TEmailAddress \<Rightarrow> linkTags (''mailto:'' @ part)
      | TBotCommand \<Rightarrow> linkTags (''botCommand://'' @ part)
      | TMention \<Rightarrow> linkTags (''user://'' @ part)
      | TMentionName \<Rightarrow> linkTags (''userId://'' @ toString (typeData e))
      | THashtag \<Rightarrow> linkTags (''hashtag://'' @ part)
      | TCashtag \<Rightarrow> linkTags (''cashtag://'' @ part)
      | _ \<Rightarrow> ([], []))"

section \<open>A text\<close>

record formatted_text =
  plainText :: string
  entities :: "text_entity list"
  prefixOffset :: int
  customEmojiIds :: "string list"
  needsRichText :: bool

definition newFormattedText :: "string \<Rightarrow> text_entity list \<Rightarrow> formatted_text" where
  "newFormattedText text es =
     \<lparr>plainText = text, entities = es, prefixOffset = 0, customEmojiIds = [], needsRichText = False\<rparr>"

datatype ignore_kind = IgnoreNone | IgnoreAll | IgnoreFull | IgnoreFullBoldLinks | IgnoreFullAndTagged

definition ignored :: "ignore_kind \<Rightarrow> text_entity \<Rightarrow> bool" where
  "ignored ig e =
     (case ig of
        IgnoreFull \<Rightarrow> isFullEntity e
      | IgnoreFullBoldLinks \<Rightarrow> isFullEntity e \<or> te_type e = TBold \<or> isLink e
      | IgnoreFullAndTagged \<Rightarrow> te_type e \<noteq> TSpoiler
      | _ \<Rightarrow> False)"

definition addEntity :: "ignore_kind \<Rightarrow> qvariant \<Rightarrow> 'a formatted_text_scheme \<Rightarrow> 'a formatted_text_scheme" where
  "addEntity ig raw t =
     (let e = newEntity (toMap raw)
      in if ignored ig e then t
         else (if te_type e = TCustomEmoji then t\<lparr>customEmojiIds := customEmojiIds t @ [toString (typeData e)]\<rparr>
               else if te_type e = TSpoiler then t\<lparr>needsRichText := True\<rparr> else t)
              \<lparr>entities := entities t @ [e]\<rparr>)"

definition setFormattedText :: "vmap \<Rightarrow> ignore_kind \<Rightarrow> 'a formatted_text_scheme \<Rightarrow> 'a formatted_text_scheme" where
  "setFormattedText text ig t =
     (let t1 = t\<lparr>plainText := toString (mvalue text ''text''), needsRichText := False, entities := []\<rparr>
      in if ig = IgnoreAll then t1 else fold (addEntity ig) (toList (mvalue text ''entities'')) t1)"

definition readFormattedText :: "vmap \<Rightarrow> ignore_kind \<Rightarrow> formatted_text" where
  "readFormattedText text ig =
     (if mempty text then newFormattedText [] [] else setFormattedText text ig (newFormattedText [] []))"

definition getPlainFor :: "vmap \<Rightarrow> string" where
  "getPlainFor text = toString (mvalue text ''text'')"

definition getPlainEscapedFor :: "string \<Rightarrow> string" where
  "getPlainEscapedFor text = replace_newlines (toHtmlEscaped text)"

section \<open>Rich text\<close>

record insertion =
  ins_offset :: int
  ins_text :: string
  ins_remove :: int

definition insertion_sort :: "insertion \<Rightarrow> insertion \<Rightarrow> bool" where
  "insertion_sort a b =
     (if ins_offset b + ins_remove b = ins_offset a + ins_remove a then ins_offset b < ins_offset a
      else ins_offset b + ins_remove b < ins_offset a + ins_remove a)"

fun entityInsertions :: "char \<Rightarrow> text_class \<Rightarrow> string \<Rightarrow> nat \<Rightarrow> text_entity list \<Rightarrow> insertion list" where
  "entityInsertions shade parent text i [] = []"
| "entityInsertions shade parent text i (e # es) =
     (let replacement = getReplacement shade parent e; (open_tag, close_tag) = getHtmlTags text i e
      in (if replacement \<noteq> [] then [\<lparr>ins_offset = te_offset e, ins_text = replacement, ins_remove = te_length e\<rparr>] else []) @
         (if open_tag = [] \<and> close_tag = [] then []
          else [\<lparr>ins_offset = te_offset e, ins_text = open_tag, ins_remove = 0\<rparr>,
                \<lparr>ins_offset = te_offset e + te_length e, ins_text = close_tag, ins_remove = 0\<rparr>]) @
         entityInsertions shade parent text (Suc i) es)"

definition charInsertions :: "char \<Rightarrow> string \<Rightarrow> string \<Rightarrow> insertion list" where
  "charInsertions c replacement text =
     map (\<lambda>i. \<lparr>ins_offset = i, ins_text = replacement, ins_remove = 1\<rparr>) (char_positions c text 0)"

definition newlineInsertions :: "string \<Rightarrow> string \<Rightarrow> insertion list" where
  "newlineInsertions replacement text =
     map (\<lambda>(i, n). \<lparr>ins_offset = i, ins_text = replacement, ins_remove = n\<rparr>) (newline_matches text 0)"

definition escapeInsertions :: "string \<Rightarrow> insertion list" where
  "escapeInsertions text =
     charInsertions (CHR ''<'') ''&lt;'' text @ charInsertions (CHR ''>'') ''&gt;'' text @
     charInsertions (CHR ''&'') ''&amp;'' text @ charInsertions (CHR 0x22) ''&quot;'' text @
     newlineInsertions ''<br>'' text"

definition applyInsertions :: "int \<Rightarrow> insertion list \<Rightarrow> string \<Rightarrow> string" where
  "applyInsertions prefix is text = fold (\<lambda>i. qreplace (prefix + ins_offset i) (ins_remove i) (ins_text i)) is text"

definition parseText :: "char \<Rightarrow> text_class \<Rightarrow> bool \<Rightarrow> 'a formatted_text_scheme \<Rightarrow> string" where
  "parseText shade parent escape t =
     (let plain = (if escape then getPlainEscapedFor (plainText t) else plainText t);
          insertions = entityInsertions shade parent (plainText t) 0 (entities t)
      in if entities t = [] then plain
         else if insertions = [] then plain
         else applyInsertions (prefixOffset t)
                (std_sort insertion_sort (insertions @ (if escape then escapeInsertions (plainText t) else [])))
                (plainText t))"

section \<open>Links\<close>

datatype text_request =
  SearchPublicChatOpenDirectly string
| CreatePrivateChat int
| SearchHashtag string bool
| GetInternalLinkType string bool bool
| GetCustomEmojiStickers "string list"

definition startsWith :: "string \<Rightarrow> string \<Rightarrow> bool" where
  "startsWith s p \<longleftrightarrow> take (length p) s = p"

definition handleLink :: "string \<Rightarrow> bool \<Rightarrow> bool \<Rightarrow> text_request" where
  "handleLink link skipConfirmation checkExternalOnError =
     (if startsWith link ''user://'' then SearchPublicChatOpenDirectly (drop 8 link)
      else if startsWith link ''userId://'' then CreatePrivateChat (string_toLongLong (drop 9 link))
      else if startsWith link ''hashtag://'' then SearchHashtag (drop 10 link) False
      else if startsWith link ''cashtag://'' then SearchHashtag (drop 10 link) True
      else GetInternalLinkType link skipConfirmation checkExternalOnError)"

section \<open>The full text of a view\<close>

text \<open>
  \<open>FullFormattedText\<close> also shows custom emojis, from files it downloads, and spoilers that can be
  revealed. The wrapper is a pointer, as in \<open>TDLibFile\<close>.
\<close>

datatype fx_output =
  FxRequest text_request
| FxTdlibChanged
| FxCustomEmojiSizeChanged
| FxCustomEmojisPartiallyLoaded
| FxParsedTextChanged
| FxNeedsRichTextChanged

record full_text = formatted_text +
  fx_tdlib :: "nat option"
  customEmojiSize :: int
  customEmojiFiles :: "int \<rightharpoonup> td_file"
  fx_outputs :: "fx_output list"

definition fx_emit :: "fx_output \<Rightarrow> full_text \<Rightarrow> full_text" where
  "fx_emit out s = s\<lparr>fx_outputs := fx_outputs s @ [out]\<rparr>"

text \<open>The constructor connects both emoji signals to \<open>parsedTextChanged\<close>.\<close>

definition fx_emitPartiallyLoaded :: "full_text \<Rightarrow> full_text" where
  "fx_emitPartiallyLoaded s = fx_emit FxParsedTextChanged (fx_emit FxCustomEmojisPartiallyLoaded s)"

definition fx_new :: "formatted_text \<Rightarrow> nat option \<Rightarrow> full_text" where
  "fx_new t tdlib = formatted_text.extend t
     \<lparr>fx_tdlib = tdlib, customEmojiSize = 20, customEmojiFiles = Map.empty, fx_outputs = []\<rparr>"

definition fx_getCustomEmojiPath :: "full_text \<Rightarrow> int \<Rightarrow> string" where
  "fx_getCustomEmojiPath s i =
     (case customEmojiFiles s i of
        None \<Rightarrow> []
      | Some f \<Rightarrow> if is_downloading_completed f then tf_path f else [])"

definition fx_class :: "full_text \<Rightarrow> text_class" where
  "fx_class s = \<lparr>isFullText = True, emojiSize = customEmojiSize s, emojiPath = fx_getCustomEmojiPath s\<rparr>"

definition fx_parse :: "char \<Rightarrow> full_text \<Rightarrow> string" where
  "fx_parse shade s = parseText shade (fx_class s) True s"

definition fx_processCustomEmojis :: "full_text \<Rightarrow> full_text" where
  "fx_processCustomEmojis s =
     (let s1 = s\<lparr>customEmojiFiles := Map.empty\<rparr>
      in if fx_tdlib s1 \<noteq> None \<and> customEmojiIds s1 \<noteq> []
         then (fx_emit (FxRequest (GetCustomEmojiStickers (customEmojiIds s1))) s1)\<lparr>customEmojiIds := []\<rparr>
         else s1)"

definition fx_setTdLibWrapper :: "nat option \<Rightarrow> full_text \<Rightarrow> full_text" where
  "fx_setTdLibWrapper tdlib s =
     (if fx_tdlib s \<noteq> tdlib then fx_processCustomEmojis (fx_emit FxTdlibChanged (s\<lparr>fx_tdlib := tdlib\<rparr>)) else s)"

definition fx_announceText :: "bool \<Rightarrow> full_text \<Rightarrow> full_text" where
  "fx_announceText prevNeedsRichText s =
     (let s1 = fx_processCustomEmojis (fx_emit FxParsedTextChanged s)
      in if prevNeedsRichText \<noteq> needsRichText s1 then fx_emit FxNeedsRichTextChanged s1 else s1)"

definition fx_setText :: "formatted_text \<Rightarrow> full_text \<Rightarrow> full_text" where
  "fx_setText t s = fx_announceText (needsRichText s) (formatted_text.extend t (full_text.fields (fx_tdlib s)
     (customEmojiSize s) (customEmojiFiles s) (fx_outputs s)))"

definition fx_setFormattedText :: "vmap \<Rightarrow> ignore_kind \<Rightarrow> full_text \<Rightarrow> full_text" where
  "fx_setFormattedText text ig s = fx_announceText (needsRichText s) (setFormattedText text ig s)"

definition fx_setCustomEmojiSize :: "int \<Rightarrow> full_text \<Rightarrow> full_text" where
  "fx_setCustomEmojiSize n s =
     (if customEmojiSize s \<noteq> n
      then fx_emit FxParsedTextChanged (fx_emit FxCustomEmojiSizeChanged (s\<lparr>customEmojiSize := n\<rparr>)) else s)"

text \<open>The loop over the stickers: the flag says that a file was already complete.\<close>

fun fx_stickers_loop :: "qvariant list \<Rightarrow> bool \<times> full_text \<Rightarrow> bool \<times> full_text" where
  "fx_stickers_loop [] cs = cs"
| "fx_stickers_loop (v # vs) (changed, s) =
     (let sticker = toMap v;
          i = toLongLong (mvalue (toMap (mvalue sticker ''full_type'')) ''custom_emoji_id'')
      in if i = 0 \<or> customEmojiFiles s i \<noteq> None then fx_stickers_loop vs (changed, s)
         else (let isStatic = (toString (mvalue (toMap (mvalue sticker ''format'')) ''@type'') = ''stickerFormatWebp'');
                   info = (if isStatic then toMap (mvalue sticker ''sticker'')
                           else toMap (mvalue (toMap (mvalue sticker ''thumbnail'')) ''file''))
               in if mempty info then fx_stickers_loop vs (changed, s)
                  else (let file = tf_newInfo (fx_tdlib s) info
                        in if is_downloading_completed file
                           then fx_stickers_loop vs (True, s\<lparr>customEmojiFiles := (customEmojiFiles s)(i \<mapsto> file)\<rparr>)
                           else fx_stickers_loop vs
                                  (changed, s\<lparr>customEmojiFiles := (customEmojiFiles s)(i \<mapsto> snd (tf_load file))\<rparr>))))"

definition fx_handleCustomEmojiStickersReceived :: "qvariant list \<Rightarrow> full_text \<Rightarrow> full_text" where
  "fx_handleCustomEmojiStickersReceived stickers s =
     (let (changed, s1) = fx_stickers_loop stickers (False, s) in if changed then fx_emitPartiallyLoaded s1 else s1)"

definition fx_handleStickerDownloadingCompletedChanged :: "td_file \<Rightarrow> full_text \<Rightarrow> full_text" where
  "fx_handleStickerDownloadingCompletedChanged file s =
     (if is_downloading_completed file then fx_emitPartiallyLoaded s else s)"

text \<open>\<open>toInt(&ok)\<close>: only what fits 32 bits is a number.\<close>

definition string_toInt :: "string \<Rightarrow> int option" where
  "string_toInt s = (case parse_int s of None \<Rightarrow> None
     | Some i \<Rightarrow> if - (2 ^ 31) \<le> i \<and> i < 2 ^ 31 then Some i else None)"

definition fx_handleTextLink :: "string \<Rightarrow> full_text \<Rightarrow> (bool \<times> full_text) option" where
  "fx_handleTextLink link s =
     (if startsWith link ''revealSpoiler://'' then
        (case string_toInt (drop 16 link) of
           None \<Rightarrow> Some (True, s)
         | Some i \<Rightarrow>
             if i \<ge> 0 \<and> i \<le> int (length (entities s))
             then do { e \<leftarrow> qat (entities s) (nat i);
                       Some (True, fx_emit FxParsedTextChanged
                              (s\<lparr>entities := (entities s)[nat i := e\<lparr>typeData := QBool True\<rparr>]\<rparr>)) }
             else Some (True, s))
      else Some (False, s))"

definition fx_handleLink :: "string \<Rightarrow> bool \<Rightarrow> bool \<Rightarrow> full_text \<Rightarrow> full_text option" where
  "fx_handleLink link skipConfirmation checkExternalOnError s = do {
     (handled, s1) \<leftarrow> fx_handleTextLink link s;
     Some (if handled then s1 else fx_emit (FxRequest (handleLink link skipConfirmation checkExternalOnError)) s1) }"

section \<open>What the insertions build\<close>

text \<open>
  The text with, before each character, the tags at its position, and the character or what
  stands for it. Tags at one position come in the reverse of the order they are listed in.
\<close>

definition tag_at :: "nat \<Rightarrow> insertion \<Rightarrow> bool" where
  "tag_at k i \<longleftrightarrow> ins_remove i = 0 \<and> ins_offset i = int k"

definition escape_at :: "nat \<Rightarrow> insertion \<Rightarrow> bool" where
  "escape_at k i \<longleftrightarrow> ins_remove i = 1 \<and> ins_offset i = int k"

definition tags :: "insertion list \<Rightarrow> nat \<Rightarrow> string" where
  "tags xs k = concat (rev (map ins_text (filter (tag_at k) xs)))"

definition char_shown :: "insertion list \<Rightarrow> string \<Rightarrow> nat \<Rightarrow> string" where
  "char_shown xs text k = (case filter (escape_at k) xs of [] \<Rightarrow> [text ! k] | i # _ \<Rightarrow> ins_text i)"

definition marked_up :: "insertion list \<Rightarrow> string \<Rightarrow> string" where
  "marked_up xs text = concat (map (\<lambda>k. tags xs k @ char_shown xs text k) [0..<length text]) @ tags xs (length text)"

definition ins_end :: "insertion \<Rightarrow> int" where
  "ins_end i = ins_offset i + ins_remove i"

lemma tags_Nil [simp]: "tags [] k = []" and char_shown_Nil [simp]: "char_shown [] text k = [text ! k]"
  by (simp_all add: tags_def char_shown_def)

lemma marked_up_Nil [simp]: "marked_up [] text = text"
proof -
  have "concat (map (\<lambda>k. [text ! k]) [0..<n]) = take n text" if "n \<le> length text" for n
    using that by (induction n) (simp_all add: take_Suc_conv_app_nth)
  then show ?thesis by (simp add: marked_up_def)
qed

lemma concat_map_cong: "(\<And>k. k \<in> set ks \<Longrightarrow> f k = g k) \<Longrightarrow> concat (map f ks) = concat (map g ks)"
  by (metis map_eq_conv)

lemma concat_nth: "i \<le> j \<Longrightarrow> j \<le> length text \<Longrightarrow> concat (map (\<lambda>k. [text ! k]) [i..<j]) = take (j - i) (drop i text)"
proof (induction j)
  case (Suc j)
  then show ?case
    by (cases "i = Suc j") (auto simp: take_Suc_conv_app_nth Suc_diff_le)
qed simp

text \<open>The last row of the sorted list is the first insertion; what it leaves is marked up below it.\<close>

lemma marked_up_step:
  assumes m: "m \<le> length text" and x: "tag_at m x \<or> (m < length text \<and> escape_at m x)"
    and below: "\<And>i. i \<in> set xs \<Longrightarrow> ins_end i \<le> int m \<and> (\<exists>k. tag_at k i \<or> escape_at k i)"
  shows "marked_up (x # xs) text =
    marked_up xs (take m text) @ ins_text x @ drop (if tag_at m x then m else Suc m) text"
proof -
  have above: "\<not> tag_at k i" if "i \<in> set xs" "m < k" for i k
    using below [OF that(1)] that(2) by (auto simp: tag_at_def ins_end_def)
  have esc: "\<not> escape_at k i" if "i \<in> set xs" "m \<le> k" for i k
    using below [OF that(1)] that(2) by (auto simp: escape_at_def ins_end_def)
  have split: "[0..<length text] = [0..<m] @ [m..<length text]" using m by (metis le0 le_add_diff_inverse upt_add_eq_append)
  have low: "tags (x # xs) k @ char_shown (x # xs) text k = tags xs k @ char_shown xs (take m text) k" if "k < m" for k
    using that x by (auto simp: tags_def char_shown_def tag_at_def escape_at_def split: list.split)
  have none: "filter (tag_at k) xs = []" if "m < k" for k using above that by (simp add: filter_empty_conv)
  have none': "filter (escape_at k) xs = []" if "m \<le> k" for k using esc that by (simp add: filter_empty_conv)
  have high: "tags (x # xs) k @ char_shown (x # xs) text k = [text ! k]" if "m < k" for k
    using that x none none' by (auto simp: tags_def char_shown_def tag_at_def escape_at_def)
  have end_tags: "tags (x # xs) (length text) = (if m = length text then tags xs m @ ins_text x else [])"
    using x m none by (auto simp: tags_def tag_at_def escape_at_def)
  have at: "tags (x # xs) m @ char_shown (x # xs) text m =
      tags xs m @ ins_text x @ (if tag_at m x then [text ! m] else [])" if "m < length text"
    using x none' by (auto simp: tags_def char_shown_def tag_at_def escape_at_def)
  have lowpart: "concat (map (\<lambda>k. tags (x # xs) k @ char_shown (x # xs) text k) [0..<m]) =
      concat (map (\<lambda>k. tags xs k @ char_shown xs (take m text) k) [0..<m])"
    by (rule concat_map_cong) (simp add: low)
  show ?thesis
  proof (cases "m = length text")
    case True
    with x lowpart end_tags show ?thesis by (auto simp: marked_up_def)
  next
    case False
    then have less: "m < length text" using m by simp
    then have "[m..<length text] = m # [Suc m..<length text]" by (simp add: upt_conv_Cons)
    moreover have "concat (map (\<lambda>k. tags (x # xs) k @ char_shown (x # xs) text k) [Suc m..<length text]) = drop (Suc m) text"
    proof -
      have "concat (map (\<lambda>k. tags (x # xs) k @ char_shown (x # xs) text k) [Suc m..<length text]) =
          concat (map (\<lambda>k. [text ! k]) [Suc m..<length text])"
        by (rule concat_map_cong) (simp add: high)
      also have "\<dots> = drop (Suc m) text" using concat_nth [of "Suc m" "length text" "text"] less by simp
      finally show ?thesis .
    qed
    ultimately have "marked_up (x # xs) text = concat (map (\<lambda>k. tags xs k @ char_shown xs (take m text) k) [0..<m]) @
        tags xs m @ ins_text x @ (if tag_at m x then [text ! m] else []) @ drop (Suc m) text"
      unfolding marked_up_def split using at [OF less] lowpart end_tags False by simp
    then show ?thesis using less by (simp add: marked_up_def Cons_nth_drop_Suc min_def)
  qed
qed

text \<open>
  \<open>follows i x\<close>: the insertion \<open>i\<close> may come after \<open>x\<close> in the sorted list, and if it stands
  for a character it is not the one \<open>x\<close> stands for.
\<close>

definition follows :: "insertion \<Rightarrow> insertion \<Rightarrow> bool" where
  "follows i x \<longleftrightarrow> ins_end i \<le> ins_offset x"

definition single :: "insertion \<Rightarrow> bool" where
  "single i \<longleftrightarrow> ins_offset i \<ge> 0 \<and> ins_remove i \<in> {0, 1}"

lemma qreplace_split:
  "m \<le> length text \<Longrightarrow> 0 \<le> n \<Longrightarrow> qreplace (int m) n y (text @ suf) = take m text @ y @ drop (nat (int m + n)) (text @ suf)"
  by (simp add: qreplace_def)

lemma applyInsertions_marked_up:
  assumes "sorted_wrt (\<lambda>x i. follows i x) xs" "\<forall>i\<in>set xs. single i \<and> ins_end i \<le> int (length t)"
  shows "applyInsertions 0 xs (t @ suf) = marked_up xs t @ suf"
  using assms
proof (induction xs arbitrary: t suf)
  case (Cons x xs)
  define m where "m = nat (ins_offset x)"
  have sx: "single x" "ins_end x \<le> int (length t)" using Cons.prems by auto
  have m: "ins_offset x = int m" "m \<le> length t" using sx by (auto simp: m_def single_def ins_end_def)
  have x: "tag_at m x \<or> (m < length t \<and> escape_at m x)"
    using sx m by (auto simp: single_def ins_end_def tag_at_def escape_at_def)
  have low: "ins_end i \<le> int m" "single i" if "i \<in> set xs" for i
    using Cons.prems that m by (auto simp: follows_def)
  have below: "ins_end i \<le> int m \<and> (\<exists>k. tag_at k i \<or> escape_at k i)" if "i \<in> set xs" for i
  proof -
    have "tag_at (nat (ins_offset i)) i \<or> escape_at (nat (ins_offset i)) i"
      using low(2) [OF that] by (auto simp: single_def tag_at_def escape_at_def)
    then show ?thesis using low(1) [OF that] by blast
  qed
  have "qreplace (ins_offset x) (ins_remove x) (ins_text x) (t @ suf) =
      take m t @ ins_text x @ drop (if tag_at m x then m else Suc m) t @ suf"
    using x m sx by (auto simp: qreplace_split single_def tag_at_def escape_at_def nat_add_distrib)
  moreover have "applyInsertions 0 xs (take m t @ r) = marked_up xs (take m t) @ r" for r
    using Cons.IH [of "take m t" r] Cons.prems low m by (simp add: min_def)
  ultimately show ?case
    using marked_up_step [OF m(2) x below] by (simp add: applyInsertions_def)
qed (simp add: applyInsertions_def)

text \<open>Sorting keeps the order of the insertions that no comparison separates.\<close>

lemma filter_insort_by_neg: "\<not> P x \<Longrightarrow> filter P (insort_by lt x ys) = filter P ys"
  by (induction ys) auto

lemma filter_insort_by_pos:
  "P x \<Longrightarrow> (\<And>y. P y \<Longrightarrow> \<not> lt y x) \<Longrightarrow> filter P (insort_by lt x ys) = x # filter P ys"
  by (induction ys) auto

lemma filter_std_sort:
  assumes "\<And>x y. P x \<Longrightarrow> P y \<Longrightarrow> \<not> lt y x"
  shows "filter P (std_sort lt xs) = filter P xs"
proof (induction xs)
  case (Cons x xs)
  then show ?case
    using filter_insort_by_neg [of P x lt] filter_insort_by_pos [of P x lt] assms
    by (cases "P x") (simp_all add: std_sort_def)
qed (simp add: std_sort_def)

lemma tag_at_unordered: "tag_at k x \<Longrightarrow> tag_at k y \<Longrightarrow> \<not> insertion_sort y x"
  and escape_at_unordered: "escape_at k x \<Longrightarrow> escape_at k y \<Longrightarrow> \<not> insertion_sort y x"
  by (auto simp: tag_at_def escape_at_def insertion_sort_def)

lemma marked_up_std_sort: "marked_up (std_sort insertion_sort xs) t = marked_up xs t"
  by (simp add: marked_up_def tags_def char_shown_def filter_std_sort tag_at_unordered escape_at_unordered)

lemma strict_insertion_sort: "strict_on UNIV insertion_sort"
  by (auto simp: strict_on_def insertion_sort_def split: if_splits)

definition escape_offsets :: "insertion list \<Rightarrow> int list" where
  "escape_offsets xs = map ins_offset (filter (\<lambda>i. ins_remove i = 1) xs)"

lemma distinct_escape_offsets_std_sort:
  "distinct (escape_offsets (std_sort lt xs)) \<longleftrightarrow> distinct (escape_offsets xs)"
  unfolding escape_offsets_def by (rule mset_eq_imp_distinct_iff) (simp only: mset_map mset_filter mset_std_sort)

lemma sorted_follows:
  assumes "sorted_wrt (\<lambda>a b. \<not> insertion_sort b a) xs" "distinct (escape_offsets xs)" "\<forall>i\<in>set xs. single i"
  shows "sorted_wrt (\<lambda>x i. follows i x) xs"
  using assms
proof (induction xs)
  case (Cons x xs)
  have "follows i x" if i: "i \<in> set xs" for i
  proof -
    have "ins_offset i \<noteq> ins_offset x" if "ins_remove i = 1" "ins_remove x = 1"
      using Cons.prems(2) i that by (auto simp: escape_offsets_def image_iff)
    moreover have "single i" "single x" "\<not> insertion_sort i x" using Cons.prems i by auto
    ultimately show ?thesis by (auto simp: follows_def single_def ins_end_def insertion_sort_def split: if_splits)
  qed
  moreover have "distinct (escape_offsets xs)" using Cons.prems(2) by (auto simp: escape_offsets_def split: if_splits)
  ultimately show ?case using Cons by auto
qed simp

lemma applyInsertions_sorted:
  assumes "distinct (escape_offsets xs)" "\<forall>i\<in>set xs. single i \<and> ins_end i \<le> int (length t)"
  shows "applyInsertions 0 (std_sort insertion_sort xs) t = marked_up xs t"
proof -
  let ?ys = "std_sort insertion_sort xs"
  have "sorted_wrt (\<lambda>x i. follows i x) ?ys"
    using assms by (intro sorted_follows) (auto simp: distinct_escape_offsets_std_sort intro: sorted_std_sort [OF strict_insertion_sort])
  then show ?thesis using applyInsertions_marked_up [of ?ys t "[]"] assms by (simp add: marked_up_std_sort)
qed

text \<open>The characters that are escaped.\<close>

definition html_char :: "char \<Rightarrow> string" where
  "html_char c = (if c = CHR 0x0A then ''<br>'' else escape_char c)"

lemma char_positions_iff:
  "j \<in> set (char_positions c s i) \<longleftrightarrow> (\<exists>k<length s. j = i + int k \<and> s ! k = c)"
proof (induction s arbitrary: i)
  case (Cons x xs)
  show ?case (is "?l \<longleftrightarrow> ?r")
  proof
    assume ?l
    then consider "x = c" "j = i" | "j \<in> set (char_positions c xs (i + 1))" by (auto split: if_splits)
    then show ?r
    proof cases
      case 2
      then obtain k where "k < length xs" "j = i + 1 + int k" "xs ! k = c" using Cons.IH by auto
      then show ?thesis by (intro exI [of _ "Suc k"]) auto
    qed auto
  next
    assume ?r
    then obtain k where "k < length (x # xs)" "j = i + int k" "(x # xs) ! k = c" by blast
    then show ?l using Cons.IH [of "i + 1"] by (cases k) auto
  qed
qed simp

lemma char_positions_none: "c \<notin> set t \<Longrightarrow> char_positions c t i = []"
  by (induction t arbitrary: i) auto

lemma distinct_char_positions [simp]: "distinct (char_positions c s i)"
proof (induction s arbitrary: i)
  case (Cons x xs)
  then show ?case using char_positions_iff [of i c xs "i + 1"] by auto
qed simp

lemma newline_matches_char_positions:
  "CHR 0x0D \<notin> set s \<Longrightarrow> newline_matches s i = map (\<lambda>j. (j, 1)) (char_positions (CHR 0x0A) s i)"
  by (induction s arbitrary: i) auto

lemma escapeInsertions_charInsertions:
  "CHR 0x0D \<notin> set t \<Longrightarrow> escapeInsertions t =
     charInsertions (CHR ''<'') ''&lt;'' t @ charInsertions (CHR ''>'') ''&gt;'' t @
     charInsertions (CHR ''&'') ''&amp;'' t @ charInsertions (CHR 0x22) ''&quot;'' t @ charInsertions (CHR 0x0A) ''<br>'' t"
  by (simp add: escapeInsertions_def newlineInsertions_def newline_matches_char_positions charInsertions_def comp_def)

lemma charInsertions_mem:
  "i \<in> set (charInsertions c r t) \<longleftrightarrow> (\<exists>k<length t. i = \<lparr>ins_offset = int k, ins_text = r, ins_remove = 1\<rparr> \<and> t ! k = c)"
  by (auto simp: charInsertions_def image_iff char_positions_iff)

lemma escape_offsets_append [simp]: "escape_offsets (xs @ ys) = escape_offsets xs @ escape_offsets ys"
  by (simp add: escape_offsets_def)

lemma escape_offsets_charInsertions [simp]: "escape_offsets (charInsertions c r t) = char_positions c t 0"
  by (simp add: escape_offsets_def charInsertions_def comp_def)

lemma distinct_escapeInsertions: "CHR 0x0D \<notin> set t \<Longrightarrow> distinct (escape_offsets (escapeInsertions t))"
  by (auto simp: escapeInsertions_charInsertions char_positions_iff)

lemma single_escapeInsertions:
  "CHR 0x0D \<notin> set t \<Longrightarrow> i \<in> set (escapeInsertions t) \<Longrightarrow> single i \<and> ins_end i \<le> int (length t)"
  by (auto simp: escapeInsertions_charInsertions charInsertions_mem single_def ins_end_def)

lemma filter_at_most_one: "distinct (map f (filter P xs)) \<Longrightarrow> x \<in> set xs \<Longrightarrow> P x \<Longrightarrow>
    filter (\<lambda>y. P y \<and> f y = f x) xs = [x]"
  by (induction xs) (auto simp: filter_empty_conv image_iff split: if_splits)

lemma char_shown_escapes:
  assumes "CHR 0x0D \<notin> set t" "k < length t" "filter (escape_at k) es = []"
  shows "char_shown (es @ escapeInsertions t) t k = html_char (t ! k)"
proof -
  let ?xs = "escapeInsertions t" and ?i = "\<lparr>ins_offset = int k, ins_text = html_char (t ! k), ins_remove = 1\<rparr>"
  have escape_at: "escape_at k = (\<lambda>y. ins_remove y = 1 \<and> ins_offset y = ins_offset ?i)"
    by (auto simp: escape_at_def)
  show ?thesis
  proof (cases "t ! k \<in> {CHR ''<'', CHR ''>'', CHR ''&'', CHR 0x22, CHR 0x0A}")
    case True
    then have "?i \<in> set ?xs" using assms by (auto simp: escapeInsertions_charInsertions charInsertions_mem html_char_def escape_char_def)
    then have "filter (escape_at k) ?xs = [?i]"
      unfolding escape_at using distinct_escapeInsertions [OF assms(1)] by (intro filter_at_most_one) (simp_all add: escape_offsets_def)
    then show ?thesis using assms(3) by (simp add: char_shown_def)
  next
    case False
    then have "filter (escape_at k) ?xs = []" using assms
      by (auto simp: filter_empty_conv escape_at_def escapeInsertions_charInsertions charInsertions_mem)
    then show ?thesis using assms(3) False by (auto simp: char_shown_def html_char_def escape_char_def)
  qed
qed

lemma tags_escapes: "CHR 0x0D \<notin> set t \<Longrightarrow> tags (es @ escapeInsertions t) k = tags es k"
proof -
  assume "CHR 0x0D \<notin> set t"
  then have "filter (tag_at k) (escapeInsertions t) = []"
    by (auto simp: filter_empty_conv tag_at_def escapeInsertions_charInsertions charInsertions_mem)
  then show ?thesis by (simp add: tags_def)
qed

lemma replace_newlines_append_plain:
  "CHR 0x0A \<notin> set xs \<Longrightarrow> CHR 0x0D \<notin> set xs \<Longrightarrow> replace_newlines (xs @ ys) = xs @ replace_newlines ys"
  by (induction xs) auto

lemma getPlainEscapedFor_html: "CHR 0x0D \<notin> set t \<Longrightarrow> getPlainEscapedFor t = concat (map html_char t)"
proof (induction t)
  case (Cons c t)
  have "CHR 0x0A \<notin> set (escape_char c) \<and> CHR 0x0D \<notin> set (escape_char c)" if "c \<noteq> CHR 0x0A"
    using that Cons.prems by (auto simp: escape_char_def)
  then show ?case using Cons
    by (auto simp: getPlainEscapedFor_def toHtmlEscaped_def html_char_def replace_newlines_append_plain escape_char_def)
qed (simp add: getPlainEscapedFor_def toHtmlEscaped_def)

section \<open>The rich text of a list of entities\<close>

text \<open>What the entities put before position \<open>k\<close>, the later ones first.\<close>

fun entity_tags :: "text_class \<Rightarrow> string \<Rightarrow> nat \<Rightarrow> text_entity list \<Rightarrow> nat \<Rightarrow> string" where
  "entity_tags cls t i [] k = []"
| "entity_tags cls t i (e # es) k =
     entity_tags cls t (Suc i) es k @
     (if te_offset e + te_length e = int k then snd (getHtmlTags t i e) else []) @
     (if te_offset e = int k then fst (getHtmlTags t i e) else [])"

definition rich_text :: "text_class \<Rightarrow> text_entity list \<Rightarrow> string \<Rightarrow> string" where
  "rich_text cls es t =
     concat (map (\<lambda>k. entity_tags cls t 0 es k @ html_char (t ! k)) [0..<length t]) @ entity_tags cls t 0 es (length t)"

definition entity_within :: "string \<Rightarrow> text_entity \<Rightarrow> bool" where
  "entity_within t e \<longleftrightarrow> 0 \<le> te_offset e \<and> 0 \<le> te_length e \<and> te_offset e + te_length e \<le> int (length t)"

definition tags_only :: "char \<Rightarrow> text_class \<Rightarrow> text_entity \<Rightarrow> bool" where
  "tags_only shade cls e \<longleftrightarrow> getReplacement shade cls e = []"

lemma tags_entityInsertions:
  "\<forall>e\<in>set es. tags_only shade cls e \<Longrightarrow> tags (entityInsertions shade cls t i es) k = entity_tags cls t i es k"
proof (induction es arbitrary: i)
  case (Cons e es)
  obtain a b where ab: "getHtmlTags t i e = (a, b)" by fastforce
  show ?case using Cons ab by (auto simp: tags_def tag_at_def tags_only_def)
qed simp

lemma entityInsertions_tags:
  "\<forall>e\<in>set es. tags_only shade cls e \<and> entity_within t e \<Longrightarrow> x \<in> set (entityInsertions shade cls t i es) \<Longrightarrow>
     ins_remove x = 0 \<and> single x \<and> ins_end x \<le> int (length t)"
  by (induction es arbitrary: i)
    (auto simp: tags_only_def entity_within_def single_def ins_end_def Let_def split: prod.splits if_splits)

end
