(* ===== verification/ServiceProperties.thy ===== *)
theory ServiceProperties imports TdFile FormattedText
begin

text \<open>
  What the parts promise that serve the lists: the file objects and the rich texts.
\<close>

section \<open>Files\<close>

text \<open>The conditions on which a file is requested, the timer apart.\<close>

definition tf_wanted :: "td_file \<Rightarrow> bool" where
  "tf_wanted s \<longleftrightarrow> tf_id s \<noteq> 0 \<and> tf_tdlib s \<noteq> None \<and> \<not> is_downloading_active s \<and>
     \<not> is_downloading_completed s \<and> can_be_downloaded s"

lemma tf_downloadFile_wanted:
  "tf_downloadFile s = (if tf_wanted s \<and> \<not> downloadHoldOffTimer s
     then (True, tf_emit (TfDownloadFile (tf_id s)) (tf_emit TfStartTimer (s\<lparr>downloadHoldOffTimer := True\<rparr>))) else (False, s))"
  by (auto simp: tf_downloadFile_def tf_wanted_def)

text \<open>Fields that only concern the queue and the log.\<close>

definition tf_core :: "td_file \<Rightarrow> td_file" where
  "tf_core s = s\<lparr>queuedSignals := 0, firstQueuedSignal := 0, tf_outputs := []\<rparr>"

definition tf_served :: "td_file \<Rightarrow> bool" where
  "tf_served s \<longleftrightarrow> (autoLoad s \<and> tf_wanted s \<longrightarrow> downloadHoldOffTimer s)"

lemma tf_served_core: "tf_core s = tf_core t \<Longrightarrow> tf_served s = tf_served t"
  by (cases s, cases t) (simp add: tf_core_def tf_served_def tf_wanted_def)

lemma tf_core_fields:
  "tf_core s = tf_core t \<Longrightarrow> tf_wanted s = tf_wanted t \<and> autoLoad s = autoLoad t \<and> tf_id s = tf_id t \<and>
     downloadHoldOffTimer s = downloadHoldOffTimer t"
  by (cases s, cases t) (simp add: tf_core_def tf_wanted_def)

lemma tf_core_queue [simp]:
  "tf_core (tf_queueSignal x s) = tf_core s" "tf_core (tf_emit out s) = tf_core s"
  by (simp_all add: tf_core_def tf_queueSignal_def tf_emit_def Let_def)

lemma tf_core_emit_loop [simp]: "tf_core (tf_emit_loop i s) = tf_core s"
proof (induction i s rule: tf_emit_loop.induct)
  case (1 i s)
  then show ?case
    by (subst tf_emit_loop.simps) (auto simp: Let_def tf_core_def tf_emit_def)
qed

lemma tf_core_emitQueued [simp]: "tf_core (tf_emitQueuedSignals s) = tf_core s"
  unfolding tf_emitQueuedSignals_def by simp (simp add: tf_core_def)

lemmas tf_served_simps [simp] = tf_served_core [OF tf_core_queue(1)] tf_served_core [OF tf_core_queue(2)]
  tf_served_core [OF tf_core_emitQueued]

lemma tf_served_download [simp]: "tf_served (snd (tf_downloadFile s))"
  by (auto simp: tf_downloadFile_def tf_served_def tf_emit_def tf_wanted_def)

lemma tf_served_manual [simp]: "\<not> autoLoad s \<Longrightarrow> tf_served s"
  by (simp add: tf_served_def)

lemma tf_served_if [simp]: "tf_served (if autoLoad s then snd (tf_downloadFile s) else s)"
  by simp

lemma tf_served_setFileInfo [simp]: "tf_served (tf_setFileInfo file s)"
  by (simp add: tf_setFileInfo_def Let_def)

lemma autoLoad_updateFileInfo:
  assumes ok: "queue_ok s"
  shows "autoLoad (tf_updateFileInfo file s) = autoLoad s"
proof -
  obtain ks where ks: "list_all2 tf_step ks (tf_puts file)" "distinct ks" "SigAutoLoad \<notin> set ks"
    using tf_puts_steps [of "file"] by auto
  obtain js where js: "list_all2 tf_step js tf_clearPuts" "distinct js" "SigAutoLoad \<notin> set js"
    using tf_clearPuts_steps by auto
  obtain c t d u where run: "tf_runPuts (tf_puts file) s = (c, t)" "tf_runPuts tf_clearPuts s = (d, u)"
    by (metis surj_pair)
  have "autoLoad t = autoLoad s" "autoLoad u = autoLoad s"
    using tf_runPuts(3) [OF ks(1,2) ok run(1) ks(3)] tf_runPuts(3) [OF js(1,2) ok run(2) js(3)] by simp_all
  then show ?thesis using run by (simp add: tf_updateFileInfo_def tf_queueSignal_def Let_def)
qed

lemma tf_init_fields: "queue_ok (tf_updateTDLibWrapper w tf_init) \<and> \<not> autoLoad (tf_updateTDLibWrapper w tf_init)"
proof -
  have "tf_ok (tf_updateTDLibWrapper w tf_init)" using tf_init_ok tf_ok_updateTDLibWrapper by blast
  then show ?thesis by (simp add: tf_ok_def tf_updateTDLibWrapper_def tf_init_def tf_queueSignal_def Let_def)
qed

lemma tf_served_updateTDLib: "tf_served s \<Longrightarrow> tf_served (tf_updateTDLibWrapper w s)"
  by (auto simp: tf_updateTDLibWrapper_def Let_def) (auto simp: tf_served_def tf_wanted_def)

lemma tf_reaches_served: "tf_reaches s \<Longrightarrow> tf_served s"
proof (induction rule: tf_reaches.induct)
  case (createInfo tdlib info)
  then show ?case using tf_init_fields [of tdlib] by (simp add: tf_newInfo_def autoLoad_updateFileInfo)
next
  case (create tdlib)
  then show ?case using tf_init_fields [of tdlib] by (simp add: tf_new_def)
next
  case (load s)
  then show ?case by (simp add: tf_load_def)
next
  case (cancel s)
  then show ?case by (simp add: tf_cancel_def)
next
  case (setClear s b)
  then show ?case by (simp add: tf_setClearWithInvalidFileInfo_def) (simp add: tf_served_def tf_wanted_def)
qed (auto simp: tf_init_def tf_setTDLibWrapper_def tf_served_updateTDLib tf_setAutoLoad_def Let_def
      tf_getFile_def tf_timerEvent_def tf_handleFileUpdated_def)

text \<open>A file that loads by itself is never left waiting: in every state that the operations, the
updates of TDLib and the timer reach, a file that could be requested (it has an id and a TDLib, is
not loading, not complete and can be downloaded) has its hold-off running, so that the timer will
request it again.\<close>

theorem auto_load_never_idle:
  assumes "tf_reaches s" and "autoLoad s" and "tf_wanted s"
  shows "downloadHoldOffTimer s"
  using tf_reaches_served [OF assms(1)] assms(2,3) by (simp add: tf_served_def)

definition sample_file :: vmap where
  "sample_file = minsert ''@type'' (QString ''file'') (minsert ''id'' (QInt 12) (minsert ''local''
     (QMap (minsert ''@type'' (QString ''localFile'') (minsert ''can_be_downloaded'' (QBool True) fmempty))) fmempty))"

definition sample_auto_file :: td_file where
  "sample_auto_file = tf_setAutoLoad True (tf_newInfo (Some 1) sample_file)"

lemma sample_auto_file_reached: "tf_reaches sample_auto_file"
  unfolding sample_auto_file_def by (intro tf_reaches.setAutoLoad tf_reaches.createInfo)

lemma sample_auto_file_wanted: "autoLoad sample_auto_file \<and> tf_wanted sample_auto_file \<and> tf_id sample_auto_file = 12"
proof -
  obtain t where t: "tf_newInfo (Some 1) sample_file = t" "tf_id t = 12" "tf_wanted t" "\<not> autoLoad t"
    by (simp add: tf_newInfo_def sample_file_def tf_updateFileInfo_def tf_runPuts_def tf_puts_def tf_filePuts_def
        tf_localPuts_def tf_put_def tf_queueSignal_def tf_init_def tf_updateTDLibWrapper_def tf_wanted_def)
  let ?u = "tf_queueSignal SigAutoLoad (t\<lparr>autoLoad := True\<rparr>)"
  have "tf_core sample_auto_file = tf_core (snd (tf_downloadFile ?u))"
    using t by (simp add: sample_auto_file_def tf_setAutoLoad_def Let_def) (simp add: tf_queueSignal_def Let_def)
  moreover have "autoLoad (snd (tf_downloadFile ?u)) \<and> tf_wanted (snd (tf_downloadFile ?u)) \<and> tf_id (snd (tf_downloadFile ?u)) = 12"
    using t by (simp add: tf_downloadFile_wanted tf_queueSignal_def Let_def tf_wanted_def tf_emit_def)
  ultimately show ?thesis using tf_core_fields by metis
qed

theorem auto_load_never_idle_witness: "downloadHoldOffTimer sample_auto_file"
  using auto_load_never_idle [OF sample_auto_file_reached] sample_auto_file_wanted by blast

lemma tf_timerEvent_wanted:
  assumes "autoLoad s" "tf_wanted s"
  shows "tf_timerEvent s = s\<lparr>downloadHoldOffTimer := True,
    tf_outputs := tf_outputs s @ [TfKillTimer, TfStartTimer, TfDownloadFile (tf_id s)]\<rparr>"
  using assms by (simp add: tf_timerEvent_def tf_killTimer_def Let_def tf_downloadFile_wanted tf_wanted_def tf_emit_def)

text \<open>A file that loads by itself is requested again and again until TDLib answers: each time the
hold-off ends it is stopped, started anew and the file is requested once more, and nothing else
changes.\<close>

theorem auto_load_retries:
  assumes "autoLoad s" and "tf_wanted s" and "downloadHoldOffTimer s"
  shows "(tf_timerEvent ^^ n) s = s\<lparr>tf_outputs := tf_outputs s @
           concat (replicate n [TfKillTimer, TfStartTimer, TfDownloadFile (tf_id s)])\<rparr>"
proof (induction n)
  case (Suc n)
  let ?xs = "[TfKillTimer, TfStartTimer, TfDownloadFile (tf_id s)]"
  have "concat (replicate n ?xs) @ ?xs = ?xs @ concat (replicate n ?xs)" by (induction n) simp_all
  then show ?case using Suc assms tf_timerEvent_wanted [of "s\<lparr>tf_outputs := tf_outputs s @ concat (replicate n ?xs)\<rparr>"]
    by (simp add: tf_wanted_def)
qed simp

theorem auto_load_retries_witness:
  "tf_outputs ((tf_timerEvent ^^ 2) sample_auto_file) = tf_outputs sample_auto_file @
     [TfKillTimer, TfStartTimer, TfDownloadFile 12, TfKillTimer, TfStartTimer, TfDownloadFile 12]"
proof -
  have "tf_served sample_auto_file" using tf_reaches_served [OF sample_auto_file_reached] .
  then have "downloadHoldOffTimer sample_auto_file" using sample_auto_file_wanted by (simp add: tf_served_def)
  with auto_load_retries [of sample_auto_file 2] sample_auto_file_wanted show ?thesis by (simp add: numeral_2_eq_2)
qed

text \<open>C12: Requests for a file never overlap: in the log of every reachable state a hold-off is started
before each request, there is one request in each hold-off, and a hold-off is ended before the next
one starts; the timer runs exactly when the last one has not been ended.\<close>

theorem requests_held_off:
  assumes "tf_reaches s"
  shows "hold_off_run (tf_outputs s) Idle = Some (if downloadHoldOffTimer s then HoldOff True else Idle)"
  using tf_reaches_ok [OF assms] by (simp add: tf_ok_def held_def)

theorem requests_held_off_witness: "hold_off_run (tf_outputs (tf_timerEvent sample_auto_file)) Idle \<noteq> None"
proof -
  have "tf_served sample_auto_file" using tf_reaches_served [OF sample_auto_file_reached] .
  then have "tf_reaches (tf_timerEvent sample_auto_file)"
    using sample_auto_file_wanted sample_auto_file_reached by (simp add: tf_served_def tf_reaches.timer)
  from requests_held_off [OF this] show ?thesis by simp
qed

text \<open>C8: New information about a file is announced exactly: after at most a stop of the timer and a
request, the signals go out in the order of their numbers, each once; every property that reads
differently has its signal, no other has, except that of the information itself; and nothing stays
queued.\<close>

theorem file_update_announced:
  assumes "tf_reaches s"
  shows "\<exists>reqs sigs. let t = tf_setFileInfo file s; changed = {k. tf_value k t \<noteq> tf_value k s}
         in tf_outputs t = tf_outputs s @ reqs @ map TfSignal sigs \<and>
            reqs \<in> {[], [TfKillTimer], [TfStartTimer, TfDownloadFile (tf_id t)]} \<and>
            sorted_wrt (<) sigs \<and> changed \<subseteq> set sigs \<and> set sigs \<subseteq> insert SigFileInfo changed \<and> queuedSignals t = 0"
proof -
  let ?t = "tf_setFileInfo file s"
  define u where "u = tf_updateFileInfo file s"
  define v where "v = (if is_downloading_completed u \<and> downloadHoldOffTimer u then tf_killTimer u else u)"
  define w where "w = (if autoLoad v then snd (tf_downloadFile v) else v)"
  have s: "queue_ok s" "tf_queued s = {}" using tf_reaches_ok [OF assms] by (auto simp: tf_ok_def)
  note upd = tf_updateFileInfo [OF s(1), of "file", folded u_def]
  have t: "?t = tf_emitQueuedSignals w" by (simp add: tf_setFileInfo_def u_def v_def w_def Let_def)
  have v: "queue_ok v" "tf_queued v = tf_queued u" "\<forall>k. tf_value k v = tf_value k u" "tf_id v = tf_id u"
    using upd(1) by (auto simp: v_def tf_killTimer_def tf_emit_def queue_ok_def all_file_signal file_signals_def tf_queued_def)
  have w: "queue_ok w" "tf_queued w = tf_queued u" "\<forall>k. tf_value k w = tf_value k u" "tf_id w = tf_id u"
    using v by (auto simp: w_def tf_downloadFile_def tf_emit_def queue_ok_def all_file_signal file_signals_def tf_queued_def)
  note e = tf_emitQueuedSignals [OF w(1)]
  have fields: "\<forall>k. tf_value k ?t = tf_value k w" "tf_id ?t = tf_id w"
    unfolding t using e(4) by (auto simp: all_file_signal file_signals_def)
  obtain reqs where reqs: "tf_outputs w = tf_outputs s @ reqs" "reqs \<in> {[], [TfKillTimer], [TfStartTimer, TfDownloadFile (tf_id w)]}"
  proof (cases "is_downloading_completed u \<and> downloadHoldOffTimer u")
    case True
    then have "w = tf_killTimer u" by (simp add: w_def v_def tf_killTimer_def tf_emit_def tf_downloadFile_def)
    then show ?thesis using that upd(2) by (simp add: tf_killTimer_def tf_emit_def)
  next
    case False
    then have "w = u \<or> w = snd (tf_downloadFile u)" by (auto simp: w_def v_def)
    then show ?thesis using that [of "[]"] that [of "[TfStartTimer, TfDownloadFile (tf_id w)]"] upd(2)
      by (auto simp: tf_downloadFile_def tf_emit_def split: if_splits)
  qed
  have "queuedSignals ?t = 0" using e(2,3) queue_empty unfolding t by blast
  moreover have "sorted_wrt (<) (sorted_list_of_set (tf_queued w))" by (simp add: strict_sorted_iff)
  moreover have "finite (tf_queued w)" using file_signals_order(3) by (metis List.finite_set rev_finite_subset subset_UNIV)
  ultimately show ?thesis
    using e(1) reqs upd(4,5) s(2) w fields unfolding Let_def t
    by (intro exI [of _ reqs] exI [of _ "sorted_list_of_set (tf_queued w)"]) simp
qed

theorem file_update_announced_witness: "TfSignal SigId \<in> set (tf_outputs (tf_setFileInfo sample_file tf_init))"
proof -
  have "tf_id (tf_updateFileInfo sample_file tf_init) = 12" "autoLoad (tf_updateFileInfo sample_file tf_init) = False"
    "is_downloading_completed (tf_updateFileInfo sample_file tf_init) = False"
    by (simp_all add: sample_file_def tf_updateFileInfo_def tf_runPuts_def tf_puts_def tf_filePuts_def
        tf_localPuts_def tf_put_def tf_queueSignal_def tf_init_def)
  then have "tf_id (tf_setFileInfo sample_file tf_init) = 12"
    using tf_core_fields [OF tf_core_emitQueued [of "tf_updateFileInfo sample_file tf_init"]]
    by (simp add: tf_setFileInfo_def)
  then have "SigId \<in> {k. tf_value k (tf_setFileInfo sample_file tf_init) \<noteq> tf_value k tf_init}" by (simp add: tf_init_def)
  moreover have "TfSignal SigId \<in> set (tf_outputs (tf_setFileInfo sample_file tf_init))"
    if "{k. tf_value k (tf_setFileInfo sample_file tf_init) \<noteq> tf_value k tf_init} \<subseteq> set sigs"
      "tf_outputs (tf_setFileInfo sample_file tf_init) = tf_outputs tf_init @ reqs @ map TfSignal sigs"
      "SigId \<in> {k. tf_value k (tf_setFileInfo sample_file tf_init) \<noteq> tf_value k tf_init}" for reqs sigs
  proof -
    have "SigId \<in> set sigs" using that(1,3) by blast
    then show ?thesis unfolding that(2) by simp
  qed
  ultimately show ?thesis using file_update_announced [OF tf_reaches.init, of sample_file] unfolding Let_def by blast
qed

lemma tf_emit_loop_infoMap: "tf_emit_loop i (s\<lparr>infoMap := m\<rparr>) = (tf_emit_loop i s)\<lparr>infoMap := m\<rparr>"
proof (induction i s rule: tf_emit_loop.induct)
  case (1 i s)
  show ?case
  proof (cases "i < SignalCount \<and> queuedSignals s \<noteq> 0")
    case True
    show ?thesis using "1.IH" [OF True refl] True
      unfolding tf_emit_loop.simps [of i s] tf_emit_loop.simps [of i "s\<lparr>infoMap := m\<rparr>"]
      by (cases s) (simp add: Let_def tf_emit_def split: if_splits)
  qed (auto simp: tf_emit_loop.simps)
qed

lemma tf_announce_infoMap:
  "tf_emitQueuedSignals (s\<lparr>infoMap := m\<rparr>) = (tf_emitQueuedSignals s)\<lparr>infoMap := m\<rparr>"
  "snd (tf_downloadFile (s\<lparr>infoMap := m\<rparr>)) = (snd (tf_downloadFile s))\<lparr>infoMap := m\<rparr>"
  "tf_killTimer (s\<lparr>infoMap := m\<rparr>) = (tf_killTimer s)\<lparr>infoMap := m\<rparr>"
  "tf_queueSignal x (s\<lparr>infoMap := m\<rparr>) = (tf_queueSignal x s)\<lparr>infoMap := m\<rparr>"
  using tf_emit_loop_infoMap [of "firstQueuedSignal s" m "s\<lparr>firstQueuedSignal := SignalCount\<rparr>"]
  by ((cases s, simp add: tf_emitQueuedSignals_def tf_downloadFile_def tf_killTimer_def tf_emit_def tf_queueSignal_def Let_def)+)

lemma tf_infoMap_same: "\<exists>m. t = t\<lparr>infoMap := m\<rparr>"
  by (rule exI [of _ "infoMap t"]) simp

lemma tf_updateFileInfo_puts:
  assumes "tf_puts a = tf_puts b" "mvalue a ''@type'' = mvalue b ''@type''"
  shows "\<exists>m. tf_updateFileInfo b s = (tf_updateFileInfo a s)\<lparr>infoMap := m\<rparr>"
proof (cases "toString (mvalue b ''@type'') = ''file'' \<and> fst (tf_runPuts (tf_puts b) s)")
  case True
  obtain t where run: "tf_runPuts (tf_puts b) s = (True, t)" using True by (cases "tf_runPuts (tf_puts b) s") auto
  have "tf_queueSignal SigFileInfo (t\<lparr>infoMap := b\<rparr>) = (tf_queueSignal SigFileInfo (t\<lparr>infoMap := a\<rparr>))\<lparr>infoMap := b\<rparr>"
    by (simp add: tf_announce_infoMap)
  then show ?thesis using assms run True by (intro exI [of _ b]) (simp add: tf_updateFileInfo_def)
next
  case False
  then have "tf_updateFileInfo b s = tf_updateFileInfo a s"
    using assms by (auto simp: tf_updateFileInfo_def split: prod.splits)
  then show ?thesis using tf_infoMap_same [of "tf_updateFileInfo a s"] by metis
qed

text \<open>The remote part of the information about a file is not read: as long as it says that it is one,
whatever ids and upload states it has, the file ends in the same state, the stored information
apart, and sends the same signals. The code reads them from the file and from its local part instead.\<close>

theorem remote_part_ignored:
  assumes "toString (mvalue (toMap remote) ''@type'') = toString (mvalue (toMap remote') ''@type'')"
  shows "\<exists>m. tf_setFileInfo (minsert ''remote'' remote' info) s = (tf_setFileInfo (minsert ''remote'' remote info) s)\<lparr>infoMap := m\<rparr>"
proof -
  have "tf_remotePuts (minsert ''remote'' remote info) l = tf_remotePuts (minsert ''remote'' remote' info) l" for l
    by (simp add: tf_remotePuts_def)
  then have "tf_puts (minsert ''remote'' remote info) = tf_puts (minsert ''remote'' remote' info)"
    using assms by (simp add: tf_puts_def tf_filePuts_def Let_def cong: if_cong)
  then obtain m where "tf_updateFileInfo (minsert ''remote'' remote' info) s =
      (tf_updateFileInfo (minsert ''remote'' remote info) s)\<lparr>infoMap := m\<rparr>"
    using tf_updateFileInfo_puts [of "minsert ''remote'' remote info" "minsert ''remote'' remote' info" s] by auto
  then show ?thesis by (intro exI [of _ m]) (simp add: tf_setFileInfo_def Let_def tf_announce_infoMap)
qed

theorem remote_part_ignored_witness:
  "\<exists>m. tf_setFileInfo (minsert ''remote'' (QMap (minsert ''@type'' (QString ''remoteFile'')
           (minsert ''id'' (QString ''AQAD'') (minsert ''is_uploading_active'' (QBool True) fmempty)))) sample_file) tf_init =
     (tf_setFileInfo (minsert ''remote'' (QMap (minsert ''@type'' (QString ''remoteFile'') fmempty)) sample_file) tf_init)\<lparr>infoMap := m\<rparr>"
  by (rule remote_part_ignored) simp

section \<open>Rich texts\<close>

lemma rich_text_unmarked:
  assumes "\<And>k. entity_tags cls t 0 es k = []"
  shows "rich_text cls es t = concat (map html_char t)"
proof -
  have "concat (map (\<lambda>k. html_char (t ! k)) [0..<length t]) = concat (map html_char (map ((!) t) [0..<length t]))"
    by (simp add: comp_def)
  then show ?thesis by (simp add: rich_text_def assms map_nth)
qed

lemma parseText_rich_text:
  assumes tagged: "\<forall>e\<in>set (entities ft). tags_only shade cls e \<and> entity_within (plainText ft) e"
    and plain: "CHR 0x0D \<notin> set (plainText ft)" "prefixOffset ft = 0"
  shows "parseText shade cls True ft = rich_text cls (entities ft) (plainText ft)"
proof -
  let ?t = "plainText ft" and ?es = "entities ft"
  let ?xs = "entityInsertions shade cls ?t 0 ?es"
  have tags: "tags ?xs k = entity_tags cls ?t 0 ?es k" for k using tagged by (simp add: tags_entityInsertions)
  have xs: "ins_remove x = 0 \<and> single x \<and> ins_end x \<le> int (length ?t)" if "x \<in> set ?xs" for x
    using entityInsertions_tags [OF tagged that] .
  show ?thesis
  proof (cases "?xs = []")
    case True
    then have "entity_tags cls ?t 0 ?es k = []" for k using tags [of k] by simp
    then show ?thesis using True plain by (simp add: parseText_def rich_text_unmarked getPlainEscapedFor_html Let_def)
  next
    case False
    let ?ys = "?xs @ escapeInsertions ?t"
    have "escape_offsets ?xs = []" using xs by (auto simp: escape_offsets_def filter_empty_conv)
    then have "applyInsertions 0 (std_sort insertion_sort ?ys) ?t = marked_up ?ys ?t"
      using xs plain by (intro applyInsertions_sorted) (auto simp: distinct_escapeInsertions single_escapeInsertions)
    moreover have "filter (escape_at k) ?xs = []" for k using xs by (auto simp: filter_empty_conv escape_at_def)
    then have "marked_up ?ys ?t = rich_text cls ?es ?t"
      using plain unfolding marked_up_def rich_text_def
      by (intro arg_cong2 [where f = "(@)"] concat_map_cong) (simp_all add: tags_escapes tags char_shown_escapes)
    moreover have "?es \<noteq> []" using False by (cases ?es) auto
    ultimately show ?thesis using False plain by (simp add: parseText_def)
  qed
qed



lemma upt_two: "0 < n \<Longrightarrow> n < m \<Longrightarrow> [0..<m] = 0 # [Suc 0..<n] @ n # [Suc n..<m]"
  using upt_add_eq_append [of 0 n "m - n"] upt_conv_Cons [of 0 n] upt_conv_Cons [of n m] by simp

lemma map_slice:
  assumes "\<And>k. i \<le> k \<Longrightarrow> k < j \<Longrightarrow> f k = g (xs ! k)" "j \<le> length xs" "n = j - i"
  shows "map f [i..<j] = map g (take n (drop i xs))"
  using assms by (intro nth_equalityI) auto

text \<open>Two adjacent entities get crossing tags: the second one is opened before the first one is closed, so
that what is between them is not well-formed markup.\<close>

theorem adjacent_entities_cross:
  assumes "xs \<noteq> []" and "ys \<noteq> []" and "CHR 0x0D \<notin> set (xs @ ys)"
    and "te_offset a = 0" and "te_length a = int (length xs)" and "te_offset b = int (length xs)" and "te_length b = int (length ys)"
    and "tags_only shade cls a" and "tags_only shade cls b"
  shows "parseText shade cls True (newFormattedText (xs @ ys) [a, b]) =
     fst (getHtmlTags (xs @ ys) 0 a) @ concat (map html_char xs) @ fst (getHtmlTags (xs @ ys) 1 b) @
     snd (getHtmlTags (xs @ ys) 0 a) @ concat (map html_char ys) @ snd (getHtmlTags (xs @ ys) 1 b)"
proof -
  let ?t = "xs @ ys" and ?n = "length xs"
  let ?f = "\<lambda>k. entity_tags cls ?t 0 [a, b] k @ html_char (?t ! k)"
  have split: "[0..<length ?t] = 0 # [Suc 0..<?n] @ ?n # [Suc ?n..<length ?t]"
    using assms(1,2) by (intro upt_two) simp_all
  have "parseText shade cls True (newFormattedText ?t [a, b]) = rich_text cls [a, b] ?t"
    using parseText_rich_text [of "newFormattedText ?t [a, b]" shade cls] assms
    by (simp add: newFormattedText_def entity_within_def)
  also have "\<dots> = ?f 0 @ concat (map ?f [Suc 0..<?n]) @ ?f ?n @ concat (map ?f [Suc ?n..<length ?t]) @
      entity_tags cls ?t 0 [a, b] (length ?t)"
    by (simp only: rich_text_def split map_append list.map concat_append concat.simps append_assoc)
  also have "map ?f [Suc 0..<?n] = map html_char (take (?n - 1) (drop (Suc 0) ?t))"
    using assms(4-7) by (intro map_slice) auto
  also have "map ?f [Suc ?n..<length ?t] = map html_char (take (length ys - 1) (drop (Suc ?n) ?t))"
    using assms(4-7) by (intro map_slice) auto
  also have "?f 0 = fst (getHtmlTags ?t 0 a) @ html_char (hd xs)"
    using assms(1,2,4-7) by (cases xs; cases ys) simp_all
  also have "?f ?n = fst (getHtmlTags ?t 1 b) @ snd (getHtmlTags ?t 0 a) @ html_char (hd ys)"
    using assms(1,2,4-7) by (cases xs; cases ys) (simp_all add: nth_append)
  also have "entity_tags cls ?t 0 [a, b] (length ?t) = snd (getHtmlTags ?t 1 b)"
    using assms(1,2,4-7) by (cases xs; cases ys) simp_all
  finally show ?thesis using assms(1,2) by (cases xs; cases ys) simp_all
qed

theorem adjacent_entities_cross_witness:
  "parseText CHR ''#'' plainClass True (newFormattedText (''ab'' @ ''cd'')
     [\<lparr>te_type = TBold, typeData = QInvalid, te_offset = 0, te_length = 2\<rparr>,
      \<lparr>te_type = TItalic, typeData = QInvalid, te_offset = 2, te_length = 2\<rparr>]) = ''<b>ab<i></b>cd</i>''"
proof (subst adjacent_entities_cross)
  show "tags_only CHR ''#'' plainClass \<lparr>te_type = TBold, typeData = QInvalid, te_offset = 0, te_length = 2\<rparr>"
    "tags_only CHR ''#'' plainClass \<lparr>te_type = TItalic, typeData = QInvalid, te_offset = 2, te_length = 2\<rparr>"
    by (simp_all add: tags_only_def getReplacement_def)
qed (simp_all add: getHtmlTags_def html_char_def escape_char_def)

lemma show_int_0: "show_int 0 = ''0''"
  by code_simp

text \<open>The address of a link and the user of a named mention are lost when a text is read: whatever address
TDLib gives, the link leads to \<open>0\<close>, and a mention of any user leads to the chat with user 0.\<close>

theorem link_target_lost:
  "getHtmlTags t i (newEntity (minsert ''type'' (QMap (minsert ''@type'' (QString ''textEntityTypeTextUrl'')
      (minsert ''url'' (QString address) fmempty))) rest)) = linkTags ''0'' \<and>
   getHtmlTags t i (newEntity (minsert ''type'' (QMap (minsert ''@type'' (QString ''textEntityTypeMentionName'')
      (minsert ''user_id'' (QInt user) fmempty))) rest)) = linkTags ''userId://0'' \<and>
   handleLink ''userId://0'' skip check = CreatePrivateChat 0"
proof -
  have "string_toLongLong ''0'' = 0" by code_simp
  then show ?thesis
    by (simp add: newEntity_def entityTypeFromString_def entityTypeData_def getHtmlTags_def show_int_0
        handleLink_def startsWith_def Let_def)
qed

text \<open>What a spoiler shows of the characters below it.\<close>

lemma char_positions_append: "char_positions c (xs @ ys) i = char_positions c xs i @ char_positions c ys (i + int (length xs))"
  by (induction xs arbitrary: i) (auto simp: algebra_simps)

definition special :: "char set" where
  "special = {CHR ''<'', CHR ''>'', CHR ''&'', CHR 0x22, CHR 0x0A, CHR 0x0D}"

lemma escapeInsertions_one:
  assumes "c \<in> special" "c \<noteq> CHR 0x0D" "set xs \<inter> special = {}" "set ys \<inter> special = {}"
  shows "escapeInsertions (xs @ c # ys) = [\<lparr>ins_offset = int (length xs), ins_text = html_char c, ins_remove = 1\<rparr>]"
proof -
  have "char_positions d (xs @ c # ys) 0 = (if c = d then [int (length xs)] else [])" if "d \<in> special" for d
  proof -
    have "d \<notin> set xs" "d \<notin> set ys" using assms(3,4) that by blast+
    then show ?thesis by (simp add: char_positions_append char_positions_none)
  qed
  moreover have "CHR 0x0D \<notin> set (xs @ c # ys)" using assms by (auto simp: special_def)
  ultimately show ?thesis using assms(1,2)
    by (auto simp: escapeInsertions_charInsertions charInsertions_def special_def html_char_def escape_char_def)
qed

text \<open>In the short form of a text a spoiler does not hide the characters that are escaped: they are put into
the row of shades again, so that a quote, an angle bracket or a line feed in a hidden text shows.\<close>

theorem spoiler_shows_specials:
  assumes "c \<in> special" and "c \<noteq> CHR 0x0D" and "set xs \<inter> special = {}" and "set ys \<inter> special = {}" and "ys \<noteq> []"
    and "te_type e = TSpoiler" and "te_offset e = 0" and "te_length e = int (length xs + 1 + length ys)"
  shows "parseText shade plainClass True (newFormattedText (xs @ c # ys) [e]) =
     fst (getHtmlTags (xs @ c # ys) 0 e) @ replicate (length xs) shade @ html_char c @ replicate (length ys) shade @
     snd (getHtmlTags (xs @ c # ys) 0 e)"
proof -
  let ?t = "xs @ c # ys" and ?n = "int (length xs + 1 + length ys)"
  let ?shades = "replicate (nat ?n) shade"
  obtain a b where ab: "getHtmlTags ?t 0 e = (a, b)" by fastforce
  let ?repl = "\<lparr>ins_offset = 0, ins_text = ?shades, ins_remove = ?n\<rparr>"
  let ?esc = "\<lparr>ins_offset = int (length xs), ins_text = html_char c, ins_remove = 1\<rparr>"
  let ?tag = "\<lambda>i x. \<lparr>ins_offset = i, ins_text = x, ins_remove = 0\<rparr>"
  let ?tags = "if a = [] \<and> b = [] then [] else [?tag 0 a, ?tag ?n b]"
  have ins: "entityInsertions shade plainClass ?t 0 [e] = ?repl # ?tags"
    using assms(6-8) ab by (simp add: getReplacement_def plainClass_def nat_add_distrib)
  have sort: "std_sort insertion_sort ((?repl # ?tags) @ [?esc]) =
      (if a = [] \<and> b = [] then [?repl, ?esc] else [?tag ?n b, ?repl, ?esc, ?tag 0 a])"
    using assms(5) by (cases ys) (simp_all add: std_sort_def insertion_sort_def)
  have shades: "?shades = replicate (length xs) shade @ shade # replicate (length ys) shade"
  proof -
    have "nat ?n = length xs + Suc (length ys)" by simp
    then show ?thesis by (simp only: replicate_add replicate_Suc)
  qed
  have "applyInsertions 0 (std_sort insertion_sort ((?repl # ?tags) @ [?esc])) ?t =
      a @ replicate (length xs) shade @ html_char c @ replicate (length ys) shade @ b"
    unfolding sort unfolding shades by (auto simp: applyInsertions_def qreplace_def nat_add_distrib)
  moreover have "parseText shade plainClass True (newFormattedText ?t [e]) =
      applyInsertions 0 (std_sort insertion_sort ((?repl # ?tags) @ [?esc])) ?t"
    by (simp only: parseText_def newFormattedText_def formatted_text.simps Let_def ins escapeInsertions_one [OF assms(1-4)])
       (simp del: of_nat_add)
  ultimately show ?thesis using ab by simp
qed

theorem spoiler_shows_specials_witness:
  "parseText CHR ''#'' plainClass True
     (newFormattedText ''a<b'' [\<lparr>te_type = TSpoiler, typeData = QBool True, te_offset = 0, te_length = 3\<rparr>]) = ''#&lt;#''"
  using spoiler_shows_specials [of "CHR ''<''" "''a''" "''b''"
    "\<lparr>te_type = TSpoiler, typeData = QBool True, te_offset = 0, te_length = 3\<rparr>" "CHR ''#''"]
  by (simp add: special_def getHtmlTags_def html_char_def escape_char_def)

text \<open>The links of spoilers.\<close>

lemma startsWith_append [simp]: "startsWith (p @ x) p"
  by (simp add: startsWith_def)

definition spoiler_link :: "nat \<Rightarrow> string" where
  "spoiler_link i = ''revealSpoiler://'' @ show_int (int i)"

lemma fx_handleTextLink_spoiler:
  assumes "i < 2 ^ 31"
  shows "fx_handleTextLink (spoiler_link i) s =
     (if i \<le> length (entities s)
      then do { e \<leftarrow> qat (entities s) i; Some (True, fx_emit FxParsedTextChanged (s\<lparr>entities := (entities s)[i := e\<lparr>typeData := QBool True\<rparr>]\<rparr>)) }
      else Some (True, s))"
proof -
  have "in_int64 (int i)" using assms by (simp add: in_int64_def)
  then have "string_toInt (show_int (int i)) = Some (int i)"
    using assms by (simp add: string_toInt_def parse_int_show_int)
  moreover have "startsWith (spoiler_link i) ''revealSpoiler://''" "drop 16 (spoiler_link i) = show_int (int i)"
    unfolding spoiler_link_def by (rule startsWith_append) simp
  ultimately show ?thesis by (simp add: fx_handleTextLink_def)
qed

text \<open>The link in the tag of a hidden spoiler reveals that spoiler and no other: when it is followed, the
text is announced as changed, asks TDLib for nothing, and differs only in this entity, which then has
no tag.\<close>

theorem spoiler_link_reveals:
  assumes "i < length (entities s)" and "i < 2 ^ 31" and "te_type (entities s ! i) = TSpoiler" and "\<not> toBool (typeData (entities s ! i))"
  shows "\<exists>e. fst (getHtmlTags t i (entities s ! i)) = ''<a class='' @ quoted ''spoiler'' @ '' href='' @ quoted (spoiler_link i) @ ''>'' \<and>
     fx_handleLink (spoiler_link i) skip check s = Some (fx_emit FxParsedTextChanged (s\<lparr>entities := (entities s)[i := e]\<rparr>)) \<and>
     e = (entities s ! i)\<lparr>typeData := QBool True\<rparr> \<and> getHtmlTags t i e = ([], [])"
  using assms by (simp add: getHtmlTags_def Let_def fx_handleLink_def fx_handleTextLink_spoiler) (simp add: spoiler_link_def)

definition sample_spoiler_text :: full_text where
  "sample_spoiler_text = fx_new (newFormattedText ''secret'' [\<lparr>te_type = TSpoiler, typeData = QBool False, te_offset = 0, te_length = 6\<rparr>]) (Some 1)"

lemma sample_spoiler_text_entities:
  "entities sample_spoiler_text = [\<lparr>te_type = TSpoiler, typeData = QBool False, te_offset = 0, te_length = 6\<rparr>]"
  by (simp add: sample_spoiler_text_def fx_new_def formatted_text.defs newFormattedText_def)

theorem spoiler_link_reveals_witness:
  "fx_handleLink (spoiler_link 0) False False sample_spoiler_text = Some (fx_emit FxParsedTextChanged
     (sample_spoiler_text\<lparr>entities := [\<lparr>te_type = TSpoiler, typeData = QBool True, te_offset = 0, te_length = 6\<rparr>]\<rparr>))"
  using spoiler_link_reveals [of 0 sample_spoiler_text "[]" False False] by (simp add: sample_spoiler_text_entities)

text \<open>The link to a spoiler one past the last entity passes the check of its number and is written out of
range, for the empty text as for any other; one further is ignored.\<close>

theorem reveal_past_the_end:
  assumes "length (entities s) + 1 < 2 ^ 31"
  shows "fx_handleLink (spoiler_link (length (entities s))) skip check s = None \<and>
         fx_handleLink (spoiler_link (length (entities s) + 1)) skip check s = Some s"
  using assms by (simp add: fx_handleLink_def fx_handleTextLink_spoiler qat_def)

theorem reveal_past_the_end_witness: "fx_handleLink (spoiler_link 1) False False sample_spoiler_text = None"
  using reveal_past_the_end [of sample_spoiler_text False False] by (simp add: sample_spoiler_text_entities)

end
