(* ===== verification/Bytes.thy ===== *)
theory Bytes imports YaqtPrelude
begin

text \<open>
  Bytes and their base64 text, as \<open>QByteArray\<close> has them: the encryption keys and peer tags of
  \<open>CallsManager\<close> and the waveforms of \<open>WaveformManager\<close> come from TDLib in base64. A byte is a
  natural number below 256. The round trip of the two conversions is proved here.
\<close>

section \<open>Reading\<close>

text \<open>
  \<open>QByteArray::fromBase64\<close>: six bits for each character of the alphabet, others skipped, a byte
  whenever eight bits are there.
\<close>

definition base64_digit :: "char \<Rightarrow> nat option" where
  "base64_digit c =
     (let n = (of_char c :: nat) in
      if 65 \<le> n \<and> n \<le> 90 then Some (n - 65)
      else if 97 \<le> n \<and> n \<le> 122 then Some (n - 97 + 26)
      else if 48 \<le> n \<and> n \<le> 57 then Some (n - 48 + 52)
      else if n = 43 then Some 62
      else if n = 47 then Some 63
      else None)"

fun base64_loop :: "string \<Rightarrow> nat \<Rightarrow> nat \<Rightarrow> nat list" where
  "base64_loop [] buf nbits = []"
| "base64_loop (c # cs) buf nbits =
     (case base64_digit c of
        None \<Rightarrow> base64_loop cs buf nbits
      | Some d \<Rightarrow>
          (let buf' = buf * 64 + d; n = nbits + 6
           in if n \<ge> 8 then (buf' div 2 ^ (n - 8)) # base64_loop cs (buf' mod 2 ^ (n - 8)) (n - 8)
              else base64_loop cs buf' n))"

definition fromBase64 :: "string \<Rightarrow> nat list" where
  "fromBase64 s = base64_loop s 0 0"

section \<open>Printing\<close>

text \<open>\<open>QByteArray::toBase64\<close>: three bytes are four characters, the last group is filled with \<open>=\<close>.\<close>

definition base64_char :: "nat \<Rightarrow> char" where
  "base64_char d =
     (if d < 26 then char_of (d + 65) else if d < 52 then char_of (d - 26 + 97)
      else if d < 62 then char_of (d - 52 + 48) else if d = 62 then CHR ''+'' else CHR ''/'')"

fun toBase64 :: "nat list \<Rightarrow> string" where
  "toBase64 [] = []"
| "toBase64 [a] = [base64_char (a div 4), base64_char (a mod 4 * 16), CHR ''='', CHR ''='']"
| "toBase64 [a, b] =
     [base64_char (a div 4), base64_char (a mod 4 * 16 + b div 16), base64_char (b mod 16 * 4), CHR ''='']"
| "toBase64 (a # b # c # rest) =
     base64_char (a div 4) # base64_char (a mod 4 * 16 + b div 16) # base64_char (b mod 16 * 4 + c div 64)
       # base64_char (c mod 64) # toBase64 rest"

section \<open>The round trip\<close>

lemma base64_digit_char [simp]: "d < 64 \<Longrightarrow> base64_digit (base64_char d) = Some d"
proof -
  assume "d < 64"
  then consider "d < 26" | "26 \<le> d" "d < 52" | "52 \<le> d" "d < 62" | "d = 62" | "d = 63" by linarith
  then show ?thesis
    by cases (auto simp: base64_digit_def base64_char_def of_char_of take_bit_nat_eq_self Let_def)
qed

lemma base64_pad [simp]: "base64_digit CHR ''='' = None"
  by (simp add: base64_digit_def)

lemma base64_join: "a div 4 * 64 + (a mod 4 * 16 + x) = 16 * a + (x::nat)"
  using div_mult_mod_eq [of a 4] by linarith

lemma base64_split:
  "(b::nat) < 256 \<Longrightarrow> (16 * a + b div 16) div 16 = a \<and> (16 * a + b div 16) mod 16 = b div 16"
  by auto

lemma base64_join_third: "b div 16 * 64 + (b mod 16 * 4 + x) = 4 * b + (x::nat)"
  using div_mult_mod_eq [of b 16] by linarith

lemma base64_split_third:
  "(c::nat) < 256 \<Longrightarrow> (4 * b + c div 64) div 4 = b \<and> (4 * b + c div 64) mod 4 = c div 64"
  by auto

lemma fromBase64_toBase64: "\<forall>b \<in> set bs. b < 256 \<Longrightarrow> fromBase64 (toBase64 bs) = bs"
  unfolding fromBase64_def
proof (induction bs rule: toBase64.induct)
  case (2 a)
  then have "a div 4 < 64" "a mod 4 * 16 < 64" by auto
  then show ?case by (simp add: Let_def)
next
  case (3 a b)
  then have "a div 4 < 64" "a mod 4 * 16 + b div 16 < 64" "b mod 16 * 4 < 64" by auto
  then show ?case using 3 base64_split [of b a] by (simp add: Let_def base64_join)
next
  case (4 a b c rest)
  then have "a div 4 < 64" "a mod 4 * 16 + b div 16 < 64" "b mod 16 * 4 + c div 64 < 64" "c mod 64 < 64" by auto
  then show ?case using 4 base64_split [of b a] base64_split_third [of c b]
    by (simp add: Let_def base64_join base64_join_third)
qed simp

end
