(* ===== verification/Calls.thy ===== *)
theory Calls imports Bytes "HOL-Library.List_Lexorder" "HOL-Library.Char_ord"
begin

text \<open>
  \<open>CallsManager\<close> (\<open>src/callsmanager.h\<close>, \<open>callsmanager.cpp\<close>): the calls TDLib reports, the one that is
  current, and the instance of tgcalls that carries its sound.

  A call is an object on a heap, because the callbacks of an instance hold the call it was made
  for after the table of calls has dropped it; the table maps ids to addresses. tgcalls is a
  library outside the repository: an instance is a number, its creation and every call of it are
  entries of a log, and its callbacks are operations that may come at any time. What the code asks
  of its surroundings (the versions of tgcalls, options of TDLib, names of sound devices, settings)
  is the record \<open>call_env\<close>. Dereferencing the null pointer of a missing call is \<open>None\<close>.
\<close>

section \<open>Calls\<close>

datatype call_state = CallPending | CallExchangingKeys | CallHangingUp | CallDiscarded | CallError | CallReady

datatype current_call_state =
  CurPending | CurRinging | CurExchangingKeys | CurHangingUp | CurDeclined | CurDisconnected | CurHungUp
| CurDiscarded | CurError | CurConnecting | CurConnected | CurUnknownError

datatype tg_state = WaitInit | WaitInitAck | Established | Failed | Reconnecting

record call =
  uniqueId :: int
  callUserId :: int
  outgoing :: bool
  video :: bool
  callState :: call_state
  stateData :: vmap

definition newCall :: call where
  "newCall = \<lparr>uniqueId = 0, callUserId = 0, outgoing = False, video = False, callState = CallDiscarded, stateData = fmempty\<rparr>"

definition getTdCallState :: "string \<Rightarrow> call_state" where
  "getTdCallState type =
     (if type = ''callStatePending'' then CallPending
      else if type = ''callStateExchangingKeys'' then CallExchangingKeys
      else if type = ''callStateReady'' then CallReady
      else if type = ''callStateHangingUp'' then CallHangingUp
      else if type = ''callStateDiscarded'' then CallDiscarded
      else if type = ''callStateError'' then CallError
      else CallDiscarded)"

definition stateOf :: "vmap \<Rightarrow> call_state" where
  "stateOf state = getTdCallState (toString (mvalue state ''@type''))"

definition call_update :: "int \<Rightarrow> int \<Rightarrow> bool \<Rightarrow> bool \<Rightarrow> vmap \<Rightarrow> call \<Rightarrow> call" where
  "call_update unique userId out vid state c =
     c\<lparr>uniqueId := unique, callUserId := userId, outgoing := out, video := vid,
       stateData := fmdrop ''@type'' state, callState := stateOf state\<rparr>"

section \<open>What tgcalls is given\<close>

record rtc_server =
  rtc_host :: string
  rtc_port :: "16 word"
  rtc_login :: string
  rtc_password :: string
  rtc_isTurn :: bool

record tg_endpoint =
  endpointId :: int
  ep_ipv4 :: string
  ep_ipv6 :: string
  ep_port :: "16 word"
  ep_isTcp :: bool
  ep_peerTag :: "nat list"

text \<open>The timeouts, which the code divides into seconds, stay in milliseconds.\<close>

record tg_descriptor =
  initializationTimeoutMs :: int
  receiveTimeoutMs :: int
  enableP2P :: bool
  maxApiLayer :: int
  customParameters :: string
  encryptionKey :: "nat list"
  keyIsOutgoing :: bool
  audioInputId :: string
  audioOutputId :: string
  rtcServers :: "rtc_server list"
  endpoints :: "tg_endpoint list"
  logPaths :: "(string \<times> string) option"

record call_env =
  tgVersions :: "string list"
  tgMaxLayer :: int
  callOption :: "string \<Rightarrow> qvariant"
  outputDevice :: string
  inputDevice :: string
  powerSaveMode :: bool
  saveCallLogs :: bool
  downloadLocation :: string
  today :: string

definition protocol :: "call_env \<Rightarrow> vmap" where
  "protocol env =
     minsert ''@type'' (QString ''callProtocol'') (minsert ''udp_p2p'' (QBool True) (minsert ''udp_reflector'' (QBool True)
     (minsert ''min_layer'' (QInt 65) (minsert ''max_layer'' (QInt (tgMaxLayer env))
     (minsert ''library_versions'' (QList (map QString (std_sort (\<lambda>a b. b < a) (tgVersions env)))) fmempty)))))"

definition port_of :: "vmap \<Rightarrow> 16 word" where
  "port_of server = word_of_int (toLongLong (mvalue server ''port''))"

fun serverLists :: "qvariant list \<Rightarrow> rtc_server list \<times> tg_endpoint list" where
  "serverLists [] = ([], [])"
| "serverLists (v # vs) =
     (let server = toMap v; ip = toString (mvalue server ''ip_address''); ipv6 = toString (mvalue server ''ipv6_address'');
          type = toMap (mvalue server ''type''); (rs, es) = serverLists vs
      in if toString (mvalue type ''@type'') = ''callServerTypeWebrtc''
         then (let r = \<lparr>rtc_host = ip, rtc_port = port_of server, rtc_login = toString (mvalue type ''username''),
                        rtc_password = toString (mvalue type ''password''), rtc_isTurn = toBool (mvalue type ''supports_turn'')\<rparr>
               in (r # (if ipv6 \<noteq> [] then [r\<lparr>rtc_host := ipv6\<rparr>] else []) @ rs, es))
         else (let tag = fromBase64 (toString (mvalue type ''peer_tag''))
               in if length tag = 16
                  then (rs, \<lparr>endpointId = toLongLong (mvalue server ''id''), ep_ipv4 = ip, ep_ipv6 = ipv6,
                             ep_port = port_of server, ep_isTcp = toBool (mvalue type ''is_tcp''), ep_peerTag = tag\<rparr> # es)
                  else (rs, es)))"

definition callDescriptor :: "call_env \<Rightarrow> call \<Rightarrow> tg_descriptor" where
  "callDescriptor env c =
     (let state = stateData c; prot = toMap (mvalue state ''protocol'');
          key = fromBase64 (toString (mvalue state ''encryption_key''));
          (rs, es) = serverLists (toList (mvalue state ''servers''));
          log = (\<lambda>x. downloadLocation env @ ''/yaqtlib-call-log-'' @ x @ today env @ ''.txt'')
      in \<lparr>initializationTimeoutMs = toLongLong (callOption env ''call_packet_timeout_ms''),
          receiveTimeoutMs = toLongLong (callOption env ''call_connect_timeout_ms''),
          enableP2P = toBool (mvalue prot ''udp_p2p'') \<and> toBool (mvalue prot ''allow_p2p''),
          maxApiLayer = toInt (mvalue prot ''max_layer''),
          customParameters = toString (mvalue state ''custom_parameters''),
          encryptionKey = (if length key = 256 then key else replicate 256 0),
          keyIsOutgoing = outgoing c, audioInputId = inputDevice env, audioOutputId = outputDevice env,
          rtcServers = rs, endpoints = es,
          logPaths = (if saveCallLogs env then Some (log [], log ''stat-'') else None)\<rparr>)"

section \<open>The manager\<close>

datatype calls_output =
  PendingIncomingCall int
| IncomingCallNotPending int
| CurrentCallUserIdChanged
| CurrentCallStateChanged
| CurrentCallEmojisChanged
| CurrentCallReadyTimestampChanged
| CallStarted
| CallDiscardedSignal
| SignalBarsChanged
| RemoteBatteryLevelIsLowChanged
| RemoteAudioMutedChanged
| CreateCallRequest int vmap
| AcceptCallRequest int vmap
| DiscardCallRequest int int
| SendSignalingData int "nat list"
| MceCallState string
| Speakerphone bool
| InstanceCreated nat string tg_descriptor
| InstanceStopped nat
| InstanceDestroyed nat
| InstanceSignalingData nat "nat list"
| InstanceMuted nat bool
| InstanceLowBattery nat bool

record calls_state =
  cm_calls :: "call list"
  activeCalls :: "int \<rightharpoonup> nat"
  currentCallId :: int
  currentCallReadyState :: tg_state
  currentCallReadyTimestamp :: int
  signalBars :: int
  remoteBatteryLevelIsLow :: bool
  remoteAudioMuted :: bool
  cm_instance :: "nat option"
  cm_created :: "nat list"
  cm_outputs :: "calls_output list"

text \<open>\<open>cm_created\<close> lists the call each instance was made for, by the number of the instance.\<close>

definition cm_new :: calls_state where
  "cm_new = \<lparr>cm_calls = [], activeCalls = Map.empty, currentCallId = 0, currentCallReadyState = Reconnecting,
     currentCallReadyTimestamp = 0, signalBars = 0, remoteBatteryLevelIsLow = False, remoteAudioMuted = False,
     cm_instance = None, cm_created = [], cm_outputs = []\<rparr>"

definition cm_emit :: "calls_output \<Rightarrow> calls_state \<Rightarrow> calls_state" where
  "cm_emit out s = s\<lparr>cm_outputs := cm_outputs s @ [out]\<rparr>"

definition cm_emit_if :: "bool \<Rightarrow> calls_output \<Rightarrow> calls_state \<Rightarrow> calls_state" where
  "cm_emit_if b out s = (if b then cm_emit out s else s)"

definition cm_call :: "calls_state \<Rightarrow> int \<Rightarrow> call option" where
  "cm_call s i = (case activeCalls s i of None \<Rightarrow> None | Some a \<Rightarrow> Some (cm_calls s ! a))"

definition cm_createCall :: "call_env \<Rightarrow> int \<Rightarrow> calls_state \<Rightarrow> calls_state" where
  "cm_createCall env userId s = cm_emit (CreateCallRequest userId (protocol env)) s"

definition cm_toggleSpeakerphone :: "bool \<Rightarrow> calls_state \<Rightarrow> calls_state" where
  "cm_toggleSpeakerphone enabled s = cm_emit (Speakerphone enabled) s"

definition cm_resetInstance :: "bool \<Rightarrow> calls_state \<Rightarrow> calls_state" where
  "cm_resetInstance resetReadyTimestamp s =
     (let s1 = (case cm_instance s of None \<Rightarrow> s | Some n \<Rightarrow> (cm_emit (InstanceStopped n) s)\<lparr>cm_instance := None\<rparr>);
          s2 = cm_emit CallDiscardedSignal (cm_emit (MceCallState ''none'') (s1\<lparr>currentCallReadyState := Reconnecting\<rparr>));
          s3 = (if resetReadyTimestamp \<and> currentCallReadyTimestamp s2 \<noteq> 0
                then cm_emit CurrentCallReadyTimestampChanged (s2\<lparr>currentCallReadyTimestamp := 0\<rparr>) else s2);
          s4 = (if signalBars s3 \<noteq> 0 then cm_emit SignalBarsChanged (s3\<lparr>signalBars := 0\<rparr>) else s3);
          s5 = (if remoteBatteryLevelIsLow s4
                then cm_emit RemoteBatteryLevelIsLowChanged (s4\<lparr>remoteBatteryLevelIsLow := False\<rparr>) else s4);
          s6 = (if remoteAudioMuted s5 then cm_emit RemoteAudioMutedChanged (s5\<lparr>remoteAudioMuted := False\<rparr>) else s5)
      in cm_toggleSpeakerphone False s6)"

definition cm_setCurrentCallId :: "int \<Rightarrow> calls_state \<Rightarrow> calls_state" where
  "cm_setCurrentCallId i s =
     (let s1 = cm_resetInstance True s;
          s2 = (if currentCallId s1 \<noteq> 0 then s1\<lparr>activeCalls := (activeCalls s1)(currentCallId s1 := None)\<rparr> else s1)
      in cm_emit CallStarted (cm_emit (MceCallState ''active'') (s2\<lparr>currentCallId := i\<rparr>)))"

definition cm_handleCallIdReceived :: "int \<Rightarrow> calls_state \<Rightarrow> calls_state" where
  "cm_handleCallIdReceived i s = cm_setCurrentCallId i s"

text \<open>The new instance takes the place of one that may still be there, which is destroyed.\<close>

definition cm_handleCallReady :: "call_env \<Rightarrow> calls_state \<Rightarrow> calls_state option" where
  "cm_handleCallReady env s = do {
     a \<leftarrow> activeCalls s (currentCallId s);
     let c = cm_calls s ! a;
     version \<leftarrow> qat (toList (mvalue (toMap (mvalue (stateData c) ''protocol'')) ''library_versions'')) 0;
     let n = length (cm_created s);
     let s1 = cm_emit (InstanceCreated n (toString version) (callDescriptor env c)) (s\<lparr>cm_created := cm_created s @ [a]\<rparr>);
     let s2 = (case cm_instance s of None \<Rightarrow> s1 | Some m \<Rightarrow> cm_emit (InstanceDestroyed m) s1);
     Some (cm_emit (InstanceLowBattery n (powerSaveMode env)) (s2\<lparr>cm_instance := Some n\<rparr>)) }"

definition cm_handleCallUpdated ::
  "call_env \<Rightarrow> int \<Rightarrow> int \<Rightarrow> int \<Rightarrow> bool \<Rightarrow> bool \<Rightarrow> vmap \<Rightarrow> calls_state \<Rightarrow> calls_state option" where
  "cm_handleCallUpdated env i unique userId out vid state s =
     (let isNew = (activeCalls s i = None);
          (a, s1) = (case activeCalls s i of
                       Some a \<Rightarrow> (a, s)
                     | None \<Rightarrow> (length (cm_calls s), s\<lparr>cm_calls := cm_calls s @ [newCall],
                                 activeCalls := (activeCalls s)(i \<mapsto> length (cm_calls s))\<rparr>));
          wasPending = (callState (cm_calls s1 ! a) = CallPending);
          c = call_update unique userId out vid state (cm_calls s1 ! a);
          s2 = s1\<lparr>cm_calls := (cm_calls s1)[a := c]\<rparr>;
          s3 = (if isNew \<and> \<not> outgoing c \<and> callState c = CallPending then cm_emit (PendingIncomingCall i) s2
                else if \<not> outgoing c \<and> (isNew \<or> wasPending) \<and> callState c \<noteq> CallPending
                then cm_emit (IncomingCallNotPending i) s2
                else s2)
      in if currentCallId s = i
         then do {
           s4 \<leftarrow> (case callState c of
                    CallDiscarded \<Rightarrow> Some (cm_resetInstance False s3)
                  | CallReady \<Rightarrow> cm_handleCallReady env s3
                  | _ \<Rightarrow> Some s3);
           Some (cm_emit CurrentCallEmojisChanged (cm_emit CurrentCallStateChanged (cm_emit CurrentCallUserIdChanged s4))) }
         else Some s3)"

text \<open>The callbacks of an instance, called with its number.\<close>

definition cm_setReadyState :: "tg_state \<Rightarrow> int \<Rightarrow> calls_state \<Rightarrow> calls_state" where
  "cm_setReadyState st now s =
     (let s1 = cm_emit CurrentCallStateChanged (s\<lparr>currentCallReadyState := st\<rparr>)
      in if currentCallReadyTimestamp s1 = 0 \<and> currentCallReadyState s1 = Established
         then cm_emit CurrentCallReadyTimestampChanged (s1\<lparr>currentCallReadyTimestamp := signed_take_bit 31 (now div 1000)\<rparr>)
         else s1)"

definition cm_stateUpdated :: "nat \<Rightarrow> tg_state \<Rightarrow> int \<Rightarrow> calls_state \<Rightarrow> calls_state" where
  "cm_stateUpdated n st now s =
     (if callState (cm_calls s ! (cm_created s ! n)) \<noteq> CallReady \<or> currentCallReadyState s = st then s
      else cm_setReadyState st now s)"

definition cm_signalBarsUpdated :: "int \<Rightarrow> calls_state \<Rightarrow> calls_state" where
  "cm_signalBarsUpdated bars s =
     cm_emit_if (signalBars s = 0 \<or> bars = 0) CurrentCallStateChanged (cm_emit SignalBarsChanged (s\<lparr>signalBars := bars\<rparr>))"

definition cm_remoteBatteryLevelIsLowUpdated :: "bool \<Rightarrow> calls_state \<Rightarrow> calls_state" where
  "cm_remoteBatteryLevelIsLowUpdated v s = cm_emit RemoteBatteryLevelIsLowChanged (s\<lparr>remoteBatteryLevelIsLow := v\<rparr>)"

definition cm_remoteMediaStateUpdated :: "bool \<Rightarrow> calls_state \<Rightarrow> calls_state" where
  "cm_remoteMediaStateUpdated muted s =
     (if remoteAudioMuted s \<noteq> muted then cm_emit RemoteAudioMutedChanged (s\<lparr>remoteAudioMuted := muted\<rparr>) else s)"

definition cm_signalingDataEmitted :: "nat list \<Rightarrow> calls_state \<Rightarrow> calls_state" where
  "cm_signalingDataEmitted bytes s = cm_emit (SendSignalingData (currentCallId s) bytes) s"

text \<open>What the user interface reads of the current call.\<close>

definition cm_currentCallUserId :: "calls_state \<Rightarrow> int option" where
  "cm_currentCallUserId s = (if currentCallId s = 0 then Some 0 else map_option callUserId (cm_call s (currentCallId s)))"

definition readyState :: "int \<Rightarrow> tg_state \<Rightarrow> current_call_state" where
  "readyState bars st =
     (if bars = 0 then CurConnecting
      else case st of WaitInit \<Rightarrow> CurConnecting | WaitInitAck \<Rightarrow> CurConnecting | Established \<Rightarrow> CurConnected
           | Failed \<Rightarrow> CurUnknownError | Reconnecting \<Rightarrow> CurConnecting)"

definition discardedState :: "vmap \<Rightarrow> current_call_state" where
  "discardedState state =
     (let reason = toString (mvalue (toMap (mvalue state ''discard_reason'')) ''@type'')
      in if reason = ''callDiscardReasonDeclined'' then CurDeclined
         else if reason = ''callDiscardReasonDisconnected'' then CurDisconnected
         else if reason = ''callDiscardReasonHungUp'' then CurHungUp
         else CurDiscarded)"

definition cm_getCurrentCallState :: "calls_state \<Rightarrow> current_call_state option" where
  "cm_getCurrentCallState s =
     (if currentCallId s = 0 then Some CurDiscarded
      else do {
        c \<leftarrow> cm_call s (currentCallId s);
        Some (case callState c of
                CallReady \<Rightarrow> readyState (signalBars s) (currentCallReadyState s)
              | CallPending \<Rightarrow> if toBool (mvalue (stateData c) ''is_received'') then CurRinging else CurPending
              | CallExchangingKeys \<Rightarrow> CurExchangingKeys
              | CallHangingUp \<Rightarrow> CurHangingUp
              | CallDiscarded \<Rightarrow> discardedState (stateData c)
              | CallError \<Rightarrow> CurError) })"

definition cm_currentCallError :: "calls_state \<Rightarrow> vmap option" where
  "cm_currentCallError s =
     (if currentCallId s = 0 then Some fmempty
      else do { c \<leftarrow> cm_call s (currentCallId s);
                Some (if callState c \<noteq> CallError then fmempty else toMap (mvalue (stateData c) ''error'')) })"

definition cm_currentCallEmojis :: "calls_state \<Rightarrow> string list option" where
  "cm_currentCallEmojis s =
     (if currentCallId s = 0 then Some []
      else do { c \<leftarrow> cm_call s (currentCallId s);
                Some (if callState c \<noteq> CallReady then [] else map toString (toList (mvalue (stateData c) ''emojis''))) })"

text \<open>The other operations.\<close>

definition cm_handleNewCallSignalingDataReceived :: "int \<Rightarrow> nat list \<Rightarrow> calls_state \<Rightarrow> calls_state" where
  "cm_handleNewCallSignalingDataReceived callId data s =
     (if currentCallId s = callId
      then case cm_instance s of None \<Rightarrow> s | Some n \<Rightarrow> cm_emit (InstanceSignalingData n data) s else s)"

definition cm_discardCurrentCall :: "int \<Rightarrow> calls_state \<Rightarrow> calls_state" where
  "cm_discardCurrentCall now s =
     cm_emit (DiscardCallRequest (currentCallId s)
       (if currentCallReadyTimestamp s \<noteq> 0 then signed_take_bit 31 (now div 1000 - currentCallReadyTimestamp s) else 0)) s"

definition cm_acceptCall :: "call_env \<Rightarrow> int \<Rightarrow> calls_state \<Rightarrow> calls_state" where
  "cm_acceptCall env callId s = cm_emit (AcceptCallRequest callId (protocol env)) (cm_setCurrentCallId callId s)"

definition cm_discardCall :: "int \<Rightarrow> calls_state \<Rightarrow> calls_state" where
  "cm_discardCall callId s =
     cm_emit (DiscardCallRequest callId 0)
       (if currentCallId s \<noteq> callId \<and> activeCalls s callId \<noteq> None
        then s\<lparr>activeCalls := (activeCalls s)(callId := None)\<rparr> else s)"

definition cm_toggleMicrophoneIsMuted :: "bool \<Rightarrow> calls_state \<Rightarrow> calls_state" where
  "cm_toggleMicrophoneIsMuted muted s =
     (case cm_instance s of None \<Rightarrow> s | Some n \<Rightarrow> cm_emit (InstanceMuted n muted) s)"

definition cm_handlePowerSaveModeChanged :: "bool \<Rightarrow> calls_state \<Rightarrow> calls_state" where
  "cm_handlePowerSaveModeChanged active s =
     (case cm_instance s of None \<Rightarrow> s | Some n \<Rightarrow> cm_emit (InstanceLowBattery n active) s)"

section \<open>The table of calls\<close>

text \<open>The addresses in the table are those of calls, each of its own.\<close>

definition cm_table :: "calls_state \<Rightarrow> bool" where
  "cm_table s \<longleftrightarrow> (\<forall>i a. activeCalls s i = Some a \<longrightarrow> a < length (cm_calls s)) \<and>
     (\<forall>i j a. activeCalls s i = Some a \<longrightarrow> activeCalls s j = Some a \<longrightarrow> i = j) \<and>
     (\<forall>a \<in> set (cm_created s). a < length (cm_calls s))"

text \<open>What emitting and the fields of the current call leave alone.\<close>

lemma cm_emit_fields [simp]:
  "cm_calls (cm_emit out s) = cm_calls s" "activeCalls (cm_emit out s) = activeCalls s"
  "currentCallId (cm_emit out s) = currentCallId s" "cm_instance (cm_emit out s) = cm_instance s"
  "cm_created (cm_emit out s) = cm_created s" "signalBars (cm_emit out s) = signalBars s"
  "currentCallReadyState (cm_emit out s) = currentCallReadyState s"
  "currentCallReadyTimestamp (cm_emit out s) = currentCallReadyTimestamp s"
  "remoteBatteryLevelIsLow (cm_emit out s) = remoteBatteryLevelIsLow s"
  "remoteAudioMuted (cm_emit out s) = remoteAudioMuted s"
  "cm_outputs (cm_emit out s) = cm_outputs s @ [out]"
  by (simp_all add: cm_emit_def)

lemma cm_resetInstance_result:
  "cm_calls (cm_resetInstance b s) = cm_calls s" "activeCalls (cm_resetInstance b s) = activeCalls s"
  "currentCallId (cm_resetInstance b s) = currentCallId s" "cm_created (cm_resetInstance b s) = cm_created s"
  "cm_instance (cm_resetInstance b s) = None" "signalBars (cm_resetInstance b s) = 0"
  "currentCallReadyState (cm_resetInstance b s) = Reconnecting"
  "remoteBatteryLevelIsLow (cm_resetInstance b s) = False" "remoteAudioMuted (cm_resetInstance b s) = False"
  "currentCallReadyTimestamp (cm_resetInstance b s) = (if b then 0 else currentCallReadyTimestamp s)"
  by (simp_all add: cm_resetInstance_def cm_toggleSpeakerphone_def Let_def split: option.split)

lemma cm_resetInstance_outputs:
  "cm_outputs (cm_resetInstance b s) = cm_outputs s @
     (case cm_instance s of None \<Rightarrow> [] | Some n \<Rightarrow> [InstanceStopped n]) @ [MceCallState ''none'', CallDiscardedSignal] @
     (if b \<and> currentCallReadyTimestamp s \<noteq> 0 then [CurrentCallReadyTimestampChanged] else []) @
     (if signalBars s \<noteq> 0 then [SignalBarsChanged] else []) @
     (if remoteBatteryLevelIsLow s then [RemoteBatteryLevelIsLowChanged] else []) @
     (if remoteAudioMuted s then [RemoteAudioMutedChanged] else []) @ [Speakerphone False]"
  by (simp add: cm_resetInstance_def cm_toggleSpeakerphone_def Let_def split: option.split)

lemma cm_handleCallReady_fields:
  "cm_handleCallReady env s = Some t \<Longrightarrow>
     cm_calls t = cm_calls s \<and> activeCalls t = activeCalls s \<and> currentCallId t = currentCallId s \<and>
     (\<exists>a. activeCalls s (currentCallId s) = Some a \<and> cm_created t = cm_created s @ [a]) \<and>
     cm_instance t = Some (length (cm_created s))"
  by (auto simp: cm_handleCallReady_def Let_def split: bind_splits option.splits)

lemma cm_handleCallReady_outputs:
  "cm_handleCallReady env s = Some t \<Longrightarrow> \<exists>outs. cm_outputs t = cm_outputs s @ outs \<and>
     (\<forall>i. PendingIncomingCall i \<notin> set outs \<and> IncomingCallNotPending i \<notin> set outs) \<and> (\<forall>m. MceCallState m \<notin> set outs)"
  by (auto simp: cm_handleCallReady_def Let_def split: bind_splits option.splits)

end
