(* ===== verification/Notifications.thy ===== *)
theory Notifications imports ChatDataModel TdFile Calls
begin

text \<open>
  \<open>NotificationManager\<close> (\<open>src/notificationmanager.h\<close>, \<open>notificationmanager.cpp\<close>): the groups of
  notifications TDLib keeps for the chats, each shown as one notification of the phone, and the
  notifications of incoming calls.

  A notification of the phone is the record of what the code sets on it; publishing it is an entry
  of a log and marks it as published. Texts are those of the code, in English. What the manager
  reads of the settings, the chats and \<open>Utilities\<close> is the record \<open>notify_env\<close>. Where the code visits
  all entries of a hash, the order is an argument. The drawing of icons is left out.
\<close>

section \<open>Notifications of the phone\<close>

datatype remote_action =
  SignalAction string string
| DbusAction string string string "qvariant list" bool

datatype urgency = UrgencyLow | UrgencyNormal | UrgencyCritical

record nemo =
  nt_summary :: string
  nt_body :: string
  nt_timestamp :: int
  nt_itemCount :: int
  nt_resident :: bool
  nt_vibra :: bool
  nt_suppressSound :: bool
  nt_displayOn :: bool
  nt_visibility :: string
  nt_urgency :: urgency
  nt_sound :: string
  nt_icon :: string
  nt_actions :: "remote_action list"
  nt_published :: bool

definition newNemo :: nemo where
  "newNemo = \<lparr>nt_summary = [], nt_body = [], nt_timestamp = 0, nt_itemCount = 0, nt_resident = False, nt_vibra = False,
     nt_suppressSound = False, nt_displayOn = False, nt_visibility = [], nt_urgency = UrgencyNormal, nt_sound = [],
     nt_icon = [], nt_actions = [], nt_published = False\<rparr>"

section \<open>Groups\<close>

datatype group_type = GroupMessages | GroupMentions | GroupSecretChat | GroupCalls

definition getGroupType :: "vmap \<Rightarrow> group_type" where
  "getGroupType groupType =
     (let type = toString (mvalue groupType ''@type'')
      in if type = ''notificationGroupTypeMessages'' then GroupMessages
         else if type = ''notificationGroupTypeMentions'' then GroupMentions
         else if type = ''notificationGroupTypeSecretChat'' then GroupSecretChat
         else if type = ''notificationGroupTypeCalls'' then GroupCalls
         else GroupMessages)"

record ngroup =
  ng_type :: group_type
  ng_id :: int
  ng_chatId :: int
  totalCount :: int
  ng_nemo :: nemo
  activeNotifications :: "int \<rightharpoonup> vmap"
  notificationOrder :: "int list"

definition newGroup :: "group_type \<Rightarrow> int \<Rightarrow> int \<Rightarrow> int \<Rightarrow> nemo \<Rightarrow> ngroup" where
  "newGroup t i chat n nt = \<lparr>ng_type = t, ng_id = i, ng_chatId = chat, totalCount = n, ng_nemo = nt,
     activeNotifications = Map.empty, notificationOrder = []\<rparr>"

definition lastNotification :: "ngroup \<Rightarrow> vmap" where
  "lastNotification g =
     (if notificationOrder g = [] then fmempty
      else case activeNotifications g (last (notificationOrder g)) of None \<Rightarrow> fmempty | Some n \<Rightarrow> n)"

definition ng_add :: "qvariant \<Rightarrow> ngroup \<Rightarrow> ngroup" where
  "ng_add v g = (let n = toMap v; i = toInt (mvalue n ''id'')
     in g\<lparr>activeNotifications := (activeNotifications g)(i \<mapsto> n), notificationOrder := notificationOrder g @ [i]\<rparr>)"

definition ng_remove :: "qvariant \<Rightarrow> ngroup \<Rightarrow> ngroup" where
  "ng_remove v g = (let i = toInt v
     in g\<lparr>activeNotifications := (activeNotifications g)(i := None), notificationOrder := remove1 i (notificationOrder g)\<rparr>)"

section \<open>The manager\<close>

datatype feedback = FeedbackNone | FeedbackNew | FeedbackAll

record notify_env =
  ne_chat :: "int \<Rightarrow> chat_data option"
  ne_title :: "chat_data option \<Rightarrow> string"
  ne_sender :: "vmap \<Rightarrow> string"
  ne_messageText :: "vmap \<Rightarrow> string"
  ne_muted :: "int \<Rightarrow> bool"
  ne_reactionType :: vmap
  ne_tdlib :: "nat option"
  ne_active :: bool
  notificationFeedback :: feedback
  suppressContent :: bool
  showDefaultReaction :: bool
  turnsDisplayOn :: bool
  soundsEnabled :: bool
  alwaysDefaultSound :: bool
  inChatNgf :: bool
  incomingSoundPath :: string
  outgoingSoundPath :: string

datatype notify_output =
  Led bool
| CallLed bool
| Publish int nemo
| PublishCall int nemo
| CloseGroup int
| CloseCall int
| GetSavedSound int int bool
| RemoveNotificationGroup int int
| Ringtone bool
| Play string
| Vibrate
| LoadFile int
| SetCallState string
| MarkMessageAsRead string string vmap
| ReactToMessage string string vmap
| CloseSecretChat string
| AcceptCallAction int
| DiscardCallAction int
| ActiveChatIdChanged
| ActiveTopicIdChanged
| EnableRingtoneChanged
| ForceOutgoingChanged

record notify_state =
  groups :: "(int, ngroup) fmap"
  callNotifications :: "(int, nemo) fmap"
  activeChatId :: int
  activeTopicId :: vmap
  pendingChatPhotoChats :: "int \<rightharpoonup> int"
  enableNgfCallsRingtone :: bool
  forceInChatOutgoingNgf :: bool
  useSignalActions :: bool
  lastCallState :: string
  nm_outputs :: "notify_output list"

definition nm_emit :: "notify_output \<Rightarrow> notify_state \<Rightarrow> notify_state" where
  "nm_emit out s = s\<lparr>nm_outputs := nm_outputs s @ [out]\<rparr>"

definition nm_controlLed :: "bool \<Rightarrow> notify_state \<Rightarrow> notify_state" where
  "nm_controlLed b s = nm_emit (Led b) s"

text \<open>
  What a notification left by an earlier run says: whether it was for a call, and its group,
  if all its hints are there.
\<close>

type_synonym old_notification = "bool \<times> (group_type \<times> int \<times> int \<times> int) option \<times> nemo"

definition nm_restore :: "old_notification \<Rightarrow> notify_state \<Rightarrow> notify_state" where
  "nm_restore old s =
     (case old of (isCall, info, nt) \<Rightarrow>
        if isCall then s
        else case info of
               None \<Rightarrow> s
             | Some (t, i, chat, n) \<Rightarrow>
                 if fmlookup (groups s) i = None then s\<lparr>groups := fmupd i (newGroup t i chat n nt) (groups s)\<rparr> else s)"

definition nm_new :: "bool \<Rightarrow> old_notification list \<Rightarrow> notify_state" where
  "nm_new signalActions olds =
     fold nm_restore olds (nm_controlLed False
       \<lparr>groups = fmempty, callNotifications = fmempty, activeChatId = 0, activeTopicId = fmempty,
        pendingChatPhotoChats = Map.empty, enableNgfCallsRingtone = False, forceInChatOutgoingNgf = False,
        useSignalActions = signalActions, lastCallState = [], nm_outputs = []\<rparr>)"

definition nm_setActiveTopicId :: "vmap \<Rightarrow> notify_state \<Rightarrow> notify_state" where
  "nm_setActiveTopicId topicId s =
     (if activeTopicId s \<noteq> topicId then nm_emit ActiveTopicIdChanged (s\<lparr>activeTopicId := topicId\<rparr>) else s)"

definition nm_setActiveChatId :: "int \<Rightarrow> notify_state \<Rightarrow> notify_state" where
  "nm_setActiveChatId chatId s =
     (if activeChatId s \<noteq> chatId
      then (let s1 = nm_emit ActiveChatIdChanged (s\<lparr>activeChatId := chatId\<rparr>)
            in if \<not> mempty (activeTopicId s1) then nm_setActiveTopicId fmempty s1 else s1)
      else s)"

definition disableNotificationFeedback :: "nemo \<Rightarrow> nemo" where
  "disableNotificationFeedback nt =
     nt\<lparr>nt_vibra := False, nt_suppressSound := True, nt_displayOn := False, nt_visibility := [], nt_urgency := UrgencyLow\<rparr>"

text \<open>The chat's photo, if it is there; otherwise it is loaded and the chat is remembered.\<close>

definition nm_fillChatFields ::
  "notify_env \<Rightarrow> chat_data option \<Rightarrow> bool \<Rightarrow> nemo \<Rightarrow> notify_state \<Rightarrow> nemo \<times> notify_state" where
  "nm_fillChatFields env chat updateChatPhoto nt s =
     (let nt1 = nt\<lparr>nt_summary := ne_title env chat\<rparr>
      in case chat of
           None \<Rightarrow> (nt1, s)
         | Some c \<Rightarrow>
             if updateChatPhoto \<and> \<not> mempty (cd_photoSmall c)
             then (let f = tf_newInfo (ne_tdlib env) (cd_photoSmall c)
                   in if is_downloading_completed f then (nt1\<lparr>nt_icon := tf_path f\<rparr>, s)
                      else if can_be_downloaded f \<or> is_downloading_active f
                      then (nt1, (if fst (tf_load f) then nm_emit (LoadFile (tf_id f)) else (\<lambda>x. x))
                              (s\<lparr>pendingChatPhotoChats := (pendingChatPhotoChats s)(tf_id f \<mapsto> cd_chatId c)\<rparr>))
                      else (nt1, s))
             else (nt1, s))"

definition remoteAction :: "bool \<Rightarrow> string \<Rightarrow> string \<Rightarrow> string \<Rightarrow> qvariant list \<Rightarrow> bool \<Rightarrow> remote_action" where
  "remoteAction signalActions nm disp meth args forceDbus =
     (if \<not> forceDbus \<and> signalActions then SignalAction nm disp else DbusAction nm disp meth args False)"

definition messageFromActiveChat :: "notify_env \<Rightarrow> notify_state \<Rightarrow> int \<Rightarrow> vmap \<Rightarrow> bool" where
  "messageFromActiveChat env s chatId message \<longleftrightarrow>
     activeChatId s = chatId \<and> ne_active env \<and>
     (mempty (activeTopicId s) \<or>
      (let topicId = toMap (mvalue message ''topic_id'') in mempty topicId \<or> topicId = activeTopicId s))"

section \<open>Publishing\<close>

definition showsPreview :: "notify_env \<Rightarrow> chat_data option \<Rightarrow> vmap \<Rightarrow> bool" where
  "showsPreview env chat notificationType \<longleftrightarrow>
     \<not> suppressContent env \<and> toBool (mvalue notificationType ''show_preview'') \<and>
     (case chat of None \<Rightarrow> False | Some c \<Rightarrow> chatType c \<noteq> ChatTypeSecret)"

definition messageBody :: "notify_env \<Rightarrow> chat_data option \<Rightarrow> vmap \<Rightarrow> string" where
  "messageBody env chat notificationType =
     (if showsPreview env chat notificationType
      then (let message = toMap (mvalue notificationType ''message''); c = the chat
            in (if chatType c = ChatTypeBasicGroup \<or> chatType c = ChatTypeSupergroup \<and> \<not> cd_isChannel c
                then ne_sender env (toMap (mvalue message ''sender_id'')) @ '': '' else []) @ ne_messageText env message)
      else ''You have a new message'')"

definition messageActions :: "notify_env \<Rightarrow> bool \<Rightarrow> chat_data option \<Rightarrow> vmap \<Rightarrow> qvariant list \<Rightarrow> remote_action list" where
  "messageActions env signalActions chat notificationType args =
     [remoteAction signalActions ''mark_as_read'' ''Read'' ''markMessageAsRead'' args False] @
     (if showsPreview env chat notificationType \<and> \<not> cd_isChannel (the chat)
      then [DbusAction ''reply'' ''Reply'' ''replyToMessage'' args True] else []) @
     (if showDefaultReaction env \<and> toString (mvalue (ne_reactionType env) ''@type'') = ''reactionTypeEmoji''
      then [remoteAction signalActions ''react'' (toString (mvalue (ne_reactionType env) ''emoji'')) ''reactToMessage'' args False]
      else [])"

definition applyFeedback :: "notify_env \<Rightarrow> bool \<Rightarrow> bool \<Rightarrow> string \<Rightarrow> nemo \<Rightarrow> nemo" where
  "applyFeedback env needFeedback suppressSound soundFilePath nt =
     (if needFeedback
      then (let suppress = \<not> soundsEnabled env \<and> suppressSound;
                nt1 = nt\<lparr>nt_vibra := True, nt_displayOn := turnsDisplayOn env, nt_visibility := ''public'',
                         nt_urgency := UrgencyNormal, nt_suppressSound := suppress\<rparr>
            in if \<not> suppress \<and> soundFilePath \<noteq> [] then nt1\<lparr>nt_sound := soundFilePath\<rparr> else nt1)
      else disableNotificationFeedback nt)"

definition mentionSummary :: "chat_data option \<Rightarrow> group_type \<Rightarrow> string \<Rightarrow> string" where
  "mentionSummary chat t summary =
     (case chat of
        None \<Rightarrow> summary
      | Some c \<Rightarrow> if t = GroupMentions
                  then (if chatType c = ChatTypeBasicGroup \<or> chatType c = ChatTypeSupergroup
                        then ''Mentions in '' else ''Mentions from '') @ summary
                  else summary)"

text \<open>The notification of a group, its actions and whether it may call for attention.\<close>

definition groupContent ::
  "notify_env \<Rightarrow> notify_state \<Rightarrow> ngroup \<Rightarrow> (string \<times> remote_action list \<times> qvariant list \<times> bool) option" where
  "groupContent env s g =
     (let notificationType = toMap (mvalue (lastNotification g) ''type''); chat = ne_chat env (ng_chatId g);
          message = toMap (mvalue notificationType ''message'');
          args0 = [QString (show_int (ng_chatId g)), QString [], QMap fmempty];
          args = [QString (show_int (ng_chatId g)), QString (toString (mvalue message ''id'')), QMap (toMap (mvalue message ''topic_id''))]
      in case ng_type g of
           GroupSecretChat \<Rightarrow> Some (''This secret chat was created'',
             [remoteAction (useSignalActions s) ''close'' ''Close'' ''closeSecretChat'' args0 False], args0, True)
         | GroupCalls \<Rightarrow> None
         | _ \<Rightarrow> Some (messageBody env chat notificationType,
                 messageActions env (useSignalActions s) chat notificationType args, args,
                 \<not> messageFromActiveChat env s (ng_chatId g) message))"

definition nm_publish :: "notify_env \<Rightarrow> bool \<Rightarrow> bool \<Rightarrow> string \<Rightarrow> bool \<Rightarrow> int \<Rightarrow> notify_state \<Rightarrow> notify_state" where
  "nm_publish env needFeedback suppressSound soundFilePath updateChatPhoto groupId s =
     (case fmlookup (groups s) groupId of
        None \<Rightarrow> s
      | Some g \<Rightarrow>
          (let chat = ne_chat env (ng_chatId g);
               (nt, s1) = nm_fillChatFields env chat updateChatPhoto (ng_nemo g) s;
               nt1 = nt\<lparr>nt_timestamp := toInt (mvalue (lastNotification g) ''date''), nt_itemCount := totalCount g, nt_resident := True\<rparr>
           in case groupContent env s g of
                None \<Rightarrow> s1\<lparr>groups := fmupd groupId (g\<lparr>ng_nemo := nt1\<rparr>) (groups s1)\<rparr>
              | Some (body, actions, args, attention) \<Rightarrow>
                  (let nt2 = nt1\<lparr>nt_body := body, nt_summary := mentionSummary chat (ng_type g) (nt_summary nt1),
                                 nt_actions := actions @ [remoteAction (useSignalActions s) ''default'' [] ''openMessage'' args True]\<rparr>;
                       nt3 = (applyFeedback env (needFeedback \<and> attention) suppressSound soundFilePath nt2)\<lparr>nt_published := True\<rparr>
                   in nm_emit (Publish groupId nt3) (s1\<lparr>groups := fmupd groupId (g\<lparr>ng_nemo := nt3\<rparr>) (groups s1)\<rparr>))))"

section \<open>Updates of TDLib\<close>

text \<open>
  The update of a group: it is made or kept, notifications come and go, and it is published, at
  once or after TDLib has sent the sound; without notifications it is closed.
\<close>

definition nm_enterGroup :: "group_type \<Rightarrow> int \<Rightarrow> int \<Rightarrow> int \<Rightarrow> notify_state \<Rightarrow> ngroup" where
  "nm_enterGroup t groupId chatId n s =
     (case fmlookup (groups s) groupId of
        Some g \<Rightarrow> g\<lparr>ng_type := t, totalCount := n\<rparr>
      | None \<Rightarrow> newGroup t groupId chatId n newNemo)"

definition nm_needFeedback :: "feedback \<Rightarrow> qvariant list \<Rightarrow> ngroup \<Rightarrow> bool" where
  "nm_needFeedback fb added g \<longleftrightarrow>
     (case fb of FeedbackNone \<Rightarrow> False | FeedbackNew \<Rightarrow> \<not> nt_published (ng_nemo g) | FeedbackAll \<Rightarrow> added \<noteq> []) \<and>
     \<not> toBool (mvalue (lastNotification g) ''is_silent'')"

definition nm_updateLed :: "bool \<Rightarrow> notify_state \<Rightarrow> notify_state" where
  "nm_updateLed needFeedback s =
     (if groups s = fmempty then nm_controlLed False s else if needFeedback then nm_controlLed True s else s)"

definition nm_updateNotificationGroup ::
  "notify_env \<Rightarrow> vmap \<Rightarrow> int \<Rightarrow> int \<Rightarrow> int \<Rightarrow> qvariant list \<Rightarrow> qvariant list \<Rightarrow> feedback \<Rightarrow> int \<Rightarrow> notify_state \<Rightarrow> notify_state" where
  "nm_updateNotificationGroup env type groupId chatId n added removed fb soundId s =
     (let t = getGroupType type
      in if t = GroupCalls then s
         else if n \<noteq> 0
         then (let g = fold ng_remove removed (fold ng_add added (nm_enterGroup t groupId chatId n s));
                   s1 = s\<lparr>groups := fmupd groupId g (groups s)\<rparr>;
                   need = nm_needFeedback fb added g
               in nm_updateLed need
                    (if need \<and> soundsEnabled env \<and> \<not> alwaysDefaultSound env \<and> soundId > 0
                     then nm_emit (GetSavedSound soundId groupId need) s1
                     else nm_publish env need (soundId = 0) [] True groupId s1))
         else nm_updateLed False
                (case fmlookup (groups s) groupId of
                   None \<Rightarrow> s
                 | Some g \<Rightarrow> nm_emit (CloseGroup groupId) (s\<lparr>groups := fmdrop groupId (groups s)\<rparr>)))"

text \<open>The answer to the request for the sound, which is a file.\<close>

definition nm_soundReceived :: "notify_env \<Rightarrow> int \<Rightarrow> bool \<Rightarrow> string \<Rightarrow> vmap \<Rightarrow> notify_state \<Rightarrow> notify_state" where
  "nm_soundReceived env groupId need type sound s =
     (if fmlookup (groups s) groupId = None then s
      else if type = ''notificationSound''
      then (let f = tf_newInfo (ne_tdlib env) (toMap (mvalue sound ''sound''))
            in if is_downloading_completed f then nm_publish env need False (tf_path f) True groupId s
               else nm_publish env need False [] True groupId (if fst (tf_load f) then nm_emit (LoadFile (tf_id f)) s else s))
      else nm_publish env need False [] True groupId s)"

definition nm_handleUpdateNotificationGroup :: "notify_env \<Rightarrow> vmap \<Rightarrow> notify_state \<Rightarrow> notify_state" where
  "nm_handleUpdateNotificationGroup env update s =
     nm_updateNotificationGroup env (toMap (mvalue update ''type'')) (toInt (mvalue update ''notification_group_id''))
       (toLongLong (mvalue update ''chat_id'')) (toInt (mvalue update ''total_count''))
       (toList (mvalue update ''added_notifications'')) (toList (mvalue update ''removed_notification_ids''))
       (notificationFeedback env) (toLongLong (mvalue update ''notification_sound_id'')) s"

definition nm_handleUpdateActiveNotifications :: "notify_env \<Rightarrow> qvariant list \<Rightarrow> notify_state \<Rightarrow> notify_state" where
  "nm_handleUpdateActiveNotifications env gs s =
     fold (\<lambda>v. let g = toMap v in
       nm_updateNotificationGroup env (toMap (mvalue g ''type'')) (toInt (mvalue g ''id'')) (toLongLong (mvalue g ''chat_id''))
         (toInt (mvalue g ''total_count'')) (toList (mvalue g ''notifications'')) [] FeedbackNone 0) gs s"

definition nm_handleUpdateNotification :: "notify_env \<Rightarrow> int \<Rightarrow> vmap \<Rightarrow> notify_state \<Rightarrow> notify_state" where
  "nm_handleUpdateNotification env groupId n s =
     (let i = toInt (mvalue n ''id'') in
      case fmlookup (groups s) groupId of
        None \<Rightarrow> s
      | Some g \<Rightarrow>
          if activeNotifications g i = None then s
          else nm_publish env False False [] True groupId
                 (s\<lparr>groups := fmupd groupId (g\<lparr>activeNotifications := (activeNotifications g)(i \<mapsto> n)\<rparr>) (groups s)\<rparr>))"

section \<open>Calls\<close>

text \<open>\<open>getCall\<close> is asked for the call; a call that is not known is not shown.\<close>

definition nm_setCallState :: "string \<Rightarrow> notify_state \<Rightarrow> notify_state" where
  "nm_setCallState st s = nm_emit (SetCallState st) (s\<lparr>lastCallState := st\<rparr>)"

definition nm_controlCallState :: "bool \<Rightarrow> notify_state \<Rightarrow> notify_state" where
  "nm_controlCallState enabled s =
     (let s1 = (if enableNgfCallsRingtone s then nm_emit (Ringtone enabled) s else s);
          s2 = (if enabled then nm_setCallState ''ringing'' s1
                else if lastCallState s1 = ''ringing'' then nm_setCallState ''none'' s1 else s1)
      in nm_emit (CallLed enabled) s2)"

definition nm_publishCallNotification :: "notify_env \<Rightarrow> (int \<Rightarrow> call option) \<Rightarrow> int \<Rightarrow> notify_state \<Rightarrow> notify_state" where
  "nm_publishCallNotification env getCall callId s =
     (case getCall callId of
        None \<Rightarrow> s
      | Some c \<Rightarrow>
          (let nt = (case fmlookup (callNotifications s) callId of
                       Some nt \<Rightarrow> nt
                     | None \<Rightarrow> newNemo\<lparr>nt_urgency := UrgencyCritical, nt_resident := True\<rparr>);
               (nt1, s1) = nm_fillChatFields env (ne_chat env (callUserId c)) True nt s;
               args = [QInt callId];
               nt2 = nt1\<lparr>nt_body := (if video c then ''Incoming video call'' else ''Incoming call''),
                         nt_actions := [remoteAction (useSignalActions s) ''accept'' ''Accept'' ''acceptCall'' args False,
                                        remoteAction (useSignalActions s) ''discard'' ''Decline'' ''discardCall'' args False],
                         nt_published := True\<rparr>
           in nm_controlCallState True (nm_emit (PublishCall callId nt2)
                (s1\<lparr>callNotifications := fmupd callId nt2 (callNotifications s1)\<rparr>))))"

definition nm_removeCallNotification :: "int \<Rightarrow> notify_state \<Rightarrow> notify_state" where
  "nm_removeCallNotification i s =
     (if fmlookup (callNotifications s) i = None then s
      else (let s1 = nm_emit (CloseCall i) (s\<lparr>callNotifications := fmdrop i (callNotifications s)\<rparr>)
            in if callNotifications s1 = fmempty then nm_controlCallState False s1 else s1))"

definition nm_callActionInvoked :: "int \<Rightarrow> string \<Rightarrow> notify_state \<Rightarrow> notify_state" where
  "nm_callActionInvoked callId actionName s =
     (if \<not> useSignalActions s then s
      else if actionName = ''accept'' then nm_emit (AcceptCallAction callId) s
      else if actionName = ''discard'' then nm_emit (DiscardCallAction callId) s
      else s)"

section \<open>Changes of a chat\<close>

text \<open>Only the first group of the chat is visited, in the order \<open>ks\<close> of the hash.\<close>

definition nm_groupForChat :: "int list \<Rightarrow> int \<Rightarrow> notify_state \<Rightarrow> int option" where
  "nm_groupForChat ks chatId s =
     find (\<lambda>k. case fmlookup (groups s) k of None \<Rightarrow> False | Some g \<Rightarrow> ng_chatId g = chatId) ks"

text \<open>For each call notification the chat is dereferenced.\<close>

fun nm_callsForChat ::
  "notify_env \<Rightarrow> (int \<Rightarrow> call option) \<Rightarrow> (int \<Rightarrow> notify_state \<Rightarrow> notify_state) \<Rightarrow> int \<Rightarrow> int list \<Rightarrow> notify_state \<Rightarrow> notify_state option" where
  "nm_callsForChat env getCall f chatId [] s = Some s"
| "nm_callsForChat env getCall f chatId (k # ks) s =
     (case ne_chat env chatId of
        None \<Rightarrow> None
      | Some c \<Rightarrow>
          nm_callsForChat env getCall f chatId ks
            (if isPrivateOrSecretChat c
             then (case getCall k of None \<Rightarrow> s | Some call \<Rightarrow> if callUserId call = chatId then f k s else s)
             else s))"

definition nm_updateNotificationForChat ::
  "notify_env \<Rightarrow> (int \<Rightarrow> call option) \<Rightarrow> int list \<Rightarrow> int list \<Rightarrow> int \<Rightarrow> notify_state \<Rightarrow> notify_state option" where
  "nm_updateNotificationForChat env getCall gs cs chatId s =
     nm_callsForChat env getCall (nm_publishCallNotification env getCall) chatId cs
       (case nm_groupForChat gs chatId s of None \<Rightarrow> s | Some k \<Rightarrow> nm_publish env False False [] True k s)"

definition nm_handleChatRolesUpdated ::
  "notify_env \<Rightarrow> (int \<Rightarrow> call option) \<Rightarrow> int list \<Rightarrow> int list \<Rightarrow> int \<Rightarrow> chat_role list \<Rightarrow> notify_state \<Rightarrow> notify_state option" where
  "nm_handleChatRolesUpdated env getCall gs cs chatId roles s =
     (if ChatRoleTitle \<in> set roles \<or> ChatRolePhoto \<in> set roles
      then nm_updateNotificationForChat env getCall gs cs chatId s else Some s)"

text \<open>A photo that was waited for: only the icon is renewed, without calling for attention.\<close>

definition nm_setGroupIcon :: "string \<Rightarrow> int \<Rightarrow> notify_state \<Rightarrow> notify_state" where
  "nm_setGroupIcon path k s =
     (case fmlookup (groups s) k of
        None \<Rightarrow> s
      | Some g \<Rightarrow>
          (let nt = (disableNotificationFeedback (ng_nemo g\<lparr>nt_icon := path\<rparr>))\<lparr>nt_published := True\<rparr>
           in nm_emit (Publish k nt) (s\<lparr>groups := fmupd k (g\<lparr>ng_nemo := nt\<rparr>) (groups s)\<rparr>)))"

definition nm_setCallIcon :: "string \<Rightarrow> int \<Rightarrow> notify_state \<Rightarrow> notify_state" where
  "nm_setCallIcon path k s =
     (case fmlookup (callNotifications s) k of
        None \<Rightarrow> s
      | Some nt \<Rightarrow> (let nt1 = nt\<lparr>nt_icon := path, nt_published := True\<rparr>
                   in nm_emit (PublishCall k nt1) (s\<lparr>callNotifications := fmupd k nt1 (callNotifications s)\<rparr>)))"

definition nm_handleChatPhotoDownloadingCompletedChanged ::
  "notify_env \<Rightarrow> (int \<Rightarrow> call option) \<Rightarrow> int list \<Rightarrow> int list \<Rightarrow> td_file \<Rightarrow> notify_state \<Rightarrow> notify_state option" where
  "nm_handleChatPhotoDownloadingCompletedChanged env getCall gs cs f s =
     (case pendingChatPhotoChats s (tf_id f) of
        Some chatId \<Rightarrow>
          if is_downloading_completed f
          then (let s1 = s\<lparr>pendingChatPhotoChats := (pendingChatPhotoChats s)(tf_id f := None)\<rparr>
                in case ne_chat env chatId of
                     None \<Rightarrow> Some s1
                   | Some c \<Rightarrow>
                       if toLongLong (mvalue (cd_photoSmall c) ''id'') = tf_id f
                       then nm_callsForChat env getCall (nm_setCallIcon (tf_path f)) chatId cs
                              (case nm_groupForChat gs chatId s1 of None \<Rightarrow> s1 | Some k \<Rightarrow> nm_setGroupIcon (tf_path f) k s1)
                       else Some s1)
          else Some s
      | None \<Rightarrow> Some s)"

definition nm_updateAllNotifications :: "notify_env \<Rightarrow> int list \<Rightarrow> notify_state \<Rightarrow> notify_state" where
  "nm_updateAllNotifications env gs s = fold (nm_publish env False False [] True) gs s"

definition nm_handleDefaultReactionTypeChanged :: "notify_env \<Rightarrow> int list \<Rightarrow> notify_state \<Rightarrow> notify_state" where
  "nm_handleDefaultReactionTypeChanged env gs s =
     (if showDefaultReaction env then nm_updateAllNotifications env gs s else s)"

section \<open>The user\<close>

definition nm_handleNotificationActionInvoked :: "int \<Rightarrow> string \<Rightarrow> notify_state \<Rightarrow> notify_state" where
  "nm_handleNotificationActionInvoked groupId actionName s =
     (if \<not> useSignalActions s then s
      else case fmlookup (groups s) groupId of
             None \<Rightarrow> s
           | Some g \<Rightarrow>
               (let message = toMap (mvalue (toMap (mvalue (lastNotification g) ''type'')) ''message'');
                    i = toString (mvalue message ''id''); topic = toMap (mvalue message ''topic_id''); chat = show_int (ng_chatId g)
                in if actionName = ''mark_as_read'' then nm_emit (MarkMessageAsRead chat i topic) s
                   else if actionName = ''react'' then nm_emit (ReactToMessage chat i topic) s
                   else if actionName = ''close'' then nm_emit (CloseSecretChat chat) s
                   else s))"

definition nm_handleNotificationClosed :: "bool \<Rightarrow> int \<Rightarrow> notify_state \<Rightarrow> notify_state" where
  "nm_handleNotificationClosed dismissedByUser groupId s =
     (case fmlookup (groups s) groupId of
        Some g \<Rightarrow> if dismissedByUser
                   then nm_emit (RemoveNotificationGroup (ng_id g) (toInt (mvalue (lastNotification g) ''id''))) s else s
      | None \<Rightarrow> s)"

definition nm_setUseSignalActions :: "notify_env \<Rightarrow> int list \<Rightarrow> bool \<Rightarrow> bool \<Rightarrow> notify_state \<Rightarrow> notify_state" where
  "nm_setUseSignalActions env gs v force s =
     (if force \<or> useSignalActions s \<noteq> v
      then fold (nm_publish env False False [] False) gs (s\<lparr>useSignalActions := v\<rparr>) else s)"

definition nm_setEnableNgfCallsRingtone :: "bool \<Rightarrow> notify_state \<Rightarrow> notify_state" where
  "nm_setEnableNgfCallsRingtone v s =
     (if enableNgfCallsRingtone s \<noteq> v
      then (let s1 = nm_emit EnableRingtoneChanged (s\<lparr>enableNgfCallsRingtone := v\<rparr>)
            in if callNotifications s1 \<noteq> fmempty then nm_emit (Ringtone v) s1 else s1)
      else s)"

definition nm_setForceInChatOutgoingNgf :: "bool \<Rightarrow> notify_state \<Rightarrow> notify_state" where
  "nm_setForceInChatOutgoingNgf v s =
     (if forceInChatOutgoingNgf s \<noteq> v then nm_emit ForceOutgoingChanged (s\<lparr>forceInChatOutgoingNgf := v\<rparr>) else s)"

definition useInChatNgf :: "notify_env \<Rightarrow> bool" where
  "useInChatNgf env \<longleftrightarrow> inChatNgf env \<and> ne_active env"

definition nm_playInChatSound :: "string \<Rightarrow> notify_state \<Rightarrow> notify_state" where
  "nm_playInChatSound path s = nm_emit Vibrate (nm_emit (Play path) s)"

definition nm_handleNewMessageReceived :: "notify_env \<Rightarrow> int \<Rightarrow> vmap \<Rightarrow> notify_state \<Rightarrow> notify_state" where
  "nm_handleNewMessageReceived env chatId message s =
     (if useInChatNgf env \<and> incomingSoundPath env \<noteq> [] \<and> \<not> toBool (mvalue message ''is_outgoing'') \<and>
         \<not> mcontains message ''sending_state'' \<and> messageFromActiveChat env s chatId message \<and> \<not> ne_muted env chatId
      then nm_playInChatSound (incomingSoundPath env) s else s)"

definition nm_handleMessageSendSucceeded :: "notify_env \<Rightarrow> int \<Rightarrow> notify_state \<Rightarrow> notify_state" where
  "nm_handleMessageSendSucceeded env chatId s =
     (if useInChatNgf env \<and> (activeChatId s = chatId \<or> forceInChatOutgoingNgf s)
      then nm_playInChatSound (outgoingSoundPath env) s else s)"

end
