(* ===== verification/Phone.thy ===== *)
theory Phone imports Notifications
begin

text \<open>
  \<open>CallsManager\<close> and \<open>NotificationManager\<close> together: the signals of the one are slots of the other
  (the constructor of \<open>NotificationManager\<close> connects them), and both set the call state of the
  phone. The abstract state is the set of the incoming calls that are pending and that of the calls
  that have left this state; the lemmas show that the notifications, the ringing tone and the
  state of the phone follow it.
\<close>

section \<open>The connected managers\<close>

record phone =
  ph_calls :: calls_state
  ph_notify :: notify_state

definition ph_deliver :: "notify_env \<Rightarrow> calls_state \<Rightarrow> calls_output \<Rightarrow> notify_state \<Rightarrow> notify_state" where
  "ph_deliver env c out n =
     (case out of
        PendingIncomingCall i \<Rightarrow> nm_publishCallNotification env (cm_call c) i n
      | IncomingCallNotPending i \<Rightarrow> nm_removeCallNotification i n
      | MceCallState st \<Rightarrow> n\<lparr>lastCallState := st\<rparr>
      | _ \<Rightarrow> n)"

text \<open>An operation of the calls, with its signals delivered in their order.\<close>

definition ph_run :: "notify_env \<Rightarrow> calls_state \<Rightarrow> phone \<Rightarrow> phone" where
  "ph_run env c ph = \<lparr>ph_calls = c,
     ph_notify = fold (ph_deliver env c) (drop (length (cm_outputs (ph_calls ph))) (cm_outputs c)) (ph_notify ph)\<rparr>"

definition ph_new :: "bool \<Rightarrow> old_notification list \<Rightarrow> phone" where
  "ph_new signalActions olds = \<lparr>ph_calls = cm_new, ph_notify = nm_new signalActions olds\<rparr>"

text \<open>What the ringing tone was told last.\<close>

fun tone :: "notify_output list \<Rightarrow> bool \<Rightarrow> bool" where
  "tone [] b = b"
| "tone (Ringtone b' # outs) b = tone outs b'"
| "tone (_ # outs) b = tone outs b"

lemma tone_append [simp]: "tone (xs @ ys) b = tone ys (tone xs b)"
  by (induction xs b rule: tone.induct) auto

section \<open>What the notifications of calls depend on\<close>

text \<open>\<open>nm_rings n n'\<close>: the same calls are shown, and the tone and the state of the phone are as before.\<close>

definition nm_rings :: "notify_state \<Rightarrow> notify_state \<Rightarrow> bool" where
  "nm_rings n n' \<longleftrightarrow> fmdom (callNotifications n') = fmdom (callNotifications n) \<and> lastCallState n' = lastCallState n \<and>
     enableNgfCallsRingtone n' = enableNgfCallsRingtone n \<and> tone (nm_outputs n') False = tone (nm_outputs n) False"

lemma nm_rings_refl [simp, intro]: "nm_rings n n"
  by (simp add: nm_rings_def)

lemma nm_rings_trans [trans]: "nm_rings a b \<Longrightarrow> nm_rings b c \<Longrightarrow> nm_rings a c"
  by (simp add: nm_rings_def)

lemma nm_rings_emit: "(\<And>b. out \<noteq> Ringtone b) \<Longrightarrow> nm_rings n (nm_emit out n)"
  by (cases out) (auto simp: nm_rings_def nm_emit_def)

lemma nm_rings_fields [simp]:
  "nm_rings n (n'\<lparr>groups := g\<rparr>) = nm_rings n n'" "nm_rings n (n'\<lparr>pendingChatPhotoChats := p\<rparr>) = nm_rings n n'"
  "nm_rings n (n'\<lparr>useSignalActions := u\<rparr>) = nm_rings n n'"
  "nm_rings n (n'\<lparr>activeChatId := i\<rparr>) = nm_rings n n'" "nm_rings n (n'\<lparr>activeTopicId := t\<rparr>) = nm_rings n n'"
  by (simp_all add: nm_rings_def)

lemma nm_rings_emit_then [simp]:
  "nm_rings n (nm_emit (Publish k nt) n') = nm_rings n n'" "nm_rings n (nm_emit (PublishCall k nt) n') = nm_rings n n'"
  "nm_rings n (nm_emit (CloseGroup k) n') = nm_rings n n'" "nm_rings n (nm_emit (LoadFile k) n') = nm_rings n n'"
  "nm_rings n (nm_emit (GetSavedSound i k b) n') = nm_rings n n'" "nm_rings n (nm_emit (Led b) n') = nm_rings n n'"
  "nm_rings n (nm_emit ActiveChatIdChanged n') = nm_rings n n'" "nm_rings n (nm_emit ActiveTopicIdChanged n') = nm_rings n n'"
  by (simp_all add: nm_rings_def nm_emit_def)

lemma nm_rings_fillChat: "nm_fillChatFields env chat upd nt n = (nt', n') \<Longrightarrow> nm_rings n n'"
  by (auto simp: nm_fillChatFields_def Let_def split: option.splits if_splits)

lemma nm_rings_publish: "nm_rings n (nm_publish env need quiet path upd k n)"
proof (cases "fmlookup (groups n) k")
  case (Some g)
  obtain nt n' where fill: "nm_fillChatFields env (ne_chat env (ng_chatId g)) upd (ng_nemo g) n = (nt, n')" by fastforce
  show ?thesis using Some nm_rings_fillChat [OF fill]
    by (auto simp: nm_publish_def Let_def fill split: option.split)
qed (simp add: nm_publish_def)

lemma nm_rings_led [simp]: "nm_rings n (nm_updateLed need n') = nm_rings n n'"
  by (simp add: nm_updateLed_def nm_controlLed_def)

lemma nm_rings_then_publish: "nm_rings n n' \<Longrightarrow> nm_rings n (nm_publish env need quiet path upd k n')"
  using nm_rings_trans nm_rings_publish by blast

lemma nm_rings_updateGroup: "nm_rings n (nm_updateNotificationGroup env type k chat c added removed fb sound n)"
  by (auto simp: nm_updateNotificationGroup_def Let_def intro!: nm_rings_then_publish split: option.split)

lemma nm_rings_soundReceived: "nm_rings n (nm_soundReceived env k need type sound n)"
  by (auto simp: nm_soundReceived_def Let_def intro!: nm_rings_then_publish)

lemma nm_rings_updateNotification: "nm_rings n (nm_handleUpdateNotification env k m n)"
  by (auto simp: nm_handleUpdateNotification_def Let_def intro!: nm_rings_then_publish split: option.split)

lemma nm_rings_fold_publish: "nm_rings n (fold (nm_publish env need quiet path upd) ks n)"
  by (induction ks arbitrary: n) (auto intro: nm_rings_trans nm_rings_publish)

section \<open>Showing the pending calls\<close>

definition ph_shows :: "int set \<Rightarrow> notify_state \<Rightarrow> bool" where
  "ph_shows R n \<longleftrightarrow> fset (fmdom (callNotifications n)) = R \<and> (lastCallState n = ''ringing'' \<longrightarrow> R \<noteq> {}) \<and>
     (tone (nm_outputs n) False \<longleftrightarrow> enableNgfCallsRingtone n \<and> R \<noteq> {})"

lemma ph_shows_rings: "nm_rings n n' \<Longrightarrow> ph_shows R n \<Longrightarrow> ph_shows R n'"
  by (simp add: nm_rings_def ph_shows_def)

lemma control_call_state:
  "callNotifications (nm_controlCallState b n) = callNotifications n"
  "enableNgfCallsRingtone (nm_controlCallState b n) = enableNgfCallsRingtone n"
  "tone (nm_outputs (nm_controlCallState b n)) d = (if enableNgfCallsRingtone n then b else tone (nm_outputs n) d)"
  "lastCallState (nm_controlCallState True n) = ''ringing''"
  "lastCallState (nm_controlCallState False n) \<noteq> ''ringing''"
  by (auto simp: nm_controlCallState_def nm_setCallState_def nm_emit_def Let_def)

lemma fmdom_empty_iff: "fset (fmdom m) = {} \<longleftrightarrow> m = fmempty"
proof
  assume e: "fset (fmdom m) = {}"
  show "m = fmempty"
  proof (rule fmap_ext)
    fix x
    have "x |\<notin>| fmdom m" using e by simp
    then show "fmlookup m x = fmlookup fmempty x" by (simp add: fmdom_notD)
  qed
qed simp

lemma ph_shows_publishCall:
  assumes sh: "ph_shows R n" and c: "getCall i = Some c"
  shows "ph_shows (insert i R) (nm_publishCallNotification env getCall i n)"
proof -
  define nt where "nt = (case fmlookup (callNotifications n) i of
      Some nt \<Rightarrow> nt | None \<Rightarrow> newNemo\<lparr>nt_urgency := UrgencyCritical, nt_resident := True\<rparr>)"
  obtain nt1 n1 where fill: "nm_fillChatFields env (ne_chat env (callUserId c)) True nt n = (nt1, n1)" by fastforce
  have "ph_shows R n1" using ph_shows_rings [OF nm_rings_fillChat [OF fill] sh] .
  then show ?thesis
    unfolding nm_publishCallNotification_def c option.case nt_def [symmetric] fill prod.case Let_def
    by (simp add: ph_shows_def control_call_state) (simp add: nm_emit_def)
qed

lemma ph_shows_removeCall:
  assumes sh: "ph_shows R n"
  shows "ph_shows (R - {i}) (nm_removeCallNotification i n)"
proof (cases "fmlookup (callNotifications n) i")
  case None
  then have "i \<notin> R" using sh by (auto simp: ph_shows_def fmdom_notI)
  then show ?thesis using sh None by (simp add: nm_removeCallNotification_def)
next
  case (Some nt)
  let ?m = "nm_emit (CloseCall i) (n\<lparr>callNotifications := fmdrop i (callNotifications n)\<rparr>)"
  have dom: "fset (fmdom (callNotifications ?m)) = R - {i}" using sh by (auto simp: ph_shows_def nm_emit_def)
  have kept: "tone (nm_outputs ?m) False = tone (nm_outputs n) False" "lastCallState ?m = lastCallState n"
    "enableNgfCallsRingtone ?m = enableNgfCallsRingtone n" by (simp_all add: nm_emit_def)
  have "i \<in> R" using sh Some by (auto simp: ph_shows_def fmdomI)
  have removed: "nm_removeCallNotification i n = (if R - {i} = {} then nm_controlCallState False ?m else ?m)"
    using Some dom fmdom_empty_iff [of "callNotifications ?m"] by (simp add: nm_removeCallNotification_def Let_def)
  show ?thesis
  proof (cases "R - {i} = {}")
    case True
    then show ?thesis using removed dom kept sh by (simp add: ph_shows_def control_call_state)
  next
    case False
    then show ?thesis using removed dom kept sh \<open>i \<in> R\<close> by (auto simp: ph_shows_def)
  qed
qed

section \<open>Signals that do not ring\<close>

definition quiet_output :: "calls_output \<Rightarrow> bool" where
  "quiet_output out \<longleftrightarrow> (\<forall>i. out \<noteq> PendingIncomingCall i \<and> out \<noteq> IncomingCallNotPending i) \<and> out \<noteq> MceCallState ''ringing''"

lemma quiet_outputs [simp]:
  "\<not> quiet_output (PendingIncomingCall i)" "\<not> quiet_output (IncomingCallNotPending i)" "quiet_output CurrentCallUserIdChanged"
  "quiet_output CurrentCallStateChanged" "quiet_output CurrentCallEmojisChanged" "quiet_output CurrentCallReadyTimestampChanged"
  "quiet_output CallStarted" "quiet_output CallDiscardedSignal" "quiet_output SignalBarsChanged"
  "quiet_output RemoteBatteryLevelIsLowChanged" "quiet_output RemoteAudioMutedChanged"
  "quiet_output (MceCallState st) \<longleftrightarrow> st \<noteq> ''ringing''" "quiet_output (InstanceStopped k)"
  "quiet_output (InstanceCreated k v desc)" "quiet_output (InstanceDestroyed k)" "quiet_output (InstanceLowBattery k b)"
  "quiet_output (InstanceMuted k b)" "quiet_output (InstanceSignalingData k bs)" "quiet_output (Speakerphone b)"
  "quiet_output (CreateCallRequest i m)" "quiet_output (AcceptCallRequest i m)" "quiet_output (DiscardCallRequest i d)"
  "quiet_output (SendSignalingData i bs)"
  by (auto simp: quiet_output_def)

definition cm_quiet :: "calls_state \<Rightarrow> calls_state \<Rightarrow> bool" where
  "cm_quiet s t \<longleftrightarrow> (\<exists>outs. cm_outputs t = cm_outputs s @ outs \<and> list_all quiet_output outs)"

lemma cm_quiet_refl [simp, intro]: "cm_quiet s s"
  by (simp add: cm_quiet_def)

lemma cm_quiet_trans: "cm_quiet a b \<Longrightarrow> cm_quiet b c \<Longrightarrow> cm_quiet a c"
  by (auto simp: cm_quiet_def)

lemma cm_quiet_emit [simp]: "cm_quiet s t \<Longrightarrow> quiet_output out \<Longrightarrow> cm_quiet s (cm_emit out t)"
  by (auto simp: cm_quiet_def)

lemma cm_quiet_same: "cm_outputs t' = cm_outputs t \<Longrightarrow> cm_quiet s t' = cm_quiet s t"
  by (simp add: cm_quiet_def)

lemma cm_quiet_fields [simp]:
  "cm_quiet s (t\<lparr>activeCalls := a\<rparr>) = cm_quiet s t" "cm_quiet s (t\<lparr>currentCallId := i\<rparr>) = cm_quiet s t"
  "cm_quiet s (t\<lparr>cm_instance := k\<rparr>) = cm_quiet s t" "cm_quiet s (t\<lparr>cm_created := l\<rparr>) = cm_quiet s t"
  "cm_quiet s (t\<lparr>currentCallReadyState := st\<rparr>) = cm_quiet s t" "cm_quiet s (t\<lparr>signalBars := b\<rparr>) = cm_quiet s t"
  "cm_quiet s (t\<lparr>currentCallReadyTimestamp := b\<rparr>) = cm_quiet s t" "cm_quiet s (t\<lparr>remoteAudioMuted := m\<rparr>) = cm_quiet s t"
  "cm_quiet s (t\<lparr>remoteBatteryLevelIsLow := m\<rparr>) = cm_quiet s t"
  by (simp_all add: cm_quiet_def)

lemma ph_shows_quiet: "list_all quiet_output outs \<Longrightarrow> ph_shows R n \<Longrightarrow> ph_shows R (fold (ph_deliver env c) outs n)"
proof (induction outs arbitrary: n)
  case (Cons out outs)
  then have "ph_shows R (ph_deliver env c out n)" by (cases out) (auto simp: ph_deliver_def ph_shows_def)
  with Cons show ?case by simp
qed simp

lemma cm_quiet_reset [simp, intro]: "cm_quiet s (cm_resetInstance b s)"
  by (auto simp: cm_quiet_def cm_resetInstance_outputs split: option.split)

lemma cm_quiet_setCurrent: "cm_quiet s (cm_setCurrentCallId i s)"
  by (auto simp: cm_setCurrentCallId_def Let_def)

lemma cm_quiet_ready: "cm_handleCallReady env s = Some t \<Longrightarrow> cm_quiet s t"
  by (auto simp: cm_handleCallReady_def Let_def split: bind_splits option.splits)

section \<open>What TDLib has said of the calls\<close>

text \<open>
  \<open>R\<close>: the incoming calls that are pending; \<open>L\<close>: the incoming calls that have left this state;
  \<open>out\<close>: which calls are outgoing.
\<close>

definition entry_known :: "(int \<Rightarrow> bool) \<Rightarrow> int set \<Rightarrow> int set \<Rightarrow> int \<Rightarrow> call \<Rightarrow> bool" where
  "entry_known out R L i c \<longleftrightarrow> outgoing c = out i \<and> (\<not> out i \<longrightarrow> (if callState c = CallPending then i \<in> R else i \<in> L))"

definition cm_known :: "(int \<Rightarrow> bool) \<Rightarrow> int set \<Rightarrow> int set \<Rightarrow> calls_state \<Rightarrow> bool" where
  "cm_known out R L s \<longleftrightarrow> cm_table s \<and> R \<inter> L = {} \<and> (\<forall>i \<in> R. \<not> out i) \<and>
     (\<forall>i a. activeCalls s i = Some a \<longrightarrow> entry_known out R L i (cm_calls s ! a))"

lemma cm_table_subset:
  assumes t: "cm_table s" and c: "cm_calls t = cm_calls s"
    and a: "\<And>i a. activeCalls t i = Some a \<Longrightarrow> activeCalls s i = Some a"
    and n: "set (cm_created t) \<subseteq> set (cm_created s) \<union> ran (activeCalls s)"
  shows "cm_table t"
proof -
  have ran: "\<forall>a \<in> ran (activeCalls s). a < length (cm_calls s)" using t by (auto simp: cm_table_def ran_def)
  have "\<forall>a \<in> set (cm_created t). a < length (cm_calls t)" using t n ran unfolding c by (auto simp: cm_table_def)
  moreover have "i = j" if "activeCalls t i = Some x" "activeCalls t j = Some x" for i j x
    using t a [OF that(1)] a [OF that(2)] by (auto simp: cm_table_def)
  moreover have "x < length (cm_calls t)" if "activeCalls t i = Some x" for i x
    using t a [OF that] by (simp add: cm_table_def c)
  ultimately show ?thesis unfolding cm_table_def by blast
qed

lemma cm_known_subset:
  assumes k: "cm_known out R L s" and c: "cm_calls t = cm_calls s"
    and a: "\<And>i a. activeCalls t i = Some a \<Longrightarrow> activeCalls s i = Some a"
    and n: "set (cm_created t) \<subseteq> set (cm_created s) \<union> ran (activeCalls s)"
  shows "cm_known out R L t"
proof -
  have "cm_table t" using cm_table_subset [OF _ c a n] k by (simp add: cm_known_def)
  then show ?thesis using k a by (simp add: cm_known_def c)
qed

lemma cm_known_same:
  "cm_known out R L s \<Longrightarrow> cm_calls t = cm_calls s \<Longrightarrow> activeCalls t = activeCalls s \<Longrightarrow> cm_created t = cm_created s \<Longrightarrow> cm_known out R L t"
  by (rule cm_known_subset [of out R L s]) auto

lemma cm_known_setCurrent: "cm_known out R L s \<Longrightarrow> cm_known out R L (cm_setCurrentCallId i s)"
  by (rule cm_known_subset [of out R L s])
     (auto simp: cm_setCurrentCallId_def Let_def cm_resetInstance_result split: if_splits)

text \<open>The states of the update: the call is entered, then the signal, then the current call.\<close>

definition cm_enter :: "int \<Rightarrow> int \<Rightarrow> int \<Rightarrow> bool \<Rightarrow> bool \<Rightarrow> vmap \<Rightarrow> calls_state \<Rightarrow> calls_state" where
  "cm_enter i unique userId out vid state s =
     (case activeCalls s i of
        Some a \<Rightarrow> s\<lparr>cm_calls := (cm_calls s)[a := call_update unique userId out vid state (cm_calls s ! a)]\<rparr>
      | None \<Rightarrow> s\<lparr>activeCalls := (activeCalls s)(i \<mapsto> length (cm_calls s)),
                 cm_calls := cm_calls s @ [call_update unique userId out vid state newCall]\<rparr>)"

definition cm_wasPending :: "calls_state \<Rightarrow> int \<Rightarrow> bool" where
  "cm_wasPending s i \<longleftrightarrow> (case cm_call s i of None \<Rightarrow> False | Some c \<Rightarrow> callState c = CallPending)"

definition cm_announce :: "calls_state \<Rightarrow> int \<Rightarrow> bool \<Rightarrow> vmap \<Rightarrow> calls_output list" where
  "cm_announce s i out state =
     (if activeCalls s i = None \<and> \<not> out \<and> stateOf state = CallPending then [PendingIncomingCall i]
      else if \<not> out \<and> (activeCalls s i = None \<or> cm_wasPending s i) \<and> stateOf state \<noteq> CallPending then [IncomingCallNotPending i]
      else [])"

lemma call_update_fields [simp]:
  "callState (call_update unique userId out vid state c) = stateOf state"
  "outgoing (call_update unique userId out vid state c) = out"
  by (simp_all add: call_update_def)

lemma cm_enter_known:
  assumes k: "cm_known out R L s" and i: "stateOf state = CallPending \<longrightarrow> i \<notin> L"
    and R': "R' = (if \<not> out i \<and> stateOf state = CallPending then insert i R else R - {i})"
    and L': "L' = (if \<not> out i \<and> stateOf state \<noteq> CallPending then insert i L else L)"
  shows "cm_known out R' L' (cm_enter i unique userId (out i) vid state s)"
proof -
  let ?t = "cm_enter i unique userId (out i) vid state s"
  have t: "cm_table s" using k by (simp add: cm_known_def)
  have new: "entry_known out R' L' i (call_update unique userId (out i) vid state c)" for c
    by (auto simp: entry_known_def R' L')
  have old: "entry_known out R L j c \<Longrightarrow> j \<noteq> i \<Longrightarrow> entry_known out R' L' j c" for j c
    by (auto simp: entry_known_def R' L' split: if_splits)
  have tab: "cm_table ?t \<and> (\<forall>j a. activeCalls ?t j = Some a \<longrightarrow>
      (if j = i then \<exists>c. cm_calls ?t ! a = call_update unique userId (out i) vid state c
       else activeCalls s j = Some a \<and> cm_calls ?t ! a = cm_calls s ! a))"
  proof (cases "activeCalls s i")
    case None
    have "a < length (cm_calls s)" if "activeCalls s j = Some a" for j a using t that by (simp add: cm_table_def)
    then show ?thesis using t None unfolding cm_table_def cm_enter_def
      by (auto simp: less_Suc_eq nth_append split: if_splits)
  next
    case (Some a)
    have "a < length (cm_calls s)" "\<And>j. activeCalls s j = Some a \<Longrightarrow> j = i" using t Some by (auto simp: cm_table_def)
    then show ?thesis using t Some unfolding cm_table_def cm_enter_def by (auto simp: nth_list_update)
  qed
  have "entry_known out R' L' j (cm_calls ?t ! a)" if a: "activeCalls ?t j = Some a" for j a
  proof (cases "j = i")
    case True
    then obtain c where "cm_calls ?t ! a = call_update unique userId (out i) vid state c"
      using conjunct2 [OF tab, rule_format, OF a] by auto
    then show ?thesis using new True by simp
  next
    case False
    then have "activeCalls s j = Some a" "cm_calls ?t ! a = cm_calls s ! a"
      using conjunct2 [OF tab, rule_format, OF a] by auto
    then show ?thesis using k old False by (simp add: cm_known_def)
  qed
  then show ?thesis using tab k i by (auto simp: cm_known_def R' L')
qed

lemma cm_handleCallUpdated_entered:
  assumes t: "cm_table s"
  shows "cm_handleCallUpdated env i unique userId out vid state s =
    (let s3 = (cm_enter i unique userId out vid state s)\<lparr>cm_outputs := cm_outputs s @ cm_announce s i out state\<rparr>
     in if currentCallId s = i
        then do {
          s4 \<leftarrow> (case stateOf state of
                   CallDiscarded \<Rightarrow> Some (cm_resetInstance False s3)
                 | CallReady \<Rightarrow> cm_handleCallReady env s3
                 | _ \<Rightarrow> Some s3);
          Some (cm_emit CurrentCallEmojisChanged (cm_emit CurrentCallStateChanged (cm_emit CurrentCallUserIdChanged s4))) }
        else Some s3)"
proof (cases "activeCalls s i")
  case None
  have "s\<lparr>cm_calls := (cm_calls s @ [newCall])[length (cm_calls s) := x], activeCalls := m\<rparr> =
      s\<lparr>cm_calls := cm_calls s @ [x], activeCalls := m\<rparr>" for x m by simp
  moreover have "callState newCall \<noteq> CallPending" by (simp add: newCall_def)
  ultimately show ?thesis using None
    by (cases "stateOf state") (simp_all add: cm_handleCallUpdated_def cm_enter_def cm_announce_def cm_emit_def Let_def)
next
  case (Some a)
  then show ?thesis
    by (cases "stateOf state")
      (simp_all add: cm_handleCallUpdated_def cm_enter_def cm_announce_def cm_emit_def Let_def cm_wasPending_def cm_call_def)
qed

lemma cm_handleCallUpdated_parts:
  assumes t: "cm_table s" and u: "cm_handleCallUpdated env i unique userId out vid state s = Some s'"
  shows "cm_quiet ((cm_enter i unique userId out vid state s)\<lparr>cm_outputs := cm_outputs s @ cm_announce s i out state\<rparr>) s'"
    and "cm_calls s' = cm_calls (cm_enter i unique userId out vid state s)"
    and "activeCalls s' = activeCalls (cm_enter i unique userId out vid state s)"
    and "set (cm_created s') \<subseteq> set (cm_created s) \<union> ran (activeCalls s')"
    and "currentCallId s' = currentCallId s"
proof -
  let ?s3 = "(cm_enter i unique userId out vid state s)\<lparr>cm_outputs := cm_outputs s @ cm_announce s i out state\<rparr>"
  have fields: "cm_created ?s3 = cm_created s" "currentCallId ?s3 = currentCallId s"
    by (simp_all add: cm_enter_def split: option.split)
  consider "s' = ?s3" | s4 where "s' = cm_emit CurrentCallEmojisChanged (cm_emit CurrentCallStateChanged (cm_emit CurrentCallUserIdChanged s4))"
      "s4 = ?s3 \<or> s4 = cm_resetInstance False ?s3 \<or> cm_handleCallReady env ?s3 = Some s4"
    using u unfolding cm_handleCallUpdated_entered [OF t] Let_def
    by (auto split: if_splits bind_splits call_state.splits)
  then have "cm_quiet ?s3 s' \<and> cm_calls s' = cm_calls ?s3 \<and> activeCalls s' = activeCalls ?s3 \<and>
      set (cm_created s') \<subseteq> set (cm_created ?s3) \<union> ran (activeCalls s') \<and> currentCallId s' = currentCallId ?s3"
  proof cases
    case (2 s4)
    then show ?thesis
      using cm_quiet_ready [of env ?s3 s4] cm_handleCallReady_fields [of env ?s3 s4]
        ranI [of "activeCalls ?s3" "currentCallId ?s3"]
      by (auto simp: cm_resetInstance_result)
  qed auto
  then show "cm_quiet ?s3 s'" "cm_calls s' = cm_calls (cm_enter i unique userId out vid state s)"
    "activeCalls s' = activeCalls (cm_enter i unique userId out vid state s)"
    "set (cm_created s') \<subseteq> set (cm_created s) \<union> ran (activeCalls s')" "currentCallId s' = currentCallId s"
    using fields by auto
qed

section \<open>The other operations\<close>

text \<open>What else happens to the calls: the user, the answers of TDLib, and the callbacks of an instance.\<close>

datatype call_op =
  CreateCall int | CallIdReceived int | AcceptCall int | DiscardCall int | DiscardCurrentCall int
| SignalingReceived int "nat list" | MuteMicrophone bool | PowerSave bool | Speaker bool
| TgState nat tg_state int | TgBars int | TgBattery bool | TgMedia bool | TgSignaling "nat list"

fun cm_do :: "call_env \<Rightarrow> call_op \<Rightarrow> calls_state \<Rightarrow> calls_state" where
  "cm_do env (CreateCall u) s = cm_createCall env u s"
| "cm_do env (CallIdReceived i) s = cm_handleCallIdReceived i s"
| "cm_do env (AcceptCall i) s = cm_acceptCall env i s"
| "cm_do env (DiscardCall i) s = cm_discardCall i s"
| "cm_do env (DiscardCurrentCall now) s = cm_discardCurrentCall now s"
| "cm_do env (SignalingReceived i bs) s = cm_handleNewCallSignalingDataReceived i bs s"
| "cm_do env (MuteMicrophone b) s = cm_toggleMicrophoneIsMuted b s"
| "cm_do env (PowerSave b) s = cm_handlePowerSaveModeChanged b s"
| "cm_do env (Speaker b) s = cm_toggleSpeakerphone b s"
| "cm_do env (TgState k st now) s = cm_stateUpdated k st now s"
| "cm_do env (TgBars n) s = cm_signalBarsUpdated n s"
| "cm_do env (TgBattery b) s = cm_remoteBatteryLevelIsLowUpdated b s"
| "cm_do env (TgMedia b) s = cm_remoteMediaStateUpdated b s"
| "cm_do env (TgSignaling bs) s = cm_signalingDataEmitted bs s"

lemmas cm_op_defs = cm_createCall_def cm_handleCallIdReceived_def cm_acceptCall_def cm_discardCall_def
  cm_discardCurrentCall_def cm_handleNewCallSignalingDataReceived_def cm_toggleMicrophoneIsMuted_def
  cm_handlePowerSaveModeChanged_def cm_toggleSpeakerphone_def cm_stateUpdated_def cm_setReadyState_def
  cm_signalBarsUpdated_def cm_remoteBatteryLevelIsLowUpdated_def cm_remoteMediaStateUpdated_def
  cm_signalingDataEmitted_def cm_emit_if_def

lemma cm_do_quiet: "cm_quiet s (cm_do env op s)"
  using cm_quiet_setCurrent by (cases op) (auto simp: cm_op_defs Let_def split: option.split)

lemma cm_do_known: "cm_known out R L s \<Longrightarrow> cm_known out R L (cm_do env op s)"
proof (cases op)
  case (DiscardCall i)
  assume "cm_known out R L s"
  then show ?thesis unfolding DiscardCall
    by (rule cm_known_subset) (auto simp: cm_op_defs split: if_splits)
qed (auto simp: cm_op_defs Let_def split: option.split elim: cm_known_same intro: cm_known_same cm_known_setCurrent)

text \<open>
  What else happens to the notifications. Changes of chats come with the orders in which the
  hashes of groups and calls are visited.
\<close>

datatype notify_op =
  GroupUpdated vmap | ActiveNotifications "qvariant list" | NotificationUpdated int vmap
| SoundReceived int bool string vmap | ChatRolesUpdated "int list" "int list" int "chat_role list"
| PhotoCompleted "int list" "int list" td_file | AllUpdated "int list" | ReactionChanged "int list"
| SignalActions "int list" bool bool | EnableRingtone bool | ActiveChat int | ActiveTopic vmap

fun nm_do :: "notify_env \<Rightarrow> (int \<Rightarrow> call option) \<Rightarrow> notify_op \<Rightarrow> notify_state \<Rightarrow> notify_state option" where
  "nm_do env getCall (GroupUpdated update) n = Some (nm_handleUpdateNotificationGroup env update n)"
| "nm_do env getCall (ActiveNotifications gs) n = Some (nm_handleUpdateActiveNotifications env gs n)"
| "nm_do env getCall (NotificationUpdated k m) n = Some (nm_handleUpdateNotification env k m n)"
| "nm_do env getCall (SoundReceived k need type sound) n = Some (nm_soundReceived env k need type sound n)"
| "nm_do env getCall (ChatRolesUpdated gs cs chatId roles) n = nm_handleChatRolesUpdated env getCall gs cs chatId roles n"
| "nm_do env getCall (PhotoCompleted gs cs f) n = nm_handleChatPhotoDownloadingCompletedChanged env getCall gs cs f n"
| "nm_do env getCall (AllUpdated gs) n = Some (nm_updateAllNotifications env gs n)"
| "nm_do env getCall (ReactionChanged gs) n = Some (nm_handleDefaultReactionTypeChanged env gs n)"
| "nm_do env getCall (SignalActions gs v force) n = Some (nm_setUseSignalActions env gs v force n)"
| "nm_do env getCall (EnableRingtone v) n = Some (nm_setEnableNgfCallsRingtone v n)"
| "nm_do env getCall (ActiveChat i) n = Some (nm_setActiveChatId i n)"
| "nm_do env getCall (ActiveTopic t) n = Some (nm_setActiveTopicId t n)"

text \<open>The calls an operation visits are those that have a notification.\<close>

fun visits_calls :: "notify_op \<Rightarrow> int list" where
  "visits_calls (ChatRolesUpdated gs cs chatId roles) = cs"
| "visits_calls (PhotoCompleted gs cs f) = cs"
| "visits_calls _ = []"

lemma ph_shows_callsForChat:
  assumes "\<And>k n c. getCall k = Some c \<Longrightarrow> k \<in> R \<Longrightarrow> ph_shows R n \<Longrightarrow> ph_shows R (f k n)"
  shows "set cs \<subseteq> R \<Longrightarrow> ph_shows R n \<Longrightarrow> nm_callsForChat env getCall f chatId cs n = Some n' \<Longrightarrow> ph_shows R n'"
  using assms by (induction cs arbitrary: n) (auto split: option.splits if_splits)

lemma ph_shows_setGroupIcon: "ph_shows R n \<Longrightarrow> ph_shows R (nm_setGroupIcon path k n)"
  by (rule ph_shows_rings) (auto simp: nm_setGroupIcon_def Let_def split: option.split)

lemma ph_shows_setCallIcon: "ph_shows R n \<Longrightarrow> ph_shows R (nm_setCallIcon path k n)"
  by (auto simp: nm_setCallIcon_def ph_shows_def nm_emit_def Let_def insert_absorb fmdomI split: option.split)

lemma ph_shows_fold: "(\<And>x n. ph_shows R n \<Longrightarrow> ph_shows R (f x n)) \<Longrightarrow> ph_shows R n \<Longrightarrow> ph_shows R (fold f xs n)"
  by (induction xs arbitrary: n) auto

lemma ph_shows_do:
  assumes sh: "ph_shows R n" and op: "nm_do env getCall op n = Some n'" and cs: "set (visits_calls op) \<subseteq> R"
  shows "ph_shows R n'"
proof -
  note rings = ph_shows_rings [OF _ sh]
  have publish: "ph_shows R n \<Longrightarrow> ph_shows R (nm_publish env a b c d k n)" for n a b c d k
    using ph_shows_rings nm_rings_publish by blast
  have pubCall: "ph_shows R (nm_publishCallNotification env getCall k n)" if "getCall k = Some c" "k \<in> R" "ph_shows R n" for k n c
    using ph_shows_publishCall [of R n getCall k c env] that by (simp add: insert_absorb)
  show ?thesis
  proof (cases op)
    case (GroupUpdated u)
    then show ?thesis using op rings nm_rings_updateGroup by (auto simp: nm_handleUpdateNotificationGroup_def)
  next
    case (ActiveNotifications gs)
    then show ?thesis using op sh
      by (auto simp: nm_handleUpdateActiveNotifications_def Let_def intro!: ph_shows_fold intro: ph_shows_rings nm_rings_updateGroup)
  next
    case (ChatRolesUpdated gs cs' chatId roles)
    let ?m = "case nm_groupForChat gs chatId n of None \<Rightarrow> n | Some k \<Rightarrow> nm_publish env False False [] True k n"
    have m: "ph_shows R ?m" using sh publish by (simp split: option.split)
    have "n' = n \<or> nm_callsForChat env getCall (nm_publishCallNotification env getCall) chatId cs' ?m = Some n'"
      using op ChatRolesUpdated by (auto simp: nm_handleChatRolesUpdated_def nm_updateNotificationForChat_def split: if_splits)
    moreover have "set cs' \<subseteq> R" using cs ChatRolesUpdated by simp
    moreover have "ph_shows R n'" if "nm_callsForChat env getCall (nm_publishCallNotification env getCall) chatId cs' ?m = Some n'"
      by (rule ph_shows_callsForChat [where f = "nm_publishCallNotification env getCall", OF pubCall _ m that])
        (use cs ChatRolesUpdated in auto)
    ultimately show ?thesis using sh by blast
  next
    case (PhotoCompleted gs cs' f)
    have s1: "ph_shows R (n\<lparr>pendingChatPhotoChats := p\<rparr>)" for p using sh by (simp add: ph_shows_def)
    have icon: "ph_shows R n'" if "nm_callsForChat env getCall (nm_setCallIcon (tf_path f)) chatId cs' m = Some n'" "ph_shows R m" for m chatId
      by (rule ph_shows_callsForChat [where f = "nm_setCallIcon (tf_path f)", OF ph_shows_setCallIcon _ that(2,1)])
        (use cs PhotoCompleted in auto)
    show ?thesis using op PhotoCompleted sh
      by (auto simp: nm_handleChatPhotoDownloadingCompletedChanged_def Let_def split: if_splits option.splits
          intro: s1 icon ph_shows_setGroupIcon)
  next
    case (EnableRingtone v)
    have e: "callNotifications n \<noteq> fmempty \<longleftrightarrow> R \<noteq> {}"
      using sh fmdom_empty_iff [of "callNotifications n"] by (simp only: ph_shows_def)
    let ?s1 = "nm_emit EnableRingtoneChanged (n\<lparr>enableNgfCallsRingtone := v\<rparr>)"
    have c: "callNotifications ?s1 = callNotifications n" by (simp add: nm_emit_def)
    have "n' = (if enableNgfCallsRingtone n = v then n else if R \<noteq> {} then nm_emit (Ringtone v) ?s1 else ?s1)"
      using op unfolding EnableRingtone nm_do.simps nm_setEnableNgfCallsRingtone_def Let_def c e by (auto split: if_splits)
    then show ?thesis using sh by (auto simp: ph_shows_def nm_emit_def split: if_splits)
  next
    case (SignalActions gs v force)
    have "ph_shows R (n\<lparr>useSignalActions := v\<rparr>)" using sh by (simp add: ph_shows_def)
    then show ?thesis using op sh SignalActions publish by (auto simp: nm_setUseSignalActions_def intro!: ph_shows_fold)
  qed (use op sh publish rings nm_rings_updateNotification nm_rings_soundReceived nm_rings_fold_publish in
      \<open>auto simp: nm_updateAllNotifications_def nm_handleDefaultReactionTypeChanged_def nm_setActiveChatId_def
        nm_setActiveTopicId_def Let_def intro!: ph_shows_fold rings\<close>)
qed

section \<open>The runs of the phone\<close>

text \<open>
  TDLib updates a call: its direction never changes, and it does not become pending again
  after it has left this state. Everything else may happen at any time.
\<close>

inductive phone_reaches :: "(int \<Rightarrow> bool) \<Rightarrow> int set \<Rightarrow> int set \<Rightarrow> phone \<Rightarrow> bool" for out where
  start: "phone_reaches out {} {} (ph_new b olds)"
| updated: "phone_reaches out R L ph \<Longrightarrow> stateOf state = CallPending \<longrightarrow> i \<notin> L \<Longrightarrow>
    cm_handleCallUpdated cenv i unique userId (out i) vid state (ph_calls ph) = Some c \<Longrightarrow>
    R' = (if \<not> out i \<and> stateOf state = CallPending then insert i R else R - {i}) \<Longrightarrow>
    L' = (if \<not> out i \<and> stateOf state \<noteq> CallPending then insert i L else L) \<Longrightarrow>
    phone_reaches out R' L' (ph_run env c ph)"
| calls: "phone_reaches out R L ph \<Longrightarrow> phone_reaches out R L (ph_run env (cm_do cenv op (ph_calls ph)) ph)"
| notify: "phone_reaches out R L ph \<Longrightarrow> nm_do env (cm_call (ph_calls ph)) op (ph_notify ph) = Some n \<Longrightarrow>
    set (visits_calls op) \<subseteq> fset (fmdom (callNotifications (ph_notify ph))) \<Longrightarrow>
    phone_reaches out R L (ph\<lparr>ph_notify := n\<rparr>)"

lemma nm_new_calls: "callNotifications (nm_new b olds) = fmempty \<and> lastCallState (nm_new b olds) = [] \<and>
    enableNgfCallsRingtone (nm_new b olds) = False \<and> tone (nm_outputs (nm_new b olds)) False = False"
proof -
  have "callNotifications (fold nm_restore olds n) = callNotifications n \<and> lastCallState (fold nm_restore olds n) = lastCallState n \<and>
      enableNgfCallsRingtone (fold nm_restore olds n) = enableNgfCallsRingtone n \<and> nm_outputs (fold nm_restore olds n) = nm_outputs n" for n
    by (induction olds arbitrary: n) (auto simp: nm_restore_def split: option.split prod.split)
  then show ?thesis by (simp add: nm_new_def nm_controlLed_def nm_emit_def)
qed

lemma ph_run_quiet: "cm_quiet (ph_calls ph) c \<Longrightarrow> ph_shows R (ph_notify ph) \<Longrightarrow> ph_shows R (ph_notify (ph_run env c ph))"
  by (auto simp: ph_run_def cm_quiet_def ph_shows_quiet)

lemma phone_reaches_shows:
  "phone_reaches out R L ph \<Longrightarrow> ph_shows R (ph_notify ph) \<and> cm_known out R L (ph_calls ph)"
proof (induction rule: phone_reaches.induct)
  case (start b olds)
  then show ?case using nm_new_calls [of b olds]
    by (simp add: ph_new_def ph_shows_def cm_known_def cm_table_def cm_new_def)
next
  case (updated R L ph state i cenv unique userId vid c R' L' env)
  let ?s = "ph_calls ph" and ?n = "ph_notify ph"
  have k: "cm_known out R L ?s" and sh: "ph_shows R ?n" using updated.IH by auto
  then have t: "cm_table ?s" by (simp add: cm_known_def)
  note parts = cm_handleCallUpdated_parts [OF t updated.hyps(3)]
  have entered: "cm_known out R' L' (cm_enter i unique userId (out i) vid state ?s)"
    by (rule cm_enter_known [OF k updated.hyps(2,4,5)])
  have created: "cm_created (cm_enter i unique userId (out i) vid state ?s) = cm_created ?s"
    by (simp add: cm_enter_def split: option.split)
  have known: "cm_known out R' L' c"
    using parts(3,4) by (intro cm_known_subset [OF entered parts(2)]) (simp_all add: created)
  obtain outs where outs: "cm_outputs c = cm_outputs ?s @ cm_announce ?s i (out i) state @ outs" "list_all quiet_output outs"
    using parts(1) by (auto simp: cm_quiet_def)
  have call: "cm_call c i \<noteq> None"
    using parts(3) by (simp add: cm_call_def cm_enter_def split: option.splits)
  have "ph_shows R' (fold (ph_deliver env c) (cm_announce ?s i (out i) state) ?n)"
  proof (cases "cm_announce ?s i (out i) state = []")
    case True
    have R: "R \<inter> L = {}" "i \<in> R \<Longrightarrow> \<not> out i" using k by (auto simp: cm_known_def)
    have "R' = R"
    proof (cases "activeCalls ?s i")
      case None
      then have "out i" using True by (auto simp: cm_announce_def split: if_splits)
      then show ?thesis using R updated.hyps(4) by auto
    next
      case (Some a)
      have "entry_known out R L i (cm_calls ?s ! a)" using k Some by (simp add: cm_known_def)
      moreover have "cm_wasPending ?s i \<longleftrightarrow> callState (cm_calls ?s ! a) = CallPending"
        using Some by (simp add: cm_wasPending_def cm_call_def)
      ultimately show ?thesis using True R updated.hyps(2,4) Some
        by (cases "out i"; cases "callState (cm_calls ?s ! a) = CallPending"; cases "stateOf state = CallPending")
          (auto simp: cm_announce_def entry_known_def)
    qed
    then show ?thesis using sh True by simp
  next
    case False
    then consider "cm_announce ?s i (out i) state = [PendingIncomingCall i]" "\<not> out i" "stateOf state = CallPending"
      | "cm_announce ?s i (out i) state = [IncomingCallNotPending i]" "\<not> out i" "stateOf state \<noteq> CallPending"
      unfolding cm_announce_def by (metis (full_types))
    then show ?thesis
    proof cases
      case 1
      obtain x where "cm_call c i = Some x" using call by blast
      from ph_shows_publishCall [where getCall = "cm_call c" and i = i and env = env, OF sh this] show ?thesis using 1 updated.hyps(4) by (simp add: ph_deliver_def)
    next
      case 2
      then show ?thesis using ph_shows_removeCall [OF sh, of i] updated.hyps(4) by (simp add: ph_deliver_def)
    qed
  qed
  then show ?case using known outs by (simp add: ph_run_def ph_shows_quiet)
next
  case (calls R L ph env cenv op)
  then show ?case using ph_run_quiet [OF cm_do_quiet] cm_do_known by (simp add: ph_run_def)
next
  case (notify R L ph env op n)
  then have "set (visits_calls op) \<subseteq> R" by (simp add: ph_shows_def)
  then show ?case using ph_shows_do [OF conjunct1 [OF notify.IH] notify.hyps(2)] notify.IH by simp
qed

end
