(* ===== verification/PhoneProperties.thy ===== *)
theory PhoneProperties imports Phone
begin

text \<open>
  What the managers of calls and of notifications promise, each for itself and together.
\<close>

section \<open>Calls and their notifications\<close>


definition sample_call_state :: "string \<Rightarrow> vmap" where
  "sample_call_state type = minsert ''@type'' (QString type) fmempty"

lemma sample_states:
  "stateOf (sample_call_state ''callStatePending'') = CallPending"
  "stateOf (sample_call_state ''callStateDiscarded'') = CallDiscarded"
  by (simp_all add: stateOf_def sample_call_state_def getTdCallState_def)

definition sample_calls :: "call_env \<Rightarrow> calls_state" where
  "sample_calls cenv = the (cm_handleCallUpdated cenv 7 1 2 False False (sample_call_state ''callStatePending'') cm_new)"

lemma sample_calls_updated:
  "cm_handleCallUpdated cenv 7 1 2 False False (sample_call_state ''callStatePending'') cm_new = Some (sample_calls cenv)"
  by (simp add: sample_calls_def cm_handleCallUpdated_def cm_new_def Let_def)

lemma sample_phone_reached:
  "phone_reaches (\<lambda>_. False) {7} {} (ph_run env (sample_calls cenv) (ph_new False []))"
  by (rule phone_reaches.updated [OF phone_reaches.start, where i = 7 and unique = 1 and userId = 2 and
      vid = False and cenv = cenv and state = "sample_call_state ''callStatePending''"])
     (auto simp: sample_states ph_new_def sample_calls_updated)


section \<open>The current call\<close>

lemma current_state_None: "cm_getCurrentCallState s = None \<longleftrightarrow> currentCallId s \<noteq> 0 \<and> activeCalls s (currentCallId s) = None"
  by (auto simp: cm_getCurrentCallState_def cm_call_def split: option.splits)

text \<open>The state of the current call can be read unless a call is made current that is not known or that
is current already: precisely then the next reading dereferences a null pointer. No update of TDLib,
no callback of tgcalls and no other request takes the current call away.\<close>

theorem current_call_lost_iff:
  assumes "cm_table s" and "cm_getCurrentCallState s \<noteq> None"
  shows "(cm_getCurrentCallState (cm_acceptCall cenv i s) = None \<longleftrightarrow> i \<noteq> 0 \<and> (i = currentCallId s \<or> activeCalls s i = None)) \<and>
         (cm_getCurrentCallState (cm_handleCallIdReceived i s) = None \<longleftrightarrow> i \<noteq> 0 \<and> (i = currentCallId s \<or> activeCalls s i = None)) \<and>
         (\<forall>s'. cm_handleCallUpdated cenv j unique userId out vid state s = Some s' \<longrightarrow> cm_getCurrentCallState s' \<noteq> None) \<and>
         (\<forall>op. (\<forall>k. op \<noteq> AcceptCall k \<and> op \<noteq> CallIdReceived k) \<longrightarrow> cm_getCurrentCallState (cm_do cenv op s) \<noteq> None)"
proof -
  have setCurrent: "cm_getCurrentCallState (cm_setCurrentCallId i s) = None \<longleftrightarrow>
      i \<noteq> 0 \<and> (i = currentCallId s \<or> activeCalls s i = None)"
    by (auto simp: current_state_None cm_setCurrentCallId_def Let_def cm_resetInstance_result)
  have "cm_getCurrentCallState (cm_acceptCall cenv i s) = None \<longleftrightarrow> i \<noteq> 0 \<and> (i = currentCallId s \<or> activeCalls s i = None)"
    using setCurrent by (simp add: current_state_None cm_acceptCall_def)
  moreover have "cm_getCurrentCallState s' \<noteq> None"
    if "cm_handleCallUpdated cenv j unique userId out vid state s = Some s'" for s'
    using cm_handleCallUpdated_parts(3,5) [OF assms(1) that] assms(2)
    by (auto simp: current_state_None cm_enter_def split: option.splits if_splits)
  moreover have "cm_getCurrentCallState (cm_do cenv op s) \<noteq> None"
    if "\<forall>k. op \<noteq> AcceptCall k \<and> op \<noteq> CallIdReceived k" for op
    using that assms(2) by (cases op) (auto simp: cm_op_defs current_state_None Let_def split: option.split)
  ultimately show ?thesis using setCurrent by (simp add: cm_handleCallIdReceived_def)
qed

theorem current_call_lost_iff_witness:
  "\<forall>cenv. cm_getCurrentCallState (cm_acceptCall cenv 7 cm_new) = None"
  using current_call_lost_iff [of cm_new _ 7] by (simp add: cm_table_def cm_new_def cm_getCurrentCallState_def)

section \<open>Groups of notifications\<close>

text \<open>A group in order: its notifications are listed once each, under their own ids.\<close>

definition ng_ok :: "ngroup \<Rightarrow> bool" where
  "ng_ok g \<longleftrightarrow> distinct (notificationOrder g) \<and> dom (activeNotifications g) = set (notificationOrder g) \<and>
     (\<forall>i n. activeNotifications g i = Some n \<longrightarrow> toInt (mvalue n ''id'') = i)"

definition notification_id :: "qvariant \<Rightarrow> int" where
  "notification_id v = toInt (mvalue (toMap v) ''id'')"

lemma ng_added:
  assumes "ng_ok g" "distinct (map notification_id vs)" "set (map notification_id vs) \<inter> set (notificationOrder g) = {}"
  shows "ng_ok (fold ng_add vs g) \<and> notificationOrder (fold ng_add vs g) = notificationOrder g @ map notification_id vs \<and>
    (\<forall>v \<in> set vs. activeNotifications (fold ng_add vs g) (notification_id v) = Some (toMap v)) \<and>
    (\<forall>i. i \<notin> set (map notification_id vs) \<longrightarrow> activeNotifications (fold ng_add vs g) i = activeNotifications g i)"
  using assms
proof (induction vs arbitrary: g)
  case (Cons v vs)
  have ok: "ng_ok (ng_add v g)" and order: "notificationOrder (ng_add v g) = notificationOrder g @ [notification_id v]"
    and act: "activeNotifications (ng_add v g) = (activeNotifications g)(notification_id v \<mapsto> toMap v)"
    using Cons.prems by (auto simp: ng_ok_def ng_add_def notification_id_def Let_def)
  have "set (map notification_id vs) \<inter> set (notificationOrder (ng_add v g)) = {}" using Cons.prems order by auto
  then show ?case using Cons.IH [OF ok] Cons.prems order act by auto
qed simp

lemma ng_removed:
  assumes "ng_ok g"
  shows "ng_ok (fold ng_remove vs g) \<and> notificationOrder (fold ng_remove vs g) = filter (\<lambda>i. i \<notin> toInt ` set vs) (notificationOrder g) \<and>
    (\<forall>i. i \<notin> toInt ` set vs \<longrightarrow> activeNotifications (fold ng_remove vs g) i = activeNotifications g i)"
  using assms
proof (induction vs arbitrary: g)
  case (Cons v vs)
  have "distinct (notificationOrder g)" using Cons.prems by (simp add: ng_ok_def)
  then have order: "notificationOrder (ng_remove v g) = filter (\<lambda>i. i \<noteq> toInt v) (notificationOrder g)"
    by (simp add: ng_remove_def Let_def distinct_remove1_removeAll removeAll_filter_not_eq eq_commute)
  have act: "activeNotifications (ng_remove v g) = (activeNotifications g)(toInt v := None)" by (simp add: ng_remove_def Let_def)
  have "ng_ok (ng_remove v g)" using Cons.prems order by (auto simp: ng_ok_def act)
  then show ?case using Cons.IH [of "ng_remove v g"] order act by (auto intro: filter_cong)
qed simp

lemma ng_remove_fields: "totalCount (fold ng_remove vs g) = totalCount g \<and> ng_type (fold ng_remove vs g) = ng_type g"
  by (induction vs arbitrary: g) (auto simp: ng_remove_def Let_def)

lemma ng_add_fields: "totalCount (fold ng_add vs g) = totalCount g \<and> ng_type (fold ng_add vs g) = ng_type g"
  by (induction vs arbitrary: g) (auto simp: ng_add_def Let_def)

lemma nm_fillChat_groups: "nm_fillChatFields env chat upd nt n = (nt', n') \<Longrightarrow> groups n' = groups n"
  by (auto simp: nm_fillChatFields_def nm_emit_def Let_def split: option.splits if_splits)

text \<open>Publishing changes nothing of a group but its notification.\<close>

lemma nm_publish_groups:
  "\<exists>nt. groups (nm_publish env need quiet path upd k n) =
     (case fmlookup (groups n) k of None \<Rightarrow> groups n | Some g \<Rightarrow> fmupd k (g\<lparr>ng_nemo := nt\<rparr>) (groups n))"
proof (cases "fmlookup (groups n) k")
  case (Some g)
  obtain nt n' where fill: "nm_fillChatFields env (ne_chat env (ng_chatId g)) upd (ng_nemo g) n = (nt, n')" by fastforce
  then show ?thesis using Some nm_fillChat_groups [OF fill]
    by (auto simp: nm_publish_def Let_def fill nm_emit_def split: option.split)
qed (simp add: nm_publish_def)

definition order_of :: "int \<Rightarrow> notify_state \<Rightarrow> int list" where
  "order_of k s = (case fmlookup (groups s) k of None \<Rightarrow> [] | Some g \<Rightarrow> notificationOrder g)"


definition sample_note :: "int \<Rightarrow> qvariant" where
  "sample_note i = QMap (minsert ''id'' (QInt i) fmempty)"


text \<open>A message of the chat that is open, and of its open topic if it is in one, calls for no attention:
whatever feedback is asked for and whatever sound, its notification is published without vibration,
sound, light of the display and popup.\<close>

theorem open_chat_is_quiet:
  assumes "fmlookup (groups s) k = Some g" and "ng_type g \<in> {GroupMessages, GroupMentions}"
    and "messageFromActiveChat env s (ng_chatId g) (toMap (mvalue (toMap (mvalue (lastNotification g) ''type'')) ''message''))"
  shows "\<exists>nt. last (nm_outputs (nm_publish env need quiet path upd k s)) = Publish k nt \<and>
     \<not> nt_vibra nt \<and> nt_suppressSound nt \<and> \<not> nt_displayOn nt \<and> nt_urgency nt = UrgencyLow"
proof -
  obtain nt n' where fill: "nm_fillChatFields env (ne_chat env (ng_chatId g)) upd (ng_nemo g) s = (nt, n')" by fastforce
  obtain body actions args where "groupContent env s g = Some (body, actions, args, False)"
    using assms(2,3) by (auto simp: groupContent_def Let_def)
  then show ?thesis using assms(1)
    by (simp add: nm_publish_def fill Let_def nm_emit_def applyFeedback_def disableNotificationFeedback_def)
qed

text \<open>The switch for sounds does not silence notifications: one that calls for attention has its sound
suppressed only if both sounds are switched off and TDLib asks for no sound. So with sounds switched
off an ordinary notification still sounds, and with sounds switched on one without a sound does.\<close>

theorem sound_switch_ignored:
  assumes "fmlookup (groups s) k = Some g" and "ng_type g \<in> {GroupMessages, GroupMentions}"
    and "\<not> messageFromActiveChat env s (ng_chatId g) (toMap (mvalue (toMap (mvalue (lastNotification g) ''type'')) ''message''))"
  shows "\<exists>nt. last (nm_outputs (nm_publish env True quiet path upd k s)) = Publish k nt \<and> nt_vibra nt \<and>
     (nt_suppressSound nt \<longleftrightarrow> \<not> soundsEnabled env \<and> quiet)"
proof -
  obtain nt n' where fill: "nm_fillChatFields env (ne_chat env (ng_chatId g)) upd (ng_nemo g) s = (nt, n')" by fastforce
  obtain body actions args where "groupContent env s g = Some (body, actions, args, True)"
    using assms(2,3) by (auto simp: groupContent_def Let_def)
  then show ?thesis using assms(1)
    by (simp add: nm_publish_def fill Let_def nm_emit_def applyFeedback_def)
qed

definition sample_group_state :: notify_state where
  "sample_group_state = (nm_new False [])\<lparr>groups := fmupd 5 (newGroup GroupMessages 5 9 1 newNemo) fmempty\<rparr>"

lemma sample_group_state_fields:
  "fmlookup (groups sample_group_state) 5 = Some (newGroup GroupMessages 5 9 1 newNemo)"
  "activeChatId sample_group_state = 0" "activeTopicId sample_group_state = fmempty"
  by (simp_all add: sample_group_state_def nm_new_def nm_controlLed_def nm_emit_def)

theorem sound_switch_ignored_witness:
  "\<forall>env path. \<exists>nt. last (nm_outputs (nm_publish (env\<lparr>soundsEnabled := False\<rparr>) True False path False 5 sample_group_state)) = Publish 5 nt \<and>
     nt_vibra nt \<and> \<not> nt_suppressSound nt"
  using sound_switch_ignored [OF sample_group_state_fields(1), of "env\<lparr>soundsEnabled := False\<rparr>" False path False for env path]
  by (auto simp: messageFromActiveChat_def sample_group_state_fields newGroup_def)

theorem open_chat_is_quiet_witness:
  "\<forall>env path. \<exists>nt. last (nm_outputs (nm_publish (env\<lparr>ne_active := True\<rparr>) True False path False 5 (sample_group_state\<lparr>activeChatId := 9\<rparr>))) = Publish 5 nt \<and>
     \<not> nt_vibra nt \<and> nt_suppressSound nt"
proof (intro allI)
  fix env :: notify_env and path
  let ?s = "sample_group_state\<lparr>activeChatId := 9\<rparr>" and ?e = "env\<lparr>ne_active := True\<rparr>"
  have "fmlookup (groups ?s) 5 = Some (newGroup GroupMessages 5 9 1 newNemo)" using sample_group_state_fields by simp
  from open_chat_is_quiet [OF this, of ?e True False path False]
  show "\<exists>nt. last (nm_outputs (nm_publish ?e True False path False 5 ?s)) = Publish 5 nt \<and> \<not> nt_vibra nt \<and> nt_suppressSound nt"
    by (auto simp: messageFromActiveChat_def sample_group_state_fields newGroup_def)
qed

end
