(* ===== verification/ChatFolders.thy ===== *)
theory ChatFolders imports ChatList FormattedText
begin

text \<open>
  \<open>ChatFoldersModel\<close> (\<open>src/chatfoldersmodel.h\<close>, \<open>chatfoldersmodel.cpp\<close>): the row of tabs, one for
  all chats and one for every folder, each with its own \<open>FolderChatListModel\<close>.

  A tab's \<open>ChatFolderData\<close> is a row; the lists behind the tabs are the states of \<open>ChatList\<close>.
  A list made by \<open>handleChatAddedToFolderList\<close> is connected to
  \<open>handleFolderChatListUnreadChatCountChanged\<close>, one made by \<open>handleChatFoldersUpdated\<close> is not:
  \<open>cf_connected\<close> has the folders whose list is. \<open>QList::move\<close> and \<open>beginMoveRows\<close> out of range are
  \<open>None\<close>. The translated names, the paths of the icons and the settings are arguments.
\<close>

section \<open>State\<close>

datatype folder_icon =
  IconAll | IconUnread | IconUnmuted | IconBots | IconChannels | IconGroups | IconPrivate | IconCustom
| IconSetup | IconCat | IconCrown | IconFavorite | IconFlower | IconGame | IconHome | IconLove | IconMask
| IconParty | IconSport | IconStudy | IconTrade | IconTravel | IconWork | IconAirplane | IconBook | IconLight
| IconLike | IconMoney | IconNote | IconPalette

definition iconForName :: "string \<Rightarrow> folder_icon" where
  "iconForName name =
     (if name = ''All'' then IconAll
      else if name = ''Unread'' then IconUnread
      else if name = ''Unmuted'' then IconUnmuted
      else if name = ''Bots'' then IconBots
      else if name = ''Channels'' then IconChannels
      else if name = ''Groups'' then IconGroups
      else if name = ''Private'' then IconPrivate
      else if name = ''Custom'' then IconCustom
      else if name = ''Setup'' then IconSetup
      else if name = ''Cat'' then IconCat
      else if name = ''Crown'' then IconCrown
      else if name = ''Favorite'' then IconFavorite
      else if name = ''Flower'' then IconFlower
      else if name = ''Game'' then IconGame
      else if name = ''Home'' then IconHome
      else if name = ''Love'' then IconLove
      else if name = ''Mask'' then IconMask
      else if name = ''Party'' then IconParty
      else if name = ''Sport'' then IconSport
      else if name = ''Study'' then IconStudy
      else if name = ''Trade'' then IconTrade
      else if name = ''Travel'' then IconTravel
      else if name = ''Work'' then IconWork
      else if name = ''Airplane'' then IconAirplane
      else if name = ''Book'' then IconBook
      else if name = ''Light'' then IconLight
      else if name = ''Like'' then IconLike
      else if name = ''Money'' then IconMoney
      else if name = ''Note'' then IconNote
      else if name = ''Palette'' then IconPalette
      else IconAll)"

datatype folder_type = FolderMain | FolderFolder | FolderArchive

record chat_folder =
  fo_type :: folder_type
  fo_icon :: folder_icon
  fo_data :: vmap

datatype folder_role =
  FRoleDisplay | FRoleId | FRoleName | FRoleIcon | FRoleColorId | FRoleIsShareable
| FRoleHasMyInviteLinks | FRoleModel | FRoleUnreadChatCount | FRoleType | FRoleIconPath

definition newFolder :: "vmap \<Rightarrow> chat_folder" where
  "newFolder data =
     \<lparr>fo_type = FolderFolder, fo_icon = iconForName (toString (mvalue (toMap (mvalue data ''icon'')) ''name'')),
      fo_data = fmdrop ''icon'' data\<rparr>"

definition newFolderOfType :: "folder_type \<Rightarrow> chat_folder" where
  "newFolderOfType type = \<lparr>fo_type = type, fo_icon = IconAll, fo_data = fmempty\<rparr>"

definition fo_isFolder :: "chat_folder \<Rightarrow> bool" where
  "fo_isFolder f \<longleftrightarrow> fo_type f = FolderFolder"

definition fo_id :: "chat_folder \<Rightarrow> int" where
  "fo_id f = toInt (mvalue (fo_data f) ''id'')"

definition enhanceMessageText :: "char \<Rightarrow> vmap \<Rightarrow> bool \<Rightarrow> bool \<Rightarrow> string" where
  "enhanceMessageText shade formattedText ignoreEntities escapeReserved =
     (if ignoreEntities
      then (let plainText = getPlainFor formattedText
            in if escapeReserved then getPlainEscapedFor plainText else plainText)
      else parseText shade plainClass True (readFormattedText formattedText IgnoreFull))"

definition fo_name :: "char \<Rightarrow> (string \<Rightarrow> string) \<Rightarrow> chat_folder \<Rightarrow> string" where
  "fo_name shade tr f =
     (case fo_type f of
        FolderMain \<Rightarrow> tr ''All''
      | FolderFolder \<Rightarrow>
          enhanceMessageText shade (toMap (mvalue (toMap (mvalue (fo_data f) ''name'')) ''text'')) True True
      | FolderArchive \<Rightarrow> tr ''Archive'')"

datatype cf_output =
  CfRows row_event "chat_folder list"
| CfDataChanged int int "folder_role list" "chat_folder list"
| CfRefreshTimerEnabledChanged
| CfLoadChats bool

record cf_state =
  cf_folders :: "chat_folder list"
  cf_index :: "int \<rightharpoonup> nat"
  cf_mainIndex :: int
  cf_models :: "int \<rightharpoonup> folder_state"
  cf_connected :: "int set"
  cf_main :: cl_state
  cf_archive :: cl_state
  cf_refreshTimerEnabled :: bool
  cf_outputs :: "cf_output list"

definition cf_new :: cf_state where
  "cf_new = \<lparr>cf_folders = [newFolderOfType FolderMain], cf_index = Map.empty, cf_mainIndex = 0,
     cf_models = Map.empty, cf_connected = {}, cf_main = cl_new False, cf_archive = cl_new True,
     cf_refreshTimerEnabled = False, cf_outputs = []\<rparr>"

definition cf_emit :: "cf_output \<Rightarrow> cf_state \<Rightarrow> cf_state" where
  "cf_emit out s = s\<lparr>cf_outputs := cf_outputs s @ [out]\<rparr>"

definition cf_emitRows :: "row_event \<Rightarrow> cf_state \<Rightarrow> cf_state" where
  "cf_emitRows e s = cf_emit (CfRows e (cf_folders s)) s"

definition cf_row :: "cf_state \<Rightarrow> int \<Rightarrow> int" where
  "cf_row s r = (if valid_row r (cf_folders s) then r else -1)"

definition cf_dataChanged :: "int \<Rightarrow> int \<Rightarrow> folder_role list \<Rightarrow> cf_state \<Rightarrow> cf_state" where
  "cf_dataChanged f l roles s = cf_emit (CfDataChanged (cf_row s f) (cf_row s l) roles (cf_folders s)) s"

definition newFolderList :: "int \<Rightarrow> folder_state" where
  "newFolderList folderId = cl_state.extend (cl_new False) (folder_state.fields folderId)"

section \<open>Keeping the positions\<close>

definition cf_updateChatFolderIndexAt :: "nat \<Rightarrow> cf_state \<Rightarrow> cf_state option" where
  "cf_updateChatFolderIndexAt i s = do {
     f \<leftarrow> qat (cf_folders s) i;
     Some (case fo_type f of
             FolderFolder \<Rightarrow> s\<lparr>cf_index := (cf_index s)(fo_id f \<mapsto> i)\<rparr>
           | FolderMain \<Rightarrow> s\<lparr>cf_mainIndex := int i\<rparr>
           | FolderArchive \<Rightarrow> s) }"

fun cf_updateIndices :: "nat list \<Rightarrow> cf_state \<Rightarrow> cf_state option" where
  "cf_updateIndices [] s = Some s"
| "cf_updateIndices (i # rest) s = do { s' \<leftarrow> cf_updateChatFolderIndexAt i s; cf_updateIndices rest s' }"

definition cf_finishMove :: "nat \<Rightarrow> nat \<Rightarrow> cf_state \<Rightarrow> cf_state option" where
  "cf_finishMove frm to s =
     (let last = max frm to
      in if to < frm then cf_updateIndices [to + 1..<last + 1] s else cf_updateIndices [frm..<last] s)"

definition cf_removeRange :: "int \<Rightarrow> int \<Rightarrow> cf_state \<Rightarrow> cf_state option" where
  "cf_removeRange firstDeleted lastDeleted s =
     (if firstDeleted \<ge> 0 \<and> firstDeleted \<le> lastDeleted then
        (if lastDeleted < int (length (cf_folders s)) then
           (let a = nat firstDeleted; b = nat lastDeleted;
                removed = fold (\<lambda>i m. m(fo_id (cf_folders s ! i) := None)) [a..<b + 1] (cf_index s);
                rows = remove_slice a b (cf_folders s)
            in Some (cf_emitRows (RowsRemoved firstDeleted lastDeleted)
                 (s\<lparr>cf_folders := rows, cf_index := reindex fo_id rows a (length rows) removed\<rparr>)))
         else None)
      else Some s)"

section \<open>The update of the folders\<close>

definition folder_id :: "qvariant \<Rightarrow> int" where
  "folder_id folder = toInt (mvalue (toMap folder) ''id'')"

definition cf_removeFolderAt :: "nat \<Rightarrow> int \<Rightarrow> cf_state \<Rightarrow> cf_state" where
  "cf_removeFolderAt i k s =
     (let rows = remove_at i (cf_folders s)
      in cf_emitRows (RowsRemoved (int i) (int i))
           (s\<lparr>cf_folders := rows, cf_index := reindex fo_id rows i (length rows) ((cf_index s)(k := None))\<rparr>))"

text \<open>\<open>for (int i = n - 1; i >= 0; i--)\<close>: the folders that are gone leave from the back.\<close>

fun cf_remove_loop :: "qvariant list \<Rightarrow> nat \<Rightarrow> cf_state \<Rightarrow> cf_state option" where
  "cf_remove_loop newFolders 0 s = Some s"
| "cf_remove_loop newFolders (Suc i) s = do {
     f \<leftarrow> qat (cf_folders s) i;
     cf_remove_loop newFolders i
       (if \<not> fo_isFolder f then s
        else if \<exists>v \<in> set newFolders. folder_id v = fo_id f then s
        else cf_removeFolderAt i (fo_id f) s) }"

text \<open>\<open>beginMoveRows\<close> and \<open>QList::move\<close>, with the indices the code computes.\<close>

definition cf_move :: "int \<Rightarrow> int \<Rightarrow> (cf_state \<Rightarrow> cf_state) \<Rightarrow> cf_state \<Rightarrow> cf_state option" where
  "cf_move frm to upd s =
     (if valid_row frm (cf_folders s) \<and> valid_row to (cf_folders s) then do {
        s' \<leftarrow> cf_finishMove (nat frm) (nat to)
               (upd (s\<lparr>cf_folders := qmove (nat frm) (nat to) (cf_folders s)\<rparr>));
        Some (cf_emitRows (RowsMoved frm frm (if to < frm then to else to + 1)) s') }
      else None)"

definition cf_findMain :: "chat_folder list \<Rightarrow> int" where
  "cf_findMain rows =
     (let i = length (takeWhile (\<lambda>f. fo_type f \<noteq> FolderMain) rows) in if i < length rows then int i else -1)"

definition cf_moveMain :: "int \<Rightarrow> cf_state \<Rightarrow> cf_state option" where
  "cf_moveMain mainChatListPosition s =
     (let newIndex = min mainChatListPosition (int (length (cf_folders s)));
          oldIndex = cf_findMain (cf_folders s)
      in if oldIndex \<noteq> newIndex then cf_move oldIndex newIndex (\<lambda>s. s\<lparr>cf_mainIndex := newIndex\<rparr>) s
         else Some s)"

text \<open>The inner loop: every row of the folder gets the new data, and the last one counts.\<close>

fun cf_refresh_loop :: "vmap \<Rightarrow> int \<Rightarrow> nat list \<Rightarrow> int \<Rightarrow> cf_state \<Rightarrow> int \<times> cf_state" where
  "cf_refresh_loop folder k [] oldIndex s = (oldIndex, s)"
| "cf_refresh_loop folder k (j # js) oldIndex s =
     (let f = cf_folders s ! j
      in if fo_isFolder f \<and> fo_id f = k
         then cf_refresh_loop folder k js (int j)
                (cf_dataChanged (int j) (int j) [] (s\<lparr>cf_folders := (cf_folders s)[j := f\<lparr>fo_data := folder\<rparr>]\<rparr>))
         else cf_refresh_loop folder k js oldIndex s)"

definition cf_insertFolder :: "int \<Rightarrow> vmap \<Rightarrow> cf_state \<Rightarrow> cf_state option" where
  "cf_insertFolder normalizedIndex folder s =
     (let i = nat (min normalizedIndex (int (length (cf_folders s))));
          rows = insert_at i (newFolder folder) (cf_folders s)
      in do {
        s' \<leftarrow> cf_updateIndices [i..<length rows] (s\<lparr>cf_folders := rows\<rparr>);
        Some (cf_emitRows (RowsInserted (int i) (int i)) s') })"

definition cf_updateFolder :: "int \<Rightarrow> int \<Rightarrow> qvariant \<Rightarrow> cf_state \<Rightarrow> cf_state option" where
  "cf_updateFolder mainChatListPosition i v s =
     (let normalizedIndex = (if i \<ge> mainChatListPosition then i + 1 else i);
          folder = toMap v;
          k = toInt (mvalue folder ''id'');
          s1 = (if cf_models s k = None then s\<lparr>cf_models := (cf_models s)(k \<mapsto> newFolderList k)\<rparr> else s);
          (oldIndex, s2) = cf_refresh_loop folder k [0..<length (cf_folders s1)] (-1) s1
      in if oldIndex = -1 then cf_insertFolder normalizedIndex folder s2
         else if oldIndex \<noteq> normalizedIndex
         then (let newIndex = min normalizedIndex (int (length (cf_folders s2)))
               in cf_move oldIndex newIndex (\<lambda>s. s\<lparr>cf_index := (cf_index s)(k \<mapsto> nat newIndex)\<rparr>) s2)
         else Some s2)"

fun cf_update_loop :: "int \<Rightarrow> int \<Rightarrow> qvariant list \<Rightarrow> cf_state \<Rightarrow> cf_state option" where
  "cf_update_loop mainChatListPosition i [] s = Some s"
| "cf_update_loop mainChatListPosition i (v # vs) s = do {
     s' \<leftarrow> cf_updateFolder mainChatListPosition i v s;
     cf_update_loop mainChatListPosition (i + 1) vs s' }"

definition cf_handleChatFoldersUpdated :: "qvariant list \<Rightarrow> int \<Rightarrow> cf_state \<Rightarrow> cf_state option" where
  "cf_handleChatFoldersUpdated newChatFolders mainChatListPosition s = do {
     s1 \<leftarrow> cf_remove_loop newChatFolders (length (cf_folders s)) (s\<lparr>cf_mainIndex := -1\<rparr>);
     s2 \<leftarrow> cf_moveMain mainChatListPosition s1;
     s3 \<leftarrow> cf_update_loop mainChatListPosition 0 newChatFolders s2;
     Some (s3\<lparr>cf_mainIndex := mainChatListPosition\<rparr>) }"

section \<open>The other handlers\<close>

definition cf_handleReady :: "cf_state \<Rightarrow> cf_state" where
  "cf_handleReady s = cf_emit (CfLoadChats True) (cf_emit (CfLoadChats False) s)"

definition cf_reset :: "cf_state \<Rightarrow> cf_state option" where
  "cf_reset s = do {
     s1 \<leftarrow> cf_removeRange 0 (cf_mainIndex s - 1) s;
     s2 \<leftarrow> cf_removeRange (cf_mainIndex s1 + 1) (int (length (cf_folders s1)) - 1) s1;
     Some (s2\<lparr>cf_main := cl_reset (cf_main s2), cf_archive := cl_reset (cf_archive s2)\<rparr>) }"

definition cf_handleChatAddedToFolderList :: "int \<Rightarrow> int \<Rightarrow> int \<Rightarrow> bool \<Rightarrow> cf_state \<Rightarrow> cf_state" where
  "cf_handleChatAddedToFolderList folderId chatId order isPinned s =
     (if cf_models s folderId = None
      then s\<lparr>cf_connected := insert folderId (cf_connected s),
             cf_models := (cf_models s)(folderId \<mapsto>
               cl_handleChatAddedToList chatId order isPinned (newFolderList folderId))\<rparr>
      else s)"

definition cf_handleMainChatListUnreadChatCountUpdated :: "cf_state \<Rightarrow> cf_state" where
  "cf_handleMainChatListUnreadChatCountUpdated s =
     (if valid_row (cf_mainIndex s) (cf_folders s)
      then cf_dataChanged (cf_mainIndex s) (cf_mainIndex s) [FRoleUnreadChatCount] s else s)"

definition cf_handleFolderChatListUnreadChatCountChanged :: "int \<Rightarrow> cf_state \<Rightarrow> cf_state" where
  "cf_handleFolderChatListUnreadChatCountChanged folderId s =
     (case cf_index s folderId of
        None \<Rightarrow> s
      | Some i \<Rightarrow> cf_dataChanged (int i) (int i) [FRoleUnreadChatCount] s)"

definition cf_handleFoldersUnreadCountIncludeMutedChanged :: "cf_state \<Rightarrow> cf_state" where
  "cf_handleFoldersUnreadCountIncludeMutedChanged s =
     cf_dataChanged 0 (int (length (cf_folders s)) - 1) [FRoleUnreadChatCount] s"

definition cf_calculateUnreadStates ::
  "bool \<Rightarrow> (int \<Rightarrow> chat_data) \<Rightarrow> (int \<Rightarrow> vmap \<Rightarrow> bool) \<Rightarrow> cf_state \<Rightarrow> cf_state" where
  "cf_calculateUnreadStates onlineOnlyMode chats muted s =
     (if \<not> onlineOnlyMode then s
      else s\<lparr>cf_main := cl_calculateUnreadState onlineOnlyMode chats muted (cf_main s),
             cf_archive := cl_calculateUnreadState onlineOnlyMode chats muted (cf_archive s),
             cf_models := (\<lambda>k. map_option (cl_calculateUnreadState onlineOnlyMode chats muted) (cf_models s k))\<rparr>)"

definition cf_setRefreshTimerEnabled :: "bool \<Rightarrow> cf_state \<Rightarrow> cf_state" where
  "cf_setRefreshTimerEnabled enabled s =
     (if cf_refreshTimerEnabled s \<noteq> enabled
      then cf_emit CfRefreshTimerEnabledChanged
             (s\<lparr>cf_refreshTimerEnabled := enabled,
                cf_main := cl_setRefreshTimerEnabled enabled (cf_main s),
                cf_archive := cl_setRefreshTimerEnabled enabled (cf_archive s),
                cf_models := (\<lambda>k. map_option (cl_setRefreshTimerEnabled enabled) (cf_models s k))\<rparr>)
      else s)"

section \<open>Reading the tabs\<close>

datatype folder_list = MainList | ArchiveList | ListOfFolder int

datatype cf_value =
  CfValue qvariant
| CfIcon folder_icon
| CfList folder_list
| CfType folder_type

definition cf_rowCount :: "cf_state \<Rightarrow> int" where
  "cf_rowCount s = int (length (cf_folders s))"

definition cf_roleNames :: "(folder_role \<times> string) list" where
  "cf_roleNames =
    [(FRoleName, ''title''), (FRoleUnreadChatCount, ''count''), (FRoleIconPath, ''icon''),
     (FRoleDisplay, ''display''), (FRoleId, ''folder_id''), (FRoleIcon, ''icon_''),
     (FRoleColorId, ''color_id''), (FRoleIsShareable, ''is_shareable''),
     (FRoleHasMyInviteLinks, ''has_my_invite_links''), (FRoleModel, ''chat_list_model''), (FRoleType, ''type'')]"

definition cf_data ::
  "char \<Rightarrow> (string \<Rightarrow> string) \<Rightarrow> (folder_icon \<Rightarrow> string) \<Rightarrow> (bool \<Rightarrow> bool) \<Rightarrow> cf_state \<Rightarrow> int \<Rightarrow> folder_role \<Rightarrow> cf_value" where
  "cf_data shade tr iconPath includeMuted s row role =
     (if valid_row row (cf_folders s) then
        (let f = cf_folders s ! nat row; data = fo_data f in
         case role of
           FRoleDisplay \<Rightarrow> CfValue (QMap data)
         | FRoleId \<Rightarrow> CfValue (QInt (toInt (mvalue data ''id'')))
         | FRoleName \<Rightarrow> CfValue (QString (fo_name shade tr f))
         | FRoleIcon \<Rightarrow> CfIcon (fo_icon f)
         | FRoleIconPath \<Rightarrow> CfValue (QString (iconPath (fo_icon f)))
         | FRoleColorId \<Rightarrow> CfValue (QInt (toInt (mvalue data ''color_id'')))
         | FRoleIsShareable \<Rightarrow> CfValue (QBool (toBool (mvalue data ''is_shareable'')))
         | FRoleHasMyInviteLinks \<Rightarrow> CfValue (QBool (toBool (mvalue data ''has_my_invite_links'')))
         | FRoleModel \<Rightarrow>
             (case fo_type f of
                FolderMain \<Rightarrow> CfList MainList
              | FolderFolder \<Rightarrow>
                  (if cf_models s (fo_id f) \<noteq> None then CfList (ListOfFolder (fo_id f)) else CfValue QInvalid)
              | FolderArchive \<Rightarrow> CfList ArchiveList)
         | FRoleUnreadChatCount \<Rightarrow>
             (case fo_type f of
                FolderMain \<Rightarrow> CfValue (QInt (cl_getUnreadChatCount includeMuted True (cf_main s)))
              | FolderFolder \<Rightarrow>
                  (case cf_models s (fo_id f) of
                     Some m \<Rightarrow> CfValue (QInt (cl_getUnreadChatCount includeMuted True m))
                   | None \<Rightarrow> CfValue QInvalid)
              | FolderArchive \<Rightarrow> CfValue (QInt (cl_getUnreadChatCount includeMuted True (cf_archive s))))
         | FRoleType \<Rightarrow> CfType (fo_type f))
      else CfValue QInvalid)"

section \<open>Putting a key at its place\<close>

definition put_at :: "nat \<Rightarrow> 'k \<Rightarrow> 'k list \<Rightarrow> 'k list" where
  "put_at n t ks = insert_at n t (remove1 t ks)"

lemma put_at_insert: "t \<notin> set ks \<Longrightarrow> put_at n t ks = insert_at n t ks"
  by (simp add: put_at_def remove1_idem)

lemma remove_at_remove1: "distinct ks \<Longrightarrow> j < length ks \<Longrightarrow> remove_at j ks = remove1 (ks ! j) ks"
proof (induction ks arbitrary: j)
  case (Cons k ks)
  then show ?case by (cases j) (auto simp: remove_at_def)
qed simp

lemma put_at_qmove: "distinct ks \<Longrightarrow> j < length ks \<Longrightarrow> qmove j n ks = put_at n (ks ! j) ks"
  by (simp add: qmove_def put_at_def remove_at_remove1)

lemma put_at_same: "distinct ks \<Longrightarrow> j < length ks \<Longrightarrow> put_at j (ks ! j) ks = ks"
  by (simp flip: put_at_qmove add: qmove_def insert_at_def remove_at_def min_def id_take_nth_drop [symmetric])

lemma set_put_at [simp]: "distinct ks \<Longrightarrow> set (put_at n t ks) = insert t (set ks)"
  by (auto simp: put_at_def)

lemma distinct_insert_at [simp]: "distinct (insert_at n t ks) \<longleftrightarrow> distinct ks \<and> t \<notin> set ks"
  by (metis append_take_drop_id distinct.simps(2) distinct_append insert_at_def mset_eq_imp_distinct_iff mset_insert_at mset.simps(2) set_mset_mset)

lemma distinct_put_at [simp]: "distinct ks \<Longrightarrow> distinct (put_at n t ks)"
  by (simp add: put_at_def)

lemma filter_take: "filter P (drop n ks) = [] \<Longrightarrow> filter P (take n ks) = filter P ks"
  by (metis append_Nil2 append_take_drop_id filter_append)

lemma set_take_remove1: "set (take n (remove1 t ks)) \<subseteq> set (take (Suc n) ks)"
proof (induction ks arbitrary: n)
  case (Cons k ks)
  show ?case
  proof (cases n)
    case (Suc m)
    have "set (take m ks) \<subseteq> set (take (Suc m) ks)" by (simp add: set_take_subset_set_take)
    with Suc Cons [of m] show ?thesis by auto
  qed simp
qed simp

lemma set_drop_remove1: "set (drop n (remove1 t ks)) \<subseteq> set (drop n ks)"
proof (induction ks arbitrary: n)
  case (Cons k ks)
  have "set (drop n ks) \<subseteq> set (drop n (k # ks))"
    using set_drop_subset_set_drop [of "n - 1" n ks] by (cases n) auto
  with Cons show ?case by (cases n) (auto dest: notin_set_remove1)
qed simp

lemma take_remove1: "t \<notin> set (take n ks) \<Longrightarrow> take n (remove1 t ks) = take n ks"
proof (induction ks arbitrary: n)
  case (Cons k ks)
  then show ?case by (cases n) auto
qed simp

lemma take_put_at: "t \<notin> set (take m ks) \<Longrightarrow> m \<le> n \<Longrightarrow> n \<le> length (remove1 t ks) \<Longrightarrow> take m (put_at n t ks) = take m ks"
  by (simp add: put_at_def insert_at_def take_remove1 min_def)

text \<open>The keys of \<open>T\<close> stand in order among the first \<open>n\<close>: the next key is put behind them.\<close>

lemma put_at_next:
  assumes f: "filter (\<lambda>k. k \<in> set T) ks = T" and d: "set (drop n ks) \<inter> set T = {}"
    and t: "t \<notin> set T" and n: "n \<le> length (remove1 t ks)" and ks: "distinct ks"
  shows "filter (\<lambda>k. k \<in> set (T @ [t])) (put_at n t ks) = T @ [t]"
    and "set (drop (Suc n) (put_at n t ks)) \<inter> set (T @ [t]) = {}"
proof -
  let ?zs = "remove1 t ks"
  have dz: "set (drop n ?zs) \<inter> set T = {}" using d set_drop_remove1 [of n t ks] by auto
  have tz: "t \<notin> set ?zs" using ks by simp
  then have away: "t \<notin> set (take n ?zs)" "t \<notin> set (drop n ?zs)"
    by (auto dest: in_set_takeD in_set_dropD)
  have "filter (\<lambda>k. k \<in> set T) ?zs = T"
    using f t by (simp add: filter_remove1 remove1_idem)
  moreover have "filter (\<lambda>k. k \<in> set T) (drop n ?zs) = []" using dz by (auto simp: filter_empty_conv)
  ultimately have T: "filter (\<lambda>k. k \<in> set T) (take n ?zs) = T" by (simp add: filter_take)
  have "filter (\<lambda>k. k \<in> set (T @ [t])) (take n ?zs) = T"
    using away(1) by (subst T [symmetric], intro filter_cong) auto
  moreover have "filter (\<lambda>k. k \<in> set (T @ [t])) (drop n ?zs) = []"
    using away(2) dz by (auto simp: filter_empty_conv)
  ultimately show "filter (\<lambda>k. k \<in> set (T @ [t])) (put_at n t ks) = T @ [t]"
    by (simp add: put_at_def insert_at_def)
  show "set (drop (Suc n) (put_at n t ks)) \<inter> set (T @ [t]) = {}"
    using away(2) dz n by (auto simp: put_at_def insert_at_def)
qed

lemma take_put_at_fresh:
  assumes "z \<notin> set (take m ks)" "z \<noteq> t" "n < m"
  shows "z \<notin> set (take m (put_at n t ks))"
proof -
  obtain p where m: "m = Suc p" using assms(3) by (cases m) auto
  have "set (take m (insert_at n t zs)) \<subseteq> insert t (set (take p zs))" for zs :: "'a list"
  proof -
    have "set (take m (insert_at n t zs)) \<subseteq> insert t (set (take n zs) \<union> set (take (p - n) (drop n zs)))"
      using assms(3) by (auto simp: insert_at_def m min_def dest: in_set_takeD split: if_splits)
         (metis Suc_diff_le in_set_takeD insert_iff less_Suc_eq_le list.set(2) nat_le_linear set_ConsD take_Suc_Cons)+
    also have "set (take n zs) \<union> set (take (p - n) (drop n zs)) = set (take p zs)"
      using assms(3) by (metis le_add_diff_inverse less_Suc_eq_le m set_append take_add)
    finally show ?thesis .
  qed
  from this [of "remove1 t ks"] have "set (take m (put_at n t ks)) \<subseteq> insert t (set (take m ks))"
    using set_take_remove1 [of p t ks] by (auto simp: put_at_def m)
  with assms show ?thesis by auto
qed

lemma filter_first:
  assumes "filter (\<lambda>k. k \<in> set T) ks = T" "set (drop n ks) \<inter> set T = {}" "n \<le> length T"
  shows "take n ks = T"
proof -
  have "filter (\<lambda>k. k \<in> set T) (drop n ks) = []" using assms(2) by (auto simp: filter_empty_conv)
  with assms(1) have T: "filter (\<lambda>k. k \<in> set T) (take n ks) = T" by (simp add: filter_take)
  have "length (take n ks) \<le> length T" using assms(3) by simp
  then have "filter (\<lambda>k. k \<in> set T) (take n ks) = take n ks"
    using T length_filter_le [of "\<lambda>k. k \<in> set T" "take n ks"]
    by (metis filter_id_conv le_antisym length_filter_less less_irrefl)
  with T show ?thesis by simp
qed

section \<open>Tabs in order\<close>

definition tabs_ok :: "chat_folder list \<Rightarrow> bool" where
  "tabs_ok rows \<longleftrightarrow> distinct (map fo_id rows) \<and> 0 \<in> fo_id ` set rows \<and>
     (\<forall>f \<in> set rows. (fo_type f = FolderMain \<and> fo_id f = 0) \<or> (fo_type f = FolderFolder \<and> fo_id f \<noteq> 0))"

text \<open>The hash is right for the folders; the loops may leave an entry for the main tab, under 0.\<close>

definition tabs_index :: "chat_folder list \<Rightarrow> (int \<rightharpoonup> nat) \<Rightarrow> bool" where
  "tabs_index rows m \<longleftrightarrow> (\<forall>k i. k \<noteq> 0 \<longrightarrow> (m k = Some i \<longleftrightarrow> i < length rows \<and> fo_id (rows ! i) = k))"

definition cf_ok :: "cf_state \<Rightarrow> bool" where
  "cf_ok s \<longleftrightarrow> tabs_ok (cf_folders s) \<and> tabs_index (cf_folders s) (cf_index s)"

fun cf_view :: "cf_output \<Rightarrow> chat_folder list \<Rightarrow> chat_folder list" where
  "cf_view (CfRows e rows) view = view_step rows e view"
| "cf_view (CfDataChanged f l roles rows) view = fold (\<lambda>r. view_step rows (RowChanged r)) [f..l] view"
| "cf_view _ view = view"

definition cf_sync :: "cf_state \<Rightarrow> cf_state \<Rightarrow> bool" where
  "cf_sync s s' \<longleftrightarrow> (\<exists>new. cf_outputs s' = cf_outputs s @ new \<and> fold cf_view new (cf_folders s) = cf_folders s')"

text \<open>One step: the rows it ends with, their hash, the views, and no list is lost.\<close>

definition cf_becomes :: "chat_folder list \<Rightarrow> cf_state \<Rightarrow> cf_state \<Rightarrow> bool" where
  "cf_becomes rows s s' \<longleftrightarrow> cf_folders s' = rows \<and> cf_ok s' \<and> cf_sync s s' \<and> dom (cf_models s) \<subseteq> dom (cf_models s')"

lemma cf_becomes_trans: "cf_becomes rows s t \<Longrightarrow> cf_becomes rows' t u \<Longrightarrow> cf_becomes rows' s u"
  unfolding cf_becomes_def cf_sync_def by (metis append_assoc fold_append o_apply order_trans)

lemma cf_becomes_same: "cf_ok s \<Longrightarrow> cf_becomes (cf_folders s) s s"
  by (auto simp: cf_becomes_def cf_sync_def intro: exI [of _ "[]"])

lemma cf_becomesD:
  assumes "cf_becomes rows s s'"
  shows "cf_folders s' = rows" "cf_ok s'" "dom (cf_models s) \<subseteq> dom (cf_models s')"
  using assms by (simp_all add: cf_becomes_def)

lemma cf_emit_fields [simp]:
  "cf_folders (cf_emit out s) = cf_folders s" "cf_index (cf_emit out s) = cf_index s"
  "cf_models (cf_emit out s) = cf_models s" "cf_outputs (cf_emit out s) = cf_outputs s @ [out]"
  "cf_folders (cf_emitRows e s) = cf_folders s" "cf_index (cf_emitRows e s) = cf_index s"
  "cf_models (cf_emitRows e s) = cf_models s"
  "cf_outputs (cf_emitRows e s) = cf_outputs s @ [CfRows e (cf_folders s)]"
  "cf_mainIndex (cf_emitRows e s) = cf_mainIndex s"
  by (simp_all add: cf_emit_def cf_emitRows_def)

lemma cf_becomes_rows:
  assumes "cf_outputs t = cf_outputs s" "cf_models t = cf_models s" "cf_ok t"
    "view_step (cf_folders t) e (cf_folders s) = cf_folders t"
  shows "cf_becomes (cf_folders t) s (cf_emitRows e t)"
  using assms by (auto simp: cf_becomes_def cf_sync_def cf_ok_def)

lemma tabs_okD:
  assumes "tabs_ok rows" "f \<in> set rows"
  shows "fo_isFolder f \<longleftrightarrow> fo_id f \<noteq> 0" "fo_type f = FolderMain \<longleftrightarrow> fo_id f = 0"
    "fo_type f = (if fo_id f = 0 then FolderMain else FolderFolder)"
  using assms by (auto simp: tabs_ok_def fo_isFolder_def)

lemma tabs_ok_perm: "mset rows = mset rows' \<Longrightarrow> tabs_ok rows \<Longrightarrow> tabs_ok rows'"
  unfolding tabs_ok_def
  by (metis mset_eq_imp_distinct_iff mset_eq_setD mset_map)

lemma tabs_indexI:
  assumes "distinct (map fo_id rows)"
    and "\<And>i. i < length rows \<Longrightarrow> fo_id (rows ! i) \<noteq> 0 \<Longrightarrow> m (fo_id (rows ! i)) = Some i"
    and "\<And>k. k \<noteq> 0 \<Longrightarrow> k \<notin> fo_id ` set rows \<Longrightarrow> m k = None"
  shows "tabs_index rows m"
  unfolding tabs_index_def
proof (intro allI impI)
  fix k :: int and i assume k: "k \<noteq> 0"
  show "m k = Some i \<longleftrightarrow> i < length rows \<and> fo_id (rows ! i) = k"
  proof (cases "k \<in> fo_id ` set rows")
    case True
    then obtain j where j: "j < length rows" "fo_id (rows ! j) = k" by (auto simp: key_image_nth)
    with assms(2) [of j] k distinct_key_eq [OF assms(1), of i j] show ?thesis by auto
  next
    case False
    with assms(3) [OF k] show ?thesis by (auto simp: key_image_nth)
  qed
qed

lemma tabs_index_None: "tabs_index rows m \<Longrightarrow> k \<noteq> 0 \<Longrightarrow> k \<notin> fo_id ` set rows \<Longrightarrow> m k = None"
  by (cases "m k") (auto simp: tabs_index_def key_image_nth)

lemma tabs_index_at: "tabs_index rows m \<Longrightarrow> i < length rows \<Longrightarrow> fo_id (rows ! i) \<noteq> 0 \<Longrightarrow> m (fo_id (rows ! i)) = Some i"
  by (simp add: tabs_index_def)

lemma reindex_agree:
  "(\<And>k. k \<noteq> z \<Longrightarrow> m k = m' k) \<Longrightarrow> l \<noteq> z \<Longrightarrow> reindex key xs a b m l = reindex key xs a b m' l"
proof (induction b)
  case (Suc b)
  then show ?case by (cases "a \<le> b") (auto simp: reindex_Suc reindex_beyond)
qed (simp add: reindex_beyond)

lemma tabs_index_slice:
  assumes ok: "tabs_ok rows" "tabs_index rows m" and ab: "a \<le> b" "b < length rows"
    and m': "\<And>k. m' k = (if \<exists>i. a \<le> i \<and> i \<le> b \<and> fo_id (rows ! i) = k then None else m k)"
  shows "tabs_index (remove_slice a b rows)
           (reindex fo_id (remove_slice a b rows) a (length (remove_slice a b rows)) m')"
proof -
  let ?rows = "remove_slice a b rows"
  obtain p where p: "p < length rows" "fo_id (rows ! p) = 0"
    using ok(1) by (metis key_image_nth tabs_ok_def)
  have d: "distinct (map fo_id rows)" using ok(1) by (simp add: tabs_ok_def)
  let ?m' = "\<lambda>k. if \<exists>i. a \<le> i \<and> i \<le> b \<and> fo_id (rows ! i) = k then None else (m(0 \<mapsto> p)) k"
  have "index_ok fo_id rows (m(0 \<mapsto> p))"
  proof (rule index_okI)
    fix l n
    have "n < length rows \<Longrightarrow> fo_id (rows ! n) = 0 \<Longrightarrow> n = p" using p distinct_key_eq [OF d, of n p] by simp
    with p have "l = 0 \<Longrightarrow> p = n \<longleftrightarrow> n < length rows \<and> fo_id (rows ! n) = l" by blast
    with ok(2) show "(m(0 \<mapsto> p)) l = Some n \<longleftrightarrow> n < length rows \<and> fo_id (rows ! n) = l"
      by (cases "l = 0") (simp_all add: tabs_index_def)
  qed
  then have index: "index_ok fo_id ?rows (reindex fo_id ?rows a (length ?rows) ?m')"
    by (rule index_ok_slice [OF _ ab]) (rule refl)
  show ?thesis
    unfolding tabs_index_def
  proof (intro allI impI)
    fix l :: int and n assume l: "l \<noteq> 0"
    have "reindex fo_id ?rows a (length ?rows) m' l = reindex fo_id ?rows a (length ?rows) ?m' l"
      by (rule reindex_agree [OF _ l]) (simp only: m' fun_upd_apply simp_thms if_False)
    then show "reindex fo_id ?rows a (length ?rows) m' l = Some n \<longleftrightarrow> n < length ?rows \<and> fo_id (?rows ! n) = l"
      using index_okD [OF index] by simp
  qed
qed

lemma tabs_index_remove_at:
  assumes "tabs_ok rows" "tabs_index rows m" "i < length rows" "fo_id (rows ! i) = k"
  shows "tabs_index (remove_at i rows) (reindex fo_id (remove_at i rows) i (length (remove_at i rows)) (m(k := None)))"
proof -
  have "remove_at i rows = remove_slice i i rows" by (simp add: remove_at_def remove_slice_def)
  moreover have "(m(k := None)) l = (if \<exists>n. i \<le> n \<and> n \<le> i \<and> fo_id (rows ! n) = l then None else m l)" for l
    using assms(4) by (auto dest: le_antisym)
  ultimately show ?thesis using tabs_index_slice [OF assms(1,2), of i i "m(k := None)"] assms(3) by simp
qed

section \<open>What the steps do\<close>

lemma cf_updateIndices_result:
  assumes "set js \<subseteq> {..<length (cf_folders s)}" "tabs_ok (cf_folders s)"
  shows "\<exists>s'. cf_updateIndices js s = Some s' \<and> cf_folders s' = cf_folders s \<and> cf_outputs s' = cf_outputs s \<and>
    cf_models s' = cf_models s \<and>
    (\<forall>j \<in> set js. fo_id (cf_folders s ! j) \<noteq> 0 \<longrightarrow> cf_index s' (fo_id (cf_folders s ! j)) = Some j) \<and>
    (\<forall>k. (\<forall>j \<in> set js. fo_id (cf_folders s ! j) \<noteq> k) \<longrightarrow> cf_index s' k = cf_index s k)"
  using assms
proof (induction js arbitrary: s)
  case (Cons j js)
  let ?f = "cf_folders s ! j"
  have j: "j < length (cf_folders s)" using Cons.prems by simp
  obtain t where t: "cf_updateChatFolderIndexAt j s = Some t" "cf_folders t = cf_folders s"
    "cf_outputs t = cf_outputs s" "cf_models t = cf_models s"
    "\<And>k. cf_index t k = (if fo_id ?f \<noteq> 0 \<and> k = fo_id ?f then Some j else cf_index s k)"
    using j tabs_okD(3) [OF Cons.prems(2), of ?f] by (cases "fo_id ?f = 0") (simp_all add: cf_updateChatFolderIndexAt_def)
  moreover obtain s' where s': "cf_updateIndices js t = Some s'" "cf_folders s' = cf_folders s"
    "cf_outputs s' = cf_outputs s" "cf_models s' = cf_models s"
    "\<forall>j \<in> set js. fo_id (cf_folders s ! j) \<noteq> 0 \<longrightarrow> cf_index s' (fo_id (cf_folders s ! j)) = Some j"
    "\<forall>k. (\<forall>j \<in> set js. fo_id (cf_folders s ! j) \<noteq> k) \<longrightarrow> cf_index s' k = cf_index t k"
    using Cons.IH [of t] Cons.prems unfolding t(2-4) by (metis insert_subset list.simps(15))
  moreover have "cf_index s' (fo_id ?f) = Some j" if "fo_id ?f \<noteq> 0"
  proof (cases "\<exists>i \<in> set js. fo_id (cf_folders s ! i) = fo_id ?f")
    case True
    then obtain i where i: "i \<in> set js" "fo_id (cf_folders s ! i) = fo_id ?f" by blast
    then have "i = j"
      using Cons.prems distinct_key_eq [of fo_id "cf_folders s" i j] by (auto simp: tabs_ok_def)
    with i s'(5) that show ?thesis by auto
  next
    case False
    with s'(6) that t(5) show ?thesis by auto
  qed
  ultimately show ?case by (intro exI [of _ s']) simp
qed simp

lemma cf_updateIndicesE:
  assumes "cf_folders s = rows" "set js \<subseteq> {..<length rows}" "tabs_ok rows"
  obtains s' where "cf_updateIndices js s = Some s'" "cf_folders s' = rows" "cf_outputs s' = cf_outputs s"
    "cf_models s' = cf_models s"
    "\<forall>n \<in> set js. fo_id (rows ! n) \<noteq> 0 \<longrightarrow> cf_index s' (fo_id (rows ! n)) = Some n"
    "\<forall>k. (\<forall>n \<in> set js. fo_id (rows ! n) \<noteq> k) \<longrightarrow> cf_index s' k = cf_index s k"
  using cf_updateIndices_result [of js s] assms by metis

lemma cf_move_becomes:
  assumes ok: "cf_ok s" and ij: "i < length (cf_folders s)" "j < length (cf_folders s)" "i \<noteq> j"
    and upd: "\<And>t. cf_folders (upd t) = cf_folders t" "\<And>t. cf_outputs (upd t) = cf_outputs t"
      "\<And>t. cf_models (upd t) = cf_models t"
      "\<And>t k. k \<noteq> 0 \<Longrightarrow> cf_index (upd t) k = (if k = fo_id (cf_folders s ! i) then Some j else cf_index t k)"
  shows "\<exists>s'. cf_move (int i) (int j) upd s = Some s' \<and> cf_becomes (qmove i j (cf_folders s)) s s'"
proof -
  let ?rows = "qmove i j (cf_folders s)"
  let ?js = "if j < i then [j + 1..<i + 1] else [i..<j]"
  let ?t = "upd (s\<lparr>cf_folders := ?rows\<rparr>)"
  have rows: "tabs_ok ?rows" "distinct (map fo_id ?rows)" "set ?rows = set (cf_folders s)"
    using ok ij tabs_ok_perm [of "cf_folders s" ?rows] by (simp_all add: mset_qmove cf_ok_def tabs_ok_def row_simps)
  obtain s' where s': "cf_updateIndices ?js ?t = Some s'" "cf_folders s' = ?rows" "cf_outputs s' = cf_outputs s"
    "cf_models s' = cf_models s"
    "\<forall>n \<in> set ?js. fo_id (?rows ! n) \<noteq> 0 \<longrightarrow> cf_index s' (fo_id (?rows ! n)) = Some n"
    "\<forall>k. (\<forall>n \<in> set ?js. fo_id (?rows ! n) \<noteq> k) \<longrightarrow> cf_index s' k = cf_index ?t k"
  proof (rule cf_updateIndicesE)
    show "cf_folders ?t = ?rows" by (simp add: upd)
    show "set ?js \<subseteq> {..<length ?rows}" using ij by auto
  qed (use rows(1) in \<open>simp_all add: upd\<close>)
  have js: "m < length ?rows" if "m \<in> set ?js" for m using that ij by (auto split: if_splits)
  have "tabs_index ?rows (cf_index s')"
  proof (rule tabs_indexI [OF rows(2)])
    fix n assume n: "n < length ?rows" "fo_id (?rows ! n) \<noteq> 0"
    show "cf_index s' (fo_id (?rows ! n)) = Some n"
    proof (cases "n \<in> set ?js")
      case True
      with n s'(5) show ?thesis by blast
    next
      case False
      then have "\<forall>m \<in> set ?js. fo_id (?rows ! m) \<noteq> fo_id (?rows ! n)"
        using n(1) js distinct_key_eq [OF rows(2), of _ n] by metis
      with s'(6) have "cf_index s' (fo_id (?rows ! n)) = cf_index ?t (fo_id (?rows ! n))" by blast
      also have "\<dots> = Some n"
      proof (cases "n = j")
        case True
        then show ?thesis using n ij by (simp add: upd qmove_at)
      next
        case False
        with \<open>n \<notin> set ?js\<close> have out: "n < min i j \<or> max i j < n" using ij by (auto split: if_splits)
        then have same: "?rows ! n = cf_folders s ! n" using n ij by (simp add: qmove_outside)
        have "fo_id (cf_folders s ! n) \<noteq> fo_id (cf_folders s ! i)"
          using distinct_key_eq [of fo_id "cf_folders s" n i] ok n ij out by (auto simp: cf_ok_def tabs_ok_def)
        with same n ij ok show ?thesis by (simp add: upd cf_ok_def tabs_index_at)
      qed
      finally show ?thesis .
    qed
  next
    fix k assume k: "k \<noteq> 0" "k \<notin> fo_id ` set ?rows"
    then have "\<forall>m \<in> set ?js. fo_id (?rows ! m) \<noteq> k" using js unfolding key_image_nth by metis
    with s'(6) have "cf_index s' k = cf_index ?t k" by blast
    with k rows(3) ij ok show "cf_index s' k = None"
      by (auto simp: upd cf_ok_def intro: tabs_index_None)
  qed
  with rows(1) s'(2) have "cf_ok s'" by (simp add: cf_ok_def)
  moreover have "view_step ?rows (row_moved i j) (cf_folders s) = ?rows" by (rule view_row_moved [OF ij])
  moreover have "cf_finishMove i j ?t = Some s'"
    using s'(1) ij(3) by (auto simp: cf_finishMove_def max_def split: if_splits)
  ultimately show ?thesis
    using cf_becomes_rows [of s' s "row_moved i j"] s'(2,3,4) ij
    by (intro exI [of _ "cf_emitRows (row_moved i j) s'"]) (auto simp: cf_move_def valid_row_def row_moved_def)
qed

lemma fo_id_newFolder [simp]: "fo_id (newFolder folder) = toInt (mvalue folder ''id'')"
  by (simp add: fo_id_def newFolder_def)

lemma tabs_ok_insert_at:
  assumes "tabs_ok rows" "fo_isFolder f" "fo_id f \<noteq> 0" "fo_id f \<notin> fo_id ` set rows"
  shows "tabs_ok (insert_at i f rows)"
  using assms by (auto simp: tabs_ok_def row_simps fo_isFolder_def)

lemma cf_insertFolder_becomes:
  assumes ok: "cf_ok s" and i: "i \<le> length (cf_folders s)"
    and k: "toInt (mvalue folder ''id'') \<noteq> 0" "toInt (mvalue folder ''id'') \<notin> fo_id ` set (cf_folders s)"
  shows "\<exists>s'. cf_insertFolder (int i) folder s = Some s' \<and>
    cf_becomes (insert_at i (newFolder folder) (cf_folders s)) s s'"
proof -
  let ?f = "newFolder folder"
  let ?rows = "insert_at i ?f (cf_folders s)"
  let ?js = "[i..<length ?rows]"
  let ?t = "s\<lparr>cf_folders := ?rows\<rparr>"
  have rows: "tabs_ok ?rows"
    using ok k by (intro tabs_ok_insert_at) (simp_all add: cf_ok_def fo_isFolder_def newFolder_def [of folder] flip: fo_id_newFolder)
  then have d: "distinct (map fo_id ?rows)" by (simp add: tabs_ok_def)
  obtain s' where s': "cf_updateIndices ?js ?t = Some s'" "cf_folders s' = ?rows" "cf_outputs s' = cf_outputs ?t"
    "cf_models s' = cf_models ?t"
    "\<forall>n \<in> set ?js. fo_id (?rows ! n) \<noteq> 0 \<longrightarrow> cf_index s' (fo_id (?rows ! n)) = Some n"
    "\<forall>k. (\<forall>n \<in> set ?js. fo_id (?rows ! n) \<noteq> k) \<longrightarrow> cf_index s' k = cf_index ?t k"
    by (rule cf_updateIndicesE [of ?t ?rows ?js]) (use rows in auto)
  have "tabs_index ?rows (cf_index s')"
  proof (rule tabs_indexI [OF d])
    fix n assume n: "n < length ?rows" "fo_id (?rows ! n) \<noteq> 0"
    show "cf_index s' (fo_id (?rows ! n)) = Some n"
    proof (cases "i \<le> n")
      case True
      with n(1) have "n \<in> set ?js" by (simp only: set_upt atLeastLessThan_iff)
      with n(2) s'(5) show ?thesis by blast
    next
      case False
      have "\<forall>m \<in> set ?js. fo_id (?rows ! m) \<noteq> fo_id (?rows ! n)"
        using False n distinct_key_eq [OF d, of _ n] by fastforce
      with s'(6) have "cf_index s' (fo_id (?rows ! n)) = cf_index s (fo_id (?rows ! n))" by simp
      moreover have "?rows ! n = cf_folders s ! n" using False i by (simp add: nth_insert_at)
      ultimately show ?thesis using n False i ok by (simp add: cf_ok_def tabs_index_at)
    qed
  next
    fix l assume l: "l \<noteq> 0" "l \<notin> fo_id ` set ?rows"
    then have "\<forall>m \<in> set ?js. fo_id (?rows ! m) \<noteq> l"
      unfolding key_image_nth by (metis atLeastLessThan_iff set_upt)
    with s'(6) have "cf_index s' l = cf_index s l" by simp
    with l ok show "cf_index s' l = None" using tabs_index_None [of "cf_folders s" "cf_index s" l] by (simp add: cf_ok_def)
  qed
  with rows s'(2) have "cf_ok s'" by (simp add: cf_ok_def)
  then have "cf_becomes ?rows s (cf_emitRows (RowsInserted (int i) (int i)) s')"
    using cf_becomes_rows [of s' s "RowsInserted (int i) (int i)"] s'(2-4) view_row_inserted [OF i, of ?f]
    by (simp del: view_step.simps)
  with s'(1) i show ?thesis by (simp add: cf_insertFolder_def Let_def min_def)
qed

text \<open>The refreshing loop: the row of the folder, if there is one, gets its new data.\<close>

lemma cf_refresh_loop_miss:
  "\<forall>j \<in> set js. \<not> (fo_isFolder (cf_folders s ! j) \<and> fo_id (cf_folders s ! j) = k) \<Longrightarrow>
     cf_refresh_loop folder k js oldIndex s = (oldIndex, s)"
  by (induction js arbitrary: s oldIndex) auto

lemma cf_refresh_becomes:
  assumes ok: "cf_ok s" and j: "j < length (cf_folders s)" "fo_id (cf_folders s ! j) = k"
    and k: "k \<noteq> 0" "toInt (mvalue folder ''id'') = k"
  shows "\<exists>s'. cf_refresh_loop folder k [0..<length (cf_folders s)] (-1) s = (int j, s') \<and>
    cf_becomes ((cf_folders s)[j := (cf_folders s ! j)\<lparr>fo_data := folder\<rparr>]) s s' \<and> cf_index s' = cf_index s"
proof -
  let ?n = "length (cf_folders s)"
  let ?f = "cf_folders s ! j"
  let ?rows = "(cf_folders s)[j := ?f\<lparr>fo_data := folder\<rparr>]"
  let ?t = "s\<lparr>cf_folders := ?rows\<rparr>"
  let ?s = "cf_dataChanged (int j) (int j) [] ?t"
  have split: "[0..<?n] = [0..<j] @ j # [Suc j..<?n]"
    using j(1) by (metis le0 less_imp_le_nat le_Suc_ex upt_add_eq_append upt_conv_Cons add_0)
  have id: "fo_id (?f\<lparr>fo_data := folder\<rparr>) = fo_id ?f" using j k by (simp add: fo_id_def)
  have d: "distinct (map fo_id (cf_folders s))" using ok by (simp add: cf_ok_def tabs_ok_def)
  have other: "fo_id (?rows ! i) \<noteq> k" "fo_id (cf_folders s ! i) \<noteq> k" if "i < ?n" "i \<noteq> j" for i
    using that j distinct_key_eq [OF d, of i j] by auto
  have append: "cf_refresh_loop folder k (is @ js) old t =
      (case cf_refresh_loop folder k is old t of (old', t') \<Rightarrow> cf_refresh_loop folder k js old' t')" for "is" js old t
    by (induction "is" arbitrary: old t) (auto simp: Let_def)
  have folder: "fo_isFolder ?f" using j k ok tabs_okD(1) [of "cf_folders s" ?f] by (simp add: cf_ok_def)
  have "cf_refresh_loop folder k [0..<?n] (-1) s = cf_refresh_loop folder k (j # [Suc j..<?n]) (-1) s"
    unfolding split append using other(2) j(1) by (subst cf_refresh_loop_miss) auto
  also have "\<dots> = cf_refresh_loop folder k [Suc j..<?n] (int j) ?s" using folder j by simp
  also have "\<dots> = (int j, ?s)" using other(1) by (subst cf_refresh_loop_miss) (auto simp: cf_dataChanged_def)
  finally have loop: "cf_refresh_loop folder k [0..<?n] (-1) s = (int j, ?s)" .
  have "map fo_id ?rows = map fo_id (cf_folders s)" using id by (simp add: map_update_same)
  then have ids: "map fo_id ?rows = map fo_id (cf_folders s)" "fo_id ` set ?rows = fo_id ` set (cf_folders s)"
    by (simp_all flip: set_map)
  have "tabs_ok ?rows"
    using ok folder id j k unfolding tabs_ok_def cf_ok_def ids
    by (auto simp: fo_isFolder_def dest!: set_update_subset_insert [THEN subsetD])
  moreover have "tabs_index ?rows (cf_index s)"
    using ok by (simp add: cf_ok_def tabs_index_def) (metis id nth_list_update nth_list_update_neq)
  moreover have "view_step ?rows (RowChanged (int j)) (cf_folders s) = ?rows"
    using j(1) by (simp add: valid_row_def)
  ultimately have "cf_becomes ?rows s ?s"
    using j(1) by (auto simp: cf_becomes_def cf_ok_def cf_sync_def cf_dataChanged_def cf_row_def valid_row_def)
  with loop show ?thesis by (auto simp: cf_dataChanged_def)
qed

text \<open>The folders that are gone leave.\<close>

definition kept :: "qvariant list \<Rightarrow> chat_folder \<Rightarrow> bool" where
  "kept newFolders f \<longleftrightarrow> \<not> fo_isFolder f \<or> fo_id f \<in> folder_id ` set newFolders"

lemma tabs_ok_remove_at:
  assumes "tabs_ok rows" "i < length rows" "fo_id (rows ! i) \<noteq> 0"
  shows "tabs_ok (remove_at i rows)"
proof -
  have m: "mset rows = add_mset (rows ! i) (mset (remove_at i rows))"
    using assms(2) by (simp add: remove_at_split)
  then have "set rows = insert (rows ! i) (set (remove_at i rows))"
    by (metis set_mset_add_mset_insert set_mset_mset)
  moreover have "distinct (map fo_id (remove_at i rows))"
    using assms(1) m by (metis distinct.simps(2) list.simps(9) mset.simps(2) mset_eq_imp_distinct_iff mset_map tabs_ok_def)
  ultimately show ?thesis using assms by (auto simp: tabs_ok_def)
qed

lemma cf_remove_loop_becomes:
  "cf_ok s \<Longrightarrow> i \<le> length (cf_folders s) \<Longrightarrow>
     \<exists>s'. cf_remove_loop newFolders i s = Some s' \<and>
       cf_becomes (filter (kept newFolders) (take i (cf_folders s)) @ drop i (cf_folders s)) s s'"
proof (induction i arbitrary: s)
  case 0
  then show ?case by (simp add: cf_becomes_same)
next
  case (Suc i)
  let ?f = "cf_folders s ! i"
  let ?rows = "remove_at i (cf_folders s)"
  let ?t = "cf_removeFolderAt i (fo_id ?f) s"
  have i: "i < length (cf_folders s)" using Suc.prems by simp
  have split: "take (Suc i) (cf_folders s) = take i (cf_folders s) @ [?f]"
    "drop i (cf_folders s) = ?f # drop (Suc i) (cf_folders s)"
    using i by (simp_all add: take_Suc_conv_app_nth Cons_nth_drop_Suc)
  show ?case
  proof (cases "kept newFolders ?f")
    case True
    then have "cf_remove_loop newFolders (Suc i) s = cf_remove_loop newFolders i s"
      using i by (auto simp: kept_def image_iff)
    with True Suc.IH [of s] Suc.prems split show ?thesis by simp
  next
    case False
    then have gone: "cf_remove_loop newFolders (Suc i) s = cf_remove_loop newFolders i ?t"
      using i by (auto simp: kept_def image_iff)
    have k: "fo_id ?f \<noteq> 0" using False i Suc.prems(1) tabs_okD(1) [of "cf_folders s" ?f] by (simp add: kept_def cf_ok_def)
    have "cf_ok (s\<lparr>cf_folders := ?rows, cf_index := reindex fo_id ?rows i (length ?rows) ((cf_index s)(fo_id ?f := None))\<rparr>)"
      using Suc.prems(1) i k tabs_ok_remove_at [of "cf_folders s" i] tabs_index_remove_at [of "cf_folders s" "cf_index s" i]
      by (simp add: cf_ok_def)
    then have t: "cf_becomes ?rows s ?t"
      using cf_becomes_rows [of "s\<lparr>cf_folders := ?rows, cf_index := reindex fo_id ?rows i (length ?rows) ((cf_index s)(fo_id ?f := None))\<rparr>"
          s "RowsRemoved (int i) (int i)"] view_row_removed [of ?rows i "cf_folders s"]
      by (simp add: cf_removeFolderAt_def Let_def del: view_step.simps)
    have "take i ?rows = take i (cf_folders s)" "drop i ?rows = drop (Suc i) (cf_folders s)" "i \<le> length ?rows"
      using i by (simp_all add: remove_at_def min_def)
    with Suc.IH [of ?t] cf_becomesD [OF t] gone False split(1) cf_becomes_trans [OF t] show ?thesis by auto
  qed
qed

section \<open>The update\<close>

text \<open>The place the update loop gives a folder, and what holds when \<open>T\<close> has been placed.\<close>

definition tab_place :: "nat \<Rightarrow> nat \<Rightarrow> nat" where
  "tab_place p i = (if p \<le> i then Suc i else i)"

definition tabs_placed :: "nat \<Rightarrow> int list \<Rightarrow> int list \<Rightarrow> bool" where
  "tabs_placed p T ks \<longleftrightarrow> filter (\<lambda>k. k \<in> set T) ks = T \<and> set (drop (tab_place p (length T)) ks) \<inter> set T = {} \<and>
     0 \<notin> set T \<and> 0 \<notin> set (take p ks) \<and> p \<le> length ks \<and> (p \<le> length T \<longrightarrow> take p ks = take p T) \<and>
     (p = 0 \<longrightarrow> take 1 ks = [0])"

lemma tabs_placed_room:
  assumes ks: "distinct ks" "0 \<in> set ks" and T: "tabs_placed p T ks" and t: "t \<noteq> 0" "t \<notin> set T" "distinct T"
  shows "tab_place p (length T) \<le> length (remove1 t ks)"
proof -
  have f: "filter (\<lambda>k. k \<in> set T) ks = T" and z: "0 \<notin> set T" using T by (simp_all add: tabs_placed_def)
  have "insert 0 (set T) \<subseteq> set (remove1 t ks)"
  proof
    fix k assume k: "k \<in> insert 0 (set T)"
    then have "k \<in> set ks" using f ks(2) by (metis filter_is_subset insert_iff subsetD)
    with k t ks(1) show "k \<in> set (remove1 t ks)" by auto
  qed
  from card_mono [OF _ this] have "Suc (length T) \<le> length (remove1 t ks)"
    using t(3) ks(1) z distinct_card [OF distinct_remove1 [OF ks(1)], of t] by (simp add: distinct_card)
  then show ?thesis by (simp add: tab_place_def)
qed

lemma tabs_placed_next:
  assumes ks: "distinct ks" "0 \<in> set ks" and T: "tabs_placed p T ks" and t: "t \<noteq> 0" "t \<notin> set T" "distinct T"
  shows "tabs_placed p (T @ [t]) (put_at (tab_place p (length T)) t ks)"
proof -
  let ?n = "tab_place p (length T)"
  let ?ks = "put_at ?n t ks"
  have f: "filter (\<lambda>k. k \<in> set T) ks = T" and d: "set (drop ?n ks) \<inter> set T = {}"
    and z: "0 \<notin> set (take p ks)" "0 \<notin> set T" and p: "p \<le> length ks"
    and first: "p \<le> length T \<Longrightarrow> take p ks = take p T" and main: "p = 0 \<Longrightarrow> take 1 ks = [0]"
    using T by (simp_all add: tabs_placed_def)
  note n = tabs_placed_room [OF assms]
  note placed = put_at_next [OF f d t(2) n ks(1)]
  have kept: "take p ?ks = take p ks" if "p \<le> length T"
    using that first t(2) n by (intro take_put_at) (auto simp: tab_place_def dest: in_set_takeD)
  have "set (drop (tab_place p (Suc (length T))) ?ks) \<subseteq> set (drop (Suc ?n) ?ks)"
    by (rule set_drop_subset_set_drop) (simp add: tab_place_def)
  with placed(2) have "set (drop (tab_place p (length (T @ [t]))) ?ks) \<inter> set (T @ [t]) = {}" by auto
  moreover have "0 \<notin> set (take p ?ks)"
  proof (cases "p \<le> length T")
    case True
    with kept z show ?thesis by simp
  next
    case False
    with z t(1) show ?thesis by (intro take_put_at_fresh) (auto simp: tab_place_def)
  qed
  moreover have "p \<le> length ?ks" using p by (cases ks) (auto simp: put_at_def length_remove1)
  moreover have "take p ?ks = take p (T @ [t])" if "p \<le> length (T @ [t])"
  proof (cases "p \<le> length T")
    case True
    with kept first show ?thesis by simp
  next
    case False
    with that have len: "p = Suc (length T)" by simp
    then have "set (drop p ?ks) \<inter> set (T @ [t]) = {}" using placed(2) by (simp add: tab_place_def)
    from filter_first [OF placed(1) this] len show ?thesis by simp
  qed
  moreover have "take 1 ?ks = [0]" if "p = 0"
  proof -
    have "take 1 ?ks = take 1 ks"
      using that main n t(1) by (intro take_put_at) (auto simp: tab_place_def)
    with main that show ?thesis by simp
  qed
  ultimately show ?thesis using placed(1) z t(1) unfolding tabs_placed_def by auto
qed

text \<open>The row of a folder has the data TDLib sent; only its icon may be missing from it.\<close>

definition shows_folder :: "chat_folder \<Rightarrow> qvariant \<Rightarrow> bool" where
  "shows_folder f v \<longleftrightarrow> fo_id f = folder_id v \<and> fmdrop ''icon'' (fo_data f) = fmdrop ''icon'' (toMap v)"

lemma cf_updateFolder_becomes:
  assumes ok: "cf_ok s" and k: "folder_id v \<noteq> 0"
    and n: "tab_place p i \<le> length (remove1 (folder_id v) (map fo_id (cf_folders s)))"
  shows "\<exists>s' rows. cf_updateFolder (int p) (int i) v s = Some s' \<and> cf_becomes rows s s' \<and>
    map fo_id rows = put_at (tab_place p i) (folder_id v) (map fo_id (cf_folders s)) \<and>
    (\<forall>f \<in> set rows. (fo_id f = folder_id v \<longrightarrow> shows_folder f v) \<and> (fo_id f \<noteq> folder_id v \<longrightarrow> f \<in> set (cf_folders s))) \<and>
    folder_id v \<in> dom (cf_models s')"
proof -
  let ?k = "folder_id v"
  let ?ks = "map fo_id (cf_folders s)"
  let ?s1 = "if cf_models s ?k = None then s\<lparr>cf_models := (cf_models s)(?k \<mapsto> newFolderList ?k)\<rparr> else s"
  let ?n = "tab_place p i"
  have fk: "toInt (mvalue (toMap v) ''id'') = ?k" by (simp add: folder_id_def)
  have norm: "(if int i \<ge> int p then int i + 1 else int i) = int ?n" by (simp add: tab_place_def)
  have d: "distinct ?ks" using ok by (simp add: cf_ok_def tabs_ok_def)
  obtain s1 where s1: "s1 = ?s1" by blast
  have f1: "cf_folders s1 = cf_folders s" "cf_ok s1" "cf_becomes (cf_folders s) s s1" "?k \<in> dom (cf_models s1)"
    using ok unfolding s1 by (auto simp: cf_ok_def cf_becomes_def cf_sync_def intro: exI [of _ "[]"])
  show ?thesis
  proof (cases "?k \<in> fo_id ` set (cf_folders s)")
    case False
    have "cf_refresh_loop (toMap v) ?k [0..<length (cf_folders s1)] (-1) s1 = (-1, s1)"
      using False by (intro cf_refresh_loop_miss) (auto simp: f1 key_image_nth)
    then have "cf_updateFolder (int p) (int i) v s = cf_insertFolder (int ?n) (toMap v) s1"
      by (simp only: cf_updateFolder_def Let_def fk norm s1 [symmetric] prod.case if_True simp_thms)
    moreover have "?n \<le> length (cf_folders s)" using n False by (simp add: remove1_idem)
    then obtain s' where s': "cf_insertFolder (int ?n) (toMap v) s1 = Some s'"
      "cf_becomes (insert_at ?n (newFolder (toMap v)) (cf_folders s)) s1 s'"
      using cf_insertFolder_becomes [OF f1(2), of ?n "toMap v"] k False unfolding fk f1(1) by blast
    moreover have "?k \<in> dom (cf_models s')" using cf_becomesD(3) [OF s'(2)] f1(4) by blast
    moreover have "shows_folder (newFolder (toMap v)) v"
      unfolding shows_folder_def by (simp add: fk) (simp add: newFolder_def)
    moreover have "fo_id f \<noteq> ?k" if "f \<in> set (cf_folders s)" for f using False that by (metis image_eqI)
    moreover have "map fo_id (insert_at ?n (newFolder (toMap v)) (cf_folders s)) = put_at ?n ?k ?ks"
      using False by (simp add: row_simps put_at_insert fk)
    ultimately show ?thesis
      using cf_becomes_trans [OF f1(3) s'(2)] False
      by (intro exI [of _ s'] exI [of _ "insert_at ?n (newFolder (toMap v)) (cf_folders s)"]) (auto simp: fk)
  next
    case True
    then obtain j where j: "j < length (cf_folders s)" "fo_id (cf_folders s ! j) = ?k" by (auto simp: key_image_nth)
    let ?rows = "(cf_folders s)[j := (cf_folders s ! j)\<lparr>fo_data := toMap v\<rparr>]"
    obtain s2 where s2: "cf_refresh_loop (toMap v) ?k [0..<length (cf_folders s1)] (-1) s1 = (int j, s2)"
      "cf_becomes ?rows s1 s2"
      using cf_refresh_becomes [OF f1(2), of j ?k "toMap v"] j k fk unfolding f1(1) by blast
    have new: "fo_id ((cf_folders s ! j)\<lparr>fo_data := toMap v\<rparr>) = ?k" by (simp add: fo_id_def fk)
    have ids: "map fo_id ?rows = ?ks" using new j by (simp add: map_update_same)
    have data: "(fo_id f = ?k \<longrightarrow> shows_folder f v) \<and> (fo_id f \<noteq> ?k \<longrightarrow> f \<in> set (cf_folders s))"
      if "f \<in> set ?rows" for f
    proof -
      from that obtain i where i: "i < length ?rows" "f = ?rows ! i" by (auto simp: in_set_conv_nth)
      show ?thesis
      proof (cases "i = j")
        case True
        with i new show ?thesis by (simp add: shows_folder_def)
      next
        case False
        with i j distinct_key_eq [OF d, of i j] have "fo_id f \<noteq> ?k" "f \<in> set (cf_folders s)" by auto
        then show ?thesis by simp
      qed
    qed
    have b2: "cf_becomes ?rows s s2" by (rule cf_becomes_trans [OF f1(3) s2(2)])
    have dom2: "?k \<in> dom (cf_models s2)" using cf_becomesD(3) [OF s2(2)] f1(4) by blast
    have put: "put_at j ?k ?ks = ?ks" using put_at_same [OF d, of j] j by simp
    note start = cf_updateFolder_def Let_def fk norm s1 [symmetric] s2(1) prod.case
    show ?thesis
    proof (cases "j = ?n")
      case True
      then have "cf_updateFolder (int p) (int i) v s = Some s2"
        unfolding start by simp
      with b2 dom2 data ids put True show ?thesis by (intro exI [of _ s2] exI [of _ ?rows]) auto
    next
      case False
      have len: "?n < length (cf_folders s)" using n j by (simp add: length_remove1 key_image_nth split: if_splits)
      let ?upd = "\<lambda>s. s\<lparr>cf_index := (cf_index s)(?k \<mapsto> ?n)\<rparr>"
      have "cf_updateFolder (int p) (int i) v s = cf_move (int j) (int ?n) ?upd s2"
        unfolding start using False len cf_becomesD(1) [OF s2(2)] by (simp add: min_def)
      moreover obtain s' where s': "cf_move (int j) (int ?n) ?upd s2 = Some s'" "cf_becomes (qmove j ?n ?rows) s2 s'"
        using cf_move_becomes [OF cf_becomesD(2) [OF s2(2)], of j ?n ?upd] cf_becomesD(1) [OF s2(2)] j len False new
        by auto
      moreover have "?k \<in> dom (cf_models s')" using cf_becomesD(3) [OF s'(2)] dom2 by blast
      moreover have "map fo_id (qmove j ?n ?rows) = put_at ?n ?k ?ks"
        using j put_at_qmove [OF d, of j ?n] by (simp add: row_simps ids)
      moreover have "\<forall>f \<in> set (qmove j ?n ?rows). (fo_id f = ?k \<longrightarrow> shows_folder f v) \<and>
          (fo_id f \<noteq> ?k \<longrightarrow> f \<in> set (cf_folders s))"
        using data j set_qmove [of j ?rows ?n] by simp
      ultimately show ?thesis
        using cf_becomes_trans [OF b2 s'(2)]
        by (intro exI [of _ s'] exI [of _ "qmove j ?n ?rows"] conjI; simp)
    qed
  qed
qed

lemma cf_update_loop_becomes:
  assumes "cf_ok s" "distinct (map folder_id (us @ vs))" "0 \<notin> folder_id ` set vs"
    and "tabs_placed p (map folder_id us) (map fo_id (cf_folders s))"
    and "fo_id ` set (cf_folders s) \<subseteq> insert 0 (folder_id ` set (us @ vs))"
    and "\<forall>u \<in> set us. \<exists>f \<in> set (cf_folders s). shows_folder f u"
  shows "\<exists>s'. cf_update_loop (int p) (int (length us)) vs s = Some s' \<and> cf_becomes (cf_folders s') s s' \<and>
    tabs_placed p (map folder_id (us @ vs)) (map fo_id (cf_folders s')) \<and>
    fo_id ` set (cf_folders s') \<subseteq> insert 0 (folder_id ` set (us @ vs)) \<and>
    (\<forall>u \<in> set (us @ vs). \<exists>f \<in> set (cf_folders s'). shows_folder f u) \<and> folder_id ` set vs \<subseteq> dom (cf_models s')"
  using assms
proof (induction vs arbitrary: us s)
  case Nil
  then show ?case by (simp add: cf_becomes_same)
next
  case (Cons v vs)
  let ?ks = "map fo_id (cf_folders s)"
  let ?T = "map folder_id us"
  have v: "folder_id v \<noteq> 0" "folder_id v \<notin> set ?T" "distinct ?T" using Cons.prems(2,3) by auto
  have ks: "distinct ?ks" "0 \<in> set ?ks" using Cons.prems(1) by (simp_all add: cf_ok_def tabs_ok_def)
  have n: "tab_place p (length us) \<le> length (remove1 (folder_id v) ?ks)"
    using tabs_placed_room [OF ks Cons.prems(4) v] by simp
  from cf_updateFolder_becomes [OF Cons.prems(1) v(1) n] obtain t rows where
    t: "cf_updateFolder (int p) (int (length us)) v s = Some t" "cf_becomes rows s t"
      "map fo_id rows = put_at (tab_place p (length us)) (folder_id v) ?ks"
      "\<forall>f \<in> set rows. (fo_id f = folder_id v \<longrightarrow> shows_folder f v) \<and> (fo_id f \<noteq> folder_id v \<longrightarrow> f \<in> set (cf_folders s))"
      "folder_id v \<in> dom (cf_models t)" by blast
  note rows = cf_becomesD [OF t(2)]
  have ids: "fo_id ` set rows = insert (folder_id v) (fo_id ` set (cf_folders s))"
    using arg_cong [OF t(3), of set] ks(1) by simp
  have placed: "tabs_placed p (map folder_id (us @ [v])) (map fo_id (cf_folders t))"
    using tabs_placed_next [OF ks Cons.prems(4) v] t(3) rows(1) by simp
  have shown: "\<exists>f \<in> set (cf_folders t). shows_folder f u" if "u \<in> set (us @ [v])" for u
  proof -
    have "folder_id u \<in> fo_id ` set rows"
    proof (cases "u = v")
      case False
      with that Cons.prems(6) obtain g where "g \<in> set (cf_folders s)" "shows_folder g u" by auto
      then have "folder_id u \<in> fo_id ` set (cf_folders s)" by (metis image_eqI shows_folder_def)
      with ids show ?thesis by blast
    qed (simp add: ids)
    then obtain f where f: "f \<in> set rows" "fo_id f = folder_id u" by auto
    show ?thesis
    proof (cases "folder_id u = folder_id v")
      case True
      with v(2) have "u \<notin> set us" by (metis image_eqI list.set_map)
      with that have "u = v" by simp
      with f t(4) rows(1) show ?thesis by auto
    next
      case False
      with that Cons.prems(6) obtain g where g: "g \<in> set (cf_folders s)" "shows_folder g u" by auto
      with f t(4) False have "f \<in> set (cf_folders s)" "fo_id f = fo_id g" by (auto simp: shows_folder_def)
      moreover have "inj_on fo_id (set (cf_folders s))" using ks(1) by (simp add: distinct_map)
      ultimately have "f = g" using g(1) by (simp add: inj_onD)
      with f(1) g(2) rows(1) show ?thesis by auto
    qed
  qed
  have "\<exists>s'. cf_update_loop (int p) (int (length (us @ [v]))) vs t = Some s' \<and> cf_becomes (cf_folders s') t s' \<and>
    tabs_placed p (map folder_id ((us @ [v]) @ vs)) (map fo_id (cf_folders s')) \<and>
    fo_id ` set (cf_folders s') \<subseteq> insert 0 (folder_id ` set ((us @ [v]) @ vs)) \<and>
    (\<forall>u \<in> set ((us @ [v]) @ vs). \<exists>f \<in> set (cf_folders s'). shows_folder f u) \<and> folder_id ` set vs \<subseteq> dom (cf_models s')"
    using Cons.prems ids rows shown by (intro Cons.IH [OF rows(2) _ _ placed]) auto
  then obtain s' where s': "cf_update_loop (int p) (int (length us) + 1) vs t = Some s'" "cf_becomes (cf_folders s') t s'"
    "tabs_placed p (map folder_id (us @ v # vs)) (map fo_id (cf_folders s'))"
    "fo_id ` set (cf_folders s') \<subseteq> insert 0 (folder_id ` set (us @ v # vs))"
    "\<forall>u \<in> set (us @ v # vs). \<exists>f \<in> set (cf_folders s'). shows_folder f u" "folder_id ` set vs \<subseteq> dom (cf_models s')"
    by (auto simp: add.commute)
  moreover have "folder_id ` set (v # vs) \<subseteq> dom (cf_models s')"
    using s'(6) t(5) cf_becomesD(3) [OF s'(2)] by auto
  ultimately show ?case using t(1) cf_becomes_trans [OF t(2) s'(2)] by (intro exI [of _ s']) simp
qed

lemma cf_findMain_at:
  assumes "tabs_ok rows" "j < length rows" "fo_id (rows ! j) = 0"
  shows "cf_findMain rows = int j"
proof -
  have other: "fo_type (rows ! i) \<noteq> FolderMain" if "i < j" for i
    using that assms distinct_key_eq [of fo_id rows i j] tabs_okD(2) [OF assms(1), of "rows ! i"]
    by (auto simp: tabs_ok_def)
  have main: "fo_type (rows ! j) = FolderMain" using assms tabs_okD(2) [OF assms(1), of "rows ! j"] by simp
  have "takeWhile (\<lambda>f. fo_type f \<noteq> FolderMain) rows = take j rows"
    using assms(2) other main by (intro takeWhile_eq_take_P_nth) auto
  with assms(2) show ?thesis by (simp add: cf_findMain_def)
qed

lemma take_1: "xs \<noteq> [] \<Longrightarrow> take 1 xs = [xs ! 0]"
  by (cases xs) auto

lemma cf_moveMain_becomes:
  assumes ok: "cf_ok s" and p: "p < length (cf_folders s)"
  shows "\<exists>s'. cf_moveMain (int p) s = Some s' \<and> cf_becomes (cf_folders s') s s' \<and>
    tabs_placed p [] (map fo_id (cf_folders s')) \<and> set (cf_folders s') = set (cf_folders s)"
proof -
  obtain j where j: "j < length (cf_folders s)" "fo_id (cf_folders s ! j) = 0"
    using ok by (metis cf_ok_def key_image_nth tabs_ok_def)
  have main: "cf_findMain (cf_folders s) = int j" using cf_findMain_at [OF _ j] ok by (simp add: cf_ok_def)
  obtain s' where s': "cf_moveMain (int p) s = Some s'" "cf_becomes (qmove j p (cf_folders s)) s s'"
  proof (cases "j = p")
    case True
    have "cf_moveMain (int p) s = Some s" using True p main by (simp add: cf_moveMain_def)
    with that [of s] cf_becomes_same [OF ok] True p show ?thesis by simp
  next
    case False
    have "cf_moveMain (int p) s = cf_move (int j) (int p) (\<lambda>s. s\<lparr>cf_mainIndex := int p\<rparr>) s"
      using False p main by (simp add: cf_moveMain_def Let_def)
    with cf_move_becomes [OF ok j(1) p False, of "\<lambda>s. s\<lparr>cf_mainIndex := int p\<rparr>"] j that show ?thesis by auto
  qed
  let ?rows = "qmove j p (cf_folders s)"
  have rows: "cf_folders s' = ?rows" "?rows ! p = cf_folders s ! j" "distinct (map fo_id ?rows)"
    using cf_becomesD [OF s'(2)] j p by (simp_all add: qmove_at cf_ok_def tabs_ok_def)
  have "0 \<notin> set (take p (map fo_id ?rows))"
  proof
    assume "0 \<in> set (take p (map fo_id ?rows))"
    then obtain i where "i < p" "i < length ?rows" "fo_id (?rows ! i) = 0"
      by (auto simp: in_set_conv_nth take_map j)
    with distinct_key_eq [OF rows(3), of i p] rows(2) j p show False by simp
  qed
  moreover have "take 1 (map fo_id ?rows) = [0]" if "p = 0"
  proof -
    have "?rows \<noteq> []" using length_qmove [OF j(1), of p] j(1) by (metis length_0_conv not_less_zero)
    then have "take 1 (map fo_id ?rows) = [map fo_id ?rows ! 0]" by (intro take_1) simp
    with \<open>?rows \<noteq> []\<close> rows(2) j(2) that show ?thesis by simp
  qed
  ultimately have "tabs_placed p [] (map fo_id ?rows)" using p j by (auto simp: tabs_placed_def)
  with s' rows(1) j show ?thesis by auto
qed

text \<open>Beyond the rows that are left, the move of the main tab is out of range.\<close>

lemma cf_moveMain_beyond: "cf_ok s \<Longrightarrow> length (cf_folders s) \<le> p \<Longrightarrow> cf_moveMain (int p) s = None"
proof -
  assume ok: "cf_ok s" and p: "length (cf_folders s) \<le> p"
  obtain j where j: "j < length (cf_folders s)" "fo_id (cf_folders s ! j) = 0"
    using ok by (metis cf_ok_def key_image_nth tabs_ok_def)
  then have "cf_findMain (cf_folders s) = int j" using cf_findMain_at ok by (simp add: cf_ok_def)
  with p j(1) show ?thesis by (simp add: cf_moveMain_def cf_move_def valid_row_def min_def)
qed

lemma tabs_placed_rows:
  assumes rows: "tabs_ok rows" and placed: "tabs_placed p (map folder_id vs) (map fo_id rows)"
    and ids: "fo_id ` set rows \<subseteq> insert 0 (folder_id ` set vs)" "0 \<notin> folder_id ` set vs"
    and shown: "\<forall>v \<in> set vs. \<exists>f \<in> set rows. shows_folder f v"
  shows "\<exists>m. p \<le> m \<and> (p = 0 \<longrightarrow> m = 0) \<and> m < length rows \<and> fo_type (rows ! m) = FolderMain \<and>
    list_all2 shows_folder (remove_at m rows) vs"
proof -
  let ?ks = "map fo_id rows"
  have d: "distinct ?ks" using rows by (simp add: tabs_ok_def)
  obtain m where m: "m < length rows" "fo_id (rows ! m) = 0" using rows by (metis key_image_nth tabs_ok_def)
  have "p \<le> m"
  proof (rule ccontr)
    assume "\<not> p \<le> m"
    then have "?ks ! m \<in> set (take p ?ks)" using m by (auto simp: in_set_conv_nth intro!: exI [of _ m])
    with placed m show False by (simp add: tabs_placed_def)
  qed
  moreover have "m = 0" if "p = 0"
  proof -
    have "take 1 ?ks = [0]" using placed that by (simp add: tabs_placed_def)
    then have "fo_id (rows ! 0) = 0" by (cases rows) auto
    with m distinct_key_eq [OF d, of 0 m] show ?thesis by (cases rows) auto
  qed
  moreover have "fo_type (rows ! m) = FolderMain" using m tabs_okD(2) [OF rows, of "rows ! m"] by simp
  moreover have "list_all2 shows_folder (remove_at m rows) vs"
  proof -
    have "map fo_id (remove_at m rows) = remove1 0 ?ks"
      using m remove_at_remove1 [OF d, of m] by (simp add: row_simps)
    also have "\<dots> = filter (\<lambda>k. 0 \<noteq> k) ?ks"
      by (simp only: distinct_remove1_removeAll [OF d] removeAll_filter_not_eq)
    also have "\<dots> = filter (\<lambda>k. k \<in> set (map folder_id vs)) ?ks" using ids by (intro filter_cong) auto
    also have "\<dots> = map folder_id vs" using placed by (simp add: tabs_placed_def)
    finally have same: "map fo_id (remove_at m rows) = map folder_id vs" .
    have "shows_folder (remove_at m rows ! i) (vs ! i)" if i: "i < length vs" for i
    proof -
      obtain f where f: "f \<in> set rows" "shows_folder f (vs ! i)" using shown i by (meson nth_mem)
      have len: "length (remove_at m rows) = length vs" using same by (metis length_map)
      have "fo_id (remove_at m rows ! i) = folder_id (vs ! i)"
        using same that len by (metis nth_map)
      moreover have "remove_at m rows ! i \<in> set rows"
        using that len by (metis in_set_dropD in_set_takeD nth_mem remove_at_def set_append Un_iff)
      moreover have "inj_on fo_id (set rows)" using d by (simp add: distinct_map)
      ultimately have "remove_at m rows ! i = f" using f by (metis inj_onD shows_folder_def)
      with f show ?thesis by simp
    qed
    with same show ?thesis by (metis length_map list_all2_all_nthI)
  qed
  ultimately show ?thesis using m by blast
qed

section \<open>The reset\<close>

lemma fold_forget:
  "fold (\<lambda>i m. m(key i := None)) js m k = (if \<exists>i \<in> set js. key i = k then None else m k)"
  by (induction js arbitrary: m) auto

lemma tabs_ok_remove_slice:
  assumes "tabs_ok rows" "a \<le> b" "\<And>i. a \<le> i \<Longrightarrow> i \<le> b \<Longrightarrow> fo_id (rows ! i) \<noteq> 0"
  shows "tabs_ok (remove_slice a b rows)"
proof -
  have split: "rows = take a rows @ take (Suc b - a) (drop a rows) @ drop (Suc b) rows"
    by (rule slice_split [symmetric]) (rule assms(2))
  have "set rows = set (take a rows) \<union> set (take (Suc b - a) (drop a rows)) \<union> set (drop (Suc b) rows)"
    by (subst split) (simp only: set_append Un_assoc)
  moreover have "0 \<notin> fo_id ` set (take (Suc b - a) (drop a rows))"
    using assms(3) by (auto simp: in_set_conv_nth)
  moreover have "distinct (map fo_id (remove_slice a b rows))"
    using assms(1,2) by (simp add: row_simps distinct_remove_slice tabs_ok_def)
  ultimately show ?thesis using assms(1) by (auto simp: tabs_ok_def remove_slice_def)
qed

lemma cf_removeRange_becomes:
  assumes ok: "cf_ok s" and ab: "a \<le> b" "b < length (cf_folders s)"
    and main: "\<And>i. a \<le> i \<Longrightarrow> i \<le> b \<Longrightarrow> fo_id (cf_folders s ! i) \<noteq> 0"
  shows "\<exists>s'. cf_removeRange (int a) (int b) s = Some s' \<and> cf_becomes (remove_slice a b (cf_folders s)) s s' \<and>
    cf_mainIndex s' = cf_mainIndex s"
proof -
  let ?rows = "remove_slice a b (cf_folders s)"
  let ?m = "fold (\<lambda>i m. m(fo_id (cf_folders s ! i) := None)) [a..<b + 1] (cf_index s)"
  let ?t = "s\<lparr>cf_folders := ?rows, cf_index := reindex fo_id ?rows a (length ?rows) ?m\<rparr>"
  have "tabs_ok (cf_folders s)" "tabs_index (cf_folders s) (cf_index s)" using ok by (simp_all add: cf_ok_def)
  then have "tabs_index ?rows (reindex fo_id ?rows a (length ?rows) ?m)"
    by (rule tabs_index_slice) (use ab in \<open>auto simp: fold_forget less_Suc_eq_le\<close>)
  moreover have "tabs_ok ?rows"
    using \<open>tabs_ok (cf_folders s)\<close> ab(1) main by (rule tabs_ok_remove_slice)
  ultimately have "cf_ok ?t" by (simp add: cf_ok_def)
  then have "cf_becomes ?rows s (cf_emitRows (RowsRemoved (int a) (int b)) ?t)"
    using cf_becomes_rows [of ?t s "RowsRemoved (int a) (int b)"] by simp
  moreover have "cf_removeRange (int a) (int b) s = Some (cf_emitRows (RowsRemoved (int a) (int b)) ?t)"
    using ab by (simp add: cf_removeRange_def Let_def)
  ultimately show ?thesis by simp
qed

end
