(* ===== verification/FolderProperties.thy ===== *)
theory FolderProperties imports ChatFolders
begin

text \<open>
  The properties of the row of tabs (\<open>ChatFoldersModel\<close>): what an update of the folders leaves,
  when it goes out of range, where the main tab ends, and what a reset forgets.
\<close>

definition tabs_left :: "qvariant list \<Rightarrow> cf_state \<Rightarrow> nat" where
  "tabs_left newFolders s = length (filter (kept newFolders) (cf_folders s))"

lemma cf_remove_all:
  assumes "cf_ok s"
  obtains t where "cf_remove_loop newFolders (length (cf_folders s)) (s\<lparr>cf_mainIndex := x\<rparr>) = Some t"
    "cf_folders t = filter (kept newFolders) (cf_folders s)" "cf_ok t" "cf_sync s t"
proof -
  have "cf_ok (s\<lparr>cf_mainIndex := x\<rparr>)" using assms by (simp add: cf_ok_def)
  from cf_remove_loop_becomes [OF this, of "length (cf_folders s)" newFolders] obtain t where
    t: "cf_remove_loop newFolders (length (cf_folders s)) (s\<lparr>cf_mainIndex := x\<rparr>) = Some t"
      "cf_becomes (filter (kept newFolders) (cf_folders s)) (s\<lparr>cf_mainIndex := x\<rparr>) t" by auto
  show ?thesis
    by (rule that [OF t(1)]) (use t(2) in \<open>auto simp: cf_becomes_def cf_sync_def\<close>)
qed


definition sample_folder :: "int \<Rightarrow> string \<Rightarrow> qvariant" where
  "sample_folder k n = QMap (fmupd ''id'' (QInt k) (fmupd ''name'' (QString n) fmempty))"

definition sample_tabs :: "cf_state" where
  "sample_tabs = cf_new\<lparr>cf_folders := [newFolder (toMap (sample_folder 1 ''a'')), newFolderOfType FolderMain,
     newFolder (toMap (sample_folder 2 ''b'')), newFolder (toMap (sample_folder 3 ''c''))],
     cf_index := [1 \<mapsto> 0, 2 \<mapsto> 2, 3 \<mapsto> 3], cf_mainIndex := 1\<rparr>"

lemma sample_ids [simp]:
  "mvalue (toMap (sample_folder k n)) ''id'' = QInt k"
  "folder_id (sample_folder k n) = toInt (QInt k)" "fo_id (newFolder (toMap (sample_folder k n))) = toInt (QInt k)"
  "fo_id (newFolderOfType FolderMain) = 0" "fo_isFolder (newFolder folder)" "fo_type (newFolderOfType type) = type"
  "fo_type (newFolder folder) = FolderFolder" "\<not> fo_isFolder (newFolderOfType FolderMain)"
  by (simp_all add: folder_id_def sample_folder_def fo_id_def newFolderOfType_def newFolder_def fo_isFolder_def toInt_def)

lemma sample_tabs_ok: "cf_ok sample_tabs"
proof -
  have "tabs_ok (cf_folders sample_tabs)" by (simp add: tabs_ok_def sample_tabs_def)
  moreover have "tabs_index (cf_folders sample_tabs) (cf_index sample_tabs)"
    by (rule tabs_indexI) (auto simp: sample_tabs_def less_Suc_eq)
  ultimately show ?thesis by (simp add: cf_ok_def)
qed



text \<open>The main tab's position beyond the tabs that are left: \<open>qMin(position, length)\<close> allows the length
itself, and the main tab is moved out of range. So it is with the first update after a start, when only
the main tab is there, for everyone who has not left it in the first place.\<close>

theorem main_tab_moved_out:
  assumes "cf_ok s" and "tabs_left newFolders s \<le> p"
  shows "cf_handleChatFoldersUpdated newFolders (int p) s = None"
proof -
  obtain t where t: "cf_remove_loop newFolders (length (cf_folders s)) (s\<lparr>cf_mainIndex := -1\<rparr>) = Some t"
    "cf_folders t = filter (kept newFolders) (cf_folders s)" "cf_ok t" "cf_sync s t"
    by (rule cf_remove_all [OF assms(1)])
  then have "cf_moveMain (int p) t = None"
    using assms(2) by (intro cf_moveMain_beyond) (simp_all add: tabs_left_def)
  with t(1) show ?thesis by (simp add: cf_handleChatFoldersUpdated_def)
qed

lemma cf_new_ok: "cf_ok cf_new"
  by (auto simp: cf_ok_def cf_new_def tabs_ok_def intro!: tabs_indexI)

theorem main_tab_moved_out_witness:
  "cf_handleChatFoldersUpdated [sample_folder 1 ''a'', sample_folder 2 ''b''] (int 1) cf_new = None"
  by (rule main_tab_moved_out [OF cf_new_ok]) (simp add: tabs_left_def kept_def cf_new_def)

text \<open>A folder moved from behind the main tab to its front pushes the main tab off its place, and nothing
moves it back: with the tabs a, main, b, c and the new order b, main, c, a the main tab ends after c.
\<open>mainChatListIndex\<close> says 1 nevertheless, so that the unread count of the list is announced for the tab c.\<close>

theorem main_tab_pushed_off:
  "map_option (\<lambda>s. (map fo_id (cf_folders s), cf_mainIndex s))
     (cf_handleChatFoldersUpdated [sample_folder 2 ''b'', sample_folder 3 ''c'', sample_folder 1 ''a''] 1 sample_tabs) =
   Some ([2, 3, 0, 1], 1)"
  by code_simp

text \<open>\<open>reset\<close> means to leave only the main tab. It removes the tabs before it first and then those behind the
old position, so as many folders stay as were before the main tab; only in the first place it is
left alone. The hash and the views agree with what stays.\<close>

theorem reset_leaves_folders:
  assumes ok: "cf_ok s" and p: "cf_mainIndex s = int p" "p < length (cf_folders s)" "fo_id (cf_folders s ! p) = 0"
  shows "\<exists>s'. cf_reset s = Some s' \<and> cf_folders s' = take (Suc p) (drop p (cf_folders s)) \<and> cf_ok s' \<and> cf_sync s s' \<and>
    cf_mainIndex s' = int p \<and> cl_chats (cf_main s') = [] \<and> cl_chats (cf_archive s') = []"
proof -
  let ?rows = "cf_folders s"
  have d: "distinct (map fo_id ?rows)" using ok by (simp add: cf_ok_def tabs_ok_def)
  have other: "fo_id (?rows ! i) \<noteq> 0" if "i < length ?rows" "i \<noteq> p" for i
    using distinct_key_eq [OF d, of i p] that p by auto
  obtain t where t: "cf_removeRange 0 (int p - 1) s = Some t" "cf_becomes (drop p ?rows) s t" "cf_mainIndex t = int p"
  proof (cases p)
    case 0
    then show ?thesis using that [of s] cf_becomes_same [OF ok] p(1) by (simp add: cf_removeRange_def)
  next
    case (Suc q)
    from cf_removeRange_becomes [OF ok, of 0 q] Suc p other that show ?thesis
      by (auto simp: remove_slice_def)
  qed
  note tD = cf_becomesD [OF t(2)]
  have main: "fo_id (drop p ?rows ! 0) = 0" using p by simp
  obtain u where u: "cf_removeRange (int p + 1) (int (length (drop p ?rows)) - 1) t = Some u"
    "cf_becomes (take (Suc p) (drop p ?rows)) t u" "cf_mainIndex u = int p"
  proof (cases "Suc p < length (drop p ?rows)")
    case True
    let ?b = "length (drop p ?rows) - 1"
    have "\<exists>s'. cf_removeRange (int (Suc p)) (int ?b) t = Some s' \<and> cf_becomes (remove_slice (Suc p) ?b (cf_folders t)) t s' \<and>
      cf_mainIndex s' = cf_mainIndex t"
      using True other by (intro cf_removeRange_becomes) (auto simp: tD)
    moreover have "int (Suc p) = int p + 1" "int ?b = int (length (drop p ?rows)) - 1" using True by auto
    ultimately show ?thesis using that True t(3) tD(1) by (auto simp: remove_slice_def add.commute)
  next
    case False
    then have "cf_removeRange (int p + 1) (int (length (drop p ?rows)) - 1) t = Some t" by (simp add: cf_removeRange_def)
    moreover have "take (Suc p) (drop p ?rows) = cf_folders t" using False tD(1) by simp
    ultimately show ?thesis using that [of t] cf_becomes_same [OF tD(2)] t(3) by simp
  qed
  from cf_becomes_trans [OF t(2) u(2)] have all: "cf_becomes (take (Suc p) (drop p ?rows)) s u" .
  moreover have "cl_chats (cl_reset c) = []" for c :: cl_state by (simp add: cl_reset_def Let_def cl_emit_def cl_emitRows_def)
  ultimately show ?thesis using t u p(1) tD(1)
    by (auto simp: cf_reset_def cf_becomes_def cf_sync_def cf_ok_def)
qed

theorem reset_leaves_folders_witness:
  "\<exists>s'. cf_reset sample_tabs = Some s' \<and> cf_folders s' = take (Suc 1) (drop 1 (cf_folders sample_tabs)) \<and> cf_ok s' \<and>
    cf_sync sample_tabs s' \<and> cf_mainIndex s' = int 1 \<and> cl_chats (cf_main s') = [] \<and> cl_chats (cf_archive s') = []"
  by (rule reset_leaves_folders [OF sample_tabs_ok]) (simp_all add: sample_tabs_def)

end
