(* ===== verification/Waveform.thy ===== *)
theory Waveform imports Bytes Complex_Main
begin

text \<open>
  \<open>WaveformManager\<close> (\<open>src/waveformmanager.h\<close>, \<open>waveformmanager.cpp\<close>): the bars of a voice message,
  packed by five bits each into bytes, and resampled for the width they are drawn with.

  A bar is a rational number: the code's doubles hold the 32 values \<open>k / 31\<close>, and the product
  with 31 gives \<open>k\<close> back for each. \<open>char\<close> is signed on some platforms and unsigned on others;
  \<open>decodeWaveform\<close> depends on it and takes it as an argument. The encoder writes 32 bits at a
  time; what it writes beyond the array it has read there, so only the bytes of the array are
  modelled and \<open>encode_touched\<close> says how far an access goes.
\<close>

section \<open>The model\<close>

definition truncate :: "rat \<Rightarrow> int" where
  "truncate r = (if r \<ge> 0 then \<lfloor>r\<rfloor> else \<lceil>r\<rceil>)"

text \<open>\<open>static_cast<int>(x * 31.0) & 31\<close>\<close>

definition quantised :: "rat \<Rightarrow> nat" where
  "quantised x = nat (take_bit 5 (truncate (x * 31)))"

text \<open>\<open>*reinterpret_cast<uint32_t*>(bytes + o) |= x\<close>, little-endian, on the bytes of the array.\<close>

definition or32 :: "nat \<Rightarrow> nat \<Rightarrow> nat list \<Rightarrow> nat list" where
  "or32 off x bs = fold (\<lambda>k bs. bs[off + k := or (bs ! (off + k)) (take_bit 8 (drop_bit (8 * k) x))]) [0..<4] bs"

fun encode_loop :: "nat \<Rightarrow> rat list \<Rightarrow> nat list \<Rightarrow> nat list" where
  "encode_loop i [] data = data"
| "encode_loop i (x # xs) data =
     (let bitOffset = i * 5 in encode_loop (Suc i) xs (or32 (bitOffset div 8) (push_bit (bitOffset mod 8) (quantised x)) data))"

definition encode_size :: "nat \<Rightarrow> nat" where
  "encode_size n = (n * 5 + 7) div 8 + 1"

definition encodeWaveform :: "rat list \<Rightarrow> string" where
  "encodeWaveform waveform = toBase64 (encode_loop 0 waveform (replicate (encode_size (length waveform)) 0))"

text \<open>One past the last byte the loop accesses.\<close>

definition encode_touched :: "nat \<Rightarrow> nat" where
  "encode_touched n = (if n = 0 then 0 else (n - 1) * 5 div 8 + 4)"

definition char_value :: "bool \<Rightarrow> nat \<Rightarrow> int" where
  "char_value sc b = (if sc then signed_take_bit 7 (int b) else int b)"

definition decode_value :: "bool \<Rightarrow> nat list \<Rightarrow> nat \<Rightarrow> int" where
  "decode_value sc waveform i =
     (let j = i * 5 div 8; shift = i * 5 mod 8;
          next = (if j + 1 < length waveform then char_value sc (waveform ! (j + 1)) else 0)
      in and (drop_bit shift (or (char_value sc (waveform ! j)) (push_bit 8 next))) 31)"

definition decodeBytes :: "bool \<Rightarrow> nat list \<Rightarrow> rat list" where
  "decodeBytes sc waveform =
     take 100 (map (\<lambda>i. of_int (decode_value sc waveform i) / 31) [0..<length waveform * 8 div 5])"

definition decodeWaveform :: "bool \<Rightarrow> string \<Rightarrow> rat list" where
  "decodeWaveform sc encodedData = decodeBytes sc (fromBase64 encodedData)"

definition visible :: "rat \<Rightarrow> rat" where
  "visible x = (x + 6 / 100) / (106 / 100)"

definition getWaveformData :: "rat list \<Rightarrow> int \<Rightarrow> rat list" where
  "getWaveformData waveform cnt =
     (if cnt < 1 then []
      else if int (length waveform) = cnt then waveform
      else if int (length waveform) > cnt then
        (let n = nat cnt; chunk = length waveform div n; remainder = length waveform mod n;
             bars = map (\<lambda>i. visible (sum_list (take chunk (drop (i * chunk) waveform)) / of_nat chunk)) [0..<n - 1];
             s = sum_list (drop (length waveform - 1 - remainder) waveform)
         in bars @ [visible (s / of_nat (chunk + remainder))])
      else waveform @ replicate (nat cnt - length waveform) ((6 / 100) / (106 / 100)))"

section \<open>Bits\<close>

lemma length_or32 [simp]: "length (or32 off x bs) = length bs"
  by (simp add: or32_def upt_rec)

lemma nth_or32:
  "j < length bs \<Longrightarrow> or32 off x bs ! j =
     (if off \<le> j \<and> j < off + 4 then or (bs ! j) (take_bit 8 (drop_bit (8 * (j - off)) x)) else bs ! j)"
  by (auto simp: or32_def upt_rec nth_list_update eval_nat_numeral less_Suc_eq)

lemma length_encode_loop [simp]: "length (encode_loop i xs data) = length data"
  by (induction i xs data rule: encode_loop.induct) (auto simp: Let_def)

lemma quantised_bit: "bit (quantised x) q \<Longrightarrow> q < 5"
  by (auto simp: quantised_def bit_nat_iff bit_take_bit_iff)

text \<open>The bits of the packed bytes are the bits of the values, five for each.\<close>

definition packed :: "nat \<Rightarrow> (nat \<Rightarrow> nat) \<Rightarrow> nat list \<Rightarrow> bool" where
  "packed n v bs \<longleftrightarrow> (\<forall>j m. j < length bs \<longrightarrow>
     (bit (bs ! j) m \<longleftrightarrow> m < 8 \<and> 8 * j + m < 5 * n \<and> bit (v ((8 * j + m) div 5)) ((8 * j + m) mod 5)))"

lemma offset_back:
  "8 * a + b = 5 * n \<Longrightarrow> a \<le> j \<Longrightarrow> b \<le> 8 * (j - a) + m \<Longrightarrow>
     8 * (j - a) + m - b = 8 * j + m - 5 * n \<and> 5 * n \<le> 8 * j + (m :: nat)"
  by (auto simp: diff_mult_distrib2)

lemma offset_forth:
  assumes "8 * a + b = 5 * n" "b < 8" "m < 8" "5 * n \<le> 8 * j + m" "8 * j + m < 5 * n + (5 :: nat)"
  shows "a \<le> j \<and> j < a + 4 \<and> b \<le> 8 * (j - a) + m"
proof -
  have "a \<le> j" "j < a + 4" using assms by linarith+
  moreover from this assms have "b \<le> 8 * (j - a) + m" by (simp add: diff_mult_distrib2)
  ultimately show ?thesis by simp
qed

lemma packed_step:
  assumes p: "packed n v bs" and x: "\<And>q. bit x q \<Longrightarrow> q < 5" and v: "v n = x"
  shows "packed (Suc n) v (or32 (n * 5 div 8) (push_bit (n * 5 mod 8) x) bs)"
  unfolding packed_def
proof (intro allI impI)
  fix j m :: nat
  let ?o = "n * 5 div 8" and ?b = "n * 5 mod 8" and ?p = "8 * j + m"
  assume "j < length (or32 ?o (push_bit ?b x) bs)"
  then have j: "j < length bs" by simp
  have ob: "8 * ?o + ?b = 5 * n" using div_mult_mod_eq [of "n * 5" 8] by simp
  have old: "bit (bs ! j) m \<longleftrightarrow> m < 8 \<and> ?p < 5 * n \<and> bit (v (?p div 5)) (?p mod 5)"
    using p j by (simp add: packed_def)
  have new: "?o \<le> j \<and> j < ?o + 4 \<and> bit (take_bit 8 (drop_bit (8 * (j - ?o)) (push_bit ?b x))) m \<longleftrightarrow>
      m < 8 \<and> 5 * n \<le> ?p \<and> ?p < 5 * Suc n \<and> bit x (?p - 5 * n)" (is "?l \<longleftrightarrow> ?r")
  proof
    assume l: ?l
    then have q: "?o \<le> j" "m < 8" "?b \<le> 8 * (j - ?o) + m" "bit x (8 * (j - ?o) + m - ?b)"
      by (auto simp: bit_take_bit_iff bit_drop_bit_eq bit_push_bit_iff_nat)
    have "8 * (j - ?o) + m - ?b = ?p - 5 * n \<and> 5 * n \<le> ?p" by (rule offset_back [OF ob q(1,3)])
    with q x [OF q(4)] show ?r by auto
  next
    assume r: ?r
    have "?o \<le> j \<and> j < ?o + 4 \<and> ?b \<le> 8 * (j - ?o) + m" by (rule offset_forth [OF ob]) (use r in auto)
    moreover from this have "8 * (j - ?o) + m - ?b = ?p - 5 * n" using offset_back [OF ob] by blast
    ultimately show ?l using r by (auto simp: bit_take_bit_iff bit_drop_bit_eq bit_push_bit_iff_nat)
  qed
  have place: "?p div 5 = n" "?p mod 5 = ?p - 5 * n" if "5 * n \<le> ?p" "?p < 5 * Suc n"
  proof -
    show "?p div 5 = n" using that by (intro div_nat_eqI) auto
    then show "?p mod 5 = ?p - 5 * n" by (simp add: modulo_nat_def mult.commute)
  qed
  have "bit (or32 ?o (push_bit ?b x) bs ! j) m \<longleftrightarrow> bit (bs ! j) m \<or>
      (?o \<le> j \<and> j < ?o + 4 \<and> bit (take_bit 8 (drop_bit (8 * (j - ?o)) (push_bit ?b x))) m)"
    by (auto simp: nth_or32 [OF j] bit_or_iff)
  also have "\<dots> \<longleftrightarrow> m < 8 \<and> ?p < 5 * Suc n \<and> bit (v (?p div 5)) (?p mod 5)"
    unfolding old new using place v by (cases "5 * n \<le> ?p"; cases "?p < 5 * Suc n") auto
  finally show "bit (or32 ?o (push_bit ?b x) bs ! j) m \<longleftrightarrow>
      m < 8 \<and> ?p < 5 * Suc n \<and> bit (v (?p div 5)) (?p mod 5)" .
qed

lemma packed_encode:
  assumes "packed i v data" "\<And>k. k < length xs \<Longrightarrow> v (i + k) = quantised (xs ! k)"
  shows "packed (i + length xs) v (encode_loop i xs data)"
  using assms
proof (induction i xs data rule: encode_loop.induct)
  case (2 i x xs data)
  have "packed (Suc i) v (or32 (i * 5 div 8) (push_bit (i * 5 mod 8) (quantised x)) data)"
    using "2.prems"(2) [of 0] by (intro packed_step [OF "2.prems"(1)]) (auto dest: quantised_bit)
  moreover have "v (Suc i + k) = quantised (xs ! k)" if "k < length xs" for k
    using "2.prems"(2) [of "Suc k"] that by simp
  ultimately show ?case using "2.IH" by (simp add: Let_def)
qed simp

lemma packed_byte: "packed n v bs \<Longrightarrow> j < length bs \<Longrightarrow> bs ! j < 256"
proof -
  assume "packed n v bs" "j < length bs"
  then have "take_bit 8 (bs ! j) = bs ! j" by (intro bit_eqI) (auto simp: bit_take_bit_iff packed_def)
  then show ?thesis by (simp add: take_bit_nat_eq_self_iff)
qed

text \<open>A value read from packed bytes, when \<open>char\<close> is unsigned.\<close>

lemma decode_packed:
  assumes p: "packed n v bs" and v: "\<And>k q. bit (v k) q \<Longrightarrow> q < 5" and i: "i * 5 div 8 < length bs"
    and cover: "5 * n \<le> 8 * length bs"
  shows "decode_value False bs i = (if i < n then int (v i) else 0)"
proof (rule bit_eqI)
  fix m
  let ?j = "i * 5 div 8" and ?s = "i * 5 mod 8"
  let ?next = "if ?j + 1 < length bs then int (bs ! (?j + 1)) else 0"
  have js: "8 * ?j + ?s = 5 * i" using div_mult_mod_eq [of "i * 5" 8] by simp
  have lhs: "bit (decode_value False bs i) m \<longleftrightarrow>
      m < 5 \<and> (if ?s + m < 8 then bit (bs ! ?j) (?s + m) else ?j + 1 < length bs \<and> bit (bs ! (?j + 1)) (?s + m - 8))"
  proof -
    have "\<not> bit (bs ! ?j) (?s + m)" if "8 \<le> ?s + m"
    proof -
      have "take_bit 8 (bs ! ?j) = bs ! ?j" using packed_byte [OF p i] by (simp add: take_bit_nat_eq_self)
      with that show ?thesis by (metis bit_take_bit_iff not_le)
    qed
    moreover have "bit (31 :: int) m \<longleftrightarrow> m < 5"
    proof -
      have "(31 :: int) = mask 5" by (simp add: mask_eq_exp_minus_1)
      then show ?thesis by (simp only: bit_mask_iff possible_bit_int simp_thms)
    qed
    ultimately show ?thesis
      by (auto simp: decode_value_def Let_def char_value_def bit_and_iff bit_drop_bit_eq bit_or_iff
          bit_push_bit_iff_int bit_of_nat_iff)
  qed
  show "bit (decode_value False bs i) m \<longleftrightarrow> bit (if i < n then int (v i) else 0) m"
  proof (cases "m < 5")
    case False
    with lhs v [of i m] show ?thesis by (auto simp: bit_of_nat_iff)
  next
    case True
    have here: "(5 * i + m) div 5 = i" "(5 * i + m) mod 5 = m" using True by auto
    have inside: "5 * i + m < 5 * n \<longleftrightarrow> i < n" using True by auto
    show ?thesis
    proof (cases "?s + m < 8")
      case True
      have "8 * ?j + (?s + m) = 5 * i + m" using js by simp
      with p i True have "bit (bs ! ?j) (?s + m) \<longleftrightarrow> i < n \<and> bit (v i) m"
        unfolding packed_def using here inside by metis
      with lhs True \<open>m < 5\<close> show ?thesis by (auto simp: bit_of_nat_iff)
    next
      case False
      have at: "8 * (?j + 1) + (?s + m - 8) = 5 * i + m" "?s + m - 8 < 8" using js False \<open>m < 5\<close> by auto
      show ?thesis
      proof (cases "?j + 1 < length bs")
        case True
        with p at have "bit (bs ! (?j + 1)) (?s + m - 8) \<longleftrightarrow> i < n \<and> bit (v i) m"
          unfolding packed_def using here inside by metis
        with lhs True False \<open>m < 5\<close> show ?thesis by (auto simp: bit_of_nat_iff)
      next
        case out: False
        with at have "8 * length bs \<le> 5 * i + m" by auto
        with cover inside have "\<not> i < n" by auto
        with lhs out False show ?thesis by simp
      qed
    qed
  qed
qed

section \<open>What comes back\<close>

definition bar_of :: "nat \<Rightarrow> rat" where
  "bar_of k = of_nat k / 31"

lemma quantised_less: "quantised x < 32"
proof -
  have "take_bit 5 (truncate (x * 31)) < 2 ^ 5" by (rule take_bit_int_less_exp)
  then show ?thesis by (simp add: quantised_def nat_less_iff)
qed

lemma quantised_bar: "k < 32 \<Longrightarrow> quantised (bar_of k) = k"
  by (simp add: quantised_def bar_of_def truncate_def take_bit_int_eq_self)

lemma encode_size_bits: "5 * n \<le> 8 * encode_size n"
  by (simp add: encode_size_def)

lemma decoded_length: "n \<le> encode_size n * 8 div 5"
  using encode_size_bits [of n] by simp

lemma decode_encode:
  "decodeBytes False (encode_loop 0 xs (replicate (encode_size (length xs)) 0)) =
     take 100 (map (\<lambda>x. bar_of (quantised x)) xs @ replicate (encode_size (length xs) * 8 div 5 - length xs) 0)"
proof -
  let ?n = "length xs" and ?v = "\<lambda>k. quantised (xs ! k)"
  let ?bs = "encode_loop 0 xs (replicate (encode_size ?n) 0)"
  let ?len = "encode_size ?n * 8 div 5"
  have "packed 0 ?v (replicate (encode_size ?n) 0)" by (simp add: packed_def)
  from packed_encode [OF this, of xs] have packed: "packed ?n ?v ?bs" by simp
  have "decode_value False ?bs i = (if i < ?n then int (?v i) else 0)" if "i < ?len" for i
    using that encode_size_bits [of ?n] by (intro decode_packed [OF packed]) (auto dest: quantised_bit)
  then have "map (\<lambda>i. of_int (decode_value False ?bs i) / 31) [0..<?len] =
      map (\<lambda>i. if i < ?n then bar_of (?v i) else 0) [0..<?len]"
    by (simp add: bar_of_def)
  also have "\<dots> = map (\<lambda>x. bar_of (quantised x)) xs @ replicate (?len - ?n) 0"
    using decoded_length [of ?n] by (intro nth_equalityI) (auto simp: nth_append)
  finally show ?thesis by (simp add: decodeBytes_def)
qed

lemma bytes_encode: "\<forall>b \<in> set (encode_loop 0 xs (replicate (encode_size (length xs)) 0)). b < 256"
proof -
  let ?v = "\<lambda>k. quantised (xs ! k)"
  have "packed 0 ?v (replicate (encode_size (length xs)) 0)" by (simp add: packed_def)
  from packed_encode [OF this, of xs] show ?thesis by (auto simp: in_set_conv_nth intro!: packed_byte)
qed

text \<open>The number of bars drawn.\<close>

lemma length_getWaveformData: "1 \<le> cnt \<Longrightarrow> length (getWaveformData w cnt) = nat cnt"
  by (auto simp: getWaveformData_def Let_def)

end
