(* ===== verification/WaveformProperties.thy ===== *)
theory WaveformProperties imports Waveform
begin

text \<open>The properties of the waveforms of voice messages (\<open>WaveformManager\<close>).\<close>


text \<open>The encoder accesses 32 bits at the byte of each bar. The array has one byte more than the bits need, and
\<open>QByteArray\<close> one more for its terminator; for half of all lengths the last access goes beyond both.\<close>

theorem waveform_overrun:
  "encode_touched n > encode_size n + 1 \<longleftrightarrow> n \<noteq> 0 \<and> n mod 8 \<in> {0, 1, 3, 6}"
proof (cases n)
  case (Suc k)
  obtain q r where k: "k = r + 8 * q" "r < 8" by (metis add.commute mod_less_divisor mult_div_mod_eq zero_less_numeral)
  have "k * 5 div 8 = r * 5 div 8 + 5 * q" "(Suc k * 5 + 7) div 8 = (Suc r * 5 + 7) div 8 + 5 * q" "Suc k mod 8 = Suc r mod 8"
    by (simp_all add: k)
  moreover have "(r * 5 div 8 + 4 > (Suc r * 5 + 7) div 8 + 2) = (Suc r mod 8 \<in> {0, 1, 3, 6})"
  proof -
    have "\<forall>r \<in> set [0..<8]. (r * 5 div 8 + 4 > (Suc r * 5 + 7) div 8 + 2) = (Suc r mod 8 \<in> {0, 1, 3, 6})"
      by code_simp
    with k(2) show ?thesis by simp
  qed
  ultimately have "(k * 5 div 8 + 4 > (Suc k * 5 + 7) div 8 + 2) = (Suc k mod 8 \<in> {0, 1, 3, 6})" by simp
  with Suc show ?thesis by (simp add: encode_touched_def encode_size_def)
qed (simp add: encode_touched_def encode_size_def)

text \<open>The last bar is the sum of one value more than the remainder, divided by the length of the last chunk: of
a waveform of one height that is drawn with fewer bars, two values or more each, the last bar is too low
and every other one right.\<close>

theorem last_bar_too_low:
  assumes "1 \<le> n" "2 * n \<le> length waveform" "set waveform \<subseteq> {x}" "0 < x"
  shows "\<exists>bars y. getWaveformData waveform (int n) = bars @ [y] \<and> length bars = n - 1 \<and>
    (\<forall>b \<in> set bars. b = visible x) \<and> y < visible x"
proof -
  let ?len = "length waveform" and ?chunk = "length waveform div n" and ?rem = "length waveform mod n"
  have w: "waveform = replicate ?len x" using assms(3) by (metis replicate_length_same singletonD subsetD)
  have split: "?len = ?chunk * n + ?rem" "?rem < n" using assms(1) by simp_all
  have chunk: "2 \<le> ?chunk" using assms(1,2) by (simp add: less_eq_div_iff_mult_less_eq)
  have slice: "sum_list (take ?chunk (drop (i * ?chunk) waveform)) = of_nat ?chunk * x" if "i < n - 1" for i
  proof -
    have "(i + 1) * ?chunk \<le> n * ?chunk" using that by (intro mult_le_mono1) simp
    also have "\<dots> \<le> ?len" by simp
    finally have "?chunk \<le> ?len - i * ?chunk" by simp
    then show ?thesis by (subst w) (simp add: sum_list_replicate min_def)
  qed
  have last: "sum_list (drop (?len - 1 - ?rem) waveform) = of_nat (?rem + 1) * x"
  proof -
    have "?rem < ?len" using split assms(1,2) by linarith
    then have "?len - (?len - 1 - ?rem) = ?rem + 1" by simp
    then show ?thesis by (subst w) (simp only: drop_replicate sum_list_replicate)
  qed
  let ?y = "visible (of_nat (?rem + 1) * x / of_nat (?chunk + ?rem))"
  let ?bars = "map (\<lambda>i. visible (sum_list (take ?chunk (drop (i * ?chunk) waveform)) / of_nat ?chunk)) [0..<n - 1]"
  have "getWaveformData waveform (int n) = ?bars @ [?y]"
    using assms(1,2) by (simp add: getWaveformData_def Let_def last [simplified])
  moreover have "\<forall>b \<in> set ?bars. b = visible x" using slice chunk by auto
  moreover have "of_nat (?rem + 1) * x / of_nat (?chunk + ?rem) < x"
  proof -
    have "of_nat (?rem + 1) < (of_nat (?chunk + ?rem) :: rat)" using chunk by (simp only: of_nat_less_iff)
    then have "of_nat (?rem + 1) * x < x * of_nat (?chunk + ?rem)" using assms(4) by (simp only: mult.commute [of x] mult_strict_right_mono)
    moreover have "(0 :: rat) < of_nat (?chunk + ?rem)" using chunk by (simp only: of_nat_0_less_iff)
    ultimately show ?thesis by (simp only: pos_divide_less_eq)
  qed
  then have "?y < visible x" by (simp add: visible_def divide_strict_right_mono)
  ultimately show ?thesis by (intro exI [of _ ?bars] exI [of _ ?y]) simp
qed

theorem last_bar_too_low_witness:
  "\<exists>bars y. getWaveformData [1, 1, 1, 1, 1] (int 2) = bars @ [y] \<and> length bars = 2 - 1 \<and>
    (\<forall>b \<in> set bars. b = visible 1) \<and> y < visible 1"
  by (rule last_bar_too_low) simp_all

end
