(* ===== verification/Receiver.thy ===== *)
theory Receiver imports TdData FormattedText Waveform
begin

text \<open>
  \<open>TDLibReceiver\<close> (\<open>src/tdlib/tdlibreceiver.h\<close>, \<open>tdlibreceiver.cpp\<close>): every document of TDLib becomes the signals
  of the other components.

  A document is a \<open>QVariantMap\<close>; JSON parsing and the thread that waits for TDLib are outside. A
  signal of the kind \<open>TDLibData\<close> is connected to is a \<open>td_event\<close>; any other is its name with its arguments.
  \<open>cleanupMap\<close> recurses into the document; it ends because every call is on a smaller value, also
  where a type nests itself. Variants have no doubles: how one is held is in the environment, with
  the sign of \<open>char\<close>, on which the decoding of waveforms depends. A list that is read out of range
  (\<open>processWebBrowserType\<close>) is \<open>None\<close>.
\<close>

record receiver_env =
  signedChar :: bool
  ofDouble :: "rat \<Rightarrow> qvariant"
  toDouble :: "qvariant \<Rightarrow> rat"

datatype receiver_signal = ToStore td_event | Signal string "qvariant list"

section \<open>The size of a value\<close>

lemma size_lookup: "fmlookup m k = Some v \<Longrightarrow> Suc (size v) < size (QMap m)"
proof -
  assume k: "fmlookup m k = Some v"
  let ?s = "\<lambda>x. Suc (case x of (a :: string, b) \<Rightarrow> size b)"
  have "?s (k, v) \<le> (\<Sum>x \<in> fset (fset_of_fmap m). ?s x)"
    using k by (intro member_le_sum) auto
  then show ?thesis by simp
qed

lemma size_empty: "size (QMap fmempty) = 1" "size (QList []) = 1"
  by simp_all

lemma size_parts: "size (QMap (toMap v)) \<le> max 1 (size v)" "size (QList (toList v)) \<le> max 1 (size v)"
  using size_empty by (cases v; simp only: toMap.simps toList.simps; linarith)+

lemma size_field:
  assumes "toString (mvalue m t) \<noteq> []"
  shows "size (QMap (toMap (mvalue m k))) < size (QMap m)" "size (QList (toList (mvalue m k))) < size (QMap m)"
proof -
  obtain v where "fmlookup m t = Some v" using assms by (cases "fmlookup m t") (auto simp: mvalue_def)
  from size_lookup [OF this] have two: "1 < size (QMap m)" by linarith
  have "max 1 (size (mvalue m k)) < size (QMap m)"
    using two size_lookup [of m k] by (cases "fmlookup m k") (simp_all add: mvalue_def del: qvariant.size(5))
  with size_parts [of "mvalue m k"]
  show "size (QMap (toMap (mvalue m k))) < size (QMap m)" "size (QList (toList (mvalue m k))) < size (QMap m)" by linarith+
qed

lemma size_element: "size (QMap (toMap v)) < size (QList (v # vs))" "size (QList vs) < size (QList (v # vs))"
proof -
  have "size (QList (v # vs)) = Suc (Suc (size v + size_list size vs))" "size (QList vs) = Suc (size_list size vs)" by simp_all
  then show "size (QMap (toMap v)) < size (QList (v # vs))" "size (QList vs) < size (QList (v # vs))"
    using size_parts(1) [of v] by linarith+
qed

section \<open>Cleaning a document\<close>

text \<open>
  \<open>cleanupMap(map, &updated)\<close> is the pair of what it writes to \<open>updated\<close> and what it returns. The type of a
  document that was changed is written again, with a value all documents share; for a draft this is the
  key \<open>draft_message\<close>.
\<close>

definition reply_copied :: "string \<Rightarrow> string \<Rightarrow> vmap \<Rightarrow> vmap \<Rightarrow> vmap" where
  "reply_copied frm to replyTo m =
     (if mcontains replyTo frm \<and> \<not> mcontains m to then minsert to (mvalue replyTo frm) m else m)"

definition clean_reply :: "bool \<times> vmap \<Rightarrow> bool \<times> vmap" where
  "clean_reply cm =
     (case cm of (changed, m) \<Rightarrow>
        if mcontains m ''reply_to'' then
          (let replyTo = toMap (mvalue m ''reply_to'')
           in if toString (mvalue replyTo ''@type'') = ''messageReplyToMessage''
              then (True, minsert ''reply_to'' (QMap (minsert ''@type'' (QString ''messageReplyToMessage'') replyTo))
                      (reply_copied ''chat_id'' ''reply_in_chat_id'' replyTo
                        (reply_copied ''message_id'' ''reply_to_message_id'' replyTo m)))
              else (changed, m))
        else (changed, m))"

definition clean_draft :: "vmap \<Rightarrow> bool \<times> vmap" where
  "clean_draft m =
     (let replyTo = toMap (mvalue m ''reply_to'')
      in if toString (mvalue replyTo ''@type'') = ''inputMessageReplyToMessage''
         then (True, minsert ''@type'' (QString ''draft_message'')
                (minsert ''reply_to'' (QMap (minsert ''@type'' (QString ''inputMessageReplyToMessage'') replyTo))
                  (reply_copied ''message_id'' ''reply_to_message_id'' replyTo m)))
         else (False, m))"

definition clean_voice :: "receiver_env \<Rightarrow> vmap \<Rightarrow> bool \<times> vmap" where
  "clean_voice env m =
     (let wave = QList (map (ofDouble env) (decodeWaveform (signedChar env) (toString (mvalue m ''waveform''))))
      in (True, fmdrop ''waveform''
                  (minsert ''decoded_waveform'' wave (minsert ''@type'' (QString ''voiceNote'') m))))"

text \<open>A part that was cleaned goes back into its document, and the type with it.\<close>

definition put_part :: "string \<Rightarrow> bool \<times> vmap \<Rightarrow> bool \<times> vmap \<Rightarrow> bool \<times> vmap" where
  "put_part k part cm =
     (case part of (cleaned, p) \<Rightarrow> case cm of (changed, m) \<Rightarrow>
        if cleaned then (True, minsert k (QMap p) m) else (changed, m))"

definition typed :: "string \<Rightarrow> bool \<times> vmap \<Rightarrow> bool \<times> vmap" where
  "typed type cm = (case cm of (changed, m) \<Rightarrow> (changed, if changed then minsert ''@type'' (QString type) m else m))"

function cleanupMap :: "receiver_env \<Rightarrow> vmap \<Rightarrow> bool \<times> vmap"
  and cleanupList :: "receiver_env \<Rightarrow> qvariant list \<Rightarrow> bool \<times> qvariant list" where
  "cleanupMap env m =
     (let type = toString (mvalue m ''@type'')
      in if type = ''sticker'' then (True, minsert ''@type'' (QString ''sticker'') m)
         else if type = ''animatedEmoji''
         then typed type (put_part ''sticker'' (cleanupMap env (toMap (mvalue m ''sticker''))) (False, m))
         else if type = ''message''
         then typed type (clean_reply (put_part ''content'' (cleanupMap env (toMap (mvalue m ''content''))) (False, m)))
         else if type = ''draftMessage'' then clean_draft m
         else if type = ''messageSticker''
         then typed type (put_part ''sticker'' (cleanupMap env (toMap (mvalue m ''sticker''))) (False, m))
         else if type = ''messageAnimatedEmoji''
         then typed type (put_part ''animated_emoji'' (cleanupMap env (toMap (mvalue m ''animated_emoji''))) (False, m))
         else if type = ''stickerSetInfo''
         then (let (cleaned, covers) = cleanupList env (toList (mvalue m ''covers''))
               in typed type (cleaned, if cleaned then minsert ''covers'' (QList covers) m else m))
         else if type = ''stickerSet''
         then (let (cleaned, stickers) = cleanupList env (toList (mvalue m ''stickers''))
               in typed type (cleaned, if cleaned then fmdrop ''emojis'' (minsert ''stickers'' (QList stickers) m) else m))
         else if type = ''sponsoredChat'' then (True, fmdrop ''unique_id'' (fmdrop ''@type'' m))
         else if type = ''messageDice''
         then typed type (put_part ''final_state'' (cleanupMap env (toMap (mvalue m ''final_state'')))
                (put_part ''initial_state'' (cleanupMap env (toMap (mvalue m ''initial_state''))) (False, m)))
         else if type = ''diceStickersRegular''
         then typed type (put_part ''sticker'' (cleanupMap env (toMap (mvalue m ''sticker''))) (False, m))
         else if type = ''diceStickersSlotMachine''
         then put_part ''right_reel'' (cleanupMap env (toMap (mvalue m ''right_reel'')))
               (put_part ''center_reel'' (cleanupMap env (toMap (mvalue m ''center_reel'')))
               (put_part ''left_reel'' (cleanupMap env (toMap (mvalue m ''left_reel'')))
               (put_part ''lever'' (cleanupMap env (toMap (mvalue m ''lever'')))
               (put_part ''background'' (cleanupMap env (toMap (mvalue m ''background''))) (False, m)))))
         else if type = ''messageVoiceNote''
         then typed type (put_part ''voice_note'' (cleanupMap env (toMap (mvalue m ''voice_note''))) (False, m))
         else if type = ''voiceNote'' then clean_voice env m
         else (False, m))"
| "cleanupList env [] = (False, [])"
| "cleanupList env (v # vs) =
     (let (cleaned, entry) = cleanupMap env (toMap v); (changed, rest) = cleanupList env vs
      in (cleaned \<or> changed, (if cleaned then QMap entry else v) # rest))"
  by pat_completeness auto
termination
  by (relation "measure (\<lambda>x. case x of Inl (_, m) \<Rightarrow> size (QMap m) | Inr (_, vs) \<Rightarrow> size (QList vs))")
    (simp_all only: in_measure sum.case prod.case wf_measure size_element,
     (metis size_field list.discI)+)

definition cleanedMap :: "receiver_env \<Rightarrow> vmap \<Rightarrow> vmap" where
  "cleanedMap env m = snd (cleanupMap env m)"

definition cleanedList :: "receiver_env \<Rightarrow> qvariant list \<Rightarrow> qvariant list" where
  "cleanedList env vs = snd (cleanupList env vs)"

section \<open>Reading the arguments\<close>

definition isSafeInt54 :: "int \<Rightarrow> bool" where
  "isSafeInt54 v \<longleftrightarrow> - (2 ^ 53 - 1) \<le> v \<and> v \<le> 2 ^ 53 - 1"

definition getOptionValue :: "vmap \<Rightarrow> qvariant" where
  "getOptionValue optionValue =
     (let result = mvalue optionValue ''value'';
          n = toLongLong result
      in if toString (mvalue optionValue ''@type'') = ''optionValueInteger'' \<and> isSafeInt54 n then QInt n else result)"

text \<open>\<open>QString::split\<close>, \<open>QStringList::value\<close>, \<open>mid\<close> with \<open>join\<close>, and the conversions of a part.\<close>

fun qsplit :: "char \<Rightarrow> string \<Rightarrow> string list" where
  "qsplit c [] = [[]]"
| "qsplit c (x # xs) =
     (if x = c then [] # qsplit c xs else (case qsplit c xs of [] \<Rightarrow> [[x]] | p # ps \<Rightarrow> (x # p) # ps))"

fun qjoin :: "char \<Rightarrow> string list \<Rightarrow> string" where
  "qjoin c [] = []"
| "qjoin c [p] = p"
| "qjoin c (p # ps) = p @ c # qjoin c ps"

definition part :: "string list \<Rightarrow> nat \<Rightarrow> string" where
  "part ps i = (if i < length ps then ps ! i else [])"

definition long_of :: "string \<Rightarrow> qvariant" where
  "long_of s = QInt (string_toLongLong s)"

definition int_of :: "string \<Rightarrow> qvariant" where
  "int_of s = QInt (case string_toInt s of None \<Rightarrow> 0 | Some i \<Rightarrow> i)"

definition ints_of :: "qvariant list \<Rightarrow> int list" where
  "ints_of vs = map toInt vs"

definition ints :: "int list \<Rightarrow> qvariant" where
  "ints is = QList (map QInt is)"

fun toStringList :: "qvariant \<Rightarrow> string list" where
  "toStringList (QList vs) = map toString vs"
| "toStringList (QString s) = [s]"
| "toStringList _ = []"

definition strings :: "string list \<Rightarrow> qvariant" where
  "strings ss = QList (map QString ss)"

section \<open>One handler for each type of document\<close>

definition processUpdateOption :: "vmap \<Rightarrow> receiver_signal list" where
  "processUpdateOption data =
     [ToStore (EOption (toString (mvalue data ''name'')) (getOptionValue (toMap (mvalue data ''value''))))]"

definition processUpdateAuthorizationState :: "vmap \<Rightarrow> receiver_signal list" where
  "processUpdateAuthorizationState data =
     (let state = toMap (mvalue data ''authorization_state'')
      in [Signal ''authorizationStateChanged'' [QString (toString (mvalue state ''@type'')), QMap (fmdrop ''@type'' state)]])"

definition processUpdateConnectionState :: "vmap \<Rightarrow> receiver_signal list" where
  "processUpdateConnectionState data =
     [Signal ''connectionStateChanged''
       [QString (toString (mvalue (toMap (mvalue data ''state'')) ''@type''))]]"

definition processUpdateUser :: "vmap \<Rightarrow> receiver_signal list" where
  "processUpdateUser data =
     [ToStore (EUser (toMap (mvalue data ''user'')))]"

definition processUpdateUserStatus :: "vmap \<Rightarrow> receiver_signal list" where
  "processUpdateUserStatus data =
     [ToStore (EUserStatus (toLongLong (mvalue data ''user_id'')) (toMap (mvalue data ''status'')))]"

definition processUpdateFile :: "vmap \<Rightarrow> receiver_signal list" where
  "processUpdateFile data =
     [Signal ''fileUpdated''
       [QInt (toInt (mvalue (toMap (mvalue data ''file'')) ''id'')), QMap (toMap (mvalue data ''file''))]]"

definition processFile :: "vmap \<Rightarrow> receiver_signal list" where
  "processFile data =
     [Signal ''fileUpdated'' [QInt (toInt (mvalue data ''id'')), QMap data]]"

definition processUpdateNewChat :: "vmap \<Rightarrow> receiver_signal list" where
  "processUpdateNewChat data =
     [ToStore (ENewChat (toMap (mvalue data ''chat'')))]"

definition processUpdateChatAddedToList :: "vmap \<Rightarrow> receiver_signal list" where
  "processUpdateChatAddedToList data =
     [ToStore (EChatAddedToList (toMap (mvalue data ''chat_list'')) (toLongLong (mvalue data ''chat_id'')))]"

definition processUpdateChatRemovedFromList :: "vmap \<Rightarrow> receiver_signal list" where
  "processUpdateChatRemovedFromList data =
     [ToStore (EChatRemovedFromList (toMap (mvalue data ''chat_list''))
       (toLongLong (mvalue data ''chat_id'')))]"

definition processUpdateUnreadMessageCount :: "vmap \<Rightarrow> receiver_signal list" where
  "processUpdateUnreadMessageCount data =
     [ToStore (EUnreadMessageCount data)]"

definition processUpdateUnreadChatCount :: "vmap \<Rightarrow> receiver_signal list" where
  "processUpdateUnreadChatCount data =
     [ToStore (EUnreadChatCount data)]"

definition processUpdateChatLastMessage :: "receiver_env \<Rightarrow> vmap \<Rightarrow> receiver_signal list" where
  "processUpdateChatLastMessage env data =
     [ToStore (EChatLastMessage (toLongLong (mvalue data ''chat_id'')) (cleanedMap env (toMap (mvalue data ''last_message'')))
       (toList (mvalue data ''positions'')))]"

definition processUpdateChatPosition :: "vmap \<Rightarrow> receiver_signal list" where
  "processUpdateChatPosition data =
     [ToStore (EChatPosition (toLongLong (mvalue data ''chat_id'')) (toMap (mvalue data ''position'')))]"

definition processUpdateChatReadInbox :: "vmap \<Rightarrow> receiver_signal list" where
  "processUpdateChatReadInbox data =
     [ToStore (EChatReadInbox (toLongLong (mvalue data ''chat_id'')) (toLongLong (mvalue data ''last_read_inbox_message_id''))
       (toInt (mvalue data ''unread_count'')))]"

definition processUpdateChatReadOutbox :: "vmap \<Rightarrow> receiver_signal list" where
  "processUpdateChatReadOutbox data =
     [ToStore (EChatReadOutbox (toLongLong (mvalue data ''chat_id''))
       (toLongLong (mvalue data ''last_read_outbox_message_id'')))]"

definition processUpdateChatAvailableReactions :: "vmap \<Rightarrow> receiver_signal list" where
  "processUpdateChatAvailableReactions data =
     [ToStore (EChatAvailableReactions (toLongLong (mvalue data ''chat_id''))
       (toMap (mvalue data ''available_reactions'')))]"

definition processUpdateBasicGroup :: "vmap \<Rightarrow> receiver_signal list" where
  "processUpdateBasicGroup data =
     [ToStore (EBasicGroup (toLongLong (mvalue (toMap (mvalue data ''basic_group'')) ''id''))
       (toMap (mvalue data ''basic_group'')))]"

definition processUpdateSuperGroup :: "vmap \<Rightarrow> receiver_signal list" where
  "processUpdateSuperGroup data =
     [ToStore (ESupergroup (toLongLong (mvalue (toMap (mvalue data ''supergroup'')) ''id''))
       (toMap (mvalue data ''supergroup'')))]"

definition processChatOnlineMemberCountUpdated :: "vmap \<Rightarrow> receiver_signal list" where
  "processChatOnlineMemberCountUpdated data =
     [Signal ''chatOnlineMemberCountUpdated''
       [QInt (toLongLong (mvalue data ''chat_id'')), QInt (toInt (mvalue data ''online_member_count''))]]"

definition processMessages :: "receiver_env \<Rightarrow> vmap \<Rightarrow> receiver_signal list" where
  "processMessages env data =
     (let extra = qsplit CHR '':'' (toString (mvalue data ''@extra''));
          totalCount = QInt (toInt (mvalue data ''total_count''));
          msgs = QList (cleanedList env (toList (mvalue data ''messages'')))
      in if part extra 0 = ''thread''
         then [Signal ''threadMessagesReceived'' [long_of (part extra 1), long_of (part extra 2), int_of (part extra 3), msgs, totalCount]]
         else if part extra 0 = ''forumTopic''
         then [Signal ''forumTopicMessagesReceived'' [long_of (part extra 1), int_of (part extra 2), int_of (part extra 3), msgs, totalCount]]
         else [Signal ''messagesReceived'' [long_of (part extra 0), int_of (part extra 1), msgs, totalCount]])"

definition processFoundChatMessages :: "receiver_env \<Rightarrow> vmap \<Rightarrow> receiver_signal list" where
  "processFoundChatMessages env data =
     (let extra = qsplit CHR '':'' (toString (mvalue data ''@extra''))
      in [Signal ''foundChatMessagesReceived''
            [long_of (part extra 0), int_of (part extra 1), int_of (part extra 2),
             QList (cleanedList env (toList (mvalue data ''messages''))), QInt (toInt (mvalue data ''total_count'')),
             QInt (toLongLong (mvalue data ''next_from_message_id''))]])"

definition processSponsoredMessages :: "vmap \<Rightarrow> receiver_signal list" where
  "processSponsoredMessages data =
     [Signal ''sponsoredMessagesReceived''
       [QInt (toLongLong (mvalue data ''@extra'')), QList (toList (mvalue data ''messages'')),
        QInt (toInt (mvalue data ''messages_between''))]]"

definition processUpdateNewMessage :: "receiver_env \<Rightarrow> vmap \<Rightarrow> receiver_signal list" where
  "processUpdateNewMessage env data =
     [Signal ''newMessageReceived''
       [QInt (toLongLong (mvalue (toMap (mvalue data ''message'')) ''chat_id'')), QMap (cleanedMap env (toMap (mvalue data ''message'')))]]"

definition processMessage :: "receiver_env \<Rightarrow> vmap \<Rightarrow> receiver_signal list" where
  "processMessage env data =
     [Signal ''messageReceived''
       [QInt (toLongLong (mvalue data ''chat_id'')), QInt (toLongLong (mvalue data ''id'')),
        QMap (cleanedMap env data), QString (toString (mvalue data ''@extra''))]]"

definition processMessageLinkInfo :: "vmap \<Rightarrow> receiver_signal list" where
  "processMessageLinkInfo data =
     [Signal ''messageLinkInfoReceived''
       [QBool (toBool (mvalue data ''is_public'')), QInt (toLongLong (mvalue data ''chat_id'')),
        QMap (toMap (mvalue data ''topic_id'')), QInt (toLongLong (mvalue (toMap (mvalue data ''message'')) ''id'')),
        QInt (toInt (mvalue data ''media_timestamp'')), QBool (toBool (mvalue data ''for_album''))]]"

definition processMessageSendSucceeded :: "receiver_env \<Rightarrow> vmap \<Rightarrow> receiver_signal list" where
  "processMessageSendSucceeded env data =
     [Signal ''messageSendSucceeded''
       [QInt (toLongLong (mvalue (toMap (mvalue data ''message'')) ''chat_id'')), QInt (toLongLong (mvalue data ''old_message_id'')),
        QInt (toLongLong (mvalue (toMap (mvalue data ''message'')) ''id'')), QMap (cleanedMap env (toMap (mvalue data ''message'')))]]"

definition processUpdateActiveNotifications :: "vmap \<Rightarrow> receiver_signal list" where
  "processUpdateActiveNotifications data =
     [Signal ''activeNotificationsUpdated'' [QList (toList (mvalue data ''groups''))]]"

definition processUpdateNotificationGroup :: "vmap \<Rightarrow> receiver_signal list" where
  "processUpdateNotificationGroup data =
     [Signal ''notificationGroupUpdated'' [QMap data]]"

definition processUpdateNotification :: "vmap \<Rightarrow> receiver_signal list" where
  "processUpdateNotification data =
     [Signal ''notificationUpdated''
       [QInt (toInt (mvalue data ''notification_group_id'')), QMap (toMap (mvalue data ''notification''))]]"

definition processUpdateChatNotificationSettings :: "vmap \<Rightarrow> receiver_signal list" where
  "processUpdateChatNotificationSettings data =
     [ToStore (EChatNotificationSettings (toLongLong (mvalue data ''chat_id''))
       (toMap (mvalue data ''notification_settings'')))]"

definition processUpdateMessageContent :: "receiver_env \<Rightarrow> vmap \<Rightarrow> receiver_signal list" where
  "processUpdateMessageContent env data =
     [Signal ''messageContentUpdated''
       [QInt (toLongLong (mvalue data ''chat_id'')), QInt (toLongLong (mvalue data ''message_id'')),
        QMap (cleanedMap env (toMap (mvalue data ''new_content'')))]]"

definition processUpdateDeleteMessages :: "vmap \<Rightarrow> receiver_signal list" where
  "processUpdateDeleteMessages data =
     [Signal ''messagesDeleted''
       [QInt (toLongLong (mvalue data ''chat_id'')),
        QList (map (\<lambda>v. QInt (toLongLong v)) (toList (mvalue data ''message_ids'')))]]"

definition processChats :: "vmap \<Rightarrow> receiver_signal list" where
  "processChats data =
     [Signal ''chats''
       [QString (toString (mvalue data ''@extra'')), QList (toList (mvalue data ''chat_ids'')),
        QInt (toInt (mvalue data ''total_count''))]]"

definition processChat :: "vmap \<Rightarrow> receiver_signal list" where
  "processChat data =
     [Signal ''chat'' [QMap data, mvalue data ''@extra'']]"

definition processUpdateRecentStickers :: "vmap \<Rightarrow> receiver_signal list" where
  "processUpdateRecentStickers data =
     [Signal ''recentStickersUpdated''
       [QBool (toBool (mvalue data ''is_attached'')), ints (ints_of (toList (mvalue data ''sticker_ids'')))]]"

definition processUpdateFavoriteStickers :: "vmap \<Rightarrow> receiver_signal list" where
  "processUpdateFavoriteStickers data =
     [Signal ''favoriteStickersUpdated'' [ints (ints_of (toList (mvalue data ''sticker_ids'')))]]"

definition processStickers :: "receiver_env \<Rightarrow> vmap \<Rightarrow> receiver_signal list" where
  "processStickers env data =
     [Signal ''stickers''
       [QList (cleanedList env (toList (mvalue data ''stickers''))), mvalue data ''@extra'']]"

definition processSticker :: "receiver_env \<Rightarrow> vmap \<Rightarrow> receiver_signal list" where
  "processSticker env data =
     (let stickerData = cleanedMap env data
      in [Signal ''sticker'' [QMap (fmdrop ''@extra'' stickerData), mvalue stickerData ''@extra'']])"

definition processUpdateInstalledStickerSets :: "vmap \<Rightarrow> receiver_signal list" where
  "processUpdateInstalledStickerSets data =
     [Signal ''installedStickerSetsUpdated''
       [QString (toString (mvalue (toMap (mvalue data ''sticker_type'')) ''@type'')), QList (toList (mvalue data ''sticker_set_ids''))]]"

definition processStickerSets :: "receiver_env \<Rightarrow> vmap \<Rightarrow> receiver_signal list" where
  "processStickerSets env data =
     [Signal ''stickerSets''
       [QList (cleanedList env (toList (mvalue data ''sets''))), QInt (toInt (mvalue data ''total_count'')),
        QString (toString (mvalue data ''@extra''))]]"

definition processStickerSet :: "receiver_env \<Rightarrow> vmap \<Rightarrow> receiver_signal list" where
  "processStickerSet env data =
     [Signal ''stickerSet'' [QString (toString (mvalue data ''id'')), QMap (cleanedMap env data)]]"

definition processChatMembers :: "vmap \<Rightarrow> receiver_signal list" where
  "processChatMembers data =
     [Signal ''chatMembers''
       [QInt (toLongLong (mvalue data ''@extra'')), QList (toList (mvalue data ''members'')),
        QInt (toInt (mvalue data ''total_count''))]]"

definition processUserFullInfo :: "vmap \<Rightarrow> receiver_signal list" where
  "processUserFullInfo data =
     [Signal ''userFullInfo'' [QInt (toLongLong (mvalue data ''@extra'')), QMap data]]"

definition processUpdateUserFullInfo :: "vmap \<Rightarrow> receiver_signal list" where
  "processUpdateUserFullInfo data =
     [Signal ''userFullInfoUpdated''
       [QInt (toLongLong (mvalue data ''user_id'')), QMap (toMap (mvalue data ''user_full_info''))]]"

definition processBasicGroupFullInfo :: "vmap \<Rightarrow> receiver_signal list" where
  "processBasicGroupFullInfo data =
     [Signal ''basicGroupFullInfo'' [QInt (toLongLong (mvalue data ''@extra'')), QMap data]]"

definition processUpdateBasicGroupFullInfo :: "vmap \<Rightarrow> receiver_signal list" where
  "processUpdateBasicGroupFullInfo data =
     [Signal ''basicGroupFullInfoUpdated''
       [QInt (toLongLong (mvalue data ''basic_group_id'')), QMap (toMap (mvalue data ''basic_group_full_info''))]]"

definition processSupergroupFullInfo :: "vmap \<Rightarrow> receiver_signal list" where
  "processSupergroupFullInfo data =
     [Signal ''supergroupFullInfo'' [QInt (toLongLong (mvalue data ''@extra'')), QMap data]]"

definition processUpdateSupergroupFullInfo :: "vmap \<Rightarrow> receiver_signal list" where
  "processUpdateSupergroupFullInfo data =
     [Signal ''supergroupFullInfoUpdated''
       [QInt (toLongLong (mvalue data ''supergroup_id'')), QMap (toMap (mvalue data ''supergroup_full_info''))]]"

definition processChatPhotos :: "vmap \<Rightarrow> receiver_signal list" where
  "processChatPhotos data =
     [Signal ''chatPhotos''
       [QInt (toLongLong (mvalue data ''@extra'')), QList (toList (mvalue data ''photos'')),
        QInt (toInt (mvalue data ''total_count''))]]"

definition processUpdateChatPermissions :: "vmap \<Rightarrow> receiver_signal list" where
  "processUpdateChatPermissions data =
     [ToStore (EChatPermissions (toLongLong (mvalue data ''chat_id'')) (toMap (mvalue data ''permissions'')))]"

definition processUpdateChatPhoto :: "vmap \<Rightarrow> receiver_signal list" where
  "processUpdateChatPhoto data =
     [ToStore (EChatPhoto (toLongLong (mvalue data ''chat_id'')) (toMap (mvalue data ''photo'')))]"

definition processUpdateChatTitle :: "vmap \<Rightarrow> receiver_signal list" where
  "processUpdateChatTitle data =
     [ToStore (EChatTitle (toLongLong (mvalue data ''chat_id'')) (toString (mvalue data ''title'')))]"

definition processUpdateMessageIsPinned :: "vmap \<Rightarrow> receiver_signal list" where
  "processUpdateMessageIsPinned data =
     [Signal ''messageIsPinnedUpdated''
       [QInt (toLongLong (mvalue data ''chat_id'')), QInt (toLongLong (mvalue data ''message_id'')),
        QBool (toBool (mvalue data ''is_pinned''))]]"

definition processUsers :: "vmap \<Rightarrow> receiver_signal list" where
  "processUsers data =
     [Signal ''usersReceived''
       [QString (toString (mvalue data ''@extra'')), QList (toList (mvalue data ''user_ids'')),
        QInt (toInt (mvalue data ''total_count''))]]"

definition processMessageSenders :: "vmap \<Rightarrow> receiver_signal list" where
  "processMessageSenders data =
     [Signal ''messageSendersReceived''
       [QString (toString (mvalue data ''@extra'')), QList (toList (mvalue data ''senders'')),
        QInt (toInt (mvalue data ''total_count''))]]"

definition processError :: "vmap \<Rightarrow> receiver_signal list" where
  "processError data =
     [Signal ''errorReceived''
       [QInt (toInt (mvalue data ''code'')), QString (toString (mvalue data ''message'')),
        mvalue data ''@extra'']]"

definition ok :: "vmap \<Rightarrow> receiver_signal list" where
  "ok data =
     (if mcontains data ''@extra'' then [Signal ''okReceived'' [mvalue data ''@extra'']] else [])"

definition processUpdateServiceNotification :: "vmap \<Rightarrow> receiver_signal list" where
  "processUpdateServiceNotification data =
     [Signal ''serviceNotificationReceived''
       [QString (toString (mvalue data ''type'')), QMap (toMap (mvalue data ''content''))]]"

definition processUpdateSecretChat :: "vmap \<Rightarrow> receiver_signal list" where
  "processUpdateSecretChat data =
     [ToStore (ESecretChat (toLongLong (mvalue (toMap (mvalue data ''secret_chat'')) ''id''))
       (toMap (mvalue data ''secret_chat'')))]"

definition processImportedContacts :: "vmap \<Rightarrow> receiver_signal list" where
  "processImportedContacts data =
     [Signal ''contactsImported''
       [QList (toList (mvalue data ''importer_count'')), QList (toList (mvalue data ''user_ids'')),
        QString (toString (mvalue data ''@extra''))]]"

definition processUpdateMessageEdited :: "vmap \<Rightarrow> receiver_signal list" where
  "processUpdateMessageEdited data =
     [Signal ''messageEditedUpdated''
       [QInt (toLongLong (mvalue data ''chat_id'')), QInt (toLongLong (mvalue data ''message_id'')),
        QInt (toInt (mvalue data ''edit_date'')), QMap (toMap (mvalue data ''reply_markup''))]]"

definition processUpdateChatIsMarkedAsUnread :: "vmap \<Rightarrow> receiver_signal list" where
  "processUpdateChatIsMarkedAsUnread data =
     [ToStore (EChatIsMarkedAsUnread (toLongLong (mvalue data ''chat_id''))
       (toBool (mvalue data ''is_marked_as_unread'')))]"

definition processUpdateChatDraftMessage :: "receiver_env \<Rightarrow> vmap \<Rightarrow> receiver_signal list" where
  "processUpdateChatDraftMessage env data =
     [ToStore (EChatDraftMessage (toLongLong (mvalue data ''chat_id'')) (cleanedMap env (toMap (mvalue data ''draft_message'')))
       (toList (mvalue data ''positions'')))]"

definition processInlineQueryResults :: "vmap \<Rightarrow> receiver_signal list" where
  "processInlineQueryResults data =
     [Signal ''inlineQueryResults''
       [QString (toString (mvalue data ''inline_query_id'')), QString (toString (mvalue data ''next_offset'')),
        QList (toList (mvalue data ''results'')), QMap (toMap (mvalue data ''button'')),
        QString (toString (mvalue data ''@extra''))]]"

definition processCallbackQueryAnswer :: "vmap \<Rightarrow> receiver_signal list" where
  "processCallbackQueryAnswer data =
     [Signal ''callbackQueryAnswer''
       [QString (toString (mvalue data ''text'')), QBool (toBool (mvalue data ''alert'')),
        QString (toString (mvalue data ''url''))]]"

definition processUserPrivacySettingRules :: "vmap \<Rightarrow> receiver_signal list" where
  "processUserPrivacySettingRules data =
     [ToStore (EPrivacyRules data)]"

definition processUpdateUserPrivacySettingRules :: "vmap \<Rightarrow> receiver_signal list" where
  "processUpdateUserPrivacySettingRules data =
     [ToStore (EPrivacyRulesUpdated data)]"

definition processUpdateMessageInteractionInfo :: "vmap \<Rightarrow> receiver_signal list" where
  "processUpdateMessageInteractionInfo data =
     [Signal ''messageInteractionInfoUpdated''
       [QInt (toLongLong (mvalue data ''chat_id'')), QInt (toLongLong (mvalue data ''message_id'')),
        QMap (toMap (mvalue data ''interaction_info''))]]"

definition processSessions :: "vmap \<Rightarrow> receiver_signal list" where
  "processSessions data =
     [Signal ''sessionsReceived''
       [QInt (toInt (mvalue data ''inactive_session_ttl_days'')), QList (toList (mvalue data ''sessions''))]]"

definition processAvailableReactions :: "vmap \<Rightarrow> receiver_signal list" where
  "processAvailableReactions data =
     (let extra = qsplit CHR '':'' (toString (mvalue data ''@extra''))
      in [Signal ''availableReactionsReceived''
            [long_of (part extra 0), long_of (part extra 1), QMap (fmdrop ''unavailability_reason'' (fmdrop ''@extra'' data)),
             QMap (toMap (mvalue data ''unavailability_reason''))]])"

definition processUpdateChatUnreadMentionCount :: "vmap \<Rightarrow> receiver_signal list" where
  "processUpdateChatUnreadMentionCount data =
     [ToStore (EChatUnreadMentionCount (toLongLong (mvalue data ''chat_id''))
       (toInt (mvalue data ''unread_mention_count'')))]"

definition processUpdateMessageMentionRead :: "vmap \<Rightarrow> receiver_signal list" where
  "processUpdateMessageMentionRead data =
     [Signal ''messageMentionRead'' [QInt (toLongLong (mvalue data ''chat_id'')), QInt (toLongLong (mvalue data ''message_id''))],
      ToStore (EChatUnreadMentionCount (toLongLong (mvalue data ''chat_id'')) (toInt (mvalue data ''unread_mention_count'')))]"

definition processUpdateChatUnreadReactionCount :: "vmap \<Rightarrow> receiver_signal list" where
  "processUpdateChatUnreadReactionCount data =
     [ToStore (EChatUnreadReactionCount (toLongLong (mvalue data ''chat_id''))
       (toInt (mvalue data ''unread_reaction_count'')))]"

definition processUpdateActiveEmojiReactions :: "vmap \<Rightarrow> receiver_signal list" where
  "processUpdateActiveEmojiReactions data =
     [ToStore (EActiveEmojiReactions (toStringList (mvalue data ''emojis'')))]"

definition processMessageProperties :: "vmap \<Rightarrow> receiver_signal list" where
  "processMessageProperties data =
     [Signal ''messagePropertiesReceived''
       [QInt (toLongLong (mvalue (toMap (mvalue data ''@extra'')) ''chat_id'')), QInt (toLongLong (mvalue (toMap (mvalue data ''@extra'')) ''message_id'')),
        QMap data]]"

definition processStorageStatisticsFast :: "vmap \<Rightarrow> receiver_signal list" where
  "processStorageStatisticsFast data =
     [Signal ''storageStatisticsFastReceived'' [QMap data]]"

definition processStorageStatistics :: "vmap \<Rightarrow> receiver_signal list" where
  "processStorageStatistics data =
     [Signal ''storageStatisticsReceived'' [QMap data]]"

definition processFormattedText :: "vmap \<Rightarrow> receiver_signal list" where
  "processFormattedText data =
     [Signal ''formattedTextReceived'' [QMap (fmdrop ''@extra'' data), QString (toString (mvalue data ''@extra''))]]"

definition processUpdateChatAction :: "vmap \<Rightarrow> receiver_signal list" where
  "processUpdateChatAction data =
     [ToStore (EChatAction (toLongLong (mvalue data ''chat_id'')) (toMap (mvalue data ''topic_id''))
       (toMap (mvalue data ''sender_id''))
       (toMap (mvalue data ''action'')))]"

definition processEmojiKeywords :: "vmap \<Rightarrow> receiver_signal list" where
  "processEmojiKeywords data =
     [Signal ''emojiKeywordsReceived''
       [QString (toString (mvalue data ''@extra'')),
        QList (map QString (filter (\<lambda>e. e \<noteq> [])
          (map (\<lambda>v. toString (mvalue (toMap v) ''emoji'')) (toList (mvalue data ''emoji_keywords'')))))]]"

definition processUpdateDiceEmojis :: "vmap \<Rightarrow> receiver_signal list" where
  "processUpdateDiceEmojis data =
     [ToStore (EDiceEmojis (toStringList (mvalue data ''emojis'')))]"

definition processUpdateSuggestedActions :: "vmap \<Rightarrow> receiver_signal list" where
  "processUpdateSuggestedActions data =
     [Signal ''suggestedActionsUpdated''
       [QList (toList (mvalue data ''added_actions'')), QList (toList (mvalue data ''removed_actions''))]]"

definition processCount :: "vmap \<Rightarrow> receiver_signal list" where
  "processCount data =
     [Signal ''countReceived''
       [QInt (toInt (mvalue data ''count'')), QString (toString (mvalue data ''@extra''))]]"

definition processChatLists :: "vmap \<Rightarrow> receiver_signal list" where
  "processChatLists data =
     [Signal ''chatListsReceived''
       [QInt (toLongLong (mvalue data ''@extra'')), QList (toList (mvalue data ''chat_lists''))]]"

definition processArchiveChatListSettings :: "vmap \<Rightarrow> receiver_signal list" where
  "processArchiveChatListSettings data =
     [Signal ''archiveChatListSettingsReceived''
       [QBool (toBool (mvalue data ''archive_and_mute_new_chats_from_unknown_users'')), QBool (toBool (mvalue data ''keep_unmuted_chats_archived'')),
        QBool (toBool (mvalue data ''keep_chats_from_folders_archived''))]]"

definition processUpdateChatFolders :: "vmap \<Rightarrow> receiver_signal list" where
  "processUpdateChatFolders data =
     [Signal ''chatFoldersUpdated''
       [QList (toList (mvalue data ''chat_folders'')), QInt (toInt (mvalue data ''main_chat_list_position'')),
        QBool (toBool (mvalue data ''are_tags_enabled''))]]"

definition processForumTopics :: "vmap \<Rightarrow> receiver_signal list" where
  "processForumTopics data =
     [Signal ''forumTopicsReceived''
       [QInt (toLongLong (mvalue data ''@extra'')), QInt (toInt (mvalue data ''total_count'')),
        QList (toList (mvalue data ''topics'')), QInt (toInt (mvalue data ''next_offset_date'')),
        QInt (toLongLong (mvalue data ''next_offset_message_id'')), QInt (toInt (mvalue data ''next_offset_forum_topic_id''))]]"

definition processUpdateForumTopic :: "vmap \<Rightarrow> receiver_signal list" where
  "processUpdateForumTopic data =
     [Signal ''forumTopicUpdated''
       [QInt (toLongLong (mvalue data ''chat_id'')), QInt (toInt (mvalue data ''forum_topic_id'')),
        QMap data]]"

definition processUpdateForumTopicInfo :: "vmap \<Rightarrow> receiver_signal list" where
  "processUpdateForumTopicInfo data =
     (let info = toMap (mvalue data ''info'')
      in [Signal ''forumTopicInfoUpdated''
            [QInt (toLongLong (mvalue info ''chat_id'')), QInt (toInt (mvalue info ''forum_topic_id'')), QMap (fmdrop ''chat_id'' info)]])"

definition processUpdateChatPendingJoinRequests :: "vmap \<Rightarrow> receiver_signal list" where
  "processUpdateChatPendingJoinRequests data =
     [ToStore (EChatPendingJoinRequests (toLongLong (mvalue data ''chat_id''))
       (toMap (mvalue data ''pending_join_requests'')))]"

definition processChatJoinRequests :: "vmap \<Rightarrow> receiver_signal list" where
  "processChatJoinRequests data =
     [Signal ''chatJoinRequestsReceived''
       [QInt (toLongLong (mvalue data ''@extra'')), QInt (toInt (mvalue data ''total_count'')),
        QList (toList (mvalue data ''requests''))]]"

definition processDeepLinkInfo :: "vmap \<Rightarrow> receiver_signal list" where
  "processDeepLinkInfo data =
     [Signal ''deepLinkInfoReceived''
       [QMap (toMap (mvalue data ''text'')), QBool (toBool (mvalue data ''need_update_application''))]]"

definition processUser :: "vmap \<Rightarrow> receiver_signal list" where
  "processUser data =
     [Signal ''userReceived'' [QMap data, QBool (toBool (mvalue data ''@extra''))]]"

definition processChatInviteLinkInfo :: "vmap \<Rightarrow> receiver_signal list" where
  "processChatInviteLinkInfo data =
     [Signal ''chatInviteLinkInfoReceived'' [QString (toString (mvalue data ''@extra'')), QMap data]]"

definition processUpdateChatViewAsTopics :: "vmap \<Rightarrow> receiver_signal list" where
  "processUpdateChatViewAsTopics data =
     [ToStore (EChatViewAsTopics (toLongLong (mvalue data ''chat_id''))
       (toBool (mvalue data ''view_as_topics'')))]"

definition processForumTopic :: "vmap \<Rightarrow> receiver_signal list" where
  "processForumTopic data =
     [Signal ''forumTopicReceived''
       [QInt (toLongLong (mvalue (toMap (mvalue data ''info'')) ''chat_id'')), QInt (toInt (mvalue (toMap (mvalue data ''info'')) ''forum_topic_id'')),
        QMap data]]"

definition processUpdateMessageSuggestedPostInfo :: "vmap \<Rightarrow> receiver_signal list" where
  "processUpdateMessageSuggestedPostInfo data =
     [Signal ''messageSuggestedPostInfoUpdated''
       [QInt (toLongLong (mvalue data ''chat_id'')), QInt (toLongLong (mvalue data ''message_id'')),
        QMap (toMap (mvalue data ''suggested_post_info''))]]"

definition processUpdateMessageContentOpened :: "vmap \<Rightarrow> receiver_signal list" where
  "processUpdateMessageContentOpened data =
     [Signal ''messageContentOpened''
       [QInt (toLongLong (mvalue data ''chat_id'')), QInt (toLongLong (mvalue data ''message_id''))]]"

definition processUpdateMessageFactCheck :: "vmap \<Rightarrow> receiver_signal list" where
  "processUpdateMessageFactCheck data =
     [Signal ''messageFactCheckUpdated''
       [QInt (toLongLong (mvalue data ''chat_id'')), QInt (toLongLong (mvalue data ''message_id'')),
        QMap (toMap (mvalue data ''fact_check''))]]"

definition processUpdateStickerSet :: "receiver_env \<Rightarrow> vmap \<Rightarrow> receiver_signal list" where
  "processUpdateStickerSet env data =
     [Signal ''stickerSetUpdated''
       [QString (toString (mvalue (toMap (mvalue data ''sticker_set'')) ''id'')), QMap (cleanedMap env (toMap (mvalue data ''sticker_set'')))]]"

definition processPollVoters :: "vmap \<Rightarrow> receiver_signal list" where
  "processPollVoters data =
     [Signal ''pollVotersReceived''
       [QString (toString (mvalue data ''@extra'')), QList (toList (mvalue data ''voters'')),
        QInt (toInt (mvalue data ''total_count''))]]"

definition processSeconds :: "receiver_env \<Rightarrow> vmap \<Rightarrow> receiver_signal list" where
  "processSeconds env data =
     (let seconds = ofDouble env (toDouble env (mvalue data ''seconds''));
          extra = toMap (mvalue data ''@extra'')
      in (if toString (mvalue data ''@extra'') = ''ping'' then [Signal ''pingReceived'' [seconds]] else []) @
         (if mvalue extra ''@type'' = QString ''proxy''
          then [Signal ''proxyPingReceived''
                  [QString (toString (mvalue extra ''server'')), QInt (toInt (mvalue extra ''port'')),
                   QMap (toMap (mvalue extra ''type'')), seconds]]
          else []))"

definition processAddedProxies :: "vmap \<Rightarrow> receiver_signal list" where
  "processAddedProxies data =
     [Signal ''addedProxiesReceived'' [QList (toList (mvalue data ''proxies''))]]"

definition processAddedProxy :: "vmap \<Rightarrow> receiver_signal list" where
  "processAddedProxy data =
     [Signal ''addedProxyReceived'' [QMap (fmdrop ''@extra'' data), QString (toString (mvalue data ''@extra''))]]"

definition processUpdateScopeNotificationSettings :: "vmap \<Rightarrow> receiver_signal list" where
  "processUpdateScopeNotificationSettings data =
     [ToStore (EScopeNotificationSettings (toString (mvalue (toMap (mvalue data ''scope'')) ''@type''))
       (toMap (mvalue data ''notification_settings'')))]"

definition processScopeNotificationSettings :: "vmap \<Rightarrow> receiver_signal list" where
  "processScopeNotificationSettings data =
     [ToStore (EScopeNotificationSettings (toString (mvalue data ''@extra'')) (fmdrop ''@extra'' data))]"

definition processNotificationSound :: "vmap \<Rightarrow> receiver_signal list" where
  "processNotificationSound data =
     [Signal ''notificationSoundReceived''
       [QString (toString (mvalue data ''id'')), QMap data,
        QString (toString (mvalue data ''@extra''))]]"

definition processNotificationSounds :: "vmap \<Rightarrow> receiver_signal list" where
  "processNotificationSounds data =
     [Signal ''notificationSoundsReceived'' [QList (toList (mvalue data ''notification_sounds''))]]"

definition processUpdateSavedNotificationSounds :: "vmap \<Rightarrow> receiver_signal list" where
  "processUpdateSavedNotificationSounds data =
     [Signal ''savedNotificationSoundsUpdated''
       [strings (toStringList (mvalue data ''notification_sound_ids''))]]"

definition processUpdateDefaultReactionType :: "vmap \<Rightarrow> receiver_signal list" where
  "processUpdateDefaultReactionType data =
     [ToStore (EDefaultReactionType (toMap (mvalue data ''reaction_type'')))]"

definition processText :: "vmap \<Rightarrow> receiver_signal list" where
  "processText data =
     [Signal ''textReceived''
       [QString (toString (mvalue data ''text'')), QString (toString (mvalue data ''@extra''))]]"

definition processCallId :: "vmap \<Rightarrow> receiver_signal list" where
  "processCallId data =
     [Signal ''callIdReceived'' [QInt (toInt (mvalue data ''id''))]]"

definition processUpdateCall :: "vmap \<Rightarrow> receiver_signal list" where
  "processUpdateCall data =
     [Signal ''callUpdated''
       [QInt (toInt (mvalue (toMap (mvalue data ''call'')) ''id'')), QInt (toLongLong (mvalue (toMap (mvalue data ''call'')) ''unique_id'')),
        QInt (toLongLong (mvalue (toMap (mvalue data ''call'')) ''user_id'')), QBool (toBool (mvalue (toMap (mvalue data ''call'')) ''is_outgoing'')),
        QBool (toBool (mvalue (toMap (mvalue data ''call'')) ''is_video'')), QMap (toMap (mvalue (toMap (mvalue data ''call'')) ''state''))]]"

definition processUpdateNewCallSignalingData :: "vmap \<Rightarrow> receiver_signal list" where
  "processUpdateNewCallSignalingData data =
     [Signal ''newCallSignalingDataReceived''
       [QInt (toInt (mvalue data ''call_id'')), QList (map (\<lambda>b. QInt (int b)) (fromBase64 (toString (mvalue data ''data''))))]]"

definition processUpdateChatJoinResult :: "vmap \<Rightarrow> receiver_signal list" where
  "processUpdateChatJoinResult data =
     [Signal ''chatJoinRequestResultReceived''
       [QString (toString (mvalue data ''query_id'')), QInt (toLongLong (mvalue data ''chat_id'')),
        QString (toString (mvalue (toMap (mvalue data ''result'')) ''@type''))]]"

definition processHttpUrl :: "vmap \<Rightarrow> receiver_signal list" where
  "processHttpUrl data =
     [Signal ''httpUrlReceived''
       [QString (toString (mvalue data ''url'')), QString (toString (mvalue data ''@extra''))]]"

definition processUpdateMessageUnreadReactions :: "vmap \<Rightarrow> receiver_signal list" where
  "processUpdateMessageUnreadReactions data =
     [Signal ''messageUnreadReactionsUpdated''
       [QInt (toLongLong (mvalue data ''chat_id'')), QInt (toLongLong (mvalue data ''message_id'')),
        QList (toList (mvalue data ''unread_reactions''))],
      ToStore (EChatUnreadReactionCount (toLongLong (mvalue data ''chat_id'')) (toInt (mvalue data ''unread_reaction_count'')))]"

definition processUpdateChatUnreadPollVoteCount :: "vmap \<Rightarrow> receiver_signal list" where
  "processUpdateChatUnreadPollVoteCount data =
     [ToStore (EChatUnreadPollVoteCount (toLongLong (mvalue data ''chat_id''))
       (toInt (mvalue data ''unread_poll_vote_count'')))]"

definition processUpdateMessageContainsUnreadPollVotes :: "vmap \<Rightarrow> receiver_signal list" where
  "processUpdateMessageContainsUnreadPollVotes data =
     [Signal ''messageContainsUnreadPollVotesUpdated''
       [QInt (toLongLong (mvalue data ''chat_id'')), QInt (toLongLong (mvalue data ''message_id'')),
        QBool (toBool (mvalue data ''contains_unread_poll_votes''))],
      ToStore (EChatUnreadPollVoteCount (toLongLong (mvalue data ''chat_id'')) (toInt (mvalue data ''unread_poll_vote_count'')))]"

definition processUpdateAccentColors :: "vmap \<Rightarrow> receiver_signal list" where
  "processUpdateAccentColors data =
     [ToStore (EAccentColors (toList (mvalue data ''colors'')) (map toInt (toList (mvalue data ''available_accent_color_ids''))))]"

definition processUpdateChatAccentColors :: "vmap \<Rightarrow> receiver_signal list" where
  "processUpdateChatAccentColors data =
     [ToStore (EChatAccentColors (toLongLong (mvalue data ''chat_id'')) (toInt (mvalue data ''accent_color_id''))
       (toString (mvalue data ''background_custom_emoji_id''))
       (toMap (mvalue data ''upgraded_gift_colors''))
       (toInt (mvalue data ''profile_accent_color_id''))
       (toString (mvalue data ''profile_accent_color_id'')))]"

definition processSponsoredChats :: "receiver_env \<Rightarrow> vmap \<Rightarrow> receiver_signal list" where
  "processSponsoredChats env data =
     [Signal ''sponsoredChatsReceived'' [QList (cleanedList env (toList (mvalue data ''chats'')))]]"

definition processUpdateMessageEphemeralContent :: "vmap \<Rightarrow> receiver_signal list" where
  "processUpdateMessageEphemeralContent data =
     [Signal ''messageEphemeralContentUpdated''
       [QInt (toLongLong (mvalue data ''chat_id'')), QInt (toLongLong (mvalue data ''message_id'')),
        QMap (toMap (mvalue data ''ephemeral_content''))]]"

definition processUpdateCommunity :: "vmap \<Rightarrow> receiver_signal list" where
  "processUpdateCommunity data =
     [ToStore (ECommunity (toLongLong (mvalue (toMap (mvalue data ''community'')) ''id''))
       (toMap (mvalue data ''community'')))]"

definition processCommunityFullInfo :: "vmap \<Rightarrow> receiver_signal list" where
  "processCommunityFullInfo data =
     [Signal ''communityFullInfoReceived'' [QInt (toLongLong (mvalue data ''@extra'')), QMap data]]"

definition processUpdateCommunityFullInfo :: "vmap \<Rightarrow> receiver_signal list" where
  "processUpdateCommunityFullInfo data =
     [Signal ''communityFullInfoUpdated''
       [QInt (toLongLong (mvalue data ''community_id'')), QMap (toMap (mvalue data ''community_full_info''))]]"

definition processCommunityId :: "vmap \<Rightarrow> receiver_signal list" where
  "processCommunityId data =
     [Signal ''communityIdReceived'' [QInt (toLongLong (mvalue data ''id''))]]"

definition processUpdateOwnedStarCount :: "vmap \<Rightarrow> receiver_signal list" where
  "processUpdateOwnedStarCount data =
     [ToStore (EOwnedStarCount (toLongLong (mvalue (toMap (mvalue data ''star_amount'')) ''star_count''))
       (toInt (mvalue (toMap (mvalue data ''star_amount'')) ''nanostar_count'')))]"

definition processUpdateOwnedGramCount :: "vmap \<Rightarrow> receiver_signal list" where
  "processUpdateOwnedGramCount data =
     [ToStore (EOwnedGramCount (toLongLong (mvalue data ''gram_amount'')))]"

definition processUpdateStakeDiceState :: "vmap \<Rightarrow> receiver_signal list" where
  "processUpdateStakeDiceState data =
     [ToStore (EStakeDiceState (toMap (mvalue data ''state'')))]"

definition processStakeDiceState :: "vmap \<Rightarrow> receiver_signal list" where
  "processStakeDiceState data =
     [ToStore (EStakeDiceState data)]"

definition processUserLink :: "vmap \<Rightarrow> receiver_signal list" where
  "processUserLink data =
     [Signal ''userLinkReceived''
       [QString (toString (mvalue data ''url'')), QInt (toInt (mvalue data ''expires_in''))]]"

definition processUpdateWebProxyCarrierOpened :: "vmap \<Rightarrow> receiver_signal list" where
  "processUpdateWebProxyCarrierOpened data =
     (let carrier = toMap (mvalue data ''carrier'')
      in [Signal ''webProxyCarrierOpened'' [QInt (toInt (mvalue carrier ''id'')), QMap (fmdrop ''id'' (fmdrop ''@type'' carrier))]])"

definition processUpdateWebProxyCarrierData :: "vmap \<Rightarrow> receiver_signal list" where
  "processUpdateWebProxyCarrierData data =
     [Signal ''webProxyCarrierDataReceived''
       [QInt (toInt (mvalue data ''carrier_id'')), QString (toString (mvalue data ''data''))]]"

definition processUpdateWebProxyCarrierClosed :: "vmap \<Rightarrow> receiver_signal list" where
  "processUpdateWebProxyCarrierClosed data =
     [Signal ''webProxyCarrierClosed'' [QInt (toInt (mvalue data ''carrier_id''))]]"

definition processUpdateAnimatedEmojiMessageClicked :: "receiver_env \<Rightarrow> vmap \<Rightarrow> receiver_signal list" where
  "processUpdateAnimatedEmojiMessageClicked env data =
     [Signal ''animatedEmojiMessageClicked''
       [QInt (toLongLong (mvalue data ''chat_id'')), QInt (toLongLong (mvalue data ''message_id'')),
        QMap (cleanedMap env (toMap (mvalue data ''sticker'')))]]"

definition processLoginUrlInfoOpen :: "vmap \<Rightarrow> receiver_signal list" where
  "processLoginUrlInfoOpen data =
     [Signal ''loginUrlInfoOpenReceived''
       [QString (toString (mvalue data ''url'')), QBool (toBool (mvalue data ''skip_confirmation'')),
        mvalue data ''@extra'']]"

definition processLoginUrlInfoRequestConfirmation :: "vmap \<Rightarrow> receiver_signal list" where
  "processLoginUrlInfoRequestConfirmation data =
     [Signal ''loginUrlConfirmationRequested''
       [QString (toString (mvalue data ''url'')), QString (toString (mvalue data ''domain'')),
        QInt (toLongLong (mvalue data ''bot_user_id'')), QBool (toBool (mvalue data ''request_write_access'')),
        mvalue data ''@extra'']]"

definition processInternalLinkType :: "vmap \<Rightarrow> receiver_signal list" where
  "processInternalLinkType data =
     [Signal ''internalLinkTypeReceived'' [QMap data, QString (toString (mvalue data ''@extra''))]]"

definition processMessageReadDate :: "vmap \<Rightarrow> receiver_signal list" where
  "processMessageReadDate data =
     (let extra = toMap (mvalue data ''@extra''); type = toString (mvalue data ''@type'')
      in [Signal ''messageReadDateReceived''
            [QInt (toLongLong (mvalue extra ''chat_id'')), QInt (toLongLong (mvalue extra ''message_id'')),
             if type = ''messageReadDateRead'' then mvalue data ''read_date'' else QString type]])"

definition processChatJoinResult :: "vmap \<Rightarrow> receiver_signal list" where
  "processChatJoinResult data =
     (let extra = toMap (mvalue data ''@extra'')
      in [Signal ''chatJoinResultReceived''
            [QString (toString (mvalue data ''@type'')), QMap data, QBool (toBool (mvalue extra ''isChannel'')),
             QBool (toBool (mvalue extra ''invite_link''))]])"

definition processOptionValue :: "vmap \<Rightarrow> receiver_signal list" where
  "processOptionValue data =
     [ToStore (EOption (toString (mvalue data ''@extra'')) (getOptionValue data))]"

definition handlers :: "receiver_env \<Rightarrow> (string \<times> (vmap \<Rightarrow> receiver_signal list)) list" where
  "handlers env =
    [(''updateOption'', processUpdateOption), 
     (''updateAuthorizationState'', processUpdateAuthorizationState), 
     (''updateConnectionState'', processUpdateConnectionState), (''updateUser'', processUpdateUser), 
     (''updateUserStatus'', processUpdateUserStatus), (''updateFile'', processUpdateFile), 
     (''file'', processFile), (''updateNewChat'', processUpdateNewChat), 
     (''updateChatAddedToList'', processUpdateChatAddedToList), 
     (''updateChatRemovedFromList'', processUpdateChatRemovedFromList), 
     (''updateUnreadMessageCount'', processUpdateUnreadMessageCount), 
     (''updateUnreadChatCount'', processUpdateUnreadChatCount), 
     (''updateChatLastMessage'', processUpdateChatLastMessage env), 
     (''updateChatPosition'', processUpdateChatPosition), 
     (''updateChatReadInbox'', processUpdateChatReadInbox), 
     (''updateChatReadOutbox'', processUpdateChatReadOutbox), 
     (''updateChatAvailableReactions'', processUpdateChatAvailableReactions), 
     (''updateBasicGroup'', processUpdateBasicGroup), (''updateSupergroup'', processUpdateSuperGroup), 
     (''updateChatOnlineMemberCount'', processChatOnlineMemberCountUpdated), 
     (''messages'', processMessages env), (''foundChatMessages'', processFoundChatMessages env), 
     (''sponsoredMessages'', processSponsoredMessages), 
     (''updateNewMessage'', processUpdateNewMessage env), (''message'', processMessage env), 
     (''messageLinkInfo'', processMessageLinkInfo), 
     (''updateMessageSendSucceeded'', processMessageSendSucceeded env), 
     (''updateActiveNotifications'', processUpdateActiveNotifications), 
     (''updateNotificationGroup'', processUpdateNotificationGroup), 
     (''updateNotification'', processUpdateNotification), 
     (''updateChatNotificationSettings'', processUpdateChatNotificationSettings), 
     (''updateMessageContent'', processUpdateMessageContent env), 
     (''updateDeleteMessages'', processUpdateDeleteMessages), (''chats'', processChats), 
     (''chat'', processChat), (''updateRecentStickers'', processUpdateRecentStickers), 
     (''updateFavoriteStickers'', processUpdateFavoriteStickers), (''stickers'', processStickers env), 
     (''sticker'', processSticker env), 
     (''updateInstalledStickerSets'', processUpdateInstalledStickerSets), 
     (''stickerSets'', processStickerSets env), (''stickerSet'', processStickerSet env), 
     (''chatMembers'', processChatMembers), (''userFullInfo'', processUserFullInfo), 
     (''updateUserFullInfo'', processUpdateUserFullInfo), 
     (''basicGroupFullInfo'', processBasicGroupFullInfo), 
     (''updateBasicGroupFullInfo'', processUpdateBasicGroupFullInfo), 
     (''supergroupFullInfo'', processSupergroupFullInfo), 
     (''updateSupergroupFullInfo'', processUpdateSupergroupFullInfo), (''chatPhotos'', processChatPhotos), 
     (''updateChatPermissions'', processUpdateChatPermissions), 
     (''updateChatPhoto'', processUpdateChatPhoto), (''updateChatTitle'', processUpdateChatTitle), 
     (''updateMessageIsPinned'', processUpdateMessageIsPinned), (''users'', processUsers), 
     (''messageSenders'', processMessageSenders), (''error'', processError), (''ok'', ok), 
     (''updateServiceNotification'', processUpdateServiceNotification), 
     (''updateSecretChat'', processUpdateSecretChat), (''importedContacts'', processImportedContacts), 
     (''updateMessageEdited'', processUpdateMessageEdited), 
     (''updateChatIsMarkedAsUnread'', processUpdateChatIsMarkedAsUnread), 
     (''updateChatDraftMessage'', processUpdateChatDraftMessage env), 
     (''inlineQueryResults'', processInlineQueryResults), 
     (''callbackQueryAnswer'', processCallbackQueryAnswer), 
     (''userPrivacySettingRules'', processUserPrivacySettingRules), 
     (''updateUserPrivacySettingRules'', processUpdateUserPrivacySettingRules), 
     (''updateMessageInteractionInfo'', processUpdateMessageInteractionInfo), 
     (''sessions'', processSessions), (''availableReactions'', processAvailableReactions), 
     (''updateChatUnreadMentionCount'', processUpdateChatUnreadMentionCount), 
     (''updateMessageMentionRead'', processUpdateMessageMentionRead), 
     (''updateChatUnreadReactionCount'', processUpdateChatUnreadReactionCount), 
     (''updateActiveEmojiReactions'', processUpdateActiveEmojiReactions), 
     (''messageProperties'', processMessageProperties), 
     (''storageStatisticsFast'', processStorageStatisticsFast), 
     (''storageStatistics'', processStorageStatistics), (''formattedText'', processFormattedText), 
     (''updateChatAction'', processUpdateChatAction), (''emojiKeywords'', processEmojiKeywords), 
     (''updateDiceEmojis'', processUpdateDiceEmojis), 
     (''updateSuggestedActions'', processUpdateSuggestedActions), (''count'', processCount), 
     (''chatLists'', processChatLists), (''archiveChatListSettings'', processArchiveChatListSettings), 
     (''updateChatFolders'', processUpdateChatFolders), (''forumTopics'', processForumTopics), 
     (''updateForumTopic'', processUpdateForumTopic), 
     (''updateForumTopicInfo'', processUpdateForumTopicInfo), 
     (''updateChatPendingJoinRequests'', processUpdateChatPendingJoinRequests), 
     (''chatJoinRequests'', processChatJoinRequests), (''deepLinkInfo'', processDeepLinkInfo), 
     (''user'', processUser), (''chatInviteLinkInfo'', processChatInviteLinkInfo), 
     (''updateChatViewAsTopics'', processUpdateChatViewAsTopics), (''forumTopic'', processForumTopic), 
     (''updateMessageSuggestedPostInfo'', processUpdateMessageSuggestedPostInfo), 
     (''updateMessageContentOpened'', processUpdateMessageContentOpened), 
     (''updateMessageFactCheck'', processUpdateMessageFactCheck), 
     (''updateStickerSet'', processUpdateStickerSet env), (''pollVoters'', processPollVoters), 
     (''seconds'', processSeconds env), (''addedProxies'', processAddedProxies), 
     (''addedProxy'', processAddedProxy), 
     (''updateScopeNotificationSettings'', processUpdateScopeNotificationSettings), 
     (''scopeNotificationSettings'', processScopeNotificationSettings), 
     (''notificationSound'', processNotificationSound), 
     (''notificationSounds'', processNotificationSounds), 
     (''updateSavedNotificationSounds'', processUpdateSavedNotificationSounds), 
     (''updateDefaultReactionType'', processUpdateDefaultReactionType), (''text'', processText), 
     (''callId'', processCallId), (''updateCall'', processUpdateCall), 
     (''updateNewCallSignalingData'', processUpdateNewCallSignalingData), 
     (''updateChatJoinResult'', processUpdateChatJoinResult), (''httpUrl'', processHttpUrl), 
     (''updateMessageUnreadReactions'', processUpdateMessageUnreadReactions), 
     (''updateChatUnreadPollVoteCount'', processUpdateChatUnreadPollVoteCount), 
     (''updateMessageContainsUnreadPollVotes'', processUpdateMessageContainsUnreadPollVotes), 
     (''updateAccentColors'', processUpdateAccentColors), 
     (''updateChatAccentColors'', processUpdateChatAccentColors), 
     (''sponsoredChats'', processSponsoredChats env), 
     (''updateMessageEphemeralContent'', processUpdateMessageEphemeralContent), 
     (''updateCommunity'', processUpdateCommunity), (''communityFullInfo'', processCommunityFullInfo), 
     (''updateCommunityFullInfo'', processUpdateCommunityFullInfo), (''communityId'', processCommunityId), 
     (''updateOwnedStarCount'', processUpdateOwnedStarCount), 
     (''updateOwnedGramCount'', processUpdateOwnedGramCount), 
     (''updateStakeDiceState'', processUpdateStakeDiceState), (''stakeDiceState'', processStakeDiceState), 
     (''userLink'', processUserLink), 
     (''updateWebProxyCarrierOpened'', processUpdateWebProxyCarrierOpened), 
     (''updateWebProxyCarrierData'', processUpdateWebProxyCarrierData), 
     (''updateWebProxyCarrierClosed'', processUpdateWebProxyCarrierClosed), 
     (''updateAnimatedEmojiMessageClicked'', processUpdateAnimatedEmojiMessageClicked env), 
     (''loginUrlInfoOpen'', processLoginUrlInfoOpen), 
     (''loginUrlInfoRequestConfirmation'', processLoginUrlInfoRequestConfirmation)]"

text \<open>A type no handler is named after goes to the first of these, in the order of the keys, it begins with.\<close>

definition processWebBrowserType :: "vmap \<Rightarrow> receiver_signal list option" where
  "processWebBrowserType data =
     (let parts = qsplit CHR '':'' (toString (mvalue data ''@extra''))
      in do {
        flag \<leftarrow> qat parts 1;
        Some [Signal ''webBrowserTypeReceived''
                [QString (qjoin CHR '':'' (drop 2 parts)),
                 QBool (toString (mvalue data ''@type'') = ''webBrowserTypeInApp''), QBool (flag \<noteq> [])]] })"

definition abstractHandlers :: "(string \<times> (vmap \<Rightarrow> receiver_signal list option)) list" where
  "abstractHandlers =
     [(''chatJoinResult'', Some \<circ> processChatJoinResult), (''internalLinkType'', Some \<circ> processInternalLinkType),
      (''messageReadDate'', Some \<circ> processMessageReadDate), (''optionValue'', Some \<circ> processOptionValue),
      (''webBrowserType'', processWebBrowserType)]"

text \<open>The expression \<open>^R(\d+)$\<close>; the end is also before a last newline.\<close>

definition is_digit :: "char \<Rightarrow> bool" where
  "is_digit c \<longleftrightarrow> digit_of c \<noteq> None"

definition requestId :: "string \<Rightarrow> int option" where
  "requestId s =
     (case s of
        [] \<Rightarrow> None
      | c # cs \<Rightarrow>
          (let digits = takeWhile is_digit cs; rest = dropWhile is_digit cs
           in if c = CHR ''R'' \<and> digits \<noteq> [] \<and> rest \<in> {[], [CHR 0x0A]} then Some (string_toLongLong digits) else None))"

definition processReceivedDocument :: "receiver_env \<Rightarrow> int \<Rightarrow> vmap \<Rightarrow> receiver_signal list option" where
  "processReceivedDocument env clientId data =
     (let type = toString (mvalue data ''@type'')
      in if toInt (mvalue data ''@client_id'') \<noteq> clientId then Some []
         else case requestId (toString (mvalue data ''@extra'')) of
                Some i \<Rightarrow> Some [Signal ''responseForRequestIdReceived'' [QInt i, QMap data]]
              | None \<Rightarrow>
                  (case map_of (handlers env) type of
                     Some handler \<Rightarrow> Some (handler data)
                   | None \<Rightarrow>
                       (case find (\<lambda>(key, _). startsWith type key) abstractHandlers of
                          Some (_, handler) \<Rightarrow> handler data
                        | None \<Rightarrow> Some [])))"

text \<open>
  The thread: a document is \<open>None\<close> when TDLib had none in time. It is switched off, and its client is
  changed, between documents.
\<close>

record receiver_state =
  rc_clientId :: int
  rc_isActive :: bool

definition newReceiver :: "int \<Rightarrow> receiver_state" where
  "newReceiver clientId = \<lparr>rc_clientId = clientId, rc_isActive = True\<rparr>"

definition rc_setActive :: "bool \<Rightarrow> receiver_state \<Rightarrow> receiver_state" where
  "rc_setActive active s = s\<lparr>rc_isActive := active\<rparr>"

definition rc_setClientId :: "int \<Rightarrow> receiver_state \<Rightarrow> receiver_state" where
  "rc_setClientId clientId s = s\<lparr>rc_clientId := clientId\<rparr>"

datatype receiver_event = Waited "vmap option" | SetActive bool | SetClientId int

fun receiverLoop :: "receiver_env \<Rightarrow> receiver_event list \<Rightarrow> receiver_state \<Rightarrow> receiver_signal list option" where
  "receiverLoop env [] s = Some []"
| "receiverLoop env (SetActive active # es) s = receiverLoop env es (rc_setActive active s)"
| "receiverLoop env (SetClientId clientId # es) s = receiverLoop env es (rc_setClientId clientId s)"
| "receiverLoop env (Waited d # es) s =
     (if rc_isActive s
      then do {
        signals \<leftarrow> (case d of None \<Rightarrow> Some [] | Some data \<Rightarrow> processReceivedDocument env (rc_clientId s) data);
        more \<leftarrow> receiverLoop env es s;
        Some (signals @ more) }
      else Some [])"

section \<open>The store behind the receiver\<close>

fun store_event :: "receiver_signal \<Rightarrow> td_event option" where
  "store_event (ToStore e) = Some e"
| "store_event (Signal _ _) = None"

definition store_document :: "(vmap \<Rightarrow> string) \<Rightarrow> receiver_env \<Rightarrow> int \<Rightarrow> vmap \<Rightarrow> td_state \<Rightarrow> td_state option" where
  "store_document text env clientId data s =
     map_option (\<lambda>signals. fold (td_handle text) (List.map_filter store_event signals) s)
       (processReceivedDocument env clientId data)"

fun store_documents :: "(vmap \<Rightarrow> string) \<Rightarrow> receiver_env \<Rightarrow> int \<Rightarrow> vmap list \<Rightarrow> td_state \<Rightarrow> td_state option" where
  "store_documents text env clientId [] s = Some s"
| "store_documents text env clientId (d # ds) s = do {
     s' \<leftarrow> store_document text env clientId d s;
     store_documents text env clientId ds s' }"

end
