(* ===== verification/Requests.thy ===== *)
theory Requests imports Receiver
begin

text \<open>
  The requests of \<open>TDLibWrapper\<close> (\<open>src/tdlib/tdlibwrapper.h\<close>, \<open>tdlibwrapper.cpp\<close>): the functions QML and the other
  components call, each with the \<open>QVariantMap\<close> it sends to TDLib.

  A request goes to \<open>td_send\<close> with the client of the moment; what was sent, and every signal, is kept in order.
  Overloads are numbered. Arguments of type \<open>double\<close> are the variant that holds them; a \<open>QJSValue\<close>
  (\<open>ensureNonJsVariant\<close>) is the variant it stands for. The functions whose requests depend on more than their
  arguments are in the next theory.
\<close>

section \<open>Objects\<close>

text \<open>The initializer list of a \<open>QVariantMap\<close>: of equal keys the last one counts.\<close>

definition obj :: "(string \<times> qvariant) list \<Rightarrow> vmap" where
  "obj kvs = fold (\<lambda>(k, v). minsert k v) kvs fmempty"

lemma mvalue_obj_snoc: "mvalue (obj (kvs @ [(k, v)])) k' = (if k = k' then v else mvalue (obj kvs) k')"
  by (simp add: obj_def)

lemma mvalue_fold:
  "mvalue (fold (\<lambda>(k, v). minsert k v) kvs m) k = (case map_of (rev kvs) k of None \<Rightarrow> mvalue m k | Some v \<Rightarrow> v)"
  by (induction kvs arbitrary: m) (auto simp: map_add_Some_iff split: option.splits)

lemma mvalue_obj: "mvalue (obj kvs) k = (case map_of (rev kvs) k of None \<Rightarrow> QInvalid | Some v \<Rightarrow> v)"
  by (simp add: obj_def mvalue_fold split: option.split)

section \<open>Texts\<close>

text \<open>
  \<open>Utilities::enhanceInputText\<close>: every \<open>@digits(name)\<close> becomes the name, marked as the mention of
  the user. The expression has one way to match at a position, and matches do not overlap.
\<close>

definition formattedTextMap :: "string \<Rightarrow> vmap" where
  "formattedTextMap s = obj [(''@type'', QString ''formattedText''), (''text'', QString s)]"

definition formattedTextEntities :: "string \<Rightarrow> qvariant list \<Rightarrow> vmap" where
  "formattedTextEntities s es =
     (if es \<noteq> [] then minsert ''entities'' (QList es) (formattedTextMap s) else formattedTextMap s)"

definition mention_at :: "string \<Rightarrow> (string \<times> string) option" where
  "mention_at s =
     (case s of
        [] \<Rightarrow> None
      | c # cs \<Rightarrow>
          (let digits = takeWhile is_digit cs; rest = dropWhile is_digit cs; name = takeWhile (\<lambda>x. x \<noteq> CHR '')'') (tl rest)
           in if c = CHR ''@'' \<and> digits \<noteq> [] \<and> rest \<noteq> [] \<and> hd rest = CHR ''('' \<and> name \<noteq> [] \<and>
                 length name < length (tl rest)
              then Some (digits, name) else None))"

definition mention_length :: "string \<times> string \<Rightarrow> nat" where
  "mention_length m = length (fst m) + length (snd m) + 3"

definition mention_type :: "string \<Rightarrow> vmap" where
  "mention_type userId = obj [(''@type'', QString ''textEntityTypeMentionName''), (''user_id'', QString userId)]"

function mentions :: "nat \<Rightarrow> string \<Rightarrow> replacement list" where
  "mentions pos [] = []"
| "mentions pos (c # cs) =
     (case mention_at (c # cs) of
        None \<Rightarrow> mentions (Suc pos) cs
      | Some m \<Rightarrow>
          \<lparr>startIndex = pos, match_length = mention_length m, entity_type = mention_type (fst m), match_text = snd m\<rparr> #
            mentions (pos + mention_length m) (drop (mention_length m) (c # cs)))"
  by pat_completeness auto
termination
  by (relation "measure (\<lambda>(pos, s). length s)") (auto simp: mention_length_def)

definition entity_map :: "int \<times> nat \<times> vmap \<Rightarrow> qvariant" where
  "entity_map e = (case e of (offset, n, type) \<Rightarrow>
     QMap (obj [(''offset'', QInt offset), (''length'', QInt (int n)), (''type'', QMap type)]))"

definition enhanceInputText :: "string \<Rightarrow> vmap" where
  "enhanceInputText originalText =
     (let (es, s) = formattedTextEntitiesFromReplacements (mentions 0 originalText) originalText
      in formattedTextEntities s (map entity_map es))"

definition importedContact :: "string \<Rightarrow> string \<Rightarrow> string \<Rightarrow> vmap \<Rightarrow> bool \<Rightarrow> vmap" where
  "importedContact firstName lastName phoneNumber note forceEmptyNote =
     (let contact = obj [(''first_name'', QString firstName), (''last_name'', QString lastName), (''phone_number'', QString phoneNumber)]
      in if \<not> mempty note \<or> forceEmptyNote then minsert ''note'' (QMap note) contact else contact)"

definition makeImportedContact :: "string \<Rightarrow> string \<Rightarrow> string \<Rightarrow> vmap \<Rightarrow> vmap" where
  "makeImportedContact firstName lastName phoneNumber note = importedContact firstName lastName phoneNumber note False"

section \<open>Enumerations\<close>

datatype sticker_type =
  StickerTypeRegular | StickerTypeMask | StickerTypeCustomEmoji

fun getStickerTypeType :: "sticker_type \<Rightarrow> string" where
  "getStickerTypeType StickerTypeRegular = ''stickerTypeRegular''"
| "getStickerTypeType StickerTypeMask = ''stickerTypeMask''"
| "getStickerTypeType StickerTypeCustomEmoji = ''stickerTypeCustomEmoji''"

definition sticker_type_number :: "sticker_type \<Rightarrow> int" where
  "sticker_type_number t = (case t of StickerTypeRegular \<Rightarrow> 0 | StickerTypeMask \<Rightarrow> 1 | StickerTypeCustomEmoji \<Rightarrow> 2)"

datatype top_chat_category =
  TopChatCategoryUsers | TopChatCategoryBots | TopChatCategoryCalls | TopChatCategoryChannels
| TopChatCategoryForwardChats | TopChatCategoryGroups | TopChatCategoryInlineBots
| TopChatCategoryWebAppBots

fun getTopChatCategoryType :: "top_chat_category \<Rightarrow> string" where
  "getTopChatCategoryType TopChatCategoryUsers = ''topChatCategoryUsers''"
| "getTopChatCategoryType TopChatCategoryBots = ''topChatCategoryBots''"
| "getTopChatCategoryType TopChatCategoryCalls = ''topChatCategoryCalls''"
| "getTopChatCategoryType TopChatCategoryChannels = ''topChatCategoryChannels''"
| "getTopChatCategoryType TopChatCategoryForwardChats = ''topChatCategoryForwardChats''"
| "getTopChatCategoryType TopChatCategoryGroups = ''topChatCategoryGroups''"
| "getTopChatCategoryType TopChatCategoryInlineBots = ''topChatCategoryInlineBots''"
| "getTopChatCategoryType TopChatCategoryWebAppBots = ''topChatCategoryWebAppBots''"

datatype message_source =
  MessageSourceAuto | MessageSourceChatEventLog | MessageSourceChatHistory | MessageSourceChatList
| MessageSourceDirectMessagesChatTopicHistory | MessageSourceForumTopicHistory
| MessageSourceHistoryPreview | MessageSourceMessageThreadHistory | MessageSourceNotification
| MessageSourceOther | MessageSourceScreenshot | MessageSourceSearch

fun getMessageSourceType :: "message_source \<Rightarrow> string" where
  "getMessageSourceType MessageSourceAuto = ''''"
| "getMessageSourceType MessageSourceChatEventLog = ''messageSourceChatEventLog''"
| "getMessageSourceType MessageSourceChatHistory = ''messageSourceChatHistory''"
| "getMessageSourceType MessageSourceChatList = ''messageSourceChatList''"
| "getMessageSourceType MessageSourceDirectMessagesChatTopicHistory = ''messageSourceDirectMessagesChatTopicHistory''"
| "getMessageSourceType MessageSourceForumTopicHistory = ''messageSourceForumTopicHistory''"
| "getMessageSourceType MessageSourceHistoryPreview = ''messageSourceHistoryPreview''"
| "getMessageSourceType MessageSourceMessageThreadHistory = ''messageSourceMessageThreadHistory''"
| "getMessageSourceType MessageSourceNotification = ''messageSourceNotification''"
| "getMessageSourceType MessageSourceOther = ''messageSourceOther''"
| "getMessageSourceType MessageSourceScreenshot = ''messageSourceScreenshot''"
| "getMessageSourceType MessageSourceSearch = ''messageSourceSearch''"

datatype network_type =
  NetworkMobile | NetworkMobileRoaming | NetworkNone | NetworkOther | NetworkWiFi

fun networkTypeType :: "network_type \<Rightarrow> string" where
  "networkTypeType NetworkMobile = ''networkTypeMobile''"
| "networkTypeType NetworkMobileRoaming = ''networkTypeMobileRoaming''"
| "networkTypeType NetworkNone = ''networkTypeNone''"
| "networkTypeType NetworkOther = ''networkTypeOther''"
| "networkTypeType NetworkWiFi = ''networkTypeWiFi''"

datatype carrier_error =
  WebProxyCarrierErrorUnsupported | WebProxyCarrierErrorPaused | WebProxyCarrierErrorTerminated
| WebProxyCarrierErrorRefused

fun carrierErrorType :: "carrier_error \<Rightarrow> string" where
  "carrierErrorType WebProxyCarrierErrorUnsupported = ''webProxyCarrierErrorUnsupported''"
| "carrierErrorType WebProxyCarrierErrorPaused = ''webProxyCarrierErrorPaused''"
| "carrierErrorType WebProxyCarrierErrorTerminated = ''webProxyCarrierErrorTerminated''"
| "carrierErrorType WebProxyCarrierErrorRefused = ''webProxyCarrierErrorRefused''"

fun getSearchMessagesFilterType :: "search_filter \<Rightarrow> string" where
  "getSearchMessagesFilterType FilterEmpty = ''searchMessagesFilterEmpty''"
| "getSearchMessagesFilterType FilterPhotoAndVideo = ''searchMessagesFilterPhotoAndVideo''"
| "getSearchMessagesFilterType FilterAnimation = ''searchMessagesFilterAnimation''"
| "getSearchMessagesFilterType FilterAudio = ''searchMessagesFilterAudio''"
| "getSearchMessagesFilterType FilterChatPhoto = ''searchMessagesFilterChatPhoto''"
| "getSearchMessagesFilterType FilterDocument = ''searchMessagesFilterDocument''"
| "getSearchMessagesFilterType FilterFailedToSend = ''searchMessagesFilterFailedToSend''"
| "getSearchMessagesFilterType FilterMention = ''searchMessagesFilterMention''"
| "getSearchMessagesFilterType FilterPhoto = ''searchMessagesFilterPhoto''"
| "getSearchMessagesFilterType FilterPinned = ''searchMessagesFilterPinned''"
| "getSearchMessagesFilterType FilterUnreadMention = ''searchMessagesFilterUnreadMention''"
| "getSearchMessagesFilterType FilterUnreadReaction = ''searchMessagesFilterUnreadReaction''"
| "getSearchMessagesFilterType FilterUrl = ''searchMessagesFilterUrl''"
| "getSearchMessagesFilterType FilterVideo = ''searchMessagesFilterVideo''"
| "getSearchMessagesFilterType FilterVideoNote = ''searchMessagesFilterVideoNote''"
| "getSearchMessagesFilterType FilterVoiceAndVideoNote = ''searchMessagesFilterVoiceAndVideoNote''"
| "getSearchMessagesFilterType FilterVoiceNote = ''searchMessagesFilterVoiceNote''"

text \<open>The enumerators in their order, which gives their numbers.\<close>

definition searchFilters :: "search_filter list" where
  "searchFilters =
     [FilterEmpty, FilterPhotoAndVideo, FilterAnimation, FilterAudio, FilterChatPhoto, FilterDocument,
      FilterFailedToSend, FilterMention, FilterPhoto, FilterPinned, FilterUnreadMention,
      FilterUnreadReaction, FilterUrl, FilterVideo, FilterVideoNote, FilterVoiceAndVideoNote,
      FilterVoiceNote]"

fun filter_number :: "search_filter \<Rightarrow> int" where
  "filter_number FilterEmpty = 0"
| "filter_number FilterPhotoAndVideo = 1"
| "filter_number FilterAnimation = 2"
| "filter_number FilterAudio = 3"
| "filter_number FilterChatPhoto = 4"
| "filter_number FilterDocument = 5"
| "filter_number FilterFailedToSend = 6"
| "filter_number FilterMention = 7"
| "filter_number FilterPhoto = 8"
| "filter_number FilterPinned = 9"
| "filter_number FilterUnreadMention = 10"
| "filter_number FilterUnreadReaction = 11"
| "filter_number FilterUrl = 12"
| "filter_number FilterVideo = 13"
| "filter_number FilterVideoNote = 14"
| "filter_number FilterVoiceAndVideoNote = 15"
| "filter_number FilterVoiceNote = 16"

definition getSearchMessagesFilterForType :: "string \<Rightarrow> search_filter" where
  "getSearchMessagesFilterForType type =
     (if type = ''searchMessagesFilterAnimation'' then FilterAnimation
      else if type = ''searchMessagesFilterAudio'' then FilterAudio
      else if type = ''searchMessagesFilterChatPhoto'' then FilterChatPhoto
      else if type = ''searchMessagesFilterDocument'' then FilterDocument
      else if type = ''searchMessagesFilterEmpty'' then FilterEmpty
      else if type = ''searchMessagesFilterFailedToSend'' then FilterFailedToSend
      else if type = ''searchMessagesFilterMention'' then FilterMention
      else if type = ''searchMessagesFilterPhoto'' then FilterPhoto
      else if type = ''searchMessagesFilterPhotoAndVideo'' then FilterPhotoAndVideo
      else if type = ''searchMessagesFilterPinned'' then FilterPinned
      else if type = ''searchMessagesFilterUnreadMention'' then FilterUnreadMention
      else if type = ''searchMessagesFilterUnreadReaction'' then FilterUnreadReaction
      else if type = ''searchMessagesFilterUrl'' then FilterUrl
      else if type = ''searchMessagesFilterVideo'' then FilterVideo
      else if type = ''searchMessagesFilterVideoNote'' then FilterVideoNote
      else if type = ''searchMessagesFilterVoiceAndVideoNote'' then FilterVoiceAndVideoNote
      else if type = ''searchMessagesFilterVoiceNote'' then FilterVoiceNote
      else FilterEmpty)"

definition getNotificationSettingsScope :: "notification_scope \<Rightarrow> vmap" where
  "getNotificationSettingsScope scope =
     obj [(''@type'', QString (case scope of
            NotificationSettingsScopePrivateChats \<Rightarrow> ''notificationSettingsScopePrivateChats''
          | NotificationSettingsScopeGroupChats \<Rightarrow> ''notificationSettingsScopeGroupChats''
          | NotificationSettingsScopeChannelChats \<Rightarrow> ''notificationSettingsScopeChannelChats''))]"

definition getProxyObject :: "string \<Rightarrow> int \<Rightarrow> vmap \<Rightarrow> vmap" where
  "getProxyObject server port type =
     obj [(''@type'', QString ''proxy''), (''server'', QString server), (''port'', QInt port), (''type'', QMap type)]"

definition getInputFileLocal :: "string \<Rightarrow> vmap" where
  "getInputFileLocal path = obj [(''@type'', QString ''inputFileLocal''), (''path'', QString path)]"

definition getInputChatPhotoStatic :: "string \<Rightarrow> vmap" where
  "getInputChatPhotoStatic filePath =
     obj [(''@type'', QString ''inputChatPhotoStatic''), (''photo'', QMap (getInputFileLocal filePath))]"

definition getInputChatPhotoPrevious :: "string \<Rightarrow> vmap" where
  "getInputChatPhotoPrevious photoId =
     obj [(''@type'', QString ''inputChatPhotoPrevious''), (''chat_photo_id'', QString photoId)]"

definition getMessageSendOptions :: "bool \<Rightarrow> vmap" where
  "getMessageSendOptions fromBackground =
     obj [(''@type'', QString ''messageSendOptions''), (''from_background'', QBool fromBackground)]"

section \<open>State\<close>

datatype authorization_state =
  AuthorizationUnknown | WaitTdlibParameters | WaitPhoneNumber | WaitPremiumPurchase | WaitEmailAddress
| WaitEmailCode | WaitCode | WaitOtherDeviceConfirmation | WaitRegistration | WaitPassword
| AuthorizationReady | LoggingOut | Closing | Closed

datatype connection_state = Connecting | ConnectingToProxy | ConnectionReady | Updating | WaitingForNetwork

text \<open>What a response does when it comes: \<open>CallerSlot\<close> are the slots of the callers.\<close>

datatype response_slot =
  CallerSlot
| InternalLinkSlot string bool bool
| CustomEmojiSlot
| AnimatedEmojiSlot int int

datatype wrapper_output =
  TdSend int vmap
| WrSignal string "qvariant list"
| Finished int string vmap
| CustomEmojis "qvariant list"
| CopyFile string string
| OpenFile string

text \<open>
  \<open>wr_responses\<close> are the \<open>TDLibResponse\<close> objects that wait, in the order they were connected;
  \<open>wr_connectionState\<close> has no initial value in the code and is \<open>None\<close> before the first update.
\<close>

record wrapper =
  wr_clientId :: int
  wr_authorizationState :: authorization_state
  wr_authorizationStateData :: vmap
  wr_connectionState :: "connection_state option"
  wr_isClosing :: bool
  wr_nextRequestId :: int
  wr_responses :: "(int \<times> response_slot) list"
  wr_store :: td_state
  wr_outputs :: "wrapper_output list"

definition wr_emit :: "wrapper_output \<Rightarrow> wrapper \<Rightarrow> wrapper" where
  "wr_emit out s = s\<lparr>wr_outputs := wr_outputs s @ [out]\<rparr>"

abbreviation (input) wr_signal :: "string \<Rightarrow> qvariant list \<Rightarrow> wrapper \<Rightarrow> wrapper" where
  "wr_signal name args \<equiv> wr_emit (WrSignal name args)"

definition wr_sendRequest :: "vmap \<Rightarrow> wrapper \<Rightarrow> wrapper" where
  "wr_sendRequest requestObject s = wr_emit (TdSend (wr_clientId s) requestObject) s"

definition wr_prepareRequestWithIdObject :: "vmap \<Rightarrow> wrapper \<Rightarrow> vmap \<times> wrapper" where
  "wr_prepareRequestWithIdObject requestObject s =
     (minsert ''@extra'' (QString (''R'' @ show_int (wr_nextRequestId s))) requestObject,
      s\<lparr>wr_nextRequestId := wr_nextRequestId s + 1\<rparr>)"

text \<open>The overload with a slot connects the response before the request is sent, the other one after.\<close>

definition wr_addResponse :: "response_slot \<Rightarrow> wrapper \<Rightarrow> wrapper" where
  "wr_addResponse sl s = s\<lparr>wr_responses := wr_responses s @ [(wr_nextRequestId s - 1, sl)]\<rparr>"

definition wr_sendRequestWithId :: "vmap \<Rightarrow> wrapper \<Rightarrow> wrapper" where
  "wr_sendRequestWithId requestObject s =
     (let (request, s1) = wr_prepareRequestWithIdObject requestObject s
      in wr_addResponse CallerSlot (wr_sendRequest request s1))"

definition wr_sendRequestWithSlot :: "vmap \<Rightarrow> response_slot \<Rightarrow> wrapper \<Rightarrow> wrapper" where
  "wr_sendRequestWithSlot requestObject sl s =
     (let (request, s1) = wr_prepareRequestWithIdObject requestObject s
      in wr_sendRequest request (wr_addResponse sl s1))"

section \<open>One function for each request\<close>

definition wr_setAuthenticationPhoneNumber :: "string \<Rightarrow> wrapper \<Rightarrow> wrapper" where
  "wr_setAuthenticationPhoneNumber phoneNumber =
     wr_sendRequest (obj [(''@type'', QString ''setAuthenticationPhoneNumber''),
       (''phone_number'', QString phoneNumber), (''settings'', QMap (obj [(''allow_flash_call'', QBool False),
       (''allow_missed_call'', QBool True), (''has_unknown_phone_number'', QBool True)]))])"

definition wr_checkAuthenticationCode :: "string \<Rightarrow> wrapper \<Rightarrow> wrapper" where
  "wr_checkAuthenticationCode authenticationCode =
     wr_sendRequest (obj [(''@type'', QString ''checkAuthenticationCode''),
       (''code'', QString authenticationCode)])"

definition wr_checkAuthenticationPassword :: "string \<Rightarrow> wrapper \<Rightarrow> wrapper" where
  "wr_checkAuthenticationPassword password =
     wr_sendRequest (obj [(''@type'', QString ''checkAuthenticationPassword''),
       (''password'', QString password)])"

definition wr_setAuthenticationEmailAddress :: "string \<Rightarrow> wrapper \<Rightarrow> wrapper" where
  "wr_setAuthenticationEmailAddress email =
     wr_sendRequest (obj [(''@type'', QString ''setAuthenticationEmailAddress''),
       (''email_address'', QString email)])"

definition wr_checkAuthenticationEmailCode :: "string \<Rightarrow> wrapper \<Rightarrow> wrapper" where
  "wr_checkAuthenticationEmailCode code =
     wr_sendRequest (obj [(''@type'', QString ''checkAuthenticationEmailCode''),
       (''code'', QMap (obj [(''@type'', QString ''emailAddressAuthenticationCode''),
       (''code'', QString code)]))])"

definition wr_registerUser :: "string \<Rightarrow> string \<Rightarrow> bool \<Rightarrow> wrapper \<Rightarrow> wrapper" where
  "wr_registerUser firstName lastName disableNotification =
     wr_sendRequest (obj [(''@type'', QString ''registerUser''), (''first_name'', QString firstName),
       (''last_name'', QString lastName), (''disable_notification'', QBool disableNotification)])"

definition wr_logout :: "wrapper \<Rightarrow> wrapper" where
  "wr_logout =
     wr_sendRequest (obj [(''@type'', QString ''logOut'')])"

definition wr_loadChats :: "bool \<Rightarrow> wrapper \<Rightarrow> wrapper" where
  "wr_loadChats archive =
     wr_sendRequest (obj [(''@type'', QString ''loadChats''), (''limit'', QInt 25),
       (''chat_list'', QMap (obj [(''@type'', QString (if archive then ''chatListArchive'' else
         ''chatListMain''))])), (''@extra'', QString (''loadChats:'' @ (if archive then ''!'' else '''')))])"

definition wr_loadChatsForFolder :: "int \<Rightarrow> wrapper \<Rightarrow> wrapper" where
  "wr_loadChatsForFolder folderId =
     wr_sendRequest (obj [(''@type'', QString ''loadChats''), (''limit'', QInt 25),
       (''chat_list'', QMap (obj [(''@type'', QString ''chatListFolder''),
       (''chat_folder_id'', QInt folderId)])),
       (''@extra'', QString (''loadChatsForFolder:'' @ show_int folderId))])"

definition wr_downloadFile :: "int \<Rightarrow> wrapper \<Rightarrow> wrapper" where
  "wr_downloadFile fileId =
     wr_sendRequest (obj [(''@type'', QString ''downloadFile''), (''file_id'', QInt fileId),
       (''synchronous'', QBool False), (''offset'', QInt 0), (''limit'', QInt 0), (''priority'', QInt 1)])"

definition wr_openChat :: "int \<Rightarrow> wrapper \<Rightarrow> wrapper" where
  "wr_openChat chatId =
     wr_sendRequest (obj [(''@type'', QString ''openChat''), (''chat_id'', QInt chatId)])"

definition wr_closeChat :: "int \<Rightarrow> wrapper \<Rightarrow> wrapper" where
  "wr_closeChat chatId =
     wr_sendRequest (obj [(''@type'', QString ''closeChat''), (''chat_id'', QInt chatId)])"

definition wr_joinChat :: "int \<Rightarrow> bool \<Rightarrow> wrapper \<Rightarrow> wrapper" where
  "wr_joinChat chatId isChannel =
     wr_sendRequest (obj [(''@type'', QString ''joinChat''), (''chat_id'', QInt chatId),
       (''@extra'', QMap (obj [(''isChannel'', QBool isChannel)]))])"

definition wr_leaveChat :: "int \<Rightarrow> wrapper \<Rightarrow> wrapper" where
  "wr_leaveChat chatId =
     wr_sendRequest (obj [(''@type'', QString ''leaveChat''), (''chat_id'', QInt chatId)])"

definition wr_deleteChat :: "int \<Rightarrow> wrapper \<Rightarrow> wrapper" where
  "wr_deleteChat chatId =
     wr_sendRequest (obj [(''@type'', QString ''deleteChat''), (''chat_id'', QInt chatId)])"

definition wr_getChatHistory :: "int \<Rightarrow> int \<Rightarrow> int \<Rightarrow> int \<Rightarrow> int \<Rightarrow> bool \<Rightarrow> wrapper \<Rightarrow> wrapper" where
  "wr_getChatHistory chatId extra fromMessageId offset limit onlyLocal =
     wr_sendRequest (obj [(''@type'', QString ''getChatHistory''), (''chat_id'', QInt chatId),
       (''from_message_id'', QInt fromMessageId), (''offset'', QInt offset), (''limit'', QInt limit),
       (''only_local'', QBool onlyLocal), (''@extra'', QString (show_int chatId @ '':'' @ show_int extra))])"

definition wr_pinChatMessage :: "int \<Rightarrow> string \<Rightarrow> bool \<Rightarrow> bool \<Rightarrow> wrapper \<Rightarrow> wrapper" where
  "wr_pinChatMessage chatId messageId disableNotification onlyForSelf =
     wr_sendRequest (obj [(''@type'', QString ''pinChatMessage''), (''chat_id'', QInt chatId),
       (''message_id'', QString messageId), (''disable_notification'', QBool disableNotification),
       (''only_for_self'', QBool onlyForSelf)])"

definition wr_unpinChatMessage :: "int \<Rightarrow> string \<Rightarrow> wrapper \<Rightarrow> wrapper" where
  "wr_unpinChatMessage chatId messageId =
     wr_sendRequest (obj [(''@type'', QString ''unpinChatMessage''), (''chat_id'', QInt chatId),
       (''message_id'', QString messageId)])"

definition wr_sendMessage :: "int \<Rightarrow> int \<Rightarrow> vmap \<Rightarrow> vmap \<Rightarrow> vmap \<Rightarrow> wrapper \<Rightarrow> wrapper" where
  "wr_sendMessage chatId replyToMessageId topicId content opts =
     (let request = obj [(''@type'', QString ''sendMessage''), (''chat_id'', QInt chatId),
       (''input_message_content'', QMap content)];
          request = (if replyToMessageId \<noteq> 0
            then minsert ''reply_to'' (QMap (obj [(''@type'', QString ''inputMessageReplyToMessage''),
            (''message_id'', QInt replyToMessageId)])) request else request);
          request = (if \<not> (mempty topicId) then minsert ''topic_id'' (QMap topicId) request else request);
          request = (if \<not> (mempty opts) then minsert ''options'' (QMap opts) request else request)
      in wr_sendRequest request)"

definition wr_sendTextMessage :: "int \<Rightarrow> string \<Rightarrow> int \<Rightarrow> vmap \<Rightarrow> bool \<Rightarrow> vmap \<Rightarrow> wrapper \<Rightarrow> wrapper" where
  "wr_sendTextMessage chatId message replyToMessageId topicId clearDraft opts =
     wr_sendMessage chatId replyToMessageId topicId (obj [(''@type'', QString ''inputMessageText''),
       (''text'', QMap (enhanceInputText message)), (''clear_draft'', QBool clearDraft)]) opts"

definition wr_forwardMessages :: "int \<Rightarrow> string \<Rightarrow> qvariant list \<Rightarrow> vmap \<Rightarrow> bool \<Rightarrow> bool \<Rightarrow> wrapper \<Rightarrow> wrapper" where
  "wr_forwardMessages chatId fromChatId messageIds topicId sendCopy removeCaption =
     (let request = obj [(''@type'', QString ''forwardMessages''), (''chat_id'', QInt chatId),
       (''from_chat_id'', QString fromChatId), (''message_ids'', QList messageIds),
       (''send_copy'', QBool sendCopy), (''remove_caption'', QBool removeCaption)];
          request = (if \<not> (mempty topicId) then minsert ''topic_id'' (QMap topicId) request else request)
      in wr_sendRequest request)"

definition wr_getMessage :: "int \<Rightarrow> int \<Rightarrow> wrapper \<Rightarrow> wrapper" where
  "wr_getMessage chatId messageId =
     wr_sendRequest (obj [(''@type'', QString ''getMessage''), (''chat_id'', QInt chatId),
       (''message_id'', QInt messageId)])"

definition wr_getMessageLinkInfo :: "string \<Rightarrow> wrapper \<Rightarrow> wrapper" where
  "wr_getMessageLinkInfo url =
     wr_sendRequest (obj [(''@type'', QString ''getMessageLinkInfo''), (''url'', QString url)])"

definition wr_getCallbackQueryAnswer :: "int \<Rightarrow> int \<Rightarrow> vmap \<Rightarrow> wrapper \<Rightarrow> wrapper" where
  "wr_getCallbackQueryAnswer chatId messageId payload =
     wr_sendRequest (obj [(''@type'', QString ''getCallbackQueryAnswer''), (''chat_id'', QInt chatId),
       (''message_id'', QInt messageId), (''payload'', QMap payload)])"

definition wr_getChatSponsoredMessages :: "int \<Rightarrow> wrapper \<Rightarrow> wrapper" where
  "wr_getChatSponsoredMessages chatId =
     wr_sendRequest (obj [(''@type'', QString ''getChatSponsoredMessages''), (''chat_id'', QInt chatId),
       (''@extra'', QInt chatId)])"

definition wr_setOption :: "string \<Rightarrow> string \<Rightarrow> qvariant \<Rightarrow> wrapper \<Rightarrow> wrapper" where
  "wr_setOption name type value =
     wr_sendRequest (obj [(''@type'', QString ''setOption''), (''name'', QString name),
       (''value'', QMap (obj [(''@type'', QString type), (''value'', value)]))])"

definition wr_setOptionInteger :: "string \<Rightarrow> int \<Rightarrow> wrapper \<Rightarrow> wrapper" where
  "wr_setOptionInteger optionName optionValue =
     wr_setOption optionName ''optionValueInteger'' (QInt optionValue)"

definition wr_setOptionBoolean :: "string \<Rightarrow> bool \<Rightarrow> wrapper \<Rightarrow> wrapper" where
  "wr_setOptionBoolean optionName optionValue =
     wr_setOption optionName ''optionValueBoolean'' (QBool optionValue)"

definition wr_setOptionString :: "string \<Rightarrow> string \<Rightarrow> wrapper \<Rightarrow> wrapper" where
  "wr_setOptionString optionName optionValue =
     wr_setOption optionName ''optionValueString'' (QString optionValue)"

definition wr_resetOption :: "string \<Rightarrow> wrapper \<Rightarrow> wrapper" where
  "wr_resetOption optionName =
     wr_sendRequest (obj [(''@type'', QString ''setOption''), (''name'', QString optionName),
       (''value'', QMap (obj [(''@type'', QString ''optionValueEmpty'')]))])"

definition wr_setChatNotificationSettings :: "int \<Rightarrow> vmap \<Rightarrow> wrapper \<Rightarrow> wrapper" where
  "wr_setChatNotificationSettings chatId settings =
     wr_sendRequest (obj [(''@type'', QString ''setChatNotificationSettings''), (''chat_id'', QInt chatId),
       (''notification_settings'', QMap settings)])"

definition wr_editMessageText :: "int \<Rightarrow> string \<Rightarrow> string \<Rightarrow> wrapper \<Rightarrow> wrapper" where
  "wr_editMessageText chatId messageId message =
     wr_sendRequest (obj [(''@type'', QString ''editMessageText''), (''chat_id'', QInt chatId),
       (''message_id'', QString messageId),
       (''input_message_content'', QMap (obj [(''@type'', QString ''inputMessageText''),
       (''text'', QMap (enhanceInputText message))]))])"

definition wr_editMessageCaption :: "int \<Rightarrow> string \<Rightarrow> string \<Rightarrow> wrapper \<Rightarrow> wrapper" where
  "wr_editMessageCaption chatId messageId caption =
     wr_sendRequest (obj [(''@type'', QString ''editMessageCaption''), (''chat_id'', QInt chatId),
       (''message_id'', QString messageId), (''caption'', QMap (enhanceInputText caption))])"

definition wr_deleteMessages :: "int \<Rightarrow> qvariant list \<Rightarrow> bool \<Rightarrow> wrapper \<Rightarrow> wrapper" where
  "wr_deleteMessages chatId messageIds revoke =
     wr_sendRequest (obj [(''@type'', QString ''deleteMessages''), (''chat_id'', QInt chatId),
       (''message_ids'', QList messageIds), (''revoke'', QBool revoke)])"

definition wr_getRecentStickers :: "wrapper \<Rightarrow> wrapper" where
  "wr_getRecentStickers =
     wr_sendRequest (obj [(''@type'', QString ''getRecentStickers''), (''@extra'', QString ''recent'')])"

definition wr_getFavoriteStickers :: "wrapper \<Rightarrow> wrapper" where
  "wr_getFavoriteStickers =
     wr_sendRequest (obj [(''@type'', QString ''getFavoriteStickers''), (''@extra'', QString ''favorite'')])"

definition wr_getInstalledStickerSets :: "sticker_type \<Rightarrow> wrapper \<Rightarrow> wrapper" where
  "wr_getInstalledStickerSets stickerType =
     wr_sendRequest (obj [(''@type'', QString ''getInstalledStickerSets''),
       (''sticker_type'', QMap (obj [(''@type'', QString (getStickerTypeType stickerType))])),
       (''@extra'', QString (''installed'' @ show_int (sticker_type_number stickerType)))])"

definition wr_getStickerSet :: "string \<Rightarrow> wrapper \<Rightarrow> wrapper" where
  "wr_getStickerSet setId =
     wr_sendRequest (obj [(''@type'', QString ''getStickerSet''), (''set_id'', QString setId)])"

definition wr_getSupergroupMembers :: "int \<Rightarrow> int \<Rightarrow> int \<Rightarrow> wrapper \<Rightarrow> wrapper" where
  "wr_getSupergroupMembers groupId limit offset =
     wr_sendRequest (obj [(''@type'', QString ''getSupergroupMembers''), (''@extra'', QInt groupId),
       (''supergroup_id'', QInt groupId), (''offset'', QInt offset), (''limit'', QInt limit)])"

definition wr_getGroupFullInfo :: "int \<Rightarrow> bool \<Rightarrow> wrapper \<Rightarrow> wrapper" where
  "wr_getGroupFullInfo groupId isSupergroup =
     (let requestObject = obj [(''@extra'', QInt groupId)];
          requestObject = (if isSupergroup
            then (let requestObject = minsert ''@type'' (QString ''getSupergroupFullInfo'') requestObject
      in minsert ''supergroup_id'' (QInt groupId) requestObject)
        else (let requestObject = minsert ''@type'' (QString ''getBasicGroupFullInfo'') requestObject
      in minsert ''basic_group_id'' (QInt groupId) requestObject))
      in wr_sendRequest requestObject)"

definition wr_getUserFullInfo :: "int \<Rightarrow> wrapper \<Rightarrow> wrapper" where
  "wr_getUserFullInfo userId =
     wr_sendRequest (obj [(''@type'', QString ''getUserFullInfo''), (''@extra'', QInt userId),
       (''user_id'', QInt userId)])"

definition wr_getChatTd :: "int \<Rightarrow> qvariant \<Rightarrow> wrapper \<Rightarrow> wrapper" where
  "wr_getChatTd chatId extra =
     wr_sendRequest (obj [(''@type'', QString ''getChat''), (''chat_id'', QInt chatId), (''@extra'', extra)])"

definition wr_createPrivateChat :: "int \<Rightarrow> qvariant \<Rightarrow> wrapper \<Rightarrow> wrapper" where
  "wr_createPrivateChat userId extra =
     wr_sendRequest (obj [(''@type'', QString ''createPrivateChat''), (''user_id'', QInt userId),
       (''@extra'', extra)])"

definition wr_createNewSecretChat :: "int \<Rightarrow> qvariant \<Rightarrow> wrapper \<Rightarrow> wrapper" where
  "wr_createNewSecretChat userId extra =
     wr_sendRequest (obj [(''@type'', QString ''createNewSecretChat''), (''user_id'', QInt userId),
       (''@extra'', extra)])"

definition wr_createSupergroupChat :: "int \<Rightarrow> qvariant \<Rightarrow> wrapper \<Rightarrow> wrapper" where
  "wr_createSupergroupChat supergroupId extra =
     wr_sendRequest (obj [(''@type'', QString ''createSupergroupChat''),
       (''supergroup_id'', QInt supergroupId), (''@extra'', extra)])"

definition wr_createBasicGroupChat :: "int \<Rightarrow> qvariant \<Rightarrow> wrapper \<Rightarrow> wrapper" where
  "wr_createBasicGroupChat basicGroupId extra =
     wr_sendRequest (obj [(''@type'', QString ''createBasicGroupChat''),
       (''basic_group_id'', QInt basicGroupId), (''@extra'', extra)])"

definition wr_getGroupsInCommon :: "int \<Rightarrow> int \<Rightarrow> int \<Rightarrow> wrapper \<Rightarrow> wrapper" where
  "wr_getGroupsInCommon userId limit offset =
     wr_sendRequest (obj [(''@type'', QString ''getGroupsInCommon''),
       (''@extra'', QString (''getGroupsInCommon:'' @ show_int userId)), (''user_id'', QInt userId),
       (''offset'', QInt offset), (''limit'', QInt limit)])"

definition wr_getUserProfilePhotos :: "int \<Rightarrow> int \<Rightarrow> int \<Rightarrow> wrapper \<Rightarrow> wrapper" where
  "wr_getUserProfilePhotos userId limit offset =
     wr_sendRequest (obj [(''@type'', QString ''getUserProfilePhotos''), (''@extra'', QInt userId),
       (''user_id'', QInt userId), (''offset'', QInt offset), (''limit'', QInt limit)])"

definition wr_setChatPermissions :: "int \<Rightarrow> vmap \<Rightarrow> wrapper \<Rightarrow> wrapper" where
  "wr_setChatPermissions chatId chatPermissions =
     wr_sendRequest (obj [(''@type'', QString ''setChatPermissions''), (''@extra'', QInt chatId),
       (''chat_id'', QInt chatId), (''permissions'', QMap chatPermissions)])"

definition wr_setChatSlowModeDelay :: "int \<Rightarrow> int \<Rightarrow> wrapper \<Rightarrow> wrapper" where
  "wr_setChatSlowModeDelay chatId delay =
     wr_sendRequest (obj [(''@type'', QString ''setChatSlowModeDelay''), (''chat_id'', QInt chatId),
       (''slow_mode_delay'', QInt delay)])"

definition wr_setChatDescription :: "int \<Rightarrow> string \<Rightarrow> wrapper \<Rightarrow> wrapper" where
  "wr_setChatDescription chatId description =
     wr_sendRequest (obj [(''@type'', QString ''setChatDescription''), (''chat_id'', QInt chatId),
       (''description'', QString description)])"

definition wr_setChatTitle :: "int \<Rightarrow> string \<Rightarrow> wrapper \<Rightarrow> wrapper" where
  "wr_setChatTitle chatId title =
     wr_sendRequest (obj [(''@type'', QString ''setChatTitle''), (''chat_id'', QInt chatId),
       (''title'', QString title)])"

definition wr_setBio :: "string \<Rightarrow> wrapper \<Rightarrow> wrapper" where
  "wr_setBio bio =
     wr_sendRequest (obj [(''@type'', QString ''setBio''), (''bio'', QString bio)])"

definition wr_toggleSupergroupIsAllHistoryAvailable :: "int \<Rightarrow> bool \<Rightarrow> wrapper \<Rightarrow> wrapper" where
  "wr_toggleSupergroupIsAllHistoryAvailable groupId value =
     wr_sendRequest (obj [(''@type'', QString ''toggleSupergroupIsAllHistoryAvailable''),
       (''supergroup_id'', QInt groupId), (''is_all_history_available'', QBool value)])"

definition wr_setPollAnswer :: "int \<Rightarrow> int \<Rightarrow> qvariant list \<Rightarrow> wrapper \<Rightarrow> wrapper" where
  "wr_setPollAnswer chatId messageId optionIds =
     wr_sendRequest (obj [(''@type'', QString ''setPollAnswer''), (''chat_id'', QInt chatId),
       (''message_id'', QInt messageId), (''option_ids'', QList optionIds)])"

definition wr_stopPoll :: "int \<Rightarrow> int \<Rightarrow> wrapper \<Rightarrow> wrapper" where
  "wr_stopPoll chatId messageId =
     wr_sendRequest (obj [(''@type'', QString ''stopPoll''), (''chat_id'', QInt chatId),
       (''message_id'', QInt messageId)])"

definition wr_getPollVoters :: "int \<Rightarrow> int \<Rightarrow> int \<Rightarrow> string \<Rightarrow> int \<Rightarrow> int \<Rightarrow> wrapper \<Rightarrow> wrapper" where
  "wr_getPollVoters chatId messageId optionId extra offset limit =
     wr_sendRequest (obj [(''@type'', QString ''getPollVoters''), (''@extra'', QString extra),
       (''chat_id'', QInt chatId), (''message_id'', QInt messageId), (''option_id'', QInt optionId),
       (''offset'', QInt offset), (''limit'', QInt limit)])"

definition wr_searchPublicChat :: "string \<Rightarrow> vmap \<Rightarrow> wrapper \<Rightarrow> wrapper" where
  "wr_searchPublicChat userName extra2 =
     (let extra = extra2;
          extra = minsert ''type'' (QString (''searchPublicChat:'' @ userName)) extra
      in wr_sendRequest (obj [(''@type'', QString ''searchPublicChat''), (''username'', QString userName),
        (''@extra'', QMap extra)]))"

definition wr_searchPublicChatOpenDirectly :: "string \<Rightarrow> wrapper \<Rightarrow> wrapper" where
  "wr_searchPublicChatOpenDirectly userName =
     wr_searchPublicChat userName (obj [(''openDirectly'', QBool True)])"

definition wr_searchUserByPhoneNumber :: "string \<Rightarrow> bool \<Rightarrow> wrapper \<Rightarrow> wrapper" where
  "wr_searchUserByPhoneNumber phoneNumber doOpenOnFound =
     wr_sendRequest (obj [(''@type'', QString ''searchUserByPhoneNumber''),
       (''phone_number'', QString phoneNumber), (''@extra'', QBool doOpenOnFound)])"

definition wr_searchUserByToken :: "string \<Rightarrow> bool \<Rightarrow> wrapper \<Rightarrow> wrapper" where
  "wr_searchUserByToken token doOpenOnFound =
     wr_sendRequest (obj [(''@type'', QString ''searchUserByToken''), (''token'', QString token),
       (''@extra'', QBool doOpenOnFound)])"

definition wr_joinChatByInviteLink :: "string \<Rightarrow> bool \<Rightarrow> wrapper \<Rightarrow> wrapper" where
  "wr_joinChatByInviteLink inviteLink isChannel =
     wr_sendRequest (obj [(''@type'', QString ''joinChatByInviteLink''), (''invite_link'', QString inviteLink),
       (''@extra'', QMap (obj [(''isChannel'', QBool isChannel), (''invite_link'', QBool True)]))])"

definition wr_getDeepLinkInfo :: "string \<Rightarrow> wrapper \<Rightarrow> wrapper" where
  "wr_getDeepLinkInfo link =
     wr_sendRequest (obj [(''@type'', QString ''getDeepLinkInfo''), (''link'', QString link)])"

definition wr_getContacts :: "wrapper \<Rightarrow> wrapper" where
  "wr_getContacts =
     wr_sendRequest (obj [(''@type'', QString ''getContacts''), (''@extra'', QString ''contacts'')])"

definition wr_searchContacts :: "string \<Rightarrow> int \<Rightarrow> wrapper \<Rightarrow> wrapper" where
  "wr_searchContacts query limit =
     wr_sendRequest (obj [(''@type'', QString ''searchContacts''), (''query'', QString query),
       (''limit'', QInt limit), (''@extra'', QString (''contacts:'' @ query))])"

definition wr_closeSecretChat :: "int \<Rightarrow> wrapper \<Rightarrow> wrapper" where
  "wr_closeSecretChat secretChatId =
     wr_sendRequest (obj [(''@type'', QString ''closeSecretChat''), (''secret_chat_id'', QInt secretChatId)])"

definition wr_importContacts :: "qvariant list \<Rightarrow> string \<Rightarrow> wrapper \<Rightarrow> wrapper" where
  "wr_importContacts contacts extra =
     wr_sendRequest (obj [(''@type'', QString ''importContacts''), (''contacts'', QList contacts),
       (''@extra'', QString extra)])"

definition wr_importContact :: "string \<Rightarrow> string \<Rightarrow> string \<Rightarrow> vmap \<Rightarrow> string \<Rightarrow> wrapper \<Rightarrow> wrapper" where
  "wr_importContact firstName lastName phoneNumber note extra =
     wr_importContacts [QMap (makeImportedContact firstName lastName phoneNumber note)] extra"

definition wr_addContact :: "int \<Rightarrow> string \<Rightarrow> string \<Rightarrow> string \<Rightarrow> vmap \<Rightarrow> bool \<Rightarrow> wrapper \<Rightarrow> wrapper" where
  "wr_addContact userId firstName lastName phone note sharePhoneNumber =
     wr_sendRequest (obj [(''@type'', QString ''addContact''), (''user_id'', QInt userId),
       (''contact'', QMap (makeImportedContact firstName lastName phone note)),
       (''share_phone_number'', QBool sharePhoneNumber)])"

definition wr_removeContacts :: "qvariant list \<Rightarrow> wrapper \<Rightarrow> wrapper" where
  "wr_removeContacts userIds =
     (let extra = obj [(''@type'', QString ''removeContacts''), (''user_ids'', QList userIds)];
          requestObject = extra;
          requestObject = minsert ''@extra'' (QMap extra) requestObject
      in wr_sendRequest requestObject)"

definition wr_removeContact :: "int \<Rightarrow> wrapper \<Rightarrow> wrapper" where
  "wr_removeContact userId =
     wr_removeContacts [QInt userId]"

definition wr_searchChatMessages :: "int \<Rightarrow> string \<Rightarrow> int \<Rightarrow> int \<Rightarrow> search_filter \<Rightarrow> int \<Rightarrow> int \<Rightarrow> wrapper \<Rightarrow> wrapper" where
  "wr_searchChatMessages chatId query extra fromMessageId flt limit offset =
     (let filterType = getSearchMessagesFilterType flt
      in wr_sendRequest (obj [(''@type'', QString ''searchChatMessages''), (''chat_id'', QInt chatId),
        (''query'', QString query), (''from_message_id'', QInt fromMessageId), (''offset'', QInt offset),
        (''limit'', QInt limit), (''filter'', QMap (obj [(''@type'', QString filterType)])),
        (''@extra'', QString (show_int chatId @ '':'' @ show_int (filter_number flt) @ '':'' @ show_int extra))]))"

definition wr_searchChats :: "string \<Rightarrow> wrapper \<Rightarrow> wrapper" where
  "wr_searchChats query =
     wr_sendRequest (obj [(''@type'', QString ''searchChats''), (''query'', QString query),
       (''limit'', QInt 50), (''@extra'', QString ''searchChats'')])"

definition wr_searchPublicChats :: "string \<Rightarrow> wrapper \<Rightarrow> wrapper" where
  "wr_searchPublicChats query =
     wr_sendRequest (obj [(''@type'', QString ''searchPublicChats''), (''query'', QString query),
       (''@extra'', QString ''searchPublicChats'')])"

definition wr_getSearchSponsoredChats :: "string \<Rightarrow> wrapper \<Rightarrow> wrapper" where
  "wr_getSearchSponsoredChats query =
     wr_sendRequest (obj [(''@type'', QString ''getSearchSponsoredChats''), (''query'', QString query)])"

definition wr_readAllChatMentions :: "int \<Rightarrow> int \<Rightarrow> wrapper \<Rightarrow> wrapper" where
  "wr_readAllChatMentions chatId forumTopicId =
     (let request = obj [(''@type'', QString (if forumTopicId \<noteq> 0 then ''readAllForumTopicMentions'' else
         ''readAllChatMentions'')), (''chat_id'', QInt chatId)];
          request = (if forumTopicId \<noteq> 0 then minsert ''forum_topic_id'' (QInt forumTopicId) request
            else request)
      in wr_sendRequest request)"

definition wr_readAllChatReactions :: "int \<Rightarrow> int \<Rightarrow> wrapper \<Rightarrow> wrapper" where
  "wr_readAllChatReactions chatId forumTopicId =
     (let request = obj [(''@type'', QString (if forumTopicId \<noteq> 0 then ''readAllForumTopicReactions'' else
         ''readAllChatReactions'')), (''chat_id'', QInt chatId)];
          request = (if forumTopicId \<noteq> 0 then minsert ''forum_topic_id'' (QInt forumTopicId) request
            else request)
      in wr_sendRequest request)"

definition wr_readAllChatPollVotes :: "int \<Rightarrow> int \<Rightarrow> wrapper \<Rightarrow> wrapper" where
  "wr_readAllChatPollVotes chatId forumTopicId =
     (let request = obj [(''@type'', QString (if forumTopicId \<noteq> 0 then ''readAllForumTopicPollVotes'' else
         ''readAllChatPollVotes'')), (''chat_id'', QInt chatId)];
          request = (if forumTopicId \<noteq> 0 then minsert ''forum_topic_id'' (QInt forumTopicId) request
            else request)
      in wr_sendRequest request)"

definition wr_toggleChatIsMarkedAsUnread :: "int \<Rightarrow> bool \<Rightarrow> wrapper \<Rightarrow> wrapper" where
  "wr_toggleChatIsMarkedAsUnread chatId marked =
     wr_sendRequest (obj [(''@type'', QString ''toggleChatIsMarkedAsUnread''), (''chat_id'', QInt chatId),
       (''is_marked_as_unread'', QBool marked)])"

definition wr_toggleChatIsPinned :: "int \<Rightarrow> bool \<Rightarrow> bool \<Rightarrow> wrapper \<Rightarrow> wrapper" where
  "wr_toggleChatIsPinned chatId isPinned archive =
     wr_sendRequest (obj [(''@type'', QString ''toggleChatIsPinned''),
       (''chat_list'', QMap (obj [(''@type'', QString (if archive then ''chatListArchive'' else
         ''chatListMain''))])), (''chat_id'', QInt chatId), (''is_pinned'', QBool isPinned),
       (''is_marked_as_unread'', QBool isPinned)])"

definition wr_toggleChatIsPinnedForFolder :: "int \<Rightarrow> bool \<Rightarrow> int \<Rightarrow> wrapper \<Rightarrow> wrapper" where
  "wr_toggleChatIsPinnedForFolder chatId isPinned folderId =
     wr_sendRequest (obj [(''@type'', QString ''toggleChatIsPinned''),
       (''chat_list'', QMap (obj [(''@type'', QString ''chatListFolder''),
       (''chat_folder_id'', QInt folderId)])), (''chat_id'', QInt chatId), (''is_pinned'', QBool isPinned),
       (''is_marked_as_unread'', QBool isPinned)])"

definition wr_getInlineQueryResults :: "int \<Rightarrow> int \<Rightarrow> vmap \<Rightarrow> string \<Rightarrow> string \<Rightarrow> string \<Rightarrow> wrapper \<Rightarrow> wrapper" where
  "wr_getInlineQueryResults botUserId chatId userLocation query offset extra =
     (let requestObject = obj [(''@type'', QString ''getInlineQueryResults''), (''chat_id'', QInt chatId),
       (''bot_user_id'', QInt botUserId), (''query'', QString query), (''offset'', QString offset),
       (''@extra'', QString extra)];
          requestObject = (if \<not> (mempty userLocation)
            then minsert ''user_location'' (QMap userLocation) requestObject else requestObject)
      in wr_sendRequest requestObject)"

definition wr_sendInlineQueryResultMessage :: "int \<Rightarrow> vmap \<Rightarrow> int \<Rightarrow> string \<Rightarrow> string \<Rightarrow> wrapper \<Rightarrow> wrapper" where
  "wr_sendInlineQueryResultMessage chatId topicId replyToMessageId queryId resultId =
     (let request = obj [(''@type'', QString ''sendInlineQueryResultMessage''), (''chat_id'', QInt chatId),
       (''query_id'', QString queryId), (''result_id'', QString resultId)];
          request = (if \<not> (mempty topicId) then minsert ''topic_id'' (QMap topicId) request else request);
          request = (if replyToMessageId \<noteq> 0
            then minsert ''reply_to'' (QMap (obj [(''@type'', QString ''inputMessageReplyToMessage''),
            (''message_id'', QInt replyToMessageId)])) request else request)
      in wr_sendRequest request)"

definition wr_sendBotStartMessage :: "int \<Rightarrow> int \<Rightarrow> string \<Rightarrow> string \<Rightarrow> wrapper \<Rightarrow> wrapper" where
  "wr_sendBotStartMessage botUserId chatId parameter extra =
     wr_sendRequest (obj [(''@type'', QString ''sendBotStartMessage''), (''bot_user_id'', QInt botUserId),
       (''chat_id'', QInt chatId), (''parameter'', QString parameter), (''@extra'', QString extra)])"

definition wr_cancelDownloadFile :: "int \<Rightarrow> wrapper \<Rightarrow> wrapper" where
  "wr_cancelDownloadFile fileId =
     wr_sendRequest (obj [(''@type'', QString ''cancelDownloadFile''), (''file_id'', QInt fileId),
       (''only_if_pending'', QBool False)])"

definition wr_cancelUploadFile :: "int \<Rightarrow> wrapper \<Rightarrow> wrapper" where
  "wr_cancelUploadFile fileId =
     wr_sendRequest (obj [(''@type'', QString ''cancelUploadFile''), (''file_id'', QInt fileId)])"

definition wr_deleteFile :: "int \<Rightarrow> wrapper \<Rightarrow> wrapper" where
  "wr_deleteFile fileId =
     wr_sendRequest (obj [(''@type'', QString ''deleteFile''), (''file_id'', QInt fileId)])"

definition wr_setName :: "string \<Rightarrow> string \<Rightarrow> wrapper \<Rightarrow> wrapper" where
  "wr_setName firstName lastName =
     wr_sendRequest (obj [(''@type'', QString ''setName''), (''first_name'', QString firstName),
       (''last_name'', QString lastName)])"

definition wr_setUsername :: "string \<Rightarrow> wrapper \<Rightarrow> wrapper" where
  "wr_setUsername username =
     wr_sendRequest (obj [(''@type'', QString ''setUsername''), (''username'', QString username)])"

definition wr_setProfilePhoto :: "string \<Rightarrow> wrapper \<Rightarrow> wrapper" where
  "wr_setProfilePhoto filePath =
     wr_sendRequest (obj [(''@type'', QString ''setProfilePhoto''), (''@extra'', QString ''setProfilePhoto''),
       (''photo'', QMap (getInputChatPhotoStatic filePath))])"

definition wr_setPreviousProfilePhoto :: "string \<Rightarrow> wrapper \<Rightarrow> wrapper" where
  "wr_setPreviousProfilePhoto photoId =
     wr_sendRequest (obj [(''@type'', QString ''setProfilePhoto''),
       (''@extra'', QString ''setPreviousProfilePhoto''),
       (''photo'', QMap (getInputChatPhotoPrevious photoId))])"

definition wr_setChatPhoto :: "int \<Rightarrow> wrapper \<Rightarrow> wrapper" where
  "wr_setChatPhoto chatId =
     wr_sendRequest (obj [(''@type'', QString ''setChatPhoto'')])"

definition wr_setChatPhoto2 :: "int \<Rightarrow> string \<Rightarrow> wrapper \<Rightarrow> wrapper" where
  "wr_setChatPhoto2 chatId filePath =
     wr_sendRequest (obj [(''@type'', QString ''setChatPhoto''),
       (''photo'', QMap (getInputChatPhotoStatic filePath))])"

definition wr_setPreviousChatPhoto :: "int \<Rightarrow> string \<Rightarrow> wrapper \<Rightarrow> wrapper" where
  "wr_setPreviousChatPhoto chatId photoId =
     wr_sendRequest (obj [(''@type'', QString ''setChatPhoto''),
       (''photo'', QMap (getInputChatPhotoPrevious photoId))])"

definition wr_deleteProfilePhoto :: "string \<Rightarrow> wrapper \<Rightarrow> wrapper" where
  "wr_deleteProfilePhoto profilePhotoId =
     wr_sendRequest (obj [(''@type'', QString ''deleteProfilePhoto''),
       (''@extra'', QString (''deleteProfilePhoto:'' @ profilePhotoId)),
       (''profile_photo_id'', QString profilePhotoId)])"

definition wr_changeStickerSet :: "string \<Rightarrow> bool \<Rightarrow> wrapper \<Rightarrow> wrapper" where
  "wr_changeStickerSet stickerSetId isInstalled =
     wr_sendRequest (obj [(''@type'', QString ''changeStickerSet''),
       (''@extra'', QString (if isInstalled then ''installStickerSet'' else ''removeStickerSet'')),
       (''set_id'', QString stickerSetId), (''is_installed'', QBool isInstalled)])"

definition wr_getActiveSessions :: "wrapper \<Rightarrow> wrapper" where
  "wr_getActiveSessions =
     wr_sendRequest (obj [(''@type'', QString ''getActiveSessions'')])"

definition wr_terminateSession :: "string \<Rightarrow> wrapper \<Rightarrow> wrapper" where
  "wr_terminateSession sessionId =
     wr_sendRequest (obj [(''@type'', QString ''terminateSession''),
       (''@extra'', QString ''terminateSession''), (''session_id'', QString sessionId)])"

definition wr_getMessageAvailableReactions :: "int \<Rightarrow> int \<Rightarrow> int \<Rightarrow> wrapper \<Rightarrow> wrapper" where
  "wr_getMessageAvailableReactions chatId messageId rowSize =
     wr_sendRequest (obj [(''@type'', QString ''getMessageAvailableReactions''),
       (''@extra'', QString (show_int chatId @ '':'' @ show_int messageId)), (''chat_id'', QInt chatId),
       (''message_id'', QInt messageId), (''row_size'', QInt rowSize)])"

definition wr_addMessageReaction :: "int \<Rightarrow> int \<Rightarrow> vmap \<Rightarrow> bool \<Rightarrow> bool \<Rightarrow> wrapper \<Rightarrow> wrapper" where
  "wr_addMessageReaction chatId messageId reactionType updateRecentReactions isBig =
     wr_sendRequest (obj [(''@type'', QString ''addMessageReaction''), (''chat_id'', QInt chatId),
       (''message_id'', QInt messageId), (''is_big'', QBool isBig),
       (''update_recent_reactions'', QBool updateRecentReactions), (''reaction_type'', QMap reactionType)])"

definition wr_removeMessageReaction :: "int \<Rightarrow> int \<Rightarrow> vmap \<Rightarrow> wrapper \<Rightarrow> wrapper" where
  "wr_removeMessageReaction chatId messageId reactionType =
     wr_sendRequest (obj [(''@type'', QString ''removeMessageReaction''), (''chat_id'', QInt chatId),
       (''message_id'', QInt messageId), (''reaction_type'', QMap reactionType)])"

definition wr_removeMessageEmojiReaction :: "int \<Rightarrow> int \<Rightarrow> string \<Rightarrow> wrapper \<Rightarrow> wrapper" where
  "wr_removeMessageEmojiReaction chatId messageId reaction =
     wr_removeMessageReaction chatId messageId (obj [(''@type'', QString ''reactionTypeEmoji''),
       (''emoji'', QString reaction)])"

definition wr_setInactiveSessionTtl :: "int \<Rightarrow> wrapper \<Rightarrow> wrapper" where
  "wr_setInactiveSessionTtl days =
     (let requestObject = fmempty
      in wr_sendRequest (obj [(''@type'', QString ''setInactiveSessionTtl''),
        (''inactive_session_ttl_days'', QInt days)]))"

definition wr_setLogVerbosityLevel :: "int \<Rightarrow> wrapper \<Rightarrow> wrapper" where
  "wr_setLogVerbosityLevel level =
     wr_sendRequest (obj [(''@type'', QString ''setLogVerbosityLevel''),
       (''new_verbosity_level'', QInt level)])"

definition wr_getMessageProperties :: "int \<Rightarrow> int \<Rightarrow> wrapper \<Rightarrow> wrapper" where
  "wr_getMessageProperties chatId messageId =
     (let requestObject = obj [(''chat_id'', QInt chatId), (''message_id'', QInt messageId)];
          extra = requestObject;
          requestObject = minsert ''@type'' (QString ''getMessageProperties'') requestObject;
          requestObject = minsert ''@extra'' (QMap extra) requestObject
      in wr_sendRequest requestObject)"

definition wr_getCustomEmojiStickers :: "string list \<Rightarrow> qvariant \<Rightarrow> wrapper \<Rightarrow> wrapper" where
  "wr_getCustomEmojiStickers ids extra =
     wr_sendRequest (obj [(''@type'', QString ''getCustomEmojiStickers''), (''custom_emoji_ids'', strings ids),
       (''@extra'', extra)])"

definition wr_getStorageStatisticsFast :: "wrapper \<Rightarrow> wrapper" where
  "wr_getStorageStatisticsFast =
     wr_sendRequest (obj [(''@type'', QString ''getStorageStatisticsFast'')])"

definition wr_translateText :: "vmap \<Rightarrow> string \<Rightarrow> string \<Rightarrow> wrapper \<Rightarrow> wrapper" where
  "wr_translateText txt languageCode extra =
     wr_sendRequest (obj [(''@type'', QString ''translateText''), (''text'', QMap txt),
       (''to_language_code'', QString languageCode), (''@extra'', QString extra)])"

definition wr_translateMessageText :: "int \<Rightarrow> int \<Rightarrow> string \<Rightarrow> wrapper \<Rightarrow> wrapper" where
  "wr_translateMessageText chatId messageId languageCode =
     wr_sendRequest (obj [(''@type'', QString ''translateMessageText''), (''chat_id'', QInt chatId),
       (''message_id'', QInt messageId), (''to_language_code'', QString languageCode),
       (''@extra'', QString (''msgtr'' @ show_int chatId @ '':'' @ show_int messageId @ languageCode))])"

definition wr_summarizeMessage :: "int \<Rightarrow> int \<Rightarrow> string \<Rightarrow> wrapper \<Rightarrow> wrapper" where
  "wr_summarizeMessage chatId messageId translateToLanguageCode =
     wr_sendRequest (obj [(''@type'', QString ''summarizeMessage''), (''chat_id'', QInt chatId),
       (''message_id'', QInt messageId), (''translate_to_language_code'', QString translateToLanguageCode),
       (''@extra'', QString (''summarizeMessage'' @ show_int chatId @ '':'' @ show_int messageId @
         translateToLanguageCode))])"

definition wr_sendChatAction :: "int \<Rightarrow> vmap \<Rightarrow> vmap \<Rightarrow> wrapper \<Rightarrow> wrapper" where
  "wr_sendChatAction chatId action topicId =
     (let request = obj [(''@type'', QString ''sendChatAction''), (''chat_id'', QInt chatId)];
          request = (if \<not> (mempty action) then minsert ''action'' (QMap action) request else request);
          request = (if \<not> (mempty topicId) then minsert ''topic_id'' (QMap topicId) request else request)
      in wr_sendRequest request)"

definition wr_sendChatAction2 :: "int \<Rightarrow> action_type \<Rightarrow> vmap \<Rightarrow> wrapper \<Rightarrow> wrapper" where
  "wr_sendChatAction2 chatId type topicId =
     wr_sendChatAction chatId (obj [(''@type'', QString (getChatActionTypeString type))]) topicId"

definition wr_close :: "wrapper \<Rightarrow> wrapper" where
  "wr_close =
     wr_sendRequest (obj [(''@type'', QString ''close'')])"

definition wr_toggleSupergroupIsForum :: "int \<Rightarrow> bool \<Rightarrow> bool \<Rightarrow> wrapper \<Rightarrow> wrapper" where
  "wr_toggleSupergroupIsForum supergroupId isForum hasForumTabs =
     wr_sendRequest (obj [(''@type'', QString ''toggleSupergroupIsForum''),
       (''supergroup_id'', QInt supergroupId), (''is_forum'', QBool isForum),
       (''has_forum_tabs'', QBool hasForumTabs)])"

definition wr_getChatListsToAddChat :: "int \<Rightarrow> wrapper \<Rightarrow> wrapper" where
  "wr_getChatListsToAddChat chatId =
     wr_sendRequest (obj [(''@type'', QString ''getChatListsToAddChat''), (''chat_id'', QInt chatId),
       (''@extra'', QInt chatId)])"

definition wr_addChatToList :: "int \<Rightarrow> bool \<Rightarrow> wrapper \<Rightarrow> wrapper" where
  "wr_addChatToList chatId archive =
     wr_sendRequest (obj [(''@type'', QString ''addChatToList''), (''chat_id'', QInt chatId),
       (''chat_list'', QMap (obj [(''@type'', QString (if archive then ''chatListArchive'' else
         ''chatListMain''))]))])"

definition wr_getArchiveChatListSettings :: "wrapper \<Rightarrow> wrapper" where
  "wr_getArchiveChatListSettings =
     wr_sendRequest (obj [(''@type'', QString ''getArchiveChatListSettings'')])"

definition wr_readChatList :: "bool \<Rightarrow> wrapper \<Rightarrow> wrapper" where
  "wr_readChatList archive =
     wr_sendRequest (obj [(''@type'', QString ''readChatList''),
       (''chat_list'', QMap (obj [(''@type'', QString (if archive then ''chatListArchive'' else
         ''chatListMain''))]))])"

definition wr_readFolderChatList :: "int \<Rightarrow> wrapper \<Rightarrow> wrapper" where
  "wr_readFolderChatList folderId =
     wr_sendRequest (obj [(''@type'', QString ''readChatList''),
       (''chat_list'', QMap (obj [(''@type'', QString ''chatListFolder''),
       (''chat_folder_id'', QInt folderId)]))])"

definition wr_getTopChats :: "top_chat_category \<Rightarrow> int \<Rightarrow> wrapper \<Rightarrow> wrapper" where
  "wr_getTopChats category limit =
     (let categoryType = getTopChatCategoryType category
      in wr_sendRequest (obj [(''@type'', QString ''getTopChats''),
        (''category'', QMap (obj [(''@type'', QString categoryType)])), (''limit'', QInt limit),
        (''@extra'', QString categoryType)]))"

definition wr_removeTopChat :: "top_chat_category \<Rightarrow> int \<Rightarrow> wrapper \<Rightarrow> wrapper" where
  "wr_removeTopChat category chatId =
     (let categoryType = getTopChatCategoryType category
      in wr_sendRequest (obj [(''@type'', QString ''removeTopChat''),
        (''category'', QMap (obj [(''@type'', QString categoryType)])), (''chat_id'', QInt chatId),
        (''@extra'', QString categoryType)]))"

definition wr_searchRecentlyFoundChats :: "string \<Rightarrow> wrapper \<Rightarrow> wrapper" where
  "wr_searchRecentlyFoundChats query =
     wr_sendRequest (obj [(''@type'', QString ''searchRecentlyFoundChats''), (''query'', QString query),
       (''limit'', QInt 50), (''@extra'', QString ''searchRecentlyFoundChats'')])"

definition wr_clearRecentlyFoundChats :: "wrapper \<Rightarrow> wrapper" where
  "wr_clearRecentlyFoundChats =
     wr_sendRequest (obj [(''@type'', QString ''clearRecentlyFoundChats'')])"

definition wr_addRecentlyFoundChat :: "int \<Rightarrow> wrapper \<Rightarrow> wrapper" where
  "wr_addRecentlyFoundChat chatId =
     wr_sendRequest (obj [(''@type'', QString ''addRecentlyFoundChat''), (''chat_id'', QInt chatId),
       (''@extra'', QString ''recentlyFound'')])"

definition wr_removeRecentlyFoundChat :: "int \<Rightarrow> wrapper \<Rightarrow> wrapper" where
  "wr_removeRecentlyFoundChat chatId =
     wr_sendRequest (obj [(''@type'', QString ''removeRecentlyFoundChat''), (''chat_id'', QInt chatId),
       (''@extra'', QString ''recentlyFound'')])"

definition wr_getChatMessageCount :: "int \<Rightarrow> search_filter \<Rightarrow> bool \<Rightarrow> wrapper \<Rightarrow> wrapper" where
  "wr_getChatMessageCount chatId flt returnLocal =
     (let filterType = getSearchMessagesFilterType flt
      in wr_sendRequest (obj [(''@type'', QString ''getChatMessageCount''), (''chat_id'', QInt chatId),
        (''filter'', QMap (obj [(''@type'', QString filterType)])), (''return_local'', QBool returnLocal),
        (''@extra'', QString (filterType @ (if returnLocal then ''!'' else '''') @ '':'' @ show_int chatId))]))"

definition wr_getForumTopics :: "int \<Rightarrow> int \<Rightarrow> int \<Rightarrow> int \<Rightarrow> string \<Rightarrow> int \<Rightarrow> wrapper \<Rightarrow> wrapper" where
  "wr_getForumTopics chatId offsetDate offsetMessageId offsetForumTopicId query limit =
     wr_sendRequest (obj [(''@type'', QString ''getForumTopics''), (''chat_id'', QInt chatId),
       (''query'', QString query), (''offset_date'', QInt offsetDate),
       (''offset_message_id'', QInt offsetMessageId), (''offset_forum_topic_id'', QInt offsetForumTopicId),
       (''limit'', QInt limit), (''@extra'', QInt chatId)])"

definition wr_hideSuggestedAction :: "vmap \<Rightarrow> wrapper \<Rightarrow> wrapper" where
  "wr_hideSuggestedAction action =
     wr_sendRequest (obj [(''@type'', QString ''hideSuggestedAction''), (''action'', QMap action)])"

definition wr_hideSuggestedAction2 :: "string \<Rightarrow> wrapper \<Rightarrow> wrapper" where
  "wr_hideSuggestedAction2 type =
     wr_hideSuggestedAction (obj [(''@type'', QString type)])"

definition wr_setBirthdate :: "int \<Rightarrow> int \<Rightarrow> int \<Rightarrow> wrapper \<Rightarrow> wrapper" where
  "wr_setBirthdate day month year =
     wr_sendRequest (obj [(''@type'', QString ''setBirthdate''),
       (''birthdate'', QMap (obj [(''@type'', QString ''birthdate''), (''day'', QInt day),
       (''month'', QInt month), (''year'', QInt year)]))])"

definition wr_setBirthdate2 :: "wrapper \<Rightarrow> wrapper" where
  "wr_setBirthdate2 =
     wr_sendRequest (obj [(''@type'', QString ''setBirthdate'')])"

definition wr_getChatJoinRequests :: "int \<Rightarrow> vmap \<Rightarrow> string \<Rightarrow> int \<Rightarrow> wrapper \<Rightarrow> wrapper" where
  "wr_getChatJoinRequests chatId offsetRequest query limit =
     wr_sendRequest (obj [(''@type'', QString ''getChatJoinRequests''), (''chat_id'', QInt chatId),
       (''@extra'', QInt chatId), (''offset_request'', QMap offsetRequest), (''limit'', QInt limit),
       (''query'', QString query)])"

definition wr_processChatJoinRequest :: "int \<Rightarrow> int \<Rightarrow> bool \<Rightarrow> wrapper \<Rightarrow> wrapper" where
  "wr_processChatJoinRequest chatId userId approve =
     wr_sendRequest (obj [(''@type'', QString ''processChatJoinRequest''), (''chat_id'', QInt chatId),
       (''user_id'', QInt userId), (''approve'', QBool approve)])"

definition wr_processChatJoinRequests :: "int \<Rightarrow> bool \<Rightarrow> string \<Rightarrow> wrapper \<Rightarrow> wrapper" where
  "wr_processChatJoinRequests chatId approve inviteLink =
     wr_sendRequest (obj [(''@type'', QString ''processChatJoinRequests''), (''chat_id'', QInt chatId),
       (''approve'', QBool approve), (''invite_link'', QString inviteLink)])"

definition wr_getInternalLinkType :: "string \<Rightarrow> string \<Rightarrow> wrapper \<Rightarrow> wrapper" where
  "wr_getInternalLinkType link extra =
     wr_sendRequest (obj [(''@type'', QString ''getInternalLinkType''), (''link'', QString link),
       (''@extra'', QString extra)])"

definition wr_getExternalLink :: "string \<Rightarrow> bool \<Rightarrow> wrapper \<Rightarrow> wrapper" where
  "wr_getExternalLink link allowWriteAccess =
     wr_sendRequest (obj [(''@type'', QString ''getExternalLink''), (''link'', QString link),
       (''allow_write_access'', QBool allowWriteAccess),
       (''@extra'', QString (''openLoginUrl'' @ '':'' @ link))])"

definition wr_getLoginUrlInfo :: "int \<Rightarrow> int \<Rightarrow> int \<Rightarrow> string \<Rightarrow> wrapper \<Rightarrow> wrapper" where
  "wr_getLoginUrlInfo chatId messageId buttonId fallbackUrl =
     (let extra = obj [(''@type'', QString ''getLoginUrlInfo''), (''chat_id'', QInt chatId),
       (''message_id'', QInt messageId), (''button_id'', QInt buttonId)];
          request = extra;
          extra = minsert ''url'' (QString fallbackUrl) extra;
          request = minsert ''@extra'' (QMap extra) request
      in wr_sendRequest request)"

definition wr_getLoginUrl :: "int \<Rightarrow> int \<Rightarrow> int \<Rightarrow> bool \<Rightarrow> string \<Rightarrow> wrapper \<Rightarrow> wrapper" where
  "wr_getLoginUrl chatId messageId buttonId allowWriteAccess fallbackUrl =
     wr_sendRequest (obj [(''@type'', QString ''getLoginUrl''), (''chat_id'', QInt chatId),
       (''message_id'', QInt messageId), (''button_id'', QInt buttonId),
       (''allow_write_access'', QBool allowWriteAccess),
       (''@extra'', QString (''openLoginUrl'' @ '':'' @ fallbackUrl))])"

definition wr_checkChatInviteLink :: "string \<Rightarrow> wrapper \<Rightarrow> wrapper" where
  "wr_checkChatInviteLink link =
     wr_sendRequest (obj [(''@type'', QString ''checkChatInviteLink''), (''invite_link'', QString link),
       (''@extra'', QString link)])"

definition wr_clickChatSponsoredMessage :: "int \<Rightarrow> int \<Rightarrow> bool \<Rightarrow> bool \<Rightarrow> wrapper \<Rightarrow> wrapper" where
  "wr_clickChatSponsoredMessage chatId messageId isMediaClick fromFullscreen =
     wr_sendRequest (obj [(''@type'', QString ''clickChatSponsoredMessage''), (''chat_id'', QInt chatId),
       (''message_id'', QInt messageId), (''is_media_click'', QBool isMediaClick),
       (''from_fullscreen'', QBool fromFullscreen)])"

definition wr_toggleChatViewAsTopics :: "int \<Rightarrow> bool \<Rightarrow> wrapper \<Rightarrow> wrapper" where
  "wr_toggleChatViewAsTopics chatId viewAsTopics =
     wr_sendRequest (obj [(''@type'', QString ''toggleChatViewAsTopics''), (''chat_id'', QInt chatId),
       (''view_as_topics'', QBool viewAsTopics)])"

definition wr_getMessageThreadHistory :: "int \<Rightarrow> int \<Rightarrow> int \<Rightarrow> int \<Rightarrow> int \<Rightarrow> int \<Rightarrow> wrapper \<Rightarrow> wrapper" where
  "wr_getMessageThreadHistory chatId messageId extra fromMessageId offset limit =
     wr_sendRequest (obj [(''@type'', QString ''getMessageThreadHistory''), (''chat_id'', QInt chatId),
       (''message_id'', QInt messageId), (''from_message_id'', QInt fromMessageId), (''offset'', QInt offset),
       (''limit'', QInt limit),
       (''@extra'', QString (''thread:'' @ show_int chatId @ '':'' @ show_int messageId @ '':'' @ show_int extra))])"

definition wr_getForumTopicHistory :: "int \<Rightarrow> int \<Rightarrow> int \<Rightarrow> int \<Rightarrow> int \<Rightarrow> int \<Rightarrow> wrapper \<Rightarrow> wrapper" where
  "wr_getForumTopicHistory chatId forumTopicId extra fromMessageId offset limit =
     wr_sendRequest (obj [(''@type'', QString ''getForumTopicHistory''), (''chat_id'', QInt chatId),
       (''forum_topic_id'', QInt forumTopicId), (''from_message_id'', QInt fromMessageId),
       (''offset'', QInt offset), (''limit'', QInt limit),
       (''@extra'', QString (''forumTopic:'' @ show_int chatId @ '':'' @ show_int forumTopicId @ '':'' @ show_int
         extra))])"

definition wr_getForumTopic :: "int \<Rightarrow> int \<Rightarrow> wrapper \<Rightarrow> wrapper" where
  "wr_getForumTopic chatId forumTopicId =
     wr_sendRequest (obj [(''@type'', QString ''getForumTopic''), (''chat_id'', QInt chatId),
       (''forum_topic_id'', QInt forumTopicId),
       (''@extra'', QString (''getForumTopic:'' @ show_int chatId @ '':'' @ show_int forumTopicId))])"

definition wr_addFavoriteSticker :: "int \<Rightarrow> wrapper \<Rightarrow> wrapper" where
  "wr_addFavoriteSticker fileId =
     wr_sendRequest (obj [(''@type'', QString ''addFavoriteSticker''),
       (''sticker'', QMap (obj [(''@type'', QString ''inputFileId''), (''id'', QInt fileId)]))])"

definition wr_removeFavoriteSticker :: "int \<Rightarrow> wrapper \<Rightarrow> wrapper" where
  "wr_removeFavoriteSticker fileId =
     wr_sendRequest (obj [(''@type'', QString ''removeFavoriteSticker''),
       (''sticker'', QMap (obj [(''@type'', QString ''inputFileId''), (''id'', QInt fileId)]))])"

definition wr_getChatSimilarChats :: "int \<Rightarrow> wrapper \<Rightarrow> wrapper" where
  "wr_getChatSimilarChats chatId =
     wr_sendRequest (obj [(''@type'', QString ''getChatSimilarChats''), (''chat_id'', QInt chatId),
       (''@extra'', QString (''getChatSimilarChats:'' @ show_int chatId))])"

definition wr_getBotSimilarBots :: "int \<Rightarrow> wrapper \<Rightarrow> wrapper" where
  "wr_getBotSimilarBots botUserId =
     wr_sendRequest (obj [(''@type'', QString ''getBotSimilarBots''), (''bot_user_id'', QInt botUserId),
       (''@extra'', QString (''getBotSimilarBots:'' @ show_int botUserId))])"

definition wr_addProxy :: "vmap \<Rightarrow> string \<Rightarrow> bool \<Rightarrow> string \<Rightarrow> wrapper \<Rightarrow> wrapper" where
  "wr_addProxy proxy extra enable comment =
     wr_sendRequest (obj [(''@type'', QString ''addProxy''), (''proxy'', QMap proxy),
       (''enable'', QBool enable), (''comment'', QString comment), (''@extra'', QString extra)])"

definition wr_editProxy :: "int \<Rightarrow> string \<Rightarrow> int \<Rightarrow> vmap \<Rightarrow> bool \<Rightarrow> string \<Rightarrow> wrapper \<Rightarrow> wrapper" where
  "wr_editProxy proxyId server port type enable comment =
     wr_sendRequest (obj [(''@type'', QString ''editProxy''), (''proxy_id'', QInt proxyId),
       (''proxy'', QMap (getProxyObject server port type)), (''enable'', QBool enable),
       (''comment'', QString comment)])"

definition wr_enableProxy :: "int \<Rightarrow> wrapper \<Rightarrow> wrapper" where
  "wr_enableProxy proxyId =
     wr_sendRequest (obj [(''@type'', QString ''enableProxy''), (''proxy_id'', QInt proxyId),
       (''@extra'', QString (''enableProxy:'' @ show_int proxyId))])"

definition wr_disableProxy :: "wrapper \<Rightarrow> wrapper" where
  "wr_disableProxy =
     wr_sendRequest (obj [(''@type'', QString ''disableProxy''), (''@extra'', QString ''disableProxy'')])"

definition wr_removeProxy :: "int \<Rightarrow> wrapper \<Rightarrow> wrapper" where
  "wr_removeProxy proxyId =
     wr_sendRequest (obj [(''@type'', QString ''removeProxy''), (''proxy_id'', QInt proxyId),
       (''@extra'', QString (''removeProxy:'' @ show_int proxyId))])"

definition wr_getProxies :: "wrapper \<Rightarrow> wrapper" where
  "wr_getProxies =
     wr_sendRequest (obj [(''@type'', QString ''getProxies'')])"

definition wr_pingProxy :: "wrapper \<Rightarrow> wrapper" where
  "wr_pingProxy =
     wr_sendRequest (obj [(''@type'', QString ''pingProxy''), (''@extra'', QString ''ping'')])"

definition wr_pingProxy2 :: "vmap \<Rightarrow> wrapper \<Rightarrow> wrapper" where
  "wr_pingProxy2 proxy =
     wr_sendRequest (obj [(''@type'', QString ''pingProxy''), (''proxy'', QMap proxy),
       (''@extra'', QMap proxy)])"

definition wr_getInternalLink :: "vmap \<Rightarrow> string \<Rightarrow> bool \<Rightarrow> wrapper \<Rightarrow> wrapper" where
  "wr_getInternalLink type extra isHttp =
     wr_sendRequest (obj [(''@type'', QString ''getInternalLink''), (''type'', QMap type),
       (''is_http'', QBool isHttp), (''@extra'', QString extra)])"

definition wr_destroyInstance :: "wrapper \<Rightarrow> wrapper" where
  "wr_destroyInstance =
     wr_sendRequest (obj [(''@type'', QString ''destroy'')])"

definition wr_getScopeNotificationSettings :: "notification_scope \<Rightarrow> wrapper \<Rightarrow> wrapper" where
  "wr_getScopeNotificationSettings scope =
     wr_sendRequest (obj [(''@type'', QString ''getScopeNotificationSettings''),
       (''scope'', QMap (getNotificationSettingsScope scope))])"

definition wr_setScopeNotificationSettings :: "notification_scope \<Rightarrow> vmap \<Rightarrow> wrapper \<Rightarrow> wrapper" where
  "wr_setScopeNotificationSettings scope settings =
     wr_sendRequest (obj [(''@type'', QString ''setScopeNotificationSettings''),
       (''scope'', QMap (getNotificationSettingsScope scope)), (''notification_settings'', QMap settings)])"

definition wr_getSavedNotificationSound2 :: "string \<Rightarrow> wrapper \<Rightarrow> wrapper" where
  "wr_getSavedNotificationSound2 notificationSoundId =
     wr_sendRequest (obj [(''@type'', QString ''getSavedNotificationSound''),
       (''notification_sound_id'', QString notificationSoundId),
       (''@extra'', QString (''getSavedNotificationSound:'' @ notificationSoundId))])"

definition wr_getSavedNotificationSounds :: "wrapper \<Rightarrow> wrapper" where
  "wr_getSavedNotificationSounds =
     wr_sendRequest (obj [(''@type'', QString ''getSavedNotificationSounds'')])"

definition wr_removeSavedNotificationSound :: "string \<Rightarrow> wrapper \<Rightarrow> wrapper" where
  "wr_removeSavedNotificationSound notificationSoundId =
     wr_sendRequest (obj [(''@type'', QString ''removeSavedNotificationSound''),
       (''notification_sound_id'', QString notificationSoundId)])"

definition wr_addSavedNotificationSound :: "string \<Rightarrow> wrapper \<Rightarrow> wrapper" where
  "wr_addSavedNotificationSound path =
     wr_sendRequest (obj [(''@type'', QString ''addSavedNotificationSound''),
       (''sound'', QMap (getInputFileLocal path)), (''@extra'', QString ''localSaved'')])"

definition wr_addSavedNotificationSound2 :: "int \<Rightarrow> wrapper \<Rightarrow> wrapper" where
  "wr_addSavedNotificationSound2 fileId =
     wr_sendRequest (obj [(''@type'', QString ''addSavedNotificationSound''),
       (''sound'', QMap (obj [(''@type'', QString ''inputFileId''), (''id'', QInt fileId)]))])"

definition wr_getFile :: "int \<Rightarrow> wrapper \<Rightarrow> wrapper" where
  "wr_getFile fileId =
     wr_sendRequest (obj [(''@type'', QString ''getFile''), (''file_id'', QInt fileId)])"

definition wr_createCall :: "int \<Rightarrow> vmap \<Rightarrow> bool \<Rightarrow> wrapper \<Rightarrow> wrapper" where
  "wr_createCall userId protocol isVideo =
     wr_sendRequest (obj [(''@type'', QString ''createCall''), (''user_id'', QInt userId),
       (''protocol'', QMap protocol), (''is_video'', QBool isVideo)])"

definition wr_discardCall :: "int \<Rightarrow> int \<Rightarrow> wrapper \<Rightarrow> wrapper" where
  "wr_discardCall callId duration =
     (let request = obj [(''@type'', QString ''discardCall''), (''call_id'', QInt callId)];
          request = (if duration \<noteq> 0 then minsert ''duration'' (QInt duration) request else request)
      in wr_sendRequest request)"

definition wr_acceptCall :: "int \<Rightarrow> vmap \<Rightarrow> wrapper \<Rightarrow> wrapper" where
  "wr_acceptCall callId protocol =
     wr_sendRequest (obj [(''@type'', QString ''acceptCall''), (''call_id'', QInt callId),
       (''protocol'', QMap protocol)])"

definition wr_addPollOption :: "int \<Rightarrow> int \<Rightarrow> string \<Rightarrow> wrapper \<Rightarrow> wrapper" where
  "wr_addPollOption chatId messageId txt =
     wr_sendRequest (obj [(''@type'', QString ''addPollOption''), (''chat_id'', QInt chatId),
       (''message_id'', QInt messageId), (''option'', QMap (obj [(''@type'', QString ''inputPollOption''),
       (''text'', QMap (formattedTextMap txt))]))])"

definition wr_getMessageReadDate :: "int \<Rightarrow> int \<Rightarrow> wrapper \<Rightarrow> wrapper" where
  "wr_getMessageReadDate chatId messageId =
     (let request = obj [(''chat_id'', QInt chatId), (''message_id'', QInt messageId)];
          extra = request;
          request = minsert ''@extra'' (QMap extra) request;
          request = minsert ''@type'' (QString ''getMessageReadDate'') request
      in wr_sendRequest request)"

definition wr_getAndOpenSupportUser :: "wrapper \<Rightarrow> wrapper" where
  "wr_getAndOpenSupportUser =
     wr_sendRequest (obj [(''@type'', QString ''getSupportUser''), (''@extra'', QBool True)])"

definition wr_unpinAllChatMessages :: "int \<Rightarrow> wrapper \<Rightarrow> wrapper" where
  "wr_unpinAllChatMessages chatId =
     wr_sendRequest (obj [(''@type'', QString ''unpinAllChatMessages''), (''chat_id'', QInt chatId)])"

definition wr_removeNotification :: "int \<Rightarrow> int \<Rightarrow> wrapper \<Rightarrow> wrapper" where
  "wr_removeNotification groupId i =
     wr_sendRequest (obj [(''@type'', QString ''removeNotification''),
       (''notification_group_id'', QInt groupId), (''notification_id'', QInt i)])"

definition wr_removeNotificationGroup :: "int \<Rightarrow> int \<Rightarrow> wrapper \<Rightarrow> wrapper" where
  "wr_removeNotificationGroup groupId maxNotificationId =
     wr_sendRequest (obj [(''@type'', QString ''removeNotificationGroup''),
       (''notification_group_id'', QInt groupId), (''max_notification_id'', QInt maxNotificationId)])"

definition wr_getApplicationDownloadLink :: "wrapper \<Rightarrow> wrapper" where
  "wr_getApplicationDownloadLink =
     wr_sendRequest (obj [(''@type'', QString ''getApplicationDownloadLink''),
       (''@extra'', QString ''applicationDownloadLink'')])"

definition wr_setUserNote :: "int \<Rightarrow> vmap \<Rightarrow> wrapper \<Rightarrow> wrapper" where
  "wr_setUserNote userId note =
     wr_sendRequest (obj [(''@type'', QString ''setUserNote''), (''user_id'', QInt userId),
       (''note'', QMap note)])"

definition wr_viewSponsoredChat :: "int \<Rightarrow> wrapper \<Rightarrow> wrapper" where
  "wr_viewSponsoredChat uniqueId =
     wr_sendRequest (obj [(''@type'', QString ''viewSponsoredChat''),
       (''sponsored_chat_unique_id'', QInt uniqueId)])"

definition wr_openSponsoredChat :: "int \<Rightarrow> wrapper \<Rightarrow> wrapper" where
  "wr_openSponsoredChat uniqueId =
     wr_sendRequest (obj [(''@type'', QString ''openSponsoredChat''),
       (''sponsored_chat_unique_id'', QInt uniqueId)])"

definition wr_fetchOption :: "string \<Rightarrow> wrapper \<Rightarrow> wrapper" where
  "wr_fetchOption name =
     wr_sendRequest (obj [(''@type'', QString ''getOption''), (''name'', QString name),
       (''@extra'', QString name)])"

definition wr_loadCommunityFullInfo :: "int \<Rightarrow> wrapper \<Rightarrow> wrapper" where
  "wr_loadCommunityFullInfo i =
     wr_sendRequest (obj [(''@type'', QString ''loadCommunityFullInfo''), (''community_id'', QInt i)])"

definition wr_createCommunity :: "string \<Rightarrow> int \<Rightarrow> bool \<Rightarrow> wrapper \<Rightarrow> wrapper" where
  "wr_createCommunity name chatId isChatHidden =
     wr_sendRequest (obj [(''@type'', QString ''createCommunity''), (''chat_id'', QInt chatId),
       (''is_chat_hidden'', QBool isChatHidden)])"

definition wr_setCommunityName :: "int \<Rightarrow> string \<Rightarrow> wrapper \<Rightarrow> wrapper" where
  "wr_setCommunityName i name =
     wr_sendRequest (obj [(''@type'', QString ''setCommunityName''), (''community_id'', QInt i),
       (''name'', QString name)])"

definition wr_deleteSavedOrderInfo :: "wrapper \<Rightarrow> wrapper" where
  "wr_deleteSavedOrderInfo =
     wr_sendRequest (obj [(''@type'', QString ''deleteSavedOrderInfo'')])"

definition wr_deleteSavedCredentials :: "wrapper \<Rightarrow> wrapper" where
  "wr_deleteSavedCredentials =
     wr_sendRequest (obj [(''@type'', QString ''deleteSavedCredentials'')])"

definition wr_toggleSupergroupIsBroadcastGroup :: "int \<Rightarrow> wrapper \<Rightarrow> wrapper" where
  "wr_toggleSupergroupIsBroadcastGroup supergroupId =
     wr_sendRequest (obj [(''@type'', QString ''toggleSupergroupIsBroadcastGroup''),
       (''supergroup_id'', QInt supergroupId)])"

definition wr_openChatSimilarChat :: "int \<Rightarrow> int \<Rightarrow> wrapper \<Rightarrow> wrapper" where
  "wr_openChatSimilarChat chatId openedChatId =
     wr_sendRequest (obj [(''@type'', QString ''openChatSimilarChat''), (''chat_id'', QInt chatId),
       (''opened_chat_id'', QInt openedChatId)])"

definition wr_openBotSimilarBot :: "int \<Rightarrow> int \<Rightarrow> wrapper \<Rightarrow> wrapper" where
  "wr_openBotSimilarBot botId openedBotId =
     wr_sendRequest (obj [(''@type'', QString ''openBotSimilarBot''), (''bot_user_id'', QInt botId),
       (''opened_bot_user_id'', QInt openedBotId)])"

definition wr_getStakeDiceState :: "wrapper \<Rightarrow> wrapper" where
  "wr_getStakeDiceState =
     wr_sendRequest (obj [(''@type'', QString ''getStakeDiceState'')])"

definition wr_getUserLink :: "wrapper \<Rightarrow> wrapper" where
  "wr_getUserLink =
     wr_sendRequest (obj [(''@type'', QString ''getUserLink'')])"

definition wr_setMainProfileTab :: "string \<Rightarrow> wrapper \<Rightarrow> wrapper" where
  "wr_setMainProfileTab type =
     wr_sendRequest (obj [(''@type'', QString ''setMainProfileTab''),
       (''main_profile_tab'', QMap (obj [(''@type'', QString type)]))])"

definition wr_setSupergroupMainProfileTab :: "int \<Rightarrow> string \<Rightarrow> wrapper \<Rightarrow> wrapper" where
  "wr_setSupergroupMainProfileTab supergroupId type =
     wr_sendRequest (obj [(''@type'', QString ''setSupergroupMainProfileTab''),
       (''supergroup_id'', QInt supergroupId), (''main_profile_tab'', QMap (obj [(''@type'', QString type)]))])"

definition wr_applyUnpaidMessagesToken :: "int \<Rightarrow> string \<Rightarrow> wrapper \<Rightarrow> wrapper" where
  "wr_applyUnpaidMessagesToken userId token =
     wr_sendRequest (obj [(''@type'', QString ''applyUnpaidMessagesToken''), (''user_id'', QInt userId),
       (''token'', QString token)])"

definition wr_processWebProxyCarrierMessage :: "int \<Rightarrow> bool \<Rightarrow> string \<Rightarrow> wrapper \<Rightarrow> wrapper" where
  "wr_processWebProxyCarrierMessage carriedId isBytes message =
     (let messageObject = fmempty;
          messageObject = (if isBytes
            then (let messageObject = minsert ''@type'' (QString ''webProxyCarrierMessageBinary'') messageObject
      in minsert ''data'' (QString message) messageObject)
        else (let messageObject = minsert ''@type'' (QString ''webProxyCarrierMessageText'') messageObject
      in minsert ''text'' (QString message) messageObject))
      in wr_sendRequest (obj [(''@type'', QString ''processWebProxyCarrierMessage''),
        (''carrier_id'', QInt carriedId), (''message'', QMap messageObject)]))"

definition wr_reportWebProxyCarrierError2 :: "int \<Rightarrow> string \<Rightarrow> wrapper \<Rightarrow> wrapper" where
  "wr_reportWebProxyCarrierError2 carrierId message =
     wr_sendRequest (obj [(''@type'', QString ''reportWebProxyCarrierError''),
       (''carrier_id'', QInt carrierId),
       (''error'', QMap (obj [(''@type'', QString ''webProxyCarrierErrorLoadFailed''),
       (''message'', QString message)]))])"

section \<open>Requests with more to them\<close>

definition wr_viewMessages :: "int \<Rightarrow> qvariant list \<Rightarrow> bool \<Rightarrow> message_source \<Rightarrow> wrapper \<Rightarrow> wrapper" where
  "wr_viewMessages chatId messageIds force source =
     (let request = obj [(''@type'', QString ''viewMessages''), (''chat_id'', QInt chatId),
            (''force_read'', QBool force), (''message_ids'', QList messageIds)]
      in wr_sendRequest (if source \<noteq> MessageSourceAuto
           then minsert ''source'' (QMap (obj [(''@type'', QString (getMessageSourceType source))])) request
           else request))"

definition wr_viewMessage :: "int \<Rightarrow> int \<Rightarrow> bool \<Rightarrow> message_source \<Rightarrow> wrapper \<Rightarrow> wrapper" where
  "wr_viewMessage chatId messageId force source = wr_viewMessages chatId [QInt messageId] force source"

definition wr_sendLocationMessage ::
    "int \<Rightarrow> qvariant \<Rightarrow> qvariant \<Rightarrow> qvariant \<Rightarrow> int \<Rightarrow> vmap \<Rightarrow> wrapper \<Rightarrow> wrapper" where
  "wr_sendLocationMessage chatId latitude longitude horizontalAccuracy replyToMessageId topicId =
     wr_sendMessage chatId replyToMessageId topicId
       (obj [(''@type'', QString ''inputMessageLocation''),
         (''location'', QMap (obj [(''@type'', QString ''location''), (''latitude'', latitude),
            (''longitude'', longitude), (''horizontal_accuracy'', horizontalAccuracy)]))]) fmempty"

definition wr_sendStickerMessage :: "int \<Rightarrow> string \<Rightarrow> int \<Rightarrow> vmap \<Rightarrow> wrapper \<Rightarrow> wrapper" where
  "wr_sendStickerMessage chatId fileId replyToMessageId topicId =
     wr_sendMessage chatId replyToMessageId topicId
       (obj [(''@type'', QString ''inputMessageSticker''),
         (''sticker'', QMap (obj [(''sticker'',
            QMap (obj [(''@type'', QString ''inputFileRemote''), (''id'', QString fileId)]))]))]) fmempty"

text \<open>The formatted text of the description is made and dropped.\<close>

definition pollContent ::
    "string \<Rightarrow> string list \<Rightarrow> string \<Rightarrow> bool \<Rightarrow> bool \<Rightarrow> bool \<Rightarrow> bool \<Rightarrow> int \<Rightarrow> bool \<Rightarrow> bool \<Rightarrow> qvariant list \<Rightarrow> string \<Rightarrow> vmap" where
  "pollContent question opts description anonymous multiple revoting shuffle openPeriod hideResultsUntilCloses
     allowAddingOptions correctOptions explanation =
     (let content = obj [(''@type'', QString ''inputMessagePoll''), (''question'', QMap (formattedTextMap question)),
            (''is_anonymous'', QBool anonymous), (''allows_multiple_answers'', QBool multiple),
            (''allows_revoting'', QBool revoting), (''shuffle_options'', QBool shuffle)];
          newOptions = map (\<lambda>opt. QMap (obj [(''@type'', QString ''inputPollOption''),
            (''text'', QMap (formattedTextMap opt))])) opts;
          content = minsert ''options'' (QList newOptions) content;
          pollType = (if correctOptions \<noteq> []
            then (let quiz = obj [(''@type'', QString ''inputPollTypeQuiz''), (''correct_option_ids'', QList correctOptions)]
                  in if explanation \<noteq> [] then minsert ''explanation'' (QMap (formattedTextMap explanation)) quiz else quiz)
            else obj [(''@type'', QString ''inputPollTypeRegular''), (''allow_adding_options'', QBool allowAddingOptions)]);
          content = minsert ''type'' (QMap pollType) content
      in if openPeriod \<noteq> 0
         then minsert ''hide_results_until_closes'' (QBool hideResultsUntilCloses)
                (minsert ''open_period'' (QInt openPeriod) content)
         else content)"

definition wr_sendPollMessage ::
    "int \<Rightarrow> string \<Rightarrow> string list \<Rightarrow> string \<Rightarrow> bool \<Rightarrow> bool \<Rightarrow> bool \<Rightarrow> bool \<Rightarrow> int \<Rightarrow> bool \<Rightarrow> bool \<Rightarrow> qvariant list \<Rightarrow> string \<Rightarrow>
     int \<Rightarrow> vmap \<Rightarrow> wrapper \<Rightarrow> wrapper" where
  "wr_sendPollMessage chatId question opts description anonymous multiple revoting shuffle openPeriod
     hideResultsUntilCloses allowAddingOptions correctOptions explanation replyToMessageId topicId =
     wr_sendMessage chatId replyToMessageId topicId
       (pollContent question opts description anonymous multiple revoting shuffle openPeriod hideResultsUntilCloses
          allowAddingOptions correctOptions explanation) fmempty"

definition wr_sendDiceMessage :: "int \<Rightarrow> string \<Rightarrow> int \<Rightarrow> vmap \<Rightarrow> bool \<Rightarrow> wrapper \<Rightarrow> wrapper" where
  "wr_sendDiceMessage chatId emoji replyToMessageId topicId clearDraft =
     wr_sendMessage chatId replyToMessageId topicId
       (obj [(''@type'', QString ''inputMessageDice''), (''emoji'', QString emoji), (''clear_draft'', QBool clearDraft)])
       fmempty"

definition wr_getMessageWithSlot :: "int \<Rightarrow> int \<Rightarrow> response_slot \<Rightarrow> wrapper \<Rightarrow> wrapper" where
  "wr_getMessageWithSlot chatId messageId sl =
     wr_sendRequestWithSlot (obj [(''@type'', QString ''getMessage''), (''chat_id'', QInt chatId),
       (''message_id'', QInt messageId)]) sl"

text \<open>
  A variant of the type \<open>QString\<close> or any other is sent as a string; that of a number as an integer.
\<close>

fun wr_handleOptionsValueChanged :: "string \<Rightarrow> qvariant \<Rightarrow> wrapper \<Rightarrow> wrapper" where
  "wr_handleOptionsValueChanged name (QBool b) = wr_setOptionBoolean name b"
| "wr_handleOptionsValueChanged name (QInt i) = wr_setOptionInteger name i"
| "wr_handleOptionsValueChanged name QInvalid = wr_resetOption name"
| "wr_handleOptionsValueChanged name v = wr_setOptionString name (toString v)"

definition wr_getMapThumbnailFile ::
    "int \<Rightarrow> qvariant \<Rightarrow> qvariant \<Rightarrow> int \<Rightarrow> int \<Rightarrow> string \<Rightarrow> wrapper \<Rightarrow> wrapper" where
  "wr_getMapThumbnailFile chatId latitude longitude width height extra =
     wr_sendRequest (obj [(''@type'', QString ''getMapThumbnailFile''),
       (''location'', QMap (obj [(''latitude'', latitude), (''longitude'', longitude)])), (''zoom'', QInt 17),
       (''width'', QInt (min (max width 16) 1024)), (''height'', QInt (min (max height 16) 1024)), (''scale'', QInt 1),
       (''chat_id'', QInt chatId), (''@extra'', QString extra)])"

definition wr_setChatDraftMessage :: "int \<Rightarrow> int \<Rightarrow> string \<Rightarrow> vmap \<Rightarrow> wrapper \<Rightarrow> wrapper" where
  "wr_setChatDraftMessage chatId replyToMessageId draft topicId =
     (let request = obj [(''@type'', QString ''setChatDraftMessage''), (''chat_id'', QInt chatId)];
          request = (if \<not> mempty topicId then minsert ''topic_id'' (QMap topicId) request else request);
          draftMsg = obj [(''@type'', QString ''draftMessage''),
            (''content'', QMap (obj [(''@type'', QString ''draftMessageContentText''),
               (''text'', QMap (formattedTextMap draft))]))];
          draftMsg = (if replyToMessageId \<noteq> 0
            then minsert ''reply_to'' (QMap (obj [(''@type'', QString ''inputMessageReplyToMessage''),
                   (''message_id'', QInt replyToMessageId)])) draftMsg
            else draftMsg)
      in wr_sendRequest (if draft \<noteq> [] \<or> replyToMessageId \<noteq> 0
           then minsert ''draft_message'' (QMap draftMsg) request else request))"

definition privacySettingType :: "int \<Rightarrow> string" where
  "privacySettingType setting =
     (if setting = SettingShowStatus then ''userPrivacySettingShowStatus''
      else if setting = SettingShowPhoneNumber then ''userPrivacySettingShowPhoneNumber''
      else if setting = SettingAllowChatInvites then ''userPrivacySettingAllowChatInvites''
      else if setting = SettingShowProfilePhoto then ''userPrivacySettingShowProfilePhoto''
      else if setting = SettingAllowFindingByPhoneNumber then ''userPrivacySettingAllowFindingByPhoneNumber''
      else ''userPrivacySettingShowLinkInForwardedMessages'')"

fun privacyRuleType :: "privacy_rule \<Rightarrow> string" where
  "privacyRuleType RuleAllowAll = ''userPrivacySettingRuleAllowAll''"
| "privacyRuleType RuleAllowContacts = ''userPrivacySettingRuleAllowContacts''"
| "privacyRuleType RuleRestrictAll = ''userPrivacySettingRuleRestrictAll''"

definition wr_setUserPrivacySettingRule :: "int \<Rightarrow> privacy_rule \<Rightarrow> wrapper \<Rightarrow> wrapper" where
  "wr_setUserPrivacySettingRule setting rule s =
     (if setting = SettingUnknown then s
      else wr_sendRequest (obj [(''@type'', QString ''setUserPrivacySettingRules''),
             (''setting'', QMap (obj [(''@type'', QString (privacySettingType setting))])),
             (''rules'', QMap (obj [(''@type'', QString ''userPrivacySettingRules''),
                (''rules'', QList [QMap (obj [(''@type'', QString (privacyRuleType rule))])])]))]) s)"

definition wr_getUserPrivacySettingRules :: "int \<Rightarrow> wrapper \<Rightarrow> wrapper" where
  "wr_getUserPrivacySettingRules setting s =
     (if setting = SettingUnknown then s
      else wr_sendRequest (obj [(''@type'', QString ''getUserPrivacySettingRules''), (''@extra'', QInt setting),
             (''setting'', QMap (obj [(''@type'', QString (privacySettingType setting))]))]) s)"

definition wr_addMessageEmojiReaction :: "int \<Rightarrow> int \<Rightarrow> string \<Rightarrow> wrapper \<Rightarrow> wrapper" where
  "wr_addMessageEmojiReaction chatId messageId reaction =
     wr_addMessageReaction chatId messageId
       (obj [(''@type'', QString ''reactionTypeEmoji''), (''emoji'', QString reaction)]) False False"

definition wr_setNetworkType :: "network_type \<Rightarrow> wrapper \<Rightarrow> wrapper" where
  "wr_setNetworkType networkType =
     wr_sendRequest (obj [(''@type'', QString ''setNetworkType''), (''@extra'', QString ''setNetworkType''),
       (''type'', QMap (obj [(''@type'', QString (networkTypeType networkType))]))])"

definition wr_getCustomEmojiStickersWithSlot :: "string list \<Rightarrow> wrapper \<Rightarrow> wrapper" where
  "wr_getCustomEmojiStickersWithSlot ids =
     wr_sendRequestWithSlot (obj [(''@type'', QString ''getCustomEmojiStickers''), (''custom_emoji_ids'', strings ids)])
       CustomEmojiSlot"

definition wr_getCustomEmojiSticker :: "string \<Rightarrow> qvariant \<Rightarrow> wrapper \<Rightarrow> wrapper" where
  "wr_getCustomEmojiSticker i extra = wr_getCustomEmojiStickers [i] extra"

definition allFileTypes :: "string list" where
  "allFileTypes =
     [''fileTypeAnimation'', ''fileTypeAudio'', ''fileTypeDocument'', ''fileTypeNone'', ''fileTypeNotificationSound'',
      ''fileTypePhoto'', ''fileTypePhotoStory'', ''fileTypeProfilePhoto'', ''fileTypeSecret'', ''fileTypeSecretThumbnail'',
      ''fileTypeSecure'', ''fileTypeSelfDestructingPhoto'', ''fileTypeSelfDestructingVideo'',
      ''fileTypeSelfDestructingVideoNote'', ''fileTypeSelfDestructingVoiceNote'', ''fileTypeSticker'', ''fileTypeThumbnail'',
      ''fileTypeUnknown'', ''fileTypeVideo'', ''fileTypeVideoNote'', ''fileTypeVideoStory'', ''fileTypeVoiceNote'',
      ''fileTypeWallpaper'']"

definition wr_optimizeStorage :: "bool \<Rightarrow> wrapper \<Rightarrow> wrapper" where
  "wr_optimizeStorage entire =
     (let request = obj [(''@type'', QString ''optimizeStorage'')]
      in wr_sendRequest (if entire
           then minsert ''file_types'' (QList (map (\<lambda>t. QMap (obj [(''@type'', QString t)])) allFileTypes))
                  (minsert ''size'' (QInt 0) request)
           else request))"

definition wr_setArchiveChatListSettings :: "bool \<Rightarrow> bool \<Rightarrow> bool \<Rightarrow> wrapper \<Rightarrow> wrapper" where
  "wr_setArchiveChatListSettings archiveAndMute keepUnmuted keepFromFolders s =
     wr_sendRequest (obj [(''@type'', QString ''setArchiveChatListSettings''),
       (''settings'', QMap (obj
          [(''archive_and_mute_new_chats_from_unknown_users'',
              QBool (archiveAndMute \<and>
                toBool (td_getOption ''can_archive_and_mute_new_chats_from_unknown_users'' (wr_store s)))),
           (''keep_unmuted_chats_archived'', QBool keepUnmuted),
           (''keep_chats_from_folders_archived'', QBool keepFromFolders)]))]) s"

definition wr_addProxyTo :: "string \<Rightarrow> int \<Rightarrow> vmap \<Rightarrow> string \<Rightarrow> bool \<Rightarrow> string \<Rightarrow> wrapper \<Rightarrow> wrapper" where
  "wr_addProxyTo server port type extra enable comment =
     wr_addProxy (getProxyObject server port type) extra enable comment"

definition wr_pingProxyTo :: "string \<Rightarrow> int \<Rightarrow> vmap \<Rightarrow> wrapper \<Rightarrow> wrapper" where
  "wr_pingProxyTo server port type = wr_pingProxy2 (getProxyObject server port type)"

definition wr_getScopeNotificationSettingsAll :: "wrapper \<Rightarrow> wrapper" where
  "wr_getScopeNotificationSettingsAll =
     fold wr_getScopeNotificationSettings [NotificationSettingsScopePrivateChats, NotificationSettingsScopeGroupChats,
       NotificationSettingsScopeChannelChats]"

definition wr_getSavedNotificationSoundWithSlot :: "int \<Rightarrow> response_slot \<Rightarrow> wrapper \<Rightarrow> wrapper" where
  "wr_getSavedNotificationSoundWithSlot soundId sl =
     wr_sendRequestWithSlot (obj [(''@type'', QString ''getSavedNotificationSound''),
       (''notification_sound_id'', QString (show_int soundId))]) sl"

definition wr_sendCallSignalingData :: "int \<Rightarrow> nat list \<Rightarrow> wrapper \<Rightarrow> wrapper" where
  "wr_sendCallSignalingData callId data =
     wr_sendRequest (obj [(''@type'', QString ''sendCallSignalingData''), (''call_id'', QInt callId),
       (''data'', QString (toBase64 data))])"

definition wr_reportWebProxyCarrierErrorType :: "int \<Rightarrow> carrier_error \<Rightarrow> wrapper \<Rightarrow> wrapper" where
  "wr_reportWebProxyCarrierErrorType carrierId e =
     wr_sendRequest (obj [(''@type'', QString ''reportWebProxyCarrierError''), (''carrier_id'', QInt carrierId),
       (''error'', QMap (obj [(''@type'', QString (carrierErrorType e))]))])"

definition wr_clickAnimatedEmojiMessage :: "int \<Rightarrow> int \<Rightarrow> wrapper \<Rightarrow> wrapper" where
  "wr_clickAnimatedEmojiMessage chatId messageId =
     wr_sendRequestWithSlot (obj [(''@type'', QString ''clickAnimatedEmojiMessage''), (''chat_id'', QInt chatId),
       (''message_id'', QInt messageId)]) (AnimatedEmojiSlot chatId messageId)"

end
