(* ===== verification/Wrapper.thy ===== *)
theory Wrapper imports Requests
begin

text \<open>
  \<open>TDLibWrapper\<close> beyond its requests (\<open>src/tdlib/tdlibwrapper.cpp\<close>): the client of TDLib and its
  authorization, what becomes of the signals of \<open>TDLibReceiver\<close>, the answers to requests with an id
  (\<open>src/tdlib/tdlibresponse.cpp\<close>), links, and the settings TDLib is told.

  The platform is in the environment: files, directories, names of the device, the clients
  TDLib makes. An operation that reads a list out of range, or never returns, is \<open>None\<close>.
\<close>

section \<open>The surroundings\<close>

datatype log_stream = LogStreamDefault | LogStreamEmpty | LogStreamDocumentsFile

datatype sponsored_mess =
  SponsoredMessHandle | SponsoredMessIgnore | SponsoredMessAutoView | SponsoredMessHandleCustomMessagesBetween

datatype sponsored_chats = SponsoredChatsHandle | SponsoredChatsIgnore | SponsoredChatsAutoView

datatype bearer = BearerWLAN | BearerMobile | BearerEthernet | BearerOther

record app_settings =
  storageOptimizer :: bool
  onlineOnlyMode :: bool
  tdLogVerbosity :: int
  logStream :: log_stream
  sponsoredMess :: sponsored_mess
  sponsoredMessagesMessagesBetween :: int
  sponsoredChats :: sponsored_chats
  sendMarkdown :: bool

record wrapper_env =
  we_receiver :: receiver_env
  we_settings :: app_settings
  td_execute :: "vmap \<Rightarrow> vmap"
  newClientId :: "int \<Rightarrow> int"
  fileExists :: "string \<Rightarrow> bool"
  fileCopied :: "string \<Rightarrow> string \<Rightarrow> bool"
  appDataDir :: string
  cacheDir :: string
  downloadDir :: string
  documentsDir :: string
  localeName :: string
  deviceModel :: string
  productName :: string
  appVersion :: string
  apiId :: int
  apiHash :: string
  dateTime :: string
  messageText :: "vmap \<Rightarrow> string"

section \<open>Settings TDLib is told\<close>

definition wr_handleStorageOptimizerChanged :: "wrapper_env \<Rightarrow> wrapper \<Rightarrow> wrapper" where
  "wr_handleStorageOptimizerChanged env =
     wr_setOptionBoolean ''use_storage_optimizer'' (storageOptimizer (we_settings env))"

definition wr_handleSendMarkdownChanged :: "wrapper_env \<Rightarrow> wrapper \<Rightarrow> wrapper" where
  "wr_handleSendMarkdownChanged env = wr_setOptionBoolean ''always_parse_markdown'' (sendMarkdown (we_settings env))"

definition wr_handleSettingsLogVerbosityLevelChanged :: "wrapper_env \<Rightarrow> wrapper \<Rightarrow> wrapper" where
  "wr_handleSettingsLogVerbosityLevelChanged env = wr_setLogVerbosityLevel (tdLogVerbosity (we_settings env))"

definition wr_searchEmojis :: "wrapper_env \<Rightarrow> string \<Rightarrow> wrapper \<Rightarrow> wrapper" where
  "wr_searchEmojis env txt =
     wr_sendRequest (obj [(''@type'', QString ''searchEmojis''), (''text'', QString txt), (''@extra'', QString txt),
       (''input_language_codes'', QList [QString (localeName env)])])"

text \<open>The file of the log: a name with the date, with a number from 2 where it is taken already.\<close>

definition logPath :: "wrapper_env \<Rightarrow> string \<Rightarrow> string" where
  "logPath env suffix = documentsDir env @ ''/yast-td-log-'' @ dateTime env @ suffix @ ''.txt''"

definition numbered :: "int \<Rightarrow> string" where
  "numbered i = CHR ''-'' # show_int i"

partial_function (option) freeLogNumber :: "wrapper_env \<Rightarrow> int \<Rightarrow> int option" where
  "freeLogNumber env i = (if fileExists env (logPath env (numbered i)) then freeLogNumber env (i + 1) else Some i)"

declare freeLogNumber.simps [code]

definition newLogPath :: "wrapper_env \<Rightarrow> string option" where
  "newLogPath env =
     (if fileExists env (logPath env [])
      then map_option (\<lambda>i. logPath env (numbered i)) (freeLogNumber env 2)
      else Some (logPath env []))"

definition wr_handleLogStreamChanged :: "wrapper_env \<Rightarrow> wrapper \<Rightarrow> wrapper option" where
  "wr_handleLogStreamChanged env s =
     (let send = (\<lambda>stream. wr_sendRequest (obj [(''@type'', QString ''setLogStream''), (''log_stream'', QMap stream)]) s)
      in case logStream (we_settings env) of
           LogStreamDefault \<Rightarrow> Some (send (obj [(''@type'', QString ''logStreamDefault'')]))
         | LogStreamEmpty \<Rightarrow> Some (send (obj [(''@type'', QString ''logStreamEmpty'')]))
         | LogStreamDocumentsFile \<Rightarrow>
             map_option (\<lambda>path. send (obj [(''@type'', QString ''logStreamFile''),
                 (''max_file_size'', QInt (1024 * 1024 * 50)), (''path'', QString path)])) (newLogPath env))"

definition wr_setInitialOptions :: "wrapper_env \<Rightarrow> wrapper \<Rightarrow> wrapper option" where
  "wr_setInitialOptions env s =
     map_option (\<lambda>s. wr_setOptionBoolean ''online'' True (wr_handleSendMarkdownChanged env
         (wr_handleStorageOptimizerChanged env (wr_setOptionInteger ''notification_group_count_max'' 5 s))))
       (wr_handleLogStreamChanged env (wr_handleSettingsLogVerbosityLevelChanged env s))"

definition wr_setTdlibParameters :: "wrapper_env \<Rightarrow> wrapper \<Rightarrow> wrapper" where
  "wr_setTdlibParameters env =
     (let online = onlineOnlyMode (we_settings env);
          version = (if appVersion env = [] then ''Unknown'' else appVersion env)
      in wr_sendRequest (obj [(''@type'', QString ''setTdlibParameters''), (''api_id'', QInt (apiId env)),
           (''api_hash'', QString (apiHash env)), (''database_directory'', QString (appDataDir env @ ''/tdlib'')),
           (''files_directory'', QString (cacheDir env @ ''/tdlib'')), (''use_file_database'', QBool (\<not> online)),
           (''use_chat_info_database'', QBool (\<not> online)), (''use_message_database'', QBool (\<not> online)),
           (''use_secret_chats'', QBool True), (''system_language_code'', QString (localeName env)),
           (''device_model'', QString (deviceModel env)), (''system_version'', QString (productName env)),
           (''application_version'', QString version)]))"

text \<open>The bearers of the active configurations, in the order they are listed.\<close>

fun activeNetwork :: "bearer list \<Rightarrow> network_type" where
  "activeNetwork [] = NetworkNone"
| "activeNetwork (b # bs) =
     (case b of BearerWLAN \<Rightarrow> NetworkWiFi | BearerMobile \<Rightarrow> NetworkMobile | BearerEthernet \<Rightarrow> NetworkOther
      | BearerOther \<Rightarrow> activeNetwork bs)"

definition wr_handleNetworkConfigurationChanged :: "bearer list \<Rightarrow> wrapper \<Rightarrow> wrapper" where
  "wr_handleNetworkConfigurationChanged bs = wr_setNetworkType (activeNetwork bs)"

definition wr_getMarkdownText :: "wrapper_env \<Rightarrow> vmap \<Rightarrow> vmap" where
  "wr_getMarkdownText env formattedText =
     td_execute env (obj [(''@type'', QString ''getMarkdownText''), (''text'', QMap formattedText)])"

text \<open>\<open>query\<close> is not part of the request. A position is compared as the number it holds.\<close>

definition wr_searchStringByPrefix :: "wrapper_env \<Rightarrow> string \<Rightarrow> string \<Rightarrow> bool" where
  "wr_searchStringByPrefix env str query =
     (let positions = toList (mvalue (td_execute env (obj [(''@type'', QString ''searchStringByPrefix''),
            (''strings'', strings [str]), (''limit'', QInt 1), (''return_none_for_empty_query'', QBool True)])) ''positions'')
      in positions \<noteq> [] \<and> toLongLong (hd positions) \<ge> 0)"

section \<open>Links\<close>

definition wr_getLinkWebBrowserType :: "string \<Rightarrow> bool \<Rightarrow> wrapper \<Rightarrow> wrapper" where
  "wr_getLinkWebBrowserType link skipConfirmation s =
     (if wr_authorizationState s \<noteq> AuthorizationReady
      then wr_signal ''openUrl'' [QString link, QBool False, QBool skipConfirmation] s
      else wr_sendRequest (obj [(''@type'', QString ''getLinkWebBrowserType''), (''link'', QString link),
             (''@extra'', QString (''getLinkWebBrowserType:'' @ (if skipConfirmation then ''!:'' else '':'') @ link))]) s)"

definition wr_getExternalLinkInfo :: "string \<Rightarrow> bool \<Rightarrow> wrapper \<Rightarrow> wrapper" where
  "wr_getExternalLinkInfo link skipConfirmation s =
     (if wr_authorizationState s \<noteq> AuthorizationReady
      then wr_signal ''openUrl'' [QString link, QBool False, QBool skipConfirmation] s
      else wr_sendRequest (obj [(''@type'', QString ''getExternalLinkInfo''), (''link'', QString link),
             (''@extra'', QString (''getExternalLinkInfo:'' @ (if skipConfirmation then ''!:'' else '':'') @ link))]) s)"

definition wr_getInternalLinkTypeOf :: "string \<Rightarrow> bool \<Rightarrow> bool \<Rightarrow> wrapper \<Rightarrow> wrapper" where
  "wr_getInternalLinkTypeOf link skipConfirmation checkExternalOnError =
     wr_sendRequestWithSlot (obj [(''@type'', QString ''getInternalLinkType''), (''link'', QString link)])
       (InternalLinkSlot link skipConfirmation checkExternalOnError)"

definition wr_handleInternalLinkTypeReceived :: "string \<Rightarrow> vmap \<Rightarrow> wrapper \<Rightarrow> wrapper" where
  "wr_handleInternalLinkTypeReceived type linkType s =
     (if type = ''internalLinkTypeProxy''
      then (let proxy = toMap (mvalue linkType ''proxy'')
            in wr_signal ''internalLinkTypeProxyReceived'' [QString (toString (mvalue proxy ''server'')),
                 QInt (toInt (mvalue proxy ''port'')), QMap (toMap (mvalue proxy ''type''))] s)
      else if type = ''internalLinkTypeSettings''
      then (let sect = toMap (mvalue linkType ''section'')
            in wr_signal ''internalLinkTypeSettingsReceived'' [QString (toString (mvalue sect ''@type'')),
                 QString (toString (mvalue sect ''subsection''))] s)
      else if wr_authorizationState s \<noteq> AuthorizationReady then s
      else if type = ''internalLinkTypePublicChat''
      then wr_searchPublicChatOpenDirectly (toString (mvalue linkType ''chat_username'')) s
      else if type = ''internalLinkTypeUserPhoneNumber''
      then wr_searchUserByPhoneNumber (toString (mvalue linkType ''phone_number'')) True s
      else if type = ''internalLinkTypeUserToken'' then wr_searchUserByToken (toString (mvalue linkType ''token'')) True s
      else if type = ''internalLinkTypeMessage'' then wr_getMessageLinkInfo (toString (mvalue linkType ''url'')) s
      else if type = ''internalLinkTypeChatInvite'' then wr_checkChatInviteLink (toString (mvalue linkType ''invite_link'')) s
      else if type = ''internalLinkTypeSavedMessages''
      then wr_createPrivateChat (td_myId (wr_store s)) (QString ''openDirectly'') s
      else if type = ''internalLinkTypeUnknownDeepLink'' then wr_getDeepLinkInfo (toString (mvalue linkType ''link'')) s
      else wr_signal ''linkUnsupportedByApp'' [QString (drop 16 type)] s)"

definition wr_handleLoginUrlInfoOpenReceived :: "string \<Rightarrow> bool \<Rightarrow> qvariant \<Rightarrow> wrapper \<Rightarrow> wrapper" where
  "wr_handleLoginUrlInfoOpenReceived url skipConfirmation extra =
     wr_getLinkWebBrowserType url (skipConfirmation \<or> part (qsplit CHR '':'' (toString extra)) 1 \<noteq> [])"

definition wr_handleLoginUrlConfirmationRequested ::
    "string \<Rightarrow> string \<Rightarrow> int \<Rightarrow> bool \<Rightarrow> qvariant \<Rightarrow> wrapper \<Rightarrow> wrapper" where
  "wr_handleLoginUrlConfirmationRequested url domain botUserId requestWriteAccess extra =
     wr_signal ''loginUrlConfirmationRequested'' [QString url, QString domain, QInt botUserId, QBool requestWriteAccess,
       QInt (toLongLong (mvalue (toMap extra) ''chat_id'')), QInt (toLongLong (mvalue (toMap extra) ''message_id'')),
       QInt (toLongLong (mvalue (toMap extra) ''button_id''))]"

definition wr_handleHttpUrlReceived :: "string \<Rightarrow> string \<Rightarrow> wrapper \<Rightarrow> wrapper" where
  "wr_handleHttpUrlReceived url extra =
     (if startsWith extra ''openLoginUrl:'' then wr_getLinkWebBrowserType url True
      else wr_signal ''httpUrlReceived'' [QString url, QString extra])"

definition wr_handleUserReceived :: "vmap \<Rightarrow> bool \<Rightarrow> wrapper \<Rightarrow> wrapper" where
  "wr_handleUserReceived user doOpenOnFound =
     (if doOpenOnFound then wr_createPrivateChat (toLongLong (mvalue user ''id'')) (QString ''openDirectly'')
      else wr_signal ''userReceived'' [QMap user])"

section \<open>Answers to requests with an id\<close>

definition wr_runSlot :: "wrapper_env \<Rightarrow> response_slot \<Rightarrow> string \<Rightarrow> vmap \<Rightarrow> wrapper \<Rightarrow> wrapper" where
  "wr_runSlot env sl type data s =
     (case sl of
        CallerSlot \<Rightarrow> s
      | InternalLinkSlot link skipConfirmation checkExternalOnError \<Rightarrow>
          (if type = ''error''
           then (if checkExternalOnError then wr_getExternalLinkInfo link skipConfirmation s
                 else wr_getLinkWebBrowserType link skipConfirmation s)
           else wr_handleInternalLinkTypeReceived type data s)
      | CustomEmojiSlot \<Rightarrow> wr_emit (CustomEmojis (cleanedList (we_receiver env) (toList (mvalue data ''stickers'')))) s
      | AnimatedEmojiSlot chatId messageId \<Rightarrow>
          (if type \<noteq> ''sticker'' then s
           else wr_signal ''animatedEmojiMessageClicked'' [QInt chatId, QInt messageId,
                  QMap (fmdrop ''@extra'' (cleanedMap (we_receiver env) data))] s))"

text \<open>\<open>TDLibResponse::handleResponseForRequestIdReceived\<close>: the object finishes and goes.\<close>

definition resp_handle :: "wrapper_env \<Rightarrow> int \<Rightarrow> vmap \<Rightarrow> int \<times> response_slot \<Rightarrow> wrapper \<Rightarrow> wrapper" where
  "resp_handle env rid response r s =
     (if fst r = rid
      then (let type = toString (mvalue response ''@type'');
                s1 = wr_runSlot env (snd r) type response (wr_emit (Finished (fst r) type response) s)
            in s1\<lparr>wr_responses := remove1 r (wr_responses s1)\<rparr>)
      else s)"

definition wr_responseForRequestId :: "wrapper_env \<Rightarrow> int \<Rightarrow> vmap \<Rightarrow> wrapper \<Rightarrow> wrapper" where
  "wr_responseForRequestId env rid response s = fold (resp_handle env rid response) (wr_responses s) s"

section \<open>What becomes of the other answers\<close>

text \<open>\<open>^(searchMessagesFilter[a-zA-Z]+)(!?):(-?[0-9]*)$\<close>, the end also before a last newline.\<close>

definition is_letter :: "char \<Rightarrow> bool" where
  "is_letter c \<longleftrightarrow> (let n = (of_char c :: nat) in 65 \<le> n \<and> n \<le> 90 \<or> 97 \<le> n \<and> n \<le> 122)"

definition countExtra :: "string \<Rightarrow> (string \<times> bool \<times> int) option" where
  "countExtra s =
     (let rest = drop 20 s; letters = takeWhile is_letter rest; r1 = drop (length letters) rest;
          local = startsWith r1 ''!''; r2 = (if local then tl r1 else r1); r3 = tl r2;
          sign = (if startsWith r3 ''-'' then ''-'' else []); digits = takeWhile is_digit (drop (length sign) r3)
      in if startsWith s ''searchMessagesFilter'' \<and> letters \<noteq> [] \<and> startsWith r2 '':'' \<and>
            drop (length sign + length digits) r3 \<in> {[], [CHR 0x0A]}
         then Some (''searchMessagesFilter'' @ letters, local, string_toLongLong (sign @ digits)) else None)"

definition wr_handleCountReceived :: "int \<Rightarrow> string \<Rightarrow> wrapper \<Rightarrow> wrapper" where
  "wr_handleCountReceived cnt extra =
     (case countExtra extra of
        Some (filterType, local, chatId) \<Rightarrow>
          wr_signal ''chatMessageCountReceived'' [QInt cnt, QInt chatId,
            QInt (filter_number (getSearchMessagesFilterForType filterType)), QBool local]
      | None \<Rightarrow> wr_signal ''countReceived'' [QInt cnt, QString extra])"

definition wr_errorFor :: "int \<Rightarrow> string \<Rightarrow> qvariant \<Rightarrow> wrapper \<Rightarrow> wrapper" where
  "wr_errorFor code message extra = wr_signal ''errorReceived'' [QInt code, QString message, extra]"

definition wr_stringError :: "int \<Rightarrow> string \<Rightarrow> string \<Rightarrow> wrapper \<Rightarrow> wrapper option" where
  "wr_stringError code message extra s =
     (let parts = qsplit CHR '':'' extra; n = length parts; first = part parts 0; second = part parts 1;
          report = wr_errorFor code message (QString extra)
      in if n = 3 \<and> first = ''getMessage''
         then Some (report (wr_signal ''messageNotFound'' [long_of second, long_of (part parts 2)] s))
         else if n \<ge> 3 \<and> first = ''getExternalLinkInfo''
         then Some (report (wr_getLinkWebBrowserType (qjoin CHR '':'' (drop 2 parts)) (second \<noteq> []) s))
         else if n \<ge> 2 \<and> first = ''openLoginUrl''
         then Some (report (wr_getLinkWebBrowserType (qjoin CHR '':'' (drop 2 parts)) True s))
         else if n \<ge> 3 \<and> first = ''getLinkWebBrowserType''
         then map_option (\<lambda>url. report (wr_signal ''openUrl'' [QString url, QBool False, QBool (second \<noteq> [])] s)) (qat parts 3)
         else if n = 3 \<and> first = ''getForumTopic''
         then Some (wr_signal ''forumTopicNotFound'' [long_of second, int_of (part parts 2)] s)
         else if n = 2 \<and> first = ''getSavedNotificationSound''
         then Some (wr_signal ''savedNotificationSoundErrorReceived'' [QString second] s)
         else if code = 404 \<and> n = 2 \<and> first \<in> {''loadChats'', ''loadChatsForFolder''} then Some s
         else (case countExtra extra of
                 Some (filterType, local, chatId) \<Rightarrow>
                   Some (report (wr_signal ''chatMessageCountErrorReceived'' [QInt chatId,
                     QInt (filter_number (getSearchMessagesFilterForType filterType)), QBool local] s))
               | None \<Rightarrow> Some (report s)))"

definition wr_handleErrorReceived :: "int \<Rightarrow> string \<Rightarrow> qvariant \<Rightarrow> wrapper \<Rightarrow> wrapper option" where
  "wr_handleErrorReceived code message extra s =
     (case extra of
        QString e \<Rightarrow>
          (if e = [] then Some (wr_errorFor code message extra s)
           else if e = ''ping'' then Some (wr_signal ''pingErrorReceived'' [] s)
           else wr_stringError code message e s)
      | QMap m \<Rightarrow>
          (if toString (mvalue m ''@type'') = ''proxy''
           then Some (wr_signal ''proxyPingErrorReceived'' [QString (toString (mvalue m ''server'')),
                  QInt (toInt (mvalue m ''port'')), QMap (toMap (mvalue m ''type''))] s)
           else Some (wr_errorFor code message extra s))
      | _ \<Rightarrow> Some (wr_errorFor code message extra s))"

definition wr_handleOkReceived :: "qvariant \<Rightarrow> wrapper \<Rightarrow> wrapper" where
  "wr_handleOkReceived extra =
     (let parts = (case extra of QString e \<Rightarrow> qsplit CHR '':'' e | _ \<Rightarrow> [])
      in if length parts = 2 \<and> part parts 0 = ''loadChats''
         then wr_signal (if part parts 1 \<noteq> [] then ''archiveChatListChatsLoaded'' else ''mainChatListChatsLoaded'') []
         else if length parts = 2 \<and> part parts 0 = ''loadChatsForFolder''
         then wr_signal ''folderChatListChatsLoaded'' [int_of (part parts 1)]
         else wr_signal ''okReceived'' [extra])"

definition wr_copyFileToDownloads :: "wrapper_env \<Rightarrow> int \<Rightarrow> string \<Rightarrow> bool \<Rightarrow> wrapper \<Rightarrow> wrapper" where
  "wr_copyFileToDownloads env fileId filePath openAfterCopy =
     (if fileExists env filePath
      then wr_sendRequest (obj [(''@type'', QString ''getSuggestedFileName''), (''file_id'', QInt fileId),
             (''directory'', QString (downloadDir env)),
             (''@extra'', QString (''getSuggestedFileName:'' @ (if openAfterCopy then ''!:'' else '':'') @ filePath))])
      else wr_signal ''copyToDownloadsError'' [])"

definition wr_handleTextReceived :: "wrapper_env \<Rightarrow> string \<Rightarrow> string \<Rightarrow> wrapper \<Rightarrow> wrapper" where
  "wr_handleTextReceived env txt extra s =
     (let parts = qsplit CHR '':'' extra
      in if length parts \<ge> 3 \<and> part parts 0 = ''getSuggestedFileName''
         then (let sourcePath = qjoin CHR '':'' (drop 2 parts); downloadFilePath = downloadDir env @ ''/'' @ txt
               in if \<not> fileExists env sourcePath then wr_signal ''copyToDownloadsError'' [] s
                  else if fileCopied env sourcePath downloadFilePath
                  then (let s1 = wr_emit (CopyFile sourcePath downloadFilePath) s
                        in if part parts 1 \<noteq> [] then wr_emit (OpenFile downloadFilePath) s1
                           else wr_signal ''copyToDownloadsSuccessful'' [QString txt, QString downloadFilePath] s1)
                  else wr_signal ''copyToDownloadsError'' [] s)
         else s)"

definition wr_handleStickerSets :: "qvariant list \<Rightarrow> int \<Rightarrow> string \<Rightarrow> wrapper \<Rightarrow> wrapper" where
  "wr_handleStickerSets stickerSets totalCount extra =
     (if startsWith extra ''installed''
      then wr_signal ''installedStickerSetsReceived'' [int_of (drop 9 extra), QList stickerSets]
      else wr_signal ''stickerSetsReceived'' [QList stickerSets])"

definition wr_handleStickersReceived :: "qvariant list \<Rightarrow> qvariant \<Rightarrow> wrapper \<Rightarrow> wrapper" where
  "wr_handleStickersReceived stickers extra =
     (if extra = QString ''recent'' then wr_signal ''recentStickersReceived'' [QList stickers]
      else if extra = QString ''favorite'' then wr_signal ''favoriteStickersReceived'' [QList stickers]
      else wr_signal ''stickersReceived'' [QList stickers, extra])"

definition wr_handleFoundChatMessagesReceived ::
    "int \<Rightarrow> int \<Rightarrow> int \<Rightarrow> qvariant list \<Rightarrow> int \<Rightarrow> int \<Rightarrow> wrapper \<Rightarrow> wrapper" where
  "wr_handleFoundChatMessagesReceived chatId extra extra2 messages totalCount nextFromMessageId =
     wr_signal ''foundChatMessagesReceived'' [QInt chatId, QInt extra, QInt extra2, QList messages, QInt totalCount,
       QInt nextFromMessageId]"

definition wr_handleAvailableReactionsReceived :: "int \<Rightarrow> int \<Rightarrow> vmap \<Rightarrow> vmap \<Rightarrow> wrapper \<Rightarrow> wrapper" where
  "wr_handleAvailableReactionsReceived chatId messageId reactions reasonMap =
     (let t = toString (mvalue reasonMap ''@type'');
          reason = (if t = ''reactionUnavailabilityReasonAnonymousAdministrator'' then 1
                    else if t = ''reactionUnavailabilityReasonGuest'' then 2
                    else if t = ''reactionUnavailabilityReasonRestricted'' then 3 else (0 :: int))
      in wr_signal ''availableReactionsReceived'' [QInt chatId, QInt messageId, QMap reactions, QInt reason])"

text \<open>\<open>QVariant::toULongLong\<close> read as the signed number of the same bits.\<close>

definition toULongLong :: "qvariant \<Rightarrow> int" where
  "toULongLong v =
     (case v of
        QString t \<Rightarrow>
          (case trimmed t of
             [] \<Rightarrow> 0
           | c # cs \<Rightarrow> (case parse_nat (if c = CHR ''+'' then cs else c # cs) of
                         None \<Rightarrow> 0 | Some n \<Rightarrow> if n < 2 ^ 64 then signed_take_bit 63 (int n) else 0))
      | _ \<Rightarrow> toLongLong v)"

text \<open>\<open>switch\<close> without \<open>break\<close>: with a custom distance the messages are viewed as well.\<close>

definition wr_autoView :: "int \<Rightarrow> qvariant list \<Rightarrow> wrapper \<Rightarrow> wrapper" where
  "wr_autoView chatId messages =
     fold (\<lambda>m. wr_viewMessage chatId (toULongLong (mvalue (toMap m) ''message_id'')) False MessageSourceAuto) messages"

definition wr_handleSponsoredMessagesReceived :: "wrapper_env \<Rightarrow> int \<Rightarrow> qvariant list \<Rightarrow> int \<Rightarrow> wrapper \<Rightarrow> wrapper" where
  "wr_handleSponsoredMessagesReceived env chatId messages messagesBetween s =
     (case sponsoredMess (we_settings env) of
        SponsoredMessHandle \<Rightarrow>
          wr_signal ''sponsoredMessagesReceived'' [QInt chatId, QList messages, QInt messagesBetween] s
      | SponsoredMessHandleCustomMessagesBetween \<Rightarrow>
          wr_autoView chatId messages (wr_signal ''sponsoredMessagesReceived'' [QInt chatId, QList messages,
            QInt (sponsoredMessagesMessagesBetween (we_settings env))] s)
      | SponsoredMessAutoView \<Rightarrow> wr_autoView chatId messages s
      | SponsoredMessIgnore \<Rightarrow> s)"

text \<open>No signal is connected to this one.\<close>

definition wr_handleSponsoredChatsReceived :: "wrapper_env \<Rightarrow> qvariant list \<Rightarrow> wrapper \<Rightarrow> wrapper" where
  "wr_handleSponsoredChatsReceived env chats s =
     (case sponsoredChats (we_settings env) of
        SponsoredChatsHandle \<Rightarrow> wr_signal ''sponsoredChatsReceived'' [QList chats] s
      | SponsoredChatsAutoView \<Rightarrow>
          fold (\<lambda>c. wr_viewSponsoredChat (toLongLong (mvalue (toMap c) ''unique_id''))) chats s
      | SponsoredChatsIgnore \<Rightarrow> s)"

section \<open>Authorization and connection\<close>

definition wr_reset :: "wrapper \<Rightarrow> wrapper" where
  "wr_reset s = s\<lparr>wr_store := td_reset (wr_store s)\<rparr>"

definition waitingStates :: "(string \<times> authorization_state) list" where
  "waitingStates =
     [(''authorizationStateWaitPhoneNumber'', WaitPhoneNumber),
      (''authorizationStateWaitPremiumPurchase'', WaitPremiumPurchase),
      (''authorizationStateWaitEmailAddress'', WaitEmailAddress), (''authorizationStateWaitEmailCode'', WaitEmailCode),
      (''authorizationStateWaitCode'', WaitCode),
      (''authorizationStateWaitOtherDeviceConfirmation'', WaitOtherDeviceConfirmation),
      (''authorizationStateWaitRegistration'', WaitRegistration), (''authorizationStateWaitPassword'', WaitPassword)]"

definition wr_authorize :: "wrapper_env \<Rightarrow> string \<Rightarrow> wrapper \<Rightarrow> wrapper option" where
  "wr_authorize env state s =
     (if state = ''authorizationStateWaitTdlibParameters''
      then Some ((wr_setTdlibParameters env s)\<lparr>wr_authorizationState := WaitTdlibParameters\<rparr>)
      else if state = ''authorizationStateReady''
      then Some (wr_signal ''ready'' [] (s\<lparr>wr_authorizationState := AuthorizationReady\<rparr>))
      else if state = ''authorizationStateLoggingOut''
      then Some (wr_signal ''clearContent'' [] (s\<lparr>wr_authorizationState := LoggingOut\<rparr>))
      else if state = ''authorizationStateClosing''
      then (let s1 = s\<lparr>wr_authorizationState := Closing\<rparr>
            in Some (if wr_isClosing s then s1 else wr_reset (wr_signal ''clearContent'' [] s1)))
      else if state = ''authorizationStateClosed''
      then (let s1 = s\<lparr>wr_authorizationState := Closed\<rparr>
            in if wr_isClosing s then Some s1
               else wr_setInitialOptions env (s1\<lparr>wr_clientId := newClientId env (wr_clientId s)\<rparr>))
      else case map_of waitingStates state of
             Some a \<Rightarrow> Some (s\<lparr>wr_authorizationState := a\<rparr>)
           | None \<Rightarrow> Some s)"

definition wr_handleAuthorizationStateChanged :: "wrapper_env \<Rightarrow> string \<Rightarrow> vmap \<Rightarrow> wrapper \<Rightarrow> wrapper option" where
  "wr_handleAuthorizationStateChanged env state data s =
     map_option (\<lambda>s1. wr_signal ''authorizationStateChanged'' [] (s1\<lparr>wr_authorizationStateData := data\<rparr>))
       (wr_authorize env state s)"

definition connectionStates :: "(string \<times> connection_state) list" where
  "connectionStates =
     [(''connectionStateConnecting'', Connecting), (''connectionStateConnectingToProxy'', ConnectingToProxy),
      (''connectionStateReady'', ConnectionReady), (''connectionStateUpdating'', Updating),
      (''connectionStateWaitingForNetwork'', WaitingForNetwork)]"

definition connection_number :: "connection_state option \<Rightarrow> qvariant" where
  "connection_number c =
     (case c of
        None \<Rightarrow> QInvalid
      | Some Connecting \<Rightarrow> QInt 0 | Some ConnectingToProxy \<Rightarrow> QInt 1 | Some ConnectionReady \<Rightarrow> QInt 2
      | Some Updating \<Rightarrow> QInt 3 | Some WaitingForNetwork \<Rightarrow> QInt 4)"

definition wr_handleConnectionStateChanged :: "string \<Rightarrow> wrapper \<Rightarrow> wrapper" where
  "wr_handleConnectionStateChanged state s =
     (let s1 = (case map_of connectionStates state of Some c \<Rightarrow> s\<lparr>wr_connectionState := Some c\<rparr> | None \<Rightarrow> s)
      in wr_signal ''connectionStateChanged'' [connection_number (wr_connectionState s1)] s1)"

definition wr_new :: "wrapper_env \<Rightarrow> int \<Rightarrow> td_state \<Rightarrow> wrapper option" where
  "wr_new env clientId store =
     wr_setInitialOptions env \<lparr>wr_clientId = clientId, wr_authorizationState = AuthorizationUnknown,
       wr_authorizationStateData = fmempty, wr_connectionState = None, wr_isClosing = False, wr_nextRequestId = 0,
       wr_responses = [], wr_store = store, wr_outputs = []\<rparr>"

text \<open>The destructor, up to where it waits for TDLib.\<close>

definition wr_startClosing :: "wrapper \<Rightarrow> wrapper" where
  "wr_startClosing s =
     (if wr_authorizationState s \<noteq> Closed then wr_close (s\<lparr>wr_isClosing := True\<rparr>) else s)"

section \<open>The signals of the receiver\<close>

text \<open>The signals connected to a signal of the wrapper, and its name.\<close>

definition forwarded :: "(string \<times> string) list" where
  "forwarded =
     map (\<lambda>name. (name, name))
      [''fileUpdated'', ''chatOnlineMemberCountUpdated'', ''messagesReceived'', ''messageLinkInfoReceived'',
       ''newMessageReceived'', ''messageReceived'', ''messageSendSucceeded'', ''activeNotificationsUpdated'',
       ''notificationGroupUpdated'', ''notificationUpdated'', ''messageContentUpdated'', ''messagesDeleted'',
       ''sponsoredChatsReceived'', ''recentStickersUpdated'', ''favoriteStickersUpdated'',
       ''installedStickerSetsUpdated'', ''userFullInfoUpdated'', ''basicGroupFullInfoUpdated'',
       ''supergroupFullInfoUpdated'', ''messageIsPinnedUpdated'', ''usersReceived'', ''messageSendersReceived'',
       ''serviceNotificationReceived'', ''contactsImported'', ''messageEditedUpdated'', ''callbackQueryAnswer'',
       ''messageInteractionInfoUpdated'', ''sessionsReceived'', ''messagePropertiesReceived'',
       ''storageStatisticsFastReceived'', ''storageStatisticsReceived'', ''formattedTextReceived'',
       ''emojiKeywordsReceived'', ''suggestedActionsUpdated'', ''chatListsReceived'',
       ''archiveChatListSettingsReceived'', ''chatFoldersUpdated'', ''responseForRequestIdReceived'',
       ''forumTopicsReceived'', ''chatJoinRequestsReceived'', ''internalLinkTypeReceived'',
       ''deepLinkInfoReceived'', ''chatInviteLinkInfoReceived'', ''threadMessagesReceived'',
       ''forumTopicMessagesReceived'', ''forumTopicUpdated'', ''forumTopicInfoUpdated'', ''forumTopicReceived'',
       ''messageSuggestedPostInfoUpdated'', ''messageContentOpened'', ''messageFactCheckUpdated'',
       ''stickerSetUpdated'', ''pollVotersReceived'', ''addedProxiesReceived'', ''addedProxyReceived'',
       ''pingReceived'', ''proxyPingReceived'', ''notificationSoundReceived'', ''notificationSoundsReceived'',
       ''savedNotificationSoundsUpdated'', ''callIdReceived'', ''callUpdated'',
       ''newCallSignalingDataReceived'', ''messageReadDateReceived'', ''chatJoinResultReceived'',
       ''chatJoinRequestResultReceived'', ''messageMentionRead'', ''messageUnreadReactionsUpdated'',
       ''messageContainsUnreadPollVotesUpdated'', ''messageEphemeralContentUpdated'',
       ''communityFullInfoReceived'', ''communityFullInfoUpdated'', ''communityIdReceived'',
       ''userLinkReceived'', ''webProxyCarrierOpened'', ''webProxyCarrierDataReceived'',
       ''webProxyCarrierClosed'', ''animatedEmojiMessageClicked''] @
     [(''chats'', ''chatsReceived''), (''chat'', ''chatReceived''), (''sticker'', ''stickerReceived''),
      (''stickerSet'', ''stickerSetReceived''), (''chatMembers'', ''chatMembersReceived''),
      (''userFullInfo'', ''userFullInfoReceived''), (''basicGroupFullInfo'', ''basicGroupFullInfoReceived''),
      (''supergroupFullInfo'', ''supergroupFullInfoReceived''), (''chatPhotos'', ''chatPhotosReceived''),
      (''inlineQueryResults'', ''inlineQueryResultsReceived''), (''webBrowserTypeReceived'', ''openUrl'')]"

definition wr_forward :: "string \<Rightarrow> qvariant list \<Rightarrow> wrapper \<Rightarrow> wrapper" where
  "wr_forward name args =
     (case map_of forwarded name of Some target \<Rightarrow> wr_signal target args | None \<Rightarrow> id)"

text \<open>The arguments of a signal by position; a missing one reads as invalid.\<close>

definition arg :: "qvariant list \<Rightarrow> nat \<Rightarrow> qvariant" where
  "arg args i = (if i < length args then args ! i else QInvalid)"

definition wr_handlers :: "wrapper_env \<Rightarrow> (string \<times> (qvariant list \<Rightarrow> wrapper \<Rightarrow> wrapper option)) list" where
  "wr_handlers env =
     [(''authorizationStateChanged'', \<lambda>as. wr_handleAuthorizationStateChanged env (toString (arg as 0)) (toMap (arg as 1))),
      (''connectionStateChanged'', \<lambda>as. Some \<circ> wr_handleConnectionStateChanged (toString (arg as 0))),
      (''foundChatMessagesReceived'', \<lambda>as. Some \<circ> wr_handleFoundChatMessagesReceived (toLongLong (arg as 0))
         (toLongLong (arg as 1)) (toLongLong (arg as 2)) (toList (arg as 3)) (toLongLong (arg as 4)) (toLongLong (arg as 5))),
      (''sponsoredMessagesReceived'', \<lambda>as. Some \<circ> wr_handleSponsoredMessagesReceived env (toLongLong (arg as 0))
         (toList (arg as 1)) (toLongLong (arg as 2))),
      (''stickers'', \<lambda>as. Some \<circ> wr_handleStickersReceived (toList (arg as 0)) (arg as 1)),
      (''stickerSets'', \<lambda>as. Some \<circ> wr_handleStickerSets (toList (arg as 0)) (toLongLong (arg as 1)) (toString (arg as 2))),
      (''errorReceived'', \<lambda>as. wr_handleErrorReceived (toLongLong (arg as 0)) (toString (arg as 1)) (arg as 2)),
      (''okReceived'', \<lambda>as. Some \<circ> wr_handleOkReceived (arg as 0)),
      (''availableReactionsReceived'', \<lambda>as. Some \<circ> wr_handleAvailableReactionsReceived (toLongLong (arg as 0))
         (toLongLong (arg as 1)) (toMap (arg as 2)) (toMap (arg as 3))),
      (''countReceived'', \<lambda>as. Some \<circ> wr_handleCountReceived (toLongLong (arg as 0)) (toString (arg as 1))),
      (''loginUrlInfoOpenReceived'', \<lambda>as. Some \<circ> wr_handleLoginUrlInfoOpenReceived (toString (arg as 0))
         (toBool (arg as 1)) (arg as 2)),
      (''loginUrlConfirmationRequested'', \<lambda>as. Some \<circ> wr_handleLoginUrlConfirmationRequested (toString (arg as 0))
         (toString (arg as 1)) (toLongLong (arg as 2)) (toBool (arg as 3)) (arg as 4)),
      (''userReceived'', \<lambda>as. Some \<circ> wr_handleUserReceived (toMap (arg as 0)) (toBool (arg as 1))),
      (''textReceived'', \<lambda>as. Some \<circ> wr_handleTextReceived env (toString (arg as 0)) (toString (arg as 1))),
      (''httpUrlReceived'', \<lambda>as. Some \<circ> wr_handleHttpUrlReceived (toString (arg as 0)) (toString (arg as 1))),
      (''responseForRequestIdReceived'', \<lambda>as. Some \<circ> wr_responseForRequestId env (toLongLong (arg as 0)) (toMap (arg as 1)) \<circ>
         wr_forward ''responseForRequestIdReceived'' as)]"

fun wr_receive :: "wrapper_env \<Rightarrow> receiver_signal \<Rightarrow> wrapper \<Rightarrow> wrapper option" where
  "wr_receive env (ToStore e) s = Some (s\<lparr>wr_store := td_handle (messageText env) e (wr_store s)\<rparr>)"
| "wr_receive env (Signal name args) s =
     (case map_of (wr_handlers env) name of
        Some handler \<Rightarrow> handler args s
      | None \<Rightarrow> Some (wr_forward name args s))"

fun wr_receiveAll :: "wrapper_env \<Rightarrow> receiver_signal list \<Rightarrow> wrapper \<Rightarrow> wrapper option" where
  "wr_receiveAll env [] s = Some s"
| "wr_receiveAll env (x # xs) s = Option.bind (wr_receive env x s) (wr_receiveAll env xs)"

text \<open>A document of TDLib, through the receiver to the wrapper.\<close>

definition wr_document :: "wrapper_env \<Rightarrow> vmap \<Rightarrow> wrapper \<Rightarrow> wrapper option" where
  "wr_document env d s =
     Option.bind (processReceivedDocument (we_receiver env) (wr_clientId s) d) (\<lambda>signals. wr_receiveAll env signals s)"

definition wr_processError :: "wrapper_env \<Rightarrow> vmap \<Rightarrow> wrapper \<Rightarrow> wrapper option" where
  "wr_processError env e s =
     (if toString (mvalue e ''@type'') = ''error'' then wr_receiveAll env (processError e) s else Some s)"

end
