(* ===== verification/ReceiverProperties.thy ===== *)
theory ReceiverProperties imports Receiver
begin

text \<open>
  The properties of \<open>TDLibReceiver\<close> and of the store behind it: what cleaning a document changes, where an
  answer goes, and that the store's invariant holds whatever documents arrive.
\<close>

text \<open>What cleaning may touch in a document of a type.\<close>

definition touched :: "string \<Rightarrow> string list" where
  "touched type =
     (if type = ''sticker'' then [''@type'']
      else if type \<in> {''animatedEmoji'', ''messageSticker'', ''diceStickersRegular''} then [''@type'', ''sticker'']
      else if type = ''message'' then [''@type'', ''content'', ''reply_to'', ''reply_to_message_id'', ''reply_in_chat_id'']
      else if type = ''draftMessage'' then [''@type'', ''reply_to'', ''reply_to_message_id'']
      else if type = ''messageAnimatedEmoji'' then [''@type'', ''animated_emoji'']
      else if type = ''stickerSetInfo'' then [''@type'', ''covers'']
      else if type = ''stickerSet'' then [''@type'', ''stickers'', ''emojis'']
      else if type = ''sponsoredChat'' then [''@type'', ''unique_id'']
      else if type = ''messageDice'' then [''@type'', ''initial_state'', ''final_state'']
      else if type = ''diceStickersSlotMachine'' then [''background'', ''lever'', ''left_reel'', ''center_reel'', ''right_reel'']
      else if type = ''messageVoiceNote'' then [''@type'', ''voice_note'']
      else if type = ''voiceNote'' then [''@type'', ''waveform'', ''decoded_waveform'']
      else [])"

definition keeps_fields :: "string list \<Rightarrow> vmap \<Rightarrow> bool \<times> vmap \<Rightarrow> bool" where
  "keeps_fields ks m cm \<longleftrightarrow> (\<not> fst cm \<longrightarrow> snd cm = m) \<and> (\<forall>k. k \<notin> set ks \<longrightarrow> mvalue (snd cm) k = mvalue m k)"

lemma keeps_refl: "keeps_fields ks m (False, m)"
  by (simp add: keeps_fields_def)

lemma keeps_put_part: "keeps_fields ks m cm \<Longrightarrow> k \<in> set ks \<Longrightarrow> keeps_fields ks m (put_part k p cm)"
  by (auto simp: keeps_fields_def put_part_def split: prod.splits)

lemma keeps_typed: "keeps_fields ks m cm \<Longrightarrow> ''@type'' \<in> set ks \<Longrightarrow> keeps_fields ks m (typed t cm)"
  by (auto simp: keeps_fields_def typed_def split: prod.splits)

lemma keeps_changed: "(\<And>k. k \<notin> set ks \<Longrightarrow> mvalue m' k = mvalue m k) \<Longrightarrow> keeps_fields ks m (True, m')"
  by (simp add: keeps_fields_def)

lemma keeps_step: "keeps_fields ks m cm \<Longrightarrow> k \<in> set ks \<Longrightarrow> keeps_fields ks m (True, minsert k v (snd cm))"
  by (auto simp: keeps_fields_def)

lemma keeps_copied:
  "keeps_fields ks m (c, m') \<Longrightarrow> to \<in> set ks \<Longrightarrow> keeps_fields ks m (True, reply_copied frm to r m')"
  by (auto simp: keeps_fields_def reply_copied_def)

lemma keeps_insert: "keeps_fields ks m (c, m') \<Longrightarrow> k \<in> set ks \<Longrightarrow> keeps_fields ks m (True, minsert k v m')"
  using keeps_step [of ks m "(c, m')"] by simp

lemma keeps_reply:
  assumes m: "keeps_fields ks m cm"
    and ks: "''reply_to'' \<in> set ks" "''reply_to_message_id'' \<in> set ks" "''reply_in_chat_id'' \<in> set ks"
  shows "keeps_fields ks m (clean_reply cm)"
proof (cases cm)
  case (Pair c m')
  show ?thesis
    using m unfolding Pair clean_reply_def Let_def prod.case
    by (auto intro!: keeps_insert keeps_copied ks)
qed

lemma keeps_draft:
  assumes "''@type'' \<in> set ks" "''reply_to'' \<in> set ks" "''reply_to_message_id'' \<in> set ks"
  shows "keeps_fields ks m (clean_draft m)"
  unfolding clean_draft_def Let_def
  by (auto intro!: keeps_insert keeps_copied keeps_refl assms)

lemma keeps_voice: "{''@type'', ''waveform'', ''decoded_waveform''} \<subseteq> set ks \<Longrightarrow> keeps_fields ks m (clean_voice env m)"
  by (auto simp: keeps_fields_def clean_voice_def Let_def)

lemma keeps_list:
  "k \<in> set ks \<Longrightarrow> keeps_fields ks m (c, if c then minsert k v m else m)"
  "k \<in> set ks \<Longrightarrow> k' \<in> set ks \<Longrightarrow> keeps_fields ks m (c, if c then fmdrop k' (minsert k v m) else m)"
  by (auto simp: keeps_fields_def)

lemma keeps_written:
  "k \<in> set ks \<Longrightarrow> keeps_fields ks m (True, minsert k v m)"
  "k \<in> set ks \<Longrightarrow> k' \<in> set ks \<Longrightarrow> keeps_fields ks m (True, fmdrop k' (fmdrop k m))"
  by (auto simp: keeps_fields_def)

lemma keeps_if:
  "(b \<Longrightarrow> keeps_fields ks m x) \<Longrightarrow> (\<not> b \<Longrightarrow> keeps_fields ks m y) \<Longrightarrow> keeps_fields ks m (if b then x else y)"
  by simp

lemmas keeps_intros =
  keeps_if keeps_typed keeps_put_part keeps_reply keeps_draft keeps_voice keeps_list keeps_written keeps_refl

lemma keeps_cleanup: "keeps_fields (touched (toString (mvalue m ''@type''))) m (cleanupMap env m)"
  unfolding cleanupMap.simps [of env m] Let_def split_beta
  by (intro keeps_intros; simp add: touched_def)

section \<open>What the receiver tells the store\<close>

lemmas handler_defs =
  processUpdateOption_def processUpdateAuthorizationState_def processUpdateConnectionState_def
  processUpdateUser_def processUpdateUserStatus_def processUpdateFile_def processFile_def
  processUpdateNewChat_def processUpdateChatAddedToList_def processUpdateChatRemovedFromList_def
  processUpdateUnreadMessageCount_def processUpdateUnreadChatCount_def processUpdateChatLastMessage_def
  processUpdateChatPosition_def processUpdateChatReadInbox_def processUpdateChatReadOutbox_def
  processUpdateChatAvailableReactions_def processUpdateBasicGroup_def processUpdateSuperGroup_def
  processChatOnlineMemberCountUpdated_def processMessages_def processFoundChatMessages_def
  processSponsoredMessages_def processUpdateNewMessage_def processMessage_def processMessageLinkInfo_def
  processMessageSendSucceeded_def processUpdateActiveNotifications_def processUpdateNotificationGroup_def
  processUpdateNotification_def processUpdateChatNotificationSettings_def processUpdateMessageContent_def
  processUpdateDeleteMessages_def processChats_def processChat_def processUpdateRecentStickers_def
  processUpdateFavoriteStickers_def processStickers_def processSticker_def
  processUpdateInstalledStickerSets_def processStickerSets_def processStickerSet_def processChatMembers_def
  processUserFullInfo_def processUpdateUserFullInfo_def processBasicGroupFullInfo_def
  processUpdateBasicGroupFullInfo_def processSupergroupFullInfo_def processUpdateSupergroupFullInfo_def
  processChatPhotos_def processUpdateChatPermissions_def processUpdateChatPhoto_def
  processUpdateChatTitle_def processUpdateMessageIsPinned_def processUsers_def processMessageSenders_def
  processError_def ok_def processUpdateServiceNotification_def processUpdateSecretChat_def
  processImportedContacts_def processUpdateMessageEdited_def processUpdateChatIsMarkedAsUnread_def
  processUpdateChatDraftMessage_def processInlineQueryResults_def processCallbackQueryAnswer_def
  processUserPrivacySettingRules_def processUpdateUserPrivacySettingRules_def
  processUpdateMessageInteractionInfo_def processSessions_def processAvailableReactions_def
  processUpdateChatUnreadMentionCount_def processUpdateMessageMentionRead_def
  processUpdateChatUnreadReactionCount_def processUpdateActiveEmojiReactions_def processMessageProperties_def
  processStorageStatisticsFast_def processStorageStatistics_def processFormattedText_def
  processUpdateChatAction_def processEmojiKeywords_def processUpdateDiceEmojis_def
  processUpdateSuggestedActions_def processCount_def processChatLists_def processArchiveChatListSettings_def
  processUpdateChatFolders_def processForumTopics_def processUpdateForumTopic_def
  processUpdateForumTopicInfo_def processUpdateChatPendingJoinRequests_def processChatJoinRequests_def
  processDeepLinkInfo_def processUser_def processChatInviteLinkInfo_def processUpdateChatViewAsTopics_def
  processForumTopic_def processUpdateMessageSuggestedPostInfo_def processUpdateMessageContentOpened_def
  processUpdateMessageFactCheck_def processUpdateStickerSet_def processPollVoters_def processSeconds_def
  processAddedProxies_def processAddedProxy_def processUpdateScopeNotificationSettings_def
  processScopeNotificationSettings_def processNotificationSound_def processNotificationSounds_def
  processUpdateSavedNotificationSounds_def processUpdateDefaultReactionType_def processText_def
  processCallId_def processUpdateCall_def processUpdateNewCallSignalingData_def
  processUpdateChatJoinResult_def processHttpUrl_def processUpdateMessageUnreadReactions_def
  processUpdateChatUnreadPollVoteCount_def processUpdateMessageContainsUnreadPollVotes_def
  processUpdateAccentColors_def processUpdateChatAccentColors_def processSponsoredChats_def
  processUpdateMessageEphemeralContent_def processUpdateCommunity_def processCommunityFullInfo_def
  processUpdateCommunityFullInfo_def processCommunityId_def processUpdateOwnedStarCount_def
  processUpdateOwnedGramCount_def processUpdateStakeDiceState_def processStakeDiceState_def
  processUserLink_def processUpdateWebProxyCarrierOpened_def processUpdateWebProxyCarrierData_def
  processUpdateWebProxyCarrierClosed_def processUpdateAnimatedEmojiMessageClicked_def
  processLoginUrlInfoOpen_def processLoginUrlInfoRequestConfirmation_def processInternalLinkType_def
  processMessageReadDate_def processChatJoinResult_def processOptionValue_def

text \<open>Looking a handler up, one entry of the table after the other.\<close>

lemma lookup_here: "map_of ((k, v) # xs) k = Some v"
  by simp

lemma lookup_next: "k' \<noteq> k \<Longrightarrow> map_of xs k = r \<Longrightarrow> map_of ((k', v) # xs) k = r"
  by simp

lemma lookup_none: "map_of [] k = None"
  by simp

lemma handler_at:
  "map_of (handlers env) ''messages'' = Some (processMessages env)"
  "map_of (handlers env) ''count'' = Some processCount"
  "map_of (handlers env) ''error'' = Some processError"
  "map_of (handlers env) ''ok'' = Some ok"
  "map_of (handlers env) ''scopeNotificationSettings'' = Some processScopeNotificationSettings"
  "map_of (handlers env) ''updateAuthorizationState'' = Some processUpdateAuthorizationState"
  "map_of (handlers env) ''sponsoredMessages'' = Some processSponsoredMessages"
  "map_of (handlers env) ''updateChatAccentColors'' = Some processUpdateChatAccentColors"
  unfolding handlers_def
  by (rule lookup_here | (rule lookup_next, (simp; fail)))+

lemma td_positions_groups [simp]:
  "td_basicGroups (td_handleChatPositionUpdated i p s) = td_basicGroups s"
  "td_superGroups (td_handleChatPositionUpdated i p s) = td_superGroups s"
  "td_basicGroups (td_updateChatPositions i ps s) = td_basicGroups s"
  "td_superGroups (td_updateChatPositions i ps s) = td_superGroups s"
proof -
  show p: "td_basicGroups (td_handleChatPositionUpdated i p s) = td_basicGroups s"
    "td_superGroups (td_handleChatPositionUpdated i p s) = td_superGroups s" for p s
    by (simp_all add: td_handleChatPositionUpdated_def split: option.split)
  show "td_basicGroups (td_updateChatPositions i ps s) = td_basicGroups s"
    "td_superGroups (td_updateChatPositions i ps s) = td_superGroups s"
    unfolding td_updateChatPositions_def by (induction ps arbitrary: s) (simp_all add: p)
qed

lemma td_lists_groups [simp]:
  "td_basicGroups (fold (\<lambda>l. td_addToList i ps (toMap l)) ls s) = td_basicGroups s"
  "td_superGroups (fold (\<lambda>l. td_addToList i ps (toMap l)) ls s) = td_superGroups s"
  by (induction ls arbitrary: s) simp_all

lemma td_withChat_groups [simp]:
  "(\<And>c. td_basicGroups (f c s) = td_basicGroups s) \<Longrightarrow> td_basicGroups (td_withChat k f s) = td_basicGroups s"
  "(\<And>c. td_superGroups (f c s) = td_superGroups s) \<Longrightarrow> td_superGroups (td_withChat k f s) = td_superGroups s"
  by (simp_all add: td_withChat_def split: option.split)

lemma td_updateGroup_groups [simp]:
  "td_basicGroups (td_updateGroup g s) = td_basicGroups s" "td_superGroups (td_updateGroup g s) = td_superGroups s"
  by (simp_all add: td_updateGroup_def split: prod.split)

lemmas td_chat_handlers =
  td_handleChatLastMessageUpdated_def td_handleChatDraftMessageUpdated_def td_handleChatReadInboxUpdated_def
  td_handleChatReadOutboxUpdated_def td_handleChatTitleUpdated_def td_handleChatPhotoUpdated_def
  td_handleChatNotificationSettingsUpdated_def td_handleChatIsMarkedAsUnreadUpdated_def
  td_handleChatUnreadMentionCountUpdated_def td_handleChatUnreadReactionCountUpdated_def
  td_handleChatUnreadPollVoteCountUpdated_def td_handleChatPermissionsUpdated_def
  td_handleChatAvailableReactionsUpdated_def td_handleChatViewAsTopicsUpdated_def
  td_handleChatPendingJoinRequestsUpdated_def td_handleChatAccentColorsUpdated_def td_handleChatActionUpdated_def
  td_putChat_def

lemmas td_other_handlers =
  td_handleOptionUpdated_def td_updateUserInformation_def td_handleUserUpdated_def td_handleUserStatusUpdated_def
  td_handleUserPrivacySettingRules_def td_handleUpdatedUserPrivacySettingRules_def td_handleNewChatDiscovered_def
  td_handleChatAddedToList_def td_handleChatRemovedFromList_def td_handleUnreadMessageCountUpdated_def
  td_handleUnreadChatCountUpdated_def td_handleBasicGroupUpdated_def td_handleSupergroupUpdated_def
  td_handleSecretChatUpdated_def td_handleCommunityUpdated_def td_handleScopeNotificationSettingsUpdated_def
  td_handleOwnedStarCountUpdated_def td_handleOwnedGramCountUpdated_def td_handleStakeDiceStateUpdated_def
  td_handleActiveEmojiReactionsUpdated_def td_handleDiceEmojisUpdated_def td_handleDefaultReactionTypeUpdated_def
  td_handleAccentColorsUpdated_def

lemma td_handle_basicGroups:
  "td_basicGroups (td_handle messageText e s) =
     (case e of EBasicGroup i g \<Rightarrow> (td_basicGroups s)(i \<mapsto> td_newGroup i g (td_basicGroups s)) | _ \<Rightarrow> td_basicGroups s)"
  by (cases e) (simp_all add: td_chat_handlers td_other_handlers Let_def case_prod_beta split: option.split)

lemma td_handle_superGroups:
  "td_superGroups (td_handle messageText e s) =
     (case e of ESupergroup i g \<Rightarrow> (td_superGroups s)(i \<mapsto> td_newGroup i g (td_superGroups s)) | _ \<Rightarrow> td_superGroups s)"
  by (cases e) (simp_all add: td_chat_handlers td_other_handlers Let_def case_prod_beta split: option.split)

text \<open>The group a document is about: its kind and its id.\<close>

fun event_group :: "td_event \<Rightarrow> (bool \<times> int) option" where
  "event_group (EBasicGroup i g) = Some (False, i)"
| "event_group (ESupergroup i g) = Some (True, i)"
| "event_group _ = None"

definition group_named :: "vmap \<Rightarrow> (bool \<times> int) option" where
  "group_named data =
     (let type = toString (mvalue data ''@type'')
      in if type = ''updateBasicGroup'' then Some (False, toLongLong (mvalue (toMap (mvalue data ''basic_group'')) ''id''))
         else if type = ''updateSupergroup'' then Some (True, toLongLong (mvalue (toMap (mvalue data ''supergroup'')) ''id''))
         else None)"

definition tells_groups :: "string \<Rightarrow> (vmap \<Rightarrow> receiver_signal list) \<Rightarrow> bool" where
  "tells_groups key h \<longleftrightarrow>
     (\<forall>data. toString (mvalue data ''@type'') = key \<longrightarrow>
        (\<forall>e. ToStore e \<in> set (h data) \<longrightarrow> event_group e = None \<or> group_named data = event_group e))"

lemma handlers_tell_groups: "list_all (\<lambda>(key, h). tells_groups key h) (handlers env)"
  unfolding handlers_def list.pred_inject prod.case
  by (intro conjI TrueI; simp add: tells_groups_def handler_defs Let_def group_named_def split: if_split)

lemma handlers_named: "map_of (handlers env) type = Some h \<Longrightarrow> tells_groups type h"
  using handlers_tell_groups by (fastforce simp: list_all_iff dest: map_of_SomeD)

lemma find_abstract:
  "find (\<lambda>(key, _). startsWith type key) abstractHandlers = Some (k, h) \<Longrightarrow> h data = Some signals \<Longrightarrow>
     ToStore e \<in> set signals \<Longrightarrow> event_group e = None"
  by (auto simp: abstractHandlers_def processWebBrowserType_def handler_defs Let_def bind_eq_Some_conv split: if_splits)

lemma received_groups:
  assumes "processReceivedDocument env clientId data = Some signals" and "ToStore e \<in> set signals"
  shows "event_group e = None \<or> group_named data = event_group e"
proof (cases "map_of (handlers env) (toString (mvalue data ''@type''))")
  case None
  with assms show ?thesis
    by (auto simp: processReceivedDocument_def Let_def dest: find_abstract split: if_splits option.splits)
next
  case (Some h)
  have "tells_groups (toString (mvalue data ''@type'')) h" by (rule handlers_named [OF Some])
  with assms Some show ?thesis
    by (auto simp: processReceivedDocument_def Let_def tells_groups_def split: if_splits option.splits)
qed

text \<open>Only \<open>webBrowserType\<close> reads a list out of range.\<close>

definition browser_answer :: "int \<Rightarrow> vmap \<Rightarrow> bool" where
  "browser_answer clientId data \<longleftrightarrow>
     toInt (mvalue data ''@client_id'') = clientId \<and> requestId (toString (mvalue data ''@extra'')) = None \<and>
     startsWith (toString (mvalue data ''@type'')) ''webBrowserType''"

lemma handlers_no_browser: "list_all (\<lambda>(key, h). \<not> startsWith key ''webBrowserType'') (handlers env)"
  unfolding handlers_def list.pred_inject prod.case by (intro conjI TrueI; simp add: startsWith_def)

lemma browser_no_handler: "startsWith type ''webBrowserType'' \<Longrightarrow> map_of (handlers env) type = None"
  using handlers_no_browser [of env] by (fastforce simp: list_all_iff map_of_eq_None_iff)

lemma qsplit_length: "length (qsplit c s) = Suc (length (filter ((=) c) s))"
  by (induction s) (auto split: list.split)

lemma browser_split: "qat (qsplit CHR '':'' s) 1 = None \<longleftrightarrow> CHR '':'' \<notin> set s"
  by (auto simp: qat_def qsplit_length filter_empty_conv)

lemma abstract_out_of_range:
  "(case find (\<lambda>(key, _). startsWith type key) abstractHandlers of Some (_, h) \<Rightarrow> h data | None \<Rightarrow> Some []) = None \<longleftrightarrow>
     startsWith type ''webBrowserType'' \<and> CHR '':'' \<notin> set (toString (mvalue data ''@extra''))"
proof (cases "startsWith type ''webBrowserType''")
  case True
  then obtain rest where type: "type = ''webBrowserType'' @ rest"
    unfolding startsWith_def by (metis append_take_drop_id)
  show ?thesis
    by (cases "qat (qsplit CHR '':'' (toString (mvalue data ''@extra''))) 1")
      (use browser_split [of "toString (mvalue data ''@extra'')"] in
        \<open>simp_all add: type startsWith_def abstractHandlers_def processWebBrowserType_def Let_def del: qat_Some\<close>)
qed (auto simp: abstractHandlers_def split: if_splits)

lemma receiver_out_of_range_aux:
  "processReceivedDocument env clientId data = None \<longleftrightarrow>
     browser_answer clientId data \<and> CHR '':'' \<notin> set (toString (mvalue data ''@extra''))"
proof (cases "toInt (mvalue data ''@client_id'') = clientId \<and> requestId (toString (mvalue data ''@extra'')) = None \<and>
    map_of (handlers env) (toString (mvalue data ''@type'')) = None")
  case True
  then show ?thesis
    using abstract_out_of_range [of data "toString (mvalue data ''@type'')"]
    by (simp add: processReceivedDocument_def browser_answer_def Let_def)
next
  case False
  then show ?thesis
    using browser_no_handler [of "toString (mvalue data ''@type'')" env]
    by (auto simp: processReceivedDocument_def browser_answer_def Let_def split: option.splits)
qed

text \<open>C29: The receiver reads a list out of range for exactly one kind of document: an answer of the type
  webBrowserType for this client, whose extra is not a request id and contains no colon. Every other document is
  handled.\<close>

theorem receiver_out_of_range:
  "processReceivedDocument env clientId data = None \<longleftrightarrow>
     browser_answer clientId data \<and> CHR '':'' \<notin> set (toString (mvalue data ''@extra''))"
  by (rule receiver_out_of_range_aux)

text \<open>C30: Cleaning a document changes only the fields of its type that it is there for; every other field keeps its
  value, and a document that is not reported as changed is returned as it came.\<close>

theorem cleanup_keeps_fields:
  assumes "k \<notin> set (touched (toString (mvalue m ''@type'')))"
  shows "mvalue (cleanedMap env m) k = mvalue m k \<and> (fst (cleanupMap env m) \<or> cleanedMap env m = m)"
  using keeps_cleanup [of m env] assms by (auto simp: keeps_fields_def cleanedMap_def)

section \<open>Numbers on the wire\<close>

lemma digit_char_is_digit: "d < 10 \<Longrightarrow> is_digit (digit_char d)"
  by (simp add: is_digit_def)

lemma show_nat_all_digits: "\<forall>c \<in> set (show_nat n). is_digit c"
proof
  fix c assume "c \<in> set (show_nat n)"
  with show_nat_digits [of n] obtain d where "d < 10" "c = digit_char d" by auto
  then show "is_digit c" by (simp add: digit_char_is_digit)
qed

lemma long_show_nat: "n < 2 ^ 63 \<Longrightarrow> string_toLongLong (show_nat n) = int n"
  using parse_int_show_int [of "int n"] by (simp only: string_toLongLong_def) (simp add: in_int64_def show_int_def)

lemma requestId_printed: "n < 2 ^ 63 \<Longrightarrow> requestId (CHR ''R'' # show_nat n) = Some (int n)"
  using show_nat_all_digits [of n]
  by (simp add: requestId_def Let_def takeWhile_eq_all_conv [THEN iffD2] dropWhile_eq_Nil_conv [THEN iffD2] long_show_nat)

text \<open>C5: The number a request is sent with comes back with its answer: when the extra is the letter R and the decimal
  digits of a number below 2 to the 63, the one signal is the response with this number and the whole document,
  whatever its type.\<close>

theorem request_answered:
  assumes "toInt (mvalue data ''@client_id'') = clientId"
    and "mvalue data ''@extra'' = QString (CHR ''R'' # show_nat n)" and "n < 2 ^ 63"
  shows "processReceivedDocument env clientId data =
    Some [Signal ''responseForRequestIdReceived'' [QInt (int n), QMap data]]"
  using assms by (simp add: processReceivedDocument_def Let_def requestId_printed)

text \<open>An environment for the examples: a double is held as its integer part.\<close>

definition sample_env :: receiver_env where
  "sample_env = \<lparr>signedChar = False, ofDouble = (\<lambda>r. QInt \<lfloor>r\<rfloor>), toDouble = (\<lambda>v. of_int (toInt v))\<rparr>"

lemma request_answered_witness:
  "let d = fmap_of_list [(''@type'', QString ''chats''), (''@client_id'', QInt 7), (''@extra'', QString ''R42'')]
   in processReceivedDocument sample_env 7 d = Some [Signal ''responseForRequestIdReceived'' [QInt 42, QMap d]]"
proof -
  have "show_nat 42 = ''42''" by code_simp
  with request_answered [of "fmap_of_list [(''@type'', QString ''chats''), (''@client_id'', QInt 7), (''@extra'', QString ''R42'')]" 7 42 sample_env]
  show ?thesis by (simp add: mvalue_def toInt_def)
qed

lemma cleanup_keeps_fields_witness:
  "let m = fmap_of_list [(''@type'', QString ''voiceNote''), (''duration'', QInt 3), (''waveform'', QString ''AAAA'')]
   in mvalue (cleanedMap sample_env m) ''duration'' = QInt 3 \<and> (fst (cleanupMap sample_env m) \<or> cleanedMap sample_env m = m)"
  using cleanup_keeps_fields [of "''duration''"
      "fmap_of_list [(''@type'', QString ''voiceNote''), (''duration'', QInt 3), (''waveform'', QString ''AAAA'')]" sample_env]
  by (simp add: Let_def mvalue_def touched_def)

section \<open>Streams of documents\<close>

lemma map_filter_store: "e \<in> set (List.map_filter store_event signals) \<longleftrightarrow> ToStore e \<in> set signals"
proof -
  have "store_event x = Some e \<longleftrightarrow> x = ToStore e" for x by (cases x) auto
  then show ?thesis by (force simp: List.map_filter_def)
qed

definition groups_within :: "(bool \<times> int) set \<Rightarrow> td_state \<Rightarrow> bool" where
  "groups_within G s \<longleftrightarrow> (\<forall>i. td_basicGroups s i \<noteq> None \<longrightarrow> (False, i) \<in> G) \<and>
     (\<forall>i. td_superGroups s i \<noteq> None \<longrightarrow> (True, i) \<in> G)"

definition kinds_disjoint :: "(bool \<times> int) set \<Rightarrow> bool" where
  "kinds_disjoint G \<longleftrightarrow> (\<forall>i. \<not> ((False, i) \<in> G \<and> (True, i) \<in> G))"

lemma groups_within_handle:
  assumes "groups_within G s" and "event_group e = None \<or> event_group e = Some p \<and> p \<in> G"
  shows "groups_within G (td_handle messageText e s)"
  using assms unfolding groups_within_def td_handle_basicGroups td_handle_superGroups
  by (cases e) auto

lemma within_apart:
  assumes "groups_within G s" and "kinds_disjoint G" and "event_group e = None \<or> event_group e = Some p \<and> p \<in> G"
  shows "kinds_apart e s"
  using assms unfolding groups_within_def kinds_disjoint_def by (cases e) (fastforce simp del: not_Some_eq)+

lemma store_fold:
  assumes "td_reaches messageText s" "groups_within G s" "kinds_disjoint G"
    and "\<forall>e \<in> set es. event_group e = None \<or> (\<exists>p \<in> G. event_group e = Some p)"
  shows "td_reaches messageText (fold (td_handle messageText) es s) \<and> groups_within G (fold (td_handle messageText) es s)"
  using assms
proof (induction es arbitrary: s)
  case (Cons e es)
  then obtain p where p: "event_group e = None \<or> event_group e = Some p \<and> p \<in> G" by auto
  have "td_reaches messageText (td_handle messageText e s)"
    using Cons.prems(1) within_apart [OF Cons.prems(2,3) p] by (rule td_reaches.handled)
  with Cons.IH [of "td_handle messageText e s"] Cons.prems groups_within_handle [OF Cons.prems(2) p]
  show ?case by simp
qed simp

lemma store_document_reaches:
  assumes "td_reaches messageText s" "groups_within G s" "kinds_disjoint G"
    and "\<forall>p. group_named d = Some p \<longrightarrow> p \<in> G"
    and "store_document messageText env clientId d s = Some s'"
  shows "td_reaches messageText s' \<and> groups_within G s'"
proof -
  obtain signals where signals: "processReceivedDocument env clientId d = Some signals"
      "s' = fold (td_handle messageText) (List.map_filter store_event signals) s"
    using assms(5) by (auto simp: store_document_def)
  have "event_group e = None \<or> (\<exists>p \<in> G. event_group e = Some p)" if "ToStore e \<in> set signals" for e
    using received_groups [OF signals(1) that] assms(4) by (cases "event_group e") auto
  then show ?thesis
    using assms(1-3) unfolding signals(2) by (intro store_fold) (auto simp: map_filter_store)
qed

lemma store_documents_reach:
  assumes "td_reaches messageText s" "groups_within G s" "kinds_disjoint G"
    and "\<forall>d \<in> set ds. \<forall>p. group_named d = Some p \<longrightarrow> p \<in> G"
    and "\<forall>d \<in> set ds. browser_answer clientId d \<longrightarrow> CHR '':'' \<in> set (toString (mvalue d ''@extra''))"
  shows "\<exists>s'. store_documents messageText env clientId ds s = Some s' \<and> td_reaches messageText s'"
  using assms
proof (induction ds arbitrary: s)
  case (Cons d ds)
  have "processReceivedDocument env clientId d \<noteq> None"
    using Cons.prems(5) receiver_out_of_range_aux [of env clientId d] by auto
  then obtain t where t: "store_document messageText env clientId d s = Some t" by (auto simp: store_document_def)
  with store_document_reaches [OF Cons.prems(1-3) _ t] Cons.prems Cons.IH [of t]
  show ?case by auto
qed simp

text \<open>C4: Whatever documents arrive after the start, the store stays consistent: each is handled, and in the end every
  chat is kept under its own id and has the status and the verification of its group. Two things are asked of TDLib:
  that no id is both a basic group's and a supergroup's, and that answers of the type webBrowserType carry the extra
  they were asked with.\<close>

theorem documents_keep_groups:
  assumes "\<forall>d \<in> set ds. \<forall>d' \<in> set ds. \<forall>i. \<not> (group_named d = Some (False, i) \<and> group_named d' = Some (True, i))"
    and "\<forall>d \<in> set ds. browser_answer clientId d \<longrightarrow> CHR '':'' \<in> set (toString (mvalue d ''@extra''))"
  shows "\<exists>s. store_documents messageText env clientId ds (td_new stars nanostars grams) = Some s \<and> td_ok s"
proof -
  let ?G = "{p. \<exists>d \<in> set ds. group_named d = Some p}"
  have "kinds_disjoint ?G" using assms(1) by (auto simp: kinds_disjoint_def)
  moreover have "groups_within ?G (td_new stars nanostars grams)" by (simp add: groups_within_def td_new_def)
  ultimately have "\<exists>s'. store_documents messageText env clientId ds (td_new stars nanostars grams) = Some s' \<and>
      td_reaches messageText s'"
    using assms(2) by (intro store_documents_reach [of _ _ ?G]) (auto intro: td_reaches.start)
  then show ?thesis using td_reaches_ok by blast
qed

definition sample_documents :: "vmap list" where
  "sample_documents =
     [fmap_of_list [(''@type'', QString ''updateBasicGroup''), (''@client_id'', QInt 1),
        (''basic_group'', QMap (fmap_of_list [(''id'', QInt 5), (''member_count'', QInt 2)]))],
      fmap_of_list [(''@type'', QString ''updateSupergroup''), (''@client_id'', QInt 1),
        (''supergroup'', QMap (fmap_of_list [(''id'', QInt 6)]))]]"

lemma documents_keep_groups_witness:
  "\<exists>s. store_documents (\<lambda>_. []) sample_env 1 sample_documents (td_new 0 0 0) = Some s \<and> td_ok s"
  by (rule documents_keep_groups)
    (simp_all add: sample_documents_def group_named_def browser_answer_def startsWith_def mvalue_def)

section \<open>A field read under the wrong name\<close>

lemma updateAccentColors_background:
  "toString (mvalue (chatData (snd (updateAccentColors a b g pa pb c))) ''profile_background_custom_emoji_id'') = pb"
  by (simp add: updateAccentColors_def Let_def split: prod.split if_split)

lemma accent_colors_received:
  assumes "toInt (mvalue data ''@client_id'') = clientId" and "requestId (toString (mvalue data ''@extra'')) = None"
    and "mvalue data ''@type'' = QString ''updateChatAccentColors''"
  shows "processReceivedDocument env clientId data = Some (processUpdateChatAccentColors data)"
  using assms by (simp add: processReceivedDocument_def Let_def handler_at)

text \<open>An update of the colours of a known chat stores, as the emoji of its profile background, the number of its
  profile colour in print; the emoji the document names is lost.\<close>

theorem accent_background_lost:
  assumes "toInt (mvalue data ''@client_id'') = clientId" and "requestId (toString (mvalue data ''@extra'')) = None"
    and "mvalue data ''@type'' = QString ''updateChatAccentColors''"
    and "td_chat s (toLongLong (mvalue data ''chat_id'')) = Some c"
  shows "\<exists>s'. store_document messageText env clientId data s = Some s' \<and>
    toString (mvalue (td_getChat (toLongLong (mvalue data ''chat_id'')) s') ''profile_background_custom_emoji_id'') =
      toString (mvalue data ''profile_accent_color_id'')"
  using assms updateAccentColors_background
  by (simp add: store_document_def accent_colors_received processUpdateChatAccentColors_def List.map_filter_def
      td_handleChatAccentColorsUpdated_def td_withChat_def td_getChat_def the_map_def Let_def case_prod_beta)

lemma accent_background_lost_witness:
  "let d = fmap_of_list [(''@type'', QString ''updateChatAccentColors''), (''@client_id'', QInt 1), (''chat_id'', QInt 3),
             (''profile_accent_color_id'', QInt 5), (''profile_background_custom_emoji_id'', QString ''77'')];
       s = td_setChat 3 (newChatData fmempty (\<lambda>_ _. None) fmempty) (td_new 0 0 0)
   in \<exists>s'. store_document (\<lambda>_. []) sample_env 1 d s = Some s' \<and>
        toString (mvalue (td_getChat 3 s') ''profile_background_custom_emoji_id'') = ''5''"
proof -
  let ?d = "fmap_of_list [(''@type'', QString ''updateChatAccentColors''), (''@client_id'', QInt 1), (''chat_id'', QInt 3),
    (''profile_accent_color_id'', QInt 5), (''profile_background_custom_emoji_id'', QString ''77'')]"
  have "show_int 5 = ''5''" by code_simp
  then show ?thesis
    using accent_background_lost [of ?d 1 "td_setChat 3 (newChatData fmempty (\<lambda>_ _. None) fmempty) (td_new 0 0 0)"
        "newChatData fmempty (\<lambda>_ _. None) fmempty" "\<lambda>_. []" sample_env]
    by (simp add: Let_def mvalue_def toInt_def requestId_def)
qed

section \<open>The type of a cleaned document\<close>

definition type_kept :: "string \<Rightarrow> bool \<times> vmap \<Rightarrow> bool" where
  "type_kept type cm \<longleftrightarrow> toString (mvalue (snd cm) ''@type'') = type"

lemma type_kept_part: "type_kept t cm \<Longrightarrow> k \<noteq> ''@type'' \<Longrightarrow> type_kept t (put_part k p cm)"
  by (auto simp: type_kept_def put_part_def split: prod.splits)

lemma type_kept_typed: "type_kept t cm \<Longrightarrow> type_kept t (typed t cm)"
  by (auto simp: type_kept_def typed_def split: prod.splits)

lemma type_kept_reply: "type_kept t cm \<Longrightarrow> type_kept t (clean_reply cm)"
  by (cases cm) (simp add: type_kept_def clean_reply_def reply_copied_def Let_def)

lemma type_kept_written:
  "type_kept t (True, minsert ''@type'' (QString t) m)" "type_kept t (False, m) \<longleftrightarrow> toString (mvalue m ''@type'') = t"
  "toString (mvalue m ''@type'') = t \<Longrightarrow> k \<noteq> ''@type'' \<Longrightarrow> type_kept t (c, if c then minsert k v m else m)"
  "toString (mvalue m ''@type'') = t \<Longrightarrow> k \<noteq> ''@type'' \<Longrightarrow> k' \<noteq> ''@type'' \<Longrightarrow>
     type_kept t (c, if c then fmdrop k' (minsert k v m) else m)"
  by (auto simp: type_kept_def)

lemma type_kept_voice: "type_kept ''voiceNote'' (clean_voice env m)"
  by (simp add: type_kept_def clean_voice_def Let_def)

lemma type_kept_if: "(b \<Longrightarrow> type_kept t x) \<Longrightarrow> (\<not> b \<Longrightarrow> type_kept t y) \<Longrightarrow> type_kept t (if b then x else y)"
  by simp

lemma type_kept_cleanup:
  assumes "toString (mvalue m ''@type'') = t" and "t \<noteq> ''sponsoredChat''" and "t \<noteq> ''draftMessage''"
  shows "type_kept t (cleanupMap env m)"
  unfolding cleanupMap.simps [of env m] Let_def split_beta assms(1)
  by (intro type_kept_if type_kept_typed type_kept_part type_kept_reply type_kept_written; simp add: assms type_kept_written type_kept_voice)

text \<open>C31: A cleaned document has the type it came with, but for two: a sponsored chat has none any more, and a draft that
  answers a message is a ''draft_message'', a type TDLib does not have.\<close>

theorem cleaned_type:
  "toString (mvalue (cleanedMap env m) ''@type'') =
     (let type = toString (mvalue m ''@type'')
      in if type = ''sponsoredChat'' then []
         else if type = ''draftMessage'' \<and>
                 toString (mvalue (toMap (mvalue m ''reply_to'')) ''@type'') = ''inputMessageReplyToMessage''
         then ''draft_message'' else type)"
proof -
  let ?t = "toString (mvalue m ''@type'')"
  consider "?t = ''sponsoredChat''" | "?t = ''draftMessage''" | "?t \<noteq> ''sponsoredChat''" "?t \<noteq> ''draftMessage''" by blast
  then show ?thesis
  proof cases
    case 3
    with type_kept_cleanup [OF refl 3] show ?thesis by (simp add: type_kept_def cleanedMap_def Let_def)
  qed (simp_all add: cleanedMap_def cleanupMap.simps [of env m] clean_draft_def Let_def)
qed

end
