(* ===== verification/WrapperProperties.thy ===== *)
theory WrapperProperties imports Wrapper ReceiverProperties
begin

text \<open>
  The properties of \<open>TDLibWrapper\<close>: what a request is sent with comes back with its answer and leads it to where
  it belongs; what goes wrong on the way; and the states of the client.
\<close>

section \<open>Parts of what a request is sent with\<close>

lemma qsplit_nonempty: "qsplit c s \<noteq> []"
  by (induction s) (auto split: list.split)

lemma qsplit_plain: "c \<notin> set p \<Longrightarrow> qsplit c p = [p]"
  by (induction p) auto

lemma qsplit_step: "c \<notin> set p \<Longrightarrow> qsplit c (p @ c # s) = p # qsplit c s"
  by (induction p) auto

lemma qjoin_qsplit: "qjoin c (qsplit c s) = s"
proof (induction s)
  case (Cons x s)
  obtain p ps where "qsplit c s = p # ps" using qsplit_nonempty [of c s] by (cases "qsplit c s") auto
  with Cons.IH show ?case by (cases ps) auto
qed simp

lemma digit_char_not: "d < 10 \<Longrightarrow> digit_char d \<noteq> CHR '':'' \<and> digit_char d \<noteq> CHR ''R'' \<and> digit_char d \<noteq> CHR ''t'' \<and> digit_char d \<noteq> CHR ''f''"
proof -
  assume "d < 10"
  then have "digit_of (digit_char d) \<noteq> None" by simp
  moreover have "digit_of CHR '':'' = None" "digit_of CHR ''R'' = None" "digit_of CHR ''t'' = None" "digit_of CHR ''f'' = None"
    by (simp_all add: digit_of_def)
  ultimately show ?thesis by metis
qed

lemma show_int_chars: "c \<in> set (show_int i) \<Longrightarrow> c \<noteq> CHR '':'' \<and> c \<noteq> CHR ''R'' \<and> c \<noteq> CHR ''t'' \<and> c \<noteq> CHR ''f''"
  using show_nat_digits [of "nat (- i)"] show_nat_digits [of "nat i"] digit_char_not
  by (fastforce simp: show_int_def split: if_splits)

lemma no_colon [simp]: "CHR '':'' \<notin> set (show_int i)"
  using show_int_chars by blast

lemma show_int_nonempty [simp]: "show_int i \<noteq> []"
  by (simp add: show_int_def)

lemma split_id [simp]: "qsplit CHR '':'' (show_int i) = [show_int i]" "qsplit CHR '':'' (show_int i @ CHR '':'' # s) = show_int i # qsplit CHR '':'' s"
  by (simp_all add: qsplit_plain qsplit_step)

lemma id_not_word [simp]: "show_int i \<noteq> CHR ''t'' # s" "show_int i \<noteq> CHR ''f'' # s"
  using show_int_chars [of "CHR ''t''" i] show_int_chars [of "CHR ''f''" i] by (metis list.set_intros(1))+

lemma id_no_request [simp]: "requestId (show_int i @ s) = None"
proof -
  obtain c cs where c: "show_int i = c # cs" using show_int_nonempty [of i] by (cases "show_int i") auto
  have "c \<noteq> CHR ''R''" using show_int_chars [of c i] c by simp
  then show ?thesis by (simp add: requestId_def c Let_def)
qed

lemma word_no_request [simp]: "c \<noteq> CHR ''R'' \<Longrightarrow> requestId (c # s) = None"
  by (simp add: requestId_def Let_def)

lemma long_of_id [simp]: "in_int64 i \<Longrightarrow> long_of (show_int i) = QInt i"
  by (simp add: long_of_def string_toLongLong_def parse_int_show_int)

definition in_int32 :: "int \<Rightarrow> bool" where
  "in_int32 i \<longleftrightarrow> - (2 ^ 31) \<le> i \<and> i < 2 ^ 31"

lemma int_of_id [simp]: "in_int32 i \<Longrightarrow> int_of (show_int i) = QInt i"
proof -
  assume "in_int32 i"
  then show ?thesis using parse_int_show_int [of i]
    by (simp add: int_of_def string_toInt_def in_int32_def in_int64_def)
qed

section \<open>Histories\<close>

lemma wr_outputs_emit [simp]: "wr_outputs (wr_emit out s) = wr_outputs s @ [out]"
  by (simp add: wr_emit_def)

lemma wr_emit_fields [simp]:
  "wr_clientId (wr_emit out s) = wr_clientId s" "wr_responses (wr_emit out s) = wr_responses s"
  "wr_nextRequestId (wr_emit out s) = wr_nextRequestId s" "wr_store (wr_emit out s) = wr_store s"
  "wr_authorizationState (wr_emit out s) = wr_authorizationState s" "wr_isClosing (wr_emit out s) = wr_isClosing s"
  by (simp_all add: wr_emit_def)

datatype history = ChatHistory int | ThreadHistory int int | TopicHistory int int

text \<open>The request for a page of a history, and the signal its answer is to become.\<close>

fun askHistory :: "history \<Rightarrow> int \<Rightarrow> int \<Rightarrow> int \<Rightarrow> int \<Rightarrow> wrapper \<Rightarrow> wrapper" where
  "askHistory (ChatHistory chatId) extra from offset limit = wr_getChatHistory chatId extra from offset limit False"
| "askHistory (ThreadHistory chatId messageId) extra from offset limit =
     wr_getMessageThreadHistory chatId messageId extra from offset limit"
| "askHistory (TopicHistory chatId topicId) extra from offset limit =
     wr_getForumTopicHistory chatId topicId extra from offset limit"

fun history_signal :: "history \<Rightarrow> int \<Rightarrow> qvariant list \<Rightarrow> int \<Rightarrow> wrapper_output" where
  "history_signal (ChatHistory chatId) extra messages cnt =
     WrSignal ''messagesReceived'' [QInt chatId, QInt extra, QList messages, QInt cnt]"
| "history_signal (ThreadHistory chatId messageId) extra messages cnt =
     WrSignal ''threadMessagesReceived'' [QInt chatId, QInt messageId, QInt extra, QList messages, QInt cnt]"
| "history_signal (TopicHistory chatId topicId) extra messages cnt =
     WrSignal ''forumTopicMessagesReceived'' [QInt chatId, QInt topicId, QInt extra, QList messages, QInt cnt]"

fun history_ids_ok :: "history \<Rightarrow> bool" where
  "history_ids_ok (ChatHistory chatId) \<longleftrightarrow> in_int64 chatId"
| "history_ids_ok (ThreadHistory chatId messageId) \<longleftrightarrow> in_int64 chatId \<and> in_int64 messageId"
| "history_ids_ok (TopicHistory chatId topicId) \<longleftrightarrow> in_int64 chatId \<and> in_int32 topicId"

text \<open>A document for this client that carries what the request was sent with.\<close>

definition answers :: "vmap \<Rightarrow> string \<Rightarrow> vmap \<Rightarrow> wrapper \<Rightarrow> bool" where
  "answers d type request s \<longleftrightarrow>
     toString (mvalue d ''@type'') = type \<and> mvalue d ''@extra'' = mvalue request ''@extra'' \<and>
     toInt (mvalue d ''@client_id'') = wr_clientId s"

lemma receive_last [simp]: "Option.bind y (wr_receiveAll env []) = y"
  by (cases y) simp_all

lemma document_handled:
  assumes "map_of (handlers (we_receiver env)) type = Some h"
    and "answers d type request s" "requestId (toString (mvalue request ''@extra'')) = None"
  shows "wr_document env d s = wr_receiveAll env (h d) s"
  using assms by (simp add: wr_document_def processReceivedDocument_def answers_def Let_def)

lemma wr_receive_handled: "map_of (wr_handlers env) name = Some h \<Longrightarrow> wr_receive env (Signal name args) s = h args s"
  by simp

lemma wr_receive_forwarded:
  "map_of (wr_handlers env) name = None \<Longrightarrow> map_of forwarded name = Some target \<Longrightarrow>
     wr_receive env (Signal name args) s = Some (wr_signal target args s)"
  by (simp add: wr_forward_def)

declare wr_receive.simps(2) [simp del]

lemma not_handled:
  "map_of (wr_handlers env) ''messagesReceived'' = None"
  "map_of (wr_handlers env) ''threadMessagesReceived'' = None"
  "map_of (wr_handlers env) ''forumTopicMessagesReceived'' = None"
  unfolding wr_handlers_def
  by (rule lookup_none | (rule lookup_next, (simp; fail)))+

lemma forwarded_at:
  "map_of forwarded ''messagesReceived'' = Some ''messagesReceived''"
  "map_of forwarded ''threadMessagesReceived'' = Some ''threadMessagesReceived''"
  "map_of forwarded ''forumTopicMessagesReceived'' = Some ''forumTopicMessagesReceived''"
  "map_of forwarded ''responseForRequestIdReceived'' = Some ''responseForRequestIdReceived''"
  unfolding forwarded_def list.map append.simps
  by (rule lookup_here | (rule lookup_next, (simp; fail)))+

lemma received:
  "wr_receive env (Signal ''countReceived'' args) s = Some (wr_handleCountReceived (toLongLong (arg args 0)) (toString (arg args 1)) s)"
  "wr_receive env (Signal ''errorReceived'' args) s =
     wr_handleErrorReceived (toLongLong (arg args 0)) (toString (arg args 1)) (arg args 2) s"
  "wr_receive env (Signal ''okReceived'' args) s = Some (wr_handleOkReceived (arg args 0) s)"
  "wr_receive env (Signal ''authorizationStateChanged'' args) s =
     wr_handleAuthorizationStateChanged env (toString (arg args 0)) (toMap (arg args 1)) s"
  "wr_receive env (Signal ''sponsoredMessagesReceived'' args) s =
     Some (wr_handleSponsoredMessagesReceived env (toLongLong (arg args 0)) (toList (arg args 1)) (toLongLong (arg args 2)) s)"
  "wr_receive env (Signal ''responseForRequestIdReceived'' args) s =
     Some (wr_responseForRequestId env (toLongLong (arg args 0)) (toMap (arg args 1))
       (wr_signal ''responseForRequestIdReceived'' args s))"
  unfolding wr_handlers_def
  by (rule wr_receive_handled [unfolded wr_handlers_def, THEN trans], (rule lookup_here | (rule lookup_next, (simp; fail)))+,
    simp add: wr_forward_def forwarded_at)+

lemma history_forwarded:
  "wr_receive env (Signal ''messagesReceived'' args) s = Some (wr_signal ''messagesReceived'' args s)"
  "wr_receive env (Signal ''threadMessagesReceived'' args) s = Some (wr_signal ''threadMessagesReceived'' args s)"
  "wr_receive env (Signal ''forumTopicMessagesReceived'' args) s = Some (wr_signal ''forumTopicMessagesReceived'' args s)"
  by (rule wr_receive_forwarded; simp add: not_handled forwarded_at)+


lemma part_Cons [simp]: "part (p # ps) 0 = p" "part (p # ps) (Suc i) = part ps i"
  by (simp_all add: part_def)

lemma part_numerals [simp]:
  "part (p # ps) 1 = part ps 0" "part (p # ps) 2 = part ps 1" "part (p # ps) 3 = part ps 2" "part (p # ps) 4 = part ps 3"
  by (simp_all add: part_def numeral_eq_Suc)

definition history_extra :: "history \<Rightarrow> int \<Rightarrow> string" where
  "history_extra h extra =
     (case h of
        ChatHistory chatId \<Rightarrow> show_int chatId @ '':'' @ show_int extra
      | ThreadHistory chatId messageId \<Rightarrow> ''thread:'' @ show_int chatId @ '':'' @ show_int messageId @ '':'' @ show_int extra
      | TopicHistory chatId topicId \<Rightarrow> ''forumTopic:'' @ show_int chatId @ '':'' @ show_int topicId @ '':'' @ show_int extra)"

lemma asked_extra:
  assumes "wr_outputs (askHistory h extra from offset limit s) = wr_outputs s @ [TdSend c request]"
  shows "mvalue request ''@extra'' = QString (history_extra h extra)"
  using assms
  by (cases h) (auto simp: wr_getChatHistory_def wr_getMessageThreadHistory_def wr_getForumTopicHistory_def wr_sendRequest_def
    history_extra_def mvalue_obj)

lemma history_processed:
  assumes "history_ids_ok h" "in_int32 extra" "toString (mvalue d ''@extra'') = history_extra h extra"
  shows "wr_receiveAll env (processMessages renv d) s =
    Some (wr_emit (history_signal h extra (cleanedList renv (toList (mvalue d ''messages''))) (toInt (mvalue d ''total_count''))) s)"
  using assms by (cases h) (simp_all add: processMessages_def history_extra_def history_forwarded Let_def)

text \<open>C18: Pages of messages reach the model that asked for them: what a chat, a thread or a topic's history is asked with
  comes back with the answer, which becomes the signal of this kind of history with the same chat, thread or topic and the
  same extra number, the messages cleaned. The ids are 64-bit (a topic's and the extra number 32-bit); negative ones too.\<close>

theorem history_answers_routed:
  assumes "history_ids_ok h" "in_int32 extra"
    and "wr_outputs (askHistory h extra from offset limit s) = wr_outputs s @ [TdSend c request]"
    and "answers d ''messages'' request s'"
  shows "wr_document env d s' = Some (wr_emit (history_signal h extra
    (cleanedList (we_receiver env) (toList (mvalue d ''messages''))) (toInt (mvalue d ''total_count''))) s')"
proof -
  note extra = asked_extra [OF assms(3)]
  have "requestId (history_extra h extra) = None"
    by (cases h) (simp_all add: history_extra_def)
  with document_handled [OF handler_at(1) assms(4)] extra
  have "wr_document env d s' = wr_receiveAll env (processMessages (we_receiver env) d) s'" by simp
  moreover have "toString (mvalue d ''@extra'') = history_extra h extra"
    using assms(4) extra by (simp add: answers_def)
  ultimately show ?thesis using history_processed [OF assms(1,2)] by simp
qed

section \<open>Counts\<close>

lemma filter_type_letters:
  "\<exists>letters. getSearchMessagesFilterType f = ''searchMessagesFilter'' @ letters \<and> letters \<noteq> [] \<and> list_all is_letter letters"
  by (cases f) (simp_all add: is_letter_def)

lemma filter_type_back: "getSearchMessagesFilterForType (getSearchMessagesFilterType f) = f"
  by (cases f) (simp_all add: getSearchMessagesFilterForType_def)


lemma takeWhile_block: "list_all P xs \<Longrightarrow> ys = [] \<or> \<not> P (hd ys) \<Longrightarrow> takeWhile P (xs @ ys) = xs"
  by (induction xs) (auto simp: takeWhile_eq_Nil_iff)

lemma show_int_parts:
  "show_int i = (if startsWith (show_int i) ''-'' then ''-'' else []) @ takeWhile is_digit (drop (if startsWith (show_int i) ''-'' then 1 else 0) (show_int i))"
proof -
  have digits: "takeWhile is_digit (show_nat n) = show_nat n" for n
    using show_nat_all_digits by (simp add: takeWhile_eq_all_conv)
  have "\<not> startsWith (show_nat n) ''-''" for n
  proof
    assume "startsWith (show_nat n) ''-''"
    then have "CHR ''-'' \<in> set (show_nat n)" by (cases "show_nat n") (auto simp: startsWith_def)
    then have "is_digit CHR ''-''" using show_nat_all_digits by blast
    then show False by (simp add: is_digit_def digit_of_def)
  qed
  then show ?thesis by (simp add: show_int_def startsWith_def digits)
qed

lemma countExtra_printed:
  assumes "letters \<noteq> []" "list_all is_letter letters" "in_int64 i"
  shows "countExtra (''searchMessagesFilter'' @ letters @ (if local then ''!'' else []) @ '':'' @ show_int i) =
    Some (''searchMessagesFilter'' @ letters, local, i)"
proof -
  have letters: "takeWhile is_letter (letters @ (if local then ''!'' else []) @ '':'' @ show_int i) = letters"
    using assms(2) by (rule takeWhile_block) (simp add: is_letter_def)
  let ?sign = "if startsWith (show_int i) ''-'' then ''-'' else []"
  let ?digits = "takeWhile is_digit (drop (length ?sign) (show_int i))"
  have whole: "show_int i = ?sign @ ?digits" using show_int_parts [of i] by (simp split: if_splits)
  then have "drop (length ?sign + length ?digits) (show_int i) = []" by (metis drop_all length_append order_refl)
  moreover have "string_toLongLong (show_int i) = i" using assms(3) by (simp add: string_toLongLong_def parse_int_show_int)
  moreover have "drop 20 (''searchMessagesFilter'' @ r) = r" for r by simp
  ultimately show ?thesis
    using assms(1) whole unfolding countExtra_def
    by (simp only: letters Let_def) (simp add: startsWith_def)
qed

lemma count_extra_back:
  "in_int64 chatId \<Longrightarrow>
     countExtra (getSearchMessagesFilterType f @ (if local then ''!'' else []) @ '':'' @ show_int chatId) =
       Some (getSearchMessagesFilterType f, local, chatId)"
  using filter_type_letters [of f] countExtra_printed by fastforce


definition count_extra :: "search_filter \<Rightarrow> bool \<Rightarrow> int \<Rightarrow> string" where
  "count_extra f local chatId = getSearchMessagesFilterType f @ (if local then ''!'' else []) @ '':'' @ show_int chatId"

lemma asked_count:
  assumes "wr_outputs (wr_getChatMessageCount chatId f local s) = wr_outputs s @ [TdSend c request]"
  shows "mvalue request ''@extra'' = QString (count_extra f local chatId)"
  using assms by (auto simp: wr_getChatMessageCount_def wr_sendRequest_def count_extra_def mvalue_obj Let_def)

lemma count_extra_letters: "\<exists>r. count_extra f local chatId = ''searchMessagesFilter'' @ r"
  using filter_type_letters [of f] by (auto simp: count_extra_def)

lemma count_no_request: "requestId (count_extra f local chatId) = None"
  using count_extra_letters [of f local chatId] by auto

lemma count_split: "\<exists>p. qsplit CHR '':'' (count_extra f local chatId) = [''searchMessagesFilter'' @ p, show_int chatId]"
proof -
  obtain letters where l: "getSearchMessagesFilterType f = ''searchMessagesFilter'' @ letters" "list_all is_letter letters"
    using filter_type_letters [of f] by blast
  let ?p = "letters @ (if local then ''!'' else [])"
  have "CHR '':'' \<notin> set letters" using l(2) by (auto simp: list_all_iff is_letter_def)
  then have "CHR '':'' \<notin> set (''searchMessagesFilter'' @ ?p)" by simp
  from qsplit_step [OF this, of "show_int chatId"]
  have "qsplit CHR '':'' ((''searchMessagesFilter'' @ ?p) @ CHR '':'' # show_int chatId) = [''searchMessagesFilter'' @ ?p, show_int chatId]"
    by (simp only: split_id)
  moreover have "count_extra f local chatId = (''searchMessagesFilter'' @ ?p) @ CHR '':'' # show_int chatId"
    by (simp add: count_extra_def l(1))
  ultimately show ?thesis by metis
qed

lemma count_error:
  assumes "in_int64 chatId"
  shows "wr_handleErrorReceived code message (QString (count_extra f local chatId)) s =
    Some (wr_errorFor code message (QString (count_extra f local chatId))
      (wr_signal ''chatMessageCountErrorReceived'' [QInt chatId, QInt (filter_number f), QBool local] s))"
proof -
  obtain p where p: "qsplit CHR '':'' (count_extra f local chatId) = [''searchMessagesFilter'' @ p, show_int chatId]"
    using count_split by blast
  obtain r where r: "count_extra f local chatId = ''searchMessagesFilter'' @ r" using count_extra_letters by blast
  have "count_extra f local chatId \<noteq> []" "count_extra f local chatId \<noteq> ''ping''" by (simp_all add: r)
  moreover have "countExtra (count_extra f local chatId) = Some (getSearchMessagesFilterType f, local, chatId)"
    unfolding count_extra_def using assms by (rule count_extra_back)
  ultimately show ?thesis
    by (simp add: wr_handleErrorReceived_def wr_stringError_def p filter_type_back Let_def)
qed

text \<open>A count of messages comes back for what was counted: the kind of messages, the flag for the local count and the chat
  travel as one text, and the answer, a number or an error, is told with this chat, this kind and this flag. It holds for
  every kind of message and every 64-bit chat id.\<close>

theorem count_answers_routed:
  assumes "in_int64 chatId"
    and "wr_outputs (wr_getChatMessageCount chatId f local s) = wr_outputs s @ [TdSend c request]"
  shows "(answers d ''count'' request s' \<longrightarrow>
      wr_document env d s' = Some (wr_emit (WrSignal ''chatMessageCountReceived''
        [QInt (toInt (mvalue d ''count'')), QInt chatId, QInt (filter_number f), QBool local]) s')) \<and>
    (answers d ''error'' request s' \<longrightarrow>
      wr_document env d s' = Some (wr_errorFor (toInt (mvalue d ''code'')) (toString (mvalue d ''message'')) (mvalue request ''@extra'')
        (wr_emit (WrSignal ''chatMessageCountErrorReceived'' [QInt chatId, QInt (filter_number f), QBool local]) s')))"
proof -
  note extra = asked_count [OF assms(2)]
  have none: "requestId (toString (mvalue request ''@extra'')) = None" by (simp add: extra count_no_request)
  have again: "countExtra (count_extra f local chatId) = Some (getSearchMessagesFilterType f, local, chatId)"
    unfolding count_extra_def using assms(1) by (rule count_extra_back)
  have handlers: "map_of (handlers (we_receiver env)) ''count'' = Some processCount"
    "map_of (handlers (we_receiver env)) ''error'' = Some processError" by (rule handler_at)+
  show ?thesis
  proof (intro conjI impI)
    assume d: "answers d ''count'' request s'"
    then have e: "mvalue d ''@extra'' = QString (count_extra f local chatId)" by (simp add: answers_def extra)
    show "wr_document env d s' = Some (wr_emit (WrSignal ''chatMessageCountReceived''
        [QInt (toInt (mvalue d ''count'')), QInt chatId, QInt (filter_number f), QBool local]) s')"
      by (simp add: document_handled [OF handlers(1) d none] processCount_def e received arg_def wr_handleCountReceived_def again filter_type_back)
  next
    assume d: "answers d ''error'' request s'"
    then have e: "mvalue d ''@extra'' = QString (count_extra f local chatId)" by (simp add: answers_def extra)
    show "wr_document env d s' = Some (wr_errorFor (toInt (mvalue d ''code'')) (toString (mvalue d ''message'')) (mvalue request ''@extra'')
        (wr_emit (WrSignal ''chatMessageCountErrorReceived'' [QInt chatId, QInt (filter_number f), QBool local]) s'))"
      by (simp add: document_handled [OF handlers(2) d none] processError_def e received arg_def count_error [OF assms(1)] extra)
  qed
qed


section \<open>Lists of chats\<close>

datatype chat_list_asked = MainChats | ArchivedChats | FolderChats int

fun askChats :: "chat_list_asked \<Rightarrow> wrapper \<Rightarrow> wrapper" where
  "askChats MainChats = wr_loadChats False"
| "askChats ArchivedChats = wr_loadChats True"
| "askChats (FolderChats folderId) = wr_loadChatsForFolder folderId"

fun loaded_signal :: "chat_list_asked \<Rightarrow> wrapper_output" where
  "loaded_signal MainChats = WrSignal ''mainChatListChatsLoaded'' []"
| "loaded_signal ArchivedChats = WrSignal ''archiveChatListChatsLoaded'' []"
| "loaded_signal (FolderChats folderId) = WrSignal ''folderChatListChatsLoaded'' [QInt folderId]"

fun list_extra :: "chat_list_asked \<Rightarrow> string" where
  "list_extra MainChats = ''loadChats:''"
| "list_extra ArchivedChats = ''loadChats:!''"
| "list_extra (FolderChats folderId) = ''loadChatsForFolder:'' @ show_int folderId"

lemma asked_chats:
  assumes "wr_outputs (askChats l s) = wr_outputs s @ [TdSend c request]"
  shows "mvalue request ''@extra'' = QString (list_extra l)"
  using assms by (cases l) (auto simp: wr_loadChats_def wr_loadChatsForFolder_def wr_sendRequest_def mvalue_obj)

lemma ok_of_list: "(\<And>i. l = FolderChats i \<Longrightarrow> in_int32 i) \<Longrightarrow> wr_handleOkReceived (QString (list_extra l)) s = wr_emit (loaded_signal l) s"
  by (cases l) (simp_all add: wr_handleOkReceived_def Let_def)

lemma error_of_list:
  "wr_handleErrorReceived code message (QString (list_extra l)) s =
     Some (if code = 404 then s else wr_errorFor code message (QString (list_extra l)) s)"
  by (cases l) (simp_all add: wr_handleErrorReceived_def wr_stringError_def countExtra_def startsWith_def Let_def)

text \<open>Loading more chats ends in its own list: the answer is the signal of the main list, the archive or the folder that was
  asked for, and TDLib's code 404, which says that there are no more, is no error and changes nothing; any other
  error is reported.\<close>

theorem loading_answers_routed:
  assumes "\<And>i. l = FolderChats i \<Longrightarrow> in_int32 i"
    and "wr_outputs (askChats l s) = wr_outputs s @ [TdSend c request]"
  shows "(answers d ''ok'' request s' \<longrightarrow> wr_document env d s' = Some (wr_emit (loaded_signal l) s')) \<and>
    (answers d ''error'' request s' \<longrightarrow>
      wr_document env d s' = Some (if toInt (mvalue d ''code'') = 404 then s'
        else wr_errorFor (toInt (mvalue d ''code'')) (toString (mvalue d ''message'')) (mvalue request ''@extra'') s'))"
proof -
  note extra = asked_chats [OF assms(2)]
  have none: "requestId (toString (mvalue request ''@extra'')) = None" by (cases l) (simp_all add: extra)
  have handlers: "map_of (handlers (we_receiver env)) ''ok'' = Some ok"
    "map_of (handlers (we_receiver env)) ''error'' = Some processError" by (rule handler_at)+
  have e: "answers d t request s' \<Longrightarrow> mvalue d ''@extra'' = QString (list_extra l)" for t by (simp add: answers_def extra)
  have c: "answers d t request s' \<Longrightarrow> mcontains d ''@extra''" for t
    using e [of t] by (auto simp: mcontains_def mvalue_def split: option.splits)
  show ?thesis
    by (auto simp: document_handled [OF handlers(1) _ none] document_handled [OF handlers(2) _ none] ok_def processError_def e c received arg_def
      ok_of_list [OF assms(1)] error_of_list extra)
qed

section \<open>Links that cannot be opened\<close>

lemma browser_error:
  assumes "qsplit CHR '':'' x = ''getLinkWebBrowserType'' # flag # p # ps"
  shows "wr_handleErrorReceived code message (QString x) s = map_option (\<lambda>url. wr_errorFor code message (QString x)
    (wr_emit (WrSignal ''openUrl'' [QString url, QBool False, QBool (flag \<noteq> [])]) s)) (qat (p # ps) 1)"
proof -
  have "x \<noteq> []" "x \<noteq> ''ping''" using assms by auto
  moreover have "qat (''getLinkWebBrowserType'' # flag # p # ps) 3 = qat (p # ps) 1" by (simp add: qat_def numeral_eq_Suc)
  ultimately show ?thesis by (simp add: wr_handleErrorReceived_def wr_stringError_def assms Let_def)
qed

text \<open>When TDLib cannot say which browser a link is for, the link is to be opened outside, but what is opened is the
  part after its first colon: for ''https://...'' this is the rest without the scheme, and for a link without a colon
  the code reads the list of parts out of range.\<close>

theorem browser_error_opens_part:
  assumes "wr_authorizationState s = AuthorizationReady"
    and "wr_outputs (wr_getLinkWebBrowserType link skip s) = wr_outputs s @ [TdSend c request]"
    and "answers d ''error'' request s'"
  shows "wr_document env d s' = map_option (\<lambda>url. wr_errorFor (toInt (mvalue d ''code'')) (toString (mvalue d ''message''))
    (mvalue request ''@extra'') (wr_emit (WrSignal ''openUrl'' [QString url, QBool False, QBool skip]) s')) (qat (qsplit CHR '':'' link) 1)"
proof -
  obtain x where x: "x = ''getLinkWebBrowserType:'' @ (if skip then ''!:'' else '':'') @ link" by blast
  have extra: "mvalue request ''@extra'' = QString x"
    using assms(1,2) by (auto simp: wr_getLinkWebBrowserType_def wr_sendRequest_def mvalue_obj x)
  have none: "requestId (toString (mvalue request ''@extra'')) = None" by (simp add: extra) (simp add: x)
  have e: "mvalue d ''@extra'' = QString x" using assms(3) by (simp add: answers_def extra)
  have handler: "map_of (handlers (we_receiver env)) ''error'' = Some processError" by (rule handler_at)
  obtain p ps where p: "qsplit CHR '':'' link = p # ps" using qsplit_nonempty [of "CHR '':''" link] by (cases "qsplit CHR '':'' link") auto
  then have "qsplit CHR '':'' x = ''getLinkWebBrowserType'' # (if skip then ''!'' else []) # p # ps" by (simp add: x)
  note browser_error [OF this]
  moreover have "((if skip then ''!'' else []) \<noteq> []) = skip" by simp
  ultimately show ?thesis
    by (simp only: document_handled [OF handler assms(3) none] processError_def e received arg_def extra p wr_receiveAll.simps) simp
qed

section \<open>Settings of a scope\<close>

text \<open>Asking for the notification settings of a kind of chats has no effect: the request does not say what its answer
  is for, so the answer fits no kind and the store stays as it is, for every kind and whatever is answered.\<close>

theorem scope_answer_lost:
  assumes "wr_outputs (wr_getScopeNotificationSettings scope s) = wr_outputs s @ [TdSend c request]"
    and "answers d ''scopeNotificationSettings'' request s'"
  shows "wr_document env d s' = Some s'"
proof -
  have extra: "mvalue request ''@extra'' = QInvalid"
    using assms(1) by (auto simp: wr_getScopeNotificationSettings_def wr_sendRequest_def mvalue_obj)
  have e: "mvalue d ''@extra'' = QInvalid" using assms(2) by (simp add: answers_def extra)
  have handler: "map_of (handlers (we_receiver env)) ''scopeNotificationSettings'' = Some processScopeNotificationSettings"
    by (rule handler_at)
  show ?thesis
    by (subst document_handled [OF handler assms(2)]) (simp_all add: extra e requestId_def processScopeNotificationSettings_def
      td_handleScopeNotificationSettingsUpdated_def Let_def)
qed


section \<open>The file of the log\<close>

lemma freeLogNumber_first:
  assumes "\<not> fileExists env (logPath env (numbered (i + int k)))"
    and "\<forall>m < k. fileExists env (logPath env (numbered (i + int m)))"
  shows "freeLogNumber env i = Some (i + int k)"
  using assms
proof (induction k arbitrary: i)
  case 0
  then show ?case by (subst freeLogNumber.simps) simp
next
  case (Suc k)
  have "\<forall>m < k. fileExists env (logPath env (numbered (i + 1 + int m)))"
  proof (intro allI impI)
    fix m assume "m < k"
    with Suc.prems(2) have "fileExists env (logPath env (numbered (i + int (Suc m))))" by blast
    then show "fileExists env (logPath env (numbered (i + 1 + int m)))" by (simp add: ac_simps)
  qed
  with Suc.IH [of "i + 1"] Suc.prems(1) have "freeLogNumber env (i + 1) = Some (i + 1 + int k)" by (simp add: ac_simps)
  moreover have "fileExists env (logPath env (numbered i))" using Suc.prems(2) [rule_format, of 0] by simp
  ultimately show ?case by (subst freeLogNumber.simps) simp
qed

lemma show_nat_inj: "show_nat m = show_nat n \<Longrightarrow> m = n"
  by (metis option.inject parse_digits_show_nat)

lemma numbered_inj: "inj (\<lambda>k. logPath env (numbered (2 + int k)))"
proof (rule injI)
  fix k m assume "logPath env (numbered (2 + int k)) = logPath env (numbered (2 + int m))"
  then have "show_nat (nat (2 + int k)) = show_nat (nat (2 + int m))" by (simp add: logPath_def numbered_def show_int_def)
  from show_nat_inj [OF this] show "k = m" by simp
qed

lemma freeLogNumber_exists:
  assumes "finite {p. fileExists env p}"
  shows "\<exists>p. newLogPath env = Some p \<and> \<not> fileExists env p \<and>
    (p = logPath env [] \<or> (fileExists env (logPath env []) \<and>
      (\<exists>n \<ge> 2. p = logPath env (numbered n) \<and> (\<forall>m. 2 \<le> m \<and> m < n \<longrightarrow> fileExists env (logPath env (numbered m))))))"
proof (cases "fileExists env (logPath env [])")
  case False
  then show ?thesis by (simp add: newLogPath_def)
next
  case True
  let ?taken = "\<lambda>k. fileExists env (logPath env (numbered (2 + int k)))"
  have "finite {k. ?taken k}"
    using finite_vimageI [OF assms numbered_inj [of env]] by (simp add: vimage_def)
  then obtain k where "\<not> ?taken k" using ex_new_if_finite [OF infinite_UNIV_nat] by blast
  then obtain k where k: "\<not> ?taken k" "\<forall>m < k. ?taken m"
    using exists_least_iff [of "\<lambda>k. \<not> ?taken k"] by blast
  have "newLogPath env = Some (logPath env (numbered (2 + int k)))"
    using freeLogNumber_first [OF k] True by (simp add: newLogPath_def)
  moreover have "fileExists env (logPath env (numbered m))" if "2 \<le> m" "m < 2 + int k" for m
    using k(2) [rule_format, of "nat (m - 2)"] that by simp
  moreover have "2 \<le> 2 + int k" by simp
  ultimately show ?thesis using k(1) True by blast
qed

text \<open>C33: The log gets a file of its own: the search for its name ends when there are finitely many files, with a name no file
  has, the plain one or else the first number from 2 that is free.\<close>

theorem log_name_found:
  assumes "finite {p. fileExists env p}"
  shows "\<exists>p. newLogPath env = Some p \<and> \<not> fileExists env p \<and>
    (p = logPath env [] \<or> (fileExists env (logPath env []) \<and>
      (\<exists>n \<ge> 2. p = logPath env (numbered n) \<and> (\<forall>m. 2 \<le> m \<and> m < n \<longrightarrow> fileExists env (logPath env (numbered m))))))"
  using assms by (rule freeLogNumber_exists)


section \<open>Examples\<close>

text \<open>A wrapper in a small world: one client, no files, and documents that answer a request.\<close>

definition sample_wrapper_env :: wrapper_env where
  "sample_wrapper_env = \<lparr>we_receiver = sample_env, we_settings = \<lparr>storageOptimizer = True, onlineOnlyMode = False,
     tdLogVerbosity = 2, logStream = LogStreamDocumentsFile, sponsoredMess = SponsoredMessHandleCustomMessagesBetween,
     sponsoredMessagesMessagesBetween = 9, sponsoredChats = SponsoredChatsHandle, sendMarkdown = False\<rparr>,
     td_execute = (\<lambda>_. fmempty), newClientId = (\<lambda>i. i + 1), fileExists = (\<lambda>p. p = ''/docs/yast-td-log-now.txt''),
     fileCopied = (\<lambda>_ _. False), appDataDir = ''/data'', cacheDir = ''/cache'', downloadDir = ''/downloads'',
     documentsDir = ''/docs'', localeName = ''en'', deviceModel = ''phone'', productName = ''os'', appVersion = ''1'', apiId = 1,
     apiHash = ''h'', dateTime = ''now'', messageText = (\<lambda>_. [])\<rparr>"

definition sample_wrapper :: wrapper where
  "sample_wrapper = \<lparr>wr_clientId = 1, wr_authorizationState = AuthorizationReady, wr_authorizationStateData = fmempty,
     wr_connectionState = None, wr_isClosing = False, wr_nextRequestId = 0, wr_responses = [], wr_store = td_new 0 0 0,
     wr_outputs = []\<rparr>"

definition sample_answer :: "string \<Rightarrow> qvariant \<Rightarrow> (string \<times> qvariant) list \<Rightarrow> vmap" where
  "sample_answer type extra kvs = fmap_of_list ([(''@type'', QString type), (''@client_id'', QInt 1), (''@extra'', extra)] @ kvs)"

lemma sample_answer_values:
  "mvalue (sample_answer type extra kvs) k =
     (if k = ''@type'' then QString type else if k = ''@client_id'' then QInt 1 else if k = ''@extra'' then extra
      else (case map_of kvs k of None \<Rightarrow> QInvalid | Some v \<Rightarrow> v))"
  by (simp add: sample_answer_def mvalue_def fmlookup_of_list)

lemma sample_answers: "mvalue request ''@extra'' = extra \<Longrightarrow> answers (sample_answer type extra kvs) type request sample_wrapper"
  by (simp add: answers_def sample_answer_values sample_wrapper_def toInt_def)

lemma shown_numbers: "show_int 5 = ''5''" "show_int 7 = ''7''" "show_int (-3) = ''-3''" "show_int 0 = ''0''"
  by code_simp+

lemma history_answers_routed_witness:
  "wr_document sample_wrapper_env (sample_answer ''messages'' (QString ''5:7'') [(''total_count'', QInt 3)]) sample_wrapper =
     Some (wr_emit (WrSignal ''messagesReceived'' [QInt 5, QInt 7, QList [], QInt 3]) sample_wrapper)"
proof -
  let ?r = "obj [(''@type'', QString ''getChatHistory''), (''chat_id'', QInt 5), (''from_message_id'', QInt 0),
    (''offset'', QInt 0), (''limit'', QInt 9), (''only_local'', QBool False), (''@extra'', QString ''5:7'')]"
  have sent: "wr_outputs (askHistory (ChatHistory 5) 7 0 0 9 sample_wrapper) = wr_outputs sample_wrapper @ [TdSend 1 ?r]"
    by (simp add: wr_getChatHistory_def wr_sendRequest_def shown_numbers) (simp add: sample_wrapper_def)
  have "answers (sample_answer ''messages'' (QString ''5:7'') [(''total_count'', QInt 3)]) ''messages'' ?r sample_wrapper"
    by (rule sample_answers) (simp add: mvalue_obj)
  from history_answers_routed [OF _ _ sent this, of sample_wrapper_env] show ?thesis
    by (simp add: in_int64_def in_int32_def sample_answer_values cleanedList_def toInt_def)
qed

lemma count_answers_routed_witness:
  "wr_document sample_wrapper_env (sample_answer ''count'' (QString ''searchMessagesFilterPhoto!:-3'') [(''count'', QInt 7)]) sample_wrapper =
     Some (wr_emit (WrSignal ''chatMessageCountReceived'' [QInt 7, QInt (-3), QInt 8, QBool True]) sample_wrapper)"
proof -
  let ?r = "obj [(''@type'', QString ''getChatMessageCount''), (''chat_id'', QInt (-3)),
    (''filter'', QMap (obj [(''@type'', QString ''searchMessagesFilterPhoto'')])), (''return_local'', QBool True),
    (''@extra'', QString ''searchMessagesFilterPhoto!:-3'')]"
  have sent: "wr_outputs (wr_getChatMessageCount (-3) FilterPhoto True sample_wrapper) = wr_outputs sample_wrapper @ [TdSend 1 ?r]"
    by (simp add: wr_getChatMessageCount_def wr_sendRequest_def shown_numbers) (simp add: sample_wrapper_def)
  have "answers (sample_answer ''count'' (QString ''searchMessagesFilterPhoto!:-3'') [(''count'', QInt 7)]) ''count'' ?r sample_wrapper"
    by (rule sample_answers) (simp add: mvalue_obj)
  with count_answers_routed [OF _ sent, of _ sample_wrapper sample_wrapper_env] show ?thesis
    by (simp add: in_int64_def sample_answer_values toInt_def)
qed

lemma loading_answers_routed_witness:
  "wr_document sample_wrapper_env (sample_answer ''ok'' (QString ''loadChatsForFolder:7'') []) sample_wrapper =
     Some (wr_emit (WrSignal ''folderChatListChatsLoaded'' [QInt 7]) sample_wrapper)"
proof -
  let ?r = "obj [(''@type'', QString ''loadChats''), (''limit'', QInt 25), (''chat_list'', QMap (obj
    [(''@type'', QString ''chatListFolder''), (''chat_folder_id'', QInt 7)])), (''@extra'', QString ''loadChatsForFolder:7'')]"
  have sent: "wr_outputs (askChats (FolderChats 7) sample_wrapper) = wr_outputs sample_wrapper @ [TdSend 1 ?r]"
    by (simp add: wr_loadChatsForFolder_def wr_sendRequest_def shown_numbers) (simp add: sample_wrapper_def)
  have "answers (sample_answer ''ok'' (QString ''loadChatsForFolder:7'') []) ''ok'' ?r sample_wrapper"
    by (rule sample_answers) (simp add: mvalue_obj)
  with loading_answers_routed [OF _ sent, of _ sample_wrapper sample_wrapper_env] show ?thesis
    by (simp add: in_int32_def)
qed

lemma browser_error_opens_part_witness:
  "wr_document sample_wrapper_env (sample_answer ''error'' (QString ''getLinkWebBrowserType::https://x.y'') [(''code'', QInt 7)]) sample_wrapper =
     Some (wr_errorFor 7 [] (QString ''getLinkWebBrowserType::https://x.y'')
       (wr_emit (WrSignal ''openUrl'' [QString ''//x.y'', QBool False, QBool False]) sample_wrapper))"
proof -
  let ?r = "obj [(''@type'', QString ''getLinkWebBrowserType''), (''link'', QString ''https://x.y''),
    (''@extra'', QString ''getLinkWebBrowserType::https://x.y'')]"
  have sent: "wr_outputs (wr_getLinkWebBrowserType ''https://x.y'' False sample_wrapper) = wr_outputs sample_wrapper @ [TdSend 1 ?r]"
    and ready: "wr_authorizationState sample_wrapper = AuthorizationReady"
    by (simp_all add: wr_getLinkWebBrowserType_def wr_sendRequest_def) (simp_all add: sample_wrapper_def)
  have "answers (sample_answer ''error'' (QString ''getLinkWebBrowserType::https://x.y'') [(''code'', QInt 7)]) ''error'' ?r sample_wrapper"
    by (rule sample_answers) (simp add: mvalue_obj)
  from browser_error_opens_part [OF ready sent this, of sample_wrapper_env] show ?thesis
    by (simp add: sample_answer_values mvalue_obj toInt_def qat_def)
qed


lemma scope_answer_lost_witness:
  "wr_document sample_wrapper_env (sample_answer ''scopeNotificationSettings'' QInvalid [(''mute_for'', QInt 7)]) sample_wrapper =
     Some sample_wrapper"
proof -
  let ?r = "obj [(''@type'', QString ''getScopeNotificationSettings''),
    (''scope'', QMap (getNotificationSettingsScope NotificationSettingsScopeGroupChats))]"
  have sent: "wr_outputs (wr_getScopeNotificationSettings NotificationSettingsScopeGroupChats sample_wrapper) =
      wr_outputs sample_wrapper @ [TdSend 1 ?r]"
    by (simp add: wr_getScopeNotificationSettings_def wr_sendRequest_def) (simp add: sample_wrapper_def)
  have "answers (sample_answer ''scopeNotificationSettings'' QInvalid [(''mute_for'', QInt 7)]) ''scopeNotificationSettings'' ?r
      sample_wrapper"
    by (rule sample_answers) (simp add: mvalue_obj)
  from scope_answer_lost [OF sent this] show ?thesis .
qed

lemma log_name_found_witness:
  "\<exists>p. newLogPath sample_wrapper_env = Some p \<and> \<not> fileExists sample_wrapper_env p"
proof -
  have "finite {p. fileExists sample_wrapper_env p}" by (simp add: sample_wrapper_env_def)
  from log_name_found [OF this] show ?thesis by blast
qed

end
