(* ===== verification/WrapperStates.thy ===== *)
theory WrapperStates imports WrapperProperties
begin

text \<open>
  The states of \<open>TDLibWrapper\<close>: the requests that wait for an answer with their number, the client and its
  authorization, and what is done with sponsored messages.
\<close>

section \<open>What leaves the requests alone\<close>

lemma wr_sendRequest_fields [simp]:
  "wr_clientId (wr_sendRequest r s) = wr_clientId s" "wr_responses (wr_sendRequest r s) = wr_responses s"
  "wr_nextRequestId (wr_sendRequest r s) = wr_nextRequestId s" "wr_store (wr_sendRequest r s) = wr_store s"
  "wr_authorizationState (wr_sendRequest r s) = wr_authorizationState s" "wr_isClosing (wr_sendRequest r s) = wr_isClosing s"
  "wr_outputs (wr_sendRequest r s) = wr_outputs s @ [TdSend (wr_clientId s) r]"
  by (simp_all add: wr_sendRequest_def)

text \<open>Only adds to what was sent and signalled, and nothing there is the end of a request.\<close>

fun is_Finished :: "wrapper_output \<Rightarrow> bool" where
  "is_Finished (Finished i t d) = True"
| "is_Finished _ = False"

definition quiet :: "wrapper \<Rightarrow> wrapper \<Rightarrow> bool" where
  "quiet s s' \<longleftrightarrow> wr_nextRequestId s' = wr_nextRequestId s \<and> wr_responses s' = wr_responses s \<and>
     filter is_Finished (wr_outputs s') = filter is_Finished (wr_outputs s)"

named_theorems quiet_intros

lemma quiet_refl [quiet_intros]: "quiet s s"
  by (simp add: quiet_def)

lemma quiet_trans: "quiet s s1 \<Longrightarrow> quiet s1 s2 \<Longrightarrow> quiet s s2"
  by (simp add: quiet_def)

lemma quiet_signal: "quiet s s1 \<Longrightarrow> quiet s (wr_emit (WrSignal name args) s1)"
  by (simp add: quiet_def)

lemma quiet_output: "quiet s s1 \<Longrightarrow> \<not> is_Finished out \<Longrightarrow> quiet s (wr_emit out s1)"
  by (simp add: quiet_def)

lemma quiet_request: "quiet s s1 \<Longrightarrow> quiet s (wr_sendRequest r s1)"
  by (simp add: quiet_def)

lemma quiet_if: "(b \<Longrightarrow> quiet s x) \<Longrightarrow> (\<not> b \<Longrightarrow> quiet s y) \<Longrightarrow> quiet s (if b then x else y)"
  by simp

lemma quiet_update:
  "quiet s s1 \<Longrightarrow> quiet s (s1\<lparr>wr_store := st\<rparr>)" "quiet s s1 \<Longrightarrow> quiet s (s1\<lparr>wr_clientId := c\<rparr>)"
  "quiet s s1 \<Longrightarrow> quiet s (s1\<lparr>wr_authorizationState := a\<rparr>)" "quiet s s1 \<Longrightarrow> quiet s (s1\<lparr>wr_authorizationStateData := m\<rparr>)"
  "quiet s s1 \<Longrightarrow> quiet s (s1\<lparr>wr_connectionState := n\<rparr>)" "quiet s s1 \<Longrightarrow> quiet s (s1\<lparr>wr_isClosing := b\<rparr>)"
  by (simp_all add: quiet_def)

lemmas quiet_steps = quiet_if quiet_signal quiet_output quiet_request quiet_update

lemmas link_defs =
  wr_getLinkWebBrowserType_def wr_getExternalLinkInfo_def wr_handleInternalLinkTypeReceived_def
  wr_searchPublicChatOpenDirectly_def wr_searchPublicChat_def wr_searchUserByPhoneNumber_def wr_searchUserByToken_def
  wr_getMessageLinkInfo_def wr_checkChatInviteLink_def wr_createPrivateChat_def wr_getDeepLinkInfo_def

lemmas option_defs =
  wr_setOptionBoolean_def wr_setOptionInteger_def wr_setOption_def wr_setLogVerbosityLevel_def
  wr_handleStorageOptimizerChanged_def wr_handleSendMarkdownChanged_def wr_handleSettingsLogVerbosityLevelChanged_def

lemma quiet_runSlot [quiet_intros]: "quiet s (wr_runSlot env sl type d s)"
  by (cases sl) (auto simp: wr_runSlot_def link_defs Let_def intro!: quiet_steps quiet_refl)

lemma quiet_autoView: "quiet s s1 \<Longrightarrow> quiet s (wr_autoView chatId ms s1)"
  unfolding wr_autoView_def
  by (induction ms arbitrary: s1) (simp_all add: wr_viewMessage_def wr_viewMessages_def Let_def quiet_request)

lemma quiet_sponsored: "quiet s (wr_handleSponsoredMessagesReceived env chatId ms n s)"
  by (simp add: wr_handleSponsoredMessagesReceived_def quiet_autoView quiet_signal quiet_refl
      split: sponsored_mess.split)

lemma quiet_logStream: "wr_handleLogStreamChanged env s1 = Some s' \<Longrightarrow> quiet s s1 \<Longrightarrow> quiet s s'"
  by (auto simp: wr_handleLogStreamChanged_def Let_def intro: quiet_request split: log_stream.splits)

lemma quiet_initial: "wr_setInitialOptions env s1 = Some s' \<Longrightarrow> quiet s s1 \<Longrightarrow> quiet s s'"
  unfolding wr_setInitialOptions_def map_option_eq_Some
  by (elim exE conjE) (auto simp: option_defs intro!: quiet_request elim!: quiet_logStream)


lemma quiet_authorize: "wr_authorize env state s = Some s' \<Longrightarrow> quiet s s'"
  unfolding wr_authorize_def Let_def
  by (auto simp: wr_setTdlibParameters_def Let_def wr_reset_def split: if_splits option.splits
      intro!: quiet_steps quiet_refl elim!: quiet_initial)

lemma quiet_authorization: "wr_handleAuthorizationStateChanged env state data s = Some s' \<Longrightarrow> quiet s s'"
  unfolding wr_handleAuthorizationStateChanged_def map_option_eq_Some
  by (elim exE conjE) (auto intro!: quiet_signal quiet_update dest: quiet_authorize)

lemma quiet_stringError: "wr_stringError code message x s = Some s' \<Longrightarrow> quiet s s'"
  unfolding wr_stringError_def Let_def
  by (auto simp: wr_errorFor_def wr_getLinkWebBrowserType_def split: if_splits option.splits
      intro!: quiet_signal quiet_request quiet_refl)

lemma quiet_error: "wr_handleErrorReceived code message x s = Some s' \<Longrightarrow> quiet s s'"
  unfolding wr_handleErrorReceived_def
  by (auto simp: wr_errorFor_def split: qvariant.splits if_splits intro!: quiet_signal quiet_refl dest: quiet_stringError)

lemmas other_defs =
  wr_handleConnectionStateChanged_def wr_handleFoundChatMessagesReceived_def wr_handleStickersReceived_def
  wr_handleStickerSets_def wr_handleOkReceived_def wr_handleAvailableReactionsReceived_def wr_handleCountReceived_def
  wr_handleLoginUrlInfoOpenReceived_def wr_handleLoginUrlConfirmationRequested_def wr_handleUserReceived_def
  wr_handleTextReceived_def wr_handleHttpUrlReceived_def

definition quiet_handler :: "(qvariant list \<Rightarrow> wrapper \<Rightarrow> wrapper option) \<Rightarrow> bool" where
  "quiet_handler h \<longleftrightarrow> (\<forall>args s s'. h args s = Some s' \<longrightarrow> quiet s s')"

lemma quiet_handlers:
  "list_all (\<lambda>(name, h). name = ''responseForRequestIdReceived'' \<or> quiet_handler h) (wr_handlers env)"
  unfolding wr_handlers_def list.pred_inject prod.case
  by (intro conjI TrueI;
      auto simp: quiet_handler_def other_defs link_defs Let_def quiet_sponsored
        intro!: quiet_steps quiet_refl dest: quiet_authorization quiet_error split: option.splits)

lemma quiet_forward: "quiet s (wr_forward name args s)"
  by (simp add: wr_forward_def quiet_signal quiet_refl split: option.split)

lemma quiet_receive:
  assumes "wr_receive env x s = Some s'" and "\<And>args. x \<noteq> Signal ''responseForRequestIdReceived'' args"
  shows "quiet s s'"
proof (cases x)
  case (ToStore e)
  with assms(1) show ?thesis by (auto intro: quiet_steps quiet_refl)
next
  case (Signal name args)
  show ?thesis
  proof (cases "map_of (wr_handlers env) name")
    case None
    with assms(1) Signal show ?thesis by (auto simp: wr_receive.simps(2) quiet_forward)
  next
    case (Some h)
    from map_of_SomeD [OF this] quiet_handlers [of env] have "name = ''responseForRequestIdReceived'' \<or> quiet_handler h"
      by (auto simp: list_all_iff)
    with assms Signal Some show ?thesis by (auto simp: quiet_handler_def wr_receive_handled)
  qed
qed


section \<open>Documents that end no request\<close>

definition is_response :: "receiver_signal \<Rightarrow> bool" where
  "is_response x \<longleftrightarrow> (case x of Signal name args \<Rightarrow> name = ''responseForRequestIdReceived'' | _ \<Rightarrow> False)"

lemma is_response_simps [simp]:
  "is_response (Signal name args) \<longleftrightarrow> name = ''responseForRequestIdReceived''" "\<not> is_response (ToStore e)"
  by (simp_all add: is_response_def)

lemma handlers_no_response: "list_all (\<lambda>(key, h). \<forall>data. \<not> list_ex is_response (h data)) (handlers env)"
  unfolding handlers_def list.pred_inject prod.case
  by (intro conjI TrueI; simp add: handler_defs Let_def split: if_split)

lemma abstract_no_response:
  "find (\<lambda>(key, _). startsWith type key) abstractHandlers = Some (k, h) \<Longrightarrow> h data = Some signals \<Longrightarrow> \<not> list_ex is_response signals"
  by (auto simp: abstractHandlers_def processWebBrowserType_def handler_defs Let_def bind_eq_Some_conv split: if_splits)

lemma no_response_document:
  assumes "processReceivedDocument env clientId d = Some signals" and "requestId (toString (mvalue d ''@extra'')) = None"
  shows "\<not> list_ex is_response signals"
proof (cases "map_of (handlers env) (toString (mvalue d ''@type''))")
  case None
  with assms show ?thesis
    by (auto simp: processReceivedDocument_def Let_def split: if_splits option.splits dest: abstract_no_response)
next
  case (Some h)
  from map_of_SomeD [OF this] handlers_no_response [of env] have "\<not> list_ex is_response (h d)"
    by (force simp: list_all_iff)
  with assms Some show ?thesis by (auto simp: processReceivedDocument_def Let_def split: if_splits)
qed

lemma quiet_receiveAll:
  "wr_receiveAll env xs s = Some s' \<Longrightarrow> \<not> list_ex is_response xs \<Longrightarrow> quiet s s'"
proof (induction xs arbitrary: s)
  case Nil
  then show ?case by (simp add: quiet_refl)
next
  case (Cons x xs)
  then obtain s1 where s1: "wr_receive env x s = Some s1" "wr_receiveAll env xs s1 = Some s'"
    by (auto simp: bind_eq_Some_conv)
  from Cons.prems(2) have "x \<noteq> Signal ''responseForRequestIdReceived'' args" for args by auto
  with s1(1) have "quiet s s1" by (rule quiet_receive)
  moreover from Cons.IH [OF s1(2)] Cons.prems(2) have "quiet s1 s'" by simp
  ultimately show ?case by (rule quiet_trans)
qed

section \<open>Requests with an id\<close>

definition ids_ok :: "wrapper \<Rightarrow> bool" where
  "ids_ok s \<longleftrightarrow> distinct (map fst (wr_responses s)) \<and>
     (\<forall>r \<in> set (wr_responses s). 0 \<le> fst r \<and> fst r < wr_nextRequestId s) \<and> 0 \<le> wr_nextRequestId s"

lemma quiet_ids: "quiet s s' \<Longrightarrow> ids_ok s \<Longrightarrow> ids_ok s'"
  by (simp add: quiet_def ids_ok_def)

lemma ids_sent: "ids_ok s \<Longrightarrow> ids_ok (wr_sendRequestWithId r s)" "ids_ok s \<Longrightarrow> ids_ok (wr_sendRequestWithSlot r sl s)"
  by (fastforce simp: ids_ok_def wr_sendRequestWithId_def wr_sendRequestWithSlot_def wr_prepareRequestWithIdObject_def
      wr_addResponse_def)+

text \<open>What is sent with a number, and the responses after it.\<close>

lemma sent_with_slot:
  "wr_outputs (wr_sendRequestWithSlot r sl s) =
     wr_outputs s @ [TdSend (wr_clientId s) (minsert ''@extra'' (QString (CHR ''R'' # show_int (wr_nextRequestId s))) r)]"
  "wr_responses (wr_sendRequestWithSlot r sl s) = wr_responses s @ [(wr_nextRequestId s, sl)]"
  by (simp_all add: wr_sendRequestWithSlot_def wr_prepareRequestWithIdObject_def wr_addResponse_def)

lemma resp_handle_other: "fst r \<noteq> rid \<Longrightarrow> resp_handle env rid d r s = s"
  by (simp add: resp_handle_def)

lemma resp_fold_none: "rid \<notin> fst ` set rs \<Longrightarrow> fold (resp_handle env rid d) rs s = s"
  by (induction rs arbitrary: s) (auto simp: resp_handle_other)

lemma resp_fold_one:
  assumes "distinct (map fst rs)" and "(rid, sl) \<in> set rs"
  shows "fold (resp_handle env rid d) rs s = resp_handle env rid d (rid, sl) s"
proof -
  obtain xs ys where rs: "rs = xs @ (rid, sl) # ys" using split_list [OF assms(2)] by blast
  with assms(1) have "rid \<notin> fst ` set xs" "rid \<notin> fst ` set ys" by (auto simp: rs)
  then show ?thesis by (simp add: rs resp_fold_none)
qed

lemma resp_handle_result:
  assumes "s' = resp_handle env rid d (rid, sl) s"
  shows "wr_nextRequestId s' = wr_nextRequestId s" "wr_responses s' = remove1 (rid, sl) (wr_responses s)"
    "filter is_Finished (wr_outputs s') = filter is_Finished (wr_outputs s) @ [Finished rid (toString (mvalue d ''@type'')) d]"
  using quiet_runSlot [of "wr_emit (Finished rid (toString (mvalue d ''@type'')) d) s" env sl "toString (mvalue d ''@type'')" d]
  by (simp_all add: assms resp_handle_def quiet_def Let_def)

lemma ids_removed:
  assumes "ids_ok s" "wr_nextRequestId s' = wr_nextRequestId s" "wr_responses s' = remove1 r (wr_responses s)"
  shows "ids_ok s'"
proof -
  have "distinct (map fst (remove1 r rs))" if "distinct (map fst rs)" for rs :: "(int \<times> response_slot) list"
    using that by (induction rs) (auto dest: set_remove1_subset [THEN subsetD])
  with assms show ?thesis
    using set_remove1_subset [of r "wr_responses s"] by (auto simp: ids_ok_def)
qed


lemma document_response:
  assumes "toInt (mvalue d ''@client_id'') = wr_clientId s" "requestId (toString (mvalue d ''@extra'')) = Some rid"
  shows "wr_document env d s =
    Some (wr_responseForRequestId env rid d (wr_signal ''responseForRequestIdReceived'' [QInt rid, QMap d] s))"
  using assms by (simp add: wr_document_def processReceivedDocument_def received arg_def Let_def)

lemma document_other:
  assumes "wr_document env d s = Some s'"
    and "toInt (mvalue d ''@client_id'') \<noteq> wr_clientId s \<or> requestId (toString (mvalue d ''@extra'')) = None"
  shows "quiet s s'"
proof (cases "toInt (mvalue d ''@client_id'') = wr_clientId s")
  case False
  with assms(1) show ?thesis by (simp add: wr_document_def processReceivedDocument_def quiet_refl Let_def)
next
  case True
  from assms(1) obtain signals
    where "processReceivedDocument (we_receiver env) (wr_clientId s) d = Some signals" "wr_receiveAll env signals s = Some s'"
    by (auto simp: wr_document_def bind_eq_Some_conv)
  with no_response_document True assms(2) show ?thesis by (blast intro: quiet_receiveAll)
qed

lemma ids_document:
  assumes "wr_document env d s = Some s'" "ids_ok s"
  shows "ids_ok s'"
proof (cases "toInt (mvalue d ''@client_id'') \<noteq> wr_clientId s \<or> requestId (toString (mvalue d ''@extra'')) = None")
  case True
  with document_other assms quiet_ids show ?thesis by blast
next
  case False
  then obtain rid where rid: "toInt (mvalue d ''@client_id'') = wr_clientId s" "requestId (toString (mvalue d ''@extra'')) = Some rid"
    by auto
  let ?s = "wr_signal ''responseForRequestIdReceived'' [QInt rid, QMap d] s"
  have ok: "ids_ok ?s" using assms(2) by (rule quiet_ids [OF quiet_signal [OF quiet_refl]])
  have s': "s' = wr_responseForRequestId env rid d ?s" using assms(1) document_response [OF rid] by simp
  show ?thesis
  proof (cases "rid \<in> fst ` set (wr_responses s)")
    case True
    then obtain sl where "(rid, sl) \<in> set (wr_responses ?s)" by auto
    with resp_fold_one ok have "s' = resp_handle env rid d (rid, sl) ?s"
      unfolding s' wr_responseForRequestId_def ids_ok_def by blast
    from ids_removed [OF ok resp_handle_result(1,2) [OF this]] show ?thesis .
  next
    case False
    with ok show ?thesis by (simp add: s' wr_responseForRequestId_def resp_fold_none)
  qed
qed

text \<open>What happens to a wrapper: it is made, sends requests, with a number or without, gets documents, and is closed.\<close>

inductive wr_reaches :: "wrapper_env \<Rightarrow> wrapper \<Rightarrow> bool" for env where
  wr_made: "wr_new env clientId store = Some s \<Longrightarrow> wr_reaches env s"
| wr_sent: "wr_reaches env s \<Longrightarrow> wr_reaches env (wr_sendRequest r s)"
| wr_asked: "wr_reaches env s \<Longrightarrow> wr_reaches env (wr_sendRequestWithId r s)"
| wr_askedSlot: "wr_reaches env s \<Longrightarrow> wr_reaches env (wr_sendRequestWithSlot r sl s)"
| wr_got: "wr_reaches env s \<Longrightarrow> wr_document env d s = Some s' \<Longrightarrow> wr_reaches env s'"
| wr_closing: "wr_reaches env s \<Longrightarrow> wr_reaches env (wr_startClosing s)"

lemma wr_reaches_ids: "wr_reaches env s \<Longrightarrow> ids_ok s"
proof (induction rule: wr_reaches.induct)
  case (wr_made clientId store s)
  from quiet_initial [OF wr_made [unfolded wr_new_def] quiet_refl] show ?case
    by (rule quiet_ids) (simp add: ids_ok_def)
next
  case (wr_sent s r)
  then show ?case by (auto intro: quiet_ids [OF quiet_request [OF quiet_refl]])
next
  case (wr_got s d s')
  then show ?case by (blast intro: ids_document)
next
  case (wr_closing s)
  have "quiet s (wr_startClosing s)"
    by (simp add: wr_startClosing_def wr_close_def quiet_request quiet_update quiet_refl)
  with wr_closing show ?case by (blast intro: quiet_ids)
qed (simp_all add: ids_sent)

lemma requestId_show_int: "0 \<le> i \<Longrightarrow> i < 2 ^ 63 \<Longrightarrow> requestId (CHR ''R'' # show_int i) = Some i"
  using requestId_printed [of "nat i"] by (simp add: show_int_def)

text \<open>C13: Every request with a number is answered once: whatever was sent and received before, the answer that carries the
  number of a waiting response finishes this response and no other, with its own document, and takes it away; the
  number is not in use any more, and a later request gets another one.\<close>

theorem response_once:
  assumes "wr_reaches env s" and "(rid, sl) \<in> set (wr_responses s)" and "rid < 2 ^ 63"
    and "toInt (mvalue d ''@client_id'') = wr_clientId s" and "mvalue d ''@extra'' = QString (CHR ''R'' # show_int rid)"
  shows "\<exists>s'. wr_document env d s = Some s' \<and>
    filter is_Finished (wr_outputs s') = filter is_Finished (wr_outputs s) @ [Finished rid (toString (mvalue d ''@type'')) d] \<and>
    wr_responses s' = remove1 (rid, sl) (wr_responses s) \<and> rid \<notin> fst ` set (wr_responses s') \<and> rid < wr_nextRequestId s'"
proof -
  from wr_reaches_ids [OF assms(1)] have ok: "ids_ok s" .
  with assms(2) have "0 \<le> rid" "rid < wr_nextRequestId s" by (auto simp: ids_ok_def)
  let ?s = "wr_signal ''responseForRequestIdReceived'' [QInt rid, QMap d] s"
  have "requestId (toString (mvalue d ''@extra'')) = Some rid"
    using requestId_show_int [OF \<open>0 \<le> rid\<close> assms(3)] assms(5) by simp
  from document_response [OF assms(4) this]
  have s': "wr_document env d s = Some (wr_responseForRequestId env rid d ?s)" .
  have "wr_responseForRequestId env rid d ?s = resp_handle env rid d (rid, sl) ?s"
    using ok assms(2) by (simp add: wr_responseForRequestId_def ids_ok_def resp_fold_one)
  note r = resp_handle_result [OF this]
  have "rid \<notin> fst ` set (remove1 (rid, sl) (wr_responses s))"
  proof -
    obtain xs ys where rs: "wr_responses s = xs @ (rid, sl) # ys" "(rid, sl) \<notin> set xs"
      using split_list_first [OF assms(2)] by blast
    with ok show ?thesis by (auto simp: ids_ok_def remove1_append)
  qed
  with s' r \<open>rid < wr_nextRequestId s\<close> show ?thesis by (intro exI [of _ "wr_responseForRequestId env rid d ?s"]) simp
qed


section \<open>A client after the other\<close>

definition initial_types :: "string list" where
  "initial_types =
     [''setLogVerbosityLevel'', ''setLogStream'', ''setOption'', ''setOption'', ''setOption'', ''setOption'']"

lemma initial_options_sent:
  assumes "finite {p. fileExists env p}"
  shows "\<exists>s' requests. wr_setInitialOptions env s = Some s' \<and> wr_clientId s' = wr_clientId s \<and>
    wr_authorizationState s' = wr_authorizationState s \<and> wr_isClosing s' = wr_isClosing s \<and>
    wr_outputs s' = wr_outputs s @ map (TdSend (wr_clientId s)) requests \<and>
    map (\<lambda>r. toString (mvalue r ''@type'')) requests = initial_types"
proof -
  obtain p where "newLogPath env = Some p"
    using freeLogNumber_exists [OF assms] by blast
  then have "\<exists>r. \<forall>t. wr_handleLogStreamChanged env t = Some (wr_sendRequest r t) \<and> toString (mvalue r ''@type'') = ''setLogStream''"
    by (cases "logStream (we_settings env)") (auto simp: wr_handleLogStreamChanged_def mvalue_obj Let_def)
  then obtain r where r: "\<And>t. wr_handleLogStreamChanged env t = Some (wr_sendRequest r t)" "toString (mvalue r ''@type'') = ''setLogStream''"
    by blast
  let ?option = "\<lambda>n ty v. obj [(''@type'', QString ''setOption''), (''name'', QString n),
    (''value'', QMap (obj [(''@type'', QString ty), (''value'', v)]))]"
  let ?requests = "[obj [(''@type'', QString ''setLogVerbosityLevel''), (''new_verbosity_level'', QInt (tdLogVerbosity (we_settings env)))],
    r, ?option ''notification_group_count_max'' ''optionValueInteger'' (QInt 5),
    ?option ''use_storage_optimizer'' ''optionValueBoolean'' (QBool (storageOptimizer (we_settings env))),
    ?option ''always_parse_markdown'' ''optionValueBoolean'' (QBool (sendMarkdown (we_settings env))),
    ?option ''online'' ''optionValueBoolean'' (QBool True)]"
  show ?thesis
    by (rule exI [of _ "fold wr_sendRequest ?requests s"], rule exI [of _ ?requests]) (simp add: wr_setInitialOptions_def option_defs r mvalue_obj initial_types_def)
qed

text \<open>A session that ends is followed by a new one: when TDLib closes and the application does not, the wrapper takes a new
  client, and what it sends next goes to this client and is the initial options, before the new state is announced.\<close>

theorem closed_starts_again:
  assumes "toString (mvalue d ''@type'') = ''updateAuthorizationState''" "toInt (mvalue d ''@client_id'') = wr_clientId s"
    and "toString (mvalue (toMap (mvalue d ''authorization_state'')) ''@type'') = ''authorizationStateClosed''"
    and "requestId (toString (mvalue d ''@extra'')) = None"
    and "\<not> wr_isClosing s" and "finite {p. fileExists env p}"
  shows "\<exists>s' requests. wr_document env d s = Some s' \<and> wr_authorizationState s' = Closed \<and>
    wr_clientId s' = newClientId env (wr_clientId s) \<and>
    wr_outputs s' = wr_outputs s @ map (TdSend (newClientId env (wr_clientId s))) requests @ [WrSignal ''authorizationStateChanged'' []] \<and>
    map (\<lambda>r. toString (mvalue r ''@type'')) requests = initial_types"
proof -
  have handler: "map_of (handlers (we_receiver env)) ''updateAuthorizationState'' = Some processUpdateAuthorizationState"
    by (rule handler_at)
  let ?s = "s\<lparr>wr_authorizationState := Closed, wr_clientId := newClientId env (wr_clientId s)\<rparr>"
  obtain s' requests where s': "wr_setInitialOptions env ?s = Some s'" "wr_clientId s' = wr_clientId ?s"
    "wr_authorizationState s' = Closed" "wr_outputs s' = wr_outputs s @ map (TdSend (wr_clientId ?s)) requests"
    "map (\<lambda>r. toString (mvalue r ''@type'')) requests = initial_types"
    using initial_options_sent [OF assms(6), of ?s] by auto
  have "wr_authorize env ''authorizationStateClosed'' s = Some s'"
    using assms(5) s'(1) by (simp add: wr_authorize_def Let_def)
  with assms(1-4) handler
  have "wr_document env d s = Some (wr_signal ''authorizationStateChanged'' [] (s'\<lparr>wr_authorizationStateData :=
      fmdrop ''@type'' (toMap (mvalue d ''authorization_state''))\<rparr>))"
    by (simp add: wr_document_def processReceivedDocument_def processUpdateAuthorizationState_def received arg_def
        wr_handleAuthorizationStateChanged_def Let_def)
  then show ?thesis using s'(2-5) by (intro exI [of _ requests] exI conjI) (assumption, simp_all)
qed

section \<open>Sponsored messages\<close>

lemma autoView_outputs:
  "wr_outputs (wr_autoView chatId ms s) = wr_outputs s @ map (\<lambda>m. TdSend (wr_clientId s) (obj [(''@type'', QString ''viewMessages''),
     (''chat_id'', QInt chatId), (''force_read'', QBool False),
     (''message_ids'', QList [QInt (toULongLong (mvalue (toMap m) ''message_id''))])])) ms"
  by (induction ms arbitrary: s) (simp_all add: wr_autoView_def wr_viewMessage_def wr_viewMessages_def Let_def)

text \<open>With a distance of one's own between them, sponsored messages are counted as seen before anyone has seen them: besides
  being handed on with this distance, each of them is reported as viewed, as the setting that only does this would do.\<close>

theorem own_distance_views_all:
  assumes "toString (mvalue d ''@type'') = ''sponsoredMessages''" "toInt (mvalue d ''@client_id'') = wr_clientId s"
    and "requestId (toString (mvalue d ''@extra'')) = None"
    and "sponsoredMess (we_settings env) = SponsoredMessHandleCustomMessagesBetween"
  shows "\<exists>s'. wr_document env d s = Some s' \<and>
    wr_outputs s' = wr_outputs s @
      WrSignal ''sponsoredMessagesReceived'' [QInt (toLongLong (mvalue d ''@extra'')), QList (toList (mvalue d ''messages'')),
        QInt (sponsoredMessagesMessagesBetween (we_settings env))] #
      map (\<lambda>m. TdSend (wr_clientId s) (obj [(''@type'', QString ''viewMessages''), (''chat_id'', QInt (toLongLong (mvalue d ''@extra''))),
        (''force_read'', QBool False), (''message_ids'', QList [QInt (toULongLong (mvalue (toMap m) ''message_id''))])]))
        (toList (mvalue d ''messages''))"
proof -
  have handler: "map_of (handlers (we_receiver env)) ''sponsoredMessages'' = Some processSponsoredMessages"
    by (rule handler_at)
  show ?thesis using assms handler
    by (simp add: wr_document_def processReceivedDocument_def processSponsoredMessages_def received arg_def
        wr_handleSponsoredMessagesReceived_def autoView_outputs Let_def)
qed


section \<open>Examples\<close>

lemma sample_files: "finite {p. fileExists sample_wrapper_env p}"
  by (simp add: sample_wrapper_env_def)

lemma response_once_witness:
  "\<exists>s s'. wr_reaches sample_wrapper_env s \<and> wr_responses s = [(0, CallerSlot), (1, CustomEmojiSlot)] \<and>
     wr_document sample_wrapper_env (sample_answer ''stickers'' (QString ''R0'') []) s = Some s' \<and>
     wr_responses s' = [(1, CustomEmojiSlot)]"
proof -
  obtain s0 where s0: "wr_new sample_wrapper_env 1 (td_new 0 0 0) = Some s0" "wr_clientId s0 = 1"
    "quiet \<lparr>wr_clientId = 1, wr_authorizationState = AuthorizationUnknown,
       wr_authorizationStateData = fmempty, wr_connectionState = None, wr_isClosing = False, wr_nextRequestId = 0,
       wr_responses = [], wr_store = td_new 0 0 0, wr_outputs = []\<rparr> s0"
    using initial_options_sent [OF sample_files] quiet_initial [OF _ quiet_refl] by (fastforce simp: wr_new_def)
  let ?s = "wr_sendRequestWithSlot fmempty CustomEmojiSlot (wr_sendRequestWithId fmempty s0)"
  have r: "wr_reaches sample_wrapper_env ?s" by (intro wr_askedSlot wr_asked wr_made [OF s0(1)])
  have fields: "wr_responses ?s = [(0, CallerSlot), (1, CustomEmojiSlot)]" "wr_clientId ?s = 1"
    using s0(2,3) by (simp_all add: quiet_def wr_sendRequestWithSlot_def wr_sendRequestWithId_def wr_prepareRequestWithIdObject_def
        wr_addResponse_def)
  from response_once [OF r, of 0 CallerSlot "sample_answer ''stickers'' (QString ''R0'') []"] fields r show ?thesis
    by (force simp: sample_answer_values toInt_def shown_numbers)
qed

lemma closed_starts_again_witness:
  "\<exists>s'. wr_document sample_wrapper_env (sample_answer ''updateAuthorizationState'' QInvalid
       [(''authorization_state'', QMap (fmap_of_list [(''@type'', QString ''authorizationStateClosed'')]))]) sample_wrapper = Some s' \<and>
     wr_clientId s' = 2 \<and> wr_authorizationState s' = Closed"
proof -
  let ?d = "sample_answer ''updateAuthorizationState'' QInvalid
    [(''authorization_state'', QMap (fmap_of_list [(''@type'', QString ''authorizationStateClosed'')]))]"
  have "toString (mvalue ?d ''@type'') = ''updateAuthorizationState''" "toInt (mvalue ?d ''@client_id'') = wr_clientId sample_wrapper"
    "toString (mvalue (toMap (mvalue ?d ''authorization_state'')) ''@type'') = ''authorizationStateClosed''"
    "requestId (toString (mvalue ?d ''@extra'')) = None" "\<not> wr_isClosing sample_wrapper"
    by (simp_all add: sample_answer_values requestId_def) (simp_all add: sample_wrapper_def toInt_def mvalue_def)
  from closed_starts_again [OF this sample_files] show ?thesis
    by (auto simp: sample_wrapper_def sample_wrapper_env_def)
qed

lemma own_distance_views_all_witness:
  "\<exists>s'. wr_document sample_wrapper_env (sample_answer ''sponsoredMessages'' (QInt 5) [(''messages'', QList [QMap fmempty])]) sample_wrapper
       = Some s' \<and> length (wr_outputs s') = 2"
proof -
  let ?d = "sample_answer ''sponsoredMessages'' (QInt 5) [(''messages'', QList [QMap fmempty])]"
  have "toString (mvalue ?d ''@type'') = ''sponsoredMessages''" "toInt (mvalue ?d ''@client_id'') = wr_clientId sample_wrapper"
    "requestId (toString (mvalue ?d ''@extra'')) = None"
    "sponsoredMess (we_settings sample_wrapper_env) = SponsoredMessHandleCustomMessagesBetween"
    by (simp_all add: sample_answer_values requestId_def shown_numbers sample_wrapper_env_def) (simp_all add: sample_wrapper_def toInt_def)
  from own_distance_views_all [OF this] show ?thesis
    by (auto simp: sample_answer_values) (simp add: sample_wrapper_def)
qed

end
