(* ===== verification/RequestProperties.thy ===== *)
theory RequestProperties imports Requests ReceiverProperties
begin

text \<open>
  The properties of what the requests of \<open>TDLibWrapper\<close> are made of: the mentions in a text that is typed.
\<close>

section \<open>Mentions in a text\<close>

text \<open>A text as it is typed, in pieces, and how it is to be shown.\<close>

datatype text_piece = Plain string | Mentioned string string

fun typed_piece :: "text_piece \<Rightarrow> string" where
  "typed_piece (Plain s) = s"
| "typed_piece (Mentioned userId name) = ''@'' @ userId @ ''('' @ name @ '')''"

fun shown_piece :: "text_piece \<Rightarrow> string" where
  "shown_piece (Plain s) = s"
| "shown_piece (Mentioned userId name) = name"

fun piece_ok :: "text_piece \<Rightarrow> bool" where
  "piece_ok (Plain s) \<longleftrightarrow> CHR ''@'' \<notin> set s"
| "piece_ok (Mentioned userId name) \<longleftrightarrow> userId \<noteq> [] \<and> list_all is_digit userId \<and> name \<noteq> [] \<and> CHR '')'' \<notin> set name"

fun mention_marks :: "nat \<Rightarrow> text_piece list \<Rightarrow> (int \<times> nat \<times> vmap) list" where
  "mention_marks n [] = []"
| "mention_marks n (Plain s # ps) = mention_marks (n + length s) ps"
| "mention_marks n (Mentioned userId name # ps) =
     (int n, length name, mention_type userId) # mention_marks (n + length name) ps"

fun found_mentions :: "nat \<Rightarrow> text_piece list \<Rightarrow> replacement list" where
  "found_mentions pos [] = []"
| "found_mentions pos (Plain s # ps) = found_mentions (pos + length s) ps"
| "found_mentions pos (Mentioned userId name # ps) =
     \<lparr>startIndex = pos, match_length = mention_length (userId, name), entity_type = mention_type userId, match_text = name\<rparr> #
       found_mentions (pos + mention_length (userId, name)) ps"

lemma takeWhile_stop: "list_all P xs \<Longrightarrow> \<not> P y \<Longrightarrow> takeWhile P (xs @ y # ys) = xs \<and> dropWhile P (xs @ y # ys) = y # ys"
  by (induction xs) auto

lemma paren_no_digit: "\<not> is_digit CHR ''(''"
  by (simp add: is_digit_def digit_of_def)

lemma mention_at_typed:
  assumes "piece_ok (Mentioned userId name)"
  shows "mention_at (typed_piece (Mentioned userId name) @ r) = Some (userId, name)"
proof -
  have "list_all (\<lambda>x. x \<noteq> CHR '')'') name" using assms by (auto simp: list_all_iff)
  from takeWhile_stop [OF this, of "CHR '')''" r]
  have name: "takeWhile (\<lambda>x. x \<noteq> CHR '')'') (name @ CHR '')'' # r) = name" by simp
  have "takeWhile is_digit (userId @ CHR ''('' # name @ CHR '')'' # r) = userId"
    "dropWhile is_digit (userId @ CHR ''('' # name @ CHR '')'' # r) = CHR ''('' # name @ CHR '')'' # r"
    using takeWhile_stop [of is_digit userId "CHR ''(''"] paren_no_digit assms by simp_all
  with assms name show ?thesis by (simp add: mention_at_def paren_no_digit Let_def)
qed

lemma mention_at_plain: "c \<noteq> CHR ''@'' \<Longrightarrow> mention_at (c # cs) = None"
  by (simp add: mention_at_def Let_def)

lemma mentions_plain: "CHR ''@'' \<notin> set s \<Longrightarrow> mentions pos (s @ r) = mentions (pos + length s) r"
  by (induction s arbitrary: pos) (auto simp: mention_at_plain)

lemma length_typed: "length (typed_piece (Mentioned userId name)) = mention_length (userId, name)"
  by (simp add: mention_length_def)

lemma drop_typed: "drop (mention_length (userId, name)) (typed_piece (Mentioned userId name) @ r) = r"
proof -
  have "drop (length t) (t @ r) = r" for t :: string by simp
  from this [of "typed_piece (Mentioned userId name)"] show ?thesis by (simp only: length_typed)
qed

lemma mentions_typed: "list_all piece_ok ps \<Longrightarrow> mentions pos (concat (map typed_piece ps)) = found_mentions pos ps"
proof (induction ps arbitrary: pos)
  case (Cons p ps)
  show ?case
  proof (cases p)
    case (Plain s)
    with Cons show ?thesis by (simp add: mentions_plain)
  next
    case (Mentioned userId name)
    let ?r = "concat (map typed_piece ps)"
    let ?t = "typed_piece (Mentioned userId name) @ ?r"
    have at: "mention_at ?t = Some (userId, name)" using Cons.prems Mentioned by (intro mention_at_typed) simp
    have "drop (mention_length (userId, name)) ?t = ?r" by (simp only: drop_typed)
    moreover obtain c cs where "?t = c # cs" by simp
    ultimately have "mentions pos ?t = \<lparr>startIndex = pos, match_length = mention_length (userId, name),
        entity_type = mention_type userId, match_text = name\<rparr> # mentions (pos + mention_length (userId, name)) ?r"
      using at by (simp only: mentions.simps option.case fst_conv snd_conv)
    with Cons Mentioned show ?thesis by simp
  qed
qed simp

lemma found_after: "r \<in> set (found_mentions pos ps) \<Longrightarrow> pos \<le> startIndex r"
  by (induction pos ps rule: found_mentions.induct) force+

lemma found_sorted: "sort_key startIndex (found_mentions pos ps) = found_mentions pos ps"
proof (induction pos ps rule: found_mentions.induct)
  case (3 pos userId name ps)
  have "\<forall>r \<in> set (found_mentions (pos + mention_length (userId, name)) ps). pos \<le> startIndex r"
    using found_after by (metis add_leD1)
  with 3 show ?case by (simp add: insort_is_Cons)
qed simp_all

lemma loop_typed:
  assumes "list_all piece_ok ps" and "int pos - oc = int (length pre)"
  shows "formattedTextEntities_loop oc (found_mentions pos ps) (pre @ concat (map typed_piece ps)) =
    (mention_marks (length pre) ps, pre @ concat (map shown_piece ps))"
  using assms
proof (induction ps arbitrary: pos oc pre)
  case (Cons p ps)
  show ?case
  proof (cases p)
    case (Plain s)
    with Cons.IH [of "pos + length s" oc "pre @ s"] Cons.prems show ?thesis by simp
  next
    case (Mentioned userId name)
    let ?m = "mention_length (userId, name)" and ?r = "concat (map typed_piece ps)"
    have "UtilitiesModel.qreplace (int (length pre)) ?m name (pre @ typed_piece p @ ?r) = (pre @ name) @ ?r"
      unfolding qreplace_append Mentioned by (simp only: drop_typed) simp
    with Cons.IH [of "pos + ?m" "oc + (int ?m - int (length name))" "pre @ name"] Cons.prems Mentioned
    show ?thesis by (simp add: Let_def)
  qed
qed simp

text \<open>C24: Mentions of users without a name are sent as such: a typed text whose pieces are plain text without an at sign and
  mentions \<open>@digits(name)\<close> is sent with every mention replaced by its name, and with one entity for each of them, in their
  order, at the place and of the length the name has in the sent text, for the user it was typed with.\<close>

theorem mentions_marked:
  assumes "list_all piece_ok ps"
  shows "enhanceInputText (concat (map typed_piece ps)) =
    formattedTextEntities (concat (map shown_piece ps)) (map entity_map (mention_marks 0 ps))"
proof -
  note found = mentions_typed [OF assms, of 0] and loop = loop_typed [OF assms, of 0 0 "[]"]
  have "formattedTextEntitiesFromReplacements (found_mentions 0 ps) (concat (map typed_piece ps)) =
    (mention_marks 0 ps, concat (map shown_piece ps))"
  proof (cases "found_mentions 0 ps = []")
    case True
    with loop show ?thesis by (simp add: formattedTextEntitiesFromReplacements_def)
  next
    case False
    with loop show ?thesis by (simp add: formattedTextEntitiesFromReplacements_def found_sorted)
  qed
  with found show ?thesis by (simp add: enhanceInputText_def)
qed

lemma mentions_marked_witness:
  "enhanceInputText ''hi @42(Bo B)!'' = formattedTextEntities ''hi Bo B!'' [entity_map (3, 4, mention_type ''42'')]"
  using mentions_marked [of "[Plain ''hi '', Mentioned ''42'' ''Bo B'', Plain ''!'']"]
  by (simp add: is_digit_def digit_of_def eval_nat_numeral)

end
