(* ===== verification/Suggestions.thy ===== *)
theory Suggestions imports YaqtPrelude
begin

text \<open>
  \<open>SuggestedActionsManager\<close> (\<open>src/suggestedactionsmanager.h\<close>, \<open>suggestedactionsmanager.cpp\<close>): what TDLib
  suggests the user to do.

  The custom actions are a list of names with a map to their data; the properties show the last one, and
  are \<open>None\<close> when there is none, where the code reads the last entry of an empty list.
\<close>

record custom_action =
  ca_title :: vmap
  ca_description :: vmap
  ca_url :: string

datatype basic_action = CheckPhoneNumber | CheckPassword | SetProfilePhoto | SetBirthdate

datatype suggestion_output = CustomActionChanged | BasicActionChanged basic_action

record suggestions =
  sa_broadcast :: "int set"
  sa_byName :: "string \<rightharpoonup> custom_action"
  sa_names :: "string list"
  sa_basic :: "basic_action set"
  sa_outputs :: "suggestion_output list"

definition sa_new :: suggestions where
  "sa_new = \<lparr>sa_broadcast = {}, sa_byName = Map.empty, sa_names = [], sa_basic = {}, sa_outputs = []\<rparr>"

definition sa_emit :: "suggestion_output \<Rightarrow> suggestions \<Rightarrow> suggestions" where
  "sa_emit out s = s\<lparr>sa_outputs := sa_outputs s @ [out]\<rparr>"

definition basicAction :: "string \<Rightarrow> basic_action option" where
  "basicAction type =
     (if type = ''suggestedActionCheckPhoneNumber'' then Some CheckPhoneNumber
      else if type = ''suggestedActionCheckPassword'' then Some CheckPassword
      else if type = ''suggestedActionSetProfilePhoto'' then Some SetProfilePhoto
      else if type = ''suggestedActionSetBirthdate'' then Some SetBirthdate else None)"

definition sa_setBasic :: "basic_action \<Rightarrow> bool \<Rightarrow> suggestions \<Rightarrow> suggestions" where
  "sa_setBasic a added s =
     (if (a \<in> sa_basic s) \<noteq> added
      then sa_emit (BasicActionChanged a)
             (s\<lparr>sa_basic := (if added then insert a (sa_basic s) else sa_basic s - {a})\<rparr>)
      else s)"

definition sa_tryUpdateBasicAction :: "string \<Rightarrow> bool \<Rightarrow> suggestions \<Rightarrow> suggestions" where
  "sa_tryUpdateBasicAction type added s =
     (case basicAction type of None \<Rightarrow> s | Some a \<Rightarrow> sa_setBasic a added s)"

text \<open>\<open>lastIndexOf(name) == length() - 1\<close>; both are -1 for an empty list.\<close>

definition sa_isLast :: "string \<Rightarrow> string list \<Rightarrow> bool" where
  "sa_isLast name names \<longleftrightarrow> find_last ((=) name) names (length names) = int (length names) - 1"

definition sa_remove :: "qvariant \<Rightarrow> suggestions \<Rightarrow> suggestions" where
  "sa_remove v s =
     (let action = toMap v; type = toString (mvalue action ''@type'')
      in if type = ''suggestedActionConvertToBroadcastGroup''
         then s\<lparr>sa_broadcast := sa_broadcast s - {toLongLong (mvalue action ''supergroup_id'')}\<rparr>
         else if type = ''suggestedActionCustom''
         then (let name = toString (mvalue action ''name'');
                   s1 = s\<lparr>sa_names := removeAll name (sa_names s)\<rparr>;
                   s2 = (if sa_isLast name (sa_names s) then sa_emit CustomActionChanged s1 else s1)
               in s2\<lparr>sa_byName := (sa_byName s2)(name := None)\<rparr>)
         else sa_tryUpdateBasicAction type False s)"

definition sa_add :: "qvariant \<Rightarrow> suggestions \<Rightarrow> suggestions" where
  "sa_add v s =
     (let action = toMap v; type = toString (mvalue action ''@type'')
      in if type = ''suggestedActionConvertToBroadcastGroup''
         then s\<lparr>sa_broadcast := insert (toLongLong (mvalue action ''supergroup_id'')) (sa_broadcast s)\<rparr>
         else if type = ''suggestedActionCustom''
         then (let name = toString (mvalue action ''name'');
                   custom = \<lparr>ca_title = toMap (mvalue action ''title''), ca_description = toMap (mvalue action ''description''),
                             ca_url = toString (mvalue action ''url'')\<rparr>
               in sa_emit CustomActionChanged
                    (s\<lparr>sa_byName := (sa_byName s)(name \<mapsto> custom), sa_names := sa_names s @ [name]\<rparr>))
         else sa_tryUpdateBasicAction type True s)"

definition sa_handleSuggestedActionsUpdated :: "qvariant list \<Rightarrow> qvariant list \<Rightarrow> suggestions \<Rightarrow> suggestions" where
  "sa_handleSuggestedActionsUpdated added removed s = fold sa_add added (fold sa_remove removed s)"

definition sa_reset :: "suggestions \<Rightarrow> suggestions" where
  "sa_reset s =
     (let s1 = (if sa_names s \<noteq> [] then sa_emit CustomActionChanged (s\<lparr>sa_names := []\<rparr>) else s);
          s2 = s1\<lparr>sa_byName := Map.empty, sa_broadcast := {}\<rparr>
      in fold (\<lambda>a. sa_setBasic a False) [CheckPhoneNumber, CheckPassword, SetProfilePhoto, SetBirthdate] s2)"

definition sa_isConversionToBroadcastGroupSuggested :: "int \<Rightarrow> suggestions \<Rightarrow> bool" where
  "sa_isConversionToBroadcastGroupSuggested supergroupId s \<longleftrightarrow> supergroupId \<in> sa_broadcast s"

definition sa_last :: "suggestions \<Rightarrow> string option" where
  "sa_last s = (if sa_names s = [] then None else Some (last (sa_names s)))"

definition emptyAction :: custom_action where
  "emptyAction = \<lparr>ca_title = fmempty, ca_description = fmempty, ca_url = []\<rparr>"

text \<open>\<open>customActionsByName.value(customActions.last())\<close>\<close>

definition sa_shown :: "suggestions \<Rightarrow> custom_action option" where
  "sa_shown s = map_option (\<lambda>name. case sa_byName s name of None \<Rightarrow> emptyAction | Some a \<Rightarrow> a) (sa_last s)"

definition sa_customActionName :: "suggestions \<Rightarrow> string option" where
  "sa_customActionName s = sa_last s"

definition sa_customActionTitle :: "suggestions \<Rightarrow> vmap option" where
  "sa_customActionTitle s = map_option ca_title (sa_shown s)"

definition sa_customActionDescription :: "suggestions \<Rightarrow> vmap option" where
  "sa_customActionDescription s = map_option ca_description (sa_shown s)"

definition sa_customActionUrl :: "suggestions \<Rightarrow> string option" where
  "sa_customActionUrl s = map_option ca_url (sa_shown s)"

section \<open>Names and data go together\<close>

definition sa_ok :: "suggestions \<Rightarrow> bool" where
  "sa_ok s \<longleftrightarrow> dom (sa_byName s) = set (sa_names s)"

lemma sa_emit_fields [simp]:
  "sa_names (sa_emit out s) = sa_names s" "sa_byName (sa_emit out s) = sa_byName s"
  "sa_basic (sa_emit out s) = sa_basic s" "sa_broadcast (sa_emit out s) = sa_broadcast s"
  "sa_outputs (sa_emit out s) = sa_outputs s @ [out]"
  by (simp_all add: sa_emit_def)

lemma sa_setBasic_fields [simp]:
  "sa_names (sa_setBasic a b s) = sa_names s" "sa_byName (sa_setBasic a b s) = sa_byName s"
  "sa_broadcast (sa_setBasic a b s) = sa_broadcast s"
  "sa_basic (sa_setBasic a b s) = (if b then insert a (sa_basic s) else sa_basic s - {a})"
  by (auto simp: sa_setBasic_def)

lemma sa_tryUpdate_fields [simp]:
  "sa_names (sa_tryUpdateBasicAction t b s) = sa_names s" "sa_byName (sa_tryUpdateBasicAction t b s) = sa_byName s"
  "sa_broadcast (sa_tryUpdateBasicAction t b s) = sa_broadcast s"
  by (simp_all add: sa_tryUpdateBasicAction_def split: option.split)

lemma sa_ok_remove [inv_intros]: "sa_ok s \<Longrightarrow> sa_ok (sa_remove v s)"
  by (auto simp: sa_ok_def sa_remove_def Let_def)

lemma sa_ok_add [inv_intros]: "sa_ok s \<Longrightarrow> sa_ok (sa_add v s)"
  by (auto simp: sa_ok_def sa_add_def Let_def)

lemma sa_ok_fold: "(\<And>v s. sa_ok s \<Longrightarrow> sa_ok (f v s)) \<Longrightarrow> sa_ok s \<Longrightarrow> sa_ok (fold f vs s)"
  by (induction vs arbitrary: s) auto

lemma sa_ok_handle [inv_intros]: "sa_ok s \<Longrightarrow> sa_ok (sa_handleSuggestedActionsUpdated added removed s)"
  unfolding sa_handleSuggestedActionsUpdated_def by (intro sa_ok_fold inv_intros)

lemma sa_reset_fields:
  "sa_names (sa_reset s) = []" "sa_byName (sa_reset s) = Map.empty" "sa_broadcast (sa_reset s) = {}" "sa_basic (sa_reset s) = {}"
proof -
  show "sa_names (sa_reset s) = []" "sa_byName (sa_reset s) = Map.empty" "sa_broadcast (sa_reset s) = {}"
    by (simp_all add: sa_reset_def Let_def)
  have "a \<in> {CheckPhoneNumber, CheckPassword, SetProfilePhoto, SetBirthdate}" for a by (cases a) simp_all
  then show "sa_basic (sa_reset s) = {}" by (auto simp: sa_reset_def Let_def)
qed

inductive sa_reaches :: "suggestions \<Rightarrow> bool" where
  sa_start: "sa_reaches sa_new"
| sa_updated: "sa_reaches s \<Longrightarrow> sa_reaches (sa_handleSuggestedActionsUpdated added removed s)"
| sa_resetted: "sa_reaches s \<Longrightarrow> sa_reaches (sa_reset s)"

lemma sa_reaches_ok: "sa_reaches s \<Longrightarrow> sa_ok s"
proof (induction rule: sa_reaches.induct)
  case sa_start
  show ?case by (simp add: sa_ok_def sa_new_def)
next
  case (sa_resetted s)
  then show ?case by (simp add: sa_ok_def sa_reset_fields)
qed (rule inv_intros)


section \<open>What is shown, and when it is announced\<close>

text \<open>Something was said about the shown action between the two states.\<close>

definition sa_announced :: "suggestions \<Rightarrow> suggestions \<Rightarrow> bool" where
  "sa_announced s s' \<longleftrightarrow> (\<exists>outs. sa_outputs s' = sa_outputs s @ outs \<and> (sa_shown s' \<noteq> sa_shown s \<longrightarrow> CustomActionChanged \<in> set outs))"

lemma sa_announced_refl: "sa_announced s s"
  by (simp add: sa_announced_def)

lemma sa_announced_trans: "sa_announced s s1 \<Longrightarrow> sa_announced s1 s2 \<Longrightarrow> sa_announced s s2"
  unfolding sa_announced_def by fastforce

lemma sa_announced_emit: "sa_outputs s' = sa_outputs s @ [CustomActionChanged] \<Longrightarrow> sa_announced s s'"
  by (simp add: sa_announced_def)

lemma sa_announced_same:
  "sa_outputs s' = sa_outputs s @ outs \<Longrightarrow> sa_shown s' = sa_shown s \<Longrightarrow> sa_announced s s'"
  by (simp add: sa_announced_def)

lemma sa_shown_same: "sa_names s' = sa_names s \<Longrightarrow> sa_byName s' = sa_byName s \<Longrightarrow> sa_shown s' = sa_shown s"
  by (simp add: sa_shown_def sa_last_def)

lemma sa_broadcast_announced: "sa_announced s (s\<lparr>sa_broadcast := B\<rparr>)"
  by (simp add: sa_announced_def sa_shown_def sa_last_def)

lemma sa_setBasic_announced: "sa_announced s (sa_setBasic a b s)"
proof -
  have "\<exists>outs. sa_outputs (sa_setBasic a b s) = sa_outputs s @ outs" by (simp add: sa_setBasic_def)
  moreover have "sa_shown (sa_setBasic a b s) = sa_shown s" by (rule sa_shown_same) simp_all
  ultimately show ?thesis by (auto intro: sa_announced_same)
qed

lemma sa_tryUpdate_announced: "sa_announced s (sa_tryUpdateBasicAction t b s)"
  by (simp add: sa_tryUpdateBasicAction_def sa_announced_refl sa_setBasic_announced split: option.split)

lemma sa_isLast_iff: "sa_isLast name names \<longleftrightarrow> names = [] \<or> last names = name"
proof (cases names rule: rev_cases)
  case (snoc xs x)
  have "find_last ((=) name) (xs @ [x]) (length xs) \<noteq> int (length xs)"
    using find_last_range [of "(=) name" "xs @ [x]" "length xs"] by simp
  then show ?thesis by (auto simp: sa_isLast_def snoc nth_append)
qed (simp add: sa_isLast_def)

lemma last_removeAll: "names \<noteq> [] \<Longrightarrow> last names \<noteq> name \<Longrightarrow> removeAll name names \<noteq> [] \<and> last (removeAll name names) = last names"
  by (cases names rule: rev_cases) auto

lemma sa_remove_announced: "sa_announced s (sa_remove v s)"
proof -
  let ?name = "toString (mvalue (toMap v) ''name'')"
  show ?thesis
  proof (cases "sa_isLast ?name (sa_names s)")
    case True
    then show ?thesis
      by (auto simp: sa_remove_def Let_def sa_tryUpdate_announced sa_broadcast_announced
          intro: sa_announced_emit sa_announced_same [of _ _ "[]"] sa_shown_same)
  next
    case False
    then have "sa_names s \<noteq> []" "last (sa_names s) \<noteq> ?name" by (auto simp: sa_isLast_iff)
    note last_removeAll [OF this]
    with \<open>sa_names s \<noteq> []\<close> \<open>last (sa_names s) \<noteq> ?name\<close> have "sa_shown (s\<lparr>sa_names := removeAll ?name (sa_names s), sa_byName := (sa_byName s)(?name := None)\<rparr>) = sa_shown s"
      by (simp add: sa_shown_def sa_last_def)
    with False show ?thesis
      by (auto simp: sa_remove_def Let_def sa_tryUpdate_announced sa_broadcast_announced intro: sa_announced_same [of _ _ "[]"] sa_shown_same)
  qed
qed

lemma sa_add_announced: "sa_announced s (sa_add v s)"
  by (auto simp: sa_add_def Let_def sa_tryUpdate_announced sa_broadcast_announced
      intro: sa_announced_emit sa_announced_same [of _ _ "[]"] sa_shown_same)

lemma sa_fold_announced: "(\<And>v s. sa_announced s (f v s)) \<Longrightarrow> sa_announced s (fold f vs s)"
  by (induction vs arbitrary: s) (auto intro: sa_announced_refl sa_announced_trans)

text \<open>The suggestion on show is a real one, and never changes in silence: however the lists of added and removed suggestions
  came, as long as there are names, the last one has its data, which is what is shown; and an update or a reset
  after which something else, or nothing, is to be shown says so.\<close>

theorem suggestion_shown_and_announced:
  assumes "sa_reaches s"
  shows "(sa_names s \<noteq> [] \<longrightarrow> (\<exists>a. sa_byName s (last (sa_names s)) = Some a \<and> sa_shown s = Some a)) \<and>
    sa_announced s (sa_handleSuggestedActionsUpdated added removed s) \<and> sa_announced s (sa_reset s)"
proof (intro conjI impI)
  assume names: "sa_names s \<noteq> []"
  with sa_reaches_ok [OF assms] have "last (sa_names s) \<in> dom (sa_byName s)" by (simp add: sa_ok_def)
  then show "\<exists>a. sa_byName s (last (sa_names s)) = Some a \<and> sa_shown s = Some a"
    using names by (auto simp: sa_shown_def sa_last_def)
next
  show "sa_announced s (sa_handleSuggestedActionsUpdated added removed s)"
    unfolding sa_handleSuggestedActionsUpdated_def
    by (rule sa_announced_trans [OF sa_fold_announced [OF sa_remove_announced] sa_fold_announced [OF sa_add_announced]])
next
  let ?s = "if sa_names s \<noteq> [] then sa_emit CustomActionChanged (s\<lparr>sa_names := []\<rparr>) else s"
  have "sa_announced s (?s\<lparr>sa_byName := Map.empty, sa_broadcast := {}\<rparr>)"
    by (auto intro: sa_announced_emit sa_announced_same [of _ _ "[]"] simp: sa_shown_def sa_last_def)
  then show "sa_announced s (sa_reset s)"
    unfolding sa_reset_def Let_def by (rule sa_announced_trans [OF _ sa_fold_announced [OF sa_setBasic_announced]])
qed

lemma suggestion_shown_and_announced_witness:
  "let s = sa_add (QMap (fmap_of_list [(''@type'', QString ''suggestedActionCustom''), (''name'', QString ''x'')])) sa_new
   in \<exists>a. sa_byName s ''x'' = Some a \<and> sa_shown s = Some a"
proof -
  let ?v = "QMap (fmap_of_list [(''@type'', QString ''suggestedActionCustom''), (''name'', QString ''x'')])"
  have "sa_reaches (sa_handleSuggestedActionsUpdated [?v] [] sa_new)" by (intro sa_updated sa_start)
  from suggestion_shown_and_announced [OF this, of "[]" "[]"] show ?thesis
    by (simp add: sa_handleSuggestedActionsUpdated_def sa_add_def sa_new_def mvalue_def Let_def)
qed

end
