(* ===== verification/Stickers.thy ===== *)
theory Stickers imports YaqtPrelude
begin

text \<open>
  \<open>StickerManager\<close> (\<open>src/stickermanager.h\<close>, \<open>stickermanager.cpp\<close>): the recent and favourite stickers and the
  sticker sets seen so far.
\<close>

datatype sticker_output =
  RecentStickersChanged | FavoriteStickersChanged | StickerSetUpdated string | StickerSetStickersUpdated string

record stickers =
  recentStickerIds :: "int list"
  favoriteStickerIds :: "int list"
  stickerSets :: "string \<rightharpoonup> vmap"
  st_outputs :: "sticker_output list"

definition st_new :: stickers where
  "st_new = \<lparr>recentStickerIds = [], favoriteStickerIds = [], stickerSets = Map.empty, st_outputs = []\<rparr>"

definition st_emit :: "sticker_output \<Rightarrow> stickers \<Rightarrow> stickers" where
  "st_emit out s = s\<lparr>st_outputs := st_outputs s @ [out]\<rparr>"

definition st_getStickerSet :: "string \<Rightarrow> stickers \<Rightarrow> vmap" where
  "st_getStickerSet i s = (case stickerSets s i of None \<Rightarrow> fmempty | Some m \<Rightarrow> m)"

definition st_hasStickerSet :: "string \<Rightarrow> stickers \<Rightarrow> bool" where
  "st_hasStickerSet i s \<longleftrightarrow> stickerSets s i \<noteq> None"

definition st_handleRecentStickersUpdated :: "bool \<Rightarrow> int list \<Rightarrow> stickers \<Rightarrow> stickers" where
  "st_handleRecentStickersUpdated isAttached ids s =
     (if isAttached then s else st_emit RecentStickersChanged (s\<lparr>recentStickerIds := ids\<rparr>))"

definition st_handleFavoriteStickersUpdated :: "int list \<Rightarrow> stickers \<Rightarrow> stickers" where
  "st_handleFavoriteStickersUpdated ids s = st_emit FavoriteStickersChanged (s\<lparr>favoriteStickerIds := ids\<rparr>)"

definition st_handleStickerSet :: "string \<Rightarrow> vmap \<Rightarrow> stickers \<Rightarrow> stickers" where
  "st_handleStickerSet i info s =
     (let changed = toList (mvalue (st_getStickerSet i s) ''stickers'') \<noteq> toList (mvalue info ''stickers'');
          s1 = st_emit (StickerSetUpdated i) (s\<lparr>stickerSets := (stickerSets s)(i \<mapsto> info)\<rparr>)
      in if changed then st_emit (StickerSetStickersUpdated i) s1 else s1)"

definition st_handleStickerSetUpdated :: "string \<Rightarrow> vmap \<Rightarrow> stickers \<Rightarrow> stickers" where
  "st_handleStickerSetUpdated i info = st_handleStickerSet i info"

definition st_handleStickerSetReceived :: "string \<Rightarrow> vmap \<Rightarrow> stickers \<Rightarrow> stickers" where
  "st_handleStickerSetReceived i info = st_handleStickerSet i info"

lemma st_emit_fields [simp]:
  "stickerSets (st_emit out s) = stickerSets s" "recentStickerIds (st_emit out s) = recentStickerIds s"
  "favoriteStickerIds (st_emit out s) = favoriteStickerIds s" "st_outputs (st_emit out s) = st_outputs s @ [out]"
  by (simp_all add: st_emit_def)

lemma st_handleStickerSet_sets: "stickerSets (st_handleStickerSet i info s) = (stickerSets s)(i \<mapsto> info)"
  by (simp add: st_handleStickerSet_def Let_def)

end
