(* ===== verification/WebProxies.thy ===== *)
theory WebProxies imports Requests
begin

text \<open>
  \<open>WebProxyManager\<close> (\<open>src/webproxymanager.h\<close>, \<open>webproxymanager.cpp\<close>): the carriers of web proxies, by their id.

  What a carrier is, is up to the application: \<open>createCarrier\<close> is virtual, and the class's own makes
  none. It is a parameter here; a carrier that is deleted is one the manager gives up.
\<close>

type_synonym 'c carrier_factory = "int \<Rightarrow> string \<Rightarrow> string \<Rightarrow> string \<Rightarrow> 'c option"

datatype 'c carrier_output = CarrierData 'c string | CarrierDeleted 'c

record 'c proxies =
  carriers :: "int \<rightharpoonup> 'c"
  wp_wrapper :: wrapper
  wp_outputs :: "'c carrier_output list"

definition noCarrier :: "'c carrier_factory" where
  "noCarrier i url origin pathPrefix = None"

definition wp_emit :: "'c carrier_output \<Rightarrow> 'c proxies \<Rightarrow> 'c proxies" where
  "wp_emit out s = s\<lparr>wp_outputs := wp_outputs s @ [out]\<rparr>"

definition wp_drop :: "int \<Rightarrow> 'c proxies \<Rightarrow> 'c proxies" where
  "wp_drop i s =
     (case carriers s i of
        None \<Rightarrow> s
      | Some c \<Rightarrow> wp_emit (CarrierDeleted c) (s\<lparr>carriers := (carriers s)(i := None)\<rparr>))"

definition wp_handleWebProxyCarrierOpened :: "'c carrier_factory \<Rightarrow> int \<Rightarrow> vmap \<Rightarrow> 'c proxies \<Rightarrow> 'c proxies" where
  "wp_handleWebProxyCarrierOpened createCarrier i carrier s =
     (let s1 = wp_drop i s
      in case createCarrier i (toString (mvalue carrier ''url'')) (toString (mvalue carrier ''origin''))
                (toString (mvalue carrier ''path_prefix'')) of
           None \<Rightarrow> s1\<lparr>wp_wrapper := wr_reportWebProxyCarrierErrorType i WebProxyCarrierErrorUnsupported (wp_wrapper s1)\<rparr>
         | Some c \<Rightarrow> s1\<lparr>carriers := (carriers s1)(i \<mapsto> c)\<rparr>)"

definition wp_handleWebProxyCarrierDataReceived :: "int \<Rightarrow> string \<Rightarrow> 'c proxies \<Rightarrow> 'c proxies" where
  "wp_handleWebProxyCarrierDataReceived i data s =
     (case carriers s i of None \<Rightarrow> s | Some c \<Rightarrow> wp_emit (CarrierData c data) s)"

definition wp_handleWebProxyCarrierClosed :: "int \<Rightarrow> 'c proxies \<Rightarrow> 'c proxies" where
  "wp_handleWebProxyCarrierClosed i s = wp_drop i s"

end
