(* ===== verification/UserPictures.thy ===== *)
theory UserPictures imports RowModel UtilitiesModel
begin

text \<open>
  \<open>UserProfilePicturesModel\<close> (\<open>src/userprofilepicturesmodel.h\<close>, \<open>userprofilepicturesmodel.cpp\<close>): the
  profile pictures of one user. A personal and a public picture from the user's full
  information come first; behind them are the photos of the profile, in the order TDLib lists them.
  \<open>indexMap\<close> leads from the id of a profile photo to its row.

  The wrapper is a pointer: \<open>None\<close> is the null pointer, and a slot that reads through it
  returns \<open>None\<close>. The id of the own user, which the wrapper knows, is an argument.
\<close>

section \<open>State\<close>

datatype photo_type = PersonalPhoto | PublicPhoto | Photo

type_synonym picture = "photo_type \<times> vmap"

datatype picture_output =
  TdlibChanged | UserIdChanged | ConnectWrapper nat
| PictureRows row_event "picture list"
| GetUserFullInfo int | GetUserProfilePhotos int int int

record pictures =
  tdLibWrapper :: "nat option"
  userId :: int
  profilePhotos :: "picture list"
  indexMap :: "int \<rightharpoonup> nat"
  totalCount :: int
  currentPhotoId :: int
  additionalPhotosCount :: int
  userFullInfoLoaded :: bool
  up_outputs :: "picture_output list"

definition up_new :: pictures where
  "up_new = \<lparr>tdLibWrapper = None, userId = 0, profilePhotos = [], indexMap = Map.empty, totalCount = -1,
     currentPhotoId = 0, additionalPhotosCount = 0, userFullInfoLoaded = False, up_outputs = []\<rparr>"

definition picture_id :: "picture \<Rightarrow> int" where
  "picture_id p = toLongLong (mvalue (snd p) ''id'')"

definition up_emit :: "picture_output \<Rightarrow> pictures \<Rightarrow> pictures" where
  "up_emit out s = s\<lparr>up_outputs := up_outputs s @ [out]\<rparr>"

text \<open>A signal about rows is logged with the rows a view reads while it handles it.\<close>

definition up_emitRows :: "row_event \<Rightarrow> pictures \<Rightarrow> pictures" where
  "up_emitRows e s = up_emit (PictureRows e (profilePhotos s)) s"

section \<open>Operations\<close>

definition up_setup :: "pictures \<Rightarrow> pictures" where
  "up_setup s =
     (if tdLibWrapper s \<noteq> None \<and> userId s \<noteq> 0 then
        (let s1 = (if profilePhotos s \<noteq> [] then
                     up_emitRows ModelReset
                       (s\<lparr>profilePhotos := [], indexMap := Map.empty, additionalPhotosCount := 0,
                          totalCount := -1, currentPhotoId := 0, userFullInfoLoaded := False\<rparr>)
                   else s)
         in up_emit (GetUserFullInfo (userId s)) s1)
      else s)"

definition up_setTDLibWrapper :: "nat option \<Rightarrow> pictures \<Rightarrow> pictures" where
  "up_setTDLibWrapper wrapper s =
     (if tdLibWrapper s \<noteq> wrapper then
        (let s1 = up_emit TdlibChanged (s\<lparr>tdLibWrapper := wrapper\<rparr>)
         in up_setup (case wrapper of None \<Rightarrow> s1 | Some w \<Rightarrow> up_emit (ConnectWrapper w) s1))
      else s)"

definition up_setUserId :: "int \<Rightarrow> pictures \<Rightarrow> pictures" where
  "up_setUserId user s =
     (if userId s \<noteq> user then up_setup (up_emit UserIdChanged (s\<lparr>userId := user\<rparr>)) else s)"

text \<open>\<open>beginInsertRows(i, i)\<close>, the insertion, \<open>endInsertRows()\<close>.\<close>

definition up_insertRow :: "nat \<Rightarrow> picture \<Rightarrow> pictures \<Rightarrow> pictures" where
  "up_insertRow i p s =
     up_emitRows (RowsInserted (int i) (int i))
       (s\<lparr>additionalPhotosCount := additionalPhotosCount s + 1, profilePhotos := insert_at i p (profilePhotos s)\<rparr>)"

definition up_handleUserFullInfo :: "int \<Rightarrow> int \<Rightarrow> vmap \<Rightarrow> pictures \<Rightarrow> pictures option" where
  "up_handleUserFullInfo myUserId user info s =
     (if userFullInfoLoaded s \<or> userId s \<noteq> user then Some s
      else if tdLibWrapper s = None then None
      else
        (let containsPersonalPhoto = mcontains info ''personal_photo'';
             s1 = s\<lparr>userFullInfoLoaded := True,
                    currentPhotoId := toLongLong (mvalue (toMap (mvalue info ''photo'')) ''id'')\<rparr>;
             s2 = (if containsPersonalPhoto
                   then up_insertRow 0 (PersonalPhoto, toMap (mvalue info ''personal_photo'')) s1 else s1);
             s3 = (if mcontains info ''public_photo'' \<and> (\<not> mcontains info ''photo'' \<or> user = myUserId)
                   then up_insertRow (if containsPersonalPhoto then 1 else 0)
                          (PublicPhoto, toMap (mvalue info ''public_photo'')) s2
                   else s2)
         in Some (up_emit (GetUserProfilePhotos user 100 0) s3)))"

fun up_appendPhotos :: "vmap list \<Rightarrow> pictures \<Rightarrow> pictures" where
  "up_appendPhotos [] s = s"
| "up_appendPhotos (photo # photos) s =
     up_appendPhotos photos
       (s\<lparr>profilePhotos := profilePhotos s @ [(Photo, photo)],
          indexMap := (indexMap s)(toLongLong (mvalue photo ''id'') \<mapsto> length (profilePhotos s))\<rparr>)"

definition up_handleChatPhotosReceived :: "int \<Rightarrow> qvariant list \<Rightarrow> int \<Rightarrow> pictures \<Rightarrow> pictures" where
  "up_handleChatPhotosReceived chatId photos received s =
     (if userId s = chatId then
        (let s1 = s\<lparr>totalCount := received\<rparr>
         in if photos \<noteq> [] then
              (let first = int (length (profilePhotos s1))
               in up_emitRows (RowsInserted first (first + int (length photos) - 1))
                    (up_appendPhotos (map toMap photos) s1))
            else s1)
      else s)"

definition up_handleOkReceived :: "int \<Rightarrow> qvariant \<Rightarrow> pictures \<Rightarrow> pictures option" where
  "up_handleOkReceived myUserId extraVariant s =
     (if tdLibWrapper s = None then None
      else if userId s = myUserId then
        (case extraVariant of
           QString extra \<Rightarrow>
             (if take 19 extra = ''deleteProfilePhoto:'' then
                (let photo = string_toLongLong (drop 19 extra)
                 in case indexMap s photo of
                      None \<Rightarrow> Some s
                    | Some index \<Rightarrow>
                        (if index < length (profilePhotos s) then
                           (let rows = remove_at index (profilePhotos s)
                            in Some (up_emitRows (RowsRemoved (int index) (int index))
                                 (s\<lparr>profilePhotos := rows,
                                    indexMap := reindex picture_id rows index (length rows)
                                                  ((indexMap s)(photo := None))\<rparr>)))
                         else None))
              else Some s)
         | _ \<Rightarrow> Some s)
      else Some s)"

definition up_rowCount :: "pictures \<Rightarrow> int" where
  "up_rowCount s = int (length (profilePhotos s))"

text \<open>The roles follow \<open>Qt::DisplayRole\<close>, which is 0; \<open>photo_type\<close> reaches QML as its number.\<close>

definition up_roleNames :: "(int \<times> string) list" where
  "up_roleNames =
     [(0, ''display''), (1, ''type''), (2, ''photo_id''), (3, ''added_date''), (4, ''photo_minithumbnail''),
      (5, ''small_photo''), (6, ''big_photo''), (7, ''photo_animation''), (8, ''is_current'')]"

fun photo_type_number :: "photo_type \<Rightarrow> int" where
  "photo_type_number PersonalPhoto = 0"
| "photo_type_number PublicPhoto = 1"
| "photo_type_number Photo = 2"

definition up_data :: "int \<Rightarrow> int \<Rightarrow> pictures \<Rightarrow> qvariant" where
  "up_data row role s =
     (if 0 \<le> row \<and> row < int (length (profilePhotos s)) then
        (let pair = profilePhotos s ! nat row; photo = snd pair
         in if role = 0 then QMap photo
            else if role = 1 then QInt (photo_type_number (fst pair))
            else if role = 2 then QString (toString (mvalue photo ''id''))
            else if role = 3 then QInt (toInt (mvalue photo ''added_date''))
            else if role = 4 then QMap (toMap (mvalue photo ''minithumbnail''))
            else if role = 5 then QMap (findSmallestPhotoSize (toList (mvalue photo ''sizes'')))
            else if role = 6 then QMap (findBiggestPhotoSize (toList (mvalue photo ''sizes'')))
            else if role = 7 then
              (if mcontains photo ''animation'' then QMap (toMap (mvalue photo ''animation''))
               else if mcontains photo ''small_animation'' then QMap (toMap (mvalue photo ''small_animation''))
               else QInvalid)
            else if role = 8 then QBool (toLongLong (mvalue photo ''id'') = currentPhotoId s)
            else QInvalid)
      else QInvalid)"

definition up_loadMore :: "pictures \<Rightarrow> pictures" where
  "up_loadMore s =
     (if tdLibWrapper s \<noteq> None \<and> userId s \<noteq> 0 then
        (let loaded = int (length (profilePhotos s)) - additionalPhotosCount s
         in if totalCount s = -1 \<or> totalCount s > loaded
            then up_emit (GetUserProfilePhotos (userId s) 100 loaded) (s\<lparr>totalCount := 0\<rparr>)
            else s)
      else s)"

section \<open>Rows, hash and views\<close>

text \<open>
  The rows in front are no profile photos; behind them are only profile photos, and the hash
  leads from each of their ids to its row and knows nothing else.
\<close>

definition up_ok :: "pictures \<Rightarrow> bool" where
  "up_ok s \<longleftrightarrow>
     (\<exists>n. additionalPhotosCount s = int n \<and> n \<le> length (profilePhotos s) \<and>
        (\<forall>i < length (profilePhotos s). fst (profilePhotos s ! i) = Photo \<longleftrightarrow> n \<le> i) \<and>
        (\<forall>k i. indexMap s k = Some i \<longleftrightarrow>
           n \<le> i \<and> i < length (profilePhotos s) \<and> picture_id (profilePhotos s ! i) = k))"

text \<open>The rows that a view shows which was there from the start.\<close>

fun picture_events :: "picture_output list \<Rightarrow> (row_event \<times> picture list) list" where
  "picture_events [] = []"
| "picture_events (PictureRows e rows # outs) = (e, rows) # picture_events outs"
| "picture_events (_ # outs) = picture_events outs"

definition up_view :: "pictures \<Rightarrow> picture list" where
  "up_view s = view_replay (picture_events (up_outputs s)) []"

lemma picture_events_append [simp]: "picture_events (xs @ ys) = picture_events xs @ picture_events ys"
  by (induction xs rule: picture_events.induct) auto

lemma up_emit_fields [simp]:
  "tdLibWrapper (up_emit out s) = tdLibWrapper s" "userId (up_emit out s) = userId s"
  "profilePhotos (up_emit out s) = profilePhotos s" "indexMap (up_emit out s) = indexMap s"
  "totalCount (up_emit out s) = totalCount s" "currentPhotoId (up_emit out s) = currentPhotoId s"
  "additionalPhotosCount (up_emit out s) = additionalPhotosCount s"
  "userFullInfoLoaded (up_emit out s) = userFullInfoLoaded s"
  "up_outputs (up_emit out s) = up_outputs s @ [out]"
  by (simp_all add: up_emit_def)

lemma up_emitRows_fields [simp]:
  "tdLibWrapper (up_emitRows e s) = tdLibWrapper s" "userId (up_emitRows e s) = userId s"
  "profilePhotos (up_emitRows e s) = profilePhotos s" "indexMap (up_emitRows e s) = indexMap s"
  "totalCount (up_emitRows e s) = totalCount s" "currentPhotoId (up_emitRows e s) = currentPhotoId s"
  "additionalPhotosCount (up_emitRows e s) = additionalPhotosCount s"
  "userFullInfoLoaded (up_emitRows e s) = userFullInfoLoaded s"
  "up_outputs (up_emitRows e s) = up_outputs s @ [PictureRows e (profilePhotos s)]"
  by (simp_all add: up_emitRows_def)

lemma up_view_emit [simp]: "\<forall>e rows. out \<noteq> PictureRows e rows \<Longrightarrow> up_view (up_emit out s) = up_view s"
  by (cases out) (auto simp: up_view_def)

lemma up_view_rows [simp]:
  "up_view (up_emitRows e s) = view_step (profilePhotos s) e (up_view s)"
  by (simp add: up_view_def)

lemma up_view_fields [simp]:
  "up_view (s\<lparr>tdLibWrapper := w\<rparr>) = up_view s" "up_view (s\<lparr>userId := u\<rparr>) = up_view s"
  "up_view (s\<lparr>profilePhotos := rows\<rparr>) = up_view s" "up_view (s\<lparr>indexMap := m\<rparr>) = up_view s"
  "up_view (s\<lparr>totalCount := t\<rparr>) = up_view s" "up_view (s\<lparr>currentPhotoId := c\<rparr>) = up_view s"
  "up_view (s\<lparr>additionalPhotosCount := a\<rparr>) = up_view s"
  "up_view (s\<lparr>userFullInfoLoaded := l\<rparr>) = up_view s"
  by (simp_all add: up_view_def)

text \<open>What the rows, the hash and the number of rows in front say is all that matters.\<close>

lemma up_ok_cong:
  "profilePhotos s = profilePhotos t \<Longrightarrow> indexMap s = indexMap t \<Longrightarrow>
     additionalPhotosCount s = additionalPhotosCount t \<Longrightarrow> up_ok s \<longleftrightarrow> up_ok t"
  by (simp add: up_ok_def)

lemma up_ok_emitRows [simp]: "up_ok (up_emitRows e s) \<longleftrightarrow> up_ok s"
  by (simp add: up_ok_def)

lemma up_ok_empty: "additionalPhotosCount s = 0 \<Longrightarrow> profilePhotos s = [] \<Longrightarrow> indexMap s = Map.empty \<Longrightarrow> up_ok s"
  by (simp add: up_ok_def)

lemma up_ok_hash:
  assumes "up_ok s"
  shows "indexMap s k = Some r \<longleftrightarrow>
    nat (additionalPhotosCount s) \<le> r \<and> r < length (profilePhotos s) \<and> picture_id (profilePhotos s ! r) = k"
proof -
  obtain n where "additionalPhotosCount s = int n" "\<And>k i. indexMap s k = Some i \<longleftrightarrow>
      n \<le> i \<and> i < length (profilePhotos s) \<and> picture_id (profilePhotos s ! i) = k"
    using assms unfolding up_ok_def by blast
  then show ?thesis by simp
qed

definition up_good :: "pictures \<Rightarrow> bool" where
  "up_good s \<longleftrightarrow> up_ok s \<and> up_view s = profilePhotos s"

lemma up_good_new: "up_good up_new"
  by (simp add: up_good_def up_new_def up_view_def up_ok_empty)

lemma up_good_setup: "up_good s \<Longrightarrow> up_good (up_setup s)"
  by (auto simp: up_good_def up_setup_def Let_def intro: up_ok_empty cong: up_ok_cong)

lemma up_good_same:
  "up_good s \<Longrightarrow> profilePhotos t = profilePhotos s \<Longrightarrow> indexMap t = indexMap s \<Longrightarrow>
     additionalPhotosCount t = additionalPhotosCount s \<Longrightarrow> up_view t = up_view s \<Longrightarrow> up_good t"
  using up_ok_cong [of t s] by (simp add: up_good_def)

lemma up_good_setTDLibWrapper: "up_good s \<Longrightarrow> up_good (up_setTDLibWrapper w s)"
  by (auto simp: up_setTDLibWrapper_def Let_def intro!: up_good_setup up_good_same [of s] split: option.split)

lemma up_good_setUserId: "up_good s \<Longrightarrow> up_good (up_setUserId u s)"
  by (auto simp: up_setUserId_def intro!: up_good_setup up_good_same [of s])

lemma up_good_loadMore: "up_good s \<Longrightarrow> up_good (up_loadMore s)"
  by (auto simp: up_loadMore_def Let_def intro!: up_good_same [of s])

text \<open>Without an indexed photo every row is a row in front.\<close>

lemma up_ok_no_photo:
  assumes ok: "up_ok s" and none: "indexMap s = Map.empty"
  shows "additionalPhotosCount s = int (length (profilePhotos s)) \<and> (\<forall>p \<in> set (profilePhotos s). fst p \<noteq> Photo)"
proof -
  obtain n where n: "additionalPhotosCount s = int n" "n \<le> length (profilePhotos s)"
    and t: "\<And>i. i < length (profilePhotos s) \<Longrightarrow> fst (profilePhotos s ! i) = Photo \<longleftrightarrow> n \<le> i"
    and m: "\<And>k i. indexMap s k = Some i \<longleftrightarrow>
      n \<le> i \<and> i < length (profilePhotos s) \<and> picture_id (profilePhotos s ! i) = k"
    using ok by (auto simp: up_ok_def)
  have "\<not> n < length (profilePhotos s)" using m [of _ n] none by auto
  with n have all: "n = length (profilePhotos s)" by simp
  have "fst p \<noteq> Photo" if "p \<in> set (profilePhotos s)" for p
    using that t all by (metis in_set_conv_nth not_le)
  with n all show ?thesis by simp
qed

lemma up_ok_front:
  assumes "additionalPhotosCount s = int (length (profilePhotos s))" "\<forall>p \<in> set (profilePhotos s). fst p \<noteq> Photo"
    "indexMap s = Map.empty"
  shows "up_ok s"
  unfolding up_ok_def using assms by (intro exI [of _ "length (profilePhotos s)"]) auto

lemma up_good_insertRow:
  assumes g: "up_good s" and none: "indexMap s = Map.empty" and i: "i \<le> length (profilePhotos s)"
    and p: "fst p \<noteq> Photo"
  shows "up_good (up_insertRow i p s)"
proof -
  have "view_step (insert_at i p (profilePhotos s)) (RowsInserted (int i) (int i)) (profilePhotos s) =
      insert_at i p (profilePhotos s)"
    using view_inserted [of i "profilePhotos s" "[p]"] i by (simp add: insert_at_def)
  moreover have "up_ok (up_insertRow i p s)"
    using up_ok_no_photo [of s] g none p by (intro up_ok_front) (auto simp: up_insertRow_def up_good_def)
  ultimately show ?thesis using g by (simp add: up_good_def up_insertRow_def del: view_step.simps)
qed

lemma up_insertRow_fields [simp]:
  "tdLibWrapper (up_insertRow i p s) = tdLibWrapper s" "userId (up_insertRow i p s) = userId s"
  "indexMap (up_insertRow i p s) = indexMap s"
  "profilePhotos (up_insertRow i p s) = insert_at i p (profilePhotos s)"
  by (simp_all add: up_insertRow_def)

lemma up_good_userFullInfo:
  assumes g: "up_good s" and none: "indexMap s = Map.empty"
    and r: "up_handleUserFullInfo myUserId user info s = Some s'"
  shows "up_good s'"
proof (cases "userFullInfoLoaded s \<or> userId s \<noteq> user")
  case True
  with r g show ?thesis by (simp add: up_handleUserFullInfo_def)
next
  case False
  let ?s1 = "s\<lparr>userFullInfoLoaded := True,
    currentPhotoId := toLongLong (mvalue (toMap (mvalue info ''photo'')) ''id'')\<rparr>"
  let ?s2 = "if mcontains info ''personal_photo''
    then up_insertRow 0 (PersonalPhoto, toMap (mvalue info ''personal_photo'')) ?s1 else ?s1"
  let ?i = "if mcontains info ''personal_photo'' then 1 else 0 :: nat"
  have 1: "up_good ?s1" by (rule up_good_same [OF g]) simp_all
  then have 2: "up_good ?s2 \<and> indexMap ?s2 = Map.empty \<and> ?i \<le> length (profilePhotos ?s2)"
    using none by (simp add: up_good_insertRow)
  then have "up_good (up_insertRow ?i (PublicPhoto, toMap (mvalue info ''public_photo'')) ?s2)"
    by (intro up_good_insertRow) simp_all
  with 2 have "up_good (if mcontains info ''public_photo'' \<and> (\<not> mcontains info ''photo'' \<or> user = myUserId)
      then up_insertRow ?i (PublicPhoto, toMap (mvalue info ''public_photo'')) ?s2 else ?s2)" by simp
  then show ?thesis
    using r False by (auto simp: up_handleUserFullInfo_def Let_def simp del: One_nat_def split: if_split_asm
      elim!: up_good_same)
qed

section \<open>Photos arriving and leaving\<close>

lemma up_appendPhotos_rows: "profilePhotos (up_appendPhotos photos s) = profilePhotos s @ map (Pair Photo) photos"
  by (induction photos arbitrary: s) auto

lemma up_appendPhotos_fields [simp]:
  "tdLibWrapper (up_appendPhotos photos s) = tdLibWrapper s" "userId (up_appendPhotos photos s) = userId s"
  "totalCount (up_appendPhotos photos s) = totalCount s"
  "additionalPhotosCount (up_appendPhotos photos s) = additionalPhotosCount s"
  "userFullInfoLoaded (up_appendPhotos photos s) = userFullInfoLoaded s"
  "up_outputs (up_appendPhotos photos s) = up_outputs s"
  by (induction photos arbitrary: s) auto

lemma up_ok_append:
  assumes ok: "up_ok s" and new: "indexMap s (toLongLong (mvalue photo ''id'')) = None"
  shows "up_ok (s\<lparr>profilePhotos := profilePhotos s @ [(Photo, photo)],
    indexMap := (indexMap s)(toLongLong (mvalue photo ''id'') \<mapsto> length (profilePhotos s))\<rparr>)"
proof -
  obtain n where n: "additionalPhotosCount s = int n" "n \<le> length (profilePhotos s)"
    and t: "\<And>i. i < length (profilePhotos s) \<Longrightarrow> fst (profilePhotos s ! i) = Photo \<longleftrightarrow> n \<le> i"
    and m: "\<And>k i. indexMap s k = Some i \<longleftrightarrow>
      n \<le> i \<and> i < length (profilePhotos s) \<and> picture_id (profilePhotos s ! i) = k"
    using ok by (auto simp: up_ok_def)
  have "picture_id (profilePhotos s ! i) \<noteq> toLongLong (mvalue photo ''id'')"
    if "n \<le> i" "i < length (profilePhotos s)" for i
    using m [of "picture_id (profilePhotos s ! i)" i] that new by auto
  then show ?thesis
    unfolding up_ok_def using n t m
    by (intro exI [of _ n]) (auto simp: nth_append less_Suc_eq picture_id_def)
qed

lemma up_ok_appendPhotos:
  "up_ok s \<Longrightarrow> distinct (map (\<lambda>p. toLongLong (mvalue p ''id'')) photos) \<Longrightarrow>
     \<forall>p \<in> set photos. indexMap s (toLongLong (mvalue p ''id'')) = None \<Longrightarrow> up_ok (up_appendPhotos photos s)"
proof (induction photos arbitrary: s)
  case (Cons photo photos)
  then have "up_ok (s\<lparr>profilePhotos := profilePhotos s @ [(Photo, photo)],
      indexMap := (indexMap s)(toLongLong (mvalue photo ''id'') \<mapsto> length (profilePhotos s))\<rparr>)"
    by (intro up_ok_append) simp_all
  moreover have "toLongLong (mvalue p ''id'') \<noteq> toLongLong (mvalue photo ''id'')" if "p \<in> set photos" for p
    using that Cons.prems(2) by (metis (mono_tags, lifting) distinct.simps(2) image_eqI list.set_map list.simps(9))
  ultimately show ?case using Cons by simp
qed simp

definition photo_ids :: "qvariant list \<Rightarrow> int list" where
  "photo_ids photos = map (\<lambda>v. toLongLong (mvalue (toMap v) ''id'')) photos"

lemma up_good_chatPhotos:
  assumes g: "up_good s" and new: "distinct (photo_ids photos)" "\<forall>k \<in> set (photo_ids photos). indexMap s k = None"
  shows "up_good (up_handleChatPhotosReceived chatId photos received s)"
proof (cases "userId s = chatId")
  case True
  let ?s1 = "s\<lparr>totalCount := received\<rparr>"
  let ?new = "map (Pair Photo \<circ> toMap) photos"
  have s1: "up_good ?s1" by (rule up_good_same [OF g]) simp_all
  have "up_ok (up_appendPhotos (map toMap photos) ?s1)"
    using s1 new by (intro up_ok_appendPhotos) (auto simp: photo_ids_def up_good_def comp_def)
  moreover have "view_step (profilePhotos s @ ?new)
      (RowsInserted (int (length (profilePhotos s))) (int (length (profilePhotos s)) + int (length photos) - 1))
      (profilePhotos s) = profilePhotos s @ ?new"
    using view_inserted [of "length (profilePhotos s)" "profilePhotos s" ?new] by simp
  moreover have "up_view (up_appendPhotos (map toMap photos) ?s1) = profilePhotos s"
    using s1 by (simp add: up_view_def up_good_def)
  ultimately show ?thesis
    using s1 True unfolding up_handleChatPhotosReceived_def Let_def
    by (auto simp: up_good_def up_appendPhotos_rows comp_def simp del: view_step.simps cong: up_ok_cong)
qed (use g in \<open>simp add: up_handleChatPhotosReceived_def\<close>)

text \<open>The loop that repairs the hash only needs the rows it visits to differ.\<close>

lemma reindex_visited:
  "(\<And>i j. a \<le> i \<Longrightarrow> i < b \<Longrightarrow> a \<le> j \<Longrightarrow> j < b \<Longrightarrow> key (rows ! i) = key (rows ! j) \<Longrightarrow> i = j) \<Longrightarrow>
     a \<le> i \<Longrightarrow> i < b \<Longrightarrow> reindex key rows a b m (key (rows ! i)) = Some i"
proof (induction b)
  case (Suc b)
  have "reindex key rows a b m (key (rows ! i)) = Some i" if "i < b"
    using that Suc.prems by (intro Suc.IH) auto
  moreover have "key (rows ! b) = key (rows ! i) \<longleftrightarrow> b = i" using Suc.prems by force
  ultimately show ?case using Suc.prems by (auto simp: reindex_Suc less_Suc_eq)
qed simp

lemma up_ok_delete:
  assumes ok: "up_ok s" and here: "indexMap s k = Some r"
  shows "up_ok (s\<lparr>profilePhotos := remove_at r (profilePhotos s),
    indexMap := reindex picture_id (remove_at r (profilePhotos s)) r (length (remove_at r (profilePhotos s)))
      ((indexMap s)(k := None))\<rparr>)" (is "up_ok ?t")
proof -
  obtain n where n: "additionalPhotosCount s = int n" "n \<le> length (profilePhotos s)"
    and t: "\<And>i. i < length (profilePhotos s) \<Longrightarrow> fst (profilePhotos s ! i) = Photo \<longleftrightarrow> n \<le> i"
    and m: "\<And>k i. indexMap s k = Some i \<longleftrightarrow>
      n \<le> i \<and> i < length (profilePhotos s) \<and> picture_id (profilePhotos s ! i) = k"
    using ok by (auto simp: up_ok_def)
  let ?rows = "profilePhotos s" and ?new = "remove_at r (profilePhotos s)"
  have r: "n \<le> r" "r < length ?rows" "picture_id (?rows ! r) = k" using m here by auto
  have new: "?new ! i = ?rows ! (if i < r then i else Suc i)" if "i < length ?new" for i
    using that r by (simp add: nth_remove_at)
  have one: "i = j" if "n \<le> i" "i < length ?rows" "n \<le> j" "j < length ?rows"
    "picture_id (?rows ! i) = picture_id (?rows ! j)" for i j
    using that m [of "picture_id (?rows ! i)" i] m [of "picture_id (?rows ! i)" j] by simp
  have len: "length ?new = length ?rows - 1" using r by simp
  have inj: "i = j" if "r \<le> i" "i < length ?new" "r \<le> j" "j < length ?new"
    "picture_id (?new ! i) = picture_id (?new ! j)" for i j
    using that one [of "Suc i" "Suc j"] new [of i] new [of j] r len by simp
  have hash: "indexMap ?t c = Some i \<longleftrightarrow> n \<le> i \<and> i < length ?new \<and> picture_id (?new ! i) = c" for c i
  proof (cases "\<exists>j. r \<le> j \<and> j < length ?new \<and> picture_id (?new ! j) = c")
    case True
    then obtain j where j: "r \<le> j" "j < length ?new" "picture_id (?new ! j) = c" by auto
    then have "indexMap ?t c = Some j"
      using reindex_visited [of r "length ?new" picture_id ?new j] inj by auto
    moreover have "i = j" if "n \<le> i" "i < length ?new" "picture_id (?new ! i) = c"
    proof -
      have "(if i < r then i else Suc i) = (if j < r then j else Suc j)"
        using that j new [of i] new [of j] len r by (intro one) auto
      then show ?thesis using j by (simp split: if_splits)
    qed
    ultimately show ?thesis using j r by auto
  next
    case False
    then have "indexMap ?t c = (if c = k then None else indexMap s c)"
      by (simp add: reindex_miss)
    moreover have "i < r" if "i < length ?new" "picture_id (?new ! i) = c" using False that not_less by blast
    moreover have "i < r" if "indexMap s c = Some i" "c \<noteq> k"
    proof (rule ccontr)
      assume "\<not> i < r"
      moreover have "i < length ?rows \<and> picture_id (?rows ! i) = c" using that m [of c i] by simp
      ultimately have i: "r < i" "i < length ?rows" "picture_id (?rows ! i) = c"
        using that r by (auto intro: le_neq_trans)
      then have "r \<le> i - 1 \<and> i - 1 < length ?new \<and> picture_id (?new ! (i - 1)) = c"
        using new [of "i - 1"] len by auto
      with False show False by blast
    qed
    ultimately show ?thesis using m [of c i] new [of i] r len one [of i r] by auto
  qed
  moreover have "n \<le> length ?new" "\<And>i. i < length ?new \<Longrightarrow> fst (?new ! i) = Photo \<longleftrightarrow> n \<le> i"
    using new t r len by auto
  ultimately show ?thesis using n unfolding up_ok_def by (intro exI [of _ n]) simp
qed

lemma up_handleOk_deletes:
  assumes g: "up_good s" and own: "tdLibWrapper s = Some w" "userId s = me"
    and here: "indexMap s k = Some r" and k: "in_int64 k"
  shows "\<exists>s'. up_handleOkReceived me (QString (''deleteProfilePhoto:'' @ show_int k)) s = Some s' \<and>
    profilePhotos s' = remove_at r (profilePhotos s) \<and> up_good s' \<and> indexMap s' k = None"
proof -
  let ?rows = "remove_at r (profilePhotos s)"
  let ?t = "s\<lparr>profilePhotos := ?rows,
    indexMap := reindex picture_id ?rows r (length ?rows) ((indexMap s)(k := None))\<rparr>"
  have r: "r < length (profilePhotos s)" and ok: "up_ok s" and kr: "picture_id (profilePhotos s ! r) = k"
    using g here up_ok_hash [of s k r] by (simp_all add: up_good_def)
  have "string_toLongLong (show_int k) = k" using toLongLong_show_int [OF k] by simp
  then have "up_handleOkReceived me (QString (''deleteProfilePhoto:'' @ show_int k)) s =
      Some (up_emitRows (RowsRemoved (int r) (int r)) ?t)"
    using own here r by (simp add: up_handleOkReceived_def Let_def)
  moreover have ok': "up_ok ?t" by (rule up_ok_delete [OF ok here])
  moreover have "indexMap ?t k = None"
  proof (rule ccontr)
    assume "indexMap ?t k \<noteq> None"
    then obtain i where "indexMap ?t k = Some i" by blast
    then have n: "nat (additionalPhotosCount s) \<le> i" "i < length ?rows" "picture_id (?rows ! i) = k"
      using up_ok_hash [OF ok', of k i] by simp_all
    let ?j = "if i < r then i else Suc i"
    have "?j < length (profilePhotos s)" "picture_id (profilePhotos s ! ?j) = k"
      "nat (additionalPhotosCount s) \<le> ?j" "?j \<noteq> r"
      using n r by (auto simp: nth_remove_at split: if_splits)
    then have "indexMap s k = Some ?j" using up_ok_hash [OF ok, of k ?j] by simp
    with here \<open>?j \<noteq> r\<close> show False by simp
  qed
  moreover have "up_view (up_emitRows (RowsRemoved (int r) (int r)) ?t) = ?rows"
    using g by (simp add: up_good_def remove_slice_def remove_at_def)
  ultimately show ?thesis by (auto simp: up_good_def)
qed

definition up_without :: "int \<Rightarrow> nat \<Rightarrow> pictures \<Rightarrow> pictures" where
  "up_without k i s =
     (let rows = remove_at i (profilePhotos s)
      in up_emitRows (RowsRemoved (int i) (int i))
           (s\<lparr>profilePhotos := rows,
              indexMap := reindex picture_id rows i (length rows) ((indexMap s)(k := None))\<rparr>))"

lemma up_handleOk_result:
  assumes "up_handleOkReceived me extra s = Some s'"
  shows "s' = s \<or> (\<exists>k i. indexMap s k = Some i \<and> s' = up_without k i s)"
proof (cases "\<exists>e. extra = QString e")
  case True
  then obtain e where e: "extra = QString e" by blast
  show ?thesis
  proof (cases "indexMap s (string_toLongLong (drop 19 e))")
    case None
    with assms e show ?thesis by (simp only: up_handleOkReceived_def Let_def qvariant.case option.case) (metis option.inject option.distinct(1))
  next
    case (Some i)
    with assms e show ?thesis
      by (simp only: up_handleOkReceived_def up_without_def Let_def qvariant.case option.case)
        (metis option.inject option.distinct(1))
  qed
next
  case False
  with assms show ?thesis
    by (cases extra) (simp_all add: up_handleOkReceived_def split: if_split_asm)
qed

lemma up_good_ok: "up_good s \<Longrightarrow> up_handleOkReceived me extra s = Some s' \<Longrightarrow> up_good s'"
  using up_ok_delete [of s]
  by (auto dest!: up_handleOk_result simp: up_good_def up_without_def Let_def remove_slice_def remove_at_def)

section \<open>What the rows show\<close>

text \<open>
  The states of a model whose user \<open>me\<close> is logged in, when TDLib answers in the order of the
  requests (the full information before the photos) and never lists a photo twice.
\<close>

inductive up_reaches :: "int \<Rightarrow> pictures \<Rightarrow> bool" for me where
  start: "up_reaches me up_new"
| wrapper: "up_reaches me s \<Longrightarrow> up_reaches me (up_setTDLibWrapper w s)"
| user: "up_reaches me s \<Longrightarrow> up_reaches me (up_setUserId u s)"
| info: "up_reaches me s \<Longrightarrow> indexMap s = Map.empty \<Longrightarrow> up_handleUserFullInfo me u i s = Some s' \<Longrightarrow>
    up_reaches me s'"
| photos: "up_reaches me s \<Longrightarrow> distinct (photo_ids ps) \<Longrightarrow> \<forall>k \<in> set (photo_ids ps). indexMap s k = None \<Longrightarrow>
    up_reaches me (up_handleChatPhotosReceived u ps n s)"
| deleted: "up_reaches me s \<Longrightarrow> up_handleOkReceived me e s = Some s' \<Longrightarrow> up_reaches me s'"
| more: "up_reaches me s \<Longrightarrow> up_reaches me (up_loadMore s)"

inductive_cases up_reachesE: "up_reaches me s"

lemma up_reaches_good: "up_reaches me s \<Longrightarrow> up_good s"
proof (induction rule: up_reaches.induct)
  case (info s u i s')
  then show ?case by (rule_tac up_good_userFullInfo)
next
  case (photos s ps u n)
  then show ?case by (rule_tac up_good_chatPhotos)
next
  case (deleted s e s')
  then show ?case by (rule_tac up_good_ok)
qed (simp_all only: up_good_new up_good_setTDLibWrapper up_good_setUserId up_good_loadMore)


text \<open>A user with a personal picture and two photos of the profile.\<close>

definition sample_photo :: "int \<Rightarrow> vmap" where
  "sample_photo k = minsert ''id'' (QInt k) fmempty"

definition sample_info :: vmap where
  "sample_info = minsert ''personal_photo'' (QMap (sample_photo 5)) fmempty"

definition sample_asked :: pictures where
  "sample_asked = up_setUserId 7 (up_setTDLibWrapper (Some 1) up_new)"

definition sample_told :: pictures where
  "sample_told = up_emit (GetUserProfilePhotos 7 100 0)
     (up_insertRow 0 (PersonalPhoto, sample_photo 5) (sample_asked\<lparr>userFullInfoLoaded := True, currentPhotoId := 0\<rparr>))"

definition sample_pictures :: pictures where
  "sample_pictures = up_handleChatPhotosReceived 7 [QMap (sample_photo 3), QMap (sample_photo 4)] 2 sample_told"

lemma sample_asked_fields [simp]:
  "userId sample_asked = 7" "tdLibWrapper sample_asked = Some 1" "indexMap sample_asked = Map.empty"
  "profilePhotos sample_asked = []" "userFullInfoLoaded sample_asked = False" "totalCount sample_asked = -1"
  "additionalPhotosCount sample_asked = 0"
  by (simp_all add: sample_asked_def up_setUserId_def up_setTDLibWrapper_def up_setup_def up_new_def Let_def)

lemma sample_told: "up_handleUserFullInfo 7 7 sample_info sample_asked = Some sample_told"
  by (simp add: up_handleUserFullInfo_def sample_told_def sample_info_def mcontains_def Let_def minsert_def
      sample_photo_def)

lemma sample_reached: "up_reaches 7 sample_told" "up_reaches 7 sample_pictures"
proof -
  have "up_reaches 7 sample_asked"
    unfolding sample_asked_def by (intro up_reaches.user up_reaches.wrapper up_reaches.start)
  then show told: "up_reaches 7 sample_told" using sample_told by (rule_tac up_reaches.info) simp_all
  show "up_reaches 7 sample_pictures"
    unfolding sample_pictures_def
    by (rule up_reaches.photos [OF told]) (simp_all add: photo_ids_def sample_photo_def sample_told_def)
qed


section \<open>Where it fails\<close>

text \<open>\<open>setup\<close> starts over only when there are rows. After a user without pictures the next user
  gets none either: the information that arrives is ignored, and nothing more is ever asked for.
\<close>

theorem user_switch_stuck:
  assumes users: "a \<noteq> 0" "b \<noteq> 0" "a \<noteq> b"
    and none: "\<not> mcontains info ''personal_photo''" "\<not> mcontains info ''public_photo''"
  shows "\<exists>s. up_handleUserFullInfo me a info (up_setUserId a (up_setTDLibWrapper (Some w) up_new)) = Some s \<and>
    (let t = up_setUserId b (up_handleChatPhotosReceived a [] 0 s)
     in userId t = b \<and> profilePhotos t = [] \<and> (\<forall>info'. up_handleUserFullInfo me b info' t = Some t) \<and>
        up_loadMore t = t)"
  using assms
  by (simp add: up_handleUserFullInfo_def up_setUserId_def up_setTDLibWrapper_def up_setup_def up_new_def
      up_handleChatPhotosReceived_def up_loadMore_def Let_def)

theorem user_switch_stuck_witness:
  "\<exists>s. up_handleUserFullInfo 7 1 fmempty (up_setUserId 1 (up_setTDLibWrapper (Some 1) up_new)) = Some s \<and>
    (let t = up_setUserId 2 (up_handleChatPhotosReceived 1 [] 0 s)
     in userId t = 2 \<and> profilePhotos t = [] \<and> (\<forall>info'. up_handleUserFullInfo 7 2 info' t = Some t) \<and>
        up_loadMore t = t)"
  by (rule user_switch_stuck) (simp_all add: mcontains_def)

text \<open>A view that asks for more before the first answer makes the model ask for the first photos
  twice. Both answers are put behind the rows: every photo is shown twice, and when it is deleted
  one of its rows stays.
\<close>

theorem early_load_doubles:
  assumes reach: "up_reaches me s" and first: "indexMap s = Map.empty" "totalCount s = -1"
    and there: "tdLibWrapper s = Some w" "userId s = me" "me \<noteq> 0" and k: "in_int64 (toLongLong (mvalue photo ''id''))"
  shows "up_outputs (up_loadMore s) = up_outputs s @ [GetUserProfilePhotos me 100 0] \<and>
    (let answer = up_handleChatPhotosReceived me [QMap photo] 1; t = answer (answer (up_loadMore s))
     in profilePhotos t = profilePhotos s @ [(Photo, photo), (Photo, photo)] \<and>
        (\<exists>t'. up_handleOkReceived me
            (QString (''deleteProfilePhoto:'' @ show_int (toLongLong (mvalue photo ''id'')))) t = Some t' \<and>
          profilePhotos t' = profilePhotos s @ [(Photo, photo)] \<and>
          indexMap t' (toLongLong (mvalue photo ''id'')) = None))"
proof -
  let ?k = "toLongLong (mvalue photo ''id'')" and ?n = "length (profilePhotos s)"
  let ?answer = "up_handleChatPhotosReceived me [QMap photo] 1"
  let ?t = "?answer (?answer (up_loadMore s))"
  have "up_good s" by (rule up_reaches_good [OF reach])
  then have "additionalPhotosCount s = int ?n" using up_ok_no_photo first by (simp add: up_good_def)
  then have "up_loadMore s = up_emit (GetUserProfilePhotos me 100 0) (s\<lparr>totalCount := 0\<rparr>)"
    using first there by (simp add: up_loadMore_def Let_def)
  then have t: "up_outputs (up_loadMore s) = up_outputs s @ [GetUserProfilePhotos me 100 0]"
    "profilePhotos ?t = profilePhotos s @ [(Photo, photo), (Photo, photo)]"
    "indexMap ?t = [?k \<mapsto> Suc ?n]" "tdLibWrapper ?t = Some w" "userId ?t = me"
    using first there by (simp_all add: up_handleChatPhotosReceived_def Let_def)
  have "string_toLongLong (show_int ?k) = ?k" using toLongLong_show_int [OF k] by simp
  then have "\<exists>t'. up_handleOkReceived me (QString (''deleteProfilePhoto:'' @ show_int ?k)) ?t = Some t' \<and>
      profilePhotos t' = profilePhotos s @ [(Photo, photo)] \<and> indexMap t' ?k = None"
    using t(2-5) by (simp add: up_handleOkReceived_def Let_def remove_at_def reindex_beyond)
  with t(1,2) show ?thesis by (simp add: Let_def)
qed

theorem early_load_doubles_witness:
  "up_outputs (up_loadMore sample_told) = up_outputs sample_told @ [GetUserProfilePhotos 7 100 0] \<and>
    (let answer = up_handleChatPhotosReceived 7 [QMap (sample_photo 3)] 1; t = answer (answer (up_loadMore sample_told))
     in profilePhotos t = profilePhotos sample_told @ [(Photo, sample_photo 3), (Photo, sample_photo 3)] \<and>
        (\<exists>t'. up_handleOkReceived 7
            (QString (''deleteProfilePhoto:'' @ show_int (toLongLong (mvalue (sample_photo 3) ''id'')))) t = Some t' \<and>
          profilePhotos t' = profilePhotos sample_told @ [(Photo, sample_photo 3)] \<and>
          indexMap t' (toLongLong (mvalue (sample_photo 3) ''id'')) = None))"
  by (rule early_load_doubles [where w = 1, OF sample_reached(1)])
    (simp_all add: sample_told_def up_insertRow_def sample_photo_def in_int64_def)

end
