(* ===== verification/ForumMessages.thy ===== *)
theory ForumMessages imports ReadableMessages ForumTopics
begin

text \<open>
  \<open>ForumTopicMessagesModel\<close> (\<open>src/chat/forumtopicmessagesmodel.h\<close>, \<open>forumtopicmessagesmodel.cpp\<close>): the messages of
  one topic of a forum. It keeps its own copy of the topic, made when the wrapper, the chat, the
  topic's data and the message to start at have all been set.

  The wrapper is only asked for the history; \<open>ftm_tdlib\<close> says whether there is one. It is never
  taken away again, so the calls through it need no check. The id of the own user and the text of a message,
  which the wrapper and the utilities supply, are arguments.
\<close>

section \<open>State\<close>

record ftm_state = rm_state +
  ftm_tdlib :: "int option"
  initialized :: bool
  forumTopic :: "forum_topic option"
  pendingForumTopicData :: vmap
  loadFromMessageId :: int
  ftm_searchQuery :: string

definition ftm_new :: ftm_state where
  "ftm_new = \<lparr>mm_chatId = 0, messages = [], messageIndexMap = Map.empty, albumMessageMap = Map.empty, mm_outputs = [],
     waitingFor = (\<lambda>_. False), startReached = False, endReached = False, highlightedMessageId = 0,
     loadingFullEnd = False, ftm_tdlib = None, initialized = False, forumTopic = None,
     pendingForumTopicData = fmempty, loadFromMessageId = -1, ftm_searchQuery = []\<rparr>"

section \<open>What the model says of its topic\<close>

definition ftm_topic :: "(forum_topic \<Rightarrow> 'b) \<Rightarrow> 'b \<Rightarrow> 'a ftm_state_scheme \<Rightarrow> 'b" where
  "ftm_topic f none s = (case forumTopic s of None \<Rightarrow> none | Some t \<Rightarrow> f t)"

definition ftm_forumTopicData :: "'a ftm_state_scheme \<Rightarrow> vmap" where
  "ftm_forumTopicData s = ftm_topic ft_data (pendingForumTopicData s) s"

definition ftm_forumTopicId :: "'a ftm_state_scheme \<Rightarrow> int" where
  "ftm_forumTopicId = ftm_topic ft_id 0"

definition ftm_name :: "'a ftm_state_scheme \<Rightarrow> string" where
  "ftm_name = ftm_topic ft_name []"

definition ftm_isGeneral :: "'a ftm_state_scheme \<Rightarrow> bool" where
  "ftm_isGeneral = ftm_topic ft_isGeneral False"

text \<open>\<open>QColor()\<close>, the invalid colour, is \<open>None\<close>.\<close>

definition ftm_iconColor :: "'a ftm_state_scheme \<Rightarrow> 32 word option" where
  "ftm_iconColor = ftm_topic (Some \<circ> ft_iconColor) None"

definition ftm_iconCustomEmojiId :: "'a ftm_state_scheme \<Rightarrow> string" where
  "ftm_iconCustomEmojiId s = show_int (ftm_topic ft_iconCustomEmojiId 0 s)"

definition ftm_lastReadInboxMessageId :: "'a ftm_state_scheme \<Rightarrow> int" where
  "ftm_lastReadInboxMessageId = ftm_topic ft_lastReadInboxMessageId 0"

definition ftm_lastReadOutboxMessageId :: "'a ftm_state_scheme \<Rightarrow> int" where
  "ftm_lastReadOutboxMessageId = ftm_topic ft_lastReadOutboxMessageId 0"

definition ftm_lastMessageId :: "'a ftm_state_scheme \<Rightarrow> int" where
  "ftm_lastMessageId = ftm_topic (\<lambda>t. toLongLong (mvalue (ft_lastMessage t) ''id'')) 0"

definition ftm_canLoadMoreMessages :: "'a ftm_state_scheme \<Rightarrow> bool" where
  "ftm_canLoadMoreMessages s \<longleftrightarrow> ftm_searchQuery s = []"

definition ftm_chat :: "int \<Rightarrow> 'a ftm_state_scheme \<Rightarrow> rm_chat" where
  "ftm_chat myUserId s =
     \<lparr>rc_lastReadInboxMessageId = ftm_lastReadInboxMessageId s, rc_lastReadOutboxMessageId = ftm_lastReadOutboxMessageId s,
      rc_lastMessageId = ftm_lastMessageId s, rc_canLoadMoreMessages = ftm_canLoadMoreMessages s,
      rc_myUserId = myUserId\<rparr>"

definition ftm_base :: "'a ftm_state_scheme \<Rightarrow> 'a ftm_state_scheme mm_virtuals" where
  "ftm_base s = rm_base (ftm_lastReadInboxMessageId s)"

section \<open>Loading\<close>

definition ftm_loadMessages :: "int \<Rightarrow> int \<Rightarrow> int \<Rightarrow> 'a ftm_state_scheme \<Rightarrow> 'a ftm_state_scheme" where
  "ftm_loadMessages extra fromMessageId offset s =
     (case forumTopic s of
        None \<Rightarrow> s
      | Some t \<Rightarrow>
          (if ftm_searchQuery s = []
           then mm_emit (GetForumTopicHistory (mm_chatId s) (ft_id t) extra fromMessageId offset) s else s))"

definition ftm_clear :: "'a ftm_state_scheme \<Rightarrow> bool \<times> 'a ftm_state_scheme" where
  "ftm_clear s = rm_clear (s\<lparr>ftm_searchQuery := []\<rparr>)"

definition ftm_setSearchQuery :: "string \<Rightarrow> 'a ftm_state_scheme \<Rightarrow> 'a ftm_state_scheme" where
  "ftm_setSearchQuery newSearchQuery s =
     (if ftm_searchQuery s \<noteq> newSearchQuery then
        (let s1 = mm_emit SearchQueryChanged ((snd (ftm_clear s))\<lparr>ftm_searchQuery := newSearchQuery\<rparr>)
         in ftm_loadMessages UpdateInitial
              (if ftm_searchQuery s1 = [] then ftm_lastReadInboxMessageId s1 else 0) (-1) s1)
      else s)"

definition ftm_emits :: "mm_output list \<Rightarrow> 'a ftm_state_scheme \<Rightarrow> 'a ftm_state_scheme" where
  "ftm_emits outs s = fold mm_emit outs s"

definition ftm_initialize :: "'a ftm_state_scheme \<Rightarrow> 'a ftm_state_scheme" where
  "ftm_initialize s =
     (if \<not> initialized s \<and> ftm_tdlib s \<noteq> None \<and> mm_chatId s \<noteq> 0 \<and> \<not> mempty (pendingForumTopicData s)
         \<and> loadFromMessageId s \<ge> 0
      then
        (let s1 = ftm_emits [ForumTopicIdChanged, ForumTopicDataChanged, NameChanged, IsGeneralChanged,
                             IconColorChanged, IconCustomEmojiIdChanged]
                    (s\<lparr>initialized := True, forumTopic := Some (newForumTopic (pendingForumTopicData s))\<rparr>)
         in ftm_loadMessages UpdateInitial
              (if loadFromMessageId s1 \<noteq> 0 then loadFromMessageId s1 else ftm_lastReadInboxMessageId s1) (-1) s1)
      else s)"

definition ftm_calculateScrollPosition :: "int \<Rightarrow> 'a ftm_state_scheme \<Rightarrow> int" where
  "ftm_calculateScrollPosition myUserId s =
     (if ftm_searchQuery s \<noteq> [] then int (length (messages s)) - 1
      else rm_calculateScrollPosition (ftm_chat myUserId s) s)"

section \<open>Setters\<close>

definition ftm_setTDLibWrapper :: "int \<Rightarrow> 'a ftm_state_scheme \<Rightarrow> 'a ftm_state_scheme" where
  "ftm_setTDLibWrapper wrapper s =
     (if ftm_tdlib s \<noteq> Some wrapper
      then ftm_initialize (mm_emit TdlibChanged (s\<lparr>ftm_tdlib := Some wrapper\<rparr>)) else s)"

definition ftm_setChatId :: "int \<Rightarrow> 'a ftm_state_scheme \<Rightarrow> 'a ftm_state_scheme" where
  "ftm_setChatId chatId s =
     (if mm_chatId s \<noteq> chatId
      then ftm_initialize (mm_emit ChatIdChanged (s\<lparr>mm_chatId := chatId\<rparr>)) else s)"

definition ftm_setLoadFromMessageId :: "int \<Rightarrow> 'a ftm_state_scheme \<Rightarrow> 'a ftm_state_scheme" where
  "ftm_setLoadFromMessageId msgid s =
     (if loadFromMessageId s \<noteq> msgid
      then ftm_initialize (mm_emit LoadFromMessageIdChanged (s\<lparr>loadFromMessageId := msgid\<rparr>)) else s)"

definition ftm_handleRolesUpdated :: "topic_role list \<Rightarrow> 'a ftm_state_scheme \<Rightarrow> 'a ftm_state_scheme" where
  "ftm_handleRolesUpdated roles s =
     ftm_emits
       ((if TRName \<in> set roles then [NameChanged] else []) @
        (if TRIsGeneral \<in> set roles then [IsGeneralChanged] else []) @
        (if TRIconColor \<in> set roles then [IconColorChanged] else []) @
        (if TRIconCustomEmojiId \<in> set roles then [IconCustomEmojiIdChanged] else []) @
        (if TRLastReadInboxMessageId \<in> set roles then [LastReadInboxMessageIdChanged] else []) @
        (if TRLastReadOutboxMessageId \<in> set roles then [LastReadOutboxMessageIdChanged] else []) @
        (if TRUnreadCount \<in> set roles then [UnreadCountUpdated] else []) @ [ForumTopicDataChanged]) s"

text \<open>An update of the topic, followed by the signals for the roles it reports.\<close>

definition ftm_updateTopic ::
  "(forum_topic \<Rightarrow> topic_role list \<times> forum_topic) \<Rightarrow> forum_topic \<Rightarrow> 'a ftm_state_scheme \<Rightarrow> 'a ftm_state_scheme" where
  "ftm_updateTopic f t s = (let (roles, t') = f t in ftm_handleRolesUpdated roles (s\<lparr>forumTopic := Some t'\<rparr>))"

definition ftm_setForumTopicData ::
  "(vmap \<Rightarrow> string \<Rightarrow> string) \<Rightarrow> vmap \<Rightarrow> 'a ftm_state_scheme \<Rightarrow> 'a ftm_state_scheme" where
  "ftm_setForumTopicData msgText d s =
     (case forumTopic s of
        Some t \<Rightarrow> ftm_updateTopic (ft_updateForumTopicData msgText d) t s
      | None \<Rightarrow> ftm_initialize (s\<lparr>pendingForumTopicData := d\<rparr>))"

section \<open>Slots\<close>

definition ftm_isTopic :: "int \<Rightarrow> int \<Rightarrow> 'a ftm_state_scheme \<Rightarrow> bool" where
  "ftm_isTopic chatId topicId s \<longleftrightarrow>
     mm_chatId s = chatId \<and> (case forumTopic s of None \<Rightarrow> False | Some t \<Rightarrow> ft_id t = topicId)"

definition ftm_handleForumTopicUpdated :: "int \<Rightarrow> int \<Rightarrow> vmap \<Rightarrow> 'a ftm_state_scheme \<Rightarrow> 'a ftm_state_scheme" where
  "ftm_handleForumTopicUpdated chatId topicId update s =
     (if ftm_isTopic chatId topicId s
      then ftm_updateTopic (ft_updateFromForumTopicUpdate update) (the (forumTopic s)) s else s)"

definition ftm_handleForumTopicInfoUpdated :: "int \<Rightarrow> int \<Rightarrow> vmap \<Rightarrow> 'a ftm_state_scheme \<Rightarrow> 'a ftm_state_scheme" where
  "ftm_handleForumTopicInfoUpdated chatId topicId info s =
     (if ftm_isTopic chatId topicId s
      then ftm_updateTopic (ft_updateForumTopicInfo info) (the (forumTopic s)) s else s)"

definition ftm_virtuals :: "int \<Rightarrow> 'a ftm_state_scheme \<Rightarrow> 'a ftm_state_scheme jm_virtuals" where
  "ftm_virtuals myUserId s = \<lparr>jv_base = ftm_base s, jv_clear = ftm_clear,
     jv_loadMessages = ftm_loadMessages, jv_loadMoreHistoryImpl = rm_loadMoreHistoryImpl ftm_loadMessages,
     jv_loadMoreFutureImpl = rm_loadMoreFutureImpl ftm_loadMessages,
     jv_loadHistoryForMessageImpl = (\<lambda>msgid. ftm_loadMessages UpdateInitial msgid (-1)),
     jv_canLoadMoreMessages = ftm_canLoadMoreMessages,
     jv_handlePrepareMessagesReceived = (\<lambda>n u t. Some (rm_handlePrepareMessagesReceived (ftm_chat myUserId t) n u t)),
     jv_reverseOrder = False\<rparr>"

definition ftm_loadMoreHistory :: "int \<Rightarrow> 'a ftm_state_scheme \<Rightarrow> 'a ftm_state_scheme option" where
  "ftm_loadMoreHistory myUserId s = jm_loadMoreHistory (ftm_virtuals myUserId s) s"

definition ftm_loadMoreFuture :: "int \<Rightarrow> 'a ftm_state_scheme \<Rightarrow> 'a ftm_state_scheme option" where
  "ftm_loadMoreFuture myUserId s = jm_loadMoreFuture (ftm_virtuals myUserId s) s"

definition ftm_loadHistoryForMessage :: "int \<Rightarrow> int \<Rightarrow> 'a ftm_state_scheme \<Rightarrow> 'a ftm_state_scheme" where
  "ftm_loadHistoryForMessage myUserId msgid s = jm_loadHistoryForMessage (ftm_virtuals myUserId s) msgid s"

definition ftm_loadEnd :: "int \<Rightarrow> bool \<Rightarrow> 'a ftm_state_scheme \<Rightarrow> 'a ftm_state_scheme" where
  "ftm_loadEnd myUserId markAllAsRead s = rm_loadEnd (ftm_chat myUserId s) ftm_clear ftm_loadMessages markAllAsRead s"

definition ftm_handleForumTopicMessagesReceived ::
  "int \<Rightarrow> int \<Rightarrow> int \<Rightarrow> int \<Rightarrow> vmap list \<Rightarrow> int \<Rightarrow> 'a ftm_state_scheme \<Rightarrow> 'a ftm_state_scheme option" where
  "ftm_handleForumTopicMessagesReceived myUserId chatId topicId extra received totalCount s =
     (if ftm_isTopic chatId topicId s
      then jm_handleMessagesReceived (ftm_virtuals myUserId s) extra received totalCount s else Some s)"

definition ftm_handleNewMessageReceived ::
  "int \<Rightarrow> int \<Rightarrow> vmap \<Rightarrow> 'a ftm_state_scheme \<Rightarrow> 'a ftm_state_scheme option" where
  "ftm_handleNewMessageReceived myUserId chatId message s =
     (if ftm_isTopic chatId (toInt (mvalue (toMap (mvalue message ''topic_id'')) ''forum_topic_id'')) s
      then rm_handleNewMessageReceived (ftm_base s) (ftm_chat myUserId s) message s else Some s)"

section \<open>The history is asked for once\<close>

text \<open>What the object has been told before anything is asked for, and what it asked for.\<close>

definition ftm_ready :: "'a ftm_state_scheme \<Rightarrow> bool" where
  "ftm_ready s \<longleftrightarrow> ftm_tdlib s \<noteq> None \<and> mm_chatId s \<noteq> 0 \<and> \<not> mempty (pendingForumTopicData s) \<and> loadFromMessageId s \<ge> 0"

fun history_requests :: "mm_output list \<Rightarrow> (int \<times> int \<times> int \<times> int \<times> int) list" where
  "history_requests [] = []"
| "history_requests (GetForumTopicHistory c t e m off # outs) = (c, t, e, m, off) # history_requests outs"
| "history_requests (_ # outs) = history_requests outs"

inductive ftm_set_up :: "(vmap \<Rightarrow> string \<Rightarrow> string) \<Rightarrow> ftm_state \<Rightarrow> bool" for msgText where
  start: "ftm_set_up msgText ftm_new"
| tdlib: "ftm_set_up msgText s \<Longrightarrow> ftm_set_up msgText (ftm_setTDLibWrapper w s)"
| chat: "ftm_set_up msgText s \<Longrightarrow> ftm_set_up msgText (ftm_setChatId c s)"
| topic: "ftm_set_up msgText s \<Longrightarrow> ftm_set_up msgText (ftm_setForumTopicData msgText d s)"
| origin: "ftm_set_up msgText s \<Longrightarrow> ftm_set_up msgText (ftm_setLoadFromMessageId m s)"
| update: "ftm_set_up msgText s \<Longrightarrow> ftm_set_up msgText (ftm_handleForumTopicUpdated c t u s)"
| info: "ftm_set_up msgText s \<Longrightarrow> ftm_set_up msgText (ftm_handleForumTopicInfoUpdated c t u s)"

lemma history_requests_append [simp]: "history_requests (xs @ ys) = history_requests xs @ history_requests ys"
  by (induction xs rule: history_requests.induct) auto

lemma mm_emit_ftm [simp]:
  "ftm_tdlib (mm_emit out s) = ftm_tdlib s" "initialized (mm_emit out s) = initialized s"
  "forumTopic (mm_emit out s) = forumTopic s" "pendingForumTopicData (mm_emit out s) = pendingForumTopicData s"
  "loadFromMessageId (mm_emit out s) = loadFromMessageId s" "ftm_searchQuery (mm_emit out s) = ftm_searchQuery s"
  "mm_outputs (mm_emit out s) = mm_outputs s @ [out]" "mm_chatId (mm_emit out s) = mm_chatId s"
  by (simp_all add: mm_emit_def)

lemma ftm_emits_fields [simp]:
  "ftm_tdlib (ftm_emits outs s) = ftm_tdlib s" "initialized (ftm_emits outs s) = initialized s"
  "forumTopic (ftm_emits outs s) = forumTopic s" "pendingForumTopicData (ftm_emits outs s) = pendingForumTopicData s"
  "loadFromMessageId (ftm_emits outs s) = loadFromMessageId s" "ftm_searchQuery (ftm_emits outs s) = ftm_searchQuery s"
  "mm_outputs (ftm_emits outs s) = mm_outputs s @ outs" "mm_chatId (ftm_emits outs s) = mm_chatId s"
  by (induction outs arbitrary: s) (simp_all add: ftm_emits_def)

definition ftm_asked :: "'a ftm_state_scheme \<Rightarrow> bool" where
  "ftm_asked s \<longleftrightarrow>
     (if initialized s
      then forumTopic s \<noteq> None \<and> (\<exists>c t m. c \<noteq> 0 \<and> history_requests (mm_outputs s) = [(c, t, UpdateInitial, m, -1)])
      else forumTopic s = None \<and> history_requests (mm_outputs s) = [] \<and> ftm_searchQuery s = [])"

text \<open>\<open>initialize\<close> either asks for the history or leaves an object that is not ready.\<close>

lemma ftm_initialize_asked:
  "ftm_asked s \<Longrightarrow> ftm_asked (ftm_initialize s) \<and> (ftm_ready (ftm_initialize s) \<longrightarrow> initialized (ftm_initialize s))"
  by (cases "\<not> initialized s \<and> ftm_ready s")
    (auto simp: ftm_initialize_def ftm_asked_def ftm_ready_def ftm_loadMessages_def Let_def)

lemma ftm_initialize_asks:
  "\<not> initialized s \<Longrightarrow> ftm_ready s \<Longrightarrow> ftm_asked s \<Longrightarrow>
     history_requests (mm_outputs (ftm_initialize s)) =
       [(mm_chatId s, ft_id (newForumTopic (pendingForumTopicData s)), UpdateInitial,
         if loadFromMessageId s \<noteq> 0 then loadFromMessageId s
         else ft_lastReadInboxMessageId (newForumTopic (pendingForumTopicData s)), -1)]"
  by (simp add: ftm_initialize_def ftm_asked_def ftm_ready_def ftm_loadMessages_def Let_def
      ftm_lastReadInboxMessageId_def ftm_topic_def)

definition ftm_settled :: "'a ftm_state_scheme \<Rightarrow> bool" where
  "ftm_settled s \<longleftrightarrow> ftm_asked s \<and> (ftm_ready s \<longrightarrow> initialized s)"

lemma ftm_settled_initialize: "ftm_asked s \<Longrightarrow> ftm_settled (ftm_initialize s)"
  using ftm_initialize_asked by (simp add: ftm_settled_def)

lemma history_requests_roles:
  "history_requests
       ((if a then [NameChanged] else []) @ (if b then [IsGeneralChanged] else []) @
        (if c then [IconColorChanged] else []) @ (if d then [IconCustomEmojiIdChanged] else []) @
        (if e then [LastReadInboxMessageIdChanged] else []) @ (if f then [LastReadOutboxMessageIdChanged] else []) @
        (if g then [UnreadCountUpdated] else []) @ [ForumTopicDataChanged]) = []"
  by simp

lemma ftm_settled_updateTopic:
  "ftm_settled s \<Longrightarrow> initialized s \<Longrightarrow> ftm_settled (ftm_updateTopic f t s)"
  by (simp add: ftm_settled_def ftm_asked_def ftm_updateTopic_def ftm_handleRolesUpdated_def
      history_requests_roles split: prod.split)

lemma ftm_settled_topic: "ftm_settled s \<Longrightarrow> forumTopic s = Some t \<Longrightarrow> initialized s"
  by (auto simp: ftm_settled_def ftm_asked_def split: if_split_asm)

lemma ftm_asked_fields [simp]:
  "ftm_asked (s\<lparr>ftm_tdlib := w\<rparr>) = ftm_asked s" "ftm_asked (s\<lparr>mm_chatId := c\<rparr>) = ftm_asked s"
  "ftm_asked (s\<lparr>pendingForumTopicData := d\<rparr>) = ftm_asked s" "ftm_asked (s\<lparr>loadFromMessageId := m\<rparr>) = ftm_asked s"
  "history_requests [out] = [] \<Longrightarrow> ftm_asked (mm_emit out s) = ftm_asked s"
  by (simp_all add: ftm_asked_def)

lemma ftm_settled_asked: "ftm_settled s \<Longrightarrow> ftm_asked s"
  by (simp add: ftm_settled_def)

lemma ftm_settled_set_up: "ftm_set_up msgText s \<Longrightarrow> ftm_settled s"
proof (induction rule: ftm_set_up.induct)
  case start
  then show ?case by (simp add: ftm_settled_def ftm_asked_def ftm_ready_def ftm_new_def)
next
  case (tdlib s w)
  then show ?case by (simp add: ftm_setTDLibWrapper_def ftm_settled_initialize ftm_settled_asked)
next
  case (chat s c)
  then show ?case by (simp add: ftm_setChatId_def ftm_settled_initialize ftm_settled_asked)
next
  case (origin s m)
  then show ?case by (simp add: ftm_setLoadFromMessageId_def ftm_settled_initialize ftm_settled_asked)
next
  case (topic s d)
  then show ?case
    using ftm_settled_topic [of s] ftm_settled_updateTopic [of s]
    by (simp add: ftm_setForumTopicData_def ftm_settled_initialize ftm_settled_asked split: option.split)
next
  case (update s c t u)
  then show ?case
    using ftm_settled_topic [of s] ftm_settled_updateTopic [of s]
    by (simp add: ftm_handleForumTopicUpdated_def ftm_isTopic_def split: option.splits)
next
  case (info s c t u)
  then show ?case
    using ftm_settled_topic [of s] ftm_settled_updateTopic [of s]
    by (simp add: ftm_handleForumTopicInfoUpdated_def ftm_isTopic_def split: option.splits)
qed


text \<open>A topic whose last message is 10, read up to message 5.\<close>

definition sample_topic :: vmap where
  "sample_topic =
     minsert ''info'' (QMap (minsert ''forum_topic_id'' (QInt 3) fmempty))
    (minsert ''last_message'' (QMap (minsert ''id'' (QInt 10) fmempty))
    (minsert ''last_read_inbox_message_id'' (QInt 5) fmempty))"

definition sample_forum :: ftm_state where
  "sample_forum = ftm_setTDLibWrapper 1 (ftm_setForumTopicData (\<lambda>m t. []) sample_topic
     (ftm_setLoadFromMessageId 0 (ftm_setChatId 7 ftm_new)))"

lemma sample_forum_set_up: "ftm_set_up (\<lambda>m t. []) sample_forum"
  unfolding sample_forum_def
  by (intro ftm_set_up.tdlib ftm_set_up.topic ftm_set_up.origin ftm_set_up.chat ftm_set_up.start)

lemmas sample_forum_defs = sample_forum_def sample_topic_def ftm_setTDLibWrapper_def ftm_setForumTopicData_def
  ftm_setLoadFromMessageId_def ftm_setChatId_def ftm_initialize_def ftm_new_def


section \<open>The end of the topic\<close>

text \<open>No update that reaches this model changes the last message of its copy of the topic.\<close>

definition keeps_lastMessage :: "(forum_topic \<Rightarrow> topic_role list \<times> forum_topic) \<Rightarrow> bool" where
  "keeps_lastMessage f \<longleftrightarrow> (\<forall>t. ft_lastMessage (snd (f t)) = ft_lastMessage t)"

lemma keeps_and_then: "keeps_lastMessage f \<Longrightarrow> keeps_lastMessage g \<Longrightarrow> keeps_lastMessage (and_then f g)"
  by (simp add: keeps_lastMessage_def and_then_def split: prod.split) (metis snd_conv)

lemma keeps_put: "k \<noteq> ''last_message'' \<Longrightarrow> ft_lastMessage (ft_put k v t) = ft_lastMessage t"
  by (simp add: ft_put_def ft_lastMessage_def)

lemma updates_keep_lastMessage:
  "keeps_lastMessage (ft_updateFromForumTopicUpdate u)" "keeps_lastMessage (ft_updateForumTopicInfo i)"
  unfolding ft_updateFromForumTopicUpdate_def
  by (intro keeps_and_then;
      simp add: keeps_lastMessage_def keeps_put ft_updateIsPinned_def ft_updateLastReadInboxMessageId_def
        ft_updateLastReadOutboxMessageId_def ft_updateUnreadMentionCount_def ft_updateUnreadReactionCount_def
        ft_updateUnreadPollVoteCount_def ft_updateNotificationSettings_def ft_updateDraftMessage_def)
    (simp add: keeps_lastMessage_def ft_updateForumTopicInfo_def keeps_put Let_def)

lemma ftm_updateTopic_last:
  "forumTopic s = Some t \<Longrightarrow> keeps_lastMessage f \<Longrightarrow> ftm_lastMessageId (ftm_updateTopic f t s) = ftm_lastMessageId s"
  by (simp add: ftm_updateTopic_def ftm_handleRolesUpdated_def ftm_lastMessageId_def ftm_topic_def
      keeps_lastMessage_def split: prod.split) (metis snd_conv)

lemma ftm_isTopicE:
  assumes "ftm_isTopic chat topic s"
  obtains t where "forumTopic s = Some t" "ft_id t = topic" "mm_chatId s = chat"
  using assms by (auto simp: ftm_isTopic_def split: option.splits)

lemma rm_prepare_ends:
  "messageIndexMap s (rc_lastMessageId chat) \<noteq> None \<Longrightarrow>
     endReached (rm_handlePrepareMessagesReceived chat n u s)"
  by (simp add: rm_handlePrepareMessagesReceived_def jm_handlePrepareMessagesReceived_def jm_emitEndReached_def
      jm_emitStartReached_def mm_emit_def Let_def)

lemma rm_prepare_ftm [simp]:
  "mm_ids (rm_handlePrepareMessagesReceived chat n u s) = mm_ids s"
  "messages (rm_handlePrepareMessagesReceived chat n u s) = messages s"
  "messageIndexMap (rm_handlePrepareMessagesReceived chat n u s) = messageIndexMap s"
  "mm_chatId (rm_handlePrepareMessagesReceived chat n u s) = mm_chatId s"
  "forumTopic (rm_handlePrepareMessagesReceived chat n u s) = forumTopic s"
  "ftm_searchQuery (rm_handlePrepareMessagesReceived chat n u s) = ftm_searchQuery s"
  by (simp_all add: rm_handlePrepareMessagesReceived_def jm_handlePrepareMessagesReceived_def jm_emitEndReached_def
      jm_emitStartReached_def mm_emit_def mm_ids_def Let_def)

text \<open>The model learns the last message of its topic once, and no update it hears of changes that. While the
  end is not loaded, new messages are left to the answers to come; but with the first answer after which
  the old last message is a row, the end counts as reached: nothing more is asked for, and the next
  new message goes right behind the rows, whatever came in between.
\<close>

theorem topic_end_stale:
  assumes ok: "mm_ok s" and plain: "\<forall>m \<in> set (messages s). \<not> isSponsored m" and sorted: "sorted_wrt (<) (mm_ids s)"
    and topic: "ftm_isTopic chat topic s" and query: "ftm_searchQuery s = []"
    and here: "ftm_lastMessageId s \<in> set (mm_ids s)"
    and message: "toInt (mvalue (toMap (mvalue message ''topic_id'')) ''forum_topic_id'') = topic"
      "toLongLong (mvalue message ''id'') = i" "\<forall>x \<in> set (mm_ids s). x < i"
  shows "ftm_lastMessageId (ftm_handleForumTopicUpdated chat topic update s) = ftm_lastMessageId s \<and>
    ftm_lastMessageId (ftm_handleForumTopicInfoUpdated chat topic update s) = ftm_lastMessageId s \<and>
    (\<not> endReached s \<longrightarrow> ftm_handleNewMessageReceived me chat message s = Some s) \<and>
    (let answered = rm_handlePrepareMessagesReceived (ftm_chat me s) n u s
     in ftm_loadMoreFuture me answered = Some answered \<and>
        (\<exists>s'. ftm_handleNewMessageReceived me chat message answered = Some s' \<and>
              mm_becomes answered (mm_ids s @ [i]) s'))"
proof -
  let ?a = "rm_handlePrepareMessagesReceived (ftm_chat me s) n u s"
  obtain t where t: "forumTopic s = Some t" "ft_id t = topic" "mm_chatId s = chat" by (rule ftm_isTopicE [OF topic])
  have "messageIndexMap s (ftm_lastMessageId s) \<noteq> None"
    using index_ok_None [OF ok [unfolded mm_ok_ids]] here by simp
  then have reached: "endReached ?a" by (intro rm_prepare_ends) (simp add: ftm_chat_def)
  have ok': "mm_ok ?a" using ok by (simp add: mm_ok_ids)
  have "\<exists>s'. rm_handleNewMessageReceived (ftm_base ?a) (ftm_chat me ?a) message ?a = Some s' \<and>
      mm_becomes ?a (mm_ids s @ [i]) s'"
    using rm_new_message [OF ok', of message i "ftm_lastReadInboxMessageId ?a" "ftm_chat me ?a"]
      plain sorted message(2,3) reached query
    by (simp add: ftm_base_def ftm_chat_def ftm_canLoadMoreMessages_def)
  moreover have "ftm_handleNewMessageReceived me chat message ?a =
      rm_handleNewMessageReceived (ftm_base ?a) (ftm_chat me ?a) message ?a"
    using t message(1) by (simp add: ftm_handleNewMessageReceived_def ftm_isTopic_def)
  moreover have "ftm_loadMoreFuture me ?a = Some ?a"
    using reached by (simp add: ftm_loadMoreFuture_def jm_loadMoreFuture_def)
  moreover have "ftm_handleNewMessageReceived me chat message s = Some s" if "\<not> endReached s"
    using that by (simp add: ftm_handleNewMessageReceived_def rm_handleNewMessageReceived_def Let_def)
  ultimately show ?thesis
    using topic t updates_keep_lastMessage ftm_updateTopic_last [OF t(1)]
    by (simp add: ftm_handleForumTopicUpdated_def ftm_handleForumTopicInfoUpdated_def Let_def)
qed

definition sample_forum_rows :: ftm_state where
  "sample_forum_rows = sample_forum\<lparr>messages := map (newMessageData fmempty) [5, 10],
     messageIndexMap := index_of messageId (map (newMessageData fmempty) [5, 10])\<rparr>"

definition sample_forum_message :: vmap where
  "sample_forum_message = minsert ''id'' (QInt 30)
    (minsert ''topic_id'' (QMap (minsert ''forum_topic_id'' (QInt 3) fmempty)) fmempty)"

theorem topic_end_stale_witness:
  "(let answered = rm_handlePrepareMessagesReceived (ftm_chat 1 sample_forum_rows) 2 UpdateNextSlice sample_forum_rows
    in ftm_loadMoreFuture 1 answered = Some answered \<and>
       (\<exists>s'. ftm_handleNewMessageReceived 1 7 sample_forum_message answered = Some s' \<and>
             mm_becomes answered [5, 10, 30] s'))"
proof -
  have rows: "mm_ids sample_forum_rows = [5, 10]" "\<forall>m \<in> set (messages sample_forum_rows). \<not> isSponsored m"
    by (simp_all add: sample_forum_rows_def mm_ids_def newMessageData_def Let_def)
  have "mm_ok sample_forum_rows"
    unfolding mm_ok_def sample_forum_rows_def by (simp add: index_ok_index_of)
  moreover have "ftm_isTopic 7 3 sample_forum_rows" "ftm_searchQuery sample_forum_rows = []"
    "ftm_lastMessageId sample_forum_rows = 10"
    by (simp_all add: sample_forum_rows_def sample_forum_defs ftm_loadMessages_def Let_def ftm_isTopic_def
        newForumTopic_def int32_def ftm_lastMessageId_def ftm_topic_def ft_lastMessage_def signed_take_bit_int_eq_self)
  ultimately show ?thesis
    using topic_end_stale [of sample_forum_rows 7 3 sample_forum_message 30 fmempty 1 2 UpdateNextSlice] rows
    by (simp add: sample_forum_message_def)
qed

end
