(* ===== verification/ChatManager.thy ===== *)
theory ChatManager imports ChatMessages ForumTopics TdData Suggestions
begin

text \<open>
  \<open>ChatManager\<close> (\<open>src/chat/chatmanager.h\<close>, \<open>chatmanager.cpp\<close>): the chat that is shown. It tells QML about the chat, and
  owns the model of its messages or, for a forum that is viewed as topics, the model of its topics.

  The store behind the wrapper, a \<open>td_state\<close>, is an argument of what reads it; without a wrapper nothing
  is read. The models are fields of the state, each with its own log; \<open>deleteLater\<close> drops a model. Calls
  through a wrapper that is not there return \<open>None\<close>.
\<close>

section \<open>State\<close>

datatype chat_manager_output =
  CmTdlibChanged | CmMessagesModelChanged | CmTopicsModelChanged | CmChatIdChanged | CmInfoInitializedChanged
| CmChatActionsChanged | CmChatInformationChanged | CmViewAsTopicsChanged | CmUserInfoChanged
| CmSecretChatInfoChanged | CmGroupInfoChanged | CmPhotoChanged | CmPendingJoinRequestsChanged
| CmPermissionsChanged | CmAccentColorIdChanged | CmBackgroundCustomEmojiIdChanged | CmUpgradedGiftColorsChanged
| CmProfileAccentColorIdChanged | CmProfileBackgroundCustomEmojiIdChanged | CmBotSponsoredMessageChanged
| CmConversionToBroadcastGroupSuggestedChanged
| CmOpenChat int | CmCloseChat int | CmGetChatSponsoredMessages int | CmSetChatPermissions int vmap

record chat_manager =
  cmg_tdlib :: "nat option"
  cmg_chatId :: int
  mainModelsInitializationScheduled :: bool
  mainModelsInitializationScheduledFromMessageId :: int
  botSponsoredMessage :: vmap
  chatMessagesModel :: "cmm_state option"
  topicsModel :: "ft_state option"
  cmg_outputs :: "chat_manager_output list"

definition cmg_new :: chat_manager where
  "cmg_new = \<lparr>cmg_tdlib = None, cmg_chatId = 0, mainModelsInitializationScheduled = False,
     mainModelsInitializationScheduledFromMessageId = 0, botSponsoredMessage = fmempty,
     chatMessagesModel = None, topicsModel = None, cmg_outputs = []\<rparr>"

definition cmm_new :: "int \<Rightarrow> cmm_state" where
  "cmm_new chatId = \<lparr>mm_chatId = chatId, messages = [], messageIndexMap = Map.empty, albumMessageMap = Map.empty,
     mm_outputs = [], waitingFor = (\<lambda>_. False), startReached = False, endReached = False, highlightedMessageId = 0,
     loadingFullEnd = False, searchQuery = [], containsSponsoredMessages = False, pendingSponsoredMessages = [],
     sponsoredMessagesMessagesBetween = 0\<rparr>"

definition cmg_emit :: "chat_manager_output \<Rightarrow> chat_manager \<Rightarrow> chat_manager" where
  "cmg_emit out s = s\<lparr>cmg_outputs := cmg_outputs s @ [out]\<rparr>"

definition cmg_emitWhen :: "bool \<Rightarrow> chat_manager_output \<Rightarrow> chat_manager \<Rightarrow> chat_manager" where
  "cmg_emitWhen b out s = (if b then cmg_emit out s else s)"

text \<open>The constructor connects the signals about the chat to \<open>chatIdChanged\<close>.\<close>

definition cmg_emitChatIdChanged :: "chat_manager \<Rightarrow> chat_manager" where
  "cmg_emitChatIdChanged s =
     fold cmg_emit
       [CmChatIdChanged, CmPhotoChanged, CmChatInformationChanged, CmViewAsTopicsChanged, CmUserInfoChanged,
        CmSecretChatInfoChanged, CmGroupInfoChanged, CmInfoInitializedChanged] s"

section \<open>What it says of the chat\<close>

definition cmg_infoInitialized :: "td_state \<Rightarrow> chat_manager \<Rightarrow> bool" where
  "cmg_infoInitialized td s \<longleftrightarrow> cmg_chatId s \<noteq> 0 \<and> cmg_tdlib s \<noteq> None \<and> td_hasChatData (cmg_chatId s) td"

definition cmg_chatInformation :: "td_state \<Rightarrow> chat_manager \<Rightarrow> vmap" where
  "cmg_chatInformation td s = (if cmg_tdlib s \<noteq> None then td_getChat (cmg_chatId s) td else fmempty)"

definition cmg_getChatData :: "td_state \<Rightarrow> chat_manager \<Rightarrow> chat_data option" where
  "cmg_getChatData td s = (if cmg_chatId s \<noteq> 0 \<and> cmg_tdlib s \<noteq> None then td_chat td (cmg_chatId s) else None)"

definition cmg_data :: "(chat_data \<Rightarrow> 'a) \<Rightarrow> 'a \<Rightarrow> td_state \<Rightarrow> chat_manager \<Rightarrow> 'a" where
  "cmg_data f none td s = (case cmg_getChatData td s of None \<Rightarrow> none | Some c \<Rightarrow> f c)"

definition cmg_photo :: "td_state \<Rightarrow> chat_manager \<Rightarrow> vmap" where
  "cmg_photo = cmg_data cd_photo fmempty"

definition cmg_pendingJoinRequests :: "td_state \<Rightarrow> chat_manager \<Rightarrow> vmap" where
  "cmg_pendingJoinRequests td s = toMap (mvalue (cmg_chatInformation td s) ''pending_join_requests'')"

definition cmg_permissions :: "td_state \<Rightarrow> chat_manager \<Rightarrow> vmap" where
  "cmg_permissions td s = toMap (mvalue (cmg_chatInformation td s) ''permissions'')"

definition cmg_chatType :: "td_state \<Rightarrow> chat_manager \<Rightarrow> chat_type" where
  "cmg_chatType = cmg_data chatType ChatTypeUnknown"

definition cmg_type :: "td_state \<Rightarrow> chat_manager \<Rightarrow> vmap" where
  "cmg_type td s = toMap (mvalue (cmg_chatInformation td s) ''type'')"

definition cmg_isChannel :: "td_state \<Rightarrow> chat_manager \<Rightarrow> bool" where
  "cmg_isChannel td s \<longleftrightarrow> cmg_chatType td s = ChatTypeSupergroup \<and> toBool (mvalue (cmg_type td s) ''is_channel'')"

definition cmg_userId :: "td_state \<Rightarrow> chat_manager \<Rightarrow> int" where
  "cmg_userId td s = toLongLong (mvalue (cmg_type td s) ''user_id'')"

definition cmg_secretChatId :: "td_state \<Rightarrow> chat_manager \<Rightarrow> int" where
  "cmg_secretChatId td s = toLongLong (mvalue (cmg_type td s) ''secret_chat_id'')"

definition cmg_groupId :: "td_state \<Rightarrow> chat_manager \<Rightarrow> int" where
  "cmg_groupId td s =
     toLongLong (mvalue (cmg_type td s)
       (if cmg_chatType td s = ChatTypeSupergroup then ''supergroup_id'' else ''basic_group_id''))"

definition cmg_userInfo :: "td_state \<Rightarrow> chat_manager \<Rightarrow> qvariant" where
  "cmg_userInfo td s =
     (if cmg_chatType td s = ChatTypePrivate \<or> cmg_chatType td s = ChatTypeSecret
      then QMap (td_getUserInformation (cmg_userId td s) td) else QInvalid)"

definition cmg_secretChatInfo :: "td_state \<Rightarrow> chat_manager \<Rightarrow> qvariant" where
  "cmg_secretChatInfo td s =
     (if cmg_chatType td s = ChatTypeSecret then QMap (td_getSecretChat (cmg_secretChatId td s) td) else QInvalid)"

definition cmg_groupInfo :: "td_state \<Rightarrow> chat_manager \<Rightarrow> qvariant" where
  "cmg_groupInfo td s =
     (if cmg_chatType td s = ChatTypeBasicGroup then QMap (td_getBasicGroup (cmg_groupId td s) td)
      else if cmg_chatType td s = ChatTypeSupergroup then QMap (td_getSuperGroup (cmg_groupId td s) td)
      else QInvalid)"

definition cmg_isBot :: "td_state \<Rightarrow> chat_manager \<Rightarrow> bool" where
  "cmg_isBot td s \<longleftrightarrow>
     toString (mvalue (toMap (mvalue (toMap (cmg_userInfo td s)) ''type'')) ''@type'') = ''userTypeBot''"

definition cmg_viewAsTopics :: "td_state \<Rightarrow> chat_manager \<Rightarrow> bool" where
  "cmg_viewAsTopics = cmg_data cd_viewAsTopics False"

definition cmg_accentColorId :: "td_state \<Rightarrow> chat_manager \<Rightarrow> int" where
  "cmg_accentColorId = cmg_data accentColorId (-1)"

definition cmg_backgroundCustomEmojiId :: "td_state \<Rightarrow> chat_manager \<Rightarrow> string" where
  "cmg_backgroundCustomEmojiId = cmg_data backgroundCustomEmojiId []"

definition cmg_upgradedGiftColors :: "td_state \<Rightarrow> chat_manager \<Rightarrow> vmap" where
  "cmg_upgradedGiftColors = cmg_data upgradedGiftColors fmempty"

definition cmg_profileAccentColorId :: "td_state \<Rightarrow> chat_manager \<Rightarrow> int" where
  "cmg_profileAccentColorId = cmg_data profileAccentColorId (-1)"

definition cmg_profileBackgroundCustomEmojiId :: "td_state \<Rightarrow> chat_manager \<Rightarrow> string" where
  "cmg_profileBackgroundCustomEmojiId = cmg_data profileBackgroundCustomEmojiId []"

definition cmg_conversionToBroadcastGroupSuggested :: "suggestions \<Rightarrow> td_state \<Rightarrow> chat_manager \<Rightarrow> bool" where
  "cmg_conversionToBroadcastGroupSuggested sa td s \<longleftrightarrow>
     cmg_chatType td s = ChatTypeSupergroup \<and> sa_isConversionToBroadcastGroupSuggested (cmg_groupId td s) sa"

definition cmg_existing :: "(chat_data \<Rightarrow> 'a) \<Rightarrow> 'a \<Rightarrow> td_state \<Rightarrow> chat_manager \<Rightarrow> 'a" where
  "cmg_existing f none td s =
     (if cmg_infoInitialized td s then f (the (td_chat td (cmg_chatId s))) else none)"

definition cmg_chatMainActionType :: "td_state \<Rightarrow> chat_manager \<Rightarrow> action_type" where
  "cmg_chatMainActionType = cmg_existing getMainChatActionType ActionCancel"

definition cmg_chatActionsProgress :: "td_state \<Rightarrow> chat_manager \<Rightarrow> rat" where
  "cmg_chatActionsProgress = cmg_existing cd_getChatActionsProgress (-1)"

text \<open>What the model of the messages reads of its parent.\<close>

definition cmg_parent :: "td_state \<Rightarrow> chat_manager \<Rightarrow> chat_parent" where
  "cmg_parent td s = \<lparr>cp_chatInformation = cmg_chatInformation td s, cp_isChannel = cmg_isChannel td s,
     cp_myUserId = td_myId td\<rparr>"

section \<open>The models\<close>

definition cmg_reset :: "bool \<Rightarrow> chat_manager \<Rightarrow> chat_manager" where
  "cmg_reset resetChatId s =
     (let s1 = s\<lparr>chatMessagesModel := None, topicsModel := None\<rparr>;
          s2 = (if resetChatId
                then cmg_emit CmChatActionsChanged (cmg_emit CmPendingJoinRequestsChanged
                       (cmg_emitChatIdChanged (s1\<lparr>cmg_chatId := 0\<rparr>)))
                else s1)
      in s2\<lparr>mainModelsInitializationScheduled := False, mainModelsInitializationScheduledFromMessageId := 0\<rparr>)"

definition cmg_initializeMainModels :: "td_state \<Rightarrow> int \<Rightarrow> chat_manager \<Rightarrow> chat_manager" where
  "cmg_initializeMainModels td fromMessageId s =
     (if cmg_tdlib s = None then
        s\<lparr>mainModelsInitializationScheduled := True, mainModelsInitializationScheduledFromMessageId := fromMessageId\<rparr>
      else
        (let s1 = cmg_reset False s
         in if cmg_viewAsTopics td s1 then
              cmg_emit CmTopicsModelChanged (s1\<lparr>topicsModel := Some (fm_new (cmg_chatId s1))\<rparr>)
            else
              (let (m, s2) =
                     (case chatMessagesModel s1 of
                        None \<Rightarrow> (cmm_new (cmg_chatId s1), cmg_emit CmMessagesModelChanged s1)
                      | Some m \<Rightarrow>
                          (if mm_chatId m \<noteq> cmg_chatId s1
                           then (mm_emit ChatIdChanged (m\<lparr>mm_chatId := cmg_chatId s1\<rparr>), s1) else (m, s1)))
               in s2\<lparr>chatMessagesModel := Some (cmm_loadMessages UpdateInitial
                    (if fromMessageId \<noteq> 0 then fromMessageId
                     else toLongLong (mvalue (cmg_chatInformation td s2) ''last_read_inbox_message_id'')) (-1) m)\<rparr>)))"

definition cmg_tryReinitializeMainModels :: "td_state \<Rightarrow> chat_manager \<Rightarrow> chat_manager" where
  "cmg_tryReinitializeMainModels td s =
     (if chatMessagesModel s \<noteq> None \<or> topicsModel s \<noteq> None then cmg_initializeMainModels td 0 s else s)"

text \<open>Called only when there is a wrapper.\<close>

definition cmg_finishInitialization :: "td_state \<Rightarrow> chat_manager \<Rightarrow> chat_manager" where
  "cmg_finishInitialization td s =
     (let s1 = cmg_emit (CmOpenChat (cmg_chatId s)) s;
          s2 = cmg_emitWhen (\<not> mempty (cmg_pendingJoinRequests td s1)) CmPendingJoinRequestsChanged s1;
          s3 = cmg_emitWhen (cmg_isBot td s2) (CmGetChatSponsoredMessages (cmg_chatId s2)) s2
      in cmg_tryReinitializeMainModels td s3)"

definition cmg_setChatId :: "td_state \<Rightarrow> int \<Rightarrow> chat_manager \<Rightarrow> chat_manager" where
  "cmg_setChatId td chatId s =
     (if cmg_chatId s = chatId then s
      else
        (let s1 = cmg_emitChatIdChanged (s\<lparr>cmg_chatId := chatId\<rparr>)
         in if cmg_tdlib s1 \<noteq> None then cmg_finishInitialization td s1 else s1))"

definition cmg_setTDLibWrapper :: "td_state \<Rightarrow> nat option \<Rightarrow> chat_manager \<Rightarrow> chat_manager" where
  "cmg_setTDLibWrapper td wrapper s =
     (if cmg_tdlib s \<noteq> wrapper then
        (let s1 = cmg_emit CmTdlibChanged (s\<lparr>cmg_tdlib := wrapper\<rparr>)
         in if wrapper = None then s1
            else
              (let s2 = (if cmg_chatId s1 \<noteq> 0 then cmg_finishInitialization td (cmg_emitChatIdChanged s1) else s1)
               in if mainModelsInitializationScheduled s2 then
                    (cmg_initializeMainModels td (mainModelsInitializationScheduledFromMessageId s2) s2)
                      \<lparr>mainModelsInitializationScheduled := False, mainModelsInitializationScheduledFromMessageId := 0\<rparr>
                  else s2))
      else s)"

definition cmg_destroy :: "chat_manager \<Rightarrow> chat_manager option" where
  "cmg_destroy s =
     (if cmg_chatId s \<noteq> 0 then
        (if cmg_tdlib s = None then None else Some (cmg_emit (CmCloseChat (cmg_chatId s)) s))
      else Some s)"

definition cmg_setPermissions :: "vmap \<Rightarrow> chat_manager \<Rightarrow> chat_manager option" where
  "cmg_setPermissions perms s =
     (if cmg_tdlib s = None then None else Some (cmg_emit (CmSetChatPermissions (cmg_chatId s) perms) s))"

section \<open>Slots\<close>

definition cmg_handleChatPendingJoinRequestsUpdated :: "int \<Rightarrow> chat_manager \<Rightarrow> chat_manager" where
  "cmg_handleChatPendingJoinRequestsUpdated chatId s = cmg_emitWhen (cmg_chatId s = chatId) CmPendingJoinRequestsChanged s"

definition cmg_handleUserUpdated :: "td_state \<Rightarrow> int \<Rightarrow> chat_manager \<Rightarrow> chat_manager" where
  "cmg_handleUserUpdated td userId s = cmg_emitWhen (cmg_userId td s = userId) CmUserInfoChanged s"

definition cmg_handleSecretChatUpdated :: "td_state \<Rightarrow> int \<Rightarrow> chat_manager \<Rightarrow> chat_manager" where
  "cmg_handleSecretChatUpdated td i s = cmg_emitWhen (cmg_secretChatId td s = i) CmSecretChatInfoChanged s"

definition cmg_handleBasicGroupUpdated :: "td_state \<Rightarrow> int \<Rightarrow> chat_manager \<Rightarrow> chat_manager" where
  "cmg_handleBasicGroupUpdated td groupId s =
     cmg_emitWhen (cmg_chatType td s = ChatTypeBasicGroup \<and> cmg_groupId td s = groupId) CmGroupInfoChanged s"

definition cmg_handleSupergroupUpdated :: "td_state \<Rightarrow> int \<Rightarrow> chat_manager \<Rightarrow> chat_manager" where
  "cmg_handleSupergroupUpdated td groupId s =
     cmg_emitWhen (cmg_chatType td s = ChatTypeSupergroup \<and> cmg_groupId td s = groupId) CmGroupInfoChanged s"

definition cmg_handleNewChatDiscovered :: "int \<Rightarrow> chat_manager \<Rightarrow> chat_manager" where
  "cmg_handleNewChatDiscovered chatId s = (if cmg_chatId s = chatId then cmg_emitChatIdChanged s else s)"

definition cmg_emitModel :: "bool \<Rightarrow> mm_output \<Rightarrow> chat_manager \<Rightarrow> chat_manager" where
  "cmg_emitModel b out s = (if b then s\<lparr>chatMessagesModel := map_option (mm_emit out) (chatMessagesModel s)\<rparr> else s)"

definition cmg_handleChatRolesUpdated :: "td_state \<Rightarrow> int \<Rightarrow> chat_role list \<Rightarrow> chat_manager \<Rightarrow> chat_manager" where
  "cmg_handleChatRolesUpdated td chatId changedRoles s =
     (if cmg_chatId s \<noteq> chatId then s
      else
        (let has = (\<lambda>r. r \<in> set changedRoles);
             s1 = cmg_emitWhen (has ChatRolePhoto) CmPhotoChanged s;
             s2 = cmg_emitWhen (has ChatRolePermissions) CmPermissionsChanged s1;
             s3 = cmg_emitWhen (has ChatRoleChatActionsText) CmChatActionsChanged s2;
             s4 = cmg_emitModel (has ChatRoleLastReadInboxMessageId) LastReadInboxMessageIdChanged s3;
             s5 = cmg_emitModel (has ChatRoleLastReadOutboxMessageId) LastReadOutboxMessageIdChanged s4;
             s6 = cmg_emitModel (has ChatRoleUnreadCount) UnreadCountUpdated s5;
             s7 = (if has ChatRoleViewAsTopics
                   then cmg_tryReinitializeMainModels td (cmg_emit CmViewAsTopicsChanged s6) else s6);
             s8 = cmg_emitWhen (has ChatRoleAccentColorId) CmAccentColorIdChanged s7;
             s9 = cmg_emitWhen (has ChatRoleBackgroundCustomEmojiId) CmBackgroundCustomEmojiIdChanged s8;
             s10 = cmg_emitWhen (has ChatRoleUpgradedGiftColors) CmUpgradedGiftColorsChanged s9;
             s11 = cmg_emitWhen (has ChatRoleProfileAccentColorId) CmProfileAccentColorIdChanged s10;
             s12 = cmg_emitWhen (has ChatRoleProfileBackgroundCustomEmojiId) CmProfileBackgroundCustomEmojiIdChanged s11
         in cmg_emit CmChatInformationChanged s12))"

definition cmg_handleSponsoredMessagesReceived :: "td_state \<Rightarrow> int \<Rightarrow> qvariant list \<Rightarrow> chat_manager \<Rightarrow> chat_manager" where
  "cmg_handleSponsoredMessagesReceived td chatId sponsored s =
     (if cmg_isBot td s \<and> cmg_chatId s = chatId \<and> sponsored \<noteq> [] then
        (let message = toMap (hd sponsored)
         in if mvalue (botSponsoredMessage s) ''message_id'' \<noteq> mvalue message ''message_id''
            then cmg_emit CmBotSponsoredMessageChanged (s\<lparr>botSponsoredMessage := message\<rparr>) else s)
      else s)"

definition cmg_handleConversionToBroadcastGroupSuggestedChanged :: "td_state \<Rightarrow> int \<Rightarrow> chat_manager \<Rightarrow> chat_manager" where
  "cmg_handleConversionToBroadcastGroupSuggestedChanged td supergroupId s =
     cmg_emitWhen (cmg_chatType td s = ChatTypeSupergroup \<and> cmg_groupId td s = supergroupId)
       CmConversionToBroadcastGroupSuggestedChanged s"

text \<open>The slots \<open>setTDLibWrapper\<close> connects to the signals of the store.\<close>

fun cmg_slot :: "td_state \<Rightarrow> td_output \<Rightarrow> chat_manager \<Rightarrow> chat_manager" where
  "cmg_slot td (NewChatDiscovered i info) s = cmg_handleNewChatDiscovered i s"
| "cmg_slot td (ChatRolesUpdated i roles) s = cmg_handleChatRolesUpdated td i roles s"
| "cmg_slot td (ChatPendingJoinRequestsUpdated i) s = cmg_handleChatPendingJoinRequestsUpdated i s"
| "cmg_slot td (UserUpdated i info) s = cmg_handleUserUpdated td i s"
| "cmg_slot td (SecretChatUpdated i) s = cmg_handleSecretChatUpdated td i s"
| "cmg_slot td (BasicGroupUpdated i) s = cmg_handleBasicGroupUpdated td i s"
| "cmg_slot td (SupergroupUpdated i) s = cmg_handleSupergroupUpdated td i s"
| "cmg_slot td _ s = s"

text \<open>
  An update of the store, and the slots for the signals it emits, which are connected when there is a
  wrapper. They run inside the update; what they read of a chat, its type and how it is viewed, is in the
  store before the signal.
\<close>

definition cmg_update :: "(vmap \<Rightarrow> string) \<Rightarrow> td_event \<Rightarrow> td_state \<times> chat_manager \<Rightarrow> td_state \<times> chat_manager" where
  "cmg_update msgText e ts =
     (let td' = td_handle msgText e (fst ts)
      in (td', if cmg_tdlib (snd ts) = None then snd ts
               else fold (cmg_slot td') (drop (length (td_outputs (fst ts))) (td_outputs td')) (snd ts)))"

end
