(* ===== verification/ChatManagerProperties.thy ===== *)
theory ChatManagerProperties imports ChatManager
begin

text \<open>
  The chat manager and the store together: the model that is shown is the one the chat calls for, whatever
  the store is told and in whatever order the manager is set up; and where this goes wrong.
\<close>

section \<open>How the store says a chat is viewed\<close>

definition td_view :: "td_state \<Rightarrow> int \<Rightarrow> bool option" where
  "td_view s k = map_option cd_viewAsTopics (td_chat s k)"

lemma td_view_chats: "td_chats t = td_chats s \<Longrightarrow> td_view t = td_view s"
  by (simp add: td_view_def td_chat_def fun_eq_iff)

lemma td_view_emit [simp]: "td_view (td_emit out s) = td_view s"
  by (rule td_view_chats) simp

lemma td_view_setChat: "td_view (td_setChat i c s) k = (if k = i then Some (cd_viewAsTopics c) else td_view s k)"
  by (simp add: td_view_def)

lemma td_view_setSame:
  "td_chat s i = Some c \<Longrightarrow> cd_viewAsTopics c' = cd_viewAsTopics c \<Longrightarrow> td_view (td_setChat i c' s) = td_view s"
  by (auto simp: td_view_setChat td_view_def fun_eq_iff)

lemma cd_viewAsTopics_put [simp]:
  "k \<noteq> ''view_as_topics'' \<Longrightarrow> cd_viewAsTopics (cd_put k v c) = cd_viewAsTopics c"
  "cd_viewAsTopics (cd_put ''view_as_topics'' v c) = toBool v"
  by (simp_all add: cd_viewAsTopics_def cd_put_def)

lemma cd_viewAsTopics_updates [simp]:
  "cd_viewAsTopics (snd (updateLastMessage messageText m c)) = cd_viewAsTopics c"
  "cd_viewAsTopics (snd (updateUnreadCount n c)) = cd_viewAsTopics c"
  "cd_viewAsTopics (snd (updateLastReadInboxMessageId i c)) = cd_viewAsTopics c"
  "cd_viewAsTopics (snd (updateLastReadOutboxMessageId i c)) = cd_viewAsTopics c"
  "cd_viewAsTopics (snd (updateUserStatus st c)) = cd_viewAsTopics c"
  "cd_viewAsTopics (snd (updateAccentColors a b p pa pb c)) = cd_viewAsTopics c"
  "cd_viewAsTopics (c\<lparr>chatActions := actions\<rparr>) = cd_viewAsTopics c"
  "cd_viewAsTopics (snd (cd_updateGroup g c)) = cd_viewAsTopics c"
  by (simp_all add: updateLastMessage_def updateUnreadCount_def updateLastReadInboxMessageId_def Let_def
      updateLastReadOutboxMessageId_def updateUserStatus_def updateAccentColors_def cd_updateGroup_def
      cd_viewAsTopics_def cd_put_def split: prod.split option.split)

lemma td_view_positions [simp]:
  "td_view (td_addToList i ps l s) = td_view s"
  "td_view (td_handleChatPositionUpdated i p s) = td_view s"
  "td_view (td_updateChatPositions i ps s) = td_view s"
proof -
  show "td_view (td_addToList i ps l s) = td_view s" by (rule td_view_chats) simp
  show pos: "td_view (td_handleChatPositionUpdated i p s) = td_view s" for p s
    by (simp add: td_handleChatPositionUpdated_def Let_def split: option.split)
  show "td_view (td_updateChatPositions i ps s) = td_view s"
    unfolding td_updateChatPositions_def by (induction ps arbitrary: s) (simp_all add: pos)
qed

lemma td_view_withChat:
  "(\<And>c. td_chat s i = Some c \<Longrightarrow> td_view (f c s) = td_view s) \<Longrightarrow> td_view (td_withChat i f s) = td_view s"
  by (simp add: td_withChat_def split: option.split)

lemma td_view_putChat:
  "td_chat s i = Some c \<Longrightarrow> k \<noteq> ''view_as_topics'' \<Longrightarrow> td_view (td_putChat k v roles i c s) = td_view s"
  by (simp add: td_putChat_def td_view_setSame)

lemma td_view_chat_updates:
  "td_view (td_handleChatLastMessageUpdated messageText i m ps s) = td_view s"
  "td_view (td_handleChatDraftMessageUpdated i d ps s) = td_view s"
  "td_view (td_handleChatReadInboxUpdated i r n s) = td_view s" "td_view (td_handleChatReadOutboxUpdated i r s) = td_view s"
  "td_view (td_handleChatTitleUpdated i t s) = td_view s" "td_view (td_handleChatPhotoUpdated i p s) = td_view s"
  "td_view (td_handleChatUnreadMentionCountUpdated i n s) = td_view s"
  "td_view (td_handleChatUnreadReactionCountUpdated i n s) = td_view s"
  "td_view (td_handleChatUnreadPollVoteCountUpdated i n s) = td_view s"
  "td_view (td_handleChatPendingJoinRequestsUpdated i p s) = td_view s"
  "td_view (td_handleChatAccentColorsUpdated i a b p pa pb s) = td_view s"
  "td_view (td_handleChatActionUpdated i d p q s) = td_view s"
  "td_view (td_handleChatNotificationSettingsUpdated i p s) = td_view s"
  "td_view (td_handleChatIsMarkedAsUnreadUpdated i bo s) = td_view s"
  "td_view (td_handleChatPermissionsUpdated i p s) = td_view s"
  "td_view (td_handleChatAvailableReactionsUpdated i p s) = td_view s"
  by (simp_all add: td_view_withChat td_view_putChat td_view_setSame case_prod_beta Let_def
      td_handleChatLastMessageUpdated_def td_handleChatDraftMessageUpdated_def td_handleChatReadInboxUpdated_def
      td_handleChatReadOutboxUpdated_def td_handleChatTitleUpdated_def td_handleChatPhotoUpdated_def
      td_handleChatUnreadMentionCountUpdated_def td_handleChatUnreadReactionCountUpdated_def
      td_handleChatUnreadPollVoteCountUpdated_def td_handleChatPendingJoinRequestsUpdated_def
      td_handleChatAccentColorsUpdated_def td_handleChatActionUpdated_def
      td_handleChatNotificationSettingsUpdated_def td_handleChatIsMarkedAsUnreadUpdated_def
      td_handleChatPermissionsUpdated_def td_handleChatAvailableReactionsUpdated_def)

lemma td_view_others:
  "td_view (td_handleOptionUpdated n v s) = td_view s" "td_view (td_handleUserUpdated u s) = td_view s"
  "td_view (td_handleUserPrivacySettingRules r s) = td_view s"
  "td_view (td_handleUpdatedUserPrivacySettingRules r s) = td_view s"
  "td_view (td_handleChatAddedToList l i s) = td_view s" "td_view (td_handleChatRemovedFromList l i s) = td_view s"
  "td_view (td_handleUnreadMessageCountUpdated m s) = td_view s"
  "td_view (td_handleUnreadChatCountUpdated m s) = td_view s"
  "td_view (td_handleSecretChatUpdated i c s) = td_view s" "td_view (td_handleCommunityUpdated i c s) = td_view s"
  "td_view (td_handleScopeNotificationSettingsUpdated t p s) = td_view s"
  "td_view (td_handleOwnedStarCountUpdated i j s) = td_view s" "td_view (td_handleOwnedGramCountUpdated i s) = td_view s"
  "td_view (td_handleStakeDiceStateUpdated p s) = td_view s"
  "td_view (td_handleActiveEmojiReactionsUpdated es s) = td_view s" "td_view (td_handleDiceEmojisUpdated es s) = td_view s"
  "td_view (td_handleDefaultReactionTypeUpdated p s) = td_view s"
  "td_view (td_handleAccentColorsUpdated cs ids s) = td_view s"
  by (rule td_view_chats;
      simp add: td_handleOptionUpdated_def td_handleUserUpdated_def td_updateUserInformation_def
        td_handleUserPrivacySettingRules_def td_handleUpdatedUserPrivacySettingRules_def td_handleChatAddedToList_def
        td_handleChatRemovedFromList_def td_handleUnreadMessageCountUpdated_def td_handleUnreadChatCountUpdated_def
        td_handleSecretChatUpdated_def td_handleCommunityUpdated_def td_handleScopeNotificationSettingsUpdated_def
        td_handleOwnedStarCountUpdated_def td_handleOwnedGramCountUpdated_def td_handleStakeDiceStateUpdated_def
        td_handleActiveEmojiReactionsUpdated_def td_handleDiceEmojisUpdated_def td_handleDefaultReactionTypeUpdated_def
        td_handleAccentColorsUpdated_def Let_def split: option.split)+

lemma td_view_group_told:
  "map_option cd_viewAsTopics (map_of (map (\<lambda>(k, c). (k, group_told g c)) cs) k) =
     map_option cd_viewAsTopics (map_of cs k)"
  by (induction cs) (auto simp: group_told_def)

lemma td_view_updateGroup: "td_view (td_updateGroup g s) = td_view s"
  by (rule ext) (simp only: td_view_def td_chat_def td_updateGroup_fields td_view_group_told)

lemma td_view_groups:
  "td_view (td_handleBasicGroupUpdated i g s) = td_view s" "td_view (td_handleSupergroupUpdated i g s) = td_view s"
  unfolding td_handleBasicGroupUpdated_def td_handleSupergroupUpdated_def Let_def td_view_emit td_view_updateGroup
  by (rule td_view_chats, simp)+

lemma td_view_status: "td_view (td_handleUserStatusUpdated i st s) = td_view s"
proof -
  define s1 where "s1 = (if i = td_myId s
    then td_emit MyUserUpdated (s\<lparr>td_userInformation := minsert ''status'' (QMap st) (td_userInformation s)\<rparr>) else s)"
  define t where "t = td_updateUserInformation i (minsert ''status'' (QMap st) (the_map (td_users s1 i))) s1"
  have s: "td_view s1 = td_view s" by (rule td_view_chats) (simp add: s1_def)
  have t: "td_view t = td_view s" by (rule td_view_chats) (simp add: t_def s1_def td_updateUserInformation_def)
  have "td_view (td_setChat i (snd (updateUserStatus st c)) t) = td_view s" if "td_chat t i = Some c" for c
    using td_view_setSame [OF that, of "snd (updateUserStatus st c)"] t by simp
  with s t show ?thesis
    unfolding td_handleUserStatusUpdated_def Let_def s1_def [symmetric] t_def [symmetric]
    by (simp add: case_prod_beta split: option.split)
qed

lemma td_view_newChat:
  "k \<noteq> toLongLong (mvalue info ''id'') \<Longrightarrow> td_view (td_handleNewChatDiscovered info s) k = td_view s k"
proof -
  have "td_view (fold (\<lambda>l. td_addToList i ps (toMap l)) ls t) = td_view t" for i ps ls t
    by (induction ls arbitrary: t) simp_all
  then show "k \<noteq> toLongLong (mvalue info ''id'') \<Longrightarrow> ?thesis"
    by (simp add: td_handleNewChatDiscovered_def Let_def td_view_setChat)
qed

text \<open>Only two updates change how a chat is viewed: the one about just this, and the chat itself.\<close>

fun view_event :: "int \<Rightarrow> td_event \<Rightarrow> bool" where
  "view_event k (EChatViewAsTopics i b) \<longleftrightarrow> i = k"
| "view_event k (ENewChat info) \<longleftrightarrow> toLongLong (mvalue info ''id'') = k"
| "view_event k _ \<longleftrightarrow> False"

lemma td_view_topics: "k \<noteq> i \<Longrightarrow> td_view (td_handleChatViewAsTopicsUpdated i b s) k = td_view s k"
  by (simp add: td_handleChatViewAsTopicsUpdated_def td_withChat_def td_putChat_def td_view_setChat split: option.split)

lemma td_view_handle: "\<not> view_event k e \<Longrightarrow> td_view (td_handle messageText e s) k = td_view s k"
  by (cases e) (simp_all add: td_view_chat_updates td_view_others td_view_groups td_view_status
      td_view_newChat td_view_topics)

section \<open>The model that is shown\<close>

definition cmg_ok :: "td_state \<Rightarrow> chat_manager \<Rightarrow> bool" where
  "cmg_ok td s \<longleftrightarrow>
     (case chatMessagesModel s of
        None \<Rightarrow> True
      | Some m \<Rightarrow> topicsModel s = None \<and> mm_chatId m = cmg_chatId s \<and> \<not> cmg_viewAsTopics td s) \<and>
     (case topicsModel s of
        None \<Rightarrow> True
      | Some t \<Rightarrow> chatMessagesModel s = None \<and> fm_chatId t = cmg_chatId s \<and> cmg_viewAsTopics td s) \<and>
     (cmg_tdlib s = None \<longrightarrow> chatMessagesModel s = None \<and> topicsModel s = None)"

lemma cmg_viewAsTopics_view:
  "cmg_viewAsTopics td s \<longleftrightarrow> cmg_chatId s \<noteq> 0 \<and> cmg_tdlib s \<noteq> None \<and> td_view td (cmg_chatId s) = Some True"
  by (auto simp: cmg_viewAsTopics_def cmg_data_def cmg_getChatData_def td_view_def split: option.split)

lemma cmg_emit_fields [simp]:
  "cmg_tdlib (cmg_emit out s) = cmg_tdlib s" "cmg_chatId (cmg_emit out s) = cmg_chatId s"
  "chatMessagesModel (cmg_emit out s) = chatMessagesModel s" "topicsModel (cmg_emit out s) = topicsModel s"
  "mainModelsInitializationScheduled (cmg_emit out s) = mainModelsInitializationScheduled s"
  "mainModelsInitializationScheduledFromMessageId (cmg_emit out s) = mainModelsInitializationScheduledFromMessageId s"
  "cmg_outputs (cmg_emit out s) = cmg_outputs s @ [out]"
  by (simp_all add: cmg_emit_def)

lemma cmg_emitWhen_fields [simp]:
  "cmg_tdlib (cmg_emitWhen b out s) = cmg_tdlib s" "cmg_chatId (cmg_emitWhen b out s) = cmg_chatId s"
  "chatMessagesModel (cmg_emitWhen b out s) = chatMessagesModel s" "topicsModel (cmg_emitWhen b out s) = topicsModel s"
  "mainModelsInitializationScheduled (cmg_emitWhen b out s) = mainModelsInitializationScheduled s"
  "mainModelsInitializationScheduledFromMessageId (cmg_emitWhen b out s) = mainModelsInitializationScheduledFromMessageId s"
  by (simp_all add: cmg_emitWhen_def)

lemma cmg_emitChatIdChanged_fields [simp]:
  "cmg_tdlib (cmg_emitChatIdChanged s) = cmg_tdlib s" "cmg_chatId (cmg_emitChatIdChanged s) = cmg_chatId s"
  "chatMessagesModel (cmg_emitChatIdChanged s) = chatMessagesModel s" "topicsModel (cmg_emitChatIdChanged s) = topicsModel s"
  "mainModelsInitializationScheduled (cmg_emitChatIdChanged s) = mainModelsInitializationScheduled s"
  "mainModelsInitializationScheduledFromMessageId (cmg_emitChatIdChanged s) = mainModelsInitializationScheduledFromMessageId s"
  by (simp_all add: cmg_emitChatIdChanged_def)

lemma cmg_emitModel_fields [simp]:
  "cmg_tdlib (cmg_emitModel b out s) = cmg_tdlib s" "cmg_chatId (cmg_emitModel b out s) = cmg_chatId s"
  "topicsModel (cmg_emitModel b out s) = topicsModel s"
  "chatMessagesModel (cmg_emitModel b out s) = (if b then map_option (mm_emit out) (chatMessagesModel s) else chatMessagesModel s)"
  by (simp_all add: cmg_emitModel_def)

lemma mm_emit_chatId [simp]: "mm_chatId (mm_emit out s) = mm_chatId s"
  by (simp add: mm_emit_def)

lemma cmg_ok_cong:
  "cmg_tdlib s = cmg_tdlib t \<Longrightarrow> cmg_chatId s = cmg_chatId t \<Longrightarrow> topicsModel s = topicsModel t \<Longrightarrow>
     map_option mm_chatId (chatMessagesModel s) = map_option mm_chatId (chatMessagesModel t) \<Longrightarrow>
     cmg_ok td s \<longleftrightarrow> cmg_ok td t"
  by (cases "chatMessagesModel s"; cases "chatMessagesModel t"; cases "topicsModel t")
    (simp_all add: cmg_ok_def cmg_viewAsTopics_view)

lemma cmg_ok_emit [simp]:
  "cmg_ok td (cmg_emit out s) \<longleftrightarrow> cmg_ok td s" "cmg_ok td (cmg_emitWhen b out s) \<longleftrightarrow> cmg_ok td s"
  "cmg_ok td (cmg_emitChatIdChanged s) \<longleftrightarrow> cmg_ok td s" "cmg_ok td (cmg_emitModel b mout s) \<longleftrightarrow> cmg_ok td s"
  by (rule cmg_ok_cong; simp add: option.map_comp comp_def)+

lemma cmg_ok_schedule [simp]:
  "cmg_ok td (s\<lparr>mainModelsInitializationScheduled := a, mainModelsInitializationScheduledFromMessageId := m\<rparr>) \<longleftrightarrow>
     cmg_ok td s"
  by (rule cmg_ok_cong) simp_all

lemma cmg_ok_view: "td_view td' (cmg_chatId s) = td_view td (cmg_chatId s) \<Longrightarrow> cmg_ok td' s \<longleftrightarrow> cmg_ok td s"
  by (simp add: cmg_ok_def cmg_viewAsTopics_view split: option.split)

lemma cmg_ok_none: "chatMessagesModel s = None \<Longrightarrow> topicsModel s = None \<Longrightarrow> cmg_ok td s"
  by (simp add: cmg_ok_def)

lemma cmm_loadMessages_chatId [simp]: "mm_chatId (cmm_loadMessages e m off s) = mm_chatId s"
  by (simp add: cmm_loadMessages_def)

lemma fm_new_chatId [simp]: "fm_chatId (fm_new k) = k"
  by (simp add: fm_new_def fm_emit_def)

lemma cmm_new_chatId [simp]: "mm_chatId (cmm_new k) = k"
  by (simp add: cmm_new_def)

lemma cmg_initialize_fields [simp]:
  "cmg_chatId (cmg_initializeMainModels td m s) = cmg_chatId s" "cmg_tdlib (cmg_initializeMainModels td m s) = cmg_tdlib s"
  by (simp_all add: cmg_initializeMainModels_def cmg_reset_def Let_def)

text \<open>Whatever was shown before, the new model is the one the chat calls for.\<close>

lemma cmg_ok_initialize: "cmg_tdlib s \<noteq> None \<Longrightarrow> cmg_ok td (cmg_initializeMainModels td m s)"
  by (auto simp: cmg_initializeMainModels_def cmg_reset_def Let_def cmg_ok_def cmg_viewAsTopics_view)

lemma cmg_ok_initialize': "cmg_ok td s \<Longrightarrow> cmg_ok td (cmg_initializeMainModels td m s)"
proof (cases "cmg_tdlib s = None")
  case True
  moreover assume "cmg_ok td s"
  ultimately show ?thesis by (simp add: cmg_initializeMainModels_def cmg_ok_def)
qed (simp add: cmg_ok_initialize)

lemma cmg_ok_tryReinitialize:
  "cmg_tdlib s \<noteq> None \<Longrightarrow> cmg_ok td (cmg_tryReinitializeMainModels td s)"
  by (auto simp: cmg_tryReinitializeMainModels_def cmg_ok_initialize cmg_ok_none)

lemma cmg_ok_finish: "cmg_tdlib s \<noteq> None \<Longrightarrow> cmg_ok td (cmg_finishInitialization td s)"
  by (simp add: cmg_finishInitialization_def Let_def cmg_ok_tryReinitialize)

lemma cmg_finish_tdlib [simp]: "cmg_tdlib (cmg_finishInitialization td s) = cmg_tdlib s"
  by (simp add: cmg_finishInitialization_def cmg_tryReinitializeMainModels_def Let_def)

lemma cmg_ok_setChatId:
  assumes "cmg_ok td s"
  shows "cmg_ok td (cmg_setChatId td k s)"
proof (cases "cmg_tdlib s = None")
  case True
  with assms show ?thesis
    by (simp add: cmg_setChatId_def Let_def) (simp add: cmg_ok_def)
qed (use assms in \<open>simp add: cmg_setChatId_def Let_def cmg_ok_finish\<close>)

lemma cmg_ok_setTDLibWrapper:
  assumes "cmg_ok td s"
  shows "cmg_ok td (cmg_setTDLibWrapper td (Some w) s)"
proof -
  define s1 where "s1 = cmg_emit CmTdlibChanged (s\<lparr>cmg_tdlib := Some w\<rparr>)"
  define s2 where "s2 = (if cmg_chatId s1 \<noteq> 0 then cmg_finishInitialization td (cmg_emitChatIdChanged s1) else s1)"
  have tdlib: "cmg_tdlib s1 = Some w" "cmg_tdlib s2 = Some w" by (simp_all add: s1_def s2_def)
  have "cmg_ok td s1" if "cmg_chatId s1 = 0"
    using assms that by (auto simp: s1_def cmg_ok_def cmg_viewAsTopics_view split: option.splits)
  then have "cmg_ok td s2" using tdlib by (simp add: s2_def cmg_ok_finish)
  with assms tdlib show ?thesis
    unfolding cmg_setTDLibWrapper_def Let_def s1_def [symmetric] s2_def [symmetric]
    by (simp add: cmg_ok_initialize)
qed

lemma cmg_ok_reset: "cmg_ok td (cmg_reset b s)"
  by (rule cmg_ok_none) (simp_all add: cmg_reset_def Let_def)

lemma cmg_ok_roles:
  assumes "cmg_ok td s"
  shows "cmg_ok td (cmg_handleChatRolesUpdated td k roles s)"
proof (cases "cmg_tdlib s = None")
  case True
  with assms have "chatMessagesModel s = None" "topicsModel s = None" by (simp_all add: cmg_ok_def)
  then show ?thesis
    using assms by (simp add: cmg_handleChatRolesUpdated_def Let_def cmg_tryReinitializeMainModels_def)
next
  case False
  with assms show ?thesis
    by (simp add: cmg_handleChatRolesUpdated_def Let_def cmg_ok_tryReinitialize)
qed

text \<open>When the manager is told how its chat is viewed, it is right whatever it showed before.\<close>

lemma cmg_ok_roles_view:
  "cmg_tdlib s \<noteq> None \<Longrightarrow> cmg_ok td (cmg_handleChatRolesUpdated td (cmg_chatId s) [ChatRoleViewAsTopics] s)"
  by (simp add: cmg_handleChatRolesUpdated_def Let_def cmg_ok_tryReinitialize)

lemma cmg_ok_slot: "cmg_ok td s \<Longrightarrow> cmg_ok td (cmg_slot td out s)"
  by (cases out) (simp_all add: cmg_ok_roles cmg_handleNewChatDiscovered_def cmg_handleUserUpdated_def
      cmg_handleChatPendingJoinRequestsUpdated_def cmg_handleSecretChatUpdated_def
      cmg_handleBasicGroupUpdated_def cmg_handleSupergroupUpdated_def)

lemma cmg_ok_slots: "cmg_ok td s \<Longrightarrow> cmg_ok td (fold (cmg_slot td) outs s)"
  by (induction outs arbitrary: s) (simp_all add: cmg_ok_slot)

lemma cmg_ok_sponsored: "cmg_ok td s \<Longrightarrow> cmg_ok td (cmg_handleSponsoredMessagesReceived td k ms s)"
  using cmg_ok_cong [of "s\<lparr>botSponsoredMessage := m\<rparr>" s td for m]
  by (simp add: cmg_handleSponsoredMessagesReceived_def Let_def)

text \<open>The chat that is shown is told again only as it is known.\<close>

definition cmg_told_again :: "td_event \<Rightarrow> td_state \<Rightarrow> chat_manager \<Rightarrow> bool" where
  "cmg_told_again e td s \<longleftrightarrow>
     (case e of
        ENewChat info \<Rightarrow> toLongLong (mvalue info ''id'') = cmg_chatId s \<and>
          td_view (td_handleNewChatDiscovered info td) (cmg_chatId s) \<noteq> td_view td (cmg_chatId s)
      | _ \<Rightarrow> False)"

lemma cmg_ok_update:
  assumes ok: "cmg_ok td s" and told: "\<not> cmg_told_again e td s"
  shows "cmg_ok (fst (cmg_update msgText e (td, s))) (snd (cmg_update msgText e (td, s)))"
proof -
  let ?td = "td_handle msgText e td"
  consider (none) "cmg_tdlib s = None" | (same) "td_view ?td (cmg_chatId s) = td_view td (cmg_chatId s)"
    | (view) b c where "cmg_tdlib s \<noteq> None" "e = EChatViewAsTopics (cmg_chatId s) b" "td_chat td (cmg_chatId s) = Some c"
  proof (cases "view_event (cmg_chatId s) e")
    case True
    then consider b where "e = EChatViewAsTopics (cmg_chatId s) b"
      | info where "e = ENewChat info" "toLongLong (mvalue info ''id'') = cmg_chatId s" by (cases e) auto
    then show thesis
    proof cases
      case 1
      then show thesis
        by (cases "td_chat td (cmg_chatId s)")
          (use that in \<open>auto simp: td_handleChatViewAsTopicsUpdated_def td_withChat_def\<close>)
    qed (use told that in \<open>simp add: cmg_told_again_def\<close>)
  qed (use that td_view_handle in blast)
  then show ?thesis
  proof cases
    case none
    with ok show ?thesis by (simp add: cmg_update_def Let_def cmg_ok_def)
  next
    case same
    then have "cmg_ok ?td s" using ok cmg_ok_view by blast
    then show ?thesis by (simp add: cmg_update_def Let_def cmg_ok_slots)
  next
    case view
    then have "td_outputs ?td = td_outputs td @ [ChatRolesUpdated (cmg_chatId s) [ChatRoleViewAsTopics]]"
      by (simp add: td_handleChatViewAsTopicsUpdated_def td_withChat_def td_putChat_def)
    with view show ?thesis using cmg_ok_roles_view [of s ?td] by (auto simp: cmg_update_def Let_def)
  qed
qed

text \<open>
  The store and the manager together: the manager is set up and used by the application, the store is
  told by TDLib, and the models do what they do without leaving their chat.
\<close>

inductive cmg_reaches :: "(vmap \<Rightarrow> string) \<Rightarrow> td_state \<times> chat_manager \<Rightarrow> bool" for msgText where
  start: "cmg_reaches msgText (td, cmg_new)"
| tdlib: "cmg_reaches msgText (td, s) \<Longrightarrow> cmg_reaches msgText (td, cmg_setTDLibWrapper td (Some w) s)"
| chat: "cmg_reaches msgText (td, s) \<Longrightarrow> cmg_reaches msgText (td, cmg_setChatId td k s)"
| initialize: "cmg_reaches msgText (td, s) \<Longrightarrow> cmg_reaches msgText (td, cmg_initializeMainModels td m s)"
| reset: "cmg_reaches msgText (td, s) \<Longrightarrow> cmg_reaches msgText (td, cmg_reset b s)"
| told: "cmg_reaches msgText (td, s) \<Longrightarrow> \<not> cmg_told_again e td s \<Longrightarrow> cmg_reaches msgText (cmg_update msgText e (td, s))"
| sponsored: "cmg_reaches msgText (td, s) \<Longrightarrow>
    cmg_reaches msgText (td, cmg_handleSponsoredMessagesReceived td k ms s)"
| messages_move: "cmg_reaches msgText (td, s) \<Longrightarrow> chatMessagesModel s = Some model \<Longrightarrow>
    mm_chatId model' = mm_chatId model \<Longrightarrow> cmg_reaches msgText (td, s\<lparr>chatMessagesModel := Some model'\<rparr>)"
| topics_move: "cmg_reaches msgText (td, s) \<Longrightarrow> topicsModel s = Some topics \<Longrightarrow>
    fm_chatId topics' = fm_chatId topics \<Longrightarrow> cmg_reaches msgText (td, s\<lparr>topicsModel := Some topics'\<rparr>)"

lemma cmg_reaches_ok: "cmg_reaches msgText ts \<Longrightarrow> cmg_ok (fst ts) (snd ts)"
proof (induction rule: cmg_reaches.induct)
  case (start td)
  then show ?case by (simp add: cmg_ok_def cmg_new_def)
next
  case (messages_move td s model model')
  then show ?case using cmg_ok_cong [of "s\<lparr>chatMessagesModel := Some model'\<rparr>" s td] by simp
next
  case (topics_move td s topics topics')
  then show ?case by (auto simp: cmg_ok_def cmg_viewAsTopics_view split: option.splits)
qed (simp_all add: cmg_ok_setTDLibWrapper cmg_ok_setChatId cmg_ok_initialize' cmg_ok_reset cmg_ok_update cmg_ok_sponsored)


text \<open>A store with one chat, a forum that is not viewed as topics, read up to message 5.\<close>

definition sample_chat_info :: vmap where
  "sample_chat_info = minsert ''id'' (QInt 7) (minsert ''last_read_inbox_message_id'' (QInt 5) fmempty)"

definition shown_store :: td_state where
  "shown_store = td_handle (\<lambda>m. []) (ENewChat sample_chat_info) (td_new 0 0 0)"

definition sample_shown :: chat_manager where
  "sample_shown = cmg_initializeMainModels shown_store 9
     (cmg_setChatId shown_store 7 (cmg_setTDLibWrapper shown_store (Some 1) cmg_new))"

lemma shown_store_chat: "\<exists>c. td_chat shown_store 7 = Some c \<and> chatData c = sample_chat_info"
proof -
  have "td_chat (fold (\<lambda>l. td_addToList i ps (toMap l)) ls t) = td_chat t" for i ps ls t
    by (induction ls arbitrary: t) (simp_all add: td_chat_def)
  then show ?thesis
    by (simp add: shown_store_def td_handleNewChatDiscovered_def Let_def newChatData_def updateChatData_def
        sample_chat_info_def chatTypeFromString_def)
qed

lemma shown_store_view: "td_view shown_store 7 = Some False"
  using shown_store_chat by (auto simp: td_view_def cd_viewAsTopics_def sample_chat_info_def)

lemma sample_shown_reached: "cmg_reaches (\<lambda>m. []) (shown_store, sample_shown)"
  unfolding sample_shown_def
  by (intro cmg_reaches.initialize cmg_reaches.chat cmg_reaches.tdlib cmg_reaches.start)

lemma sample_shown_fields:
  "cmg_chatId sample_shown = 7" "cmg_tdlib sample_shown = Some 1" "chatMessagesModel sample_shown \<noteq> None"
  using shown_store_view
  by (simp_all add: sample_shown_def cmg_new_def cmg_setTDLibWrapper_def cmg_setChatId_def cmg_finishInitialization_def
      cmg_tryReinitializeMainModels_def cmg_initializeMainModels_def cmg_reset_def cmg_viewAsTopics_view Let_def)


section \<open>Setting the manager up\<close>

text \<open>What the models are asked when the manager is set up by these calls, in this order.\<close>

datatype set_up_call = GiveWrapper nat | GiveChat int | StartAt int

fun cmg_call :: "td_state \<Rightarrow> set_up_call \<Rightarrow> chat_manager \<Rightarrow> chat_manager" where
  "cmg_call td (GiveWrapper w) s = cmg_setTDLibWrapper td (Some w) s"
| "cmg_call td (GiveChat k) s = cmg_setChatId td k s"
| "cmg_call td (StartAt m) s = cmg_initializeMainModels td m s"

definition cmg_asked :: "td_state \<Rightarrow> set_up_call list \<Rightarrow> mm_output list option \<times> ft_state option" where
  "cmg_asked td calls =
     (let s = fold (cmg_call td) calls cmg_new in (map_option mm_outputs (chatMessagesModel s), topicsModel s))"

lemmas cmg_call_defs = cmg_asked_def cmg_new_def cmg_setTDLibWrapper_def cmg_setChatId_def cmg_finishInitialization_def
  cmg_tryReinitializeMainModels_def cmg_initializeMainModels_def cmg_reset_def cmg_viewAsTopics_view
  cmm_loadMessages_def cmm_new_def cmg_chatInformation_def Let_def

text \<open>C17: The manager may be given the wrapper, the chat and the message to start at in any order in which
  the chat comes before the start or the wrapper comes last: the history is asked for once, from
  that message. When the chat is the last to come, the message is forgotten, and the history starts at the last read message.
\<close>

theorem set_up_in_order:
  assumes "k \<noteq> 0" "td_view td k \<noteq> Some True"
  shows "(\<forall>calls \<in> {[GiveWrapper w, GiveChat k, StartAt m], [GiveChat k, GiveWrapper w, StartAt m],
        [GiveChat k, StartAt m, GiveWrapper w], [StartAt m, GiveChat k, GiveWrapper w]}.
      cmg_asked td calls = (Some [GetChatHistory k 0
        (if m \<noteq> 0 then m else toLongLong (mvalue (td_getChat k td) ''last_read_inbox_message_id'')) (-1)], None)) \<and>
    (\<forall>calls \<in> {[GiveWrapper w, StartAt m, GiveChat k], [StartAt m, GiveWrapper w, GiveChat k]}.
      cmg_asked td calls = (Some [GetChatHistory k 0
        (toLongLong (mvalue (td_getChat k td) ''last_read_inbox_message_id'')) (-1)], None))"
  using assms by (simp add: cmg_call_defs mm_emit_def)

theorem set_up_in_order_witness:
  "cmg_asked shown_store [StartAt 9, GiveChat 7, GiveWrapper 1] = (Some [GetChatHistory 7 0 9 (-1)], None) \<and>
   cmg_asked shown_store [GiveWrapper 1, StartAt 9, GiveChat 7] = (Some [GetChatHistory 7 0 5 (-1)], None)"
proof -
  have "toLongLong (mvalue (td_getChat 7 shown_store) ''last_read_inbox_message_id'') = 5"
    using shown_store_chat by (auto simp: td_getChat_def the_map_def sample_chat_info_def)
  then show ?thesis using set_up_in_order [of 7 shown_store 1 9] shown_store_view by simp
qed

section \<open>Opening and closing\<close>

fun opened :: "chat_manager_output list \<Rightarrow> (bool \<times> int) list" where
  "opened [] = []"
| "opened (CmOpenChat k # outs) = (True, k) # opened outs"
| "opened (CmCloseChat k # outs) = (False, k) # opened outs"
| "opened (_ # outs) = opened outs"

lemma opened_append [simp]: "opened (xs @ ys) = opened xs @ opened ys"
  by (induction xs rule: opened.induct) auto

definition cmg_opened :: "chat_manager \<Rightarrow> (bool \<times> int) list" where
  "cmg_opened s = opened (cmg_outputs s)"

lemma cmg_opened_emit [simp]:
  "cmg_opened (cmg_emit out s) = cmg_opened s @ opened [out]"
  "opened [out] = [] \<Longrightarrow> cmg_opened (cmg_emitWhen b out s) = cmg_opened s"
  "cmg_opened (cmg_emitChatIdChanged s) = cmg_opened s"
  by (simp_all add: cmg_opened_def cmg_emitWhen_def cmg_emitChatIdChanged_def)

lemma cmg_opened_fields [simp]:
  "cmg_opened (s\<lparr>cmg_chatId := k\<rparr>) = cmg_opened s" "cmg_opened (s\<lparr>cmg_tdlib := w\<rparr>) = cmg_opened s"
  "cmg_opened (s\<lparr>chatMessagesModel := m\<rparr>) = cmg_opened s" "cmg_opened (s\<lparr>topicsModel := t\<rparr>) = cmg_opened s"
  "cmg_opened (s\<lparr>mainModelsInitializationScheduled := b\<rparr>) = cmg_opened s"
  "cmg_opened (s\<lparr>mainModelsInitializationScheduledFromMessageId := i\<rparr>) = cmg_opened s"
  by (simp_all add: cmg_opened_def)

lemma cmg_opened_initialize [simp]: "cmg_opened (cmg_initializeMainModels td m s) = cmg_opened s"
  by (simp add: cmg_initializeMainModels_def cmg_reset_def Let_def split: option.split)

lemma cmg_opened_finish [simp]: "cmg_opened (cmg_finishInitialization td s) = cmg_opened s @ [(True, cmg_chatId s)]"
  by (simp add: cmg_finishInitialization_def cmg_tryReinitializeMainModels_def Let_def)

lemma cmg_finish_chatId [simp]: "cmg_chatId (cmg_finishInitialization td s) = cmg_chatId s"
  by (simp add: cmg_finishInitialization_def cmg_tryReinitializeMainModels_def Let_def)

lemma cmg_setChatId_opened:
  "cmg_tdlib s \<noteq> None \<Longrightarrow> k \<noteq> cmg_chatId s \<Longrightarrow>
     cmg_opened (cmg_setChatId td k s) = cmg_opened s @ [(True, k)] \<and> cmg_chatId (cmg_setChatId td k s) = k \<and>
     cmg_tdlib (cmg_setChatId td k s) = cmg_tdlib s"
  by (auto simp: cmg_setChatId_def Let_def)

lemma cmg_chats_opened:
  "cmg_tdlib s \<noteq> None \<Longrightarrow> successively (\<noteq>) (cmg_chatId s # ks) \<Longrightarrow>
     cmg_opened (fold (cmg_setChatId td) ks s) = cmg_opened s @ map (Pair True) ks \<and>
     cmg_chatId (fold (cmg_setChatId td) ks s) = last (cmg_chatId s # ks) \<and>
     cmg_tdlib (fold (cmg_setChatId td) ks s) = cmg_tdlib s"
proof (induction ks arbitrary: s)
  case (Cons k ks)
  let ?s = "cmg_setChatId td k s"
  have "k \<noteq> cmg_chatId s" "successively (\<noteq>) (k # ks)" using Cons.prems(2) by auto
  with Cons.prems(1) cmg_setChatId_opened [of s k td] Cons.IH [of ?s] show ?case by simp
qed simp

text \<open>The manager tells TDLib of every chat it goes on to that it is open, and of the last one, when
  the manager ends, that it is closed. The chats it has left are never closed.
\<close>

theorem left_chats_stay_open:
  assumes "successively (\<noteq>) (0 # ks)" "last ks \<noteq> 0" "ks \<noteq> []"
  shows "\<exists>s. cmg_destroy (fold (cmg_setChatId td) ks (cmg_setTDLibWrapper td (Some w) cmg_new)) = Some s \<and>
    opened (cmg_outputs s) = map (Pair True) ks @ [(False, last ks)]"
proof -
  let ?s = "cmg_setTDLibWrapper td (Some w) cmg_new"
  have "cmg_tdlib ?s = Some w" "cmg_chatId ?s = 0" "cmg_opened ?s = []"
    by (simp_all add: cmg_setTDLibWrapper_def cmg_new_def Let_def cmg_opened_def)
  with cmg_chats_opened [of ?s ks td] assms show ?thesis
    by (auto simp: cmg_destroy_def cmg_opened_def)
qed

theorem left_chats_stay_open_witness:
  "\<exists>s. cmg_destroy (fold (cmg_setChatId shown_store) [7, 8] (cmg_setTDLibWrapper shown_store (Some 1) cmg_new)) = Some s \<and>
    opened (cmg_outputs s) = [(True, 7), (True, 8), (False, 8)]"
  using left_chats_stay_open [of "[7, 8]" shown_store 1] by simp

end
