(* ===== verification/ChatPhotos.thy ===== *)
theory ChatPhotos imports MediaMessages TdData
begin

text \<open>
  \<open>ChatPhotosModel\<close> (\<open>src/chat/chatphotosmodel.h\<close>, \<open>chatphotosmodel.cpp\<close>): the photos a group has had, an inverted
  media list of the messages that changed the photo. The current photo of the chat, which may have no
  message, stands in front of them as a placeholder with the id 0, until its message is loaded.

  \<open>processMessageData\<close> removes the placeholder while a batch is being read, so this model has its own loop for
  a batch; the store behind the wrapper is an argument.
  What the class inherits and does not use, \<open>init\<close> and the setters of the filter and the query, is not repeated.
\<close>

section \<open>State\<close>

record cpm_state = med_state +
  mainChatPhotoLoaded :: bool
  mainChatPhotoId :: int

definition cpm_new :: cpm_state where
  "cpm_new = \<lparr>mm_chatId = 0, messages = [], messageIndexMap = Map.empty, albumMessageMap = Map.empty, mm_outputs = [],
     waitingFor = (\<lambda>_. False), startReached = False, endReached = False, highlightedMessageId = 0,
     med_tdlib = None, searchMessagesFilter = FilterChatPhoto, med_query = [], med_totalCount = -1,
     nextFromMessageId = 0, mainChatPhotoLoaded = False, mainChatPhotoId = 0\<rparr>"

definition cpm_clear :: "'a cpm_state_scheme \<Rightarrow> bool \<times> 'a cpm_state_scheme" where
  "cpm_clear s = jm_clear (s\<lparr>mainChatPhotoLoaded := False, mainChatPhotoId := 0\<rparr>)"

section \<open>Rows\<close>

definition cpm_appendMessages :: "message_data list \<Rightarrow> 'a cpm_state_scheme \<Rightarrow> 'a cpm_state_scheme" where
  "cpm_appendMessages newMessages s =
     (if mainChatPhotoId s \<noteq> 0 \<and> length (messages s) = 1
      then mm_appendMessages newMessages s else mm_prependMessages newMessages s)"

definition cpm_base :: "'a cpm_state_scheme mm_virtuals" where
  "cpm_base = inv_base\<lparr>vt_appendMessages := (\<lambda>new s. Some (cpm_appendMessages new s))\<rparr>"

definition cpm_virtuals :: "'a cpm_state_scheme jm_virtuals" where
  "cpm_virtuals = (med_virtuals True)\<lparr>jv_base := cpm_base, jv_clear := cpm_clear\<rparr>"

definition cpm_isMainPhoto :: "message_data \<Rightarrow> 'a cpm_state_scheme \<Rightarrow> bool" where
  "cpm_isMainPhoto message s \<longleftrightarrow>
     mainChatPhotoId s \<noteq> 0 \<and> messageContentType message = ''messageChatChangePhoto'' \<and>
     toLongLong (mvalue (toMap (mvalue (getContent message) ''photo'')) ''id'') = mainChatPhotoId s"

definition cpm_processMessageData :: "message_data \<Rightarrow> 'a cpm_state_scheme \<Rightarrow> 'a cpm_state_scheme option" where
  "cpm_processMessageData message s =
     (if cpm_isMainPhoto message s then mm_removeRange 0 0 True (s\<lparr>mainChatPhotoId := 0\<rparr>) else Some s)"

text \<open>The loop of \<open>handleInsertMessages\<close> with this \<open>processMessageData\<close>, and the rest of the function.\<close>

fun cpm_newMessages ::
  "vmap list \<Rightarrow> 'a cpm_state_scheme \<Rightarrow> (message_data list \<times> 'a cpm_state_scheme) option" where
  "cpm_newMessages [] s = Some ([], s)"
| "cpm_newMessages (d # ds) s =
     (let msgid = toLongLong (mvalue d ''id'')
      in if msgid \<noteq> 0 \<and> toLongLong (mvalue d ''chat_id'') = mm_chatId s \<and> messageIndexMap s msgid = None
         then do {
           let message = newMessageData d msgid;
           s1 \<leftarrow> cpm_processMessageData message s;
           (ms, s2) \<leftarrow> cpm_newMessages ds s1;
           Some (message # ms, s2) }
         else cpm_newMessages ds s)"

definition cpm_handleInsertMessages ::
  "vmap list \<Rightarrow> 'a cpm_state_scheme \<Rightarrow> (bool \<times> message_data list \<times> 'a cpm_state_scheme) option" where
  "cpm_handleInsertMessages received s = do {
     (new, s0) \<leftarrow> cpm_newMessages received s;
     let newMessagesList = std_sort moreThan new;
     s1 \<leftarrow> (if newMessagesList \<noteq> [] then do {
              s1 \<leftarrow> mm_insertMessages cpm_base newMessagesList s0;
              mm_setMessagesAlbum newMessagesList s1 }
            else Some s0);
     let reloadNeeded = (newMessagesList \<noteq> [] \<and> length newMessagesList + length received < 10);
     Some (reloadNeeded, newMessagesList, s1) }"

definition cpm_handleMessagesReceived ::
  "int \<Rightarrow> search_filter \<Rightarrow> int \<Rightarrow> vmap list \<Rightarrow> int \<Rightarrow> int \<Rightarrow> 'a cpm_state_scheme \<Rightarrow> 'a cpm_state_scheme option" where
  "cpm_handleMessagesReceived chatId f extra received totalCount nextId s =
     (if mm_chatId s = chatId \<and> f = searchMessagesFilter s then do {
        s1 \<leftarrow>
          (if received = [] then jm_notifyMessagesLoaded cpm_virtuals totalCount extra s
           else if waitingFor s extra \<or> messages s = [] then do {
             (reloadNeeded, added, s1) \<leftarrow> cpm_handleInsertMessages received s;
             if reloadNeeded \<and> extra \<noteq> UpdateReload
             then Some (med_loadMessages UpdateReload (messageId (hd added)) 0 (jm_setWaiting UpdateReload True s1))
             else jm_notifyMessagesLoaded cpm_virtuals totalCount extra s1 }
           else Some s);
        let s2 = jm_setWaiting extra False s1;
        Some (med_updateTotalCount totalCount (s2\<lparr>nextFromMessageId := nextId\<rparr>)) }
      else Some s)"

definition cpm_handleNewMessageReceived :: "int \<Rightarrow> vmap \<Rightarrow> 'a cpm_state_scheme \<Rightarrow> 'a cpm_state_scheme option" where
  "cpm_handleNewMessageReceived chatId message s =
     (let msgid = toLongLong (mvalue message ''id'')
      in if endReached s \<and> chatId = mm_chatId s \<and> messageIndexMap s msgid = None
            \<and> messageMatchesSearchFilter message (searchMessagesFilter s)
         then map_option (mm_emit NotEmptyDetected)
                (mm_insertMessages cpm_base [newMessageData message msgid] s)
         else Some s)"

section \<open>The current photo\<close>

definition cpm_initialize :: "td_state \<Rightarrow> 'a cpm_state_scheme \<Rightarrow> 'a cpm_state_scheme" where
  "cpm_initialize td s =
     (if med_tdlib s \<noteq> None \<and> mm_chatId s \<noteq> 0 then
        (case td_chat td (mm_chatId s) of
           None \<Rightarrow> s
         | Some c \<Rightarrow>
             (if chatType c = ChatTypeBasicGroup then mm_emit (GetGroupFullInfo (cd_groupId c) False) s
              else if chatType c = ChatTypeSupergroup then mm_emit (GetGroupFullInfo (cd_groupId c) True) s
              else s))
      else s)"

definition cpm_setChatId :: "td_state \<Rightarrow> int \<Rightarrow> 'a cpm_state_scheme \<Rightarrow> 'a cpm_state_scheme" where
  "cpm_setChatId td chatId s =
     (if mm_chatId s \<noteq> chatId
      then cpm_initialize td (mm_emit ChatIdChanged (s\<lparr>mm_chatId := chatId\<rparr>)) else s)"

definition cpm_setTDLibWrapper :: "td_state \<Rightarrow> int option \<Rightarrow> 'a cpm_state_scheme \<Rightarrow> 'a cpm_state_scheme" where
  "cpm_setTDLibWrapper td wrapper s =
     (if med_tdlib s \<noteq> wrapper then
        (let s1 = med_setTDLibWrapper wrapper s in if wrapper \<noteq> None then cpm_initialize td s1 else s1)
      else s)"

definition cpm_placeholder :: "vmap \<Rightarrow> message_data" where
  "cpm_placeholder photo = newMessageData
     (minsert ''@type'' (QString ''message'') (minsert ''id'' (QInt 0)
       (minsert ''content'' (QMap (minsert ''@type'' (QString ''messageChatChangePhoto'')
          (minsert ''photo'' (QMap photo) fmempty))) fmempty))) 0"

definition cpm_processChatPhoto :: "vmap \<Rightarrow> 'a cpm_state_scheme \<Rightarrow> 'a cpm_state_scheme option" where
  "cpm_processChatPhoto photo s = do {
     let s1 = snd (cpm_clear s);
     s2 \<leftarrow> (if \<not> mempty photo then do {
              t \<leftarrow> mm_insertMessagesAt 0 [cpm_placeholder photo]
                     (s1\<lparr>mainChatPhotoId := toLongLong (mvalue photo ''id'')\<rparr>);
              Some (t\<lparr>messageIndexMap := (messageIndexMap t)(0 := None)\<rparr>) }
            else Some s1);
     Some (med_loadMessages UpdateInitial 0 0 ((jm_setWaiting UpdateInitial True s2)\<lparr>endReached := True\<rparr>)) }"

definition cpm_processGroupFullInfo ::
  "td_state \<Rightarrow> chat_type \<Rightarrow> int \<Rightarrow> vmap \<Rightarrow> 'a cpm_state_scheme \<Rightarrow> 'a cpm_state_scheme option" where
  "cpm_processGroupFullInfo td type groupId fullInfo s =
     (if \<not> mainChatPhotoLoaded s \<and> med_tdlib s \<noteq> None \<and> mm_chatId s \<noteq> 0 then
        (case td_chat td (mm_chatId s) of
           None \<Rightarrow> Some s
         | Some c \<Rightarrow>
             (if chatType c = type \<and> cd_groupId c = groupId
              then cpm_processChatPhoto (toMap (mvalue fullInfo ''photo'')) (s\<lparr>mainChatPhotoLoaded := True\<rparr>)
              else Some s))
      else Some s)"

definition cpm_handleBasicGroupFullInfo :: "td_state \<Rightarrow> int \<Rightarrow> vmap \<Rightarrow> 'a cpm_state_scheme \<Rightarrow> 'a cpm_state_scheme option" where
  "cpm_handleBasicGroupFullInfo td = cpm_processGroupFullInfo td ChatTypeBasicGroup"

definition cpm_handleSupergroupFullInfo :: "td_state \<Rightarrow> int \<Rightarrow> vmap \<Rightarrow> 'a cpm_state_scheme \<Rightarrow> 'a cpm_state_scheme option" where
  "cpm_handleSupergroupFullInfo td = cpm_processGroupFullInfo td ChatTypeSupergroup"

section \<open>What goes wrong\<close>

lemma mm_emit_cpm [simp]:
  "messages (mm_emit out s) = messages s" "mainChatPhotoLoaded (mm_emit out s) = mainChatPhotoLoaded s"
  "mainChatPhotoId (mm_emit out s) = mainChatPhotoId s" "med_tdlib (mm_emit out s) = med_tdlib s"
  "mm_outputs (mm_emit out s) = mm_outputs s @ [out]" "mm_chatId (mm_emit out s) = mm_chatId s"
  "searchMessagesFilter (mm_emit out s) = searchMessagesFilter s" "med_query (mm_emit out s) = med_query s"
  "endReached (mm_emit out s) = endReached s"
  by (simp_all add: mm_emit_def)

lemma cpm_clear_fields [simp]:
  "messages (snd (cpm_clear s)) = []" "\<not> mainChatPhotoLoaded (snd (cpm_clear s))"
  "mainChatPhotoId (snd (cpm_clear s)) = 0" "med_tdlib (snd (cpm_clear s)) = med_tdlib s"
  "mm_chatId (snd (cpm_clear s)) = mm_chatId s" "searchMessagesFilter (snd (cpm_clear s)) = searchMessagesFilter s"
  "med_query (snd (cpm_clear s)) = med_query s"
  by (simp_all add: cpm_clear_def jm_clear_def mm_clear_def jm_emitEndReached_def jm_emitStartReached_def
      mm_emitRows_def Let_def)

definition cpm_first :: "vmap \<Rightarrow> message_data list" where
  "cpm_first info =
     (let photo = toMap (mvalue info ''photo'') in if mempty photo then [] else [cpm_placeholder photo])"

lemma mm_insertAt_rows [simp]: "messages (mm_insertAt 0 [m] s) = m # messages s"
  by (simp add: mm_insertAt_def mm_emitRows_def mm_emit_def insert_at_def)

lemma mm_insertAt_cpm [simp]:
  "mainChatPhotoLoaded (mm_insertAt i new s) = mainChatPhotoLoaded s"
  "mainChatPhotoId (mm_insertAt i new s) = mainChatPhotoId s" "med_tdlib (mm_insertAt i new s) = med_tdlib s"
  "mm_chatId (mm_insertAt i new s) = mm_chatId s" "searchMessagesFilter (mm_insertAt i new s) = searchMessagesFilter s"
  "med_query (mm_insertAt i new s) = med_query s" "endReached (mm_insertAt i new s) = endReached s"
  by (simp_all add: mm_insertAt_def mm_emitRows_def mm_emit_def Let_def split: prod.split)

lemma cpm_processChatPhoto_result:
  "med_tdlib s \<noteq> None \<Longrightarrow> \<exists>s'. cpm_processChatPhoto (toMap (mvalue info ''photo'')) s = Some s' \<and>
     messages s' = cpm_first info \<and> \<not> mainChatPhotoLoaded s' \<and> mm_chatId s' = mm_chatId s \<and>
     med_tdlib s' = med_tdlib s \<and>
     last (mm_outputs s') = SearchChatMessages (mm_chatId s) (med_query s) UpdateInitial 0 (searchMessagesFilter s) 100 0"
  by (auto simp: cpm_processChatPhoto_def cpm_first_def mm_insertMessagesAt_def med_loadMessages_def
      med_loadMessagesWithLimit_def jm_setWaiting_def Let_def)

text \<open>The flag that is to make the model take the current photo only once never stays set: handling
  the photo clears the list, and that clears the flag. So whenever the information about the group arrives again, all
  photos that were loaded go, and the loading starts over.
\<close>

theorem photos_load_again:
  assumes "\<not> mainChatPhotoLoaded s" "med_tdlib s \<noteq> None" "mm_chatId s \<noteq> 0"
    and "td_chat td (mm_chatId s) = Some c" "chatType c = ChatTypeSupergroup" "cd_groupId c = g"
  shows "\<exists>s1 s2. cpm_handleSupergroupFullInfo td g info s = Some s1 \<and> messages s1 = cpm_first info \<and>
    \<not> mainChatPhotoLoaded s1 \<and>
    cpm_handleSupergroupFullInfo td g info (s1\<lparr>messages := loaded\<rparr>) = Some s2 \<and>
    messages s2 = cpm_first info \<and> \<not> mainChatPhotoLoaded s2 \<and>
    last (mm_outputs s2) =
      SearchChatMessages (mm_chatId s) (med_query s1) UpdateInitial 0 (searchMessagesFilter s1) 100 0"
proof -
  obtain s1 where s1: "cpm_handleSupergroupFullInfo td g info s = Some s1" "messages s1 = cpm_first info"
    "\<not> mainChatPhotoLoaded s1" "mm_chatId s1 = mm_chatId s" "med_tdlib s1 = med_tdlib s"
    using assms cpm_processChatPhoto_result [of "s\<lparr>mainChatPhotoLoaded := True\<rparr>" info]
    by (auto simp: cpm_handleSupergroupFullInfo_def cpm_processGroupFullInfo_def)
  moreover have "\<exists>s2. cpm_handleSupergroupFullInfo td g info (s1\<lparr>messages := loaded\<rparr>) = Some s2 \<and>
      messages s2 = cpm_first info \<and> \<not> mainChatPhotoLoaded s2 \<and> last (mm_outputs s2) =
        SearchChatMessages (mm_chatId s) (med_query s1) UpdateInitial 0 (searchMessagesFilter s1) 100 0"
    using assms s1 cpm_processChatPhoto_result [of "s1\<lparr>messages := loaded, mainChatPhotoLoaded := True\<rparr>" info]
    by (auto simp: cpm_handleSupergroupFullInfo_def cpm_processGroupFullInfo_def)
  ultimately show ?thesis by blast
qed

text \<open>A group with a photo whose message is not known yet.\<close>

definition sample_group_photo :: vmap where
  "sample_group_photo = minsert ''photo'' (QMap (minsert ''id'' (QInt 77) fmempty)) fmempty"

definition sample_group_info :: vmap where
  "sample_group_info = minsert ''id'' (QInt 7)
    (minsert ''type'' (QMap (minsert ''@type'' (QString ''chatTypeSupergroup'')
       (minsert ''supergroup_id'' (QInt 4) fmempty))) fmempty)"

definition sample_group_store :: td_state where
  "sample_group_store = td_handle (\<lambda>m. []) (ENewChat sample_group_info) (td_new 0 0 0)"

definition sample_photos :: cpm_state where
  "sample_photos = cpm_setChatId sample_group_store 7 (cpm_setTDLibWrapper sample_group_store (Some 1) cpm_new)"

lemma sample_group_chat:
  "\<exists>c. td_chat sample_group_store 7 = Some c \<and> chatType c = ChatTypeSupergroup \<and> cd_groupId c = 4"
proof -
  have "td_chat (fold (\<lambda>l. td_addToList i ps (toMap l)) ls t) = td_chat t" for i ps ls t
    by (induction ls arbitrary: t) (simp_all add: td_chat_def)
  then show ?thesis
    by (simp add: sample_group_store_def td_handleNewChatDiscovered_def Let_def newChatData_def updateChatData_def
        sample_group_info_def chatTypeFromString_def td_getGroup_def td_new_def cd_updateGroup_def)
qed

lemma sample_photos_fields:
  "\<not> mainChatPhotoLoaded sample_photos" "med_tdlib sample_photos = Some 1" "mm_chatId sample_photos = 7"
  by (simp_all add: sample_photos_def cpm_setChatId_def cpm_setTDLibWrapper_def cpm_new_def cpm_initialize_def
      med_setTDLibWrapper_def Let_def split: option.split)

theorem photos_load_again_witness:
  "\<exists>s1. cpm_handleSupergroupFullInfo sample_group_store 4 sample_group_photo sample_photos = Some s1 \<and>
    map messageId (messages s1) = [0] \<and>
    (\<exists>s2. cpm_handleSupergroupFullInfo sample_group_store 4 sample_group_photo
        (s1\<lparr>messages := map (newMessageData fmempty) [0, 20, 10]\<rparr>) = Some s2 \<and> map messageId (messages s2) = [0])"
proof -
  obtain c where c: "td_chat sample_group_store (mm_chatId sample_photos) = Some c" "chatType c = ChatTypeSupergroup"
    "cd_groupId c = 4"
    using sample_group_chat sample_photos_fields by auto
  have first: "map messageId (cpm_first sample_group_photo) = [0]"
    by (simp add: cpm_first_def sample_group_photo_def cpm_placeholder_def newMessageData_def Let_def)
  show ?thesis
    using photos_load_again [OF _ _ _ c, of sample_group_photo "map (newMessageData fmempty) [0, 20, 10]"]
      sample_photos_fields first by fastforce
qed

text \<open>The first row taken away, and a row put in front.\<close>

lemma mm_removeRange_first:
  assumes "messages s = m # rows" "mediaAlbumId m = 0"
  shows "\<exists>s'. mm_removeRange 0 0 True s = Some s' \<and> messages s' = rows"
  using assms by (simp add: mm_removeRange_def upt_rec mm_emitRows_def remove_slice_def Let_def)

lemma cpm_insert_newest:
  assumes "messages s \<noteq> []" "length (messages s) \<noteq> 1" "mm_lastKnownId (messages s) < messageId m"
  shows "mm_insertMessages cpm_base [m] s = Some (mm_insertAt 0 [m] s)"
  using assms by (simp add: mm_insertMessages_def cpm_base_def cpm_appendMessages_def mm_prependMessages_def)

text \<open>While the placeholder of the current photo stands in front of loaded photos, the message of a new photo
  goes in front of it. When the message of the current photo is then loaded, the first row is taken away as
  if it were the placeholder: the new photo is lost, and the placeholder stays.
\<close>

theorem new_photo_lost:
  assumes rows: "messages s = placeholder # rest" "rest \<noteq> []" and main: "mainChatPhotoId s = p" "p \<noteq> 0"
    and newest: "endReached s" "searchMessagesFilter s = FilterChatPhoto" "messageIndexMap s i = None"
      "toLongLong (mvalue new ''id'') = i" "mm_lastKnownId (messages s) < i"
      "messageMatchesSearchFilter new FilterChatPhoto" "mediaAlbumId (newMessageData new i) = 0"
    and old: "cpm_isMainPhoto (newMessageData d j) s"
  shows "\<exists>s1 s2. cpm_handleNewMessageReceived (mm_chatId s) new s = Some s1 \<and>
    messages s1 = newMessageData new i # placeholder # rest \<and>
    cpm_processMessageData (newMessageData d j) s1 = Some s2 \<and> messages s2 = placeholder # rest"
proof -
  let ?s1 = "mm_emit NotEmptyDetected (mm_insertAt 0 [newMessageData new i] s)"
  have "mm_insertMessages cpm_base [newMessageData new i] s = Some (mm_insertAt 0 [newMessageData new i] s)"
    using rows newest(5) by (intro cpm_insert_newest) (simp_all add: newMessageData_def Let_def)
  then have "cpm_handleNewMessageReceived (mm_chatId s) new s = Some ?s1"
    using newest by (simp add: cpm_handleNewMessageReceived_def Let_def)
  moreover have "messages ?s1 = newMessageData new i # placeholder # rest" using rows by simp
  moreover have "cpm_isMainPhoto (newMessageData d j) ?s1" using old by (simp add: cpm_isMainPhoto_def)
  then have "\<exists>s2. cpm_processMessageData (newMessageData d j) ?s1 = Some s2 \<and> messages s2 = placeholder # rest"
    using mm_removeRange_first [of "?s1\<lparr>mainChatPhotoId := 0\<rparr>"] rows newest(7)
    by (simp add: cpm_processMessageData_def)
  ultimately show ?thesis by blast
qed

text \<open>The photo 77 in front of the older photos 20 and 10; the photo of message 30 is new.\<close>

definition sample_photo_message :: "int \<Rightarrow> int \<Rightarrow> vmap" where
  "sample_photo_message i p = minsert ''id'' (QInt i)
    (minsert ''content'' (QMap (minsert ''@type'' (QString ''messageChatChangePhoto'')
       (minsert ''photo'' (QMap (minsert ''id'' (QInt p) fmempty)) fmempty))) fmempty)"

definition sample_loaded_photos :: cpm_state where
  "sample_loaded_photos = sample_photos\<lparr>mainChatPhotoId := 77, endReached := True,
     messages := map (\<lambda>i. newMessageData (sample_photo_message i i) i) [0, 20, 10],
     messageIndexMap := [20 \<mapsto> 1, 10 \<mapsto> 2]\<rparr>"

theorem new_photo_lost_witness:
  "\<exists>s1 s2. cpm_handleNewMessageReceived 7 (sample_photo_message 30 78) sample_loaded_photos = Some s1 \<and>
    map messageId (messages s1) = [30, 0, 20, 10] \<and>
    cpm_processMessageData (newMessageData (sample_photo_message 5 77) 5) s1 = Some s2 \<and>
    map messageId (messages s2) = [0, 20, 10]"
proof -
  have chat: "mm_chatId sample_loaded_photos = 7" "searchMessagesFilter sample_loaded_photos = FilterChatPhoto"
    using sample_photos_fields
    by (simp_all add: sample_loaded_photos_def sample_photos_def cpm_setChatId_def cpm_setTDLibWrapper_def cpm_new_def
        cpm_initialize_def med_setTDLibWrapper_def Let_def split: option.split)
  have ids: "messageId (newMessageData d i) = i" for d i by (simp add: newMessageData_def Let_def)
  have last: "mm_lastKnownId (messages sample_loaded_photos) < 30"
    by (simp add: sample_loaded_photos_def mm_lastKnownId_def newMessageData_def sample_photo_message_def Let_def
        numeral_3_eq_3)
  have "\<exists>s1 s2. cpm_handleNewMessageReceived (mm_chatId sample_loaded_photos) (sample_photo_message 30 78)
        sample_loaded_photos = Some s1 \<and>
      messages s1 = newMessageData (sample_photo_message 30 78) 30 # newMessageData (sample_photo_message 0 0) 0 #
        map (\<lambda>i. newMessageData (sample_photo_message i i) i) [20, 10] \<and>
      cpm_processMessageData (newMessageData (sample_photo_message 5 77) 5) s1 = Some s2 \<and>
      messages s2 = newMessageData (sample_photo_message 0 0) 0 #
        map (\<lambda>i. newMessageData (sample_photo_message i i) i) [20, 10]"
    by (rule new_photo_lost [where p = 77])
      (use chat last in \<open>simp_all add: sample_loaded_photos_def sample_photo_message_def
         cpm_isMainPhoto_def getContent_def newMessageData_def mediaAlbumId_def Let_def\<close>)
  then show ?thesis using chat ids by fastforce
qed

end
