(* ===== verification/Texts.thy ===== *)
theory Texts imports FormattedText TdData "HOL-Library.Signed_Division"
begin

text \<open>
  Texts that are made for the user: \<open>QString::arg\<close> of Qt, translation, and the functions of
  \<open>src/utilities.cpp\<close> on names, durations, chat actions and calls, with \<open>FormattedText::argFrom\<close>.

  A translation is an argument \<open>tr\<close> of the functions: it gets the text of the source, the comment
  that tells two uses of it apart, and the number the text is about, if there is one. Characters
  outside ASCII are written in UTF-8.
\<close>

section \<open>Places in a text\<close>

text \<open>
  A place is \<open>%n\<close> or \<open>%Ln\<close> with one or two digits. \<open>place_at s\<close> reads one behind a percent sign: its
  number and its length.
\<close>

definition place_digits :: "string \<Rightarrow> (nat \<times> nat) option" where
  "place_digits s =
     (case s of
        [] \<Rightarrow> None
      | c # cs \<Rightarrow>
          (case digit_of c of
             None \<Rightarrow> None
           | Some d \<Rightarrow>
               (case cs of
                  [] \<Rightarrow> Some (d, 1)
                | c2 # _ \<Rightarrow> (case digit_of c2 of None \<Rightarrow> Some (d, 1) | Some d2 \<Rightarrow> Some (10 * d + d2, 2)))))"

definition place_at :: "string \<Rightarrow> (nat \<times> nat) option" where
  "place_at s =
     (case s of
        [] \<Rightarrow> None
      | c # cs \<Rightarrow>
          if c = CHR ''L'' then map_option (\<lambda>(n, k). (n, Suc k)) (place_digits cs) else place_digits s)"

datatype piece = Letter char | Place nat string

function pieces :: "string \<Rightarrow> piece list" where
  "pieces [] = []"
| "pieces (c # cs) =
     (case (if c = CHR ''%'' then place_at cs else None) of
        None \<Rightarrow> Letter c # pieces cs
      | Some (n, k) \<Rightarrow> Place n (c # take k cs) # pieces (drop k cs))"
  by pat_completeness auto

termination
  by (relation "measure length") auto

fun piece_text :: "piece \<Rightarrow> string" where
  "piece_text (Letter c) = [c]"
| "piece_text (Place n s) = s"

fun place_number :: "piece \<Rightarrow> nat list" where
  "place_number (Letter c) = []"
| "place_number (Place n s) = [n]"

definition place_numbers :: "string \<Rightarrow> nat list" where
  "place_numbers s = concat (map place_number (pieces s))"

text \<open>\<open>QString::arg(a)\<close>: every place with the lowest number is replaced; without places nothing is.\<close>

fun fill_place :: "nat \<Rightarrow> string \<Rightarrow> piece \<Rightarrow> string" where
  "fill_place n a (Letter c) = [c]"
| "fill_place n a (Place m s) = (if m = n then a else s)"

definition qarg :: "string \<Rightarrow> string \<Rightarrow> string" where
  "qarg s a =
     (if place_numbers s = [] then s
      else concat (map (fill_place (Min (set (place_numbers s))) a) (pieces s)))"

text \<open>\<open>QString::arg(a, width, fill)\<close> with a positive width: \<open>a\<close> is right-justified.\<close>

definition padded :: "nat \<Rightarrow> char \<Rightarrow> string \<Rightarrow> string" where
  "padded width c s = replicate (width - length s) c @ s"

lemma pieces_text: "concat (map piece_text (pieces s)) = s"
  by (induction s rule: pieces.induct) (auto split: option.splits)

definition plain_text :: "string \<Rightarrow> bool" where
  "plain_text s \<longleftrightarrow> CHR ''%'' \<notin> set s"

lemma pieces_plain [simp]: "plain_text s \<Longrightarrow> pieces s = map Letter s"
  by (induction s) (auto simp: plain_text_def)

lemma pieces_plain_append [simp]: "plain_text s \<Longrightarrow> pieces (s @ t) = map Letter s @ pieces t"
  by (induction s) (auto simp: plain_text_def)

lemma concat_letters [simp]: "concat (map (\<lambda>c. [c]) s) = s"
  by (induction s) auto

lemma place_numbers_plain [simp]: "plain_text s \<Longrightarrow> place_numbers s = []"
  by (simp add: place_numbers_def o_def)

lemma place_numbers_plain_append [simp]: "plain_text s \<Longrightarrow> place_numbers (s @ t) = place_numbers t"
  by (simp add: place_numbers_def o_def)

lemma qarg_plain [simp]: "plain_text s \<Longrightarrow> qarg s a = s"
  by (simp add: qarg_def)

lemma qarg_plain_append: "plain_text s \<Longrightarrow> qarg (s @ t) a = s @ qarg t a"
  by (simp add: qarg_def o_def)

text \<open>\<open>%1\<close> and \<open>%2\<close> before something that is not a digit.\<close>

definition no_digit :: "string \<Rightarrow> bool" where
  "no_digit s \<longleftrightarrow> (case s of [] \<Rightarrow> True | c # _ \<Rightarrow> digit_of c = None)"

lemma pieces_place:
  "digit_of d = Some n \<Longrightarrow> no_digit t \<Longrightarrow> pieces (CHR ''%'' # d # t) = Place n [CHR ''%'', d] # pieces t"
  by (cases t) (auto simp: place_at_def place_digits_def no_digit_def digit_of_def)

lemma digit_one [simp]: "digit_of CHR ''1'' = Some 1" and digit_two [simp]: "digit_of CHR ''2'' = Some 2"
  by (simp_all add: digit_of_def)

text \<open>The lowest place is filled, and what is behind it stays if its places are higher.\<close>

lemma fill_other: "n \<notin> set (place_numbers s) \<Longrightarrow> concat (map (fill_place n a) (pieces s)) = s"
proof -
  assume "n \<notin> set (place_numbers s)"
  then have "fill_place n a p = piece_text p" if "p \<in> set (pieces s)" for p
    using that by (cases p) (auto simp: place_numbers_def)
  then have "map (fill_place n a) (pieces s) = map piece_text (pieces s)" by simp
  then show ?thesis by (simp only: pieces_text)
qed

lemma qarg_lowest:
  assumes "plain_text s" and "digit_of d = Some n" and "no_digit t" and "\<forall>m \<in> set (place_numbers t). n < m"
  shows "qarg (s @ CHR ''%'' # d # t) a = s @ a @ t"
proof -
  let ?t = "CHR ''%'' # d # t"
  have p: "pieces ?t = Place n [CHR ''%'', d] # pieces t" using assms(2,3) by (rule pieces_place)
  then have "place_numbers ?t = n # place_numbers t" by (simp add: place_numbers_def)
  moreover have "Min (set (n # place_numbers t)) = n"
    using assms(4) by (intro Min_eqI) (auto simp: less_imp_le)
  moreover have "n \<notin> set (place_numbers t)" using assms(4) by auto
  ultimately have "qarg ?t a = a @ t" by (simp add: qarg_def p fill_other del: pieces.simps)
  then show ?thesis by (simp add: qarg_plain_append assms(1))
qed

lemma qarg_one:
  assumes "plain_text s" and "plain_text t" and "no_digit t"
  shows "qarg (s @ ''%1'' @ t) a = s @ a @ t"
  using qarg_lowest [OF assms(1) digit_one assms(3)] assms(2) by simp

text \<open>
  A translator that has no translation answers the text of the source, with the number for \<open>%n\<close>
  and \<open>%Ln\<close> if there is one.
\<close>

type_synonym translator = "string \<Rightarrow> string \<Rightarrow> int option \<Rightarrow> string"

fun put_number :: "string \<Rightarrow> string \<Rightarrow> string" where
  "put_number n [] = []"
| "put_number n (c # cs) =
     (if c = CHR ''%'' \<and> take 1 cs = ''n'' then n @ put_number n (drop 1 cs)
      else if c = CHR ''%'' \<and> take 2 cs = ''Ln'' then n @ put_number n (drop 2 cs)
      else c # put_number n cs)"

definition untranslated :: translator where
  "untranslated text comment n = (case n of None \<Rightarrow> text | Some k \<Rightarrow> put_number (show_int k) text)"

section \<open>A text put into a template\<close>

text \<open>
  \<open>FormattedText::argFrom\<close>. \<open>QString::indexOf\<close> answers -1 where the text does not occur.
\<close>

fun index_from :: "string \<Rightarrow> string \<Rightarrow> int \<Rightarrow> int" where
  "index_from p [] i = (if p = [] then i else -1)"
| "index_from p (c # cs) i = (if startsWith (c # cs) p then i else index_from p cs (i + 1))"

definition qindexOf :: "string \<Rightarrow> string \<Rightarrow> int" where
  "qindexOf s p = index_from p s 0"

definition argFrom :: "string \<Rightarrow> 'a formatted_text_scheme \<Rightarrow> 'a formatted_text_scheme" where
  "argFrom text t =
     t\<lparr>plainText := qarg text (plainText t), prefixOffset := prefixOffset t + qindexOf (qarg text ''%1'') ''%1''\<rparr>"

section \<open>Names\<close>

definition getUnknownUserName :: "translator \<Rightarrow> vmap \<Rightarrow> string" where
  "getUnknownUserName tr user =
     (let userType = toString (mvalue (toMap (mvalue user ''type'')) ''@type'')
      in if userType = ''userTypeDeleted'' \<or> userType = ''userTypeUnknown'' then tr ''Deleted Account'' [] None
         else tr ''Unknown'' ''A user without a known name'' None)"

definition getUserName :: "translator \<Rightarrow> vmap \<Rightarrow> string" where
  "getUserName tr userInformation =
     (let firstName = toString (mvalue userInformation ''first_name'');
          lastName = toString (mvalue userInformation ''last_name'');
          result = trimmed (firstName @ '' '' @ lastName)
      in if result \<noteq> [] then result else getUnknownUserName tr userInformation)"

definition getChatTitle :: "translator \<Rightarrow> td_state \<Rightarrow> chat_data option \<Rightarrow> string" where
  "getChatTitle tr d chat =
     (let title = (case chat of
                     None \<Rightarrow> []
                   | Some c \<Rightarrow>
                       (let title = trimmed (cd_title c)
                        in if title = [] \<and> (chatType c = ChatTypePrivate \<or> chatType c = ChatTypeSecret)
                           then getUnknownUserName tr (td_getUserInformation
                                  (toLongLong (mvalue (toMap (mvalue (chatData c) ''type'')) ''user_id'')) d)
                           else title))
      in if title = [] then tr ''Unknown'' ''A chat without a known name'' None else title)"

definition getChatTitleById :: "translator \<Rightarrow> td_state \<Rightarrow> int \<Rightarrow> string" where
  "getChatTitleById tr d chatId = getChatTitle tr d (td_chat d chatId)"

definition formatMessageSender :: "translator \<Rightarrow> td_state \<Rightarrow> message_sender \<Rightarrow> string" where
  "formatMessageSender tr d messageSender =
     (if isChat messageSender then getChatTitleById tr d (sender_ident messageSender)
      else getUserName tr (td_getUserInformation (sender_ident messageSender) d))"

definition formatSenderMap :: "translator \<Rightarrow> td_state \<Rightarrow> vmap \<Rightarrow> string" where
  "formatSenderMap tr d sender = formatMessageSender tr d (MessageSender sender)"

definition joined :: "string \<Rightarrow> string list \<Rightarrow> string" where
  "joined separator xs = concat (case xs of [] \<Rightarrow> [] | x # xs \<Rightarrow> x # map (\<lambda>y. separator @ y) xs)"

definition formatNames :: "translator \<Rightarrow> string list \<Rightarrow> int \<Rightarrow> string" where
  "formatNames tr names othersCount =
     (let others = (\<lambda>result. qarg (tr ''%1 and %Ln others'' ''names'' (Some othersCount)) result)
      in if names = [] then []
         else if length names = 1 then (if othersCount = 0 then hd names else others (hd names))
         else (let newNames = (if othersCount = 0 then butlast names else names);
                   result = joined (tr '', '' ''Separator for names'' None) newNames
               in if othersCount = 0 then qarg (qarg (tr ''%1 and %2'' ''names'' None) result) (last names)
                  else others result))"

section \<open>Durations\<close>

text \<open>
  The C++ operators on \<open>int\<close> round towards zero. The locale that prints the numbers is an argument.
\<close>

definition formatNumber :: "(int \<Rightarrow> string) \<Rightarrow> int \<Rightarrow> string" where
  "formatNumber locale_string n = qarg ''%1'' (padded 2 CHR ''0'' (locale_string n))"

definition formatDuration :: "(int \<Rightarrow> string) \<Rightarrow> int \<Rightarrow> string" where
  "formatDuration locale_string seconds =
     (let minutes = seconds sdiv 60;
          hours = minutes sdiv 60;
          minutes = (if hours > 0 then minutes smod 60 else minutes);
          result = formatNumber locale_string minutes @ '':'' @ formatNumber locale_string (seconds smod 60)
      in if hours > 0 then formatNumber locale_string hours @ '':'' @ result else result)"

section \<open>Chat actions\<close>

text \<open>The texts for one user, and for the chat of a group, where \<open>%1\<close> stands for the names.\<close>

definition chatActionText :: "translator \<Rightarrow> bool \<Rightarrow> int \<Rightarrow> chat_action \<Rightarrow> string" where
  "chatActionText tr isUser totalCount a =
     (let both = (\<lambda>one many. if isUser then tr one [] None else tr many [] (Some totalCount)) in
      case action_type a of
        ActionTyping \<Rightarrow> both ''typing'' ''%1 is typing''
      | ActionRecordingVideo \<Rightarrow> both ''recording a video'' ''%1 is recording a video''
      | ActionUploadingVideo \<Rightarrow> both ''sending a video'' ''%1 is sending a video''
      | ActionRecordingVoiceNote \<Rightarrow> both ''recording a voice message'' ''%1 is recording a voice message''
      | ActionUploadingVoiceNote \<Rightarrow> both ''sending a voice message'' ''%1 is sending a voice message''
      | ActionUploadingPhoto \<Rightarrow> both ''sending a photo'' ''%1 is sending a photo''
      | ActionUploadingDocument \<Rightarrow> both ''sending a file'' ''%1 is sending a file''
      | ActionChoosingSticker \<Rightarrow> both ''choosing a sticker'' ''%1 is choosing a sticker''
      | ActionChoosingLocation \<Rightarrow> both ''choosing location'' ''%1 is choosing location''
      | ActionChoosingContact \<Rightarrow> both ''choosing a contact'' ''%1 is choosing a contact''
      | ActionStartPlayingGame \<Rightarrow> both ''playing a game'' ''%1 is playing a game''
      | ActionRecordingVideoNote \<Rightarrow> both ''recording a video message'' ''%1 is recording a video message''
      | ActionUploadingVideoNote \<Rightarrow> both ''sending a video message'' ''%1 is sending a video message''
      | ActionWatchingAnimations \<Rightarrow>
          qarg (if isUser then tr ''watching %1''
                  ''The other party is watching an animation, %1 is the emoji describing the animation being watched'' None
                else tr ''%2 is watching %1''
                  ''%2 is watching an animation, %1 is the emoji describing the animation being watched'' (Some totalCount))
               (toString (progressOrEmoji a))
      | ActionCancel \<Rightarrow> [])"

definition ellipsis :: string where
  "ellipsis = [CHR 0xE2, CHR 0x80, CHR 0xA6]"

text \<open>The loop over the senders: the first two are named, the others counted.\<close>

definition actionNames :: "translator \<Rightarrow> td_state \<Rightarrow> message_sender list \<Rightarrow> string list \<times> int" where
  "actionNames tr d senders =
     fold (\<lambda>s (names, othersCount).
        if length names < 2 then (names @ [formatMessageSender tr d s], othersCount) else (names, othersCount + 1))
       senders ([], 0)"

definition formatChatActions ::
    "translator \<Rightarrow> td_state \<Rightarrow> bool \<Rightarrow> (message_sender \<times> chat_action) list \<Rightarrow> string" where
  "formatChatActions tr d isUser actions =
     (if actions = [] then []
      else (let mainAction = getMainChatAction isUser (map snd actions);
                (names, othersCount) = actionNames tr d (map fst actions);
                prefix = (if isUser then [] else formatNames tr names othersCount);
                totalCount = (if isUser then 1 else int (length names) + othersCount);
                actionText = chatActionText tr isUser totalCount mainAction
            in if action_isInvalid mainAction then prefix @ ellipsis
               else if isUser then actionText else qarg actionText prefix))"

section \<open>Calls\<close>

definition getMessageCallText :: "translator \<Rightarrow> vmap \<Rightarrow> bool \<Rightarrow> string" where
  "getMessageCallText tr messageCall outgoing =
     (let discardReasonType = toString (mvalue (toMap (mvalue messageCall ''discard_reason'')) ''@type'');
          declined = (discardReasonType = ''callDiscardReasonDeclined'' \<or> discardReasonType = ''callDiscardReasonMissed'')
      in if toBool (mvalue messageCall ''is_video'') then
           (if declined then (if outgoing then tr ''Canceled Video Call'' ''outgoing'' None
                              else tr ''Missed Video Call'' ''incoming'' None)
            else (if outgoing then tr ''Outgoing Video Call'' [] None else tr ''Incoming Video Call'' [] None))
         else if declined then (if outgoing then tr ''Canceled Call'' ''outgoing'' None else tr ''Missed Call'' ''incoming'' None)
         else (if outgoing then tr ''Outgoing Call'' [] None else tr ''Incoming Call'' [] None))"

definition getMessageGroupCallText :: "translator \<Rightarrow> vmap \<Rightarrow> bool \<Rightarrow> string" where
  "getMessageGroupCallText tr messageGroupCall outgoing =
     (if outgoing then tr ''Outgoing Group Call'' [] None
      else if toBool (mvalue messageGroupCall ''was_missed'') then tr ''Missed Group Call'' [] None
      else tr ''Incoming Group Call'' [] None)"

section \<open>Roles\<close>

definition hasRoleInVector :: "int list \<Rightarrow> int list \<Rightarrow> bool" where
  "hasRoleInVector changedRoles neededRoles \<longleftrightarrow> list_ex (\<lambda>role. role \<in> set neededRoles) changedRoles"

end
