(* ===== verification/MessageText.thy ===== *)
theory MessageText imports Texts
begin

text \<open>
  The text of a message, from \<open>src/utilities.cpp\<close>: what a service message says
  (\<open>getServiceMessageText\<close>), the preview of a message (\<open>getMessagePreview\<close>) and the functions that
  choose between them. Reading the first of no members is out of range, so that the text of a service
  message, and what is made from it, is an option. A message that has no text of its own has the text
  without entities that \<open>plain\<close> makes of the string.
\<close>

section \<open>Service messages\<close>

definition memberNames :: "translator \<Rightarrow> td_state \<Rightarrow> qvariant list \<Rightarrow> string" where
  "memberNames tr d members =
     joined '', '' (map (\<lambda>m. getUserName tr (td_getUserInformation (toLongLong m) d)) members)"

text \<open>
  Each text is translated twice, for the user and for somebody else: \<open>said\<close>. \<open>about\<close> puts a name into
  it, \<open>counted\<close> a number.
\<close>

definition said :: "translator \<Rightarrow> bool \<Rightarrow> string \<Rightarrow> string" where
  "said tr myself text = (if myself then tr text ''myself'' None else tr text [] None)"

definition about :: "translator \<Rightarrow> bool \<Rightarrow> string \<Rightarrow> string \<Rightarrow> string" where
  "about tr myself text name = qarg (said tr myself text) name"

definition counted :: "translator \<Rightarrow> bool \<Rightarrow> string \<Rightarrow> int \<Rightarrow> string" where
  "counted tr myself text n = (if myself then tr text ''myself'' (Some n) else tr text [] (Some n))"

definition membersText :: "translator \<Rightarrow> td_state \<Rightarrow> bool \<Rightarrow> vmap \<Rightarrow> message_sender \<Rightarrow> string option" where
  "membersText tr d myself content sender =
     (let members = toList (mvalue content ''member_user_ids'') in
      case members of
        [] \<Rightarrow> None
      | m # _ \<Rightarrow> Some
          (if sender_isUser_id sender (toLongLong m)
           then (if myself then tr ''were added to this chat'' ''myself'' None else tr ''was added to this chat'' [] None)
           else qarg (if myself then tr ''have added %1 to the chat'' ''myself'' None else tr ''has added %1 to the chat'' [] None)
                  (memberNames tr d members)))"

definition botAccessText :: "translator \<Rightarrow> vmap \<Rightarrow> string" where
  "botAccessText tr content =
     (let reason = toMap (mvalue content ''reason''); reasonType = toString (mvalue reason ''@type'') in
      if reasonType = ''botWriteAccessAllowReasonAddedToAttachmentMenu''
      then tr ''you allowed this bot to message you when you added it to your attachment menu'' [] None
      else if reasonType = ''botWriteAccessAllowReasonConnectedWebsite''
      then qarg (tr ''you allowed this bot to message you when you logged in on %1'' [] None)
             (toString (mvalue reason ''domain_name''))
      else if reasonType = ''botWriteAccessAllowReasonLaunchedWebApp''
      then tr ''you allowed this bot to message you in its web-app'' [] None
      else tr ''you allowed this bot to message you'' [] None)"

text \<open>The messages about the topics of a forum.\<close>

definition topicText :: "translator \<Rightarrow> bool \<Rightarrow> string \<Rightarrow> vmap \<Rightarrow> string \<Rightarrow> bool \<Rightarrow> string" where
  "topicText tr myself contentType content forumTopicName inForumTopic =
     (let named = (\<lambda>text here elsewhere. if inForumTopic then said tr myself here
                     else about tr myself (elsewhere @ quoted ''%1'') text);
          name = toString (mvalue content ''name'') in
      if contentType = ''messageForumTopicCreated'' then named name ''created this topic'' ''created the topic ''
      else if contentType = ''messageForumTopicEdited'' then
        (if name \<noteq> []
         then about tr myself (if inForumTopic then ''renamed this topic to '' @ quoted ''%1''
                               else ''renamed the topic '' @ quoted ''%1'') name
         else named forumTopicName ''changed this topic's icon'' ''changed the icon of the topic '')
      else if contentType = ''messageForumTopicIsClosedToggled'' then
        (if toBool (mvalue content ''is_closed'') then named forumTopicName ''closed this topic'' ''closed the topic ''
         else named forumTopicName ''reopened this topic'' ''reopened the topic '')
      else
        (if toBool (mvalue content ''is_hidden'')
         then said tr myself (if inForumTopic then ''hid this topic'' else ''hid the general topic'')
         else said tr myself (if inForumTopic then ''unhid this topic'' else ''unhid the general topic'')))"

definition topicTypes :: "string list" where
  "topicTypes =
     [''messageForumTopicCreated'', ''messageForumTopicEdited'', ''messageForumTopicIsClosedToggled'',
      ''messageForumTopicIsHiddenToggled'']"

text \<open>The messages that say one fixed text, in two translations.\<close>

definition fixedTexts :: "(string \<times> string) list" where
  "fixedTexts =
     [(''messageContactRegistered'', ''joined Telegram''),
      (''messageChatJoinByLink'', ''joined this chat''),
      (''messageBasicGroupChatCreate'', ''created this group''),
      (''messageSupergroupChatCreate'', ''created this group''),
      (''messageChatChangePhoto'', ''changed the chat photo''),
      (''messageChatDeletePhoto'', ''deleted the chat photo''),
      (''messageChatSetMessageAutoDeleteTime'', ''disabled the self-destruct timer''),
      (''messageChatUpgradeFrom'', ''upgraded this group to a supergroup''),
      (''messageChatUpgradeTo'', ''upgraded this group to a supergroup''),
      (''messagePinMessage'', ''pinned a message''),
      (''messageExpiredPhoto'', ''sent a self-destructing photo that is expired''),
      (''messageExpiredVideo'', ''sent a self-destructing video that is expired''),
      (''messageExpiredVoiceNote'', ''sent a self-destructing voice message that is expired''),
      (''messageExpiredVideoNote'', ''sent a self-destructing video message that is expired''),
      (''messageScreenshotTaken'', ''created a screenshot in this chat''),
      (''messageGift'', ''sent a gift''),
      (''messageGiveawayCreated'', ''started a giveaway''),
      (''messageGiveawayCompleted'', ''a giveaway was completed''),
      (''messageChatRemovedFromCommunity'', ''removed the chat from the community''),
      (''messageUnsupported'', ''sent an unsupported message'')]"

definition getServiceMessageText ::
    "translator \<Rightarrow> td_state \<Rightarrow> vmap \<Rightarrow> message_sender \<Rightarrow> string \<Rightarrow> bool \<Rightarrow> string option" where
  "getServiceMessageText tr d content sender forumTopicName inForumTopic =
     (let contentType = toString (mvalue content ''@type'');
          myself = sender_isUser_id sender (td_myId d);
          communityName = toString (mvalue (td_getCommunity (toLongLong (mvalue content ''community_id'')) d) ''name'') in
      case map_of fixedTexts contentType of
        Some text \<Rightarrow> Some (said tr myself text)
      | None \<Rightarrow>
      if contentType = ''messageChatAddMembers'' then membersText tr d myself content sender
      else Some
       (if contentType = ''messageChatDeleteMember'' then
          (let userId = toLongLong (mvalue content ''user_id'')
           in if sender_isUser_id sender userId then said tr myself ''left this chat''
              else qarg (if myself then tr ''have removed %1 from the chat'' ''myself'' None
                         else tr ''has removed %1 from the chat'' [] None)
                     (getUserName tr (td_getUserInformation userId d)))
        else if contentType = ''messageChatChangeTitle''
        then about tr myself ''changed the chat title to %1'' (toString (mvalue content ''title''))
        else if contentType = ''messageCustomServiceAction'' then toString (mvalue content ''text'')
        else if contentType = ''messageGameScore'' then counted tr myself ''scored %Ln points'' (toInt (mvalue content ''score''))
        else if contentType = ''messageBotWriteAccessAllowed'' then botAccessText tr content
        else if contentType = ''messageChatBoost''
        then counted tr myself ''boosted this chat %Ln times'' (toInt (mvalue content ''boost_count''))
        else if contentType \<in> set topicTypes then topicText tr myself contentType content forumTopicName inForumTopic
        else if contentType = ''messagePollOptionAdded''
        then about tr myself (''added '' @ quoted ''%1'' @ '' to the poll'') (getPlainFor (toMap (mvalue content ''text'')))
        else if contentType = ''messagePollOptionDeleted''
        then about tr myself (''removed '' @ quoted ''%1'' @ '' from the poll'') (getPlainFor (toMap (mvalue content ''text'')))
        else if contentType = ''messageChatJoinFromCommunity''
        then about tr myself (''joined the chat from the '' @ quoted ''%1'' @ '' community'') communityName
        else if contentType = ''messageChatAddedToCommunity''
        then about tr myself (''added the chat to the '' @ quoted ''%1'' @ '' community'') communityName
        else if contentType = ''messageUnpaidMessagesAllowedByLink''
        then (if myself then tr ''used a QR code and can message this user for free'' ''myself'' None
              else tr ''used your QR code and can message you for free'' [] None)
        else qarg (if myself then tr ''sent an unsupported message: %1'' ''myself; %1 is message type'' None
                   else tr ''sent an unsupported message: %1'' ''%1 is message type'' None)
               (drop 7 contentType)))"

definition messageServiceText :: "translator \<Rightarrow> td_state \<Rightarrow> vmap \<Rightarrow> string \<Rightarrow> bool \<Rightarrow> string option" where
  "messageServiceText tr d message forumTopicName inForumTopic =
     getServiceMessageText tr d (toMap (mvalue message ''content'')) (MessageSender (toMap (mvalue message ''sender_id'')))
       forumTopicName inForumTopic"

section \<open>The preview of a message\<close>

definition plain :: "string \<Rightarrow> formatted_text" where
  "plain s = newFormattedText s []"

text \<open>\<open>texted template fallback name\<close>: a template with a name in it, or a text without one.\<close>

definition texted :: "translator \<Rightarrow> string \<Rightarrow> string \<Rightarrow> string" where
  "texted tr kind name = (if name \<noteq> [] then qarg (tr (kind @ '': %1'') [] None) name else tr kind [] None)"

definition dartEmoji :: string where "dartEmoji = [CHR 0xF0, CHR 0x9F, CHR 0x8E, CHR 0xAF]"

definition dieEmoji :: string where "dieEmoji = [CHR 0xF0, CHR 0x9F, CHR 0x8E, CHR 0xB2]"

definition diceText :: "translator \<Rightarrow> vmap \<Rightarrow> string" where
  "diceText tr content =
     (let emoji = toString (mvalue content ''emoji''); value = toInt (mvalue content ''value'') in
      if emoji = dartEmoji then
        emoji @ '' '' @
        (if value = 0 then tr (''Dart: throwing'' @ ellipsis) ''0'' None
         else if value = 1 then tr ''Dart: missed!'' ''1'' None
         else if value = 2 then tr ''Dart thrown'' ''2'' None
         else if value = 3 then tr ''Dart thrown'' ''3'' None
         else if value = 4 then tr ''Dart thrown'' ''4'' None
         else if value = 6 then tr ''Dart: bullseye!'' ''6'' None
         else tr ''Dart: almost there!'' ''5'' None)
      else if emoji = dieEmoji then
        emoji @ '' '' @ (if 1 \<le> value \<and> value \<le> 6 then tr ''Dice: %n'' [] (Some value) else tr (''Dice: rolling'' @ ellipsis) [] None)
      else emoji)"

definition pollText :: "translator \<Rightarrow> vmap \<Rightarrow> string" where
  "pollText tr content =
     (let poll = toMap (mvalue content ''poll'');
          anonymous = toBool (mvalue poll ''is_anonymous'');
          question = toString (mvalue (toMap (mvalue poll ''question'')) ''text'') in
      if toString (mvalue (toMap (mvalue poll ''type'')) ''@type'') = ''pollTypeQuiz''
      then texted tr (if anonymous then ''Anonymous Quiz'' else ''Quiz'') question
      else texted tr (if anonymous then ''Anonymous Poll'' else ''Poll'') question)"

text \<open>
  The kinds of message whose preview is not a formatted text: the text, or nothing for another kind.
\<close>

definition unformattedPreview :: "translator \<Rightarrow> vmap \<Rightarrow> bool \<Rightarrow> string option" where
  "unformattedPreview tr content outgoing =
     (let contentType = toString (mvalue content ''@type'');
          field = (\<lambda>k. toMap (mvalue content k)) in
      if contentType = ''messageSticker'' then
        (let emoji = toString (mvalue (field ''sticker'') ''emoji'') in Some (if emoji = [] then tr ''Sticker'' [] None else emoji))
      else if contentType = ''messageDice'' then Some (diceText tr content)
      else if contentType = ''messageStakeDice'' then Some dieEmoji
      else if contentType = ''messageAnimatedEmoji''
      then Some (toString (mvalue (toMap (mvalue (field ''animated_emoji'') ''sticker'')) ''emoji''))
      else if contentType = ''messageVideoNote'' then Some (tr ''Video message'' [] None)
      else if contentType = ''messageLocation'' then Some (tr ''Location'' [] None)
      else if contentType = ''messageVenue'' then Some (texted tr ''Venue'' (toString (mvalue (field ''venue'') ''title'')))
      else if contentType = ''messagePoll'' then Some (pollText tr content)
      else if contentType = ''messageGame'' then Some (texted tr ''Game'' (toString (mvalue (field ''game'') ''short_name'')))
      else if contentType = ''messageContact''
      then Some (texted tr ''Contact'' (toString (mvalue (field ''contact'') ''first_name'')))
      else if contentType = ''messageCall'' then Some (getMessageCallText tr content outgoing)
      else if contentType = ''messageGroupCall'' then Some (getMessageGroupCallText tr content outgoing)
      else None)"

text \<open>
  The kinds with a caption: the template for the caption, empty for the caption alone, and the text
  without a caption. \<open>None\<close> is a message of a kind the function is not made for.
\<close>

definition namedTemplate :: "translator \<Rightarrow> string \<Rightarrow> string \<Rightarrow> string \<Rightarrow> string \<times> string" where
  "namedTemplate tr comment unnamed name =
     (if name \<noteq> [] then (qarg (tr ''%1: %2'' comment None) name, name) else ([], tr unnamed [] None))"

definition captionTemplates :: "translator \<Rightarrow> vmap \<Rightarrow> bool \<Rightarrow> (string \<times> string) option" where
  "captionTemplates tr content withThumbnails =
     (let contentType = toString (mvalue content ''@type'');
          field = (\<lambda>k. toMap (mvalue content k));
          mini = (\<lambda>k. mcontains (field k) ''minithumbnail'');
          pictured = (\<lambda>kind thumbnail. ((if \<not> withThumbnails \<or> \<not> thumbnail then tr (kind @ '': %1'') [] None else []), tr kind [] None)) in
      if contentType = ''messagePhoto'' then Some (pictured ''Photo'' (mini ''photo''))
      else if contentType = ''messageVideo'' then Some (pictured ''Video'' (mini ''cover'' \<or> mini ''video''))
      else if contentType = ''messageAnimation'' then Some (pictured ''GIF'' (mini ''animation''))
      else if contentType = ''messageAudio'' then
        (let title = toString (mvalue (field ''audio'') ''title'')
         in Some (namedTemplate tr ''Audio message. %1 is the audio file name, %2 is the caption'' ''Audio''
                   (if title = [] then toString (mvalue (field ''audio'') ''file_name'') else title)))
      else if contentType = ''messageDocument''
      then Some (namedTemplate tr ''A message with a file attached. %1 is the file name, %2 is the caption'' ''File''
             (toString (mvalue (field ''document'') ''file_name'')))
      else if contentType = ''messageVoiceNote'' then Some (tr ''Voice message: %1'' [] None, tr ''Voice message'' [] None)
      else if contentType = ''messageText'' then Some ([], [])
      else None)"

definition getMessagePreview :: "translator \<Rightarrow> vmap \<Rightarrow> bool \<Rightarrow> bool \<Rightarrow> ignore_kind \<Rightarrow> formatted_text" where
  "getMessagePreview tr content outgoing withThumbnails formattedIgnore =
     (case unformattedPreview tr content outgoing of
        Some s \<Rightarrow> plain s
      | None \<Rightarrow>
          (let caption = readFormattedText (getMessageContentFormattedText content) formattedIgnore
           in case captionTemplates tr content withThumbnails of
                None \<Rightarrow> plain []
              | Some (captionTemplate, noCaptionText) \<Rightarrow>
                  if plainText caption = [] then plain noCaptionText
                  else if captionTemplate \<noteq> [] then argFrom captionTemplate caption else caption))"

section \<open>The text of a message\<close>

datatype message_text =
  MessageTextDefault | MessageTextSimpleWithThumbnails | MessageTextSimple | MessageTextSimpleInForumTopic

definition getMessageTextInternal ::
    "translator \<Rightarrow> td_state \<Rightarrow> vmap \<Rightarrow> message_sender \<Rightarrow> bool \<Rightarrow> message_text \<Rightarrow> ignore_kind \<Rightarrow> string \<Rightarrow> formatted_text option" where
  "getMessageTextInternal tr d content sender outgoing type formattedIgnore forumTopicName =
     (if mempty content then Some (plain [])
      else if messageContentIsService (toString (mvalue content ''@type''))
      then map_option plain (getServiceMessageText tr d content sender forumTopicName (type = MessageTextSimpleInForumTopic))
      else if type = MessageTextDefault then Some (readFormattedText (getMessageContentFormattedText content) formattedIgnore)
      else Some (getMessagePreview tr content outgoing (type = MessageTextSimpleWithThumbnails) formattedIgnore))"

definition getMessageFormattedText ::
    "translator \<Rightarrow> td_state \<Rightarrow> vmap \<Rightarrow> message_text \<Rightarrow> ignore_kind \<Rightarrow> string \<Rightarrow> formatted_text option" where
  "getMessageFormattedText tr d message type formattedIgnore forumTopicName =
     getMessageTextInternal tr d (toMap (mvalue message ''content'')) (MessageSender (toMap (mvalue message ''sender_id'')))
       (toBool (mvalue message ''is_outgoing'')) type formattedIgnore forumTopicName"

definition shownText :: "char \<Rightarrow> bool \<Rightarrow> bool \<Rightarrow> formatted_text \<Rightarrow> string" where
  "shownText shade ignoreEntities escapeReserved t =
     (if ignoreEntities then (if escapeReserved then getPlainEscapedFor (plainText t) else plainText t)
      else parseText shade plainClass True t)"

definition getMessageText ::
    "char \<Rightarrow> translator \<Rightarrow> td_state \<Rightarrow> vmap \<Rightarrow> message_text \<Rightarrow> bool \<Rightarrow> bool \<Rightarrow> string \<Rightarrow> string option" where
  "getMessageText shade tr d message type ignoreEntities escapeReserved forumTopicName =
     map_option (shownText shade ignoreEntities escapeReserved)
       (getMessageTextInternal tr d (toMap (mvalue message ''content'')) (MessageSender (toMap (mvalue message ''sender_id'')))
         (toBool (mvalue message ''is_outgoing'')) type (if ignoreEntities then IgnoreAll else IgnoreFull) forumTopicName)"

definition getMessageContentText ::
    "char \<Rightarrow> translator \<Rightarrow> td_state \<Rightarrow> vmap \<Rightarrow> message_text \<Rightarrow> bool \<Rightarrow> bool \<Rightarrow> string \<Rightarrow> string option" where
  "getMessageContentText shade tr d content type ignoreEntities escapeReserved forumTopicName =
     map_option (shownText shade ignoreEntities escapeReserved)
       (getMessageTextInternal tr d content \<lparr>isChat = True, sender_ident = 0\<rparr> False type
         (if ignoreEntities then IgnoreAll else IgnoreFull) forumTopicName)"

definition enhanceMessageText :: "char \<Rightarrow> vmap \<Rightarrow> bool \<Rightarrow> bool \<Rightarrow> string" where
  "enhanceMessageText shade text ignoreEntities escapeReserved =
     (if ignoreEntities
      then (if escapeReserved then getPlainEscapedFor (getPlainFor text) else getPlainFor text)
      else parseText shade plainClass True (readFormattedText text IgnoreFull))"

end
