(* ===== verification/TextProperties.thy ===== *)
theory TextProperties imports MessageText
begin

text \<open>
  Properties of the texts: durations read back, names and actions say who and how many, previews keep
  the entities of their caption in place; and what goes wrong: a percent sign in a name, the link of a
  captioned message, a message about new members without members.
\<close>

section \<open>Durations\<close>

fun read_clock :: "nat \<Rightarrow> nat \<Rightarrow> string \<Rightarrow> nat" where
  "read_clock acc cur [] = 60 * acc + cur"
| "read_clock acc cur (c # cs) =
     (case digit_of c of None \<Rightarrow> read_clock (60 * acc + cur) 0 cs | Some d \<Rightarrow> read_clock acc (10 * cur + d) cs)"

lemma read_clock_digits: "parse_digits cur xs = Some n \<Longrightarrow> read_clock acc cur (xs @ rest) = read_clock acc n rest"
  by (induction xs arbitrary: cur) (auto split: option.splits)

lemma digit_zero [simp]: "digit_of CHR ''0'' = Some 0" and digit_colon [simp]: "digit_of CHR '':'' = None"
  by (simp_all add: digit_of_def)

lemma parse_digits_zeros: "parse_digits 0 (replicate k CHR ''0'' @ xs) = parse_digits 0 xs"
  by (induction k) auto

lemma formatNumber_padded [simp]: "formatNumber locale_string n = padded 2 CHR ''0'' (locale_string n)"
  using qarg_one [of "[]" "[]"] by (simp add: formatNumber_def plain_text_def no_digit_def)

lemma read_clock_number: "0 \<le> n \<Longrightarrow> read_clock acc 0 (formatNumber show_int n @ rest) = read_clock acc (nat n) rest"
proof -
  assume "0 \<le> n"
  then have "parse_digits 0 (formatNumber show_int n) = Some (nat n)"
    by (simp add: padded_def parse_digits_zeros show_int_def parse_digits_show_nat)
  then show ?thesis by (rule read_clock_digits)
qed

lemma sdiv_nonneg: "0 \<le> a \<Longrightarrow> 0 < b \<Longrightarrow> a sdiv b = a div b" for a b :: int
  by (cases "a = 0") (simp_all add: signed_divide_int_def)

lemma smod_nonneg: "0 \<le> a \<Longrightarrow> 0 < b \<Longrightarrow> a smod b = a mod b" for a b :: int
  by (cases "a = 0") (simp_all add: signed_modulo_int_def)

lemma read_clock_colon: "read_clock acc cur (CHR '':'' # cs) = read_clock (60 * acc + cur) 0 cs"
  by (simp add: digit_of_def)

lemma read_clock_last: "0 \<le> n \<Longrightarrow> read_clock acc 0 (formatNumber show_int n) = 60 * acc + nat n"
  using read_clock_number [of n acc "[]"] by simp

lemma formatDuration_nonneg:
  "0 \<le> s \<Longrightarrow> formatDuration f s =
     (if 3600 \<le> s
      then formatNumber f (s div 3600) @ '':'' @ formatNumber f (s div 60 mod 60) @ '':'' @ formatNumber f (s mod 60)
      else formatNumber f (s div 60) @ '':'' @ formatNumber f (s mod 60))"
proof -
  assume "0 \<le> s"
  moreover have "s div 60 div 60 = s div 3600" by (simp add: zdiv_zmult2_eq [symmetric])
  moreover have "0 < s div 3600 \<longleftrightarrow> 3600 \<le> s" by (simp add: pos_imp_zdiv_pos_iff)
  ultimately show ?thesis
    by (simp del: formatNumber_padded add: formatDuration_def Let_def sdiv_nonneg smod_nonneg pos_imp_zdiv_nonneg_iff)
qed

text \<open>C34: A duration that is not negative is shown as hours (if there are any), minutes and seconds, each with at
least two digits, from which the number of seconds can be read back: no two durations look alike. (With
a locale that prints numbers in plain digits.)\<close>

theorem duration_reads_back:
  assumes "0 \<le> s"
  shows "int (read_clock 0 0 (formatDuration show_int s)) = s"
proof -
  let ?f = "formatNumber show_int"
  have "read_clock 0 0 (?f (s div 60) @ CHR '':'' # ?f (s mod 60)) = 60 * nat (s div 60) + nat (s mod 60)"
    using assms by (simp del: formatNumber_padded add: read_clock_number read_clock_colon read_clock_last pos_imp_zdiv_nonneg_iff)
  moreover have "read_clock 0 0 (?f (s div 3600) @ CHR '':'' # ?f (s div 60 mod 60) @ CHR '':'' # ?f (s mod 60)) =
      60 * (60 * nat (s div 3600) + nat (s div 60 mod 60)) + nat (s mod 60)"
    using assms by (simp del: formatNumber_padded add: read_clock_number read_clock_colon read_clock_last pos_imp_zdiv_nonneg_iff)
  moreover have "3600 * (s div 3600) + 60 * (s div 60 mod 60) + s mod 60 = s"
  proof -
    have "s div 3600 = s div 60 div 60" by (simp add: zdiv_zmult2_eq [symmetric])
    then show ?thesis using div_mult_mod_eq [of "s div 60" 60] div_mult_mod_eq [of s 60] by linarith
  qed
  ultimately show ?thesis
    using assms div_mult_mod_eq [of s 60]
    by (simp del: formatNumber_padded add: formatDuration_nonneg pos_imp_zdiv_nonneg_iff)
qed

theorem duration_reads_back_witness:
  "formatDuration show_int 3725 = ''01:02:05'' \<and> int (read_clock 0 0 ''01:02:05'') = 3725"
proof -
  have "formatDuration show_int 3725 = ''01:02:05''"
    by code_simp
  with duration_reads_back [of 3725] show ?thesis by simp
qed

section \<open>Names\<close>

lemma plain_text_append [simp]: "plain_text (s @ t) \<longleftrightarrow> plain_text s \<and> plain_text t"
  by (simp add: plain_text_def)

lemma plain_text_Nil [simp]: "plain_text []"
  by (simp add: plain_text_def)

lemma plain_text_concat: "\<forall>s \<in> set ss. plain_text s \<Longrightarrow> plain_text (concat ss)"
  by (auto simp: plain_text_def)

lemma plain_text_joined: "plain_text separator \<Longrightarrow> \<forall>s \<in> set ss. plain_text s \<Longrightarrow> plain_text (joined separator ss)"
  by (auto simp: joined_def intro!: plain_text_concat split: list.splits)

lemma no_digit_append: "no_digit t \<Longrightarrow> no_digit u \<Longrightarrow> no_digit (t @ u)"
  by (cases t) (auto simp: no_digit_def)

lemma place_numbers_two: "no_digit t \<Longrightarrow> plain_text t \<Longrightarrow> place_numbers (''%2'' @ t) = [2]"
  using pieces_place [OF digit_two, of t] by (simp add: place_numbers_def o_def del: pieces.simps)

lemma no_digit_percent [simp]: "no_digit (CHR ''%'' # t)"
  by (simp add: no_digit_def digit_of_def)

text \<open>The two places of the template are filled one after the other.\<close>

lemma qarg_both:
  assumes "plain_text s1" "plain_text s2" "plain_text s3" "no_digit s2" "no_digit s3" and a: "plain_text a"
  shows "qarg (qarg (s1 @ ''%1'' @ s2 @ ''%2'' @ s3) a) b = s1 @ a @ s2 @ b @ s3"
proof -
  let ?rest = "s2 @ CHR ''%'' # CHR ''2'' # s3"
  have "place_numbers ?rest = [2]"
    using place_numbers_two assms by simp
  moreover have "no_digit ?rest" using assms(4) by (intro no_digit_append no_digit_percent)
  ultimately have "qarg (s1 @ CHR ''%'' # CHR ''1'' # ?rest) a = s1 @ a @ ?rest"
    by (intro qarg_lowest [OF assms(1) digit_one]) auto
  moreover have "qarg ((s1 @ a @ s2) @ CHR ''%'' # CHR ''2'' # s3) b = (s1 @ a @ s2) @ b @ s3"
    using assms by (intro qarg_lowest [OF _ digit_two]) auto
  ultimately show ?thesis by simp
qed

text \<open>The names of two or more people are shown as they are, in order, with the separator between them and
the last one joined by the translation of "and", if no name but the last one has a percent sign in it.\<close>

theorem names_joined:
  assumes "2 \<le> length names" and "\<forall>s \<in> set (butlast names). plain_text s"
    and "tr ''%1 and %2'' ''names'' None = s1 @ ''%1'' @ s2 @ ''%2'' @ s3"
    and "plain_text s1" and "plain_text s2" and "plain_text s3" and "no_digit s2" and "no_digit s3"
    and "plain_text (tr '', '' ''Separator for names'' None)"
  shows "formatNames tr names 0 =
     s1 @ joined (tr '', '' ''Separator for names'' None) (butlast names) @ s2 @ last names @ s3"
proof -
  have "formatNames tr names 0 =
      qarg (qarg (s1 @ ''%1'' @ s2 @ ''%2'' @ s3) (joined (tr '', '' ''Separator for names'' None) (butlast names))) (last names)"
    using assms(1,3) by (auto simp: formatNames_def Let_def)
  then show ?thesis using assms by (simp only: qarg_both plain_text_joined)
qed

theorem names_joined_witness:
  "formatNames untranslated [''Ann'', ''Bob'', ''Cy''] 0 = ''Ann, Bob and Cy''"
  using names_joined [of "[''Ann'', ''Bob'', ''Cy'']" untranslated "[]" "'' and ''" "[]"]
  by (simp add: untranslated_def plain_text_def no_digit_def digit_of_def joined_def)

text \<open>A name that contains a place is taken for a part of the template: with a first name like "50%1 off", the
second name is put into the first one, and the place for it stays.\<close>

theorem name_taken_for_place:
  assumes "plain_text pre" and "plain_text post" and "no_digit post"
  shows "formatNames untranslated [pre @ ''%1'' @ post, b] 0 = pre @ b @ post @ '' and %2''"
proof -
  let ?and = "'' and '' @ ''%2''"
  have p: "plain_text '' and ''" by (simp add: plain_text_def)
  have two: "place_numbers ?and = [2]"
    using place_numbers_two [of "[]"] by (simp only: place_numbers_plain_append [OF p]) (simp add: no_digit_def)
  have "formatNames untranslated [pre @ ''%1'' @ post, b] 0 =
      qarg (qarg ([] @ CHR ''%'' # CHR ''1'' # ?and) (pre @ ''%1'' @ post)) b"
    by (simp add: formatNames_def untranslated_def joined_def)
  also have "qarg ([] @ CHR ''%'' # CHR ''1'' # ?and) (pre @ ''%1'' @ post) = [] @ (pre @ ''%1'' @ post) @ ?and"
    using two by (intro qarg_lowest [OF _ digit_one]) (auto simp: no_digit_def digit_of_def plain_text_def)
  also have "\<dots> = pre @ CHR ''%'' # CHR ''1'' # (post @ ?and)" by simp
  also have "qarg \<dots> b = pre @ b @ (post @ ?and)"
    using two assms no_digit_append [of post ?and] by (intro qarg_lowest [OF _ digit_one]) (auto simp: no_digit_def digit_of_def)
  finally show ?thesis by simp
qed

theorem name_taken_for_place_witness:
  "formatNames untranslated [''50%1 off'', ''Bob''] 0 = ''50Bob off and %2''"
  using name_taken_for_place [of "''50''" "'' off''" "''Bob''"]
  by (simp add: plain_text_def no_digit_def digit_of_def)

section \<open>Chat actions\<close>

lemma getMainChatAction_loop_all:
  "\<not> action_isInvalid (getMainChatAction_loop m xs) \<Longrightarrow>
     (action_isInvalid m \<or> action_eq (getMainChatAction_loop m xs) m) \<and>
     (\<forall>a \<in> set xs. action_isInvalid a \<or> action_eq (getMainChatAction_loop m xs) a)"
proof (induction xs arbitrary: m)
  case Nil
  then show ?case by (simp add: action_eq_def)
next
  case (Cons x xs)
  show ?case
  proof (cases "action_isInvalid m")
    case True
    with Cons show ?thesis by simp
  next
    case False
    with Cons.prems have eq: "action_eq m x" by (auto simp: action_isInvalid_def noAction_def split: if_splits)
    with False Cons have "action_eq (getMainChatAction_loop m xs) m"
      and rest: "\<forall>a \<in> set xs. action_isInvalid a \<or> action_eq (getMainChatAction_loop m xs) a" by auto
    moreover from this(1) eq have "action_eq (getMainChatAction_loop m xs) x" by (auto simp: action_eq_def)
    ultimately show ?thesis using False eq by simp
  qed
qed

lemma actionNames_fold:
  "fold (\<lambda>s (names, n). if length names < 2 then (names @ [f s], n) else (names, n + 1)) senders (ns, k) =
     (ns @ map f (take (2 - length ns) senders), k + int (length senders - (2 - length ns)))"
proof (induction senders arbitrary: ns k)
  case (Cons s senders)
  show ?case
  proof (cases "length ns < 2")
    case True
    then have "2 - length ns = Suc (2 - length (ns @ [f s]))" by simp
    with True show ?thesis using Cons [of "ns @ [f s]" k] by simp
  next
    case False
    then show ?thesis using Cons [of ns "k + 1"] by simp
  qed
qed simp

lemma actionNames_eq:
  "actionNames tr d senders = (map (formatMessageSender tr d) (take 2 senders), int (length senders - 2))"
  unfolding actionNames_def by (subst actionNames_fold) simp


definition sample_user :: "int \<Rightarrow> string \<Rightarrow> td_state \<Rightarrow> td_state" where
  "sample_user i name d = d\<lparr>td_users := (td_users d)(i \<mapsto> minsert ''first_name'' (QString name) fmempty)\<rparr>"

definition sample_typing :: "int \<Rightarrow> message_sender \<times> chat_action" where
  "sample_typing i = (\<lparr>isChat = False, sender_ident = i\<rparr>, \<lparr>action_type = ActionTyping, progressOrEmoji = QInvalid\<rparr>)"


section \<open>Service messages\<close>

lemma membersText_None: "membersText tr d myself content sender = None \<longleftrightarrow> toList (mvalue content ''member_user_ids'') = []"
  by (simp add: membersText_def Let_def split: list.split)


section \<open>Previews\<close>

lemma index_of_place: "plain_text pre \<Longrightarrow> index_from ''%1'' (pre @ ''%1'' @ post) i = i + int (length pre)"
proof (induction pre arbitrary: i)
  case Nil
  then show ?case by (simp add: startsWith_def)
next
  case (Cons c pre)
  then have "c \<noteq> CHR ''%''" "plain_text pre" by (auto simp: plain_text_def)
  with Cons.IH [of "i + 1"] show ?case by (simp add: startsWith_def)
qed

lemma argFrom_template:
  assumes "plain_text pre" and "plain_text post" and "no_digit post"
  shows "argFrom (pre @ ''%1'' @ post) t =
    t\<lparr>plainText := pre @ plainText t @ post, prefixOffset := prefixOffset t + int (length pre)\<rparr>"
  unfolding argFrom_def qindexOf_def qarg_one [OF assms] by (simp only: index_of_place [OF assms(1)] add_0)

lemma fold_addEntity_fields:
  "prefixOffset (fold (addEntity ig) es t) = prefixOffset t \<and> plainText (fold (addEntity ig) es t) = plainText t"
  by (induction es arbitrary: t) (auto simp: addEntity_def Let_def)

lemma readFormattedText_prefix [simp]: "prefixOffset (readFormattedText text ig) = 0"
  by (simp add: readFormattedText_def setFormattedText_def newFormattedText_def fold_addEntity_fields Let_def)

definition previewCaption :: "vmap \<Rightarrow> ignore_kind \<Rightarrow> formatted_text" where
  "previewCaption content ig = readFormattedText (getMessageContentFormattedText content) ig"

text \<open>What a message has whose preview is a template filled with a caption.\<close>

definition captioned :: "translator \<Rightarrow> vmap \<Rightarrow> bool \<Rightarrow> bool \<Rightarrow> ignore_kind \<Rightarrow> string \<Rightarrow> string \<Rightarrow> bool" where
  "captioned tr content outgoing withThumbnails ig pre post \<longleftrightarrow>
     unformattedPreview tr content outgoing = None \<and> plainText (previewCaption content ig) \<noteq> [] \<and>
     map_option fst (captionTemplates tr content withThumbnails) = Some (pre @ ''%1'' @ post) \<and>
     plain_text pre \<and> plain_text post \<and> no_digit post"

lemma getMessagePreview_captioned:
  assumes "captioned tr content outgoing withThumbnails ig pre post"
  shows "getMessagePreview tr content outgoing withThumbnails ig =
    (previewCaption content ig)\<lparr>plainText := pre @ plainText (previewCaption content ig) @ post, prefixOffset := int (length pre)\<rparr>"
proof -
  obtain alone where t: "captionTemplates tr content withThumbnails = Some (pre @ ''%1'' @ post, alone)"
    using assms by (auto simp: captioned_def)
  have "prefixOffset (previewCaption content ig) = 0" by (simp add: previewCaption_def)
  then have "argFrom (pre @ ''%1'' @ post) (previewCaption content ig) =
    (previewCaption content ig)\<lparr>plainText := pre @ plainText (previewCaption content ig) @ post, prefixOffset := int (length pre)\<rparr>"
    using assms by (subst argFrom_template) (simp_all add: captioned_def)
  moreover have "getMessagePreview tr content outgoing withThumbnails ig = argFrom (pre @ ''%1'' @ post) (previewCaption content ig)"
    using assms t by (simp add: getMessagePreview_def captioned_def previewCaption_def Let_def)
  ultimately show ?thesis by simp
qed

lemma qmid_within: "0 \<le> off \<Longrightarrow> 0 \<le> n \<Longrightarrow> off + n \<le> int (length s) \<Longrightarrow> qmid off n s = take (nat n) (drop (nat off) s)"
  by (simp add: qmid_def Let_def)


lemma newline_matches_none: "CHR 0x0A \<notin> set t \<Longrightarrow> newline_matches t i = []"
  by (induction t i rule: newline_matches.induct) (auto dest: hd_in_set)

text \<open>A text without characters that are escaped.\<close>

definition unescaped :: "string \<Rightarrow> bool" where
  "unescaped t \<longleftrightarrow> set t \<inter> {CHR ''<'', CHR ''>'', CHR ''&'', CHR 0x22, CHR 0x0A} = {}"

lemma escapeInsertions_none: "unescaped t \<Longrightarrow> escapeInsertions t = []"
  by (auto simp: unescaped_def escapeInsertions_def charInsertions_def newlineInsertions_def char_positions_none newline_matches_none)

definition url_entity :: "nat \<Rightarrow> text_entity" where
  "url_entity n = \<lparr>te_type = TUrl, typeData = QInvalid, te_offset = 0, te_length = int n\<rparr>"

lemma url_entity_fields [simp]:
  "te_type (url_entity n) = TUrl" "te_offset (url_entity n) = 0" "te_length (url_entity n) = int n"
  by (simp_all add: url_entity_def)

lemma url_tags: "getHtmlTags s 0 (url_entity n) = linkTags (qmid 0 (int n) s)"
  by (simp add: getHtmlTags_def getTextPart_def)

lemma parse_url:
  assumes "c \<noteq> []" and "unescaped (pre @ c @ post)" and "plainText t = pre @ c @ post" and "prefixOffset t = int (length pre)"
    and "entities t = [url_entity (length c)]"
  shows "parseText shade plainClass True t =
    pre @ fst (linkTags (take (length c) (pre @ c @ post))) @ c @ snd (linkTags (take (length c) (pre @ c @ post))) @ post"
proof -
  define h where "h = take (length c) (pre @ c @ post)"
  let ?a = "\<lparr>ins_offset = 0, ins_text = fst (linkTags h), ins_remove = 0\<rparr>"
  let ?b = "\<lparr>ins_offset = int (length c), ins_text = snd (linkTags h), ins_remove = 0\<rparr>"
  have "getHtmlTags (pre @ c @ post) 0 (url_entity (length c)) = linkTags h"
    unfolding url_tags h_def by (subst qmid_within) simp_all
  then have ins: "entityInsertions shade plainClass (pre @ c @ post) 0 [url_entity (length c)] = [?a, ?b]"
    by (simp add: getReplacement_def linkTags_def)
  have sort: "std_sort insertion_sort [?a, ?b] = [?b, ?a]"
    using assms(1) by (simp add: std_sort_def insertion_sort_def)
  have "parseText shade plainClass True t = applyInsertions (int (length pre)) [?b, ?a] (pre @ c @ post)"
    using ins sort assms by (simp add: parseText_def escapeInsertions_none)
  then show ?thesis by (simp add: applyInsertions_def FormattedText.qreplace_def nat_add_distrib h_def)
qed

text \<open>The links of a preview are made from the wrong part of the text: where the caption is one link, the address
is cut from the beginning of the whole text, with the template before the caption, instead of from the caption.\<close>

theorem preview_link_shifted:
  assumes "captioned tr content outgoing withThumbnails ig pre post"
    and "entities (previewCaption content ig) = [url_entity (length (plainText (previewCaption content ig)))]"
    and "unescaped (pre @ plainText (previewCaption content ig) @ post)"
  shows "parseText shade plainClass True (getMessagePreview tr content outgoing withThumbnails ig) =
    (let caption = plainText (previewCaption content ig); href = take (length caption) (pre @ caption @ post)
     in pre @ fst (linkTags href) @ caption @ snd (linkTags href) @ post)"
  using parse_url [of "plainText (previewCaption content ig)" pre post "getMessagePreview tr content outgoing withThumbnails ig" shade]
    assms by (simp add: getMessagePreview_captioned [OF assms(1)] captioned_def Let_def)

definition sample_voice :: vmap where
  "sample_voice = fmap_of_list [(''@type'', QString ''messageVoiceNote''),
     (''caption'', QMap (fmap_of_list [(''text'', QString ''http://x''),
        (''entities'', QList [QMap (fmap_of_list [(''offset'', QInt 0), (''length'', QInt 8),
           (''type'', QMap (fmap_of_list [(''@type'', QString ''textEntityTypeUrl'')]))])])]))]"

lemma sample_voice_caption:
  "previewCaption sample_voice IgnoreFull = newFormattedText ''http://x'' [url_entity 8]"
  by (simp add: previewCaption_def getMessageContentFormattedText_def sample_voice_def readFormattedText_def setFormattedText_def
      newFormattedText_def addEntity_def newEntity_def entityTypeFromString_def entityTypeData_def ignored_def isFullEntity_def
      url_entity_def Let_def)

lemma sample_voice_captioned: "captioned untranslated sample_voice False False IgnoreFull ''Voice message: '' []"
proof -
  have "mvalue sample_voice ''@type'' = QString ''messageVoiceNote''" by (simp add: sample_voice_def)
  then show ?thesis
    by (simp add: captioned_def sample_voice_caption newFormattedText_def unformattedPreview_def captionTemplates_def
        untranslated_def plain_text_def no_digit_def Let_def)
qed


theorem preview_link_shifted_witness:
  "parseText CHR ''#'' plainClass True (getMessagePreview untranslated sample_voice False False IgnoreFull) =
   ''Voice message: '' @ ''<a href='' @ quoted ''Voice me'' @ ''>'' @ ''http://x'' @ ''</a>''"
proof -
  have "entities (previewCaption sample_voice IgnoreFull) = [url_entity (length (plainText (previewCaption sample_voice IgnoreFull)))]"
    and "unescaped (''Voice message: '' @ plainText (previewCaption sample_voice IgnoreFull) @ [])"
    by (simp_all add: sample_voice_caption newFormattedText_def unescaped_def url_entity_def)
  then show ?thesis
    using preview_link_shifted [OF sample_voice_captioned]
    by (simp add: sample_voice_caption newFormattedText_def linkTags_def Let_def)
qed

end
