(* ===== verification/Filters.thy ===== *)
theory Filters imports ChatList TdData
begin

text \<open>
  The filters QML puts over a list: \<open>BoolFilterModel\<close>, \<open>TextFilterModel\<close> and
  \<open>ChatPermissionFilterModel\<close> (\<open>src/boolfiltermodel\<close>, \<open>src/textfiltermodel\<close>,
  \<open>src/chatpermissionfiltermodel\<close>), which are proxies of Qt's \<open>QSortFilterProxyModel\<close>.

  What Qt does for them: the rows of the proxy are the source rows that \<open>filterAcceptsRow\<close> accepts, in the
  order of the source, brought up to date when the filter or the source changes. The source is what a list
  model answers: its role names, in the order of the hash, and its rows with their data. It is compared by
  its address. Signals are logged.
\<close>

section \<open>The source and the rows of a proxy\<close>

record source_model =
  src_address :: nat
  src_roleNames :: "(int \<times> string) list"
  src_rows :: "(int \<Rightarrow> qvariant) list"

definition src_data :: "source_model \<Rightarrow> nat \<Rightarrow> int \<Rightarrow> qvariant" where
  "src_data m row role = (if row < length (src_rows m) then (src_rows m ! row) role else QInvalid)"

definition accepted_rows :: "(nat \<Rightarrow> bool) \<Rightarrow> nat \<Rightarrow> nat list" where
  "accepted_rows accepts n = filter accepts [0..<n]"

definition DisplayRole :: int where "DisplayRole = 0"

datatype filter_output =
  SourceChanged | FilterRoleNameChanged | FilterTextChanged | RequirePermissionsChanged | AdditionalFilterChanged

section \<open>What both filters by a role have\<close>

record role_filter =
  rf_source :: "source_model option"
  rf_roleName :: string
  rf_role :: int
  rf_outputs :: "filter_output list"

definition rf_emit :: "filter_output \<Rightarrow> 'a role_filter_scheme \<Rightarrow> 'a role_filter_scheme" where
  "rf_emit out s = s\<lparr>rf_outputs := rf_outputs s @ [out]\<rparr>"

text \<open>The loop over the keys of the hash; -1 for an unknown role.\<close>

fun findRole_loop :: "string \<Rightarrow> (int \<times> string) list \<Rightarrow> int" where
  "findRole_loop role [] = -1"
| "findRole_loop role ((k, name) # rest) = (if name = role then k else findRole_loop role rest)"

definition rf_findRole :: "source_model option \<Rightarrow> string \<Rightarrow> int" where
  "rf_findRole model role =
     (case model of
        None \<Rightarrow> -1
      | Some m \<Rightarrow> if role = [] then -1 else findRole_loop role (src_roleNames m))"

definition rf_updateFilterRole :: "'a role_filter_scheme \<Rightarrow> 'a role_filter_scheme" where
  "rf_updateFilterRole s =
     (let role = rf_findRole (rf_source s) (rf_roleName s)
      in s\<lparr>rf_role := (if role \<ge> 0 then role else DisplayRole)\<rparr>)"

definition rf_setSourceModel :: "source_model option \<Rightarrow> 'a role_filter_scheme \<Rightarrow> 'a role_filter_scheme" where
  "rf_setSourceModel model s =
     (if map_option src_address (rf_source s) \<noteq> map_option src_address model
      then rf_emit SourceChanged (rf_updateFilterRole (s\<lparr>rf_source := model\<rparr>)) else s)"

definition rf_setFilterRoleName :: "string \<Rightarrow> 'a role_filter_scheme \<Rightarrow> 'a role_filter_scheme" where
  "rf_setFilterRoleName role s =
     (if rf_roleName s \<noteq> role
      then rf_emit FilterRoleNameChanged (rf_updateFilterRole (s\<lparr>rf_roleName := role\<rparr>)) else s)"

section \<open>The filter by a flag\<close>

record bool_filter = role_filter +
  bf_value :: bool

definition bf_new :: bool_filter where
  "bf_new = \<lparr>rf_source = None, rf_roleName = [], rf_role = DisplayRole, rf_outputs = [], bf_value = True\<rparr>"

text \<open>\<open>setFilterValue\<close> announces nothing.\<close>

definition bf_setFilterValue :: "bool \<Rightarrow> bool_filter \<Rightarrow> bool_filter" where
  "bf_setFilterValue value s = (if value \<noteq> bf_value s then s\<lparr>bf_value := value\<rparr> else s)"

definition bf_accepts :: "bool_filter \<Rightarrow> nat \<Rightarrow> bool" where
  "bf_accepts s row =
     (case rf_source s of None \<Rightarrow> False | Some m \<Rightarrow> toBool (src_data m row (rf_role s)) = bf_value s)"

definition src_count :: "source_model option \<Rightarrow> nat" where
  "src_count model = (case model of None \<Rightarrow> 0 | Some m \<Rightarrow> length (src_rows m))"

definition bf_rows :: "bool_filter \<Rightarrow> nat list" where
  "bf_rows s = accepted_rows (bf_accepts s) (src_count (rf_source s))"

text \<open>
  \<open>mapFromSource\<close> of Qt answers the position of an accepted row, and nothing for another index;
  \<open>tryMap\<close> makes -1 of it.
\<close>

definition proxy_position :: "(nat \<Rightarrow> bool) \<Rightarrow> nat \<Rightarrow> int \<Rightarrow> int" where
  "proxy_position accepts n i =
     (if 0 \<le> i \<and> i < int n \<and> accepts (nat i) then int (length (filter accepts [0..<nat i])) else -1)"

definition bf_tryMap :: "bool_filter \<Rightarrow> int \<Rightarrow> int" where
  "bf_tryMap s i = proxy_position (bf_accepts s) (src_count (rf_source s)) i"

fun first_mapped :: "(int \<Rightarrow> int) \<Rightarrow> int list \<Rightarrow> int" where
  "first_mapped f [] = -1"
| "first_mapped f (i # is) = (if f i \<noteq> -1 then f i else first_mapped f is)"

definition bf_mapRowFromSource :: "bool_filter \<Rightarrow> int \<Rightarrow> int \<Rightarrow> int" where
  "bf_mapRowFromSource s i fallbackDirection =
     (if rf_source s = None \<or> i < 0 then -1
      else if bf_tryMap s i \<noteq> -1 then bf_tryMap s i
      else if fallbackDirection > 0 then first_mapped (bf_tryMap s) [i + 1 .. int (src_count (rf_source s)) - 1]
      else if fallbackDirection < 0 then first_mapped (bf_tryMap s) (rev [0 .. i - 1])
      else -1)"

definition bf_mapRowToSource :: "bool_filter \<Rightarrow> int \<Rightarrow> int" where
  "bf_mapRowToSource s i =
     (if rf_source s = None then -1
      else if 0 \<le> i \<and> i < int (length (bf_rows s)) then int (bf_rows s ! nat i) else -1)"

section \<open>The filter by a text\<close>

text \<open>
  \<open>tf_fixed\<close> is the fixed string Qt compares with. Lower case is that of ASCII. An empty string accepts
  every row.
\<close>

record text_filter = role_filter +
  tf_text :: string
  tf_fixed :: string

definition tf_new :: text_filter where
  "tf_new = \<lparr>rf_source = None, rf_roleName = [], rf_role = DisplayRole, rf_outputs = [], tf_text = [], tf_fixed = []\<rparr>"

definition lower :: "string \<Rightarrow> string" where
  "lower s = map char_lower s"

definition tf_setFilterText :: "string \<Rightarrow> text_filter \<Rightarrow> text_filter" where
  "tf_setFilterText text s =
     (if lower (tf_text s) \<noteq> lower text
      then rf_emit FilterTextChanged (s\<lparr>tf_text := text, tf_fixed := text\<rparr>) else s)"

fun contains_text :: "string \<Rightarrow> string \<Rightarrow> bool" where
  "contains_text p [] \<longleftrightarrow> p = []"
| "contains_text p (c # cs) \<longleftrightarrow> take (length p) (c # cs) = p \<or> contains_text p cs"

definition tf_accepts :: "text_filter \<Rightarrow> nat \<Rightarrow> bool" where
  "tf_accepts s row =
     (case rf_source s of
        None \<Rightarrow> False
      | Some m \<Rightarrow> tf_fixed s = [] \<or> contains_text (lower (tf_fixed s)) (lower (toString (src_data m row (rf_role s)))))"

definition tf_rows :: "text_filter \<Rightarrow> nat list" where
  "tf_rows s = accepted_rows (tf_accepts s) (src_count (rf_source s))"

section \<open>The filter by permissions\<close>

text \<open>
  The source is a list of chats, read through the roles of \<open>ChatListModel\<close>. The constructor gives the
  wrapper no value: it is whatever was there.
\<close>

datatype additional_filter = AdditionalFilterNone | AdditionalFilterNonSecret | AdditionalFilterSecretOnly

record permission_filter =
  pf_source :: "(nat \<times> cl_state) option"
  pf_wrapper :: "nat option"
  pf_requirePermissions :: "string list"
  pf_additionalFilter :: additional_filter
  pf_outputs :: "filter_output list"

definition pf_new :: "nat option \<Rightarrow> permission_filter" where
  "pf_new garbage = \<lparr>pf_source = None, pf_wrapper = garbage, pf_requirePermissions = [],
     pf_additionalFilter = AdditionalFilterNone, pf_outputs = []\<rparr>"

definition pf_emit :: "filter_output \<Rightarrow> permission_filter \<Rightarrow> permission_filter" where
  "pf_emit out s = s\<lparr>pf_outputs := pf_outputs s @ [out]\<rparr>"

definition pf_setSourceModel :: "(nat \<times> cl_state) option \<Rightarrow> permission_filter \<Rightarrow> permission_filter" where
  "pf_setSourceModel model s =
     (if map_option fst (pf_source s) \<noteq> map_option fst model then pf_emit SourceChanged (s\<lparr>pf_source := model\<rparr>) else s)"

definition pf_setTDLibWrapper :: "nat option \<Rightarrow> permission_filter \<Rightarrow> permission_filter" where
  "pf_setTDLibWrapper wrapper s = (if pf_wrapper s \<noteq> wrapper then s\<lparr>pf_wrapper := wrapper\<rparr> else s)"

definition pf_setRequirePermissions :: "string list \<Rightarrow> permission_filter \<Rightarrow> permission_filter" where
  "pf_setRequirePermissions required s =
     (if pf_requirePermissions s \<noteq> required
      then pf_emit RequirePermissionsChanged (s\<lparr>pf_requirePermissions := required\<rparr>) else s)"

definition pf_setAdditionalFilter :: "additional_filter \<Rightarrow> permission_filter \<Rightarrow> permission_filter" where
  "pf_setAdditionalFilter value s =
     (if pf_additionalFilter s \<noteq> value
      then pf_emit AdditionalFilterChanged (s\<lparr>pf_additionalFilter := value\<rparr>) else s)"

fun cl_chatTypeOf :: "cl_value \<Rightarrow> chat_type" where
  "cl_chatTypeOf (ClChatType t) = t"
| "cl_chatTypeOf v = ChatTypeUnknown"

fun cl_memberStatusOf :: "cl_value \<Rightarrow> member_status" where
  "cl_memberStatusOf (ClMemberStatus m) = m"
| "cl_memberStatusOf v = ChatMemberStatusUnknown"

fun cl_variantOf :: "cl_value \<Rightarrow> qvariant" where
  "cl_variantOf (ClValue v) = v"
| "cl_variantOf v = QInvalid"

definition pf_groupPermissions :: "member_status \<Rightarrow> vmap \<Rightarrow> td_group \<Rightarrow> vmap" where
  "pf_groupPermissions status chat g =
     (case status of
        ChatMemberStatusMember \<Rightarrow> toMap (mvalue chat ''permissions'')
      | ChatMemberStatusRestricted \<Rightarrow> toMap (mvalue (toMap (mvalue (groupInfo g) ''status'')) ''permissions'')
      | _ \<Rightarrow> fmempty)"

definition pf_acceptsGroup :: "string list \<Rightarrow> member_status \<Rightarrow> vmap \<Rightarrow> td_group option \<Rightarrow> bool" where
  "pf_acceptsGroup required status chat g =
     (case g of
        None \<Rightarrow> False
      | Some g \<Rightarrow>
          if status = ChatMemberStatusCreator \<or> status = ChatMemberStatusAdministrator then True
          else if status = ChatMemberStatusLeft \<or> status = ChatMemberStatusUnknown \<or> status = ChatMemberStatusBanned then False
          else (let allowed = pf_groupPermissions status chat g
                in \<not> mempty allowed \<and> list_ex (\<lambda>p. toBool (mvalue allowed p)) required))"

definition pf_accepts :: "(chat_role \<Rightarrow> cl_value) \<Rightarrow> td_state \<Rightarrow> permission_filter \<Rightarrow> bool" where
  "pf_accepts value d s =
     (let type = cl_chatTypeOf (value ChatRoleChatType) in
      if pf_source s = None \<or> pf_wrapper s = None then False
      else if pf_additionalFilter s = AdditionalFilterNonSecret \<and> type = ChatTypeSecret then False
      else if pf_additionalFilter s = AdditionalFilterSecretOnly \<and> type \<noteq> ChatTypeSecret then False
      else if pf_requirePermissions s = [] then True
      else case type of
             ChatTypeUnknown \<Rightarrow> False
           | ChatTypePrivate \<Rightarrow> True
           | ChatTypeSecret \<Rightarrow> True
           | _ \<Rightarrow> pf_acceptsGroup (pf_requirePermissions s) (cl_memberStatusOf (value ChatRoleChatMemberStatus))
                    (toMap (cl_variantOf (value ChatRoleDisplay)))
                    (td_getGroup (toLongLong (cl_variantOf (value ChatRoleGroupId))) (type = ChatTypeSupergroup) d))"

text \<open>The chats the rows point at are those of the store; the texts are the arguments of \<open>cl_data\<close>.\<close>

definition pf_rows ::
    "(int \<Rightarrow> chat_data) \<Rightarrow> (vmap \<Rightarrow> string) \<Rightarrow> (bool \<Rightarrow> (message_sender \<times> chat_action) list \<Rightarrow> string) \<Rightarrow> td_state \<Rightarrow>
       permission_filter \<Rightarrow> nat list" where
  "pf_rows chats text actionsText d s =
     (case pf_source s of
        None \<Rightarrow> []
      | Some (_, m) \<Rightarrow>
          accepted_rows (\<lambda>i. pf_accepts (cl_data chats text actionsText m (int i)) d s) (length (cl_chats m)))"

end
