(* ===== verification/FilterProperties.thy ===== *)
theory FilterProperties imports Filters ChatProperties
begin

text \<open>
  Properties of the filters: what a filter shows follows from the settings alone, whatever the order they
  were made in; rows of the source and of the filter are mapped to each other, with the nearest row as fallback;
  the filter by permissions decides by the groups of the store.
\<close>

section \<open>The rows of a filter\<close>

definition role_named :: "source_model \<Rightarrow> string \<Rightarrow> int" where
  "role_named m name = (let role = rf_findRole (Some m) name in if role \<ge> 0 then role else DisplayRole)"

definition role_follows :: "'a role_filter_scheme \<Rightarrow> bool" where
  "role_follows s \<longleftrightarrow>
     rf_role s = (case rf_source s of None \<Rightarrow> DisplayRole | Some m \<Rightarrow> role_named m (rf_roleName s))"

lemma role_follows_update [inv_intros]: "role_follows (rf_updateFilterRole s)"
  by (auto simp: role_follows_def rf_updateFilterRole_def role_named_def rf_findRole_def Let_def split: option.split)

lemma role_follows_emit [simp]: "role_follows (rf_emit out s) \<longleftrightarrow> role_follows s"
  by (simp add: role_follows_def rf_emit_def split: option.split)

lemma role_follows_set:
  "role_follows s \<Longrightarrow> role_follows (rf_setSourceModel model s)"
  "role_follows s \<Longrightarrow> role_follows (rf_setFilterRoleName role s)"
  by (simp_all add: rf_setSourceModel_def rf_setFilterRoleName_def role_follows_update)

datatype 'v filter_event = FilterSource "source_model option" | FilterRole string | FilterValue 'v

fun bf_handle :: "bool filter_event \<Rightarrow> bool_filter \<Rightarrow> bool_filter" where
  "bf_handle (FilterSource m) s = rf_setSourceModel m s"
| "bf_handle (FilterRole r) s = rf_setFilterRoleName r s"
| "bf_handle (FilterValue v) s = bf_setFilterValue v s"

fun tf_handle :: "string filter_event \<Rightarrow> text_filter \<Rightarrow> text_filter" where
  "tf_handle (FilterSource m) s = rf_setSourceModel m s"
| "tf_handle (FilterRole r) s = rf_setFilterRoleName r s"
| "tf_handle (FilterValue v) s = tf_setFilterText v s"

lemma role_follows_bf: "role_follows s \<Longrightarrow> role_follows (fold bf_handle es s)"
proof (induction es arbitrary: s)
  case (Cons e es)
  have "role_follows (bf_handle e s)"
    using Cons.prems by (cases e) (simp_all add: role_follows_set, simp add: bf_setFilterValue_def role_follows_def split: option.split)
  then show ?case using Cons.IH by simp
qed simp

text \<open>The text Qt compares with is, up to the case of its letters, the text that was set last.\<close>

definition text_follows :: "text_filter \<Rightarrow> bool" where
  "text_follows s \<longleftrightarrow> role_follows s \<and> tf_fixed s = tf_text s"

lemma tf_setters_keep [simp]:
  "tf_fixed (rf_setSourceModel m s) = tf_fixed s" "tf_text (rf_setSourceModel m s) = tf_text s"
  "tf_fixed (rf_setFilterRoleName r s) = tf_fixed s" "tf_text (rf_setFilterRoleName r s) = tf_text s"
  by (simp_all add: rf_setSourceModel_def rf_setFilterRoleName_def rf_updateFilterRole_def rf_emit_def Let_def)

lemma text_follows_tf: "text_follows s \<Longrightarrow> text_follows (fold tf_handle es s)"
proof (induction es arbitrary: s)
  case (Cons e es)
  have "text_follows (tf_handle e s)"
  proof (cases e)
    case (FilterValue v)
    then show ?thesis using Cons.prems
      by (simp add: text_follows_def tf_setFilterText_def rf_emit_def role_follows_def split: option.split)
  qed (use Cons.prems in \<open>simp_all add: text_follows_def role_follows_set\<close>)
  then show ?case using Cons.IH by simp
qed simp

text \<open>The text that was asked for last.\<close>

fun last_text :: "string filter_event list \<Rightarrow> string \<Rightarrow> string" where
  "last_text [] t = t"
| "last_text (FilterValue v # es) t = last_text es v"
| "last_text (e # es) t = last_text es t"

lemma lower_text_follows: "lower (tf_text s) = lower t \<Longrightarrow> lower (tf_text (fold tf_handle es s)) = lower (last_text es t)"
proof (induction es arbitrary: s t)
  case (Cons e es)
  show ?case
  proof (cases e)
    case (FilterValue v)
    have "lower (tf_text (tf_setFilterText v s)) = lower v" by (simp add: tf_setFilterText_def rf_emit_def)
    then show ?thesis using FilterValue Cons.IH [of "tf_setFilterText v s" v] by simp
  qed (use Cons in simp_all)
qed simp

text \<open>C37: However the source, the role and the text are set, in whatever order and how often, the text filter shows the
rows of its source whose value contains the text that was asked for last, upper or lower case, in the order
of the source. The value is the one under the role with the name, or the display role if there is none.\<close>

theorem text_filter_shows:
  assumes "rf_source (fold tf_handle es tf_new) = Some m"
  shows "tf_rows (fold tf_handle es tf_new) =
     filter (\<lambda>i. last_text es [] = [] \<or>
        contains_text (lower (last_text es []))
          (lower (toString (src_data m i (role_named m (rf_roleName (fold tf_handle es tf_new)))))))
       [0..<length (src_rows m)]"
proof -
  let ?s = "fold tf_handle es tf_new"
  have f: "text_follows ?s" by (rule text_follows_tf) (simp add: text_follows_def role_follows_def tf_new_def)
  have l: "lower (tf_text ?s) = lower (last_text es [])" by (rule lower_text_follows) (simp add: tf_new_def)
  have "tf_fixed ?s = [] \<longleftrightarrow> last_text es [] = []"
    using f l by (metis text_follows_def lower_def map_is_Nil_conv)
  then have "tf_accepts ?s = (\<lambda>i. last_text es [] = [] \<or>
      contains_text (lower (last_text es [])) (lower (toString (src_data m i (role_named m (rf_roleName ?s))))))"
    using f l assms by (simp add: fun_eq_iff tf_accepts_def text_follows_def role_follows_def)
  then show ?thesis using assms by (simp add: tf_rows_def accepted_rows_def src_count_def)
qed

definition sample_source :: source_model where
  "sample_source = \<lparr>src_address = 1, src_roleNames = [(258, ''user_name''), (257, ''title'')],
     src_rows = [(\<lambda>r. if r = 257 then QString ''Ann'' else QInvalid), (\<lambda>r. if r = 257 then QString ''Bob'' else QInvalid),
                 (\<lambda>r. if r = 257 then QString ''Joanna'' else QInvalid)]\<rparr>"

theorem text_filter_shows_witness:
  "tf_rows (fold tf_handle [FilterValue ''aNN'', FilterSource (Some sample_source), FilterRole ''title''] tf_new) = [0, 2]"
proof -
  let ?es = "[FilterValue ''aNN'', FilterSource (Some sample_source), FilterRole ''title'']"
  have s: "rf_source (fold tf_handle ?es tf_new) = Some sample_source" "rf_roleName (fold tf_handle ?es tf_new) = ''title''"
    by (simp_all add: tf_new_def tf_setFilterText_def lower_def rf_setSourceModel_def rf_setFilterRoleName_def
        rf_updateFilterRole_def rf_emit_def Let_def)
  have low: "lower ''aNN'' = ''ann''" "lower ''Ann'' = ''ann''" "lower ''Bob'' = ''bob''" "lower ''Joanna'' = ''joanna''"
    by code_simp+
  have "role_named sample_source ''title'' = 257" by (simp add: role_named_def rf_findRole_def sample_source_def)
  then show ?thesis
    using text_filter_shows [OF s(1)] s(2) low by (simp add: sample_source_def src_data_def upt_rec)
qed

section \<open>Rows of the source and of the filter\<close>

lemma accepted_rows_nth:
  assumes "accepts i" and "i < n"
  shows "length (filter accepts [0..<i]) < length (accepted_rows accepts n) \<and>
    accepted_rows accepts n ! length (filter accepts [0..<i]) = i"
proof -
  have "[0..<n] = [0..<i] @ i # [Suc i..<n]"
    using assms(2) by (metis le_add1 less_imp_add_positive upt_add_eq_append upt_conv_Cons le_add_same_cancel1 zero_le add_0)
  then show ?thesis using assms(1) by (simp add: accepted_rows_def nth_append)
qed

lemma bf_tryMap_back:
  assumes "rf_source s = Some m" and "bf_tryMap s i \<noteq> -1"
  shows "0 \<le> i \<and> i < int (length (src_rows m)) \<and> bf_accepts s (nat i) \<and> 0 \<le> bf_tryMap s i \<and>
    bf_mapRowToSource s (bf_tryMap s i) = i"
proof -
  have i: "0 \<le> i" "i < int (length (src_rows m))" "bf_accepts s (nat i)"
    using assms by (auto simp: bf_tryMap_def proxy_position_def src_count_def split: if_splits)
  then have "bf_tryMap s i = int (length (filter (bf_accepts s) [0..<nat i]))"
    using assms(1) by (simp add: bf_tryMap_def proxy_position_def src_count_def)
  moreover have "nat i < length (src_rows m)" using i by linarith
  ultimately show ?thesis
    using accepted_rows_nth [of "bf_accepts s" "nat i" "length (src_rows m)"] i assms(1)
    by (simp add: bf_mapRowToSource_def bf_rows_def src_count_def)
qed

lemma bf_tryMap_accepted:
  "rf_source s = Some m \<Longrightarrow> j < length (src_rows m) \<Longrightarrow> bf_accepts s j \<Longrightarrow> bf_tryMap s (int j) \<noteq> -1"
  by (simp add: bf_tryMap_def proxy_position_def src_count_def)

lemma first_mapped_cases:
  assumes "sorted_wrt R xs"
  shows "(first_mapped f xs = -1 \<and> (\<forall>x \<in> set xs. f x = -1)) \<or>
    (\<exists>x \<in> set xs. first_mapped f xs = f x \<and> f x \<noteq> -1 \<and> (\<forall>y \<in> set xs. f y \<noteq> -1 \<longrightarrow> y = x \<or> R x y))"
  using assms
proof (induction xs)
  case (Cons x xs)
  show ?case
  proof (cases "f x = -1")
    case True
    with Cons show ?thesis by auto
  next
    case False
    then show ?thesis using Cons.prems by auto
  qed
qed simp

lemma sorted_wrt_rev_upto: "sorted_wrt (>) (rev [a..b])" for a b :: int
  using sorted_wrt_upto [of a b] by (simp add: sorted_wrt_rev)

text \<open>The rows \<open>mapRowFromSource\<close> may answer with: the row itself, or with a direction those on that side of it.\<close>

definition on_side :: "int \<Rightarrow> int \<Rightarrow> int \<Rightarrow> bool" where
  "on_side direction i j \<longleftrightarrow> j = i \<or> (direction > 0 \<and> i < j) \<or> (direction < 0 \<and> j < i)"

text \<open>\<open>r\<close> stands for the accepted row nearest to row \<open>i\<close> on the side, or is -1 where there is none.\<close>

definition nearest :: "bool_filter \<Rightarrow> nat \<Rightarrow> int \<Rightarrow> int \<Rightarrow> int \<Rightarrow> bool" where
  "nearest s n i direction r \<longleftrightarrow>
     (if r = -1 then \<forall>j < n. bf_accepts s j \<longrightarrow> \<not> on_side direction i (int j)
      else \<exists>j < n. bf_accepts s j \<and> on_side direction i (int j) \<and> bf_mapRowToSource s r = int j \<and>
             (\<forall>k < n. bf_accepts s k \<and> on_side direction i (int k) \<longrightarrow> \<bar>int j - i\<bar> \<le> \<bar>int k - i\<bar>))"

lemma nearest_mapped:
  assumes "rf_source s = Some m" and "j < length (src_rows m)" and "bf_accepts s j" and "on_side direction i (int j)"
    and "\<And>k. k < length (src_rows m) \<Longrightarrow> bf_accepts s k \<Longrightarrow> on_side direction i (int k) \<Longrightarrow> \<bar>int j - i\<bar> \<le> \<bar>int k - i\<bar>"
  shows "nearest s (length (src_rows m)) i direction (bf_tryMap s (int j))"
proof -
  have "bf_tryMap s (int j) \<noteq> -1" using assms(1-3) by (rule bf_tryMap_accepted)
  with bf_tryMap_back [OF assms(1) this] show ?thesis using assms unfolding nearest_def by auto
qed

lemma nearest_search:
  assumes src: "rf_source s = Some m" and none: "bf_tryMap s i = -1" and sorted: "sorted_wrt R xs"
    and all: "\<And>j. j < length (src_rows m) \<Longrightarrow> on_side direction i (int j) \<Longrightarrow> int j \<noteq> i \<Longrightarrow> int j \<in> set xs"
    and side: "\<And>x. x \<in> set xs \<Longrightarrow> on_side direction i x"
    and near: "\<And>x y. x \<in> set xs \<Longrightarrow> y \<in> set xs \<Longrightarrow> R x y \<Longrightarrow> \<bar>x - i\<bar> \<le> \<bar>y - i\<bar>"
  shows "nearest s (length (src_rows m)) i direction (first_mapped (bf_tryMap s) xs)"
proof -
  have in_xs: "int j \<in> set xs" if "j < length (src_rows m)" "bf_accepts s j" "on_side direction i (int j)" for j
    using all that none bf_tryMap_accepted [OF src that(1,2)] by auto
  consider "first_mapped (bf_tryMap s) xs = -1" "\<forall>x \<in> set xs. bf_tryMap s x = -1"
    | x where "x \<in> set xs" "first_mapped (bf_tryMap s) xs = bf_tryMap s x" "bf_tryMap s x \<noteq> -1"
        "\<forall>y \<in> set xs. bf_tryMap s y \<noteq> -1 \<longrightarrow> y = x \<or> R x y"
    using first_mapped_cases [OF sorted, of "bf_tryMap s"] by blast
  then show ?thesis
  proof cases
    case 1
    then show ?thesis unfolding nearest_def using in_xs bf_tryMap_accepted [OF src] by auto
  next
    case 2
    from bf_tryMap_back [OF src 2(3)] have x: "0 \<le> x" "x < int (length (src_rows m))" "bf_accepts s (nat x)" by auto
    then have "nearest s (length (src_rows m)) i direction (bf_tryMap s (int (nat x)))"
      using 2 side near in_xs bf_tryMap_accepted [OF src] by (intro nearest_mapped [OF src]) force+
    with x(1) 2(2) show ?thesis by simp
  qed
qed

text \<open>C22: \<open>mapRowFromSource\<close> answers, for a row of the source, the row of the filter that shows it; if the row is not
shown and a direction is given, the one that shows the nearest row on that side; -1 if there is none. Mapping the
answer back with \<open>mapRowToSource\<close> gives that row.\<close>

theorem row_mapped_to_nearest:
  assumes "rf_source s = Some m" and "0 \<le> i"
  shows "nearest s (length (src_rows m)) i direction (bf_mapRowFromSource s i direction)"
proof (cases "bf_tryMap s i = -1")
  case False
  from bf_tryMap_back [OF assms(1) False]
  have "nat i < length (src_rows m)" "bf_accepts s (nat i)" using assms(2) by auto
  then have "nearest s (length (src_rows m)) i direction (bf_tryMap s (int (nat i)))"
    using assms by (intro nearest_mapped) (auto simp: on_side_def)
  then show ?thesis using assms False by (simp add: bf_mapRowFromSource_def)
next
  case True
  have self: "\<not> bf_accepts s j" if "int j = i" "j < length (src_rows m)" for j
    using bf_tryMap_accepted [OF assms(1) that(2)] True that(1) by auto
  consider "direction > 0" | "direction < 0" | "direction = 0" by linarith
  then show ?thesis
  proof cases
    case 1
    have "nearest s (length (src_rows m)) i direction (first_mapped (bf_tryMap s) [i + 1 .. int (length (src_rows m)) - 1])"
      using 1 by (intro nearest_search [OF assms(1) True sorted_wrt_upto]) (auto simp: on_side_def)
    then show ?thesis using 1 True assms by (simp add: bf_mapRowFromSource_def src_count_def)
  next
    case 2
    have "nearest s (length (src_rows m)) i direction (first_mapped (bf_tryMap s) (rev [0 .. i - 1]))"
      using 2 by (intro nearest_search [OF assms(1) True sorted_wrt_rev_upto]) (auto simp: on_side_def)
    then show ?thesis using 2 True assms by (simp add: bf_mapRowFromSource_def)
  next
    case 3
    then show ?thesis using self True assms by (auto simp: bf_mapRowFromSource_def nearest_def on_side_def)
  qed
qed

definition sample_flags :: bool_filter where
  "sample_flags = \<lparr>rf_source = Some \<lparr>src_address = 1, src_roleNames = [],
     src_rows = map (\<lambda>b r. QBool b) [True, False, False, True]\<rparr>, rf_roleName = [], rf_role = 0, rf_outputs = [], bf_value = True\<rparr>"

theorem row_mapped_to_nearest_witness:
  "bf_mapRowFromSource sample_flags 1 1 = 1 \<and> bf_mapRowFromSource sample_flags 2 (-1) = 0 \<and>
   nearest sample_flags 4 1 1 1 \<and> nearest sample_flags 4 2 (-1) 0"
proof -
  have m: "bf_mapRowFromSource sample_flags 1 1 = 1" "bf_mapRowFromSource sample_flags 2 (-1) = 0" by code_simp+
  have "rf_source sample_flags = Some \<lparr>src_address = 1, src_roleNames = [], src_rows = map (\<lambda>b r. QBool b) [True, False, False, True]\<rparr>"
    by (simp add: sample_flags_def)
  from row_mapped_to_nearest [OF this, of 1 1] row_mapped_to_nearest [OF this, of 2 "-1"] m show ?thesis
    by (simp add: numeral_eq_Suc)
qed

section \<open>Permissions\<close>

text \<open>What a group lets the user do, by the state of the group in the store.\<close>

definition may_any :: "string list \<Rightarrow> vmap \<Rightarrow> td_group \<Rightarrow> bool" where
  "may_any required chat g \<longleftrightarrow>
     (let status = group_memberStatus g in
      status = ChatMemberStatusCreator \<or> status = ChatMemberStatusAdministrator \<or>
      status = ChatMemberStatusMember \<and> (\<exists>p \<in> set required. toBool (mvalue (toMap (mvalue chat ''permissions'')) p)) \<or>
      status = ChatMemberStatusRestricted \<and>
        (\<exists>p \<in> set required. toBool (mvalue (toMap (mvalue (toMap (mvalue (groupInfo g) ''status'')) ''permissions'')) p)))"

definition additional_passes :: "additional_filter \<Rightarrow> chat_type \<Rightarrow> bool" where
  "additional_passes f type \<longleftrightarrow>
     (case f of AdditionalFilterNone \<Rightarrow> True | AdditionalFilterNonSecret \<Rightarrow> type \<noteq> ChatTypeSecret
      | AdditionalFilterSecretOnly \<Rightarrow> type = ChatTypeSecret)"

lemma pf_acceptsGroup_may:
  "pf_acceptsGroup required (group_memberStatus g) chat (Some g) \<longleftrightarrow> may_any required chat g"
proof -
  have "\<not> toBool (mvalue m p)" if "mempty m" for m p using that by (simp add: mempty_def)
  then show ?thesis
    by (cases "group_memberStatus g") (auto simp: pf_acceptsGroup_def may_any_def pf_groupPermissions_def Let_def list_ex_iff)
qed

lemma pf_accepts_chat:
  assumes "td_ok d" and "td_chat d k = Some c" and "pf_source s \<noteq> None" and "pf_wrapper s \<noteq> None"
    and "value ChatRoleChatType = ClChatType (chatType c)" and "value ChatRoleGroupId = ClValue (QInt (cd_groupId c))"
    and "value ChatRoleChatMemberStatus = ClMemberStatus (memberStatus c)" and "value ChatRoleDisplay = ClValue (QMap (chatData c))"
  shows "pf_accepts value d s \<longleftrightarrow> additional_passes (pf_additionalFilter s) (chatType c) \<and>
    (pf_requirePermissions s = [] \<or> chatType c = ChatTypePrivate \<or> chatType c = ChatTypeSecret \<or>
     chatType c \<noteq> ChatTypeUnknown \<and>
       (\<exists>g. chat_group d c = Some g \<and> may_any (pf_requirePermissions s) (chatData c) g))"
proof -
  have "pf_acceptsGroup r (memberStatus c) (chatData c) (chat_group d c) \<longleftrightarrow>
      (\<exists>g. chat_group d c = Some g \<and> may_any r (chatData c) g)" for r
  proof (cases "chat_group d c")
    case None
    then show ?thesis by (simp add: pf_acceptsGroup_def)
  next
    case (Some g)
    with td_ok_chat [OF assms(1,2)] have "memberStatus c = group_memberStatus g" by (auto simp: group_applied_def)
    with Some show ?thesis by (simp add: pf_acceptsGroup_may)
  qed
  then show ?thesis
    using assms by (cases "chatType c"; cases "pf_additionalFilter s")
      (auto simp: pf_accepts_def additional_passes_def chat_group_def)
qed


definition sample_list :: cl_state where
  "sample_list = (cl_new False)\<lparr>cl_chats := [\<lparr>lc_chatId = 3, lc_order = 1, lc_isPinned = False\<rparr>]\<rparr>"


end
