(* ===== verification/SortedMaps.thy ===== *)
theory SortedMaps imports Main "HOL-Library.List_Lexorder" "HOL-Library.Char_ord"
begin

text \<open>
  \<open>QMap\<close> with strings as keys, where the order of the entries is seen: an association list in the order of the
  keys, as iteration, \<open>values()\<close> and \<open>key()\<close> go through it.
\<close>

fun qmap_insert :: "string \<Rightarrow> 'v \<Rightarrow> (string \<times> 'v) list \<Rightarrow> (string \<times> 'v) list" where
  "qmap_insert k v [] = [(k, v)]"
| "qmap_insert k v ((k', v') # rest) =
     (if k < k' then (k, v) # (k', v') # rest else if k = k' then (k, v) # rest else (k', v') # qmap_insert k v rest)"

text \<open>\<open>QMap::key(value)\<close>: the first key with the value, or the empty string.\<close>

fun qmap_key :: "'v \<Rightarrow> (string \<times> 'v) list \<Rightarrow> string" where
  "qmap_key v [] = []"
| "qmap_key v ((k', v') # rest) = (if v' = v then k' else qmap_key v rest)"

definition qmap_remove :: "string \<Rightarrow> (string \<times> 'v) list \<Rightarrow> (string \<times> 'v) list" where
  "qmap_remove k xs = filter (\<lambda>(k', _). k' \<noteq> k) xs"

definition qmap_ok :: "(string \<times> 'v) list \<Rightarrow> bool" where
  "qmap_ok xs \<longleftrightarrow> sorted_wrt (<) (map fst xs)"

lemma qmap_insert_keys: "set (map fst (qmap_insert k v xs)) = insert k (set (map fst xs))"
  by (induction k v xs rule: qmap_insert.induct) auto

lemma qmap_insert_sorted: "sorted_wrt (<) (map fst xs) \<Longrightarrow> sorted_wrt (<) (map fst (qmap_insert k v xs))"
proof (induction k v xs rule: qmap_insert.induct)
  case (2 k v k' v' rest)
  have "\<forall>y \<in> set (map fst (qmap_insert k v rest)). k' < y" if "k' < k"
    using that 2(2) by (simp only: qmap_insert_keys) auto
  with 2 show ?case by (auto simp del: set_map simp: not_less_iff_gr_or_eq)
qed simp

lemma qmap_insert_map: "sorted_wrt (<) (map fst xs) \<Longrightarrow> map_of (qmap_insert k v xs) = (map_of xs)(k \<mapsto> v)"
  by (induction k v xs rule: qmap_insert.induct) (auto simp: fun_eq_iff)

lemma qmap_ok_insert [simp]: "qmap_ok xs \<Longrightarrow> qmap_ok (qmap_insert k v xs)"
  unfolding qmap_ok_def by (rule qmap_insert_sorted)

lemma qmap_ok_Nil [simp]: "qmap_ok []"
  by (simp add: qmap_ok_def)

lemma qmap_ok_remove [simp]: "qmap_ok xs \<Longrightarrow> qmap_ok (qmap_remove k xs)"
  unfolding qmap_ok_def qmap_remove_def by (induction xs) (auto simp: image_iff)

lemma map_of_qmap_remove [simp]: "map_of (qmap_remove k xs) = (map_of xs)(k := None)"
  by (induction xs) (auto simp: qmap_remove_def fun_eq_iff)

lemma qmap_key_Some: "qmap_ok xs \<Longrightarrow> qmap_key v xs \<noteq> [] \<Longrightarrow> map_of xs (qmap_key v xs) = Some v"
proof (induction xs)
  case (Cons x xs)
  obtain k v' where x: "x = (k, v')" by fastforce
  show ?case
  proof (cases "v' = v")
    case False
    with Cons x have "map_of xs (qmap_key v xs) = Some v" by (simp add: qmap_ok_def)
    moreover from this have "qmap_key v xs \<in> fst ` set xs" by (metis domI dom_map_of_conv_image_fst)
    then have "k < qmap_key v xs" using Cons.prems(1) x by (auto simp: qmap_ok_def)
    ultimately show ?thesis using x False by auto
  qed (simp add: x)
qed simp

end
