(* ===== verification/Users.thy ===== *)
theory Users imports Texts RowModel SortedMaps "HOL-Library.Product_Lexorder"
begin

text \<open>
  Lists of users: \<open>UsersModel\<close>, \<open>ContactsListModel\<close>, the sorted proxy \<open>ContactsModel\<close> over it
  (\<open>src/usersmodel\<close>, \<open>src/contactsmodel\<close>), and \<open>KnownUsersModel\<close> (\<open>src/knownusersmodel\<close>).

  A model holds the ids of its users; their data are read from the store \<open>d\<close> whenever they are shown, so that
  what a view sees are the data of the users at that time. The wrapper is an address. Signals of rows are logged
  with the data a view reads while it handles them. Strings are compared by their characters, in order, as
  \<open>QString::operator<\<close> does.
\<close>

section \<open>A list of users\<close>

datatype user_role =
  UserRoleDisplay | UserRolePhoto | UserRoleTitle | UserRoleUserId | UserRoleFirstName | UserRoleLastName
| UserRoleUsername | UserRolePhoneNumber | UserRoleUserStatus | UserRoleUserLastOnline | UserRoleIsSupport
| UserRoleAccentColorId

definition userRoleNames :: "(user_role \<times> string) list" where
  "userRoleNames =
     [(UserRoleDisplay, ''display''), (UserRoleTitle, ''title''), (UserRoleUserId, ''user_id''),
      (UserRoleFirstName, ''first_name''), (UserRoleLastName, ''last_name''), (UserRoleUsername, ''username''),
      (UserRolePhoneNumber, ''phone_number''), (UserRolePhoto, ''photo_data''), (UserRoleUserStatus, ''user_status''),
      (UserRoleUserLastOnline, ''user_last_online''), (UserRoleIsSupport, ''is_support''),
      (UserRoleAccentColorId, ''accent_color_id'')]"

datatype us_output =
  UsRows row_event "vmap list"
| UsWrapperChanged
| UsGetContacts
| UsSearchContacts string
| UsQueryChanged
| UsSortByStatusChanged

record users_model =
  us_wrapper :: "nat option"
  us_ids :: "int list"
  us_connected :: "nat list"
  us_outputs :: "us_output list"

definition us_emit :: "us_output \<Rightarrow> 'a users_model_scheme \<Rightarrow> 'a users_model_scheme" where
  "us_emit out s = s\<lparr>us_outputs := us_outputs s @ [out]\<rparr>"

text \<open>What a view reads: the data of every user.\<close>

definition us_shown :: "td_state \<Rightarrow> 'a users_model_scheme \<Rightarrow> vmap list" where
  "us_shown d s = map (\<lambda>i. td_getUserInformation i d) (us_ids s)"

definition us_emitRows :: "td_state \<Rightarrow> row_event \<Rightarrow> 'a users_model_scheme \<Rightarrow> 'a users_model_scheme" where
  "us_emitRows d e s = us_emit (UsRows e (us_shown d s)) s"

definition us_setupTdLibWrapper :: "'a users_model_scheme \<Rightarrow> 'a users_model_scheme" where
  "us_setupTdLibWrapper s =
     (case us_wrapper s of None \<Rightarrow> s | Some w \<Rightarrow> s\<lparr>us_connected := us_connected s @ [w]\<rparr>)"

text \<open>\<open>setup\<close> is the virtual function \<open>setupTdLibWrapper\<close> of the class.\<close>

definition us_setTdLibWrapper ::
    "('a users_model_scheme \<Rightarrow> 'a users_model_scheme) \<Rightarrow> nat option \<Rightarrow> 'a users_model_scheme \<Rightarrow> 'a users_model_scheme" where
  "us_setTdLibWrapper setup wrapper s =
     (if us_wrapper s \<noteq> wrapper
      then us_emit UsWrapperChanged
             (if wrapper \<noteq> None then setup (s\<lparr>us_wrapper := wrapper\<rparr>) else s\<lparr>us_wrapper := wrapper\<rparr>)
      else s)"

definition us_rowCount :: "'a users_model_scheme \<Rightarrow> nat" where
  "us_rowCount s = length (us_ids s)"

definition us_userData :: "translator \<Rightarrow> vmap \<Rightarrow> user_role \<Rightarrow> qvariant" where
  "us_userData tr user role =
     (let status = toMap (mvalue user ''status'') in
      case role of
        UserRoleDisplay \<Rightarrow> QMap user
      | UserRoleTitle \<Rightarrow> QString (getUserName tr user)
      | UserRoleUserId \<Rightarrow> QInt (toLongLong (mvalue user ''id''))
      | UserRoleFirstName \<Rightarrow> QString (toString (mvalue user ''first_name''))
      | UserRoleLastName \<Rightarrow> QString (toString (mvalue user ''last_name''))
      | UserRoleUsername \<Rightarrow> QString (toString (mvalue (toMap (mvalue user ''usernames'')) ''editable_username''))
      | UserRolePhoneNumber \<Rightarrow> mvalue user ''phone_number''
      | UserRolePhoto \<Rightarrow> mvalue user ''profile_photo''
      | UserRoleUserStatus \<Rightarrow> mvalue status ''@type''
      | UserRoleUserLastOnline \<Rightarrow> mvalue status ''was_online''
      | UserRoleIsSupport \<Rightarrow> QBool (toBool (mvalue user ''is_support''))
      | UserRoleAccentColorId \<Rightarrow> QInt (toInt (mvalue user ''accent_color_id'')))"

definition us_data :: "translator \<Rightarrow> td_state \<Rightarrow> 'a users_model_scheme \<Rightarrow> int \<Rightarrow> user_role \<Rightarrow> qvariant" where
  "us_data tr d s row role =
     (if \<not> valid_row row (us_ids s) \<or> us_wrapper s = None then QInvalid
      else us_userData tr (td_getUserInformation (us_ids s ! nat row) d) role)"

definition us_setUserIds :: "td_state \<Rightarrow> int list \<Rightarrow> 'a users_model_scheme \<Rightarrow> 'a users_model_scheme" where
  "us_setUserIds d newUserIds s = us_emitRows d ModelReset (s\<lparr>us_ids := newUserIds\<rparr>)"

definition us_userVariantIds :: "'a users_model_scheme \<Rightarrow> qvariant list" where
  "us_userVariantIds s = map QInt (us_ids s)"

definition us_setUserVariantIds :: "td_state \<Rightarrow> qvariant list \<Rightarrow> 'a users_model_scheme \<Rightarrow> 'a users_model_scheme" where
  "us_setUserVariantIds d newUserIds s = us_emitRows d ModelReset (s\<lparr>us_ids := map toLongLong newUserIds\<rparr>)"

text \<open>\<open>QList::indexOf\<close>: the first position, or -1.\<close>

fun qindex :: "'a \<Rightarrow> 'a list \<Rightarrow> int" where
  "qindex x [] = -1"
| "qindex x (y # ys) = (if x = y then 0 else (let i = qindex x ys in if i < 0 then -1 else i + 1))"

definition us_handleUserUpdated :: "td_state \<Rightarrow> int \<Rightarrow> 'a users_model_scheme \<Rightarrow> 'a users_model_scheme" where
  "us_handleUserUpdated d userId s =
     (if userId \<in> set (us_ids s) then us_emitRows d (RowChanged (qindex userId (us_ids s))) s else s)"

text \<open>The constructors. A virtual function that a constructor calls is that of its own class.\<close>

definition us_new :: "nat option \<Rightarrow> int list \<Rightarrow> users_model" where
  "us_new wrapper userIds =
     (us_setupTdLibWrapper \<lparr>us_wrapper = wrapper, us_ids = [], us_connected = [], us_outputs = []\<rparr>)\<lparr>us_ids := userIds\<rparr>"

section \<open>Contacts\<close>

record contacts_list = users_model +
  ct_query :: string
  ct_receiving :: "nat list"

definition ct_fetch :: "'a contacts_list_scheme \<Rightarrow> 'a contacts_list_scheme" where
  "ct_fetch s =
     (if us_wrapper s = None then s
      else if ct_query s = [] then us_emit UsGetContacts s else us_emit (UsSearchContacts (ct_query s)) s)"

definition ct_setupTdLibWrapper :: "'a contacts_list_scheme \<Rightarrow> 'a contacts_list_scheme" where
  "ct_setupTdLibWrapper s =
     (let s1 = us_setupTdLibWrapper s;
          s2 = (case us_wrapper s1 of None \<Rightarrow> s1 | Some w \<Rightarrow> s1\<lparr>ct_receiving := ct_receiving s1 @ [w]\<rparr>)
      in if us_ids s2 = [] then ct_fetch s2 else s2)"

definition ct_handleUsersReceived ::
    "td_state \<Rightarrow> string \<Rightarrow> qvariant list \<Rightarrow> 'a contacts_list_scheme \<Rightarrow> 'a contacts_list_scheme" where
  "ct_handleUsersReceived d extra userIds s =
     (if extra = ''contacts'' then us_setUserVariantIds d userIds s
      else if ct_query s \<noteq> [] \<and> extra = ''contacts:'' @ ct_query s then us_setUserVariantIds d userIds s
      else s)"

definition ct_handleUserIsContactUpdated ::
    "td_state \<Rightarrow> int \<Rightarrow> bool \<Rightarrow> 'a contacts_list_scheme \<Rightarrow> 'a contacts_list_scheme" where
  "ct_handleUserIsContactUpdated d userId isContact s =
     (if isContact then
        (if userId \<notin> set (us_ids s)
         then (let i = int (length (us_ids s)) in us_emitRows d (RowsInserted i i) (s\<lparr>us_ids := us_ids s @ [userId]\<rparr>))
         else s)
      else if userId \<in> set (us_ids s)
      then (let i = qindex userId (us_ids s)
            in us_emitRows d (RowsRemoved i i) (s\<lparr>us_ids := remove_at (nat i) (us_ids s)\<rparr>))
      else s)"

text \<open>The loop over the roles, and the comparison by the id behind it.\<close>

fun compareByRoles :: "(user_role \<Rightarrow> string) \<Rightarrow> (user_role \<Rightarrow> string) \<Rightarrow> user_role list \<Rightarrow> bool \<Rightarrow> bool" where
  "compareByRoles f g [] otherwise = otherwise"
| "compareByRoles f g (role # roles) otherwise =
     (if f role \<noteq> g role then f role < g role else compareByRoles f g roles otherwise)"

definition ct_compareUsersByName :: "(user_role \<Rightarrow> qvariant) \<Rightarrow> (user_role \<Rightarrow> qvariant) \<Rightarrow> bool" where
  "ct_compareUsersByName f g =
     compareByRoles (toString \<circ> f) (toString \<circ> g) [UserRoleTitle, UserRoleUsername, UserRolePhoneNumber]
       (toLongLong (f UserRoleUserId) < toLongLong (g UserRoleUserId))"

definition userStatuses :: "string list" where
  "userStatuses =
     [''userStatusEmpty'', ''userStatusLastMonth'', ''userStatusLastWeek'', ''userStatusOffline'', ''userStatusRecently'',
      ''userStatusOnline'']"

definition ct_compareUsersByStatus :: "(user_role \<Rightarrow> qvariant) \<Rightarrow> (user_role \<Rightarrow> qvariant) \<Rightarrow> bool" where
  "ct_compareUsersByStatus f g =
     (let status1 = toString (f UserRoleUserStatus); status2 = toString (g UserRoleUserStatus);
          statusIndex1 = qindex status1 userStatuses; statusIndex2 = qindex status2 userStatuses;
          lastOnline1 = toInt (f UserRoleUserLastOnline); lastOnline2 = toInt (g UserRoleUserLastOnline)
      in if statusIndex1 \<noteq> statusIndex2 then statusIndex1 < statusIndex2
         else if status1 = ''userStatusOffline'' \<and> lastOnline1 \<noteq> lastOnline2 then lastOnline1 < lastOnline2
         else ct_compareUsersByName f g)"

definition ct_compare :: "translator \<Rightarrow> td_state \<Rightarrow> 'a contacts_list_scheme \<Rightarrow> bool \<Rightarrow> int \<Rightarrow> int \<Rightarrow> bool" where
  "ct_compare tr d s byStatus index1 index2 =
     (if \<not> valid_row index1 (us_ids s) then False
      else if \<not> valid_row index2 (us_ids s) then True
      else if byStatus then ct_compareUsersByStatus (us_data tr d s index1) (us_data tr d s index2)
      else ct_compareUsersByName (us_data tr d s index1) (us_data tr d s index2))"

section \<open>The proxy\<close>

text \<open>
  The column a proxy is sorted by is -1 at first: its rows are then those of the source, in their order. \<open>cx_rows\<close>
  is the order Qt gives the rows when it arranges them: when it maps a source that was reset, with \<open>sort\<close> and
  with \<open>invalidate\<close>.
\<close>

record contacts_model = contacts_list +
  cx_sortByStatus :: bool
  cx_dynamic :: bool
  cx_sortColumn :: int

definition cx_lessThan :: "translator \<Rightarrow> td_state \<Rightarrow> contacts_model \<Rightarrow> nat \<Rightarrow> nat \<Rightarrow> bool" where
  "cx_lessThan tr d s i j = ct_compare tr d s (cx_sortByStatus s) (int i) (int j)"

definition cx_rows :: "translator \<Rightarrow> td_state \<Rightarrow> contacts_model \<Rightarrow> nat list" where
  "cx_rows tr d s =
     (let rows = [0..<length (us_ids s)]
      in if cx_sortColumn s < 0 then rows else std_sort (cx_lessThan tr d s) rows)"

text \<open>
  The list is a member that is constructed with the wrapper, before the proxy is connected to it: the constructor
  of \<open>UsersModel\<close> calls its own \<open>setupTdLibWrapper\<close>, not that of the list.
\<close>

definition cx_new :: "nat option \<Rightarrow> contacts_model" where
  "cx_new wrapper =
     us_setupTdLibWrapper \<lparr>us_wrapper = wrapper, us_ids = [], us_connected = [], us_outputs = [],
       ct_query = [], ct_receiving = [], cx_sortByStatus = True, cx_dynamic = True, cx_sortColumn = -1\<rparr>"

definition cx_setTdLibWrapper :: "nat option \<Rightarrow> contacts_model \<Rightarrow> contacts_model" where
  "cx_setTdLibWrapper = us_setTdLibWrapper ct_setupTdLibWrapper"

definition cx_setQuery :: "string \<Rightarrow> contacts_model \<Rightarrow> contacts_model" where
  "cx_setQuery newQuery s =
     (if ct_query s \<noteq> newQuery
      then us_emit UsQueryChanged ((ct_fetch (s\<lparr>ct_query := newQuery\<rparr>))\<lparr>cx_dynamic := False, cx_sortColumn := -1\<rparr>)
      else s)"

definition cx_setSortByStatus :: "bool \<Rightarrow> contacts_model \<Rightarrow> contacts_model" where
  "cx_setSortByStatus value s =
     (if cx_sortByStatus s \<noteq> value then us_emit UsSortByStatusChanged (s\<lparr>cx_sortByStatus := value, cx_sortColumn := 0\<rparr>) else s)"

section \<open>Known users\<close>

text \<open>
  A \<open>QMap\<close> from the decimal numbers of the ids, in the order of these strings. No signal is emitted when it
  changes.
\<close>

datatype known_role =
  KnownRoleDisplay | KnownRoleUserId | KnownRoleTitle | KnownRoleUsername | KnownRoleUserHandle | KnownRolePhoto
| KnownRoleFilter

definition knownRoleNames :: "(known_role \<times> string) list" where
  "knownRoleNames =
     [(KnownRoleDisplay, ''display''), (KnownRoleUserId, ''user_id''), (KnownRoleTitle, ''title''),
      (KnownRoleUsername, ''user_name''), (KnownRoleUserHandle, ''user_handle''), (KnownRolePhoto, ''photo_data''),
      (KnownRoleFilter, ''filter'')]"

record known_users =
  ku_users :: "(string \<times> vmap) list"
  ku_outputs :: "(row_event \<times> vmap list) list"

definition ku_handleUserUpdated :: "int \<Rightarrow> vmap \<Rightarrow> known_users \<Rightarrow> known_users" where
  "ku_handleUserUpdated userId userInformation s = s\<lparr>ku_users := qmap_insert (show_int userId) userInformation (ku_users s)\<rparr>"

definition ku_rowCount :: "known_users \<Rightarrow> nat" where
  "ku_rowCount s = length (ku_users s)"

definition ku_userData :: "vmap \<Rightarrow> known_role \<Rightarrow> qvariant" where
  "ku_userData user role =
     (let firstName = toString (mvalue user ''first_name''); lastName = toString (mvalue user ''last_name'');
          username = toString (mvalue (toMap (mvalue user ''usernames'')) ''editable_username'')
      in case role of
           KnownRoleDisplay \<Rightarrow> QMap user
         | KnownRoleUserId \<Rightarrow> mvalue user ''id''
         | KnownRoleTitle \<Rightarrow> QString (trimmed (firstName @ '' '' @ lastName))
         | KnownRoleUsername \<Rightarrow> QString username
         | KnownRoleUserHandle \<Rightarrow> QString (''@'' @ (if username = [] then toString (mvalue user ''id'') else username))
         | KnownRolePhoto \<Rightarrow> mvalue user ''profile_photo''
         | KnownRoleFilter \<Rightarrow> QString (trimmed (firstName @ '' '' @ lastName @ '' '' @ username)))"

text \<open>\<open>values().value(row).toMap()\<close>.\<close>

definition ku_data :: "known_users \<Rightarrow> int \<Rightarrow> known_role \<Rightarrow> qvariant" where
  "ku_data s row role =
     (if row < 0 then QInvalid
      else ku_userData (if row < int (length (ku_users s)) then snd (ku_users s ! nat row) else fmempty) role)"

end
