(* ===== verification/UserProperties.thy ===== *)
theory UserProperties imports Users
begin

text \<open>
  Properties of the lists of users: the order of the contacts is a strict order by a key, and when it is used;
  the contacts that are shown are the users the store marks as contacts, with their data as they are; and what is
  not announced.
\<close>

section \<open>The order of contacts\<close>

type_synonym user_key = "(int \<times> int) \<times> string \<times> string \<times> string \<times> int"

definition user_key :: "bool \<Rightarrow> (user_role \<Rightarrow> qvariant) \<Rightarrow> user_key" where
  "user_key byStatus f =
     (let status = toString (f UserRoleUserStatus)
      in ((if byStatus then (qindex status userStatuses, if status = ''userStatusOffline'' then toInt (f UserRoleUserLastOnline) else 0)
           else (0, 0)),
          toString (f UserRoleTitle), toString (f UserRoleUsername), toString (f UserRolePhoneNumber), toLongLong (f UserRoleUserId)))"

lemma qindex_ge: "- 1 \<le> qindex x xs"
  by (induction xs) (auto simp: Let_def)

lemma qindex_offline: "qindex x userStatuses = qindex ''userStatusOffline'' userStatuses \<Longrightarrow> x = ''userStatusOffline''"
  by (simp add: userStatuses_def split: if_splits)

lemma pair_less: "(a, b) < (c, d) \<longleftrightarrow> (if a \<noteq> c then a < c else b < d)" for a c :: "'a::linorder" and b d :: "'b::linorder"
  by auto

lemma compareUsersByName_key: "ct_compareUsersByName f g \<longleftrightarrow> user_key False f < user_key False g"
  by (simp add: ct_compareUsersByName_def user_key_def pair_less Let_def del: less_prod_simp)

lemma compareUsersByStatus_key: "ct_compareUsersByStatus f g \<longleftrightarrow> user_key True f < user_key True g"
proof -
  let ?i = "\<lambda>f. qindex (toString (f UserRoleUserStatus)) userStatuses"
  have "toString (f UserRoleUserStatus) = ''userStatusOffline'' \<longleftrightarrow> toString (g UserRoleUserStatus) = ''userStatusOffline''"
    if "?i f = ?i g" using that qindex_offline by metis
  then show ?thesis
    by (simp add: ct_compareUsersByStatus_def ct_compareUsersByName_def user_key_def pair_less Let_def del: less_prod_simp)
qed

lemma ct_compare_key:
  "valid_row i (us_ids s) \<Longrightarrow> valid_row j (us_ids s) \<Longrightarrow>
     ct_compare tr d s byStatus i j \<longleftrightarrow> user_key byStatus (us_data tr d s i) < user_key byStatus (us_data tr d s j)"
  by (simp add: ct_compare_def compareUsersByName_key compareUsersByStatus_key)

datatype cx_event =
  CmWrapper "nat option"
| CmQuery string
| CmSortByStatus bool
| CmUsersReceived td_state string "qvariant list"
| CmIsContact td_state int bool
| CmUserUpdated td_state int

fun cx_handle :: "cx_event \<Rightarrow> contacts_model \<Rightarrow> contacts_model" where
  "cx_handle (CmWrapper w) s = cx_setTdLibWrapper w s"
| "cx_handle (CmQuery q) s = cx_setQuery q s"
| "cx_handle (CmSortByStatus v) s = cx_setSortByStatus v s"
| "cx_handle (CmUsersReceived d extra ids) s = ct_handleUsersReceived d extra ids s"
| "cx_handle (CmIsContact d i b) s = ct_handleUserIsContactUpdated d i b s"
| "cx_handle (CmUserUpdated d i) s = us_handleUserUpdated d i s"

text \<open>
  Whether an order was asked for since the query was changed last, and by what: a change of the order asks for it,
  a change of the query forgets it.
\<close>

fun order_asked :: "cx_event list \<Rightarrow> string \<Rightarrow> bool \<Rightarrow> bool \<Rightarrow> bool \<times> bool" where
  "order_asked [] query by asked = (asked, by)"
| "order_asked (CmQuery q # es) query by asked = order_asked es q by (asked \<and> q = query)"
| "order_asked (CmSortByStatus v # es) query by asked = order_asked es query v (asked \<or> v \<noteq> by)"
| "order_asked (e # es) query by asked = order_asked es query by asked"

definition arranged :: "string \<Rightarrow> bool \<Rightarrow> bool \<Rightarrow> contacts_model \<Rightarrow> bool" where
  "arranged query by asked s \<longleftrightarrow> ct_query s = query \<and> cx_sortByStatus s = by \<and> (cx_sortColumn s \<ge> 0 \<longleftrightarrow> asked)"

lemma arranged_keep [simp]:
  "arranged query by asked (cx_setTdLibWrapper w s) \<longleftrightarrow> arranged query by asked s"
  "arranged query by asked (ct_handleUsersReceived d extra ids s) \<longleftrightarrow> arranged query by asked s"
  "arranged query by asked (ct_handleUserIsContactUpdated d i b s) \<longleftrightarrow> arranged query by asked s"
  "arranged query by asked (us_handleUserUpdated d i s) \<longleftrightarrow> arranged query by asked s"
  by (auto simp: arranged_def cx_setTdLibWrapper_def us_setTdLibWrapper_def ct_setupTdLibWrapper_def us_setupTdLibWrapper_def
      ct_fetch_def us_emit_def ct_handleUsersReceived_def us_setUserVariantIds_def us_emitRows_def
      ct_handleUserIsContactUpdated_def us_handleUserUpdated_def Let_def split: option.splits)

lemma arranged_set:
  "arranged query by asked s \<Longrightarrow> arranged q by (asked \<and> q = query) (cx_setQuery q s)"
  "arranged query by asked s \<Longrightarrow> arranged query v (asked \<or> v \<noteq> by) (cx_setSortByStatus v s)"
  by (auto simp: arranged_def cx_setQuery_def cx_setSortByStatus_def ct_fetch_def us_emit_def)

lemma arranged_run:
  "arranged query by asked s \<Longrightarrow> order_asked es query by asked = (asked', by') \<Longrightarrow>
     \<exists>query'. arranged query' by' asked' (fold cx_handle es s)"
proof (induction es arbitrary: query "by" asked s)
  case Nil
  then show ?case by auto
next
  case (Cons e es)
  show ?case
  proof (cases e)
    case (CmQuery q)
    with Cons.IH [OF arranged_set(1) [OF Cons.prems(1), of q]] Cons.prems(2) show ?thesis by simp
  next
    case (CmSortByStatus v)
    with Cons.IH [OF arranged_set(2) [OF Cons.prems(1), of v]] Cons.prems(2) show ?thesis by simp
  qed (use Cons in \<open>auto\<close>)
qed

lemma cx_lessThan_key:
  "i < length (us_ids s) \<Longrightarrow> j < length (us_ids s) \<Longrightarrow> cx_lessThan tr d s i j \<longleftrightarrow>
     user_key (cx_sortByStatus s) (us_data tr d s (int i)) < user_key (cx_sortByStatus s) (us_data tr d s (int j))"
  by (simp add: cx_lessThan_def ct_compare_key valid_row_def)

lemma cx_rows_sorted:
  assumes "cx_sortColumn s \<ge> 0"
  shows "sorted (map (\<lambda>i. user_key (cx_sortByStatus s) (us_data tr d s (int i))) (cx_rows tr d s)) \<and>
    mset (cx_rows tr d s) = mset [0..<length (us_ids s)]"
proof -
  let ?k = "\<lambda>i. user_key (cx_sortByStatus s) (us_data tr d s (int i))" and ?A = "{0..<length (us_ids s)}"
  have rows: "cx_rows tr d s = std_sort (cx_lessThan tr d s) [0..<length (us_ids s)]"
    using assms by (simp add: cx_rows_def)
  have "strict_on ?A (cx_lessThan tr d s)"
    unfolding strict_on_def by (auto simp: cx_lessThan_key)
  then have "sorted_wrt (\<lambda>a b. \<not> cx_lessThan tr d s b a) (cx_rows tr d s)"
    unfolding rows by (rule sorted_std_sort) auto
  then have "sorted_wrt (\<lambda>a b. ?k a \<le> ?k b) (cx_rows tr d s)"
    by (rule sorted_wrt_mono_rel [rotated]) (auto simp: rows cx_lessThan_key)
  then show ?thesis by (simp add: rows sorted_map)
qed


definition sample_people :: td_state where
  "sample_people = (td_new 0 0 0)\<lparr>td_users := [1 \<mapsto> fmap_of_list [(''id'', QInt 1), (''first_name'', QString ''Zoe'')],
     2 \<mapsto> fmap_of_list [(''id'', QInt 2), (''first_name'', QString ''Ann'')]]\<rparr>"


section \<open>Contacts and the store\<close>

text \<open>
  What the store signals goes to the slots of the list. The signal that a user became a contact comes before the user
  is in the store: the list then reads the users of before, \<open>d\<close>; the signal that the user changed comes after it.
\<close>

fun ct_slot :: "td_state \<Rightarrow> td_state \<Rightarrow> td_output \<Rightarrow> 'a contacts_list_scheme \<Rightarrow> 'a contacts_list_scheme" where
  "ct_slot d d' (UserIsContactUpdated i b) s = ct_handleUserIsContactUpdated d i b s"
| "ct_slot d d' (UserUpdated i user) s = us_handleUserUpdated d' i s"
| "ct_slot d d' _ s = s"

definition ct_follow :: "td_state \<Rightarrow> td_state \<Rightarrow> 'a contacts_list_scheme \<Rightarrow> 'a contacts_list_scheme" where
  "ct_follow d d' s = fold (ct_slot d d') (drop (length (td_outputs d)) (td_outputs d')) s"

fun us_rows_log :: "us_output list \<Rightarrow> (row_event \<times> vmap list) list" where
  "us_rows_log [] = []"
| "us_rows_log (UsRows e rows # os) = (e, rows) # us_rows_log os"
| "us_rows_log (_ # os) = us_rows_log os"

lemma us_rows_log_append [simp]: "us_rows_log (xs @ ys) = us_rows_log xs @ us_rows_log ys"
  by (induction xs rule: us_rows_log.induct) auto

definition us_view :: "'a users_model_scheme \<Rightarrow> vmap list" where
  "us_view s = view_replay (us_rows_log (us_outputs s)) []"

definition is_contact :: "td_state \<Rightarrow> int \<Rightarrow> bool" where
  "is_contact d i \<longleftrightarrow> toBool (mvalue (td_getUserInformation i d) ''is_contact'')"

definition contacts_ok :: "td_state \<Rightarrow> 'a contacts_list_scheme \<Rightarrow> bool" where
  "contacts_ok d s \<longleftrightarrow> distinct (us_ids s) \<and> (\<forall>i. i \<in> set (us_ids s) \<longleftrightarrow> is_contact d i) \<and> us_view s = us_shown d s"

lemma us_view_emitRows: "us_view (us_emitRows d e s) = view_step (us_shown d s) e (us_view s)"
  by (simp add: us_view_def us_emitRows_def us_emit_def)

lemma us_emitRows_fields [simp]: "us_ids (us_emitRows d e s) = us_ids s" "us_shown d' (us_emitRows d e s) = us_shown d' s"
  by (simp_all add: us_emitRows_def us_emit_def us_shown_def)

lemma us_view_ids [simp]: "us_view (s\<lparr>us_ids := ids\<rparr>) = us_view s"
  by (simp add: us_view_def)

lemma qindex_nth: "x \<in> set xs \<Longrightarrow> \<exists>k. qindex x xs = int k \<and> k < length xs \<and> xs ! k = x"
proof (induction xs)
  case (Cons y ys)
  show ?case
  proof (cases "x = y")
    case False
    with Cons obtain k where "qindex x ys = int k" "k < length ys" "ys ! k = x" by auto
    with False have "qindex x (y # ys) = int (Suc k)" by simp
    with \<open>k < length ys\<close> \<open>ys ! k = x\<close> show ?thesis by (intro exI [of _ "Suc k"]) simp
  qed auto
qed simp

lemma set_remove_at: "distinct xs \<Longrightarrow> k < length xs \<Longrightarrow> set (remove_at k xs) = set xs - {xs ! k} \<and> distinct (remove_at k xs)"
proof -
  assume d: "distinct xs" and k: "k < length xs"
  define ys x zs where "ys = take k xs" and "x = xs ! k" and "zs = drop (Suc k) xs"
  have "xs = ys @ x # zs" "remove_at k xs = ys @ zs"
    using id_take_nth_drop [OF k] by (simp_all add: ys_def x_def zs_def remove_at_def)
  with d show ?thesis unfolding x_def [symmetric] by auto
qed

text \<open>The two slots, with the view.\<close>

lemma contact_slot:
  assumes "distinct (us_ids s)" and "us_view s = us_shown d s"
  shows "distinct (us_ids (ct_handleUserIsContactUpdated d i b s)) \<and>
    set (us_ids (ct_handleUserIsContactUpdated d i b s)) = (if b then insert i (set (us_ids s)) else set (us_ids s) - {i}) \<and>
    us_view (ct_handleUserIsContactUpdated d i b s) = us_shown d (ct_handleUserIsContactUpdated d i b s)"
proof (cases "b \<longleftrightarrow> i \<in> set (us_ids s)")
  case True
  then have "ct_handleUserIsContactUpdated d i b s = s" by (auto simp: ct_handleUserIsContactUpdated_def)
  with True assms show ?thesis by auto
next
  case False
  show ?thesis
  proof (cases b)
    case True
    with False assms show ?thesis
      by (simp add: ct_handleUserIsContactUpdated_def us_view_emitRows Let_def) (simp add: us_shown_def)
  next
    case gone: False
    with False have i: "i \<in> set (us_ids s)" by simp
    then obtain k where k: "qindex i (us_ids s) = int k" "k < length (us_ids s)" "us_ids s ! k = i"
      using qindex_nth by fast
    have "remove_slice k k xs = remove_at k xs" for xs :: "vmap list" by (simp add: remove_slice_def remove_at_def)
    with i gone k assms set_remove_at [OF assms(1) k(2)] show ?thesis
      by (simp add: ct_handleUserIsContactUpdated_def us_view_emitRows Let_def) (simp add: us_shown_def map_remove_at)
  qed
qed

lemma user_slot:
  assumes "distinct (us_ids s)" and "us_view s = us_shown d s"
    and "\<And>j. j \<noteq> i \<Longrightarrow> td_getUserInformation j d' = td_getUserInformation j d"
  shows "us_ids (us_handleUserUpdated d' i s) = us_ids s \<and> us_view (us_handleUserUpdated d' i s) = us_shown d' (us_handleUserUpdated d' i s)"
proof (cases "i \<in> set (us_ids s)")
  case False
  then have "td_getUserInformation j d' = td_getUserInformation j d" if "j \<in> set (us_ids s)" for j
    using that assms(3) by metis
  then have "us_shown d' s = us_shown d s" by (simp add: us_shown_def)
  with False assms show ?thesis by (simp add: us_handleUserUpdated_def)
next
  case True
  then obtain k where k: "qindex i (us_ids s) = int k" "k < length (us_ids s)" "us_ids s ! k = i"
    using qindex_nth by fast
  have "(us_shown d s)[k := us_shown d' s ! k] = us_shown d' s"
  proof (rule nth_equalityI)
    fix j assume "j < length ((us_shown d s)[k := us_shown d' s ! k])"
    then have j: "j < length (us_ids s)" by (simp add: us_shown_def)
    with k assms(1) have "us_ids s ! j \<noteq> i" if "j \<noteq> k" using that nth_eq_iff_index_eq by fastforce
    with j k assms(3) show "(us_shown d s)[k := us_shown d' s ! k] ! j = us_shown d' s ! j"
      by (cases "j = k") (simp_all add: us_shown_def)
  qed (simp add: us_shown_def)
  with True k assms(2) show ?thesis
    by (simp add: us_handleUserUpdated_def us_view_emitRows valid_row_def) (simp add: us_shown_def)
qed

lemma user_updated_outputs:
  "\<exists>me. td_outputs (td_handleUserUpdated user d) = td_outputs d @ me @
     (let i = toLongLong (mvalue user ''id''); b = toBool (mvalue user ''is_contact'')
      in (if is_contact d i \<noteq> b then [UserIsContactUpdated i b] else []) @ [UserUpdated i user]) \<and> set me \<subseteq> {MyUserUpdated}"
  "td_users (td_handleUserUpdated user d) = (td_users d)(toLongLong (mvalue user ''id'') \<mapsto> user)"
  by (auto simp: td_handleUserUpdated_def td_updateUserInformation_def is_contact_def td_getUserInformation_def Let_def td_emit_def)

lemma fold_my_user: "set me \<subseteq> {MyUserUpdated} \<Longrightarrow> fold (ct_slot d d') me s = s"
  by (induction me) auto

lemma contacts_ok_user:
  assumes ok: "contacts_ok d s"
  shows "contacts_ok (td_handleUserUpdated user d) (ct_follow d (td_handleUserUpdated user d) s)"
proof -
  define i b d' where "i = toLongLong (mvalue user ''id'')" and "b = toBool (mvalue user ''is_contact'')" and
    "d' = td_handleUserUpdated user d"
  obtain me where me: "td_outputs d' = td_outputs d @ me @ (if is_contact d i \<noteq> b then [UserIsContactUpdated i b] else []) @ [UserUpdated i user]"
    "set me \<subseteq> {MyUserUpdated}"
    using user_updated_outputs(1) [of user d] by (auto simp: i_def b_def d'_def Let_def)
  define s1 where "s1 = (if is_contact d i \<noteq> b then ct_handleUserIsContactUpdated d i b s else s)"
  have follow: "ct_follow d d' s = us_handleUserUpdated d' i s1"
    by (simp add: ct_follow_def me(1) fold_my_user [OF me(2)] s1_def)
  have users: "td_getUserInformation j d' = (if j = i then user else td_getUserInformation j d)" for j
    by (simp add: td_getUserInformation_def d'_def user_updated_outputs(2) i_def the_map_def)
  have s1: "distinct (us_ids s1)" "us_view s1 = us_shown d s1"
    using ok contact_slot [of s d i b] by (auto simp: contacts_ok_def s1_def)
  have "set (us_ids s1) = (if b then insert i (set (us_ids s)) else set (us_ids s) - {i})"
    using ok contact_slot [of s d i b] by (auto simp: contacts_ok_def s1_def)
  then have "j \<in> set (us_ids s1) \<longleftrightarrow> is_contact d' j" for j
    using ok by (auto simp: contacts_ok_def is_contact_def users b_def)
  with s1 user_slot [of s1 d i d'] users show ?thesis
    unfolding d'_def [symmetric] follow contacts_ok_def by simp
qed

text \<open>The update of a status, in steps: what is me, the user, the chat with the user.\<close>

definition status_me :: "int \<Rightarrow> vmap \<Rightarrow> td_state \<Rightarrow> td_state" where
  "status_me i st d = (if i = td_myId d
     then td_emit MyUserUpdated (d\<lparr>td_userInformation := minsert ''status'' (QMap st) (td_userInformation d)\<rparr>) else d)"

definition status_chat :: "int \<Rightarrow> vmap \<Rightarrow> td_state \<Rightarrow> td_state" where
  "status_chat i st d = (case td_chat d i of None \<Rightarrow> d | Some c \<Rightarrow>
     (let (changed, c') = updateUserStatus st c
      in if changed then td_emit (ChatRolesUpdated i [ChatRoleIsOnline]) (td_setChat i c' d) else td_setChat i c' d))"

lemma status_steps:
  "td_handleUserStatusUpdated i st d =
     (let user = td_getUserInformation i d
      in if mvalue user ''status'' = QMap st then status_me i st d
         else status_chat i st (td_updateUserInformation i (minsert ''status'' (QMap st) user) (status_me i st d)))"
proof -
  have "the_map (td_users (status_me i st d) i) = td_getUserInformation i d"
    by (simp add: status_me_def td_getUserInformation_def)
  then show ?thesis
    unfolding td_handleUserStatusUpdated_def status_me_def [symmetric] Let_def status_chat_def
    by (simp split: option.split prod.split)
qed

lemma status_me_outputs:
  "\<exists>me. td_outputs (status_me i st d) = td_outputs d @ me \<and> set me \<subseteq> {MyUserUpdated}" "td_users (status_me i st d) = td_users d"
  by (auto simp: status_me_def)

lemma status_chat_outputs:
  "\<exists>rest. td_outputs (status_chat i st d) = td_outputs d @ rest \<and> set rest \<subseteq> {ChatRolesUpdated i [ChatRoleIsOnline]}"
  "td_users (status_chat i st d) = td_users d"
  by (auto simp: status_chat_def split: option.split prod.split)

lemma td_updateUserInformation_fields:
  "td_outputs (td_updateUserInformation i u d) = td_outputs d @ [UserUpdated i u]"
  "td_users (td_updateUserInformation i u d) = (td_users d)(i \<mapsto> u)"
  by (simp_all add: td_updateUserInformation_def)

lemma user_status_outputs:
  "\<exists>me rest. td_outputs (td_handleUserStatusUpdated i st d) = td_outputs d @ me @
     (if mvalue (td_getUserInformation i d) ''status'' = QMap st then []
      else UserUpdated i (minsert ''status'' (QMap st) (td_getUserInformation i d)) # rest) \<and>
     set me \<subseteq> {MyUserUpdated} \<and> set rest \<subseteq> {ChatRolesUpdated i [ChatRoleIsOnline]}"
  "td_getUserInformation j (td_handleUserStatusUpdated i st d) =
     (if j = i \<and> mvalue (td_getUserInformation i d) ''status'' \<noteq> QMap st
      then minsert ''status'' (QMap st) (td_getUserInformation i d) else td_getUserInformation j d)"
proof -
  obtain me where me: "td_outputs (status_me i st d) = td_outputs d @ me" "set me \<subseteq> {MyUserUpdated}"
    using status_me_outputs(1) by blast
  let ?d = "td_updateUserInformation i (minsert ''status'' (QMap st) (td_getUserInformation i d)) (status_me i st d)"
  obtain rest where rest: "td_outputs (status_chat i st ?d) = td_outputs ?d @ rest" "set rest \<subseteq> {ChatRolesUpdated i [ChatRoleIsOnline]}"
    using status_chat_outputs(1) by blast
  show "\<exists>me rest. td_outputs (td_handleUserStatusUpdated i st d) = td_outputs d @ me @
     (if mvalue (td_getUserInformation i d) ''status'' = QMap st then []
      else UserUpdated i (minsert ''status'' (QMap st) (td_getUserInformation i d)) # rest) \<and>
     set me \<subseteq> {MyUserUpdated} \<and> set rest \<subseteq> {ChatRolesUpdated i [ChatRoleIsOnline]}"
    using me rest by (intro exI [of _ me] exI [of _ rest]) (simp add: status_steps Let_def td_updateUserInformation_fields)
  show "td_getUserInformation j (td_handleUserStatusUpdated i st d) =
     (if j = i \<and> mvalue (td_getUserInformation i d) ''status'' \<noteq> QMap st
      then minsert ''status'' (QMap st) (td_getUserInformation i d) else td_getUserInformation j d)"
    by (simp add: status_steps Let_def td_getUserInformation_def status_me_outputs status_chat_outputs td_updateUserInformation_fields the_map_def)
qed

lemma fold_no_slot: "set rest \<subseteq> {ChatRolesUpdated i rs} \<Longrightarrow> fold (ct_slot d d') rest s = s"
  by (induction rest) auto

lemma contacts_ok_status:
  assumes ok: "contacts_ok d s"
  shows "contacts_ok (td_handleUserStatusUpdated i st d) (ct_follow d (td_handleUserStatusUpdated i st d) s)"
proof -
  define d' where "d' = td_handleUserStatusUpdated i st d"
  obtain me rest where out: "td_outputs d' = td_outputs d @ me @ (if mvalue (td_getUserInformation i d) ''status'' = QMap st then []
      else UserUpdated i (minsert ''status'' (QMap st) (td_getUserInformation i d)) # rest)"
    "set me \<subseteq> {MyUserUpdated}" "set rest \<subseteq> {ChatRolesUpdated i [ChatRoleIsOnline]}"
    using user_status_outputs(1) [of i st d] unfolding d'_def by blast
  have same: "is_contact d' j \<longleftrightarrow> is_contact d j" for j
    by (simp add: is_contact_def d'_def user_status_outputs(2))
  have ok0: "distinct (us_ids s)" "us_view s = us_shown d s" "\<And>j. j \<in> set (us_ids s) \<longleftrightarrow> is_contact d' j"
    using ok by (auto simp: contacts_ok_def same)
  show ?thesis
  proof (cases "mvalue (td_getUserInformation i d) ''status'' = QMap st")
    case True
    then have "ct_follow d d' s = s" "us_shown d' s = us_shown d s"
      using out by (simp_all add: ct_follow_def fold_my_user us_shown_def d'_def user_status_outputs(2))
    with ok0 show ?thesis unfolding d'_def [symmetric] contacts_ok_def by simp
  next
    case False
    then have "ct_follow d d' s = us_handleUserUpdated d' i s"
      using out by (simp add: ct_follow_def fold_my_user fold_no_slot)
    moreover have "td_getUserInformation j d' = td_getUserInformation j d" if "j \<noteq> i" for j
      using that by (simp add: d'_def user_status_outputs(2))
    ultimately show ?thesis
      using ok0 user_slot [of s d i d'] unfolding d'_def [symmetric] contacts_ok_def by simp
  qed
qed

text \<open>
  The list from the answer to \<open>getContacts\<close> on: TDLib answers with the contacts, each once; then users and their status
  are updated, and the store may change in what is not about users.
\<close>

inductive contacts_run :: "td_state \<Rightarrow> contacts_list \<Rightarrow> bool" where
  answered: "distinct (map toLongLong ids) \<Longrightarrow> (\<forall>i. i \<in> set (map toLongLong ids) \<longleftrightarrow> is_contact d i) \<Longrightarrow>
    contacts_run d (ct_handleUsersReceived d ''contacts'' ids s)"
| user: "contacts_run d s \<Longrightarrow> contacts_run (td_handleUserUpdated user d) (ct_follow d (td_handleUserUpdated user d) s)"
| status: "contacts_run d s \<Longrightarrow> contacts_run (td_handleUserStatusUpdated i st d) (ct_follow d (td_handleUserStatusUpdated i st d) s)"
| other: "contacts_run d s \<Longrightarrow> td_users d' = td_users d \<Longrightarrow> contacts_run d' s"

lemma contacts_run_ok: "contacts_run d s \<Longrightarrow> contacts_ok d s"
proof (induction rule: contacts_run.induct)
  case (answered ids d s)
  then show ?case
    by (simp add: contacts_ok_def ct_handleUsersReceived_def us_setUserVariantIds_def us_view_emitRows)
next
  case (other d s d')
  then have "td_getUserInformation j d' = td_getUserInformation j d" for j by (simp add: td_getUserInformation_def)
  with other show ?case by (simp add: contacts_ok_def is_contact_def us_shown_def)
qed (simp_all add: contacts_ok_user contacts_ok_status)


definition sample_contact :: "int \<Rightarrow> vmap" where
  "sample_contact i = fmap_of_list [(''id'', QInt i), (''is_contact'', QBool True)]"


text \<open>A list that is constructed with its wrapper is not connected to the answers, asks for nothing, and setting the wrapper
again changes nothing; one that is constructed without it asks for the contacts when the wrapper is set.\<close>

theorem contacts_not_connected:
  "ct_receiving (cx_setTdLibWrapper (Some w) (cx_new (Some w))) = [] \<and>
   us_outputs (cx_setTdLibWrapper (Some w) (cx_new (Some w))) = [] \<and>
   ct_receiving (cx_setTdLibWrapper (Some w) (cx_new None)) = [w] \<and>
   us_outputs (cx_setTdLibWrapper (Some w) (cx_new None)) = [UsGetContacts, UsWrapperChanged]"
  by (simp add: cx_new_def us_setupTdLibWrapper_def cx_setTdLibWrapper_def us_setTdLibWrapper_def ct_setupTdLibWrapper_def
      ct_fetch_def us_emit_def Let_def)

text \<open>The answer with all contacts is taken also when it comes after a query was set, whose results it replaces.\<close>

theorem late_contacts_taken:
  "us_ids (ct_handleUsersReceived d ''contacts'' ids (cx_setQuery query s)) = map toLongLong ids"
  by (simp add: ct_handleUsersReceived_def us_setUserVariantIds_def)

section \<open>Known users\<close>

definition ku_run :: "(int \<times> vmap) list \<Rightarrow> known_users" where
  "ku_run us = fold (\<lambda>(i, u). ku_handleUserUpdated i u) us \<lparr>ku_users = [], ku_outputs = []\<rparr>"

lemma ku_run_snoc: "ku_run (us @ [(i, u)]) = ku_handleUserUpdated i u (ku_run us)"
  by (simp add: ku_run_def)

lemma ku_run_sorted: "sorted_wrt (<) (map fst (ku_users (ku_run us))) \<and> ku_outputs (ku_run us) = []"
proof (induction us rule: rev_induct)
  case (snoc x us)
  obtain i u where "x = (i, u)" by fastforce
  with snoc show ?case by (simp add: ku_run_snoc ku_handleUserUpdated_def qmap_insert_sorted)
qed (simp add: ku_run_def)

lemma show_int_inject: "in_int64 i \<Longrightarrow> in_int64 j \<Longrightarrow> show_int i = show_int j \<longleftrightarrow> i = j"
  by (metis parse_int_show_int option.inject)

lemma ku_run_users:
  "\<forall>(j, u) \<in> set us. in_int64 j \<Longrightarrow> in_int64 i \<Longrightarrow> map_of (ku_users (ku_run us)) (show_int i) = map_of (rev us) i"
proof (induction us rule: rev_induct)
  case (snoc x us)
  obtain j u where x: "x = (j, u)" by fastforce
  with snoc.prems have "in_int64 j" by simp
  with snoc x ku_run_sorted [of us] show ?case
    by (simp add: ku_run_snoc ku_handleUserUpdated_def qmap_insert_map show_int_inject)
qed (simp add: ku_run_def)

text \<open>Every user TDLib told about is known with what was told last, under one row each, in the order of the decimal
numbers as texts; but no view is told of a row that was added or changed.\<close>

theorem users_known_silently:
  assumes "\<forall>(j, u) \<in> set us. in_int64 j" and "in_int64 i"
  shows "map_of (ku_users (ku_run us)) (show_int i) = map_of (rev us) i \<and>
    sorted_wrt (<) (map fst (ku_users (ku_run us))) \<and> ku_outputs (ku_run us) = []"
  using ku_run_users [OF assms] ku_run_sorted by blast

theorem users_known_silently_witness:
  "map_of (ku_users (ku_run [(9, sample_contact 9), (10, sample_contact 10)])) (show_int 9) = Some (sample_contact 9) \<and>
   ku_rowCount (ku_run [(9, sample_contact 9), (10, sample_contact 10)]) = 2 \<and>
   ku_outputs (ku_run [(9, sample_contact 9), (10, sample_contact 10)]) = []"
proof -
  let ?us = "[(9, sample_contact 9), (10, sample_contact 10)]"
  have "show_int 9 = ''9''" "show_int 10 = ''10''" by code_simp+
  then have "ku_rowCount (ku_run ?us) = 2" by (simp add: ku_run_def ku_handleUserUpdated_def ku_rowCount_def)
  with users_known_silently [of ?us 9] show ?thesis by (simp add: in_int64_def)
qed

end
