(* ===== verification/Platform.thy ===== *)
theory Platform imports YaqtPrelude SortedMaps "HOL-Library.Word"
begin

text \<open>
  The interfaces to the phone: feedback by sounds and vibration (\<open>src/ngfinterface\<close>), the daemon for the power save
  mode, lights and call state (\<open>src/mceinterface\<close>) and the routing of the sound of calls (\<open>src/callaudio\<close>).

  What the daemons and PulseAudio answer are arguments of the operations. Every call that leaves the program is
  logged, in order.
\<close>

section \<open>Feedback\<close>

text \<open>
  \<open>play\<close> calls the daemon and does not wait: the answer comes later, to the call it belongs to. \<open>ngf_pending\<close>
  are the calls that are not answered, with their number and event.
\<close>

datatype ngf_output =
  NgfPlay string vmap
| NgfPause "32 word"
| NgfStop "32 word"

record ngf_state =
  ngf_playing :: "(string \<times> 32 word) list"
  ngf_pending :: "(nat \<times> string) list"
  ngf_calls :: nat
  ngf_outputs :: "ngf_output list"

definition ngf_new :: ngf_state where
  "ngf_new = \<lparr>ngf_playing = [], ngf_pending = [], ngf_calls = 0, ngf_outputs = []\<rparr>"

definition ngf_emit :: "ngf_output \<Rightarrow> ngf_state \<Rightarrow> ngf_state" where
  "ngf_emit out s = s\<lparr>ngf_outputs := ngf_outputs s @ [out]\<rparr>"

definition ngf_playProperties :: "string \<Rightarrow> string \<Rightarrow> string \<Rightarrow> vmap" where
  "ngf_playProperties mode soundFileName type =
     (let props = minsert ''type'' (QString type) fmempty;
          props = (if mode \<noteq> [] then minsert ''play.mode'' (QString mode) props else props)
      in if soundFileName \<noteq> [] then minsert ''sound.filename'' (QString soundFileName) props else props)"

definition ngf_play :: "string \<Rightarrow> vmap \<Rightarrow> ngf_state \<Rightarrow> ngf_state" where
  "ngf_play event props s =
     (if map_of (ngf_playing s) event \<noteq> None then s
      else ngf_emit (NgfPlay event props)
             (s\<lparr>ngf_pending := ngf_pending s @ [(ngf_calls s, event)], ngf_calls := ngf_calls s + 1\<rparr>))"

text \<open>The slot for the answer of a call: an error, or the id of the event.\<close>

definition ngf_answered :: "nat \<Rightarrow> 32 word option \<Rightarrow> ngf_state \<Rightarrow> ngf_state" where
  "ngf_answered call reply s =
     (case map_of (ngf_pending s) call of
        None \<Rightarrow> s
      | Some event \<Rightarrow>
          (let s1 = s\<lparr>ngf_pending := filter (\<lambda>(c, _). c \<noteq> call) (ngf_pending s)\<rparr>
           in case reply of None \<Rightarrow> s1 | Some i \<Rightarrow> s1\<lparr>ngf_playing := qmap_insert event i (ngf_playing s1)\<rparr>))"

definition ngf_pause :: "string \<Rightarrow> ngf_state \<Rightarrow> ngf_state" where
  "ngf_pause event s = (case map_of (ngf_playing s) event of None \<Rightarrow> s | Some i \<Rightarrow> ngf_emit (NgfPause i) s)"

definition ngf_stop :: "string \<Rightarrow> ngf_state \<Rightarrow> ngf_state" where
  "ngf_stop event s = (case map_of (ngf_playing s) event of None \<Rightarrow> s | Some i \<Rightarrow> ngf_emit (NgfStop i) s)"

datatype ngf_status = NgfFailed | NgfCompleted | NgfPlaying | NgfPaused

definition ngf_status_number :: "ngf_status \<Rightarrow> 32 word" where
  "ngf_status_number st = (case st of NgfFailed \<Rightarrow> 0 | NgfCompleted \<Rightarrow> 1 | NgfPlaying \<Rightarrow> 2 | NgfPaused \<Rightarrow> 3)"

definition ngf_handleEventStatusChanged :: "32 word \<Rightarrow> 32 word \<Rightarrow> ngf_state \<Rightarrow> ngf_state" where
  "ngf_handleEventStatusChanged serverEventId status s =
     (let event = qmap_key serverEventId (ngf_playing s)
      in if event = [] then s
         else if status \<noteq> ngf_status_number NgfPlaying then s\<lparr>ngf_playing := qmap_remove event (ngf_playing s)\<rparr>
         else s)"

section \<open>Power save mode, lights and call state\<close>

datatype mce_output =
  MceCall string "string list"
| PowerSaveModeChanged bool

record mce_state =
  mce_powerSaveMode :: bool
  mce_lastSetCallState :: string
  mce_outputs :: "mce_output list"

definition mce_emit :: "mce_output \<Rightarrow> mce_state \<Rightarrow> mce_state" where
  "mce_emit out s = s\<lparr>mce_outputs := mce_outputs s @ [out]\<rparr>"

definition mce_updatePowerSaveMode :: "bool option \<Rightarrow> mce_state \<Rightarrow> mce_state" where
  "mce_updatePowerSaveMode reply s =
     (let s1 = mce_emit (MceCall ''get_psm_state'' []) s
      in case reply of None \<Rightarrow> s1 | Some b \<Rightarrow> s1\<lparr>mce_powerSaveMode := b\<rparr>)"

definition mce_new :: "bool option \<Rightarrow> mce_state" where
  "mce_new reply =
     mce_updatePowerSaveMode reply \<lparr>mce_powerSaveMode = False, mce_lastSetCallState = [], mce_outputs = []\<rparr>"

definition mce_setLedPattern :: "string \<Rightarrow> bool \<Rightarrow> mce_state \<Rightarrow> mce_state" where
  "mce_setLedPattern pattern activate =
     mce_emit (MceCall (if activate then ''req_led_pattern_activate'' else ''req_led_pattern_deactivate'') [pattern])"

definition mce_handlePowerSaveModeChanged :: "bool \<Rightarrow> mce_state \<Rightarrow> mce_state" where
  "mce_handlePowerSaveModeChanged active s =
     (if mce_powerSaveMode s \<noteq> active then mce_emit (PowerSaveModeChanged active) (s\<lparr>mce_powerSaveMode := active\<rparr>) else s)"

definition mce_setCallState :: "string \<Rightarrow> bool \<Rightarrow> mce_state \<Rightarrow> mce_state" where
  "mce_setCallState state isEmergency s =
     mce_emit (MceCall ''req_call_state_change'' [state, if isEmergency then ''emeremergency'' else ''normal''])
       (s\<lparr>mce_lastSetCallState := state\<rparr>)"

definition mce_resetCallState :: "mce_state \<Rightarrow> mce_state" where
  "mce_resetCallState = mce_setCallState ''none'' False"

section \<open>Sound devices\<close>

text \<open>The names of the output devices and the default device are what Qt answers.\<close>

fun outputDevice_loop :: "bool \<Rightarrow> string list \<Rightarrow> string \<Rightarrow> string" where
  "outputDevice_loop primaryFound [] def = (if primaryFound then ''sink.primary'' else def)"
| "outputDevice_loop primaryFound (name # names) def =
     (if name = ''sink.deep_buffer'' then name
      else if name = ''sink.primary'' then outputDevice_loop True names def
      else outputDevice_loop primaryFound names def)"

definition getOutputDeviceName :: "string list \<Rightarrow> string \<Rightarrow> string" where
  "getOutputDeviceName outputs defaultOutput = outputDevice_loop False outputs defaultOutput"

fun inputDevice_loop :: "string list \<Rightarrow> string \<Rightarrow> string" where
  "inputDevice_loop [] def = def"
| "inputDevice_loop (name # names) def = (if name = ''source.droid'' then name else inputDevice_loop names def)"

text \<open>The loop goes over the output devices; the input devices are not asked for.\<close>

definition getInputDeviceName :: "string list \<Rightarrow> string list \<Rightarrow> string \<Rightarrow> string" where
  "getInputDeviceName outputs inputs defaultInput = inputDevice_loop outputs defaultInput"

section \<open>The loudspeaker\<close>

text \<open>
  What PulseAudio answers: whether an object was made, the result of connecting, the states of the context and of
  the operation, one for each time they are asked for. Logged are the objects that were made, what is asked of them and
  their release.
\<close>

datatype context_state =
  ContextUnconnected | ContextConnecting | ContextAuthorizing | ContextSettingName | ContextReady | ContextFailed
| ContextTerminated

definition context_is_good :: "context_state \<Rightarrow> bool" where
  "context_is_good st \<longleftrightarrow> st \<in> {ContextConnecting, ContextAuthorizing, ContextSettingName, ContextReady}"

record pulse_env =
  pa_mainloop_made :: bool
  pa_context_made :: bool
  pa_connect_result :: int
  pa_context_states :: "nat \<Rightarrow> context_state"
  pa_operation_made :: bool
  pa_operation_running :: "nat \<Rightarrow> bool"

datatype pulse_call =
  MainloopNew
| ContextNew string
| ContextConnect
| MainloopIterate
| SetSinkPort string string
| OperationMade
| OperationUnref
| ContextDisconnect
| ContextUnref
| MainloopFree

text \<open>
  The loops may never end: without a result where PulseAudio answers forever that it is not ready. They give whether the
  context is ready, and the number of iterations of the main loop.
\<close>

partial_function (option) wait_context :: "(nat \<Rightarrow> context_state) \<Rightarrow> nat \<Rightarrow> (bool \<times> nat) option" where
  "wait_context states k =
     (if states k = ContextReady then Some (True, k)
      else if \<not> context_is_good (states k) then Some (False, k)
      else wait_context states (Suc k))"

partial_function (option) wait_operation :: "(nat \<Rightarrow> bool) \<Rightarrow> nat \<Rightarrow> nat option" where
  "wait_operation running k = (if running k then wait_operation running (Suc k) else Some k)"

definition toggleSpeakerphone :: "pulse_env \<Rightarrow> string \<Rightarrow> bool \<Rightarrow> pulse_call list option" where
  "toggleSpeakerphone env deviceName enabled =
     (if \<not> pa_mainloop_made env then Some []
      else if \<not> pa_context_made env then Some [MainloopNew, MainloopFree]
      else (let start = [MainloopNew, ContextNew ''yaqtlib_CallAudio'', ContextConnect];
                close = [ContextDisconnect, ContextUnref, MainloopFree] in
        if pa_connect_result env < 0 then Some (start @ [ContextUnref, MainloopFree])
        else case wait_context (pa_context_states env) 0 of
               None \<Rightarrow> None
             | Some (False, n) \<Rightarrow> Some (start @ replicate n MainloopIterate @ close)
             | Some (True, n) \<Rightarrow>
                 (let ready = start @ replicate n MainloopIterate @
                        [SetSinkPort deviceName (if enabled then ''output-speaker'' else ''output-earpiece'')] in
                  if pa_operation_made env
                  then (case wait_operation (pa_operation_running env) 0 of
                          None \<Rightarrow> None
                        | Some m \<Rightarrow> Some (ready @ [OperationMade] @ replicate m MainloopIterate @ [OperationUnref] @ close))
                  else Some (ready @ close))))"

definition toggleDefaultSpeakerphone :: "pulse_env \<Rightarrow> string list \<Rightarrow> string \<Rightarrow> bool \<Rightarrow> pulse_call list option" where
  "toggleDefaultSpeakerphone env outputs defaultOutput enabled =
     toggleSpeakerphone env (getOutputDeviceName outputs defaultOutput) enabled"

end
