(* ===== verification/PlatformProperties.thy ===== *)
theory PlatformProperties imports Platform
begin

text \<open>
  Properties of the interfaces to the phone: what is announced of the power save mode, that everything PulseAudio
  made is released and when the routing of the sound returns; and the sounds that go on playing.
\<close>

section \<open>Power save mode\<close>

fun power_save_signals :: "mce_output list \<Rightarrow> bool list" where
  "power_save_signals [] = []"
| "power_save_signals (PowerSaveModeChanged b # os) = b # power_save_signals os"
| "power_save_signals (_ # os) = power_save_signals os"

lemma power_save_signals_append [simp]: "power_save_signals (xs @ ys) = power_save_signals xs @ power_save_signals ys"
  by (induction xs rule: power_save_signals.induct) auto

datatype mce_event = MceMode bool | MceLed string bool | MceCallState string bool | MceReset

fun mce_handle :: "mce_event \<Rightarrow> mce_state \<Rightarrow> mce_state" where
  "mce_handle (MceMode b) s = mce_handlePowerSaveModeChanged b s"
| "mce_handle (MceLed p b) s = mce_setLedPattern p b s"
| "mce_handle (MceCallState st b) s = mce_setCallState st b s"
| "mce_handle MceReset s = mce_resetCallState s"

fun modes :: "mce_event list \<Rightarrow> bool list" where
  "modes [] = []"
| "modes (MceMode b # es) = b # modes es"
| "modes (_ # es) = modes es"

lemma mce_run:
  "mce_powerSaveMode (fold mce_handle es s) = last (mce_powerSaveMode s # modes es) \<and>
   power_save_signals (mce_outputs (fold mce_handle es s)) =
     power_save_signals (mce_outputs s) @ tl (remdups_adj (mce_powerSaveMode s # modes es))"
proof (induction es arbitrary: s rule: modes.induct)
  case (2 b es)
  show ?case
  proof (cases "mce_powerSaveMode s = b")
    case True
    then have "mce_handle (MceMode b) s = s" by (simp add: mce_handlePowerSaveModeChanged_def)
    with True 2 [of s] show ?thesis by simp
  next
    case False
    then have "mce_handle (MceMode b) s = mce_emit (PowerSaveModeChanged b) (s\<lparr>mce_powerSaveMode := b\<rparr>)"
      by (simp add: mce_handlePowerSaveModeChanged_def)
    with False 2 [of "mce_handle (MceMode b) s"] show ?thesis by (simp add: mce_emit_def remdups_adj_Cons' neq_commute)
  qed
qed (simp_all add: mce_setLedPattern_def mce_setCallState_def mce_resetCallState_def mce_emit_def)

text \<open>The power save mode is the one the daemon told last, and the changes that are announced are those of the sequence of modes
it told, starting from the first: each change once, nothing where the mode stays, whatever else is done between.\<close>

theorem power_save_mode_announced:
  "mce_powerSaveMode (fold mce_handle es (mce_new (Some b))) = last (b # modes es) \<and>
   b # power_save_signals (mce_outputs (fold mce_handle es (mce_new (Some b)))) = remdups_adj (b # modes es)"
proof -
  have start: "mce_powerSaveMode (mce_new (Some b)) = b" "power_save_signals (mce_outputs (mce_new (Some b))) = []"
    by (simp_all add: mce_new_def mce_updatePowerSaveMode_def mce_emit_def)
  obtain rest where "remdups_adj (b # modes es) = b # rest"
    by (cases "remdups_adj (b # modes es)") (simp, metis list.sel(1) list.distinct(1) hd_remdups_adj)
  then show ?thesis using mce_run [of es "mce_new (Some b)"] unfolding start by (simp only: list.sel append_Nil)
qed

section \<open>The loudspeaker\<close>

text \<open>Which of main loop, context and operation exist; nothing is used that does not exist or made twice.\<close>

fun pulse_live :: "pulse_call list \<Rightarrow> bool \<times> bool \<times> bool \<Rightarrow> (bool \<times> bool \<times> bool) option" where
  "pulse_live [] st = Some st"
| "pulse_live (MainloopNew # cs) (m, c, p) = (if m then None else pulse_live cs (True, c, p))"
| "pulse_live (ContextNew n # cs) (m, c, p) = (if m \<and> \<not> c then pulse_live cs (m, True, p) else None)"
| "pulse_live (ContextConnect # cs) (m, c, p) = (if c then pulse_live cs (m, c, p) else None)"
| "pulse_live (MainloopIterate # cs) (m, c, p) = (if m then pulse_live cs (m, c, p) else None)"
| "pulse_live (SetSinkPort d r # cs) (m, c, p) = (if c then pulse_live cs (m, c, p) else None)"
| "pulse_live (OperationMade # cs) (m, c, p) = (if c \<and> \<not> p then pulse_live cs (m, c, True) else None)"
| "pulse_live (OperationUnref # cs) (m, c, p) = (if p then pulse_live cs (m, c, False) else None)"
| "pulse_live (ContextDisconnect # cs) (m, c, p) = (if c then pulse_live cs (m, c, p) else None)"
| "pulse_live (ContextUnref # cs) (m, c, p) = (if c \<and> \<not> p then pulse_live cs (m, False, p) else None)"
| "pulse_live (MainloopFree # cs) (m, c, p) = (if m \<and> \<not> c then pulse_live cs (False, c, p) else None)"

lemma pulse_live_iterate [simp]: "pulse_live (replicate n MainloopIterate @ cs) (True, c, p) = pulse_live cs (True, c, p)"
  by (induction n) auto

lemma toggleSpeakerphone_released:
  "toggleSpeakerphone env device enabled = Some calls \<Longrightarrow> pulse_live calls (False, False, False) = Some (False, False, False)"
  by (auto simp: toggleSpeakerphone_def Let_def split: if_splits option.splits bool.splits)

definition context_waited :: "(nat \<Rightarrow> context_state) \<Rightarrow> nat \<Rightarrow> bool \<times> nat \<Rightarrow> bool" where
  "context_waited states k y \<longleftrightarrow> k \<le> snd y \<and>
     (\<forall>j. k \<le> j \<and> j < snd y \<longrightarrow> context_is_good (states j) \<and> states j \<noteq> ContextReady) \<and>
     (if fst y then states (snd y) = ContextReady else \<not> context_is_good (states (snd y)))"

lemma context_waited_Suc:
  "context_waited states (Suc k) y \<Longrightarrow> context_is_good (states k) \<Longrightarrow> states k \<noteq> ContextReady \<Longrightarrow> context_waited states k y"
  unfolding context_waited_def by (metis Suc_leD Suc_leI le_neq_implies_less)

lemma wait_context_Some:
  assumes "wait_context states k = Some y"
  shows "context_waited states k y"
proof (rule wait_context.raw_induct [where P = context_waited, OF _ assms])
  fix wait :: "(nat \<Rightarrow> context_state) \<Rightarrow> nat \<Rightarrow> (bool \<times> nat) option" and states k y
  assume IH: "\<And>states k y. wait states k = Some y \<Longrightarrow> context_waited states k y"
    and step: "(if states k = ContextReady then Some (True, k)
      else if \<not> context_is_good (states k) then Some (False, k) else wait states (Suc k)) = Some y"
  show "context_waited states k y"
  proof (cases "states k = ContextReady \<or> \<not> context_is_good (states k)")
    case True
    with step show ?thesis by (auto simp: context_waited_def split: if_splits)
  next
    case False
    with step have "wait states (Suc k) = Some y" by (simp split: if_splits)
    then have "context_waited states (Suc k) y" by (rule IH)
    with False show ?thesis using context_waited_Suc by blast
  qed
qed

lemma wait_context_returns:
  "\<not> context_is_good (states (k + n)) \<or> states (k + n) = ContextReady \<Longrightarrow> wait_context states k \<noteq> None"
proof (induction n arbitrary: k)
  case 0
  then show ?case by (subst wait_context.simps) auto
next
  case (Suc n)
  from Suc.IH [of "Suc k"] Suc.prems show ?case by (subst wait_context.simps) auto
qed

lemma wait_operation_Some: "wait_operation running k = Some n \<Longrightarrow> \<not> running n"
  by (rule wait_operation.raw_induct [where P = "\<lambda>running k n. \<not> running n"]) (auto split: if_splits)

lemma wait_operation_returns: "\<not> running (k + n) \<Longrightarrow> wait_operation running k \<noteq> None"
proof (induction n arbitrary: k)
  case 0
  then show ?case by (subst wait_operation.simps) auto
next
  case (Suc n)
  from Suc.IH [of "Suc k"] Suc.prems show ?case by (subst wait_operation.simps) auto
qed

text \<open>PulseAudio never settles the context, or it never finishes the operation.\<close>

definition context_hangs :: "pulse_env \<Rightarrow> bool" where
  "context_hangs env \<longleftrightarrow> (\<forall>k. context_is_good (pa_context_states env k) \<and> pa_context_states env k \<noteq> ContextReady)"

definition operation_hangs :: "pulse_env \<Rightarrow> bool" where
  "operation_hangs env \<longleftrightarrow> pa_operation_made env \<and> (\<forall>k. pa_operation_running env k) \<and>
     (\<exists>n. pa_context_states env n = ContextReady \<and> (\<forall>j < n. context_is_good (pa_context_states env j)))"

lemma wait_context_None: "wait_context (pa_context_states env) 0 = None \<longleftrightarrow> context_hangs env"
proof
  assume "wait_context (pa_context_states env) 0 = None"
  then show "context_hangs env"
    using wait_context_returns [where states = "pa_context_states env" and k = 0] unfolding context_hangs_def by auto
next
  assume h: "context_hangs env"
  show "wait_context (pa_context_states env) 0 = None"
  proof (rule ccontr)
    assume "wait_context (pa_context_states env) 0 \<noteq> None"
    then obtain y where "wait_context (pa_context_states env) 0 = Some y" by auto
    from wait_context_Some [OF this] h show False by (auto simp: context_waited_def context_hangs_def split: if_splits)
  qed
qed

lemma wait_operation_None: "wait_operation running 0 = None \<longleftrightarrow> (\<forall>k. running k)"
  using wait_operation_returns [where k = 0] wait_operation_Some by (metis add_0 option.exhaust)

lemma wait_context_ready:
  "wait_context (pa_context_states env) 0 = Some (True, n) \<Longrightarrow>
     \<exists>n. pa_context_states env n = ContextReady \<and> (\<forall>j < n. context_is_good (pa_context_states env j))"
  using wait_context_Some unfolding context_waited_def by fastforce

lemma wait_context_not_ready:
  assumes "wait_context (pa_context_states env) 0 = Some (False, m)"
  shows "\<not> (\<exists>n. pa_context_states env n = ContextReady \<and> (\<forall>j < n. context_is_good (pa_context_states env j)))"
proof
  assume "\<exists>n. pa_context_states env n = ContextReady \<and> (\<forall>j < n. context_is_good (pa_context_states env j))"
  then obtain n where n: "pa_context_states env n = ContextReady" "\<forall>j < n. context_is_good (pa_context_states env j)" by blast
  from wait_context_Some [OF assms] have m: "\<not> context_is_good (pa_context_states env m)"
    "\<forall>j < m. pa_context_states env j \<noteq> ContextReady" by (auto simp: context_waited_def)
  then have "\<not> m < n" "\<not> n < m" using n by auto
  with m(1) n(1) show False by (simp add: context_is_good_def)
qed

text \<open>C23: Switching the loudspeaker returns unless PulseAudio leaves it waiting forever, for the context or for the operation; whenever it
returns, on every path, success or error, all that was made is released, once, in the right order, and nothing is used
after its release.\<close>

theorem speakerphone_returns:
  "(toggleSpeakerphone env device enabled = None \<longleftrightarrow>
      pa_mainloop_made env \<and> pa_context_made env \<and> 0 \<le> pa_connect_result env \<and> (context_hangs env \<or> operation_hangs env)) \<and>
   (\<forall>calls. toggleSpeakerphone env device enabled = Some calls \<longrightarrow>
      pulse_live calls (False, False, False) = Some (False, False, False))"
proof (intro conjI allI impI)
  fix calls assume "toggleSpeakerphone env device enabled = Some calls"
  then show "pulse_live calls (False, False, False) = Some (False, False, False)" by (rule toggleSpeakerphone_released)
next
  show "toggleSpeakerphone env device enabled = None \<longleftrightarrow>
      pa_mainloop_made env \<and> pa_context_made env \<and> 0 \<le> pa_connect_result env \<and> (context_hangs env \<or> operation_hangs env)"
  proof (cases "wait_context (pa_context_states env) 0")
    case None
    then show ?thesis using wait_context_None [of env] by (auto simp: toggleSpeakerphone_def Let_def)
  next
    case (Some y)
    then have nh: "\<not> context_hangs env" using wait_context_None [of env] by simp
    obtain ready n where y: "y = (ready, n)" by fastforce
    show ?thesis
    proof (cases ready)
      case False
      with Some y have "\<not> operation_hangs env" using wait_context_not_ready [of env n] by (simp add: operation_hangs_def)
      with False nh Some y show ?thesis by (auto simp: toggleSpeakerphone_def Let_def)
    next
      case True
      then have "operation_hangs env \<longleftrightarrow> pa_operation_made env \<and> wait_operation (pa_operation_running env) 0 = None"
        using wait_context_ready [of env n] Some y by (auto simp: operation_hangs_def wait_operation_None)
      with True nh Some y show ?thesis by (auto simp: toggleSpeakerphone_def Let_def split: option.splits)
    qed
  qed
qed

definition sample_pulse :: pulse_env where
  "sample_pulse = \<lparr>pa_mainloop_made = True, pa_context_made = True, pa_connect_result = 0,
     pa_context_states = (\<lambda>n. if n = 0 then ContextConnecting else ContextReady), pa_operation_made = True,
     pa_operation_running = (\<lambda>n. n < 1)\<rparr>"

theorem speakerphone_returns_witness:
  "\<exists>calls. toggleSpeakerphone sample_pulse ''sink.primary'' True = Some calls \<and>
     pulse_live calls (False, False, False) = Some (False, False, False)"
proof -
  have "\<not> context_hangs sample_pulse" "\<not> operation_hangs sample_pulse"
    by (auto simp: context_hangs_def operation_hangs_def sample_pulse_def intro!: exI [of _ 1])
  with speakerphone_returns [of sample_pulse "''sink.primary''" True] show ?thesis by auto
qed

section \<open>Sound devices\<close>

text \<open>The preferred output device; and the input device does not depend on the input devices there are.\<close>

theorem output_device_preferred:
  "getOutputDeviceName outputs def =
     (if ''sink.deep_buffer'' \<in> set outputs then ''sink.deep_buffer''
      else if ''sink.primary'' \<in> set outputs then ''sink.primary'' else def)"
proof -
  have "outputDevice_loop p outputs def =
     (if ''sink.deep_buffer'' \<in> set outputs then ''sink.deep_buffer''
      else if p \<or> ''sink.primary'' \<in> set outputs then ''sink.primary'' else def)" for p
    by (induction p outputs def rule: outputDevice_loop.induct) auto
  then show ?thesis by (simp add: getOutputDeviceName_def)
qed

theorem input_device_missed:
  "''source.droid'' \<notin> set outputs \<Longrightarrow> getInputDeviceName outputs inputs def = def"
  unfolding getInputDeviceName_def by (induction outputs) auto

section \<open>Feedback\<close>

text \<open>C0: A sound that is stopped before the daemon has answered goes on: the stop sends nothing, and the answer makes the event
one that plays. Asked to play it twice before the first answer, the daemon plays it twice, and only the last one
can be stopped; one that was paused cannot be stopped either.\<close>

definition ngf_idle :: "string \<Rightarrow> 32 word set \<Rightarrow> ngf_state \<Rightarrow> bool" where
  "ngf_idle event ids s \<longleftrightarrow> event \<noteq> [] \<and> map_of (ngf_playing s) event = None \<and> qmap_ok (ngf_playing s) \<and>
     snd ` set (ngf_playing s) \<inter> ids = {} \<and> (\<forall>(c, e) \<in> set (ngf_pending s). c < ngf_calls s)"

lemma qmap_key_insert: "v \<notin> snd ` set xs \<Longrightarrow> qmap_key v (qmap_insert k v xs) = k"
  by (induction k v xs rule: qmap_insert.induct) auto

lemma idle_pending: "ngf_idle event ids s \<Longrightarrow> map_of (ngf_pending s) (ngf_calls s) = None \<and> map_of (ngf_pending s) (Suc (ngf_calls s)) = None"
  by (force simp: ngf_idle_def map_of_eq_None_iff)

lemma play_answered:
  assumes "ngf_idle event ids s"
  shows "ngf_answered (ngf_calls s) (Some a) (ngf_play event props s) =
    s\<lparr>ngf_playing := qmap_insert event a (ngf_playing s), ngf_calls := ngf_calls s + 1, ngf_outputs := ngf_outputs s @ [NgfPlay event props]\<rparr>"
proof -
  have "filter (\<lambda>(c, _). c \<noteq> ngf_calls s) (ngf_pending s) = ngf_pending s"
    using assms by (intro filter_True) (auto simp: ngf_idle_def)
  then show ?thesis
    using assms idle_pending [OF assms] by (simp add: ngf_idle_def ngf_play_def ngf_answered_def ngf_emit_def map_add_def)
qed



text \<open>Played twice before the first answer, an event plays twice, and only the last one is stopped.\<close>

theorem sound_plays_twice:
  assumes "ngf_idle event {} s"
  shows "ngf_outputs (ngf_stop event (ngf_answered (Suc (ngf_calls s)) (Some b) (ngf_answered (ngf_calls s) (Some a)
           (ngf_play event props (ngf_play event props s))))) =
    ngf_outputs s @ [NgfPlay event props, NgfPlay event props, NgfStop b]"
proof -
  have ok: "qmap_ok (ngf_playing s)" and none: "map_of (ngf_playing s) event = None" using assms by (auto simp: ngf_idle_def)
  have ok2: "sorted_wrt (<) (map fst (qmap_insert event a (ngf_playing s)))"
    using qmap_ok_insert [OF ok, of event a] by (simp only: qmap_ok_def)
  have old: "filter (\<lambda>(c, _). c \<noteq> ngf_calls s) (ngf_pending s) = ngf_pending s"
    using assms by (intro filter_True) (auto simp: ngf_idle_def)
  show ?thesis
    using none idle_pending [OF assms] old
    by (simp add: ngf_play_def ngf_answered_def ngf_stop_def ngf_emit_def map_add_def qmap_insert_map [OF ok2])
qed

end
