(* ===== verification/Adaptor.thy ===== *)
theory Adaptor imports Wrapper Calls Texts
begin

text \<open>
  What the desktop and QML ask for: \<open>DBusAdaptor\<close> (\<open>src/dbusadaptor\<close>), which the notifications call, the links and the
  position of \<open>src/utilities.cpp\<close>, and the settings of \<open>src/settings.h\<close>.
\<close>

section \<open>D-Bus\<close>

datatype adaptor_output =
  ActivateWindow
| DoOpenMessage int int vmap

record adaptor =
  ad_wrapper :: wrapper
  ad_calls :: calls_state
  ad_outputs :: "adaptor_output list"

definition ad_emit :: "adaptor_output \<Rightarrow> adaptor \<Rightarrow> adaptor" where
  "ad_emit out s = s\<lparr>ad_outputs := ad_outputs s @ [out]\<rparr>"

definition ad_do :: "(wrapper \<Rightarrow> wrapper) \<Rightarrow> adaptor \<Rightarrow> adaptor" where
  "ad_do f s = s\<lparr>ad_wrapper := f (ad_wrapper s)\<rparr>"

definition ad_openUrl :: "string list \<Rightarrow> adaptor \<Rightarrow> adaptor" where
  "ad_openUrl arguments s =
     (case arguments of
        [] \<Rightarrow> s
      | url # _ \<Rightarrow>
          if url \<noteq> [] then ad_do (wr_getInternalLinkTypeOf url False True) (ad_emit ActivateWindow s) else s)"

definition ad_openMessage :: "string \<Rightarrow> string \<Rightarrow> vmap \<Rightarrow> adaptor \<Rightarrow> adaptor" where
  "ad_openMessage chatId messageId topicId s =
     ad_emit (DoOpenMessage (string_toLongLong chatId) (string_toLongLong messageId) topicId) (ad_emit ActivateWindow s)"

definition ad_lastMessageId :: "int \<Rightarrow> adaptor \<Rightarrow> int" where
  "ad_lastMessageId chatId s =
     toLongLong (mvalue (toMap (mvalue (td_getChat chatId (wr_store (ad_wrapper s))) ''last_message'')) ''id'')"

definition ad_viewLastMessage :: "int \<Rightarrow> adaptor \<Rightarrow> adaptor" where
  "ad_viewLastMessage chatId s =
     (if ad_lastMessageId chatId s \<noteq> 0
      then ad_do (wr_viewMessage chatId (ad_lastMessageId chatId s) True MessageSourceNotification) s else s)"

definition ad_markMessageAsRead :: "string \<Rightarrow> string \<Rightarrow> vmap \<Rightarrow> adaptor \<Rightarrow> adaptor" where
  "ad_markMessageAsRead chatId messageId topicId = ad_viewLastMessage (string_toLongLong chatId)"

definition ad_replyToMessage :: "string \<Rightarrow> string \<Rightarrow> vmap \<Rightarrow> string \<Rightarrow> adaptor \<Rightarrow> adaptor" where
  "ad_replyToMessage chatIdString messageId topicId messageContent s =
     (let chatId = string_toLongLong chatIdString
      in ad_do (wr_sendTextMessage chatId messageContent (string_toLongLong messageId) topicId False (getMessageSendOptions True))
           (ad_viewLastMessage chatId s))"

definition ad_reactToMessage :: "string \<Rightarrow> string \<Rightarrow> vmap \<Rightarrow> adaptor \<Rightarrow> adaptor" where
  "ad_reactToMessage chatId messageId topicId s =
     ad_do (wr_addMessageReaction (string_toLongLong chatId) (string_toLongLong messageId)
              (td_defaultReactionType (wr_store (ad_wrapper s))) False False) s"

definition ad_closeSecretChat :: "string \<Rightarrow> adaptor \<Rightarrow> adaptor" where
  "ad_closeSecretChat chatId s =
     (case td_chat (wr_store (ad_wrapper s)) (string_toLongLong chatId) of
        None \<Rightarrow> s
      | Some chat \<Rightarrow>
          if chatType chat = ChatTypeSecret
          then ad_do (wr_closeSecretChat (toInt (mvalue (toMap (mvalue (chatData chat) ''type'')) ''secret_chat_id''))) s
          else s)"

definition ad_acceptCall :: "call_env \<Rightarrow> int \<Rightarrow> adaptor \<Rightarrow> adaptor" where
  "ad_acceptCall env callId s = s\<lparr>ad_calls := cm_acceptCall env callId (ad_calls s)\<rparr>"

definition ad_discardCall :: "int \<Rightarrow> adaptor \<Rightarrow> adaptor" where
  "ad_discardCall callId s = s\<lparr>ad_calls := cm_discardCall callId (ad_calls s)\<rparr>"

text \<open>
  The registration of the program on the session bus (\<open>src/mainhelper.cpp\<close>). What the bus answers is an argument, once for
  the start and once for the end. The result is what was called, and whether the end of the program is handled.
\<close>

datatype bus_call = RegisterObject string | RegisterService string | UnregisterService string | UnregisterObject string

record bus_answers =
  bus_connected :: bool
  bus_object :: bool
  bus_service :: bool

definition registerDBusService :: "bus_answers \<Rightarrow> string \<Rightarrow> string \<Rightarrow> bus_call list \<times> bool" where
  "registerDBusService bus serviceName path =
     (let object = (if path \<noteq> [] then [RegisterObject path] else []) in
      if \<not> bus_connected bus then ([], False)
      else if path \<noteq> [] \<and> \<not> bus_object bus then (object, False)
      else (object @ [RegisterService serviceName], bus_service bus))"

definition dbusAboutToQuit :: "bus_answers \<Rightarrow> string \<Rightarrow> string \<Rightarrow> bus_call list" where
  "dbusAboutToQuit bus serviceName path =
     (if \<not> bus_connected bus then []
      else if \<not> bus_service bus then [UnregisterService serviceName]
      else UnregisterService serviceName # (if path \<noteq> [] then [UnregisterObject path] else []))"

text \<open>If the name cannot be registered, the object stays registered, and the end of the program does not remove it.\<close>

theorem object_stays_registered:
  "path \<noteq> [] \<Longrightarrow> bus_connected bus \<Longrightarrow> bus_object bus \<Longrightarrow> \<not> bus_service bus \<Longrightarrow>
     registerDBusService bus serviceName path = ([RegisterObject path, RegisterService serviceName], False)"
  by (simp add: registerDBusService_def)

section \<open>Links\<close>

text \<open>What \<open>FormattedText::handleLink\<close> asks the wrapper for; it never asks for stickers.\<close>

definition wr_textRequest :: "text_request \<Rightarrow> wrapper \<Rightarrow> wrapper" where
  "wr_textRequest r s =
     (case r of
        SearchPublicChatOpenDirectly name \<Rightarrow> wr_searchPublicChatOpenDirectly name s
      | CreatePrivateChat userId \<Rightarrow> wr_createPrivateChat userId (QString ''openDirectly'') s
      | SearchHashtag tag cashtag \<Rightarrow> wr_signal ''searchHashtag'' [QString tag, QBool cashtag] s
      | GetInternalLinkType link skipConfirmation checkExternalOnError \<Rightarrow>
          wr_getInternalLinkTypeOf link skipConfirmation checkExternalOnError s
      | GetCustomEmojiStickers ids \<Rightarrow> s)"

definition ut_handleLink :: "string \<Rightarrow> bool \<Rightarrow> bool \<Rightarrow> wrapper \<Rightarrow> wrapper" where
  "ut_handleLink link skipConfirmation checkExternalOnError =
     wr_textRequest (handleLink link skipConfirmation checkExternalOnError)"

definition ut_handleLinkInChat :: "string \<Rightarrow> int \<Rightarrow> vmap \<Rightarrow> bool \<Rightarrow> bool \<Rightarrow> wrapper \<Rightarrow> wrapper" where
  "ut_handleLinkInChat link botCommandChatId botCommandTopicId skipConfirmation checkExternalOnError =
     (if startsWith link ''botCommand://''
      then wr_sendTextMessage botCommandChatId (drop 13 link) 0 botCommandTopicId False fmempty
      else ut_handleLink link skipConfirmation checkExternalOnError)"

section \<open>Position\<close>

text \<open>
  Coordinates are of any type \<open>'d\<close>; \<open>print\<close> is \<open>QString::number\<close>. The source of positions exists or does not. A reply of
  the network is an error, a document that is not an object, or an object.
\<close>

datatype 'd geo_value = GeoInt int | GeoDouble 'd

datatype 'd geo_output =
  GeoSetUpdateInterval int
| GeoStartUpdates
| GeoStopUpdates
| GeoGet string "(string \<times> string) list" "(string \<times> string) list"
| NewPositionInformation "(string \<times> 'd geo_value) list"
| NewGeocodedAddress string

record 'd geo_info =
  gi_horizontalAccuracy :: "'d option"
  gi_verticalAccuracy :: "'d option"
  gi_latitude :: 'd
  gi_longitude :: 'd

record 'd geo_state =
  geo_source :: bool
  geo_outputs :: "'d geo_output list"

definition geo_emit :: "'d geo_output \<Rightarrow> 'd geo_state \<Rightarrow> 'd geo_state" where
  "geo_emit out s = s\<lparr>geo_outputs := geo_outputs s @ [out]\<rparr>"

definition geo_new :: "bool \<Rightarrow> 'd geo_state" where
  "geo_new source = \<lparr>geo_source = source, geo_outputs = (if source then [GeoSetUpdateInterval 5000] else [])\<rparr>"

definition startGeoLocationUpdates :: "'d geo_state \<Rightarrow> 'd geo_state" where
  "startGeoLocationUpdates s = (if geo_source s then geo_emit GeoStartUpdates s else s)"

definition stopGeoLocationUpdates :: "'d geo_state \<Rightarrow> 'd geo_state" where
  "stopGeoLocationUpdates s = (if geo_source s then geo_emit GeoStopUpdates s else s)"

definition initiateReverseGeocode :: "('d \<Rightarrow> string) \<Rightarrow> 'd \<Rightarrow> 'd \<Rightarrow> 'd geo_state \<Rightarrow> 'd geo_state" where
  "initiateReverseGeocode print latitude longitude =
     geo_emit (GeoGet ''https://nominatim.openstreetmap.org/reverse''
       [(''lat'', print latitude), (''lon'', print longitude), (''format'', ''json'')]
       [(''User-Agent'', ''yaqtlib (Qt)''), (''Accept'', ''application/json''), (''Accept-Charset'', ''utf-8''),
        (''Connection'', ''close''), (''Cache-Control'', ''max-age=0'')])"

definition handleGeoPositionUpdated :: "('d \<Rightarrow> string) \<Rightarrow> 'd geo_info \<Rightarrow> 'd geo_state \<Rightarrow> 'd geo_state" where
  "handleGeoPositionUpdated print info s =
     (let accuracy = (\<lambda>a. case a of None \<Rightarrow> GeoInt 0 | Some d \<Rightarrow> GeoDouble d)
      in geo_emit (NewPositionInformation
           [(''horizontalAccuracy'', accuracy (gi_horizontalAccuracy info)), (''verticalAccuracy'', accuracy (gi_verticalAccuracy info)),
            (''latitude'', GeoDouble (gi_latitude info)), (''longitude'', GeoDouble (gi_longitude info))])
         (initiateReverseGeocode print (gi_latitude info) (gi_longitude info) s))"

datatype geo_reply = GeoError | GeoNoObject | GeoObject vmap

definition handleReverseGeocodeFinished :: "geo_reply \<Rightarrow> 'd geo_state \<Rightarrow> 'd geo_state" where
  "handleReverseGeocodeFinished reply s =
     (case reply of
        GeoObject response \<Rightarrow> geo_emit (NewGeocodedAddress (toString (mvalue response ''display_name''))) s
      | _ \<Rightarrow> s)"

section \<open>Settings\<close>

text \<open>
  The macro makes a getter, a setter and a signal for each setting. \<open>settings_get\<close> and \<open>settings_set\<close> are the templates behind
  them: \<open>conv\<close> reads the type of the setting out of a variant and \<open>wrap\<close> makes a variant of it.
\<close>

record settings_state =
  st_values :: "string \<rightharpoonup> qvariant"
  st_changed :: "string list"

definition settings_get :: "(qvariant \<Rightarrow> 'v) \<Rightarrow> string \<Rightarrow> qvariant \<Rightarrow> settings_state \<Rightarrow> 'v" where
  "settings_get conv key def s = conv (case st_values s key of None \<Rightarrow> def | Some v \<Rightarrow> v)"

definition settings_set :: "(qvariant \<Rightarrow> 'v) \<Rightarrow> ('v \<Rightarrow> qvariant) \<Rightarrow> string \<Rightarrow> 'v \<Rightarrow> qvariant \<Rightarrow> settings_state \<Rightarrow> settings_state" where
  "settings_set conv wrap key value def s =
     (if settings_get conv key def s \<noteq> value
      then s\<lparr>st_values := (st_values s)(key \<mapsto> wrap value), st_changed := st_changed s @ [key]\<rparr> else s)"

text \<open>The settings that are flags and those that are numbers or enumerations, with their defaults.\<close>

definition flagSettings :: "(string \<times> qvariant) list" where
  "flagSettings =
     [(''notificationTurnsDisplayOn'', QInvalid), (''notificationSoundsEnabled'', QBool True),
      (''notificationAlwaysDefaultSound'', QInvalid), (''notificationSuppressContent'', QInvalid),
      (''notificationShowDefaultReaction'', QInvalid), (''inChatNgf'', QBool True), (''storageOptimizer'', QBool True),
      (''onlineOnlyMode'', QInvalid), (''sendMarkdown'', QBool True), (''unreadCountIncludeMuted'', QInvalid),
      (''foldersUnreadCountIncludeMuted'', QBool True), (''saveCallLogs'', QInvalid)]"

definition numberSettings :: "(string \<times> qvariant) list" where
  "numberSettings =
     [(''notificationFeedback'', QInt 2), (''tdLogVerbosity'', QInt 2), (''logStream'', QInt 0), (''sponsoredMess'', QInt 0),
      (''sponsoredMessagesMessagesBetween'', QInvalid), (''sponsoredChats'', QInt 0)]"

definition flag_get :: "string \<Rightarrow> settings_state \<Rightarrow> bool" where
  "flag_get key s = settings_get toBool key (case map_of flagSettings key of None \<Rightarrow> QInvalid | Some d \<Rightarrow> d) s"

definition flag_set :: "string \<Rightarrow> bool \<Rightarrow> settings_state \<Rightarrow> settings_state" where
  "flag_set key value s = settings_set toBool QBool key value (case map_of flagSettings key of None \<Rightarrow> QInvalid | Some d \<Rightarrow> d) s"

definition number_get :: "string \<Rightarrow> settings_state \<Rightarrow> int" where
  "number_get key s = settings_get toInt key (case map_of numberSettings key of None \<Rightarrow> QInvalid | Some d \<Rightarrow> d) s"

definition number_set :: "string \<Rightarrow> int \<Rightarrow> settings_state \<Rightarrow> settings_state" where
  "number_set key value s = settings_set toInt QInt key value (case map_of numberSettings key of None \<Rightarrow> QInvalid | Some d \<Rightarrow> d) s"

section \<open>A setting reads as it was set\<close>

locale setting_type =
  fixes conv :: "qvariant \<Rightarrow> 'v" and wrap :: "'v \<Rightarrow> qvariant" and fits :: "'v \<Rightarrow> bool"
  assumes conv_wrap: "fits v \<Longrightarrow> conv (wrap v) = v"
begin

lemma reads_back: "fits v \<Longrightarrow> settings_get conv key def (settings_set conv wrap key v def s) = v"
  by (simp add: settings_set_def settings_get_def conv_wrap)

lemma others_keep:
  "key' \<noteq> key \<Longrightarrow> settings_get conv' key' def' (settings_set conv wrap key v def s) = settings_get conv' key' def' s"
  by (simp add: settings_set_def settings_get_def)

lemma changed_once:
  "st_changed (settings_set conv wrap key v def s) =
     (if settings_get conv key def s = v then st_changed s else st_changed s @ [key])"
  by (simp add: settings_set_def)

lemma set_twice:
  "fits v \<Longrightarrow> settings_set conv wrap key v def (settings_set conv wrap key v def s) = settings_set conv wrap key v def s"
  using reads_back [of v key def s] by (simp add: settings_set_def)

end

interpretation flag: setting_type toBool QBool "\<lambda>_. True"
  by unfold_locales simp

interpretation number: setting_type toInt QInt "\<lambda>i. - (2 ^ 31) \<le> i \<and> i < 2 ^ 31"
  by unfold_locales (rule toInt_small, simp_all)

text \<open>C40: A setting reads as it was set, whether it was stored before or had its default; the other settings stay; its signal is
emitted exactly if the value changed, and setting the value again does nothing.\<close>

theorem setting_reads_back:
  assumes "- (2 ^ 31) \<le> n \<and> n < 2 ^ 31"
  shows "flag_get k (flag_set k b s) = b \<and> number_get j (number_set j n s) = n \<and>
    (k' \<noteq> k \<longrightarrow> flag_get k' (flag_set k b s) = flag_get k' s) \<and> (j \<noteq> k \<longrightarrow> number_get j (flag_set k b s) = number_get j s) \<and>
    st_changed (flag_set k b s) = (if flag_get k s = b then st_changed s else st_changed s @ [k]) \<and>
    st_changed (number_set j n s) = (if number_get j s = n then st_changed s else st_changed s @ [j]) \<and>
    flag_set k b (flag_set k b s) = flag_set k b s \<and> number_set j n (number_set j n s) = number_set j n s"
  unfolding flag_get_def flag_set_def number_get_def number_set_def
  by (intro conjI impI flag.reads_back number.reads_back flag.others_keep flag.changed_once number.changed_once
      flag.set_twice number.set_twice TrueI assms) assumption

theorem setting_reads_back_witness:
  "flag_get ''sendMarkdown'' (flag_set ''sendMarkdown'' False \<lparr>st_values = Map.empty, st_changed = []\<rparr>) = False \<and>
   number_get ''tdLogVerbosity'' (number_set ''tdLogVerbosity'' 5 \<lparr>st_values = Map.empty, st_changed = []\<rparr>) = 5"
  using setting_reads_back [of 5 "''sendMarkdown''" False "\<lparr>st_values = Map.empty, st_changed = []\<rparr>" "''tdLogVerbosity''"] by simp

end
