(* ===== verification/Spec2Isabelle.thy ===== *)
theory Spec2Isabelle imports MessageProperties ChatProperties ServiceProperties PhoneProperties FolderProperties
  WaveformProperties WrapperStates RequestProperties Suggestions Stickers WebProxies
  UserPictures ForumMessages ChatManagerProperties ChatPhotos TextProperties FilterProperties UserProperties
  PlatformProperties Adaptor
begin

text \<open>
  A model of \<open>yaqtlib\<close>, the Qt library under a Telegram client: it keeps what TDLib tells, shows it as list
  models to QML, and sends what the user does as requests.

  \<^bold>\<open>How the parts work together.\<close> TDLib hands over JSON documents. \<open>TDLibReceiver\<close>, a thread, turns each into signals:
  a table by the type of the document names the handler, but a document that carries the number of a request goes to
  the \<open>TDLibResponse\<close> that waits for it. \<open>TDLibData\<close> takes the signals about chats, users and groups into its store and
  tells the list models; \<open>TDLibWrapper\<close> takes the answers, sorts them by what the request was sent with (the field
  \<open>@extra\<close>) and signals them on. The models (messages of a chat, lists of chats, folders, topics) keep rows, a hash
  from ids to rows, and tell their views every insertion, removal, move and change. \<open>CallsManager\<close> and
  \<open>NotificationManager\<close> follow calls and notifications.

  \<^bold>\<open>Which theory models what\<close> (sources under \<open>src/src\<close>):
    \<^item> \<open>YaqtPrelude\<close>: \<open>QVariant\<close>, \<open>QVariantMap\<close> and their conversions, \<open>QList\<close> operations with what they do out of
      range, printing and parsing numbers, \<open>std::sort\<close>; the collections of hints.
    \<^item> \<open>RowModel\<close>, \<open>OrderedRows\<close>: what a view sees of a list model (\<open>row_event\<close>, \<open>run_events\<close>), the hash of rows, rows in
      order; the locales \<open>row_index\<close> and \<open>ordered_rows\<close>, interpreted for the lists of messages, chats and topics.
    \<^item> \<open>UtilitiesModel\<close> (\<open>utilities.cpp\<close>, \<open>tdlib/messagesender.h\<close>): photo sizes, albums, replacements in a text.
    \<^item> \<open>MessageData\<close>, \<open>MessagesModel\<close>, \<open>MessageListContract\<close>, \<open>JumpableMessages\<close>, \<open>ReadableMessages\<close>, \<open>MediaMessages\<close>,
      \<open>ChatMessages\<close> (\<open>chat/messagedata\<close>, \<open>chat/messagesmodel\<close>, \<open>chat/jumpablemessagesmodel\<close>, \<open>chat/readablemessagesmodel\<close>,
      \<open>chat/mediamessagesmodel\<close>, \<open>chat/invertedmediamessagesmodel\<close>, \<open>ChatMessagesModel\<close> of \<open>chat/chatmanager\<close>): a message, and the
      class hierarchy of message lists. A virtual function is an argument of what calls it; the contract of the
      virtual functions is the locale of \<open>MessageListContract\<close>, interpreted by the classes.
    \<^item> \<open>ChatDataModel\<close>, \<open>ChatList\<close>, \<open>ChatFolders\<close>, \<open>ForumTopics\<close> (\<open>chatdata\<close>, \<open>basemessageabledata\<close>, \<open>chatlistmodel\<close>,
      \<open>folderchatlistmodel\<close>, \<open>chatfoldersmodel\<close>, \<open>chat/forumtopic\<close>, \<open>chat/forumtopicsmodel\<close>): chats, lists of chats, tabs, topics.
    \<^item> \<open>ForumMessages\<close>, \<open>ChatPhotos\<close>, \<open>ChatManager\<close> (\<open>chat/forumtopicmessagesmodel\<close>, \<open>chat/chatphotosmodel\<close>,
      \<open>chat/chatmanager\<close>): the messages of a topic, the photos of a group, and the chat that is shown, which owns the
      models. \<open>UserPictures\<close> (\<open>userprofilepicturesmodel\<close>): the pictures of a user.
    \<^item> \<open>TdData\<close> (\<open>tdlib/tdlibdata\<close>): the store. \<open>TdFile\<close> (\<open>tdlib/tdlibfile\<close>): a file with its queue of signals.
      \<open>FormattedText\<close> (\<open>formattedtext\<close>): rich texts, links, spoilers.
    \<^item> \<open>Bytes\<close>, \<open>Waveform\<close> (\<open>waveformmanager\<close>): base64 and the bars of voice messages.
    \<^item> \<open>Calls\<close>, \<open>Notifications\<close>, \<open>Phone\<close> (\<open>callsmanager\<close>, \<open>notificationmanager\<close>, the call state of \<open>mceinterface\<close>): calls,
      notifications, and both together.
    \<^item> \<open>Receiver\<close> (\<open>tdlib/tdlibreceiver\<close>): one definition for each handler, named as in the code, the tables of handlers,
      the cleaning of documents (\<open>cleanupMap\<close>), the loop of the thread.
    \<^item> \<open>Requests\<close> (\<open>tdlib/tdlibwrapper\<close>): one definition \<open>wr_f\<close> for each function \<open>f\<close> that sends a request, with the map
      it sends. \<open>Wrapper\<close> (\<open>tdlib/tdlibwrapper.cpp\<close>, \<open>tdlib/tdlibresponse\<close>): the handlers of the receiver's signals,
      authorization, links, requests with a number, settings. The state is the record \<open>wrapper\<close>; what was sent to TDLib
      and signalled is its field \<open>wr_outputs\<close>, in order. \<open>wr_document\<close> takes a document through receiver, store and wrapper.
    \<^item> \<open>Suggestions\<close>, \<open>Stickers\<close>, \<open>WebProxies\<close> (\<open>suggestedactionsmanager\<close>, \<open>stickermanager\<close>, \<open>webproxymanager\<close>).
    \<^item> \<open>Texts\<close>, \<open>MessageText\<close> (\<open>utilities.cpp\<close>, \<open>FormattedText::argFrom\<close>): the texts made for the user, of names, durations,
      actions, calls, service messages, and previews. A translation is a parameter.
    \<^item> \<open>Filters\<close> (\<open>textfiltermodel\<close>, \<open>boolfiltermodel\<close>, \<open>chatpermissionfiltermodel\<close>), \<open>Users\<close> (\<open>usersmodel\<close>, \<open>contactsmodel\<close>,
      \<open>knownusersmodel\<close>): the proxies over lists, and the lists of users. What the proxy of Qt does is a function from the
      rows of the source to those that are shown. \<open>SortedMaps\<close>: \<open>QMap\<close>, where its order is seen.
    \<^item> \<open>Platform\<close> (\<open>ngfinterface\<close>, \<open>mceinterface\<close>, \<open>callaudio\<close>), \<open>Adaptor\<close> (\<open>dbusadaptor\<close>, \<open>settings.h\<close>, links and position of
      \<open>utilities.cpp\<close>, the registration on D-Bus of \<open>mainhelper.cpp\<close>): what goes to the phone and comes from the desktop. The
      two kinds of settings are interpretations of the locale \<open>setting_type\<close>.

  \<^bold>\<open>What the lemmas show.\<close> \<open>MessageProperties\<close>: lists of messages stay in order with a right hash, deletions and
  insertions do exactly what they are told, and the views, replaying their events, see the rows. \<open>ChatProperties\<close>: the list
  of chats refines a finite map of positions, topics keep their order, the store knows the groups of its chats.
  \<open>ServiceProperties\<close>: rich texts are the escaped text with its tags, files announce what changed and hold off requests.
  \<open>PhoneProperties\<close>: calls and notifications refine the set of incoming calls. \<open>FolderProperties\<close>: the tabs follow the
  folders. \<open>ChatManagerProperties\<close>: the model that is shown follows the store and the chat; the order of the calls that
  set it up. The theories of the other models hold their properties: histories are asked for once, pictures keep their hash. \<open>WaveformProperties\<close>: encoding and decoding. \<open>ReceiverProperties\<close>: cleaning changes nothing else, documents keep
  the store consistent, numbers of requests come back. \<open>WrapperProperties\<close>, \<open>WrapperStates\<close>, \<open>RequestProperties\<close>: answers find
  what they answer, each request with a number is finished once, a client follows the other, mentions are marked.
  \<open>TextProperties\<close>: durations read back, previews keep the entities of a caption in place, every service message has a text.
  \<open>FilterProperties\<close>: a filter shows what its settings ask for, rows are mapped to the nearest, the filter by permissions
  decides by the groups of the store. \<open>UserProperties\<close>: the contacts that are shown are those of the store, and when they
  are sorted. \<open>PlatformProperties\<close>: switching the loudspeaker releases what it made.

  \<^bold>\<open>Bounds.\<close> Numbers are \<open>int\<close> where the code's \<open>qlonglong\<close> and \<open>int\<close> only carry them; reading them from texts and
  JSON checks their width (\<open>in_int64\<close>, \<open>toInt\<close>), the queue of \<open>TDLibFile\<close> is a \<open>32 word\<close>, bytes are \<open>8 word\<close>, and ports
  are reduced to 16 bits. Nothing runs on fuel: recursion over a document is measured by its size (\<open>cleanupMap\<close>), over a text
  by its length (\<open>mentions\<close>); the search without a bound for the name of a log file is a \<open>partial_function\<close> that is
  proved to end when there are finitely many files; the loops that wait for PulseAudio are too, and end exactly when
  an answer comes.

  \<^bold>\<open>Errors.\<close> An operation that reads a list out of range in the code is \<open>None\<close>; where that can happen, a property says when.

  \<^bold>\<open>Not modelled.\<close> TDLib, tgcalls and the platform (D-Bus, audio, drawing, files) are parameters
  or outside. The proxies, maps and settings of Qt are modelled as far as the code uses them. Of
  \<open>mainhelper.cpp\<close> only the registration on D-Bus is modelled; the registration of types with QML,
  conversions for QML and the loading of translations are left out. Signal connections appear as the order in which
  one component's events become another's operations; slots that call back into an emitting object are not followed.
  The headers of TDLib and tg_owt are third-party code.
\<close>

end
